(* ===== verification/Prelude.thy ===== *)
theory Prelude
  imports Main "HOL-Library.Word" "HOL-Library.Monad_Syntax"
begin

text \<open>
  Shared vocabulary of the development: the C integer types, blocks of memory with checked
  reads and writes, the parts of the C library the sources call (\<open>snprintf\<close>, \<open>strlen\<close>,
  \<open>atoi\<close>, \<open>htons\<close> and \<open>htonl\<close>), bit flags, and the lemmas on them that the
  component theories use.

  A value of type \<open>'a option\<close> that an operation returns is the outcome of a run of C code:
  \<open>None\<close> is undefined behaviour (a read or a write outside its block of memory, a
  \<open>strlen\<close> that finds no terminator), \<open>Some\<close> is a normal return. The C error codes are
  part of the value in \<open>Some\<close>, never \<open>None\<close>.
\<close>

unbundle bit_operations_syntax

section \<open>Integer types and automation\<close>

type_synonym u8 = "8 word"
type_synonym u16 = "16 word"
type_synonym u32 = "32 word"
type_synonym u64 = "64 word"
type_synonym bytes = "u8 list"

named_theorems mem_simps \<open>equations for reads and writes that stay inside their block\<close>
named_theorems len_simps \<open>lengths of encoded values\<close>

text \<open>
  Sizes and offsets (\<open>u_int32_t\<close>, \<open>u_int16_t\<close>) are natural numbers, and every place where
  the source can wrap applies one of these.
\<close>

definition c_u32 :: "nat \<Rightarrow> nat" where
  "c_u32 n = n mod 2 ^ 32"

definition c_u16 :: "nat \<Rightarrow> nat" where
  "c_u16 n = n mod 2 ^ 16"

definition sub32 :: "nat \<Rightarrow> nat \<Rightarrow> nat" where
  "sub32 a b = (a + (2 ^ 32 - b)) mod 2 ^ 32"

lemma c_u32_id [simp]: "n < 4294967296 \<Longrightarrow> c_u32 n = n"
  by (simp add: c_u32_def)

lemma c_u16_id [simp]: "n < 65536 \<Longrightarrow> c_u16 n = n"
  by (simp add: c_u16_def)

lemma sub32_id [simp]: "b \<le> a \<Longrightarrow> a < 4294967296 \<Longrightarrow> sub32 a b = a - b"
proof -
  assume le: "b \<le> a" and lt: "a < 4294967296"
  then have "a + (2 ^ 32 - b) = (a - b) + 2 ^ 32" by simp
  then have "sub32 a b = ((a - b) + 2 ^ 32) mod 2 ^ 32" by (simp only: sub32_def)
  then show "sub32 a b = a - b" using lt by simp
qed

lemma sub32_underflow: "a < b \<Longrightarrow> b < 4294967296 \<Longrightarrow> sub32 a b = 4294967296 + a - b"
  by (simp add: sub32_def)

section \<open>Blocks of memory\<close>

text \<open>
  A block is the list of its bytes. \<open>peek\<close> reads one byte, \<open>poke\<close> writes a run of bytes
  (an assignment through a pointer, \<open>memcpy\<close>); both are undefined outside the block.
\<close>

definition peek :: "bytes \<Rightarrow> nat \<Rightarrow> u8 option" where
  "peek m i = (if i < length m then Some (m ! i) else None)"

definition peek_run :: "bytes \<Rightarrow> nat \<Rightarrow> nat \<Rightarrow> bytes option" where
  "peek_run m i n = (if i + n \<le> length m then Some (take n (drop i m)) else None)"

definition poke :: "bytes \<Rightarrow> nat \<Rightarrow> bytes \<Rightarrow> bytes option" where
  "poke m i bs =
     (if i + length bs \<le> length m then Some (take i m @ bs @ drop (i + length bs) m) else None)"

lemma peek_in [mem_simps]: "i < length m \<Longrightarrow> peek m i = Some (m ! i)"
  by (simp add: peek_def)

lemma peek_append: "peek (xs @ y # ys) (length xs) = Some y"
  by (simp add: peek_def nth_append)

lemma poke_in [mem_simps]:
  "i + length bs \<le> length m \<Longrightarrow> poke m i bs = Some (take i m @ bs @ drop (i + length bs) m)"
  by (simp add: poke_def)

lemma poke_length: "poke m i bs = Some m' \<Longrightarrow> length m' = length m"
  by (auto simp: poke_def split: if_splits)

text \<open>
  \<open>snprintf\<close> with the text its format produces: at most \<open>n - 1\<close> characters and a terminating
  zero are written, nothing when \<open>n\<close> is 0; the value returned is the length of the whole
  text, whether or not it fitted.
\<close>

definition snprintf_at :: "bytes \<Rightarrow> nat \<Rightarrow> nat \<Rightarrow> bytes \<Rightarrow> bytes option" where
  "snprintf_at m i n t = (if n = 0 then Some m else poke m i (take (n - 1) t @ [0]))"

text \<open>A C string is read from its first byte to the first zero byte of its block.\<close>

fun c_strlen :: "bytes \<Rightarrow> nat option" where
  "c_strlen [] = None"
| "c_strlen (b # bs) = (if b = 0 then Some 0 else map_option Suc (c_strlen bs))"

definition cstr :: "bytes \<Rightarrow> bytes" where
  "cstr bs = bs @ [0]"

lemma c_strlen_append: "0 \<notin> set bs \<Longrightarrow> c_strlen (bs @ 0 # r) = Some (length bs)"
  by (induction bs) auto

lemma c_strlen_cstr [simp]: "0 \<notin> set bs \<Longrightarrow> c_strlen (cstr bs) = Some (length bs)"
  by (simp add: cstr_def c_strlen_append)

lemma c_strlen_less: "c_strlen bs = Some n \<Longrightarrow> n < length bs"
  by (induction bs arbitrary: n) (auto split: if_splits)

lemma length_cstr [simp]: "length (cstr bs) = Suc (length bs)"
  by (simp add: cstr_def)

lemma take_cstr [simp]: "n \<le> length bs \<Longrightarrow> take n (cstr bs) = take n bs"
  by (simp add: cstr_def)

definition str :: "string \<Rightarrow> bytes" where
  "str s = map (\<lambda>c. word_of_nat (of_char c)) s"

lemma length_str [simp]: "length (str s) = length s"
  by (simp add: str_def)

section \<open>Byte order\<close>

text \<open>The bytes in memory of a value after \<open>htons\<close> or \<open>htonl\<close>, and the reads that undo them.\<close>

definition be16 :: "u16 \<Rightarrow> bytes" where
  "be16 w = [ucast (drop_bit 8 w), ucast w]"

definition be32 :: "u32 \<Rightarrow> bytes" where
  "be32 w = [ucast (drop_bit 24 w), ucast (drop_bit 16 w), ucast (drop_bit 8 w), ucast w]"

definition le32 :: "u32 \<Rightarrow> bytes" where
  "le32 w = [ucast w, ucast (drop_bit 8 w), ucast (drop_bit 16 w), ucast (drop_bit 24 w)]"

fun of_be16 :: "bytes \<Rightarrow> u16" where
  "of_be16 [a, b] = push_bit 8 (ucast a) OR ucast b"
| "of_be16 _ = 0"

fun of_be32 :: "bytes \<Rightarrow> u32" where
  "of_be32 [a, b, c, d] =
     push_bit 24 (ucast a) OR push_bit 16 (ucast b) OR push_bit 8 (ucast c) OR ucast d"
| "of_be32 _ = 0"

fun of_le32 :: "bytes \<Rightarrow> u32" where
  "of_le32 [a, b, c, d] =
     push_bit 24 (ucast d) OR push_bit 16 (ucast c) OR push_bit 8 (ucast b) OR ucast a"
| "of_le32 _ = 0"

lemma length_be [simp, len_simps]:
  "length (be16 w) = 2" "length (be32 v) = 4" "length (le32 v) = 4"
  by (simp_all add: be16_def be32_def le32_def)

lemma of_be16_be16 [simp]: "of_be16 (be16 w) = w"
  unfolding be16_def of_be16.simps by (rule bit_word_eqI) (auto simp: bit_simps)

lemma bytes_of_word32:
  "(push_bit 24 (ucast (ucast (drop_bit 24 w) :: u8)) OR push_bit 16 (ucast (ucast (drop_bit 16 w) :: u8))
    OR push_bit 8 (ucast (ucast (drop_bit 8 w) :: u8)) OR ucast (ucast w :: u8)) = (w :: u32)"
  (is "?l = w")
proof (rule bit_word_eqI)
  fix n assume "n < LENGTH(32)"
  then consider "n < 8" | "8 \<le> n" "n < 16" | "16 \<le> n" "n < 24" | "24 \<le> n" "n < 32" by fastforce
  then show "bit ?l n = bit w n"
    by cases (auto simp: bit_simps)
qed

lemma of_be32_be32 [simp]: "of_be32 (be32 w) = w"
  by (simp only: be32_def of_be32.simps bytes_of_word32)

lemma of_le32_le32 [simp]: "of_le32 (le32 w) = w"
  by (simp only: le32_def of_le32.simps bytes_of_word32)

section \<open>Decimal text\<close>

text \<open>What \<open>%u\<close>, \<open>%llu\<close>, \<open>%d\<close> and \<open>%lld\<close> print.\<close>

fun show_nat :: "nat \<Rightarrow> bytes" where
  "show_nat n = (if n < 10 then [word_of_nat (48 + n)]
                 else show_nat (n div 10) @ [word_of_nat (48 + n mod 10)])"

declare show_nat.simps [simp del]

definition show_int :: "int \<Rightarrow> bytes" where
  "show_int i = (if i < 0 then 45 # show_nat (nat (- i)) else show_nat (nat i))"

lemma show_nat_nonempty [simp]: "show_nat n \<noteq> []"
  by (subst show_nat.simps) simp

lemma length_show_nat: "0 < k \<Longrightarrow> n < 10 ^ k \<Longrightarrow> length (show_nat n) \<le> k"
proof (induction k arbitrary: n)
  case (Suc k)
  show ?case
  proof (cases "n < 10")
    case False
    with Suc.prems have "0 < k" by (cases k) auto
    moreover have "n div 10 < 10 ^ k"
      using Suc.prems by (simp add: less_mult_imp_div_less mult.commute)
    ultimately show ?thesis using Suc.IH False by (subst show_nat.simps) simp
  qed (subst show_nat.simps, simp)
qed simp

lemma length_show_u32 [len_simps]: "length (show_nat (unat (v :: u32))) \<le> 10"
proof (rule length_show_nat)
  have "unat v < 2 ^ LENGTH(32)" by (rule unsigned_less)
  then show "unat v < 10 ^ 10" by simp
qed simp

lemma length_show_u64 [len_simps]: "length (show_nat (unat (v :: u64))) \<le> 20"
proof (rule length_show_nat)
  have "unat v < 2 ^ LENGTH(64)" by (rule unsigned_less)
  then show "unat v < 10 ^ 20" by simp
qed simp

lemma length_show_i32 [len_simps]: "length (show_int (sint (v :: u32))) \<le> 11"
proof -
  have "- (2 ^ 31) \<le> sint v" "sint v < 2 ^ 31"
    using sint_greater_eq [of v] sint_less [of v] by simp_all
  then have "nat \<bar>sint v\<bar> < 10 ^ 10" by auto
  then have "length (show_nat (nat \<bar>sint v\<bar>)) \<le> 10" by (intro length_show_nat) auto
  then show ?thesis by (auto simp: show_int_def)
qed

lemma length_show_i64 [len_simps]: "length (show_int (sint (v :: u64))) \<le> 20"
proof -
  have "- (2 ^ 63) \<le> sint v" "sint v < 2 ^ 63"
    using sint_greater_eq [of v] sint_less [of v] by simp_all
  then have "nat \<bar>sint v\<bar> < 10 ^ 19" by auto
  then have "length (show_nat (nat \<bar>sint v\<bar>)) \<le> 19" by (intro length_show_nat) auto
  then show ?thesis by (auto simp: show_int_def)
qed

section \<open>Numbers in text\<close>

definition c_isdigit :: "u8 \<Rightarrow> bool" where
  "c_isdigit c \<longleftrightarrow> 48 \<le> c \<and> c \<le> 57"

definition c_isspace :: "u8 \<Rightarrow> bool" where
  "c_isspace c \<longleftrightarrow> c = 32 \<or> (9 \<le> c \<and> c \<le> 13)"

fun skip_space :: "bytes \<Rightarrow> bytes" where
  "skip_space [] = []"
| "skip_space (b # bs) = (if c_isspace b then skip_space bs else b # bs)"

text \<open>
  The digits from the front of a block, undefined if the block ends before a non-digit.
\<close>

fun read_digits :: "nat \<Rightarrow> bytes \<Rightarrow> nat option" where
  "read_digits acc [] = None"
| "read_digits acc (b # bs) =
     (if c_isdigit b then read_digits (10 * acc + (unat b - 48)) bs else Some acc)"

text \<open>\<open>atoi\<close>: the result is undefined when the number does not fit an \<open>int\<close>.\<close>

definition c_atoi :: "bytes \<Rightarrow> int option" where
  "c_atoi s =
     (let t = skip_space s;
          neg = (t \<noteq> [] \<and> hd t = 45);
          u = (if t \<noteq> [] \<and> (hd t = 45 \<or> hd t = 43) then tl t else t)
      in do {
        n \<leftarrow> read_digits 0 u;
        let i = (if neg then - int n else int n);
        if - (2 ^ 31) \<le> i \<and> i < 2 ^ 31 then Some i else None
      })"

section \<open>Bit flags\<close>

definition has_flag :: "u32 \<Rightarrow> u32 \<Rightarrow> bool" where
  "has_flag f m \<longleftrightarrow> f AND m \<noteq> 0"

definition clear_flag :: "u32 \<Rightarrow> u32 \<Rightarrow> u32" where
  "clear_flag f m = f AND NOT m"

lemma has_flag_0 [simp]: "\<not> has_flag 0 m"
  by (simp add: has_flag_def)

lemma has_flag_or [simp]: "has_flag (f OR g) m \<longleftrightarrow> has_flag f m \<or> has_flag g m"
  by (simp add: has_flag_def and.commute [of _ m] bit.conj_disj_distrib) (metis or_eq_0_iff)

lemma has_flag_clear_other [simp]: "m AND n = 0 \<Longrightarrow> has_flag (clear_flag f m) n = has_flag f n"
proof -
  assume mn: "m AND n = 0"
  have "f AND NOT m AND n = f AND n"
  proof (rule bit_word_eqI)
    fix i assume "i < LENGTH(32)"
    moreover have "\<not> (bit m i \<and> bit n i)"
      by (metis mn bit_0_eq bit_and_iff bot_apply bot_bool_def)
    ultimately show "bit (f AND NOT m AND n) i = bit (f AND n) i" by (auto simp: bit_simps)
  qed
  then show ?thesis by (simp add: has_flag_def clear_flag_def and.assoc)
qed

lemma has_flag_clear_same [simp]: "\<not> has_flag (clear_flag f m) m"
  by (simp add: has_flag_def clear_flag_def and.assoc)

section \<open>The C environment\<close>

text \<open>
  What the sources take from the platform: whether plain \<open>char\<close> is signed (it is not on ARM,
  it is on x86), whether an allocation of \<open>n\<close> bytes succeeds, and the indeterminate bytes
  of a fresh block and of what \<open>realloc\<close> adds to one.
\<close>

record c_env =
  char_signed :: bool
  alloc_ok :: "nat \<Rightarrow> bool"
  indet :: "nat \<Rightarrow> u8"

definition c_malloc :: "c_env \<Rightarrow> nat \<Rightarrow> bytes option" where
  "c_malloc env n = (if alloc_ok env n then Some (map (indet env) [0..<n]) else None)"

definition c_calloc :: "c_env \<Rightarrow> nat \<Rightarrow> bytes option" where
  "c_calloc env n = (if alloc_ok env n then Some (replicate n 0) else None)"

definition c_realloc :: "c_env \<Rightarrow> bytes \<Rightarrow> nat \<Rightarrow> bytes option" where
  "c_realloc env m n =
     (if alloc_ok env n then Some (take n m @ map (indet env) [length m..<n]) else None)"

end
