(* ===== verification/Serializer_State.thy ===== *)
theory Serializer_State
  imports Prelude
begin

text \<open>
  The state of the serializer of \<^verbatim>\<open>ndpi_serializer.c\<close> (the structs of
  \<^verbatim>\<open>ndpi_typedefs.h\<close>), its life cycle (init, reset, term), the growth of its two
  buffers, the CSV header line, the accessors, and the primitives that append single values.
  The lemmas at the end turn every append that stays inside the buffer into one equation
  over \<open>app\<close>, the state after appending some bytes.
\<close>

section \<open>Conversions\<close>

text \<open>The conversion of an unsigned 32-bit value to \<open>int\<close>.\<close>

definition c_int :: "nat \<Rightarrow> int" where
  "c_int n = (if n < 2 ^ 31 then int n else int n - 2 ^ 32)"

lemma c_int_id [simp]: "n < 2147483648 \<Longrightarrow> c_int n = int n"
  by (simp add: c_int_def)

section \<open>Formats, types, flags and the structs\<close>

abbreviation (input) ndpi_serialization_format_unknown :: nat where "ndpi_serialization_format_unknown \<equiv> 0"
abbreviation (input) ndpi_serialization_format_tlv :: nat where "ndpi_serialization_format_tlv \<equiv> 1"
abbreviation (input) ndpi_serialization_format_json :: nat where "ndpi_serialization_format_json \<equiv> 2"
abbreviation (input) ndpi_serialization_format_csv :: nat where "ndpi_serialization_format_csv \<equiv> 3"

datatype ndpi_serialization_type =
    ndpi_serialization_unknown
  | ndpi_serialization_end_of_record
  | ndpi_serialization_uint8
  | ndpi_serialization_uint16
  | ndpi_serialization_uint32
  | ndpi_serialization_uint64
  | ndpi_serialization_int8
  | ndpi_serialization_int16
  | ndpi_serialization_int32
  | ndpi_serialization_int64
  | ndpi_serialization_float
  | ndpi_serialization_string
  | ndpi_serialization_start_of_block
  | ndpi_serialization_end_of_block
  | ndpi_serialization_start_of_list
  | ndpi_serialization_end_of_list

text \<open>The number of an enumerator, and the cast of a number below 16 to the enumeration.\<close>

primrec type_code :: "ndpi_serialization_type \<Rightarrow> u8" where
  "type_code ndpi_serialization_unknown = 0"
| "type_code ndpi_serialization_end_of_record = 1"
| "type_code ndpi_serialization_uint8 = 2"
| "type_code ndpi_serialization_uint16 = 3"
| "type_code ndpi_serialization_uint32 = 4"
| "type_code ndpi_serialization_uint64 = 5"
| "type_code ndpi_serialization_int8 = 6"
| "type_code ndpi_serialization_int16 = 7"
| "type_code ndpi_serialization_int32 = 8"
| "type_code ndpi_serialization_int64 = 9"
| "type_code ndpi_serialization_float = 10"
| "type_code ndpi_serialization_string = 11"
| "type_code ndpi_serialization_start_of_block = 12"
| "type_code ndpi_serialization_end_of_block = 13"
| "type_code ndpi_serialization_start_of_list = 14"
| "type_code ndpi_serialization_end_of_list = 15"

definition all_types :: "ndpi_serialization_type list" where
  "all_types = [ndpi_serialization_unknown, ndpi_serialization_end_of_record,
     ndpi_serialization_uint8, ndpi_serialization_uint16, ndpi_serialization_uint32,
     ndpi_serialization_uint64, ndpi_serialization_int8, ndpi_serialization_int16,
     ndpi_serialization_int32, ndpi_serialization_int64, ndpi_serialization_float,
     ndpi_serialization_string, ndpi_serialization_start_of_block,
     ndpi_serialization_end_of_block, ndpi_serialization_start_of_list,
     ndpi_serialization_end_of_list]"

definition type_of_code :: "u8 \<Rightarrow> ndpi_serialization_type" where
  "type_of_code c = all_types ! (unat c mod 16)"

text \<open>The type byte of a TLV item: the key type in the high nibble, the value type in the low.\<close>

definition type_byte :: "ndpi_serialization_type \<Rightarrow> ndpi_serialization_type \<Rightarrow> u8" where
  "type_byte kt et = push_bit 4 (type_code kt) OR type_code et"

abbreviation (input) NDPI_SERIALIZER_DEFAULT_HEADER_SIZE :: nat where
  "NDPI_SERIALIZER_DEFAULT_HEADER_SIZE \<equiv> 1024"
abbreviation (input) NDPI_SERIALIZER_DEFAULT_BUFFER_SIZE :: nat where
  "NDPI_SERIALIZER_DEFAULT_BUFFER_SIZE \<equiv> 8192"
abbreviation (input) NDPI_SERIALIZER_DEFAULT_BUFFER_INCR :: nat where
  "NDPI_SERIALIZER_DEFAULT_BUFFER_INCR \<equiv> 1024"

abbreviation (input) NDPI_SERIALIZER_STATUS_COMMA :: u32 where "NDPI_SERIALIZER_STATUS_COMMA \<equiv> 1"
abbreviation (input) NDPI_SERIALIZER_STATUS_ARRAY :: u32 where "NDPI_SERIALIZER_STATUS_ARRAY \<equiv> 2"
abbreviation (input) NDPI_SERIALIZER_STATUS_EOR :: u32 where "NDPI_SERIALIZER_STATUS_EOR \<equiv> 4"
abbreviation (input) NDPI_SERIALIZER_STATUS_SOB :: u32 where "NDPI_SERIALIZER_STATUS_SOB \<equiv> 8"
abbreviation (input) NDPI_SERIALIZER_STATUS_NOT_EMPTY :: u32 where "NDPI_SERIALIZER_STATUS_NOT_EMPTY \<equiv> 16"
abbreviation (input) NDPI_SERIALIZER_STATUS_LIST :: u32 where "NDPI_SERIALIZER_STATUS_LIST \<equiv> 32"
abbreviation (input) NDPI_SERIALIZER_STATUS_SOL :: u32 where "NDPI_SERIALIZER_STATUS_SOL \<equiv> 64"
abbreviation (input) NDPI_SERIALIZER_STATUS_HDR_DONE :: u32 where "NDPI_SERIALIZER_STATUS_HDR_DONE \<equiv> 128"

text \<open>The characters the JSON and CSV output is built from.\<close>

abbreviation (input) ch_comma :: u8 where "ch_comma \<equiv> 44"
abbreviation (input) ch_colon :: u8 where "ch_colon \<equiv> 58"
abbreviation (input) ch_quote :: u8 where "ch_quote \<equiv> 34"
abbreviation (input) ch_lbrace :: u8 where "ch_lbrace \<equiv> 123"
abbreviation (input) ch_rbrace :: u8 where "ch_rbrace \<equiv> 125"
abbreviation (input) ch_lbrack :: u8 where "ch_lbrack \<equiv> 91"
abbreviation (input) ch_rbrack :: u8 where "ch_rbrack \<equiv> 93"
abbreviation (input) ch_space :: u8 where "ch_space \<equiv> 32"
abbreviation (input) ch_newline :: u8 where "ch_newline \<equiv> 10"

text \<open>
  A null data pointer is the empty block: it has no byte that can be read or written.
\<close>

record ser_buffer =
  initial_size :: nat
  bsize :: nat
  bdata :: bytes

record ser_status =
  flags :: u32
  buf_used :: nat
  hdr_used :: nat

record serializer =
  status :: ser_status
  buffer :: ser_buffer
  header :: ser_buffer
  fmt :: nat
  csv_separator :: bytes
  has_snapshot :: u8
  snapshot :: ser_status

abbreviation used :: "serializer \<Rightarrow> nat" where "used s \<equiv> buf_used (status s)"
abbreviation hused :: "serializer \<Rightarrow> nat" where "hused s \<equiv> hdr_used (status s)"
abbreviation sflags :: "serializer \<Rightarrow> u32" where "sflags s \<equiv> flags (status s)"
abbreviation sdata :: "serializer \<Rightarrow> bytes" where "sdata s \<equiv> bdata (buffer s)"
abbreviation ssize :: "serializer \<Rightarrow> nat" where "ssize s \<equiv> bsize (buffer s)"

definition set_used :: "nat \<Rightarrow> serializer \<Rightarrow> serializer" where
  "set_used n s = s\<lparr>status := (status s)\<lparr>buf_used := n\<rparr>\<rparr>"

definition set_hused :: "nat \<Rightarrow> serializer \<Rightarrow> serializer" where
  "set_hused n s = s\<lparr>status := (status s)\<lparr>hdr_used := n\<rparr>\<rparr>"

definition set_sflags :: "u32 \<Rightarrow> serializer \<Rightarrow> serializer" where
  "set_sflags f s = s\<lparr>status := (status s)\<lparr>flags := f\<rparr>\<rparr>"

definition set_sdata :: "bytes \<Rightarrow> serializer \<Rightarrow> serializer" where
  "set_sdata d s = s\<lparr>buffer := (buffer s)\<lparr>bdata := d\<rparr>\<rparr>"

definition set_hdata :: "bytes \<Rightarrow> serializer \<Rightarrow> serializer" where
  "set_hdata d s = s\<lparr>header := (header s)\<lparr>bdata := d\<rparr>\<rparr>"

lemmas ser_upd_defs = set_used_def set_hused_def set_sflags_def set_sdata_def set_hdata_def

definition raise_flag :: "u32 \<Rightarrow> serializer \<Rightarrow> serializer" where
  "raise_flag m s = set_sflags (sflags s OR m) s"

definition drop_flag :: "u32 \<Rightarrow> serializer \<Rightarrow> serializer" where
  "drop_flag m s = set_sflags (clear_flag (sflags s) m) s"

abbreviation flag_on :: "serializer \<Rightarrow> u32 \<Rightarrow> bool" where
  "flag_on s m \<equiv> has_flag (sflags s) m"

section \<open>Moving the write position\<close>

text \<open>\<open>size_used += n\<close> and \<open>size_used--\<close> on \<open>u_int32_t\<close>.\<close>

definition add_used :: "nat \<Rightarrow> serializer \<Rightarrow> serializer" where
  "add_used n s = set_used (c_u32 (used s + n)) s"

definition dec_used :: "serializer \<Rightarrow> serializer" where
  "dec_used s = set_used (sub32 (used s) 1) s"

text \<open>\<open>u_int32_t buff_diff = serializer->buffer.size - serializer->status.buffer.size_used\<close>.\<close>

definition buff_diff :: "serializer \<Rightarrow> nat" where
  "buff_diff s = sub32 (ssize s) (used s)"

definition ser_poke_at :: "serializer \<Rightarrow> nat \<Rightarrow> bytes \<Rightarrow> serializer option" where
  "ser_poke_at s i bs = do { d \<leftarrow> poke (sdata s) i bs; Some (set_sdata d s) }"

text \<open>
  \<open>data[size_used++] = c\<close>, and \<open>memcpy(&data[size_used], bs, n)\<close> followed by
  \<open>size_used += n\<close>.
\<close>

definition ser_put :: "serializer \<Rightarrow> bytes \<Rightarrow> serializer option" where
  "ser_put s bs = do { s \<leftarrow> ser_poke_at s (used s) bs; Some (add_used (length bs) s) }"

text \<open>\<open>size_used += snprintf(&data[size_used], n, ...)\<close>.\<close>

definition ser_snprintf :: "serializer \<Rightarrow> nat \<Rightarrow> bytes \<Rightarrow> serializer option" where
  "ser_snprintf s n t =
     do { d \<leftarrow> snprintf_at (sdata s) (used s) n t; Some (add_used (length t) (set_sdata d s)) }"

section \<open>Life cycle\<close>

definition ndpi_reset_serializer :: "serializer \<Rightarrow> serializer option" where
  "ndpi_reset_serializer s =
     (let s = set_sflags 0 s in
      if fmt s = ndpi_serialization_format_json then
        let s = set_used 0 s in
        ser_snprintf s (buff_diff s) [ch_space, ch_lbrace, ch_rbrace]
      else if fmt s = ndpi_serialization_format_csv then Some (set_used 0 (set_hused 0 s))
      else Some (set_used 2 s))"

definition ndpi_serializer_skip_header :: "serializer \<Rightarrow> serializer" where
  "ndpi_serializer_skip_header s = raise_flag NDPI_SERIALIZER_STATUS_HDR_DONE s"

definition ndpi_init_serializer_buffer :: "c_env \<Rightarrow> ser_buffer \<Rightarrow> nat \<Rightarrow> int \<times> ser_buffer" where
  "ndpi_init_serializer_buffer env b buffer_size =
     (let b = b\<lparr>initial_size := buffer_size, bsize := buffer_size\<rparr> in
      case c_calloc env buffer_size of
        None \<Rightarrow> (-1, b\<lparr>bdata := []\<rparr>)
      | Some d \<Rightarrow> (0, b\<lparr>bdata := d\<rparr>))"

definition zero_buffer :: ser_buffer where
  "zero_buffer = \<lparr>initial_size = 0, bsize = 0, bdata = []\<rparr>"

definition zero_status :: ser_status where
  "zero_status = \<lparr>flags = 0, buf_used = 0, hdr_used = 0\<rparr>"

definition zero_serializer :: serializer where
  "zero_serializer = \<lparr>status = zero_status, buffer = zero_buffer, header = zero_buffer,
     fmt = 0, csv_separator = [0, 0], has_snapshot = 0, snapshot = zero_status\<rparr>"

definition ndpi_init_serializer_ll :: "c_env \<Rightarrow> nat \<Rightarrow> nat \<Rightarrow> (int \<times> serializer) option" where
  "ndpi_init_serializer_ll env f buffer_size =
     (let s = zero_serializer\<lparr>fmt := f\<rparr>;
          (rc, b) = ndpi_init_serializer_buffer env (buffer s) buffer_size;
          s = s\<lparr>buffer := b\<rparr>
      in if rc \<noteq> 0 then Some (-1, s)
         else do {
           (rc, s) \<leftarrow>
             (if fmt s = ndpi_serialization_format_json then Some (0, s)
              else if f = ndpi_serialization_format_csv then
                (let (rc, h) = ndpi_init_serializer_buffer env (header s)
                                 NDPI_SERIALIZER_DEFAULT_HEADER_SIZE
                 in Some (rc, s\<lparr>header := h\<rparr>))
              else do {
                s \<leftarrow> ser_poke_at s 0 [1];
                s \<leftarrow> ser_poke_at s 1 [word_of_nat f];
                Some (0, s)
              });
           if rc \<noteq> 0 then Some (-1, s)
           else do {
             s \<leftarrow> ndpi_reset_serializer (s\<lparr>csv_separator := [ch_comma, 0]\<rparr>);
             Some (0, s)
           }
         })"

definition ndpi_init_serializer :: "c_env \<Rightarrow> nat \<Rightarrow> (int \<times> serializer) option" where
  "ndpi_init_serializer env f = ndpi_init_serializer_ll env f NDPI_SERIALIZER_DEFAULT_BUFFER_SIZE"

definition ndpi_term_serializer :: "serializer \<Rightarrow> serializer" where
  "ndpi_term_serializer s =
     (let s = (if sdata s \<noteq> [] then s\<lparr>buffer := (buffer s)\<lparr>bsize := 0, bdata := []\<rparr>\<rparr> else s)
      in if bdata (header s) \<noteq> [] then s\<lparr>header := (header s)\<lparr>bsize := 0, bdata := []\<rparr>\<rparr> else s)"

section \<open>Growing a buffer\<close>

definition ndpi_extend_serializer_buffer :: "c_env \<Rightarrow> ser_buffer \<Rightarrow> nat \<Rightarrow> int \<times> ser_buffer" where
  "ndpi_extend_serializer_buffer env b min_len =
     (let min_len =
            (if min_len < NDPI_SERIALIZER_DEFAULT_BUFFER_INCR then
               if initial_size b < NDPI_SERIALIZER_DEFAULT_BUFFER_INCR then
                 if min_len < initial_size b then initial_size b else min_len
               else NDPI_SERIALIZER_DEFAULT_BUFFER_INCR
             else min_len);
          new_size = c_u32 (bsize b + min_len);
          new_size = c_u32 ((new_size div 4 + 1) * 4)
      in case c_realloc env (bdata b) new_size of
           None \<Rightarrow> (-1, b)
         | Some r \<Rightarrow> (0, b\<lparr>bdata := r, bsize := new_size\<rparr>))"

text \<open>
  The check that opens every append of the source: when \<open>buff_diff < needed\<close> the buffer grows
  by at least the difference, and the append returns \<open>-1\<close> when it cannot.
\<close>

definition ser_reserve :: "c_env \<Rightarrow> serializer \<Rightarrow> nat \<Rightarrow> int \<times> serializer" where
  "ser_reserve env s needed =
     (if buff_diff s < needed then
        let (rc, b) = ndpi_extend_serializer_buffer env (buffer s) (sub32 needed (buff_diff s))
        in (if rc < 0 then -1 else 0, s\<lparr>buffer := b\<rparr>)
      else (0, s))"

section \<open>The CSV header line\<close>

definition ndpi_serializer_check_header_room :: "c_env \<Rightarrow> serializer \<Rightarrow> nat \<Rightarrow> int \<times> serializer" where
  "ndpi_serializer_check_header_room env s needed =
     (let bd = sub32 (bsize (header s)) (hused s);
          (rc, h) = (if bd < needed then
                       ndpi_extend_serializer_buffer env (header s) (sub32 needed bd)
                     else (0, header s));
          s = s\<lparr>header := h\<rparr>
      in if rc < 0 then (-1, s) else (c_int (sub32 (bsize (header s)) (hused s)), s))"

text \<open>The text of the separator array, printed with \<open>%s\<close> or measured with \<open>strlen\<close>.\<close>

definition separator_text :: "serializer \<Rightarrow> bytes" where
  "separator_text s = takeWhile (\<lambda>b. b \<noteq> 0) (csv_separator s)"

definition ndpi_serializer_header_uint32 :: "c_env \<Rightarrow> serializer \<Rightarrow> u32 \<Rightarrow> (int \<times> serializer) option" where
  "ndpi_serializer_header_uint32 env s key =
     (if flag_on s NDPI_SERIALIZER_STATUS_HDR_DONE then Some (0, s)
      else let (room, s) = ndpi_serializer_check_header_room env s 12 in
        if room < 0 then Some (-1, s)
        else do {
          let t = (if 0 < hused s then separator_text s else []) @ show_nat (unat key);
          d \<leftarrow> snprintf_at (bdata (header s)) (hused s) (nat room) t;
          Some (0, set_hused (c_u32 (hused s + length t)) (set_hdata d s))
        })"

definition ndpi_serializer_header_string ::
  "c_env \<Rightarrow> serializer \<Rightarrow> bytes \<Rightarrow> nat \<Rightarrow> (int \<times> serializer) option" where
  "ndpi_serializer_header_string env s key klen =
     (if flag_on s NDPI_SERIALIZER_STATUS_HDR_DONE then Some (0, s)
      else let (room, s) = ndpi_serializer_check_header_room env s (klen + 4) in
        if room < 0 then Some (-1, s)
        else do {
          s \<leftarrow> (if 0 < hused s then do {
                   d \<leftarrow> poke (bdata (header s)) (hused s) (separator_text s);
                   Some (set_hused (c_u32 (hused s + length (separator_text s))) (set_hdata d s))
                 } else Some s);
          s \<leftarrow> (if 0 < klen then do {
                   k \<leftarrow> peek_run key 0 klen;
                   d \<leftarrow> poke (bdata (header s)) (hused s) k;
                   Some (set_hused (c_u32 (hused s + klen)) (set_hdata d s))
                 } else Some s);
          d \<leftarrow> poke (bdata (header s)) (hused s) [0];
          Some (0, set_hdata d s)
        })"

section \<open>Accessors\<close>

text \<open>The loop of the JSON case that skips leading zeros and blanks of the output.\<close>

fun skip_blank :: "bytes \<Rightarrow> nat \<Rightarrow> (bytes \<times> nat) option" where
  "skip_blank [] n = None"
| "skip_blank (b # bs) n =
     (if b = 0 \<or> b = ch_space then skip_blank bs (sub32 n 1) else Some (b # bs, n))"

text \<open>
  The pointer returned is the rest of the block from the first byte of the output; the
  length is the value stored through \<open>buffer_len\<close>.
\<close>

definition ndpi_serializer_get_buffer :: "serializer \<Rightarrow> (bytes \<times> nat \<times> serializer) option" where
  "ndpi_serializer_get_buffer s = do {
     s \<leftarrow> (if used s < ssize s then ser_poke_at s (used s) [0] else Some s);
     (buf, n) \<leftarrow> (if fmt s = ndpi_serialization_format_json then skip_blank (sdata s) (used s)
                   else Some (sdata s, used s));
     Some (buf, n, s)
   }"

definition ndpi_serializer_get_buffer_len :: "serializer \<Rightarrow> nat" where
  "ndpi_serializer_get_buffer_len s = used s"

definition ndpi_serializer_get_internal_buffer_size :: "serializer \<Rightarrow> nat" where
  "ndpi_serializer_get_internal_buffer_size s = ssize s"

definition ndpi_serializer_set_buffer_len :: "serializer option \<Rightarrow> nat \<Rightarrow> int \<times> serializer option" where
  "ndpi_serializer_set_buffer_len p l =
     (case p of
        Some s \<Rightarrow> if ssize s \<le> l then (-1, p) else (0, Some (set_used l s))
      | None \<Rightarrow> (-2, None))"

definition ndpi_serializer_get_header :: "serializer \<Rightarrow> (bytes \<times> nat \<times> serializer) option" where
  "ndpi_serializer_get_header s =
     (if bdata (header s) = [] then Some ([0], 0, s)
      else do {
        s \<leftarrow> (if hused s < bsize (header s) then do {
                 d \<leftarrow> poke (bdata (header s)) (hused s) [0];
                 Some (set_hdata d s)
               } else Some s);
        Some (bdata (header s), hused s, s)
      })"

definition ndpi_serializer_get_format :: "serializer \<Rightarrow> nat" where
  "ndpi_serializer_get_format s = fmt s"

definition ndpi_serializer_set_csv_separator :: "serializer \<Rightarrow> u8 \<Rightarrow> serializer" where
  "ndpi_serializer_set_csv_separator s sep = s\<lparr>csv_separator := (csv_separator s)[0 := sep]\<rparr>"

section \<open>Single values\<close>

text \<open>The memory image of \<open>ndpi_htonll(v)\<close>: two halves, each passed through \<open>htonl\<close>.\<close>

definition ndpi_htonll :: "u64 \<Rightarrow> bytes" where
  "ndpi_htonll v = be32 (ucast (drop_bit 32 v)) @ be32 (ucast (v AND 0xFFFFFFFF))"

definition ndpi_ntohll :: "bytes \<Rightarrow> u64" where
  "ndpi_ntohll m = push_bit 32 (ucast (of_be32 (take 4 m))) OR ucast (of_be32 (drop 4 m))"

definition ndpi_serialize_single_uint8 :: "serializer \<Rightarrow> u8 \<Rightarrow> serializer option" where
  "ndpi_serialize_single_uint8 s v = ser_put s [v]"

definition ndpi_serialize_single_uint16 :: "serializer \<Rightarrow> u16 \<Rightarrow> serializer option" where
  "ndpi_serialize_single_uint16 s v = ser_put s (be16 v)"

definition ndpi_serialize_single_uint32 :: "serializer \<Rightarrow> u32 \<Rightarrow> serializer option" where
  "ndpi_serialize_single_uint32 s v = ser_put s (be32 v)"

definition ndpi_serialize_single_uint64 :: "serializer \<Rightarrow> u64 \<Rightarrow> serializer option" where
  "ndpi_serialize_single_uint64 s v = ser_put s (ndpi_htonll v)"

text \<open>A \<open>float\<close> is its bit pattern; \<open>memcpy\<close> stores it in the little-endian order of the host.\<close>

definition ndpi_serialize_single_float :: "serializer \<Rightarrow> u32 \<Rightarrow> serializer option" where
  "ndpi_serialize_single_float s v = ser_put s (le32 v)"

definition ndpi_serialize_single_string :: "serializer \<Rightarrow> bytes \<Rightarrow> nat \<Rightarrow> serializer option" where
  "ndpi_serialize_single_string s t slen = do {
     s \<leftarrow> ser_put s (be16 (word_of_nat slen));
     s' \<leftarrow> (if 0 < slen then do {
              v \<leftarrow> peek_run t 0 slen;
              ser_poke_at s (used s) v
            } else Some s);
     Some (add_used slen s')
   }"

end
