(* ===== verification/Serializer_Text.thy ===== *)
theory Serializer_Text
  imports Serializer_State
begin

text \<open>
  The text layer of \<^verbatim>\<open>ndpi_serializer.c\<close>: numeric keys, JSON string escaping, the
  punctuation the JSON writer removes before a member and restores after it, and the CSV
  separator.
\<close>

section \<open>Numeric keys\<close>

fun ndpi_is_number :: "bytes \<Rightarrow> nat \<Rightarrow> bool option" where
  "ndpi_is_number t 0 = Some True"
| "ndpi_is_number [] (Suc n) = None"
| "ndpi_is_number (c # t) (Suc n) = (if \<not> c_isdigit c then Some False else ndpi_is_number t n)"

text \<open>\<open>atoi(key)\<close> passed as a \<open>u_int32_t\<close>.\<close>

definition key_atoi :: "bytes \<Rightarrow> u32 option" where
  "key_atoi key = map_option word_of_int (c_atoi key)"

section \<open>JSON strings\<close>

text \<open>The comparison \<open>c < ' '\<close> on a plain \<open>char\<close>.\<close>

definition below_space :: "bool \<Rightarrow> u8 \<Rightarrow> bool" where
  "below_space sg c \<longleftrightarrow> c < 32 \<or> sg \<and> 128 \<le> c"

definition json_escape_char :: "bool \<Rightarrow> u8 \<Rightarrow> bytes" where
  "json_escape_char sg c =
     (if c = 92 \<or> c = 34 \<or> c = 47 then [92, c]
      else if c = 8 then [92, 98]
      else if c = 9 then [92, 116]
      else if c = 10 then [92, 110]
      else if c = 12 then [92, 102]
      else if c = 13 then [92, 114]
      else if below_space sg c then []
      else [c])"

text \<open>The loop: \<open>n\<close> source characters left, \<open>j\<close> bytes written, at most while \<open>j < dst_max_len\<close>.\<close>

fun json_escape_loop :: "bool \<Rightarrow> bytes \<Rightarrow> nat \<Rightarrow> nat \<Rightarrow> int \<Rightarrow> bytes option" where
  "json_escape_loop sg src 0 j mx = Some []"
| "json_escape_loop sg src (Suc n) j mx =
     (if int j < mx then
        case src of
          [] \<Rightarrow> None
        | c # cs \<Rightarrow>
            map_option ((@) (json_escape_char sg c))
              (json_escape_loop sg cs n (j + length (json_escape_char sg c)) mx)
      else Some [])"

text \<open>
  The writes to \<open>dst\<close>: the quoted text, and a zero two bytes after the closing quote
  (\<open>dst[j++] = '"'\<close> is followed by \<open>dst[j+1] = '\0'\<close>). The value is the number of bytes
  written before that zero, with the block after the writes.
\<close>

definition ndpi_json_string_escape ::
  "c_env \<Rightarrow> bytes \<Rightarrow> nat \<Rightarrow> bytes \<Rightarrow> nat \<Rightarrow> int \<Rightarrow> (nat \<times> bytes) option" where
  "ndpi_json_string_escape env src src_len m dst dst_max_len = do {
     t \<leftarrow> json_escape_loop (char_signed env) src src_len 1 dst_max_len;
     let out = ch_quote # t @ [ch_quote];
     m \<leftarrow> poke m dst out;
     m \<leftarrow> poke m (dst + length out + 1) [0];
     Some (length out, m)
   }"

text \<open>\<open>size_used += ndpi_json_string_escape(src, n, &data[size_used], bd)\<close>.\<close>

definition ser_escape :: "c_env \<Rightarrow> serializer \<Rightarrow> bytes \<Rightarrow> nat \<Rightarrow> nat \<Rightarrow> serializer option" where
  "ser_escape env s src n bd = do {
     (k, d) \<leftarrow> ndpi_json_string_escape env src n (sdata s) (used s) (c_int bd);
     Some (add_used k (set_sdata d s))
   }"

section \<open>Punctuation\<close>

definition ndpi_serialize_csv_pre :: "serializer \<Rightarrow> serializer option" where
  "ndpi_serialize_csv_pre s =
     (if flag_on s NDPI_SERIALIZER_STATUS_EOR then Some (drop_flag NDPI_SERIALIZER_STATUS_EOR s)
      else if used s = 0 then Some s
      else do {
        s \<leftarrow> (if used s < ssize s then ser_poke_at s (used s) [csv_separator s ! 0] else Some s);
        Some (add_used 1 s)
      })"

definition ndpi_serialize_json_pre :: "serializer \<Rightarrow> serializer option" where
  "ndpi_serialize_json_pre s =
     (if flag_on s NDPI_SERIALIZER_STATUS_EOR then do {
        let s = drop_flag NDPI_SERIALIZER_STATUS_EOR (dec_used s);
        s \<leftarrow> ser_put s [ch_comma];
        ser_put s [ch_lbrace]
      }
      else
        let s = (if flag_on s NDPI_SERIALIZER_STATUS_ARRAY then dec_used s else s);
            s = dec_used s
        in if flag_on s NDPI_SERIALIZER_STATUS_LIST then
             let s = dec_used s in
             if flag_on s NDPI_SERIALIZER_STATUS_SOL then Some (drop_flag NDPI_SERIALIZER_STATUS_SOL s)
             else ser_put s [ch_comma]
           else if flag_on s NDPI_SERIALIZER_STATUS_SOB then
             Some (drop_flag NDPI_SERIALIZER_STATUS_SOB s)
           else if flag_on s NDPI_SERIALIZER_STATUS_COMMA then ser_put s [ch_comma]
           else Some s)"

definition ndpi_serialize_json_post :: "serializer \<Rightarrow> serializer option" where
  "ndpi_serialize_json_post s = do {
     s \<leftarrow> (if flag_on s NDPI_SERIALIZER_STATUS_LIST then ser_put s [ch_rbrack] else Some s);
     s \<leftarrow> ser_put s [ch_rbrace];
     s \<leftarrow> (if flag_on s NDPI_SERIALIZER_STATUS_ARRAY then ser_put s [ch_rbrack] else Some s);
     Some (raise_flag NDPI_SERIALIZER_STATUS_COMMA s)
   }"

section \<open>Keys and values in JSON and CSV\<close>

text \<open>The text of \<open>"%u":\<close>.\<close>

definition json_key_text :: "u32 \<Rightarrow> bytes" where
  "json_key_text key = [ch_quote] @ show_nat (unat key) @ [ch_quote, ch_colon]"

text \<open>
  The two forms in which the appends of the source write a JSON key, skipped inside a list;
  the room for the value that follows is computed again after the key.
\<close>

definition json_key_uint32 :: "serializer \<Rightarrow> nat \<Rightarrow> u32 \<Rightarrow> (serializer \<times> nat) option" where
  "json_key_uint32 s bd key =
     (if \<not> flag_on s NDPI_SERIALIZER_STATUS_LIST then do {
        s \<leftarrow> ser_snprintf s bd (json_key_text key);
        Some (s, buff_diff s)
      } else Some (s, bd))"

definition json_key_string ::
  "c_env \<Rightarrow> serializer \<Rightarrow> nat \<Rightarrow> bytes \<Rightarrow> nat \<Rightarrow> (serializer \<times> nat) option" where
  "json_key_string env s bd key klen =
     (if \<not> flag_on s NDPI_SERIALIZER_STATUS_LIST then do {
        s \<leftarrow> ser_escape env s key klen bd;
        s \<leftarrow> ser_put s [ch_colon];
        Some (s, buff_diff s)
      } else Some (s, bd))"

text \<open>
  The CSV case of an append: the column name, the separator, and the value printed into the
  room that is left.
\<close>

definition csv_value_uint32 ::
  "c_env \<Rightarrow> serializer \<Rightarrow> u32 \<Rightarrow> bytes \<Rightarrow> (int \<times> serializer) option" where
  "csv_value_uint32 env s key t = do {
     (rc, s) \<leftarrow> ndpi_serializer_header_uint32 env s key;
     if rc < 0 then Some (-1, s)
     else do {
       s \<leftarrow> ndpi_serialize_csv_pre s;
       s \<leftarrow> ser_snprintf s (buff_diff s) t;
       Some (0, raise_flag NDPI_SERIALIZER_STATUS_NOT_EMPTY s)
     }
   }"

definition csv_value_string ::
  "c_env \<Rightarrow> serializer \<Rightarrow> bytes \<Rightarrow> nat \<Rightarrow> bytes \<Rightarrow> (int \<times> serializer) option" where
  "csv_value_string env s key klen t = do {
     (rc, s) \<leftarrow> ndpi_serializer_header_string env s key klen;
     if rc < 0 then Some (-1, s)
     else do {
       s \<leftarrow> ndpi_serialize_csv_pre s;
       s \<leftarrow> ser_snprintf s (buff_diff s) t;
       Some (0, raise_flag NDPI_SERIALIZER_STATUS_NOT_EMPTY s)
     }
   }"

end
