(* ===== verification/Serializer_Ops.thy ===== *)
theory Serializer_Ops
  imports Serializer_Text
begin

text \<open>
  The appends of \<^verbatim>\<open>ndpi_serializer.c\<close> whose key is a 32-bit number. Each definition
  has the three cases of its C function (JSON, CSV, and TLV for every other format) and
  returns the C return value with the new state. The \<open>format\<close> argument of the \<open>float\<close>
  appends is the text it prints for a value.
\<close>

abbreviation not_empty :: "serializer \<Rightarrow> serializer" where
  "not_empty s \<equiv> raise_flag NDPI_SERIALIZER_STATUS_NOT_EMPTY s"

definition ndpi_serialize_key_uint32 ::
  "serializer \<Rightarrow> u32 \<Rightarrow> (ndpi_serialization_type \<times> serializer) option" where
  "ndpi_serialize_key_uint32 s key =
     (if key \<le> 0xff then do {
        s \<leftarrow> ndpi_serialize_single_uint8 s (ucast key); Some (ndpi_serialization_uint8, s) }
      else if key \<le> 0xffff then do {
        s \<leftarrow> ndpi_serialize_single_uint16 s (ucast key); Some (ndpi_serialization_uint16, s) }
      else do {
        s \<leftarrow> ndpi_serialize_single_uint32 s key; Some (ndpi_serialization_uint32, s) })"

text \<open>The narrowest encodings of an unsigned and of a signed 32-bit value.\<close>

definition tlv_value_uint32 ::
  "serializer \<Rightarrow> u32 \<Rightarrow> (ndpi_serialization_type \<times> serializer) option" where
  "tlv_value_uint32 s value =
     (if value \<le> 0xff then do {
        s \<leftarrow> ndpi_serialize_single_uint8 s (ucast value); Some (ndpi_serialization_uint8, s) }
      else if value \<le> 0xffff then do {
        s \<leftarrow> ndpi_serialize_single_uint16 s (ucast value); Some (ndpi_serialization_uint16, s) }
      else do {
        s \<leftarrow> ndpi_serialize_single_uint32 s value; Some (ndpi_serialization_uint32, s) })"

definition tlv_value_int32 ::
  "serializer \<Rightarrow> u32 \<Rightarrow> (ndpi_serialization_type \<times> serializer) option" where
  "tlv_value_int32 s value =
     (if sint value \<le> 127 \<and> -128 \<le> sint value then do {
        s \<leftarrow> ndpi_serialize_single_uint8 s (ucast value); Some (ndpi_serialization_int8, s) }
      else if sint value \<le> 32767 \<and> -32768 \<le> sint value then do {
        s \<leftarrow> ndpi_serialize_single_uint16 s (ucast value); Some (ndpi_serialization_int16, s) }
      else do {
        s \<leftarrow> ndpi_serialize_single_uint32 s value; Some (ndpi_serialization_int32, s) })"

text \<open>
  The TLV case of an append with a numeric key: a byte is left free for the types, key and
  value follow, and the types are stored once they are known.
\<close>

definition tlv_item_uint32 ::
  "serializer \<Rightarrow> u32 \<Rightarrow> (serializer \<Rightarrow> (ndpi_serialization_type \<times> serializer) option)
   \<Rightarrow> (int \<times> serializer) option" where
  "tlv_item_uint32 s key put_value = do {
     let type_offset = used s;
     let s = add_used 1 s;
     (kt, s) \<leftarrow> ndpi_serialize_key_uint32 s key;
     (et, s) \<leftarrow> put_value s;
     s \<leftarrow> ser_poke_at s type_offset [type_byte kt et];
     Some (0, not_empty s)
   }"

text \<open>The JSON case of an append with a numeric key and a printed value.\<close>

definition json_item_uint32 :: "serializer \<Rightarrow> u32 \<Rightarrow> bytes \<Rightarrow> (int \<times> serializer) option" where
  "json_item_uint32 s key t = do {
     let bd = buff_diff s;
     s \<leftarrow> ndpi_serialize_json_pre s;
     (s, bd) \<leftarrow> json_key_uint32 s bd key;
     s \<leftarrow> ser_snprintf s bd t;
     s \<leftarrow> ndpi_serialize_json_post s;
     Some (0, not_empty s)
   }"

definition ndpi_serialize_uint32_uint32 ::
  "c_env \<Rightarrow> serializer \<Rightarrow> u32 \<Rightarrow> u32 \<Rightarrow> (int \<times> serializer) option" where
  "ndpi_serialize_uint32_uint32 env s key value =
     (let needed = 1 + 4 + 4 + (if fmt s = ndpi_serialization_format_json then 24 else 0);
          (rc, s) = ser_reserve env s needed
      in if rc < 0 then Some (-1, s)
         else if fmt s = ndpi_serialization_format_json then
           json_item_uint32 s key (show_nat (unat value))
         else if fmt s = ndpi_serialization_format_csv then
           csv_value_uint32 env s key (show_nat (unat value))
         else tlv_item_uint32 s key (\<lambda>s. tlv_value_uint32 s value))"

definition ndpi_serialize_uint32_uint64 ::
  "c_env \<Rightarrow> serializer \<Rightarrow> u32 \<Rightarrow> u64 \<Rightarrow> (int \<times> serializer) option" where
  "ndpi_serialize_uint32_uint64 env s key value =
     (let needed = 1 + 4 + 8 + (if fmt s = ndpi_serialization_format_json then 32 else 0);
          (rc, s) = ser_reserve env s needed
      in if rc < 0 then Some (-1, s)
         else if fmt s = ndpi_serialization_format_json then
           json_item_uint32 s key (show_nat (unat value))
         else if fmt s = ndpi_serialization_format_csv then
           csv_value_uint32 env s key (show_nat (unat value))
         else if value \<le> 0xffffffff then ndpi_serialize_uint32_uint32 env s key (ucast value)
         else tlv_item_uint32 s key (\<lambda>s. do {
                s \<leftarrow> ndpi_serialize_single_uint64 s value; Some (ndpi_serialization_uint64, s) }))"

definition ndpi_serialize_uint32_int32 ::
  "c_env \<Rightarrow> serializer \<Rightarrow> u32 \<Rightarrow> u32 \<Rightarrow> (int \<times> serializer) option" where
  "ndpi_serialize_uint32_int32 env s key value =
     (let needed = 1 + 4 + 4 + (if fmt s = ndpi_serialization_format_json then 24 else 0);
          (rc, s) = ser_reserve env s needed
      in if rc < 0 then Some (-1, s)
         else if fmt s = ndpi_serialization_format_json then
           json_item_uint32 s key (show_int (sint value))
         else if fmt s = ndpi_serialization_format_csv then
           csv_value_uint32 env s key (show_int (sint value))
         else tlv_item_uint32 s key (\<lambda>s. tlv_value_int32 s value))"

definition ndpi_serialize_uint32_int64 ::
  "c_env \<Rightarrow> serializer \<Rightarrow> u32 \<Rightarrow> u64 \<Rightarrow> (int \<times> serializer) option" where
  "ndpi_serialize_uint32_int64 env s key value =
     (let needed = 1 + 4 + 8 + (if fmt s = ndpi_serialization_format_json then 32 else 0);
          (rc, s) = ser_reserve env s needed
      in if rc < 0 then Some (-1, s)
         else if fmt s = ndpi_serialization_format_json then
           json_item_uint32 s key (show_int (sint value))
         else if fmt s = ndpi_serialization_format_csv then
           csv_value_uint32 env s key (show_int (sint value))
         else if value AND 0xFFFFFFFF = value then
           ndpi_serialize_uint32_int32 env s key (ucast value)
         else tlv_item_uint32 s key (\<lambda>s. do {
                s \<leftarrow> ndpi_serialize_single_uint64 s value; Some (ndpi_serialization_int64, s) }))"

definition ndpi_serialize_uint32_float ::
  "c_env \<Rightarrow> serializer \<Rightarrow> u32 \<Rightarrow> u32 \<Rightarrow> (u32 \<Rightarrow> bytes) \<Rightarrow> (int \<times> serializer) option" where
  "ndpi_serialize_uint32_float env s key value format =
     (let needed = 1 + 4 + 4 + (if fmt s = ndpi_serialization_format_json then 32 else 0);
          (rc, s) = ser_reserve env s needed
      in if rc < 0 then Some (-1, s)
         else if fmt s = ndpi_serialization_format_json then json_item_uint32 s key (format value)
         else if fmt s = ndpi_serialization_format_csv then csv_value_uint32 env s key (format value)
         else tlv_item_uint32 s key (\<lambda>s. do {
                s \<leftarrow> ndpi_serialize_single_float s value; Some (ndpi_serialization_float, s) }))"

definition ndpi_serialize_uint32_binary ::
  "c_env \<Rightarrow> serializer \<Rightarrow> u32 \<Rightarrow> bytes \<Rightarrow> nat \<Rightarrow> (int \<times> serializer) option" where
  "ndpi_serialize_uint32_binary env s key value slen =
     (let needed = 1 + 4 + 2 + slen +
                     (if fmt s = ndpi_serialization_format_json then 24 + slen else 0);
          (rc, s) = ser_reserve env s needed
      in if rc < 0 then Some (-1, s)
         else if fmt s = ndpi_serialization_format_json then do {
           let bd = buff_diff s;
           s \<leftarrow> ndpi_serialize_json_pre s;
           (s, bd) \<leftarrow> json_key_uint32 s bd key;
           s \<leftarrow> ser_escape env s value slen bd;
           s \<leftarrow> ndpi_serialize_json_post s;
           Some (0, not_empty s)
         }
         else if fmt s = ndpi_serialization_format_csv then do {
           (rc, s) \<leftarrow> ndpi_serializer_header_uint32 env s key;
           if rc < 0 then Some (-1, s)
           else do {
             s \<leftarrow> ndpi_serialize_csv_pre s;
             n \<leftarrow> c_strlen value;
             s \<leftarrow> ser_snprintf s (buff_diff s) (take n value);
             Some (0, not_empty s)
           }
         }
         else tlv_item_uint32 s key (\<lambda>s. do {
                s \<leftarrow> ndpi_serialize_single_string s value slen;
                Some (ndpi_serialization_string, s) }))"

definition ndpi_serialize_uint32_string ::
  "c_env \<Rightarrow> serializer \<Rightarrow> u32 \<Rightarrow> bytes option \<Rightarrow> (int \<times> serializer) option" where
  "ndpi_serialize_uint32_string env s key v = do {
     let value = (case v of Some x \<Rightarrow> x | None \<Rightarrow> [0]);
     n \<leftarrow> c_strlen value;
     ndpi_serialize_uint32_binary env s key value (c_u16 n)
   }"

definition bool_text :: "u8 \<Rightarrow> bytes" where
  "bool_text v = (if v \<noteq> 0 then str ''true'' else str ''false'')"

definition ndpi_serialize_uint32_boolean ::
  "c_env \<Rightarrow> serializer \<Rightarrow> u32 \<Rightarrow> u8 \<Rightarrow> (int \<times> serializer) option" where
  "ndpi_serialize_uint32_boolean env s key value =
     (if fmt s \<noteq> ndpi_serialization_format_json \<and> fmt s \<noteq> ndpi_serialization_format_csv
      then Some (-1, s)
      else let (rc, s) = ser_reserve env s 24
        in if rc < 0 then Some (-1, s)
           else if fmt s = ndpi_serialization_format_json then
             json_item_uint32 s key (bool_text value)
           else csv_value_uint32 env s key (bool_text value))"

end
