(* ===== verification/Serializer_Str.thy ===== *)
theory Serializer_Str
  imports Serializer_Ops
begin

text \<open>
  The appends of \<^verbatim>\<open>ndpi_serializer.c\<close> whose key is a string, given as a pointer (the
  block from its first byte on) and a length, or as a C string. A key made of digits only is
  turned into a number and handed to the numeric append (\<open>OPTIMIZE_NUMERIC_KEYS\<close>), and some
  appends have a short cut for CSV (\<open>OPTIMIZE_CSV_SERIALIZATION\<close>), as in the source.
\<close>

section \<open>Shared cases\<close>

text \<open>The TLV case: the type byte, the key, and the value.\<close>

definition tlv_item_string ::
  "serializer \<Rightarrow> ndpi_serialization_type \<Rightarrow> bytes \<Rightarrow> nat \<Rightarrow> (serializer \<Rightarrow> serializer option)
   \<Rightarrow> (int \<times> serializer) option" where
  "tlv_item_string s et key klen put_value = do {
     s \<leftarrow> ser_put s [type_byte ndpi_serialization_string et];
     s \<leftarrow> ndpi_serialize_single_string s key klen;
     s \<leftarrow> put_value s;
     Some (0, not_empty s)
   }"

definition json_item_string ::
  "c_env \<Rightarrow> serializer \<Rightarrow> bytes \<Rightarrow> nat \<Rightarrow> bytes \<Rightarrow> (int \<times> serializer) option" where
  "json_item_string env s key klen t = do {
     let bd = buff_diff s;
     s \<leftarrow> ndpi_serialize_json_pre s;
     (s, bd) \<leftarrow> json_key_string env s bd key klen;
     s \<leftarrow> ser_snprintf s bd t;
     s \<leftarrow> ndpi_serialize_json_post s;
     Some (0, not_empty s)
   }"

text \<open>A key of digits takes the numeric append \<open>num\<close>, any other key the string append \<open>other\<close>.\<close>

definition with_numeric_key ::
  "bytes \<Rightarrow> nat \<Rightarrow> (u32 \<Rightarrow> (int \<times> serializer) option) \<Rightarrow> (int \<times> serializer) option
   \<Rightarrow> (int \<times> serializer) option" where
  "with_numeric_key key klen num other = do {
     b \<leftarrow> ndpi_is_number key klen;
     if b then do { k \<leftarrow> key_atoi key; num k } else other
   }"

section \<open>Signed values\<close>

definition ndpi_serialize_binary_int32 ::
  "c_env \<Rightarrow> serializer \<Rightarrow> bytes \<Rightarrow> nat \<Rightarrow> u32 \<Rightarrow> (int \<times> serializer) option" where
  "ndpi_serialize_binary_int32 env s key klen value =
     with_numeric_key key klen (\<lambda>k. ndpi_serialize_uint32_int32 env s k value)
       (let needed = 1 + 2 + klen + 4 +
                       (if fmt s = ndpi_serialization_format_json then 16 + klen else 0);
            (rc, s) = ser_reserve env s needed
        in if rc < 0 then Some (-1, s)
           else if fmt s = ndpi_serialization_format_json then
             json_item_string env s key klen (show_int (sint value))
           else if fmt s = ndpi_serialization_format_csv then
             csv_value_string env s key klen (show_int (sint value))
           else if sint value \<le> 127 \<and> -128 \<le> sint value then
             tlv_item_string s ndpi_serialization_int8 key klen
               (\<lambda>s. ndpi_serialize_single_uint8 s (ucast value))
           else if sint value \<le> 32767 \<and> -32768 \<le> sint value then
             tlv_item_string s ndpi_serialization_int16 key klen
               (\<lambda>s. ndpi_serialize_single_uint16 s (ucast value))
           else
             tlv_item_string s ndpi_serialization_int32 key klen
               (\<lambda>s. ndpi_serialize_single_uint32 s value))"

text \<open>
  In CSV the value is printed with \<open>%u\<close> into at most \<open>needed - 1 = 10\<close> bytes, the
  terminating zero included.
\<close>

definition ndpi_serialize_string_int32 ::
  "c_env \<Rightarrow> serializer \<Rightarrow> bytes \<Rightarrow> u32 \<Rightarrow> (int \<times> serializer) option" where
  "ndpi_serialize_string_int32 env s key value =
     (if fmt s = ndpi_serialization_format_csv then
        let (rc, s) = ser_reserve env s 11 in
        if rc < 0 then Some (-1, s)
        else do {
          (rc, s) \<leftarrow>
            (if \<not> flag_on s NDPI_SERIALIZER_STATUS_HDR_DONE then do {
               n \<leftarrow> c_strlen key;
               ndpi_serializer_header_string env s key (c_u16 n)
             } else Some (0, s));
          if rc < 0 then Some (-1, s)
          else do {
            s \<leftarrow> ndpi_serialize_csv_pre s;
            s \<leftarrow> ser_snprintf s (11 - 1) (show_nat (unat value));
            Some (0, s)
          }
        }
      else do {
        n \<leftarrow> c_strlen key;
        ndpi_serialize_binary_int32 env s key (c_u16 n) value
      })"

definition ndpi_serialize_binary_int64 ::
  "c_env \<Rightarrow> serializer \<Rightarrow> bytes \<Rightarrow> nat \<Rightarrow> u64 \<Rightarrow> (int \<times> serializer) option" where
  "ndpi_serialize_binary_int64 env s key klen value =
     with_numeric_key key klen (\<lambda>k. ndpi_serialize_uint32_int64 env s k value)
       (let needed = 1 + 2 + klen + 4 +
                       (if fmt s = ndpi_serialization_format_json then 16 + klen else 0);
            (rc, s) = ser_reserve env s needed
        in if rc < 0 then Some (-1, s)
           else if fmt s = ndpi_serialization_format_json then
             json_item_string env s key klen (show_int (sint value))
           else if fmt s = ndpi_serialization_format_csv then
             csv_value_string env s key klen (show_int (sint value))
           else if value AND 0xFFFFFFFF = value then
             ndpi_serialize_string_int32 env s key (ucast value)
           else
             tlv_item_string s ndpi_serialization_int64 key klen
               (\<lambda>s. ndpi_serialize_single_uint64 s value))"

definition ndpi_serialize_string_int64 ::
  "c_env \<Rightarrow> serializer \<Rightarrow> bytes \<Rightarrow> u64 \<Rightarrow> (int \<times> serializer) option" where
  "ndpi_serialize_string_int64 env s key value = do {
     n \<leftarrow> c_strlen key;
     ndpi_serialize_binary_int64 env s key (c_u16 n) value
   }"

section \<open>Unsigned values\<close>

definition ndpi_serialize_binary_uint32 ::
  "c_env \<Rightarrow> serializer \<Rightarrow> bytes \<Rightarrow> nat \<Rightarrow> u32 \<Rightarrow> (int \<times> serializer) option" where
  "ndpi_serialize_binary_uint32 env s key klen value =
     (if fmt s = ndpi_serialization_format_csv then
        let t = show_nat (unat value);
            (rc, s) = ser_reserve env s (c_u16 (length t + 1)) in
        if rc < 0 then Some (-1, s)
        else do {
          (rc, s) \<leftarrow> (if \<not> flag_on s NDPI_SERIALIZER_STATUS_HDR_DONE
                       then ndpi_serializer_header_string env s key klen else Some (0, s));
          if rc < 0 then Some (-1, s)
          else do {
            s \<leftarrow> ndpi_serialize_csv_pre s;
            s \<leftarrow> ser_put s t;
            Some (0, s)
          }
        }
      else
        with_numeric_key key klen (\<lambda>k. ndpi_serialize_uint32_uint32 env s k value)
          (let needed = 1 + 2 + klen + 4 + 20 + 16;
               (rc, s) = ser_reserve env s needed
           in if rc < 0 then Some (-1, s)
              else if fmt s = ndpi_serialization_format_json then
                json_item_string env s key klen (show_nat (unat value))
              else if fmt s = ndpi_serialization_format_csv then
                csv_value_string env s key klen (show_nat (unat value))
              else if value \<le> 0xff then
                tlv_item_string s ndpi_serialization_uint8 key klen
                  (\<lambda>s. ndpi_serialize_single_uint8 s (ucast value))
              else if value \<le> 0xffff then
                tlv_item_string s ndpi_serialization_uint16 key klen
                  (\<lambda>s. ndpi_serialize_single_uint16 s (ucast value))
              else
                tlv_item_string s ndpi_serialization_uint32 key klen
                  (\<lambda>s. ndpi_serialize_single_uint32 s value)))"

definition ndpi_serialize_string_uint32 ::
  "c_env \<Rightarrow> serializer \<Rightarrow> bytes \<Rightarrow> u32 \<Rightarrow> (int \<times> serializer) option" where
  "ndpi_serialize_string_uint32 env s key value = do {
     n \<leftarrow> c_strlen key;
     ndpi_serialize_binary_uint32 env s key (c_u16 n) value
   }"

definition ndpi_serialize_binary_uint64 ::
  "c_env \<Rightarrow> serializer \<Rightarrow> bytes \<Rightarrow> nat \<Rightarrow> u64 \<Rightarrow> (int \<times> serializer) option" where
  "ndpi_serialize_binary_uint64 env s key klen value =
     with_numeric_key key klen (\<lambda>k. ndpi_serialize_uint32_uint64 env s k value)
       (let needed = 1 + 2 + klen + 8 +
                       (if fmt s = ndpi_serialization_format_json then 32 + klen else 0);
            (rc, s) = ser_reserve env s needed
        in if rc < 0 then Some (-1, s)
           else if fmt s = ndpi_serialization_format_json then
             json_item_string env s key klen (show_nat (unat value))
           else if fmt s = ndpi_serialization_format_csv then
             csv_value_string env s key klen (show_nat (unat value))
           else if value \<le> 0xffffffff then
             ndpi_serialize_string_uint32 env s key (ucast value)
           else
             tlv_item_string s ndpi_serialization_uint64 key klen
               (\<lambda>s. ndpi_serialize_single_uint64 s value))"

definition ndpi_serialize_string_uint64 ::
  "c_env \<Rightarrow> serializer \<Rightarrow> bytes \<Rightarrow> u64 \<Rightarrow> (int \<times> serializer) option" where
  "ndpi_serialize_string_uint64 env s key value = do {
     n \<leftarrow> c_strlen key;
     ndpi_serialize_binary_uint64 env s key (c_u16 n) value
   }"

section \<open>Floats\<close>

definition ndpi_serialize_binary_float ::
  "c_env \<Rightarrow> serializer \<Rightarrow> bytes \<Rightarrow> nat \<Rightarrow> u32 \<Rightarrow> (u32 \<Rightarrow> bytes) \<Rightarrow> (int \<times> serializer) option" where
  "ndpi_serialize_binary_float env s key klen value format =
     with_numeric_key key klen (\<lambda>k. ndpi_serialize_uint32_float env s k value format)
       (let needed = 1 + 2 + klen + 4 +
                       (if fmt s = ndpi_serialization_format_json then 32 + klen else 0);
            (rc, s) = ser_reserve env s needed
        in if rc < 0 then Some (-1, s)
           else if fmt s = ndpi_serialization_format_json then
             json_item_string env s key klen (format value)
           else if fmt s = ndpi_serialization_format_csv then
             csv_value_string env s key klen (format value)
           else
             tlv_item_string s ndpi_serialization_float key klen
               (\<lambda>s. ndpi_serialize_single_float s value))"

definition ndpi_serialize_string_float ::
  "c_env \<Rightarrow> serializer \<Rightarrow> bytes \<Rightarrow> u32 \<Rightarrow> (u32 \<Rightarrow> bytes) \<Rightarrow> (int \<times> serializer) option" where
  "ndpi_serialize_string_float env s key value format = do {
     n \<leftarrow> c_strlen key;
     ndpi_serialize_binary_float env s key (c_u16 n) value format
   }"

section \<open>Strings, raw values and booleans\<close>

definition ndpi_serialize_binary_raw ::
  "c_env \<Rightarrow> serializer \<Rightarrow> bytes \<Rightarrow> nat \<Rightarrow> bytes \<Rightarrow> nat \<Rightarrow> bool \<Rightarrow> (int \<times> serializer) option" where
  "ndpi_serialize_binary_raw env s key klen value vlen escape =
     (let needed = 1 + 2 + klen + 2 + vlen +
                     (if fmt s = ndpi_serialization_format_json then 16 + klen + vlen else 0);
          (rc, s) = ser_reserve env s needed
      in if rc < 0 then Some (-1, s)
         else if fmt s = ndpi_serialization_format_json then do {
           let bd = buff_diff s;
           s \<leftarrow> ndpi_serialize_json_pre s;
           (s, bd) \<leftarrow> json_key_string env s bd key klen;
           s \<leftarrow> (if escape then ser_escape env s value vlen bd
                  else do { v \<leftarrow> peek_run value 0 vlen; ser_put s v });
           s \<leftarrow> ndpi_serialize_json_post s;
           Some (0, not_empty s)
         }
         else if fmt s = ndpi_serialization_format_csv then do {
           (rc, s) \<leftarrow> ndpi_serializer_header_string env s key klen;
           if rc < 0 then Some (-1, s)
           else do {
             s \<leftarrow> ndpi_serialize_csv_pre s;
             v \<leftarrow> peek_run value 0 vlen;
             s \<leftarrow> ser_put s v;
             Some (0, not_empty s)
           }
         }
         else
           tlv_item_string s ndpi_serialization_string key klen
             (\<lambda>s. ndpi_serialize_single_string s value vlen))"

definition ndpi_serialize_binary_binary ::
  "c_env \<Rightarrow> serializer \<Rightarrow> bytes \<Rightarrow> nat \<Rightarrow> bytes option \<Rightarrow> nat \<Rightarrow> (int \<times> serializer) option" where
  "ndpi_serialize_binary_binary env s key klen v vlen =
     (let value = (case v of Some x \<Rightarrow> x | None \<Rightarrow> [0]) in
      with_numeric_key key klen (\<lambda>k. ndpi_serialize_uint32_binary env s k value vlen)
        (ndpi_serialize_binary_raw env s key klen value vlen True))"

definition ndpi_serialize_string_binary ::
  "c_env \<Rightarrow> serializer \<Rightarrow> bytes \<Rightarrow> bytes option \<Rightarrow> nat \<Rightarrow> (int \<times> serializer) option" where
  "ndpi_serialize_string_binary env s key v vlen = do {
     n \<leftarrow> c_strlen key;
     ndpi_serialize_binary_binary env s key (c_u16 n) v vlen
   }"

text \<open>
  The CSV case calls \<open>strlen\<close> on \<open>_value\<close> itself, which is undefined for a null pointer,
  and keeps \<open>needed\<close> in 16 bits.
\<close>

definition ndpi_serialize_string_string ::
  "c_env \<Rightarrow> serializer \<Rightarrow> bytes \<Rightarrow> bytes option \<Rightarrow> (int \<times> serializer) option" where
  "ndpi_serialize_string_string env s key v =
     (let value = (case v of Some x \<Rightarrow> x | None \<Rightarrow> [0]) in
      if fmt s = ndpi_serialization_format_csv then do {
        raw \<leftarrow> v;
        n \<leftarrow> c_strlen raw;
        let needed = c_u16 (n + 1);
        let (rc, s) = ser_reserve env s needed;
        if rc < 0 then Some (-1, s)
        else do {
          (rc, s) \<leftarrow>
            (if \<not> flag_on s NDPI_SERIALIZER_STATUS_HDR_DONE then do {
               n \<leftarrow> c_strlen key;
               ndpi_serializer_header_string env s key (c_u16 n)
             } else Some (0, s));
          if rc < 0 then Some (-1, s)
          else do {
            s \<leftarrow> ndpi_serialize_csv_pre s;
            t \<leftarrow> peek_run raw 0 (c_u16 (needed + 65535));
            s \<leftarrow> ser_put s t;
            Some (0, s)
          }
        }
      }
      else do {
        n \<leftarrow> c_strlen key;
        m \<leftarrow> c_strlen value;
        ndpi_serialize_binary_binary env s key (c_u16 n) (Some value) (c_u16 m)
      })"

text \<open>
  In TLV and CSV a number with a caller's format is printed into a 16-byte array and written
  as a string.
\<close>

definition ndpi_serialize_string_uint32_format ::
  "c_env \<Rightarrow> serializer \<Rightarrow> bytes \<Rightarrow> u32 \<Rightarrow> (u32 \<Rightarrow> bytes) \<Rightarrow> (int \<times> serializer) option" where
  "ndpi_serialize_string_uint32_format env s key value format =
     (if fmt s = ndpi_serialization_format_json then
        ndpi_serialize_string_uint32 env s key value
      else do {
        buf \<leftarrow> snprintf_at (replicate 16 0) 0 16 (format value);
        ndpi_serialize_string_string env s key (Some buf)
      })"

definition ndpi_serialize_string_raw ::
  "c_env \<Rightarrow> serializer \<Rightarrow> bytes \<Rightarrow> bytes \<Rightarrow> nat \<Rightarrow> (int \<times> serializer) option" where
  "ndpi_serialize_string_raw env s key value vlen = do {
     n \<leftarrow> c_strlen key;
     ndpi_serialize_binary_raw env s key (c_u16 n) value vlen False
   }"

definition ndpi_serialize_binary_boolean ::
  "c_env \<Rightarrow> serializer \<Rightarrow> bytes \<Rightarrow> nat \<Rightarrow> u8 \<Rightarrow> (int \<times> serializer) option" where
  "ndpi_serialize_binary_boolean env s key klen value =
     (if fmt s \<noteq> ndpi_serialization_format_json \<and> fmt s \<noteq> ndpi_serialization_format_csv
      then Some (-1, s)
      else with_numeric_key key klen (\<lambda>k. ndpi_serialize_uint32_boolean env s k value)
        (let (rc, s) = ser_reserve env s (klen + 16)
         in if rc < 0 then Some (-1, s)
            else if fmt s = ndpi_serialization_format_json then
              json_item_string env s key klen (bool_text value)
            else do {
              n \<leftarrow> c_strlen key;
              csv_value_string env s key (c_u16 n) (bool_text value)
            }))"

definition ndpi_serialize_string_boolean ::
  "c_env \<Rightarrow> serializer \<Rightarrow> bytes \<Rightarrow> u8 \<Rightarrow> (int \<times> serializer) option" where
  "ndpi_serialize_string_boolean env s key value = do {
     n \<leftarrow> c_strlen key;
     ndpi_serialize_binary_boolean env s key (c_u16 n) value
   }"

end
