(* ===== verification/Serializer_Blocks.thy ===== *)
theory Serializer_Blocks
  imports Serializer_Str
begin

text \<open>
  Records, lists, nested blocks and snapshots of \<^verbatim>\<open>ndpi_serializer.c\<close>.
\<close>

definition ndpi_serialize_end_of_record :: "c_env \<Rightarrow> serializer \<Rightarrow> (int \<times> serializer) option" where
  "ndpi_serialize_end_of_record env s =
     (let needed = 1 + (if fmt s = ndpi_serialization_format_json \<or>
                           fmt s = ndpi_serialization_format_csv then 1 else 0);
          (rc, s) = ser_reserve env s needed
      in if rc < 0 then Some (-1, s)
         else do {
           s \<leftarrow>
             (if fmt s = ndpi_serialization_format_csv then do {
                s \<leftarrow> ser_put s [ch_newline];
                s \<leftarrow> ser_poke_at s (used s) [0];
                Some (raise_flag NDPI_SERIALIZER_STATUS_EOR
                       (raise_flag NDPI_SERIALIZER_STATUS_HDR_DONE s))
              }
              else if fmt s = ndpi_serialization_format_json then do {
                s \<leftarrow> (if \<not> flag_on s NDPI_SERIALIZER_STATUS_ARRAY then do {
                         let bd = buff_diff s;
                         s \<leftarrow> ser_poke_at s 0 [ch_lbrack];
                         ser_snprintf s bd [ch_rbrack]
                       } else Some s);
                Some (drop_flag NDPI_SERIALIZER_STATUS_COMMA
                       (raise_flag (NDPI_SERIALIZER_STATUS_ARRAY OR NDPI_SERIALIZER_STATUS_EOR) s))
              }
              else ser_put s [type_code ndpi_serialization_end_of_record]);
           Some (0, drop_flag NDPI_SERIALIZER_STATUS_NOT_EMPTY s)
         })"

text \<open>\<open>needed\<close> is a \<open>u_int16_t\<close>; the copy takes the full \<open>record_len\<close>.\<close>

definition ndpi_serialize_raw_record ::
  "c_env \<Rightarrow> serializer \<Rightarrow> bytes \<Rightarrow> nat \<Rightarrow> (int \<times> serializer) option" where
  "ndpi_serialize_raw_record env s rec record_len =
     (let bd = buff_diff s;
          needed = c_u16 record_len;
          json = (fmt s = ndpi_serialization_format_json);
          add_comma = (json \<and> used s \<noteq> 3);
          needed = (if json then c_u16 (needed + 1) else needed);
          needed = (if add_comma then c_u16 (needed + 2) else needed);
          s = (if json \<and> used s = 3 then set_used 2 s else s);
          (rc, b) = (if bd < needed then
                       ndpi_extend_serializer_buffer env (buffer s) (sub32 needed bd)
                     else (0, buffer s));
          s = s\<lparr>buffer := b\<rparr>
      in if rc < 0 then Some (-1, s)
         else do {
           s \<leftarrow> (if json then
                    if add_comma then ser_poke_at s (sub32 (used s) 1) [ch_comma]
                    else Some (dec_used s)
                  else Some s);
           r \<leftarrow> peek_run rec 0 record_len;
           s \<leftarrow> ser_put s r;
           s \<leftarrow> (if json then do {
                    s \<leftarrow> ser_poke_at s (used s) [ch_rbrack];
                    Some (if add_comma then add_used 1 s else s)
                  } else Some s);
           (rc, s) \<leftarrow> ndpi_serialize_end_of_record env s;
           Some (0, s)
         })"

definition ndpi_serialize_start_of_list_binary ::
  "c_env \<Rightarrow> serializer \<Rightarrow> bytes \<Rightarrow> nat \<Rightarrow> (int \<times> serializer) option" where
  "ndpi_serialize_start_of_list_binary env s key klen =
     (if fmt s \<noteq> ndpi_serialization_format_json \<and> fmt s \<noteq> ndpi_serialization_format_tlv
      then Some (-1, s)
      else let (rc, s) = ser_reserve env s (16 + klen)
        in if rc < 0 then Some (-1, s)
           else if fmt s = ndpi_serialization_format_json then do {
             let bd = buff_diff s;
             s \<leftarrow> ndpi_serialize_json_pre s;
             s \<leftarrow> ser_escape env s key klen bd;
             s \<leftarrow> ser_snprintf s (buff_diff s) [ch_colon, ch_space, ch_lbrack];
             s \<leftarrow> ndpi_serialize_json_post
                    (raise_flag (NDPI_SERIALIZER_STATUS_LIST OR NDPI_SERIALIZER_STATUS_SOL) s);
             Some (0, s)
           }
           else do {
             s \<leftarrow> ser_put s [type_code ndpi_serialization_start_of_list];
             s \<leftarrow> ndpi_serialize_single_string s key klen;
             Some (0, s)
           })"

definition ndpi_serialize_start_of_list ::
  "c_env \<Rightarrow> serializer \<Rightarrow> bytes option \<Rightarrow> (int \<times> serializer) option" where
  "ndpi_serialize_start_of_list env s k = do {
     let key = (case k of Some x \<Rightarrow> x | None \<Rightarrow> [0]);
     n \<leftarrow> c_strlen key;
     ndpi_serialize_start_of_list_binary env s key (c_u16 n)
   }"

text \<open>No room is reserved for the one byte the TLV case writes.\<close>

definition ndpi_serialize_end_of_list :: "serializer \<Rightarrow> (int \<times> serializer) option" where
  "ndpi_serialize_end_of_list s =
     (if fmt s \<noteq> ndpi_serialization_format_json \<and> fmt s \<noteq> ndpi_serialization_format_tlv
      then Some (-1, s)
      else if fmt s = ndpi_serialization_format_json then
        let s = (if flag_on s NDPI_SERIALIZER_STATUS_SOL
                 then drop_flag NDPI_SERIALIZER_STATUS_SOL s else s)
        in Some (0, drop_flag NDPI_SERIALIZER_STATUS_LIST s)
      else do {
        s \<leftarrow> ser_put s [type_code ndpi_serialization_end_of_list];
        Some (0, s)
      })"

definition ndpi_serialize_start_of_block_binary ::
  "c_env \<Rightarrow> serializer \<Rightarrow> bytes \<Rightarrow> nat \<Rightarrow> (int \<times> serializer) option" where
  "ndpi_serialize_start_of_block_binary env s key klen =
     (if fmt s \<noteq> ndpi_serialization_format_json \<and> fmt s \<noteq> ndpi_serialization_format_tlv
      then Some (-1, s)
      else let (rc, s) = ser_reserve env s (16 + klen)
        in if rc < 0 then Some (-1, s)
           else if fmt s = ndpi_serialization_format_json then do {
             let bd = buff_diff s;
             s \<leftarrow> ndpi_serialize_json_pre s;
             s \<leftarrow> ser_escape env s key klen bd;
             s \<leftarrow> ser_snprintf s (buff_diff s) [ch_colon, ch_space, ch_lbrace];
             s \<leftarrow> ndpi_serialize_json_post s;
             Some (0, raise_flag NDPI_SERIALIZER_STATUS_SOB s)
           }
           else do {
             s \<leftarrow> ser_put s [type_code ndpi_serialization_start_of_block];
             s \<leftarrow> ndpi_serialize_single_string s key klen;
             Some (0, s)
           })"

definition ndpi_serialize_start_of_block ::
  "c_env \<Rightarrow> serializer \<Rightarrow> bytes option \<Rightarrow> (int \<times> serializer) option" where
  "ndpi_serialize_start_of_block env s k = do {
     let key = (case k of Some x \<Rightarrow> x | None \<Rightarrow> [0]);
     n \<leftarrow> c_strlen key;
     ndpi_serialize_start_of_block_binary env s key (c_u16 n)
   }"

definition ndpi_serialize_end_of_block :: "c_env \<Rightarrow> serializer \<Rightarrow> (int \<times> serializer) option" where
  "ndpi_serialize_end_of_block env s =
     (if fmt s \<noteq> ndpi_serialization_format_json \<and> fmt s \<noteq> ndpi_serialization_format_tlv
      then Some (-1, s)
      else let (rc, s) = ser_reserve env s 4
        in if rc < 0 then Some (-1, s)
           else if fmt s = ndpi_serialization_format_json then do {
             let s = (if flag_on s NDPI_SERIALIZER_STATUS_SOB
                      then drop_flag NDPI_SERIALIZER_STATUS_SOB s else s);
             s \<leftarrow> ndpi_serialize_json_post s;
             Some (0, s)
           }
           else do {
             s \<leftarrow> ser_put s [type_code ndpi_serialization_end_of_block];
             Some (0, s)
           })"

section \<open>Snapshots\<close>

definition ndpi_serializer_create_snapshot :: "serializer \<Rightarrow> serializer" where
  "ndpi_serializer_create_snapshot s = s\<lparr>snapshot := status s, has_snapshot := 1\<rparr>"

definition ndpi_serializer_rollback_snapshot :: "serializer \<Rightarrow> serializer option" where
  "ndpi_serializer_rollback_snapshot s =
     (if has_snapshot s \<noteq> 0 then
        let s = s\<lparr>status := snapshot s, has_snapshot := 0\<rparr> in
        if fmt s = ndpi_serialization_format_json then
          if flag_on s NDPI_SERIALIZER_STATUS_ARRAY then
            ser_poke_at s (sub32 (used s) 1) [ch_rbrack]
          else do {
            s \<leftarrow> ser_poke_at s 0 [ch_space];
            ser_poke_at s (sub32 (used s) 1) [ch_rbrace]
          }
        else Some s
      else Some s)"

end
