(* ===== verification/Serializer_Append.thy ===== *)
theory Serializer_Append
  imports Serializer_Blocks
begin

text \<open>
  The invariant of a serializer, and the equations that carry the proofs about appends: a
  write that stays inside the buffer is \<open>app\<close>, two of them in a row are one, and a
  reservation either fails without a change or leaves enough room.
\<close>

section \<open>The invariant and the text written so far\<close>

definition content :: "serializer \<Rightarrow> bytes" where
  "content s = take (used s) (sdata s)"

definition ser_ok :: "serializer \<Rightarrow> bool" where
  "ser_ok s \<longleftrightarrow> length (sdata s) = ssize s \<and> used s \<le> ssize s \<and> ssize s < 2 ^ 31"

text \<open>Allocations of \<open>2\<^sup>3\<^sup>1\<close> bytes and more are refused, as on a 32-bit address space.\<close>

definition env_ok :: "c_env \<Rightarrow> bool" where
  "env_ok env \<longleftrightarrow> (\<forall>n. alloc_ok env n \<longrightarrow> n < 2 ^ 31)"

lemma length_content [simp]: "ser_ok s \<Longrightarrow> length (content s) = used s"
  by (simp add: content_def ser_ok_def)

section \<open>Appending\<close>

text \<open>
  The state after writing \<open>xs\<close> and then \<open>ys\<close> at the write position, which moves past \<open>xs\<close>
  only: \<open>ys\<close> is what \<open>snprintf\<close> and the escaping leave behind the text.
\<close>

definition app :: "serializer \<Rightarrow> bytes \<Rightarrow> bytes \<Rightarrow> serializer" where
  "app s xs ys = set_used (used s + length xs)
     (set_sdata (take (used s) (sdata s) @ xs @ ys @ drop (used s + length xs + length ys) (sdata s)) s)"

definition room :: "serializer \<Rightarrow> nat \<Rightarrow> bool" where
  "room s n \<longleftrightarrow> used s + n \<le> ssize s"

lemma room_mono: "room s n \<Longrightarrow> m \<le> n \<Longrightarrow> room s m"
  by (simp add: room_def)

lemma app_sel [simp]:
  "used (app s xs ys) = used s + length xs"
  "sflags (app s xs ys) = sflags s"
  "hused (app s xs ys) = hused s"
  "ssize (app s xs ys) = ssize s"
  "initial_size (buffer (app s xs ys)) = initial_size (buffer s)"
  "header (app s xs ys) = header s"
  "fmt (app s xs ys) = fmt s"
  "csv_separator (app s xs ys) = csv_separator s"
  "has_snapshot (app s xs ys) = has_snapshot s"
  "snapshot (app s xs ys) = snapshot s"
  by (simp_all add: app_def ser_upd_defs)

lemma set_sel [simp]:
  "used (set_used n s) = n"
  "sflags (set_used n s) = sflags s"
  "buffer (set_used n s) = buffer s"
  "header (set_used n s) = header s"
  "fmt (set_used n s) = fmt s"
  "used (set_sflags f s) = used s"
  "sflags (set_sflags f s) = f"
  "buffer (set_sflags f s) = buffer s"
  "header (set_sflags f s) = header s"
  "fmt (set_sflags f s) = fmt s"
  "used (set_sdata d s) = used s"
  "sflags (set_sdata d s) = sflags s"
  "sdata (set_sdata d s) = d"
  "ssize (set_sdata d s) = ssize s"
  "header (set_sdata d s) = header s"
  "fmt (set_sdata d s) = fmt s"
  "csv_separator (set_used n s) = csv_separator s"
  "csv_separator (set_sflags f s) = csv_separator s"
  "csv_separator (set_sdata d s) = csv_separator s"
  "hused (set_used n s) = hused s"
  "hused (set_sflags f s) = hused s"
  "hused (set_sdata d s) = hused s"
  by (simp_all add: ser_upd_defs)

lemma flag_sel [simp]:
  "used (raise_flag m s) = used s"
  "sflags (raise_flag m s) = sflags s OR m"
  "buffer (raise_flag m s) = buffer s"
  "header (raise_flag m s) = header s"
  "fmt (raise_flag m s) = fmt s"
  "csv_separator (raise_flag m s) = csv_separator s"
  "hused (raise_flag m s) = hused s"
  "used (drop_flag m s) = used s"
  "sflags (drop_flag m s) = clear_flag (sflags s) m"
  "buffer (drop_flag m s) = buffer s"
  "header (drop_flag m s) = header s"
  "fmt (drop_flag m s) = fmt s"
  "csv_separator (drop_flag m s) = csv_separator s"
  "hused (drop_flag m s) = hused s"
  by (simp_all add: raise_flag_def drop_flag_def)

lemma ser_ok_flag [simp]:
  "ser_ok (raise_flag m s) = ser_ok s" "ser_ok (drop_flag m s) = ser_ok s"
  by (simp_all add: ser_ok_def)

lemma content_flag [simp]:
  "content (raise_flag m s) = content s" "content (drop_flag m s) = content s"
  by (simp_all add: content_def)

lemma room_flag [simp]:
  "room (raise_flag m s) n = room s n" "room (drop_flag m s) n = room s n"
  by (simp_all add: room_def)

lemma buff_diff_flag [simp]:
  "buff_diff (raise_flag m s) = buff_diff s" "buff_diff (drop_flag m s) = buff_diff s"
  by (simp_all add: buff_diff_def)

lemma sdata_app:
  "ser_ok s \<Longrightarrow> room s (length xs + length ys) \<Longrightarrow>
   sdata (app s xs ys) = content s @ xs @ ys @ drop (used s + length xs + length ys) (sdata s)"
  by (simp add: app_def content_def ser_ok_def room_def)

lemma ser_ok_app [simp]:
  "ser_ok s \<Longrightarrow> room s (length xs + length ys) \<Longrightarrow> ser_ok (app s xs ys)"
  by (auto simp: ser_ok_def room_def app_def ser_upd_defs)

lemma content_app [simp]:
  "ser_ok s \<Longrightarrow> room s (length xs + length ys) \<Longrightarrow> content (app s xs ys) = content s @ xs"
  by (simp add: content_def ser_ok_def room_def app_def ser_upd_defs)

lemma room_app [simp]: "room (app s xs ys) n = room s (length xs + n)"
  by (simp add: room_def add.assoc)

lemma buff_diff_room: "ser_ok s \<Longrightarrow> buff_diff s = ssize s - used s"
  by (simp add: buff_diff_def ser_ok_def)

lemma app_nil [simp]: "app s [] [] = s"
  by (simp add: app_def ser_upd_defs)

lemma app_app:
  assumes "ser_ok s" "room s (length xs + length ys)" "room s (length xs + length xs' + length ys')"
  shows "app (app s xs ys) xs' ys' = app s (xs @ xs') (ys' @ drop (length xs' + length ys') ys)"
proof -
  let ?u = "used s" and ?d = "sdata s"
  have len: "length (take ?u ?d) = ?u" using assms by (simp add: ser_ok_def)
  have 1: "take (?u + length xs) (take ?u ?d @ xs @ ys @ drop (?u + length xs + length ys) ?d)
      = take ?u ?d @ xs"
    using len by simp
  have 2: "drop (?u + length xs + length xs' + length ys')
        (take ?u ?d @ xs @ ys @ drop (?u + length xs + length ys) ?d)
      = drop (length xs' + length ys') ys @
        drop (?u + length xs + length xs' + length ys' +
              length (drop (length xs' + length ys') ys)) ?d"
  proof (cases "length xs' + length ys' \<le> length ys")
    case True
    then have "length xs' + length ys' + length (drop (length xs' + length ys') ys) = length ys"
      by simp
    then have "?u + length xs + length xs' + length ys' +
        length (drop (length xs' + length ys') ys) = ?u + length xs + length ys"
      by linarith
    then show ?thesis using len True by (simp add: add.assoc)
  qed (use len in \<open>simp add: ac_simps\<close>)
  show ?thesis using 1 2 len by (simp add: app_def ser_upd_defs add.assoc)
qed

lemma app_app_nil [simp]:
  assumes "ser_ok s" "room s (length xs + length xs' + length ys')"
  shows "app (app s xs []) xs' ys' = app s (xs @ xs') ys'"
  using assms by (subst app_app) (auto intro: room_mono)

lemma app_flag [simp]:
  "app (raise_flag m s) xs ys = raise_flag m (app s xs ys)"
  "app (drop_flag m s) xs ys = drop_flag m (app s xs ys)"
  by (simp_all add: app_def raise_flag_def drop_flag_def ser_upd_defs)

lemma ser_put_app [simp]:
  "ser_ok s \<Longrightarrow> room s (length xs) \<Longrightarrow> ser_put s xs = Some (app s xs [])"
  by (simp add: ser_put_def ser_poke_at_def poke_in ser_ok_def room_def app_def add_used_def
      ser_upd_defs)

lemma ser_snprintf_app [simp]:
  "ser_ok s \<Longrightarrow> room s (Suc (length t)) \<Longrightarrow> length t < n \<Longrightarrow> ser_snprintf s n t = Some (app s t [0])"
  by (simp add: ser_snprintf_def snprintf_at_def poke_in ser_ok_def room_def app_def add_used_def
      ser_upd_defs)

lemma peek_run_prefix [simp]: "n \<le> length t \<Longrightarrow> peek_run t 0 n = Some (take n t)"
  by (simp add: peek_run_def)

lemma single_string_app [simp]:
  assumes "ser_ok s" "room s (2 + n)" "n \<le> length t"
  shows "ndpi_serialize_single_string s t n = Some (app s (be16 (word_of_nat n) @ take n t) [])"
proof -
  let ?l = "be16 (word_of_nat n)"
  have put: "ser_put s ?l = Some (app s ?l [])" using assms by (simp add: room_def)
  have ok: "ser_ok (app s ?l [])" and rm: "room (app s ?l []) n"
    using assms by (simp_all add: room_def)
  show ?thesis
  proof (cases "n = 0")
    case True
    have "add_used 0 (app s ?l []) = app s ?l []"
      using ok by (simp add: add_used_def ser_ok_def) (simp add: ser_upd_defs)
    with True put show ?thesis by (simp add: ndpi_serialize_single_string_def)
  next
    case False
    have "ser_put (app s ?l []) (take n t) = Some (app s (?l @ take n t) [])"
      using assms ok rm by simp
    with False put assms show ?thesis
      by (simp add: ndpi_serialize_single_string_def ser_put_def [of "app s ?l []"] min_absorb2)
  qed
qed

lemmas single_defs =
  ndpi_serialize_single_uint8_def ndpi_serialize_single_uint16_def
  ndpi_serialize_single_uint32_def ndpi_serialize_single_uint64_def
  ndpi_serialize_single_float_def

lemma length_htonll [simp, len_simps]: "length (ndpi_htonll v) = 8"
  by (simp add: ndpi_htonll_def)

text \<open>
  A byte left free, values written behind it, and the byte stored at the end: the same as
  writing the byte first.
\<close>

lemma late_type_byte:
  assumes "ser_ok s" "room s (Suc (length xs))"
  shows "ser_poke_at (app (add_used 1 s) xs []) (used s) [b] = Some (app s (b # xs) [])"
proof -
  obtain g r where d: "drop (used s) (sdata s) = g # r"
    using assms by (cases "drop (used s) (sdata s)") (auto simp: ser_ok_def room_def)
  have dr: "drop (Suc (used s)) (sdata s) = r"
    by (metis d drop_Suc drop_tl list.sel(3) tl_drop)
  have tk: "take (Suc (used s)) (sdata s) = take (used s) (sdata s) @ [g]"
    using d by (metis append_eq_conv_conj append_take_drop_id drop_eq_Nil hd_drop_conv_nth
        leI list.discI list.sel(1) take_Suc_conv_app_nth)
  have len: "length (take (used s) (sdata s)) = used s" using assms by (simp add: ser_ok_def)
  have "poke (take (used s) (sdata s) @ g # xs @ drop (Suc (used s + length xs)) (sdata s)) (used s) [b]
      = Some (take (used s) (sdata s) @ b # xs @ drop (Suc (used s + length xs)) (sdata s))"
    using len by (simp add: poke_def)
  then show ?thesis using assms tk
    by (simp add: ser_poke_at_def app_def ser_upd_defs add_used_def ser_ok_def room_def)
qed

section \<open>Reserving room\<close>

text \<open>Every allocation up to \<open>k\<close> bytes beyond the present size succeeds.\<close>

definition can_grow :: "c_env \<Rightarrow> serializer \<Rightarrow> nat \<Rightarrow> bool" where
  "can_grow env s k \<longleftrightarrow> (\<forall>n \<le> ssize s + k. alloc_ok env n)"

text \<open>
  A second state with the same text and settings; only the buffer may have grown, by at
  most \<open>k\<close> bytes, and the bytes behind the text may differ.
\<close>

definition grown :: "nat \<Rightarrow> serializer \<Rightarrow> serializer \<Rightarrow> bool" where
  "grown k s t \<longleftrightarrow> ser_ok t \<and> content t = content s \<and> t = s\<lparr>buffer := buffer t\<rparr>
     \<and> ssize s \<le> ssize t \<and> ssize t \<le> ssize s + k"

lemma grown_sel:
  "grown k s t \<Longrightarrow> status t = status s"
  "grown k s t \<Longrightarrow> fmt t = fmt s"
  "grown k s t \<Longrightarrow> header t = header s"
  "grown k s t \<Longrightarrow> csv_separator t = csv_separator s"
  by (auto simp: grown_def) (metis serializer.select_convs serializer.update_convs(2)
      serializer.surjective)+

text \<open>
  Growing a buffer: it fails without a change when the allocation is refused; otherwise the
  new size is a multiple of four with room for \<open>min_len\<close> more bytes, and the old bytes are
  where they were.
\<close>

lemma extend_cases:
  assumes ext: "ndpi_extend_serializer_buffer env b m = (rc, b')"
    and ok: "env_ok env" "length (bdata b) = bsize b" "bsize b < 2 ^ 31" "m < 2 ^ 30"
  obtains
    (refused) n where "rc = -1" "b' = b" "n \<le> bsize b + m + 1028" "\<not> alloc_ok env n"
  | (extended) r where "rc = 0" "bdata b' = bdata b @ r" "length (bdata b') = bsize b'"
      "bsize b + m \<le> bsize b'" "bsize b' \<le> bsize b + m + 1028" "4 dvd bsize b'"
      "bsize b' < 2 ^ 31" "initial_size b' = initial_size b"
proof -
  define m' where "m' = (if m < 1024 then if initial_size b < 1024 then
      if m < initial_size b then initial_size b else m else 1024 else m)"
  define x where "x = bsize b + m'"
  define n where "n = (x div 4 + 1) * 4"
  have m': "m \<le> m'" "m' \<le> m + 1024" "m' < 2 ^ 30 + 1024" using ok(4) by (auto simp: m'_def)
  have n_dvd: "4 dvd n" by (simp add: n_def)
  have n: "x < n" "n \<le> x + 4" by (auto simp: n_def)
  have x_lt: "x < 2 ^ 32 - 4" using m' ok by (simp add: x_def)
  then have sizes: "c_u32 x = x" "c_u32 n = n" using n by simp_all
  have eq: "ndpi_extend_serializer_buffer env b m =
      (case c_realloc env (bdata b) n of None \<Rightarrow> (-1, b) | Some r \<Rightarrow> (0, b\<lparr>bdata := r, bsize := n\<rparr>))"
    unfolding ndpi_extend_serializer_buffer_def Let_def m'_def [symmetric] x_def [symmetric]
      sizes n_def [symmetric] ..
  show thesis
  proof (cases "alloc_ok env n")
    case False
    moreover have "n \<le> bsize b + m + 1028" using n m' by (simp add: x_def)
    ultimately show thesis using ext eq refused by (simp add: c_realloc_def)
  next
    case True
    then have "n < 2 ^ 31" using ok(1) by (simp add: env_ok_def)
    moreover have "take n (bdata b) = bdata b" using n ok by (simp add: x_def)
    ultimately show thesis using True ext eq n m' n_dvd ok
      by (intro extended [of "map (indet env) [bsize b..<n]"]) (auto simp: c_realloc_def x_def)
  qed
qed

lemma reserve_cases:
  assumes res: "ser_reserve env s needed = (rc, t)"
    and ok: "env_ok env" "ser_ok s" "needed < 2 ^ 30"
  obtains
    (refused) "rc = -1" "t = s" "\<not> can_grow env s (needed + 1028)"
  | (reserved) "rc = 0" "grown (needed + 1028) s t" "room t needed"
proof (cases "buff_diff s < needed")
  case False
  then have "rc = 0" "t = s" using res by (simp_all add: ser_reserve_def)
  moreover have "room s needed" using False ok(2) by (auto simp: buff_diff_room room_def ser_ok_def)
  ultimately show thesis using ok(2) by (intro reserved) (simp_all add: grown_def)
next
  case True
  define bd where "bd = buff_diff s"
  have bd: "bd = ssize s - used s" "bd < needed" using True ok(2) by (simp_all add: bd_def buff_diff_room)
  obtain rc' b where ext: "ndpi_extend_serializer_buffer env (buffer s) (needed - bd) = (rc', b)"
    by (cases "ndpi_extend_serializer_buffer env (buffer s) (needed - bd)")
  have sub: "sub32 needed bd = needed - bd" using bd ok(3) by simp
  have t: "rc = (if rc' < 0 then -1 else 0)" "t = s\<lparr>buffer := b\<rparr>"
    using res True ext sub by (simp_all add: ser_reserve_def bd_def [symmetric])
  have lens: "length (sdata s) = ssize s" "ssize s < 2 ^ 31" "needed - bd < 2 ^ 30"
    using ok by (simp_all add: ser_ok_def)
  show thesis
    using ext ok(1) lens
  proof (cases rule: extend_cases)
    case (refused n)
    then have "\<not> can_grow env s (needed + 1028)" by (auto simp: can_grow_def intro!: exI [of _ n])
    with refused t show thesis by (intro that(1)) simp_all
  next
    case (extended r)
    then have "grown (needed + 1028) s t" using t ok(2)
      by (auto simp: grown_def ser_ok_def content_def)
    moreover have "room t needed" using extended t bd ok(2) by (simp add: room_def ser_ok_def)
    ultimately show thesis using extended t by (intro that(2)) simp_all
  qed
qed

end
