(* ===== verification/Tlv_Format.thy ===== *)
theory Tlv_Format
  imports Serializer_Append
begin

text \<open>
  The TLV wire format as a specification, independent of the buffer code: items, and the
  bytes each of them is encoded as. The lemmas show that every TLV append of the serializer
  puts exactly the bytes of its item behind the text written so far, or fails with \<open>-1\<close>
  when an allocation is refused, and never leaves its buffer.
\<close>

section \<open>Items and their bytes\<close>

datatype tlv_key = Num u32 | Name bytes

datatype tlv_value = U32 u32 | U64 u64 | I32 u32 | I64 u64 | Flt u32 | Text bytes

datatype tlv_item =
    Item tlv_key tlv_value
  | End_record
  | Start_block bytes
  | End_block
  | Start_list bytes
  | End_list

type_synonym tlv_code = "ndpi_serialization_type \<times> bytes"

definition enc_u32 :: "u32 \<Rightarrow> tlv_code" where
  "enc_u32 v =
     (if v \<le> 0xff then (ndpi_serialization_uint8, [ucast v])
      else if v \<le> 0xffff then (ndpi_serialization_uint16, be16 (ucast v))
      else (ndpi_serialization_uint32, be32 v))"

definition enc_i32 :: "u32 \<Rightarrow> tlv_code" where
  "enc_i32 v =
     (if sint v \<le> 127 \<and> -128 \<le> sint v then (ndpi_serialization_int8, [ucast v])
      else if sint v \<le> 32767 \<and> -32768 \<le> sint v then (ndpi_serialization_int16, be16 (ucast v))
      else (ndpi_serialization_int32, be32 v))"

definition enc_str :: "bytes \<Rightarrow> bytes" where
  "enc_str t = be16 (word_of_nat (length t)) @ t"

fun enc_key :: "tlv_key \<Rightarrow> tlv_code" where
  "enc_key (Num k) = enc_u32 k"
| "enc_key (Name t) = (ndpi_serialization_string, enc_str t)"

fun enc_value :: "tlv_value \<Rightarrow> tlv_code" where
  "enc_value (U32 v) = enc_u32 v"
| "enc_value (U64 v) =
     (if v \<le> 0xffffffff then enc_u32 (ucast v) else (ndpi_serialization_uint64, ndpi_htonll v))"
| "enc_value (I32 v) = enc_i32 v"
| "enc_value (I64 v) =
     (if v AND 0xFFFFFFFF = v then enc_i32 (ucast v) else (ndpi_serialization_int64, ndpi_htonll v))"
| "enc_value (Flt v) = (ndpi_serialization_float, le32 v)"
| "enc_value (Text t) = (ndpi_serialization_string, enc_str t)"

text \<open>
  A key of digits is the number it denotes; a 64-bit value that passes the source's test for
  32 bits is the 32-bit value it is cut to.
\<close>

definition dec_value :: "bytes \<Rightarrow> nat" where
  "dec_value t = foldl (\<lambda>a b. 10 * a + (unat b - 48)) 0 t"

fun norm_key :: "tlv_key \<Rightarrow> tlv_key" where
  "norm_key (Num k) = Num k"
| "norm_key (Name t) = (if list_all c_isdigit t then Num (word_of_nat (dec_value t)) else Name t)"

fun norm_value :: "tlv_value \<Rightarrow> tlv_value" where
  "norm_value (U64 v) = (if v \<le> 0xffffffff then U32 (ucast v) else U64 v)"
| "norm_value (I64 v) = (if v AND 0xFFFFFFFF = v then I32 (ucast v) else I64 v)"
| "norm_value v = v"

fun norm_item :: "tlv_item \<Rightarrow> tlv_item" where
  "norm_item (Item k v) = Item (norm_key k) (norm_value v)"
| "norm_item it = it"

definition enc_pair :: "tlv_code \<Rightarrow> tlv_code \<Rightarrow> bytes" where
  "enc_pair k v = type_byte (fst k) (fst v) # snd k @ snd v"

fun enc_item :: "tlv_item \<Rightarrow> bytes" where
  "enc_item (Item k v) = enc_pair (enc_key (norm_key k)) (enc_value v)"
| "enc_item End_record = [type_code ndpi_serialization_end_of_record]"
| "enc_item (Start_block t) = type_code ndpi_serialization_start_of_block # enc_str t"
| "enc_item End_block = [type_code ndpi_serialization_end_of_block]"
| "enc_item (Start_list t) = type_code ndpi_serialization_start_of_list # enc_str t"
| "enc_item End_list = [type_code ndpi_serialization_end_of_list]"

lemma length_enc_u32 [len_simps]: "length (snd (enc_u32 v)) \<le> 4"
  by (simp add: enc_u32_def)

lemma length_enc_i32 [len_simps]: "length (snd (enc_i32 v)) \<le> 4"
  by (simp add: enc_i32_def)

lemma length_enc_str [simp, len_simps]: "length (enc_str t) = 2 + length t"
  by (simp add: enc_str_def)

lemma enc_value_norm: "enc_value (norm_value v) = enc_value v"
  by (cases v) simp_all

section \<open>The contract of an append\<close>

definition extended :: "nat \<Rightarrow> serializer \<Rightarrow> bytes \<Rightarrow> serializer \<Rightarrow> bool" where
  "extended k s xs t \<longleftrightarrow> ser_ok t \<and> content t = content s @ xs \<and> fmt t = fmt s
     \<and> header t = header s \<and> csv_separator t = csv_separator s
     \<and> ssize s \<le> ssize t \<and> ssize t \<le> ssize s + k"

text \<open>
  The append returns 0 with \<open>xs\<close> behind the text, or \<open>-1\<close> with the text as it was because
  some allocation of at most \<open>k\<close> bytes more than the present size is refused.
\<close>

definition appends :: "c_env \<Rightarrow> serializer \<Rightarrow> nat \<Rightarrow> bytes \<Rightarrow> (int \<times> serializer) option \<Rightarrow> bool" where
  "appends env s k xs r \<longleftrightarrow>
     (\<exists>t. r = Some (0, t) \<and> extended k s xs t)
     \<or> (\<exists>t. r = Some (-1, t) \<and> extended k s [] t \<and> \<not> can_grow env s k)"

lemma extended_refl: "ser_ok s \<Longrightarrow> extended k s [] s"
  by (simp add: extended_def)

lemma extended_grown: "grown k s t \<Longrightarrow> extended k s [] t"
  by (auto simp: extended_def grown_sel) (auto simp: grown_def)

lemma extended_app:
  assumes "grown k s t" "room t (length xs)"
  shows "extended k s xs (set_sflags f (app t xs []))"
proof -
  have ok: "ser_ok t" and c: "content t = content s" using assms by (simp_all add: grown_def)
  have "ser_ok (set_sflags f (app t xs []))"
    using ser_ok_app [OF ok, of xs "[]"] assms by (simp add: ser_ok_def)
  moreover have "content (set_sflags f (app t xs [])) = content s @ xs"
    using content_app [OF ok, of xs "[]"] assms c by (simp add: content_def)
  moreover have "ssize s \<le> ssize t" "ssize t \<le> ssize s + k" using assms by (simp_all add: grown_def)
  ultimately show ?thesis using grown_sel [OF assms(1)] by (simp add: extended_def)
qed

lemma extended_mono: "extended k s xs t \<Longrightarrow> k \<le> l \<Longrightarrow> extended l s xs t"
  by (auto simp: extended_def)

lemma can_grow_mono: "can_grow env s l \<Longrightarrow> k \<le> l \<Longrightarrow> can_grow env s k"
  by (auto simp: can_grow_def)

lemma can_grow_after: "can_grow env s (j + k) \<Longrightarrow> ssize t \<le> ssize s + j \<Longrightarrow> can_grow env t k"
  by (auto simp: can_grow_def)

lemma appends_weaken: "appends env s k xs r \<Longrightarrow> k \<le> l \<Longrightarrow> appends env s l xs r"
  unfolding appends_def using extended_mono can_grow_mono by blast

text \<open>The shape shared by the appends: a reservation, then a body that writes \<open>xs\<close>.\<close>

lemma appends_reserve:
  assumes "env_ok env" "ser_ok s" "needed < 2 ^ 30"
    and body: "\<And>t. grown (needed + 1028) s t \<Longrightarrow> room t needed \<Longrightarrow>
                 room t (length xs) \<and> (\<exists>f. body t = Some (0, set_sflags f (app t xs [])))"
  shows "appends env s (needed + 1028) xs
     (let (rc, t) = ser_reserve env s needed in if rc < 0 then Some (-1, t) else body t)"
proof -
  obtain rc t where res: "ser_reserve env s needed = (rc, t)"
    by (cases "ser_reserve env s needed")
  show ?thesis
    using res assms(1-3)
  proof (cases rule: reserve_cases)
    case refused
    with res assms(2) show ?thesis by (simp add: appends_def extended_refl)
  next
    case reserved
    with body [OF reserved(2,3)] res show ?thesis
      by (auto simp: appends_def intro: extended_app)
  qed
qed

lemma appends_nested:
  assumes "env_ok env" "ser_ok s" "needed < 2 ^ 30"
    and body: "\<And>t. grown (needed + 1028) s t \<Longrightarrow> room t needed \<Longrightarrow> appends env t k xs (body t)"
  shows "appends env s (needed + 1028 + k) xs
     (let (rc, t) = ser_reserve env s needed in if rc < 0 then Some (-1, t) else body t)"
proof -
  obtain rc t where res: "ser_reserve env s needed = (rc, t)"
    by (cases "ser_reserve env s needed")
  show ?thesis
    using res assms(1-3)
  proof (cases rule: reserve_cases)
    case refused
    then have "\<not> can_grow env s (needed + 1028 + k)" using can_grow_mono by (meson le_add1)
    with refused res assms(2) show ?thesis by (simp add: appends_def extended_refl)
  next
    case reserved
    note g = reserved(2)
    have ext: "extended (needed + 1028 + k) s ys u" if "extended k t ys u" for ys u
      using that g grown_sel [OF g] by (auto simp: extended_def grown_def)
    have "can_grow env t k" if "can_grow env s (needed + 1028 + k)"
      using that g by (auto simp: can_grow_def grown_def)
    with body [OF reserved(2,3)] ext show ?thesis
      using res reserved(1) unfolding appends_def by auto
  qed
qed

text \<open>What a provider of TLV appends promises, and what follows for a run of them.\<close>

fun run_calls ::
  "(c_env \<Rightarrow> serializer \<Rightarrow> 'a \<Rightarrow> (int \<times> serializer) option) \<Rightarrow> c_env \<Rightarrow> serializer \<Rightarrow> 'a list
   \<Rightarrow> (int \<times> serializer) option" where
  "run_calls call env s [] = Some (0, s)"
| "run_calls call env s (a # as) = do {
     (rc, s) \<leftarrow> call env s a;
     if rc < 0 then Some (rc, s) else run_calls call env s as
   }"

locale tlv_appender =
  fixes call :: "c_env \<Rightarrow> serializer \<Rightarrow> 'a \<Rightarrow> (int \<times> serializer) option"
    and enc :: "'a \<Rightarrow> bytes"
    and valid :: "'a \<Rightarrow> bool"
    and cost :: "'a \<Rightarrow> nat"
  assumes call_appends:
    "env_ok env \<Longrightarrow> ser_ok s \<Longrightarrow> fmt s = ndpi_serialization_format_tlv \<Longrightarrow> valid a \<Longrightarrow>
     appends env s (cost a) (enc a) (call env s a)"
begin

lemma call_defined:
  assumes "env_ok env" "ser_ok s" "fmt s = ndpi_serialization_format_tlv" "valid a"
  shows "\<exists>rc t. call env s a = Some (rc, t) \<and> ser_ok t \<and> fmt t = ndpi_serialization_format_tlv
           \<and> take (used s) (content t) = content s"
proof -
  have c: "content s = content s @ []" "used s = length (content s)" using assms(2) by simp_all
  from call_appends [OF assms] show ?thesis
    using assms(3) c by (auto simp: appends_def extended_def)
qed

lemma run_appends:
  assumes "env_ok env" "ser_ok s" "fmt s = ndpi_serialization_format_tlv" "list_all valid as"
  shows "\<exists>rc t n. run_calls call env s as = Some (rc, t) \<and> ser_ok t
           \<and> fmt t = ndpi_serialization_format_tlv
           \<and> n \<le> length as \<and> content t = content s @ concat (map enc (take n as))
           \<and> (rc = 0 \<and> n = length as \<or> rc = -1 \<and> \<not> can_grow env s (sum_list (map cost as)))"
  using assms(2-4)
proof (induction as arbitrary: s)
  case Nil
  then show ?case by simp
next
  case (Cons a as)
  have "appends env s (cost a) (enc a) (call env s a)"
    using assms(1) Cons.prems by (intro call_appends) simp_all
  then consider
      (ok) t where "call env s a = Some (0, t)" "extended (cost a) s (enc a) t"
    | (no) t where "call env s a = Some (-1, t)" "extended (cost a) s [] t" "\<not> can_grow env s (cost a)"
    by (auto simp: appends_def)
  then show ?case
  proof cases
    case no
    then have "\<not> can_grow env s (sum_list (map cost (a # as)))"
      using can_grow_mono [of env s "sum_list (map cost (a # as))" "cost a"] by auto
    with no show ?thesis
      using Cons.prems by (intro exI [of _ "-1"] exI [of _ t] exI [of _ 0]) (auto simp: extended_def)
  next
    case ok
    then have t: "ser_ok t" "fmt t = ndpi_serialization_format_tlv" "list_all valid as"
      "content t = content s @ enc a" "ssize t \<le> ssize s + cost a"
      using Cons.prems by (simp_all add: extended_def)
    from Cons.IH [OF t(1-3)] obtain rc u n where u: "run_calls call env t as = Some (rc, u)"
        "ser_ok u" "fmt u = ndpi_serialization_format_tlv" "n \<le> length as"
        "content u = content t @ concat (map enc (take n as))"
        "rc = 0 \<and> n = length as \<or> rc = -1 \<and> \<not> can_grow env t (sum_list (map cost as))"
      by blast
    have "\<not> can_grow env s (sum_list (map cost (a # as)))"
      if "\<not> can_grow env t (sum_list (map cost as))"
      using that t(5) can_grow_after by auto
    then show ?thesis using u t ok
      by (intro exI [of _ rc] exI [of _ u] exI [of _ "Suc n"]) auto
  qed
qed

end

end
