(* ===== verification/Tlv_Append.thy ===== *)
theory Tlv_Append
  imports Tlv_Format
begin

text \<open>
  The TLV appends of the serializer satisfy the contract of \<open>tlv_appender\<close>: one lemma per
  append, then the interpretation for the calls an API user makes, one per item of the
  format.
\<close>

section \<open>Parts of an item\<close>

lemma add_used_1:
  assumes "ser_ok s" "room s 1"
  shows "ser_ok (add_used 1 s)" "room (add_used 1 s) n = room s (Suc n)"
    "used (add_used 1 s) = Suc (used s)"
proof -
  have u: "c_u32 (used s + 1) = Suc (used s)" using assms by (simp add: ser_ok_def room_def)
  then show "used (add_used 1 s) = Suc (used s)" by (simp add: add_used_def)
  show "ser_ok (add_used 1 s)" "room (add_used 1 s) n = room s (Suc n)"
    using assms u by (simp_all add: ser_ok_def room_def add_used_def)
qed

lemma key_uint32_app:
  "ser_ok s \<Longrightarrow> room s 4 \<Longrightarrow>
   ndpi_serialize_key_uint32 s k = Some (fst (enc_u32 k), app s (snd (enc_u32 k)) [])"
  by (simp add: ndpi_serialize_key_uint32_def enc_u32_def single_defs room_def)

lemma value_uint32_app:
  "ser_ok s \<Longrightarrow> room s 4 \<Longrightarrow>
   tlv_value_uint32 s v = Some (fst (enc_u32 v), app s (snd (enc_u32 v)) [])"
  by (simp add: tlv_value_uint32_def enc_u32_def single_defs room_def)

lemma value_int32_app:
  "ser_ok s \<Longrightarrow> room s 4 \<Longrightarrow>
   tlv_value_int32 s v = Some (fst (enc_i32 v), app s (snd (enc_i32 v)) [])"
  by (simp add: tlv_value_int32_def enc_i32_def single_defs room_def)

text \<open>What \<open>tlv_item_uint32\<close> needs of the part that writes the value.\<close>

definition puts :: "(serializer \<Rightarrow> (ndpi_serialization_type \<times> serializer) option) \<Rightarrow> tlv_code \<Rightarrow> nat \<Rightarrow> bool"
where
  "puts f v n \<longleftrightarrow> length (snd v) \<le> n \<and>
     (\<forall>s. ser_ok s \<longrightarrow> room s n \<longrightarrow> f s = Some (fst v, app s (snd v) []))"

lemma puts_intros:
  "puts (\<lambda>s. tlv_value_uint32 s a) (enc_u32 a) 4"
  "puts (\<lambda>s. tlv_value_int32 s a) (enc_i32 a) 4"
  "puts (\<lambda>s. do { s \<leftarrow> ndpi_serialize_single_uint64 s b; Some (t, s) }) (t, ndpi_htonll b) 8"
  "puts (\<lambda>s. do { s \<leftarrow> ndpi_serialize_single_float s a; Some (t, s) }) (t, le32 a) 4"
  "n \<le> length x \<Longrightarrow> puts (\<lambda>s. do { s \<leftarrow> ndpi_serialize_single_string s x n; Some (t, s) })
     (t, be16 (word_of_nat n) @ take n x) (2 + n)"
  by (simp_all add: puts_def value_uint32_app value_int32_app single_defs len_simps)

lemma item_uint32_app:
  assumes ok: "ser_ok s" and rm: "room s (5 + n)" and put: "puts f v n"
  shows "tlv_item_uint32 s k f = Some (0, not_empty (app s (enc_pair (enc_u32 k) v) []))"
    "room s (length (enc_pair (enc_u32 k) v))"
proof -
  let ?k = "enc_u32 k"
  have lk: "length (snd ?k) \<le> 4" and lv: "length (snd v) \<le> n"
    using put by (simp_all add: length_enc_u32 puts_def)
  have r1: "room s 1" using rm by (rule room_mono) simp
  note a1 = add_used_1 [OF ok r1]
  have r4: "room (add_used 1 s) 4" "room (add_used 1 s) (length (snd ?k) + n)"
    "room s (Suc (length (snd ?k) + length (snd v)))"
    using rm lk lv a1(2) by (auto intro: room_mono)
  have k: "ndpi_serialize_key_uint32 (add_used 1 s) k = Some (fst ?k, app (add_used 1 s) (snd ?k) [])"
    using a1(1) r4(1) by (rule key_uint32_app)
  have kok: "ser_ok (app (add_used 1 s) (snd ?k) [])"
    using a1(1) room_mono [OF r4(1) lk] by (intro ser_ok_app) simp_all
  have "f (app (add_used 1 s) (snd ?k) []) = Some (fst v, app (app (add_used 1 s) (snd ?k) []) (snd v) [])"
    using put kok r4(2) by (simp add: puts_def)
  also have "app (app (add_used 1 s) (snd ?k) []) (snd v) [] = app (add_used 1 s) (snd ?k @ snd v) []"
    using a1(1) r4(2) lv by (intro app_app_nil) (auto intro: room_mono)
  finally have v: "f (app (add_used 1 s) (snd ?k) [])
      = Some (fst v, app (add_used 1 s) (snd ?k @ snd v) [])" .
  show "tlv_item_uint32 s k f = Some (0, not_empty (app s (enc_pair ?k v) []))"
    using k v late_type_byte [OF ok, of "snd ?k @ snd v"] r4(3)
    by (simp add: tlv_item_uint32_def enc_pair_def Let_def)
  show "room s (length (enc_pair ?k v))" using r4(3) by (simp add: enc_pair_def)
qed

lemma not_empty_sflags: "not_empty t = set_sflags (sflags t OR NDPI_SERIALIZER_STATUS_NOT_EMPTY) t"
  by (simp add: raise_flag_def)

lemma ser_ok_grown: "grown k s t \<Longrightarrow> ser_ok t"
  by (simp add: grown_def)

section \<open>Numeric keys\<close>

lemma uint32_item_appends:
  assumes "env_ok env" "ser_ok s" "n < 2 ^ 29" "puts f v n"
  shows "appends env s (5 + n + 1028) (enc_pair (enc_u32 k) v)
     (let (rc, t) = ser_reserve env s (5 + n) in if rc < 0 then Some (-1, t) else tlv_item_uint32 t k f)"
proof (rule appends_reserve)
  fix t assume g: "grown (5 + n + 1028) s t" and r: "room t (5 + n)"
  from item_uint32_app [OF ser_ok_grown [OF g] r assms(4)]
  show "room t (length (enc_pair (enc_u32 k) v)) \<and>
      (\<exists>fl. tlv_item_uint32 t k f = Some (0, set_sflags fl (app t (enc_pair (enc_u32 k) v) [])))"
    by (auto simp: not_empty_sflags)
qed (use assms in simp_all)

lemma reserve_fmt: "ser_reserve env s n = (rc, t) \<Longrightarrow> fmt t = fmt s"
  by (auto simp: ser_reserve_def split: if_splits prod.splits)

lemma let_reserve_cong:
  assumes "\<And>t. fmt t = fmt s \<Longrightarrow> f t = g t"
  shows "(let (rc, t) = ser_reserve env s n in if rc < 0 then Some (-1, t) else f t)
       = (let (rc, t) = ser_reserve env s n in if rc < 0 then Some (-1, t) else g t)"
  using assms reserve_fmt by (auto simp: Let_def split: prod.splits)

lemma uint32_uint32_appends:
  assumes "env_ok env" "ser_ok s" "fmt s = ndpi_serialization_format_tlv"
  shows "appends env s 1037 (enc_pair (enc_u32 k) (enc_u32 v)) (ndpi_serialize_uint32_uint32 env s k v)"
proof -
  have "ndpi_serialize_uint32_uint32 env s k v = (let (rc, t) = ser_reserve env s (5 + 4)
      in if rc < 0 then Some (-1, t) else tlv_item_uint32 t k (\<lambda>s. tlv_value_uint32 s v))"
    using assms(3) reserve_fmt
    by (auto simp: ndpi_serialize_uint32_uint32_def Let_def split: prod.splits)
  with uint32_item_appends [OF assms(1,2) _ puts_intros(1), of k v] show ?thesis by simp
qed

lemma uint32_int32_appends:
  assumes "env_ok env" "ser_ok s" "fmt s = ndpi_serialization_format_tlv"
  shows "appends env s 1037 (enc_pair (enc_u32 k) (enc_i32 v)) (ndpi_serialize_uint32_int32 env s k v)"
proof -
  have "ndpi_serialize_uint32_int32 env s k v = (let (rc, t) = ser_reserve env s (5 + 4)
      in if rc < 0 then Some (-1, t) else tlv_item_uint32 t k (\<lambda>s. tlv_value_int32 s v))"
    using assms(3) reserve_fmt
    by (auto simp: ndpi_serialize_uint32_int32_def Let_def split: prod.splits)
  with uint32_item_appends [OF assms(1,2) _ puts_intros(2), of k v] show ?thesis by simp
qed

lemma uint32_float_appends:
  assumes "env_ok env" "ser_ok s" "fmt s = ndpi_serialization_format_tlv"
  shows "appends env s 1037 (enc_pair (enc_u32 k) (ndpi_serialization_float, le32 v))
           (ndpi_serialize_uint32_float env s k v f)"
proof -
  have "ndpi_serialize_uint32_float env s k v f = (let (rc, t) = ser_reserve env s (5 + 4)
      in if rc < 0 then Some (-1, t) else tlv_item_uint32 t k
        (\<lambda>s. do { s \<leftarrow> ndpi_serialize_single_float s v; Some (ndpi_serialization_float, s) }))"
    using assms(3) reserve_fmt
    by (auto simp: ndpi_serialize_uint32_float_def Let_def split: prod.splits)
  with uint32_item_appends [OF assms(1,2) _ puts_intros(4), of k ndpi_serialization_float v] show ?thesis by simp
qed

lemma uint32_binary_appends:
  assumes "env_ok env" "ser_ok s" "fmt s = ndpi_serialization_format_tlv"
    and "n \<le> length v" "n < 65536"
  shows "appends env s (n + 1035) (enc_pair (enc_u32 k) (enc_value (Text (take n v))))
           (ndpi_serialize_uint32_binary env s k v n)"
proof -
  have "ndpi_serialize_uint32_binary env s k v n = (let (rc, t) = ser_reserve env s (5 + (2 + n))
      in if rc < 0 then Some (-1, t) else tlv_item_uint32 t k
        (\<lambda>s. do { s \<leftarrow> ndpi_serialize_single_string s v n; Some (ndpi_serialization_string, s) }))"
    using assms(3) reserve_fmt
    by (auto simp: ndpi_serialize_uint32_binary_def Let_def split: prod.splits)
  with uint32_item_appends [OF assms(1,2) _ puts_intros(5), of n v k] assms(4,5)
  show ?thesis by (simp add: enc_str_def min_absorb2 add.commute)
qed

text \<open>
  The 64-bit appends reserve for their own widest case and, when the value fits, call the
  32-bit append, which finds the room already there.
\<close>

lemma uint32_uint64_appends:
  assumes "env_ok env" "ser_ok s" "fmt s = ndpi_serialization_format_tlv"
  shows "appends env s 2078 (enc_pair (enc_u32 k) (enc_value (U64 v)))
           (ndpi_serialize_uint32_uint64 env s k v)"
proof (cases "v \<le> 0xffffffff")
  case True
  have "ndpi_serialize_uint32_uint64 env s k v = (let (rc, t) = ser_reserve env s 13
      in if rc < 0 then Some (-1, t) else ndpi_serialize_uint32_uint32 env t k (ucast v))"
    using assms(3) reserve_fmt True
    by (auto simp: ndpi_serialize_uint32_uint64_def Let_def split: prod.splits)
  moreover have "appends env s (13 + 1028 + 1037) (enc_pair (enc_u32 k) (enc_u32 (ucast v)))
      (let (rc, t) = ser_reserve env s 13
       in if rc < 0 then Some (-1, t) else ndpi_serialize_uint32_uint32 env t k (ucast v))"
    by (rule appends_nested, use assms in \<open>simp_all\<close>)
      (rule uint32_uint32_appends, use assms in \<open>auto simp: ser_ok_grown grown_sel(2)\<close>)
  ultimately show ?thesis using True by simp
next
  case False
  have "ndpi_serialize_uint32_uint64 env s k v = (let (rc, t) = ser_reserve env s (5 + 8)
      in if rc < 0 then Some (-1, t) else tlv_item_uint32 t k
        (\<lambda>s. do { s \<leftarrow> ndpi_serialize_single_uint64 s v; Some (ndpi_serialization_uint64, s) }))"
    using assms(3) reserve_fmt False
    by (auto simp: ndpi_serialize_uint32_uint64_def Let_def split: prod.splits)
  with uint32_item_appends [OF assms(1,2) _ puts_intros(3), of k ndpi_serialization_uint64 v] False
  show ?thesis by (simp add: appends_weaken [of _ _ 1041])
qed

lemma uint32_int64_appends:
  assumes "env_ok env" "ser_ok s" "fmt s = ndpi_serialization_format_tlv"
  shows "appends env s 2078 (enc_pair (enc_u32 k) (enc_value (I64 v)))
           (ndpi_serialize_uint32_int64 env s k v)"
proof (cases "v AND 0xFFFFFFFF = v")
  case True
  have "ndpi_serialize_uint32_int64 env s k v = (let (rc, t) = ser_reserve env s 13
      in if rc < 0 then Some (-1, t) else ndpi_serialize_uint32_int32 env t k (ucast v))"
    using assms(3) reserve_fmt True
    by (auto simp: ndpi_serialize_uint32_int64_def Let_def split: prod.splits)
  moreover have "appends env s (13 + 1028 + 1037) (enc_pair (enc_u32 k) (enc_i32 (ucast v)))
      (let (rc, t) = ser_reserve env s 13
       in if rc < 0 then Some (-1, t) else ndpi_serialize_uint32_int32 env t k (ucast v))"
    by (rule appends_nested, use assms in \<open>simp_all\<close>)
      (rule uint32_int32_appends, use assms in \<open>auto simp: ser_ok_grown grown_sel(2)\<close>)
  ultimately show ?thesis using True by simp
next
  case False
  have "ndpi_serialize_uint32_int64 env s k v = (let (rc, t) = ser_reserve env s (5 + 8)
      in if rc < 0 then Some (-1, t) else tlv_item_uint32 t k
        (\<lambda>s. do { s \<leftarrow> ndpi_serialize_single_uint64 s v; Some (ndpi_serialization_int64, s) }))"
    using assms(3) reserve_fmt False
    by (auto simp: ndpi_serialize_uint32_int64_def Let_def split: prod.splits)
  with uint32_item_appends [OF assms(1,2) _ puts_intros(3), of k ndpi_serialization_int64 v] False
  show ?thesis by (simp add: appends_weaken [of _ _ 1041])
qed

section \<open>String keys\<close>

lemma is_number_take:
  "n \<le> length t \<Longrightarrow> ndpi_is_number t n = Some (list_all c_isdigit (take n t))"
  by (induction t n rule: ndpi_is_number.induct) auto

lemma read_digits_cstr:
  "list_all c_isdigit t \<Longrightarrow>
   read_digits a (t @ 0 # r) = Some (foldl (\<lambda>a b. 10 * a + (unat b - 48)) a t)"
  by (induction t arbitrary: a) (auto simp: c_isdigit_def)

lemma digit_not_space: "c_isdigit b \<Longrightarrow> \<not> c_isspace b \<and> b \<noteq> 45 \<and> b \<noteq> 43"
  by (auto simp: c_isdigit_def c_isspace_def word_le_nat_alt)

lemma key_atoi_cstr:
  assumes "list_all c_isdigit t" "dec_value t < 2 ^ 31"
  shows "key_atoi (cstr t) = Some (word_of_nat (dec_value t))"
proof -
  have sk: "skip_space (cstr t) = cstr t"
    using assms(1) by (cases t) (auto simp: cstr_def digit_not_space, simp add: c_isspace_def)
  have hd: "hd (cstr t) \<noteq> 45" "hd (cstr t) \<noteq> 43"
    using assms(1) by (cases t; auto simp: cstr_def digit_not_space)+
  have "read_digits 0 (cstr t) = Some (dec_value t)"
    using read_digits_cstr [OF assms(1), of 0 "[]"] by (simp add: cstr_def dec_value_def)
  with sk hd assms(2) show ?thesis
    by (simp add: key_atoi_def c_atoi_def Let_def)
qed

text \<open>
  A key that the code reads as the text \<open>take klen key\<close>: it is long enough, and if it is
  made of digits \<open>atoi\<close> reads the same number.
\<close>

definition key_ok :: "bytes \<Rightarrow> nat \<Rightarrow> bool" where
  "key_ok key klen \<longleftrightarrow> klen \<le> length key \<and> klen < 65536 \<and>
     (list_all c_isdigit (take klen key) \<longrightarrow>
        key_atoi key = Some (word_of_nat (dec_value (take klen key))))"

lemma key_ok_cstr:
  "length t < 65536 \<Longrightarrow> (list_all c_isdigit t \<longrightarrow> dec_value t < 2 ^ 31) \<Longrightarrow>
   key_ok (cstr t) (length t)"
  by (simp add: key_ok_def key_atoi_cstr)

lemma numeric_key_appends:
  assumes key: "key_ok key klen"
    and num: "\<And>k. appends env s c (enc_pair (enc_u32 k) v) (num k)"
    and other: "\<not> list_all c_isdigit (take klen key) \<Longrightarrow>
      appends env s c (enc_pair (enc_key (Name (take klen key))) v) other"
  shows "appends env s c (enc_pair (enc_key (norm_key (Name (take klen key)))) v)
     (with_numeric_key key klen num other)"
  using assms by (auto simp: with_numeric_key_def is_number_take key_ok_def)

definition puts_plain :: "(serializer \<Rightarrow> serializer option) \<Rightarrow> bytes \<Rightarrow> bool" where
  "puts_plain f v \<longleftrightarrow>
     (\<forall>s. ser_ok s \<longrightarrow> room s (length v) \<longrightarrow> f s = Some (app s v []))"

lemma puts_plain_intros:
  "puts_plain (\<lambda>s. ndpi_serialize_single_uint8 s a) [a]"
  "puts_plain (\<lambda>s. ndpi_serialize_single_uint16 s b) (be16 b)"
  "puts_plain (\<lambda>s. ndpi_serialize_single_uint32 s c) (be32 c)"
  "puts_plain (\<lambda>s. ndpi_serialize_single_uint64 s d) (ndpi_htonll d)"
  "puts_plain (\<lambda>s. ndpi_serialize_single_float s c) (le32 c)"
  "n \<le> length x \<Longrightarrow> puts_plain (\<lambda>s. ndpi_serialize_single_string s x n) (be16 (word_of_nat n) @ take n x)"
  by (simp_all add: puts_plain_def single_defs)

lemma item_string_app:
  assumes ok: "ser_ok s" and rm: "room s (3 + klen + length v)" and key: "klen \<le> length key"
    and put: "puts_plain f v"
  shows "tlv_item_string s et key klen f =
     Some (0, not_empty (app s (enc_pair (ndpi_serialization_string, be16 (word_of_nat klen) @ take klen key) (et, v)) []))"
proof -
  let ?t = "[type_byte ndpi_serialization_string et]"
  let ?k = "be16 (word_of_nat klen) @ take klen key"
  have r: "room s 1" "room s (Suc (2 + klen))" "room s (Suc (length ?k + length v))"
    using rm key by (auto intro: room_mono simp: min_absorb2)
  have "ser_ok (app s ?t [])" using ok r(1) by simp
  then have "ndpi_serialize_single_string (app s ?t []) key klen = Some (app s (?t @ ?k) [])"
    using ok r(2) key by (subst single_string_app) (auto simp: min_absorb2)
  moreover have "ser_ok (app s (?t @ ?k) [])" "room (app s (?t @ ?k) []) (length v)"
    using ok r(2,3) key by (auto intro!: ser_ok_app simp: min_absorb2)
  then have "f (app s (?t @ ?k) []) = Some (app s ((?t @ ?k) @ v) [])"
    using put ok r(3) by (auto simp: puts_plain_def intro!: app_app_nil)
  ultimately show ?thesis using ok r(1)
    by (simp add: tlv_item_string_def enc_pair_def)
qed

lemma string_item_appends:
  assumes "env_ok env" "ser_ok s" "needed < 2 ^ 30" "klen \<le> length key" "puts_plain f v"
    "3 + klen + length v \<le> needed"
  shows "appends env s (needed + 1028) (enc_pair (enc_key (Name (take klen key))) (et, v))
     (let (rc, t) = ser_reserve env s needed
      in if rc < 0 then Some (-1, t) else tlv_item_string t et key klen f)"
proof (rule appends_reserve)
  fix t assume g: "grown (needed + 1028) s t" and r: "room t needed"
  have "room t (3 + klen + length v)" using r assms(6) by (rule room_mono)
  with item_string_app [OF ser_ok_grown [OF g] this assms(4,5), of et] assms(4)
  show "room t (length (enc_pair (enc_key (Name (take klen key))) (et, v))) \<and>
      (\<exists>fl. tlv_item_string t et key klen f =
         Some (0, set_sflags fl (app t (enc_pair (enc_key (Name (take klen key))) (et, v)) [])))"
    by (auto simp: not_empty_sflags enc_str_def enc_pair_def min_absorb2 room_def)
qed (use assms in simp_all)

lemma reserve_tlv:
  assumes "fmt s = ndpi_serialization_format_tlv"
  shows "(case ser_reserve env s n of (rc, t) \<Rightarrow> if rc < 0 then Some (-1, t)
            else if fmt t = ndpi_serialization_format_json then a t
            else if fmt t = ndpi_serialization_format_csv then b t else c t)
       = (case ser_reserve env s n of (rc, t) \<Rightarrow> if rc < 0 then Some (-1, t) else c t)"
  using assms reserve_fmt by (auto split: prod.splits)

text \<open>An append with a string key, when it is a single reservation and a single item.\<close>

lemma keyed_appends:
  assumes "env_ok env" "ser_ok s" "key_ok key klen" "needed < 2 ^ 30"
    and put: "puts_plain f (snd v)" and len: "3 + klen + length (snd v) \<le> needed"
    and num: "\<And>k. appends env s c' (enc_pair (enc_u32 k) v) (num k)"
    and cost: "c' \<le> c" "needed + 1028 \<le> c"
  shows "appends env s c (enc_pair (enc_key (norm_key (Name (take klen key)))) v)
     (with_numeric_key key klen num (case ser_reserve env s needed of (rc, t) \<Rightarrow>
        if rc < 0 then Some (-1, t) else tlv_item_string t (fst v) key klen f))"
proof (rule numeric_key_appends [OF assms(3) appends_weaken [OF num cost(1)]])
  have "klen \<le> length key" using assms(3) by (simp add: key_ok_def)
  from string_item_appends [OF assms(1,2,4) this put len, of "fst v"]
  show "appends env s c (enc_pair (enc_key (Name (take klen key))) v)
      (case ser_reserve env s needed of (rc, t) \<Rightarrow>
        if rc < 0 then Some (-1, t) else tlv_item_string t (fst v) key klen f)"
    using cost(2) by (simp add: Let_def appends_weaken)
qed

lemma binary_int32_appends:
  assumes "env_ok env" "ser_ok s" "fmt s = ndpi_serialization_format_tlv" "key_ok key klen"
  shows "appends env s (klen + 1037) (enc_pair (enc_key (norm_key (Name (take klen key)))) (enc_i32 v))
           (ndpi_serialize_binary_int32 env s key klen v)"
proof -
  define f where "f = (if sint v \<le> 127 \<and> -128 \<le> sint v then (\<lambda>s. ndpi_serialize_single_uint8 s (ucast v))
      else if sint v \<le> 32767 \<and> -32768 \<le> sint v then (\<lambda>s. ndpi_serialize_single_uint16 s (ucast v))
      else (\<lambda>s. ndpi_serialize_single_uint32 s v))"
  have f: "puts_plain f (snd (enc_i32 v))"
    by (simp add: f_def enc_i32_def puts_plain_intros)
  have body: "(if sint v \<le> 127 \<and> -128 \<le> sint v then tlv_item_string t ndpi_serialization_int8 key klen
        (\<lambda>s. ndpi_serialize_single_uint8 s (ucast v))
      else if sint v \<le> 32767 \<and> -32768 \<le> sint v then tlv_item_string t ndpi_serialization_int16 key klen
        (\<lambda>s. ndpi_serialize_single_uint16 s (ucast v))
      else tlv_item_string t ndpi_serialization_int32 key klen (\<lambda>s. ndpi_serialize_single_uint32 s v))
      = tlv_item_string t (fst (enc_i32 v)) key klen f" for t
    by (simp add: f_def enc_i32_def)
  have eq: "ndpi_serialize_binary_int32 env s key klen v =
      with_numeric_key key klen (\<lambda>k. ndpi_serialize_uint32_int32 env s k v)
       (case ser_reserve env s (1 + 2 + klen + 4) of (rc, t) \<Rightarrow>
          if rc < 0 then Some (-1, t) else tlv_item_string t (fst (enc_i32 v)) key klen f)"
    using assms(3) unfolding ndpi_serialize_binary_int32_def Let_def body by (simp add: reserve_tlv)
  show ?thesis unfolding eq
    by (rule keyed_appends [OF assms(1,2,4) _ f _ uint32_int32_appends [OF assms(1-3)]])
      (use assms(4) length_enc_i32 [of v] in \<open>auto simp: key_ok_def\<close>)
qed

lemma binary_uint32_appends:
  assumes "env_ok env" "ser_ok s" "fmt s = ndpi_serialization_format_tlv" "key_ok key klen"
  shows "appends env s (klen + 1071) (enc_pair (enc_key (norm_key (Name (take klen key)))) (enc_u32 v))
           (ndpi_serialize_binary_uint32 env s key klen v)"
proof -
  define f where "f = (if v \<le> 0xff then (\<lambda>s. ndpi_serialize_single_uint8 s (ucast v))
      else if v \<le> 0xffff then (\<lambda>s. ndpi_serialize_single_uint16 s (ucast v))
      else (\<lambda>s. ndpi_serialize_single_uint32 s v))"
  have f: "puts_plain f (snd (enc_u32 v))"
    by (simp add: f_def enc_u32_def puts_plain_intros)
  have body: "(if v \<le> 0xff then tlv_item_string t ndpi_serialization_uint8 key klen
        (\<lambda>s. ndpi_serialize_single_uint8 s (ucast v))
      else if v \<le> 0xffff then tlv_item_string t ndpi_serialization_uint16 key klen
        (\<lambda>s. ndpi_serialize_single_uint16 s (ucast v))
      else tlv_item_string t ndpi_serialization_uint32 key klen (\<lambda>s. ndpi_serialize_single_uint32 s v))
      = tlv_item_string t (fst (enc_u32 v)) key klen f" for t
    by (simp add: f_def enc_u32_def)
  have eq: "ndpi_serialize_binary_uint32 env s key klen v =
      with_numeric_key key klen (\<lambda>k. ndpi_serialize_uint32_uint32 env s k v)
       (case ser_reserve env s (1 + 2 + klen + 4 + 20 + 16) of (rc, t) \<Rightarrow>
          if rc < 0 then Some (-1, t) else tlv_item_string t (fst (enc_u32 v)) key klen f)"
    using assms(3) unfolding ndpi_serialize_binary_uint32_def Let_def body by (simp add: reserve_tlv)
  show ?thesis unfolding eq
    by (rule keyed_appends [OF assms(1,2,4) _ f _ uint32_uint32_appends [OF assms(1-3)]])
      (use assms(4) length_enc_u32 [of v] in \<open>auto simp: key_ok_def\<close>)
qed

lemma binary_float_appends:
  assumes "env_ok env" "ser_ok s" "fmt s = ndpi_serialization_format_tlv" "key_ok key klen"
  shows "appends env s (klen + 1037)
           (enc_pair (enc_key (norm_key (Name (take klen key)))) (ndpi_serialization_float, le32 v))
           (ndpi_serialize_binary_float env s key klen v f)"
proof -
  have eq: "ndpi_serialize_binary_float env s key klen v f =
      with_numeric_key key klen (\<lambda>k. ndpi_serialize_uint32_float env s k v f)
       (case ser_reserve env s (1 + 2 + klen + 4) of (rc, t) \<Rightarrow> if rc < 0 then Some (-1, t)
          else tlv_item_string t ndpi_serialization_float key klen
                 (\<lambda>s. ndpi_serialize_single_float s v))"
    using assms(3) by (simp add: ndpi_serialize_binary_float_def Let_def reserve_tlv)
  show ?thesis unfolding eq
    by (rule keyed_appends [where v = "(ndpi_serialization_float, le32 v)", unfolded fst_conv snd_conv,
          OF assms(1,2,4) _ puts_plain_intros(5) _ uint32_float_appends [OF assms(1-3)]])
      (use assms(4) in \<open>auto simp: key_ok_def\<close>)
qed

lemma binary_raw_appends:
  assumes "env_ok env" "ser_ok s" "fmt s = ndpi_serialization_format_tlv"
    and "klen \<le> length key" "klen < 65536" "n \<le> length v" "n < 65536"
  shows "appends env s (klen + n + 1033)
           (enc_pair (enc_key (Name (take klen key))) (enc_value (Text (take n v))))
           (ndpi_serialize_binary_raw env s key klen v n e)"
proof -
  have eq: "ndpi_serialize_binary_raw env s key klen v n e =
     (let (rc, t) = ser_reserve env s (1 + 2 + klen + 2 + n) in if rc < 0 then Some (-1, t)
      else tlv_item_string t ndpi_serialization_string key klen (\<lambda>s. ndpi_serialize_single_string s v n))"
    using assms(3) by (simp add: ndpi_serialize_binary_raw_def Let_def reserve_tlv)
  have "appends env s (1 + 2 + klen + 2 + n + 1028) (enc_pair (enc_key (Name (take klen key)))
      (ndpi_serialization_string, be16 (word_of_nat n) @ take n v))
      (ndpi_serialize_binary_raw env s key klen v n e)"
    unfolding eq using assms by (intro string_item_appends puts_plain_intros) auto
  then show ?thesis using assms(6) by (simp add: enc_str_def min_absorb2 ac_simps)
qed

lemma binary_binary_appends:
  assumes "env_ok env" "ser_ok s" "fmt s = ndpi_serialization_format_tlv" "key_ok key klen"
    and "n \<le> length v" "n < 65536"
  shows "appends env s (klen + n + 1035)
           (enc_pair (enc_key (norm_key (Name (take klen key)))) (enc_value (Text (take n v))))
           (ndpi_serialize_binary_binary env s key klen (Some v) n)"
  unfolding ndpi_serialize_binary_binary_def Let_def option.case
proof (rule numeric_key_appends [OF assms(4)])
  show "appends env s (klen + n + 1035) (enc_pair (enc_u32 k) (enc_value (Text (take n v))))
      (ndpi_serialize_uint32_binary env s k v n)" for k
    using uint32_binary_appends [OF assms(1-3,5,6)] by (rule appends_weaken) simp
  show "appends env s (klen + n + 1035)
      (enc_pair (enc_key (Name (take klen key))) (enc_value (Text (take n v))))
      (ndpi_serialize_binary_raw env s key klen v n True)"
    by (rule appends_weaken [OF binary_raw_appends [OF assms(1-3) _ _ assms(5,6)]])
      (use assms(4) in \<open>simp_all add: key_ok_def\<close>)
qed

lemma string_uint32_appends:
  assumes "env_ok env" "ser_ok s" "fmt s = ndpi_serialization_format_tlv"
    "key_ok key klen" "c_strlen key = Some klen"
  shows "appends env s (klen + 1071) (enc_pair (enc_key (norm_key (Name (take klen key)))) (enc_u32 v))
           (ndpi_serialize_string_uint32 env s key v)"
  using binary_uint32_appends [OF assms(1-4), of v] assms(4,5)
  by (simp add: ndpi_serialize_string_uint32_def key_ok_def)

lemma string_int32_appends:
  assumes "env_ok env" "ser_ok s" "fmt s = ndpi_serialization_format_tlv"
    "key_ok key klen" "c_strlen key = Some klen"
  shows "appends env s (klen + 1037) (enc_pair (enc_key (norm_key (Name (take klen key)))) (enc_i32 v))
           (ndpi_serialize_string_int32 env s key v)"
  using binary_int32_appends [OF assms(1-4), of v] assms(3-5)
  by (simp add: ndpi_serialize_string_int32_def key_ok_def)

lemma binary_uint64_appends:
  assumes "env_ok env" "ser_ok s" "fmt s = ndpi_serialization_format_tlv" "key_ok key klen"
    and "v \<le> 0xffffffff \<Longrightarrow> c_strlen key = Some klen"
  shows "appends env s (2 * klen + 2110) (enc_pair (enc_key (norm_key (Name (take klen key)))) (enc_value (U64 v)))
           (ndpi_serialize_binary_uint64 env s key klen v)"
proof (cases "v \<le> 0xffffffff")
  case False
  have eq: "ndpi_serialize_binary_uint64 env s key klen v =
      with_numeric_key key klen (\<lambda>k. ndpi_serialize_uint32_uint64 env s k v)
       (case ser_reserve env s (1 + 2 + klen + 8) of (rc, t) \<Rightarrow> if rc < 0 then Some (-1, t)
          else tlv_item_string t ndpi_serialization_uint64 key klen (\<lambda>s. ndpi_serialize_single_uint64 s v))"
    using assms(3) unfolding ndpi_serialize_binary_uint64_def Let_def if_not_P [OF False]
    by (simp add: reserve_tlv)
  have enc: "enc_value (U64 v) = (ndpi_serialization_uint64, ndpi_htonll v)" using False by simp
  show ?thesis unfolding eq enc
    by (rule keyed_appends [where v = "(ndpi_serialization_uint64, ndpi_htonll v)",
          unfolded fst_conv snd_conv, OF assms(1,2,4) _ puts_plain_intros(4) _
          uint32_uint64_appends [OF assms(1-3), where v = v, unfolded enc]])
      (use assms(4) in \<open>auto simp: key_ok_def\<close>)
next
  case True
  let ?r = "case ser_reserve env s (1 + 2 + klen + 8) of (rc, t) \<Rightarrow> if rc < 0 then Some (-1, t)
          else ndpi_serialize_string_uint32 env t key (ucast v)"
  have eq: "ndpi_serialize_binary_uint64 env s key klen v =
      with_numeric_key key klen (\<lambda>k. ndpi_serialize_uint32_uint64 env s k v) ?r"
    using assms(3) unfolding ndpi_serialize_binary_uint64_def Let_def if_P [OF True]
    by (simp add: reserve_tlv)
  show ?thesis unfolding eq
  proof (rule numeric_key_appends [OF assms(4)])
    show "appends env s (2 * klen + 2110) (enc_pair (enc_u32 k) (enc_value (U64 v)))
        (ndpi_serialize_uint32_uint64 env s k v)" for k
      using uint32_uint64_appends [OF assms(1-3)] by (rule appends_weaken) simp
    assume nd: "\<not> list_all c_isdigit (take klen key)"
    have "appends env s (1 + 2 + klen + 8 + 1028 + (klen + 1071))
          (enc_pair (enc_key (Name (take klen key))) (enc_u32 (ucast v)))
          (let (rc, t) = ser_reserve env s (1 + 2 + klen + 8) in if rc < 0 then Some (-1, t)
           else ndpi_serialize_string_uint32 env t key (ucast v))"
    proof (rule appends_nested [OF assms(1,2)])
      show "1 + 2 + klen + 8 < 2 ^ 30" using assms(4) by (simp add: key_ok_def)
      fix t assume g: "grown (1 + 2 + klen + 8 + 1028) s t"
      then have "ser_ok t" "fmt t = ndpi_serialization_format_tlv"
        using assms(3) by (auto simp: ser_ok_grown grown_sel(2))
      from string_uint32_appends [OF assms(1) this assms(4) assms(5) [OF True], of "ucast v"] nd
      show "appends env t (klen + 1071) (enc_pair (enc_key (Name (take klen key))) (enc_u32 (ucast v)))
          (ndpi_serialize_string_uint32 env t key (ucast v))" by simp
    qed
    then show "appends env s (2 * klen + 2110) (enc_pair (enc_key (Name (take klen key))) (enc_value (U64 v))) ?r"
      using True by (simp add: Let_def ac_simps)
  qed
qed

section \<open>Records, blocks and lists\<close>

lemma set_sflags_app [simp]: "set_sflags (sflags s) (app s xs ys) = app s xs ys"
  by (simp add: set_sflags_def app_def ser_upd_defs)

lemma put_app_body:
  assumes "ser_ok t" "room t (length xs)"
  shows "\<exists>f. (do { s \<leftarrow> ser_put t xs; Some (0 :: int, s) }) = Some (0, set_sflags f (app t xs []))"
  using assms by (intro exI [of _ "sflags t"]) simp

lemma put_string_body:
  assumes "ser_ok t" "room t (16 + n)" "n \<le> length key"
  shows "room t (length (b # enc_str (take n key))) \<and>
    (\<exists>f. (do { s \<leftarrow> ser_put t [b]; s \<leftarrow> ndpi_serialize_single_string s key n; Some (0 :: int, s) })
       = Some (0, set_sflags f (app t (b # enc_str (take n key)) [])))"
proof -
  have r: "room t 1" "room t (3 + n)" using assms(2) by (auto intro: room_mono)
  have "ndpi_serialize_single_string (app t [b] []) key n = Some (app t (b # enc_str (take n key)) [])"
    using assms(1,3) r by (subst single_string_app) (auto simp: enc_str_def min_absorb2 eval_nat_numeral)
  then show ?thesis using assms(1,3) r by (auto simp: min_absorb2 eval_nat_numeral intro!: exI [of _ "sflags t"])
qed

lemma tlv_is_neither: "fmt s = ndpi_serialization_format_tlv \<Longrightarrow>
    fmt s \<noteq> ndpi_serialization_format_json \<and> fmt s \<noteq> ndpi_serialization_format_csv"
  by simp

lemma start_of_block_appends:
  assumes "env_ok env" "ser_ok s" "fmt s = ndpi_serialization_format_tlv" "n \<le> length key" "n < 65536"
  shows "appends env s (16 + n + 1028) (enc_item (Start_block (take n key)))
           (ndpi_serialize_start_of_block_binary env s key n)"
proof -
  have eq: "ndpi_serialize_start_of_block_binary env s key n =
      (let (rc, t) = ser_reserve env s (16 + n) in if rc < 0 then Some (-1, t)
       else do { s \<leftarrow> ser_put t [type_code ndpi_serialization_start_of_block];
                 s \<leftarrow> ndpi_serialize_single_string s key n; Some (0, s) })"
    using assms(3) reserve_fmt
    by (auto simp: ndpi_serialize_start_of_block_binary_def Let_def split: prod.splits)
  show ?thesis unfolding eq
  proof (rule appends_reserve)
    fix t assume g: "grown (16 + n + 1028) s t" and r: "room t (16 + n)"
    from put_string_body [OF ser_ok_grown [OF g] r assms(4)]
    show "room t (length (enc_item (Start_block (take n key)))) \<and>
      (\<exists>f. (do { s \<leftarrow> ser_put t [type_code ndpi_serialization_start_of_block];
                 s \<leftarrow> ndpi_serialize_single_string s key n; Some (0 :: int, s) })
        = Some (0, set_sflags f (app t (enc_item (Start_block (take n key))) [])))"
      unfolding enc_item.simps .
  qed (use assms in simp_all)
qed

lemma start_of_list_appends:
  assumes "env_ok env" "ser_ok s" "fmt s = ndpi_serialization_format_tlv" "n \<le> length key" "n < 65536"
  shows "appends env s (16 + n + 1028) (enc_item (Start_list (take n key)))
           (ndpi_serialize_start_of_list_binary env s key n)"
proof -
  have eq: "ndpi_serialize_start_of_list_binary env s key n =
      (let (rc, t) = ser_reserve env s (16 + n) in if rc < 0 then Some (-1, t)
       else do { s \<leftarrow> ser_put t [type_code ndpi_serialization_start_of_list];
                 s \<leftarrow> ndpi_serialize_single_string s key n; Some (0, s) })"
    using assms(3) reserve_fmt
    by (auto simp: ndpi_serialize_start_of_list_binary_def Let_def split: prod.splits)
  show ?thesis unfolding eq
  proof (rule appends_reserve)
    fix t assume g: "grown (16 + n + 1028) s t" and r: "room t (16 + n)"
    from put_string_body [OF ser_ok_grown [OF g] r assms(4)]
    show "room t (length (enc_item (Start_list (take n key)))) \<and>
      (\<exists>f. (do { s \<leftarrow> ser_put t [type_code ndpi_serialization_start_of_list];
                 s \<leftarrow> ndpi_serialize_single_string s key n; Some (0 :: int, s) })
        = Some (0, set_sflags f (app t (enc_item (Start_list (take n key))) [])))"
      unfolding enc_item.simps .
  qed (use assms in simp_all)
qed

lemma end_of_block_appends:
  assumes "env_ok env" "ser_ok s" "fmt s = ndpi_serialization_format_tlv"
  shows "appends env s 1032 (enc_item End_block) (ndpi_serialize_end_of_block env s)"
proof -
  have eq: "ndpi_serialize_end_of_block env s =
      (let (rc, t) = ser_reserve env s 4 in if rc < 0 then Some (-1, t)
       else do { s \<leftarrow> ser_put t (enc_item End_block); Some (0, s) })"
    using assms(3) reserve_fmt
    by (auto simp: ndpi_serialize_end_of_block_def Let_def split: prod.splits)
  have "appends env s (4 + 1028) (enc_item End_block) (ndpi_serialize_end_of_block env s)"
    unfolding eq
  proof (rule appends_reserve)
    fix t assume g: "grown (4 + 1028) s t" and r: "room t 4"
    have r1: "room t (length (enc_item End_block))" using r by (rule room_mono) simp
    show "room t (length (enc_item End_block)) \<and>
        (\<exists>f. (do { s \<leftarrow> ser_put t (enc_item End_block); Some (0 :: int, s) })
           = Some (0, set_sflags f (app t (enc_item End_block) [])))"
      using r1 put_app_body [OF ser_ok_grown [OF g] r1] by blast
  qed (use assms in simp_all)
  then show ?thesis by simp
qed

lemma end_of_record_appends:
  assumes "env_ok env" "ser_ok s" "fmt s = ndpi_serialization_format_tlv"
  shows "appends env s 1029 (enc_item End_record) (ndpi_serialize_end_of_record env s)"
proof -
  have eq: "ndpi_serialize_end_of_record env s =
      (let (rc, t) = ser_reserve env s 1 in if rc < 0 then Some (-1, t)
       else do { s \<leftarrow> ser_put t (enc_item End_record);
                 Some (0, drop_flag NDPI_SERIALIZER_STATUS_NOT_EMPTY s) })"
    using assms(3) reserve_fmt
    by (auto simp: ndpi_serialize_end_of_record_def Let_def split: prod.splits)
  have "appends env s (1 + 1028) (enc_item End_record) (ndpi_serialize_end_of_record env s)"
    unfolding eq
  proof (rule appends_reserve)
    fix t assume g: "grown (1 + 1028) s t" and r: "room t 1"
    then show "room t (length (enc_item End_record)) \<and>
        (\<exists>f. (do { s \<leftarrow> ser_put t (enc_item End_record);
                   Some (0 :: int, drop_flag NDPI_SERIALIZER_STATUS_NOT_EMPTY s) })
           = Some (0, set_sflags f (app t (enc_item End_record) [])))"
      by (auto simp: ser_ok_grown drop_flag_def)
  qed (use assms in simp_all)
  then show ?thesis by simp
qed

section \<open>The calls of an API user\<close>

text \<open>
  One API call per item. The text a format prints is not used in TLV.
\<close>

fun tlv_call :: "c_env \<Rightarrow> serializer \<Rightarrow> tlv_item \<Rightarrow> (int \<times> serializer) option" where
  "tlv_call env s (Item (Num k) (U32 v)) = ndpi_serialize_uint32_uint32 env s k v"
| "tlv_call env s (Item (Num k) (U64 v)) = ndpi_serialize_uint32_uint64 env s k v"
| "tlv_call env s (Item (Num k) (I32 v)) = ndpi_serialize_uint32_int32 env s k v"
| "tlv_call env s (Item (Num k) (I64 v)) = ndpi_serialize_uint32_int64 env s k v"
| "tlv_call env s (Item (Num k) (Flt v)) = ndpi_serialize_uint32_float env s k v (\<lambda>_. [])"
| "tlv_call env s (Item (Num k) (Text t)) = ndpi_serialize_uint32_binary env s k t (length t)"
| "tlv_call env s (Item (Name n) (U32 v)) = ndpi_serialize_string_uint32 env s (cstr n) v"
| "tlv_call env s (Item (Name n) (U64 v)) = ndpi_serialize_string_uint64 env s (cstr n) v"
| "tlv_call env s (Item (Name n) (I32 v)) = ndpi_serialize_string_int32 env s (cstr n) v"
| "tlv_call env s (Item (Name n) (I64 v)) = ndpi_serialize_string_int64 env s (cstr n) v"
| "tlv_call env s (Item (Name n) (Flt v)) = ndpi_serialize_string_float env s (cstr n) v (\<lambda>_. [])"
| "tlv_call env s (Item (Name n) (Text t)) =
     ndpi_serialize_string_binary env s (cstr n) (Some t) (length t)"
| "tlv_call env s End_record = ndpi_serialize_end_of_record env s"
| "tlv_call env s (Start_block n) = ndpi_serialize_start_of_block env s (Some (cstr n))"
| "tlv_call env s End_block = ndpi_serialize_end_of_block env s"
| "tlv_call env s (Start_list n) = ndpi_serialize_start_of_list env s (Some (cstr n))"
| "tlv_call env s End_list = ndpi_serialize_end_of_list s"

text \<open>
  The arguments for which the calls are defined: names are C strings of less than 64 KiB,
  and a name of digits denotes a number that fits an \<open>int\<close>. Two calls are left out,
  because they do not reserve the bytes they write: a 64-bit signed value under a name, and
  the end of a list.
\<close>

definition name_ok :: "bytes \<Rightarrow> bool" where
  "name_ok n \<longleftrightarrow> length n < 65536 \<and> 0 \<notin> set n \<and> (list_all c_isdigit n \<longrightarrow> dec_value n < 2 ^ 31)"

fun call_ok :: "tlv_item \<Rightarrow> bool" where
  "call_ok (Item (Num k) (Text t)) \<longleftrightarrow> length t < 65536"
| "call_ok (Item (Num k) v) \<longleftrightarrow> True"
| "call_ok (Item (Name n) (I64 v)) \<longleftrightarrow> False"
| "call_ok (Item (Name n) (Text t)) \<longleftrightarrow> name_ok n \<and> length t < 65536"
| "call_ok (Item (Name n) v) \<longleftrightarrow> name_ok n"
| "call_ok (Start_block n) \<longleftrightarrow> length n < 65536 \<and> 0 \<notin> set n"
| "call_ok (Start_list n) \<longleftrightarrow> length n < 65536 \<and> 0 \<notin> set n"
| "call_ok End_list \<longleftrightarrow> False"
| "call_ok it \<longleftrightarrow> True"

text \<open>A bound on how much one call can grow the buffer.\<close>

fun call_cost :: "tlv_item \<Rightarrow> nat" where
  "call_cost (Item (Num k) (Text t)) = length t + 2110"
| "call_cost (Item (Num k) v) = 2110"
| "call_cost (Item (Name n) (Text t)) = 2 * length n + length t + 2110"
| "call_cost (Item (Name n) v) = 2 * length n + 2110"
| "call_cost (Start_block n) = length n + 2110"
| "call_cost (Start_list n) = length n + 2110"
| "call_cost it = 2110"

lemma key_ok_name: "name_ok n \<Longrightarrow> key_ok (cstr n) (length n) \<and> c_strlen (cstr n) = Some (length n)"
  by (simp add: name_ok_def key_ok_cstr)

interpretation tlv: tlv_appender tlv_call enc_item call_ok call_cost
proof
  fix env s it
  assume A: "env_ok env" "ser_ok s" "fmt s = ndpi_serialization_format_tlv" and ok: "call_ok it"
  show "appends env s (call_cost it) (enc_item it) (tlv_call env s it)"
  proof (cases it)
    case (Item k v)
    show ?thesis
    proof (cases k)
      case (Num a)
      show ?thesis
        by (cases v; unfold Item Num tlv_call.simps enc_item.simps call_cost.simps norm_key.simps enc_key.simps)
          (use ok Item Num appends_weaken [OF uint32_uint32_appends [OF A]]
              appends_weaken [OF uint32_uint64_appends [OF A]]
              appends_weaken [OF uint32_int32_appends [OF A]]
              appends_weaken [OF uint32_int64_appends [OF A]]
              appends_weaken [OF uint32_float_appends [OF A]]
              appends_weaken [OF uint32_binary_appends [OF A order_refl]] in auto)
    next
      case (Name n)
      have n: "name_ok n" using ok Item Name by (cases v) auto
      then have K: "key_ok (cstr n) (length n)" "c_strlen (cstr n) = Some (length n)" "length n < 65536"
        using key_ok_name by (simp_all add: name_ok_def)
      show ?thesis
      proof (cases v)
        case (U32 x)
        with appends_weaken [OF string_uint32_appends [OF A K(1,2)]] show ?thesis by (simp add: Item Name)
      next
        case (U64 x)
        with appends_weaken [OF binary_uint64_appends [OF A K(1,2)]] K
        show ?thesis by (simp add: Item Name ndpi_serialize_string_uint64_def)
      next
        case (I32 x)
        with appends_weaken [OF string_int32_appends [OF A K(1,2)]] show ?thesis by (simp add: Item Name)
      next
        case (Flt x)
        with appends_weaken [OF binary_float_appends [OF A K(1)]] K
        show ?thesis by (simp add: Item Name ndpi_serialize_string_float_def)
      next
        case (Text x)
        with appends_weaken [OF binary_binary_appends [OF A K(1) order_refl]] K ok
        show ?thesis by (simp add: Item Name ndpi_serialize_string_binary_def)
      qed (use ok Item Name in simp)
    qed
  next
    case (Start_block n)
    with appends_weaken [OF start_of_block_appends [OF A], of "length n" "cstr n"] ok
    show ?thesis by (simp add: ndpi_serialize_start_of_block_def)
  next
    case (Start_list n)
    with appends_weaken [OF start_of_list_appends [OF A], of "length n" "cstr n"] ok
    show ?thesis by (simp add: ndpi_serialize_start_of_list_def)
  next
    case End_block
    with appends_weaken [OF end_of_block_appends [OF A]] show ?thesis by simp
  next
    case End_record
    with appends_weaken [OF end_of_record_appends [OF A]] show ?thesis by simp
  qed (use ok in simp)
qed

section \<open>A whole stream\<close>

lemma init_tlv:
  assumes "env_ok env" "alloc_ok env n" "2 \<le> n"
  shows "\<exists>s. ndpi_init_serializer_ll env ndpi_serialization_format_tlv n = Some (0, s) \<and> ser_ok s
     \<and> fmt s = ndpi_serialization_format_tlv \<and> content s = [1, 1] \<and> ssize s = n"
proof -
  obtain m where n: "n = Suc (Suc m)" using assms(3) by (metis add_2_eq_Suc le_Suc_ex)
  have "n < 2 ^ 31" using assms by (simp add: env_ok_def)
  then show ?thesis using assms n
    by (simp add: ndpi_init_serializer_ll_def ndpi_init_serializer_buffer_def zero_serializer_def
        zero_buffer_def c_calloc_def ser_poke_at_def poke_def ser_upd_defs ndpi_reset_serializer_def
        ser_ok_def content_def)
qed

text \<open>
  An environment for the witnesses: allocations of less than 1 MiB succeed.
\<close>

definition roomy_env :: c_env where
  "roomy_env = \<lparr>char_signed = False, alloc_ok = (\<lambda>n. n < 2 ^ 20), indet = (\<lambda>_. 0xaa)\<rparr>"

lemma roomy_env_ok: "env_ok roomy_env"
  by (simp add: env_ok_def roomy_env_def)

lemma roomy_alloc: "n < 2 ^ 20 \<Longrightarrow> alloc_ok roomy_env n"
  by (simp add: roomy_env_def)

text \<open>
  C14. Every run of valid TLV calls on a fresh serializer returns 0 when the allocations
  succeed, never writes outside its buffer, and leaves exactly the version byte, the format
  byte and the encoded items, in call order, in the buffer.
\<close>

theorem tlv_stream_bytes:
  assumes env: "env_ok env" "alloc_ok env n" "2 \<le> n" and calls: "list_all call_ok its"
    and grow: "\<forall>k \<le> n + sum_list (map call_cost its). alloc_ok env k"
  shows "\<exists>s t. ndpi_init_serializer_ll env ndpi_serialization_format_tlv n = Some (0, s)
     \<and> run_calls tlv_call env s its = Some (0, t)
     \<and> content t = [1, 1] @ concat (map enc_item its)
     \<and> length (sdata t) = ssize t \<and> used t \<le> ssize t"
proof -
  from init_tlv [OF env] obtain s where s:
    "ndpi_init_serializer_ll env ndpi_serialization_format_tlv n = Some (0, s)" "ser_ok s"
    "fmt s = ndpi_serialization_format_tlv" "content s = [1, 1]" "ssize s = n" by blast
  have "can_grow env s (sum_list (map call_cost its))" using grow s by (simp add: can_grow_def)
  with tlv.run_appends [OF env(1) s(2,3) calls] s show ?thesis
    by (auto simp: ser_ok_def)
qed

theorem tlv_stream_bytes_witness:
  "\<exists>s t. ndpi_init_serializer_ll roomy_env ndpi_serialization_format_tlv 2 = Some (0, s)
     \<and> run_calls tlv_call roomy_env s [Item (Num 7) (U32 300), End_record] = Some (0, t)
     \<and> content t = [1, 1, 0x23, 7, 1, 44, 1] \<and> length (sdata t) = ssize t \<and> used t \<le> ssize t"
proof -
  have "\<forall>k \<le> 2 + sum_list (map call_cost [Item (Num 7) (U32 300), End_record]). alloc_ok roomy_env k"
    by (auto intro: roomy_alloc)
  moreover have "[1, 1] @ concat (map enc_item [Item (Num 7) (U32 300), End_record]) = [1, 1, 0x23, 7, 1, 44, 1]"
    by code_simp
  ultimately show ?thesis
    using tlv_stream_bytes [OF roomy_env_ok roomy_alloc [of 2], of "[Item (Num 7) (U32 300), End_record]"]
     by simp
qed
end
