(* ===== verification/Deserializer.thy ===== *)
theory Deserializer
  imports Serializer_Blocks
begin

text \<open>
  The TLV reader of \<^verbatim>\<open>ndpi_serializer.c\<close>. A deserializer is the same struct as a
  serializer; its \<open>size_used\<close> is the read position. A value stored through an out parameter
  is returned, and an out parameter that a branch leaves alone keeps the value it had, which
  the caller passes in. \<open>expected\<close> and the sizes are \<open>u_int16_t\<close> in the source, so they
  wrap at 65536, and the error code of the string size is cut to 16 bits on its way out.
\<close>

record ndpi_string =
  str_ptr :: bytes
  str_len :: nat

section \<open>Opening a buffer\<close>

definition ndpi_init_deserializer_buf ::
  "serializer \<Rightarrow> bytes \<Rightarrow> nat \<Rightarrow> (int \<times> serializer) option" where
  "ndpi_init_deserializer_buf d serialized_buffer serialized_buffer_len =
     (if serialized_buffer_len < 2 then Some (-1, d)
      else do {
        let d = d\<lparr>buffer := (buffer d)\<lparr>bdata := serialized_buffer\<rparr>\<rparr>;
        version \<leftarrow> peek (sdata d) 0;
        if version \<noteq> 1 then Some (-2, d)
        else do {
          f \<leftarrow> peek (sdata d) 1;
          d \<leftarrow> ndpi_reset_serializer
                 (d\<lparr>buffer := (buffer d)\<lparr>bsize := serialized_buffer_len\<rparr>, fmt := unat f\<rparr>);
          Some (0, d)
        }
      })"

definition ndpi_init_deserializer :: "serializer \<Rightarrow> serializer \<Rightarrow> (int \<times> serializer) option" where
  "ndpi_init_deserializer d s = ndpi_init_deserializer_buf d (sdata s) (used s)"

definition ndpi_deserialize_get_format :: "serializer \<Rightarrow> nat" where
  "ndpi_deserialize_get_format d = fmt d"

section \<open>Single values\<close>

definition ndpi_deserialize_single_uint8 :: "serializer \<Rightarrow> nat \<Rightarrow> u8 option" where
  "ndpi_deserialize_single_uint8 d offset = peek (sdata d) offset"

definition ndpi_deserialize_single_uint16 :: "serializer \<Rightarrow> nat \<Rightarrow> u16 option" where
  "ndpi_deserialize_single_uint16 d offset = map_option of_be16 (peek_run (sdata d) offset 2)"

definition ndpi_deserialize_single_uint32 :: "serializer \<Rightarrow> nat \<Rightarrow> u32 option" where
  "ndpi_deserialize_single_uint32 d offset = map_option of_be32 (peek_run (sdata d) offset 4)"

definition ndpi_deserialize_single_int8 :: "serializer \<Rightarrow> nat \<Rightarrow> u8 option" where
  "ndpi_deserialize_single_int8 d offset = peek (sdata d) offset"

definition ndpi_deserialize_single_int16 :: "serializer \<Rightarrow> nat \<Rightarrow> u16 option" where
  "ndpi_deserialize_single_int16 d offset = map_option of_be16 (peek_run (sdata d) offset 2)"

definition ndpi_deserialize_single_int32 :: "serializer \<Rightarrow> nat \<Rightarrow> u32 option" where
  "ndpi_deserialize_single_int32 d offset = map_option of_be32 (peek_run (sdata d) offset 4)"

definition ndpi_deserialize_single_uint64 :: "serializer \<Rightarrow> nat \<Rightarrow> u64 option" where
  "ndpi_deserialize_single_uint64 d offset = map_option ndpi_ntohll (peek_run (sdata d) offset 8)"

definition ndpi_deserialize_single_int64 :: "serializer \<Rightarrow> nat \<Rightarrow> u64 option" where
  "ndpi_deserialize_single_int64 d offset = map_option ndpi_ntohll (peek_run (sdata d) offset 8)"

definition ndpi_deserialize_single_float :: "serializer \<Rightarrow> nat \<Rightarrow> u32 option" where
  "ndpi_deserialize_single_float d offset = map_option of_le32 (peek_run (sdata d) offset 4)"

definition ndpi_deserialize_single_string :: "serializer \<Rightarrow> nat \<Rightarrow> ndpi_string option" where
  "ndpi_deserialize_single_string d offset = do {
     l \<leftarrow> peek_run (sdata d) offset 2;
     Some \<lparr>str_ptr = drop (offset + 2) (sdata d), str_len = unat (of_be16 l)\<rparr>
   }"

section \<open>Types and sizes\<close>

definition ndpi_deserialize_get_key_subtype :: "serializer \<Rightarrow> ndpi_serialization_type option" where
  "ndpi_deserialize_get_key_subtype d =
     (if ssize d \<le> used d then Some ndpi_serialization_unknown
      else do { t \<leftarrow> peek (sdata d) (used d); Some (type_of_code (drop_bit 4 t)) })"

definition ndpi_deserialize_get_value_subtype :: "serializer \<Rightarrow> ndpi_serialization_type option" where
  "ndpi_deserialize_get_value_subtype d =
     (if ssize d \<le> used d then Some ndpi_serialization_unknown
      else do { t \<leftarrow> peek (sdata d) (used d); Some (type_of_code (t AND 0xf)) })"

text \<open>The pair is (value type, key type): the return value and the out parameter.\<close>

definition ndpi_deserialize_get_item_type ::
  "serializer \<Rightarrow> (ndpi_serialization_type \<times> ndpi_serialization_type) option" where
  "ndpi_deserialize_get_item_type d = do {
     kt \<leftarrow> ndpi_deserialize_get_key_subtype d;
     let kt = (case kt of
                 ndpi_serialization_uint8 \<Rightarrow> ndpi_serialization_uint32
               | ndpi_serialization_uint16 \<Rightarrow> ndpi_serialization_uint32
               | _ \<Rightarrow> kt);
     et \<leftarrow> ndpi_deserialize_get_value_subtype d;
     let et = (case et of
                 ndpi_serialization_uint8 \<Rightarrow> ndpi_serialization_uint32
               | ndpi_serialization_uint16 \<Rightarrow> ndpi_serialization_uint32
               | ndpi_serialization_int8 \<Rightarrow> ndpi_serialization_int32
               | ndpi_serialization_int16 \<Rightarrow> ndpi_serialization_int32
               | _ \<Rightarrow> et);
     Some (et, kt)
   }"

definition ndpi_deserialize_get_single_string_size :: "serializer \<Rightarrow> nat \<Rightarrow> int option" where
  "ndpi_deserialize_get_single_string_size d offset =
     (let bd = sub32 (ssize d) offset in
      if bd < 2 then Some (-2)
      else do {
        l \<leftarrow> peek_run (sdata d) offset 2;
        let expected = c_u16 (2 + unat (of_be16 l));
        if bd < expected then Some (-2) else Some (int expected)
      })"

text \<open>
  The local \<open>size\<close> is a \<open>u_int16_t\<close>: the \<open>-2\<close> of the string case becomes 65534.
  All sixteen enumerators have a case, so the \<open>default\<close> of the source is never taken.
\<close>

definition ndpi_deserialize_get_single_size ::
  "serializer \<Rightarrow> ndpi_serialization_type \<Rightarrow> nat \<Rightarrow> int option" where
  "ndpi_deserialize_get_single_size d t offset =
     (case t of
        ndpi_serialization_uint8 \<Rightarrow> Some 1
      | ndpi_serialization_int8 \<Rightarrow> Some 1
      | ndpi_serialization_uint16 \<Rightarrow> Some 2
      | ndpi_serialization_int16 \<Rightarrow> Some 2
      | ndpi_serialization_uint32 \<Rightarrow> Some 4
      | ndpi_serialization_int32 \<Rightarrow> Some 4
      | ndpi_serialization_uint64 \<Rightarrow> Some 8
      | ndpi_serialization_int64 \<Rightarrow> Some 8
      | ndpi_serialization_float \<Rightarrow> Some 4
      | ndpi_serialization_string \<Rightarrow>
          map_option (\<lambda>n. n mod 2 ^ 16) (ndpi_deserialize_get_single_string_size d offset)
      | ndpi_serialization_start_of_block \<Rightarrow>
          map_option (\<lambda>n. n mod 2 ^ 16) (ndpi_deserialize_get_single_string_size d offset)
      | ndpi_serialization_start_of_list \<Rightarrow>
          map_option (\<lambda>n. n mod 2 ^ 16) (ndpi_deserialize_get_single_string_size d offset)
      | ndpi_serialization_end_of_record \<Rightarrow> Some 0
      | ndpi_serialization_end_of_block \<Rightarrow> Some 0
      | ndpi_serialization_end_of_list \<Rightarrow> Some 0
      | ndpi_serialization_unknown \<Rightarrow> Some 0)"

section \<open>Walking the items\<close>

text \<open>\<open>u_int16_t expected\<close> after adding a size.\<close>

definition add_expected :: "nat \<Rightarrow> int \<Rightarrow> nat" where
  "add_expected expected sz = c_u16 (expected + nat sz)"

text \<open>\<open>size_used + expected\<close> as a \<open>u_int32_t\<close>.\<close>

definition item_offset :: "serializer \<Rightarrow> nat \<Rightarrow> nat" where
  "item_offset d expected = c_u32 (used d + expected)"

definition ndpi_deserialize_next :: "serializer \<Rightarrow> (int \<times> serializer) option" where
  "ndpi_deserialize_next d =
     (if buff_diff d < 1 then Some (-2, d)
      else do {
        kt \<leftarrow> ndpi_deserialize_get_key_subtype d;
        size \<leftarrow> ndpi_deserialize_get_single_size d kt (item_offset d 1);
        if size < 0 then Some (-2, d)
        else do {
          let expected = add_expected 1 size;
          et \<leftarrow> ndpi_deserialize_get_value_subtype d;
          size \<leftarrow> ndpi_deserialize_get_single_size d et (item_offset d expected);
          if size < 0 then Some (-2, d)
          else Some (0, add_used (add_expected expected size) d)
        }
      })"

definition ndpi_deserialize_key_uint32 :: "serializer \<Rightarrow> u32 \<Rightarrow> (int \<times> u32) option" where
  "ndpi_deserialize_key_uint32 d key =
     (if buff_diff d < 1 then Some (-2, key)
      else do {
        kt \<leftarrow> ndpi_deserialize_get_key_subtype d;
        size \<leftarrow> ndpi_deserialize_get_single_size d kt (item_offset d 1);
        if size < 0 then Some (-2, key)
        else
          let offset = item_offset d 1 in
          case kt of
            ndpi_serialization_uint32 \<Rightarrow> do {
              v \<leftarrow> ndpi_deserialize_single_uint32 d offset; Some (0, v) }
          | ndpi_serialization_uint16 \<Rightarrow> do {
              v \<leftarrow> ndpi_deserialize_single_uint16 d offset; Some (0, ucast v) }
          | ndpi_serialization_uint8 \<Rightarrow> do {
              v \<leftarrow> ndpi_deserialize_single_uint8 d offset; Some (0, ucast v) }
          | _ \<Rightarrow> Some (-1, key)
      })"

definition ndpi_deserialize_key_string ::
  "serializer \<Rightarrow> ndpi_string \<Rightarrow> (int \<times> ndpi_string) option" where
  "ndpi_deserialize_key_string d key =
     (if buff_diff d < 1 then Some (-2, key)
      else do {
        kt \<leftarrow> ndpi_deserialize_get_key_subtype d;
        size \<leftarrow> ndpi_deserialize_get_single_size d kt (item_offset d 1);
        if size < 0 then Some (-2, key)
        else do {
          v \<leftarrow> ndpi_deserialize_single_string d (item_offset d 1);
          Some (0, v)
        }
      })"

text \<open>
  The opening of every value read: the value's type and its offset, or \<open>None\<close> inside for
  the return of \<open>-2\<close>.
\<close>

definition value_at ::
  "serializer \<Rightarrow> (ndpi_serialization_type \<times> nat) option option" where
  "value_at d =
     (if buff_diff d < 1 then Some None
      else do {
        kt \<leftarrow> ndpi_deserialize_get_key_subtype d;
        size \<leftarrow> ndpi_deserialize_get_single_size d kt (item_offset d 1);
        if size < 0 then Some None
        else do {
          let expected = add_expected 1 size;
          et \<leftarrow> ndpi_deserialize_get_value_subtype d;
          size \<leftarrow> ndpi_deserialize_get_single_size d et (item_offset d expected);
          if size < 0 then Some None
          else Some (Some (et, item_offset d expected))
        }
      })"

definition ndpi_deserialize_value_uint32 :: "serializer \<Rightarrow> u32 \<Rightarrow> (int \<times> u32) option" where
  "ndpi_deserialize_value_uint32 d value = do {
     r \<leftarrow> value_at d;
     case r of
       None \<Rightarrow> Some (-2, value)
     | Some (et, offset) \<Rightarrow>
         (case et of
            ndpi_serialization_uint32 \<Rightarrow> do {
              v \<leftarrow> ndpi_deserialize_single_uint32 d offset; Some (0, v) }
          | ndpi_serialization_uint16 \<Rightarrow> do {
              v \<leftarrow> ndpi_deserialize_single_uint16 d offset; Some (0, ucast v) }
          | ndpi_serialization_uint8 \<Rightarrow> do {
              v \<leftarrow> ndpi_deserialize_single_uint8 d offset; Some (0, ucast v) }
          | _ \<Rightarrow> Some (0, value))
   }"

text \<open>
  A value that is not of the 64-bit type is read by the 32-bit function into a local
  variable \<open>v32\<close>, whose indeterminate initial value is the argument \<open>junk\<close>.
\<close>

definition ndpi_deserialize_value_uint64 :: "serializer \<Rightarrow> u32 \<Rightarrow> u64 \<Rightarrow> (int \<times> u64) option" where
  "ndpi_deserialize_value_uint64 d junk value = do {
     r \<leftarrow> value_at d;
     case r of
       None \<Rightarrow> Some (-2, value)
     | Some (et, offset) \<Rightarrow>
         if et \<noteq> ndpi_serialization_uint64 then do {
           (rc, v32) \<leftarrow> ndpi_deserialize_value_uint32 d junk;
           Some (rc, ucast v32)
         }
         else do { v \<leftarrow> ndpi_deserialize_single_uint64 d offset; Some (0, v) }
   }"

definition ndpi_deserialize_value_int32 :: "serializer \<Rightarrow> u32 \<Rightarrow> (int \<times> u32) option" where
  "ndpi_deserialize_value_int32 d value = do {
     r \<leftarrow> value_at d;
     case r of
       None \<Rightarrow> Some (-2, value)
     | Some (et, offset) \<Rightarrow>
         (case et of
            ndpi_serialization_int32 \<Rightarrow> do {
              v \<leftarrow> ndpi_deserialize_single_int32 d offset; Some (0, v) }
          | ndpi_serialization_int16 \<Rightarrow> do {
              v \<leftarrow> ndpi_deserialize_single_int16 d offset; Some (0, scast v) }
          | ndpi_serialization_int8 \<Rightarrow> do {
              v \<leftarrow> ndpi_deserialize_single_int8 d offset; Some (0, scast v) }
          | _ \<Rightarrow> Some (0, value))
   }"

definition ndpi_deserialize_value_int64 :: "serializer \<Rightarrow> u32 \<Rightarrow> u64 \<Rightarrow> (int \<times> u64) option" where
  "ndpi_deserialize_value_int64 d junk value = do {
     r \<leftarrow> value_at d;
     case r of
       None \<Rightarrow> Some (-2, value)
     | Some (et, offset) \<Rightarrow>
         if et \<noteq> ndpi_serialization_int64 then do {
           (rc, v32) \<leftarrow> ndpi_deserialize_value_int32 d junk;
           Some (rc, scast v32)
         }
         else do { v \<leftarrow> ndpi_deserialize_single_int64 d offset; Some (0, v) }
   }"

definition ndpi_deserialize_value_float :: "serializer \<Rightarrow> u32 \<Rightarrow> (int \<times> u32) option" where
  "ndpi_deserialize_value_float d value = do {
     r \<leftarrow> value_at d;
     case r of
       None \<Rightarrow> Some (-2, value)
     | Some (et, offset) \<Rightarrow>
         if et \<noteq> ndpi_serialization_float then Some (-1, value)
         else do { v \<leftarrow> ndpi_deserialize_single_float d offset; Some (0, v) }
   }"

definition ndpi_deserialize_value_string ::
  "serializer \<Rightarrow> ndpi_string \<Rightarrow> (int \<times> ndpi_string) option" where
  "ndpi_deserialize_value_string d value = do {
     r \<leftarrow> value_at d;
     case r of
       None \<Rightarrow> Some (-2, value)
     | Some (et, offset) \<Rightarrow>
         if et \<noteq> ndpi_serialization_string then Some (-1, value)
         else do { v \<leftarrow> ndpi_deserialize_single_string d offset; Some (0, v) }
   }"

section \<open>Cloning\<close>

definition ndpi_deserialize_clone_item ::
  "c_env \<Rightarrow> serializer \<Rightarrow> serializer \<Rightarrow> (int \<times> serializer) option" where
  "ndpi_deserialize_clone_item env d s =
     (if fmt s \<noteq> ndpi_serialization_format_tlv then Some (-3, s)
      else if buff_diff d < 1 then Some (-2, s)
      else do {
        kt \<leftarrow> ndpi_deserialize_get_key_subtype d;
        size \<leftarrow> ndpi_deserialize_get_single_size d kt (item_offset d 1);
        if size < 0 then Some (-2, s)
        else do {
          let expected = add_expected 1 size;
          et \<leftarrow> ndpi_deserialize_get_value_subtype d;
          size \<leftarrow> ndpi_deserialize_get_single_size d et (item_offset d expected);
          if size < 0 then Some (-2, s)
          else do {
            let expected = add_expected expected size;
            let (rc, s) = ser_reserve env s expected;
            if rc < 0 then Some (-1, s)
            else do {
              v \<leftarrow> peek_run (sdata d) (used d) expected;
              s \<leftarrow> ser_put s v;
              Some (0, s)
            }
          }
        }
      })"

text \<open>The local variables of the loop, which keep their values from one item to the next.\<close>

record clone_vars =
  cv_k32 :: u32
  cv_u32 :: u32
  cv_i32 :: u32
  cv_u64 :: u64
  cv_i64 :: u64
  cv_f :: u32
  cv_vs :: ndpi_string
  cv_ks :: ndpi_string

datatype clone_step =
    Clone_done int serializer serializer
  | Clone_next serializer serializer clone_vars

text \<open>The value of an item, copied under the key that was read.\<close>

definition clone_value ::
  "c_env \<Rightarrow> (u32 \<Rightarrow> bytes) \<Rightarrow> ndpi_serialization_type \<Rightarrow> bool \<Rightarrow> serializer \<Rightarrow> serializer \<Rightarrow> clone_vars
   \<Rightarrow> (int \<times> serializer \<times> clone_vars) option" where
  "clone_value env fmt3 et key_is_string d s v =
     (case et of
        ndpi_serialization_uint32 \<Rightarrow> do {
          (rc, x) \<leftarrow> ndpi_deserialize_value_uint32 d (cv_u32 v);
          (rc, s) \<leftarrow> (if key_is_string
                       then ndpi_serialize_binary_uint32 env s (str_ptr (cv_ks v)) (str_len (cv_ks v)) x
                       else ndpi_serialize_uint32_uint32 env s (cv_k32 v) x);
          Some (0, s, v\<lparr>cv_u32 := x\<rparr>) }
      | ndpi_serialization_uint64 \<Rightarrow> do {
          (rc, x) \<leftarrow> ndpi_deserialize_value_uint64 d 0 (cv_u64 v);
          (rc, s) \<leftarrow> (if key_is_string
                       then ndpi_serialize_binary_uint64 env s (str_ptr (cv_ks v)) (str_len (cv_ks v)) x
                       else ndpi_serialize_uint32_uint64 env s (cv_k32 v) x);
          Some (0, s, v\<lparr>cv_u64 := x\<rparr>) }
      | ndpi_serialization_int32 \<Rightarrow> do {
          (rc, x) \<leftarrow> ndpi_deserialize_value_int32 d (cv_i32 v);
          (rc, s) \<leftarrow> (if key_is_string
                       then ndpi_serialize_binary_int32 env s (str_ptr (cv_ks v)) (str_len (cv_ks v)) x
                       else ndpi_serialize_uint32_int32 env s (cv_k32 v) x);
          Some (0, s, v\<lparr>cv_i32 := x\<rparr>) }
      | ndpi_serialization_int64 \<Rightarrow> do {
          (rc, x) \<leftarrow> ndpi_deserialize_value_int64 d 0 (cv_i64 v);
          (rc, s) \<leftarrow> (if key_is_string
                       then ndpi_serialize_binary_int64 env s (str_ptr (cv_ks v)) (str_len (cv_ks v)) x
                       else ndpi_serialize_uint32_int64 env s (cv_k32 v) x);
          Some (0, s, v\<lparr>cv_i64 := x\<rparr>) }
      | ndpi_serialization_float \<Rightarrow> do {
          (rc, x) \<leftarrow> ndpi_deserialize_value_float d (cv_f v);
          (rc, s) \<leftarrow> (if key_is_string
                       then ndpi_serialize_binary_float env s (str_ptr (cv_ks v)) (str_len (cv_ks v)) x fmt3
                       else ndpi_serialize_uint32_float env s (cv_k32 v) x fmt3);
          Some (0, s, v\<lparr>cv_f := x\<rparr>) }
      | ndpi_serialization_string \<Rightarrow> do {
          (rc, x) \<leftarrow> ndpi_deserialize_value_string d (cv_vs v);
          (rc, s) \<leftarrow> (if key_is_string
                       then ndpi_serialize_binary_binary env s (str_ptr (cv_ks v)) (str_len (cv_ks v))
                              (Some (str_ptr x)) (str_len x)
                       else ndpi_serialize_uint32_binary env s (cv_k32 v) (str_ptr x) (str_len x));
          Some (0, s, v\<lparr>cv_vs := x\<rparr>) }
      | _ \<Rightarrow> Some (-2, s, v))"

text \<open>One round of the loop; \<open>fmt3\<close> is what the format \<open>"%.3f"\<close> prints.\<close>

definition clone_round ::
  "c_env \<Rightarrow> (u32 \<Rightarrow> bytes) \<Rightarrow> serializer \<Rightarrow> serializer \<Rightarrow> clone_vars \<Rightarrow> clone_step option" where
  "clone_round env fmt3 d s v = do {
     (et, kt) \<leftarrow> ndpi_deserialize_get_item_type d;
     if et = ndpi_serialization_unknown then Some (Clone_done 0 d s)
     else do {
       r \<leftarrow>
         (case et of
            ndpi_serialization_end_of_record \<Rightarrow> do {
              (rc, s) \<leftarrow> ndpi_serialize_end_of_record env s; Some (0, s, v) }
          | ndpi_serialization_start_of_block \<Rightarrow> do {
              (rc, k) \<leftarrow> ndpi_deserialize_key_string d (cv_ks v);
              (rc, s) \<leftarrow> ndpi_serialize_start_of_block_binary env s (str_ptr k) (str_len k);
              Some (0, s, v\<lparr>cv_ks := k\<rparr>) }
          | ndpi_serialization_end_of_block \<Rightarrow> do {
              (rc, s) \<leftarrow> ndpi_serialize_end_of_block env s; Some (0, s, v) }
          | ndpi_serialization_start_of_list \<Rightarrow> do {
              (rc, k) \<leftarrow> ndpi_deserialize_key_string d (cv_ks v);
              (rc, s) \<leftarrow> ndpi_serialize_start_of_list_binary env s (str_ptr k) (str_len k);
              Some (0, s, v\<lparr>cv_ks := k\<rparr>) }
          | ndpi_serialization_end_of_list \<Rightarrow> do {
              (rc, s) \<leftarrow> ndpi_serialize_end_of_list s; Some (0, s, v) }
          | _ \<Rightarrow>
              (case kt of
                 ndpi_serialization_uint32 \<Rightarrow> do {
                   (rc, k) \<leftarrow> ndpi_deserialize_key_uint32 d (cv_k32 v);
                   clone_value env fmt3 et False d s (v\<lparr>cv_k32 := k\<rparr>) }
               | ndpi_serialization_string \<Rightarrow> do {
                   (rc, k) \<leftarrow> ndpi_deserialize_key_string d (cv_ks v);
                   clone_value env fmt3 et True d s (v\<lparr>cv_ks := k\<rparr>) }
               | _ \<Rightarrow> Some (-1, s, v)));
       (case r of (rc, s, v) \<Rightarrow>
          if rc < 0 then Some (Clone_done rc d s)
          else do {
            (rc, d) \<leftarrow> ndpi_deserialize_next d;
            Some (Clone_next d s v)
          })
     }
   }"

text \<open>
  The loop, with a bound on the number of rounds. The function returns in C exactly when
  some bound gives \<open>Some (Inr (rc, d, s))\<close>; \<open>Some (Inl ())\<close> is a run still going when the
  bound is used up, and \<open>None\<close> is undefined behaviour in some round.
\<close>

fun ndpi_deserialize_clone_all ::
  "nat \<Rightarrow> c_env \<Rightarrow> (u32 \<Rightarrow> bytes) \<Rightarrow> serializer \<Rightarrow> serializer \<Rightarrow> clone_vars
   \<Rightarrow> (unit + int \<times> serializer \<times> serializer) option" where
  "ndpi_deserialize_clone_all 0 env fmt3 d s v = Some (Inl ())"
| "ndpi_deserialize_clone_all (Suc n) env fmt3 d s v = do {
     r \<leftarrow> clone_round env fmt3 d s v;
     case r of
       Clone_done rc d s \<Rightarrow> Some (Inr (rc, d, s))
     | Clone_next d s v \<Rightarrow> ndpi_deserialize_clone_all n env fmt3 d s v
   }"

end
