(* ===== verification/Tlv_Decode.thy ===== *)
theory Tlv_Decode
  imports Tlv_Append Deserializer
begin

text \<open>
  The TLV reader on a stream the serializer wrote: every key and value read returns what the
  stream encodes, \<open>ndpi_deserialize_next\<close> steps over exactly one item, and a client that reads
  item after item gets the list of items back, in their normal form.
\<close>

section \<open>Undoing the encodings\<close>

lemma u8_back: "v \<le> 0xff \<Longrightarrow> ucast (ucast v :: u8) = (v :: u32)"
proof -
  assume "v \<le> 0xff"
  then have "unat v < 2 ^ 8" by (simp add: word_le_nat_alt)
  then show ?thesis
    by (intro unsigned_word_eqI [where ?'a = nat])
      (simp add: unsigned_ucast_eq unsigned_take_bit_eq take_bit_nat_eq_self)
qed

lemma u16_back: "v \<le> 0xffff \<Longrightarrow> ucast (ucast v :: u16) = (v :: u32)"
proof -
  assume "v \<le> 0xffff"
  then have "unat v < 2 ^ 16" by (simp add: word_le_nat_alt)
  then show ?thesis
    by (intro unsigned_word_eqI [where ?'a = nat])
      (simp add: unsigned_ucast_eq unsigned_take_bit_eq take_bit_nat_eq_self)
qed

lemma sint_narrow:
  assumes "- (2 ^ n) \<le> sint (v :: u32)" "sint v < 2 ^ n" "n < 32"
  shows "signed_take_bit n (uint v) = sint v"
proof -
  have "signed_take_bit n (uint v) = signed_take_bit n (sint v)"
    unfolding uint_sint using assms(3) by (simp add: signed_take_bit_take_bit)
  with assms show ?thesis by (simp add: signed_take_bit_int_eq_self)
qed

lemma i8_back: "sint v \<le> 127 \<Longrightarrow> - 128 \<le> sint v \<Longrightarrow> scast (ucast v :: u8) = (v :: u32)"
proof -
  assume "sint v \<le> 127" "- 128 \<le> sint v"
  then have s: "signed_take_bit 7 (uint v) = sint v" by (intro sint_narrow) auto
  have up: "sint (scast x :: u32) = sint x" for x :: u8
    by (rule sint_up_scast) (simp add: is_up)
  have "sint (ucast v :: u8) = signed_take_bit 7 (uint v)"
    using signed_ucast_eq [of v, where ?'a = int and ?'c = 8] by simp
  then have "sint (scast (ucast v :: u8) :: u32) = sint v" using s by (simp only: up)
  then show ?thesis by (rule signed_word_eqI)
qed

lemma i16_back: "sint v \<le> 32767 \<Longrightarrow> - 32768 \<le> sint v \<Longrightarrow> scast (ucast v :: u16) = (v :: u32)"
proof -
  assume "sint v \<le> 32767" "- 32768 \<le> sint v"
  then have s: "signed_take_bit 15 (uint v) = sint v" by (intro sint_narrow) auto
  have up: "sint (scast x :: u32) = sint x" for x :: u16
    by (rule sint_up_scast) (simp add: is_up)
  have "sint (ucast v :: u16) = signed_take_bit 15 (uint v)"
    using signed_ucast_eq [of v, where ?'a = int and ?'c = 16] by simp
  then have "sint (scast (ucast v :: u16) :: u32) = sint v" using s by (simp only: up)
  then show ?thesis by (rule signed_word_eqI)
qed

lemma ntohll_htonll [simp]: "ndpi_ntohll (ndpi_htonll v) = v"
proof (rule bit_word_eqI)
  fix n assume "n < LENGTH(64)"
  moreover have "bit (0xFFFFFFFF :: u64) n \<longleftrightarrow> n < 32"
  proof -
    have m: "(0xFFFFFFFF :: u64) = mask 32" by (simp add: mask_eq_exp_minus_1)
    show ?thesis unfolding m bit_mask_iff using \<open>n < LENGTH(64)\<close> by simp
  qed
  ultimately show "bit (ndpi_ntohll (ndpi_htonll v)) n = bit v n"
    unfolding ndpi_ntohll_def ndpi_htonll_def by (auto simp: bit_simps)
qed

lemma type_byte_sel [simp]:
  "type_of_code (drop_bit 4 (type_byte kt et)) = kt"
  "type_of_code (type_byte kt et AND 0xf) = et"
  by (cases kt; cases et; simp add: type_byte_def type_of_code_def all_types_def)+

lemma type_byte_unknown: "type_code et = type_byte ndpi_serialization_unknown et"
  by (simp add: type_byte_def)

section \<open>A reader in front of an item\<close>

text \<open>The bytes \<open>bs\<close> are next to be read, and all of them are inside the block and the size.\<close>

definition holds_at :: "serializer \<Rightarrow> bytes \<Rightarrow> bool" where
  "holds_at d bs \<longleftrightarrow> used d + length bs \<le> ssize d \<and> ssize d \<le> length (sdata d) \<and> ssize d < 2 ^ 31
     \<and> take (length bs) (drop (used d) (sdata d)) = bs"

lemma holds_run:
  assumes "holds_at d (pre @ bs @ post)" "n = length bs"
  shows "peek_run (sdata d) (used d + length pre) n = Some bs"
proof -
  have "take (length (pre @ bs @ post)) (drop (used d) (sdata d)) = pre @ bs @ post"
    using assms by (simp add: holds_at_def)
  then have "drop (used d) (sdata d) = pre @ bs @ post @ drop (length (pre @ bs @ post)) (drop (used d) (sdata d))"
    by (metis append.assoc append_take_drop_id)
  then have "drop (used d + length pre) (sdata d) = bs @ post @ drop (length (pre @ bs @ post)) (drop (used d) (sdata d))"
    by (metis add.commute append_eq_conv_conj drop_drop)
  then have "take n (drop (used d + length pre) (sdata d)) = bs" using assms by simp
  moreover have "used d + length pre + n \<le> length (sdata d)" using assms by (simp add: holds_at_def)
  ultimately show ?thesis by (simp add: peek_run_def)
qed

lemma holds_byte:
  assumes "holds_at d (pre @ b # post)"
  shows "peek (sdata d) (used d + length pre) = Some b"
proof -
  have "peek_run (sdata d) (used d + length pre) 1 = Some [b]"
    using holds_run [of d pre "[b]" post 1] assms by simp
  then show ?thesis by (auto simp: peek_run_def peek_def take_Suc_conv_app_nth hd_drop_conv_nth split: if_splits)
    
qed

lemma holds_prefix: "holds_at d (xs @ ys) \<Longrightarrow> holds_at d xs"
  by (auto simp: holds_at_def min_def dest: arg_cong [of _ _ "take (length xs)"])

lemma holds_buff_diff: "holds_at d bs \<Longrightarrow> length bs \<le> buff_diff d"
  by (auto simp: holds_at_def buff_diff_def)

lemma holds_subtypes:
  assumes "holds_at d (type_byte kt et # r)"
  shows "ndpi_deserialize_get_key_subtype d = Some kt" "ndpi_deserialize_get_value_subtype d = Some et"
proof -
  have "peek (sdata d) (used d) = Some (type_byte kt et)" using holds_byte [of d "[]"] assms by simp
  moreover have "used d < ssize d" using assms by (simp add: holds_at_def)
  ultimately show "ndpi_deserialize_get_key_subtype d = Some kt" "ndpi_deserialize_get_value_subtype d = Some et"
    by (simp_all add: ndpi_deserialize_get_key_subtype_def ndpi_deserialize_get_value_subtype_def)
qed

lemma holds_offset: "holds_at d bs \<Longrightarrow> n \<le> length bs \<Longrightarrow> item_offset d n = used d + n"
  by (simp add: holds_at_def item_offset_def)

lemma unat_len16 [simp]: "n < 65536 \<Longrightarrow> unat (word_of_nat n :: u16) = n"
  by (simp add: unat_of_nat)

lemma holds_string_size:
  assumes "holds_at d (pre @ enc_str t @ post)" "length t < 65534"
  shows "ndpi_deserialize_get_single_string_size d (used d + length pre) = Some (2 + int (length t))"
proof -
  have run: "peek_run (sdata d) (used d + length pre) 2 = Some (be16 (word_of_nat (length t)))"
    using assms holds_run [of d pre "be16 (word_of_nat (length t))" "t @ post" 2]
    by (simp add: enc_str_def)
  have "sub32 (ssize d) (used d + length pre) = ssize d - (used d + length pre)"
    using assms by (simp add: holds_at_def)
  moreover have "2 + length t \<le> ssize d - (used d + length pre)"
    using assms by (auto simp: holds_at_def)
  ultimately show ?thesis using run assms(2)
    by (simp add: ndpi_deserialize_get_single_string_size_def)
qed

section \<open>Items as a pair of codes\<close>

text \<open>
  Every item is a key code and a value code behind a type byte; the items without a key have
  the type 0 there. \<open>coded\<close> says that a type and the bytes it announces fit together.
\<close>

fun item_code :: "tlv_item \<Rightarrow> tlv_code \<times> tlv_code" where
  "item_code (Item k v) = (enc_key (norm_key k), enc_value v)"
| "item_code End_record = ((ndpi_serialization_unknown, []), (ndpi_serialization_end_of_record, []))"
| "item_code (Start_block t) =
     ((ndpi_serialization_unknown, []), (ndpi_serialization_start_of_block, enc_str t))"
| "item_code End_block = ((ndpi_serialization_unknown, []), (ndpi_serialization_end_of_block, []))"
| "item_code (Start_list t) =
     ((ndpi_serialization_unknown, []), (ndpi_serialization_start_of_list, enc_str t))"
| "item_code End_list = ((ndpi_serialization_unknown, []), (ndpi_serialization_end_of_list, []))"

lemma enc_item_code: "enc_item it = enc_pair (fst (item_code it)) (snd (item_code it))"
  by (cases it) (simp_all add: enc_pair_def type_byte_unknown)

fun coded :: "tlv_code \<Rightarrow> bool" where
  "coded (ndpi_serialization_uint8, bs) \<longleftrightarrow> length bs = 1"
| "coded (ndpi_serialization_int8, bs) \<longleftrightarrow> length bs = 1"
| "coded (ndpi_serialization_uint16, bs) \<longleftrightarrow> length bs = 2"
| "coded (ndpi_serialization_int16, bs) \<longleftrightarrow> length bs = 2"
| "coded (ndpi_serialization_uint32, bs) \<longleftrightarrow> length bs = 4"
| "coded (ndpi_serialization_int32, bs) \<longleftrightarrow> length bs = 4"
| "coded (ndpi_serialization_float, bs) \<longleftrightarrow> length bs = 4"
| "coded (ndpi_serialization_uint64, bs) \<longleftrightarrow> length bs = 8"
| "coded (ndpi_serialization_int64, bs) \<longleftrightarrow> length bs = 8"
| "coded (ndpi_serialization_string, bs) \<longleftrightarrow> (\<exists>t. bs = enc_str t)"
| "coded (ndpi_serialization_start_of_block, bs) \<longleftrightarrow> (\<exists>t. bs = enc_str t)"
| "coded (ndpi_serialization_start_of_list, bs) \<longleftrightarrow> (\<exists>t. bs = enc_str t)"
| "coded (_, bs) \<longleftrightarrow> bs = []"

lemma coded_enc_u32 [simp]: "coded (enc_u32 v)" "coded (enc_i32 v)"
  by (simp_all add: enc_u32_def enc_i32_def)

lemma coded_enc [simp]: "coded (enc_key k)" "coded (enc_value v)"
  by (cases k; auto) (cases v; auto)

lemma coded_item: "coded (fst (item_code it))" "coded (snd (item_code it))"
  by (cases it; auto)+

lemma holds_single_size:
  assumes h: "holds_at d (pre @ snd c @ post)" and c: "coded c" "length (snd c) < 65536"
  shows "ndpi_deserialize_get_single_size d (fst c) (used d + length pre) = Some (int (length (snd c)))"
proof -
  obtain t bs where tb: "c = (t, bs)" by (cases c)
  have str: "ndpi_deserialize_get_single_string_size d (used d + length pre) = Some (2 + int (length x))"
    if "bs = enc_str x" for x
    using holds_string_size [of d pre x post] h c tb that by simp
  show ?thesis using str c tb
    by (cases t) (auto simp: ndpi_deserialize_get_single_size_def)
qed

text \<open>The head of an item: both types, the place of the value, and the step over the item.\<close>

lemma holds_key_size:
  assumes "holds_at d (enc_pair k v)" "coded k" "length (enc_pair k v) < 65536"
  shows "ndpi_deserialize_get_key_subtype d = Some (fst k)"
    "ndpi_deserialize_get_value_subtype d = Some (fst v)"
    "ndpi_deserialize_get_single_size d (fst k) (item_offset d 1) = Some (int (length (snd k)))"
    "1 \<le> buff_diff d" "item_offset d 1 = used d + 1"
proof -
  have off: "item_offset d 1 = used d + length [type_byte (fst k) (fst v)]"
    using holds_offset [OF assms(1), of 1] by (simp add: enc_pair_def)
  have h: "holds_at d ([type_byte (fst k) (fst v)] @ snd k @ snd v)"
    using assms(1) by (simp add: enc_pair_def)
  show "ndpi_deserialize_get_single_size d (fst k) (item_offset d 1) = Some (int (length (snd k)))"
    unfolding off using h assms(2,3) by (intro holds_single_size) (auto simp: enc_pair_def)
  show "ndpi_deserialize_get_key_subtype d = Some (fst k)"
    "ndpi_deserialize_get_value_subtype d = Some (fst v)"
    using h holds_subtypes by simp_all
  show "1 \<le> buff_diff d" using holds_buff_diff [OF assms(1)] by (simp add: enc_pair_def)
  show "item_offset d 1 = used d + 1" using off by simp
qed

lemma holds_value_size:
  assumes "holds_at d (enc_pair k v)" "coded k" "coded v" "length (enc_pair k v) < 65536"
  shows "add_expected 1 (int (length (snd k))) = Suc (length (snd k))"
    "item_offset d (Suc (length (snd k))) = used d + Suc (length (snd k))"
    "ndpi_deserialize_get_single_size d (fst v) (used d + Suc (length (snd k)))
       = Some (int (length (snd v)))"
proof -
  have len: "length (enc_pair k v) = Suc (length (snd k) + length (snd v))" by (simp add: enc_pair_def)
  show "add_expected 1 (int (length (snd k))) = Suc (length (snd k))"
    using assms(4) len by (simp add: add_expected_def)
  show "item_offset d (Suc (length (snd k))) = used d + Suc (length (snd k))"
    using holds_offset [OF assms(1)] len by simp
  have "holds_at d ((type_byte (fst k) (fst v) # snd k) @ snd v @ [])"
    using assms(1) by (simp add: enc_pair_def)
  from holds_single_size [OF this assms(3)]
  show "ndpi_deserialize_get_single_size d (fst v) (used d + Suc (length (snd k)))
       = Some (int (length (snd v)))"
    using assms(4) len by simp
qed

lemma holds_next:
  assumes "holds_at d (enc_pair k v)" "coded k" "coded v" "length (enc_pair k v) < 65536"
  shows "ndpi_deserialize_next d = Some (0, add_used (length (enc_pair k v)) d)"
proof -
  have len: "length (enc_pair k v) = Suc (length (snd k) + length (snd v))" by (simp add: enc_pair_def)
  note ks = holds_key_size [OF assms(1,2,4)] and vs = holds_value_size [OF assms]
  have "add_expected (Suc (length (snd k))) (int (length (snd v))) = length (enc_pair k v)"
    using assms(4) len by (simp add: add_expected_def)
  then show ?thesis using ks(1-4) vs by (simp add: ndpi_deserialize_next_def)
qed

lemma holds_value_at:
  assumes "holds_at d (enc_pair k v)" "coded k" "coded v" "length (enc_pair k v) < 65536"
  shows "value_at d = Some (Some (fst v, used d + Suc (length (snd k))))"
proof -
  note ks = holds_key_size [OF assms(1,2,4)] and vs = holds_value_size [OF assms]
  show ?thesis using ks(1-4) vs by (simp add: value_at_def)
qed

section \<open>Reading keys and values\<close>

lemma peek_of_run: "peek_run m i 1 = Some [b] \<Longrightarrow> peek m i = Some b"
  by (auto simp: peek_run_def peek_def take_Suc_conv_app_nth hd_drop_conv_nth split: if_splits)

lemma holds_key_run:
  "holds_at d (enc_pair k v) \<Longrightarrow> n = length (snd k) \<Longrightarrow> peek_run (sdata d) (used d + 1) n = Some (snd k)"
  using holds_run [of d "[type_byte (fst k) (fst v)]" "snd k" "snd v"] by (simp add: enc_pair_def)

lemma holds_value_run:
  "holds_at d (enc_pair k v) \<Longrightarrow> n = length (snd v) \<Longrightarrow>
   peek_run (sdata d) (used d + Suc (length (snd k))) n = Some (snd v)"
  using holds_run [of d "type_byte (fst k) (fst v) # snd k" "snd v" "[]"] by (simp add: enc_pair_def)

lemmas single_reads =
  ndpi_deserialize_single_uint8_def ndpi_deserialize_single_uint16_def
  ndpi_deserialize_single_uint32_def ndpi_deserialize_single_uint64_def
  ndpi_deserialize_single_int8_def ndpi_deserialize_single_int16_def
  ndpi_deserialize_single_int32_def ndpi_deserialize_single_int64_def
  ndpi_deserialize_single_float_def

text \<open>What a read of a 32-bit number at some place gives when its code is there.\<close>

lemma read_u32_cases:
  assumes "peek_run (sdata d) i (length (snd (enc_u32 x))) = Some (snd (enc_u32 x))"
  shows "fst (enc_u32 x) = ndpi_serialization_uint8 \<Longrightarrow>
      \<exists>b. ndpi_deserialize_single_uint8 d i = Some b \<and> ucast b = x"
    "fst (enc_u32 x) = ndpi_serialization_uint16 \<Longrightarrow>
      \<exists>b. ndpi_deserialize_single_uint16 d i = Some b \<and> ucast b = x"
    "fst (enc_u32 x) = ndpi_serialization_uint32 \<Longrightarrow> ndpi_deserialize_single_uint32 d i = Some x"
    "fst (enc_u32 x) \<in> {ndpi_serialization_uint8, ndpi_serialization_uint16, ndpi_serialization_uint32}"
  using assms
  by (auto simp: enc_u32_def single_reads u8_back u16_back dest: peek_of_run [simplified] split: if_splits)

lemma read_i32_cases:
  assumes "peek_run (sdata d) i (length (snd (enc_i32 x))) = Some (snd (enc_i32 x))"
  shows "fst (enc_i32 x) = ndpi_serialization_int8 \<Longrightarrow>
      \<exists>b. ndpi_deserialize_single_int8 d i = Some b \<and> scast b = x"
    "fst (enc_i32 x) = ndpi_serialization_int16 \<Longrightarrow>
      \<exists>b. ndpi_deserialize_single_int16 d i = Some b \<and> scast b = x"
    "fst (enc_i32 x) = ndpi_serialization_int32 \<Longrightarrow> ndpi_deserialize_single_int32 d i = Some x"
    "fst (enc_i32 x) \<in> {ndpi_serialization_int8, ndpi_serialization_int16, ndpi_serialization_int32}"
  using assms
  by (auto simp: enc_i32_def single_reads i8_back i16_back dest: peek_of_run [simplified] split: if_splits)

lemma read_key_uint32:
  assumes "holds_at d (enc_pair (enc_u32 x) v)" "length (enc_pair (enc_u32 x) v) < 65536"
  shows "ndpi_deserialize_key_uint32 d w = Some (0, x)"
proof -
  note ks = holds_key_size [OF assms(1) coded_enc_u32(1) assms(2)]
  have "peek_run (sdata d) (used d + 1) (length (snd (enc_u32 x))) = Some (snd (enc_u32 x))"
    using holds_key_run [OF assms(1)] by simp
  from read_u32_cases [OF this] show ?thesis using ks
    by (auto simp: ndpi_deserialize_key_uint32_def)
qed

lemma read_value_uint32:
  assumes "holds_at d (enc_pair k (enc_u32 x))" "coded k" "length (enc_pair k (enc_u32 x)) < 65536"
  shows "ndpi_deserialize_value_uint32 d w = Some (0, x)"
proof -
  have "peek_run (sdata d) (used d + Suc (length (snd k))) (length (snd (enc_u32 x))) = Some (snd (enc_u32 x))"
    using holds_value_run [OF assms(1)] by simp
  from read_u32_cases [OF this] show ?thesis
    using holds_value_at [OF assms(1,2) coded_enc_u32(1) assms(3)]
    by (auto simp: ndpi_deserialize_value_uint32_def)
qed

lemma read_value_int32:
  assumes "holds_at d (enc_pair k (enc_i32 x))" "coded k" "length (enc_pair k (enc_i32 x)) < 65536"
  shows "ndpi_deserialize_value_int32 d w = Some (0, x)"
proof -
  have "peek_run (sdata d) (used d + Suc (length (snd k))) (length (snd (enc_i32 x))) = Some (snd (enc_i32 x))"
    using holds_value_run [OF assms(1)] by simp
  from read_i32_cases [OF this] show ?thesis
    using holds_value_at [OF assms(1,2) coded_enc_u32(2) assms(3)]
    by (auto simp: ndpi_deserialize_value_int32_def)
qed

lemma read_value_wide:
  assumes "holds_at d (enc_pair k (t, ndpi_htonll x))" "coded k" "length (enc_pair k (t, ndpi_htonll x)) < 65536"
  shows "t = ndpi_serialization_uint64 \<Longrightarrow> ndpi_deserialize_value_uint64 d j w = Some (0, x)"
    "t = ndpi_serialization_int64 \<Longrightarrow> ndpi_deserialize_value_int64 d j w = Some (0, x)"
  using holds_value_at [OF assms(1,2) _ assms(3)] holds_value_run [OF assms(1)]
  by (simp_all add: ndpi_deserialize_value_uint64_def ndpi_deserialize_value_int64_def single_reads)

lemma read_value_float:
  assumes "holds_at d (enc_pair k (ndpi_serialization_float, le32 x))" "coded k"
    "length (enc_pair k (ndpi_serialization_float, le32 x)) < 65536"
  shows "ndpi_deserialize_value_float d w = Some (0, x)"
  using holds_value_at [OF assms(1,2) _ assms(3)] holds_value_run [OF assms(1)]
  by (simp add: ndpi_deserialize_value_float_def single_reads)

definition text_of :: "ndpi_string \<Rightarrow> bytes" where
  "text_of p = take (str_len p) (str_ptr p)"

text \<open>A string in the stream: its length, and a pointer to at least that many bytes.\<close>

lemma read_string:
  assumes "peek_run (sdata d) i (2 + length t) = Some (enc_str t)" "length t < 65536"
  shows "\<exists>p. ndpi_deserialize_single_string d i = Some p \<and> text_of p = t
     \<and> str_len p = length t \<and> length t \<le> length (str_ptr p)"
proof -
  have len: "i + (2 + length t) \<le> length (sdata d)"
    and run: "take (2 + length t) (drop i (sdata d)) = enc_str t"
    using assms by (auto simp: peek_run_def split: if_splits)
  have "take 2 (drop i (sdata d)) = be16 (word_of_nat (length t))"
    using arg_cong [OF run, of "take 2"] by (simp add: enc_str_def min_def)
  moreover have "take (length t) (drop (i + 2) (sdata d)) = t"
    using arg_cong [OF run, of "drop 2"] by (simp add: enc_str_def drop_take add.commute)
  ultimately show ?thesis using len assms(2)
    by (auto simp: ndpi_deserialize_single_string_def peek_run_def text_of_def)
qed

lemma coded_str: "coded (ndpi_serialization_string, enc_str t)"
  by auto

lemma read_key_string:
  assumes "holds_at d (enc_pair (ndpi_serialization_string, enc_str t) v)"
    "length (enc_pair (ndpi_serialization_string, enc_str t) v) < 65536"
  shows "\<exists>p. ndpi_deserialize_key_string d w = Some (0, p) \<and> text_of p = t \<and> str_len p = length t
     \<and> length t \<le> length (str_ptr p)"
proof -
  have run: "peek_run (sdata d) (used d + 1) (2 + length t) = Some (enc_str t)"
    using holds_key_run [OF assms(1)] by simp
  have "length t < 65536" using assms(2) by (simp add: enc_pair_def)
  from read_string [OF run this] show ?thesis
    using holds_key_size [OF assms(1) coded_str assms(2)] by (auto simp: ndpi_deserialize_key_string_def)
qed

lemma read_block_name:
  assumes "holds_at d (enc_pair (ndpi_serialization_unknown, []) (b, enc_str t))"
    "length (enc_pair (ndpi_serialization_unknown, []) (b, enc_str t)) < 65536"
  shows "\<exists>p. ndpi_deserialize_key_string d w = Some (0, p) \<and> text_of p = t \<and> str_len p = length t
     \<and> length t \<le> length (str_ptr p)"
proof -
  have run: "peek_run (sdata d) (used d + 1) (2 + length t) = Some (enc_str t)"
    using holds_value_run [OF assms(1)] by simp
  have "length t < 65536" using assms(2) by (simp add: enc_pair_def)
  from read_string [OF run this] show ?thesis
    using holds_key_size [OF assms(1) _ assms(2)] by (auto simp: ndpi_deserialize_key_string_def)
qed

lemma read_value_string:
  assumes "holds_at d (enc_pair k (ndpi_serialization_string, enc_str t))" "coded k"
    "length (enc_pair k (ndpi_serialization_string, enc_str t)) < 65536"
  shows "\<exists>p. ndpi_deserialize_value_string d w = Some (0, p) \<and> text_of p = t \<and> str_len p = length t
     \<and> length t \<le> length (str_ptr p)"
proof -
  have run: "peek_run (sdata d) (used d + Suc (length (snd k))) (2 + length t) = Some (enc_str t)"
    using holds_value_run [OF assms(1)] by simp
  have "length t < 65536" using assms(3) by (simp add: enc_pair_def)
  from read_string [OF run this] show ?thesis
    using holds_value_at [OF assms(1,2) coded_str assms(3)] by (auto simp: ndpi_deserialize_value_string_def)
qed

section \<open>A reader of whole items\<close>

text \<open>What a client of the API does: ask for the types, read key and value, go to the next item.\<close>

definition no_string :: ndpi_string where
  "no_string = \<lparr>str_ptr = [], str_len = 0\<rparr>"

definition if_ok :: "(int \<times> 'a) option \<Rightarrow> 'a option" where
  "if_ok r = (case r of Some (rc, x) \<Rightarrow> if rc = 0 then Some x else None | None \<Rightarrow> None)"

lemma if_ok_Some [simp]: "if_ok (Some (0, x)) = Some x"
  by (simp add: if_ok_def)

definition read_key :: "serializer \<Rightarrow> ndpi_serialization_type \<Rightarrow> tlv_key option" where
  "read_key d kt =
     (case kt of
        ndpi_serialization_uint32 \<Rightarrow> map_option Num (if_ok (ndpi_deserialize_key_uint32 d 0))
      | ndpi_serialization_string \<Rightarrow>
          map_option (Name \<circ> text_of) (if_ok (ndpi_deserialize_key_string d no_string))
      | _ \<Rightarrow> None)"

definition read_value :: "serializer \<Rightarrow> ndpi_serialization_type \<Rightarrow> tlv_value option" where
  "read_value d et =
     (case et of
        ndpi_serialization_uint32 \<Rightarrow> map_option U32 (if_ok (ndpi_deserialize_value_uint32 d 0))
      | ndpi_serialization_uint64 \<Rightarrow> map_option U64 (if_ok (ndpi_deserialize_value_uint64 d 0 0))
      | ndpi_serialization_int32 \<Rightarrow> map_option I32 (if_ok (ndpi_deserialize_value_int32 d 0))
      | ndpi_serialization_int64 \<Rightarrow> map_option I64 (if_ok (ndpi_deserialize_value_int64 d 0 0))
      | ndpi_serialization_float \<Rightarrow> map_option Flt (if_ok (ndpi_deserialize_value_float d 0))
      | ndpi_serialization_string \<Rightarrow>
          map_option (Text \<circ> text_of) (if_ok (ndpi_deserialize_value_string d no_string))
      | _ \<Rightarrow> None)"

definition read_item ::
  "serializer \<Rightarrow> ndpi_serialization_type \<Rightarrow> ndpi_serialization_type \<Rightarrow> tlv_item option" where
  "read_item d et kt =
     (case et of
        ndpi_serialization_end_of_record \<Rightarrow> Some End_record
      | ndpi_serialization_start_of_block \<Rightarrow>
          map_option (Start_block \<circ> text_of) (if_ok (ndpi_deserialize_key_string d no_string))
      | ndpi_serialization_end_of_block \<Rightarrow> Some End_block
      | ndpi_serialization_start_of_list \<Rightarrow>
          map_option (Start_list \<circ> text_of) (if_ok (ndpi_deserialize_key_string d no_string))
      | ndpi_serialization_end_of_list \<Rightarrow> Some End_list
      | _ \<Rightarrow> do { k \<leftarrow> read_key d kt; v \<leftarrow> read_value d et; Some (Item k v) })"

fun read_items :: "nat \<Rightarrow> serializer \<Rightarrow> tlv_item list option" where
  "read_items 0 d = None"
| "read_items (Suc n) d = do {
     (et, kt) \<leftarrow> ndpi_deserialize_get_item_type d;
     if et = ndpi_serialization_unknown then Some []
     else do {
       it \<leftarrow> read_item d et kt;
       d \<leftarrow> if_ok (ndpi_deserialize_next d);
       its \<leftarrow> read_items n d;
       Some (it # its)
     }
   }"

fun wide :: "ndpi_serialization_type \<Rightarrow> ndpi_serialization_type" where
  "wide ndpi_serialization_uint8 = ndpi_serialization_uint32"
| "wide ndpi_serialization_uint16 = ndpi_serialization_uint32"
| "wide ndpi_serialization_int8 = ndpi_serialization_int32"
| "wide ndpi_serialization_int16 = ndpi_serialization_int32"
| "wide t = t"

lemma holds_item_type:
  assumes "holds_at d (enc_pair k v)" "fst k \<notin> {ndpi_serialization_int8, ndpi_serialization_int16}"
  shows "ndpi_deserialize_get_item_type d = Some (wide (fst v), wide (fst k))"
proof -
  have "ndpi_deserialize_get_key_subtype d = Some (fst k)" "ndpi_deserialize_get_value_subtype d = Some (fst v)"
    using holds_subtypes [of d "fst k" "fst v"] assms(1) by (simp_all add: enc_pair_def)
  then show ?thesis using assms(2)
    by (cases "fst k"; cases "fst v"; simp add: ndpi_deserialize_get_item_type_def)
qed

lemma wide_enc [simp]:
  "wide (fst (enc_u32 v)) = ndpi_serialization_uint32" "wide (fst (enc_i32 v)) = ndpi_serialization_int32"
  "fst (enc_key k) \<noteq> ndpi_serialization_int8" "fst (enc_key k) \<noteq> ndpi_serialization_int16"
  by (simp_all add: enc_u32_def enc_i32_def) (cases k; simp add: enc_u32_def)+

lemma item_key_type: "fst (fst (item_code it)) \<notin> {ndpi_serialization_int8, ndpi_serialization_int16}"
  by (cases it) auto

text \<open>The types announced for a key and a value, and what reading them gives.\<close>

lemma read_key_enc:
  assumes "holds_at d (enc_pair (enc_key k) v)" "length (enc_pair (enc_key k) v) < 65536"
  shows "read_key d (wide (fst (enc_key k))) = Some k"
proof (cases k)
  case (Num x)
  then show ?thesis using read_key_uint32 [of d x v] assms by (simp add: read_key_def)
next
  case (Name t)
  then show ?thesis using read_key_string [of d t v no_string] assms by (auto simp: read_key_def)
qed

lemma read_value_enc:
  assumes "holds_at d (enc_pair k (enc_value v))" "coded k" "length (enc_pair k (enc_value v)) < 65536"
  shows "read_value d (wide (fst (enc_value v))) = Some (norm_value v)"
proof (cases v)
  case (Text t)
  then show ?thesis using read_value_string [of d k t no_string] assms by (auto simp: read_value_def)
next
  case (U64 x)
  then show ?thesis using read_value_wide(1) [of d k _ x] read_value_uint32 [of d k "ucast x"] assms
    by (auto simp: read_value_def)
next
  case (I64 x)
  then show ?thesis using read_value_wide(2) [of d k _ x] read_value_int32 [of d k "ucast x"] assms
    by (auto simp: read_value_def)
qed (use assms read_value_uint32 read_value_int32 read_value_float in \<open>auto simp: read_value_def\<close>)

lemma value_types:
  "wide (fst (enc_value v)) \<in> {ndpi_serialization_uint32, ndpi_serialization_uint64,
     ndpi_serialization_int32, ndpi_serialization_int64, ndpi_serialization_float, ndpi_serialization_string}"
  by (cases v) auto

lemma read_item_enc:
  assumes "holds_at d (enc_item it)" "length (enc_item it) < 65536"
  shows "\<exists>et kt. ndpi_deserialize_get_item_type d = Some (et, kt) \<and> et \<noteq> ndpi_serialization_unknown
     \<and> read_item d et kt = Some (norm_item it)"
proof -
  have ty: "ndpi_deserialize_get_item_type d = Some (wide (fst (snd (item_code it))), wide (fst (fst (item_code it))))"
    using holds_item_type [OF _ item_key_type] assms(1) by (simp add: enc_item_code)
  show ?thesis
  proof (cases it)
    case (Item k v)
    then have "read_key d (wide (fst (enc_key (norm_key k)))) = Some (norm_key k)"
      "read_value d (wide (fst (enc_value v))) = Some (norm_value v)"
      using read_key_enc read_value_enc assms by auto
    then show ?thesis using ty Item value_types [of v] by (auto simp: read_item_def)
  next
    case (Start_block t)
    then show ?thesis using ty read_block_name [of d ndpi_serialization_start_of_block t no_string] assms
      by (auto simp: read_item_def enc_item_code)
  next
    case (Start_list t)
    then show ?thesis using ty read_block_name [of d ndpi_serialization_start_of_list t no_string] assms
      by (auto simp: read_item_def enc_item_code)
  qed (use ty in \<open>simp_all add: read_item_def\<close>)
qed

lemma next_item:
  assumes "holds_at d (enc_item it)" "length (enc_item it) < 65536"
  shows "ndpi_deserialize_next d = Some (0, add_used (length (enc_item it)) d)"
  using holds_next [of d "fst (item_code it)" "snd (item_code it)"] coded_item assms
  by (simp add: enc_item_code)

lemma holds_after:
  assumes "holds_at d (xs @ ys)"
  shows "holds_at (add_used (length xs) d) ys" "used (add_used (length xs) d) = used d + length xs"
proof -
  have u: "c_u32 (used d + length xs) = used d + length xs" using assms by (simp add: holds_at_def)
  then show "used (add_used (length xs) d) = used d + length xs" by (simp add: add_used_def)
  have "take (length xs + length ys) (drop (used d) (sdata d)) = xs @ ys"
    using assms by (simp add: holds_at_def)
  then have "drop (length xs) (take (length xs + length ys) (drop (used d) (sdata d))) = ys" by simp
  then have "take (length ys) (drop (used d + length xs) (sdata d)) = ys"
    by (simp add: drop_take add.commute)
  then show "holds_at (add_used (length xs) d) ys"
    using assms u by (simp add: holds_at_def add_used_def)
qed

text \<open>A reader whose remaining bytes are exactly \<open>bs\<close>.\<close>

definition rest_is :: "serializer \<Rightarrow> bytes \<Rightarrow> bool" where
  "rest_is d bs \<longleftrightarrow> holds_at d bs \<and> used d + length bs = ssize d"

lemma rest_end: "rest_is d [] \<Longrightarrow> ndpi_deserialize_get_item_type d = Some (ndpi_serialization_unknown, ndpi_serialization_unknown)"
  by (simp add: rest_is_def ndpi_deserialize_get_item_type_def ndpi_deserialize_get_key_subtype_def
      ndpi_deserialize_get_value_subtype_def)

lemma rest_after: "rest_is d (xs @ ys) \<Longrightarrow> rest_is (add_used (length xs) d) ys"
  using holds_after [of d xs ys] by (simp add: rest_is_def) (simp add: add_used_def)

lemma read_items_enc:
  assumes "rest_is d (concat (map enc_item its))" "\<forall>it \<in> set its. length (enc_item it) < 65536"
    "length its < n"
  shows "read_items n d = Some (map norm_item its)"
  using assms
proof (induction its arbitrary: d n)
  case Nil
  then show ?case using rest_end by (cases n) simp_all
next
  case (Cons it its)
  obtain m where n: "n = Suc m" "length its < m" using Cons.prems(3) by (cases n) auto
  have h: "holds_at d (enc_item it)" using Cons.prems(1) by (auto simp: rest_is_def intro: holds_prefix)
  have l: "length (enc_item it) < 65536" using Cons.prems(2) by simp
  have "read_items m (add_used (length (enc_item it)) d) = Some (map norm_item its)"
    using Cons.prems rest_after [of d "enc_item it"] n by (intro Cons.IH) simp_all
  then show ?case using read_item_enc [OF h l] next_item [OF h l] n by auto
qed

lemma init_deserializer_rest:
  assumes t: "ser_ok t" "content t = [1, 1] @ bs"
  shows "\<exists>d. ndpi_init_deserializer d0 t = Some (0, d) \<and> rest_is d bs \<and> fmt d = ndpi_serialization_format_tlv"
proof -
  have u: "used t = Suc (Suc (length bs))" using length_content [OF t(1)] t(2) by simp
  have c: "take (used t) (sdata t) = 1 # 1 # bs" using t(2) by (simp add: content_def)
  then obtain r where r: "sdata t = 1 # 1 # bs @ r"
    by (metis append_Cons append_take_drop_id)
  have "used t < 2 ^ 31" "used t \<le> length (sdata t)" using t(1) by (auto simp: ser_ok_def)
  then show ?thesis using u r
    by (simp add: ndpi_init_deserializer_def ndpi_init_deserializer_buf_def peek_def
        ndpi_reset_serializer_def rest_is_def holds_at_def ser_upd_defs)
qed

text \<open>
  C1. The round trip. Any list of valid items, written with one API call each into a fresh
  TLV serializer whose allocations succeed and read back through a deserializer opened on it
  (types, key, value, next), is the same list, with keys of digits as numbers and 64-bit
  values that fit in 32 bits as 32-bit values; the reader stops at the end of the stream.
  Each item must take less than 64 KiB, the range of the reader's 16-bit sizes.
\<close>

theorem tlv_round_trip:
  assumes env: "env_ok env" "alloc_ok env n" "2 \<le> n" and calls: "list_all call_ok its"
    and sizes: "list_all (\<lambda>it. length (enc_item it) < 65536) its"
    and grow: "\<forall>k \<le> n + sum_list (map call_cost its). alloc_ok env k"
  shows "\<exists>s t d. ndpi_init_serializer_ll env ndpi_serialization_format_tlv n = Some (0, s)
     \<and> run_calls tlv_call env s its = Some (0, t)
     \<and> ndpi_init_deserializer d0 t = Some (0, d)
     \<and> read_items (Suc (length its)) d = Some (map norm_item its)"
proof -
  from init_tlv [OF env] obtain s where s:
    "ndpi_init_serializer_ll env ndpi_serialization_format_tlv n = Some (0, s)" "ser_ok s"
    "fmt s = ndpi_serialization_format_tlv" "content s = [1, 1]" "ssize s = n" by blast
  have "can_grow env s (sum_list (map call_cost its))" using grow s by (simp add: can_grow_def)
  with tlv.run_appends [OF env(1) s(2,3) calls] s(4) obtain t where
    t: "run_calls tlv_call env s its = Some (0, t)" "ser_ok t"
      "content t = [1, 1] @ concat (map enc_item its)"
    by auto
  from init_deserializer_rest [OF t(2,3)] obtain d where
    d: "ndpi_init_deserializer d0 t = Some (0, d)" "rest_is d (concat (map enc_item its))" by blast
  have "read_items (Suc (length its)) d = Some (map norm_item its)"
    using d(2) sizes by (intro read_items_enc) (auto simp: list_all_iff)
  with s t d show ?thesis by blast
qed

theorem tlv_round_trip_witness:
  "\<exists>s t d. ndpi_init_serializer_ll roomy_env ndpi_serialization_format_tlv 16 = Some (0, s)
     \<and> run_calls tlv_call roomy_env s
         [Item (Name [0x69, 0x70]) (Text [0x31, 0x30]), Item (Num 5) (I32 (- 300)),
          Item (Name [0x34, 0x32]) (U64 7), End_record] = Some (0, t)
     \<and> ndpi_init_deserializer zero_serializer t = Some (0, d)
     \<and> read_items 5 d = Some
         [Item (Name [0x69, 0x70]) (Text [0x31, 0x30]), Item (Num 5) (I32 (- 300)),
          Item (Num 42) (U32 7), End_record]"
proof -
  let ?its = "[Item (Name [0x69, 0x70]) (Text [0x31, 0x30]), Item (Num 5) (I32 (- 300)),
          Item (Name [0x34, 0x32]) (U64 7), End_record]"
  have grow: "\<forall>k \<le> 16 + sum_list (map call_cost ?its). alloc_ok roomy_env k"
    by (auto intro!: roomy_alloc)
  have calls: "list_all call_ok ?its"
    by (simp add: name_ok_def c_isdigit_def dec_value_def)
  have sizes: "list_all (\<lambda>it. length (enc_item it) < 65536) ?its"
    by (simp add: c_isdigit_def dec_value_def enc_pair_def enc_u32_def enc_i32_def)
  have res: "map norm_item ?its = [Item (Name [0x69, 0x70]) (Text [0x31, 0x30]),
          Item (Num 5) (I32 (- 300)), Item (Num 42) (U32 7), End_record]" "Suc (length ?its) = 5"
    by (simp_all add: c_isdigit_def dec_value_def)
  have "alloc_ok roomy_env 16" "(2 :: nat) \<le> 16" by (simp_all add: roomy_alloc)
  from tlv_round_trip [OF roomy_env_ok this calls sizes grow] show ?thesis unfolding res .
qed
end
