(* ===== verification/Tlv_Clone.thy ===== *)
theory Tlv_Clone
  imports Tlv_Decode
begin

text \<open>
  The loop of \<open>ndpi_deserialize_clone_all\<close> on a stream the serializer wrote: each round reads
  one item and appends the same item to the target, so the target becomes a copy.
\<close>

lemma appends_success:
  "appends env s k xs r \<Longrightarrow> can_grow env s k \<Longrightarrow> \<exists>t. r = Some (0, t) \<and> extended k s xs t"
  by (auto simp: appends_def)

lemma appends_success_le:
  "appends env s k xs r \<Longrightarrow> k \<le> l \<Longrightarrow> can_grow env s l \<Longrightarrow> \<exists>t. r = Some (0, t) \<and> extended l s xs t"
  using appends_success appends_weaken by blast

section \<open>One value\<close>

lemma clone_value_num:
  assumes A: "env_ok env" "ser_ok s" "fmt s = ndpi_serialization_format_tlv"
    and h: "holds_at d (enc_pair k (enc_value x))" "coded k" "length (enc_pair k (enc_value x)) < 65536"
    and g: "can_grow env s (call_cost (Item (Num (cv_k32 v)) x))"
  shows "\<exists>t w. clone_value env f (wide (fst (enc_value x))) False d s v = Some (0, t, w)
     \<and> extended (call_cost (Item (Num (cv_k32 v)) x)) s (enc_pair (enc_u32 (cv_k32 v)) (enc_value x)) t"
proof (cases x)
  case (U32 a)
  show ?thesis
    using appends_success_le [OF uint32_uint32_appends [OF A, of "cv_k32 v" a] _ g]
      read_value_uint32 [of d k a "cv_u32 v"] h U32
    by (auto simp: clone_value_def)
next
  case (U64 a)
  show ?thesis
  proof (cases "a \<le> 0xffffffff")
    case True
    then show ?thesis
      using appends_success_le [OF uint32_uint32_appends [OF A, of "cv_k32 v" "ucast a"] _ g]
        read_value_uint32 [of d k "ucast a" "cv_u32 v"] h U64
      by (auto simp: clone_value_def)
  next
    case False
    then show ?thesis
      using appends_success_le [OF uint32_uint64_appends [OF A, of "cv_k32 v" a] _ g]
        read_value_wide(1) [of d k _ a 0 "cv_u64 v"] h U64
      by (auto simp: clone_value_def)
  qed
next
  case (I32 a)
  show ?thesis
    using appends_success_le [OF uint32_int32_appends [OF A, of "cv_k32 v" a] _ g]
      read_value_int32 [of d k a "cv_i32 v"] h I32
    by (auto simp: clone_value_def)
next
  case (I64 a)
  show ?thesis
  proof (cases "a AND 0xFFFFFFFF = a")
    case True
    then show ?thesis
      using appends_success_le [OF uint32_int32_appends [OF A, of "cv_k32 v" "ucast a"] _ g]
        read_value_int32 [of d k "ucast a" "cv_i32 v"] h I64
      by (auto simp: clone_value_def)
  next
    case False
    then show ?thesis
      using appends_success_le [OF uint32_int64_appends [OF A, of "cv_k32 v" a] _ g]
        read_value_wide(2) [of d k _ a 0 "cv_i64 v"] h I64
      by (auto simp: clone_value_def)
  qed
next
  case (Flt a)
  show ?thesis
    using appends_success_le [OF uint32_float_appends [OF A, of "cv_k32 v" a f] _ g]
      read_value_float [of d k a "cv_f v"] h Flt
    by (auto simp: clone_value_def)
next
  case (Text t)
  then obtain p where p: "ndpi_deserialize_value_string d (cv_vs v) = Some (0, p)" "text_of p = t"
      "str_len p = length t" "length t \<le> length (str_ptr p)"
    using read_value_string [of d k t "cv_vs v"] h by auto
  have "length t < 65536" using h(3) Text by (simp add: enc_pair_def)
  then show ?thesis
    using appends_success_le [OF uint32_binary_appends [OF A, of "str_len p" "str_ptr p" "cv_k32 v"] _ g] p Text
    by (auto simp: clone_value_def text_of_def)
qed

text \<open>A key that is not made of digits, in front of more bytes of the stream.\<close>

definition key_of :: "ndpi_string \<Rightarrow> bytes \<Rightarrow> bool" where
  "key_of p n \<longleftrightarrow> text_of p = n \<and> str_len p = length n \<and> length n \<le> length (str_ptr p)
     \<and> length n < 65536 \<and> \<not> list_all c_isdigit n"

lemma key_of_ok:
  assumes "key_of p n"
  shows "key_ok (str_ptr p) (length n)" "take (length n) (str_ptr p) = n"
    "norm_key (Name n) = Name n" "str_len p = length n"
  using assms by (auto simp: key_of_def key_ok_def text_of_def)

lemma clone_value_name:
  assumes A: "env_ok env" "ser_ok s" "fmt s = ndpi_serialization_format_tlv"
    and h: "holds_at d (enc_pair k (enc_value x))" "coded k" "length (enc_pair k (enc_value x)) < 65536"
    and g: "can_grow env s (call_cost (Item (Name n) x))"
    and key: "key_of (cv_ks v) n" and x: "\<And>y. x \<noteq> I64 y"
  shows "\<exists>t w. clone_value env f (wide (fst (enc_value x))) True d s v = Some (0, t, w)
     \<and> extended (call_cost (Item (Name n) x)) s (enc_pair (enc_key (Name n)) (enc_value x)) t"
proof -
  note K = key_of_ok [OF key]
  show ?thesis
  proof (cases x)
    case (U32 a)
    show ?thesis
      using appends_success_le [OF binary_uint32_appends [OF A K(1), of a, unfolded K(2,3)] _ g] 
        read_value_uint32 [of d k a "cv_u32 v"] h U32
      by (auto simp: clone_value_def K(4))
  next
    case (U64 a)
    show ?thesis
    proof (cases "a \<le> 0xffffffff")
      case True
      then show ?thesis
        using appends_success_le [OF binary_uint32_appends [OF A K(1), of "ucast a", unfolded K(2,3)] _ g] 
          read_value_uint32 [of d k "ucast a" "cv_u32 v"] h U64
        by (auto simp: clone_value_def K(4))
    next
      case False
      then show ?thesis
        using appends_success_le [OF binary_uint64_appends [OF A K(1), of a, unfolded K(2,3)] _ g] 
          read_value_wide(1) [of d k _ a 0 "cv_u64 v"] h U64
        by (auto simp: clone_value_def K(4))
    qed
  next
    case (I32 a)
    show ?thesis
      using appends_success_le [OF binary_int32_appends [OF A K(1), of a, unfolded K(2,3)] _ g] 
        read_value_int32 [of d k a "cv_i32 v"] h I32
      by (auto simp: clone_value_def K(4))
  next
    case (Flt a)
    show ?thesis
      using appends_success_le [OF binary_float_appends [OF A K(1), of a f, unfolded K(2,3)] _ g] 
        read_value_float [of d k a "cv_f v"] h Flt
      by (auto simp: clone_value_def K(4))
  next
    case (Text t)
    then obtain p where p: "ndpi_deserialize_value_string d (cv_vs v) = Some (0, p)" "text_of p = t"
        "str_len p = length t" "length t \<le> length (str_ptr p)"
      using read_value_string [of d k t "cv_vs v"] h by auto
    have "length t < 65536" using h(3) Text by (simp add: enc_pair_def)
    then show ?thesis
      using appends_success_le [OF binary_binary_appends [OF A K(1), of "str_len p" "str_ptr p", unfolded K(2,3)] _ g] p Text 
      by (auto simp: clone_value_def K(4) text_of_def)
  qed (use x in simp)
qed

section \<open>One round of the loop\<close>

lemma clone_round_item:
  assumes A: "env_ok env" "ser_ok s" "fmt s = ndpi_serialization_format_tlv"
    and h: "holds_at d (enc_item it)" "length (enc_item it) < 65536"
    and g: "can_grow env s (call_cost it)" and ok: "call_ok it"
  shows "\<exists>t w. clone_round env f d s v = Some (Clone_next (add_used (length (enc_item it)) d) t w)
     \<and> extended (call_cost it) s (enc_item it) t"
proof -
  have ty: "ndpi_deserialize_get_item_type d
      = Some (wide (fst (snd (item_code it))), wide (fst (fst (item_code it))))"
    using holds_item_type [OF _ item_key_type] h(1) by (simp add: enc_item_code)
  note nx = next_item [OF h]
  show ?thesis
  proof (cases it)
    case (Item k x)
    note val = value_types [of x]
    have h': "holds_at d (enc_pair (enc_key (norm_key k)) (enc_value x))"
      "length (enc_pair (enc_key (norm_key k)) (enc_value x)) < 65536"
      using h Item by simp_all
    show ?thesis
    proof (cases "norm_key k")
      case (Num a)
      have key: "ndpi_deserialize_key_uint32 d (cv_k32 v) = Some (0, a)"
        using read_key_uint32 [of d a "enc_value x" "cv_k32 v"] h' Num by simp
      have "call_cost (Item (Num a) x) \<le> call_cost it" using Item by (cases k; cases x; simp)
      with g have "can_grow env s (call_cost (Item (Num a) x))" by (rule can_grow_mono)
      then obtain t w where "clone_value env f (wide (fst (enc_value x))) False d s (v\<lparr>cv_k32 := a\<rparr>) = Some (0, t, w)"
        "extended (call_cost (Item (Num a) x)) s (enc_pair (enc_u32 a) (enc_value x)) t"
        using clone_value_num [OF A h'(1) _ h'(2), of "v\<lparr>cv_k32 := a\<rparr>" f] by auto
      moreover have "extended (call_cost it) s (enc_pair (enc_u32 a) (enc_value x)) t"
        using calculation(2) \<open>call_cost (Item (Num a) x) \<le> call_cost it\<close> by (rule extended_mono)
      ultimately show ?thesis using ty nx key val Item Num
        by (auto simp: clone_round_def)
    next
      case (Name n)
      then have k: "k = Name n" "\<not> list_all c_isdigit n" by (cases k; auto split: if_splits)+
      obtain p where p: "ndpi_deserialize_key_string d (cv_ks v) = Some (0, p)" "key_of p n"
        using read_key_string [of d n "enc_value x" "cv_ks v"] h' Name k
        by (auto simp: key_of_def enc_pair_def)
      have "x \<noteq> I64 y" for y using ok Item k by auto
      then obtain t w where "clone_value env f (wide (fst (enc_value x))) True d s (v\<lparr>cv_ks := p\<rparr>) = Some (0, t, w)"
        "extended (call_cost it) s (enc_pair (enc_key (Name n)) (enc_value x)) t"
        using clone_value_name [OF A h'(1) _ h'(2), of n "v\<lparr>cv_ks := p\<rparr>" f] p g Item k by auto
      then show ?thesis using ty nx p val Item Name
        by (auto simp: clone_round_def)
    qed
  next
    case (Start_block n)
    then obtain p where p: "ndpi_deserialize_key_string d (cv_ks v) = Some (0, p)" "text_of p = n"
        "str_len p = length n" "length n \<le> length (str_ptr p)"
      using read_block_name [of d ndpi_serialization_start_of_block n "cv_ks v"] h by (auto simp: enc_item_code)
    then show ?thesis
      using appends_success_le [OF start_of_block_appends [OF A, of "str_len p" "str_ptr p"] _ g] ty nx ok Start_block
      by (auto simp: clone_round_def text_of_def)
  next
    case (Start_list n)
    then obtain p where p: "ndpi_deserialize_key_string d (cv_ks v) = Some (0, p)" "text_of p = n"
        "str_len p = length n" "length n \<le> length (str_ptr p)"
      using read_block_name [of d ndpi_serialization_start_of_list n "cv_ks v"] h by (auto simp: enc_item_code)
    then show ?thesis
      using appends_success_le [OF start_of_list_appends [OF A, of "str_len p" "str_ptr p"] _ g] ty nx ok Start_list
      by (auto simp: clone_round_def text_of_def)
  next
    case End_block
    then show ?thesis using appends_success_le [OF end_of_block_appends [OF A] _ g] ty nx
      by (auto simp: clone_round_def)
  next
    case End_record
    then show ?thesis using appends_success_le [OF end_of_record_appends [OF A] _ g] ty nx
      by (auto simp: clone_round_def)
  qed (use ok in simp)
qed

section \<open>The whole loop\<close>

lemma clone_round_end: "rest_is d [] \<Longrightarrow> clone_round env f d s v = Some (Clone_done 0 d s)"
  by (simp add: clone_round_def rest_end)

lemma clone_all_items:
  assumes "env_ok env" "ser_ok s" "fmt s = ndpi_serialization_format_tlv" "list_all call_ok its"
    "list_all (\<lambda>it. length (enc_item it) < 65536) its" "rest_is d (concat (map enc_item its))"
    "can_grow env s (sum_list (map call_cost its))" "length its < n"
  shows "\<exists>d' t. ndpi_deserialize_clone_all n env f d s v = Some (Inr (0, d', t)) \<and> ser_ok t
     \<and> content t = content s @ concat (map enc_item its)"
  using assms(2-8)
proof (induction its arbitrary: d s v n)
  case Nil
  obtain m where "n = Suc m" using Nil.prems(7) by (cases n) auto
  then show ?case using Nil.prems(1,5) clone_round_end by simp
next
  case (Cons it its)
  obtain m where n: "n = Suc m" "length its < m" using Cons.prems(7) by (cases n) auto
  have h: "holds_at d (enc_item it)" using Cons.prems(5) by (auto simp: rest_is_def intro: holds_prefix)
  have "can_grow env s (call_cost it)" using Cons.prems(6) by (rule can_grow_mono) simp
  with clone_round_item [OF assms(1) Cons.prems(1,2) h, of f v] Cons.prems(3,4) obtain t w where
    t: "clone_round env f d s v = Some (Clone_next (add_used (length (enc_item it)) d) t w)"
      "extended (call_cost it) s (enc_item it) t"
    by auto
  have "can_grow env t (sum_list (map call_cost its))"
    using can_grow_after [of env s "call_cost it" _ t] Cons.prems(6) t(2) by (simp add: extended_def)
  moreover have "rest_is (add_used (length (enc_item it)) d) (concat (map enc_item its))"
    using Cons.prems(5) rest_after by simp
  ultimately obtain d' u where "ndpi_deserialize_clone_all m env f (add_used (length (enc_item it)) d) t w
      = Some (Inr (0, d', u))" "ser_ok u" "content u = content t @ concat (map enc_item its)"
    using Cons.IH [of t "add_used (length (enc_item it)) d" m w] Cons.prems n t(2) by (auto simp: extended_def)
  then show ?case using t n by (auto simp: extended_def)
qed

text \<open>
  C15. Cloning. \<open>ndpi_deserialize_clone_all\<close> on a stream of valid items returns 0 after one
  round per item and leaves, in a fresh TLV serializer whose allocations succeed, a byte for
  byte copy of the stream; every read it makes is inside the source and every write inside
  the copy.
\<close>

theorem clone_all_copies:
  assumes env: "env_ok env" "alloc_ok env n" "2 \<le> n" and calls: "list_all call_ok its"
    and sizes: "list_all (\<lambda>it. length (enc_item it) < 65536) its"
    and grow: "\<forall>k \<le> n + sum_list (map call_cost its). alloc_ok env k"
    and src: "ser_ok a" "content a = [1, 1] @ concat (map enc_item its)"
  shows "\<exists>d s d' t. ndpi_init_deserializer d0 a = Some (0, d)
     \<and> ndpi_init_serializer_ll env ndpi_serialization_format_tlv n = Some (0, s)
     \<and> ndpi_deserialize_clone_all (Suc (length its)) env f d s v = Some (Inr (0, d', t))
     \<and> content t = content a"
proof -
  from init_deserializer_rest [OF src] obtain d where
    d: "ndpi_init_deserializer d0 a = Some (0, d)" "rest_is d (concat (map enc_item its))" by blast
  from init_tlv [OF env] obtain s where s:
    "ndpi_init_serializer_ll env ndpi_serialization_format_tlv n = Some (0, s)" "ser_ok s"
    "fmt s = ndpi_serialization_format_tlv" "content s = [1, 1]" "ssize s = n" by blast
  have "can_grow env s (sum_list (map call_cost its))" using grow s by (simp add: can_grow_def)
  from clone_all_items [OF env(1) s(2,3) calls sizes d(2) this lessI, of f v] obtain d' t where
    "ndpi_deserialize_clone_all (Suc (length its)) env f d s v = Some (Inr (0, d', t))"
    "content t = content s @ concat (map enc_item its)" by blast
  then show ?thesis using d(1) s(1,4) src(2) by metis
qed

definition sample_stream :: serializer where
  "sample_stream = zero_serializer\<lparr>
     status := \<lparr>flags = 0, buf_used = 11, hdr_used = 0\<rparr>,
     buffer := \<lparr>initial_size = 12, bsize = 12,
       bdata = [1, 1, 0x23, 7, 1, 44, 0xc, 0, 1, 0x62, 0xd, 0]\<rparr>,
     fmt := ndpi_serialization_format_tlv\<rparr>"

theorem clone_all_copies_witness:
  "\<exists>d s d' t. ndpi_init_deserializer zero_serializer sample_stream = Some (0, d)
     \<and> ndpi_init_serializer_ll roomy_env ndpi_serialization_format_tlv 2 = Some (0, s)
     \<and> ndpi_deserialize_clone_all 4 roomy_env (\<lambda>_. []) d s
          \<lparr>cv_k32 = 0, cv_u32 = 0, cv_i32 = 0, cv_u64 = 0, cv_i64 = 0, cv_f = 0,
           cv_vs = no_string, cv_ks = no_string\<rparr> = Some (Inr (0, d', t))
     \<and> content t = content sample_stream"
proof -
  let ?its = "[Item (Num 7) (U32 300), Start_block [0x62], End_block]"
  have grow: "\<forall>k \<le> 2 + sum_list (map call_cost ?its). alloc_ok roomy_env k"
    by (auto intro!: roomy_alloc)
  have calls: "list_all call_ok ?its" by simp
  have sizes: "list_all (\<lambda>it. length (enc_item it) < 65536) ?its"
    by (simp add: enc_pair_def enc_u32_def)
  have src: "ser_ok sample_stream" "content sample_stream = [1, 1] @ concat (map enc_item ?its)"
    by (simp add: ser_ok_def sample_stream_def)
      (simp add: content_def sample_stream_def enc_pair_def enc_u32_def be16_def enc_str_def type_byte_def)
  have len: "Suc (length ?its) = 4" by simp
  have "alloc_ok roomy_env 2" "(2 :: nat) \<le> 2" by (simp_all add: roomy_alloc)
  from clone_all_copies [OF roomy_env_ok this calls sizes grow src] show ?thesis unfolding len .
qed
end
