(* ===== verification/Json_Format.thy ===== *)
theory Json_Format
  imports Tlv_Append
begin

text \<open>
  The JSON output as a document: finished records, the blocks that are open, and the members of
  the innermost open object. A
  serializer represents a document when its text is the rendering of it and its flags say
  where the writer stands (\<open>json_rep\<close>). The lemmas show that \<open>json_pre\<close> takes the closing
  brackets back, that a key and a value go behind what is there, and that \<open>json_post\<close> closes
  the brackets again, so that a member is added to the document.
\<close>

section \<open>The document\<close>

text \<open>
  An open block is the members its parent had before it and its key; the innermost comes first.
  While blocks are open, the text of the serializer closes only the innermost object.
\<close>

type_synonym json_doc = "bytes list list \<times> (bytes list \<times> bytes) list \<times> bytes list"

fun commas :: "bytes list \<Rightarrow> bytes" where
  "commas [] = []"
| "commas [m] = m"
| "commas (m # ms) = m @ ch_comma # commas ms"

definition json_object :: "bytes list \<Rightarrow> bytes" where
  "json_object ms = ch_lbrace # commas ms @ [ch_rbrace]"

definition followed :: "bytes list \<Rightarrow> bytes" where
  "followed ms = concat (map (\<lambda>m. m @ [ch_comma]) ms)"

fun outer :: "(bytes list \<times> bytes) list \<Rightarrow> bytes" where
  "outer [] = []"
| "outer ((ms, k) # blocks) = outer blocks @ ch_lbrace # followed ms @ k @ [ch_colon, ch_space]"

fun render :: "json_doc \<Rightarrow> bytes" where
  "render (done, blocks, cur) =
     (if done = [] then ch_space # outer blocks @ json_object cur
      else ch_lbrack # commas (map json_object (done @ (if cur = [] then [] else [cur]))) @ [ch_rbrack])"

fun add_member :: "bytes \<Rightarrow> json_doc \<Rightarrow> json_doc" where
  "add_member m (done, blocks, cur) = (done, blocks, cur @ [m])"

fun open_block :: "bytes \<Rightarrow> json_doc \<Rightarrow> json_doc" where
  "open_block k (done, blocks, cur) = (done, (cur, k) # blocks, [])"

fun close_block :: "json_doc \<Rightarrow> json_doc" where
  "close_block (done, (ms, k) # blocks, cur) = (done, blocks, ms @ [k @ [ch_colon, ch_space] @ json_object cur])"
| "close_block (done, [], cur) = (done, [], cur)"

fun end_record :: "json_doc \<Rightarrow> json_doc" where
  "end_record (done, blocks, cur) =
     (if done = [] \<or> cur \<noteq> [] then (done @ [cur], blocks, []) else (done, blocks, cur))"

lemma commas_snoc: "commas (ms @ [m]) = followed ms @ m"
  by (induction ms rule: commas.induct) (simp_all add: followed_def)

lemma followed_commas: "ms \<noteq> [] \<Longrightarrow> followed ms = commas ms @ [ch_comma]"
  by (cases ms rule: rev_cases) (simp_all add: commas_snoc, simp add: followed_def)

lemma followed_Nil [simp]: "followed [] = []"
  by (simp add: followed_def)

fun opened :: "json_doc \<Rightarrow> bytes" where
  "opened (done, blocks, cur) =
     (if done = [] then ch_space # outer blocks else ch_lbrack # followed (map json_object done)) @
     ch_lbrace # followed cur"

fun closing :: "json_doc \<Rightarrow> bytes" where
  "closing (done, blocks, cur) = ch_rbrace # (if done = [] then [] else [ch_rbrack])"

lemma render_add_member: "render (add_member m doc) = opened doc @ m @ closing doc"
  by (cases doc) (simp add: json_object_def commas_snoc)

lemma render_commas: "cur \<noteq> [] \<Longrightarrow> render (done, blocks, cur) =
   butlast (opened (done, blocks, cur)) @ closing (done, blocks, cur)"
  by (cases "done = []") (simp_all add: commas_snoc json_object_def followed_commas butlast_append)

lemma opened_comma:
  "cur \<noteq> [] \<Longrightarrow> opened (done, blocks, cur) = butlast (opened (done, blocks, cur)) @ [ch_comma]"
  by (simp add: followed_commas butlast_append)

lemma render_open_block:
  "render (open_block k ([], blocks, cur)) = opened ([], blocks, cur) @ (k @ [ch_colon, ch_space, ch_lbrace]) @ [ch_rbrace]"
  by (simp add: json_object_def)

lemma render_close_block: "render (close_block ([], b # blocks, cur)) = render ([], b # blocks, cur) @ [ch_rbrace]"
  by (cases b) (simp add: json_object_def commas_snoc)

section \<open>Strings\<close>

definition esc :: "bool \<Rightarrow> bytes \<Rightarrow> bytes" where
  "esc sg t = concat (map (json_escape_char sg) t)"

definition quoted :: "bool \<Rightarrow> bytes \<Rightarrow> bytes" where
  "quoted sg t = ch_quote # esc sg t @ [ch_quote]"

lemma length_escape_char: "length (json_escape_char sg c) \<le> 2"
  by (simp add: json_escape_char_def)

lemma length_esc: "length (esc sg t) \<le> 2 * length t"
proof (induction t)
  case (Cons c t)
  then show ?case using length_escape_char [of sg c] by (simp add: esc_def)
qed (simp add: esc_def)

lemma escape_loop_all:
  assumes "n \<le> length src" "int (j + length (esc sg (take n src))) < mx"
  shows "json_escape_loop sg src n j mx = Some (esc sg (take n src))"
  using assms
proof (induction n arbitrary: src j)
  case (Suc n)
  then obtain c cs where "src = c # cs" by (cases src) auto
  with Suc show ?case by (simp add: esc_def)
qed (simp add: esc_def)

lemma escape_app:
  assumes "ser_ok s" "n \<le> length src" "room s (length (quoted (char_signed env) (take n src)) + 2)"
    "length (quoted (char_signed env) (take n src)) \<le> bd" "bd < 2 ^ 31"
  shows "\<exists>ys. ser_escape env s src n bd = Some (app s (quoted (char_signed env) (take n src)) ys)
     \<and> length ys = 2"
proof -
  let ?q = "quoted (char_signed env) (take n src)"
  have lp: "json_escape_loop (char_signed env) src n 1 (c_int bd) = Some (esc (char_signed env) (take n src))"
    using assms by (intro escape_loop_all) (simp_all add: quoted_def)
  define d where "d = sdata (app s ?q [])"
  have len: "length (sdata s) = ssize s" using assms(1) by (simp add: ser_ok_def)
  have p1: "poke (sdata s) (used s) ?q = Some d"
    using assms len by (simp add: d_def poke_def room_def app_def)
  let ?g = "sdata s ! (used s + length ?q)"
  have p2: "poke d (used s + length ?q + 1) [0] = Some (sdata (app s ?q [?g, 0]))"
  proof -
    have dl: "length d = ssize s" using p1 len poke_length by metis
    have u: "used s + length ?q + 1 < length (sdata s)" using assms(3) len by (simp add: room_def)
    have dr: "drop (used s + length ?q) (sdata s) = ?g # drop (used s + length ?q + 1) (sdata s)"
      using u by (simp add: Cons_nth_drop_Suc)
    have ut: "length (take (used s) (sdata s)) = used s" using u by simp
    have d: "d = (take (used s) (sdata s) @ ?q) @ ?g # drop (used s + length ?q + 1) (sdata s)"
      using dr by (simp add: d_def app_def)
    have "take (used s + length ?q + 1) d = take (used s) (sdata s) @ ?q @ [?g]"
      unfolding d using ut by simp
    moreover have "drop (used s + length ?q + 1 + 1) d = drop (used s + length ?q + 2) (sdata s)"
      unfolding d using ut by simp
    ultimately show ?thesis using u dl len
      by (simp add: poke_def app_def)
  qed
  have uu: "c_u32 (used s + length ?q) = used s + length ?q"
    using assms(1,3) by (simp add: ser_ok_def room_def)
  have q: "ch_quote # esc (char_signed env) (take n src) @ [ch_quote] = ?q" by (simp add: quoted_def)
  have "ndpi_json_string_escape env src n (sdata s) (used s) (c_int bd)
      = Some (length ?q, sdata (app s ?q [?g, 0]))"
    unfolding ndpi_json_string_escape_def lp by (simp only: bind.bind_lunit Let_def q p1 p2)
  then have "ser_escape env s src n bd = Some (app s ?q [?g, 0])"
    using uu by (simp add: ser_escape_def add_used_def app_def ser_upd_defs)
  then show ?thesis by (intro exI [of _ "[?g, 0]"]) simp
qed

lemma has_flag_numeral [simp]:
  "has_flag (numeral a) (numeral b) \<longleftrightarrow> numeral a AND numeral b \<noteq> (0 :: u32)"
  "has_flag 1 (numeral b) \<longleftrightarrow> 1 AND numeral b \<noteq> (0 :: u32)"
  "has_flag (numeral a) 1 \<longleftrightarrow> numeral a AND 1 \<noteq> (0 :: u32)"
  "has_flag 1 1"
  by (simp_all add: has_flag_def)

section \<open>Taking back and restoring the closing brackets\<close>

lemma dec_flags [simp]: "sflags (dec_used s) = sflags s"
  by (simp add: dec_used_def)

lemma dec_app:
  assumes "ser_ok s" "content s = xs @ [c]"
  shows "ser_ok (dec_used s)" "content (dec_used s) = xs" "used (dec_used s) = length xs"
    "sflags (dec_used s) = sflags s" "buffer (dec_used s) = buffer s" "fmt (dec_used s) = fmt s"
    "header (dec_used s) = header s" "csv_separator (dec_used s) = csv_separator s"
proof -
  have u: "used s = Suc (length xs)" using length_content [OF assms(1)] assms(2) by simp
  have "sub32 (used s) 1 = length xs" using u assms(1) by (simp add: ser_ok_def)
  then have d: "dec_used s = set_used (length xs) s" by (simp add: dec_used_def)
  have "take (length xs) (take (used s) (sdata s)) = xs" using assms(2) by (simp add: content_def)
  then have "take (length xs) (sdata s) = xs" using u by (simp add: min_def)
  then show "ser_ok (dec_used s)" "content (dec_used s) = xs" "used (dec_used s) = length xs"
    "sflags (dec_used s) = sflags s" "buffer (dec_used s) = buffer s" "fmt (dec_used s) = fmt s"
    "header (dec_used s) = header s" "csv_separator (dec_used s) = csv_separator s"
    using assms(1) u by (simp_all add: d ser_ok_def content_def)
qed

text \<open>
  The state that represents a document: the text is its rendering and the flags say where in
  it the writer stands. As long as no record has ended there is room for a terminating zero.
\<close>

fun json_rep :: "serializer \<Rightarrow> json_doc \<Rightarrow> bool" where
  "json_rep s (done, blocks, cur) \<longleftrightarrow>
     ser_ok s \<and> fmt s = ndpi_serialization_format_json \<and> content s = render (done, blocks, cur)
     \<and> (done = [] \<or> blocks = []) \<and> (done = [] \<longrightarrow> used s < ssize s)
     \<and> (flag_on s NDPI_SERIALIZER_STATUS_ARRAY \<longleftrightarrow> done \<noteq> [])
     \<and> (flag_on s NDPI_SERIALIZER_STATUS_EOR \<longleftrightarrow> done \<noteq> [] \<and> cur = [])
     \<and> (flag_on s NDPI_SERIALIZER_STATUS_COMMA \<longleftrightarrow> cur \<noteq> [] \<or> blocks \<noteq> [])
     \<and> (flag_on s NDPI_SERIALIZER_STATUS_SOB \<longleftrightarrow> cur = [] \<and> blocks \<noteq> [])
     \<and> \<not> flag_on s NDPI_SERIALIZER_STATUS_LIST \<and> \<not> flag_on s NDPI_SERIALIZER_STATUS_SOL"

text \<open>The state between \<open>json_pre\<close> and \<open>json_post\<close>: the text is \<open>xs\<close>, no bracket is closed.\<close>

definition json_mid :: "serializer \<Rightarrow> json_doc \<Rightarrow> bytes \<Rightarrow> serializer \<Rightarrow> bool" where
  "json_mid s doc xs t \<longleftrightarrow> ser_ok t \<and> content t = xs \<and> fmt t = ndpi_serialization_format_json
     \<and> ssize t = ssize s \<and> (fst doc = [] \<or> fst (snd doc) = [])
     \<and> (flag_on t NDPI_SERIALIZER_STATUS_ARRAY \<longleftrightarrow> fst doc \<noteq> [])
     \<and> \<not> flag_on t NDPI_SERIALIZER_STATUS_EOR
     \<and> \<not> flag_on t NDPI_SERIALIZER_STATUS_LIST \<and> \<not> flag_on t NDPI_SERIALIZER_STATUS_SOB
     \<and> \<not> flag_on t NDPI_SERIALIZER_STATUS_SOL"

lemma json_mid_app:
  "json_mid s doc xs t \<Longrightarrow> room t (length ys + length zs) \<Longrightarrow> json_mid s doc (xs @ ys) (app t ys zs)"
  by (simp add: json_mid_def)

lemma json_mid_put:
  "json_mid s doc xs t \<Longrightarrow> room t (length ys) \<Longrightarrow>
   ser_put t ys = Some (app t ys []) \<and> json_mid s doc (xs @ ys) (app t ys [])"
  using json_mid_app [of s doc xs t ys "[]"] by (simp add: json_mid_def)

lemma json_pre_open:
  assumes rep: "json_rep s doc" and rm: "room s 1"
  shows "\<exists>t. ndpi_serialize_json_pre s = Some t \<and> json_mid s doc (opened doc) t \<and> used t \<le> Suc (used s)"
proof -
  obtain don blk cur where doc: "doc = (don, blk, cur)" by (cases doc)
  have ok: "ser_ok s" and c: "content s = render (don, blk, cur)" using rep doc by simp_all
  have len: "used s = length (render (don, blk, cur))" using length_content [OF ok] c by simp
  note R = rep [unfolded doc json_rep.simps]
  consider (eor) "don \<noteq> []" "cur = []" | (mem) "cur \<noteq> []" | (fresh) "don = []" "cur = []" "blk = []"
    | (block) "don = []" "cur = []" "blk \<noteq> []" by blast
  then show ?thesis
  proof cases
    case eor
    let ?x = "ch_lbrack # commas (map json_object don)"
    have c': "content s = ?x @ [ch_rbrack]" using c eor by simp
    define s1 where "s1 = drop_flag NDPI_SERIALIZER_STATUS_EOR (dec_used s)"
    note D = dec_app [OF ok c']
    have s1: "json_mid s doc ?x s1" "used s1 = length ?x" "used s = Suc (length ?x)"
      using D R eor doc length_content [OF ok] c' by (auto simp: json_mid_def s1_def)
    have r: "room s1 2" using rm s1 D(5) by (simp add: room_def s1_def)
    have p1: "ser_put s1 [ch_comma] = Some (app s1 [ch_comma] [])"
      "json_mid s doc (?x @ [ch_comma]) (app s1 [ch_comma] [])"
      using json_mid_put [OF s1(1), of "[ch_comma]"] room_mono [OF r] by auto
    have p2: "ser_put (app s1 [ch_comma] []) [ch_lbrace] = Some (app (app s1 [ch_comma] []) [ch_lbrace] [])"
      "json_mid s doc ((?x @ [ch_comma]) @ [ch_lbrace]) (app (app s1 [ch_comma] []) [ch_lbrace] [])"
      using json_mid_put [OF p1(2), of "[ch_lbrace]"] r by (auto simp: numeral_2_eq_2)
    have "opened doc = (?x @ [ch_comma]) @ [ch_lbrace]" using eor doc by (simp add: followed_commas)
    then show ?thesis using p1(1) p2 R eor s1(2,3)
      by (intro exI [of _ "app (app s1 [ch_comma] []) [ch_lbrace] []"])
        (simp add: ndpi_serialize_json_pre_def s1_def [symmetric])
  next
    case mem
    obtain x where x: "render (don, blk, cur) = x @ closing (don, blk, cur)" "opened (don, blk, cur) = x @ [ch_comma]"
      using render_commas [OF mem] opened_comma [OF mem] by blast
    define z where "z = closing (don, blk, cur)"
    have z: "z = ch_rbrace # (if don = [] then [] else [ch_rbrack])" by (simp add: z_def)
    have c': "content s = x @ z" unfolding c x(1) z_def ..
    have u: "used s = length x + length z" using length_content [OF ok] c' by simp
    define s0 where "s0 = (if don = [] then s else dec_used s)"
    have s0: "ser_ok s0" "content s0 = x @ [ch_rbrace]" "sflags s0 = sflags s" "buffer s0 = buffer s"
      "fmt s0 = fmt s"
      using c' z ok dec_app [of s "x @ [ch_rbrace]" ch_rbrack] by (auto simp: s0_def)
    note D = dec_app [OF s0(1,2)]
    have s1: "json_mid s doc x (dec_used s0)"
      using D s0 R mem doc by (simp add: json_mid_def)
    have r: "room (dec_used s0) 1" using rm D(3,5) s0(4) u by (simp add: room_def)
    have p1: "ser_put (dec_used s0) [ch_comma] = Some (app (dec_used s0) [ch_comma] [])"
      "json_mid s doc (x @ [ch_comma]) (app (dec_used s0) [ch_comma] [])"
      using json_mid_put [OF s1, of "[ch_comma]"] r by auto
    have "ndpi_serialize_json_pre s = Some (app (dec_used s0) [ch_comma] [])"
      using p1(1) R [THEN conjunct2, THEN conjunct2, THEN conjunct2] mem
      by (cases "don = []") (simp_all add: ndpi_serialize_json_pre_def s0_def Let_def)
    then show ?thesis using p1(2) x(2) doc u D(3)
      by (intro exI [of _ "app (dec_used s0) [ch_comma] []"]) (simp del: opened.simps)
  next
    case fresh
    have c': "content s = [ch_space, ch_lbrace] @ [ch_rbrace]" using c fresh by (simp add: json_object_def)
    note D = dec_app [OF ok c']
    have "ndpi_serialize_json_pre s = Some (dec_used s)"
      using R fresh D(4) by (simp add: ndpi_serialize_json_pre_def Let_def)
    moreover have "json_mid s doc (opened doc) (dec_used s)"
      using D R fresh doc by (simp add: json_mid_def)
    moreover have "used (dec_used s) \<le> Suc (used s)" using D(3) length_content [OF ok] c' by simp
    ultimately show ?thesis by blast
  next
    case block
    have c': "content s = opened doc @ [ch_rbrace]" using c block doc by (simp add: json_object_def)
    note D = dec_app [OF ok c']
    have f: "flag_on s NDPI_SERIALIZER_STATUS_SOB" "\<not> flag_on s NDPI_SERIALIZER_STATUS_EOR"
        "\<not> flag_on s NDPI_SERIALIZER_STATUS_ARRAY" "\<not> flag_on s NDPI_SERIALIZER_STATUS_LIST"
      using R block by simp_all
    have "ndpi_serialize_json_pre s = Some (drop_flag NDPI_SERIALIZER_STATUS_SOB (dec_used s))"
      using f D(4) by (simp add: ndpi_serialize_json_pre_def Let_def)
    moreover have "json_mid s doc (opened doc) (drop_flag NDPI_SERIALIZER_STATUS_SOB (dec_used s))"
      using D R block doc by (simp add: json_mid_def)
    moreover have "used (dec_used s) \<le> Suc (used s)" using D(3) length_content [OF ok] c' by simp
    ultimately show ?thesis by (intro exI [of _ "drop_flag NDPI_SERIALIZER_STATUS_SOB (dec_used s)"]) simp
  qed
qed

lemma json_post_close:
  assumes mid: "json_mid s (don, blk, cur) (opened (don, blk, cur) @ m) t" and rm: "room t 2"
  shows "\<exists>u. ndpi_serialize_json_post t = Some u \<and> json_rep u (add_member m (don, blk, cur)) \<and> ssize u = ssize s"
proof -
  let ?c = "closing (don, blk, cur)"
  have cl: "length ?c \<le> 2" by simp
  have M: "json_mid s (don, blk, cur) ((opened (don, blk, cur) @ m) @ ?c) (app t ?c [])"
    using json_mid_put [OF mid, of ?c] room_mono [OF rm cl] by blast
  have "ndpi_serialize_json_post t = Some (raise_flag NDPI_SERIALIZER_STATUS_COMMA (app t ?c []))"
    using mid rm room_mono [OF rm, of 1]
    by (auto simp: ndpi_serialize_json_post_def json_mid_def numeral_2_eq_2)
  then show ?thesis using M render_add_member [of m "(don, blk, cur)"] rm
    by (auto simp: json_mid_def room_def)
qed

section \<open>Members\<close>

text \<open>Between \<open>json_pre\<close> and \<open>json_post\<close>, printed text and escaped text go behind what is there.\<close>

lemma json_mid_snprintf:
  "json_mid s doc xs t \<Longrightarrow> room t (Suc (length ys)) \<Longrightarrow> length ys < n \<Longrightarrow>
   ser_snprintf t n ys = Some (app t ys [0]) \<and> json_mid s doc (xs @ ys) (app t ys [0])"
  using json_mid_app [of s doc xs t ys "[0]"] by (simp add: json_mid_def)

lemma json_mid_escape:
  assumes "json_mid s doc xs t" "n \<le> length src"
    "room t (length (quoted (char_signed env) (take n src)) + 2)"
    "length (quoted (char_signed env) (take n src)) \<le> bd" "bd < 2 ^ 31"
  shows "\<exists>u. ser_escape env t src n bd = Some u
     \<and> json_mid s doc (xs @ quoted (char_signed env) (take n src)) u
     \<and> used u = used t + length (quoted (char_signed env) (take n src))"
proof -
  have "ser_ok t" using assms(1) by (simp add: json_mid_def)
  from escape_app [OF this assms(2-5)] obtain ys where
    "ser_escape env t src n bd = Some (app t (quoted (char_signed env) (take n src)) ys)" "length ys = 2"
    by blast
  then show ?thesis using json_mid_app [OF assms(1), of _ ys] assms(3) by auto
qed

text \<open>
  What a member consists of: something that writes the key \<open>k\<close> and computes the room left,
  and something that writes the value \<open>v\<close> into that room.
\<close>

definition writes_key :: "(serializer \<Rightarrow> nat \<Rightarrow> (serializer \<times> nat) option) \<Rightarrow> bytes \<Rightarrow> bool" where
  "writes_key f k \<longleftrightarrow> (\<forall>s doc xs t bd. json_mid s doc xs t \<longrightarrow> room t (length k + 2) \<longrightarrow>
     length k < bd \<longrightarrow> bd < 2 ^ 31 \<longrightarrow>
     (\<exists>u. f t bd = Some (u, buff_diff u) \<and> json_mid s doc (xs @ k) u \<and> used u = used t + length k))"

definition writes_value :: "(serializer \<Rightarrow> nat \<Rightarrow> serializer option) \<Rightarrow> bytes \<Rightarrow> bool" where
  "writes_value f v \<longleftrightarrow> (\<forall>s doc xs t bd. json_mid s doc xs t \<longrightarrow> room t (length v + 2) \<longrightarrow>
     length v < bd \<longrightarrow> bd < 2 ^ 31 \<longrightarrow>
     (\<exists>u. f t bd = Some u \<and> json_mid s doc (xs @ v) u \<and> used u = used t + length v))"

lemma writes_snprintf: "writes_value (\<lambda>s bd. ser_snprintf s bd t) t"
  unfolding writes_value_def
proof (intro allI impI)
  fix s doc xs u bd
  assume A: "json_mid s doc xs u" "room u (length t + 2)" "length t < bd"
  from json_mid_snprintf [OF A(1) room_mono [OF A(2)] A(3)]
  show "\<exists>w. ser_snprintf u bd t = Some w \<and> json_mid s doc (xs @ t) w \<and> used w = used u + length t"
    by simp
qed

lemma writes_escape:
  "n \<le> length src \<Longrightarrow>
   writes_value (\<lambda>s bd. ser_escape env s src n bd) (quoted (char_signed env) (take n src))"
  unfolding writes_value_def using json_mid_escape [of _ _ _ _ n src env] by auto

lemma writes_raw:
  assumes "n \<le> length src"
  shows "writes_value (\<lambda>s bd. do { v \<leftarrow> peek_run src 0 n; ser_put s v }) (take n src)"
  unfolding writes_value_def
proof (intro allI impI)
  fix s doc xs u bd
  assume A: "json_mid s doc xs u" "room u (length (take n src) + 2)"
  from json_mid_put [OF A(1) room_mono [OF A(2)]]
  show "\<exists>w. (do { v \<leftarrow> peek_run src 0 n; ser_put u v }) = Some w \<and> json_mid s doc (xs @ take n src) w
     \<and> used w = used u + length (take n src)"
    using assms by simp
qed

lemma json_mid_no_list: "json_mid s doc xs t \<Longrightarrow> \<not> flag_on t NDPI_SERIALIZER_STATUS_LIST"
  by (simp add: json_mid_def)

lemma writes_key_uint32: "writes_key (\<lambda>s bd. json_key_uint32 s bd k) (json_key_text k)"
  unfolding writes_key_def
proof (intro allI impI)
  fix s doc xs u bd
  assume A: "json_mid s doc xs u" "room u (length (json_key_text k) + 2)" "length (json_key_text k) < bd"
  from json_mid_snprintf [OF A(1) room_mono [OF A(2)] A(3)] json_mid_no_list [OF A(1)]
  show "\<exists>w. json_key_uint32 u bd k = Some (w, buff_diff w) \<and> json_mid s doc (xs @ json_key_text k) w
     \<and> used w = used u + length (json_key_text k)"
    by (simp add: json_key_uint32_def)
qed

lemma writes_key_string:
  assumes "n \<le> length src"
  shows "writes_key (\<lambda>s bd. json_key_string env s bd src n)
     (quoted (char_signed env) (take n src) @ [ch_colon])"
  unfolding writes_key_def
proof (intro allI impI)
  fix s doc xs t bd
  let ?q = "quoted (char_signed env) (take n src)"
  assume A: "json_mid s doc xs t" "room t (length (?q @ [ch_colon]) + 2)" "length (?q @ [ch_colon]) < bd" "bd < 2 ^ 31"
  then obtain u where u: "ser_escape env t src n bd = Some u" "json_mid s doc (xs @ ?q) u" "used u = used t + length ?q"
    using json_mid_escape [OF A(1) assms, of env bd] room_mono [OF A(2), of "length ?q + 2"] by auto
  have "ssize u = ssize t" using u(2) A(1) by (simp add: json_mid_def)
  then have "room u (length [ch_colon])" using u(3) A(2) by (simp add: room_def)
  from json_mid_put [OF u(2) this] u(1,3) A(1)
  show "\<exists>u. json_key_string env t bd src n = Some (u, buff_diff u)
     \<and> json_mid s doc (xs @ ?q @ [ch_colon]) u \<and> used u = used t + length (?q @ [ch_colon])"
    by (auto simp: json_key_string_def json_mid_def)
qed

lemma json_member_adds:
  assumes rep: "json_rep s doc" and kv: "writes_key kf k" "writes_value vf v"
    and rm: "room s (length k + length v + 3)"
  shows "\<exists>u. (do {
       a \<leftarrow> ndpi_serialize_json_pre s;
       (b, bd) \<leftarrow> kf a (buff_diff s);
       c \<leftarrow> vf b bd;
       d \<leftarrow> ndpi_serialize_json_post c;
       Some (0 :: int, not_empty d) }) = Some (0, u)
     \<and> json_rep u (add_member (k @ v) doc) \<and> ssize u = ssize s"
proof -
  obtain don blk cur where doc: "doc = (don, blk, cur)" by (cases doc)
  have ok: "ser_ok s" using rep doc by simp
  have bd: "buff_diff s = ssize s - used s" "ssize s < 2 ^ 31"
    using ok buff_diff_room by (auto simp: ser_ok_def)
  obtain a where a: "ndpi_serialize_json_pre s = Some a" "json_mid s doc (opened doc) a" "used a \<le> Suc (used s)"
    using json_pre_open [OF rep] room_mono [OF rm, of 1] by auto
  have sz: "ssize a = ssize s" using a(2) by (simp add: json_mid_def)
  have ra: "room a (length k + length v + 2)" using a(3) rm sz by (simp add: room_def)
  have ll: "length k < buff_diff s" "buff_diff s < 2 ^ 31" using rm bd by (auto simp: room_def)
  obtain b where b: "kf a (buff_diff s) = Some (b, buff_diff b)" "json_mid s doc (opened doc @ k) b"
      "used b = used a + length k"
    using kv(1)[unfolded writes_key_def, rule_format, OF a(2) room_mono [OF ra] ll] by auto
  have szb: "ssize b = ssize s" "ser_ok b" using b(2) by (simp_all add: json_mid_def)
  have rb: "room b (length v + 2)" "length v < buff_diff b" "buff_diff b < 2 ^ 31"
    using ra b(3) sz szb bd(2) by (auto simp: room_def buff_diff_room)
  then obtain c where c: "vf b (buff_diff b) = Some c" "json_mid s doc ((opened doc @ k) @ v) c"
      "used c = used b + length v"
    using kv(2)[unfolded writes_value_def, rule_format, OF b(2)] by blast
  have "ssize c = ssize s" using c(2) by (simp add: json_mid_def)
  then have "room c 2" using rb c(3) szb by (simp add: room_def)
  from json_post_close [of s don blk cur "k @ v", OF _ this] c(2) doc
  obtain d where d: "ndpi_serialize_json_post c = Some d" "json_rep d (add_member (k @ v) doc)" "ssize d = ssize s"
    by auto
  have "json_rep (not_empty d) (add_member (k @ v) doc)" using d(2) doc by simp
  then show ?thesis using a(1) b(1) c(1) d(1,3) by simp
qed

section \<open>The contract of a JSON append\<close>

definition json_step ::
  "c_env \<Rightarrow> serializer \<Rightarrow> nat \<Rightarrow> json_doc \<Rightarrow> json_doc \<Rightarrow> (int \<times> serializer) option \<Rightarrow> bool" where
  "json_step env s k doc doc' r \<longleftrightarrow>
     (\<exists>t. r = Some (0, t) \<and> json_rep t doc' \<and> ssize t \<le> ssize s + k)
     \<or> (\<exists>t. r = Some (-1, t) \<and> json_rep t doc \<and> \<not> can_grow env s k)"

lemma json_step_weaken: "json_step env s k doc doc' r \<Longrightarrow> k \<le> l \<Longrightarrow> json_step env s l doc doc' r"
  unfolding json_step_def using can_grow_mono by fastforce

lemma json_rep_grown: "grown k s t \<Longrightarrow> json_rep s doc \<Longrightarrow> json_rep t doc"
  by (cases doc) (auto simp: grown_sel, auto simp: grown_def)

lemma json_rep_ok: "json_rep s doc \<Longrightarrow> ser_ok s" "json_rep s doc \<Longrightarrow> fmt s = ndpi_serialization_format_json"
  by (cases doc; simp)+

lemma json_reserve_step:
  assumes "env_ok env" "json_rep s doc" "needed < 2 ^ 30"
    and body: "\<And>t. json_rep t doc \<Longrightarrow> room t needed \<Longrightarrow>
      \<exists>u. body t = Some (0, u) \<and> json_rep u doc' \<and> ssize u = ssize t"
  shows "json_step env s (needed + 1028) doc doc'
     (let (rc, t) = ser_reserve env s needed in if rc < 0 then Some (-1, t) else body t)"
proof -
  obtain rc t where res: "ser_reserve env s needed = (rc, t)" by (cases "ser_reserve env s needed")
  show ?thesis
    using res assms(1) json_rep_ok(1) [OF assms(2)] assms(3)
  proof (cases rule: reserve_cases)
    case refused
    with res assms(2) show ?thesis by (simp add: json_step_def)
  next
    case reserved
    from body [OF json_rep_grown [OF reserved(2) assms(2)] reserved(3)] reserved res show ?thesis
      by (auto simp: json_step_def grown_def)
  qed
qed

lemma length_json_key_text: "length (json_key_text k) \<le> 13"
  using length_show_u32 [of k] by (simp add: json_key_text_def)

lemma length_quoted: "length (quoted sg t) \<le> 2 * length t + 2"
  using length_esc [of sg t] by (simp add: quoted_def)

text \<open>A numeric key with a printed value of at most \<open>needed - 16\<close> characters.\<close>

lemma json_uint32_step:
  assumes "env_ok env" "json_rep s doc" "needed < 2 ^ 30" "length t + 16 \<le> needed"
  shows "json_step env s (needed + 1028) doc (add_member (json_key_text k @ t) doc)
     (let (rc, u) = ser_reserve env s needed in if rc < 0 then Some (-1, u) else json_item_uint32 u k t)"
  using assms(1-3)
proof (rule json_reserve_step)
  fix u assume u: "json_rep u doc" "room u needed"
  have "room u (length (json_key_text k) + length t + 3)"
    using length_json_key_text [of k] assms(4) by (intro room_mono [OF u(2)]) simp
  from json_member_adds [OF u(1) writes_key_uint32 writes_snprintf this]
  show "\<exists>w. json_item_uint32 u k t = Some (0, w) \<and> json_rep w (add_member (json_key_text k @ t) doc)
     \<and> ssize w = ssize u"
    by (simp add: json_item_uint32_def)
qed

text \<open>A string key with a printed value.\<close>

lemma json_string_step:
  assumes "env_ok env" "json_rep s doc" "needed < 2 ^ 30" "n \<le> length key"
    "length (quoted (char_signed env) (take n key)) + length t + 4 \<le> needed"
  shows "json_step env s (needed + 1028) doc
       (add_member ((quoted (char_signed env) (take n key) @ [ch_colon]) @ t) doc)
     (let (rc, u) = ser_reserve env s needed in if rc < 0 then Some (-1, u) else json_item_string env u key n t)"
  using assms(1-3)
proof (rule json_reserve_step)
  fix u assume u: "json_rep u doc" "room u needed"
  have "room u (length (quoted (char_signed env) (take n key) @ [ch_colon]) + length t + 3)"
    using assms(5) by (intro room_mono [OF u(2)]) simp
  from json_member_adds [OF u(1) writes_key_string [OF assms(4)] writes_snprintf this]
  show "\<exists>w. json_item_string env u key n t = Some (0, w)
     \<and> json_rep w (add_member ((quoted (char_signed env) (take n key) @ [ch_colon]) @ t) doc)
     \<and> ssize w = ssize u"
    by (simp add: json_item_string_def)
qed

lemma json_reserve_cong:
  assumes "json_rep s doc" "\<And>t. fmt t = ndpi_serialization_format_json \<Longrightarrow> f t = g t"
  shows "(case ser_reserve env s n of (rc, t) \<Rightarrow> if rc < 0 then Some (-1, t) else f t)
    = (let (rc, t) = ser_reserve env s n in if rc < 0 then Some (-1, t) else g t)"
  using assms reserve_fmt json_rep_ok(2) by (auto split: prod.splits)

end
