(* ===== verification/Json_Append.thy ===== *)
theory Json_Append
  imports Json_Format
begin

text \<open>
  The JSON appends of the serializer add one member to the document or end a record, or fail
  with \<open>-1\<close> when an allocation is refused: one lemma per append, the interpretation of the
  interface \<open>json_writer\<close> for the calls an API user makes, and the properties of whole
  documents and of string escaping.
\<close>

section \<open>Numeric keys\<close>

text \<open>The shape of the appends: a reservation, then a body whose JSON case prints the member.\<close>

lemma json_uint32_op:
  assumes A: "env_ok env" "json_rep s doc"
    and body: "\<And>u. fmt u = ndpi_serialization_format_json \<Longrightarrow> f u = json_item_uint32 u k t"
    and room: "needed < 2 ^ 30" "length t + 16 \<le> needed" "needed + 1028 \<le> c"
  shows "json_step env s c doc (add_member (json_key_text k @ t) doc)
     (case ser_reserve env s needed of (rc, u) \<Rightarrow> if rc < 0 then Some (-1, u) else f u)"
proof -
  have "(case ser_reserve env s needed of (rc, u) \<Rightarrow> if rc < 0 then Some (-1, u) else f u)
    = (let (rc, u) = ser_reserve env s needed in if rc < 0 then Some (-1, u) else json_item_uint32 u k t)"
    by (rule json_reserve_cong [OF A(2) body])
  with json_step_weaken [OF json_uint32_step [OF A room(1,2)] room(3)] show ?thesis by simp
qed

lemma uint32_uint32_json:
  assumes A: "env_ok env" "json_rep s doc"
  shows "json_step env s 1061 doc (add_member (json_key_text k @ show_nat (unat v)) doc)
           (ndpi_serialize_uint32_uint32 env s k v)"
  unfolding ndpi_serialize_uint32_uint32_def Let_def json_rep_ok(2) [OF A(2)]
  by (rule json_uint32_op [OF A]) (use length_show_u32 [of v] in simp_all)

lemma uint32_int32_json:
  assumes A: "env_ok env" "json_rep s doc"
  shows "json_step env s 1061 doc (add_member (json_key_text k @ show_int (sint v)) doc)
           (ndpi_serialize_uint32_int32 env s k v)"
  unfolding ndpi_serialize_uint32_int32_def Let_def json_rep_ok(2) [OF A(2)]
  by (rule json_uint32_op [OF A]) (use length_show_i32 [of v] in simp_all)

lemma uint32_uint64_json:
  assumes A: "env_ok env" "json_rep s doc"
  shows "json_step env s 1073 doc (add_member (json_key_text k @ show_nat (unat v)) doc)
           (ndpi_serialize_uint32_uint64 env s k v)"
  unfolding ndpi_serialize_uint32_uint64_def Let_def json_rep_ok(2) [OF A(2)]
  by (rule json_uint32_op [OF A]) (use length_show_u64 [of v] in simp_all)

lemma uint32_int64_json:
  assumes A: "env_ok env" "json_rep s doc"
  shows "json_step env s 1073 doc (add_member (json_key_text k @ show_int (sint v)) doc)
           (ndpi_serialize_uint32_int64 env s k v)"
  unfolding ndpi_serialize_uint32_int64_def Let_def json_rep_ok(2) [OF A(2)]
  by (rule json_uint32_op [OF A]) (use length_show_i64 [of v] in simp_all)

lemma uint32_float_json:
  assumes A: "env_ok env" "json_rep s doc" and fits: "length (f v) \<le> 25"
  shows "json_step env s 1069 doc (add_member (json_key_text k @ f v) doc)
           (ndpi_serialize_uint32_float env s k v f)"
  unfolding ndpi_serialize_uint32_float_def Let_def json_rep_ok(2) [OF A(2)]
  by (rule json_uint32_op [OF A]) (use fits in simp_all)

lemma length_bool_text: "length (bool_text v) \<le> 5"
  by (simp add: bool_text_def)

lemma uint32_boolean_json:
  assumes A: "env_ok env" "json_rep s doc"
  shows "json_step env s 1052 doc (add_member (json_key_text k @ bool_text v) doc)
           (ndpi_serialize_uint32_boolean env s k v)"
proof -
  have "json_step env s 1052 doc (add_member (json_key_text k @ bool_text v) doc)
     (case ser_reserve env s 24 of (rc, s) \<Rightarrow> if rc < 0 then Some (-1, s)
        else if fmt s = ndpi_serialization_format_json then json_item_uint32 s k (bool_text v)
        else csv_value_uint32 env s k (bool_text v))"
    by (rule json_uint32_op [OF A]) (use length_bool_text [of v] in simp_all)
  then show ?thesis using json_rep_ok(2) [OF A(2)] by (simp add: ndpi_serialize_uint32_boolean_def)
qed

lemma uint32_binary_json:
  assumes "env_ok env" "json_rep s doc" "n \<le> length v" "n < 65536"
  shows "json_step env s (2 * n + 1059) doc
           (add_member (json_key_text k @ quoted (char_signed env) (take n v)) doc)
           (ndpi_serialize_uint32_binary env s k v n)"
proof -
  let ?q = "quoted (char_signed env) (take n v)"
  let ?body = "\<lambda>u. do {
       a \<leftarrow> ndpi_serialize_json_pre u;
       (b, bd) \<leftarrow> json_key_uint32 a (buff_diff u) k;
       c \<leftarrow> ser_escape env b v n bd;
       d \<leftarrow> ndpi_serialize_json_post c;
       Some (0 :: int, not_empty d) }"
  have eq: "ndpi_serialize_uint32_binary env s k v n = (let (rc, u) = ser_reserve env s (31 + n + n) in
      if rc < 0 then Some (-1, u) else ?body u)"
    using json_rep_ok(2) [OF assms(2)] unfolding ndpi_serialize_uint32_binary_def
    by (auto simp: Let_def intro!: json_reserve_cong [OF assms(2), unfolded Let_def])
  have "json_step env s (31 + n + n + 1028) doc (add_member (json_key_text k @ ?q) doc)
     (let (rc, u) = ser_reserve env s (31 + n + n) in if rc < 0 then Some (-1, u) else ?body u)"
  proof (rule json_reserve_step [OF assms(1,2)])
    show "31 + n + n < 2 ^ 30" using assms(4) by simp
    fix u assume u: "json_rep u doc" "room u (31 + n + n)"
    have "length ?q \<le> 2 * n + 2" using length_quoted [of "char_signed env" "take n v"] assms(3) by simp
    then have "room u (length (json_key_text k) + length ?q + 3)"
      using length_json_key_text [of k] by (intro room_mono [OF u(2)]) simp
    from json_member_adds [OF u(1) writes_key_uint32 writes_escape [OF assms(3)] this]
    show "\<exists>w. ?body u = Some (0, w) \<and> json_rep w (add_member (json_key_text k @ ?q) doc) \<and> ssize w = ssize u" .
  qed
  then show ?thesis unfolding eq by (rule json_step_weaken) simp
qed

section \<open>String keys\<close>

fun key_text :: "bool \<Rightarrow> tlv_key \<Rightarrow> bytes" where
  "key_text sg (Num k) = json_key_text k"
| "key_text sg (Name n) = quoted sg n @ [ch_colon]"

lemma numeric_key_json:
  assumes key: "key_ok key klen"
    and num: "\<And>k. json_step env s c doc (add_member (json_key_text k @ v) doc) (num k)"
    and other: "json_step env s c' doc
      (add_member ((quoted (char_signed env) (take klen key) @ [ch_colon]) @ v) doc) other"
    and le: "c \<le> d" "c' \<le> d"
  shows "json_step env s d doc
     (add_member (key_text (char_signed env) (norm_key (Name (take klen key))) @ v) doc)
     (with_numeric_key key klen num other)"
  using assms(1) json_step_weaken [OF num le(1)] json_step_weaken [OF other le(2)]
  by (auto simp: with_numeric_key_def is_number_take key_ok_def)

lemma length_quoted_take:
  "n \<le> length key \<Longrightarrow> length (quoted sg (take n key)) \<le> 2 * n + 2"
  using length_quoted [of sg "take n key"] by simp

lemma json_string_op:
  assumes A: "env_ok env" "json_rep s doc" and key: "key_ok key n"
    and body: "\<And>u. fmt u = ndpi_serialization_format_json \<Longrightarrow> f u = json_item_string env u key n t"
    and num: "\<And>k. json_step env s c doc (add_member (json_key_text k @ t) doc) (num k)"
    and room: "needed < 2 ^ 30" "length (quoted (char_signed env) (take n key)) + length t + 4 \<le> needed"
    and le: "c \<le> d" "needed + 1028 \<le> d"
  shows "json_step env s d doc
     (add_member (key_text (char_signed env) (norm_key (Name (take n key))) @ t) doc)
     (with_numeric_key key n num
        (case ser_reserve env s needed of (rc, u) \<Rightarrow> if rc < 0 then Some (-1, u) else f u))"
proof -
  have "n \<le> length key" using key by (simp add: key_ok_def)
  note st = json_string_step [OF A room(1) this room(2)]
  have "(case ser_reserve env s needed of (rc, u) \<Rightarrow> if rc < 0 then Some (-1, u) else f u)
    = (let (rc, u) = ser_reserve env s needed in if rc < 0 then Some (-1, u) else json_item_string env u key n t)"
    by (rule json_reserve_cong [OF A(2) body])
  with numeric_key_json [OF key num st le] show ?thesis by simp
qed

lemma key_ok_len: "key_ok key n \<Longrightarrow> n < 65536 \<and> length (quoted sg (take n key)) \<le> 2 * n + 2"
  using length_quoted_take [of n key sg] by (simp add: key_ok_def)

lemma binary_int32_json:
  assumes A: "env_ok env" "json_rep s doc" and key: "key_ok key n"
  shows "json_step env s (2 * n + 1061) doc
     (add_member (key_text (char_signed env) (norm_key (Name (take n key))) @ show_int (sint v)) doc)
     (ndpi_serialize_binary_int32 env s key n v)"
  unfolding ndpi_serialize_binary_int32_def Let_def json_rep_ok(2) [OF A(2)]
  by (rule json_string_op [OF A key _ uint32_int32_json [OF A]])
    (use key_ok_len [OF key, of "char_signed env"] length_show_i32 [of v] in simp_all)

lemma binary_uint64_json:
  assumes A: "env_ok env" "json_rep s doc" and key: "key_ok key n"
  shows "json_step env s (2 * n + 1073) doc
     (add_member (key_text (char_signed env) (norm_key (Name (take n key))) @ show_nat (unat v)) doc)
     (ndpi_serialize_binary_uint64 env s key n v)"
  unfolding ndpi_serialize_binary_uint64_def Let_def json_rep_ok(2) [OF A(2)]
  by (rule json_string_op [OF A key _ uint32_uint64_json [OF A]])
    (use key_ok_len [OF key, of "char_signed env"] length_show_u64 [of v] in simp_all)

lemma binary_int64_json:
  assumes A: "env_ok env" "json_rep s doc" and key: "key_ok key n"
    and fits: "length (quoted (char_signed env) (take n key)) + length (show_int (sint v)) \<le> 2 * n + 19"
  shows "json_step env s (2 * n + 1073) doc
     (add_member (key_text (char_signed env) (norm_key (Name (take n key))) @ show_int (sint v)) doc)
     (ndpi_serialize_binary_int64 env s key n v)"
  unfolding ndpi_serialize_binary_int64_def Let_def json_rep_ok(2) [OF A(2)]
  by (rule json_string_op [OF A key _ uint32_int64_json [OF A]])
    (use key_ok_len [OF key, of "char_signed env"] fits in simp_all)

lemma binary_float_json:
  assumes A: "env_ok env" "json_rep s doc" and key: "key_ok key n"
    and fits: "length (f v) \<le> 25"
  shows "json_step env s (2 * n + 1069) doc
     (add_member (key_text (char_signed env) (norm_key (Name (take n key))) @ f v) doc)
     (ndpi_serialize_binary_float env s key n v f)"
  unfolding ndpi_serialize_binary_float_def Let_def json_rep_ok(2) [OF A(2)]
  by (rule json_string_op [OF A key _ uint32_float_json [OF A, where f = f and v = v, OF fits]])
    (use key_ok_len [OF key, of "char_signed env"] fits in simp_all)

lemma binary_uint32_json:
  assumes A: "env_ok env" "json_rep s doc" and key: "key_ok key n"
    and fits: "length (esc (char_signed env) (take n key)) \<le> n + 27"
  shows "json_step env s (n + 1071) doc
     (add_member (key_text (char_signed env) (norm_key (Name (take n key))) @ show_nat (unat v)) doc)
     (ndpi_serialize_binary_uint32 env s key n v)"
proof -
  have not_csv: "((2 :: nat) = 3) = False" by simp
  show ?thesis
    unfolding ndpi_serialize_binary_uint32_def Let_def json_rep_ok(2) [OF A(2)] not_csv if_False
    by (rule json_string_op [OF A key _ uint32_uint32_json [OF A]])
      (use key_ok_len [OF key, of "char_signed env"] fits length_show_u32 [of v] in \<open>simp_all add: quoted_def\<close>)
qed

lemma binary_boolean_json:
  assumes A: "env_ok env" "json_rep s doc" and key: "key_ok key n"
    and fits: "length (esc (char_signed env) (take n key)) \<le> n + 5"
  shows "json_step env s (n + 1052) doc
     (add_member (key_text (char_signed env) (norm_key (Name (take n key))) @ bool_text v) doc)
     (ndpi_serialize_binary_boolean env s key n v)"
proof -
  have json: "((2 :: nat) \<noteq> 2 \<and> (2 :: nat) \<noteq> 3) = False" by simp
  show ?thesis
    unfolding ndpi_serialize_binary_boolean_def json_rep_ok(2) [OF A(2)] json if_False Let_def
    by (rule json_string_op [OF A key _ uint32_boolean_json [OF A]])
      (use key_ok_len [OF key, of "char_signed env"] fits length_bool_text [of v] in \<open>simp_all add: quoted_def\<close>)
qed

lemma binary_raw_json:
  assumes A: "env_ok env" "json_rep s doc" and n: "n \<le> length key" "n < 65536" "m \<le> length v" "m < 65536"
  shows "json_step env s (2 * n + 2 * m + 1049) doc
     (add_member ((quoted (char_signed env) (take n key) @ [ch_colon])
        @ (if e then quoted (char_signed env) (take m v) else take m v)) doc)
     (ndpi_serialize_binary_raw env s key n v m e)"
proof -
  let ?q = "quoted (char_signed env) (take n key) @ [ch_colon]"
  let ?t = "if e then quoted (char_signed env) (take m v) else take m v"
  let ?vf = "\<lambda>s bd. if e then ser_escape env s v m bd else do { v \<leftarrow> peek_run v 0 m; ser_put s v }"
  let ?body = "\<lambda>u. do {
       a \<leftarrow> ndpi_serialize_json_pre u;
       (b, bd) \<leftarrow> json_key_string env a (buff_diff u) key n;
       c \<leftarrow> ?vf b bd;
       d \<leftarrow> ndpi_serialize_json_post c;
       Some (0 :: int, not_empty d) }"
  let ?need = "21 + n + m + n + m"
  have vf: "writes_value ?vf ?t" using writes_escape writes_raw n(3) by (cases e) simp_all
  have eq: "ndpi_serialize_binary_raw env s key n v m e = (let (rc, u) = ser_reserve env s ?need in
      if rc < 0 then Some (-1, u) else ?body u)"
    using json_rep_ok(2) [OF A(2)] unfolding ndpi_serialize_binary_raw_def
    by (auto simp: Let_def ac_simps intro!: json_reserve_cong [OF A(2), unfolded Let_def])
  have len: "length ?q + length ?t + 3 \<le> ?need"
    using length_quoted_take [OF n(1), of "char_signed env"] length_quoted_take [OF n(3), of "char_signed env"] n(3)
    by auto
  have "json_step env s (?need + 1028) doc (add_member (?q @ ?t) doc)
     (let (rc, u) = ser_reserve env s ?need in if rc < 0 then Some (-1, u) else ?body u)"
  proof (rule json_reserve_step [OF A])
    show "?need < 2 ^ 30" using n by simp
    fix u assume u: "json_rep u doc" "room u ?need"
    from json_member_adds [OF u(1) writes_key_string [OF n(1)] vf room_mono [OF u(2) len]]
    show "\<exists>w. ?body u = Some (0, w) \<and> json_rep w (add_member (?q @ ?t) doc) \<and> ssize w = ssize u" .
  qed
  then show ?thesis unfolding eq by (rule json_step_weaken) simp
qed

lemma binary_binary_json:
  assumes A: "env_ok env" "json_rep s doc" and key: "key_ok key n" and m: "m \<le> length v" "m < 65536"
  shows "json_step env s (2 * n + 2 * m + 1059) doc
     (add_member (key_text (char_signed env) (norm_key (Name (take n key)))
        @ quoted (char_signed env) (take m v)) doc)
     (ndpi_serialize_binary_binary env s key n (Some v) m)"
proof -
  have n: "n \<le> length key" "n < 65536" using key by (simp_all add: key_ok_def)
  from numeric_key_json [OF key uint32_binary_json [OF A m] binary_raw_json [OF A n m, of True, unfolded if_True]]
  show ?thesis by (simp add: ndpi_serialize_binary_binary_def)
qed

section \<open>The end of a record\<close>

lemma render_end_record:
  "don \<noteq> [] \<Longrightarrow> render (end_record (don, blk, cur)) = render (don, blk, cur)"
  "render (end_record ([], blk, cur)) = ch_lbrack # json_object cur @ [ch_rbrack]"
  by simp_all

lemma overwrite_first:
  assumes "ser_ok s" "content s = c # xs"
  shows "ser_poke_at s 0 [b] = Some (set_sdata (b # drop 1 (sdata s)) s)"
    "ser_ok (set_sdata (b # drop 1 (sdata s)) s)" "content (set_sdata (b # drop 1 (sdata s)) s) = b # xs"
proof -
  obtain r where r: "sdata s = c # r" "take (used s) (sdata s) = c # xs"
    using assms by (cases "sdata s") (auto simp: content_def take_Cons split: nat.splits)
  obtain u where "used s = Suc u" using r by (cases "used s") auto
  then show "ser_poke_at s 0 [b] = Some (set_sdata (b # drop 1 (sdata s)) s)"
    "ser_ok (set_sdata (b # drop 1 (sdata s)) s)" "content (set_sdata (b # drop 1 (sdata s)) s) = b # xs"
    using r assms(1) by (simp_all add: ser_poke_at_def poke_def ser_ok_def content_def)
qed

lemma end_of_record_json:
  assumes A: "env_ok env" "json_rep s doc" and no_block: "fst (snd doc) = []"
  shows "json_step env s 1030 doc (end_record doc) (ndpi_serialize_end_of_record env s)"
proof -
  let ?body = "\<lambda>s. do {
     s \<leftarrow> (if \<not> flag_on s NDPI_SERIALIZER_STATUS_ARRAY then do {
              let bd = buff_diff s;
              s \<leftarrow> ser_poke_at s 0 [ch_lbrack];
              ser_snprintf s bd [ch_rbrack]
            } else Some s);
     Some (0 :: int, drop_flag NDPI_SERIALIZER_STATUS_NOT_EMPTY (drop_flag NDPI_SERIALIZER_STATUS_COMMA
       (raise_flag (NDPI_SERIALIZER_STATUS_ARRAY OR NDPI_SERIALIZER_STATUS_EOR) s))) }"
  have eq: "ndpi_serialize_end_of_record env s = (let (rc, u) = ser_reserve env s 2 in
      if rc < 0 then Some (-1, u) else ?body u)"
    using json_rep_ok(2) [OF A(2)] unfolding ndpi_serialize_end_of_record_def
    by (auto simp: Let_def numeral_2_eq_2 intro!: json_reserve_cong [OF A(2), unfolded Let_def])
  have "json_step env s (2 + 1028) doc (end_record doc)
     (let (rc, u) = ser_reserve env s 2 in if rc < 0 then Some (-1, u) else ?body u)"
  proof (rule json_reserve_step [OF A])
    fix u assume u: "json_rep u doc" "room u 2"
    obtain don cur where doc: "doc = (don, [], cur)" using no_block by (cases doc) auto
    show "\<exists>w. ?body u = Some (0, w) \<and> json_rep w (end_record doc) \<and> ssize w = ssize u"
    proof (cases "don = []")
      case False
      then show ?thesis using u doc render_end_record(1) [OF False, of "[]" cur] by auto
    next
      case True
      have ok: "ser_ok u" and c: "content u = ch_space # json_object cur" using u doc True by simp_all
      note w = overwrite_first [OF ok c, of ch_lbrack]
      let ?w = "set_sdata (ch_lbrack # drop 1 (sdata u)) u"
      have "1 < buff_diff u" using u(2) ok by (simp add: room_def buff_diff_room)
      then have sn: "ser_snprintf ?w (buff_diff u) [ch_rbrack] = Some (app ?w [ch_rbrack] [0])"
        using w(2) u(2) by (intro ser_snprintf_app) (simp_all add: room_def)
      have "ser_ok (app ?w [ch_rbrack] [0])"
        "content (app ?w [ch_rbrack] [0]) = ch_lbrack # json_object cur @ [ch_rbrack]"
        using w(2,3) u(2) by (simp_all add: room_def)
      then show ?thesis using u(1) doc True sn w(1) by (simp add: Let_def)
    qed
  qed simp
  then show ?thesis unfolding eq by simp
qed

section \<open>Blocks\<close>

text \<open>
  The key of a block is escaped into a room that is computed from its plain length: the escaped key
  may be longer by 11 bytes at most.
\<close>

lemma open_block_adds:
  assumes rep: "json_rep s ([], blk, cur)" and n: "n \<le> length key"
    and rm: "room s (length (quoted (char_signed env) (take n key)) + 6)"
  shows "\<exists>w. (do {
       s1 \<leftarrow> ndpi_serialize_json_pre s;
       s2 \<leftarrow> ser_escape env s1 key n (buff_diff s);
       s3 \<leftarrow> ser_snprintf s2 (buff_diff s2) [ch_colon, ch_space, ch_lbrace];
       s4 \<leftarrow> ndpi_serialize_json_post s3;
       Some (0 :: int, raise_flag NDPI_SERIALIZER_STATUS_SOB s4) }) = Some (0, w)
     \<and> json_rep w (open_block (quoted (char_signed env) (take n key)) ([], blk, cur)) \<and> ssize w = ssize s"
proof -
  let ?q = "quoted (char_signed env) (take n key)" and ?doc = "([], blk, cur)"
  let ?t = "[ch_colon, ch_space, ch_lbrace]"
  have ok: "ser_ok s" using rep by simp
  have bd: "buff_diff s = ssize s - used s" "ssize s < 2 ^ 31" using ok buff_diff_room by (auto simp: ser_ok_def)
  obtain a where a: "ndpi_serialize_json_pre s = Some a" "json_mid s ?doc (opened ?doc) a" "used a \<le> Suc (used s)"
    using json_pre_open [OF rep] room_mono [OF rm, of 1] by auto
  have sz: "ssize a = ssize s" using a(2) by (simp add: json_mid_def)
  have ra: "room a (length ?q + 5)" using a(3) rm sz by (simp add: room_def)
  have q: "length ?q \<le> buff_diff s" "buff_diff s < 2 ^ 31" using rm bd by (auto simp: room_def)
  from json_mid_escape [OF a(2) n room_mono [OF ra] q] obtain b where
    b: "ser_escape env a key n (buff_diff s) = Some b" "json_mid s ?doc (opened ?doc @ ?q) b" "used b = used a + length ?q" by auto
  have szb: "ssize b = ssize s" "ser_ok b" using b(2) by (simp_all add: json_mid_def)
  have rb: "room b 5" "length ?t < buff_diff b" using ra b(3) sz szb by (auto simp: room_def buff_diff_room)
  have c: "ser_snprintf b (buff_diff b) ?t = Some (app b ?t [0])" "json_mid s ?doc ((opened ?doc @ ?q) @ ?t) (app b ?t [0])"
    using json_mid_snprintf [OF b(2) room_mono [OF rb(1)] rb(2)] by auto
  have "room (app b ?t [0]) 2" using rb(1) by (simp add: room_def)
  then have rc: "room (app b ?t [0]) (length [ch_rbrace])" by (rule room_mono) simp
  define d where "d = app (app b ?t [0]) [ch_rbrace] []"
  have D: "ser_put (app b ?t [0]) [ch_rbrace] = Some d" "json_mid s ?doc (((opened ?doc @ ?q) @ ?t) @ [ch_rbrace]) d"
    using json_mid_put [OF c(2) rc] by (auto simp: d_def)
  have flags: "\<not> flag_on (app b ?t [0]) NDPI_SERIALIZER_STATUS_LIST" "\<not> flag_on d NDPI_SERIALIZER_STATUS_ARRAY"
    using c(2) D(2) by (simp_all add: json_mid_def)
  have post: "ndpi_serialize_json_post (app b ?t [0]) = Some (raise_flag NDPI_SERIALIZER_STATUS_COMMA d)"
    using flags D(1) by (simp add: ndpi_serialize_json_post_def)
  have r: "render (open_block ?q ?doc) = ((opened ?doc @ ?q) @ ?t) @ [ch_rbrace]"
    unfolding render_open_block by simp
  have "used d < ssize s" using rb(1) szb by (simp add: d_def room_def)
  then have "json_rep (raise_flag NDPI_SERIALIZER_STATUS_SOB (raise_flag NDPI_SERIALIZER_STATUS_COMMA d)) (open_block ?q ?doc)"
    using D(2) r by (simp add: json_mid_def del: render.simps opened.simps)
  moreover have "ssize d = ssize s" using D(2) by (simp add: json_mid_def)
  ultimately show ?thesis using a(1) b(1) c(1) post by simp
qed

lemma start_of_block_json:
  assumes A: "env_ok env" "json_rep s doc" and doc: "fst doc = []" and n: "n \<le> length key" "n < 65536"
    and fits: "length (esc (char_signed env) (take n key)) \<le> n + 8"
  shows "json_step env s (n + 1044) doc (open_block (quoted (char_signed env) (take n key)) doc)
     (ndpi_serialize_start_of_block_binary env s key n)"
proof -
  obtain blk cur where d: "doc = ([], blk, cur)" using doc by (cases doc) auto
  let ?body = "\<lambda>s. do {
       s1 \<leftarrow> ndpi_serialize_json_pre s;
       s2 \<leftarrow> ser_escape env s1 key n (buff_diff s);
       s3 \<leftarrow> ser_snprintf s2 (buff_diff s2) [ch_colon, ch_space, ch_lbrace];
       s4 \<leftarrow> ndpi_serialize_json_post s3;
       Some (0 :: int, raise_flag NDPI_SERIALIZER_STATUS_SOB s4) }"
  have eq: "ndpi_serialize_start_of_block_binary env s key n = (let (rc, u) = ser_reserve env s (16 + n) in
      if rc < 0 then Some (-1, u) else ?body u)"
    using json_rep_ok(2) [OF A(2)] unfolding ndpi_serialize_start_of_block_binary_def
    by (auto simp: Let_def intro!: json_reserve_cong [OF A(2), unfolded Let_def])
  have "json_step env s (16 + n + 1028) doc (open_block (quoted (char_signed env) (take n key)) doc)
     (let (rc, u) = ser_reserve env s (16 + n) in if rc < 0 then Some (-1, u) else ?body u)"
  proof (rule json_reserve_step [OF A])
    show "16 + n < 2 ^ 30" using n by simp
    fix u assume u: "json_rep u doc" "room u (16 + n)"
    have "room u (length (quoted (char_signed env) (take n key)) + 6)"
      using fits by (intro room_mono [OF u(2)]) (simp add: quoted_def)
    from open_block_adds [OF u(1) [unfolded d] n(1) this]
    show "\<exists>w. ?body u = Some (0, w) \<and> json_rep w (open_block (quoted (char_signed env) (take n key)) doc) \<and> ssize w = ssize u"
      unfolding d .
  qed
  then show ?thesis unfolding eq by (rule json_step_weaken) simp
qed

lemma end_of_block_json:
  assumes A: "env_ok env" "json_rep s doc" and doc: "fst (snd doc) \<noteq> []"
  shows "json_step env s 1032 doc (close_block doc) (ndpi_serialize_end_of_block env s)"
proof -
  let ?drop = "\<lambda>s. if flag_on s NDPI_SERIALIZER_STATUS_SOB then drop_flag NDPI_SERIALIZER_STATUS_SOB s else s"
  let ?body = "\<lambda>s. do { s \<leftarrow> ndpi_serialize_json_post (?drop s); Some (0 :: int, s) }"
  have eq: "ndpi_serialize_end_of_block env s = (let (rc, u) = ser_reserve env s 4 in
      if rc < 0 then Some (-1, u) else ?body u)"
    using json_rep_ok(2) [OF A(2)] unfolding ndpi_serialize_end_of_block_def
    by (auto simp: Let_def intro!: json_reserve_cong [OF A(2), unfolded Let_def])
  have "json_step env s (4 + 1028) doc (close_block doc)
     (let (rc, u) = ser_reserve env s 4 in if rc < 0 then Some (-1, u) else ?body u)"
  proof (rule json_reserve_step [OF A])
    fix u assume u: "json_rep u doc" "room u 4"
    obtain ms k blk cur where d: "doc = ([], (ms, k) # blk, cur)"
      using doc u(1) by (cases doc; cases "fst (snd doc)") auto
    have c: "content u = render doc" "ser_ok u" using u(1) d by simp_all
    let ?u = "?drop u"
    have rm: "room ?u (length [ch_rbrace])" using room_mono [OF u(2), of 1] by simp
    have ok: "ser_ok ?u" "content ?u = render doc" using c by simp_all
    define w where "w = app ?u [ch_rbrace] []"
    have put: "ser_put ?u [ch_rbrace] = Some w" using ok(1) rm by (simp add: w_def)
    have w: "ser_ok w" "content w = render (close_block doc)" "ssize w = ssize u" "sflags w = sflags ?u" "fmt w = fmt u"
      using ok rm render_close_block [of "(ms, k)" blk cur] by (simp_all add: w_def d del: render.simps)
    have post: "ndpi_serialize_json_post ?u = Some (raise_flag NDPI_SERIALIZER_STATUS_COMMA w)"
      using u(1) d put w(4) by (simp add: ndpi_serialize_json_post_def)
    have "used w < ssize u" using u(2) by (simp add: w_def room_def)
    then have "json_rep (raise_flag NDPI_SERIALIZER_STATUS_COMMA w) (close_block doc)"
      using u(1) d w by (auto simp del: render.simps)
    then show "\<exists>w. ?body u = Some (0, w) \<and> json_rep w (close_block doc) \<and> ssize w = ssize u"
      using post w(3) by simp
  qed simp
  then show ?thesis unfolding eq by simp
qed

section \<open>The calls of an API user\<close>

datatype json_value =
  JU32 u32 | JU64 u64 | JI32 u32 | JI64 u64 | JFloat u32 | JText bytes | JString bytes | JBool u8 | JRaw bytes

datatype json_act = Member tlv_key json_value | Open_block bytes | Close_block | Close_record

text \<open>The text of a value; \<open>ff\<close> is what the caller's format prints for a \<open>float\<close>.\<close>

fun value_text :: "(u32 \<Rightarrow> bytes) \<Rightarrow> bool \<Rightarrow> json_value \<Rightarrow> bytes" where
  "value_text ff sg (JU32 v) = show_nat (unat v)"
| "value_text ff sg (JU64 v) = show_nat (unat v)"
| "value_text ff sg (JI32 v) = show_int (sint v)"
| "value_text ff sg (JI64 v) = show_int (sint v)"
| "value_text ff sg (JFloat v) = ff v"
| "value_text ff sg (JText t) = quoted sg t"
| "value_text ff sg (JString t) = quoted sg t"
| "value_text ff sg (JBool b) = bool_text b"
| "value_text ff sg (JRaw t) = t"

fun act_step :: "(u32 \<Rightarrow> bytes) \<Rightarrow> bool \<Rightarrow> json_act \<Rightarrow> json_doc \<Rightarrow> json_doc" where
  "act_step ff sg (Member k v) doc = add_member (key_text sg (norm_key k) @ value_text ff sg v) doc"
| "act_step ff sg (Open_block n) doc = open_block (quoted sg n) doc"
| "act_step ff sg Close_block doc = close_block doc"
| "act_step ff sg Close_record doc = end_record doc"

fun json_call :: "(u32 \<Rightarrow> bytes) \<Rightarrow> c_env \<Rightarrow> serializer \<Rightarrow> json_act \<Rightarrow> (int \<times> serializer) option" where
  "json_call ff env s (Member (Num k) (JU32 v)) = ndpi_serialize_uint32_uint32 env s k v"
| "json_call ff env s (Member (Num k) (JU64 v)) = ndpi_serialize_uint32_uint64 env s k v"
| "json_call ff env s (Member (Num k) (JI32 v)) = ndpi_serialize_uint32_int32 env s k v"
| "json_call ff env s (Member (Num k) (JI64 v)) = ndpi_serialize_uint32_int64 env s k v"
| "json_call ff env s (Member (Num k) (JFloat v)) = ndpi_serialize_uint32_float env s k v ff"
| "json_call ff env s (Member (Num k) (JText t)) = ndpi_serialize_uint32_binary env s k t (length t)"
| "json_call ff env s (Member (Num k) (JString t)) = ndpi_serialize_uint32_string env s k (Some (cstr t))"
| "json_call ff env s (Member (Num k) (JBool b)) = ndpi_serialize_uint32_boolean env s k b"
| "json_call ff env s (Member (Num k) (JRaw t)) = Some (0, s)"
| "json_call ff env s (Member (Name n) (JU32 v)) = ndpi_serialize_string_uint32 env s (cstr n) v"
| "json_call ff env s (Member (Name n) (JU64 v)) = ndpi_serialize_string_uint64 env s (cstr n) v"
| "json_call ff env s (Member (Name n) (JI32 v)) = ndpi_serialize_string_int32 env s (cstr n) v"
| "json_call ff env s (Member (Name n) (JI64 v)) = ndpi_serialize_string_int64 env s (cstr n) v"
| "json_call ff env s (Member (Name n) (JFloat v)) = ndpi_serialize_string_float env s (cstr n) v ff"
| "json_call ff env s (Member (Name n) (JText t)) =
     ndpi_serialize_string_binary env s (cstr n) (Some t) (length t)"
| "json_call ff env s (Member (Name n) (JString t)) = ndpi_serialize_string_string env s (cstr n) (Some (cstr t))"
| "json_call ff env s (Member (Name n) (JBool b)) = ndpi_serialize_string_boolean env s (cstr n) b"
| "json_call ff env s (Member (Name n) (JRaw t)) =
     ndpi_serialize_string_raw env s (cstr n) t (length t)"
| "json_call ff env s (Open_block n) = ndpi_serialize_start_of_block env s (Some (cstr n))"
| "json_call ff env s Close_block = ndpi_serialize_end_of_block env s"
| "json_call ff env s Close_record = ndpi_serialize_end_of_record env s"

text \<open>
  The arguments for which the calls are defined: as in TLV, and the escaped name must fit in
  the room the call reserves, which the source takes to be the plain length in some calls.
  A raw value has no call with a numeric key, and a raw value's name is never turned into a
  number. Blocks are opened before the first record ends, only an open block is closed, and a
  record ends with no block open.
\<close>

fun member_ok :: "(u32 \<Rightarrow> bytes) \<Rightarrow> bool \<Rightarrow> tlv_key \<Rightarrow> json_value \<Rightarrow> bool" where
  "member_ok ff sg (Num k) (JText t) \<longleftrightarrow> length t < 65536"
| "member_ok ff sg (Num k) (JFloat v) \<longleftrightarrow> length (ff v) \<le> 25"
| "member_ok ff sg (Num k) (JString t) \<longleftrightarrow> 0 \<notin> set t \<and> length t < 65536"
| "member_ok ff sg (Num k) (JRaw t) \<longleftrightarrow> False"
| "member_ok ff sg (Num k) v \<longleftrightarrow> True"
| "member_ok ff sg (Name n) (JText t) \<longleftrightarrow> name_ok n \<and> length t < 65536"
| "member_ok ff sg (Name n) (JString t) \<longleftrightarrow> name_ok n \<and> 0 \<notin> set t \<and> length t < 65536"
| "member_ok ff sg (Name n) (JRaw t) \<longleftrightarrow>
     name_ok n \<and> length t < 65536 \<and> \<not> list_all c_isdigit n"
| "member_ok ff sg (Name n) (JFloat v) \<longleftrightarrow> name_ok n \<and> length (ff v) \<le> 25"
| "member_ok ff sg (Name n) (JU32 v) \<longleftrightarrow> name_ok n \<and> length (esc sg n) \<le> length n + 27"
| "member_ok ff sg (Name n) (JBool v) \<longleftrightarrow> name_ok n \<and> length (esc sg n) \<le> length n + 5"
| "member_ok ff sg (Name n) (JI64 v) \<longleftrightarrow>
     name_ok n \<and> length (quoted sg n) + length (show_int (sint v)) \<le> 2 * length n + 19"
| "member_ok ff sg (Name n) v \<longleftrightarrow> name_ok n"

fun json_ok :: "(u32 \<Rightarrow> bytes) \<Rightarrow> bool \<Rightarrow> json_act \<Rightarrow> json_doc \<Rightarrow> bool" where
  "json_ok ff sg (Member k v) doc \<longleftrightarrow> member_ok ff sg k v"
| "json_ok ff sg (Open_block n) doc \<longleftrightarrow> name_ok n \<and> length (esc sg n) \<le> length n + 8 \<and> fst doc = []"
| "json_ok ff sg Close_block doc \<longleftrightarrow> fst (snd doc) \<noteq> []"
| "json_ok ff sg Close_record doc \<longleftrightarrow> fst (snd doc) = []"

text \<open>A run of actions each of which is valid where it comes.\<close>

primrec valid_run :: "('a \<Rightarrow> json_doc \<Rightarrow> bool) \<Rightarrow> ('a \<Rightarrow> json_doc \<Rightarrow> json_doc) \<Rightarrow> 'a list \<Rightarrow> json_doc \<Rightarrow> bool" where
  "valid_run ok step [] doc \<longleftrightarrow> True"
| "valid_run ok step (a # as) doc \<longleftrightarrow> ok a doc \<and> valid_run ok step as (step a doc)"

fun json_cost :: "json_act \<Rightarrow> nat" where
  "json_cost (Member (Num k) (JText t)) = 2 * length t + 1100"
| "json_cost (Member (Num k) (JString t)) = 2 * length t + 1100"
| "json_cost (Member (Num k) v) = 1100"
| "json_cost (Member (Name n) (JText t)) = 2 * length n + 2 * length t + 1100"
| "json_cost (Member (Name n) (JString t)) = 2 * length n + 2 * length t + 1100"
| "json_cost (Member (Name n) (JRaw t)) = 2 * length n + 2 * length t + 1100"
| "json_cost (Member (Name n) v) = 2 * length n + 1100"
| "json_cost (Open_block n) = length n + 1100"
| "json_cost Close_block = 1100"
| "json_cost Close_record = 1100"

lemma json_call_num:
  assumes A: "env_ok env" "json_rep s doc" and ok: "member_ok ff (char_signed env) (Num k) v"
  shows "json_step env s (json_cost (Member (Num k) v)) doc
     (act_step ff (char_signed env) (Member (Num k) v) doc) (json_call ff env s (Member (Num k) v))"
proof (cases v)
  case (JText t)
  then show ?thesis using json_step_weaken [OF uint32_binary_json [OF A order_refl, of t k]] ok by simp
next
  case (JString t)
  then have t: "0 \<notin> set t" "length t < 65536" using ok by simp_all
  then show ?thesis using JString json_step_weaken [OF uint32_binary_json [OF A, of "length t" "cstr t" k]]
    by (simp add: ndpi_serialize_uint32_string_def)
next
  case (JFloat x)
  then show ?thesis using json_step_weaken [OF uint32_float_json [OF A, of ff x k]] ok by simp
qed (use ok json_step_weaken [OF uint32_uint32_json [OF A]] json_step_weaken [OF uint32_uint64_json [OF A]]
    json_step_weaken [OF uint32_int32_json [OF A]] json_step_weaken [OF uint32_int64_json [OF A]]
    json_step_weaken [OF uint32_boolean_json [OF A]] in auto)

lemma json_call_name:
  assumes A: "env_ok env" "json_rep s doc" and ok: "member_ok ff (char_signed env) (Name n) v"
  shows "json_step env s (json_cost (Member (Name n) v)) doc
     (act_step ff (char_signed env) (Member (Name n) v) doc) (json_call ff env s (Member (Name n) v))"
proof -
  have n: "name_ok n" using ok by (cases v) auto
  then have K: "key_ok (cstr n) (length n)" "c_strlen (cstr n) = Some (length n)" "length n < 65536"
    using key_ok_name by (simp_all add: name_ok_def)
  note f = json_rep_ok(2) [OF A(2)]
  show ?thesis
  proof (cases v)
    case (JU32 x)
    then show ?thesis using json_step_weaken [OF binary_uint32_json [OF A K(1), of x]] ok K
      by (simp add: ndpi_serialize_string_uint32_def)
  next
    case (JU64 x)
    then show ?thesis using json_step_weaken [OF binary_uint64_json [OF A K(1), of x]] K
      by (simp add: ndpi_serialize_string_uint64_def)
  next
    case (JI32 x)
    then show ?thesis using json_step_weaken [OF binary_int32_json [OF A K(1), of x]] K f
      by (simp add: ndpi_serialize_string_int32_def)
  next
    case (JI64 x)
    then show ?thesis using json_step_weaken [OF binary_int64_json [OF A K(1), of x]] ok K
      by (simp add: ndpi_serialize_string_int64_def)
  next
    case (JFloat x)
    then show ?thesis using json_step_weaken [OF binary_float_json [OF A K(1), of ff x]] ok K
      by (simp add: ndpi_serialize_string_float_def)
  next
    case (JText t)
    then show ?thesis using json_step_weaken [OF binary_binary_json [OF A K(1) order_refl, of t]] ok K
      by (simp add: ndpi_serialize_string_binary_def)
  next
    case (JString t)
    then have t: "0 \<notin> set t" "length t < 65536" using ok by simp_all
    then show ?thesis using JString f K json_step_weaken [OF binary_binary_json [OF A K(1), of "length t" "cstr t"]]
      by (simp add: ndpi_serialize_string_string_def)
  next
    case (JBool b)
    then show ?thesis using json_step_weaken [OF binary_boolean_json [OF A K(1), of b]] ok K
      by (simp add: ndpi_serialize_string_boolean_def)
  next
    case (JRaw t)
    then show ?thesis
      using json_step_weaken [OF binary_raw_json [OF A, of "length n" "cstr n" "length t" t False]] ok K
      by (simp add: ndpi_serialize_string_raw_def)
  qed
qed

text \<open>What a provider of JSON appends promises, and what follows for a run of them.\<close>

locale json_writer =
  fixes call :: "c_env \<Rightarrow> serializer \<Rightarrow> 'a \<Rightarrow> (int \<times> serializer) option"
    and step :: "c_env \<Rightarrow> 'a \<Rightarrow> json_doc \<Rightarrow> json_doc"
    and valid :: "c_env \<Rightarrow> 'a \<Rightarrow> json_doc \<Rightarrow> bool"
    and cost :: "'a \<Rightarrow> nat"
  assumes call_steps:
    "env_ok env \<Longrightarrow> json_rep s doc \<Longrightarrow> valid env a doc \<Longrightarrow>
     json_step env s (cost a) doc (step env a doc) (call env s a)"
begin

lemma call_keeps:
  assumes "env_ok env" "json_rep s doc" "valid env a doc"
  shows "\<exists>rc t. call env s a = Some (rc, t) \<and> (json_rep t doc \<or> json_rep t (step env a doc))"
  using call_steps [OF assms] by (auto simp: json_step_def)

lemma run_writes:
  assumes "env_ok env" "json_rep s doc" "valid_run (valid env) (step env) as doc"
  shows "\<exists>rc t n. run_calls call env s as = Some (rc, t) \<and> n \<le> length as
     \<and> json_rep t (fold (step env) (take n as) doc)
     \<and> (rc = 0 \<and> n = length as \<or> rc = -1 \<and> \<not> can_grow env s (sum_list (map cost as)))"
  using assms(2,3)
proof (induction as arbitrary: s doc)
  case Nil
  then show ?case by simp
next
  case (Cons a as)
  have "json_step env s (cost a) doc (step env a doc) (call env s a)"
    using assms(1) Cons.prems by (intro call_steps) simp_all
  then consider
      (ok) t where "call env s a = Some (0, t)" "json_rep t (step env a doc)" "ssize t \<le> ssize s + cost a"
    | (no) t where "call env s a = Some (-1, t)" "json_rep t doc" "\<not> can_grow env s (cost a)"
    by (auto simp: json_step_def)
  then show ?case
  proof cases
    case no
    then have "\<not> can_grow env s (sum_list (map cost (a # as)))"
      using can_grow_mono [of env s "sum_list (map cost (a # as))" "cost a"] by auto
    with no show ?thesis by (intro exI [of _ "-1"] exI [of _ t] exI [of _ 0]) auto
  next
    case ok
    from Cons.IH [OF ok(2)] Cons.prems obtain rc u n where u: "run_calls call env t as = Some (rc, u)"
        "n \<le> length as" "json_rep u (fold (step env) (take n as) (step env a doc))"
        "rc = 0 \<and> n = length as \<or> rc = -1 \<and> \<not> can_grow env t (sum_list (map cost as))"
      by auto
    have "\<not> can_grow env s (sum_list (map cost (a # as)))"
      if "\<not> can_grow env t (sum_list (map cost as))"
      using that ok(3) can_grow_after by auto
    then show ?thesis using u ok(1)
      by (intro exI [of _ rc] exI [of _ u] exI [of _ "Suc n"]) auto
  qed
qed

end

interpretation json: json_writer "json_call ff" "\<lambda>env. act_step ff (char_signed env)"
    "\<lambda>env. json_ok ff (char_signed env)" json_cost for ff
proof
  fix env s doc a
  assume A: "env_ok env" "json_rep s doc" and ok: "json_ok ff (char_signed env) a doc"
  show "json_step env s (json_cost a) doc (act_step ff (char_signed env) a doc) (json_call ff env s a)"
  proof (cases a)
    case (Member k v)
    then show ?thesis using json_call_num [OF A] json_call_name [OF A] ok by (cases k) simp_all
  next
    case (Open_block n)
    then have n: "c_strlen (cstr n) = Some (length n)" "length n < 65536" "length (esc (char_signed env) n) \<le> length n + 8" "fst doc = []"
      using ok by (simp_all add: name_ok_def)
    then show ?thesis using Open_block json_step_weaken [OF start_of_block_json [OF A, of "length n" "cstr n"]]
      by (simp add: ndpi_serialize_start_of_block_def)
  next
    case Close_block
    then show ?thesis using json_step_weaken [OF end_of_block_json [OF A]] ok by simp
  next
    case Close_record
    then show ?thesis using json_step_weaken [OF end_of_record_json [OF A]] ok by simp
  qed
qed

section \<open>A whole document\<close>

lemma init_json:
  assumes "env_ok env" "alloc_ok env n" "4 \<le> n"
  shows "\<exists>s. ndpi_init_serializer_ll env ndpi_serialization_format_json n = Some (0, s)
     \<and> json_rep s ([], [], []) \<and> ssize s = n"
proof -
  obtain m where "n = 4 + m" using assms(3) le_Suc_ex by blast
  then have n: "n = Suc (Suc (Suc (Suc m)))" by simp
  have "n < 2 ^ 31" using assms by (simp add: env_ok_def)
  then show ?thesis using assms n
    by (simp add: ndpi_init_serializer_ll_def ndpi_init_serializer_buffer_def zero_serializer_def
        zero_buffer_def c_calloc_def snprintf_at_def ser_snprintf_def poke_def ser_upd_defs
        ndpi_reset_serializer_def ser_ok_def content_def add_used_def buff_diff_def json_object_def
        zero_status_def)
qed

definition document :: "bytes list list \<Rightarrow> bytes list \<Rightarrow> bytes" where
  "document don cur = (if don = [] then json_object cur else render (don, [], cur))"

lemma skip_blank_stop: "b \<noteq> 0 \<Longrightarrow> b \<noteq> ch_space \<Longrightarrow> skip_blank (b # bs) n = Some (b # bs, n)"
  by simp

lemma get_buffer_json:
  assumes "json_rep s (don, [], cur)"
  shows "\<exists>buf t. ndpi_serializer_get_buffer s = Some (buf, length (document don cur), t)
     \<and> take (length (document don cur)) buf = document don cur
     \<and> (don = [] \<longrightarrow> (\<exists>r. buf = document don cur @ 0 # r))
     \<and> ssize t = ssize s \<and> length (sdata t) = ssize s \<and> fmt t = fmt s"
proof -
  have ok: "ser_ok s" and c: "content s = render (don, [], cur)" and f: "fmt s = 2"
    and z: "don = [] \<Longrightarrow> used s < ssize s"
    using assms by simp_all
  have u: "used s = length (render (don, [], cur))" using length_content [OF ok] c by simp
  define t where "t = (if used s < ssize s then set_sdata (take (used s) (sdata s) @ 0 # drop (Suc (used s)) (sdata s)) s else s)"
  have t: "(if used s < ssize s then ser_poke_at s (used s) [0] else Some s) = Some t"
    using ok by (simp add: t_def ser_poke_at_def poke_def ser_ok_def)
  have "\<exists>r. sdata t = take (used s) (sdata s) @ r \<and> (don = [] \<longrightarrow> hd r = 0 \<and> r \<noteq> [])"
    using z by (cases "used s < ssize s") (simp_all add: t_def, metis append_take_drop_id)
  then obtain r where r: "sdata t = render (don, [], cur) @ r" "don = [] \<Longrightarrow> \<exists>q. r = 0 # q"
    using c by (auto simp: content_def neq_Nil_conv)
  have tt: "used t = used s" "fmt t = 2" "ssize t = ssize s" "length (sdata t) = ssize s"
    using f ok by (simp_all add: t_def ser_ok_def)
  show ?thesis
  proof (cases "don = []")
    case True
    then have "skip_blank (sdata t) (used s) = Some (json_object cur @ r, length (json_object cur))"
      using r(1) u ok by (simp add: json_object_def ser_ok_def)
    then show ?thesis using t tt True r(2) by (auto simp: ndpi_serializer_get_buffer_def document_def f)
  next
    case False
    then have "skip_blank (sdata t) (used s) = Some (render (don, [], cur) @ r, length (render (don, [], cur)))"
      using r(1) u by simp
    then show ?thesis using t tt False by (simp add: ndpi_serializer_get_buffer_def document_def f)
  qed
qed

text \<open>
  C2. JSON documents. Any sequence of member calls (numbers, floats, strings, booleans, raw
  values, with numeric keys or names), of blocks, nested to any depth, and of ends of record on a
  fresh JSON serializer returns 0 when the allocations succeed and never leaves the buffer; when
  every block was closed, the buffer handed out then is the text of the object, or of the array of
  the records, with the members in call order and each block a member of the object around it.
\<close>

theorem json_document:
  assumes env: "env_ok env" "alloc_ok env n" "4 \<le> n"
    and calls: "valid_run (json_ok ff (char_signed env)) (act_step ff (char_signed env)) acts ([], [], [])"
    and grow: "\<forall>k \<le> n + sum_list (map json_cost acts). alloc_ok env k"
    and doc: "fold (act_step ff (char_signed env)) acts ([], [], []) = (done, [], cur)"
    and D: "D = document done cur"
  shows "\<exists>s t buf u. ndpi_init_serializer_ll env ndpi_serialization_format_json n = Some (0, s)
     \<and> run_calls (json_call ff) env s acts = Some (0, t)
     \<and> ndpi_serializer_get_buffer t = Some (buf, length D, u) \<and> take (length D) buf = D"
proof -
  from init_json [OF env] obtain s where s:
    "ndpi_init_serializer_ll env ndpi_serialization_format_json n = Some (0, s)"
    "json_rep s ([], [], [])" "ssize s = n" by blast
  have "can_grow env s (sum_list (map json_cost acts))" using grow s by (simp add: can_grow_def)
  with json.run_writes [OF env(1) s(2) calls] obtain t where
    t: "run_calls (json_call ff) env s acts = Some (0, t)"
      "json_rep t (fold (act_step ff (char_signed env)) acts ([], [], []))"
    by auto
  from get_buffer_json [OF t(2) [unfolded doc]] s(1) t(1) show ?thesis unfolding D by blast
qed

theorem json_document_witness:
  "\<exists>s t buf u. ndpi_init_serializer_ll roomy_env ndpi_serialization_format_json 16 = Some (0, s)
     \<and> run_calls (json_call (\<lambda>_. [])) roomy_env s
         [Open_block [0x6e], Member (Name [0x69, 0x70]) (JString [0x61, 0x2f]), Close_block,
          Member (Num 5) (JU32 42), Close_record, Member (Num 1) (JBool 1)] = Some (0, t)
     \<and> ndpi_serializer_get_buffer t = Some (buf, 39, u)
     \<and> take 39 buf = [91, 123, 34, 110, 34, 58, 32, 123, 34, 105, 112, 34, 58, 34, 97, 92, 47, 34, 125,
         44, 34, 53, 34, 58, 52, 50, 125, 44, 123, 34, 49, 34, 58, 116, 114, 117, 101, 125, 93]"
proof -
  let ?acts = "[Open_block [0x6e], Member (Name [0x69, 0x70]) (JString [0x61, 0x2f]), Close_block,
          Member (Num 5) (JU32 42), Close_record, Member (Num 1) (JBool 1)]"
  let ?D = "[91, 123, 34, 110, 34, 58, 32, 123, 34, 105, 112, 34, 58, 34, 97, 92, 47, 34, 125,
         44, 34, 53, 34, 58, 52, 50, 125, 44, 123, 34, 49, 34, 58, 116, 114, 117, 101, 125, 93]"
  let ?first = "[[34, 110, 34, 58, 32, 123, 34, 105, 112, 34, 58, 34, 97, 92, 47, 34, 125], [34, 53, 34, 58, 52, 50]]"
  let ?last = "[[34, 49, 34, 58, 116, 114, 117, 101]]"
  note eval = roomy_env_def json_object_def quoted_def esc_def json_escape_char_def below_space_def
        json_key_text_def show_nat.simps bool_text_def str_def c_isdigit_def
  have grow: "\<forall>k \<le> 16 + sum_list (map json_cost ?acts). alloc_ok roomy_env k"
    by (auto intro!: roomy_alloc)
  have calls: "valid_run (json_ok (\<lambda>_. []) (char_signed roomy_env)) (act_step (\<lambda>_. []) (char_signed roomy_env)) ?acts ([], [], [])"
    by (simp add: name_ok_def eval)
  have len: "length ?D = 39" by simp
  have doc: "fold (act_step (\<lambda>_. []) (char_signed roomy_env)) ?acts ([], [], []) = ([?first], [], ?last)"
    by (simp add: eval)
  have D: "?D = document [?first] ?last" by (simp add: document_def json_object_def)
  have "alloc_ok roomy_env 16" "(4 :: nat) \<le> 16" by (simp_all add: roomy_alloc)
  from json_document [OF roomy_env_ok this calls grow doc D] show ?thesis unfolding len .
qed

section \<open>Escaping\<close>

text \<open>
  What a JSON reader makes of the inside of a string, and when it accepts it: no bare quote,
  no control character, and only the escapes of the JSON grammar.
\<close>

definition unescape_char :: "u8 \<Rightarrow> u8" where
  "unescape_char c = (if c = 98 then 8 else if c = 116 then 9 else if c = 110 then 10
     else if c = 102 then 12 else if c = 114 then 13 else c)"

fun unescape :: "bytes \<Rightarrow> bytes" where
  "unescape [] = []"
| "unescape [c] = [c]"
| "unescape (b # c # r) = (if b = 92 then unescape_char c # unescape r else b # unescape (c # r))"

fun json_chars :: "bytes \<Rightarrow> bool" where
  "json_chars [] \<longleftrightarrow> True"
| "json_chars [c] \<longleftrightarrow> 32 \<le> c \<and> c \<noteq> 34 \<and> c \<noteq> 92"
| "json_chars (b # c # r) \<longleftrightarrow>
     (if b = 92 then c \<in> {34, 92, 47, 98, 102, 110, 114, 116} \<and> json_chars r
      else 32 \<le> b \<and> b \<noteq> 34 \<and> json_chars (c # r))"

text \<open>The characters the escaping drops: the control characters without a short escape.\<close>

definition dropped :: "bool \<Rightarrow> u8 \<Rightarrow> bool" where
  "dropped sg c \<longleftrightarrow> below_space sg c \<and> c \<notin> {8, 9, 10, 12, 13}"

lemma unescape_plain: "b \<noteq> 92 \<Longrightarrow> unescape (b # r) = b # unescape r"
  by (cases r) simp_all

lemma json_chars_plain: "32 \<le> b \<Longrightarrow> b \<noteq> 34 \<Longrightarrow> b \<noteq> 92 \<Longrightarrow> json_chars (b # r) = json_chars r"
  by (cases r) simp_all

lemma unescape_escape_char:
  "unescape (json_escape_char sg c @ r) = (if dropped sg c then [] else [c]) @ unescape r"
  by (auto simp: json_escape_char_def dropped_def unescape_char_def unescape_plain below_space_def)

lemma json_chars_escape_char: "json_chars (json_escape_char sg c @ r) = json_chars r"
  by (auto simp: json_escape_char_def json_chars_plain below_space_def)

lemma unescape_esc: "unescape (esc sg t) = filter (\<lambda>c. \<not> dropped sg c) t"
  by (induction t) (simp_all add: esc_def unescape_escape_char)

lemma json_chars_esc: "json_chars (esc sg t)"
  by (induction t) (simp_all add: esc_def json_chars_escape_char)


end
