(* ===== verification/Flow_Report.thy ===== *)
theory Flow_Report
  imports Prelude
begin

text \<open>
  The parts of a flow that only dissectors write and only the report of a result reads: the
  structures of the \<open>protos\<close> union of \<open>ndpi_flow_struct\<close>, as far as the report reads them. An array
  of characters is its bytes, a pointer to a string is \<open>None\<close> or the bytes it points to, up to
  and with the terminating zero.
\<close>

record dns_protos =
  dns_num_queries :: u8
  dns_num_answers :: u8
  dns_reply_code :: u8
  dns_query_type :: u16
  dns_rsp_type :: u16
  dns_rsp_addr :: bytes

record ntp_protos =
  ntp_request_code :: u8
  ntp_version :: u8

record kerberos_protos =
  kerberos_hostname :: bytes
  kerberos_domain :: bytes
  kerberos_username :: bytes

record tls_quic_protos =
  tls_server_names :: "bytes option"
  tls_alpn :: "bytes option"
  tls_supported_versions :: "bytes option"
  tls_issuerDN :: "bytes option"
  tls_subjectDN :: "bytes option"
  tls_notBefore :: u32
  tls_notAfter :: u32
  tls_ja3_client :: bytes
  tls_ja3_server :: bytes
  tls_server_cipher :: u16
  tls_sha1_certificate_fingerprint :: bytes
  tls_ssl_version :: u16
  tls_server_unsafe_cipher :: u32

record ssh_protos =
  ssh_client_signature :: bytes
  ssh_server_signature :: bytes
  ssh_hassh_client :: bytes
  ssh_hassh_server :: bytes

record telnet_protos =
  telnet_username :: bytes
  telnet_password :: bytes

record dhcp_protos =
  dhcp_fingerprint :: bytes
  dhcp_class_ident :: bytes

record mail_login =
  mail_username :: bytes
  mail_password :: bytes
  mail_auth_failed :: bool

text \<open>
  The union, by the member that was written last; \<open>Zeroed\<close> is the union of a cleared flow, which
  reads as zeros through every member. Reading a member other than the one written reinterprets
  its bytes and has no value here.
\<close>

datatype protos =
  Zeroed | Dns dns_protos | Ntp ntp_protos | Kerberos kerberos_protos | Tls_quic tls_quic_protos
  | Ssh ssh_protos | Telnet telnet_protos | Ubntac2 bytes | Bittorrent bytes | Dhcp dhcp_protos

fun as_dns :: "protos \<Rightarrow> dns_protos option" where
  "as_dns Zeroed = Some \<lparr>dns_num_queries = 0, dns_num_answers = 0, dns_reply_code = 0,
     dns_query_type = 0, dns_rsp_type = 0, dns_rsp_addr = replicate 16 0\<rparr>"
| "as_dns (Dns d) = Some d"
| "as_dns _ = None"

fun as_ntp :: "protos \<Rightarrow> ntp_protos option" where
  "as_ntp Zeroed = Some \<lparr>ntp_request_code = 0, ntp_version = 0\<rparr>"
| "as_ntp (Ntp d) = Some d"
| "as_ntp _ = None"

fun as_kerberos :: "protos \<Rightarrow> kerberos_protos option" where
  "as_kerberos Zeroed = Some \<lparr>kerberos_hostname = replicate 48 0, kerberos_domain = replicate 48 0,
     kerberos_username = replicate 48 0\<rparr>"
| "as_kerberos (Kerberos d) = Some d"
| "as_kerberos _ = None"

fun as_tls_quic :: "protos \<Rightarrow> tls_quic_protos option" where
  "as_tls_quic Zeroed = Some \<lparr>tls_server_names = None, tls_alpn = None, tls_supported_versions = None,
     tls_issuerDN = None, tls_subjectDN = None, tls_notBefore = 0, tls_notAfter = 0,
     tls_ja3_client = replicate 33 0, tls_ja3_server = replicate 33 0, tls_server_cipher = 0,
     tls_sha1_certificate_fingerprint = replicate 20 0, tls_ssl_version = 0, tls_server_unsafe_cipher = 0\<rparr>"
| "as_tls_quic (Tls_quic d) = Some d"
| "as_tls_quic _ = None"

fun as_ssh :: "protos \<Rightarrow> ssh_protos option" where
  "as_ssh Zeroed = Some \<lparr>ssh_client_signature = replicate 48 0, ssh_server_signature = replicate 48 0,
     ssh_hassh_client = replicate 33 0, ssh_hassh_server = replicate 33 0\<rparr>"
| "as_ssh (Ssh d) = Some d"
| "as_ssh _ = None"

fun as_telnet :: "protos \<Rightarrow> telnet_protos option" where
  "as_telnet Zeroed = Some \<lparr>telnet_username = replicate 32 0, telnet_password = replicate 32 0\<rparr>"
| "as_telnet (Telnet d) = Some d"
| "as_telnet _ = None"

fun as_ubntac2 :: "protos \<Rightarrow> bytes option" where
  "as_ubntac2 Zeroed = Some (replicate 32 0)"
| "as_ubntac2 (Ubntac2 d) = Some d"
| "as_ubntac2 _ = None"

fun as_bittorrent :: "protos \<Rightarrow> bytes option" where
  "as_bittorrent Zeroed = Some (replicate 20 0)"
| "as_bittorrent (Bittorrent d) = Some d"
| "as_bittorrent _ = None"

fun as_dhcp :: "protos \<Rightarrow> dhcp_protos option" where
  "as_dhcp Zeroed = Some \<lparr>dhcp_fingerprint = replicate 48 0, dhcp_class_ident = replicate 48 0\<rparr>"
| "as_dhcp (Dhcp d) = Some d"
| "as_dhcp _ = None"

end
