(* ===== verification/Packet_Layer.thy ===== *)
theory Packet_Layer
  imports Prelude Flow_Report
begin

text \<open>
  The packet layer of \<^verbatim>\<open>ndpi_main.c\<close>: from the bytes of an IP packet to the
  transport header and the payload (\<open>ndpi_init_packet\<close> and what it calls), and the per-flow
  bookkeeping \<open>ndpi_connection_tracking\<close>. A pointer into the packet is its offset from the
  first byte of the IP header, \<open>None\<close> is the null pointer; every read is a checked read of
  the packet's block. The lemmas are in \<open>Packet_Safety\<close> and \<open>Packet_Tracking\<close>.
\<close>

section \<open>Packet and flow\<close>

text \<open>The named lines of a text protocol that the packet keeps pointers to.\<close>

datatype packet_line =
    host_line | forwarded_line | referer_line | content_line | content_disposition_line
  | accept_line | authorization_line | user_agent_line | http_url_name | http_encoding
  | http_transfer_encoding | http_contentlen | http_cookie | http_origin | http_x_session_type
  | server_line | http_method | http_response

record ndpi_packet =
  iph :: "nat option"
  iphv6 :: "nat option"
  tcp :: "nat option"
  udp :: "nat option"
  generic_l4_ptr :: "nat option"
  payload :: "nat option"
  current_time_ms :: u64
  line :: "(nat option \<times> nat) list"
  named_lines :: "packet_line \<Rightarrow> nat option \<times> nat"
  http_num_headers :: nat
  l3_packet_len :: nat
  payload_packet_len :: nat
  parsed_lines :: nat
  empty_line_position :: nat
  tcp_retransmission :: nat
  packet_lines_parsed_complete :: bool
  pkt_direction :: nat
  empty_line_position_set :: bool
  http_check_content :: bool

text \<open>
  The fields of the dissectors that are modelled, with the names and the widths in bits of
  \<^verbatim>\<open>ndpi_typedefs.h\<close>, and their arrays.
\<close>

datatype flow_field =
    wa_matched_so_far | h323_valid_packets | usenet_stage | vnc_stage | postgres_stage | dofus_stage
  | fiesta_stage | shoutcast_stage | soap_stage | citrix_packet_id | lotus_notes_packet_id
  | nest_log_sink_matches | prev_zmq_pkt_len | imo_last_one_byte_pkt | imo_last_byte | halflife2_stage
  | tftp_stage | xbox_stage | eaq_pkt_id | eaq_sequence | rdp_from_srv_pkts | rdp_to_srv_pkts
  | csgo_state | csgo_s2 | csgo_id2 | florensia_stage | rtmp_stage | redis_s2d_first_char
  | redis_d2s_first_char | socks4_stage | socks5_stage | z3950_stage

primrec field_width :: "flow_field \<Rightarrow> nat" where
  "field_width wa_matched_so_far = 8" | "field_width h323_valid_packets = 8" | "field_width usenet_stage = 2"
| "field_width vnc_stage = 2" | "field_width postgres_stage = 3" | "field_width dofus_stage = 1"
| "field_width fiesta_stage = 2" | "field_width shoutcast_stage = 2" | "field_width soap_stage = 1"
| "field_width citrix_packet_id = 8" | "field_width lotus_notes_packet_id = 8"
| "field_width nest_log_sink_matches = 8" | "field_width prev_zmq_pkt_len = 8"
| "field_width imo_last_one_byte_pkt = 8" | "field_width imo_last_byte = 8" | "field_width halflife2_stage = 2"
| "field_width tftp_stage = 2" | "field_width xbox_stage = 1" | "field_width eaq_pkt_id = 8"
| "field_width eaq_sequence = 32" | "field_width rdp_from_srv_pkts = 8" | "field_width rdp_to_srv_pkts = 8"
| "field_width csgo_state = 8" | "field_width csgo_s2 = 8" | "field_width csgo_id2 = 32"
| "field_width florensia_stage = 1" | "field_width rtmp_stage = 2" | "field_width redis_s2d_first_char = 8"
| "field_width redis_d2s_first_char = 8" | "field_width socks4_stage = 2" | "field_width socks5_stage = 2"
| "field_width z3950_stage = 2"

datatype flow_buffer = prev_zmq_pkt | rdp_from_srv | rdp_to_srv | csgo_strid

primrec buffer_size :: "flow_buffer \<Rightarrow> nat" where
  "buffer_size prev_zmq_pkt = 10" | "buffer_size rdp_from_srv = 3" | "buffer_size rdp_to_srv = 3"
| "buffer_size csgo_strid = 18"

text \<open>
  The fields of a flow that the modelled code reads or writes. A two-element array is a pair, and
  its element \<open>d\<close> is selected by \<open>dir_sel\<close>. A function pointer is the name of the function, a
  bitmask of protocols its sixteen words. The fields that only dissectors read and write are kept by
  name: \<open>stages\<close> are the numbers, stored with the width of the field, \<open>saved_bytes\<close> the arrays, and
  \<open>dissector_bytes\<close> the memory of the dissectors that are not modelled. The fields of the TCP and of the
  UDP half of the union \<open>l4\<close> have different names, since a dissector uses only the half of its transport. \<open>entropy\<close> is a \<open>float\<close>, given by its bits; the strings of
  the HTTP and TLS fields and the \<open>protos\<close> union are those of \<open>Flow_Report\<close>.
\<close>

record ndpi_flow =
  detected_protocol_stack :: "u16 \<times> u16"
  guessed_protocol_id :: u16
  guessed_host_protocol_id :: u16
  l4_proto :: u8
  init_finished :: bool
  setup_packet_direction :: nat
  flow_direction :: nat
  is_ipv6 :: bool
  confidence :: nat
  category :: nat
  next_tcp_seq_nr :: "u32 \<times> u32"
  saddr :: u32
  daddr :: u32
  sport :: u16
  dport :: u16
  num_processed_pkts :: nat
  last_packet_time_ms :: u64
  seen_syn :: bool
  seen_syn_ack :: bool
  seen_ack :: bool
  packet_counter :: nat
  packet_direction_counter :: "nat \<times> nat"
  byte_counter :: "nat \<times> nat"
  response_status_code :: nat
  initial_binary_bytes :: bytes
  initial_binary_bytes_len :: nat
  guessed_header_category :: nat
  protocol_id_already_guessed :: bool
  fail_with_unknown :: bool
  check_extra_packets :: bool
  max_extra_packets_to_check :: nat
  num_extra_packets_checked :: nat
  extra_packets_func :: "string option"
  entropy :: u32
  host_server_name :: bytes
  risk_checked :: bool
  ip_risk_mask_evaluated :: bool
  host_risk_mask_evaluated :: bool
  risk_mask :: u64
  risk :: u64
  stun_num_binding_requests :: nat
  stun_num_processed_pkts :: nat
  hello_processed :: bool
  http_url :: "bytes option"
  http_content_type :: "bytes option"
  http_user_agent :: "bytes option"
  ftp_imap_pop_smtp :: mail_login
  protos :: protos
  excluded_protocol_bitmask :: "u32 list"
  bt_check_performed :: bool
  stages :: "flow_field \<Rightarrow> nat"
  saved_bytes :: "flow_buffer \<Rightarrow> bytes"
  dissector_bytes :: "nat \<Rightarrow> u8"

definition zero_flow :: ndpi_flow where
  "zero_flow = \<lparr>detected_protocol_stack = (0, 0), guessed_protocol_id = 0,
     guessed_host_protocol_id = 0, l4_proto = 0, init_finished = False,
     setup_packet_direction = 0, flow_direction = 0, is_ipv6 = False, confidence = 0, category = 0,
     next_tcp_seq_nr = (0, 0), saddr = 0, daddr = 0, sport = 0, dport = 0, num_processed_pkts = 0,
     last_packet_time_ms = 0, seen_syn = False, seen_syn_ack = False, seen_ack = False,
     packet_counter = 0, packet_direction_counter = (0, 0), byte_counter = (0, 0),
     response_status_code = 0, initial_binary_bytes = replicate 8 0, initial_binary_bytes_len = 0,
     guessed_header_category = 0, protocol_id_already_guessed = False, fail_with_unknown = False,
     check_extra_packets = False, max_extra_packets_to_check = 0, num_extra_packets_checked = 0,
     extra_packets_func = None, entropy = 0, host_server_name = replicate 80 0, risk_checked = False,
     ip_risk_mask_evaluated = False, host_risk_mask_evaluated = False, risk_mask = 0, risk = 0,
     stun_num_binding_requests = 0, stun_num_processed_pkts = 0, hello_processed = False,
     http_url = None, http_content_type = None, http_user_agent = None,
     ftp_imap_pop_smtp = \<lparr>mail_username = replicate 32 0, mail_password = replicate 16 0, mail_auth_failed = False\<rparr>,
     protos = Zeroed,
     excluded_protocol_bitmask = replicate 16 0, bt_check_performed = False,
     stages = (\<lambda>_. 0), saved_bytes = (\<lambda>b. replicate (buffer_size b) 0), dissector_bytes = (\<lambda>_. 0)\<rparr>"

definition dir_sel :: "nat \<Rightarrow> 'a \<times> 'a \<Rightarrow> 'a" where
  "dir_sel d p = (if d = 0 then fst p else snd p)"

definition dir_upd :: "nat \<Rightarrow> 'a \<Rightarrow> 'a \<times> 'a \<Rightarrow> 'a \<times> 'a" where
  "dir_upd d x p = (if d = 0 then (x, snd p) else (fst p, x))"

section \<open>Header fields\<close>

text \<open>
  A 16 or 32-bit field in network order (\<open>ntohs\<close>, \<open>ntohl\<close>), and the value a little-endian
  host sees when it does not convert.
\<close>

definition get16 :: "bytes \<Rightarrow> nat \<Rightarrow> u16 option" where
  "get16 m i = map_option of_be16 (peek_run m i 2)"

definition get32 :: "bytes \<Rightarrow> nat \<Rightarrow> u32 option" where
  "get32 m i = map_option of_be32 (peek_run m i 4)"

definition raw16 :: "bytes \<Rightarrow> nat \<Rightarrow> u16 option" where
  "raw16 m i = map_option (\<lambda>b. of_be16 (rev b)) (peek_run m i 2)"

definition raw32 :: "bytes \<Rightarrow> nat \<Rightarrow> u32 option" where
  "raw32 m i = map_option of_le32 (peek_run m i 4)"

definition ip_version :: "bytes \<Rightarrow> nat \<Rightarrow> u8 option" where
  "ip_version m i = map_option (\<lambda>b. drop_bit 4 b) (peek m i)"

definition ip_ihl :: "bytes \<Rightarrow> nat \<Rightarrow> nat option" where
  "ip_ihl m i = map_option (\<lambda>b. unat (b AND 0xf)) (peek m i)"

definition tcp_doff :: "bytes \<Rightarrow> nat \<Rightarrow> nat option" where
  "tcp_doff m i = map_option (\<lambda>b. unat (drop_bit 4 b)) (peek m (i + 12))"

definition tcp_flag :: "nat \<Rightarrow> bytes \<Rightarrow> nat \<Rightarrow> bool option" where
  "tcp_flag n m i = map_option (\<lambda>b. bit b n) (peek m (i + 13))"

abbreviation tcp_syn :: "bytes \<Rightarrow> nat \<Rightarrow> bool option" where "tcp_syn \<equiv> tcp_flag 1"
abbreviation tcp_rst :: "bytes \<Rightarrow> nat \<Rightarrow> bool option" where "tcp_rst \<equiv> tcp_flag 2"
abbreviation tcp_ack :: "bytes \<Rightarrow> nat \<Rightarrow> bool option" where "tcp_ack \<equiv> tcp_flag 4"

abbreviation (input) IPPROTO_ICMP :: u8 where "IPPROTO_ICMP \<equiv> 1"
abbreviation (input) IPPROTO_TCP :: u8 where "IPPROTO_TCP \<equiv> 6"
abbreviation (input) IPPROTO_UDP :: u8 where "IPPROTO_UDP \<equiv> 17"
abbreviation (input) IPPROTO_ICMPV6 :: u8 where "IPPROTO_ICMPV6 \<equiv> 58"

abbreviation (input) NDPI_DETECTION_ONLY_IPV4 :: u32 where "NDPI_DETECTION_ONLY_IPV4 \<equiv> 1"
abbreviation (input) NDPI_DETECTION_ONLY_IPV6 :: u32 where "NDPI_DETECTION_ONLY_IPV6 \<equiv> 2"

section \<open>The transport header\<close>

text \<open>
  The loop over IPv6 extension headers. The three values it carries are the offset of the
  header, the length that is left and the type of the header; \<open>None\<close> inside is the return of
  1. The length that is left shrinks in every round.
\<close>

definition is_extension :: "u8 \<Rightarrow> bool" where
  "is_extension n \<longleftrightarrow> n = 0 \<or> n = 43 \<or> n = 44 \<or> n = 60 \<or> n = 135 \<or> n = 59"

function ndpi_handle_ipv6_extension_headers ::
  "bytes \<Rightarrow> nat \<Rightarrow> nat \<Rightarrow> nat \<Rightarrow> u8 \<Rightarrow> (nat \<times> nat \<times> u8) option option" where
  "ndpi_handle_ipv6_extension_headers m l3len l4ptr l4len nxt_hdr =
     (if 1 < l3len \<and> is_extension nxt_hdr then
        if nxt_hdr = 59 then Some None
        else if nxt_hdr = 44 then
          if l4len < 8 then Some None
          else if l3len < 5 then Some None
          else do {
            nxt_hdr \<leftarrow> peek m l4ptr;
            f \<leftarrow> get16 m (l4ptr + 2);
            if drop_bit 3 f \<noteq> 0 then Some None
            else ndpi_handle_ipv6_extension_headers m (l3len - 5) (l4ptr + 8) (l4len - 8) nxt_hdr
          }
        else if l4len < 2 then Some None
        else do {
          b \<leftarrow> peek m (l4ptr + 1);
          let ehdr_len = unat b * 8 + 8;
          if l3len < ehdr_len then Some None
          else if l4len < ehdr_len then Some None
          else do {
            nxt_hdr \<leftarrow> peek m l4ptr;
            ndpi_handle_ipv6_extension_headers m (l3len - ehdr_len) (l4ptr + ehdr_len)
              (l4len - ehdr_len) nxt_hdr
          }
        }
      else Some (Some (l4ptr, l4len, nxt_hdr)))"
  by pat_completeness auto
termination
  by (relation "measure (\<lambda>(m, l3len, l4ptr, l4len, nxt_hdr). l4len)") auto

declare ndpi_handle_ipv6_extension_headers.simps [simp del]

definition ndpi_iph_is_valid_and_not_fragmented :: "bytes \<Rightarrow> nat \<Rightarrow> nat \<Rightarrow> bool option" where
  "ndpi_iph_is_valid_and_not_fragmented m i ipsize = do {
     ihl \<leftarrow> ip_ihl m i;
     tot_len \<leftarrow> get16 m (i + 2);
     frag_off \<leftarrow> get16 m (i + 6);
     Some (\<not> (ipsize < ihl * 4 \<or> ipsize < unat tot_len \<or> unat tot_len < ihl * 4
              \<or> frag_off AND 0x1FFF \<noteq> 0))
   }"

text \<open>The result is the offset, the length and the protocol, or the return of 1.\<close>

definition ndpi_detection_get_l4_internal ::
  "bytes \<Rightarrow> nat option \<Rightarrow> nat \<Rightarrow> u32 \<Rightarrow> (nat \<times> nat \<times> u8) option option" where
  "ndpi_detection_get_l4_internal m l3 l3_len flags =
     (case l3 of
        None \<Rightarrow> Some None
      | Some i \<Rightarrow>
          if l3_len < 20 then Some None
          else do {
            version \<leftarrow> ip_version m i;
            ihl \<leftarrow> ip_ihl m i;
            let v4 = (version = 4 \<and> 5 \<le> ihl);
            let v6 = (\<not> v4 \<and> version = 6 \<and> 40 \<le> l3_len);
            if \<not> v4 \<and> \<not> v6 then Some None
            else if has_flag flags NDPI_DETECTION_ONLY_IPV6 \<and> v4 then Some None
            else if has_flag flags NDPI_DETECTION_ONLY_IPV4 \<and> v6 then Some None
            else if v4 then do {
              ok \<leftarrow> ndpi_iph_is_valid_and_not_fragmented m i l3_len;
              if ok then do {
                tot_len \<leftarrow> get16 m (i + 2);
                let len = (if tot_len = 0 then l3_len else unat tot_len);
                let hlen = ihl * 4;
                protocol \<leftarrow> peek m (i + 9);
                Some (Some (i + ihl * 4, if hlen < len then len - hlen else 0, protocol))
              } else Some None
            }
            else do {
              plen \<leftarrow> get16 m (i + 4);
              if unat plen \<le> l3_len - 40 then do {
                nxt \<leftarrow> peek m (i + 6);
                ndpi_handle_ipv6_extension_headers m (l3_len - 40) (i + 40) (unat plen) nxt
              } else Some None
            }
          })"

section \<open>Setting up the packet\<close>

definition ndpi_reset_packet_line_info :: "ndpi_packet \<Rightarrow> ndpi_packet" where
  "ndpi_reset_packet_line_info p =
     p\<lparr>parsed_lines := 0, empty_line_position_set := False, named_lines := \<lambda>_. (None, 0),
       http_num_headers := 0\<rparr>"

definition fresh_packet :: "u64 \<Rightarrow> nat \<Rightarrow> ndpi_packet \<Rightarrow> ndpi_packet" where
  "fresh_packet time_ms packetlen p =
     (let p = p\<lparr>current_time_ms := time_ms, iph := Some 0, payload := None, payload_packet_len := 0,
                l3_packet_len := packetlen, tcp := None, udp := None, generic_l4_ptr := None,
                iphv6 := None\<rparr>
      in (ndpi_reset_packet_line_info p)
           \<lparr>packet_lines_parsed_complete := False, http_check_content := False\<rparr>)"

text \<open>
  The reset of a flow when a SYN arrives for a connection that is still unknown: five fields
  survive, and the packet count survives in an 8-bit variable.
\<close>

definition reset_on_syn :: "ndpi_flow \<Rightarrow> ndpi_flow" where
  "reset_on_syn f =
     zero_flow\<lparr>l4_proto := IPPROTO_TCP,
       packet_direction_counter := packet_direction_counter f,
       num_processed_pkts := num_processed_pkts f mod 256,
       guessed_protocol_id := guessed_protocol_id f,
       guessed_host_protocol_id := guessed_host_protocol_id f\<rparr>"

text \<open>The transport part: the header found, the payload behind it.\<close>

definition set_transport ::
  "bytes \<Rightarrow> nat \<Rightarrow> nat \<Rightarrow> u8 \<Rightarrow> ndpi_packet \<Rightarrow> ndpi_flow \<Rightarrow> (int \<times> ndpi_packet \<times> ndpi_flow) option" where
  "set_transport m l4ptr l4_packet_len l4protocol p f =
     (if l4protocol = IPPROTO_TCP \<and> 20 \<le> l4_packet_len then do {
        doff \<leftarrow> tcp_doff m l4ptr;
        if doff * 4 \<le> l4_packet_len then do {
          let p = p\<lparr>tcp := Some l4ptr, payload_packet_len := l4_packet_len - doff * 4,
                    payload := Some (l4ptr + doff * 4)\<rparr>;
          syn \<leftarrow> tcp_syn m l4ptr;
          ack \<leftarrow> tcp_ack m l4ptr;
          Some (0, p, if syn \<and> \<not> ack \<and> init_finished f \<and> fst (detected_protocol_stack f) = 0
                      then reset_on_syn f else f)
        }
        else Some (0, p\<lparr>tcp := None\<rparr>, f)
      }
      else if l4protocol = IPPROTO_UDP \<and> 8 \<le> l4_packet_len then
        Some (0, p\<lparr>udp := Some l4ptr, payload_packet_len := l4_packet_len - 8,
                  payload := Some (l4ptr + 8)\<rparr>, f)
      else if (l4protocol = IPPROTO_ICMP \<and> 8 \<le> l4_packet_len)
            \<or> (l4protocol = IPPROTO_ICMPV6 \<and> 8 \<le> l4_packet_len) then
        Some (0, p\<lparr>payload := Some l4ptr, payload_packet_len := l4_packet_len\<rparr>, f)
      else Some (0, p\<lparr>generic_l4_ptr := Some l4ptr\<rparr>, f))"

definition ndpi_init_packet ::
  "u32 \<Rightarrow> ndpi_packet \<Rightarrow> ndpi_flow \<Rightarrow> u64 \<Rightarrow> bytes \<Rightarrow> nat
   \<Rightarrow> (int \<times> ndpi_packet \<times> ndpi_flow) option" where
  "ndpi_init_packet ip_version_limit p f time_ms m packetlen =
     (if packetlen < 20 then Some (1, p, f)
      else do {
        let p = fresh_packet time_ms packetlen p;
        version \<leftarrow> ip_version m 0;
        ihl \<leftarrow> ip_ihl m 0;
        let v4 = (version = 4 \<and> 5 \<le> ihl);
        let v6 = (version = 6 \<and> 40 \<le> packetlen
                   \<and> \<not> has_flag ip_version_limit NDPI_DETECTION_ONLY_IPV4);
        if \<not> v4 \<and> \<not> v6 then Some (1, p\<lparr>iph := None\<rparr>, f)
        else do {
          let p = (if v4 then p else p\<lparr>iphv6 := Some 0, iph := None\<rparr>);
          r \<leftarrow> ndpi_detection_get_l4_internal m (Some 0) packetlen 0;
          case r of
            None \<Rightarrow> Some (1, p, f)
          | Some (l4ptr, l4len, l4protocol) \<Rightarrow>
              set_transport m l4ptr l4len l4protocol p (f\<lparr>l4_proto := l4protocol\<rparr>)
        }
      })"

section \<open>Connection tracking\<close>

abbreviation (input) MAX_PACKET_COUNTER :: nat where "MAX_PACKET_COUNTER \<equiv> 65000"

text \<open>
  \<open>NDPI_COMPARE_IPV6_ADDRESS_STRUCTS(&iphv6->ip6_src, &iphv6->ip6_dst)\<close>: the macro's
  operands are \<open>&iphv6->ip6_src.u6_addr.u6_addr64[0]\<close> and so on, where the \<open>&\<close> binds last, so
  that what is compared are the places of the fields in the header and not their values.
\<close>

definition compare_ipv6_places :: "nat \<Rightarrow> bool" where
  "compare_ipv6_places i \<longleftrightarrow> i + 8 < i + 24 \<or> (i + 8 = i + 24 \<and> i + 16 < i + 32)"

definition tcp_handshake :: "bool \<Rightarrow> bool \<Rightarrow> ndpi_flow \<Rightarrow> ndpi_flow" where
  "tcp_handshake syn ack f =
     (if syn \<and> \<not> ack \<and> \<not> seen_syn f \<and> \<not> seen_syn_ack f \<and> \<not> seen_ack f then f\<lparr>seen_syn := True\<rparr>
      else if syn \<and> ack \<and> seen_syn f \<and> \<not> seen_syn_ack f \<and> \<not> seen_ack f
      then f\<lparr>seen_syn_ack := True\<rparr>
      else if \<not> syn \<and> ack \<and> seen_syn f \<and> seen_syn_ack f \<and> \<not> seen_ack f
      then f\<lparr>seen_ack := True\<rparr>
      else f)"

text \<open>The sequence counters: the flow after the segment, and whether it is a retransmission.\<close>

definition tcp_sequence ::
  "u32 \<Rightarrow> bool \<Rightarrow> bool \<Rightarrow> u32 \<Rightarrow> u32 \<Rightarrow> nat \<Rightarrow> nat \<Rightarrow> ndpi_flow \<Rightarrow> ndpi_flow \<times> bool" where
  "tcp_sequence window syn ack seq ack_seq len d f =
     (let nr = next_tcp_seq_nr f;
          set = (\<lambda>d v f. f\<lparr>next_tcp_seq_nr := dir_upd d v (next_tcp_seq_nr f)\<rparr>)
      in if fst nr = 0 \<or> snd nr = 0 then
           (if ack then
              let f = set d (seq + (if syn then 1 else word_of_nat len)) f
              in if 1 < num_processed_pkts f then set (1 - d) ack_seq f else f
            else f, False)
         else if 0 < len then
           if window < seq - dir_sel d nr then
             (if unat (dir_sel d nr - seq) < len \<and> 1 < num_processed_pkts f
              then set d (seq + word_of_nat len) f else f, True)
           else (set d (seq + word_of_nat len) f, False)
         else (f, False))"

definition count_packet :: "nat \<Rightarrow> nat \<Rightarrow> ndpi_flow \<Rightarrow> ndpi_flow" where
  "count_packet d len f =
     (let f = (if packet_counter f < MAX_PACKET_COUNTER \<and> 0 < len
               then f\<lparr>packet_counter := packet_counter f + 1\<rparr> else f);
          f = (if dir_sel d (packet_direction_counter f) < MAX_PACKET_COUNTER \<and> 0 < len
               then f\<lparr>packet_direction_counter :=
                        dir_upd d (dir_sel d (packet_direction_counter f) + 1) (packet_direction_counter f)\<rparr>
               else f)
      in if dir_sel d (byte_counter f) < dir_sel d (byte_counter f) + len
         then f\<lparr>byte_counter := dir_upd d (c_u16 (dir_sel d (byte_counter f) + len)) (byte_counter f)\<rparr>
         else f)"

text \<open>The direction from the addresses, before the ports are looked at.\<close>

definition address_direction :: "bytes \<Rightarrow> ndpi_packet \<Rightarrow> nat option" where
  "address_direction m p = do {
     d \<leftarrow> (case iph p of
              Some i \<Rightarrow> do { a \<leftarrow> get32 m (i + 12); b \<leftarrow> get32 m (i + 16); Some (if a < b then 1 else 0) }
            | None \<Rightarrow> Some 0);
     Some (case iphv6 p of Some i \<Rightarrow> if compare_ipv6_places i then 1 else d | None \<Rightarrow> d)
   }"

text \<open>The addresses, the time and the first packet's direction.\<close>

definition track_addresses :: "bytes \<Rightarrow> ndpi_packet \<Rightarrow> ndpi_flow \<Rightarrow> ndpi_flow option" where
  "track_addresses m p f = do {
     let f = f\<lparr>is_ipv6 := iphv6 p \<noteq> None\<rparr>;
     f \<leftarrow> (if is_ipv6 f then Some f
            else do {
              i \<leftarrow> iph p;
              a \<leftarrow> raw32 m (i + 12);
              b \<leftarrow> raw32 m (i + 16);
              Some (f\<lparr>saddr := a, daddr := b\<rparr>)
            });
     let f = f\<lparr>last_packet_time_ms := current_time_ms p\<rparr>;
     Some (if init_finished f then f
           else f\<lparr>init_finished := True, setup_packet_direction := pkt_direction p\<rparr>)
   }"

text \<open>The ports, and the direction they give unless it is fixed.\<close>

definition track_ports :: "bool \<Rightarrow> bytes \<Rightarrow> nat \<Rightarrow> ndpi_packet \<Rightarrow> ndpi_flow \<Rightarrow> (ndpi_packet \<times> ndpi_flow) option" where
  "track_ports fixed m i p f = do {
     s \<leftarrow> raw16 m i;
     t \<leftarrow> raw16 m (i + 2);
     source \<leftarrow> get16 m i;
     dest \<leftarrow> get16 m (i + 2);
     Some (if fixed then p else p\<lparr>pkt_direction := if source < dest then 1 else 0\<rparr>,
           f\<lparr>sport := s, dport := t\<rparr>)
   }"

definition track_tcp :: "u32 \<Rightarrow> bytes \<Rightarrow> nat \<Rightarrow> ndpi_packet \<Rightarrow> ndpi_flow \<Rightarrow> (ndpi_packet \<times> ndpi_flow) option" where
  "track_tcp window m i p f = do {
     syn \<leftarrow> tcp_syn m i;
     ack \<leftarrow> tcp_ack m i;
     rst \<leftarrow> tcp_rst m i;
     seq \<leftarrow> get32 m (i + 4);
     ack_seq \<leftarrow> get32 m (i + 8);
     let f = tcp_handshake syn ack f;
     let (f, again) = tcp_sequence window syn ack seq ack_seq (payload_packet_len p) (pkt_direction p) f;
     let p = (if again then p\<lparr>tcp_retransmission := 1\<rparr> else p);
     Some (p, if rst then f\<lparr>next_tcp_seq_nr := (0, 0)\<rparr> else f)
   }"

text \<open>The branch on the transport header: TCP before UDP.\<close>

definition track_transport ::
  "bool \<Rightarrow> u32 \<Rightarrow> bytes \<Rightarrow> ndpi_packet \<Rightarrow> ndpi_flow \<Rightarrow> (ndpi_packet \<times> ndpi_flow) option" where
  "track_transport fixed window m p f =
     (case tcp p of
        Some i \<Rightarrow> do {
          (p, f) \<leftarrow> track_ports fixed m i p f;
          track_tcp window m i p f
        }
      | None \<Rightarrow>
          (case udp p of
             Some i \<Rightarrow> track_ports fixed m i p f
           | None \<Rightarrow> Some (p, f)))"

definition ndpi_connection_tracking ::
  "bool \<Rightarrow> u32 \<Rightarrow> bytes \<Rightarrow> ndpi_packet \<Rightarrow> ndpi_flow \<Rightarrow> (ndpi_packet \<times> ndpi_flow) option" where
  "ndpi_connection_tracking direction_detect_disable window m p f = do {
     let p = p\<lparr>tcp_retransmission := 0, pkt_direction := 0\<rparr>;
     d \<leftarrow> (if direction_detect_disable then Some (flow_direction f) else address_direction m p);
     let p = p\<lparr>pkt_direction := d\<rparr>;
     f \<leftarrow> track_addresses m p f;
     let p = p\<lparr>packet_lines_parsed_complete := False\<rparr>;
     (p, f) \<leftarrow> track_transport direction_detect_disable window m p f;
     Some (p, count_packet (pkt_direction p) (payload_packet_len p) f)
   }"

section \<open>Addresses of a packet\<close>

text \<open>A 16-byte address block; an IPv4 address is its first four bytes.\<close>

definition ip_eql :: "bytes \<Rightarrow> ndpi_packet \<Rightarrow> nat \<Rightarrow> nat \<Rightarrow> bytes \<Rightarrow> bool option" where
  "ip_eql m p off4 off6 ip =
     (case iphv6 p of
        Some i \<Rightarrow> do { a \<leftarrow> peek_run m (i + off6) 16; b \<leftarrow> peek_run ip 0 16; Some (a = b) }
      | None \<Rightarrow> do {
          i \<leftarrow> iph p;
          a \<leftarrow> peek_run m (i + off4) 4;
          b \<leftarrow> peek_run ip 0 4;
          Some (a = b)
        })"

definition ndpi_packet_src_ip_eql :: "bytes \<Rightarrow> ndpi_packet \<Rightarrow> bytes \<Rightarrow> bool option" where
  "ndpi_packet_src_ip_eql m p ip = ip_eql m p 12 8 ip"

text \<open>The IPv4 case of the source compares with \<open>saddr\<close>, as it does for the source address.\<close>

definition ndpi_packet_dst_ip_eql :: "bytes \<Rightarrow> ndpi_packet \<Rightarrow> bytes \<Rightarrow> bool option" where
  "ndpi_packet_dst_ip_eql m p ip = ip_eql m p 12 24 ip"

definition ip_get :: "bytes \<Rightarrow> ndpi_packet \<Rightarrow> nat \<Rightarrow> nat \<Rightarrow> bytes option" where
  "ip_get m p off4 off6 =
     (case iphv6 p of
        Some i \<Rightarrow> peek_run m (i + off6) 16
      | None \<Rightarrow> do { i \<leftarrow> iph p; a \<leftarrow> peek_run m (i + off4) 4; Some (a @ replicate 12 0) })"

definition ndpi_packet_src_ip_get :: "bytes \<Rightarrow> ndpi_packet \<Rightarrow> bytes option" where
  "ndpi_packet_src_ip_get m p = ip_get m p 12 8"

definition ndpi_packet_dst_ip_get :: "bytes \<Rightarrow> ndpi_packet \<Rightarrow> bytes option" where
  "ndpi_packet_dst_ip_get m p = ip_get m p 16 24"

text \<open>Whether one of the last three 32-bit words of the address block is not zero.\<close>

definition ndpi_is_ipv6 :: "bytes \<Rightarrow> bool option" where
  "ndpi_is_ipv6 ip = map_option (\<lambda>b. \<exists>x \<in> set b. x \<noteq> 0) (peek_run ip 4 12)"

end
