(* ===== verification/Packet_Safety.thy ===== *)
theory Packet_Safety
  imports Packet_Layer
begin

text \<open>
  The packet layer on arbitrary input: every read stays inside the packet and every pointer it
  leaves behind is inside it, extension headers are skipped as the chain says, and a UDP
  datagram's payload is found.
\<close>

section \<open>Reads inside the packet\<close>

lemma get_in [mem_simps]:
  "i + 2 \<le> length m \<Longrightarrow> \<exists>v. get16 m i = Some v" "i + 4 \<le> length m \<Longrightarrow> \<exists>w. get32 m i = Some w"
  "i + 2 \<le> length m \<Longrightarrow> \<exists>v. raw16 m i = Some v" "i + 4 \<le> length m \<Longrightarrow> \<exists>w. raw32 m i = Some w"
  by (simp_all add: get16_def get32_def raw16_def raw32_def peek_run_def)

lemma field_in:
  "i < length m \<Longrightarrow> \<exists>v. ip_version m i = Some v" "i < length m \<Longrightarrow> \<exists>n. ip_ihl m i = Some n"
  "i + 12 < length m \<Longrightarrow> \<exists>n. tcp_doff m i = Some n" "i + 13 < length m \<Longrightarrow> \<exists>b. tcp_flag k m i = Some b"
  by (simp_all add: ip_version_def ip_ihl_def tcp_doff_def tcp_flag_def peek_def)

section \<open>Extension headers\<close>

lemma extension_headers_safe:
  "l4ptr + l4len \<le> length m \<Longrightarrow>
   \<exists>r. ndpi_handle_ipv6_extension_headers m l3len l4ptr l4len nxt = Some r
     \<and> (\<forall>o' n h. r = Some (o', n, h) \<longrightarrow> l4ptr \<le> o' \<and> o' + n = l4ptr + l4len)"
proof (induction m l3len l4ptr l4len nxt rule: ndpi_handle_ipv6_extension_headers.induct)
  case (1 m l3len l4ptr l4len nxt)
  note simps = ndpi_handle_ipv6_extension_headers.simps [of m l3len l4ptr l4len nxt]
  show ?case
  proof (cases "1 < l3len \<and> is_extension nxt")
    case False
    then show ?thesis by (subst simps) (simp add: if_not_P)
  next
    case ext: True
    show ?thesis
    proof (cases "nxt = 44")
      case True
      show ?thesis
      proof (cases "l4len < 8 \<or> l3len < 5")
        case True
        then show ?thesis using ext \<open>nxt = 44\<close> by (subst simps) auto
      next
        case False
        then have len: "8 \<le> l4len" "5 \<le> l3len" by auto
        obtain n f where r: "peek m l4ptr = Some n" "get16 m (l4ptr + 2) = Some f"
          using 1(3) len get_in(1) [of "l4ptr + 2" m] by (auto simp: peek_def)
        show ?thesis
        proof (cases "drop_bit 3 f = 0")
          case False
          then show ?thesis using ext \<open>nxt = 44\<close> len r by (subst simps) simp
        next
          case True
          have "\<exists>r. ndpi_handle_ipv6_extension_headers m (l3len - 5) (l4ptr + 8) (l4len - 8) n = Some r
            \<and> (\<forall>o' n h. r = Some (o', n, h) \<longrightarrow> l4ptr + 8 \<le> o' \<and> o' + n = l4ptr + 8 + (l4len - 8))"
            using 1(1) [OF ext _ \<open>nxt = 44\<close> _ _ r] 1(3) True \<open>nxt = 44\<close> len by auto
          then show ?thesis using ext \<open>nxt = 44\<close> len r True by (subst simps) auto
        qed
      qed
    next
      case ne: False
      show ?thesis
      proof (cases "nxt = 59 \<or> l4len < 2")
        case True
        then show ?thesis using ext ne by (subst simps) auto
      next
        case False
        then have len: "2 \<le> l4len" "nxt \<noteq> 59" by auto
        obtain n b where r: "peek m l4ptr = Some n" "peek m (l4ptr + 1) = Some b"
          using 1(3) len by (auto simp: peek_def)
        let ?e = "unat b * 8 + 8"
        show ?thesis
        proof (cases "l3len < ?e \<or> l4len < ?e")
          case True
          then show ?thesis using ext ne len r by (subst simps) (auto simp: Let_def)
        next
          case False
          have "\<exists>r. ndpi_handle_ipv6_extension_headers m (l3len - ?e) (l4ptr + ?e) (l4len - ?e) n = Some r
            \<and> (\<forall>o' n h. r = Some (o', n, h) \<longrightarrow> l4ptr + ?e \<le> o' \<and> o' + n = l4ptr + ?e + (l4len - ?e))"
            using 1(2) [OF ext len(2) ne _ r(2) refl _ _ r(1)] 1(3) False len by auto
          then show ?thesis using ext ne len r False by (subst simps) auto
        qed
      qed
    qed
  qed
qed

section \<open>The transport header\<close>

lemma get_l4_safe:
  assumes "i + l3_len \<le> length m"
  shows "\<exists>r. ndpi_detection_get_l4_internal m (Some i) l3_len fl = Some r
     \<and> (\<forall>p n h. r = Some (p, n, h) \<longrightarrow> i + 20 \<le> p \<and> p + n \<le> i + l3_len)"
proof (cases "l3_len < 20")
  case True
  then show ?thesis by (simp add: ndpi_detection_get_l4_internal_def)
next
  case False
  then have len: "i + 20 \<le> length m" "20 \<le> l3_len" using assms by auto
  obtain v ihl tot fr pr pl nx where r: "ip_version m i = Some v" "ip_ihl m i = Some ihl"
      "get16 m (i + 2) = Some tot" "get16 m (i + 6) = Some fr" "peek m (i + 9) = Some pr"
      "get16 m (i + 4) = Some pl" "peek m (i + 6) = Some nx"
    using len field_in(1,2) [of i m] get_in(1) [of "i + 2" m] get_in(1) [of "i + 6" m] get_in(1) [of "i + 4" m]
    by (auto simp: peek_def)
  define ok where "ok = (\<not> (l3_len < ihl * 4 \<or> l3_len < unat tot \<or> unat tot < ihl * 4 \<or> fr AND 0x1FFF \<noteq> 0))"
  have valid: "ndpi_iph_is_valid_and_not_fragmented m i l3_len = Some ok"
    using r by (simp add: ndpi_iph_is_valid_and_not_fragmented_def ok_def)
  show ?thesis
  proof (cases "v = 4 \<and> 5 \<le> ihl")
    case True
    have "tot \<noteq> 0" if "ok"
    proof
      assume "tot = 0"
      then show False using that True by (simp add: ok_def)
    qed
    then show ?thesis using len r valid True
      by (auto simp: ndpi_detection_get_l4_internal_def Let_def ok_def)
  next
    case nv4: False
    show ?thesis
    proof (cases "v = 6 \<and> 40 \<le> l3_len \<and> unat pl \<le> l3_len - 40")
      case True
      then have "i + 40 + unat pl \<le> length m" using assms by linarith
      then obtain r' where "ndpi_handle_ipv6_extension_headers m (l3_len - 40) (i + 40) (unat pl) nx = Some r'"
          "\<forall>p n h. r' = Some (p, n, h) \<longrightarrow> i + 40 \<le> p \<and> p + n = i + 40 + unat pl"
        using extension_headers_safe [of "i + 40" "unat pl" m "l3_len - 40" nx] by blast
      then show ?thesis using len r nv4 True
        by (auto simp: ndpi_detection_get_l4_internal_def Let_def)
    next
      case False
      then show ?thesis using len r nv4
        by (auto simp: ndpi_detection_get_l4_internal_def Let_def)
    qed
  qed
qed

section \<open>The packet\<close>

text \<open>Every pointer of the packet, with what is read behind it, is inside the first \<open>n\<close> bytes.\<close>

definition view_ok :: "nat \<Rightarrow> ndpi_packet \<Rightarrow> bool" where
  "view_ok n p \<longleftrightarrow>
     20 \<le> n \<and> (iph p = Some 0 \<and> iphv6 p = None \<or> iph p = None \<and> iphv6 p = Some 0 \<and> 40 \<le> n)
     \<and> (case payload p of Some o' \<Rightarrow> o' + payload_packet_len p \<le> n | None \<Rightarrow> payload_packet_len p = 0)
     \<and> (case tcp p of Some o' \<Rightarrow> o' + 20 \<le> n \<and> udp p = None | None \<Rightarrow> True)
     \<and> (case udp p of Some o' \<Rightarrow> o' + 8 \<le> n | None \<Rightarrow> True)
     \<and> (case generic_l4_ptr p of Some o' \<Rightarrow> o' \<le> n | None \<Rightarrow> True)"

lemma set_transport_safe:
  assumes "l4ptr + len \<le> n" "n \<le> length m" "view_ok n p" "tcp p = None" "udp p = None"
    "payload p = None" "generic_l4_ptr p = None"
  shows "\<exists>p' f'. set_transport m l4ptr len pr p f = Some (0, p', f') \<and> view_ok n p'"
proof (cases "pr = IPPROTO_TCP \<and> 20 \<le> len")
  case True
  then obtain doff syn ack where "tcp_doff m l4ptr = Some doff" "tcp_syn m l4ptr = Some syn" "tcp_ack m l4ptr = Some ack"
    using field_in(3) [of l4ptr m] field_in(4) [of l4ptr m] assms(1,2) by fastforce
  then show ?thesis using True assms by (auto simp: set_transport_def view_ok_def)
next
  case False
  then show ?thesis using assms by (auto simp: set_transport_def view_ok_def)
qed

lemma fresh_packet_sel:
  "iph (fresh_packet t n p) = Some 0" "iphv6 (fresh_packet t n p) = None" "tcp (fresh_packet t n p) = None"
  "udp (fresh_packet t n p) = None" "generic_l4_ptr (fresh_packet t n p) = None"
  "payload (fresh_packet t n p) = None" "payload_packet_len (fresh_packet t n p) = 0"
  by (simp_all add: fresh_packet_def ndpi_reset_packet_line_info_def)

lemma init_packet_safe:
  assumes "packetlen \<le> length m"
  shows "\<exists>rc p' f'. ndpi_init_packet lim p f t m packetlen = Some (rc, p', f') \<and> (rc = 0 \<or> rc = 1)
     \<and> (rc = 0 \<longrightarrow> view_ok packetlen p')"
proof (cases "packetlen < 20")
  case True
  then show ?thesis by (simp add: ndpi_init_packet_def)
next
  case False
  then have "0 < length m" using assms by linarith
  then obtain v ihl where r: "ip_version m 0 = Some v" "ip_ihl m 0 = Some ihl"
    using field_in(1,2) [of 0 m] by blast
  obtain q where l4: "ndpi_detection_get_l4_internal m (Some 0) packetlen 0 = Some q"
      "\<forall>p n h. q = Some (p, n, h) \<longrightarrow> 20 \<le> p \<and> p + n \<le> packetlen"
    using get_l4_safe [of 0 packetlen m 0] assms by auto
  show ?thesis
  proof (cases q)
    case None
    then show ?thesis using False r l4 by (auto simp: ndpi_init_packet_def Let_def)
  next
    case (Some a)
    obtain l4 n h where a: "a = (l4, n, h)" by (cases a)
    have le: "l4 + n \<le> packetlen" using l4(2) Some a by blast
    define v4 where "v4 = (v = 4 \<and> 5 \<le> ihl)"
    define v6 where "v6 = (v = 6 \<and> 40 \<le> packetlen \<and> \<not> has_flag lim NDPI_DETECTION_ONLY_IPV4)"
    define u where "u = (if v4 then fresh_packet t packetlen p else (fresh_packet t packetlen p)\<lparr>iphv6 := Some 0, iph := None\<rparr>)"
    have view: "view_ok packetlen u" if "v4 \<or> v6"
      using False that by (auto simp: view_ok_def u_def v6_def fresh_packet_sel)
    have "\<exists>p' f'. set_transport m l4 n h u (f\<lparr>l4_proto := h\<rparr>) = Some (0, p', f') \<and> view_ok packetlen p'"
      if "v4 \<or> v6"
      by (rule set_transport_safe [OF le assms view [OF that]]) (simp_all add: u_def fresh_packet_sel)
    moreover have "ndpi_init_packet lim p f t m packetlen =
        (if \<not> v4 \<and> \<not> v6 then Some (1, (fresh_packet t packetlen p)\<lparr>iph := None\<rparr>, f)
         else set_transport m l4 n h u (f\<lparr>l4_proto := h\<rparr>))"
      using False r l4 Some a by (simp add: ndpi_init_packet_def Let_def v4_def v6_def u_def)
    ultimately show ?thesis by auto
  qed
qed

section \<open>A chain of extension headers\<close>

text \<open>
  Well-formed extension headers: an options, routing, destination or mobility header with its
  contents (a multiple of eight bytes, the two bytes of next type and length included), or the
  header of a first fragment with its identification.
\<close>

datatype ext_header = Options u8 bytes | First_fragment bytes

fun ext_type :: "ext_header \<Rightarrow> u8" where
  "ext_type (Options t b) = t"
| "ext_type (First_fragment b) = 44"

fun ext_ok :: "ext_header \<Rightarrow> bool" where
  "ext_ok (Options t b) \<longleftrightarrow> t \<in> {0, 43, 60, 135} \<and> length b mod 8 = 6 \<and> length b < 2048"
| "ext_ok (First_fragment b) \<longleftrightarrow> length b = 4"

fun ext_bytes :: "ext_header \<Rightarrow> u8 \<Rightarrow> bytes" where
  "ext_bytes (Options t b) nxt = [nxt, word_of_nat (length b div 8)] @ b"
| "ext_bytes (First_fragment b) nxt = [nxt, 0, 0, 1] @ b"

fun chain_type :: "ext_header list \<Rightarrow> u8 \<Rightarrow> u8" where
  "chain_type [] proto = proto"
| "chain_type (e # es) proto = ext_type e"

fun chain_bytes :: "ext_header list \<Rightarrow> u8 \<Rightarrow> bytes" where
  "chain_bytes [] proto = []"
| "chain_bytes (e # es) proto = ext_bytes e (chain_type es proto) @ chain_bytes es proto"

definition bytes_at :: "bytes \<Rightarrow> nat \<Rightarrow> bytes \<Rightarrow> bool" where
  "bytes_at m i bs \<longleftrightarrow> i + length bs \<le> length m \<and> take (length bs) (drop i m) = bs"

lemma bytes_at_append: "bytes_at m i (xs @ ys) \<longleftrightarrow> bytes_at m i xs \<and> bytes_at m (i + length xs) ys"
proof -
  have "take (length xs + length ys) (drop i m) = xs @ ys \<longleftrightarrow>
      take (length xs) (drop i m) = xs \<and> take (length ys) (drop (i + length xs) m) = ys"
    if "i + length xs + length ys \<le> length m"
    using that by (auto simp: take_add append_eq_append_conv add.commute)
  then show ?thesis by (auto simp: bytes_at_def)
qed

lemma bytes_at_Cons: "bytes_at m i (b # bs) \<longleftrightarrow> peek m i = Some b \<and> bytes_at m (Suc i) bs"
proof -
  have "bytes_at m i [b] \<longleftrightarrow> peek m i = Some b"
    by (auto simp: bytes_at_def peek_def take_Suc_conv_app_nth hd_drop_conv_nth) 
  then show ?thesis using bytes_at_append [of m i "[b]" bs] by simp
qed

lemma get16_at:
  assumes "peek m i = Some a" "peek m (Suc i) = Some b"
  shows "get16 m i = Some (of_be16 [a, b])"
proof -
  have "bytes_at m i [a, b]" using assms by (simp add: bytes_at_Cons) (auto simp: bytes_at_def peek_def split: if_splits)
  then show ?thesis by (auto simp: bytes_at_def get16_def peek_run_def numeral_2_eq_2)
qed

lemma options_step:
  assumes "1 < l3len" "t \<in> {0, 43, 60, 135}" "2 \<le> l4len" "peek m (off + 1) = Some b"
    "peek m off = Some n" "e = unat b * 8 + 8" "e \<le> l3len" "e \<le> l4len"
  shows "ndpi_handle_ipv6_extension_headers m l3len off l4len t
     = ndpi_handle_ipv6_extension_headers m (l3len - e) (off + e) (l4len - e) n"
  using assms by (subst ndpi_handle_ipv6_extension_headers.simps) (auto simp: is_extension_def Let_def)

lemma extension_chain:
  assumes "bytes_at m off (chain_bytes es proto)" "list_all ext_ok es" "\<not> is_extension proto"
    "length (chain_bytes es proto) + n \<le> l3len" "l4len = length (chain_bytes es proto) + n"
  shows "ndpi_handle_ipv6_extension_headers m l3len off l4len (chain_type es proto)
     = Some (Some (off + length (chain_bytes es proto), n, proto))"
  using assms
proof (induction es arbitrary: off l3len l4len)
  case Nil
  then show ?case by (subst ndpi_handle_ipv6_extension_headers.simps) simp
next
  case (Cons e es)
  let ?c = "length (chain_bytes es proto)"
  show ?case
  proof (cases e)
    case (Options t b)
    let ?e = "length b + 2"
    have ok: "t \<in> {0, 43, 60, 135}" "length b mod 8 = 6" "length b < 2048" using Cons.prems(2) Options by simp_all
    then have e: "unat (word_of_nat (length b div 8) :: u8) * 8 + 8 = ?e"
      using div_mult_mod_eq [of "length b" 8] by (simp add: unat_of_nat)
    have at: "peek m off = Some (chain_type es proto)" "peek m (off + 1) = Some (word_of_nat (length b div 8))"
      "bytes_at m (off + ?e) (chain_bytes es proto)"
      using Cons.prems(1) Options by (auto simp: bytes_at_Cons bytes_at_append)
    have "ndpi_handle_ipv6_extension_headers m (l3len - ?e) (off + ?e) (l4len - ?e) (chain_type es proto)
        = Some (Some (off + ?e + ?c, n, proto))"
      using Cons.prems Options by (intro Cons.IH at(3)) auto
    moreover have "ndpi_handle_ipv6_extension_headers m l3len off l4len t
        = ndpi_handle_ipv6_extension_headers m (l3len - ?e) (off + ?e) (l4len - ?e) (chain_type es proto)"
      using Cons.prems(4,5) Options ok(1) at(1,2) e by (intro options_step) auto
    ultimately show ?thesis using Options by (simp add: add.assoc)
  next
    case (First_fragment b)
    have b: "length b = 4" using Cons.prems(2) First_fragment by simp
    have at: "peek m off = Some (chain_type es proto)" "get16 m (off + 2) = Some (of_be16 [0, 1])"
      "bytes_at m (off + 8) (chain_bytes es proto)"
      using Cons.prems(1) First_fragment b get16_at [of m "Suc (Suc off)" 0 1]
      by (auto simp: bytes_at_Cons bytes_at_append numeral_eq_Suc)
    have "ndpi_handle_ipv6_extension_headers m (l3len - 5) (off + 8) (l4len - 8) (chain_type es proto)
        = Some (Some (off + 8 + ?c, n, proto))"
      using Cons.prems First_fragment b by (intro Cons.IH at(3)) auto
    then show ?thesis using Cons.prems First_fragment b at
      by (subst ndpi_handle_ipv6_extension_headers.simps) (auto simp: is_extension_def)
  qed
qed

section \<open>Properties\<close>

text \<open>
  C5. Untrusted packets. Setting up a packet reads only bytes inside it, whatever they are:
  for every block of at least \<open>packetlen\<close> bytes the call returns 0 or 1, and after 0 the IP
  header, the transport header and the payload all lie within the first \<open>packetlen\<close> bytes.
\<close>

theorem init_packet_in_bounds:
  assumes "packetlen \<le> length m"
  shows "\<exists>rc p' f'. ndpi_init_packet lim p f t m packetlen = Some (rc, p', f') \<and> (rc = 0 \<or> rc = 1)
     \<and> (rc = 0 \<longrightarrow> view_ok packetlen p')"
  using assms by (rule init_packet_safe)

definition no_packet :: ndpi_packet where
  "no_packet = \<lparr>iph = None, iphv6 = None, tcp = None, udp = None, generic_l4_ptr = None, payload = None,
     current_time_ms = 0, line = replicate 64 (None, 0), named_lines = \<lambda>_. (None, 0), http_num_headers = 0, l3_packet_len = 0,
     payload_packet_len = 0, parsed_lines = 0, empty_line_position = 0, tcp_retransmission = 0,
     packet_lines_parsed_complete = False, pkt_direction = 0, empty_line_position_set = False,
     http_check_content = False\<rparr>"

theorem init_packet_in_bounds_witness:
  "\<exists>rc p' f'. ndpi_init_packet 0 no_packet zero_flow 5 (0x4f # replicate 30 0xff) 31 = Some (rc, p', f')
     \<and> (rc = 0 \<or> rc = 1) \<and> (rc = 0 \<longrightarrow> view_ok 31 p')"
  using init_packet_in_bounds [of 31 "0x4f # replicate 30 0xff" 0 no_packet zero_flow 5] by simp

text \<open>
  C26. IPv6 extension headers. Over any chain of well-formed extension headers in front of a
  transport header, the loop returns the place, the length and the protocol of the transport
  header.
\<close>

theorem extension_headers_skipped:
  assumes "bytes_at m off (chain_bytes es proto)" "list_all ext_ok es" "\<not> is_extension proto"
    "length (chain_bytes es proto) + n \<le> l3len"
  shows "ndpi_handle_ipv6_extension_headers m l3len off (length (chain_bytes es proto) + n)
       (chain_type es proto)
     = Some (Some (off + length (chain_bytes es proto), n, proto))"
  using assms by (intro extension_chain) simp_all

theorem extension_headers_skipped_witness:
  "ndpi_handle_ipv6_extension_headers ([44, 0, 1, 2, 3, 4, 5, 6, 17, 0, 0, 1, 9, 9, 9, 9] @ replicate 8 7)
     24 0 24 0 = Some (Some (16, 8, 17))"
  using extension_headers_skipped
    [of "[44, 0, 1, 2, 3, 4, 5, 6, 17, 0, 0, 1, 9, 9, 9, 9] @ replicate 8 7" 0
        "[Options 0 [1, 2, 3, 4, 5, 6], First_fragment [9, 9, 9, 9]]" 17 8 24]
  by (simp add: bytes_at_def is_extension_def)

text \<open>A UDP datagram in an IPv4 packet without options.\<close>

definition udp4_packet :: "u8 \<Rightarrow> u16 \<Rightarrow> u8 \<Rightarrow> u16 \<Rightarrow> u32 \<Rightarrow> u32 \<Rightarrow> u16 \<Rightarrow> u16 \<Rightarrow> u16 \<Rightarrow> bytes \<Rightarrow> bytes" where
  "udp4_packet tos ident ttl check src dst sp dp ucheck data =
     [0x45, tos] @ be16 (word_of_nat (28 + length data)) @ be16 ident @ [0, 0, ttl, IPPROTO_UDP]
     @ be16 check @ be32 src @ be32 dst
     @ be16 sp @ be16 dp @ be16 (word_of_nat (8 + length data)) @ be16 ucheck @ data"

lemma udp4_init:
  assumes "length data \<le> 65507"
    and m: "m = udp4_packet tos ident ttl check src dst sp dp ucheck data"
  shows "\<exists>p' f'. ndpi_init_packet lim p f t m (length m) = Some (0, p', f')
     \<and> udp p' = Some 20 \<and> tcp p' = None \<and> iph p' = Some 0 \<and> iphv6 p' = None \<and> l4_proto f' = IPPROTO_UDP
     \<and> payload p' = Some 28 \<and> peek_run m 28 (payload_packet_len p') = Some data"
proof -
  have len: "length m = 28 + length data" by (simp add: m udp4_packet_def)
  have 28: "unat (word_of_nat (28 + length data) :: u16) = 28 + length data"
    using assms(1) by (simp add: unat_of_nat del: of_nat_add)
  have r: "ip_version m 0 = Some 4" "ip_ihl m 0 = Some 5" "get16 m 6 = Some 0" "peek m 9 = Some IPPROTO_UDP"
    "peek_run m 28 (length data) = Some data"
    by (simp_all add: m udp4_packet_def ip_version_def ip_ihl_def get16_def peek_def peek_run_def be16_def be32_def
        del: of_nat_add)
  have tot: "get16 m (Suc (Suc 0)) = Some (word_of_nat (28 + length data))"
    by (simp add: m udp4_packet_def get16_def peek_run_def numeral_2_eq_2 flip: append_Cons)
  have nz: "(word_of_nat (28 + length data) :: u16) \<noteq> 0" using 28 by (metis add_is_0 unsigned_0 zero_neq_numeral)
  have ok: "ndpi_iph_is_valid_and_not_fragmented m 0 (length m) = Some True"
    unfolding ndpi_iph_is_valid_and_not_fragmented_def using r tot 28 len by (simp del: of_nat_add)
  have l4: "ndpi_detection_get_l4_internal m (Some 0) (length m) 0 = Some (Some (20, 8 + length data, IPPROTO_UDP))"
    unfolding ndpi_detection_get_l4_internal_def using r tot ok 28 nz len by (simp add: Let_def del: of_nat_add)
  show ?thesis using r l4 len
    by (simp add: ndpi_init_packet_def set_transport_def Let_def fresh_packet_sel del: of_nat_add)
qed

text \<open>
  C30. The payload. Parsing a UDP/IPv4 datagram finds the UDP header behind the IP header and,
  as payload, exactly the bytes the datagram carries.
\<close>

theorem udp4_payload_found:
  assumes "length data \<le> 65507"
    and m: "m = udp4_packet tos ident ttl check src dst sp dp ucheck data"
  shows "\<exists>p' f'. ndpi_init_packet lim p f t m (length m) = Some (0, p', f')
     \<and> udp p' = Some 20 \<and> tcp p' = None \<and> iph p' = Some 0 \<and> l4_proto f' = IPPROTO_UDP
     \<and> payload p' = Some 28 \<and> peek_run m 28 (payload_packet_len p') = Some data"
  using udp4_init [OF assms] by blast

theorem udp4_payload_found_witness:
  "\<exists>p' f'. ndpi_init_packet 0 no_packet zero_flow 0 (udp4_packet 0 1 64 0 0x0a000001 0x0a000002 5353 53 0 [1, 2, 3]) 31
       = Some (0, p', f')
     \<and> udp p' = Some 20 \<and> tcp p' = None \<and> iph p' = Some 0 \<and> l4_proto f' = IPPROTO_UDP
     \<and> payload p' = Some 28
     \<and> peek_run (udp4_packet 0 1 64 0 0x0a000001 0x0a000002 5353 53 0 [1, 2, 3]) 28 (payload_packet_len p')
         = Some [1, 2, 3]"
proof -
  have l: "length (udp4_packet 0 1 64 0 0x0a000001 0x0a000002 5353 53 0 [1, 2, 3]) = 31"
    by (simp add: udp4_packet_def)
  have "length ([1, 2, 3] :: bytes) \<le> 65507" by simp
  from udp4_payload_found [OF this refl, of 0 no_packet zero_flow 0 0 1 64 0 "0x0a000001" "0x0a000002" 5353 53 0]
  show ?thesis unfolding l .
qed
end
