(* ===== verification/Packet_Tracking.thy ===== *)
theory Packet_Tracking
  imports Packet_Safety "HOL-Library.Sublist"
begin

text \<open>
  Connection tracking of \<^verbatim>\<open>ndpi_main.c\<close> on arbitrary packets: it reads only inside the
  packet, every flow that packets can build keeps its invariant, the handshake flags and the
  retransmission mark mean what their names say, and what the direction of a packet depends on.
\<close>

section \<open>The invariant of a flow\<close>

text \<open>
  What every flow keeps: the handshake flags are raised in order, the packet counters stop at
  their maximum, the byte counters fit their 16 bits, and the directions are 0 or 1.
\<close>

definition flow_ok :: "ndpi_flow \<Rightarrow> bool" where
  "flow_ok f \<longleftrightarrow>
     (seen_ack f \<longrightarrow> seen_syn_ack f) \<and> (seen_syn_ack f \<longrightarrow> seen_syn f)
     \<and> packet_counter f \<le> MAX_PACKET_COUNTER
     \<and> fst (packet_direction_counter f) \<le> MAX_PACKET_COUNTER
     \<and> snd (packet_direction_counter f) \<le> MAX_PACKET_COUNTER
     \<and> fst (byte_counter f) < 65536 \<and> snd (byte_counter f) < 65536
     \<and> flow_direction f \<le> 1 \<and> setup_packet_direction f \<le> 1"

lemma zero_flow_ok: "flow_ok zero_flow"
  by (simp add: flow_ok_def zero_flow_def)

lemma flow_ok_handshake: "flow_ok f \<Longrightarrow> flow_ok (tcp_handshake syn ack f)"
  by (simp add: flow_ok_def tcp_handshake_def)

lemma flow_ok_sequence: "flow_ok f \<Longrightarrow> flow_ok (fst (tcp_sequence w syn ack s a len d f))"
  by (auto simp: flow_ok_def tcp_sequence_def Let_def)

lemma flow_ok_count: "flow_ok f \<Longrightarrow> flow_ok (count_packet d len f)"
  by (auto simp: flow_ok_def count_packet_def Let_def dir_sel_def dir_upd_def c_u16_def)

lemma flow_ok_reset: "flow_ok f \<Longrightarrow> flow_ok (reset_on_syn f)"
  by (simp add: flow_ok_def reset_on_syn_def zero_flow_def)

lemma flow_ok_addresses:
  "flow_ok f \<Longrightarrow> pkt_direction p \<le> 1 \<Longrightarrow> track_addresses m p f = Some f' \<Longrightarrow> flow_ok f'"
proof -
  assume a: "flow_ok f" "pkt_direction p \<le> 1" "track_addresses m p f = Some f'"
  from a(3) obtain g where g: "(if is_ipv6 (f\<lparr>is_ipv6 := iphv6 p \<noteq> None\<rparr>) then Some (f\<lparr>is_ipv6 := iphv6 p \<noteq> None\<rparr>)
      else do { i \<leftarrow> iph p; a \<leftarrow> raw32 m (i + 12); b \<leftarrow> raw32 m (i + 16);
        Some (f\<lparr>is_ipv6 := iphv6 p \<noteq> None, saddr := a, daddr := b\<rparr>) }) = Some g"
    "f' = (let f = g\<lparr>last_packet_time_ms := current_time_ms p\<rparr> in
       if init_finished f then f else f\<lparr>init_finished := True, setup_packet_direction := pkt_direction p\<rparr>)"
    unfolding track_addresses_def Let_def bind_eq_Some_conv by auto
  have "flow_ok g" using g(1) a(1) by (cases "iphv6 p = None") (auto simp: flow_ok_def bind_eq_Some_conv)
  then show "flow_ok f'" using a(2) unfolding g(2) Let_def by (simp add: flow_ok_def)
qed

lemma flow_ok_ports: "flow_ok f \<Longrightarrow> track_ports fx m i p f = Some (p', f') \<Longrightarrow> flow_ok f'"
  by (auto simp: flow_ok_def track_ports_def bind_eq_Some_conv)

lemma flow_ok_tcp:
  assumes "flow_ok f" "track_tcp w m i p f = Some (p', f')"
  shows "flow_ok f'"
proof -
  from assms(2) obtain syn ack s a rst where
    f': "f' = (let g = fst (tcp_sequence w syn ack s a (payload_packet_len p) (pkt_direction p) (tcp_handshake syn ack f))
          in if rst then g\<lparr>next_tcp_seq_nr := (0, 0)\<rparr> else g)"
    unfolding track_tcp_def Let_def case_prod_beta bind_eq_Some_conv prod.inject option.inject by blast
  have "flow_ok (fst (tcp_sequence w syn ack s a (payload_packet_len p) (pkt_direction p) (tcp_handshake syn ack f)))"
    using flow_ok_sequence flow_ok_handshake assms(1) by blast
  then show ?thesis by (simp add: f' Let_def flow_ok_def)
qed

section \<open>Tracking on arbitrary packets\<close>

lemma address_direction_safe:
  assumes "view_ok n p" "n \<le> length m"
  shows "\<exists>d. address_direction m p = Some d \<and> d \<le> 1"
proof (cases "iph p")
  case None
  then show ?thesis using assms by (auto simp: view_ok_def address_direction_def compare_ipv6_places_def)
next
  case (Some i)
  then obtain a b where "get32 m (i + 12) = Some a" "get32 m (i + 16) = Some b"
    using assms get_in(2) [of "i + 12" m] get_in(2) [of "i + 16" m] by (auto simp: view_ok_def)
  then show ?thesis using Some assms by (auto simp: view_ok_def address_direction_def)
qed

lemma track_addresses_safe:
  assumes "view_ok n p" "n \<le> length m"
  shows "\<exists>f'. track_addresses m p f = Some f'"
proof (cases "iph p")
  case None
  then show ?thesis using assms by (auto simp: view_ok_def track_addresses_def Let_def)
next
  case (Some i)
  then obtain a b where "raw32 m (i + 12) = Some a" "raw32 m (i + 16) = Some b"
    using assms get_in(4) [of "i + 12" m] get_in(4) [of "i + 16" m] by (auto simp: view_ok_def)
  then show ?thesis using Some assms by (auto simp: view_ok_def track_addresses_def Let_def)
qed

lemma track_ports_safe:
  assumes "i + 4 \<le> length m"
  shows "\<exists>d f'. track_ports fx m i p f = Some (p\<lparr>pkt_direction := d\<rparr>, f') \<and> (d \<le> 1 \<or> d = pkt_direction p)"
proof -
  obtain a b s t where r: "raw16 m i = Some a" "raw16 m (i + 2) = Some b" "get16 m i = Some s" "get16 m (i + 2) = Some t"
    using assms get_in(1,3) [of i m] get_in(1,3) [of "i + 2" m] by auto
  define d where "d = (if fx then pkt_direction p else if s < t then 1 else 0)"
  have "track_ports fx m i p f = Some (p\<lparr>pkt_direction := d\<rparr>, f\<lparr>sport := a, dport := b\<rparr>)"
    using r by (simp add: track_ports_def d_def)
  moreover have "d \<le> 1 \<or> d = pkt_direction p" by (simp add: d_def)
  ultimately show ?thesis by blast
qed

lemma track_tcp_safe:
  assumes "i + 20 \<le> length m"
  shows "\<exists>r f'. track_tcp w m i p f = Some (p\<lparr>tcp_retransmission := r\<rparr>, f')"
proof -
  obtain s a k q b where r: "tcp_syn m i = Some s" "tcp_ack m i = Some a" "tcp_rst m i = Some k"
      "get32 m (i + 4) = Some q" "get32 m (i + 8) = Some b"
    using assms field_in(4) [of i m] get_in(2) [of "i + 4" m] get_in(2) [of "i + 8" m] by fastforce
  define again where "again = snd (tcp_sequence w s a q b (payload_packet_len p) (pkt_direction p) (tcp_handshake s a f))"
  have "(if again then p\<lparr>tcp_retransmission := 1\<rparr> else p)
      = p\<lparr>tcp_retransmission := if again then 1 else tcp_retransmission p\<rparr>" by simp
  then have "\<exists>r. (if again then p\<lparr>tcp_retransmission := 1\<rparr> else p) = p\<lparr>tcp_retransmission := r\<rparr>" by blast
  then show ?thesis using r by (simp add: track_tcp_def Let_def case_prod_beta again_def)
qed

lemma view_ok_upd [simp]:
  "view_ok n (p\<lparr>tcp_retransmission := r\<rparr>) = view_ok n p"
  "view_ok n (p\<lparr>pkt_direction := d\<rparr>) = view_ok n p"
  "view_ok n (p\<lparr>packet_lines_parsed_complete := c\<rparr>) = view_ok n p"
  by (simp_all add: view_ok_def split: option.split)

lemma connection_tracking_safe:
  assumes "view_ok n p" "n \<le> length m" "flow_direction f \<le> 1"
  shows "\<exists>p' f'. ndpi_connection_tracking dis w m p f = Some (p', f') \<and> view_ok n p' \<and> pkt_direction p' \<le> 1"
proof -
  let ?p0 = "p\<lparr>tcp_retransmission := 0, pkt_direction := 0\<rparr>"
  obtain d where d: "(if dis then Some (flow_direction f) else address_direction m ?p0) = Some d" "d \<le> 1"
    using address_direction_safe [of n ?p0 m] assms by (cases dis) auto
  let ?p1 = "?p0\<lparr>pkt_direction := d\<rparr>"
  obtain f1 where f1: "track_addresses m ?p1 f = Some f1"
    using track_addresses_safe [of n ?p1 m f] assms by auto
  let ?p2 = "?p1\<lparr>packet_lines_parsed_complete := False\<rparr>"
  show ?thesis
  proof (cases "tcp p")
    case (Some i)
    then have le: "i + 20 \<le> length m" using assms by (auto simp: view_ok_def)
    then obtain e f2 where 2: "track_ports dis m i ?p2 f1 = Some (?p2\<lparr>pkt_direction := e\<rparr>, f2)" "e \<le> 1"
      using track_ports_safe [of i m dis ?p2 f1] d(2) by fastforce
    obtain r f3 where 3: "track_tcp w m i (?p2\<lparr>pkt_direction := e\<rparr>) f2 = Some (?p2\<lparr>pkt_direction := e, tcp_retransmission := r\<rparr>, f3)"
      using track_tcp_safe [OF le, of w "?p2\<lparr>pkt_direction := e\<rparr>" f2] by auto
    show ?thesis using Some assms d f1 2 3
      by (auto simp: ndpi_connection_tracking_def track_transport_def Let_def simp del: ndpi_packet.update_convs)
  next
    case None
    show ?thesis
    proof (cases "udp p")
      case (Some i)
      then have le: "i + 4 \<le> length m" using assms None by (auto simp: view_ok_def)
      then obtain e f2 where 2: "track_ports dis m i ?p2 f1 = Some (?p2\<lparr>pkt_direction := e\<rparr>, f2)" "e \<le> 1"
        using track_ports_safe [of i m dis ?p2 f1] d(2) by fastforce
      then show ?thesis using None Some assms d f1
        by (auto simp: ndpi_connection_tracking_def track_transport_def Let_def simp del: ndpi_packet.update_convs)
    next
      case None2: None
      then show ?thesis using None assms d f1
        by (auto simp: ndpi_connection_tracking_def track_transport_def Let_def simp del: ndpi_packet.update_convs)
    qed
  qed
qed

lemma flow_ok_transport: "flow_ok f \<Longrightarrow> track_transport fx w m p f = Some (p', f') \<Longrightarrow> flow_ok f'"
  by (auto simp: track_transport_def bind_eq_Some_conv split: option.splits dest: flow_ok_ports flow_ok_tcp)

lemma flow_ok_tracking:
  assumes "flow_ok f" "view_ok n p" "n \<le> length m" "ndpi_connection_tracking dis w m p f = Some (p', f')"
  shows "flow_ok f'"
proof -
  let ?p0 = "p\<lparr>tcp_retransmission := 0, pkt_direction := 0\<rparr>"
  from assms(4) obtain d f1 f2 where
    d: "(if dis then Some (flow_direction f) else address_direction m ?p0) = Some d"
    and f1: "track_addresses m (?p0\<lparr>pkt_direction := d\<rparr>) f = Some f1"
    and f2: "track_transport dis w m (?p0\<lparr>pkt_direction := d, packet_lines_parsed_complete := False\<rparr>) f1 = Some (p', f2)"
    and f': "f' = count_packet (pkt_direction p') (payload_packet_len p') f2"
    unfolding ndpi_connection_tracking_def Let_def bind_eq_Some_conv by auto
  have "d \<le> 1" using d assms(1-3) address_direction_safe [of n ?p0 m] by (auto simp: flow_ok_def split: if_splits)
  then have "flow_ok f1" using flow_ok_addresses [OF assms(1) _ f1] by simp
  then show ?thesis using f2 by (simp add: f' flow_ok_count flow_ok_transport)
qed

lemma flow_ok_init:
  assumes "flow_ok f" "ndpi_init_packet lim p f t m n = Some (rc, p', f')"
  shows "flow_ok f'"
proof -
  have proto: "flow_ok (f\<lparr>l4_proto := h\<rparr>)" for h using assms(1) by (simp add: flow_ok_def)
  have "flow_ok g'" if "set_transport m i l h q g = Some (rc, p', g')" "flow_ok g" for i l h q g g'
    using that by (auto simp: set_transport_def bind_eq_Some_conv Let_def flow_ok_reset split: if_splits)
  then show ?thesis using assms proto
    by (auto simp: ndpi_init_packet_def bind_eq_Some_conv Let_def split: if_splits option.splits)
qed

section \<open>Flows that packets build\<close>

text \<open>
  A packet of the flow: it is set up in the module's packet and, when that succeeds, tracked.
  The packets are arbitrary bytes.
\<close>

definition flow_packet ::
  "u32 \<Rightarrow> bool \<Rightarrow> u32 \<Rightarrow> u64 \<Rightarrow> bytes \<Rightarrow> ndpi_packet \<times> ndpi_flow \<Rightarrow> (ndpi_packet \<times> ndpi_flow) option" where
  "flow_packet lim dis w t m s = do {
     (rc, p, f) \<leftarrow> ndpi_init_packet lim (fst s) (snd s) t m (length m);
     if rc = 0 then ndpi_connection_tracking dis w m p f else Some (p, f)
   }"

inductive flow_reached :: "u32 \<Rightarrow> bool \<Rightarrow> u32 \<Rightarrow> ndpi_packet \<times> ndpi_flow \<Rightarrow> bool"
  for lim dis w where
  fresh: "flow_reached lim dis w (p, zero_flow)"
| packet: "flow_reached lim dis w s \<Longrightarrow> flow_packet lim dis w t m s = Some s' \<Longrightarrow> flow_reached lim dis w s'"

lemma flow_packet_ok:
  assumes "flow_ok (snd s)"
  shows "\<exists>s'. flow_packet lim dis w t m s = Some s' \<and> flow_ok (snd s')"
proof -
  obtain rc p f where i: "ndpi_init_packet lim (fst s) (snd s) t m (length m) = Some (rc, p, f)"
      "rc = 0 \<Longrightarrow> view_ok (length m) p"
    using init_packet_safe [of "length m" m lim "fst s" "snd s" t] by blast
  have f: "flow_ok f" using flow_ok_init [OF assms i(1)] .
  show ?thesis
  proof (cases "rc = 0")
    case True
    obtain p' f' where "ndpi_connection_tracking dis w m p f = Some (p', f')"
      using connection_tracking_safe [OF i(2) [OF True] order_refl, of f dis w] f by (auto simp: flow_ok_def)
    then show ?thesis using True i f flow_ok_tracking [OF f i(2) order_refl] by (simp add: flow_packet_def)
  next
    case False
    then show ?thesis using i f by (simp add: flow_packet_def)
  qed
qed

lemma flow_reached_ok: "flow_reached lim dis w s \<Longrightarrow> flow_ok (snd s)"
proof (induction rule: flow_reached.induct)
  case (fresh p)
  show ?case by (simp add: zero_flow_ok)
next
  case (packet s t m s')
  then show ?case using flow_packet_ok [of s lim dis w t m] by auto
qed

section \<open>Retransmissions\<close>

lemma tcp_sequence_established:
  assumes "fst (next_tcp_seq_nr f) \<noteq> 0" "snd (next_tcp_seq_nr f) \<noteq> 0" "0 < len"
  shows "tcp_sequence w syn ack s a len d f =
     (if w < s - dir_sel d (next_tcp_seq_nr f)
      then (if unat (dir_sel d (next_tcp_seq_nr f) - s) < len \<and> 1 < num_processed_pkts f
            then f\<lparr>next_tcp_seq_nr := dir_upd d (s + word_of_nat len) (next_tcp_seq_nr f)\<rparr> else f, True)
      else (f\<lparr>next_tcp_seq_nr := dir_upd d (s + word_of_nat len) (next_tcp_seq_nr f)\<rparr>, False))"
  using assms by (simp add: tcp_sequence_def Let_def)

lemma dir_sel_upd [simp]: "dir_sel d (dir_upd d x p) = x"
  by (simp add: dir_sel_def dir_upd_def)

lemma back_distance:
  fixes s w :: u32
  assumes "0 < len" "len < 65536" "w < 0xFFFF0000"
  shows "w < s - (s + word_of_nat len)"
proof -
  have "uint (- word_of_nat len :: u32) = 2 ^ 32 - int len"
    using assms(1,2) by (simp add: uint_word_ariths unsigned_of_nat take_bit_nat_eq_self zmod_zminus1_eq_if)
  then show ?thesis using assms by (simp add: word_less_def) 
qed

section \<open>The handshake\<close>

text \<open>The flags of the three segments that open a connection: SYN, SYN and ACK, ACK.\<close>

definition handshake_segments :: "(bool \<times> bool) list" where
  "handshake_segments = [(True, False), (True, True), (False, True)]"

definition handshake_stage :: "ndpi_flow \<Rightarrow> nat" where
  "handshake_stage f = (if seen_ack f then 3 else if seen_syn_ack f then 2 else if seen_syn f then 1 else 0)"

definition in_order :: "ndpi_flow \<Rightarrow> bool" where
  "in_order f \<longleftrightarrow> (seen_ack f \<longrightarrow> seen_syn_ack f) \<and> (seen_syn_ack f \<longrightarrow> seen_syn f)"

lemma in_order_handshake: "in_order f \<Longrightarrow> in_order (tcp_handshake syn ack f)"
  by (simp add: in_order_def tcp_handshake_def)

lemma handshake_segment:
  assumes "in_order f"
  shows "subseq (drop (handshake_stage (tcp_handshake syn ack f)) handshake_segments) xs
     \<longleftrightarrow> subseq (drop (handshake_stage f) handshake_segments) ((syn, ack) # xs)"
  using assms by (cases syn; cases ack) (auto simp: in_order_def tcp_handshake_def handshake_stage_def handshake_segments_def
      subseq_Cons2_iff numeral_eq_Suc)

lemma handshake_run:
  "in_order f \<Longrightarrow> seen_ack (fold (\<lambda>(syn, ack). tcp_handshake syn ack) xs f)
     \<longleftrightarrow> subseq (drop (handshake_stage f) handshake_segments) xs"
proof (induction xs arbitrary: f)
  case Nil
  then show ?case by (auto simp: handshake_stage_def handshake_segments_def)
next
  case (Cons x xs)
  then show ?case by (cases x) (simp add: in_order_handshake handshake_segment)
qed

section \<open>A datagram and its reply\<close>

lemma udp4_runs:
  assumes "m = udp4_packet tos ident ttl check src dst sp dp ucheck data"
  shows "peek_run m 12 4 = Some (be32 src)" "peek_run m 16 4 = Some (be32 dst)"
    "peek_run m 20 2 = Some (be16 sp)" "peek_run m 22 2 = Some (be16 dp)"
  by (simp_all add: assms udp4_packet_def peek_run_def be16_def be32_def)

lemma udp4_fields:
  assumes "m = udp4_packet tos ident ttl check src dst sp dp ucheck data"
  shows "get32 m 12 = Some src" "get32 m 16 = Some dst" "get16 m 20 = Some sp" "get16 m 22 = Some dp"
    "raw32 m 12 = Some (of_le32 (be32 src))" "raw32 m 16 = Some (of_le32 (be32 dst))"
    "raw16 m 20 = Some (of_be16 (rev (be16 sp)))" "raw16 m 22 = Some (of_be16 (rev (be16 dp)))"
  using udp4_runs [OF assms] by (simp_all add: get16_def get32_def raw16_def raw32_def)

lemma udp4_tracking:
  assumes m: "m = udp4_packet tos ident ttl check src dst sp dp ucheck data"
    and p: "iph p = Some 0" "iphv6 p = None" "tcp p = None" "udp p = Some 20"
  shows "\<exists>p' f'. ndpi_connection_tracking False w m p f = Some (p', f')
     \<and> pkt_direction p' = (if sp < dp then 1 else 0) \<and> payload_packet_len p' = payload_packet_len p"
  using p udp4_fields [OF m]
  by (simp add: ndpi_connection_tracking_def track_transport_def track_ports_def track_addresses_def
      address_direction_def Let_def)

section \<open>Properties\<close>

text \<open>
  C6. Tracking is safe and keeps the invariant. From a fresh flow and any sequence of packets,
  whatever bytes they hold, the handshake flags are in order, the counters and directions are in
  range, and the next packet is set up and tracked without a read outside it.
\<close>

theorem reached_flows_ok:
  assumes "flow_reached lim dis w s"
  shows "flow_ok (snd s) \<and> (\<exists>s'. flow_packet lim dis w t m s = Some s' \<and> flow_ok (snd s'))"
  using flow_reached_ok [OF assms] flow_packet_ok [of s lim dis w t m] by blast

theorem reached_flows_ok_witness:
  "\<exists>s'. flow_packet 0 False 65536 1 (0x45 # replicate 50 6) (no_packet, zero_flow) = Some s' \<and> flow_ok (snd s')"
  using reached_flows_ok [OF flow_reached.fresh [of 0 False 65536 no_packet], of 1 "0x45 # replicate 50 6"] by simp

text \<open>
  The handshake. Over any sequence of segments of a fresh flow, \<open>seen_ack\<close> is set exactly
  when a SYN, a SYN with ACK and an ACK without SYN occurred among them in this order.
\<close>

theorem handshake_seen:
  "seen_ack (fold (\<lambda>(syn, ack). tcp_handshake syn ack) segments zero_flow)
     \<longleftrightarrow> subseq [(True, False), (True, True), (False, True)] segments"
proof -
  have "in_order zero_flow" "handshake_stage zero_flow = 0"
    by (simp_all add: in_order_def handshake_stage_def zero_flow_def)
  then show ?thesis using handshake_run [of zero_flow segments] by (simp add: handshake_segments_def)
qed

text \<open>
  Retransmissions. Once both sequence counters are known, the segment that continues the
  stream is not marked and moves the counter behind it, and when the same segment comes again it
  is marked as a retransmission, as long as the window is not within 64K of the whole sequence
  space.
\<close>

theorem retransmission_marked:
  assumes "fst (next_tcp_seq_nr f) \<noteq> 0" "snd (next_tcp_seq_nr f) \<noteq> 0" "0 < len" "len < 65536"
    and "s = dir_sel d (next_tcp_seq_nr f)" "w < 0xFFFF0000" "s + word_of_nat len \<noteq> 0"
  shows "let (f', again) = tcp_sequence w syn ack s a len d f in
     \<not> again \<and> dir_sel d (next_tcp_seq_nr f') = s + word_of_nat len
     \<and> snd (tcp_sequence w syn ack s a len d f')"
proof -
  let ?f = "f\<lparr>next_tcp_seq_nr := dir_upd d (s + word_of_nat len) (next_tcp_seq_nr f)\<rparr>"
  have 1: "tcp_sequence w syn ack s a len d f = (?f, False)"
    using assms tcp_sequence_established [OF assms(1-3)] by simp
  have nz: "fst (next_tcp_seq_nr ?f) \<noteq> 0" "snd (next_tcp_seq_nr ?f) \<noteq> 0"
    using assms(1,2,7) by (simp_all add: dir_upd_def)
  have "snd (tcp_sequence w syn ack s a len d ?f)"
    using tcp_sequence_established [OF nz assms(3)] back_distance [OF assms(3,4,6), of s] by simp
  then show ?thesis using 1 by simp
qed

theorem retransmission_marked_witness:
  "let (f', again) = tcp_sequence 65536 False True 1000 77 1460 0 (zero_flow\<lparr>next_tcp_seq_nr := (1000, 77)\<rparr>) in
     \<not> again \<and> dir_sel 0 (next_tcp_seq_nr f') = 1000 + word_of_nat 1460
     \<and> snd (tcp_sequence 65536 False True 1000 77 1460 0 f')"
  by (rule retransmission_marked) (simp_all add: dir_sel_def)

text \<open>
  Direction of a datagram and its reply. A UDP/IPv4 datagram and the datagram that answers
  it, with addresses and ports exchanged, are tracked with opposite directions when the ports
  differ, whatever the flow is.
\<close>

theorem udp4_reply_direction:
  assumes "length data \<le> 65507" "length data' \<le> 65507" "sp \<noteq> dp"
    and m: "m = udp4_packet tos ident ttl check src dst sp dp ucheck data"
    and m': "m' = udp4_packet tos' ident' ttl' check' dst src dp sp ucheck' data'"
  shows "\<exists>p f p' f'. flow_packet lim False w t m s = Some (p, f) \<and> flow_packet lim False w t' m' s' = Some (p', f')
     \<and> pkt_direction p + pkt_direction p' = 1"
proof -
  obtain q g where 1: "ndpi_init_packet lim (fst s) (snd s) t m (length m) = Some (0, q, g)"
      "udp q = Some 20" "tcp q = None" "iph q = Some 0" "iphv6 q = None"
    using udp4_init [OF assms(1) m] by blast
  obtain q' g' where 2: "ndpi_init_packet lim (fst s') (snd s') t' m' (length m') = Some (0, q', g')"
      "udp q' = Some 20" "tcp q' = None" "iph q' = Some 0" "iphv6 q' = None"
    using udp4_init [OF assms(2) m'] by blast
  show ?thesis
    using 1 2 assms(3) udp4_tracking [OF m 1(4,5,3,2), of w g] udp4_tracking [OF m' 2(4,5,3,2), of w g']
    by (auto simp: flow_packet_def)
qed

theorem udp4_reply_direction_witness:
  "\<exists>p f p' f'. flow_packet 0 False 65536 1 (udp4_packet 0 1 64 0 0x0a000001 0x08080808 5353 53 0 [1, 2]) (no_packet, zero_flow) = Some (p, f)
     \<and> flow_packet 0 False 65536 2 (udp4_packet 0 9 64 0 0x08080808 0x0a000001 53 5353 0 [3]) (no_packet, zero_flow) = Some (p', f')
     \<and> pkt_direction p + pkt_direction p' = 1"
  by (rule udp4_reply_direction [OF _ _ _ refl refl]) simp_all

text \<open>
  Destination addresses. Comparing the destination address of an IPv4 packet compares its
  source address: for a datagram between two different addresses the comparison with its own
  destination fails, and the comparison with its source succeeds.
\<close>

theorem dst_ip_eql_reads_source:
  assumes "src \<noteq> dst" "iph p = Some 0" "iphv6 p = None"
    and m: "m = udp4_packet tos ident ttl check src dst sp dp ucheck data"
  shows "ndpi_packet_dst_ip_eql m p (be32 dst @ replicate 12 0) = Some False
     \<and> ndpi_packet_dst_ip_eql m p (be32 src @ replicate 12 0) = Some True
     \<and> ndpi_packet_dst_ip_get m p = Some (be32 dst @ replicate 12 0)"
proof -
  have "be32 src \<noteq> be32 dst" using assms(1) by (metis of_be32_be32)
  moreover have "peek_run (be32 x @ replicate 12 0) 0 4 = Some (be32 x)" for x
    by (simp add: peek_run_def be32_def)
  ultimately show ?thesis using assms(2,3) udp4_runs(1,2) [OF m]
    by (simp add: ndpi_packet_dst_ip_eql_def ndpi_packet_dst_ip_get_def ip_eql_def ip_get_def)
qed

theorem dst_ip_eql_reads_source_witness:
  "ndpi_packet_dst_ip_eql (udp4_packet 0 1 64 0 0x0a000001 0x08080808 5353 53 0 [1, 2]) (no_packet\<lparr>iph := Some 0\<rparr>)
     (be32 0x08080808 @ replicate 12 0) = Some False"
  using dst_ip_eql_reads_source [of "0x0a000001" "0x08080808" "no_packet\<lparr>iph := Some 0\<rparr>", OF _ _ _ refl]
  by (simp add: no_packet_def)

text \<open>
  Direction of IPv6 packets. The comparison of the two IPv6 addresses compares where they
  stand in the header and not what they are: whatever the addresses, the direction they give
  is 1, for a packet and for its reply.
\<close>

theorem ipv6_direction_constant:
  assumes "iph p = None" "iphv6 p = Some i"
  shows "address_direction m p = Some 1"
  using assms by (simp add: address_direction_def compare_ipv6_places_def)

theorem ipv6_direction_constant_witness:
  "address_direction (0x60 # replicate 39 0) (no_packet\<lparr>iphv6 := Some 0\<rparr>) = Some 1"
  using ipv6_direction_constant [of "no_packet\<lparr>iphv6 := Some 0\<rparr>" 0] by (simp add: no_packet_def)

text \<open>
  The byte counter. The test that should keep the 16-bit byte counter from wrapping is made
  on the wider sum and always succeeds for a packet with payload: a counter near its maximum wraps
  to a small value.
\<close>

theorem byte_counter_wraps:
  assumes "fst (byte_counter f) < 65536" "len < 65536" "65536 \<le> fst (byte_counter f) + len"
  shows "fst (byte_counter (count_packet 0 len f)) = fst (byte_counter f) + len - 65536"
proof -
  have "(fst (byte_counter f) + len) mod 65536 = fst (byte_counter f) + len - 65536"
    using assms by (subst le_mod_geq) simp_all
  then show ?thesis using assms by (auto simp: count_packet_def Let_def dir_sel_def dir_upd_def c_u16_def)
qed

theorem byte_counter_wraps_witness:
  "fst (byte_counter (count_packet 0 1460 (zero_flow\<lparr>byte_counter := (65000, 0)\<rparr>))) = 924"
  using byte_counter_wraps [of "zero_flow\<lparr>byte_counter := (65000, 0)\<rparr>" 1460] by simp
end
