(* ===== verification/Base64.thy ===== *)
theory Base64
  imports Prelude
begin

unbundle bit_operations_syntax

text \<open>
  The base64 codec of \<^verbatim>\<open>ndpi_utils.c\<close>: \<open>ndpi_base64_decode\<close> and
  \<open>ndpi_base64_encode\<close> with their blocks and every write into them, the specification
  \<open>b64\<close>, and the lemmas that encoding produces it, that decoding inverts it, and that decoding
  arbitrary text stays inside its blocks. The sizes are those of texts that fit the address
  space, so that \<open>size_t\<close> does not wrap.
\<close>

section \<open>The tables\<close>

definition base64_table :: bytes where
  "base64_table = str ''ABCDEFGHIJKLMNOPQRSTUVWXYZabcdefghijklmnopqrstuvwxyz0123456789+/''"

abbreviation (input) ch_pad :: u8 where "ch_pad \<equiv> 61"

definition dtable :: bytes where
  "dtable = (fold (\<lambda>i t. t[unat (base64_table ! i) := word_of_nat i]) [0..<64] (replicate 256 0x80))[61 := 0]"

section \<open>Decoding\<close>

text \<open>The three bytes that four symbols hold, stored one after the other.\<close>

definition put_group :: "bytes \<Rightarrow> nat \<Rightarrow> bytes \<Rightarrow> bytes option" where
  "put_group out pos block = do {
     out \<leftarrow> poke out pos [push_bit 2 (block ! 0) OR drop_bit 4 (block ! 1)];
     out \<leftarrow> poke out (pos + 1) [push_bit 4 (block ! 1) OR drop_bit 2 (block ! 2)];
     poke out (pos + 2) [push_bit 6 (block ! 2) OR block ! 3]
   }"

text \<open>
  The second loop: \<open>block\<close> are the symbols of the group so far (its length is the source's
  \<open>count\<close>), \<open>pos\<close> the offset of the output pointer; the inner \<open>None\<close> is the return of \<open>NULL\<close>
  after an invalid padding.
\<close>

fun decode_loop :: "bytes \<Rightarrow> bytes \<Rightarrow> nat \<Rightarrow> bytes \<Rightarrow> nat \<Rightarrow> (bytes \<times> nat) option option" where
  "decode_loop [] out pos block pad = Some (Some (out, pos))"
| "decode_loop (c # cs) out pos block pad =
     (let tmp = dtable ! unat c
      in if tmp = 0x80 then decode_loop cs out pos block pad
         else
           let pad = (if c = ch_pad then pad + 1 else pad);
               block = block @ [tmp]
           in if length block = 4 then do {
                out \<leftarrow> put_group out pos block;
                let pos = pos + 3;
                if pad \<noteq> 0 then
                  (if pad = 1 then Some (Some (out, pos - 1))
                   else if pad = 2 then Some (Some (out, pos - 2))
                   else Some None)
                else decode_loop cs out pos [] pad
              }
              else decode_loop cs out pos block pad)"

definition ndpi_base64_decode :: "c_env \<Rightarrow> bytes \<Rightarrow> nat \<Rightarrow> (bytes \<times> nat) option option" where
  "ndpi_base64_decode env src len = do {
     cs \<leftarrow> peek_run src 0 len;
     let count = length (filter (\<lambda>c. dtable ! unat c \<noteq> 0x80) cs);
     if count = 0 \<or> count mod 4 \<noteq> 0 then Some None
     else
       case c_malloc env (count div 4 * 3) of
         None \<Rightarrow> Some None
       | Some out \<Rightarrow> decode_loop cs out 0 [] 0
   }"

section \<open>Encoding\<close>

definition sextets :: "u8 \<Rightarrow> u8 \<Rightarrow> u8 \<Rightarrow> bytes" where
  "sextets a b c =
     [drop_bit 2 (a AND 0xfc), push_bit 4 (a AND 0x03) + drop_bit 4 (b AND 0xf0),
      push_bit 2 (b AND 0x0f) + drop_bit 6 (c AND 0xc0), c AND 0x3f]"

definition base64_char :: "u8 \<Rightarrow> u8" where
  "base64_char x = base64_table ! unat x"

text \<open>The loop over whole groups: what is left of an unfinished group, the block and the length.\<close>

fun encode_loop :: "bytes \<Rightarrow> bytes \<Rightarrow> bytes \<Rightarrow> nat \<Rightarrow> (bytes \<times> bytes \<times> nat) option" where
  "encode_loop [] a3 ret len = Some (a3, ret, len)"
| "encode_loop (b # bs) a3 ret len =
     (let a3 = a3 @ [b]
      in if length a3 = 3 then do {
           ret \<leftarrow> poke ret len (map base64_char (sextets (a3 ! 0) (a3 ! 1) (a3 ! 2)));
           encode_loop bs [] ret (len + 4)
         }
         else encode_loop bs a3 ret len)"

definition encode_rest :: "bytes \<Rightarrow> bytes \<Rightarrow> nat \<Rightarrow> (bytes \<times> nat) option" where
  "encode_rest a3 ret len =
     (if a3 = [] then Some (ret, len)
      else do {
        let i = length a3;
        let a3 = a3 @ replicate (3 - i) 0;
        ret \<leftarrow> poke ret len (map base64_char (take (i + 1) (sextets (a3 ! 0) (a3 ! 1) (a3 ! 2))));
        let len = len + (i + 1);
        ret \<leftarrow> poke ret len (replicate (3 - i) ch_pad);
        Some (ret, len + (3 - i))
      })"

definition ndpi_base64_encode :: "c_env \<Rightarrow> bytes \<Rightarrow> nat \<Rightarrow> bytes option option" where
  "ndpi_base64_encode env src in_len = do {
     bs \<leftarrow> peek_run src 0 in_len;
     let ret_size = (in_len + 2) div 3 * 4;
     case c_malloc env (ret_size + 1) of
       None \<Rightarrow> Some None
     | Some ret \<Rightarrow> do {
         (a3, ret, len) \<leftarrow> encode_loop bs [] ret 0;
         (ret, len) \<leftarrow> encode_rest a3 ret len;
         ret \<leftarrow> poke ret len [0];
         Some (Some ret)
       }
   }"

section \<open>Tables\<close>

lemma fold_list_update:
  assumes "distinct (map f xs)" "\<forall>x \<in> set xs. f x < length t"
  shows "length (fold (\<lambda>x t. t[f x := g x]) xs t) = length t
     \<and> (\<forall>x \<in> set xs. fold (\<lambda>x t. t[f x := g x]) xs t ! f x = g x)
     \<and> (\<forall>k. k \<notin> f ` set xs \<longrightarrow> fold (\<lambda>x t. t[f x := g x]) xs t ! k = t ! k)"
  using assms
proof (induction xs arbitrary: t)
  case (Cons x xs)
  have "f x \<notin> f ` set xs" using Cons.prems(1) by auto
  then show ?case using Cons.IH [of "t[f x := g x]"] Cons.prems by (auto simp: nth_list_update)
qed simp

lemma table_codes: "map unat base64_table = [65..<91] @ [97..<123] @ [48..<58] @ [43, 47]"
  by (simp add: base64_table_def str_def unat_of_nat upt_rec)

lemma table_length: "length base64_table = 64"
  by (simp add: base64_table_def)

lemma dtable_table:
  "\<forall>i \<in> set [0..<64]. dtable ! unat (base64_table ! i) = word_of_nat i \<and> base64_table ! i \<noteq> ch_pad \<and> word_of_nat i \<noteq> (0x80 :: u8)"
proof -
  define f where "f i = unat (base64_table ! i)" for i
  have codes: "map f [0..<64] = [65..<91] @ [97..<123] @ [48..<58] @ [43, 47]"
    unfolding table_codes [symmetric] by (rule nth_equalityI) (simp_all add: f_def table_length)
  have d: "distinct (map f [0..<64])" unfolding codes by simp
  have in_range: "f i \<in> set ([65..<91] @ [97..<123] @ [48..<58] @ [43, 47])" if "i < 64" for i
    unfolding codes [symmetric] using that by simp
  have lt: "f i < 256" and pad: "f i \<noteq> 61" if "i < 64" for i
    using in_range [OF that] by auto
  have "fold (\<lambda>x t. t[f x := word_of_nat x]) [0..<64] (replicate 256 0x80) ! f i = (word_of_nat i :: u8)" if "i < 64" for i
    using fold_list_update [OF d, of "replicate 256 (0x80 :: u8)" word_of_nat] lt that by simp
  then have "dtable ! f i = word_of_nat i" if "i < 64" for i
    using that pad [OF that] by (simp add: dtable_def f_def nth_list_update)
  moreover have "base64_table ! i \<noteq> ch_pad" if "i < 64" for i
    using pad [OF that] by (auto simp: f_def)
  moreover have "word_of_nat i \<noteq> (0x80 :: u8)" if "i < 64" for i
  proof -
    have "unat (word_of_nat i :: u8) = i" using that by (simp add: unat_of_nat)
    then show ?thesis using that by auto
  qed
  ultimately show ?thesis by (simp add: f_def)
qed

lemma dtable_char:
  assumes "x < 64"
  shows "dtable ! unat (base64_char x) = x" "base64_char x \<noteq> ch_pad" "x \<noteq> 0x80"
proof -
  have "unat x \<in> set [0..<64]" using assms by (simp add: word_less_nat_alt)
  from dtable_table [rule_format, OF this]
  show "dtable ! unat (base64_char x) = x" "base64_char x \<noteq> ch_pad" "x \<noteq> 0x80"
    by (simp_all add: base64_char_def)
qed

lemma dtable_pad: "dtable ! 61 = 0"
proof -
  have "length (fold (\<lambda>i t. t[unat (base64_table ! i) := word_of_nat i]) xs t) = length t" for xs and t :: bytes
    by (induction xs arbitrary: t) simp_all
  then show ?thesis by (simp add: dtable_def)
qed

lemma bits8: "(x :: u8) = y \<longleftrightarrow> (\<forall>n \<in> set [0, 1, 2, 3, 4, 5, 6, 7]. bit x n = bit y n)"
proof
  assume r: "\<forall>n \<in> set [0, 1, 2, 3, 4, 5, 6, 7]. bit x n = bit y n"
  show "x = y"
  proof (rule bit_word_eqI)
    fix n assume "n < LENGTH(8)"
    then have "n \<in> set [0..<8]" by simp
    then have "n \<in> set [0, 1, 2, 3, 4, 5, 6, 7]" by (simp add: upt_rec numeral_eq_Suc)
    then show "bit x n = bit y n" using r by blast
  qed
qed simp

lemma no_high_bit [simp]: "8 \<le> n \<Longrightarrow> \<not> bit (x :: u8) n"
  using bit_imp_le_length [of x n] by auto

lemma sextet_bits:
  "drop_bit 2 (a AND 0xfc) = (drop_bit 2 a :: u8)"
  "push_bit 4 (a AND 0x03) + drop_bit 4 (b AND 0xf0) = (push_bit 4 (a AND 0x03) OR drop_bit 4 b :: u8)"
  "push_bit 2 (b AND 0x0f) + drop_bit 6 (c AND 0xc0) = (push_bit 2 (b AND 0x0f) OR drop_bit 6 c :: u8)"
proof -
  show "drop_bit 2 (a AND 0xfc) = (drop_bit 2 a :: u8)" unfolding bits8 by (simp add: bit_simps)
  have "drop_bit 4 (b AND 0xf0) = drop_bit 4 b" "drop_bit 6 (c AND 0xc0) = drop_bit 6 c"
    unfolding bits8 by (simp_all add: bit_simps)
  moreover have "push_bit 4 (a AND 0x03) AND drop_bit 4 b = 0" "push_bit 2 (b AND 0x0f) AND drop_bit 6 c = 0"
    unfolding bits8 by (simp_all add: bit_simps)
  ultimately show "push_bit 4 (a AND 0x03) + drop_bit 4 (b AND 0xf0) = (push_bit 4 (a AND 0x03) OR drop_bit 4 b :: u8)"
    "push_bit 2 (b AND 0x0f) + drop_bit 6 (c AND 0xc0) = (push_bit 2 (b AND 0x0f) OR drop_bit 6 c :: u8)"
    by (simp_all add: disjunctive_add_eq_or)
qed

lemma sextets_or:
  "sextets a b c = [drop_bit 2 a, push_bit 4 (a AND 0x03) OR drop_bit 4 b, push_bit 2 (b AND 0x0f) OR drop_bit 6 c, c AND 0x3f]"
  by (simp only: sextets_def sextet_bits)

lemma lt_64:
  assumes "\<not> bit (x :: u8) 6" "\<not> bit x 7"
  shows "x < 64"
proof -
  have "take_bit 6 x = x" unfolding bits8 using assms by (simp add: bit_simps)
  then have "take_bit 6 (unat x) = unat x" by (metis unsigned_take_bit_eq)
  then show ?thesis using take_bit_nat_less_exp [of 6 "unat x"] by (simp add: word_less_nat_alt)
qed

lemma sextets_lt: "\<forall>x \<in> set (sextets a b c). x < 64"
  unfolding sextets_or by (auto simp: bit_simps intro!: lt_64)

lemma sextets_bytes:
  assumes "sextets a b c = [w, x, y, z]"
  shows "push_bit 2 w OR drop_bit 4 x = a" "push_bit 4 x OR drop_bit 2 y = b" "push_bit 6 y OR z = c"
  using assms unfolding bits8 by (auto simp: sextets_or bit_simps)

section \<open>The specification\<close>

fun b64 :: "bytes \<Rightarrow> bytes" where
  "b64 [] = []"
| "b64 [a] = map base64_char (take 2 (sextets a 0 0)) @ [ch_pad, ch_pad]"
| "b64 [a, b] = map base64_char (take 3 (sextets a b 0)) @ [ch_pad]"
| "b64 (a # b # c # bs) = map base64_char (sextets a b c) @ b64 bs"

lemma length_sextets [simp]: "length (sextets a b c) = 4"
  by (simp add: sextets_def)

lemma length_b64: "length (b64 bs) = (length bs + 2) div 3 * 4"
proof (induction bs rule: b64.induct)
  case (4 a b c bs)
  have "(length (a # b # c # bs) + 2) div 3 = (length bs + 2) div 3 + 1" by simp
  then show ?case using 4 by simp
qed simp_all

lemma poke_end:
  "length bs \<le> length junk \<Longrightarrow> poke (pre @ junk) (length pre) bs = Some ((pre @ bs) @ drop (length bs) junk)"
  by (simp add: poke_def)

lemma encode_b64:
  assumes "length (b64 bs) \<le> length junk"
  shows "(do { (a3, ret, len) \<leftarrow> encode_loop bs [] (pre @ junk) (length pre); encode_rest a3 ret len })
     = Some ((pre @ b64 bs) @ drop (length (b64 bs)) junk, length pre + length (b64 bs))"
  using assms
proof (induction bs arbitrary: pre junk rule: b64.induct)
  case (2 a)
  let ?x = "map base64_char (take 2 (sextets a 0 0))"
  have "poke (pre @ junk) (length pre) ?x = Some ((pre @ ?x) @ drop 2 junk)"
    using 2 poke_end [of ?x junk pre] by simp
  moreover have "poke ((pre @ ?x) @ drop 2 junk) (length (pre @ ?x)) [ch_pad, ch_pad] = Some ((pre @ ?x @ [ch_pad, ch_pad]) @ drop 4 junk)"
    using 2 poke_end [of "[ch_pad, ch_pad]" "drop 2 junk" "pre @ ?x"] by (simp add: numeral_eq_Suc)
  ultimately show ?case by (simp add: encode_rest_def numeral_2_eq_2 numeral_eq_Suc del: append_assoc)
next
  case (3 a b)
  let ?x = "map base64_char (take 3 (sextets a b 0))"
  have "poke (pre @ junk) (length pre) ?x = Some ((pre @ ?x) @ drop 3 junk)"
    using 3 poke_end [of ?x junk pre] by simp
  moreover have "poke ((pre @ ?x) @ drop 3 junk) (length (pre @ ?x)) [ch_pad] = Some ((pre @ ?x @ [ch_pad]) @ drop 4 junk)"
    using 3 poke_end [of "[ch_pad]" "drop 3 junk" "pre @ ?x"] by simp
  ultimately show ?case by (simp add: encode_rest_def numeral_eq_Suc del: append_assoc)
next
  case (4 a b c bs)
  let ?x = "map base64_char (sextets a b c)"
  have "poke (pre @ junk) (length pre) ?x = Some ((pre @ ?x) @ drop 4 junk)"
    using 4 poke_end [of ?x junk pre] by simp
  then show ?case using 4 "4.IH" [of "drop 4 junk" "pre @ ?x"] by (simp add: add.assoc add.commute [of 4])
qed (simp add: encode_rest_def)

lemma base64_encode_spec:
  assumes "alloc_ok env (length (b64 bs) + 1)"
  shows "ndpi_base64_encode env bs (length bs) = Some (Some (cstr (b64 bs)))"
proof -
  define ret where "ret = map (indet env) [0..<length (b64 bs) + 1]"
  have "c_malloc env (length (b64 bs) + 1) = Some ret"
    using assms by (simp add: c_malloc_def ret_def)
  moreover have "(do { (a3, ret, len) \<leftarrow> encode_loop bs [] ret 0; encode_rest a3 ret len })
      = Some (b64 bs @ drop (length (b64 bs)) ret, length (b64 bs))"
    using encode_b64 [of bs ret "[]"] by (simp add: ret_def)
  moreover have "poke (b64 bs @ drop (length (b64 bs)) ret) (length (b64 bs)) [0] = Some (b64 bs @ [0])"
    using poke_end [of "[0]" "drop (length (b64 bs)) ret" "b64 bs"] by (simp add: ret_def)
  ultimately show ?thesis
    by (auto simp: ndpi_base64_encode_def peek_run_def Let_def length_b64 bind_eq_Some_conv cstr_def
        split: prod.splits)
qed

section \<open>Decoding what was encoded\<close>

lemma decode_char:
  assumes "x < 64"
  shows "decode_loop (base64_char x # cs) out pos block pad =
     (if length block = 3 then do {
        out \<leftarrow> put_group out pos (block @ [x]);
        let pos = pos + 3;
        if pad \<noteq> 0 then
          (if pad = 1 then Some (Some (out, pos - 1))
           else if pad = 2 then Some (Some (out, pos - 2)) else Some None)
        else decode_loop cs out pos [] pad
      }
      else decode_loop cs out pos (block @ [x]) pad)"
  using dtable_char [OF assms] by (simp add: Let_def)

lemma decode_pad:
  "decode_loop (ch_pad # cs) out pos block pad =
     (if length block = 3 then do {
        out \<leftarrow> put_group out pos (block @ [0]);
        let pos = pos + 3;
        if pad = 0 then Some (Some (out, pos - 1))
        else if pad = 1 then Some (Some (out, pos - 2)) else Some None
      }
      else decode_loop cs out pos (block @ [0]) (pad + 1))"
proof (cases pad)
  case (Suc k)
  then show ?thesis by (cases k) (simp_all add: dtable_pad Let_def)
qed (simp add: dtable_pad Let_def)

lemma put_sextets:
  assumes "3 \<le> length junk"
  shows "put_group (pre @ junk) (length pre) (sextets a b c) = Some ((pre @ [a, b, c]) @ drop 3 junk)"
proof -
  obtain w x y z where s: "sextets a b c = [w, x, y, z]" by (simp add: sextets_def)
  obtain j0 j1 j2 js where j: "junk = j0 # j1 # j2 # js"
    using assms by (auto simp: numeral_eq_Suc Suc_le_length_iff)
  show ?thesis using sextets_bytes [OF s] by (simp add: s j put_group_def poke_def)
qed

lemmas decode_symbol = decode_char decode_pad

lemma decode_group:
  assumes "w < 64" "x < 64" "y < 64" "z < 64"
  shows "decode_loop (base64_char w # base64_char x # base64_char y # base64_char z # cs) out pos [] 0
       = do { out \<leftarrow> put_group out pos [w, x, y, z]; decode_loop cs out (pos + 3) [] 0 }"
    "decode_loop [base64_char w, base64_char x, base64_char y, ch_pad] out pos [] 0
       = do { out \<leftarrow> put_group out pos [w, x, y, 0]; Some (Some (out, pos + 2)) }"
    "decode_loop [base64_char w, base64_char x, ch_pad, ch_pad] out pos [] 0
       = do { out \<leftarrow> put_group out pos [w, x, 0, 0]; Some (Some (out, pos + 1)) }"
  using assms by (simp_all add: decode_symbol del: decode_loop.simps(2))

lemma decode_b64:
  assumes "length (b64 bs) div 4 * 3 \<le> length junk"
  shows "\<exists>out. decode_loop (b64 bs) (pre @ junk) (length pre) [] 0 = Some (Some (out, length pre + length bs))
     \<and> take (length pre + length bs) out = pre @ bs"
  using assms
proof (induction bs arbitrary: pre junk rule: b64.induct)
  case (2 a)
  obtain w x where s: "sextets a 0 0 = [w, x, 0, 0]" by (simp add: sextets_def)
  then have "w < 64" "x < 64" using sextets_lt [of a 0 0] by simp_all
  then have d: "decode_loop (b64 [a]) (pre @ junk) (length pre) [] 0
      = do { out \<leftarrow> put_group (pre @ junk) (length pre) (sextets a 0 0); Some (Some (out, length pre + 1)) }"
    using decode_group(3) [of w x 0 0] by (simp add: s del: decode_loop.simps)
  show ?case unfolding d using 2 put_sextets [of junk pre a 0 0] by simp
next
  case (3 a b)
  obtain w x y where s: "sextets a b 0 = [w, x, y, 0]" by (simp add: sextets_def)
  then have "w < 64" "x < 64" "y < 64" using sextets_lt [of a b 0] by simp_all
  then have d: "decode_loop (b64 [a, b]) (pre @ junk) (length pre) [] 0
      = do { out \<leftarrow> put_group (pre @ junk) (length pre) (sextets a b 0); Some (Some (out, length pre + 2)) }"
    using decode_group(2) [of w x y 0] by (simp add: s del: decode_loop.simps)
  show ?case unfolding d using 3 put_sextets [of junk pre a b 0] by simp
next
  case (4 a b c bs)
  obtain w x y z where s: "sextets a b c = [w, x, y, z]" by (simp add: sextets_def)
  then have "w < 64" "x < 64" "y < 64" "z < 64" using sextets_lt [of a b c] by simp_all
  then have "decode_loop (b64 (a # b # c # bs)) (pre @ junk) (length pre) [] 0
      = do { out \<leftarrow> put_group (pre @ junk) (length pre) (sextets a b c); decode_loop (b64 bs) out (length pre + 3) [] 0 }"
    using decode_group(1) [of w x y z] by (simp add: s del: decode_loop.simps)
  moreover have room: "3 + length (b64 bs) div 4 * 3 \<le> length junk"
  proof -
    have "(4 + length (b64 bs)) div 4 = 1 + length (b64 bs) div 4" by presburger
    then show ?thesis using 4(2) by simp
  qed
  moreover have "put_group (pre @ junk) (length pre) (sextets a b c) = Some ((pre @ [a, b, c]) @ drop 3 junk)"
    using room by (intro put_sextets) simp
  ultimately have eq: "decode_loop (b64 (a # b # c # bs)) (pre @ junk) (length pre) [] 0
      = decode_loop (b64 bs) ((pre @ [a, b, c]) @ drop 3 junk) (length (pre @ [a, b, c])) [] 0"
    by (simp add: numeral_3_eq_3 del: b64.simps decode_loop.simps)
  show ?case unfolding eq using room "4.IH" [of "drop 3 junk" "pre @ [a, b, c]"] by (simp add: add.assoc)
qed simp

lemma b64_codes: "c \<in> set (b64 bs) \<Longrightarrow> dtable ! unat c \<noteq> 0x80"
proof -
  have *: "dtable ! unat c \<noteq> 0x80" if "c = base64_char x" "x \<in> set (sextets a b d)" for a b d x
    using that sextets_lt [of a b d] by (auto simp: dtable_char)
  show "c \<in> set (b64 bs) \<Longrightarrow> dtable ! unat c \<noteq> 0x80"
  proof (induction bs rule: b64.induct)
    case (4 a b d bs)
    then show ?case using * by auto
  qed (use * in_set_takeD in \<open>fastforce simp: dtable_pad\<close>)+
qed

lemma base64_decode_spec:
  assumes "bs \<noteq> []" "length (b64 bs) \<le> length src" "take (length (b64 bs)) src = b64 bs"
    "alloc_ok env (length (b64 bs) div 4 * 3)"
  shows "\<exists>out. ndpi_base64_decode env src (length (b64 bs)) = Some (Some (out, length bs)) \<and> take (length bs) out = bs"
proof -
  have "filter (\<lambda>c. dtable ! unat c \<noteq> 0x80) (b64 bs) = b64 bs"
    using b64_codes by (intro filter_True) blast
  moreover have "length (b64 bs) \<noteq> 0" "length (b64 bs) mod 4 = 0"
    using assms(1) by (cases bs; simp add: length_b64 div_greater_zero_iff)+
  moreover define out where "out = map (indet env) [0..<length (b64 bs) div 4 * 3]"
  moreover have "c_malloc env (length (b64 bs) div 4 * 3) = Some out"
    using assms(4) by (simp add: c_malloc_def out_def)
  ultimately show ?thesis using decode_b64 [of bs out "[]"] assms(2,3)
    by (simp add: ndpi_base64_decode_def peek_run_def Let_def out_def)
qed

section \<open>Decoding arbitrary text\<close>

lemma put_group_ok: "pos + 3 \<le> length out \<Longrightarrow> \<exists>out'. put_group out pos b = Some out' \<and> length out' = length out"
  by (simp add: put_group_def poke_def) arith

lemma decode_loop_safe:
  assumes "length block < 4"
    "pos + (length block + length (filter (\<lambda>c. dtable ! unat c \<noteq> 0x80) cs)) div 4 * 3 \<le> length out"
  shows "\<exists>r. decode_loop cs out pos block pad = Some r
     \<and> (\<forall>out' n. r = Some (out', n) \<longrightarrow> length out' = length out \<and> n \<le> length out)"
  using assms
proof (induction cs arbitrary: out pos block pad)
  case (Cons c cs)
  let ?n = "length (filter (\<lambda>c. dtable ! unat c \<noteq> 0x80) cs)"
  let ?b = "block @ [dtable ! unat c]"
  show ?case
  proof (cases "dtable ! unat c = 0x80")
    case True
    then show ?thesis using Cons by (simp add: Let_def)
  next
    case False
    show ?thesis
    proof (cases "length block = 3")
      case True
      have "(4 + ?n) div 4 = 1 + ?n div 4" by presburger
      then have room: "pos + 3 + ?n div 4 * 3 \<le> length out" using Cons.prems(2) False True by simp
      then obtain out' where out': "put_group out pos ?b = Some out'" "length out' = length out"
        using put_group_ok [of pos out ?b] by auto
      have "\<exists>r. decode_loop cs out' (pos + 3) [] k = Some r
         \<and> (\<forall>out' n. r = Some (out', n) \<longrightarrow> length out' = length out \<and> n \<le> length out)" for k
        using Cons.IH [of "[]" "pos + 3" out' k] room out'(2) by simp
      then show ?thesis using False True out' room by (auto simp: Let_def)
    next
      case n3: False
      then show ?thesis using Cons.IH [of ?b pos out] Cons.prems False by (simp add: Let_def)
    qed
  qed
qed simp

section \<open>Properties\<close>

text \<open>
  C20. Round trip. Encoding any bytes succeeds when the allocation does, and decoding the text
  it leaves, for at least one byte, returns these bytes.
\<close>

theorem base64_round_trip:
  assumes "data \<noteq> []" "\<forall>n. alloc_ok env n"
  shows "\<exists>text out. ndpi_base64_encode env data (length data) = Some (Some text)
     \<and> length text = (length data + 2) div 3 * 4 + 1
     \<and> ndpi_base64_decode env text (length text - 1) = Some (Some (out, length data))
     \<and> take (length data) out = data"
proof -
  have "ndpi_base64_encode env data (length data) = Some (Some (cstr (b64 data)))"
    using assms(2) by (intro base64_encode_spec) blast
  moreover have "\<exists>out. ndpi_base64_decode env (cstr (b64 data)) (length (b64 data)) = Some (Some (out, length data))
      \<and> take (length data) out = data"
    using assms by (intro base64_decode_spec) simp_all
  ultimately show ?thesis by (auto simp: length_b64 intro!: exI [of _ "cstr (b64 data)"])
qed

theorem base64_round_trip_witness:
  "\<exists>text out. ndpi_base64_encode \<lparr>char_signed = True, alloc_ok = \<lambda>_. True, indet = \<lambda>_. 0\<rparr> [77, 0, 255, 13] 4 = Some (Some text)
     \<and> length text = (4 + 2) div 3 * 4 + 1
     \<and> ndpi_base64_decode \<lparr>char_signed = True, alloc_ok = \<lambda>_. True, indet = \<lambda>_. 0\<rparr> text (length text - 1) = Some (Some (out, 4))
     \<and> take 4 out = [77, 0, 255, 13]"
proof -
  have l: "length [77 :: u8, 0, 255, 13] = 4" by simp
  have "[77 :: u8, 0, 255, 13] \<noteq> []" "\<forall>n. alloc_ok \<lparr>char_signed = True, alloc_ok = \<lambda>_. True, indet = \<lambda>_. 0\<rparr> n"
    by simp_all
  from base64_round_trip [OF this] show ?thesis unfolding l .
qed

text \<open>
  Decoding is safe. For every text of \<open>len\<close> bytes, well-formed or not, the decoder stays
  inside the text and inside the block it allocated from the number of valid symbols, and the
  length it reports is at most the size of that block.
\<close>

theorem base64_decode_safe:
  assumes "len \<le> length src"
  shows "\<exists>r. ndpi_base64_decode env src len = Some r
     \<and> (\<forall>out n. r = Some (out, n) \<longrightarrow> n \<le> length out \<and> 4 * length out \<le> 3 * len)"
proof -
  define cs where "cs = take len src"
  define n where "n = length (filter (\<lambda>c. dtable ! unat c \<noteq> 0x80) cs)"
  have "n \<le> len" using assms length_filter_le [of "\<lambda>c. dtable ! unat c \<noteq> 0x80" cs] by (simp add: n_def cs_def)
  moreover have "4 * (n div 4 * 3) \<le> 3 * n" by (simp add: mult.commute)
  moreover obtain r where "decode_loop cs (map (indet env) [0..<n div 4 * 3]) 0 [] 0 = Some r"
     "\<forall>out' k. r = Some (out', k) \<longrightarrow> length out' = n div 4 * 3 \<and> k \<le> n div 4 * 3"
    using decode_loop_safe [of "[]" 0 cs "map (indet env) [0..<n div 4 * 3]" 0] by (auto simp: n_def)
  ultimately show ?thesis using assms
    by (auto simp: ndpi_base64_decode_def peek_run_def Let_def c_malloc_def simp flip: cs_def n_def)
qed

theorem base64_decode_safe_witness:
  "\<exists>r. ndpi_base64_decode \<lparr>char_signed = True, alloc_ok = \<lambda>_. True, indet = \<lambda>_. 0\<rparr> [61, 61, 61, 61, 0, 255] 6 = Some r
     \<and> (\<forall>out n. r = Some (out, n) \<longrightarrow> n \<le> length out \<and> 4 * length out \<le> 3 * 6)"
  by (rule base64_decode_safe) simp
end
