(* ===== verification/Keyed_Store.thy ===== *)
theory Keyed_Store
  imports Prelude
begin

text \<open>
  What the key-value tables of the library promise their clients, as locales: a table of which
  only the invariant, the lookup and the insertion are known (\<open>keyed_store\<close>), one in which the
  newest value of a key wins and values may be lost (\<open>newest_store\<close>, the LRU caches), and one in
  which the first value of a key stays (\<open>first_store\<close>, the string hash). The lemmas about
  sequences of operations are proved here once; \<open>Lru_Cache\<close> and \<open>Str_Hash\<close> interpret the locales.
\<close>

section \<open>Sequences of operations\<close>

datatype ('k, 'v) store_op = Put 'k 'v | Take 'k

primrec spec_op :: "('k, 'v) store_op \<Rightarrow> ('k \<rightharpoonup> 'v) \<Rightarrow> 'k \<rightharpoonup> 'v" where
  "spec_op (Put k v) m = m(k \<mapsto> v)"
| "spec_op (Take k) m = m(k := None)"

primrec run_ops ::
  "('s \<Rightarrow> 'k \<Rightarrow> 'v \<Rightarrow> 's option) \<Rightarrow> ('s \<Rightarrow> 'k \<Rightarrow> 's option) \<Rightarrow> ('k, 'v) store_op list \<Rightarrow> 's \<Rightarrow> 's option" where
  "run_ops put tk [] s = Some s"
| "run_ops put tk (x # xs) s =
     Option.bind (case x of Put k v \<Rightarrow> put s k v | Take k \<Rightarrow> tk s k) (run_ops put tk xs)"

primrec put_all :: "('s \<Rightarrow> 'k \<Rightarrow> 'v \<Rightarrow> 's option) \<Rightarrow> ('k \<times> 'v) list \<Rightarrow> 's \<Rightarrow> 's option" where
  "put_all put [] s = Some s"
| "put_all put (x # xs) s = Option.bind (put s (fst x) (snd x)) (put_all put xs)"

lemma map_le_put: "m \<subseteq>\<^sub>m n \<Longrightarrow> m(k \<mapsto> v) \<subseteq>\<^sub>m n(k \<mapsto> v)"
  by (auto simp: map_le_def)

lemma map_le_take: "m \<subseteq>\<^sub>m n \<Longrightarrow> m(k := None) \<subseteq>\<^sub>m n(k := None)"
  by (auto simp: map_le_def)

lemma map_leD: "m \<subseteq>\<^sub>m n \<Longrightarrow> m k = Some v \<Longrightarrow> n k = Some v"
  by (auto simp: map_le_def dom_def)

section \<open>The contracts\<close>

locale keyed_store =
  fixes inv :: "'s \<Rightarrow> bool" and look :: "'s \<Rightarrow> 'k \<rightharpoonup> 'v" and put :: "'s \<Rightarrow> 'k \<Rightarrow> 'v \<Rightarrow> 's option"
  assumes put_kept: "inv s \<Longrightarrow> put s k v = Some s' \<Longrightarrow>
    inv s' \<and> (look s' \<subseteq>\<^sub>m (look s)(k \<mapsto> v) \<or> look s' \<subseteq>\<^sub>m look s)"
begin

lemma put_all_inv: "inv s \<Longrightarrow> put_all put xs s = Some s' \<Longrightarrow> inv s'"
  by (induction xs arbitrary: s) (auto simp: bind_eq_Some_conv dest: put_kept)

text \<open>Nothing is found that was not put there under its key.\<close>

lemma put_all_origin:
  assumes "inv s" "put_all put xs s = Some s'" "look s' k = Some v"
  shows "(k, v) \<in> set xs \<or> look s k = Some v"
  using assms
proof (induction xs arbitrary: s)
  case (Cons x xs)
  then obtain s1 where s1: "put s (fst x) (snd x) = Some s1" "put_all put xs s1 = Some s'"
    by (auto simp: bind_eq_Some_conv)
  then have "inv s1" "look s1 \<subseteq>\<^sub>m (look s)(fst x \<mapsto> snd x) \<or> look s1 \<subseteq>\<^sub>m look s"
    using put_kept [OF Cons.prems(1)] by blast+
  then have "(k, v) \<in> set xs \<or> look s1 k = Some v" "look s1 k = Some v \<Longrightarrow> x = (k, v) \<or> look s k = Some v"
    using Cons.IH [of s1] s1 Cons.prems(3) by (auto dest!: map_leD [of _ _ k v] split: if_splits)
  then show ?case by auto
qed simp

end

locale newest_store = keyed_store inv look put
  for inv :: "'s \<Rightarrow> bool" and look :: "'s \<Rightarrow> 'k \<rightharpoonup> 'v" and put :: "'s \<Rightarrow> 'k \<Rightarrow> 'v \<Rightarrow> 's option" +
  fixes tk :: "'s \<Rightarrow> 'k \<Rightarrow> 's option"
  assumes put_newest: "inv s \<Longrightarrow> put s k v = Some s' \<Longrightarrow> look s' \<subseteq>\<^sub>m (look s)(k \<mapsto> v) \<and> look s' k = Some v"
    and taken: "inv s \<Longrightarrow> tk s k = Some s' \<Longrightarrow> inv s' \<and> look s' \<subseteq>\<^sub>m (look s)(k := None)"
begin

text \<open>The table is always part of the map that loses nothing.\<close>

lemma run_ops_refines:
  assumes "inv s" "look s \<subseteq>\<^sub>m m" "run_ops put tk xs s = Some s'"
  shows "inv s' \<and> look s' \<subseteq>\<^sub>m fold spec_op xs m"
  using assms
proof (induction xs arbitrary: s m)
  case (Cons x xs)
  then obtain s1 where s1: "(case x of Put k v \<Rightarrow> put s k v | Take k \<Rightarrow> tk s k) = Some s1" "run_ops put tk xs s1 = Some s'"
    by (auto simp: bind_eq_Some_conv)
  have "inv s1 \<and> look s1 \<subseteq>\<^sub>m spec_op x m"
  proof (cases x)
    case (Put k v)
    then show ?thesis using s1(1) put_kept [OF Cons.prems(1)] put_newest [OF Cons.prems(1)]
        map_le_put [OF Cons.prems(2)] map_le_trans by fastforce
  next
    case (Take k)
    then show ?thesis using s1(1) taken [OF Cons.prems(1)] map_le_take [OF Cons.prems(2)] map_le_trans by fastforce
  qed
  then show ?case using Cons.IH [of s1 "spec_op x m"] s1(2) by simp
qed simp

end

locale first_store = keyed_store inv look put
  for inv :: "'s \<Rightarrow> bool" and look :: "'s \<Rightarrow> 'k \<rightharpoonup> 'v" and put :: "'s \<Rightarrow> 'k \<Rightarrow> 'v \<Rightarrow> 's option" +
  assumes put_first: "inv s \<Longrightarrow> put s k v = Some s' \<Longrightarrow>
    look s' = (if k \<in> dom (look s) then look s else (look s)(k \<mapsto> v))"
begin

text \<open>The table is the map in which the first value of every key stays.\<close>

lemma put_all_first:
  assumes "inv s" "put_all put xs s = Some s'"
  shows "look s' = map_of xs ++ look s"
  using assms
proof (induction xs arbitrary: s)
  case (Cons x xs)
  then obtain s1 where s1: "put s (fst x) (snd x) = Some s1" "put_all put xs s1 = Some s'"
    by (auto simp: bind_eq_Some_conv)
  have "look s' = map_of xs ++ look s1"
    using Cons.IH [of s1] s1 put_kept [OF Cons.prems(1) s1(1)] by blast
  also have "\<dots> = map_of (x # xs) ++ look s"
    unfolding put_first [OF Cons.prems(1) s1(1)]
    by (rule ext) (auto simp: map_add_def split: option.splits)
  finally show ?case .
qed simp

end

end
