(* ===== verification/Lru_Cache.thy ===== *)
theory Lru_Cache
  imports Keyed_Store
begin

text \<open>
  The LRU caches of \<^verbatim>\<open>ndpi_main.c\<close>: an array of slots, the slot of a key given by the key
  modulo the number of slots. A division by zero and an access outside the array are undefined
  and give \<open>None\<close>.
\<close>

record lru_cache_entry =
  lru_key :: u32
  is_full :: bool
  lru_value :: u16

record lru_cache =
  num_entries :: u32
  entries :: "lru_cache_entry list"

definition zero_entry :: lru_cache_entry where
  "zero_entry = \<lparr>lru_key = 0, is_full = False, lru_value = 0\<rparr>"

text \<open>The struct takes 16 bytes and an entry 8; \<open>None\<close> is \<open>NULL\<close>.\<close>

definition ndpi_lru_cache_init :: "c_env \<Rightarrow> u32 \<Rightarrow> lru_cache option" where
  "ndpi_lru_cache_init env n =
     (if \<not> alloc_ok env 16 then None
      else if \<not> alloc_ok env (unat n * 8) then None
      else Some \<lparr>num_entries = n, entries = replicate (unat n) zero_entry\<rparr>)"

definition lru_slot :: "lru_cache \<Rightarrow> u32 \<Rightarrow> nat option" where
  "lru_slot c key =
     (if num_entries c = 0 then None
      else let slot = unat (key mod num_entries c)
           in if slot < length (entries c) then Some slot else None)"

text \<open>The value, when there is one, and the cache after the call.\<close>

definition ndpi_lru_find_cache :: "lru_cache \<Rightarrow> u32 \<Rightarrow> bool \<Rightarrow> (u16 option \<times> lru_cache) option" where
  "ndpi_lru_find_cache c key clean_key_when_found = do {
     slot \<leftarrow> lru_slot c key;
     let e = entries c ! slot;
     if is_full e \<and> lru_key e = key then
       Some (Some (lru_value e),
             if clean_key_when_found then c\<lparr>entries := (entries c)[slot := e\<lparr>is_full := False\<rparr>]\<rparr> else c)
     else Some (None, c)
   }"

definition ndpi_lru_add_to_cache :: "lru_cache \<Rightarrow> u32 \<Rightarrow> u16 \<Rightarrow> lru_cache option" where
  "ndpi_lru_add_to_cache c key v = do {
     slot \<leftarrow> lru_slot c key;
     Some (c\<lparr>entries := (entries c)[slot := (entries c ! slot)\<lparr>is_full := True, lru_key := key, lru_value := v\<rparr>]\<rparr>)
   }"

section \<open>The cache as a store\<close>

definition lru_inv :: "lru_cache \<Rightarrow> bool" where
  "lru_inv c \<longleftrightarrow> num_entries c \<noteq> 0 \<and> length (entries c) = unat (num_entries c)"

definition lru_look :: "lru_cache \<Rightarrow> u32 \<rightharpoonup> u16" where
  "lru_look c key = Option.bind (ndpi_lru_find_cache c key False) fst"

definition lru_take :: "lru_cache \<Rightarrow> u32 \<Rightarrow> lru_cache option" where
  "lru_take c key = map_option snd (ndpi_lru_find_cache c key True)"

lemma lru_slot_in: "lru_inv c \<Longrightarrow> lru_slot c key = Some (unat (key mod num_entries c))"
  by (simp add: lru_inv_def lru_slot_def Let_def unat_mod_distrib unat_gt_0)

lemma lru_slot_less: "lru_inv c \<Longrightarrow> unat (key mod num_entries c) < length (entries c)"
  using lru_slot_in [of c key] by (auto simp: lru_slot_def Let_def split: if_splits)

lemma lru_look_def':
  "lru_inv c \<Longrightarrow> lru_look c key =
     (let e = entries c ! unat (key mod num_entries c)
      in if is_full e \<and> lru_key e = key then Some (lru_value e) else None)"
  by (simp add: lru_look_def ndpi_lru_find_cache_def lru_slot_in Let_def)

lemma lru_add:
  assumes "lru_inv c" "ndpi_lru_add_to_cache c k v = Some c'"
  shows "lru_inv c' \<and> lru_look c' \<subseteq>\<^sub>m (lru_look c)(k \<mapsto> v) \<and> lru_look c' k = Some v"
proof -
  have c': "c' = c\<lparr>entries := (entries c)[unat (k mod num_entries c) :=
      (entries c ! unat (k mod num_entries c))\<lparr>is_full := True, lru_key := k, lru_value := v\<rparr>]\<rparr>"
    using assms by (simp add: ndpi_lru_add_to_cache_def lru_slot_in)
  then have inv: "lru_inv c'" using assms(1) by (simp add: lru_inv_def)
  show ?thesis using inv lru_slot_less [OF assms(1), of k]
    by (auto simp: lru_look_def' assms(1) c' Let_def map_le_def dom_def nth_list_update split: if_splits)
qed

lemma lru_take:
  assumes "lru_inv c" "lru_take c k = Some c'"
  shows "lru_inv c' \<and> lru_look c' \<subseteq>\<^sub>m (lru_look c)(k := None)"
proof -
  define e where "e = entries c ! unat (k mod num_entries c)"
  have c': "c' = (if is_full e \<and> lru_key e = k
      then c\<lparr>entries := (entries c)[unat (k mod num_entries c) := e\<lparr>is_full := False\<rparr>]\<rparr> else c)"
    using assms by (auto simp: lru_take_def ndpi_lru_find_cache_def lru_slot_in e_def Let_def split: if_splits)
  then have inv: "lru_inv c'" using assms(1) by (simp add: lru_inv_def)
  show ?thesis using inv lru_slot_less [OF assms(1), of k]
    by (auto simp: lru_look_def' assms(1) c' Let_def map_le_def dom_def nth_list_update e_def split: if_splits)
qed

interpretation lru: newest_store lru_inv lru_look ndpi_lru_add_to_cache lru_take
  by unfold_locales (auto dest: lru_add lru_take)

lemma lru_total:
  assumes "lru_inv c"
  shows "\<exists>c'. run_ops ndpi_lru_add_to_cache lru_take xs c = Some c'"
  using assms
proof (induction xs arbitrary: c)
  case (Cons x xs)
  have "\<exists>c'. (case x of Put k v \<Rightarrow> ndpi_lru_add_to_cache c k v | Take k \<Rightarrow> lru_take c k) = Some c'"
    using Cons.prems
    by (cases x) (simp_all add: ndpi_lru_add_to_cache_def lru_take_def ndpi_lru_find_cache_def lru_slot_in Let_def)
  then obtain c' where "(case x of Put k v \<Rightarrow> ndpi_lru_add_to_cache c k v | Take k \<Rightarrow> lru_take c k) = Some c'"
    by blast
  moreover from this have "lru_inv c'" using Cons.prems by (cases x) (auto dest: lru_add lru_take)
  ultimately show ?case using Cons.IH by simp
qed simp

section \<open>Properties\<close>

text \<open>
  C22. A cache hit is the newest value. After any sequence of insertions and cleaning lookups on
  a fresh cache with at least one slot, no access is outside the array, and a lookup that
  succeeds gives the value of the last insertion of exactly this key, with no cleaning since.
\<close>

theorem lru_hit_is_newest:
  assumes "ndpi_lru_cache_init env n = Some c" "n \<noteq> 0"
  shows "\<exists>c'. run_ops ndpi_lru_add_to_cache lru_take xs c = Some c'
     \<and> (\<forall>key clean. \<exists>r c''. ndpi_lru_find_cache c' key clean = Some (r, c'')
          \<and> (\<forall>v. r = Some v \<longrightarrow> fold spec_op xs Map.empty key = Some v))"
proof -
  have c: "lru_inv c" "lru_look c \<subseteq>\<^sub>m Map.empty"
  proof -
    show inv: "lru_inv c" using assms by (auto simp: ndpi_lru_cache_init_def lru_inv_def split: if_splits)
    have "unat (key mod n) < unat n" for key using lru_slot_less [OF inv, of key] assms(1)
      by (auto simp: ndpi_lru_cache_init_def split: if_splits)
    then show "lru_look c \<subseteq>\<^sub>m Map.empty" using assms(1)
      by (auto simp: lru_look_def' [OF inv] ndpi_lru_cache_init_def zero_entry_def Let_def map_le_def dom_def split: if_splits)
  qed
  obtain c' where c': "run_ops ndpi_lru_add_to_cache lru_take xs c = Some c'" using lru_total [OF c(1)] by blast
  have r: "lru_inv c'" "lru_look c' \<subseteq>\<^sub>m fold spec_op xs Map.empty" using lru.run_ops_refines [OF c c'] by auto
  have "\<exists>r c''. ndpi_lru_find_cache c' key clean = Some (r, c'') \<and> r = lru_look c' key" for key clean
    using r(1) by (simp add: ndpi_lru_find_cache_def lru_slot_in lru_look_def' Let_def)
  then show ?thesis using c' r(2) by (fastforce simp: map_le_def dom_def)
qed

theorem lru_hit_is_newest_witness:
  "\<exists>c'. run_ops ndpi_lru_add_to_cache lru_take [Put 7 1, Put 9 2, Take 7, Put 7 3] \<lparr>num_entries = 2, entries = replicate 2 zero_entry\<rparr> = Some c'
     \<and> (\<forall>key clean. \<exists>r c''. ndpi_lru_find_cache c' key clean = Some (r, c'')
          \<and> (\<forall>v. r = Some v \<longrightarrow> fold spec_op [Put 7 1, Put 9 2, Take 7, Put 7 3] Map.empty key = Some v))"
  by (rule lru_hit_is_newest [of "\<lparr>char_signed = True, alloc_ok = \<lambda>_. True, indet = \<lambda>_. 0\<rparr>" 2])
    (simp_all add: ndpi_lru_cache_init_def)

end
