(* ===== verification/Str_Hash.thy ===== *)
theory Str_Hash
  imports Keyed_Store
begin

text \<open>
  The string hash of \<^verbatim>\<open>ndpi_utils.c\<close> (\<open>ndpi_hash_alloc\<close> and its neighbours): an array of
  chains of entries, a chain as the list of its entries from the head. The block of a key is its
  own block; the byte counts of the allocations are those of a 64-bit target.
\<close>

record str_hash_info =
  hash_key :: bytes
  key_len :: u8
  hash_value :: u8

record str_hash =
  num_buckets :: u32
  max_num_entries :: u32
  buckets :: "str_hash_info list list"

definition ndpi_hash_alloc :: "c_env \<Rightarrow> u32 \<Rightarrow> str_hash option" where
  "ndpi_hash_alloc env max_entries =
     (if \<not> alloc_ok env 16 then None
      else
        let n = (if max_entries < 1024 then 1024 else max_entries);
            n = (if 10000000 < n then 10000000 else n)
        in if \<not> alloc_ok env (8 * unat (n div 2)) then None
           else Some \<lparr>num_buckets = n div 2, max_num_entries = n, buckets = replicate (unat (n div 2)) []\<rparr>)"

text \<open>A \<open>char\<close> as an integer; the products and the sum are taken modulo $2^{32}$.\<close>

definition c_char :: "c_env \<Rightarrow> u8 \<Rightarrow> int" where
  "c_char env b = (if char_signed env then sint b else uint b)"

definition hash_sum :: "c_env \<Rightarrow> bytes \<Rightarrow> u32" where
  "hash_sum env bs = fold (\<lambda>(i, b) hv. hv + word_of_int (c_char env b * (int i + 1))) (enumerate 0 bs) 0"

definition ndpi_hash_function :: "c_env \<Rightarrow> str_hash \<Rightarrow> bytes \<Rightarrow> u8 \<Rightarrow> u32 option" where
  "ndpi_hash_function env h key len = do {
     bs \<leftarrow> peek_run key 0 (unat len);
     if num_buckets h = 0 then None else Some (hash_sum env bs mod num_buckets h)
   }"

fun find_in_chain :: "str_hash_info list \<Rightarrow> bytes \<Rightarrow> u32 \<Rightarrow> u8 option option" where
  "find_in_chain [] key len = Some None"
| "find_in_chain (e # es) key len =
     (if ucast (key_len e) = len then do {
        a \<leftarrow> peek_run (hash_key e) 0 (unat len);
        b \<leftarrow> peek_run key 0 (unat len);
        if a = b then Some (Some (hash_value e)) else find_in_chain es key len
      }
      else find_in_chain es key len)"

definition find_in_bucket :: "str_hash \<Rightarrow> u32 \<Rightarrow> bytes \<Rightarrow> u32 \<Rightarrow> u8 option option" where
  "find_in_bucket h hv key len =
     (if unat hv < length (buckets h) then find_in_chain (buckets h ! unat hv) key len else None)"

text \<open>The hash takes the low eight bits of the length; \<open>None\<close> inside is the return of -1.\<close>

definition ndpi_hash_find_entry :: "c_env \<Rightarrow> str_hash \<Rightarrow> bytes \<Rightarrow> u32 \<Rightarrow> u8 option option" where
  "ndpi_hash_find_entry env h key len = do {
     hv \<leftarrow> ndpi_hash_function env h key (ucast len);
     find_in_bucket h hv key len
   }"

definition ndpi_hash_add_entry :: "c_env \<Rightarrow> str_hash \<Rightarrow> bytes \<Rightarrow> u8 \<Rightarrow> u8 \<Rightarrow> (int \<times> str_hash) option" where
  "ndpi_hash_add_entry env h key len v = do {
     hv \<leftarrow> ndpi_hash_function env h key len;
     r \<leftarrow> find_in_bucket h hv key (ucast len);
     case r of
       Some _ \<Rightarrow> Some (0, h)
     | None \<Rightarrow>
         if \<not> alloc_ok env 24 then Some (- 2, h)
         else if \<not> alloc_ok env (unat len) then Some (- 3, h)
         else do {
           bs \<leftarrow> peek_run key 0 (unat len);
           let e = \<lparr>hash_key = bs, key_len = len, hash_value = v\<rparr>;
           Some (0, h\<lparr>buckets := (buckets h)[unat hv := e # buckets h ! unat hv]\<rparr>)
         }
   }"

section \<open>The hash as a store\<close>

text \<open>
  Every entry has a key block of its length and stands in the chain of its key. The store is
  keyed by strings of at most 255 bytes, whose length fits the 8-bit field.
\<close>

definition entry_ok :: "c_env \<Rightarrow> str_hash \<Rightarrow> nat \<Rightarrow> str_hash_info \<Rightarrow> bool" where
  "entry_ok env h i e \<longleftrightarrow>
     length (hash_key e) = unat (key_len e) \<and> unat (hash_sum env (hash_key e) mod num_buckets h) = i"

definition hash_inv :: "c_env \<Rightarrow> str_hash \<Rightarrow> bool" where
  "hash_inv env h \<longleftrightarrow>
     num_buckets h \<noteq> 0 \<and> length (buckets h) = unat (num_buckets h)
     \<and> (\<forall>i < length (buckets h). list_all (entry_ok env h i) (buckets h ! i))"

definition hash_look :: "c_env \<Rightarrow> str_hash \<Rightarrow> bytes \<rightharpoonup> u8" where
  "hash_look env h key =
     (if length key < 256
      then Option.bind (ndpi_hash_find_entry env h key (word_of_nat (length key))) (\<lambda>r. r) else None)"

definition hash_put :: "c_env \<Rightarrow> str_hash \<Rightarrow> bytes \<Rightarrow> u8 \<Rightarrow> str_hash option" where
  "hash_put env h key v =
     (if length key < 256
      then case ndpi_hash_add_entry env h key (word_of_nat (length key)) v of
             Some (rc, h') \<Rightarrow> if rc = 0 then Some h' else None
           | None \<Rightarrow> None
      else None)"

definition chain_map :: "str_hash_info list \<Rightarrow> bytes \<rightharpoonup> u8" where
  "chain_map es = map_of (map (\<lambda>e. (hash_key e, hash_value e)) es)"

definition bucket_of :: "c_env \<Rightarrow> str_hash \<Rightarrow> bytes \<Rightarrow> nat" where
  "bucket_of env h key = unat (hash_sum env key mod num_buckets h)"

lemma entry_ok_upd [simp]: "entry_ok env (h\<lparr>buckets := bs\<rparr>) = entry_ok env h"
  by (intro ext) (simp add: entry_ok_def)

lemma key_lengths:
  assumes "length key < 256"
  shows "unat (word_of_nat (length key) :: u8) = length key" "unat (word_of_nat (length key) :: u32) = length key"
    "ucast (word_of_nat (length key) :: u32) = (word_of_nat (length key) :: u8)"
    "ucast (word_of_nat (length key) :: u8) = (word_of_nat (length key) :: u32)"
  using assms by (simp_all add: unat_of_nat take_bit_nat_eq_self unsigned_of_nat)

lemma find_in_chain_map:
  assumes "length key < 256" "list_all (entry_ok env h i) es"
  shows "find_in_chain es key (word_of_nat (length key)) = Some (chain_map es key)"
  using assms(2)
proof (induction es)
  case (Cons e es)
  have len: "length (hash_key e) = unat (key_len e)" using Cons.prems by (simp add: entry_ok_def)
  have "ucast (key_len e) = (word_of_nat (length key) :: u32) \<longleftrightarrow> length (hash_key e) = length key"
  proof -
    have "unat (ucast (key_len e) :: u32) = unat (key_len e)" 
      using unsigned_less [where 'a = nat, of "key_len e"] by (simp add: unsigned_ucast_eq take_bit_nat_eq_self)
    then show ?thesis using len key_lengths(2) [OF assms(1)] by (metis word_unat_eq_iff)
  qed
  then show ?case using Cons key_lengths [OF assms(1)]
    by (auto simp: chain_map_def peek_run_def)
qed (simp add: chain_map_def)

lemma bucket_in: "hash_inv env h \<Longrightarrow> bucket_of env h key < length (buckets h)"
  by (simp add: hash_inv_def bucket_of_def unat_mod_distrib unat_gt_0)

lemma hash_function_bucket:
  assumes "hash_inv env h" "length key < 256"
  shows "ndpi_hash_function env h key (word_of_nat (length key)) = Some (hash_sum env key mod num_buckets h)"
  using assms key_lengths [OF assms(2)] by (simp add: ndpi_hash_function_def hash_inv_def peek_run_def)

lemma find_in_bucket_map:
  assumes "hash_inv env h" "length key < 256"
  shows "find_in_bucket h (hash_sum env key mod num_buckets h) key (word_of_nat (length key))
     = Some (chain_map (buckets h ! bucket_of env h key) key)"
  using assms bucket_in [OF assms(1), of key]
    find_in_chain_map [OF assms(2), of env h "bucket_of env h key" "buckets h ! bucket_of env h key"]
  by (simp add: find_in_bucket_def hash_inv_def flip: bucket_of_def)

lemma hash_find:
  assumes "hash_inv env h" "length key < 256"
  shows "ndpi_hash_find_entry env h key (word_of_nat (length key)) = Some (hash_look env h key)"
    and "hash_look env h key = chain_map (buckets h ! bucket_of env h key) key"
  using assms key_lengths(3) [OF assms(2)] hash_function_bucket [OF assms] find_in_bucket_map [OF assms]
  by (simp_all add: hash_look_def ndpi_hash_find_entry_def)

lemma hash_put_some:
  assumes "hash_inv env h" "hash_put env h k v = Some h'"
  shows "hash_inv env h' \<and> hash_look env h' = (if k \<in> dom (hash_look env h) then hash_look env h else (hash_look env h)(k \<mapsto> v))"
proof -
  let ?b = "bucket_of env h k"
  have k: "length k < 256" using assms(2) by (auto simp: hash_put_def split: if_splits)
  note len = key_lengths [OF k]
  have add: "ndpi_hash_add_entry env h k (word_of_nat (length k)) v =
      (case chain_map (buckets h ! ?b) k of
         Some _ \<Rightarrow> Some (0, h)
       | None \<Rightarrow>
           if \<not> alloc_ok env 24 then Some (- 2, h)
           else if \<not> alloc_ok env (length k) then Some (- 3, h)
           else Some (0, h\<lparr>buckets := (buckets h)[?b := \<lparr>hash_key = k, key_len = word_of_nat (length k), hash_value = v\<rparr> # buckets h ! ?b]\<rparr>))"
    using hash_function_bucket [OF assms(1) k] find_in_bucket_map [OF assms(1) k] len
    by (simp add: ndpi_hash_add_entry_def peek_run_def Let_def bucket_of_def split: option.split)
  show ?thesis
  proof (cases "chain_map (buckets h ! ?b) k")
    case (Some w)
    then show ?thesis using assms k add hash_find(2) [OF assms(1) k] by (auto simp: hash_put_def)
  next
    case None
    then have h': "h' = h\<lparr>buckets := (buckets h)[?b := \<lparr>hash_key = k, key_len = word_of_nat (length k), hash_value = v\<rparr> # buckets h ! ?b]\<rparr>"
      using assms(2) k add by (auto simp: hash_put_def split: if_splits)
    have inv: "hash_inv env h'"
    proof -
      have "entry_ok env h ?b \<lparr>hash_key = k, key_len = word_of_nat (length k), hash_value = v\<rparr>"
        using len by (simp add: entry_ok_def bucket_of_def)
      then show ?thesis using assms(1) bucket_in [OF assms(1), of k] by (auto simp: hash_inv_def h' nth_list_update)
    qed
    have "hash_look env h' x = ((hash_look env h)(k \<mapsto> v)) x" for x
    proof (cases "length x < 256")
      case True
      have "bucket_of env h' x = bucket_of env h x" by (simp add: bucket_of_def h')
      then show ?thesis using hash_find(2) [OF inv True] hash_find(2) [OF assms(1) True] bucket_in [OF assms(1), of k]
        by (auto simp: h' nth_list_update chain_map_def)
    next
      case False
      then show ?thesis using k by (auto simp: hash_look_def)
    qed
    then show ?thesis using inv None hash_find(2) [OF assms(1) k] by (auto simp: dom_def)
  qed
qed

interpretation str_hash: first_store "hash_inv env" "hash_look env" "hash_put env" for env
proof
  show "hash_inv env s' \<and> (hash_look env s' \<subseteq>\<^sub>m (hash_look env s)(k \<mapsto> v) \<or> hash_look env s' \<subseteq>\<^sub>m hash_look env s)"
    if "hash_inv env s" "hash_put env s k v = Some s'" for s k v s'
    using hash_put_some [OF that] by auto
  show "hash_look env s' = (if k \<in> dom (hash_look env s) then hash_look env s else (hash_look env s)(k \<mapsto> v))"
    if "hash_inv env s" "hash_put env s k v = Some s'" for s k v s'
    using hash_put_some [OF that] by blast
qed

lemma hash_alloc_inv:
  assumes "ndpi_hash_alloc env n = Some h"
  shows "hash_inv env h" "hash_look env h = Map.empty"
proof -
  define m :: u32 where "m = (let n = (if n < 1024 then 1024 else n) in if 10000000 < n then 10000000 else n)"
  have h: "h = \<lparr>num_buckets = m div 2, max_num_entries = m, buckets = replicate (unat (m div 2)) []\<rparr>"
    using assms by (auto simp: ndpi_hash_alloc_def m_def Let_def split: if_splits)
  have "1024 \<le> m" by (auto simp: m_def Let_def)
  then have "unat (m div 2) \<noteq> 0" by (simp add: unat_div word_le_nat_alt div_eq_0_iff)
  then have "m div 2 \<noteq> 0" by auto
  then show inv: "hash_inv env h" by (simp add: hash_inv_def h)
  have "hash_look env h key = None" for key
  proof (cases "length key < 256")
    case True
    then show ?thesis using hash_find(2) [OF inv True] bucket_in [OF inv, of key] by (simp add: h chain_map_def)
  qed (simp add: hash_look_def)
  then show "hash_look env h = Map.empty" by blast
qed

lemma hash_put_succeeds:
  assumes "hash_inv env h" "length k < 256" "alloc_ok env 24" "alloc_ok env (length k)"
  shows "\<exists>h'. hash_put env h k v = Some h'"
  using assms hash_function_bucket [OF assms(1,2)] find_in_bucket_map [OF assms(1,2)] key_lengths [OF assms(2)]
  by (auto simp: hash_put_def ndpi_hash_add_entry_def peek_run_def Let_def split: option.split)

lemma hash_put_all_succeeds:
  assumes "hash_inv env h" "\<forall>x \<in> set xs. length (fst x) < 256" "\<forall>n < 256. alloc_ok env n"
  shows "\<exists>h'. put_all (hash_put env) xs h = Some h'"
  using assms(1,2)
proof (induction xs arbitrary: h)
  case (Cons x xs)
  obtain h1 where h1: "hash_put env h (fst x) (snd x) = Some h1"
    using hash_put_succeeds [of env h "fst x" "snd x"] Cons.prems assms(3) by auto
  then show ?case using Cons hash_put_some [OF Cons.prems(1) h1] by simp
qed simp

section \<open>Properties\<close>

text \<open>
  C21. The string hash is a map. After adding any entries to a fresh hash, each of which returns
  0 when memory is available, every lookup returns the value that was added first under exactly
  its key, or -1 when there is none, whatever keys share a chain; no access is outside a block.
\<close>

theorem hash_is_first_map:
  assumes "ndpi_hash_alloc env n = Some h" "\<forall>x \<in> set xs. length (fst x) < 256" "\<forall>n < 256. alloc_ok env n"
  shows "\<exists>h'. put_all (hash_put env) xs h = Some h'
     \<and> (\<forall>key. length key < 256 \<longrightarrow> ndpi_hash_find_entry env h' key (word_of_nat (length key)) = Some (map_of xs key))"
proof -
  note inv = hash_alloc_inv [OF assms(1)]
  obtain h' where h': "put_all (hash_put env) xs h = Some h'"
    using hash_put_all_succeeds [OF inv(1) assms(2,3)] by blast
  have "hash_look env h' = map_of xs" using str_hash.put_all_first [OF inv(1) h'] inv(2) by simp
  then show ?thesis using h' hash_find(1) [OF str_hash.put_all_inv [OF inv(1) h']] by auto
qed

theorem hash_is_first_map_witness:
  "\<exists>h'. put_all (hash_put \<lparr>char_signed = True, alloc_ok = \<lambda>_. True, indet = \<lambda>_. 0\<rparr>) [([200, 1], 3), ([], 4), ([200, 1], 5)]
        \<lparr>num_buckets = 512, max_num_entries = 1024, buckets = replicate 512 []\<rparr> = Some h'
     \<and> (\<forall>key. length key < 256 \<longrightarrow>
          ndpi_hash_find_entry \<lparr>char_signed = True, alloc_ok = \<lambda>_. True, indet = \<lambda>_. 0\<rparr> h' key (word_of_nat (length key))
            = Some (map_of [([200, 1], 3), ([], 4), ([200, 1], 5)] key))"
  by (rule hash_is_first_map [of _ 0]) (simp_all add: ndpi_hash_alloc_def)

end
