(* ===== verification/Byte_Numbers.thy ===== *)
theory Byte_Numbers
  imports Prelude
begin

unbundle bit_operations_syntax

text \<open>
  Numbers and addresses in payload text: \<open>ndpi_bytestream_to_number\<close> and its relatives in
  \<^verbatim>\<open>ndpi_main.c\<close>. A pointer into a text is the rest of its block; reading behind the
  block is undefined and gives \<open>None\<close>. Values and the counter of characters read have the
  widths of the source and wrap.
\<close>

section \<open>Numbers\<close>

text \<open>The character is read before the number of characters left is looked at.\<close>

fun to_number_loop :: "bytes \<Rightarrow> nat \<Rightarrow> u32 \<Rightarrow> u16 \<Rightarrow> (u32 \<times> u16) option" where
  "to_number_loop [] left val bytes_read = None"
| "to_number_loop (b # bs) left val bytes_read =
     (if c_isdigit b \<and> 0 < left
      then to_number_loop bs (left - 1) (val * 10 + ucast (b - 48)) (bytes_read + 1)
      else Some (val, bytes_read))"

definition ndpi_bytestream_to_number :: "bytes \<Rightarrow> u16 \<Rightarrow> u16 \<Rightarrow> (u32 \<times> u16) option" where
  "ndpi_bytestream_to_number s max_chars_to_read bytes_read =
     to_number_loop s (unat max_chars_to_read) 0 bytes_read"

definition ntohs_ndpi_bytestream_to_number :: "bytes \<Rightarrow> u16 \<Rightarrow> u16 \<Rightarrow> (u16 \<times> u16) option" where
  "ntohs_ndpi_bytestream_to_number s max_chars_to_read bytes_read =
     map_option (\<lambda>(v, r). (of_be16 (rev (be16 (ucast v))), r))
       (ndpi_bytestream_to_number s max_chars_to_read bytes_read)"

text \<open>Here the number of characters left is looked at first.\<close>

fun to_number64_loop :: "bytes \<Rightarrow> nat \<Rightarrow> u64 \<Rightarrow> u16 \<Rightarrow> (u64 \<times> u16) option" where
  "to_number64_loop s 0 val bytes_read = Some (val, bytes_read)"
| "to_number64_loop [] (Suc n) val bytes_read = None"
| "to_number64_loop (b # bs) (Suc n) val bytes_read =
     (if c_isdigit b then to_number64_loop bs n (val * 10 + ucast (b - 48)) (bytes_read + 1)
      else Some (val, bytes_read))"

definition ndpi_bytestream_to_number64 :: "bytes \<Rightarrow> u16 \<Rightarrow> u16 \<Rightarrow> (u64 \<times> u16) option" where
  "ndpi_bytestream_to_number64 s max_chars_to_read bytes_read =
     to_number64_loop s (unat max_chars_to_read) 0 bytes_read"

definition hex_digit :: "u8 \<Rightarrow> u64 option" where
  "hex_digit b =
     (if 48 \<le> b \<and> b \<le> 57 then Some (ucast (b - 48))
      else if 97 \<le> b \<and> b \<le> 102 then Some (ucast (b + 10 - 97))
      else if 65 \<le> b \<and> b \<le> 70 then Some (ucast (b + 10 - 65))
      else None)"

fun hex_loop :: "bytes \<Rightarrow> nat \<Rightarrow> u64 \<Rightarrow> u16 \<Rightarrow> (u64 \<times> u16) option" where
  "hex_loop s 0 val bytes_read = Some (val, bytes_read)"
| "hex_loop [] (Suc n) val bytes_read = None"
| "hex_loop (b # bs) (Suc n) val bytes_read =
     (case hex_digit b of
        Some d \<Rightarrow> hex_loop bs n (val * 16 + d) (bytes_read + 1)
      | None \<Rightarrow> Some (val, bytes_read))"

definition ndpi_bytestream_dec_or_hex_to_number64 :: "bytes \<Rightarrow> u16 \<Rightarrow> u16 \<Rightarrow> (u64 \<times> u16) option" where
  "ndpi_bytestream_dec_or_hex_to_number64 s max_chars_to_read bytes_read =
     (if max_chars_to_read \<le> 2 then ndpi_bytestream_to_number64 s max_chars_to_read bytes_read
      else do {
        c \<leftarrow> peek s 0;
        if c \<noteq> 48 then ndpi_bytestream_to_number64 s max_chars_to_read bytes_read
        else do {
          x \<leftarrow> peek s 1;
          if x \<noteq> 120 then ndpi_bytestream_to_number64 s max_chars_to_read bytes_read
          else hex_loop (drop 2 s) (unat (max_chars_to_read - 2)) 0 (bytes_read + 2)
        }
      })"

section \<open>Addresses\<close>

text \<open>One part of a dotted address, with the dot behind it for all but the last.\<close>

definition ipv4_part :: "bool \<Rightarrow> bytes \<Rightarrow> u16 \<Rightarrow> u16 \<Rightarrow> (u32 \<times> u16) option option" where
  "ipv4_part dot s max_chars_to_read oldread = do {
     (c, read) \<leftarrow> ndpi_bytestream_to_number (drop (unat oldread) s) (max_chars_to_read - oldread) oldread;
     if 255 < c \<or> oldread = read \<or> max_chars_to_read = read then Some None
     else if dot then do {
       b \<leftarrow> peek s (unat read);
       if b \<noteq> 46 then Some None else Some (Some (c, read + 1))
     }
     else Some (Some (c, read))
   }"

text \<open>
  The address in network order, as a little-endian host sees it (0 when the text is not an
  address), and the counter.
\<close>

definition ndpi_bytestream_to_ipv4 :: "bytes \<Rightarrow> u16 \<Rightarrow> u16 \<Rightarrow> (u32 \<times> u16) option" where
  "ndpi_bytestream_to_ipv4 s max_chars_to_read bytes_read = do {
     r \<leftarrow> ipv4_part True s max_chars_to_read 0;
     case r of None \<Rightarrow> Some (0, bytes_read) | Some (a, read) \<Rightarrow> do {
       r \<leftarrow> ipv4_part True s max_chars_to_read read;
       case r of None \<Rightarrow> Some (0, bytes_read) | Some (b, read) \<Rightarrow> do {
         r \<leftarrow> ipv4_part True s max_chars_to_read read;
         case r of None \<Rightarrow> Some (0, bytes_read) | Some (c, read) \<Rightarrow> do {
           r \<leftarrow> ipv4_part False s max_chars_to_read read;
           case r of None \<Rightarrow> Some (0, bytes_read) | Some (d, read) \<Rightarrow>
             Some (of_le32 (be32 (push_bit 24 a + push_bit 16 b + push_bit 8 c + d)), bytes_read + read)
         }
       }
     }
   }"

section \<open>Digits\<close>

definition digits_value :: "bytes \<Rightarrow> 'a :: len word \<Rightarrow> 'a word" where
  "digits_value ds v = fold (\<lambda>d v. v * 10 + ucast (d - 48)) ds v"

lemma digit_of_nat: "n < 10 \<Longrightarrow> c_isdigit (word_of_nat (48 + n))" "n < 10 \<Longrightarrow> ucast (word_of_nat (48 + n) - 48 :: u8) = (word_of_nat n :: 'a :: len word)"
proof -
  assume n: "n < 10"
  have "unat (word_of_nat (48 + n) :: u8) = 48 + n" using n by (simp add: unat_of_nat del: of_nat_add)
  then show "c_isdigit (word_of_nat (48 + n))" using n by (simp add: c_isdigit_def word_le_nat_alt del: of_nat_add)
  have "word_of_nat (48 + n) - 48 = (word_of_nat n :: u8)" by simp
  moreover have "ucast (word_of_nat n :: u8) = (word_of_nat n :: 'a word)"
    using n by (simp add: unsigned_of_nat take_bit_nat_eq_self)
  ultimately show "ucast (word_of_nat (48 + n) - 48 :: u8) = (word_of_nat n :: 'a :: len word)" by simp
qed

lemma show_nat_digits: "list_all c_isdigit (show_nat n)"
proof (induction n rule: show_nat.induct)
  case (1 n)
  then show ?case by (subst show_nat.simps) (simp add: digit_of_nat del: of_nat_add)
qed

lemma show_nat_value: "digits_value (show_nat n) (0 :: 'a :: len word) = word_of_nat n"
proof (induction n rule: show_nat.induct)
  case (1 n)
  show ?case
  proof (cases "n < 10")
    case True
    then show ?thesis by (subst show_nat.simps) (simp add: digits_value_def digit_of_nat del: of_nat_add)
  next
    case False
    have "digits_value (show_nat n) (0 :: 'a word) = word_of_nat (n div 10) * 10 + word_of_nat (n mod 10)"
      using 1 False by (subst show_nat.simps) (simp add: digits_value_def digit_of_nat del: of_nat_add)
    also have "\<dots> = word_of_nat (n div 10 * 10 + n mod 10)" by (simp only: of_nat_add of_nat_mult of_nat_numeral)
    also have "\<dots> = word_of_nat n" by (simp only: div_mult_mod_eq)
    finally show ?thesis .
  qed
qed

lemma to_number_digits:
  assumes "list_all c_isdigit ds" "length ds \<le> left" "rest \<noteq> []" "left = length ds \<or> \<not> c_isdigit (hd rest)"
  shows "to_number_loop (ds @ rest) left v r = Some (digits_value ds v, r + word_of_nat (length ds))"
  using assms
proof (induction ds arbitrary: left v r)
  case Nil
  then show ?case by (cases rest) (auto simp: digits_value_def)
next
  case (Cons d ds)
  then show ?case using Cons.IH [of "left - 1"] by (auto simp: digits_value_def add.assoc)
qed

lemma to_number64_digits:
  assumes "list_all c_isdigit ds" "length ds \<le> left" "left = length ds \<or> rest \<noteq> [] \<and> \<not> c_isdigit (hd rest)"
  shows "to_number64_loop (ds @ rest) left v r = Some (digits_value ds v, r + word_of_nat (length ds))"
  using assms
proof (induction ds arbitrary: left v r)
  case Nil
  then show ?case by (cases rest; cases left) (auto simp: digits_value_def)
next
  case (Cons d ds)
  then obtain n where "left = Suc n" by (cases left) auto
  then show ?case using Cons Cons.IH [of n] by (auto simp: digits_value_def add.assoc)
qed

section \<open>Dotted addresses\<close>

definition dotted :: "u8 \<Rightarrow> u8 \<Rightarrow> u8 \<Rightarrow> u8 \<Rightarrow> bytes" where
  "dotted a b c d = show_nat (unat a) @ [46] @ show_nat (unat b) @ [46] @ show_nat (unat c) @ [46] @ show_nat (unat d)"

lemma ipv4_part_text:
  fixes n :: u8 and mx :: u16
  assumes s: "s = pre @ show_nat (unat n) @ e # rest" "\<not> c_isdigit e" "dot \<Longrightarrow> e = 46"
    and len: "length pre + length (show_nat (unat n)) < unat mx"
  shows "ipv4_part dot s mx (word_of_nat (length pre)) =
     Some (Some (ucast n, word_of_nat (length pre + length (show_nat (unat n)) + (if dot then 1 else 0))))"
proof -
  let ?l = "length (show_nat (unat n))"
  let ?r = "word_of_nat (length pre + ?l) :: u16"
  have mx: "unat mx < 65536" using unsigned_less [where 'a = nat, of mx] by simp
  have old: "unat (word_of_nat (length pre) :: u16) = length pre" using len mx by (simp add: unat_of_nat take_bit_nat_eq_self)
  have new: "unat ?r = length pre + ?l" using len mx by (simp add: unat_of_nat take_bit_nat_eq_self del: of_nat_add)
  have left: "unat (mx - word_of_nat (length pre)) = unat mx - length pre"
    using old len by (simp add: unat_sub word_le_nat_alt)
  have val: "digits_value (show_nat (unat n)) 0 = (ucast n :: u32)" by (simp add: show_nat_value)
  have num: "ndpi_bytestream_to_number (drop (length pre) s) (mx - word_of_nat (length pre)) (word_of_nat (length pre))
      = Some (ucast n, ?r)"
    using to_number_digits [OF show_nat_digits, of "unat n" "unat mx - length pre" "e # rest" 0 "word_of_nat (length pre)"] s len
    by (simp add: ndpi_bytestream_to_number_def left val)
  have ne: "word_of_nat (length pre) \<noteq> ?r" "mx \<noteq> ?r"
  proof -
    have "0 < ?l" by simp
    then show "word_of_nat (length pre) \<noteq> ?r" using old new by (metis less_add_same_cancel1 less_irrefl)
    show "mx \<noteq> ?r" using new len by auto
  qed
  have small: "\<not> 255 < (ucast n :: u32)"
  proof -
    have "unat (ucast n :: u32) = unat n"
      using unsigned_less [where 'a = nat, of n] by (simp add: unsigned_ucast_eq take_bit_nat_eq_self)
    then show ?thesis using unsigned_less [where 'a = nat, of n] by (simp add: word_less_nat_alt)
  qed
  have "peek s (length pre + ?l) = Some e" by (simp add: s peek_def nth_append)
  then show ?thesis using num ne small new old s(3)
    by (simp add: ipv4_part_def add.assoc del: of_nat_add)
qed

lemma octets_sum:
  "be32 (push_bit 24 (ucast a) + push_bit 16 (ucast b) + push_bit 8 (ucast c) + ucast d) = [a, b, c, d]"
proof -
  let ?a = "push_bit 24 (ucast a) :: u32" and ?b = "push_bit 16 (ucast b) :: u32"
    and ?c = "push_bit 8 (ucast c) :: u32" and ?d = "ucast d :: u32"
  have "?a AND ?b = 0" "(?a OR ?b) AND ?c = 0" "(?a OR ?b OR ?c) AND ?d = 0"
    by (rule bit_word_eqI, auto simp: bit_simps dest: bit_imp_le_length)+
  then have "?a + ?b + ?c + ?d = ?a OR ?b OR ?c OR ?d" by (simp add: disjunctive_add_eq_or or.assoc)
  moreover have "be32 (?a OR ?b OR ?c OR ?d) = [a, b, c, d]"
    by (auto simp: be32_def bit_eq_iff bit_simps dest: bit_imp_le_length)
  ultimately show ?thesis by simp
qed

section \<open>Properties\<close>

text \<open>
  Dotted addresses. A dotted address of four bytes that is followed by a character which
  is not a digit, with at least one character more allowed than the address has, is read as these
  four bytes in memory order, and the counter moves behind it.
\<close>

theorem ipv4_text_read:
  assumes s: "s = dotted a b c d @ e # rest" "\<not> c_isdigit e" and len: "length (dotted a b c d) < unat mx"
  shows "ndpi_bytestream_to_ipv4 s mx r = Some (of_le32 [a, b, c, d], r + word_of_nat (length (dotted a b c d)))"
proof -
  let ?A = "show_nat (unat a) @ [46]" and ?B = "show_nat (unat b) @ [46]" and ?C = "show_nat (unat c) @ [46]"
  have dot: "\<not> c_isdigit 46" by (simp add: c_isdigit_def)
  have 1: "ipv4_part True s mx 0 = Some (Some (ucast a, word_of_nat (length ?A)))"
    using ipv4_part_text [of s "[]" a 46 _ True mx] s dot len by (simp add: dotted_def)
  have 2: "ipv4_part True s mx (word_of_nat (length ?A)) = Some (Some (ucast b, word_of_nat (length (?A @ ?B))))"
    using ipv4_part_text [of s ?A b 46 _ True mx] s dot len by (simp add: dotted_def add.assoc del: of_nat_add of_nat_Suc)
  have 3: "ipv4_part True s mx (word_of_nat (length (?A @ ?B))) = Some (Some (ucast c, word_of_nat (length (?A @ ?B @ ?C))))"
    using ipv4_part_text [of s "?A @ ?B" c 46 _ True mx] s dot len by (simp add: dotted_def add.assoc del: of_nat_add of_nat_Suc)
  have 4: "ipv4_part False s mx (word_of_nat (length (?A @ ?B @ ?C))) = Some (Some (ucast d, word_of_nat (length (dotted a b c d))))"
    using ipv4_part_text [of s "?A @ ?B @ ?C" d e rest False mx] s dot len by (simp add: dotted_def add.assoc del: of_nat_add of_nat_Suc)
  show ?thesis unfolding ndpi_bytestream_to_ipv4_def 1 2 3 4 option.case prod.case bind.bind_lunit octets_sum by simp
qed

theorem ipv4_text_read_witness:
  "ndpi_bytestream_to_ipv4 (dotted 192 168 0 1 @ [32]) 64 5
     = Some (of_le32 [192, 168, 0, 1], 5 + word_of_nat (length (dotted 192 168 0 1)))"
proof (rule ipv4_text_read [OF refl])
  show "\<not> c_isdigit 32" by (simp add: c_isdigit_def)
  show "length (dotted 192 168 0 1) < unat (64 :: u16)" by (simp add: dotted_def show_nat.simps)
qed

text \<open>
  Numbers at their width. The decimal text of \<open>n\<close>, either of exactly the allowed length or
  followed by a character that is not a digit, is read as \<open>n\<close> modulo $2^{64}$, and the counter
  moves behind it; nothing behind the allowed length is read.
\<close>

theorem number64_read:
  assumes "length (show_nat n) \<le> unat mx"
    and "unat mx = length (show_nat n) \<or> rest \<noteq> [] \<and> \<not> c_isdigit (hd rest)"
  shows "ndpi_bytestream_to_number64 (show_nat n @ rest) mx r
     = Some (word_of_nat n, r + word_of_nat (length (show_nat n)))"
  unfolding ndpi_bytestream_to_number64_def
  using to_number64_digits [OF show_nat_digits assms] by (simp add: show_nat_value)

theorem number64_read_witness:
  "ndpi_bytestream_to_number64 (show_nat 1234567890123 @ []) 13 0
     = Some (word_of_nat 1234567890123, 0 + word_of_nat (length (show_nat 1234567890123)))"
  by (rule number64_read) (simp_all add: show_nat.simps)

text \<open>
  Reading one character too many. When the digits fill the allowed length and the block ends
  there, the 32-bit reader reads behind the block, where the 64-bit reader stops.
\<close>

theorem number_reads_behind:
  assumes "list_all c_isdigit ds" "length ds = unat mx"
  shows "ndpi_bytestream_to_number ds mx r = None
     \<and> ndpi_bytestream_to_number64 ds mx r = Some (digits_value ds 0, r + word_of_nat (length ds))"
proof -
  have "to_number_loop ds (length ds) v r = None" for v r
    using assms(1) by (induction ds arbitrary: v r) simp_all
  then show ?thesis using to_number64_digits [of ds "length ds" "[]" 0 r] assms
    by (simp add: ndpi_bytestream_to_number_def ndpi_bytestream_to_number64_def)
qed

theorem number_reads_behind_witness:
  "ndpi_bytestream_to_number [52, 50] 2 0 = None
     \<and> ndpi_bytestream_to_number64 [52, 50] 2 0 = Some (digits_value [52, 50] 0, 0 + word_of_nat (length [52 :: u8, 50]))"
  by (rule number_reads_behind) (simp_all add: c_isdigit_def)

text \<open>
  Parts beyond 255. The test that each part of an address is at most 255 is made after the
  part has wrapped modulo $2^{32}$: the text 4294967297.0.0.1 is read as the address 1.0.0.1.
\<close>

theorem ipv4_part_wraps:
  "ndpi_bytestream_to_ipv4 (str ''4294967297.0.0.1 '') 64 0 = Some (of_le32 [1, 0, 0, 1], 16)"
  by code_simp

end
