(* ===== verification/C_Strings.thy ===== *)
theory C_Strings
  imports Prelude "HOL-Library.Sublist"
begin

text \<open>
  String searching in \<^verbatim>\<open>ndpi_main.c\<close> (\<open>ndpi_strnstr\<close>, \<open>ndpi_strncasestr\<close>,
  \<open>ndpi_match_prefix\<close>, \<open>ndpi_ends_with\<close>) over the string functions of C that it uses. A pointer
  into a string is the rest of its block; a read behind the block gives \<open>None\<close>.
\<close>

section \<open>String functions of C\<close>

definition c_tolower :: "u8 \<Rightarrow> u8" where
  "c_tolower b = (if 65 \<le> b \<and> b \<le> 90 then b + 32 else b)"

text \<open>
  Whether \<open>strncmp\<close> (with \<open>f\<close> the identity) or \<open>strncasecmp\<close> (with \<open>f\<close> the lower case) of at
  most \<open>n\<close> characters returns 0: the comparison ends at the first difference and at a common
  zero byte.
\<close>

fun strncmp_eq :: "(u8 \<Rightarrow> u8) \<Rightarrow> nat \<Rightarrow> bytes \<Rightarrow> bytes \<Rightarrow> bool option" where
  "strncmp_eq f 0 s t = Some True"
| "strncmp_eq f (Suc n) (a # s) (b # t) =
     (if f a \<noteq> f b then Some False else if a = 0 then Some True else strncmp_eq f n s t)"
| "strncmp_eq f (Suc n) s t = None"

abbreviation c_strncmp :: "nat \<Rightarrow> bytes \<Rightarrow> bytes \<Rightarrow> bool option" where
  "c_strncmp \<equiv> strncmp_eq (\<lambda>b. b)"

abbreviation c_strncasecmp :: "nat \<Rightarrow> bytes \<Rightarrow> bytes \<Rightarrow> bool option" where
  "c_strncasecmp \<equiv> strncmp_eq c_tolower"

fun c_strnlen :: "bytes \<Rightarrow> nat \<Rightarrow> nat option" where
  "c_strnlen s 0 = Some 0"
| "c_strnlen [] (Suc n) = None"
| "c_strnlen (b # s) (Suc n) = (if b = 0 then Some 0 else map_option Suc (c_strnlen s n))"

section \<open>Searching\<close>

text \<open>
  The two nested loops of \<open>ndpi_strnstr\<close>: \<open>c\<close> is the first character looked for, \<open>rest\<close> what
  follows it, \<open>len\<close> how much of that is compared; \<open>pos\<close> is the offset of \<open>s\<close>.
\<close>

fun strnstr_loop :: "u8 \<Rightarrow> bytes \<Rightarrow> nat \<Rightarrow> bytes \<Rightarrow> nat \<Rightarrow> nat \<Rightarrow> nat option option" where
  "strnstr_loop c rest len s pos 0 = Some None"
| "strnstr_loop c rest len [] pos (Suc slen) = None"
| "strnstr_loop c rest len (sc # s) pos (Suc slen) =
     (if sc = 0 then Some None
      else if sc \<noteq> c then strnstr_loop c rest len s (pos + 1) slen
      else if slen < len then Some None
      else do {
        eq \<leftarrow> c_strncmp len s rest;
        if eq then Some (Some pos) else strnstr_loop c rest len s (pos + 1) slen
      })"

definition ndpi_strnstr :: "bytes \<Rightarrow> bytes \<Rightarrow> nat \<Rightarrow> nat option option" where
  "ndpi_strnstr s needle slen = do {
     c \<leftarrow> peek needle 0;
     if c \<noteq> 0 then do {
       len \<leftarrow> c_strnlen (tl needle) slen;
       strnstr_loop c (tl needle) len s 0 slen
     }
     else Some (Some 0)
   }"

fun strncasestr_loop :: "nat \<Rightarrow> bytes \<Rightarrow> nat \<Rightarrow> bytes \<Rightarrow> nat \<Rightarrow> nat option option" where
  "strncasestr_loop count str2 str2_len [] i = (if i < count then None else Some None)"
| "strncasestr_loop count str2 str2_len (b # s) i =
     (if i < count then
        if b = 0 then Some None
        else do {
          eq \<leftarrow> c_strncasecmp str2_len (b # s) str2;
          if eq then Some (Some i) else strncasestr_loop count str2 str2_len s (i + 1)
        }
      else Some None)"

text \<open>The bound of the loop is a \<open>size_t\<close> and wraps when the second string is the longer one.\<close>

definition ndpi_strncasestr :: "bytes \<Rightarrow> bytes \<Rightarrow> nat \<Rightarrow> nat option option" where
  "ndpi_strncasestr str1 str2 len = do {
     str1_len \<leftarrow> c_strnlen str1 len;
     str2_len \<leftarrow> c_strlen str2;
     strncasestr_loop (unat (word_of_nat str1_len - word_of_nat str2_len + 1 :: u64)) str2 str2_len str1 0
   }"

definition ndpi_match_prefix :: "bytes \<Rightarrow> nat \<Rightarrow> bytes \<Rightarrow> nat \<Rightarrow> bool option" where
  "ndpi_match_prefix payload payload_len s str_len =
     (if str_len \<le> payload_len then do {
        a \<leftarrow> peek_run payload 0 str_len;
        b \<leftarrow> peek_run s 0 str_len;
        Some (a = b)
      }
      else Some False)"

definition ndpi_ends_with :: "bytes option \<Rightarrow> bytes \<Rightarrow> bool option" where
  "ndpi_ends_with st ends = do {
     str_len \<leftarrow> (case st of Some s \<Rightarrow> c_strlen s | None \<Rightarrow> Some 0);
     n \<leftarrow> c_strlen ends;
     let ends_len = n mod 256;
     if str_len < ends_len then Some False
     else do {
       s \<leftarrow> st;
       c_strncmp ends_len (drop (str_len - ends_len) s) ends
     }
   }"

section \<open>The specification of searching\<close>

fun find_sub :: "bytes \<Rightarrow> bytes \<Rightarrow> nat option" where
  "find_sub p [] = (if p = [] then Some 0 else None)"
| "find_sub p (x # t) = (if prefix p (x # t) then Some 0 else map_option Suc (find_sub p t))"

text \<open>
  The text a search sees: the first \<open>n\<close> bytes, or those in front of a zero byte.
\<close>

definition visible :: "bytes \<Rightarrow> nat \<Rightarrow> bytes \<Rightarrow> bool" where
  "visible s n t \<longleftrightarrow> 0 \<notin> set t \<and> (\<exists>r. s = t @ r \<and> (length t = n \<or> length t < n \<and> r \<noteq> [] \<and> hd r = 0))"

lemma find_sub_short: "length t < length p \<Longrightarrow> find_sub p t = None"
proof (induction t)
  case (Cons x t)
  then show ?case using prefix_length_le [of p "x # t"] by fastforce
qed auto

lemma strncmp_prefix:
  assumes "\<And>a. f a = 0 \<longleftrightarrow> a = 0" "0 \<notin> set q" "0 \<notin> set t" "length q \<le> length t \<or> r \<noteq> [] \<and> hd r = 0"
  shows "strncmp_eq f (length q) (t @ r) (q @ z) = Some (prefix (map f q) (map f t))"
  using assms(2-4)
proof (induction q arbitrary: t)
  case (Cons a q)
  show ?case
  proof (cases t)
    case Nil
    have "a \<noteq> 0" using Cons.prems(1) by auto
    then have "f 0 = 0" "f a \<noteq> 0" using assms(1) [of 0] assms(1) [of a] by blast+
    moreover obtain r' where "r = 0 # r'" using Cons.prems(3) Nil by (cases r) auto
    ultimately show ?thesis by (simp add: Nil)
  next
    case t: (Cons b t')
    then have "b \<noteq> 0" "strncmp_eq f (length q) (t' @ r) (q @ z) = Some (prefix (map f q) (map f t'))"
      using Cons.IH [of t'] Cons.prems by simp_all
    then show ?thesis by (simp add: t)
  qed
qed simp

lemma strnlen_visible: "visible s n t \<Longrightarrow> c_strnlen s n = Some (length t)"
proof (induction s n arbitrary: t rule: c_strnlen.induct)
  case (3 b s n)
  show ?case
  proof (cases t)
    case Nil
    then show ?thesis using 3(2) by (auto simp: visible_def)
  next
    case (Cons a t')
    then have "visible s n t'" "b = a" "b \<noteq> 0" using 3(2) by (auto simp: visible_def)
    then show ?thesis using 3(1) Cons by simp
  qed
qed (auto simp: visible_def)

lemma strnstr_loop_visible:
  assumes "0 \<notin> set q" "c \<noteq> 0" "visible s slen t" "len = length q \<or> len \<le> length q \<and> slen \<le> len"
  shows "strnstr_loop c (cstr q) len s pos slen = Some (map_option ((+) pos) (find_sub (c # q) t))"
  using assms(3,4)
proof (induction t arbitrary: s pos slen)
  case Nil
  then show ?case by (cases slen; cases s) (auto simp: visible_def)
next
  case (Cons x t)
  then obtain s' n where s: "s = x # s'" "slen = Suc n" "visible s' n t" "x \<noteq> 0" "length t \<le> n"
    by (cases slen; cases s) (auto simp: visible_def)
  have ih: "strnstr_loop c (cstr q) len s' (pos + 1) n = Some (map_option ((+) (pos + 1)) (find_sub (c # q) t))"
    using Cons.IH [OF s(3)] Cons.prems(2) s(2) by auto
  have suc: "map_option ((+) (pos + 1)) v = map_option ((+) pos) (map_option Suc v)" for v
    by (cases v) simp_all
  show ?case
  proof (cases "x = c \<and> len \<le> n")
    case True
    then have len: "len = length q" using Cons.prems(2) s(2) by auto
    obtain r where r: "s' = t @ r" "length t = n \<or> r \<noteq> [] \<and> hd r = 0" "0 \<notin> set t" using s(3) by (auto simp: visible_def)
    have "c_strncmp len s' (cstr q) = Some (prefix q t)"
      using strncmp_prefix [of "\<lambda>b. b" q t r "[0]"] assms(1) r len True by (auto simp: cstr_def)
    then show ?thesis using True s ih suc by simp
  next
    case False
    have "find_sub (c # q) (x # t) = None" if "x = c" "n < len"
      using that Cons.prems(2) s(5) s(2) by (intro find_sub_short) auto
    then show ?thesis using False s ih suc by auto
  qed
qed

lemma c_tolower_zero: "c_tolower a = 0 \<longleftrightarrow> a = 0"
proof -
  have "a + 32 \<noteq> 0" if "a \<le> 90"
  proof
    assume "a + 32 = 0"
    then have "a = - 32" by (simp add: eq_neg_iff_add_eq_0)
    then show False using that by simp
  qed
  then show ?thesis by (auto simp: c_tolower_def)
qed

lemma strncasestr_loop_visible:
  assumes "0 \<notin> set q" "q \<noteq> []" "0 \<notin> set t" "count = i + (length t + 1 - length q)"
  shows "strncasestr_loop count (cstr q) (length q) (t @ r) i
     = Some (map_option ((+) i) (find_sub (map c_tolower q) (map c_tolower t)))"
  using assms(3,4)
proof (induction t arbitrary: i)
  case Nil
  then show ?case using assms(2) by (cases r; cases q) auto
next
  case (Cons x t)
  show ?case
  proof (cases "length q \<le> length (x # t)")
    case True
    have ih: "strncasestr_loop count (cstr q) (length q) (t @ r) (i + 1)
        = Some (map_option ((+) (i + 1)) (find_sub (map c_tolower q) (map c_tolower t)))"
    proof (rule Cons.IH)
      show "0 \<notin> set t" "count = i + 1 + (length t + 1 - length q)" using Cons.prems True by simp_all
    qed
    have suc: "map_option ((+) (i + 1)) v = map_option ((+) i) (map_option Suc v)" for v
      by (cases v) simp_all
    have "c_strncasecmp (length q) ((x # t) @ r) (cstr q) = Some (prefix (map c_tolower q) (map c_tolower (x # t)))"
      unfolding cstr_def using Cons.prems(1) assms(1) True by (intro strncmp_prefix c_tolower_zero) simp_all
    then show ?thesis using Cons.prems True ih suc by (auto simp del: strncmp_eq.simps)
  next
    case False
    then have "find_sub (map c_tolower q) (map c_tolower (x # t)) = None" by (intro find_sub_short) simp
    then show ?thesis using False Cons.prems by simp
  qed
qed

section \<open>Properties\<close>

text \<open>
  Bounded search. In the text a search of at most \<open>slen\<close> bytes sees, \<open>ndpi_strnstr\<close> returns
  the first occurrence of a string that is not empty, and \<open>NULL\<close> exactly when there is none,
  without reading behind the text's end or bound.
\<close>

theorem strnstr_first:
  assumes "visible s slen t" "0 \<notin> set p" "p \<noteq> []"
  shows "ndpi_strnstr s (cstr p) slen = Some (find_sub p t)"
proof -
  obtain c q where p: "p = c # q" using assms(3) by (cases p) auto
  have "c_strnlen (cstr q) slen = Some (min (length q) slen)"
  proof -
    have "visible (cstr q) slen (take slen q)"
      using assms(2) p in_set_takeD [of 0 slen q] by (cases "slen \<le> length q") (auto simp: visible_def cstr_def intro!: exI [of _ "drop slen q @ [0]"])
    then show ?thesis using strnlen_visible by (auto simp: min.commute)
  qed
  then show ?thesis
    using strnstr_loop_visible [of q c s slen t "min (length q) slen" 0] assms p
    by (cases "find_sub p t") (auto simp: ndpi_strnstr_def peek_def cstr_def min_def)
qed

theorem strnstr_first_witness:
  "ndpi_strnstr [65, 66, 65, 67, 68, 0] (cstr [65, 67]) 5 = Some (find_sub [65, 67] [65, 66, 65, 67, 68])"
  by (rule strnstr_first) (simp_all add: visible_def)

text \<open>
  Search without case. As long as the string looked for is not longer than the text that is
  searched, \<open>ndpi_strncasestr\<close> returns its first occurrence up to case and reads only the text.
\<close>

theorem strncasestr_first:
  assumes "visible s len t" "0 \<notin> set p" "p \<noteq> []" "length p \<le> length t" "length t < 2 ^ 63"
  shows "ndpi_strncasestr s (cstr p) len = Some (find_sub (map c_tolower p) (map c_tolower t))"
proof -
  obtain r where s: "s = t @ r" "0 \<notin> set t" using assms(1) by (auto simp: visible_def)
  have "word_of_nat (length t) - word_of_nat (length p) + 1 = (word_of_nat (length t + 1 - length p) :: u64)"
    using assms(4) by (simp add: Suc_diff_le of_nat_diff)
  moreover have "unat (word_of_nat (length t + 1 - length p) :: u64) = length t + 1 - length p"
    using assms(5) by (simp add: unat_of_nat take_bit_nat_eq_self)
  ultimately show ?thesis
    using strnlen_visible [OF assms(1)] strncasestr_loop_visible [OF assms(2,3) s(2), of _ 0 r] s(1) assms(2)
    by (cases "find_sub (map c_tolower p) (map c_tolower t)") (auto simp: ndpi_strncasestr_def)
qed

theorem strncasestr_first_witness:
  "ndpi_strncasestr [120, 72, 111, 83, 116, 0] (cstr [104, 79, 115]) 5
     = Some (find_sub (map c_tolower [104, 79, 115]) (map c_tolower [120, 72, 111, 83, 116]))"
  by (rule strncasestr_first) (simp_all add: visible_def)

text \<open>
  Search behind the bound. When the string looked for is longer than the bounded text by two
  or more, the bound of the loop wraps and the search goes on behind it: looking for HOST in the
  first byte of xhost finds it at offset 1.
\<close>

theorem strncasestr_leaves_bound:
  "ndpi_strncasestr (cstr [120, 104, 111, 115, 116]) (cstr [72, 79, 83, 84]) 1 = Some (Some 1)"
  by (simp add: ndpi_strncasestr_def cstr_def c_tolower_def)

text \<open>
  Suffixes. For strings and a suffix of at most 255 bytes, \<open>ndpi_ends_with\<close> decides whether the
  string ends with the suffix.
\<close>

theorem ends_with_suffix:
  assumes "0 \<notin> set s" "0 \<notin> set e" "length e < 256"
  shows "ndpi_ends_with (Some (cstr s)) (cstr e) = Some (suffix e s)"
proof (cases "length e \<le> length s")
  case True
  let ?t = "drop (length s - length e) s"
  have "c_strncmp (length e) (?t @ [0]) (e @ [0]) = Some (prefix (map (\<lambda>b. b) e) (map (\<lambda>b. b) ?t))"
    using assms in_set_dropD [of 0 "length s - length e" s] by (intro strncmp_prefix) auto
  moreover have "prefix e ?t \<longleftrightarrow> suffix e s"
  proof -
    have "prefix e ?t \<longleftrightarrow> e = ?t" 
    proof -
      have "length e = length ?t" using True by simp
      then show ?thesis using prefix_length_less [of e ?t] by (auto simp: strict_prefix_def)
    qed
    also have "\<dots> \<longleftrightarrow> suffix e s"
    proof
      show "suffix e s" if "e = ?t" using suffix_drop [of "length s - length e" s] that by simp
    qed (auto simp: suffix_def)
    finally show ?thesis .
  qed
  ultimately show ?thesis using True assms by (simp add: ndpi_ends_with_def cstr_def c_strlen_append)
next
  case False
  then show ?thesis using assms suffix_length_le [of e s] by (auto simp: ndpi_ends_with_def)
qed

theorem ends_with_suffix_witness:
  "ndpi_ends_with (Some (cstr [97, 46, 105, 111])) (cstr [46, 105, 111]) = Some (suffix [46 :: u8, 105, 111] [97, 46, 105, 111])"
  by (rule ends_with_suffix) simp_all

end
