(* ===== verification/Http_Lines.thy ===== *)
theory Http_Lines
  imports Packet_Layer C_Strings
begin

text \<open>
  The line parser of \<^verbatim>\<open>ndpi_main.c\<close>: \<open>ndpi_parse_packet_line_info\<close>, which splits the payload of a
  packet into lines and remembers where the values of well-known HTTP headers stand, and
  \<open>ndpi_parse_packet_line_info_any\<close>, which only splits. Pointers are offsets into the block of the
  packet; reads are checked against the block and accesses to the array of lines against its 64
  elements. The lemmas are in \<open>Http_Safety\<close> and \<open>Http_Split\<close>.
\<close>

abbreviation (input) NDPI_MAX_PARSE_LINES_PER_PACKET :: nat where "NDPI_MAX_PARSE_LINES_PER_PACKET \<equiv> 64"

section \<open>Lines and headers\<close>

definition set_line :: "ndpi_packet \<Rightarrow> nat \<Rightarrow> nat option \<times> nat \<Rightarrow> ndpi_packet option" where
  "set_line p k l = (if k < length (line p) then Some (p\<lparr>line := (line p)[k := l]\<rparr>) else None)"

definition get_line :: "ndpi_packet \<Rightarrow> nat \<Rightarrow> (nat \<times> nat) option" where
  "get_line p k = (if k < length (line p) then map_option (\<lambda>q. (q, snd (line p ! k))) (fst (line p ! k)) else None)"

definition set_named :: "packet_line \<Rightarrow> nat \<Rightarrow> nat \<Rightarrow> ndpi_packet \<Rightarrow> ndpi_packet" where
  "set_named h q n p =
     p\<lparr>named_lines := (named_lines p)(h := (Some q, n)), http_num_headers := (http_num_headers p + 1) mod 256\<rparr>"

text \<open>
  Whether a line of \<open>n\<close> bytes at \<open>q\<close> is longer than \<open>k\<close> and starts with a name, without regard
  to case.
\<close>

definition line_starts :: "bytes \<Rightarrow> nat \<Rightarrow> nat \<Rightarrow> nat \<Rightarrow> bytes \<Rightarrow> bool option" where
  "line_starts m q n k name = (if k < n then c_strncasecmp (length name) (drop q m) (cstr name) else Some False)"

text \<open>
  The three headers after whose colon one blank is skipped if it is there, and the headers whose
  name ends with the blank, each in the order of the source.
\<close>

definition colon_headers :: "(bytes \<times> packet_line) list" where
  "colon_headers =
     [(str ''Server:'', server_line), (str ''Host:'', host_line), (str ''X-Forwarded-For:'', forwarded_line)]"

definition blank_headers :: "(bytes \<times> packet_line) list" where
  "blank_headers =
     [(str ''Authorization: '', authorization_line), (str ''Accept: '', accept_line),
      (str ''Referer: '', referer_line), (str ''User-agent: '', user_agent_line),
      (str ''Content-Encoding: '', http_encoding), (str ''Transfer-Encoding: '', http_transfer_encoding),
      (str ''content-length: '', http_contentlen), (str ''Content-Disposition: '', content_disposition_line),
      (str ''Cookie: '', http_cookie), (str ''Origin: '', http_origin),
      (str ''X-Session-Type: '', http_x_session_type)]"

definition counted_headers :: "bytes list" where
  "counted_headers =
     [str ''Date: '', str ''Vary: '', str ''ETag: '', str ''Pragma: '', str ''Expires: '', str ''Set-Cookie: '',
      str ''Keep-Alive: '', str ''Connection: '', str ''Last-Modified: '', str ''Accept-Ranges: '',
      str ''Accept-Language: '', str ''Accept-Encoding: '', str ''Upgrade-Insecure-Requests: '']"

text \<open>The first name of a list that the line starts with; \<open>x\<close> is added to the length it must exceed.\<close>

fun first_header :: "bytes \<Rightarrow> nat \<Rightarrow> nat \<Rightarrow> nat \<Rightarrow> (bytes \<times> 'a) list \<Rightarrow> (bytes \<times> 'a) option option" where
  "first_header m q n x [] = Some None"
| "first_header m q n x (h # hs) = do {
     b \<leftarrow> line_starts m q n (length (fst h) + x) (fst h);
     if b then Some (Some h) else first_header m q n x hs
   }"

text \<open>The loop that moves over leading blanks.\<close>

fun skip_blanks :: "bytes \<Rightarrow> nat \<Rightarrow> nat \<Rightarrow> (nat \<times> nat) option" where
  "skip_blanks m q 0 = Some (q, 0)"
| "skip_blanks m q (Suc n) = do {
     b \<leftarrow> peek m q;
     if b = 32 then skip_blanks m (q + 1) n else Some (q, Suc n)
   }"

definition content_type_line :: "bytes \<Rightarrow> nat \<Rightarrow> nat \<Rightarrow> ndpi_packet \<Rightarrow> ndpi_packet option" where
  "content_type_line m q n p = do {
     b \<leftarrow> line_starts m q n 14 (str ''Content-Type: '');
     if b then do {
       (q, n) \<leftarrow> skip_blanks m (q + 14) (n - 14);
       Some (set_named content_line q n p)
     }
     else if snd (named_lines p content_line) = 0 then do {
       b \<leftarrow> line_starts m q n 13 (str ''Content-type:'');
       Some (if b then set_named content_line (q + 13) (n - 13) p else p)
     }
     else Some p
   }"

definition header_line :: "bytes \<Rightarrow> nat \<Rightarrow> nat \<Rightarrow> ndpi_packet \<Rightarrow> ndpi_packet option" where
  "header_line m q n p = do {
     r \<leftarrow> first_header m q n 1 colon_headers;
     case r of
       Some (name, h) \<Rightarrow> do {
         b \<leftarrow> peek m (q + length name);
         let k = (if b = 32 then length name + 1 else length name);
         Some (set_named h (q + k) (n - k) p)
       }
     | None \<Rightarrow> do {
         r \<leftarrow> first_header m q n 0 blank_headers;
         case r of
           Some (name, h) \<Rightarrow>
             if h = authorization_line then do {
               (q, n) \<leftarrow> skip_blanks m (q + length name) (n - length name);
               Some (set_named h q n p)
             }
             else Some (set_named h (q + length name) (n - length name) p)
         | None \<Rightarrow> do {
             r \<leftarrow> first_header m q n 0 (map (\<lambda>name. (name, ())) counted_headers);
             case r of
               Some _ \<Rightarrow> Some (p\<lparr>http_num_headers := (http_num_headers p + 1) mod 256\<rparr>)
             | None \<Rightarrow> content_type_line m q n p
           }
       }
   }"

section \<open>The end of a line\<close>

text \<open>The bytes behind an empty line: at most eight of them are kept in the flow.\<close>

definition keep_binary_bytes :: "bytes \<Rightarrow> nat \<Rightarrow> nat \<Rightarrow> nat \<Rightarrow> ndpi_flow \<Rightarrow> ndpi_flow option" where
  "keep_binary_bytes m base len a f =
     (if a + 3 < len then do {
        x \<leftarrow> peek m (base + a + 2);
        y \<leftarrow> (if x = 13 then peek m (base + a + 3) else Some 0);
        if x = 13 \<and> y = 10 \<and> 0 < len - (a + 4) then do {
          let diff = min (len - (a + 4)) 8;
          bs \<leftarrow> peek_run m (base + a + 4) diff;
          Some (f\<lparr>initial_binary_bytes := bs @ drop diff (initial_binary_bytes f), initial_binary_bytes_len := diff\<rparr>)
        }
        else Some f
      }
      else Some f)"

text \<open>
  The first line of a response. \<open>strncpy\<close> copies three characters, or fewer when one is zero, and
  the status is 0 when \<open>atoi\<close> gives a number out of range.
\<close>

definition status_code :: "bytes \<Rightarrow> nat \<Rightarrow> nat \<Rightarrow> ndpi_flow \<Rightarrow> ndpi_flow option" where
  "status_code m base len f =
     (if 12 \<le> len then do {
        bs \<leftarrow> peek_run m (base + 9) 3;
        i \<leftarrow> c_atoi (takeWhile (\<lambda>b. b \<noteq> 0) bs @ [0]);
        let code = nat (i mod 2 ^ 16);
        Some (f\<lparr>response_status_code := if code < 100 \<or> 509 < code then 0 else code\<rparr>)
      }
      else Some f)"

definition response_line :: "bytes \<Rightarrow> nat \<Rightarrow> nat \<Rightarrow> nat \<Rightarrow> nat \<Rightarrow> ndpi_packet \<Rightarrow> ndpi_flow \<Rightarrow> (ndpi_packet \<times> ndpi_flow) option" where
  "response_line m base len q n p f = do {
     b \<leftarrow> (if parsed_lines p = 0 \<and> 13 \<le> n then c_strncasecmp 7 (drop q m) (cstr (str ''HTTP/1.'')) else Some False);
     if b then do {
       c \<leftarrow> peek m (q + 9);
       if 48 < c \<and> c < 54 then do {
         let p = set_named http_response (q + 9) (n - 9) p;
         f \<leftarrow> status_code m base len f;
         Some (p, f)
       }
       else Some (p, f)
     }
     else Some (p, f)
   }"

text \<open>The content type ends in front of a semicolon and of a carriage return.\<close>

definition cut_at :: "bytes \<Rightarrow> u8 \<Rightarrow> ndpi_packet \<Rightarrow> ndpi_packet option" where
  "cut_at m c p =
     (case named_lines p content_line of
        (Some q, n) \<Rightarrow> do {
          bs \<leftarrow> peek_run m q n;
          Some (p\<lparr>named_lines := (named_lines p)(content_line := (Some q, length (takeWhile (\<lambda>b. b \<noteq> c) bs)))\<rparr>)
        }
      | (None, n) \<Rightarrow> None)"

definition cut_content_type :: "bytes \<Rightarrow> ndpi_packet \<Rightarrow> ndpi_packet option" where
  "cut_content_type m p =
     (if 0 < snd (named_lines p content_line) then do { p \<leftarrow> cut_at m 59 p; cut_at m 13 p } else Some p)"

text \<open>What is done at a line break at \<open>a\<close>; the flag is the early return.\<close>

definition end_of_line ::
  "bytes \<Rightarrow> nat \<Rightarrow> nat \<Rightarrow> nat \<Rightarrow> ndpi_packet \<Rightarrow> ndpi_flow \<Rightarrow> (bool \<times> ndpi_packet \<times> ndpi_flow) option" where
  "end_of_line m base len a p f = do {
     f \<leftarrow> keep_binary_bytes m base len a f;
     (q, _) \<leftarrow> get_line p (parsed_lines p);
     let n = c_u16 (base + a - q);
     p \<leftarrow> set_line p (parsed_lines p) (Some q, n);
     (p, f) \<leftarrow> response_line m base len q n p f;
     p \<leftarrow> header_line m q n p;
     p \<leftarrow> cut_content_type m p;
     let p = (if n = 0 then p\<lparr>empty_line_position := c_u16 a, empty_line_position_set := True\<rparr> else p);
     if NDPI_MAX_PARSE_LINES_PER_PACKET - 1 \<le> parsed_lines p then Some (True, p, f)
     else do {
       let p = p\<lparr>parsed_lines := parsed_lines p + 1\<rparr>;
       p \<leftarrow> set_line p (parsed_lines p) (Some (base + a + 2), 0);
       Some (False, p, f)
     }
   }"

definition at_line_break :: "bytes \<Rightarrow> nat \<Rightarrow> bool option" where
  "at_line_break m i = do {
     x \<leftarrow> peek m i;
     if x = 13 then map_option (\<lambda>y. y = 10) (peek m (i + 1)) else Some False
   }"

function lines_loop ::
  "bytes \<Rightarrow> nat \<Rightarrow> nat \<Rightarrow> nat \<Rightarrow> ndpi_packet \<Rightarrow> ndpi_flow \<Rightarrow> (bool \<times> ndpi_packet \<times> ndpi_flow) option" where
  "lines_loop m base len a p f =
     (if a + 1 < len \<and> parsed_lines p < NDPI_MAX_PARSE_LINES_PER_PACKET then do {
        nl \<leftarrow> at_line_break m (base + a);
        if nl then do {
          (ret, p, f) \<leftarrow> end_of_line m base len a p f;
          if ret then Some (True, p, f) else lines_loop m base len (a + 2) p f
        }
        else lines_loop m base len (a + 1) p f
      }
      else Some (False, p, f))"
  by pat_completeness auto
termination
  by (relation "measure (\<lambda>(m, base, len, a, p, f). len - a)") auto

declare lines_loop.simps [simp del]

definition ndpi_parse_packet_line_info ::
  "bytes \<Rightarrow> ndpi_packet \<Rightarrow> ndpi_flow \<Rightarrow> (ndpi_packet \<times> ndpi_flow) option" where
  "ndpi_parse_packet_line_info m p f =
     (case payload p of
        None \<Rightarrow> Some (p, f)
      | Some base \<Rightarrow>
          let len = payload_packet_len p
          in if len < 3 then Some (p, f)
             else if packet_lines_parsed_complete p then Some (p, f)
             else do {
               let p = ndpi_reset_packet_line_info (p\<lparr>packet_lines_parsed_complete := True\<rparr>);
               p \<leftarrow> set_line p 0 (Some base, 0);
               (ret, p, f) \<leftarrow> lines_loop m base len 0 p f;
               if \<not> ret \<and> 1 \<le> parsed_lines p then do {
                 (q, _) \<leftarrow> get_line p (parsed_lines p);
                 p \<leftarrow> set_line p (parsed_lines p) (Some q, c_u16 (base + len - q));
                 Some (p\<lparr>parsed_lines := parsed_lines p + 1\<rparr>, f)
               }
               else Some (p, f)
             })"

section \<open>Lines of any text\<close>

function any_loop :: "bytes \<Rightarrow> nat \<Rightarrow> nat \<Rightarrow> nat \<Rightarrow> ndpi_packet \<Rightarrow> ndpi_packet option" where
  "any_loop m base len a p =
     (if a < len then do {
        x \<leftarrow> peek m (base + a);
        if x = 10 then do {
          (q, _) \<leftarrow> get_line p (parsed_lines p);
          let n = c_u16 (base + a - q);
          cr \<leftarrow> (if 0 < a then map_option (\<lambda>y. y = 13) (peek m (base + a - 1)) else Some False);
          let n = (if cr then c_u16 (n + 65535) else n);
          p \<leftarrow> set_line p (parsed_lines p) (Some q, n);
          if NDPI_MAX_PARSE_LINES_PER_PACKET - 1 \<le> parsed_lines p then Some p
          else do {
            let p = p\<lparr>parsed_lines := parsed_lines p + 1\<rparr>;
            p \<leftarrow> set_line p (parsed_lines p) (Some (base + a + 1), 0);
            if payload_packet_len p \<le> a + 1 then Some p else any_loop m base len (a + 1) p
          }
        }
        else any_loop m base len (a + 1) p
      }
      else Some p)"
  by pat_completeness auto
termination
  by (relation "measure (\<lambda>(m, base, len, a, p). len - a)") auto

declare any_loop.simps [simp del]

text \<open>A packet with a payload length has a payload; without one the length is 0.\<close>

definition ndpi_parse_packet_line_info_any :: "bytes \<Rightarrow> ndpi_packet \<Rightarrow> ndpi_packet option" where
  "ndpi_parse_packet_line_info_any m p =
     (if packet_lines_parsed_complete p then Some p
      else
        let p = p\<lparr>packet_lines_parsed_complete := True, parsed_lines := 0\<rparr>
        in if payload_packet_len p = 0 then Some p
           else do {
             base \<leftarrow> payload p;
             p \<leftarrow> set_line p 0 (Some base, 0);
             any_loop m base (payload_packet_len p) 0 p
           })"

end
