(* ===== verification/Http_Safety.thy ===== *)
theory Http_Safety
  imports Http_Lines Packet_Safety
begin

text \<open>
  The line parser on arbitrary payloads: every read stays inside the packet, every access to the
  array of lines inside its 64 elements, and what the parser leaves behind lies inside the payload.
\<close>

section \<open>Reads\<close>

lemma strncmp_total: "n \<le> length s \<Longrightarrow> n \<le> length t \<Longrightarrow> \<exists>b. strncmp_eq f n s t = Some b"
proof (induction f n s t rule: strncmp_eq.induct)
qed auto

lemma line_starts_total:
  assumes "q + n \<le> length m" "length name \<le> k"
  shows "\<exists>b. line_starts m q n k name = Some b \<and> (b \<longrightarrow> k < n)"
proof (cases "k < n")
  case True
  then have "\<exists>b. c_strncasecmp (length name) (drop q m) (cstr name) = Some b"
    using assms by (intro strncmp_total) auto
  then show ?thesis using True by (simp add: line_starts_def)
qed (auto simp: line_starts_def)

lemma first_header_total:
  assumes "q + n \<le> length m"
  shows "\<exists>r. first_header m q n x hs = Some r \<and> (\<forall>h. r = Some h \<longrightarrow> h \<in> set hs \<and> length (fst h) + x < n)"
proof (induction hs)
  case (Cons h hs)
  obtain b where "line_starts m q n (length (fst h) + x) (fst h) = Some b" "b \<longrightarrow> length (fst h) + x < n"
    using line_starts_total [OF assms, of "fst h" "length (fst h) + x"] by auto
  then show ?case using Cons by (cases b) auto
qed simp

lemma skip_blanks_total:
  "q + n \<le> length m \<Longrightarrow> \<exists>q' n'. skip_blanks m q n = Some (q', n') \<and> q \<le> q' \<and> q' + n' = q + n"
proof (induction m q n rule: skip_blanks.induct)
  case (2 m q n)
  then have b: "peek m q = Some (m ! q)" by (simp add: peek_def)
  show ?case
  proof (cases "m ! q = 32")
    case True
    then obtain q' n' where "skip_blanks m (q + 1) n = Some (q', n') \<and> q + 1 \<le> q' \<and> q' + n' = q + 1 + n"
      using 2 b by fastforce
    then show ?thesis using b True by auto
  qed (use b in simp)
qed simp

lemma atoi_small:
  assumes "length bs \<le> 3"
  shows "\<exists>i. c_atoi (bs @ [0]) = Some i"
proof -
  have rd: "\<exists>n. read_digits acc (xs @ [0]) = Some n \<and> n < (acc + 1) * 10 ^ length xs" for acc xs
  proof (induction xs arbitrary: acc)
    case (Cons x xs)
    show ?case
    proof (cases "c_isdigit x")
      case True
      then have "unat x - 48 \<le> 9" by (auto simp: c_isdigit_def word_le_nat_alt)
      then have "10 * acc + (unat x - 48) + 1 \<le> (acc + 1) * 10" by simp
      then have "(10 * acc + (unat x - 48) + 1) * 10 ^ length xs \<le> (acc + 1) * 10 * 10 ^ length xs"
        by (rule mult_le_mono1)
      then have "(10 * acc + (unat x - 48) + 1) * 10 ^ length xs \<le> (acc + 1) * 10 ^ length (x # xs)"
        by (simp only: length_Cons power_Suc mult.assoc)
      then show ?thesis using Cons.IH [of "10 * acc + (unat x - 48)"] True by fastforce
    next
      case False
      have "acc + 1 \<le> (acc + 1) * 10 ^ length (x # xs)" by (metis mult.right_neutral mult_le_mono2 one_le_numeral one_le_power)
      then show ?thesis using False by simp
    qed
  qed (simp add: c_isdigit_def)
  have sp: "\<exists>ys. skip_space (xs @ [0]) = ys @ [0] \<and> length ys \<le> length xs" for xs
    by (induction xs) (auto simp: c_isspace_def intro: exI [of _ "[]"])
  obtain ys where ys: "skip_space (bs @ [0]) = ys @ [0]" "length ys \<le> 3" using sp [of bs] assms by auto
  define zs where "zs = (if ys \<noteq> [] \<and> (hd ys = 45 \<or> hd ys = 43) then tl ys else ys)"
  have "(if ys @ [0] \<noteq> [] \<and> (hd (ys @ [0]) = 45 \<or> hd (ys @ [0]) = 43) then tl (ys @ [0]) else ys @ [0]) = zs @ [0]"
    by (cases ys) (auto simp: zs_def)
  moreover have "length zs \<le> 3" using ys(2) by (auto simp: zs_def)
  moreover obtain n where n: "read_digits 0 (zs @ [0]) = Some n" "n < 10 ^ length zs" using rd [of 0 zs] by auto
  moreover have "(10 :: nat) ^ length zs \<le> 10 ^ 3" using \<open>length zs \<le> 3\<close> by (intro power_increasing) auto
  ultimately show ?thesis using ys(1) by (auto simp: c_atoi_def Let_def)
qed

section \<open>What a step changes\<close>

text \<open>A pointer with a length that is null and empty, or lies inside the payload.\<close>

definition inside :: "nat \<Rightarrow> nat \<Rightarrow> nat option \<times> nat \<Rightarrow> bool" where
  "inside base len l \<longleftrightarrow> (case fst l of None \<Rightarrow> snd l = 0 | Some q \<Rightarrow> base \<le> q \<and> q + snd l \<le> base + len)"

text \<open>Only the named lines and the number of headers changed, and every named line is inside.\<close>

definition names_step :: "nat \<Rightarrow> nat \<Rightarrow> ndpi_packet \<Rightarrow> ndpi_packet \<Rightarrow> bool" where
  "names_step base len p p' \<longleftrightarrow>
     (\<exists>nl h. p' = p\<lparr>named_lines := nl, http_num_headers := h\<rparr> \<and> (\<forall>l. inside base len (nl l)))"

abbreviation names_ok :: "nat \<Rightarrow> nat \<Rightarrow> ndpi_packet \<Rightarrow> bool" where
  "names_ok base len p \<equiv> \<forall>l. inside base len (named_lines p l)"

lemma names_step_refl: "names_ok base len p \<Longrightarrow> names_step base len p p"
  unfolding names_step_def by (rule exI [of _ "named_lines p"], rule exI [of _ "http_num_headers p"]) simp

lemma names_step_trans: "names_step base len p p' \<Longrightarrow> names_step base len p' p'' \<Longrightarrow> names_step base len p p''"
  unfolding names_step_def by force

lemma names_step_ok: "names_step base len p p' \<Longrightarrow> names_ok base len p'"
  unfolding names_step_def by auto

lemma names_step_named:
  assumes "names_ok base len p" "base \<le> q" "q + n \<le> base + len"
  shows "names_step base len p (set_named h q n p)"
proof -
  have "inside base len (((named_lines p)(h := (Some q, n))) l)" for l
    using assms by (cases "l = h") (simp_all add: inside_def)
  then show ?thesis unfolding names_step_def set_named_def by blast
qed

lemma names_step_count: "names_ok base len p \<Longrightarrow> names_step base len p (p\<lparr>http_num_headers := h\<rparr>)"
  unfolding names_step_def by (rule exI [of _ "named_lines p"], rule exI [of _ h]) simp

lemma content_type_line_safe:
  assumes "names_ok base len p" "base \<le> q" "q + n \<le> base + len" "base + len \<le> length m"
  shows "\<exists>p'. content_type_line m q n p = Some p' \<and> names_step base len p p'"
proof -
  have qn: "q + n \<le> length m" using assms by simp
  obtain b where b: "line_starts m q n 14 (str ''Content-Type: '') = Some b" "b \<longrightarrow> 14 < n"
    using line_starts_total [OF qn, of "str ''Content-Type: ''" 14] by auto
  obtain c where c: "line_starts m q n 13 (str ''Content-type:'') = Some c" "c \<longrightarrow> 13 < n"
    using line_starts_total [OF qn, of "str ''Content-type:''" 13] by auto
  show ?thesis
  proof (cases b)
    case True
    then obtain q' n' where "skip_blanks m (q + 14) (n - 14) = Some (q', n')" "q + 14 \<le> q'" "q' + n' = q + n"
      using skip_blanks_total [of "q + 14" "n - 14" m] b qn by fastforce
    moreover from this have "names_step base len p (set_named content_line q' n' p)"
      using assms by (intro names_step_named) auto
    ultimately show ?thesis using b True by (simp add: content_type_line_def)
  next
    case False
    moreover have "names_step base len p (set_named content_line (q + 13) (n - 13) p)" if c
      using assms c that by (intro names_step_named) auto
    ultimately show ?thesis using b c names_step_refl [OF assms(1)] by (cases c) (auto simp: content_type_line_def)
  qed
qed

lemma header_line_safe:
  assumes "names_ok base len p" "base \<le> q" "q + n \<le> base + len" "base + len \<le> length m"
  shows "\<exists>p'. header_line m q n p = Some p' \<and> names_step base len p p'"
proof -
  have qn: "q + n \<le> length m" using assms by simp
  obtain r where r: "first_header m q n 1 colon_headers = Some r" "\<forall>h. r = Some h \<longrightarrow> length (fst h) + 1 < n"
    using first_header_total [OF qn] by blast
  obtain s where s: "first_header m q n 0 blank_headers = Some s" "\<forall>h. s = Some h \<longrightarrow> length (fst h) < n"
    using first_header_total [OF qn, of 0 blank_headers] by auto
  obtain t where t: "first_header m q n 0 (map (\<lambda>name. (name, ())) counted_headers) = Some t"
    using first_header_total [OF qn] by blast
  obtain p1 where p1: "content_type_line m q n p = Some p1" "names_step base len p p1"
    using content_type_line_safe [OF assms] by blast
  show ?thesis
  proof (cases r)
    case (Some h)
    define k where "k = (if m ! (q + length (fst h)) = 32 then length (fst h) + 1 else length (fst h))"
    have "peek m (q + length (fst h)) = Some (m ! (q + length (fst h)))"
      using r(2) Some qn by (auto simp: peek_def)
    moreover have "names_step base len p (set_named (snd h) (q + k) (n - k) p)"
      using r(2) Some assms by (intro names_step_named) (auto simp: k_def)
    ultimately show ?thesis using r(1) Some by (cases h) (auto simp: header_line_def k_def Let_def split: if_splits)
  next
    case None
    show ?thesis
    proof (cases s)
      case (Some h)
      obtain q' n' where k: "skip_blanks m (q + length (fst h)) (n - length (fst h)) = Some (q', n')"
          "q + length (fst h) \<le> q'" "q' + n' = q + n"
        using skip_blanks_total [of "q + length (fst h)" "n - length (fst h)" m] s(2) Some qn by fastforce
      have "names_step base len p (set_named (snd h) q' n' p)"
        "names_step base len p (set_named (snd h) (q + length (fst h)) (n - length (fst h)) p)"
        using s(2) Some assms k by (intro names_step_named; auto)+
      then show ?thesis using r(1) None s(1) Some k by (cases h) (auto simp: header_line_def)
    next
      case None2: None
      then show ?thesis using r(1) None s(1) t p1 names_step_count [OF assms(1)]
        by (cases t) (auto simp: header_line_def)
    qed
  qed
qed

lemma cut_at_safe:
  assumes "names_ok base len p" "base + len \<le> length m" "fst (named_lines p content_line) \<noteq> None"
  shows "\<exists>p'. cut_at m c p = Some p' \<and> names_step base len p p' \<and> fst (named_lines p' content_line) \<noteq> None"
proof -
  obtain q n where qn: "named_lines p content_line = (Some q, n)" using assms(3) by (cases "named_lines p content_line") auto
  then have in_m: "base \<le> q" "q + n \<le> base + len" using assms(1) [rule_format, of content_line] by (simp_all add: inside_def)
  define nl where "nl = (named_lines p)(content_line := (Some q, length (takeWhile (\<lambda>b. b \<noteq> c) (take n (drop q m)))))"
  have le: "length (takeWhile (\<lambda>b. b \<noteq> c) (take n (drop q m))) \<le> n"
    using length_takeWhile_le [of "\<lambda>b. b \<noteq> c" "take n (drop q m)"] by simp
  have "inside base len (nl l)" for l
    using assms(1) in_m le by (cases "l = content_line") (auto simp: nl_def inside_def)
  moreover have "cut_at m c p = Some (p\<lparr>named_lines := nl\<rparr>)"
    using qn in_m assms(2) by (simp add: cut_at_def peek_run_def nl_def)
  moreover have "p\<lparr>named_lines := nl\<rparr> = p\<lparr>named_lines := nl, http_num_headers := http_num_headers p\<rparr>" by simp
  ultimately have "names_step base len p (p\<lparr>named_lines := nl\<rparr>)" "cut_at m c p = Some (p\<lparr>named_lines := nl\<rparr>)"
    unfolding names_step_def by blast+
  then show ?thesis by (simp add: nl_def)
qed

lemma cut_content_type_safe:
  assumes "names_ok base len p" "base + len \<le> length m"
  shows "\<exists>p'. cut_content_type m p = Some p' \<and> names_step base len p p'"
proof (cases "0 < snd (named_lines p content_line)")
  case True
  then have "fst (named_lines p content_line) \<noteq> None" 
    using assms(1) [rule_format, of content_line] by (auto simp: inside_def split: option.splits)
  then obtain p1 where p1: "cut_at m 59 p = Some p1" "names_step base len p p1" "fst (named_lines p1 content_line) \<noteq> None"
    using cut_at_safe [OF assms, of 59] by blast
  obtain p2 where "cut_at m 13 p1 = Some p2" "names_step base len p1 p2"
    using cut_at_safe [OF names_step_ok [OF p1(2)] assms(2) p1(3)] by blast
  then show ?thesis using True p1 names_step_trans by (auto simp: cut_content_type_def)
qed (use names_step_refl [OF assms(1)] in \<open>simp add: cut_content_type_def\<close>)

lemma keep_binary_bytes_safe:
  assumes "base + len \<le> length m"
  shows "\<exists>f'. keep_binary_bytes m base len a f = Some f'"
  using assms by (auto simp: keep_binary_bytes_def peek_def peek_run_def Let_def)

lemma status_code_safe:
  assumes "base + len \<le> length m"
  shows "\<exists>f'. status_code m base len f = Some f'"
proof (cases "12 \<le> len")
  case True
  define bs where "bs = take 3 (drop (base + 9) m)"
  have "peek_run m (base + 9) 3 = Some bs" using True assms by (simp add: peek_run_def bs_def)
  moreover have "length (takeWhile (\<lambda>b. b \<noteq> 0) bs) \<le> 3"
    using length_takeWhile_le [of "\<lambda>b. b \<noteq> 0" bs] by (simp add: bs_def)
  then obtain i where "c_atoi (takeWhile (\<lambda>b. b \<noteq> 0) bs @ [0]) = Some i" using atoi_small by blast
  ultimately show ?thesis using True by (simp add: status_code_def Let_def)
qed (simp add: status_code_def)

lemma response_line_safe:
  assumes "names_ok base len p" "base \<le> q" "q + n \<le> base + len" "base + len \<le> length m"
  shows "\<exists>p' f'. response_line m base len q n p f = Some (p', f') \<and> names_step base len p p'"
proof (cases "parsed_lines p = 0 \<and> 13 \<le> n")
  case True
  have "\<exists>b. c_strncasecmp 7 (drop q m) (cstr (str ''HTTP/1.'')) = Some b"
    using assms True by (intro strncmp_total) auto
  then obtain b where b: "c_strncasecmp 7 (drop q m) (cstr (str ''HTTP/1.'')) = Some b" by blast
  have "peek m (q + 9) = Some (m ! (q + 9))" using assms True by (simp add: peek_def)
  moreover have "names_step base len p (set_named http_response (q + 9) (n - 9) p)"
    using assms True by (intro names_step_named) auto
  moreover obtain f' where "status_code m base len f = Some f'" using status_code_safe [OF assms(4)] by blast
  ultimately show ?thesis using True b names_step_refl [OF assms(1)]
    by (cases b) (auto simp: response_line_def Let_def)
qed (use names_step_refl [OF assms(1)] in \<open>auto simp: response_line_def\<close>)

section \<open>The end of a line and the loop\<close>

text \<open>
  Between two lines: the array has its 64 elements, the current line starts inside the part that
  was read, the finished lines and the named lines are inside the payload.
\<close>

definition lines_inv :: "nat \<Rightarrow> nat \<Rightarrow> nat \<Rightarrow> ndpi_packet \<Rightarrow> bool" where
  "lines_inv base len a p \<longleftrightarrow>
     length (line p) = 64 \<and> parsed_lines p < 64
     \<and> (\<exists>q. fst (line p ! parsed_lines p) = Some q \<and> base \<le> q \<and> q \<le> base + a)
     \<and> (\<forall>i < parsed_lines p. inside base len (line p ! i)) \<and> names_ok base len p"

text \<open>The state after a line break at \<open>a\<close>, up to what the headers set.\<close>

definition broken :: "nat \<Rightarrow> nat \<Rightarrow> ndpi_packet \<Rightarrow> ndpi_packet \<Rightarrow> bool" where
  "broken base a p p' \<longleftrightarrow>
     line p' = (line p)[parsed_lines p := (fst (line p ! parsed_lines p), base + a - the (fst (line p ! parsed_lines p))),
                        Suc (parsed_lines p) := (Some (base + a + 2), 0)]
     \<and> parsed_lines p' = Suc (parsed_lines p)"

lemma end_of_line_safe:
  assumes "lines_inv base len a p" "a + 2 \<le> len" "len < 65536" "base + len \<le> length m"
  shows "\<exists>p' f'. end_of_line m base len a p f = Some (63 \<le> parsed_lines p, p', f') \<and> names_ok base len p'
     \<and> (if 63 \<le> parsed_lines p then parsed_lines p' = parsed_lines p \<and> (\<forall>i < parsed_lines p. line p' ! i = line p ! i)
        else broken base a p p')"
proof -
  let ?k = "parsed_lines p"
  obtain q where q: "fst (line p ! ?k) = Some q" "base \<le> q" "q \<le> base + a" using assms(1) by (auto simp: lines_inv_def)
  have len: "length (line p) = 64" "?k < 64" and names: "names_ok base len p" using assms(1) by (auto simp: lines_inv_def)
  let ?n = "base + a - q"
  have n: "c_u16 ?n = ?n" "q + ?n \<le> base + len" using q assms(2,3) by (auto simp: c_u16_def)
  obtain f1 where f1: "keep_binary_bytes m base len a f = Some f1" using keep_binary_bytes_safe [OF assms(4)] by blast
  have get: "get_line p ?k = Some (q, snd (line p ! ?k))" using q len by (simp add: get_line_def)
  define p1 where "p1 = p\<lparr>line := (line p)[?k := (Some q, ?n)]\<rparr>"
  have set: "set_line p ?k (Some q, ?n) = Some p1" using len by (simp add: set_line_def p1_def)
  have names1: "names_ok base len p1" using names by (simp add: p1_def)
  obtain p2 f2 where p2: "response_line m base len q ?n p1 f1 = Some (p2, f2)" "names_step base len p1 p2"
    using response_line_safe [OF names1 q(2) n(2) assms(4)] by blast
  obtain p3 where p3: "header_line m q ?n p2 = Some p3" "names_step base len p2 p3"
    using header_line_safe [OF names_step_ok [OF p2(2)] q(2) n(2) assms(4)] by blast
  obtain p4 where p4: "cut_content_type m p3 = Some p4" "names_step base len p3 p4"
    using cut_content_type_safe [OF names_step_ok [OF p3(2)] assms(4)] by blast
  have "names_step base len p1 p4" using names_step_trans p2(2) p3(2) p4(2) by blast
  then have s4: "line p4 = line p1" "parsed_lines p4 = ?k" "names_ok base len p4"
    by (auto simp: names_step_def p1_def)
  show ?thesis
  proof (cases "63 \<le> ?k")
    case True
    then show ?thesis using f1 get set p2(1) p3(1) p4(1) s4 n(1)
      by (auto simp: end_of_line_def Let_def p1_def)
  next
    case False
    then show ?thesis using f1 get set p2(1) p3(1) p4(1) s4 n(1) len q(1)
      by (auto simp: end_of_line_def Let_def p1_def broken_def set_line_def)
  qed
qed

lemma lines_inv_broken:
  assumes "lines_inv base len a p" "a + 2 \<le> len" "parsed_lines p < 63" "broken base a p p'" "names_ok base len p'"
  shows "lines_inv base len (a + 2) p'"
proof -
  obtain q where q: "fst (line p ! parsed_lines p) = Some q" "base \<le> q" "q \<le> base + a"
    using assms(1) by (auto simp: lines_inv_def)
  have "inside base len (line p' ! i)" if "i < Suc (parsed_lines p)" for i
    using that assms q by (cases "i = parsed_lines p") (auto simp: lines_inv_def broken_def inside_def)
  then show ?thesis using assms q by (auto simp: lines_inv_def broken_def)
qed

lemma lines_inv_mono: "lines_inv base len a p \<Longrightarrow> a \<le> b \<Longrightarrow> lines_inv base len b p"
  by (force simp: lines_inv_def)

lemma at_line_break_total: "i + 1 < length m \<Longrightarrow> \<exists>b. at_line_break m i = Some b"
  by (auto simp: at_line_break_def peek_def)

lemma lines_loop_safe:
  assumes "lines_inv base len a p" "a \<le> len" "len < 65536" "base + len \<le> length m"
  shows "\<exists>ret p' f'. lines_loop m base len a p f = Some (ret, p', f')
     \<and> (if ret then parsed_lines p' \<le> 64 \<and> (\<forall>i < parsed_lines p'. inside base len (line p' ! i)) \<and> names_ok base len p'
        else lines_inv base len len p')"
  using assms
proof (induction m base len a p f rule: lines_loop.induct)
  case (1 m base len a p f)
  note simps = lines_loop.simps [of m base len a p f]
  show ?case
  proof (cases "a + 1 < len \<and> parsed_lines p < 64")
    case False
    then show ?thesis using 1(3,4) lines_inv_mono by (subst simps) auto
  next
    case more: True
    obtain nl where nl: "at_line_break m (base + a) = Some nl"
      using at_line_break_total [of "base + a" m] more 1(6) by auto
    show ?thesis
    proof (cases nl)
      case False
      have "lines_inv base len (a + 1) p" using lines_inv_mono [OF 1(3), of "a + 1"] by simp
      then show ?thesis using 1(2) [OF more nl False] 1(4-6) more nl False by (subst simps) simp
    next
      case True
      obtain p1 f1 where e: "end_of_line m base len a p f = Some (63 \<le> parsed_lines p, p1, f1)" "names_ok base len p1"
          "if 63 \<le> parsed_lines p then parsed_lines p1 = parsed_lines p \<and> (\<forall>i < parsed_lines p. line p1 ! i = line p ! i)
           else broken base a p p1"
        using end_of_line_safe [OF 1(3) _ 1(5,6)] more by fastforce
      show ?thesis
      proof (cases "63 \<le> parsed_lines p")
        case True
        then show ?thesis using more nl \<open>nl\<close> e 1(3) by (subst simps) (auto simp: lines_inv_def)
      next
        case False
        then have "lines_inv base len (a + 2) p1" using lines_inv_broken [OF 1(3)] e more by simp
        then show ?thesis using 1(1) [OF more nl True e(1) refl] 1(5,6) more nl True e False by (subst simps) simp
      qed
    qed
  qed
qed

definition lines_within :: "nat \<Rightarrow> nat \<Rightarrow> ndpi_packet \<Rightarrow> bool" where
  "lines_within base len p \<longleftrightarrow>
     parsed_lines p \<le> 64 \<and> (\<forall>i < parsed_lines p. inside base len (line p ! i)) \<and> names_ok base len p"

lemma parse_lines_safe:
  assumes "payload p = Some base" "base + payload_packet_len p \<le> length m" "payload_packet_len p < 65536"
    "length (line p) = 64" "lines_within base (payload_packet_len p) p"
  shows "\<exists>p' f'. ndpi_parse_packet_line_info m p f = Some (p', f') \<and> lines_within base (payload_packet_len p) p'"
proof (cases "payload_packet_len p < 3 \<or> packet_lines_parsed_complete p")
  case True
  then show ?thesis using assms by (auto simp: ndpi_parse_packet_line_info_def Let_def)
next
  case False
  let ?len = "payload_packet_len p"
  define p0 where "p0 = ndpi_reset_packet_line_info (p\<lparr>packet_lines_parsed_complete := True\<rparr>)"
  define p1 where "p1 = p0\<lparr>line := (line p0)[0 := (Some base, 0)]\<rparr>"
  have sl: "set_line p0 0 (Some base, 0) = Some p1"
    using assms(4) by (simp add: set_line_def p1_def p0_def ndpi_reset_packet_line_info_def)
  have inv: "lines_inv base ?len 0 p1"
    using assms(4) by (simp add: lines_inv_def p1_def p0_def ndpi_reset_packet_line_info_def inside_def)
  obtain ret p2 f2 where l: "lines_loop m base ?len 0 p1 f = Some (ret, p2, f2)"
     "if ret then lines_within base ?len p2 else lines_inv base ?len ?len p2"
    using lines_loop_safe [OF inv _ assms(3,2), of f] unfolding lines_within_def by auto
  have parse: "ndpi_parse_packet_line_info m p f =
      (if \<not> ret \<and> 1 \<le> parsed_lines p2 then do {
         (q, _) \<leftarrow> get_line p2 (parsed_lines p2);
         p \<leftarrow> set_line p2 (parsed_lines p2) (Some q, c_u16 (base + ?len - q));
         Some (p\<lparr>parsed_lines := parsed_lines p + 1\<rparr>, f2)
       }
       else Some (p2, f2))"
    using False assms(1) sl l(1) by (simp add: ndpi_parse_packet_line_info_def Let_def p0_def)
  show ?thesis
  proof (cases "\<not> ret \<and> 1 \<le> parsed_lines p2")
    case True
    then have inv2: "lines_inv base ?len ?len p2" using l(2) by simp
    then obtain q where q: "fst (line p2 ! parsed_lines p2) = Some q" "base \<le> q" "q \<le> base + ?len"
      by (auto simp: lines_inv_def)
    have "c_u16 (base + ?len - q) = base + ?len - q" using q assms(3) by (simp add: c_u16_def)
    moreover have "inside base ?len (Some q, base + ?len - q)" using q by (simp add: inside_def)
    ultimately show ?thesis unfolding parse using True inv2 q
      by (auto simp: lines_inv_def get_line_def set_line_def lines_within_def nth_list_update less_Suc_eq)
  next
    case False
    then show ?thesis unfolding parse using l(2) by (cases ret) (auto simp: lines_inv_def lines_within_def)
  qed
qed

section \<open>After a packet was set up\<close>

lemma set_transport_lines:
  assumes "set_transport m i l h p f = Some (rc, p', f')"
  shows "line p' = line p" "named_lines p' = named_lines p" "parsed_lines p' = parsed_lines p"
    "packet_lines_parsed_complete p' = packet_lines_parsed_complete p"
  using assms by (auto simp: set_transport_def bind_eq_Some_conv Let_def split: if_splits)

lemma init_packet_lines:
  assumes "ndpi_init_packet lim p f t m n = Some (0, p', f')"
  shows "line p' = line p \<and> named_lines p' = (\<lambda>_. (None, 0)) \<and> parsed_lines p' = 0 \<and> \<not> packet_lines_parsed_complete p'"
proof -
  from assms obtain q g i l h where
    t: "set_transport m i l h q g = Some (0, p', f')" and
    q: "q = fresh_packet t n p \<or> q = (fresh_packet t n p)\<lparr>iphv6 := Some 0, iph := None\<rparr>"
    by (auto simp: ndpi_init_packet_def Let_def bind_eq_Some_conv split: if_splits option.splits)
  show ?thesis using set_transport_lines [OF t] q
    by (auto simp: fresh_packet_def ndpi_reset_packet_line_info_def Let_def)
qed

section \<open>Properties\<close>

text \<open>
  C27. Lines of untrusted packets. After any packet of up to 64K was set up, splitting its payload
  into lines and reading its headers stays inside the packet and inside the array of lines, and
  every line and every header value it leaves behind lies inside the payload, whatever the bytes are.
\<close>

theorem header_lines_in_bounds:
  assumes "ndpi_init_packet lim p f t m n = Some (0, p1, f1)" "n \<le> length m" "n < 65536" "length (line p) = 64"
  shows "\<exists>p' f'. ndpi_parse_packet_line_info m p1 f1 = Some (p', f')
     \<and> (\<forall>base. payload p1 = Some base \<longrightarrow> base + payload_packet_len p1 \<le> n \<and> lines_within base (payload_packet_len p1) p')"
proof (cases "payload p1")
  case None
  then show ?thesis by (simp add: ndpi_parse_packet_line_info_def)
next
  case (Some base)
  obtain rc p2 f2 where "ndpi_init_packet lim p f t m n = Some (rc, p2, f2)" "rc = 0 \<longrightarrow> view_ok n p2"
    using init_packet_safe [OF assms(2), of lim p f t] by blast
  then have "view_ok n p1" using assms(1) by simp
  then have le: "base + payload_packet_len p1 \<le> n" using Some by (simp add: view_ok_def)
  note l = init_packet_lines [OF assms(1)]
  have "lines_within base (payload_packet_len p1) p1" using l by (simp add: lines_within_def inside_def)
  then show ?thesis using parse_lines_safe [OF Some, of m f1] Some le l assms by auto
qed

theorem header_lines_in_bounds_witness:
  "\<exists>p1 f1 p' f'. ndpi_init_packet 0 no_packet zero_flow 0 (udp4_packet 0 1 64 0 1 2 3 4 0 [72, 111, 13, 10, 13, 10, 9]) 35 = Some (0, p1, f1)
     \<and> ndpi_parse_packet_line_info (udp4_packet 0 1 64 0 1 2 3 4 0 [72, 111, 13, 10, 13, 10, 9]) p1 f1 = Some (p', f')
     \<and> payload p1 = Some 28 \<and> lines_within 28 (payload_packet_len p1) p'"
proof -
  define m where "m = udp4_packet 0 1 64 0 1 2 3 4 0 [72, 111, 13, 10, 13, 10, 9]"
  have len: "length m = 35" by (simp add: m_def udp4_packet_def)
  obtain p1 f1 where i: "ndpi_init_packet 0 no_packet zero_flow 0 m 35 = Some (0, p1, f1)" "payload p1 = Some 28"
    using udp4_init [OF _ m_def, of 0 no_packet zero_flow 0] unfolding len by auto
  show ?thesis using header_lines_in_bounds [OF i(1)] i len by (auto simp: no_packet_def simp flip: m_def)
qed
end
