(* ===== verification/Http_Split.thy ===== *)
theory Http_Split
  imports Http_Safety
begin

text \<open>
  What the line parser computes: the lines are the pieces of the payload between its line breaks,
  a host header gives its value, and the splitter for any text stays in bounds.
\<close>

section \<open>Splitting at line breaks\<close>

fun split_crlf :: "bytes \<Rightarrow> bytes list" where
  "split_crlf [] = [[]]"
| "split_crlf [x] = [[x]]"
| "split_crlf (x # y # r) =
     (if x = 13 \<and> y = 10 then [] # split_crlf r
      else (x # hd (split_crlf (y # r))) # tl (split_crlf (y # r)))"

text \<open>The bytes from one place to another, and the text of a line.\<close>

definition between :: "bytes \<Rightarrow> nat \<Rightarrow> nat \<Rightarrow> bytes" where
  "between m i j = take (j - i) (drop i m)"

definition line_text :: "bytes \<Rightarrow> nat option \<times> nat \<Rightarrow> bytes" where
  "line_text m l = take (snd l) (drop (the (fst l)) m)"

lemma split_nonempty [simp]: "split_crlf r \<noteq> []"
  by (induction r rule: split_crlf.induct) auto

lemma between_same [simp]: "between m i i = []"
  by (simp add: between_def)

lemma between_append: "i \<le> j \<Longrightarrow> j \<le> k \<Longrightarrow> between m i k = between m i j @ between m j k"
proof -
  assume ij: "i \<le> j" "j \<le> k"
  then have "take (k - i) (drop i m) = take ((j - i) + (k - j)) (drop i m)" by simp
  also have "\<dots> = take (j - i) (drop i m) @ take (k - j) (drop j m)" using ij by (subst take_add) simp
  finally show ?thesis by (simp add: between_def)
qed

lemma between_Cons: "i < j \<Longrightarrow> i < length m \<Longrightarrow> between m i j = m ! i # between m (Suc i) j"
  by (simp add: between_def Cons_nth_drop_Suc [symmetric] take_Cons' Suc_diff_Suc)

lemma at_line_break_iff:
  "i + 1 < length m \<Longrightarrow> at_line_break m i = Some (m ! i = 13 \<and> m ! (i + 1) = 10)"
  by (simp add: at_line_break_def peek_def)

lemma split_step:
  assumes "i + 1 < e" "e \<le> length m"
  shows "split_crlf (between m i e) =
     (if m ! i = 13 \<and> m ! (i + 1) = 10 then [] # split_crlf (between m (i + 2) e)
      else (m ! i # hd (split_crlf (between m (i + 1) e))) # tl (split_crlf (between m (i + 1) e)))"
  using between_Cons [of i e m] between_Cons [of "Suc i" e m] assms by simp

text \<open>
  What the loop makes of the rest of the payload: the finished lines stay, and the current line
  and those behind it are the pieces between line breaks; the last one is not closed yet.
\<close>

definition splits_rest :: "bytes \<Rightarrow> nat \<Rightarrow> nat \<Rightarrow> ndpi_packet \<Rightarrow> ndpi_packet \<Rightarrow> bool" where
  "splits_rest m a e p p' \<longleftrightarrow>
     (let S = split_crlf (between m a e);
          k = parsed_lines p
      in parsed_lines p' = k + (length S - 1)
         \<and> (\<forall>i < k. line p' ! i = line p ! i)
         \<and> map (\<lambda>i. line_text m (line p' ! i)) [k..<parsed_lines p'] @ [between m (the (fst (line p' ! parsed_lines p'))) e]
           = (between m (the (fst (line p ! k))) a @ hd S) # tl S)"

lemma splits_rest_end:
  assumes "lines_inv base len a p" "len \<le> a + 1" "a \<le> len" "base + len \<le> length m"
  shows "splits_rest m (base + a) (base + len) p p"
proof -
  obtain q where q: "fst (line p ! parsed_lines p) = Some q" "q \<le> base + a" using assms(1) by (auto simp: lines_inv_def)
  have "length (between m (base + a) (base + len)) \<le> 1" using assms by (simp add: between_def)
  then have "split_crlf (between m (base + a) (base + len)) = [between m (base + a) (base + len)]"
    by (cases "between m (base + a) (base + len)") auto
  then show ?thesis using q between_append [of q "base + a" "base + len" m] assms(3) by (simp add: splits_rest_def)
qed

lemma splits_rest_char:
  assumes "lines_inv base len a p" "a + 1 < len" "base + len \<le> length m" "\<not> (m ! (base + a) = 13 \<and> m ! (base + a + 1) = 10)"
    "splits_rest m (base + (a + 1)) (base + len) p p'"
  shows "splits_rest m (base + a) (base + len) p p'"
proof -
  obtain q where q: "fst (line p ! parsed_lines p) = Some q" "q \<le> base + a" using assms(1) by (auto simp: lines_inv_def)
  have "between m q (base + (a + 1)) = between m q (base + a) @ [m ! (base + a)]"
    using between_append [of q "base + a" "base + (a + 1)" m] between_Cons [of "base + a" "base + (a + 1)" m] q assms(2,3) by simp
  then show ?thesis using assms(4,5) split_step [of "base + a" "base + len" m] assms(2,3) q
    by (auto simp: splits_rest_def Let_def)
qed

lemma splits_rest_break:
  assumes "lines_inv base len a p" "a + 1 < len" "base + len \<le> length m" "m ! (base + a) = 13 \<and> m ! (base + a + 1) = 10"
    "broken base a p p1" "parsed_lines p < 63" "splits_rest m (base + (a + 2)) (base + len) p1 p'"
  shows "splits_rest m (base + a) (base + len) p p'"
proof -
  let ?k = "parsed_lines p"
  let ?S = "split_crlf (between m (base + a + 2) (base + len))"
  obtain q where q: "fst (line p ! ?k) = Some q" "q \<le> base + a" and l: "length (line p) = 64"
    using assms(1) by (auto simp: lines_inv_def)
  have k: "parsed_lines p1 = Suc ?k" "line p1 ! ?k = (Some q, base + a - q)" "line p1 ! Suc ?k = (Some (base + a + 2), 0)"
    "\<forall>i < ?k. line p1 ! i = line p ! i"
    using assms(5,6) q l by (auto simp: broken_def)
  have empty: "between m (the (fst (line p1 ! Suc ?k))) (base + a + 2) = []" by (simp add: k(3))
  note rest = assms(7) [unfolded splits_rest_def Let_def k(1) add.assoc [symmetric] empty append_Nil hd_Cons_tl [OF split_nonempty]]
  from rest have r: "parsed_lines p' = Suc ?k + (length ?S - 1)" "\<forall>i < Suc ?k. line p' ! i = line p1 ! i"
    "map (\<lambda>i. line_text m (line p' ! i)) [Suc ?k..<parsed_lines p'] @ [between m (the (fst (line p' ! parsed_lines p'))) (base + len)] = ?S"
    by blast+
  have "line p' ! ?k = (Some q, base + a - q)" using r(2) k(2) by simp
  then have "line_text m (line p' ! ?k) = between m q (base + a)" by (simp add: line_text_def between_def)
  moreover have "[?k..<parsed_lines p'] = ?k # [Suc ?k..<parsed_lines p']" using r(1) by (simp add: upt_conv_Cons)
  moreover have "split_crlf (between m (base + a) (base + len)) = [] # ?S"
    using split_step [of "base + a" "base + len" m] assms(2-4) by simp
  ultimately show ?thesis using r k(4) q by (simp add: splits_rest_def Let_def)
qed

lemma lines_loop_splits:
  assumes "lines_inv base len a p" "a \<le> len" "len < 65536" "base + len \<le> length m"
    "parsed_lines p + length (split_crlf (between m (base + a) (base + len))) \<le> 64"
  shows "\<exists>p' f'. lines_loop m base len a p f = Some (False, p', f') \<and> lines_inv base len len p'
     \<and> splits_rest m (base + a) (base + len) p p'"
  using assms
proof (induction m base len a p f rule: lines_loop.induct)
  case (1 m base len a p f)
  note simps = lines_loop.simps [of m base len a p f]
  show ?case
  proof (cases "a + 1 < len")
    case False
    then show ?thesis using 1(3-7) splits_rest_end [OF 1(3)] lines_inv_mono [OF 1(3)] by (subst simps) simp
  next
    case True
    have less: "parsed_lines p < 64" using 1(3) by (simp add: lines_inv_def)
    define nl where "nl \<longleftrightarrow> m ! (base + a) = 13 \<and> m ! (base + a + 1) = 10"
    have nl: "at_line_break m (base + a) = Some nl"
      using at_line_break_iff [of "base + a" m] True 1(6) by (simp add: nl_def)
    have S: "split_crlf (between m (base + a) (base + len)) =
       (if nl then [] # split_crlf (between m (base + (a + 2)) (base + len))
        else (m ! (base + a) # hd (split_crlf (between m (base + (a + 1)) (base + len)))) # tl (split_crlf (between m (base + (a + 1)) (base + len))))"
      using split_step [of "base + a" "base + len" m] True 1(6) by (simp add: nl_def)
    show ?thesis
    proof (cases nl)
      case False
      have inv: "lines_inv base len (a + 1) p" using lines_inv_mono [OF 1(3), of "a + 1"] by simp
      have "parsed_lines p + length (split_crlf (between m (base + (a + 1)) (base + len))) \<le> 64"
        using 1(7) S False by simp
      then obtain p' f' where "lines_loop m base len (a + 1) p f = Some (False, p', f')" "lines_inv base len len p'"
          "splits_rest m (base + (a + 1)) (base + len) p p'"
        using 1(2) [OF conjI [OF True less] nl False inv _ 1(5,6)] True by auto
      moreover from this(3) have "splits_rest m (base + a) (base + len) p p'"
        using splits_rest_char [OF 1(3) True 1(6)] False by (simp add: nl_def)
      ultimately show ?thesis using False nl True less by (subst simps) simp
    next
      case break: True
      have few: "parsed_lines p + length (split_crlf (between m (base + (a + 2)) (base + len))) \<le> 63"
        using 1(7) S break by simp
      then have k: "parsed_lines p < 63"
        using length_greater_0_conv [of "split_crlf (between m (base + (a + 2)) (base + len))"] by (simp del: length_greater_0_conv)
      obtain p1 f1 where e: "end_of_line m base len a p f = Some (False, p1, f1)" "names_ok base len p1" "broken base a p p1"
        using end_of_line_safe [OF 1(3) _ 1(5,6)] True k by fastforce
      have inv: "lines_inv base len (a + 2) p1" using lines_inv_broken [OF 1(3) _ k e(3,2)] True by simp
      have "parsed_lines p1 + length (split_crlf (between m (base + (a + 2)) (base + len))) \<le> 64"
        using few e(3) by (simp add: broken_def)
      then obtain p' f' where "lines_loop m base len (a + 2) p1 f1 = Some (False, p', f')" "lines_inv base len len p'"
          "splits_rest m (base + (a + 2)) (base + len) p1 p'"
        using 1(1) [OF conjI [OF True less] nl break e(1) refl refl _ inv _ 1(5,6)] True by auto
      moreover from this(3) have "splits_rest m (base + a) (base + len) p p'"
        using splits_rest_break [OF 1(3) True 1(6) _ e(3) k] break by (simp add: nl_def)
      ultimately show ?thesis using break nl True less e(1) by (subst simps) simp
    qed
  qed
qed

section \<open>Properties\<close>

text \<open>
  C28. The lines are the pieces between line breaks. For a payload of at least three bytes with at
  least one and at most 63 line breaks, the lines the parser leaves are, in order and exactly, the
  pieces of the payload between its CR LF pairs, the last piece included.
\<close>

theorem parsed_lines_split:
  assumes "payload p = Some base" "payload_packet_len p = len" "3 \<le> len" "len < 65536" "base + len \<le> length m"
    "length (line p) = 64" "\<not> packet_lines_parsed_complete p"
    "2 \<le> length (split_crlf (between m base (base + len)))" "length (split_crlf (between m base (base + len))) \<le> 64"
  shows "\<exists>p' f'. ndpi_parse_packet_line_info m p f = Some (p', f')
     \<and> map (\<lambda>i. line_text m (line p' ! i)) [0..<parsed_lines p'] = split_crlf (between m base (base + len))"
proof -
  let ?S = "split_crlf (between m base (base + len))"
  define p0 where "p0 = ndpi_reset_packet_line_info (p\<lparr>packet_lines_parsed_complete := True\<rparr>)"
  define p1 where "p1 = p0\<lparr>line := (line p0)[0 := (Some base, 0)]\<rparr>"
  have sl: "set_line p0 0 (Some base, 0) = Some p1"
    using assms(6) by (simp add: set_line_def p1_def p0_def ndpi_reset_packet_line_info_def)
  have p1: "lines_inv base len 0 p1" "parsed_lines p1 = 0" "line p1 ! 0 = (Some base, 0)"
    using assms(6) by (simp_all add: lines_inv_def p1_def p0_def ndpi_reset_packet_line_info_def inside_def)
  obtain p2 f2 where l: "lines_loop m base len 0 p1 f = Some (False, p2, f2)" "lines_inv base len len p2"
      "splits_rest m (base + 0) (base + len) p1 p2"
    using lines_loop_splits [OF p1(1) _ assms(4,5), of f] assms(9) p1(2) by auto
  let ?k = "parsed_lines p2"
  obtain q where q: "fst (line p2 ! ?k) = Some q" "base \<le> q" "q \<le> base + len" using l(2) by (auto simp: lines_inv_def)
  have k: "1 \<le> ?k" "?k < length (line p2)" using l(2,3) p1(2) assms(8) by (auto simp: splits_rest_def lines_inv_def Let_def)
  have texts: "map (\<lambda>i. line_text m (line p2 ! i)) [0..<?k] @ [between m q (base + len)] = ?S"
    using l(3) p1(2,3) q(1) by (auto simp: splits_rest_def Let_def)
  define p3 where "p3 = p2\<lparr>line := (line p2)[?k := (Some q, base + len - q)], parsed_lines := Suc ?k\<rparr>"
  have "c_u16 (base + len - q) = base + len - q" using q assms(4) by (simp add: c_u16_def)
  then have "ndpi_parse_packet_line_info m p f = Some (p3, f2)"
    using assms(1-3,7) sl l(1) k q(1)
    by (simp add: ndpi_parse_packet_line_info_def Let_def p3_def get_line_def set_line_def flip: p0_def)
  moreover have "map (\<lambda>i. line_text m (line p3 ! i)) [0..<parsed_lines p3] = ?S"
  proof -
    have "map (\<lambda>i. line_text m (line p3 ! i)) [0..<?k] = map (\<lambda>i. line_text m (line p2 ! i)) [0..<?k]"
      by (simp add: p3_def)
    moreover have "line_text m (line p3 ! ?k) = between m q (base + len)" "parsed_lines p3 = Suc ?k"
      using k by (simp_all add: p3_def line_text_def between_def)
    ultimately show ?thesis using texts by (simp del: map_eq_conv)
  qed
  ultimately show ?thesis by blast
qed

theorem parsed_lines_split_witness:
  "\<exists>p' f'. ndpi_parse_packet_line_info [71, 13, 10, 72, 58, 13, 10, 13, 10] (no_packet\<lparr>payload := Some 0, payload_packet_len := 9\<rparr>) zero_flow = Some (p', f')
     \<and> map (\<lambda>i. line_text [71, 13, 10, 72, 58, 13, 10, 13, 10] (line p' ! i)) [0..<parsed_lines p'] = [[71], [72, 58], [], []]"
proof -
  have "split_crlf (between [71, 13, 10, 72, 58, 13, 10, 13, 10] 0 (0 + 9)) = [[71], [72, 58], [], []]"
    by (simp add: between_def)
  then show ?thesis
    using parsed_lines_split [of "no_packet\<lparr>payload := Some 0, payload_packet_len := 9\<rparr>" 0 9 "[71, 13, 10, 72, 58, 13, 10, 13, 10]" zero_flow]
    by (simp add: no_packet_def)
qed

section \<open>Lines of any text\<close>

definition any_inv :: "bytes \<Rightarrow> nat \<Rightarrow> nat \<Rightarrow> nat \<Rightarrow> ndpi_packet \<Rightarrow> bool" where
  "any_inv m base len a p \<longleftrightarrow>
     length (line p) = 64 \<and> parsed_lines p < 64
     \<and> (\<exists>q. fst (line p ! parsed_lines p) = Some q \<and> base \<le> q \<and> q \<le> base + a
            \<and> (q = base + a \<and> 0 < a \<longrightarrow> m ! (base + a - 1) = 10))
     \<and> (\<forall>i < parsed_lines p. inside base len (line p ! i))"

lemma any_inv_next: "any_inv m base len a p \<Longrightarrow> any_inv m base len (a + 1) p"
  by (force simp: any_inv_def)

lemma any_loop_safe:
  assumes "any_inv m base len a p" "a \<le> len" "len < 65536" "base + len \<le> length m"
  shows "\<exists>p'. any_loop m base len a p = Some p' \<and> parsed_lines p' < 64
     \<and> (\<forall>i < parsed_lines p'. inside base len (line p' ! i))"
  using assms
proof (induction "len - a" arbitrary: a p rule: less_induct)
  case (less a p)
  note simps = any_loop.simps [of m base len a p]
  show ?case
  proof (cases "a < len \<and> m ! (base + a) = 10")
    case False
    show ?thesis
    proof (cases "a < len")
      case True
      then have x: "peek m (base + a) = Some (m ! (base + a))" using less(5) by (simp add: peek_def)
      then show ?thesis using False True less(1) [OF _ any_inv_next [OF less(2)] _ less(4,5)] by (subst simps) simp
    qed (use less(2) in \<open>subst simps, simp add: any_inv_def\<close>)
  next
    case True
    let ?k = "parsed_lines p"
    have x: "peek m (base + a) = Some 10" using True less(5) by (simp add: peek_def)
    obtain q where q: "fst (line p ! ?k) = Some q" "base \<le> q" "q \<le> base + a" "q = base + a \<and> 0 < a \<longrightarrow> m ! (base + a - 1) = 10"
      and l: "length (line p) = 64" "?k < 64" using less(2) by (auto simp: any_inv_def)
    define cr where "cr \<longleftrightarrow> 0 < a \<and> m ! (base + a - 1) = 13"
    have c: "(if 0 < a then map_option (\<lambda>y. y = 13) (peek m (base + a - 1)) else Some False) = Some cr"
      using True less(5) by (auto simp: cr_def peek_def)
    define n where "n = (if cr then c_u16 (c_u16 (base + a - q) + 65535) else c_u16 (base + a - q))"
    have n: "q + n \<le> base + len"
    proof (cases cr)
      case True
      then have "q < base + a" using q(3,4) by (auto simp: cr_def)
      moreover obtain d where d: "base + a - q = Suc d" using \<open>q < base + a\<close> by (cases "base + a - q") auto
      moreover have "Suc d < 65536" using d \<open>a < len \<and> _\<close> less(4) q(2) by linarith
      ultimately have "n = base + a - q - 1" using \<open>cr\<close> by (simp add: n_def c_u16_def)
      then show ?thesis using \<open>q < base + a\<close> \<open>a < len \<and> _\<close> by linarith
    next
      case False
      have "n \<le> base + a - q" using False by (simp add: n_def c_u16_def)
      then show ?thesis using \<open>a < len \<and> _\<close> q(3) by linarith
    qed
    define p1 where "p1 = p\<lparr>line := (line p)[?k := (Some q, n)]\<rparr>"
    have p1: "set_line p ?k (Some q, n) = Some p1" "parsed_lines p1 = ?k" "\<forall>i < Suc ?k. inside base len (line p1 ! i)"
    proof -
      have "inside base len (Some q, n)" using q(2) n by (simp add: inside_def)
      then show "set_line p ?k (Some q, n) = Some p1" "parsed_lines p1 = ?k" "\<forall>i < Suc ?k. inside base len (line p1 ! i)"
        using l less(2) by (auto simp: set_line_def p1_def any_inv_def less_Suc_eq)
    qed
    define p2 where "p2 = p1\<lparr>parsed_lines := Suc ?k, line := (line p1)[Suc ?k := (Some (base + a + 1), 0)]\<rparr>"
    have p2: "any_inv m base len (a + 1) p2" if "?k < 63"
      using that l p1(3) True by (auto simp: any_inv_def p2_def p1_def)
    have get: "get_line p ?k = Some (q, snd (line p ! ?k))" using q l by (simp add: get_line_def)
    have step: "any_loop m base len a p =
       (if 63 \<le> ?k then Some p1 else if payload_packet_len p2 \<le> a + 1 then Some p2 else any_loop m base len (a + 1) p2)"
      using True x get c p1(1,2) l by (subst simps) (auto simp: Let_def n_def p1_def p2_def set_line_def)
    show ?thesis
    proof (cases "63 \<le> ?k")
      case True
      then show ?thesis unfolding step using p1(2,3) l by simp
    next
      case False
      then have "\<exists>p'. any_loop m base len (a + 1) p2 = Some p' \<and> parsed_lines p' < 64 \<and> (\<forall>i < parsed_lines p'. inside base len (line p' ! i))"
        using \<open>a < len \<and> _\<close> by (intro less(1) [OF _ p2 _ less(4,5)]) auto
      moreover have "parsed_lines p2 < 64" "\<forall>i < parsed_lines p2. inside base len (line p2 ! i)"
        using p2 False by (simp_all add: any_inv_def)
      ultimately show ?thesis unfolding step using False by simp
    qed
  qed
qed

section \<open>Properties of headers and of any text\<close>

text \<open>
  Lines of any text. Splitting the payload of a packet at line feeds stays inside the payload
  and inside the array of lines, and every line lies inside the payload: the decrement of a line's
  length in front of a line feed never wraps.
\<close>

theorem any_lines_in_bounds:
  assumes "payload p = Some base" "base + payload_packet_len p \<le> length m" "payload_packet_len p < 65536"
    "length (line p) = 64" "\<not> packet_lines_parsed_complete p"
  shows "\<exists>p'. ndpi_parse_packet_line_info_any m p = Some p' \<and> parsed_lines p' < 64
     \<and> (\<forall>i < parsed_lines p'. inside base (payload_packet_len p) (line p' ! i))"
proof -
  define p1 where "p1 = p\<lparr>packet_lines_parsed_complete := True, parsed_lines := 0, line := (line p)[0 := (Some base, 0)]\<rparr>"
  have "any_inv m base (payload_packet_len p) 0 p1" using assms(4) by (simp add: any_inv_def p1_def)
  then have "\<exists>p'. any_loop m base (payload_packet_len p) 0 p1 = Some p' \<and> parsed_lines p' < 64
     \<and> (\<forall>i < parsed_lines p'. inside base (payload_packet_len p) (line p' ! i))"
    using any_loop_safe [OF _ _ assms(3,2)] by blast
  then show ?thesis using assms
    by (simp add: ndpi_parse_packet_line_info_any_def Let_def set_line_def p1_def)
qed

theorem any_lines_in_bounds_witness:
  "\<exists>p'. ndpi_parse_packet_line_info_any [13, 10, 65, 10] (no_packet\<lparr>payload := Some 0, payload_packet_len := 4\<rparr>) = Some p'
     \<and> parsed_lines p' < 64 \<and> (\<forall>i < parsed_lines p'. inside 0 4 (line p' ! i))"
  using any_lines_in_bounds [of "no_packet\<lparr>payload := Some 0, payload_packet_len := 4\<rparr>" 0 "[13, 10, 65, 10]"]
  by (simp add: no_packet_def)

text \<open>
  C29. The host header. A line that consists of the name Host, in any case, a colon, a blank and a
  value that is not empty sets the host line to exactly this value and counts one header.
\<close>

theorem host_header_read:
  assumes "bytes_at m q (name @ v)" "map c_tolower name = map c_tolower (str ''Host: '')" "v \<noteq> []"
  shows "header_line m q (length (name @ v)) p = Some (set_named host_line (q + 6) (length v) p)
     \<and> line_text m (Some (q + 6), length v) = v"
proof -
  have len: "length name = 6" using arg_cong [OF assms(2), of length] by simp
  obtain a b c d e g where name: "name = [a, b, c, d, e, g]"
    using len by (auto simp: numeral_eq_Suc length_Suc_conv)
  obtain w where d: "drop q m = name @ v @ w"
    using assms(1) by (metis append_assoc append_take_drop_id bytes_at_def)
  have low: "c_tolower a = 104" "c_tolower b = 111" "c_tolower c = 115" "c_tolower d = 116" "c_tolower e = 58" "c_tolower g = 32"
    using assms(2) by (simp_all add: name str_def c_tolower_def split: if_splits)
  have nz: "a \<noteq> 0" "b \<noteq> 0" "c \<noteq> 0" "d \<noteq> 0" 
    using low c_tolower_zero [of a] c_tolower_zero [of b] c_tolower_zero [of c] c_tolower_zero [of d] by auto
  have g: "g = 32" using low(6) by (auto simp: c_tolower_def split: if_splits)
  have server: "line_starts m q (length (name @ v)) (length (str ''Server:'') + 1) (str ''Server:'') = Some False"
    unfolding line_starts_def d by (simp add: name str_def cstr_def low c_tolower_def [of 83])
  have host: "line_starts m q (length (name @ v)) (length (str ''Host:'') + 1) (str ''Host:'') = Some True"
    unfolding line_starts_def d using assms(3) nz
    by (simp add: name str_def cstr_def low c_tolower_def [of 72] c_tolower_def [of 111] c_tolower_def [of 115] c_tolower_def [of 116] c_tolower_def [of 58])
  have "first_header m q (length (name @ v)) 1 colon_headers = Some (Some (str ''Host:'', host_line))"
    by (simp add: colon_headers_def server host del: length_append length_str One_nat_def)
  moreover have "peek m (q + 5) = Some 32"
  proof -
    have "q + 5 < length m" using arg_cong [OF d, of length] by (simp add: name)
    moreover have "m ! (q + 5) = drop q m ! 5" using \<open>q + 5 < length m\<close> by simp
    ultimately show ?thesis by (simp add: d name g peek_def)
  qed
  ultimately have "header_line m q (length (name @ v)) p = Some (set_named host_line (q + 6) (length v) p)"
  proof -
    have five: "length (str ''Host:'') = 5" by simp
    assume "first_header m q (length (name @ v)) 1 colon_headers = Some (Some (str ''Host:'', host_line))" "peek m (q + 5) = Some 32"
    then show ?thesis unfolding header_line_def by (simp add: five Let_def len del: length_str)
  qed
  moreover have "line_text m (Some (q + 6), length v) = v"
    using arg_cong [OF d, of "drop 6"] by (simp add: line_text_def len add.commute)
  ultimately show ?thesis by blast
qed

theorem host_header_read_witness:
  "header_line (str ''hOSt: a.b'') 0 9 no_packet = Some (set_named host_line (0 + 6) 3 no_packet)
     \<and> line_text (str ''hOSt: a.b'') (Some (0 + 6), 3) = str ''a.b''"
proof -
  have "str ''hOSt: a.b'' = str ''hOSt: '' @ str ''a.b''" by (simp add: str_def)
  then have "bytes_at (str ''hOSt: a.b'') 0 (str ''hOSt: '' @ str ''a.b'')" by (simp add: bytes_at_def)
  moreover have "map c_tolower (str ''hOSt: '') = map c_tolower (str ''Host: '')" by (simp add: str_def c_tolower_def)
  moreover have "str ''a.b'' \<noteq> []" "length (str ''hOSt: '' @ str ''a.b'') = 9" "length (str ''a.b'') = 3" by (simp_all add: str_def)
  ultimately show ?thesis using host_header_read [of "str ''hOSt: a.b''" 0 "str ''hOSt: ''" "str ''a.b''" no_packet] by metis
qed

end
