(* ===== verification/Bitmask.thy ===== *)
theory Bitmask
  imports Prelude
begin

text \<open>
  The protocol bitmasks of \<^verbatim>\<open>ndpi_define.h\<close> and \<^verbatim>\<open>ndpi_main.c\<close>: 512 bits in sixteen 32-bit
  words, with the macros that set, clear, test and save them and the two functions that compare
  them. The locale \<open>bounded_set\<close> is what their clients rely on (a set of numbers below a bound), and
  the bitmask is an interpretation of it.
\<close>

unbundle bit_operations_syntax

section \<open>The macros\<close>

type_synonym bitmask = "u32 list"

abbreviation (input) NDPI_BITS :: nat where "NDPI_BITS \<equiv> 32"

definition NDPI_NUM_BITS :: nat where "NDPI_NUM_BITS = 512"

definition NDPI_NUM_FDS_BITS :: nat where "NDPI_NUM_FDS_BITS = (NDPI_NUM_BITS + (NDPI_BITS - 1)) div NDPI_BITS"

text \<open>The word of the mask that holds bit \<open>n\<close>; an index behind the last word is an invalid access.\<close>

definition mask_word :: "bitmask \<Rightarrow> nat \<Rightarrow> u32 option" where
  "mask_word p n = (if n div NDPI_BITS < length p then Some (p ! (n div NDPI_BITS)) else None)"

definition mask_bit :: "nat \<Rightarrow> u32" where
  "mask_bit n = push_bit (n mod NDPI_BITS) 1"

definition NDPI_SET :: "bitmask \<Rightarrow> nat \<Rightarrow> bitmask option" where
  "NDPI_SET p n = map_option (\<lambda>w. p[n div NDPI_BITS := w OR mask_bit n]) (mask_word p n)"

definition NDPI_CLR :: "bitmask \<Rightarrow> nat \<Rightarrow> bitmask option" where
  "NDPI_CLR p n = map_option (\<lambda>w. p[n div NDPI_BITS := w AND NOT (mask_bit n)]) (mask_word p n)"

definition NDPI_ISSET :: "bitmask \<Rightarrow> nat \<Rightarrow> bool option" where
  "NDPI_ISSET p n = map_option (\<lambda>w. w AND mask_bit n \<noteq> 0) (mask_word p n)"

definition NDPI_ZERO :: bitmask where
  "NDPI_ZERO = replicate NDPI_NUM_FDS_BITS 0"

definition NDPI_ONE :: bitmask where
  "NDPI_ONE = replicate NDPI_NUM_FDS_BITS (NOT 0)"

text \<open>The protocol macros cut the number with the mask \<open>NDPI_NUM_BITS_MASK\<close> first.\<close>

definition protocol_bit :: "u16 \<Rightarrow> nat" where
  "protocol_bit v = unat (v AND 511)"

definition NDPI_ADD_PROTOCOL_TO_BITMASK :: "bitmask \<Rightarrow> u16 \<Rightarrow> bitmask option" where
  "NDPI_ADD_PROTOCOL_TO_BITMASK b v = NDPI_SET b (protocol_bit v)"

definition NDPI_DEL_PROTOCOL_FROM_BITMASK :: "bitmask \<Rightarrow> u16 \<Rightarrow> bitmask option" where
  "NDPI_DEL_PROTOCOL_FROM_BITMASK b v = NDPI_CLR b (protocol_bit v)"

definition NDPI_COMPARE_PROTOCOL_TO_BITMASK :: "bitmask \<Rightarrow> u16 \<Rightarrow> bool option" where
  "NDPI_COMPARE_PROTOCOL_TO_BITMASK b v = NDPI_ISSET b (protocol_bit v)"

definition NDPI_SAVE_AS_BITMASK :: "u16 \<Rightarrow> bitmask option" where
  "NDPI_SAVE_AS_BITMASK v = NDPI_ADD_PROTOCOL_TO_BITMASK NDPI_ZERO v"

section \<open>The comparison functions\<close>

text \<open>The loops over the words; \<open>i\<close> is the loop variable, \<open>n\<close> the number of rounds left.\<close>

fun compare_words :: "bitmask \<Rightarrow> bitmask \<Rightarrow> nat \<Rightarrow> nat \<Rightarrow> bool option" where
  "compare_words a b i 0 = Some False"
| "compare_words a b i (Suc n) =
     (if i < length a \<and> i < length b
      then if a ! i AND b ! i \<noteq> 0 then Some True else compare_words a b (Suc i) n
      else None)"

definition NDPI_BITMASK_COMPARE :: "bitmask \<Rightarrow> bitmask \<Rightarrow> bool option" where
  "NDPI_BITMASK_COMPARE a b = compare_words a b 0 NDPI_NUM_FDS_BITS"

fun empty_words :: "bitmask \<Rightarrow> nat \<Rightarrow> nat \<Rightarrow> bool option" where
  "empty_words a i 0 = Some True"
| "empty_words a i (Suc n) =
     (if i < length a then if a ! i \<noteq> 0 then Some False else empty_words a (Suc i) n else None)"

definition NDPI_BITMASK_IS_EMPTY :: "bitmask \<Rightarrow> bool option" where
  "NDPI_BITMASK_IS_EMPTY a = empty_words a 0 NDPI_NUM_FDS_BITS"

section \<open>What a client relies on\<close>

primrec add_all :: "('s \<Rightarrow> nat \<Rightarrow> 's option) \<Rightarrow> nat list \<Rightarrow> 's \<Rightarrow> 's option" where
  "add_all add [] s = Some s"
| "add_all add (n # ns) s = Option.bind (add s n) (add_all add ns)"

locale bounded_set =
  fixes inv :: "'s \<Rightarrow> bool" and elems :: "'s \<Rightarrow> nat set" and bound :: nat
    and empty :: 's and add :: "'s \<Rightarrow> nat \<Rightarrow> 's option" and mem :: "'s \<Rightarrow> nat \<Rightarrow> bool option"
  assumes empty_elems: "inv empty \<and> elems empty = {}"
    and added: "inv s \<Longrightarrow> n < bound \<Longrightarrow> \<exists>s'. add s n = Some s' \<and> inv s' \<and> elems s' = insert n (elems s)"
    and member: "inv s \<Longrightarrow> n < bound \<Longrightarrow> mem s n = Some (n \<in> elems s)"
begin

text \<open>After any sequence of insertions the set holds exactly the numbers inserted.\<close>

lemma add_all_elems:
  assumes "inv s" "\<And>n. n \<in> set ns \<Longrightarrow> n < bound"
  shows "\<exists>s'. add_all add ns s = Some s' \<and> inv s' \<and> elems s' = set ns \<union> elems s"
  using assms
proof (induction ns arbitrary: s)
  case (Cons n ns)
  obtain s1 where "add s n = Some s1" "inv s1" "elems s1 = insert n (elems s)"
    using added [OF Cons.prems(1), of n] Cons.prems(2) by auto
  then show ?case using Cons.IH [of s1] Cons.prems(2) by auto
qed simp

lemma from_empty:
  assumes "\<And>n. n \<in> set ns \<Longrightarrow> n < bound"
  shows "\<exists>s'. add_all add ns empty = Some s' \<and> inv s' \<and> elems s' = set ns
    \<and> (\<forall>n < bound. mem s' n = Some (n \<in> set ns))"
  using add_all_elems [of empty ns] empty_elems member assms by force

end

section \<open>The set a mask stands for\<close>

definition mask_ok :: "bitmask \<Rightarrow> bool" where
  "mask_ok b \<longleftrightarrow> length b = NDPI_NUM_FDS_BITS"

definition protocols :: "bitmask \<Rightarrow> nat set" where
  "protocols b = {n. n < NDPI_NUM_BITS \<and> bit (b ! (n div NDPI_BITS)) (n mod NDPI_BITS)}"

lemmas mask_size = NDPI_NUM_BITS_def NDPI_NUM_FDS_BITS_def

lemma word_of_bit: "mask_ok b \<Longrightarrow> n < NDPI_NUM_BITS \<Longrightarrow> mask_word b n = Some (b ! (n div NDPI_BITS))"
  by (simp add: mask_word_def mask_ok_def mask_size less_mult_imp_div_less)

lemma bit_of_mask_bit: "bit (mask_bit n) j \<longleftrightarrow> j = n mod NDPI_BITS"
  by (auto simp: mask_bit_def bit_push_bit_iff bit_1_iff simp del: push_bit_of_1)

lemma nonzero_bit: "(w :: u32) \<noteq> 0 \<longleftrightarrow> (\<exists>k < NDPI_BITS. bit w k)"
  using bit_imp_le_length [of w] by (auto simp: bit_eq_iff [of w 0])

lemma meets_bit: "w AND mask_bit n \<noteq> 0 \<longleftrightarrow> bit w (n mod NDPI_BITS)"
  by (auto simp: nonzero_bit bit_and_iff bit_of_mask_bit)

lemma same_place: "n div NDPI_BITS = k div NDPI_BITS \<Longrightarrow> n mod NDPI_BITS = k mod NDPI_BITS \<Longrightarrow> n = (k :: nat)"
  by (metis div_mult_mod_eq)

lemma update_protocols:
  assumes "mask_ok b" "k < NDPI_NUM_BITS"
    "\<And>j. bit w j \<longleftrightarrow> (if j = k mod NDPI_BITS then on else bit (b ! (k div NDPI_BITS)) j)"
  shows "protocols (b[k div NDPI_BITS := w]) = (if on then insert k (protocols b) else protocols b - {k})"
proof -
  have l: "k div NDPI_BITS < length b" using assms(1,2) by (simp add: mask_ok_def mask_size less_mult_imp_div_less)
  have "n \<in> protocols (b[k div NDPI_BITS := w]) \<longleftrightarrow> (if n = k then on else n \<in> protocols b)" for n
  proof (cases "n div NDPI_BITS = k div NDPI_BITS")
    case True
    then have "n mod NDPI_BITS = k mod NDPI_BITS \<longleftrightarrow> n = k" using same_place [of n k] by blast
    then show ?thesis using True l assms(2) by (auto simp: protocols_def assms(3))
  next
    case False
    then show ?thesis by (auto simp: protocols_def)
  qed
  then show ?thesis by (cases on) (simp_all add: set_eq_iff)
qed

lemma set_protocol:
  assumes "mask_ok b" "n < NDPI_NUM_BITS"
  shows "\<exists>b'. NDPI_SET b n = Some b' \<and> mask_ok b' \<and> protocols b' = insert n (protocols b)"
proof -
  have "protocols (b[n div NDPI_BITS := b ! (n div NDPI_BITS) OR mask_bit n]) = insert n (protocols b)"
    by (subst update_protocols [OF assms, of _ True]) (auto simp: bit_or_iff bit_of_mask_bit)
  then show ?thesis using assms by (simp add: NDPI_SET_def word_of_bit mask_ok_def)
qed

lemma clear_protocol:
  assumes "mask_ok b" "n < NDPI_NUM_BITS"
  shows "\<exists>b'. NDPI_CLR b n = Some b' \<and> mask_ok b' \<and> protocols b' = protocols b - {n}"
proof -
  have "protocols (b[n div NDPI_BITS := b ! (n div NDPI_BITS) AND NOT (mask_bit n)]) = protocols b - {n}"
    by (subst update_protocols [OF assms, of _ False])
      (auto simp: bit_and_iff bit_not_iff bit_of_mask_bit dest: bit_imp_le_length)
  then show ?thesis using assms by (simp add: NDPI_CLR_def word_of_bit mask_ok_def)
qed

lemma test_protocol:
  "mask_ok b \<Longrightarrow> n < NDPI_NUM_BITS \<Longrightarrow> NDPI_ISSET b n = Some (n \<in> protocols b)"
  by (simp add: NDPI_ISSET_def word_of_bit meets_bit protocols_def)

lemma zero_protocols: "mask_ok NDPI_ZERO \<and> protocols NDPI_ZERO = {}"
  by (simp add: mask_ok_def NDPI_ZERO_def protocols_def mask_size less_mult_imp_div_less)

lemma one_protocols: "mask_ok NDPI_ONE \<and> protocols NDPI_ONE = {0..<NDPI_NUM_BITS}"
  by (auto simp: mask_ok_def NDPI_ONE_def protocols_def mask_size less_mult_imp_div_less bit_simps)

interpretation mask: bounded_set mask_ok protocols NDPI_NUM_BITS NDPI_ZERO NDPI_SET NDPI_ISSET
  using zero_protocols set_protocol test_protocol by unfold_locales auto

lemma protocol_bit_less: "protocol_bit v < NDPI_NUM_BITS"
proof -
  have "v AND 511 \<le> 511" by (rule word_and_le1)
  then show ?thesis by (simp add: protocol_bit_def NDPI_NUM_BITS_def word_le_nat_alt)
qed

lemma protocol_bit_id: "unat v < NDPI_NUM_BITS \<Longrightarrow> protocol_bit v = unat v"
proof -
  have "v AND 511 = take_bit 9 v" by (simp add: take_bit_eq_mask mask_eq_exp_minus_1)
  then have "unat (v AND 511) = take_bit 9 (unat v)" by (simp add: unsigned_take_bit_eq)
  moreover assume "unat v < NDPI_NUM_BITS"
  ultimately show ?thesis by (simp add: protocol_bit_def NDPI_NUM_BITS_def take_bit_nat_eq_self)
qed

lemma save_protocols: "\<exists>b. NDPI_SAVE_AS_BITMASK v = Some b \<and> mask_ok b \<and> protocols b = {protocol_bit v}"
  using set_protocol [of NDPI_ZERO "protocol_bit v"] zero_protocols protocol_bit_less [of v]
  by (simp add: NDPI_SAVE_AS_BITMASK_def NDPI_ADD_PROTOCOL_TO_BITMASK_def)

section \<open>Comparing masks\<close>

lemma compare_words_iff:
  assumes "i + n \<le> length a" "i + n \<le> length b"
  shows "compare_words a b i n = Some (\<exists>j \<in> {i..<i + n}. a ! j AND b ! j \<noteq> 0)"
  using assms
proof (induction n arbitrary: i)
  case (Suc n)
  have "{i..<i + Suc n} = insert i {Suc i..<Suc i + n}" by auto
  then show ?case using Suc by auto
qed simp

lemma empty_words_iff:
  assumes "i + n \<le> length a"
  shows "empty_words a i n = Some (\<forall>j \<in> {i..<i + n}. a ! j = 0)"
  using assms
proof (induction n arbitrary: i)
  case (Suc n)
  have "{i..<i + Suc n} = insert i {Suc i..<Suc i + n}" by auto
  then show ?case using Suc by auto
qed simp

lemma some_bit:
  "(\<exists>n < NDPI_NUM_BITS. P (n div NDPI_BITS) (n mod NDPI_BITS)) \<longleftrightarrow> (\<exists>j < NDPI_NUM_FDS_BITS. \<exists>k < NDPI_BITS. P j k)"
proof
  assume "\<exists>j < NDPI_NUM_FDS_BITS. \<exists>k < NDPI_BITS. P j k"
  then obtain j k where "j < NDPI_NUM_FDS_BITS" "k < NDPI_BITS" "P j k" by blast
  then show "\<exists>n < NDPI_NUM_BITS. P (n div NDPI_BITS) (n mod NDPI_BITS)"
    by (intro exI [of _ "j * NDPI_BITS + k"]) (auto simp: mask_size)
next
  assume "\<exists>n < NDPI_NUM_BITS. P (n div NDPI_BITS) (n mod NDPI_BITS)"
  then obtain n where "n < NDPI_NUM_BITS" "P (n div NDPI_BITS) (n mod NDPI_BITS)" by blast
  then show "\<exists>j < NDPI_NUM_FDS_BITS. \<exists>k < NDPI_BITS. P j k"
    by (intro exI [of _ "n div NDPI_BITS"] exI [of _ "n mod NDPI_BITS"] conjI)
      (auto simp: mask_size less_mult_imp_div_less)
qed

lemma compare_masks:
  assumes "mask_ok a" "mask_ok b"
  shows "NDPI_BITMASK_COMPARE a b = Some (protocols a \<inter> protocols b \<noteq> {})"
proof -
  have "(\<exists>j \<in> {0..<NDPI_NUM_FDS_BITS}. a ! j AND b ! j \<noteq> 0)
      \<longleftrightarrow> (\<exists>j < NDPI_NUM_FDS_BITS. \<exists>k < NDPI_BITS. bit (a ! j) k \<and> bit (b ! j) k)"
    by (auto simp: nonzero_bit bit_and_iff)
  also have "\<dots> \<longleftrightarrow> protocols a \<inter> protocols b \<noteq> {}"
    unfolding some_bit [symmetric] by (auto simp: protocols_def)
  finally show ?thesis
    using assms by (simp add: NDPI_BITMASK_COMPARE_def compare_words_iff mask_ok_def)
qed

lemma empty_mask:
  assumes "mask_ok a"
  shows "NDPI_BITMASK_IS_EMPTY a = Some (protocols a = {})"
proof -
  have "(\<forall>j \<in> {0..<NDPI_NUM_FDS_BITS}. a ! j = 0) \<longleftrightarrow> \<not> (\<exists>j < NDPI_NUM_FDS_BITS. \<exists>k < NDPI_BITS. bit (a ! j) k)"
    unfolding nonzero_bit [symmetric] by auto
  also have "\<dots> \<longleftrightarrow> protocols a = {}"
    unfolding some_bit [symmetric] by (auto simp: protocols_def)
  finally show ?thesis
    using assms by (simp add: NDPI_BITMASK_IS_EMPTY_def empty_words_iff mask_ok_def)
qed

section \<open>Property\<close>

text \<open>
  C23. Bitmasks are sets of protocols. Every operation on masks of sixteen words stays inside the
  words and computes the operation on the sets the masks stand for: zeroing gives the empty set,
  filling the set of all numbers below 512, setting inserts, clearing removes, testing decides
  membership, and the two comparison functions decide whether two sets meet and whether a set is empty.
\<close>

theorem bitmask_is_set:
  assumes "mask_ok a" "mask_ok b" "n < NDPI_NUM_BITS"
  shows "mask_ok NDPI_ZERO \<and> protocols NDPI_ZERO = {} \<and> mask_ok NDPI_ONE \<and> protocols NDPI_ONE = {0..<NDPI_NUM_BITS}
    \<and> (\<exists>a'. NDPI_SET a n = Some a' \<and> mask_ok a' \<and> protocols a' = insert n (protocols a))
    \<and> (\<exists>a'. NDPI_CLR a n = Some a' \<and> mask_ok a' \<and> protocols a' = protocols a - {n})
    \<and> NDPI_ISSET a n = Some (n \<in> protocols a)
    \<and> NDPI_BITMASK_COMPARE a b = Some (protocols a \<inter> protocols b \<noteq> {})
    \<and> NDPI_BITMASK_IS_EMPTY a = Some (protocols a = {})"
  by (intro conjI set_protocol clear_protocol test_protocol compare_masks empty_mask assms
      conjunct1 [OF zero_protocols] conjunct2 [OF zero_protocols] conjunct1 [OF one_protocols] conjunct2 [OF one_protocols])

theorem bitmask_is_set_witness:
  "mask_ok NDPI_ZERO \<and> protocols NDPI_ZERO = {} \<and> mask_ok NDPI_ONE \<and> protocols NDPI_ONE = {0..<NDPI_NUM_BITS}
    \<and> (\<exists>a'. NDPI_SET NDPI_ONE 511 = Some a' \<and> mask_ok a' \<and> protocols a' = insert 511 (protocols NDPI_ONE))
    \<and> (\<exists>a'. NDPI_CLR NDPI_ONE 511 = Some a' \<and> mask_ok a' \<and> protocols a' = protocols NDPI_ONE - {511})
    \<and> NDPI_ISSET NDPI_ONE 511 = Some (511 \<in> protocols NDPI_ONE)
    \<and> NDPI_BITMASK_COMPARE NDPI_ONE NDPI_ZERO = Some (protocols NDPI_ONE \<inter> protocols NDPI_ZERO \<noteq> {})
    \<and> NDPI_BITMASK_IS_EMPTY NDPI_ONE = Some (protocols NDPI_ONE = {})"
proof -
  have "(511 :: nat) < NDPI_NUM_BITS" by (simp add: NDPI_NUM_BITS_def)
  from bitmask_is_set [OF conjunct1 [OF one_protocols] conjunct1 [OF zero_protocols] this] show ?thesis .
qed

end
