(* ===== verification/Search_Tree.thy ===== *)
theory Search_Tree
  imports Prelude "HOL-Library.Tree" "HOL-Library.Multiset"
begin

text \<open>
  The binary search trees of \<^verbatim>\<open>ndpi_utils.c\<close> (\<open>ndpi_tsearch\<close>, \<open>ndpi_tfind\<close>, \<open>ndpi_tdelete\<close>,
  \<open>ndpi_twalk\<close>, \<open>ndpi_tdestroy\<close>), for any comparison function. A node is a node of the library's
  trees and the key pointer it holds is the datum itself; a write through a pointer that was
  returned is \<open>update_found\<close>. The locale \<open>search_order\<close> states what a comparison function has to
  promise and proves the tree to be a map under it.
\<close>

section \<open>The operations\<close>

text \<open>The size of \<open>ndpi_node\<close>: three pointers.\<close>

definition sizeof_ndpi_node :: nat where "sizeof_ndpi_node = 24"

text \<open>
  Find or insert. The second component is the datum of the node that was found; it is \<open>None\<close> when
  the pointer returned is the argument itself, now held by a new node. When there is no memory for
  the node the last statement reads through the null pointer.
\<close>

fun ndpi_tsearch :: "c_env \<Rightarrow> ('a \<Rightarrow> 'a \<Rightarrow> int) \<Rightarrow> 'a \<Rightarrow> 'a tree \<Rightarrow> ('a tree \<times> 'a option) option" where
  "ndpi_tsearch env compar key Leaf =
     (if alloc_ok env sizeof_ndpi_node then Some (Node Leaf key Leaf, None) else None)"
| "ndpi_tsearch env compar key (Node l a r) =
     (let c = compar key a in
      if c = 0 then Some (Node l a r, Some a)
      else if c < 0 then map_option (\<lambda>(l', x). (Node l' a r, x)) (ndpi_tsearch env compar key l)
      else map_option (\<lambda>(r', x). (Node l a r', x)) (ndpi_tsearch env compar key r))"

fun ndpi_tfind :: "('a \<Rightarrow> 'a \<Rightarrow> int) \<Rightarrow> 'a \<Rightarrow> 'a tree \<Rightarrow> 'a option" where
  "ndpi_tfind compar key Leaf = None"
| "ndpi_tfind compar key (Node l a r) =
     (let c = compar key a in
      if c = 0 then Some a
      else if c < 0 then ndpi_tfind compar key l
      else ndpi_tfind compar key r)"

fun update_found :: "('a \<Rightarrow> 'a \<Rightarrow> int) \<Rightarrow> 'a \<Rightarrow> ('a \<Rightarrow> 'a) \<Rightarrow> 'a tree \<Rightarrow> 'a tree" where
  "update_found compar key f Leaf = Leaf"
| "update_found compar key f (Node l a r) =
     (let c = compar key a in
      if c = 0 then Node l (f a) r
      else if c < 0 then Node (update_found compar key f l) a r
      else Node l a (update_found compar key f r))"

text \<open>
  Deletion at the node: steps D1 to D3. The loop of D3 follows left links from the right subtree to
  the last node that has one; its left node is unlinked and takes the place of the deleted node.
\<close>

fun unlink_leftmost :: "'a tree \<Rightarrow> 'a \<times> 'a tree" where
  "unlink_leftmost (Node (Node Leaf k qr) a rr) = (k, Node qr a rr)"
| "unlink_leftmost (Node q a rr) = (let (k, q') = unlink_leftmost q in (k, Node q' a rr))"

definition delete_root :: "'a tree \<Rightarrow> 'a tree \<Rightarrow> 'a tree" where
  "delete_root l r =
     (if l = Leaf then r
      else case r of
        Leaf \<Rightarrow> l
      | Node Leaf k rr \<Rightarrow> Node l k rr
      | _ \<Rightarrow> (let (k, r') = unlink_leftmost r in Node l k r'))"

fun ndpi_tdelete :: "('a \<Rightarrow> 'a \<Rightarrow> int) \<Rightarrow> 'a \<Rightarrow> 'a tree \<Rightarrow> 'a tree \<times> 'a option" where
  "ndpi_tdelete compar key Leaf = (Leaf, None)"
| "ndpi_tdelete compar key (Node l a r) =
     (let c = compar key a in
      if c = 0 then (delete_root l r, Some a)
      else if c < 0 then (let (l', x) = ndpi_tdelete compar key l in (Node l' a r, x))
      else (let (r', x) = ndpi_tdelete compar key r in (Node l a r', x)))"

datatype ndpi_VISIT = ndpi_preorder | ndpi_postorder | ndpi_endorder | ndpi_leaf

text \<open>The calls of the action that a walk makes, in order, with the level.\<close>

fun ndpi_trecurse :: "'a tree \<Rightarrow> nat \<Rightarrow> ('a \<times> ndpi_VISIT \<times> nat) list" where
  "ndpi_trecurse Leaf level = []"
| "ndpi_trecurse (Node l a r) level =
     (if l = Leaf \<and> r = Leaf then [(a, ndpi_leaf, level)]
      else [(a, ndpi_preorder, level)] @ ndpi_trecurse l (level + 1)
         @ [(a, ndpi_postorder, level)] @ ndpi_trecurse r (level + 1)
         @ [(a, ndpi_endorder, level)])"

definition ndpi_twalk :: "'a tree \<Rightarrow> ('a \<times> ndpi_VISIT \<times> nat) list" where
  "ndpi_twalk t = ndpi_trecurse t 0"

text \<open>The data handed to the free action, in order; the node is freed right after its datum.\<close>

fun ndpi_tdestroy_recurse :: "'a tree \<Rightarrow> 'a list" where
  "ndpi_tdestroy_recurse Leaf = []"
| "ndpi_tdestroy_recurse (Node l a r) = ndpi_tdestroy_recurse l @ ndpi_tdestroy_recurse r @ [a]"

definition ndpi_tdestroy :: "'a tree \<Rightarrow> 'a list" where
  "ndpi_tdestroy t = ndpi_tdestroy_recurse t"

section \<open>Walking and destroying\<close>

text \<open>The visits of kind postorder and leaf come in the order of the keys.\<close>

lemma walk_inorder:
  "map fst (filter (\<lambda>(a, v, n). v = ndpi_postorder \<or> v = ndpi_leaf) (ndpi_trecurse t level)) = inorder t"
  by (induction t level rule: ndpi_trecurse.induct) auto

lemma destroy_once: "mset (ndpi_tdestroy t) = mset (inorder t)"
proof -
  have "mset (ndpi_tdestroy_recurse t) = mset (inorder t)" by (induction t) auto
  then show ?thesis by (simp add: ndpi_tdestroy_def)
qed

section \<open>Trees under an order\<close>

lemma inorder_unlink:
  "unlink_leftmost (Node q a rr) = (k, t) \<Longrightarrow> q \<noteq> Leaf \<Longrightarrow> k # inorder t = inorder (Node q a rr)"
  by (induction "Node q a rr" arbitrary: q a rr t rule: unlink_leftmost.induct) (auto split: prod.splits)

lemma inorder_delete_root: "inorder (delete_root l r) = inorder l @ inorder r"
proof (cases r)
  case (Node rl k rr)
  then show ?thesis
    by (cases rl) (auto simp: delete_root_def split: prod.splits dest: inorder_unlink)
qed (simp add: delete_root_def)

text \<open>The tree is sorted by a key of its data, and the map from keys to data that it holds.\<close>

definition sorted_by :: "('a \<Rightarrow> 'k :: linorder) \<Rightarrow> 'a tree \<Rightarrow> bool" where
  "sorted_by key t \<longleftrightarrow> sorted_wrt (<) (map key (inorder t))"

definition look_by :: "('a \<Rightarrow> 'k) \<Rightarrow> 'a tree \<Rightarrow> 'k \<rightharpoonup> 'a" where
  "look_by key t = map_of (map (\<lambda>a. (key a, a)) (inorder t))"

locale search_order =
  fixes compar :: "'a \<Rightarrow> 'a \<Rightarrow> int" and key :: "'a \<Rightarrow> 'k :: linorder"
  assumes equal_iff: "compar a b = 0 \<longleftrightarrow> key a = key b"
    and before_iff: "compar a b < 0 \<longleftrightarrow> key a < key b"
begin

abbreviation sorted_tree :: "'a tree \<Rightarrow> bool" where "sorted_tree \<equiv> sorted_by key"

abbreviation look :: "'a tree \<Rightarrow> 'k \<rightharpoonup> 'a" where "look \<equiv> look_by key"

lemma sorted_Leaf: "sorted_tree Leaf" and look_Leaf: "look Leaf = Map.empty"
  by (simp_all add: sorted_by_def look_by_def)

lemma sorted_Node:
  "sorted_tree (Node l a r) \<longleftrightarrow> sorted_tree l \<and> sorted_tree r
     \<and> (\<forall>b \<in> set_tree l. key b < key a) \<and> (\<forall>b \<in> set_tree r. key a < key b)"
  by (auto simp: sorted_by_def sorted_wrt_append) (meson order.strict_trans)

lemma look_in: "look t k = Some a \<Longrightarrow> a \<in> set_tree t \<and> key a = k"
  by (auto simp: look_by_def dest!: map_of_SomeD)

lemma look_none: "k \<notin> key ` set_tree t \<Longrightarrow> look t k = None"
  using look_in by (cases "look t k") fastforce+

lemma look_Node:
  assumes "sorted_tree (Node l a r)"
  shows "look (Node l a r) k = (if k < key a then look l k else if k = key a then Some a else look r k)"
proof -
  have "look (Node l a r) k = (case look l k of None \<Rightarrow> if k = key a then Some a else look r k | Some b \<Rightarrow> Some b)"
    by (auto simp: look_by_def map_add_def split: option.splits)
  moreover have "look l k = None" if "\<not> k < key a" using that assms look_none [of k l] by (force simp: sorted_Node)
  moreover have "look r k = None" if "k \<le> key a" using that assms look_none [of k r] by (force simp: sorted_Node)
  ultimately show ?thesis by (auto split: option.splits)
qed

lemma find_looks: "sorted_tree t \<Longrightarrow> ndpi_tfind compar x t = look t (key x)"
proof (induction t)
  case (Node l a r)
  then show ?case unfolding look_Node [OF Node.prems]
    by (auto simp: Let_def equal_iff before_iff sorted_Node)
qed (simp add: look_Leaf)

lemma insert_node:
  assumes "sorted_tree t" "alloc_ok env sizeof_ndpi_node"
  shows "\<exists>t'. ndpi_tsearch env compar x t = Some (t', look t (key x)) \<and> sorted_tree t'
    \<and> look t' = (if key x \<in> dom (look t) then look t else (look t)(key x \<mapsto> x))
    \<and> set_tree t' \<subseteq> insert x (set_tree t)"
  using assms(1)
proof (induction t)
  case Leaf
  then show ?case using assms(2) by (auto simp: look_Leaf look_Node sorted_Node sorted_Leaf)
next
  case (Node l a r)
  show ?case
  proof (cases "key x = key a")
    case True
    then show ?thesis using Node.prems by (auto simp: Let_def equal_iff look_Node)
  next
    case False
    note looks = look_Node [OF Node.prems]
    show ?thesis
    proof (cases "key x < key a")
      case True
      obtain l' where l': "ndpi_tsearch env compar x l = Some (l', look l (key x))" "sorted_tree l'"
        "look l' = (if key x \<in> dom (look l) then look l else (look l)(key x \<mapsto> x))" "set_tree l' \<subseteq> insert x (set_tree l)"
        using Node.IH(1) Node.prems by (auto simp: sorted_Node)
      have s: "sorted_tree (Node l' a r)" using l'(2,4) True Node.prems by (auto simp: sorted_Node)
      show ?thesis using l' True False s look_Node [OF s]
        by (auto simp: Let_def equal_iff before_iff looks fun_eq_iff dom_def)
    next
      case gr: False
      obtain r' where r': "ndpi_tsearch env compar x r = Some (r', look r (key x))" "sorted_tree r'"
        "look r' = (if key x \<in> dom (look r) then look r else (look r)(key x \<mapsto> x))" "set_tree r' \<subseteq> insert x (set_tree r)"
        using Node.IH(2) Node.prems by (auto simp: sorted_Node)
      have s: "sorted_tree (Node l a r')" using r'(2,4) gr False Node.prems by (auto simp: sorted_Node)
      show ?thesis using r' gr False s look_Node [OF s]
        by (auto simp: Let_def equal_iff before_iff looks fun_eq_iff dom_def)
    qed
  qed
qed

lemma update_node:
  assumes "sorted_tree t" "\<And>a. key (f a) = key a"
  shows "sorted_tree (update_found compar x f t)
    \<and> look (update_found compar x f t) = (look t)(key x := map_option f (look t (key x)))"
proof -
  have m: "map key (inorder (update_found compar x f t)) = map key (inorder t)"
    using assms(2) by (induction t) (auto simp: Let_def)
  then have s: "sorted_tree (update_found compar x f t)" using assms(1) by (simp add: sorted_by_def)
  moreover have "look (update_found compar x f t) = (look t)(key x := map_option f (look t (key x)))"
    using assms(1) s
  proof (induction t)
    case (Node l a r)
    have "sorted_tree l" "sorted_tree r" using Node.prems(1) by (auto simp: sorted_Node)
    moreover have "sorted_tree (update_found compar x f l)" if "key x < key a"
      using that Node.prems(2) by (auto simp: Let_def equal_iff before_iff sorted_Node split: if_splits)
    moreover have "sorted_tree (update_found compar x f r)" if "\<not> key x < key a" "key x \<noteq> key a"
      using that Node.prems(2) by (auto simp: Let_def equal_iff before_iff sorted_Node split: if_splits)
    ultimately show ?case using Node.IH look_Node [OF Node.prems(1)] look_Node [of "update_found compar x f l" a r]
        look_Node [of l a "update_found compar x f r"] look_Node [of l "f a" r] Node.prems(2)
      by (auto simp: Let_def equal_iff before_iff fun_eq_iff assms(2))
  qed (simp add: look_Leaf fun_eq_iff)
  ultimately show ?thesis by blast
qed

lemma delete_inorder:
  "sorted_tree t \<Longrightarrow> ndpi_tdelete compar x t = (t', d) \<Longrightarrow>
     inorder t' = filter (\<lambda>a. key a \<noteq> key x) (inorder t) \<and> d = look t (key x)"
proof (induction t arbitrary: t' d)
  case (Node l a r)
  have l: "filter (\<lambda>b. key b \<noteq> key x) (inorder l) = inorder l" if "\<not> key x < key a"
    using that Node.prems(1) by (auto simp: sorted_Node filter_id_conv)
  have r: "filter (\<lambda>b. key b \<noteq> key x) (inorder r) = inorder r" if "\<not> key a < key x"
    using that Node.prems(1) by (auto simp: sorted_Node filter_id_conv)
  show ?case using Node l r look_Node [OF Node.prems(1)]
    by (auto simp: Let_def equal_iff before_iff sorted_Node inorder_delete_root split: if_splits prod.splits)
qed (simp add: look_Leaf)

lemma delete_node:
  assumes "sorted_tree t" "ndpi_tdelete compar x t = (t', d)"
  shows "sorted_tree t' \<and> d = look t (key x) \<and> look t' = (look t)(key x := None)"
proof -
  have i: "inorder t' = filter (\<lambda>a. key a \<noteq> key x) (inorder t)" "d = look t (key x)"
    using delete_inorder [OF assms] by auto
  have "sorted_tree t'" using assms(1) unfolding sorted_by_def i(1) sorted_wrt_map
    by (rule sorted_wrt_filter)
  moreover have "map_of (map (\<lambda>a. (key a, a)) (filter (\<lambda>a. key a \<noteq> key x) as)) =
      (map_of (map (\<lambda>a. (key a, a)) as))(key x := None)" for as
    by (induction as) (auto simp: fun_eq_iff)
  ultimately show ?thesis using i by (simp add: look_by_def)
qed

end

end
