(* ===== verification/Default_Ports.thy ===== *)
theory Default_Ports
  imports Search_Tree
begin

text \<open>
  The trees of default ports of \<^verbatim>\<open>ndpi_main.c\<close>: which protocol is expected on a port. The loops over
  a range of ports count in a 16-bit variable, so they are partial functions: \<open>None\<close> is a loop that
  does not end, \<open>Some None\<close> a loop that makes an invalid access.
\<close>

section \<open>Nodes and their order\<close>

text \<open>The pointer to the defaults of a protocol is the index in the array of defaults.\<close>

record port_node =
  node_proto :: nat
  customUserProto :: u8
  default_port :: u16

definition sizeof_port_node :: nat where "sizeof_port_node = 16"

definition ndpi_default_ports_tree_node_t_cmp :: "port_node \<Rightarrow> port_node \<Rightarrow> int" where
  "ndpi_default_ports_tree_node_t_cmp fa fb =
     (if default_port fa = default_port fb then 0 else if default_port fa < default_port fb then -1 else 1)"

abbreviation port_cmp :: "port_node \<Rightarrow> port_node \<Rightarrow> int" where
  "port_cmp \<equiv> ndpi_default_ports_tree_node_t_cmp"

interpretation ports: search_order ndpi_default_ports_tree_node_t_cmp default_port
  by unfold_locales (auto simp: ndpi_default_ports_tree_node_t_cmp_def)

section \<open>Adding and removing a range\<close>

text \<open>One round of the loop: a node for the port, inserted or dropped again for the node that is there.\<close>

definition add_port :: "c_env \<Rightarrow> nat \<Rightarrow> u8 \<Rightarrow> u16 \<Rightarrow> port_node tree \<Rightarrow> port_node tree option" where
  "add_port env def custom port root =
     (let node = \<lparr>node_proto = def, customUserProto = custom, default_port = port\<rparr> in
      case ndpi_tsearch env port_cmp node root of
        None \<Rightarrow> None
      | Some (root, None) \<Rightarrow> Some root
      | Some (root, Some ret) \<Rightarrow> Some (update_found port_cmp node (\<lambda>n. n\<lparr>node_proto := def\<rparr>) root))"

partial_function (option) add_ports_loop ::
  "c_env \<Rightarrow> nat \<Rightarrow> u8 \<Rightarrow> u16 \<Rightarrow> u16 \<Rightarrow> port_node tree \<Rightarrow> port_node tree option option" where
  "add_ports_loop env def custom high port root =
     (if port \<le> high then
        if alloc_ok env sizeof_port_node then
          case add_port env def custom port root of
            None \<Rightarrow> Some None
          | Some root \<Rightarrow> add_ports_loop env def custom high (port + 1) root
        else Some (Some root)
      else Some (Some root))"

definition addDefaultPort ::
  "c_env \<Rightarrow> u16 \<times> u16 \<Rightarrow> nat \<Rightarrow> u8 \<Rightarrow> port_node tree \<Rightarrow> port_node tree option option" where
  "addDefaultPort env rng def custom root = add_ports_loop env def custom (snd rng) (fst rng) root"

partial_function (option) remove_ports_loop ::
  "nat \<Rightarrow> u16 \<Rightarrow> u16 \<Rightarrow> port_node tree \<Rightarrow> (int \<times> port_node tree) option" where
  "remove_ports_loop def high port root =
     (if port \<le> high then
        let node = \<lparr>node_proto = def, customUserProto = 0, default_port = port\<rparr>;
            (root', ret) = ndpi_tdelete port_cmp node root in
        if ret \<noteq> None then Some (0, root') else remove_ports_loop def high (port + 1) root'
      else Some (-1, root))"

definition removeDefaultPort :: "u16 \<times> u16 \<Rightarrow> nat \<Rightarrow> port_node tree \<Rightarrow> (int \<times> port_node tree) option" where
  "removeDefaultPort rng def root = remove_ports_loop def (snd rng) (fst rng) root"

section \<open>Guessing from the ports\<close>

text \<open>The search key is a node of which only the port is set.\<close>

definition port_key :: "u16 \<Rightarrow> port_node" where
  "port_key p = \<lparr>node_proto = 0, customUserProto = 0, default_port = p\<rparr>"

definition ndpi_get_guessed_protocol_id ::
  "port_node tree \<Rightarrow> port_node tree \<Rightarrow> u8 \<Rightarrow> u16 \<Rightarrow> u16 \<Rightarrow> port_node option" where
  "ndpi_get_guessed_protocol_id tcpRoot udpRoot proto sport dport =
     (if sport \<noteq> 0 \<and> dport \<noteq> 0 then
        let root = (if proto = 6 then tcpRoot else udpRoot);
            low = (if sport < dport then sport else dport);
            high = (if sport > dport then sport else dport) in
        case ndpi_tfind port_cmp (port_key low) root of
          Some n \<Rightarrow> Some n
        | None \<Rightarrow> ndpi_tfind port_cmp (port_key high) root
      else None)"

section \<open>Lemmas\<close>

definition port_map :: "port_node tree \<Rightarrow> u16 \<rightharpoonup> port_node" where
  "port_map t = look_by default_port t"

abbreviation ports_sorted :: "port_node tree \<Rightarrow> bool" where "ports_sorted \<equiv> sorted_by default_port"

text \<open>What registering a protocol for a port makes of the entry that was there.\<close>

definition registered :: "nat \<Rightarrow> u8 \<Rightarrow> u16 \<Rightarrow> port_node option \<Rightarrow> port_node" where
  "registered def custom p e =
     (case e of None \<Rightarrow> \<lparr>node_proto = def, customUserProto = custom, default_port = p\<rparr>
      | Some n \<Rightarrow> n\<lparr>node_proto := def\<rparr>)"

lemma find_port: "ports_sorted t \<Longrightarrow> ndpi_tfind port_cmp (port_key p) t = port_map t p"
  by (simp add: ports.find_looks port_map_def port_key_def)

lemma add_port_registers:
  assumes "ports_sorted t" "alloc_ok env sizeof_ndpi_node"
  shows "\<exists>t'. add_port env def custom p t = Some t' \<and> ports_sorted t'
    \<and> port_map t' = (port_map t)(p \<mapsto> registered def custom p (port_map t p))"
proof -
  let ?n = "\<lparr>node_proto = def, customUserProto = custom, default_port = p\<rparr>"
  obtain t1 where t1: "ndpi_tsearch env port_cmp ?n t = Some (t1, port_map t p)" "ports_sorted t1"
    "port_map t1 = (if p \<in> dom (port_map t) then port_map t else (port_map t)(p \<mapsto> ?n))"
    using ports.insert_node [OF assms, of ?n] by (auto simp: port_map_def)
  show ?thesis
  proof (cases "port_map t p")
    case None
    then show ?thesis using t1 by (auto simp: add_port_def registered_def)
  next
    case (Some m)
    have "ports_sorted (update_found port_cmp ?n (\<lambda>n. n\<lparr>node_proto := def\<rparr>) t1)
      \<and> port_map (update_found port_cmp ?n (\<lambda>n. n\<lparr>node_proto := def\<rparr>) t1)
        = (port_map t1)(p := map_option (\<lambda>n. n\<lparr>node_proto := def\<rparr>) (port_map t1 p))"
      using ports.update_node [OF t1(2), of "\<lambda>n. n\<lparr>node_proto := def\<rparr>" ?n] by (simp add: port_map_def)
    then show ?thesis using t1 Some by (auto simp: add_port_def registered_def dom_def)
  qed
qed

lemma u16_next: "p \<le> high \<Longrightarrow> high < (65535 :: u16) \<Longrightarrow> unat (p + 1) = unat p + 1"
  by (simp add: word_less_nat_alt word_le_nat_alt unat_word_ariths)

text \<open>A range that ends below the last port: the loop ends and every port of it is registered.\<close>

lemma add_ports_loop_registers:
  assumes "high < 65535" "alloc_ok env sizeof_ndpi_node" "alloc_ok env sizeof_port_node" "ports_sorted t"
  shows "\<exists>t'. add_ports_loop env def custom high p t = Some (Some t') \<and> ports_sorted t'
    \<and> (\<forall>q. port_map t' q = (if p \<le> q \<and> q \<le> high then Some (registered def custom q (port_map t q)) else port_map t q))"
  using assms(4)
proof (induction "unat high + 1 - unat p" arbitrary: p t rule: less_induct)
  case less
  show ?case
  proof (cases "p \<le> high")
    case False
    then show ?thesis using less.prems by (subst add_ports_loop.simps) auto
  next
    case True
    obtain t1 where t1: "add_port env def custom p t = Some t1" "ports_sorted t1"
      "port_map t1 = (port_map t)(p \<mapsto> registered def custom p (port_map t p))"
      using add_port_registers [OF less.prems assms(2)] by blast
    have n: "unat (p + 1) = unat p + 1" using u16_next [OF True assms(1)] .
    have r: "p + 1 \<le> q \<longleftrightarrow> p \<le> q \<and> q \<noteq> p" for q
      unfolding word_le_nat_alt n using word_unat_eq_iff [of q p] by linarith
    have "unat high + 1 - unat (p + 1) < unat high + 1 - unat p" using True n by (simp add: word_le_nat_alt)
    from less.hyps [OF this t1(2)] obtain t' where t': "add_ports_loop env def custom high (p + 1) t1 = Some (Some t')" "ports_sorted t'"
      "\<forall>q. port_map t' q = (if p + 1 \<le> q \<and> q \<le> high then Some (registered def custom q (port_map t1 q)) else port_map t1 q)"
      by blast
    have "port_map t' q = (if p \<le> q \<and> q \<le> high then Some (registered def custom q (port_map t q)) else port_map t q)" for q
      using t'(3) r [of q] True by (auto simp: t1(3))
    then show ?thesis using t'(1,2) t1(1) True assms(3) by (subst add_ports_loop.simps) auto
  qed
qed

text \<open>A range that ends at the last port: the variable wraps and the loop never ends.\<close>

lemma add_port_defined:
  "alloc_ok env sizeof_ndpi_node \<Longrightarrow> \<exists>t'. add_port env def custom p t = Some t'"
proof -
  assume "alloc_ok env sizeof_ndpi_node"
  then have "\<exists>t' d. ndpi_tsearch env c x t = Some (t', d)" for c x and t :: "port_node tree"
    by (induction t) (auto simp: Let_def)
  then show ?thesis by (force simp: add_port_def Let_def split: option.splits)
qed

lemma add_ports_loop_ends:
  assumes "add_ports_loop env def custom high p t = Some y"
  shows "alloc_ok env sizeof_ndpi_node \<and> alloc_ok env sizeof_port_node \<longrightarrow> high \<noteq> 65535"
proof (rule add_ports_loop.raw_induct [OF _ assms])
  fix loop env def custom high p t y
  assume step: "\<And>env def custom high p t y. loop env def custom high p t = Some y \<Longrightarrow>
      alloc_ok env sizeof_ndpi_node \<and> alloc_ok env sizeof_port_node \<longrightarrow> high \<noteq> 65535"
    and body: "(if p \<le> high then
        if alloc_ok env sizeof_port_node then
          case add_port env def custom p t of None \<Rightarrow> Some None | Some t \<Rightarrow> loop env def custom high (p + 1) t
        else Some (Some t)
      else Some (Some t)) = Some y"
  have "(65535 :: u16) = - 1" by simp
  then have "p \<le> 65535" using word_n1_ge [of p] by metis
  then show "alloc_ok env sizeof_ndpi_node \<and> alloc_ok env sizeof_port_node \<longrightarrow> high \<noteq> 65535"
    using body add_port_defined [of env def custom p t] by (auto split: option.splits dest: step)
qed

lemma add_ports_loop_hangs:
  "alloc_ok env sizeof_ndpi_node \<Longrightarrow> alloc_ok env sizeof_port_node \<Longrightarrow> add_ports_loop env def custom 65535 p t = None"
  using add_ports_loop_ends by (cases "add_ports_loop env def custom 65535 p t") blast+

text \<open>
  Removal stops at the first port of the range that is registered, which is the lowest one.
\<close>

lemma remove_ports_loop_first:
  assumes "high < 65535" "ports_sorted t"
  shows "\<exists>rc t'. remove_ports_loop def high p t = Some (rc, t') \<and> ports_sorted t'
    \<and> (if \<forall>q. p \<le> q \<and> q \<le> high \<longrightarrow> port_map t q = None then rc = -1 \<and> port_map t' = port_map t
       else rc = 0 \<and> (\<exists>q. p \<le> q \<and> q \<le> high \<and> port_map t q \<noteq> None
          \<and> (\<forall>r. p \<le> r \<and> r < q \<longrightarrow> port_map t r = None) \<and> port_map t' = (port_map t)(q := None)))"
  using assms(2)
proof (induction "unat high + 1 - unat p" arbitrary: p t rule: less_induct)
  case less
  show ?case
  proof (cases "p \<le> high")
    case False
    then have "\<forall>q. p \<le> q \<and> q \<le> high \<longrightarrow> port_map t q = None" by auto
    then show ?thesis using less.prems False by (subst remove_ports_loop.simps) auto
  next
    case True
    let ?n = "\<lparr>node_proto = def, customUserProto = 0, default_port = p\<rparr>"
    obtain t1 d where d: "ndpi_tdelete port_cmp ?n t = (t1, d)" by fastforce
    then have t1: "ports_sorted t1" "d = port_map t p" "port_map t1 = (port_map t)(p := None)"
      using ports.delete_node [OF less.prems d] by (auto simp: port_map_def)
    show ?thesis
    proof (cases "port_map t p")
      case (Some n)
      then have "\<not> (\<forall>q. p \<le> q \<and> q \<le> high \<longrightarrow> port_map t q = None)" using True by auto
      then show ?thesis using d t1 Some True
        by (subst remove_ports_loop.simps) (auto simp: Let_def intro!: exI [of _ p])
    next
      case None
      have n: "unat (p + 1) = unat p + 1" using u16_next [OF True assms(1)] .
      have r: "p + 1 \<le> q \<longleftrightarrow> p \<le> q \<and> q \<noteq> p" for q
        unfolding word_le_nat_alt n using word_unat_eq_iff [of q p] by linarith
      have m: "port_map t1 = port_map t" using t1(3) None by (auto simp: fun_eq_iff)
      have "unat high + 1 - unat (p + 1) < unat high + 1 - unat p" using True n by (simp add: word_le_nat_alt)
      note ih = less.hyps [OF this t1(1), unfolded m r]
      have a: "(\<forall>q. (p \<le> q \<and> q \<noteq> p) \<and> q \<le> high \<longrightarrow> port_map t q = None)
          \<longleftrightarrow> (\<forall>q. p \<le> q \<and> q \<le> high \<longrightarrow> port_map t q = None)" using None by auto
      have s: "remove_ports_loop def high p t = remove_ports_loop def high (p + 1) t1"
        using d t1(2) None True by (subst remove_ports_loop.simps) (simp add: Let_def)
      show ?thesis
      proof (cases "\<forall>q. p \<le> q \<and> q \<le> high \<longrightarrow> port_map t q = None")
        case True
        then show ?thesis unfolding s using ih unfolding a by simp
      next
        case False
        with ih obtain t' q where t': "remove_ports_loop def high (p + 1) t1 = Some (0, t')" "ports_sorted t'"
          and q: "p \<le> q" "q \<noteq> p" "q \<le> high" "port_map t q \<noteq> None"
            "\<forall>r. (p \<le> r \<and> r \<noteq> p) \<and> r < q \<longrightarrow> port_map t r = None" "port_map t' = (port_map t)(q := None)"
          unfolding a by auto
        have "\<forall>r. p \<le> r \<and> r < q \<longrightarrow> port_map t r = None" using q(5) None by metis
        then show ?thesis unfolding s using False t' q by auto
      qed
    qed
  qed
qed

section \<open>Properties\<close>

text \<open>
  C24. Registering a range of ports. For a range that ends below port 65535 the loop ends; the tree
  stays sorted, every port of the range leads to the protocol and every other port keeps its entry.
  A flow whose lower port lies in the range is then guessed to be of this protocol.
\<close>

theorem registered_port_guessed:
  assumes "ports_sorted t" "snd rng < 65535" "alloc_ok env sizeof_ndpi_node" "alloc_ok env sizeof_port_node"
  shows "\<exists>t'. addDefaultPort env rng def custom t = Some (Some t') \<and> ports_sorted t'
    \<and> (\<forall>q. port_map t' q = (if fst rng \<le> q \<and> q \<le> snd rng then Some (registered def custom q (port_map t q))
                             else port_map t q))
    \<and> (\<forall>u s d. s \<noteq> 0 \<and> d \<noteq> 0 \<and> fst rng \<le> min s d \<and> min s d \<le> snd rng \<longrightarrow>
         (\<exists>n. ndpi_get_guessed_protocol_id t' u 6 s d = Some n \<and> node_proto n = def))"
proof -
  obtain t' where t': "addDefaultPort env rng def custom t = Some (Some t')" "ports_sorted t'"
    "\<forall>q. port_map t' q = (if fst rng \<le> q \<and> q \<le> snd rng then Some (registered def custom q (port_map t q)) else port_map t q)"
    using add_ports_loop_registers [OF assms(2,3,4,1)] unfolding addDefaultPort_def by blast
  moreover have "\<exists>n. ndpi_get_guessed_protocol_id t' u 6 s d = Some n \<and> node_proto n = def"
    if "s \<noteq> 0" "d \<noteq> 0" "fst rng \<le> min s d" "min s d \<le> snd rng" for u s d
    using that t'(3) [rule_format, of "min s d"] find_port [OF t'(2), of "min s d"]
    by (auto simp: ndpi_get_guessed_protocol_id_def Let_def registered_def min_def split: if_splits option.splits)
  ultimately show ?thesis by blast
qed

theorem registered_port_guessed_witness:
  "\<exists>t'. addDefaultPort \<lparr>char_signed = True, alloc_ok = (\<lambda>_. True), indet = (\<lambda>_. 0)\<rparr> (80, 81) 7 0 Leaf = Some (Some t')
    \<and> ports_sorted t'
    \<and> (\<forall>q. port_map t' q = (if fst (80 :: u16, 81 :: u16) \<le> q \<and> q \<le> snd (80 :: u16, 81 :: u16) then Some (registered 7 0 q (port_map Leaf q))
                             else port_map Leaf q))
    \<and> (\<forall>u s d. s \<noteq> 0 \<and> d \<noteq> 0 \<and> fst (80 :: u16, 81 :: u16) \<le> min s d \<and> min s d \<le> snd (80 :: u16, 81 :: u16) \<longrightarrow>
         (\<exists>n. ndpi_get_guessed_protocol_id t' u 6 s d = Some n \<and> node_proto n = 7))"
  by (rule registered_port_guessed) (simp_all add: sorted_by_def)

text \<open>
  C31. The last port. A range that ends at port 65535 makes the loop run forever when there is
  memory: the 16-bit variable wraps to 0 and never exceeds the end of the range.
\<close>

theorem last_port_hangs:
  assumes "alloc_ok env sizeof_ndpi_node" "alloc_ok env sizeof_port_node"
  shows "addDefaultPort env (low, 65535) def custom t = None"
  using add_ports_loop_hangs [OF assms] by (simp add: addDefaultPort_def)

theorem last_port_hangs_witness:
  "addDefaultPort \<lparr>char_signed = True, alloc_ok = (\<lambda>_. True), indet = (\<lambda>_. 0)\<rparr> (1024, 65535) 7 0 Leaf = None"
  by (rule last_port_hangs) simp_all

end
