(* ===== verification/Protocol_Ids.thy ===== *)
theory Protocol_Ids
  imports Prelude
begin

text \<open>
  The protocol identifiers of \<^verbatim>\<open>ndpi_protocol_ids.h\<close>, as 16-bit numbers, and the bounds that go
  with them.
\<close>

abbreviation (input) NDPI_PROTOCOL_UNKNOWN :: u16 where "NDPI_PROTOCOL_UNKNOWN \<equiv> 0"
abbreviation (input) NDPI_PROTOCOL_FTP_CONTROL :: u16 where "NDPI_PROTOCOL_FTP_CONTROL \<equiv> 1"
abbreviation (input) NDPI_PROTOCOL_MAIL_POP :: u16 where "NDPI_PROTOCOL_MAIL_POP \<equiv> 2"
abbreviation (input) NDPI_PROTOCOL_MAIL_SMTP :: u16 where "NDPI_PROTOCOL_MAIL_SMTP \<equiv> 3"
abbreviation (input) NDPI_PROTOCOL_MAIL_IMAP :: u16 where "NDPI_PROTOCOL_MAIL_IMAP \<equiv> 4"
abbreviation (input) NDPI_PROTOCOL_DNS :: u16 where "NDPI_PROTOCOL_DNS \<equiv> 5"
abbreviation (input) NDPI_PROTOCOL_IPP :: u16 where "NDPI_PROTOCOL_IPP \<equiv> 6"
abbreviation (input) NDPI_PROTOCOL_HTTP :: u16 where "NDPI_PROTOCOL_HTTP \<equiv> 7"
abbreviation (input) NDPI_PROTOCOL_MDNS :: u16 where "NDPI_PROTOCOL_MDNS \<equiv> 8"
abbreviation (input) NDPI_PROTOCOL_NTP :: u16 where "NDPI_PROTOCOL_NTP \<equiv> 9"
abbreviation (input) NDPI_PROTOCOL_NETBIOS :: u16 where "NDPI_PROTOCOL_NETBIOS \<equiv> 10"
abbreviation (input) NDPI_PROTOCOL_NFS :: u16 where "NDPI_PROTOCOL_NFS \<equiv> 11"
abbreviation (input) NDPI_PROTOCOL_SSDP :: u16 where "NDPI_PROTOCOL_SSDP \<equiv> 12"
abbreviation (input) NDPI_PROTOCOL_BGP :: u16 where "NDPI_PROTOCOL_BGP \<equiv> 13"
abbreviation (input) NDPI_PROTOCOL_SNMP :: u16 where "NDPI_PROTOCOL_SNMP \<equiv> 14"
abbreviation (input) NDPI_PROTOCOL_XDMCP :: u16 where "NDPI_PROTOCOL_XDMCP \<equiv> 15"
abbreviation (input) NDPI_PROTOCOL_SMBV1 :: u16 where "NDPI_PROTOCOL_SMBV1 \<equiv> 16"
abbreviation (input) NDPI_PROTOCOL_SYSLOG :: u16 where "NDPI_PROTOCOL_SYSLOG \<equiv> 17"
abbreviation (input) NDPI_PROTOCOL_DHCP :: u16 where "NDPI_PROTOCOL_DHCP \<equiv> 18"
abbreviation (input) NDPI_PROTOCOL_POSTGRES :: u16 where "NDPI_PROTOCOL_POSTGRES \<equiv> 19"
abbreviation (input) NDPI_PROTOCOL_MYSQL :: u16 where "NDPI_PROTOCOL_MYSQL \<equiv> 20"
abbreviation (input) NDPI_PROTOCOL_HOTMAIL :: u16 where "NDPI_PROTOCOL_HOTMAIL \<equiv> 21"
abbreviation (input) NDPI_PROTOCOL_DIRECT_DOWNLOAD_LINK :: u16 where "NDPI_PROTOCOL_DIRECT_DOWNLOAD_LINK \<equiv> 22"
abbreviation (input) NDPI_PROTOCOL_MAIL_POPS :: u16 where "NDPI_PROTOCOL_MAIL_POPS \<equiv> 23"
abbreviation (input) NDPI_PROTOCOL_APPLEJUICE :: u16 where "NDPI_PROTOCOL_APPLEJUICE \<equiv> 24"
abbreviation (input) NDPI_PROTOCOL_DIRECTCONNECT :: u16 where "NDPI_PROTOCOL_DIRECTCONNECT \<equiv> 25"
abbreviation (input) NDPI_PROTOCOL_NTOP :: u16 where "NDPI_PROTOCOL_NTOP \<equiv> 26"
abbreviation (input) NDPI_PROTOCOL_COAP :: u16 where "NDPI_PROTOCOL_COAP \<equiv> 27"
abbreviation (input) NDPI_PROTOCOL_VMWARE :: u16 where "NDPI_PROTOCOL_VMWARE \<equiv> 28"
abbreviation (input) NDPI_PROTOCOL_MAIL_SMTPS :: u16 where "NDPI_PROTOCOL_MAIL_SMTPS \<equiv> 29"
abbreviation (input) NDPI_PROTOCOL_DTLS :: u16 where "NDPI_PROTOCOL_DTLS \<equiv> 30"
abbreviation (input) NDPI_PROTOCOL_UBNTAC2 :: u16 where "NDPI_PROTOCOL_UBNTAC2 \<equiv> 31"
abbreviation (input) NDPI_PROTOCOL_KONTIKI :: u16 where "NDPI_PROTOCOL_KONTIKI \<equiv> 32"
abbreviation (input) NDPI_PROTOCOL_OPENFT :: u16 where "NDPI_PROTOCOL_OPENFT \<equiv> 33"
abbreviation (input) NDPI_PROTOCOL_FASTTRACK :: u16 where "NDPI_PROTOCOL_FASTTRACK \<equiv> 34"
abbreviation (input) NDPI_PROTOCOL_GNUTELLA :: u16 where "NDPI_PROTOCOL_GNUTELLA \<equiv> 35"
abbreviation (input) NDPI_PROTOCOL_EDONKEY :: u16 where "NDPI_PROTOCOL_EDONKEY \<equiv> 36"
abbreviation (input) NDPI_PROTOCOL_BITTORRENT :: u16 where "NDPI_PROTOCOL_BITTORRENT \<equiv> 37"
abbreviation (input) NDPI_PROTOCOL_SKYPE_CALL :: u16 where "NDPI_PROTOCOL_SKYPE_CALL \<equiv> 38"
abbreviation (input) NDPI_PROTOCOL_SIGNAL :: u16 where "NDPI_PROTOCOL_SIGNAL \<equiv> 39"
abbreviation (input) NDPI_PROTOCOL_MEMCACHED :: u16 where "NDPI_PROTOCOL_MEMCACHED \<equiv> 40"
abbreviation (input) NDPI_PROTOCOL_SMBV23 :: u16 where "NDPI_PROTOCOL_SMBV23 \<equiv> 41"
abbreviation (input) NDPI_PROTOCOL_MINING :: u16 where "NDPI_PROTOCOL_MINING \<equiv> 42"
abbreviation (input) NDPI_PROTOCOL_NEST_LOG_SINK :: u16 where "NDPI_PROTOCOL_NEST_LOG_SINK \<equiv> 43"
abbreviation (input) NDPI_PROTOCOL_MODBUS :: u16 where "NDPI_PROTOCOL_MODBUS \<equiv> 44"
abbreviation (input) NDPI_PROTOCOL_WHATSAPP_CALL :: u16 where "NDPI_PROTOCOL_WHATSAPP_CALL \<equiv> 45"
abbreviation (input) NDPI_PROTOCOL_DATASAVER :: u16 where "NDPI_PROTOCOL_DATASAVER \<equiv> 46"
abbreviation (input) NDPI_PROTOCOL_XBOX :: u16 where "NDPI_PROTOCOL_XBOX \<equiv> 47"
abbreviation (input) NDPI_PROTOCOL_QQ :: u16 where "NDPI_PROTOCOL_QQ \<equiv> 48"
abbreviation (input) NDPI_PROTOCOL_TIKTOK :: u16 where "NDPI_PROTOCOL_TIKTOK \<equiv> 49"
abbreviation (input) NDPI_PROTOCOL_RTSP :: u16 where "NDPI_PROTOCOL_RTSP \<equiv> 50"
abbreviation (input) NDPI_PROTOCOL_MAIL_IMAPS :: u16 where "NDPI_PROTOCOL_MAIL_IMAPS \<equiv> 51"
abbreviation (input) NDPI_PROTOCOL_ICECAST :: u16 where "NDPI_PROTOCOL_ICECAST \<equiv> 52"
abbreviation (input) NDPI_PROTOCOL_CPHA :: u16 where "NDPI_PROTOCOL_CPHA \<equiv> 53"
abbreviation (input) NDPI_PROTOCOL_PPSTREAM :: u16 where "NDPI_PROTOCOL_PPSTREAM \<equiv> 54"
abbreviation (input) NDPI_PROTOCOL_ZATTOO :: u16 where "NDPI_PROTOCOL_ZATTOO \<equiv> 55"
abbreviation (input) NDPI_PROTOCOL_SHOUTCAST :: u16 where "NDPI_PROTOCOL_SHOUTCAST \<equiv> 56"
abbreviation (input) NDPI_PROTOCOL_SOPCAST :: u16 where "NDPI_PROTOCOL_SOPCAST \<equiv> 57"
abbreviation (input) NDPI_PROTOCOL_DISCORD :: u16 where "NDPI_PROTOCOL_DISCORD \<equiv> 58"
abbreviation (input) NDPI_PROTOCOL_TVUPLAYER :: u16 where "NDPI_PROTOCOL_TVUPLAYER \<equiv> 59"
abbreviation (input) NDPI_PROTOCOL_MONGODB :: u16 where "NDPI_PROTOCOL_MONGODB \<equiv> 60"
abbreviation (input) NDPI_PROTOCOL_QQLIVE :: u16 where "NDPI_PROTOCOL_QQLIVE \<equiv> 61"
abbreviation (input) NDPI_PROTOCOL_THUNDER :: u16 where "NDPI_PROTOCOL_THUNDER \<equiv> 62"
abbreviation (input) NDPI_PROTOCOL_OCSP :: u16 where "NDPI_PROTOCOL_OCSP \<equiv> 63"
abbreviation (input) NDPI_PROTOCOL_FREE_64 :: u16 where "NDPI_PROTOCOL_FREE_64 \<equiv> 64"
abbreviation (input) NDPI_PROTOCOL_IRC :: u16 where "NDPI_PROTOCOL_IRC \<equiv> 65"
abbreviation (input) NDPI_PROTOCOL_AYIYA :: u16 where "NDPI_PROTOCOL_AYIYA \<equiv> 66"
abbreviation (input) NDPI_PROTOCOL_JABBER :: u16 where "NDPI_PROTOCOL_JABBER \<equiv> 67"
abbreviation (input) NDPI_PROTOCOL_NATS :: u16 where "NDPI_PROTOCOL_NATS \<equiv> 68"
abbreviation (input) NDPI_PROTOCOL_AMONG_US :: u16 where "NDPI_PROTOCOL_AMONG_US \<equiv> 69"
abbreviation (input) NDPI_PROTOCOL_YAHOO :: u16 where "NDPI_PROTOCOL_YAHOO \<equiv> 70"
abbreviation (input) NDPI_PROTOCOL_DISNEYPLUS :: u16 where "NDPI_PROTOCOL_DISNEYPLUS \<equiv> 71"
abbreviation (input) NDPI_PROTOCOL_GOOGLE_PLUS :: u16 where "NDPI_PROTOCOL_GOOGLE_PLUS \<equiv> 72"
abbreviation (input) NDPI_PROTOCOL_IP_VRRP :: u16 where "NDPI_PROTOCOL_IP_VRRP \<equiv> 73"
abbreviation (input) NDPI_PROTOCOL_STEAM :: u16 where "NDPI_PROTOCOL_STEAM \<equiv> 74"
abbreviation (input) NDPI_PROTOCOL_HALFLIFE2 :: u16 where "NDPI_PROTOCOL_HALFLIFE2 \<equiv> 75"
abbreviation (input) NDPI_PROTOCOL_WORLDOFWARCRAFT :: u16 where "NDPI_PROTOCOL_WORLDOFWARCRAFT \<equiv> 76"
abbreviation (input) NDPI_PROTOCOL_TELNET :: u16 where "NDPI_PROTOCOL_TELNET \<equiv> 77"
abbreviation (input) NDPI_PROTOCOL_STUN :: u16 where "NDPI_PROTOCOL_STUN \<equiv> 78"
abbreviation (input) NDPI_PROTOCOL_IP_IPSEC :: u16 where "NDPI_PROTOCOL_IP_IPSEC \<equiv> 79"
abbreviation (input) NDPI_PROTOCOL_IP_GRE :: u16 where "NDPI_PROTOCOL_IP_GRE \<equiv> 80"
abbreviation (input) NDPI_PROTOCOL_IP_ICMP :: u16 where "NDPI_PROTOCOL_IP_ICMP \<equiv> 81"
abbreviation (input) NDPI_PROTOCOL_IP_IGMP :: u16 where "NDPI_PROTOCOL_IP_IGMP \<equiv> 82"
abbreviation (input) NDPI_PROTOCOL_IP_EGP :: u16 where "NDPI_PROTOCOL_IP_EGP \<equiv> 83"
abbreviation (input) NDPI_PROTOCOL_IP_SCTP :: u16 where "NDPI_PROTOCOL_IP_SCTP \<equiv> 84"
abbreviation (input) NDPI_PROTOCOL_IP_OSPF :: u16 where "NDPI_PROTOCOL_IP_OSPF \<equiv> 85"
abbreviation (input) NDPI_PROTOCOL_IP_IP_IN_IP :: u16 where "NDPI_PROTOCOL_IP_IP_IN_IP \<equiv> 86"
abbreviation (input) NDPI_PROTOCOL_RTP :: u16 where "NDPI_PROTOCOL_RTP \<equiv> 87"
abbreviation (input) NDPI_PROTOCOL_RDP :: u16 where "NDPI_PROTOCOL_RDP \<equiv> 88"
abbreviation (input) NDPI_PROTOCOL_VNC :: u16 where "NDPI_PROTOCOL_VNC \<equiv> 89"
abbreviation (input) NDPI_PROTOCOL_TUMBLR :: u16 where "NDPI_PROTOCOL_TUMBLR \<equiv> 90"
abbreviation (input) NDPI_PROTOCOL_TLS :: u16 where "NDPI_PROTOCOL_TLS \<equiv> 91"
abbreviation (input) NDPI_PROTOCOL_SSH :: u16 where "NDPI_PROTOCOL_SSH \<equiv> 92"
abbreviation (input) NDPI_PROTOCOL_USENET :: u16 where "NDPI_PROTOCOL_USENET \<equiv> 93"
abbreviation (input) NDPI_PROTOCOL_MGCP :: u16 where "NDPI_PROTOCOL_MGCP \<equiv> 94"
abbreviation (input) NDPI_PROTOCOL_IAX :: u16 where "NDPI_PROTOCOL_IAX \<equiv> 95"
abbreviation (input) NDPI_PROTOCOL_TFTP :: u16 where "NDPI_PROTOCOL_TFTP \<equiv> 96"
abbreviation (input) NDPI_PROTOCOL_AFP :: u16 where "NDPI_PROTOCOL_AFP \<equiv> 97"
abbreviation (input) NDPI_PROTOCOL_STEALTHNET :: u16 where "NDPI_PROTOCOL_STEALTHNET \<equiv> 98"
abbreviation (input) NDPI_PROTOCOL_AIMINI :: u16 where "NDPI_PROTOCOL_AIMINI \<equiv> 99"
abbreviation (input) NDPI_PROTOCOL_SIP :: u16 where "NDPI_PROTOCOL_SIP \<equiv> 100"
abbreviation (input) NDPI_PROTOCOL_TRUPHONE :: u16 where "NDPI_PROTOCOL_TRUPHONE \<equiv> 101"
abbreviation (input) NDPI_PROTOCOL_IP_ICMPV6 :: u16 where "NDPI_PROTOCOL_IP_ICMPV6 \<equiv> 102"
abbreviation (input) NDPI_PROTOCOL_DHCPV6 :: u16 where "NDPI_PROTOCOL_DHCPV6 \<equiv> 103"
abbreviation (input) NDPI_PROTOCOL_ARMAGETRON :: u16 where "NDPI_PROTOCOL_ARMAGETRON \<equiv> 104"
abbreviation (input) NDPI_PROTOCOL_CROSSFIRE :: u16 where "NDPI_PROTOCOL_CROSSFIRE \<equiv> 105"
abbreviation (input) NDPI_PROTOCOL_DOFUS :: u16 where "NDPI_PROTOCOL_DOFUS \<equiv> 106"
abbreviation (input) NDPI_PROTOCOL_FIESTA :: u16 where "NDPI_PROTOCOL_FIESTA \<equiv> 107"
abbreviation (input) NDPI_PROTOCOL_FLORENSIA :: u16 where "NDPI_PROTOCOL_FLORENSIA \<equiv> 108"
abbreviation (input) NDPI_PROTOCOL_GUILDWARS :: u16 where "NDPI_PROTOCOL_GUILDWARS \<equiv> 109"
abbreviation (input) NDPI_PROTOCOL_AMAZON_ALEXA :: u16 where "NDPI_PROTOCOL_AMAZON_ALEXA \<equiv> 110"
abbreviation (input) NDPI_PROTOCOL_KERBEROS :: u16 where "NDPI_PROTOCOL_KERBEROS \<equiv> 111"
abbreviation (input) NDPI_PROTOCOL_LDAP :: u16 where "NDPI_PROTOCOL_LDAP \<equiv> 112"
abbreviation (input) NDPI_PROTOCOL_MAPLESTORY :: u16 where "NDPI_PROTOCOL_MAPLESTORY \<equiv> 113"
abbreviation (input) NDPI_PROTOCOL_MSSQL_TDS :: u16 where "NDPI_PROTOCOL_MSSQL_TDS \<equiv> 114"
abbreviation (input) NDPI_PROTOCOL_PPTP :: u16 where "NDPI_PROTOCOL_PPTP \<equiv> 115"
abbreviation (input) NDPI_PROTOCOL_WARCRAFT3 :: u16 where "NDPI_PROTOCOL_WARCRAFT3 \<equiv> 116"
abbreviation (input) NDPI_PROTOCOL_WORLD_OF_KUNG_FU :: u16 where "NDPI_PROTOCOL_WORLD_OF_KUNG_FU \<equiv> 117"
abbreviation (input) NDPI_PROTOCOL_SLACK :: u16 where "NDPI_PROTOCOL_SLACK \<equiv> 118"
abbreviation (input) NDPI_PROTOCOL_FACEBOOK :: u16 where "NDPI_PROTOCOL_FACEBOOK \<equiv> 119"
abbreviation (input) NDPI_PROTOCOL_TWITTER :: u16 where "NDPI_PROTOCOL_TWITTER \<equiv> 120"
abbreviation (input) NDPI_PROTOCOL_DROPBOX :: u16 where "NDPI_PROTOCOL_DROPBOX \<equiv> 121"
abbreviation (input) NDPI_PROTOCOL_GMAIL :: u16 where "NDPI_PROTOCOL_GMAIL \<equiv> 122"
abbreviation (input) NDPI_PROTOCOL_GOOGLE_MAPS :: u16 where "NDPI_PROTOCOL_GOOGLE_MAPS \<equiv> 123"
abbreviation (input) NDPI_PROTOCOL_YOUTUBE :: u16 where "NDPI_PROTOCOL_YOUTUBE \<equiv> 124"
abbreviation (input) NDPI_PROTOCOL_SKYPE_TEAMS :: u16 where "NDPI_PROTOCOL_SKYPE_TEAMS \<equiv> 125"
abbreviation (input) NDPI_PROTOCOL_GOOGLE :: u16 where "NDPI_PROTOCOL_GOOGLE \<equiv> 126"
abbreviation (input) NDPI_PROTOCOL_DCERPC :: u16 where "NDPI_PROTOCOL_DCERPC \<equiv> 127"
abbreviation (input) NDPI_PROTOCOL_NETFLOW :: u16 where "NDPI_PROTOCOL_NETFLOW \<equiv> 128"
abbreviation (input) NDPI_PROTOCOL_SFLOW :: u16 where "NDPI_PROTOCOL_SFLOW \<equiv> 129"
abbreviation (input) NDPI_PROTOCOL_HTTP_CONNECT :: u16 where "NDPI_PROTOCOL_HTTP_CONNECT \<equiv> 130"
abbreviation (input) NDPI_PROTOCOL_HTTP_PROXY :: u16 where "NDPI_PROTOCOL_HTTP_PROXY \<equiv> 131"
abbreviation (input) NDPI_PROTOCOL_CITRIX :: u16 where "NDPI_PROTOCOL_CITRIX \<equiv> 132"
abbreviation (input) NDPI_PROTOCOL_NETFLIX :: u16 where "NDPI_PROTOCOL_NETFLIX \<equiv> 133"
abbreviation (input) NDPI_PROTOCOL_LASTFM :: u16 where "NDPI_PROTOCOL_LASTFM \<equiv> 134"
abbreviation (input) NDPI_PROTOCOL_WAZE :: u16 where "NDPI_PROTOCOL_WAZE \<equiv> 135"
abbreviation (input) NDPI_PROTOCOL_YOUTUBE_UPLOAD :: u16 where "NDPI_PROTOCOL_YOUTUBE_UPLOAD \<equiv> 136"
abbreviation (input) NDPI_PROTOCOL_HULU :: u16 where "NDPI_PROTOCOL_HULU \<equiv> 137"
abbreviation (input) NDPI_PROTOCOL_CHECKMK :: u16 where "NDPI_PROTOCOL_CHECKMK \<equiv> 138"
abbreviation (input) NDPI_PROTOCOL_AJP :: u16 where "NDPI_PROTOCOL_AJP \<equiv> 139"
abbreviation (input) NDPI_PROTOCOL_APPLE :: u16 where "NDPI_PROTOCOL_APPLE \<equiv> 140"
abbreviation (input) NDPI_PROTOCOL_WEBEX :: u16 where "NDPI_PROTOCOL_WEBEX \<equiv> 141"
abbreviation (input) NDPI_PROTOCOL_WHATSAPP :: u16 where "NDPI_PROTOCOL_WHATSAPP \<equiv> 142"
abbreviation (input) NDPI_PROTOCOL_APPLE_ICLOUD :: u16 where "NDPI_PROTOCOL_APPLE_ICLOUD \<equiv> 143"
abbreviation (input) NDPI_PROTOCOL_VIBER :: u16 where "NDPI_PROTOCOL_VIBER \<equiv> 144"
abbreviation (input) NDPI_PROTOCOL_APPLE_ITUNES :: u16 where "NDPI_PROTOCOL_APPLE_ITUNES \<equiv> 145"
abbreviation (input) NDPI_PROTOCOL_RADIUS :: u16 where "NDPI_PROTOCOL_RADIUS \<equiv> 146"
abbreviation (input) NDPI_PROTOCOL_WINDOWS_UPDATE :: u16 where "NDPI_PROTOCOL_WINDOWS_UPDATE \<equiv> 147"
abbreviation (input) NDPI_PROTOCOL_TEAMVIEWER :: u16 where "NDPI_PROTOCOL_TEAMVIEWER \<equiv> 148"
abbreviation (input) NDPI_PROTOCOL_TUENTI :: u16 where "NDPI_PROTOCOL_TUENTI \<equiv> 149"
abbreviation (input) NDPI_PROTOCOL_LOTUS_NOTES :: u16 where "NDPI_PROTOCOL_LOTUS_NOTES \<equiv> 150"
abbreviation (input) NDPI_PROTOCOL_SAP :: u16 where "NDPI_PROTOCOL_SAP \<equiv> 151"
abbreviation (input) NDPI_PROTOCOL_GTP :: u16 where "NDPI_PROTOCOL_GTP \<equiv> 152"
abbreviation (input) NDPI_PROTOCOL_WSD :: u16 where "NDPI_PROTOCOL_WSD \<equiv> 153"
abbreviation (input) NDPI_PROTOCOL_LLMNR :: u16 where "NDPI_PROTOCOL_LLMNR \<equiv> 154"
abbreviation (input) NDPI_PROTOCOL_REMOTE_SCAN :: u16 where "NDPI_PROTOCOL_REMOTE_SCAN \<equiv> 155"
abbreviation (input) NDPI_PROTOCOL_SPOTIFY :: u16 where "NDPI_PROTOCOL_SPOTIFY \<equiv> 156"
abbreviation (input) NDPI_PROTOCOL_MESSENGER :: u16 where "NDPI_PROTOCOL_MESSENGER \<equiv> 157"
abbreviation (input) NDPI_PROTOCOL_H323 :: u16 where "NDPI_PROTOCOL_H323 \<equiv> 158"
abbreviation (input) NDPI_PROTOCOL_OPENVPN :: u16 where "NDPI_PROTOCOL_OPENVPN \<equiv> 159"
abbreviation (input) NDPI_PROTOCOL_NOE :: u16 where "NDPI_PROTOCOL_NOE \<equiv> 160"
abbreviation (input) NDPI_PROTOCOL_CISCOVPN :: u16 where "NDPI_PROTOCOL_CISCOVPN \<equiv> 161"
abbreviation (input) NDPI_PROTOCOL_TEAMSPEAK :: u16 where "NDPI_PROTOCOL_TEAMSPEAK \<equiv> 162"
abbreviation (input) NDPI_PROTOCOL_TOR :: u16 where "NDPI_PROTOCOL_TOR \<equiv> 163"
abbreviation (input) NDPI_PROTOCOL_SKINNY :: u16 where "NDPI_PROTOCOL_SKINNY \<equiv> 164"
abbreviation (input) NDPI_PROTOCOL_RTCP :: u16 where "NDPI_PROTOCOL_RTCP \<equiv> 165"
abbreviation (input) NDPI_PROTOCOL_RSYNC :: u16 where "NDPI_PROTOCOL_RSYNC \<equiv> 166"
abbreviation (input) NDPI_PROTOCOL_ORACLE :: u16 where "NDPI_PROTOCOL_ORACLE \<equiv> 167"
abbreviation (input) NDPI_PROTOCOL_CORBA :: u16 where "NDPI_PROTOCOL_CORBA \<equiv> 168"
abbreviation (input) NDPI_PROTOCOL_UBUNTUONE :: u16 where "NDPI_PROTOCOL_UBUNTUONE \<equiv> 169"
abbreviation (input) NDPI_PROTOCOL_WHOIS_DAS :: u16 where "NDPI_PROTOCOL_WHOIS_DAS \<equiv> 170"
abbreviation (input) NDPI_PROTOCOL_COLLECTD :: u16 where "NDPI_PROTOCOL_COLLECTD \<equiv> 171"
abbreviation (input) NDPI_PROTOCOL_SOCKS :: u16 where "NDPI_PROTOCOL_SOCKS \<equiv> 172"
abbreviation (input) NDPI_PROTOCOL_NINTENDO :: u16 where "NDPI_PROTOCOL_NINTENDO \<equiv> 173"
abbreviation (input) NDPI_PROTOCOL_RTMP :: u16 where "NDPI_PROTOCOL_RTMP \<equiv> 174"
abbreviation (input) NDPI_PROTOCOL_FTP_DATA :: u16 where "NDPI_PROTOCOL_FTP_DATA \<equiv> 175"
abbreviation (input) NDPI_PROTOCOL_WIKIPEDIA :: u16 where "NDPI_PROTOCOL_WIKIPEDIA \<equiv> 176"
abbreviation (input) NDPI_PROTOCOL_ZMQ :: u16 where "NDPI_PROTOCOL_ZMQ \<equiv> 177"
abbreviation (input) NDPI_PROTOCOL_AMAZON :: u16 where "NDPI_PROTOCOL_AMAZON \<equiv> 178"
abbreviation (input) NDPI_PROTOCOL_EBAY :: u16 where "NDPI_PROTOCOL_EBAY \<equiv> 179"
abbreviation (input) NDPI_PROTOCOL_CNN :: u16 where "NDPI_PROTOCOL_CNN \<equiv> 180"
abbreviation (input) NDPI_PROTOCOL_MEGACO :: u16 where "NDPI_PROTOCOL_MEGACO \<equiv> 181"
abbreviation (input) NDPI_PROTOCOL_REDIS :: u16 where "NDPI_PROTOCOL_REDIS \<equiv> 182"
abbreviation (input) NDPI_PROTOCOL_PINTEREST :: u16 where "NDPI_PROTOCOL_PINTEREST \<equiv> 183"
abbreviation (input) NDPI_PROTOCOL_VHUA :: u16 where "NDPI_PROTOCOL_VHUA \<equiv> 184"
abbreviation (input) NDPI_PROTOCOL_TELEGRAM :: u16 where "NDPI_PROTOCOL_TELEGRAM \<equiv> 185"
abbreviation (input) NDPI_PROTOCOL_VEVO :: u16 where "NDPI_PROTOCOL_VEVO \<equiv> 186"
abbreviation (input) NDPI_PROTOCOL_PANDORA :: u16 where "NDPI_PROTOCOL_PANDORA \<equiv> 187"
abbreviation (input) NDPI_PROTOCOL_QUIC :: u16 where "NDPI_PROTOCOL_QUIC \<equiv> 188"
abbreviation (input) NDPI_PROTOCOL_ZOOM :: u16 where "NDPI_PROTOCOL_ZOOM \<equiv> 189"
abbreviation (input) NDPI_PROTOCOL_EAQ :: u16 where "NDPI_PROTOCOL_EAQ \<equiv> 190"
abbreviation (input) NDPI_PROTOCOL_OOKLA :: u16 where "NDPI_PROTOCOL_OOKLA \<equiv> 191"
abbreviation (input) NDPI_PROTOCOL_AMQP :: u16 where "NDPI_PROTOCOL_AMQP \<equiv> 192"
abbreviation (input) NDPI_PROTOCOL_KAKAOTALK :: u16 where "NDPI_PROTOCOL_KAKAOTALK \<equiv> 193"
abbreviation (input) NDPI_PROTOCOL_KAKAOTALK_VOICE :: u16 where "NDPI_PROTOCOL_KAKAOTALK_VOICE \<equiv> 194"
abbreviation (input) NDPI_PROTOCOL_TWITCH :: u16 where "NDPI_PROTOCOL_TWITCH \<equiv> 195"
abbreviation (input) NDPI_PROTOCOL_DOH_DOT :: u16 where "NDPI_PROTOCOL_DOH_DOT \<equiv> 196"
abbreviation (input) NDPI_PROTOCOL_WECHAT :: u16 where "NDPI_PROTOCOL_WECHAT \<equiv> 197"
abbreviation (input) NDPI_PROTOCOL_MPEGTS :: u16 where "NDPI_PROTOCOL_MPEGTS \<equiv> 198"
abbreviation (input) NDPI_PROTOCOL_SNAPCHAT :: u16 where "NDPI_PROTOCOL_SNAPCHAT \<equiv> 199"
abbreviation (input) NDPI_PROTOCOL_SINA :: u16 where "NDPI_PROTOCOL_SINA \<equiv> 200"
abbreviation (input) NDPI_PROTOCOL_HANGOUT_DUO :: u16 where "NDPI_PROTOCOL_HANGOUT_DUO \<equiv> 201"
abbreviation (input) NDPI_PROTOCOL_IFLIX :: u16 where "NDPI_PROTOCOL_IFLIX \<equiv> 202"
abbreviation (input) NDPI_PROTOCOL_GITHUB :: u16 where "NDPI_PROTOCOL_GITHUB \<equiv> 203"
abbreviation (input) NDPI_PROTOCOL_BJNP :: u16 where "NDPI_PROTOCOL_BJNP \<equiv> 204"
abbreviation (input) NDPI_PROTOCOL_REDDIT :: u16 where "NDPI_PROTOCOL_REDDIT \<equiv> 205"
abbreviation (input) NDPI_PROTOCOL_WIREGUARD :: u16 where "NDPI_PROTOCOL_WIREGUARD \<equiv> 206"
abbreviation (input) NDPI_PROTOCOL_SMPP :: u16 where "NDPI_PROTOCOL_SMPP \<equiv> 207"
abbreviation (input) NDPI_PROTOCOL_DNSCRYPT :: u16 where "NDPI_PROTOCOL_DNSCRYPT \<equiv> 208"
abbreviation (input) NDPI_PROTOCOL_TINC :: u16 where "NDPI_PROTOCOL_TINC \<equiv> 209"
abbreviation (input) NDPI_PROTOCOL_DEEZER :: u16 where "NDPI_PROTOCOL_DEEZER \<equiv> 210"
abbreviation (input) NDPI_PROTOCOL_INSTAGRAM :: u16 where "NDPI_PROTOCOL_INSTAGRAM \<equiv> 211"
abbreviation (input) NDPI_PROTOCOL_MICROSOFT :: u16 where "NDPI_PROTOCOL_MICROSOFT \<equiv> 212"
abbreviation (input) NDPI_PROTOCOL_STARCRAFT :: u16 where "NDPI_PROTOCOL_STARCRAFT \<equiv> 213"
abbreviation (input) NDPI_PROTOCOL_TEREDO :: u16 where "NDPI_PROTOCOL_TEREDO \<equiv> 214"
abbreviation (input) NDPI_PROTOCOL_HOTSPOT_SHIELD :: u16 where "NDPI_PROTOCOL_HOTSPOT_SHIELD \<equiv> 215"
abbreviation (input) NDPI_PROTOCOL_IMO :: u16 where "NDPI_PROTOCOL_IMO \<equiv> 216"
abbreviation (input) NDPI_PROTOCOL_GOOGLE_DRIVE :: u16 where "NDPI_PROTOCOL_GOOGLE_DRIVE \<equiv> 217"
abbreviation (input) NDPI_PROTOCOL_OCS :: u16 where "NDPI_PROTOCOL_OCS \<equiv> 218"
abbreviation (input) NDPI_PROTOCOL_MICROSOFT_365 :: u16 where "NDPI_PROTOCOL_MICROSOFT_365 \<equiv> 219"
abbreviation (input) NDPI_PROTOCOL_CLOUDFLARE :: u16 where "NDPI_PROTOCOL_CLOUDFLARE \<equiv> 220"
abbreviation (input) NDPI_PROTOCOL_MS_ONE_DRIVE :: u16 where "NDPI_PROTOCOL_MS_ONE_DRIVE \<equiv> 221"
abbreviation (input) NDPI_PROTOCOL_MQTT :: u16 where "NDPI_PROTOCOL_MQTT \<equiv> 222"
abbreviation (input) NDPI_PROTOCOL_RX :: u16 where "NDPI_PROTOCOL_RX \<equiv> 223"
abbreviation (input) NDPI_PROTOCOL_APPLESTORE :: u16 where "NDPI_PROTOCOL_APPLESTORE \<equiv> 224"
abbreviation (input) NDPI_PROTOCOL_OPENDNS :: u16 where "NDPI_PROTOCOL_OPENDNS \<equiv> 225"
abbreviation (input) NDPI_PROTOCOL_GIT :: u16 where "NDPI_PROTOCOL_GIT \<equiv> 226"
abbreviation (input) NDPI_PROTOCOL_DRDA :: u16 where "NDPI_PROTOCOL_DRDA \<equiv> 227"
abbreviation (input) NDPI_PROTOCOL_PLAYSTORE :: u16 where "NDPI_PROTOCOL_PLAYSTORE \<equiv> 228"
abbreviation (input) NDPI_PROTOCOL_SOMEIP :: u16 where "NDPI_PROTOCOL_SOMEIP \<equiv> 229"
abbreviation (input) NDPI_PROTOCOL_FIX :: u16 where "NDPI_PROTOCOL_FIX \<equiv> 230"
abbreviation (input) NDPI_PROTOCOL_PLAYSTATION :: u16 where "NDPI_PROTOCOL_PLAYSTATION \<equiv> 231"
abbreviation (input) NDPI_PROTOCOL_PASTEBIN :: u16 where "NDPI_PROTOCOL_PASTEBIN \<equiv> 232"
abbreviation (input) NDPI_PROTOCOL_LINKEDIN :: u16 where "NDPI_PROTOCOL_LINKEDIN \<equiv> 233"
abbreviation (input) NDPI_PROTOCOL_SOUNDCLOUD :: u16 where "NDPI_PROTOCOL_SOUNDCLOUD \<equiv> 234"
abbreviation (input) NDPI_PROTOCOL_CSGO :: u16 where "NDPI_PROTOCOL_CSGO \<equiv> 235"
abbreviation (input) NDPI_PROTOCOL_LISP :: u16 where "NDPI_PROTOCOL_LISP \<equiv> 236"
abbreviation (input) NDPI_PROTOCOL_DIAMETER :: u16 where "NDPI_PROTOCOL_DIAMETER \<equiv> 237"
abbreviation (input) NDPI_PROTOCOL_APPLE_PUSH :: u16 where "NDPI_PROTOCOL_APPLE_PUSH \<equiv> 238"
abbreviation (input) NDPI_PROTOCOL_GOOGLE_SERVICES :: u16 where "NDPI_PROTOCOL_GOOGLE_SERVICES \<equiv> 239"
abbreviation (input) NDPI_PROTOCOL_AMAZON_VIDEO :: u16 where "NDPI_PROTOCOL_AMAZON_VIDEO \<equiv> 240"
abbreviation (input) NDPI_PROTOCOL_GOOGLE_DOCS :: u16 where "NDPI_PROTOCOL_GOOGLE_DOCS \<equiv> 241"
abbreviation (input) NDPI_PROTOCOL_WHATSAPP_FILES :: u16 where "NDPI_PROTOCOL_WHATSAPP_FILES \<equiv> 242"
abbreviation (input) NDPI_PROTOCOL_TARGUS_GETDATA :: u16 where "NDPI_PROTOCOL_TARGUS_GETDATA \<equiv> 243"
abbreviation (input) NDPI_PROTOCOL_DNP3 :: u16 where "NDPI_PROTOCOL_DNP3 \<equiv> 244"
abbreviation (input) NDPI_PROTOCOL_IEC60870 :: u16 where "NDPI_PROTOCOL_IEC60870 \<equiv> 245"
abbreviation (input) NDPI_PROTOCOL_BLOOMBERG :: u16 where "NDPI_PROTOCOL_BLOOMBERG \<equiv> 246"
abbreviation (input) NDPI_PROTOCOL_CAPWAP :: u16 where "NDPI_PROTOCOL_CAPWAP \<equiv> 247"
abbreviation (input) NDPI_PROTOCOL_ZABBIX :: u16 where "NDPI_PROTOCOL_ZABBIX \<equiv> 248"
abbreviation (input) NDPI_PROTOCOL_S7COMM :: u16 where "NDPI_PROTOCOL_S7COMM \<equiv> 249"
abbreviation (input) NDPI_PROTOCOL_MSTEAMS :: u16 where "NDPI_PROTOCOL_MSTEAMS \<equiv> 250"
abbreviation (input) NDPI_PROTOCOL_WEBSOCKET :: u16 where "NDPI_PROTOCOL_WEBSOCKET \<equiv> 251"
abbreviation (input) NDPI_PROTOCOL_ANYDESK :: u16 where "NDPI_PROTOCOL_ANYDESK \<equiv> 252"
abbreviation (input) NDPI_PROTOCOL_SOAP :: u16 where "NDPI_PROTOCOL_SOAP \<equiv> 253"
abbreviation (input) NDPI_PROTOCOL_APPLE_SIRI :: u16 where "NDPI_PROTOCOL_APPLE_SIRI \<equiv> 254"
abbreviation (input) NDPI_PROTOCOL_SNAPCHAT_CALL :: u16 where "NDPI_PROTOCOL_SNAPCHAT_CALL \<equiv> 255"
abbreviation (input) NDPI_PROTOCOL_HPVIRTGRP :: u16 where "NDPI_PROTOCOL_HPVIRTGRP \<equiv> 256"
abbreviation (input) NDPI_PROTOCOL_GENSHIN_IMPACT :: u16 where "NDPI_PROTOCOL_GENSHIN_IMPACT \<equiv> 257"
abbreviation (input) NDPI_PROTOCOL_ACTIVISION :: u16 where "NDPI_PROTOCOL_ACTIVISION \<equiv> 258"
abbreviation (input) NDPI_PROTOCOL_FORTICLIENT :: u16 where "NDPI_PROTOCOL_FORTICLIENT \<equiv> 259"
abbreviation (input) NDPI_PROTOCOL_Z3950 :: u16 where "NDPI_PROTOCOL_Z3950 \<equiv> 260"
abbreviation (input) NDPI_PROTOCOL_LIKEE :: u16 where "NDPI_PROTOCOL_LIKEE \<equiv> 261"
abbreviation (input) NDPI_PROTOCOL_GITLAB :: u16 where "NDPI_PROTOCOL_GITLAB \<equiv> 262"
abbreviation (input) NDPI_PROTOCOL_AVAST_SECUREDNS :: u16 where "NDPI_PROTOCOL_AVAST_SECUREDNS \<equiv> 263"
abbreviation (input) NDPI_PROTOCOL_CASSANDRA :: u16 where "NDPI_PROTOCOL_CASSANDRA \<equiv> 264"
abbreviation (input) NDPI_PROTOCOL_AMAZON_AWS :: u16 where "NDPI_PROTOCOL_AMAZON_AWS \<equiv> 265"
abbreviation (input) NDPI_PROTOCOL_SALESFORCE :: u16 where "NDPI_PROTOCOL_SALESFORCE \<equiv> 266"
abbreviation (input) NDPI_PROTOCOL_VIMEO :: u16 where "NDPI_PROTOCOL_VIMEO \<equiv> 267"
abbreviation (input) NDPI_PROTOCOL_FACEBOOK_VOIP :: u16 where "NDPI_PROTOCOL_FACEBOOK_VOIP \<equiv> 268"
abbreviation (input) NDPI_PROTOCOL_SIGNAL_VOIP :: u16 where "NDPI_PROTOCOL_SIGNAL_VOIP \<equiv> 269"
abbreviation (input) NDPI_PROTOCOL_FUZE :: u16 where "NDPI_PROTOCOL_FUZE \<equiv> 270"
abbreviation (input) NDPI_PROTOCOL_GTP_U :: u16 where "NDPI_PROTOCOL_GTP_U \<equiv> 271"
abbreviation (input) NDPI_PROTOCOL_GTP_C :: u16 where "NDPI_PROTOCOL_GTP_C \<equiv> 272"
abbreviation (input) NDPI_PROTOCOL_GTP_PRIME :: u16 where "NDPI_PROTOCOL_GTP_PRIME \<equiv> 273"
abbreviation (input) NDPI_PROTOCOL_ALIBABA :: u16 where "NDPI_PROTOCOL_ALIBABA \<equiv> 274"
abbreviation (input) NDPI_PROTOCOL_CRASHLYSTICS :: u16 where "NDPI_PROTOCOL_CRASHLYSTICS \<equiv> 275"
abbreviation (input) NDPI_PROTOCOL_MICROSOFT_AZURE :: u16 where "NDPI_PROTOCOL_MICROSOFT_AZURE \<equiv> 276"
abbreviation (input) NDPI_PROTOCOL_ICLOUD_PRIVATE_RELAY :: u16 where "NDPI_PROTOCOL_ICLOUD_PRIVATE_RELAY \<equiv> 277"
abbreviation (input) NDPI_PROTOCOL_ETHERNET_IP :: u16 where "NDPI_PROTOCOL_ETHERNET_IP \<equiv> 278"
abbreviation (input) NDPI_PROTOCOL_BADOO :: u16 where "NDPI_PROTOCOL_BADOO \<equiv> 279"
abbreviation (input) NDPI_PROTOCOL_ACCUWEATHER :: u16 where "NDPI_PROTOCOL_ACCUWEATHER \<equiv> 280"
abbreviation (input) NDPI_PROTOCOL_GOOGLE_CLASSROOM :: u16 where "NDPI_PROTOCOL_GOOGLE_CLASSROOM \<equiv> 281"

text \<open>The value behind the last identifier, and the room for user-defined ones up to 512.\<close>

definition NDPI_MAX_SUPPORTED_PROTOCOLS :: nat where "NDPI_MAX_SUPPORTED_PROTOCOLS = 282"

definition NDPI_MAX_NUM_CUSTOM_PROTOCOLS :: nat where "NDPI_MAX_NUM_CUSTOM_PROTOCOLS = 512 - NDPI_MAX_SUPPORTED_PROTOCOLS"

end
