(* ===== verification/Engine_State.thy ===== *)
theory Engine_State
  imports Packet_Layer Bitmask Default_Ports Lru_Cache Protocol_Ids
begin

text \<open>
  The state of the detection engine of \<^verbatim>\<open>ndpi_main.c\<close> and the operations on single parts of it: the
  detection module, the stack of protocols of a flow, exclusions, names, categories and breeds of
  protocols, and the risks of a flow (\<^verbatim>\<open>ndpi_utils.c\<close>). The search structures of the vendored
  libraries are functions in the module: an automaton maps a text to the match it finds, a Patricia
  tree an address to the value of its best prefix.
\<close>

section \<open>The module\<close>

text \<open>A dissector is known by its name; \<open>None\<close> is the null pointer.\<close>

record call_function =
  cf_detection_bitmask :: bitmask
  cf_excluded_bitmask :: bitmask
  cf_func :: "string option"
  ndpi_selection_bitmask :: u32
  cf_protocol_id :: u16

definition zero_call :: call_function where
  "zero_call = \<lparr>cf_detection_bitmask = NDPI_ZERO, cf_excluded_bitmask = NDPI_ZERO, cf_func = None,
     ndpi_selection_bitmask = 0, cf_protocol_id = 0\<rparr>"

text \<open>A name is its text without the final zero byte; the arrays of default ports have five places.\<close>

record proto_default =
  protoName :: "bytes option"
  protoCategory :: nat
  isClearTextProto :: bool
  subprotocols :: "u16 list"
  subprotocol_count :: u32
  protoId :: u16
  protoIdx :: u16
  tcp_default_ports :: "u16 list"
  udp_default_ports :: "u16 list"
  protoBreed :: nat
  pd_func :: "string option"

record ac_match =
  ac_number :: u32
  ac_category :: nat
  ac_breed :: nat
  ac_number64 :: u64

record automa =
  automata_open :: bool
  ac_search :: "bytes \<Rightarrow> ac_match option"

text \<open>The four buffers that the list of dissectors is sorted into.\<close>

datatype callback_buffer_id =
  callback_buffer_tcp_no_payload | callback_buffer_tcp_payload | callback_buffer_udp | callback_buffer_non_tcp_udp

record ndpi_module =
  detection_bitmask :: bitmask
  custom_category_labels :: "bytes list"
  callback_buffer :: "call_function list"
  callback_buffer_size :: nat
  callback_buffers :: "callback_buffer_id \<Rightarrow> call_function list"
  callback_buffer_sizes :: "callback_buffer_id \<Rightarrow> nat"
  tcpRoot :: "port_node tree"
  udpRoot :: "port_node tree"
  tcp_max_retransmission_window_size :: u32
  ndpi_num_supported_protocols :: nat
  ndpi_num_custom_protocols :: nat
  host_automa :: "automa option"
  risky_domain_automa :: "automa option"
  host_risk_mask_automa :: "automa option"
  hostnames_automa :: "automa option"
  ip_risk_mask_ptree :: "u32 \<Rightarrow> u64 option"
  ipAddresses_ptree :: "u32 \<Rightarrow> (u32 \<times> u32) option"
  protocols_ptree :: "u32 \<Rightarrow> (u32 \<times> u32) option"
  categories_loaded :: bool
  ip_version_limit :: u32
  bittorrent_cache :: "lru_cache option"
  zoom_cache :: "lru_cache option"
  mining_cache :: "lru_cache option"
  msteams_cache :: "lru_cache option"
  proto_defaults :: "proto_default list"
  direction_detect_disable :: bool
  packet :: ndpi_packet
  ac_automa_finalized :: bool
  dissector_memory :: "nat \<Rightarrow> u8"

text \<open>An element of an array; an index outside is an invalid access.\<close>

definition at :: "'a list \<Rightarrow> nat \<Rightarrow> 'a option" where
  "at xs i = (if i < length xs then Some (xs ! i) else None)"

definition defaults_of :: "ndpi_module \<Rightarrow> u16 \<Rightarrow> proto_default option" where
  "defaults_of m p = at (proto_defaults m) (unat p)"

definition ndpi_is_valid_protoId :: "u16 \<Rightarrow> bool" where
  "ndpi_is_valid_protoId p \<longleftrightarrow> \<not> NDPI_MAX_SUPPORTED_PROTOCOLS + NDPI_MAX_NUM_CUSTOM_PROTOCOLS \<le> unat p"

section \<open>The stack of protocols\<close>

abbreviation app_of :: "ndpi_flow \<Rightarrow> u16" where "app_of f \<equiv> fst (detected_protocol_stack f)"
abbreviation master_of :: "ndpi_flow \<Rightarrow> u16" where "master_of f \<equiv> snd (detected_protocol_stack f)"

text \<open>The levels of confidence, in the order of the enumeration.\<close>

abbreviation (input) NDPI_CONFIDENCE_UNKNOWN :: nat where "NDPI_CONFIDENCE_UNKNOWN \<equiv> 0"
abbreviation (input) NDPI_CONFIDENCE_MATCH_BY_PORT :: nat where "NDPI_CONFIDENCE_MATCH_BY_PORT \<equiv> 1"
abbreviation (input) NDPI_CONFIDENCE_MATCH_BY_IP :: nat where "NDPI_CONFIDENCE_MATCH_BY_IP \<equiv> 2"
abbreviation (input) NDPI_CONFIDENCE_DPI_CACHE :: nat where "NDPI_CONFIDENCE_DPI_CACHE \<equiv> 3"
abbreviation (input) NDPI_CONFIDENCE_DPI :: nat where "NDPI_CONFIDENCE_DPI \<equiv> 4"

definition flow_is_proto :: "ndpi_flow \<Rightarrow> u16 \<Rightarrow> bool" where
  "flow_is_proto f p \<longleftrightarrow> app_of f = p \<or> master_of f = p"

definition ndpi_int_change_flow_protocol :: "u16 \<Rightarrow> u16 \<Rightarrow> nat \<Rightarrow> ndpi_flow \<Rightarrow> ndpi_flow" where
  "ndpi_int_change_flow_protocol upper lower conf f =
     f\<lparr>detected_protocol_stack := (upper, lower), confidence := conf\<rparr>"

definition ndpi_int_change_protocol :: "ndpi_module \<Rightarrow> u16 \<Rightarrow> u16 \<Rightarrow> nat \<Rightarrow> ndpi_flow \<Rightarrow> ndpi_flow option" where
  "ndpi_int_change_protocol m upper lower conf f = do {
     let upper = (if upper = NDPI_PROTOCOL_UNKNOWN \<and> lower \<noteq> NDPI_PROTOCOL_UNKNOWN then lower else upper);
     let lower = (if upper = lower then NDPI_PROTOCOL_UNKNOWN else lower);
     (upper, lower) \<leftarrow>
       (if upper \<noteq> NDPI_PROTOCOL_UNKNOWN \<and> lower = NDPI_PROTOCOL_UNKNOWN
           \<and> guessed_host_protocol_id f \<noteq> NDPI_PROTOCOL_UNKNOWN \<and> upper \<noteq> guessed_host_protocol_id f
        then do {
          d \<leftarrow> defaults_of m upper;
          if 0 < subprotocol_count d then Some (guessed_host_protocol_id f, upper) else Some (upper, lower)
        }
        else Some (upper, lower));
     Some (ndpi_int_change_flow_protocol upper lower conf f)
   }"

definition ndpi_set_detected_protocol :: "ndpi_module \<Rightarrow> u16 \<Rightarrow> u16 \<Rightarrow> nat \<Rightarrow> ndpi_flow \<Rightarrow> ndpi_flow option" where
  "ndpi_set_detected_protocol m upper lower conf f = ndpi_int_change_protocol m upper lower conf f"

definition ndpi_get_flow_masterprotocol :: "ndpi_flow \<Rightarrow> u16" where
  "ndpi_get_flow_masterprotocol f = master_of f"

definition ndpi_int_change_category :: "nat \<Rightarrow> ndpi_flow \<Rightarrow> ndpi_flow" where
  "ndpi_int_change_category c f = f\<lparr>category := c\<rparr>"

definition ndpi_int_reset_protocol :: "ndpi_flow \<Rightarrow> ndpi_flow" where
  "ndpi_int_reset_protocol f =
     f\<lparr>detected_protocol_stack := (NDPI_PROTOCOL_UNKNOWN, NDPI_PROTOCOL_UNKNOWN), confidence := NDPI_CONFIDENCE_UNKNOWN\<rparr>"

definition ndpi_exclude_protocol :: "u16 \<Rightarrow> ndpi_flow \<Rightarrow> ndpi_flow option" where
  "ndpi_exclude_protocol p f =
     (if ndpi_is_valid_protoId p then do {
        b \<leftarrow> NDPI_ADD_PROTOCOL_TO_BITMASK (excluded_protocol_bitmask f) p;
        Some (f\<lparr>excluded_protocol_bitmask := b\<rparr>)
      } else Some f)"

section \<open>Results, names and categories\<close>

record ndpi_protocol =
  master_protocol :: u16
  app_protocol :: u16
  proto_category :: nat

definition ndpi_is_proto :: "ndpi_protocol \<Rightarrow> u16 \<Rightarrow> bool" where
  "ndpi_is_proto proto p \<longleftrightarrow> app_protocol proto = p \<or> master_protocol proto = p"

definition ndpi_get_lower_proto :: "ndpi_protocol \<Rightarrow> u16" where
  "ndpi_get_lower_proto proto =
     (if master_protocol proto \<noteq> NDPI_PROTOCOL_UNKNOWN then master_protocol proto else app_protocol proto)"

definition ndpi_get_upper_proto :: "ndpi_protocol \<Rightarrow> u16" where
  "ndpi_get_upper_proto proto =
     (if app_protocol proto \<noteq> NDPI_PROTOCOL_UNKNOWN then app_protocol proto else master_protocol proto)"

text \<open>The index under which the defaults of a protocol are read: the unknown protocol's when it has none.\<close>

definition known_or_unknown :: "ndpi_module \<Rightarrow> u16 \<Rightarrow> u16 option" where
  "known_or_unknown m p =
     (if ndpi_num_supported_protocols m \<le> unat p \<or> \<not> ndpi_is_valid_protoId p then Some NDPI_PROTOCOL_UNKNOWN
      else do { d \<leftarrow> defaults_of m p; Some (if protoName d = None then NDPI_PROTOCOL_UNKNOWN else p) })"

text \<open>Printing the null pointer is undefined.\<close>

definition ndpi_get_proto_name :: "ndpi_module \<Rightarrow> u16 \<Rightarrow> bytes option" where
  "ndpi_get_proto_name m p = do { p \<leftarrow> known_or_unknown m p; d \<leftarrow> defaults_of m p; protoName d }"

definition ndpi_get_proto_breed :: "ndpi_module \<Rightarrow> u16 \<Rightarrow> nat option" where
  "ndpi_get_proto_breed m p = do { p \<leftarrow> known_or_unknown m p; d \<leftarrow> defaults_of m p; Some (protoBreed d) }"

definition ndpi_get_proto_category :: "ndpi_module \<Rightarrow> ndpi_protocol \<Rightarrow> nat option" where
  "ndpi_get_proto_category m proto =
     (if proto_category proto \<noteq> 0 then Some (proto_category proto)
      else do {
        sub_first \<leftarrow> (if master_protocol proto = NDPI_PROTOCOL_UNKNOWN then Some True
                     else map_option (\<lambda>d. protoCategory d \<noteq> 0) (defaults_of m (app_protocol proto)));
        let p = (if sub_first then app_protocol proto else master_protocol proto);
        if ndpi_is_valid_protoId p then map_option protoCategory (defaults_of m p) else Some 0
      })"

text \<open>
  The text of a result, printed into a buffer of \<open>len\<close> bytes: at most \<open>len - 1\<close> bytes and a zero
  byte, the rest of the buffer as it was.
\<close>

definition protocol_text :: "(u16 \<Rightarrow> bytes option) \<Rightarrow> ndpi_protocol \<Rightarrow> bytes option" where
  "protocol_text show_one proto =
     (if master_protocol proto \<noteq> NDPI_PROTOCOL_UNKNOWN \<and> master_protocol proto \<noteq> app_protocol proto then
        if app_protocol proto \<noteq> NDPI_PROTOCOL_UNKNOWN then do {
          a \<leftarrow> show_one (master_protocol proto);
          b \<leftarrow> show_one (app_protocol proto);
          Some (a @ str ''.'' @ b)
        }
        else show_one (master_protocol proto)
      else show_one (app_protocol proto))"

definition ndpi_protocol2id :: "ndpi_protocol \<Rightarrow> bytes \<Rightarrow> bytes option" where
  "ndpi_protocol2id proto buf = do {
     t \<leftarrow> protocol_text (\<lambda>p. Some (show_nat (unat p))) proto;
     snprintf_at buf 0 (length buf) t
   }"

definition ndpi_protocol2name :: "ndpi_module \<Rightarrow> ndpi_protocol \<Rightarrow> bytes \<Rightarrow> bytes option" where
  "ndpi_protocol2name m proto buf = do {
     t \<leftarrow> protocol_text (ndpi_get_proto_name m) proto;
     snprintf_at buf 0 (length buf) t
   }"

section \<open>Risks\<close>

abbreviation (input) NDPI_KNOWN_PROTOCOL_ON_NON_STANDARD_PORT :: nat where "NDPI_KNOWN_PROTOCOL_ON_NON_STANDARD_PORT \<equiv> 5"
abbreviation (input) NDPI_MALFORMED_PACKET :: nat where "NDPI_MALFORMED_PACKET \<equiv> 17"
abbreviation (input) NDPI_UNSAFE_PROTOCOL :: nat where "NDPI_UNSAFE_PROTOCOL \<equiv> 22"
abbreviation (input) NDPI_RISKY_DOMAIN :: nat where "NDPI_RISKY_DOMAIN \<equiv> 27"
abbreviation (input) NDPI_DESKTOP_OR_FILE_SHARING_SESSION :: nat where "NDPI_DESKTOP_OR_FILE_SHARING_SESSION \<equiv> 30"
abbreviation (input) NDPI_SUSPICIOUS_ENTROPY :: nat where "NDPI_SUSPICIOUS_ENTROPY \<equiv> 35"

text \<open>The search of the vendored automata: a negative result as long as the automaton is open.\<close>

definition ac_automata_search :: "automa \<Rightarrow> bytes \<Rightarrow> int \<times> ac_match option" where
  "ac_automata_search a t =
     (if automata_open a then (-1, None)
      else case ac_search a t of None \<Rightarrow> (0, None) | Some r \<Rightarrow> (1, Some r))"

definition ndpi_host_ip_risk_ptree_match :: "ndpi_module \<Rightarrow> u32 \<Rightarrow> u64" where
  "ndpi_host_ip_risk_ptree_match m pin = (case ip_risk_mask_ptree m pin of Some v \<Rightarrow> v | None \<Rightarrow> NOT 0)"

definition ndpi_get_flow_name :: "ndpi_flow \<Rightarrow> bytes option" where
  "ndpi_get_flow_name f = do {
     c \<leftarrow> peek (host_server_name f) 0;
     if c \<noteq> 0 then Some (host_server_name f) else Some [0]
   }"

text \<open>The exception for the host, looked up once the flow has a name.\<close>

definition host_risk_exception :: "ndpi_module \<Rightarrow> ndpi_flow \<Rightarrow> ndpi_flow option" where
  "host_risk_exception m f =
     (if host_risk_mask_evaluated f then Some f
      else do {
        host \<leftarrow> ndpi_get_flow_name f;
        c \<leftarrow> peek host 0;
        if c = 0 then Some f
        else do {
          n \<leftarrow> c_strlen host;
          let mask = (case host_risk_mask_automa m of
                        None \<Rightarrow> risk_mask f
                      | Some a \<Rightarrow> (case ac_automata_search a (take n host) of
                          (rc, Some r) \<Rightarrow> if rc > 0 then risk_mask f AND ac_number64 r else risk_mask f
                        | (rc, None) \<Rightarrow> risk_mask f));
          Some (f\<lparr>risk_mask := mask, host_risk_mask_evaluated := True\<rparr>)
        }
      })"

definition ip_risk_exception :: "ndpi_module \<Rightarrow> ndpi_flow \<Rightarrow> ndpi_flow" where
  "ip_risk_exception m f =
     (if ip_risk_mask_evaluated f then f
      else let mask = (if is_ipv6 f then risk_mask f
                       else risk_mask f AND ndpi_host_ip_risk_ptree_match m (saddr f)
                              AND ndpi_host_ip_risk_ptree_match m (daddr f))
           in f\<lparr>risk_mask := mask, ip_risk_mask_evaluated := True\<rparr>)"

definition ndpi_handle_risk_exceptions :: "ndpi_module \<Rightarrow> ndpi_flow \<Rightarrow> ndpi_flow option" where
  "ndpi_handle_risk_exceptions m f =
     (if risk f = 0 then Some f
      else do {
        _ \<leftarrow> ndpi_get_flow_name f;
        let f = (if \<not> host_risk_mask_evaluated f \<and> \<not> ip_risk_mask_evaluated f then f\<lparr>risk_mask := NOT 0\<rparr> else f);
        f \<leftarrow> host_risk_exception m f;
        let f = ip_risk_exception m f;
        Some (f\<lparr>risk := risk f AND risk_mask f\<rparr>)
      })"

definition ndpi_set_risk :: "ndpi_module \<Rightarrow> nat \<Rightarrow> ndpi_flow \<Rightarrow> ndpi_flow option" where
  "ndpi_set_risk m r f = ndpi_handle_risk_exceptions m (f\<lparr>risk := risk f OR push_bit r 1\<rparr>)"

definition ndpi_isset_risk :: "ndpi_flow \<Rightarrow> nat \<Rightarrow> bool" where
  "ndpi_isset_risk f r \<longleftrightarrow> risk f AND push_bit r 1 = push_bit r 1"

end
