(* ===== verification/Engine_Match.thy ===== *)
theory Engine_Match
  imports Engine_State
begin

text \<open>
  What the detection engine of \<^verbatim>\<open>ndpi_main.c\<close> infers without a dissector: the protocol and category
  of a host name (through the automata), of an address (through the Patricia trees), of the ports
  (through the tree of default ports) and of the IP protocol number, the category of a result, and
  the caches of earlier flows.
\<close>

section \<open>Host names\<close>

definition ndpi_match_string_common :: "automa option \<Rightarrow> bytes \<Rightarrow> nat \<Rightarrow> (int \<times> ac_match option) option" where
  "ndpi_match_string_common automa s n =
     (case automa of
        None \<Rightarrow> Some (-2, None)
      | Some a \<Rightarrow> do {
          c \<leftarrow> peek s 0;
          if c = 0 then Some (-2, None)
          else if automata_open a then Some (-1, None)
          else do { t \<leftarrow> peek_run s 0 n; Some (ac_automata_search a t) }
        })"

text \<open>The result of a match: protocol, category and breed.\<close>

record match_result =
  mr_protocol_id :: u32
  mr_category :: nat
  mr_breed :: nat

definition zero_match :: match_result where
  "zero_match = \<lparr>mr_protocol_id = 0, mr_category = 0, mr_breed = 0\<rparr>"

definition result_of :: "ac_match option \<Rightarrow> match_result" where
  "result_of r = (case r of None \<Rightarrow> zero_match
     | Some a \<Rightarrow> \<lparr>mr_protocol_id = ac_number a, mr_category = ac_category a, mr_breed = ac_breed a\<rparr>)"

text \<open>
  The call writes protocol, category and breed when it gets as far as the search, and only the
  protocol, as unknown, when it returns before.
\<close>

definition ndpi_match_string_subprotocol ::
  "ndpi_module \<Rightarrow> bytes \<Rightarrow> nat \<Rightarrow> match_result \<Rightarrow> (int \<times> match_result) option" where
  "ndpi_match_string_subprotocol m s n ret =
     (if host_automa m = None \<or> n = 0 then Some (0, ret)
      else do {
        (rc, r) \<leftarrow> ndpi_match_string_common (host_automa m) s n;
        let ret = (if rc < 0 then ret\<lparr>mr_protocol_id := 0\<rparr> else result_of r);
        Some (if rc < 0 then rc else sint (mr_protocol_id ret), ret)
      })"

definition ndpi_is_more_generic_protocol :: "u16 \<Rightarrow> u16 \<Rightarrow> bool" where
  "ndpi_is_more_generic_protocol previous new \<longleftrightarrow>
     previous \<noteq> NDPI_PROTOCOL_UNKNOWN \<and> previous \<noteq> new
     \<and> ((previous = NDPI_PROTOCOL_WHATSAPP_CALL \<or> previous = NDPI_PROTOCOL_WHATSAPP_FILES) \<and> new = NDPI_PROTOCOL_WHATSAPP
        \<or> previous = NDPI_PROTOCOL_FACEBOOK_VOIP \<and> new = NDPI_PROTOCOL_FACEBOOK)"

definition ndpi_automa_match_string_subprotocol ::
  "ndpi_module \<Rightarrow> bytes \<Rightarrow> nat \<Rightarrow> u16 \<Rightarrow> match_result \<Rightarrow> ndpi_flow \<Rightarrow> (u16 \<times> match_result \<times> ndpi_flow) option" where
  "ndpi_automa_match_string_subprotocol m s n master ret f = do {
     (p, ret) \<leftarrow> ndpi_match_string_subprotocol m s n ret;
     if p < 0 then Some (NDPI_PROTOCOL_UNKNOWN, ret, f)
     else if p \<noteq> 0 \<and> \<not> ndpi_is_more_generic_protocol (app_of f) (word_of_int p) then do {
       let f = f\<lparr>detected_protocol_stack := (word_of_int p, master), confidence := NDPI_CONFIDENCE_DPI,
                 category := (if category f = 0 then mr_category ret else category f)\<rparr>;
       Some (app_of f, ret, f)
     }
     else Some (NDPI_PROTOCOL_UNKNOWN, \<lparr>mr_protocol_id = 0, mr_category = 0, mr_breed = 7\<rparr>, f)
   }"

definition ndpi_match_custom_category :: "ndpi_module \<Rightarrow> bytes \<Rightarrow> nat \<Rightarrow> nat \<Rightarrow> (int \<times> nat) option" where
  "ndpi_match_custom_category m s n cat = do {
     (rc, r) \<leftarrow> ndpi_match_string_common (hostnames_automa m) s n;
     if rc < 0 then Some (rc, cat)
     else Some (if mr_protocol_id (result_of r) \<noteq> 0 then 0 else -1, mr_category (result_of r))
   }"

text \<open>
  The text of an IPv4 address, as \<open>inet_pton\<close> reads it: four decimal numbers of one to three digits
  up to 255 without a leading zero, separated by dots. The result is the address as the
  little-endian machine holds it.
\<close>

fun pton_part :: "nat \<Rightarrow> bool \<Rightarrow> bytes \<Rightarrow> (nat \<times> bytes) option" where
  "pton_part v saw (c # t) =
     (if c_isdigit c then
        if saw \<and> v = 0 then None
        else let v' = v * 10 + (unat c - 48) in if v' \<le> 255 then pton_part v' True t else None
      else if saw then Some (v, c # t) else None)"
| "pton_part v saw [] = (if saw then Some (v, []) else None)"

definition dot :: u8 where "dot = 46"

definition inet_pton4 :: "bytes \<Rightarrow> u32 option" where
  "inet_pton4 t = do {
     (a, t) \<leftarrow> pton_part 0 False t;
     (b, t) \<leftarrow> (case t of c # t \<Rightarrow> if c = dot then pton_part 0 False t else None | [] \<Rightarrow> None);
     (c, t) \<leftarrow> (case t of c # t \<Rightarrow> if c = dot then pton_part 0 False t else None | [] \<Rightarrow> None);
     (d, t) \<leftarrow> (case t of c # t \<Rightarrow> if c = dot then pton_part 0 False t else None | [] \<Rightarrow> None);
     if t = [] then Some (of_le32 [of_nat a, of_nat b, of_nat c, of_nat d]) else None
   }"

text \<open>The text in front of the last slash.\<close>

definition before_slash :: "bytes \<Rightarrow> bytes" where
  "before_slash t = (if 47 \<in> set t then rev (tl (dropWhile (\<lambda>c. c \<noteq> 47) (rev t))) else t)"

definition ndpi_get_custom_category_match :: "ndpi_module \<Rightarrow> bytes \<Rightarrow> nat \<Rightarrow> nat \<Rightarrow> (int \<times> nat) option" where
  "ndpi_get_custom_category_match m s n cat =
     (if \<not> categories_loaded m then Some (-1, cat)
      else do {
        t \<leftarrow> peek_run s 0 (min 63 n);
        let ipbuf = takeWhile (\<lambda>c. c \<noteq> 0) t;
        case inet_pton4 (before_slash ipbuf) of
          Some pin \<Rightarrow> (case ipAddresses_ptree m pin of
              Some v \<Rightarrow> Some (0, unat (fst v))
            | None \<Rightarrow> Some (-1, cat))
        | None \<Rightarrow> ndpi_match_custom_category m s n cat
      })"

definition ndpi_check_subprotocol_risk :: "ndpi_module \<Rightarrow> u16 \<Rightarrow> ndpi_flow \<Rightarrow> ndpi_flow option" where
  "ndpi_check_subprotocol_risk m p f =
     (if p = NDPI_PROTOCOL_ANYDESK then ndpi_set_risk m NDPI_DESKTOP_OR_FILE_SHARING_SESSION f else Some f)"

text \<open>The result of the last search is kept in 16 bits without a sign, so that an error is positive too.\<close>

definition ndpi_match_host_subprotocol ::
  "ndpi_module \<Rightarrow> bytes \<Rightarrow> nat \<Rightarrow> u16 \<Rightarrow> ndpi_flow \<Rightarrow> (u16 \<times> match_result \<times> ndpi_flow) option" where
  "ndpi_match_host_subprotocol m s n master f = do {
     (rc, ret, f) \<leftarrow> ndpi_automa_match_string_subprotocol m s n master zero_match f;
     (c, cat) \<leftarrow> ndpi_get_custom_category_match m s n (mr_category ret);
     let (rc, ret, f) = (if c \<noteq> -1 then (master, ret\<lparr>mr_category := cat\<rparr>, f\<lparr>category := cat\<rparr>) else (rc, ret, f));
     f \<leftarrow> (case risky_domain_automa m of
            None \<Rightarrow> Some f
          | Some a \<Rightarrow> do {
              (rc1, _) \<leftarrow> ndpi_match_string_common (Some a) s n;
              if (word_of_int rc1 :: u16) > 0 then ndpi_set_risk m NDPI_RISKY_DOMAIN f else Some f
            });
     Some (rc, ret, f)
   }"

definition ndpi_match_hostname_protocol ::
  "ndpi_module \<Rightarrow> u16 \<Rightarrow> bytes \<Rightarrow> nat \<Rightarrow> ndpi_flow \<Rightarrow> (int \<times> ndpi_flow) option" where
  "ndpi_match_hostname_protocol m master name n f = do {
     star \<leftarrow> (if 2 < n then do { a \<leftarrow> peek name 0; b \<leftarrow> peek name 1; Some (a = 42 \<and> b = dot) } else Some False);
     let (what, what_len) = (if star then (drop 1 name, c_u16 (n - 1)) else (name, c_u16 n));
     (sub, ret, f) \<leftarrow> ndpi_match_host_subprotocol m what what_len master f;
     if sub \<noteq> NDPI_PROTOCOL_UNKNOWN then do {
       f \<leftarrow> ndpi_set_detected_protocol m sub master NDPI_CONFIDENCE_DPI f;
       Some (1, ndpi_int_change_category (mr_category ret) f)
     }
     else Some (0, f)
   }"

section \<open>Categories\<close>

definition ndpi_fill_ip_protocol_category :: "ndpi_module \<Rightarrow> u32 \<Rightarrow> u32 \<Rightarrow> ndpi_protocol \<Rightarrow> (int \<times> ndpi_protocol) option" where
  "ndpi_fill_ip_protocol_category m s d ret =
     (let node = (if categories_loaded m then
                    case (if s = 0 then None else ipAddresses_ptree m s) of
                      Some v \<Rightarrow> Some v
                    | None \<Rightarrow> if d \<noteq> 0 then ipAddresses_ptree m d else None
                  else None) in
      case node of
        Some v \<Rightarrow> Some (1, ret\<lparr>proto_category := unat (fst v)\<rparr>)
      | None \<Rightarrow> do { c \<leftarrow> ndpi_get_proto_category m ret; Some (0, ret\<lparr>proto_category := c\<rparr>) })"

definition ndpi_fill_protocol_category ::
  "ndpi_module \<Rightarrow> ndpi_protocol \<Rightarrow> ndpi_flow \<Rightarrow> (ndpi_protocol \<times> ndpi_flow) option" where
  "ndpi_fill_protocol_category m ret f =
     (if master_protocol ret = NDPI_PROTOCOL_UNKNOWN \<and> app_protocol ret = NDPI_PROTOCOL_UNKNOWN then Some (ret, f)
      else if categories_loaded m \<and> guessed_header_category f \<noteq> 0 then
        Some (ret\<lparr>proto_category := guessed_header_category f\<rparr>, f\<lparr>category := guessed_header_category f\<rparr>)
      else do {
        c \<leftarrow> peek (host_server_name f) 0;
        found \<leftarrow> (if categories_loaded m \<and> c \<noteq> 0 then do {
                    n \<leftarrow> c_strlen (host_server_name f);
                    (rc, cat) \<leftarrow> ndpi_match_custom_category m (host_server_name f) n 0;
                    Some (if rc = 0 then Some cat else None)
                  } else Some None);
        cat \<leftarrow> (case found of Some cat \<Rightarrow> Some cat | None \<Rightarrow> ndpi_get_proto_category m ret);
        Some (ret\<lparr>proto_category := cat\<rparr>, f\<lparr>category := cat\<rparr>)
      })"

section \<open>Guesses from addresses, ports and the IP protocol\<close>

definition ndpi_is_public_ipv4 :: "u32 \<Rightarrow> bool" where
  "ndpi_is_public_ipv4 a \<longleftrightarrow>
     \<not> (a AND 0xFF000000 = 0x0A000000 \<or> a AND 0xFFF00000 = 0xAC100000 \<or> a AND 0xFFFF0000 = 0xC0A80000
        \<or> a AND 0xFF000000 = 0x7F000000 \<or> a AND 0xF0000000 = 0xE0000000)"

text \<open>\<open>ntohl\<close> and \<open>ntohs\<close> on a little-endian machine.\<close>

definition ntohl :: "u32 \<Rightarrow> u32" where "ntohl a = of_be32 (le32 a)"
definition ntohs :: "u16 \<Rightarrow> u16" where "ntohs a = of_be16 (rev (be16 a))"

definition ndpi_network_ptree_match :: "ndpi_module \<Rightarrow> u32 \<Rightarrow> u16" where
  "ndpi_network_ptree_match m pin =
     (if ndpi_num_custom_protocols m = 0 \<and> \<not> ndpi_is_public_ipv4 (ntohl pin) then NDPI_PROTOCOL_UNKNOWN
      else case protocols_ptree m pin of Some v \<Rightarrow> ucast (fst v) | None \<Rightarrow> NDPI_PROTOCOL_UNKNOWN)"

definition ndpi_network_port_ptree_match :: "ndpi_module \<Rightarrow> u32 \<Rightarrow> u16 \<Rightarrow> u16" where
  "ndpi_network_port_ptree_match m pin port =
     (case protocols_ptree m pin of
        Some (user, extra) \<Rightarrow> if extra = 0 \<or> extra = ucast port then ucast user else NDPI_PROTOCOL_UNKNOWN
      | None \<Rightarrow> NDPI_PROTOCOL_UNKNOWN)"

definition ndpi_is_tor_flow :: "ndpi_module \<Rightarrow> ndpi_flow \<Rightarrow> bool" where
  "ndpi_is_tor_flow m f \<longleftrightarrow>
     tcp (packet m) \<noteq> None \<and> iph (packet m) \<noteq> None \<and> guessed_host_protocol_id f = NDPI_PROTOCOL_TOR"

definition is_udp_guessable_protocol :: "u16 \<Rightarrow> bool" where
  "is_udp_guessable_protocol p \<longleftrightarrow> p = NDPI_PROTOCOL_QUIC \<or> p = NDPI_PROTOCOL_SNMP \<or> p = NDPI_PROTOCOL_NETFLOW"

text \<open>The two ports at the start of a transport header, as the machine holds them.\<close>

definition raw_ports :: "bytes \<Rightarrow> nat option \<Rightarrow> (u16 \<times> u16) option" where
  "raw_ports mem h = do { i \<leftarrow> h; a \<leftarrow> raw16 mem i; b \<leftarrow> raw16 mem (i + 2); Some (a, b) }"

definition ndpi_guess_host_protocol_id :: "bytes \<Rightarrow> ndpi_module \<Rightarrow> ndpi_flow \<Rightarrow> u16 option" where
  "ndpi_guess_host_protocol_id mem m f =
     (case iph (packet m) of
        None \<Rightarrow> Some NDPI_PROTOCOL_UNKNOWN
      | Some i \<Rightarrow> do {
          s \<leftarrow> raw32 mem (i + 12);
          (sp, dp) \<leftarrow>
            (if l4_proto f = IPPROTO_TCP \<and> tcp (packet m) \<noteq> None then raw_ports mem (tcp (packet m))
             else if l4_proto f = IPPROTO_UDP \<and> udp (packet m) \<noteq> None then raw_ports mem (udp (packet m))
             else Some (0, 0));
          let ret = ndpi_network_port_ptree_match m s sp;
          if ret = NDPI_PROTOCOL_UNKNOWN then do {
            d \<leftarrow> raw32 mem (i + 16);
            Some (ndpi_network_port_ptree_match m d dp)
          }
          else Some ret
        })"

text \<open>
  The consistency tests on ICMP and ICMPv6 payloads. The entropy of the bytes behind the header is
  computed in floating point and is a parameter, the bits of a \<open>float\<close>. Such a number is greater
  than \<open>7.0\<close>, whose bits are \<open>0x40e00000\<close>, when its bits are greater and it is not negative and
  not a NaN.
\<close>

definition NDPI_ENTROPY_ENCRYPTED_OR_RANDOM :: "u32 \<Rightarrow> bool" where
  "NDPI_ENTROPY_ENCRYPTED_OR_RANDOM e \<longleftrightarrow> 0x40e00000 < e \<and> e \<le> 0x7f800000"

definition icmp_checks :: "(bytes \<Rightarrow> u32) \<Rightarrow> bytes \<Rightarrow> ndpi_module \<Rightarrow> ndpi_flow \<Rightarrow> ndpi_flow option" where
  "icmp_checks ndpi_entropy mem m f0 =
     (let f = f0\<lparr>entropy := 0\<rparr> in
      if payload_packet_len (packet m) < 8 then ndpi_set_risk m NDPI_MALFORMED_PACKET f
      else do {
        i \<leftarrow> payload (packet m);
        t \<leftarrow> peek mem i;
        c \<leftarrow> peek mem (i + 1);
        f \<leftarrow> (if (44 \<le> t \<and> t \<le> 252) \<or> 15 < c then ndpi_set_risk m NDPI_MALFORMED_PACKET f else Some f);
        if 8 < payload_packet_len (packet m) then do {
          data \<leftarrow> peek_run mem (i + 8) (payload_packet_len (packet m) - 8);
          let f = f\<lparr>entropy := ndpi_entropy data\<rparr>;
          if NDPI_ENTROPY_ENCRYPTED_OR_RANDOM (entropy f) then ndpi_set_risk m NDPI_SUSPICIOUS_ENTROPY f else Some f
        }
        else Some f
      })"

definition icmp6_checks :: "bytes \<Rightarrow> ndpi_module \<Rightarrow> ndpi_flow \<Rightarrow> ndpi_flow option" where
  "icmp6_checks mem m f =
     (if payload_packet_len (packet m) < 8 then ndpi_set_risk m NDPI_MALFORMED_PACKET f
      else do {
        i \<leftarrow> payload (packet m);
        t \<leftarrow> peek mem i;
        c \<leftarrow> peek mem (i + 1);
        if (5 \<le> t \<and> t \<le> 127) \<or> (156 \<le> c \<and> t \<noteq> 255) then ndpi_set_risk m NDPI_MALFORMED_PACKET f else Some f
      })"

text \<open>The protocol of an IP protocol number; protocols without a rule are unknown.\<close>

definition ip_protocol_of :: "u8 \<Rightarrow> u16" where
  "ip_protocol_of proto =
     (if proto = 50 \<or> proto = 51 then NDPI_PROTOCOL_IP_IPSEC
      else if proto = 0x2F then NDPI_PROTOCOL_IP_GRE
      else if proto = 0x01 then NDPI_PROTOCOL_IP_ICMP
      else if proto = 0x02 then NDPI_PROTOCOL_IP_IGMP
      else if proto = 0x08 then NDPI_PROTOCOL_IP_EGP
      else if proto = 132 then NDPI_PROTOCOL_IP_SCTP
      else if proto = 0x59 then NDPI_PROTOCOL_IP_OSPF
      else if proto = 0x04 then NDPI_PROTOCOL_IP_IP_IN_IP
      else if proto = 0x3a then NDPI_PROTOCOL_IP_ICMPV6
      else if proto = 112 then NDPI_PROTOCOL_IP_VRRP
      else NDPI_PROTOCOL_UNKNOWN)"

text \<open>The guess, the flag of a user-defined protocol, and the flow after the tests.\<close>

definition ndpi_guess_protocol_id ::
  "(bytes \<Rightarrow> u32) \<Rightarrow> bytes \<Rightarrow> ndpi_module \<Rightarrow> u8 \<Rightarrow> u16 \<Rightarrow> u16 \<Rightarrow> ndpi_flow \<Rightarrow> (u16 \<times> u8 \<times> ndpi_flow) option" where
  "ndpi_guess_protocol_id ndpi_entropy mem m proto sp dp f =
     (if sp \<noteq> 0 \<and> dp \<noteq> 0 then
        case ndpi_get_guessed_protocol_id (tcpRoot m) (udpRoot m) proto sp dp of
          None \<Rightarrow> Some (NDPI_PROTOCOL_UNKNOWN, 0, f)
        | Some found \<Rightarrow> do {
            d \<leftarrow> at (proto_defaults m) (node_proto found);
            excluded \<leftarrow> (if proto = IPPROTO_UDP
                         then NDPI_COMPARE_PROTOCOL_TO_BITMASK (excluded_protocol_bitmask f) (protoId d) else Some False);
            if excluded \<and> is_udp_guessable_protocol (protoId d) then Some (NDPI_PROTOCOL_UNKNOWN, 0, f)
            else Some (protoId d, customUserProto found, f)
          }
      else do {
        f \<leftarrow> (if proto = 0x01 then icmp_checks ndpi_entropy mem m f else if proto = 0x3a then icmp6_checks mem m f else Some f);
        Some (ip_protocol_of proto, 0, f)
      })"

section \<open>Caches of earlier flows\<close>

definition ndpi_ip_port_hash_funct :: "u32 \<Rightarrow> u16 \<Rightarrow> u32" where
  "ndpi_ip_port_hash_funct ip port = ip + 3 * ucast port"

definition in_cache :: "lru_cache \<Rightarrow> u32 \<Rightarrow> bool option" where
  "in_cache c key = map_option (\<lambda>(v, _). v \<noteq> None) (ndpi_lru_find_cache c key False)"

definition ndpi_search_into_bittorrent_cache ::
  "ndpi_module \<Rightarrow> ndpi_flow \<Rightarrow> u32 \<Rightarrow> u16 \<Rightarrow> u32 \<Rightarrow> u16 \<Rightarrow> (bool \<times> ndpi_flow) option" where
  "ndpi_search_into_bittorrent_cache m f sa sp da dp =
     (if bt_check_performed f then Some (False, f)
      else case bittorrent_cache m of
        None \<Rightarrow> Some (False, f)
      | Some c \<Rightarrow> do {
          a \<leftarrow> in_cache c (sa + da);
          b \<leftarrow> (if a then Some True else in_cache c (ndpi_ip_port_hash_funct sa sp));
          found \<leftarrow> (if b then Some True else in_cache c (ndpi_ip_port_hash_funct da dp));
          Some (found, f\<lparr>bt_check_performed := True\<rparr>)
        })"

definition ndpi_search_into_zoom_cache :: "ndpi_module \<Rightarrow> u32 \<Rightarrow> bool option" where
  "ndpi_search_into_zoom_cache m da = (case zoom_cache m of None \<Rightarrow> Some False | Some c \<Rightarrow> in_cache c da)"

definition ndpi_add_connection_as_zoom :: "c_env \<Rightarrow> u32 \<Rightarrow> ndpi_module \<Rightarrow> ndpi_module option" where
  "ndpi_add_connection_as_zoom env da m =
     (case (case zoom_cache m of None \<Rightarrow> ndpi_lru_cache_init env 512 | Some c \<Rightarrow> Some c) of
        None \<Rightarrow> Some m
      | Some c \<Rightarrow> do {
          c \<leftarrow> ndpi_lru_add_to_cache c da NDPI_PROTOCOL_ZOOM;
          Some (m\<lparr>zoom_cache := Some c\<rparr>)
        })"

end
