(* ===== verification/Registration.thy ===== *)
theory Registration
  imports Engine_State
begin

text \<open>
  The registration of dissectors of \<^verbatim>\<open>ndpi_main.c\<close>: one entry of the callback buffer per dissector
  whose protocol is enabled, and the sorting of the entries into the buffers for TCP with and
  without payload, UDP and other traffic. The calls that register the single dissectors are in
  \<open>Dissectors\<close>.
\<close>

section \<open>Selection masks\<close>

abbreviation (input) NDPI_SELECTION_BITMASK_PROTOCOL_IP :: u32 where "NDPI_SELECTION_BITMASK_PROTOCOL_IP \<equiv> 1"
abbreviation (input) NDPI_SELECTION_BITMASK_PROTOCOL_INT_TCP :: u32 where "NDPI_SELECTION_BITMASK_PROTOCOL_INT_TCP \<equiv> 2"
abbreviation (input) NDPI_SELECTION_BITMASK_PROTOCOL_INT_UDP :: u32 where "NDPI_SELECTION_BITMASK_PROTOCOL_INT_UDP \<equiv> 4"
abbreviation (input) NDPI_SELECTION_BITMASK_PROTOCOL_INT_TCP_OR_UDP :: u32 where
  "NDPI_SELECTION_BITMASK_PROTOCOL_INT_TCP_OR_UDP \<equiv> 8"
abbreviation (input) NDPI_SELECTION_BITMASK_PROTOCOL_HAS_PAYLOAD :: u32 where "NDPI_SELECTION_BITMASK_PROTOCOL_HAS_PAYLOAD \<equiv> 16"
abbreviation (input) NDPI_SELECTION_BITMASK_PROTOCOL_NO_TCP_RETRANSMISSION :: u32 where
  "NDPI_SELECTION_BITMASK_PROTOCOL_NO_TCP_RETRANSMISSION \<equiv> 32"
abbreviation (input) NDPI_SELECTION_BITMASK_PROTOCOL_IPV6 :: u32 where "NDPI_SELECTION_BITMASK_PROTOCOL_IPV6 \<equiv> 64"
abbreviation (input) NDPI_SELECTION_BITMASK_PROTOCOL_IPV4_OR_IPV6 :: u32 where
  "NDPI_SELECTION_BITMASK_PROTOCOL_IPV4_OR_IPV6 \<equiv> 128"
abbreviation (input) NDPI_SELECTION_BITMASK_PROTOCOL_COMPLETE_TRAFFIC :: u32 where
  "NDPI_SELECTION_BITMASK_PROTOCOL_COMPLETE_TRAFFIC \<equiv> 256"

text \<open>The combinations that dissectors are registered with.\<close>

abbreviation (input) NDPI_SELECTION_BITMASK_PROTOCOL_TCP_OR_UDP :: u32 where
  "NDPI_SELECTION_BITMASK_PROTOCOL_TCP_OR_UDP \<equiv>
     NDPI_SELECTION_BITMASK_PROTOCOL_IP OR NDPI_SELECTION_BITMASK_PROTOCOL_INT_TCP_OR_UDP"
abbreviation (input) NDPI_SELECTION_BITMASK_PROTOCOL_V4_V6_TCP :: u32 where
  "NDPI_SELECTION_BITMASK_PROTOCOL_V4_V6_TCP \<equiv>
     NDPI_SELECTION_BITMASK_PROTOCOL_IPV4_OR_IPV6 OR NDPI_SELECTION_BITMASK_PROTOCOL_INT_TCP"
abbreviation (input) NDPI_SELECTION_BITMASK_PROTOCOL_V4_V6_UDP :: u32 where
  "NDPI_SELECTION_BITMASK_PROTOCOL_V4_V6_UDP \<equiv>
     NDPI_SELECTION_BITMASK_PROTOCOL_IPV4_OR_IPV6 OR NDPI_SELECTION_BITMASK_PROTOCOL_INT_UDP"
abbreviation (input) NDPI_SELECTION_BITMASK_PROTOCOL_V4_V6_TCP_OR_UDP :: u32 where
  "NDPI_SELECTION_BITMASK_PROTOCOL_V4_V6_TCP_OR_UDP \<equiv>
     NDPI_SELECTION_BITMASK_PROTOCOL_IPV4_OR_IPV6 OR NDPI_SELECTION_BITMASK_PROTOCOL_INT_TCP_OR_UDP"
abbreviation (input) NDPI_SELECTION_BITMASK_PROTOCOL_V4_V6_TCP_WITH_PAYLOAD :: u32 where
  "NDPI_SELECTION_BITMASK_PROTOCOL_V4_V6_TCP_WITH_PAYLOAD \<equiv>
     NDPI_SELECTION_BITMASK_PROTOCOL_V4_V6_TCP OR NDPI_SELECTION_BITMASK_PROTOCOL_HAS_PAYLOAD"
abbreviation (input) NDPI_SELECTION_BITMASK_PROTOCOL_UDP_WITH_PAYLOAD :: u32 where
  "NDPI_SELECTION_BITMASK_PROTOCOL_UDP_WITH_PAYLOAD \<equiv>
     (NDPI_SELECTION_BITMASK_PROTOCOL_IP OR NDPI_SELECTION_BITMASK_PROTOCOL_INT_UDP) OR NDPI_SELECTION_BITMASK_PROTOCOL_HAS_PAYLOAD"
abbreviation (input) NDPI_SELECTION_BITMASK_PROTOCOL_V6_UDP_WITH_PAYLOAD :: u32 where
  "NDPI_SELECTION_BITMASK_PROTOCOL_V6_UDP_WITH_PAYLOAD \<equiv>
     (NDPI_SELECTION_BITMASK_PROTOCOL_IPV6 OR NDPI_SELECTION_BITMASK_PROTOCOL_INT_UDP) OR NDPI_SELECTION_BITMASK_PROTOCOL_HAS_PAYLOAD"
abbreviation (input) NDPI_SELECTION_BITMASK_PROTOCOL_V4_V6_UDP_WITH_PAYLOAD :: u32 where
  "NDPI_SELECTION_BITMASK_PROTOCOL_V4_V6_UDP_WITH_PAYLOAD \<equiv>
     NDPI_SELECTION_BITMASK_PROTOCOL_V4_V6_UDP OR NDPI_SELECTION_BITMASK_PROTOCOL_HAS_PAYLOAD"
abbreviation (input) NDPI_SELECTION_BITMASK_PROTOCOL_V4_V6_TCP_OR_UDP_WITH_PAYLOAD :: u32 where
  "NDPI_SELECTION_BITMASK_PROTOCOL_V4_V6_TCP_OR_UDP_WITH_PAYLOAD \<equiv>
     NDPI_SELECTION_BITMASK_PROTOCOL_V4_V6_TCP_OR_UDP OR NDPI_SELECTION_BITMASK_PROTOCOL_HAS_PAYLOAD"
abbreviation (input) NDPI_SELECTION_BITMASK_PROTOCOL_TCP_OR_UDP_WITHOUT_RETRANSMISSION :: u32 where
  "NDPI_SELECTION_BITMASK_PROTOCOL_TCP_OR_UDP_WITHOUT_RETRANSMISSION \<equiv>
     NDPI_SELECTION_BITMASK_PROTOCOL_TCP_OR_UDP OR NDPI_SELECTION_BITMASK_PROTOCOL_NO_TCP_RETRANSMISSION"
abbreviation (input) NDPI_SELECTION_BITMASK_PROTOCOL_V4_V6_TCP_OR_UDP_WITHOUT_RETRANSMISSION :: u32 where
  "NDPI_SELECTION_BITMASK_PROTOCOL_V4_V6_TCP_OR_UDP_WITHOUT_RETRANSMISSION \<equiv>
     NDPI_SELECTION_BITMASK_PROTOCOL_V4_V6_TCP_OR_UDP OR NDPI_SELECTION_BITMASK_PROTOCOL_NO_TCP_RETRANSMISSION"
abbreviation (input) NDPI_SELECTION_BITMASK_PROTOCOL_V4_V6_TCP_WITH_PAYLOAD_WITHOUT_RETRANSMISSION :: u32 where
  "NDPI_SELECTION_BITMASK_PROTOCOL_V4_V6_TCP_WITH_PAYLOAD_WITHOUT_RETRANSMISSION \<equiv>
     NDPI_SELECTION_BITMASK_PROTOCOL_V4_V6_TCP OR NDPI_SELECTION_BITMASK_PROTOCOL_NO_TCP_RETRANSMISSION
       OR NDPI_SELECTION_BITMASK_PROTOCOL_HAS_PAYLOAD"
abbreviation (input) NDPI_SELECTION_BITMASK_PROTOCOL_V4_V6_TCP_OR_UDP_WITH_PAYLOAD_WITHOUT_RETRANSMISSION :: u32 where
  "NDPI_SELECTION_BITMASK_PROTOCOL_V4_V6_TCP_OR_UDP_WITH_PAYLOAD_WITHOUT_RETRANSMISSION \<equiv>
     NDPI_SELECTION_BITMASK_PROTOCOL_V4_V6_TCP_OR_UDP OR NDPI_SELECTION_BITMASK_PROTOCOL_NO_TCP_RETRANSMISSION
       OR NDPI_SELECTION_BITMASK_PROTOCOL_HAS_PAYLOAD"

section \<open>Registering one dissector\<close>

definition ndpi_set_bitmask_protocol_detection ::
  "bitmask \<Rightarrow> nat \<Rightarrow> u16 \<Rightarrow> string \<Rightarrow> u32 \<Rightarrow> bool \<Rightarrow> bool \<Rightarrow> ndpi_module \<Rightarrow> ndpi_module option" where
  "ndpi_set_bitmask_protocol_detection bm idx pid func sel save add m = do {
     enabled \<leftarrow> NDPI_COMPARE_PROTOCOL_TO_BITMASK bm pid;
     if \<not> enabled then Some m
     else do {
       d \<leftarrow> defaults_of m pid;
       e \<leftarrow> at (callback_buffer m) idx;
       det \<leftarrow> (if save then NDPI_SAVE_AS_BITMASK NDPI_PROTOCOL_UNKNOWN else Some (cf_detection_bitmask e));
       det \<leftarrow> (if add then NDPI_ADD_PROTOCOL_TO_BITMASK det pid else Some det);
       exc \<leftarrow> NDPI_SAVE_AS_BITMASK pid;
       Some (m\<lparr>proto_defaults := (proto_defaults m)[unat pid := d\<lparr>protoIdx := of_nat idx, pd_func := Some func\<rparr>],
               callback_buffer := (callback_buffer m)[idx :=
                 e\<lparr>cf_func := Some func, cf_protocol_id := pid, ndpi_selection_bitmask := sel,
                   cf_detection_bitmask := det, cf_excluded_bitmask := exc\<rparr>]\<rparr>)
     }
   }"

text \<open>A registration function works on the module and the index \<open>*id\<close>.\<close>

type_synonym registering = "ndpi_module \<times> nat"

definition register ::
  "bitmask \<Rightarrow> u16 \<Rightarrow> string \<Rightarrow> u32 \<Rightarrow> bool \<Rightarrow> bool \<Rightarrow> registering \<Rightarrow> registering option" where
  "register bm pid func sel save add s = do {
     m \<leftarrow> ndpi_set_bitmask_protocol_detection bm (snd s) pid func sel save add (fst s);
     Some (m, snd s + 1)
   }"

text \<open>\<open>NDPI_SAVE_AS_BITMASK(callback_buffer[*id].detection_bitmask, NDPI_PROTOCOL_UNKNOWN)\<close>.\<close>

definition save_unknown :: "registering \<Rightarrow> registering option" where
  "save_unknown s = do {
     e \<leftarrow> at (callback_buffer (fst s)) (snd s);
     b \<leftarrow> NDPI_SAVE_AS_BITMASK NDPI_PROTOCOL_UNKNOWN;
     Some ((fst s)\<lparr>callback_buffer := (callback_buffer (fst s))[snd s := e\<lparr>cf_detection_bitmask := b\<rparr>]\<rparr>, snd s)
   }"

text \<open>One registration function after the other.\<close>

fun run_all :: "(registering \<Rightarrow> registering option) list \<Rightarrow> registering \<Rightarrow> registering option" where
  "run_all [] s = Some s"
| "run_all (i # is) s = Option.bind (i s) (run_all is)"

section \<open>Sorting the entries into buffers\<close>

text \<open>The loop that copies the entries selected by \<open>P\<close>; \<open>n\<close> is the number copied so far.\<close>

fun fill_buffer :: "(call_function \<Rightarrow> bool) \<Rightarrow> call_function list \<Rightarrow> call_function list \<Rightarrow> nat
    \<Rightarrow> (call_function list \<times> nat) option" where
  "fill_buffer P [] buf n = Some (buf, n)"
| "fill_buffer P (e # es) buf n =
     (if P e then if n < length buf then fill_buffer P es (buf[n := e]) (n + 1) else None
      else fill_buffer P es buf n)"

definition selected_for :: "callback_buffer_id \<Rightarrow> call_function \<Rightarrow> bool" where
  "selected_for b e =
     (let sel = ndpi_selection_bitmask e in
      case b of
        callback_buffer_tcp_payload \<Rightarrow>
          sel AND (NDPI_SELECTION_BITMASK_PROTOCOL_INT_TCP OR NDPI_SELECTION_BITMASK_PROTOCOL_INT_TCP_OR_UDP
                   OR NDPI_SELECTION_BITMASK_PROTOCOL_COMPLETE_TRAFFIC) \<noteq> 0
      | callback_buffer_tcp_no_payload \<Rightarrow>
          sel AND (NDPI_SELECTION_BITMASK_PROTOCOL_INT_TCP OR NDPI_SELECTION_BITMASK_PROTOCOL_INT_TCP_OR_UDP
                   OR NDPI_SELECTION_BITMASK_PROTOCOL_COMPLETE_TRAFFIC) \<noteq> 0
          \<and> sel AND NDPI_SELECTION_BITMASK_PROTOCOL_HAS_PAYLOAD = 0
      | callback_buffer_udp \<Rightarrow>
          sel AND (NDPI_SELECTION_BITMASK_PROTOCOL_INT_UDP OR NDPI_SELECTION_BITMASK_PROTOCOL_INT_TCP_OR_UDP
                   OR NDPI_SELECTION_BITMASK_PROTOCOL_COMPLETE_TRAFFIC) \<noteq> 0
      | callback_buffer_non_tcp_udp \<Rightarrow>
          sel AND (NDPI_SELECTION_BITMASK_PROTOCOL_INT_TCP OR NDPI_SELECTION_BITMASK_PROTOCOL_INT_UDP
                   OR NDPI_SELECTION_BITMASK_PROTOCOL_INT_TCP_OR_UDP) = 0
          \<or> sel AND NDPI_SELECTION_BITMASK_PROTOCOL_COMPLETE_TRAFFIC \<noteq> 0)"

definition fill_one :: "callback_buffer_id \<Rightarrow> ndpi_module \<Rightarrow> ndpi_module option" where
  "fill_one b m =
     (if callback_buffer_size m \<le> length (callback_buffer m) then do {
        (buf, n) \<leftarrow> fill_buffer (selected_for b) (take (callback_buffer_size m) (callback_buffer m)) (callback_buffers m b) 0;
        Some (m\<lparr>callback_buffers := (callback_buffers m)(b := buf),
                callback_buffer_sizes := (callback_buffer_sizes m)(b := n)\<rparr>)
      } else None)"

definition fill_buffers :: "ndpi_module \<Rightarrow> ndpi_module option" where
  "fill_buffers m = do {
     m \<leftarrow> fill_one callback_buffer_tcp_payload m;
     m \<leftarrow> fill_one callback_buffer_tcp_no_payload m;
     m \<leftarrow> fill_one callback_buffer_udp m;
     fill_one callback_buffer_non_tcp_udp m
   }"

section \<open>The invariant of a registered module\<close>

text \<open>
  An entry is the zero entry or that of a dissector. A zero entry may not be selected by its
  detection mask, since its function is the null pointer.
\<close>

definition callback_ok :: "bitmask \<Rightarrow> call_function \<Rightarrow> bool" where
  "callback_ok bm e \<longleftrightarrow> mask_ok (cf_detection_bitmask e) \<and> mask_ok (cf_excluded_bitmask e)
     \<and> (case cf_func e of
          None \<Rightarrow> protocols (cf_detection_bitmask e) = {}
        | Some _ \<Rightarrow> protocol_bit (cf_protocol_id e) \<in> protocols bm
            \<and> protocols (cf_excluded_bitmask e) = {protocol_bit (cf_protocol_id e)})"

text \<open>A protocol's defaults: its place and its list of subprotocols are inside their arrays.\<close>

definition default_ok :: "proto_default \<Rightarrow> bool" where
  "default_ok d \<longleftrightarrow> unat (protoIdx d) \<le> NDPI_MAX_SUPPORTED_PROTOCOLS
     \<and> unat (subprotocol_count d) \<le> length (subprotocols d)
     \<and> (\<forall>p \<in> set (subprotocols d). p = 65534 \<or> unat p < NDPI_MAX_SUPPORTED_PROTOCOLS + NDPI_MAX_NUM_CUSTOM_PROTOCOLS)"

definition registered_ok :: "bitmask \<Rightarrow> ndpi_module \<Rightarrow> bool" where
  "registered_ok bm m \<longleftrightarrow> mask_ok bm
     \<and> length (callback_buffer m) = NDPI_MAX_SUPPORTED_PROTOCOLS + 1
     \<and> length (proto_defaults m) = NDPI_MAX_SUPPORTED_PROTOCOLS + NDPI_MAX_NUM_CUSTOM_PROTOCOLS
     \<and> (\<forall>e \<in> set (callback_buffer m). callback_ok bm e)
     \<and> (\<forall>d \<in> set (proto_defaults m). default_ok d)
     \<and> (\<forall>b. length (callback_buffers m b) = NDPI_MAX_SUPPORTED_PROTOCOLS + 1
            \<and> (\<forall>e \<in> set (callback_buffers m b). callback_ok bm e))"

lemma zero_callback_ok: "callback_ok bm zero_call"
  using zero_protocols by (simp add: callback_ok_def zero_call_def)

lemmas size_defs = NDPI_MAX_SUPPORTED_PROTOCOLS_def NDPI_MAX_NUM_CUSTOM_PROTOCOLS_def

lemma test_enabled:
  "mask_ok bm \<Longrightarrow> NDPI_COMPARE_PROTOCOL_TO_BITMASK bm p = Some (protocol_bit p \<in> protocols bm)"
  by (simp add: NDPI_COMPARE_PROTOCOL_TO_BITMASK_def test_protocol protocol_bit_less)

text \<open>The part of a module that registration leaves alone: the names, and the trees of ports.\<close>

definition labels_of :: "ndpi_module \<Rightarrow> bytes option list \<times> bytes list \<times> port_node tree \<times> port_node tree" where
  "labels_of m = (map protoName (proto_defaults m), custom_category_labels m, tcpRoot m, udpRoot m)"

lemma labels_kept:
  assumes "defaults_of m p = Some d" "protoName d' = protoName d"
  shows "map protoName ((proto_defaults m)[unat p := d']) = map protoName (proto_defaults m)"
  using assms by (auto simp: map_update defaults_of_def at_def list_update_same_conv split: if_split_asm)

text \<open>What a registration function does with \<open>k\<close> places of the buffer.\<close>

definition keeps :: "bitmask \<Rightarrow> nat \<Rightarrow> (registering \<Rightarrow> registering option) \<Rightarrow> bool" where
  "keeps bm k i \<longleftrightarrow> (\<forall>m n. registered_ok bm m \<and> n + k \<le> NDPI_MAX_SUPPORTED_PROTOCOLS + 1 \<longrightarrow>
     (\<exists>m'. i (m, n) = Some (m', n + k) \<and> registered_ok bm m' \<and> callback_buffer_sizes m' = callback_buffer_sizes m
        \<and> labels_of m' = labels_of m))"

lemma keeps_Nil: "keeps bm 0 (run_all [])"
  by (simp add: keeps_def)

lemma keepsD:
  assumes "keeps bm k i" "registered_ok bm m" "n + k \<le> NDPI_MAX_SUPPORTED_PROTOCOLS + 1"
  obtains m' where "i (m, n) = Some (m', n + k)" "registered_ok bm m'" "callback_buffer_sizes m' = callback_buffer_sizes m"
    "labels_of m' = labels_of m"
  using assms unfolding keeps_def by blast

lemma keeps_bind:
  assumes "keeps bm k i" "keeps bm l j"
  shows "keeps bm (k + l) (\<lambda>s. Option.bind (i s) j)"
  unfolding keeps_def
proof (intro allI impI)
  fix m n assume a: "registered_ok bm m \<and> n + (k + l) \<le> NDPI_MAX_SUPPORTED_PROTOCOLS + 1"
  then have k: "n + k \<le> NDPI_MAX_SUPPORTED_PROTOCOLS + 1" "n + k + l \<le> NDPI_MAX_SUPPORTED_PROTOCOLS + 1" by auto
  obtain m1 where m1: "i (m, n) = Some (m1, n + k)" "registered_ok bm m1" "callback_buffer_sizes m1 = callback_buffer_sizes m"
      "labels_of m1 = labels_of m"
    using keepsD [OF assms(1) _ k(1)] a by blast
  obtain m2 where "j (m1, n + k) = Some (m2, n + k + l)" "registered_ok bm m2" "callback_buffer_sizes m2 = callback_buffer_sizes m1"
      "labels_of m2 = labels_of m1"
    using keepsD [OF assms(2) m1(2) k(2)] by blast
  then show "\<exists>m'. Option.bind (i (m, n)) j = Some (m', n + (k + l)) \<and> registered_ok bm m'
      \<and> callback_buffer_sizes m' = callback_buffer_sizes m \<and> labels_of m' = labels_of m"
    using m1 by (simp add: add.assoc)
qed

lemma keeps_Cons:
  assumes "keeps bm k i" "keeps bm l (run_all is)"
  shows "keeps bm (k + l) (run_all (i # is))"
proof -
  have "run_all (i # is) = (\<lambda>s. Option.bind (i s) (run_all is))" by (simp add: fun_eq_iff)
  then show ?thesis using keeps_bind [OF assms] by simp
qed

text \<open>Storing an entry that satisfies the invariant.\<close>

lemma default_ok_place:
  assumes "default_ok d" "n \<le> NDPI_MAX_SUPPORTED_PROTOCOLS"
  shows "default_ok (d\<lparr>protoIdx := of_nat n, pd_func := h\<rparr>)"
  using assms by (simp add: default_ok_def size_defs unat_of_nat take_bit_nat_eq_self)

lemma registered_ok_store:
  assumes "registered_ok bm m" "callback_ok bm e" "default_ok d"
  shows "registered_ok bm (m\<lparr>proto_defaults := (proto_defaults m)[i := d], callback_buffer := (callback_buffer m)[n := e]\<rparr>)"
  using assms set_update_subset_insert [of "callback_buffer m" n e] set_update_subset_insert [of "proto_defaults m" i d]
  unfolding registered_ok_def by auto

text \<open>
  Registration at a free place: the detection mask, wherever it starts from, is a mask.
\<close>

lemma set_bitmask_result:
  assumes "mask_ok bm" "protocol_bit pid \<in> protocols bm" "defaults_of m pid = Some d"
    "at (callback_buffer m) n = Some e" "mask_ok (cf_detection_bitmask e)"
  shows "\<exists>det exc. ndpi_set_bitmask_protocol_detection bm n pid func sel save add m =
      Some (m\<lparr>proto_defaults := (proto_defaults m)[unat pid := d\<lparr>protoIdx := of_nat n, pd_func := Some func\<rparr>],
              callback_buffer := (callback_buffer m)[n :=
                e\<lparr>cf_func := Some func, cf_protocol_id := pid, ndpi_selection_bitmask := sel,
                  cf_detection_bitmask := det, cf_excluded_bitmask := exc\<rparr>]\<rparr>)
    \<and> mask_ok det \<and> mask_ok exc \<and> protocols exc = {protocol_bit pid}"
proof -
  obtain d0 where d0: "(if save then NDPI_SAVE_AS_BITMASK NDPI_PROTOCOL_UNKNOWN else Some (cf_detection_bitmask e)) = Some d0" "mask_ok d0"
    using save_protocols [of NDPI_PROTOCOL_UNKNOWN] assms(5) by (cases save) auto
  obtain d1 where d1: "(if add then NDPI_ADD_PROTOCOL_TO_BITMASK d0 pid else Some d0) = Some d1" "mask_ok d1"
    using set_protocol [OF d0(2) protocol_bit_less [of pid]] d0(2)
    by (cases add) (auto simp: NDPI_ADD_PROTOCOL_TO_BITMASK_def)
  obtain ex where "NDPI_SAVE_AS_BITMASK pid = Some ex" "mask_ok ex" "protocols ex = {protocol_bit pid}"
    using save_protocols [of pid] by blast
  then show ?thesis using assms d0 d1 test_enabled [OF assms(1), of pid]
    by (auto simp: ndpi_set_bitmask_protocol_detection_def)
qed

lemma keeps_register:
  assumes "unat pid < NDPI_NUM_BITS"
  shows "keeps bm 1 (register bm pid func sel save add)"
  unfolding keeps_def
proof (intro allI impI)
  fix m n assume a: "registered_ok bm m \<and> n + 1 \<le> NDPI_MAX_SUPPORTED_PROTOCOLS + 1"
  then have r: "registered_ok bm m" "mask_ok bm" "n \<le> NDPI_MAX_SUPPORTED_PROTOCOLS" by (auto simp: registered_ok_def)
  show "\<exists>m'. register bm pid func sel save add (m, n) = Some (m', n + 1) \<and> registered_ok bm m'
      \<and> callback_buffer_sizes m' = callback_buffer_sizes m \<and> labels_of m' = labels_of m"
  proof (cases "protocol_bit pid \<in> protocols bm")
    case False
    then show ?thesis using r test_enabled [OF r(2), of pid]
      by (simp add: register_def ndpi_set_bitmask_protocol_detection_def)
  next
    case True
    obtain e where e: "at (callback_buffer m) n = Some e" "callback_ok bm e"
      using r unfolding registered_ok_def at_def by auto
    obtain d where d: "defaults_of m pid = Some d" "default_ok d"
      using r(1) assms unfolding registered_ok_def defaults_of_def at_def by (auto simp: NDPI_NUM_BITS_def size_defs)
    have "mask_ok (cf_detection_bitmask e)" using e(2) by (simp add: callback_ok_def)
    from set_bitmask_result [OF r(2) True d(1) e(1) this, of func sel save add] obtain det exc where
      s: "ndpi_set_bitmask_protocol_detection bm n pid func sel save add m =
        Some (m\<lparr>proto_defaults := (proto_defaults m)[unat pid := d\<lparr>protoIdx := of_nat n, pd_func := Some func\<rparr>],
              callback_buffer := (callback_buffer m)[n :=
                e\<lparr>cf_func := Some func, cf_protocol_id := pid, ndpi_selection_bitmask := sel,
                  cf_detection_bitmask := det, cf_excluded_bitmask := exc\<rparr>]\<rparr>)"
      and k: "mask_ok det" "mask_ok exc" "protocols exc = {protocol_bit pid}" by blast
    have "default_ok (d\<lparr>protoIdx := of_nat n, pd_func := Some func\<rparr>)" by (rule default_ok_place [OF d(2) r(3)])
    moreover have "callback_ok bm (e\<lparr>cf_func := Some func, cf_protocol_id := pid, ndpi_selection_bitmask := sel,
                  cf_detection_bitmask := det, cf_excluded_bitmask := exc\<rparr>)"
      using k True by (simp add: callback_ok_def)
    ultimately show ?thesis using s registered_ok_store [OF r(1)] labels_kept [OF d(1)] by (simp add: register_def labels_of_def)
  qed
qed

text \<open>
  The place whose detection mask is set in advance has to be taken by the registration that
  follows: that of an enabled protocol.
\<close>

lemma keeps_saved:
  assumes "unat pid < NDPI_NUM_BITS" "protocol_bit pid \<in> protocols bm"
  shows "keeps bm 1 (\<lambda>s. Option.bind (save_unknown s) (register bm pid func sel save add))"
  unfolding keeps_def
proof (intro allI impI)
  fix m n assume a: "registered_ok bm m \<and> n + 1 \<le> NDPI_MAX_SUPPORTED_PROTOCOLS + 1"
  then have r: "registered_ok bm m" "mask_ok bm" "n \<le> NDPI_MAX_SUPPORTED_PROTOCOLS" by (auto simp: registered_ok_def)
  obtain e where e: "at (callback_buffer m) n = Some e" "callback_ok bm e" and n: "n < length (callback_buffer m)"
    using r unfolding registered_ok_def at_def by auto
  obtain b where b: "NDPI_SAVE_AS_BITMASK NDPI_PROTOCOL_UNKNOWN = Some b" "mask_ok b"
    using save_protocols [of NDPI_PROTOCOL_UNKNOWN] by blast
  let ?e = "e\<lparr>cf_detection_bitmask := b\<rparr>"
  let ?m = "m\<lparr>callback_buffer := (callback_buffer m)[n := ?e]\<rparr>"
  obtain d where d: "defaults_of ?m pid = Some d" "default_ok d"
    using r(1) assms unfolding registered_ok_def defaults_of_def at_def by (auto simp: NDPI_NUM_BITS_def size_defs)
  have e1: "at (callback_buffer ?m) n = Some ?e" using n by (simp add: at_def)
  from set_bitmask_result [OF r(2) assms(2) d(1) e1, of func sel save add] b(2) obtain det exc where
    s: "ndpi_set_bitmask_protocol_detection bm n pid func sel save add ?m =
      Some (m\<lparr>proto_defaults := (proto_defaults m)[unat pid := d\<lparr>protoIdx := of_nat n, pd_func := Some func\<rparr>],
            callback_buffer := (callback_buffer m)[n :=
              ?e\<lparr>cf_func := Some func, cf_protocol_id := pid, ndpi_selection_bitmask := sel,
                cf_detection_bitmask := det, cf_excluded_bitmask := exc\<rparr>]\<rparr>)"
    and k: "mask_ok det" "mask_ok exc" "protocols exc = {protocol_bit pid}" by auto
  have "default_ok (d\<lparr>protoIdx := of_nat n, pd_func := Some func\<rparr>)" by (rule default_ok_place [OF d(2) r(3)])
  moreover have "callback_ok bm (?e\<lparr>cf_func := Some func, cf_protocol_id := pid, ndpi_selection_bitmask := sel,
                cf_detection_bitmask := det, cf_excluded_bitmask := exc\<rparr>)"
    using k assms(2) by (simp add: callback_ok_def)
  ultimately have "registered_ok bm (m\<lparr>proto_defaults := (proto_defaults m)[unat pid := d\<lparr>protoIdx := of_nat n, pd_func := Some func\<rparr>],
            callback_buffer := (callback_buffer m)[n :=
              ?e\<lparr>cf_func := Some func, cf_protocol_id := pid, ndpi_selection_bitmask := sel,
                cf_detection_bitmask := det, cf_excluded_bitmask := exc\<rparr>]\<rparr>)"
    by (intro registered_ok_store [OF r(1)]) simp_all
  then show "\<exists>m'. Option.bind (save_unknown (m, n)) (register bm pid func sel save add) = Some (m', n + 1)
      \<and> registered_ok bm m' \<and> callback_buffer_sizes m' = callback_buffer_sizes m \<and> labels_of m' = labels_of m"
    using s e(1) b(1) labels_kept [OF d(1)] by (simp add: save_unknown_def register_def labels_of_def)
qed

section \<open>The buffers hold the entries they select\<close>

lemma fill_buffer_filter:
  assumes "n + length (filter P es) \<le> length buf"
  shows "\<exists>buf'. fill_buffer P es buf n = Some (buf', n + length (filter P es)) \<and> length buf' = length buf
    \<and> take (n + length (filter P es)) buf' = take n buf @ filter P es \<and> set buf' \<subseteq> set buf \<union> set es"
  using assms
proof (induction es arbitrary: buf n)
  case (Cons e es)
  show ?case
  proof (cases "P e")
    case True
    then have n: "n < length buf" using Cons.prems by simp
    have "n + 1 + length (filter P es) \<le> length (buf[n := e])" using Cons.prems True by simp
    from Cons.IH [OF this] obtain buf' where "fill_buffer P es (buf[n := e]) (n + 1) = Some (buf', n + 1 + length (filter P es))"
      "length buf' = length (buf[n := e])" "take (n + 1 + length (filter P es)) buf' = take (n + 1) (buf[n := e]) @ filter P es"
      "set buf' \<subseteq> set (buf[n := e]) \<union> set es" by blast
    then show ?thesis using True n set_update_subset_insert [of buf n e] by (auto simp: take_Suc_conv_app_nth)
  next
    case False
    then have "n + length (filter P es) \<le> length buf" using Cons.prems by simp
    from Cons.IH [OF this] obtain buf' where "fill_buffer P es buf n = Some (buf', n + length (filter P es))"
      "length buf' = length buf" "take (n + length (filter P es)) buf' = take n buf @ filter P es"
      "set buf' \<subseteq> set buf \<union> set es" by blast
    then show ?thesis using False by auto
  qed
qed simp

text \<open>A buffer of a filled module: as many entries as it selects, in their order.\<close>

definition buffer_filled :: "callback_buffer_id \<Rightarrow> ndpi_module \<Rightarrow> bool" where
  "buffer_filled b m \<longleftrightarrow> callback_buffer_sizes m b \<le> length (callback_buffers m b)
     \<and> take (callback_buffer_sizes m b) (callback_buffers m b)
       = filter (selected_for b) (take (callback_buffer_size m) (callback_buffer m))"

lemma fill_one_fills:
  assumes "registered_ok bm m" "callback_buffer_size m \<le> NDPI_MAX_SUPPORTED_PROTOCOLS + 1"
  shows "\<exists>m'. fill_one b m = Some m' \<and> registered_ok bm m' \<and> callback_buffer_size m' = callback_buffer_size m
    \<and> callback_buffer m' = callback_buffer m \<and> proto_defaults m' = proto_defaults m \<and> labels_of m' = labels_of m
    \<and> buffer_filled b m' \<and> (\<forall>c. c \<noteq> b \<longrightarrow> buffer_filled c m' = buffer_filled c m)"
proof -
  let ?es = "take (callback_buffer_size m) (callback_buffer m)"
  have l: "length (callback_buffers m b) = NDPI_MAX_SUPPORTED_PROTOCOLS + 1" "length (callback_buffer m) = NDPI_MAX_SUPPORTED_PROTOCOLS + 1"
    using assms(1) by (auto simp: registered_ok_def)
  have "length (filter (selected_for b) ?es) \<le> length (callback_buffers m b)"
    using length_filter_le [of "selected_for b" ?es] assms(2) l by simp
  then obtain buf where buf: "fill_buffer (selected_for b) ?es (callback_buffers m b) 0 = Some (buf, length (filter (selected_for b) ?es))"
    "length buf = length (callback_buffers m b)" "take (length (filter (selected_for b) ?es)) buf = filter (selected_for b) ?es"
    "set buf \<subseteq> set (callback_buffers m b) \<union> set ?es"
    using fill_buffer_filter [of 0 "selected_for b" ?es "callback_buffers m b"] by auto
  have "callback_ok bm e" if "e \<in> set buf" for e
  proof -
    have "e \<in> set (callback_buffers m b) \<or> e \<in> set (callback_buffer m)" using that buf(4) set_take_subset by fastforce
    then show ?thesis using assms(1) by (auto simp: registered_ok_def)
  qed
  then show ?thesis using buf(1,2,3) assms l length_filter_le [of "selected_for b" ?es]
    by (auto simp: fill_one_def buffer_filled_def registered_ok_def labels_of_def)
qed

lemma fill_buffers_fills:
  assumes "registered_ok bm m" "callback_buffer_size m \<le> NDPI_MAX_SUPPORTED_PROTOCOLS + 1"
  shows "\<exists>m'. fill_buffers m = Some m' \<and> registered_ok bm m' \<and> (\<forall>b. buffer_filled b m')
    \<and> callback_buffer m' = callback_buffer m \<and> callback_buffer_size m' = callback_buffer_size m
    \<and> proto_defaults m' = proto_defaults m \<and> labels_of m' = labels_of m"
proof -
  obtain m1 where m1: "fill_one callback_buffer_tcp_payload m = Some m1" "registered_ok bm m1"
    "callback_buffer_size m1 = callback_buffer_size m" "callback_buffer m1 = callback_buffer m" "proto_defaults m1 = proto_defaults m" "labels_of m1 = labels_of m"
    "buffer_filled callback_buffer_tcp_payload m1"
    using fill_one_fills [OF assms] by blast
  obtain m2 where m2: "fill_one callback_buffer_tcp_no_payload m1 = Some m2" "registered_ok bm m2"
    "callback_buffer_size m2 = callback_buffer_size m1" "callback_buffer m2 = callback_buffer m1" "proto_defaults m2 = proto_defaults m1" "labels_of m2 = labels_of m1"
    "buffer_filled callback_buffer_tcp_no_payload m2" "buffer_filled callback_buffer_tcp_payload m2"
    using fill_one_fills [OF m1(2), of callback_buffer_tcp_no_payload] m1 assms by fastforce
  obtain m3 where m3: "fill_one callback_buffer_udp m2 = Some m3" "registered_ok bm m3"
    "callback_buffer_size m3 = callback_buffer_size m2" "callback_buffer m3 = callback_buffer m2" "proto_defaults m3 = proto_defaults m2" "labels_of m3 = labels_of m2"
    "buffer_filled callback_buffer_udp m3" "buffer_filled callback_buffer_tcp_no_payload m3" "buffer_filled callback_buffer_tcp_payload m3"
    using fill_one_fills [OF m2(2), of callback_buffer_udp] m1 m2 assms by fastforce
  obtain m4 where m4: "fill_one callback_buffer_non_tcp_udp m3 = Some m4" "registered_ok bm m4"
    "callback_buffer_size m4 = callback_buffer_size m3" "callback_buffer m4 = callback_buffer m3" "proto_defaults m4 = proto_defaults m3" "labels_of m4 = labels_of m3"
    "buffer_filled callback_buffer_non_tcp_udp m4" "buffer_filled callback_buffer_udp m4"
    "buffer_filled callback_buffer_tcp_no_payload m4" "buffer_filled callback_buffer_tcp_payload m4"
    using fill_one_fills [OF m3(2), of callback_buffer_non_tcp_udp] m1 m2 m3 assms by fastforce
  have "buffer_filled b m4" for b using m4 by (cases b) auto
  then show ?thesis using m1 m2 m3 m4 by (auto simp: fill_buffers_def)
qed

end
