(* ===== verification/Detection_Engine.thy ===== *)
theory Detection_Engine
  imports Engine_Match Registration
begin

text \<open>
  The detection engine of \<^verbatim>\<open>ndpi_main.c\<close>: which dissectors are called for a packet and in which
  order, what is guessed when none of them decides, and \<open>ndpi_detection_process_packet\<close> and
  \<open>ndpi_detection_giveup\<close>, which the application calls for every packet. The dissectors are
  parameters: functions on the module and the flow that may change any part of both. Calling the
  null pointer gives \<open>None\<close>.
\<close>

section \<open>Parameters\<close>

text \<open>
  \<open>call_func\<close> is the effect of a dissector on the packet's bytes, the module and the flow,
  \<open>call_extra\<close> that of a function for further packets of a detected flow, and \<open>ndpi_entropy\<close> the
  entropy of a payload as the bits of a \<open>float\<close>, which the code computes in floating point.
\<close>

record engine_env =
  libc :: c_env
  call_func :: "string \<Rightarrow> bytes \<Rightarrow> ndpi_module \<times> ndpi_flow \<Rightarrow> (ndpi_module \<times> ndpi_flow) option"
  call_extra :: "string \<Rightarrow> bytes \<Rightarrow> ndpi_module \<times> ndpi_flow \<Rightarrow> (int \<times> ndpi_module \<times> ndpi_flow) option"
  ndpi_entropy :: "bytes \<Rightarrow> u32"

section \<open>Calling the dissectors\<close>

text \<open>The three conditions under which an entry of a callback buffer is called.\<close>

definition eligible :: "bitmask \<Rightarrow> u32 \<Rightarrow> call_function \<Rightarrow> ndpi_flow \<Rightarrow> bool option" where
  "eligible db sel e f = do {
     excluded \<leftarrow> NDPI_BITMASK_COMPARE (excluded_protocol_bitmask f) (cf_excluded_bitmask e);
     wanted \<leftarrow> NDPI_BITMASK_COMPARE (cf_detection_bitmask e) db;
     Some (ndpi_selection_bitmask e AND sel = ndpi_selection_bitmask e \<and> \<not> excluded \<and> wanted)
   }"

text \<open>The dissector of the guessed protocol comes first. The first component is what \<open>func\<close> holds afterwards.\<close>

definition call_guessed ::
  "engine_env \<Rightarrow> bytes \<Rightarrow> bitmask \<Rightarrow> u32 \<Rightarrow> bool \<Rightarrow> ndpi_module \<Rightarrow> ndpi_flow
    \<Rightarrow> (string option \<times> nat \<times> ndpi_module \<times> ndpi_flow) option" where
  "call_guessed env mem db sel no_payload m f = do {
     g \<leftarrow> defaults_of m (guessed_protocol_id f);
     if protoId g = NDPI_PROTOCOL_UNKNOWN then Some (None, 0, m, f)
     else do {
       e \<leftarrow> at (callback_buffer m) (unat (protoIdx g));
       ok \<leftarrow> eligible db sel e f;
       if ok \<and> guessed_protocol_id f \<noteq> NDPI_PROTOCOL_UNKNOWN then
         case pd_func g of
           None \<Rightarrow> Some (None, 0, m, f)
         | Some func \<Rightarrow> do {
             allowed \<leftarrow> (if no_payload then do {
                            e' \<leftarrow> at (callback_buffer m) (unat (guessed_protocol_id f));
                            Some (ndpi_selection_bitmask e' AND NDPI_SELECTION_BITMASK_PROTOCOL_HAS_PAYLOAD = 0)
                          } else Some True);
             if allowed then do {
               (m, f) \<leftarrow> call_func env func mem (m, f);
               g \<leftarrow> defaults_of m (guessed_protocol_id f);
               Some (pd_func g, 1, m, f)
             }
             else Some (None, 0, m, f)
           }
       else Some (None, 0, m, f)
     }
   }"

text \<open>The loop over a buffer: \<open>a\<close> is the loop variable, the next argument the rounds left, \<open>calls\<close> the calls made.\<close>

fun dissector_loop ::
  "engine_env \<Rightarrow> bytes \<Rightarrow> bitmask \<Rightarrow> u32 \<Rightarrow> callback_buffer_id \<Rightarrow> string option \<Rightarrow> nat \<Rightarrow> nat \<Rightarrow> nat
    \<Rightarrow> ndpi_module \<Rightarrow> ndpi_flow \<Rightarrow> (nat \<times> ndpi_module \<times> ndpi_flow) option" where
  "dissector_loop env mem db sel b func a 0 calls m f = Some (calls, m, f)"
| "dissector_loop env mem db sel b func a (Suc n) calls m f = do {
     e \<leftarrow> at (callback_buffers m b) a;
     ok \<leftarrow> (if func = cf_func e then Some False else eligible db sel e f);
     if ok then do {
       g \<leftarrow> cf_func e;
       (m, f) \<leftarrow> call_func env g mem (m, f);
       if app_of f \<noteq> NDPI_PROTOCOL_UNKNOWN then Some (calls + 1, m, f)
       else dissector_loop env mem db sel b func (Suc a) n (calls + 1) m f
     }
     else dissector_loop env mem db sel b func (Suc a) n calls m f
   }"

text \<open>One round of the loop over the subprotocols of the protocol that was detected.\<close>

definition call_subprotocol ::
  "engine_env \<Rightarrow> bytes \<Rightarrow> bitmask \<Rightarrow> u32 \<Rightarrow> string option \<Rightarrow> u16 \<Rightarrow> nat \<Rightarrow> ndpi_module \<Rightarrow> ndpi_flow
    \<Rightarrow> (nat \<times> ndpi_module \<times> ndpi_flow) option" where
  "call_subprotocol env mem db sel func p calls m f = do {
     s \<leftarrow> defaults_of m p;
     e \<leftarrow> at (callback_buffer m) (unat (protoIdx s));
     ok \<leftarrow> (if func = pd_func s then Some False else eligible db sel e f);
     if ok then do {
       g \<leftarrow> cf_func e;
       (m, f) \<leftarrow> call_func env g mem (m, f);
       Some (calls + 1, m, f)
     }
     else Some (calls, m, f)
   }"

lemma counter_advances: "(a :: u32) < b \<Longrightarrow> unat (a + 1) = unat a + 1"
proof -
  assume "a < b"
  then have "unat a + 1 < 2 ^ 32" using unsigned_less [where 'a = nat, of b] by (simp add: word_less_nat_alt)
  then show ?thesis by (simp add: unat_word_ariths)
qed

lemma counter_measure: "(a :: u32) < b \<Longrightarrow> 4294967296 - unat (a + 1) < 4294967296 - unat a"
  using counter_advances [of a b] unsigned_less [where 'a = nat, of a] by simp

text \<open>
  The bound of the loop is read again in every round, from the protocol that is on the stack then;
  the variable has 32 bits and stays below a 32-bit number, so the loop ends.
\<close>

function subprotocol_loop ::
  "engine_env \<Rightarrow> bytes \<Rightarrow> bitmask \<Rightarrow> u32 \<Rightarrow> string option \<Rightarrow> u32 \<Rightarrow> nat \<Rightarrow> ndpi_module \<Rightarrow> ndpi_flow
    \<Rightarrow> (nat \<times> ndpi_module \<times> ndpi_flow) option" where
  "subprotocol_loop env mem db sel func a calls m f =
     (case defaults_of m (app_of f) of
        None \<Rightarrow> None
      | Some d \<Rightarrow>
          if a < subprotocol_count d then
            case at (subprotocols d) (unat a) of
              None \<Rightarrow> None
            | Some p \<Rightarrow>
                if p = 65534 then subprotocol_loop env mem db sel func (a + 1) calls m f
                else (case call_subprotocol env mem db sel func p calls m f of
                        None \<Rightarrow> None
                      | Some (calls, m, f) \<Rightarrow>
                          if master_of f \<noteq> NDPI_PROTOCOL_UNKNOWN then Some (calls, m, f)
                          else subprotocol_loop env mem db sel func (a + 1) calls m f)
          else Some (calls, m, f))"
  by pat_completeness auto

termination
  by (relation "measure (\<lambda>(env, mem, db, sel, func, a, calls, m, f). 4294967296 - unat a)") (auto intro: counter_measure)

definition check_ndpi_detection_func ::
  "engine_env \<Rightarrow> bytes \<Rightarrow> u32 \<Rightarrow> callback_buffer_id \<Rightarrow> nat \<Rightarrow> ndpi_module \<Rightarrow> ndpi_flow
    \<Rightarrow> (nat \<times> ndpi_module \<times> ndpi_flow) option" where
  "check_ndpi_detection_func env mem sel b n m f = do {
     let no_payload = (b = callback_buffer_tcp_no_payload);
     db \<leftarrow> NDPI_SAVE_AS_BITMASK (app_of f);
     (func, guessed_calls, m, f) \<leftarrow> call_guessed env mem db sel no_payload m f;
     let calls = (if no_payload then 1 else 0) + guessed_calls;
     (calls, m, f) \<leftarrow> (if app_of f = NDPI_PROTOCOL_UNKNOWN
                       then dissector_loop env mem db sel b func 0 n calls m f else Some (calls, m, f));
     subprotocol_loop env mem db sel func 0 calls m f
   }"

definition check_ndpi_other_flow_func where
  "check_ndpi_other_flow_func env mem sel m f =
     check_ndpi_detection_func env mem sel callback_buffer_non_tcp_udp (callback_buffer_sizes m callback_buffer_non_tcp_udp) m f"

definition check_ndpi_udp_flow_func where
  "check_ndpi_udp_flow_func env mem sel m f =
     check_ndpi_detection_func env mem sel callback_buffer_udp (callback_buffer_sizes m callback_buffer_udp) m f"

definition check_ndpi_tcp_flow_func where
  "check_ndpi_tcp_flow_func env mem sel m f =
     (if payload_packet_len (packet m) \<noteq> 0
      then check_ndpi_detection_func env mem sel callback_buffer_tcp_payload
             (callback_buffer_sizes m callback_buffer_tcp_payload) m f
      else check_ndpi_detection_func env mem sel callback_buffer_tcp_no_payload
             (callback_buffer_sizes m callback_buffer_tcp_no_payload) m f)"

definition ndpi_check_flow_func where
  "ndpi_check_flow_func env mem sel m f =
     (if tcp (packet m) \<noteq> None then check_ndpi_tcp_flow_func env mem sel m f
      else if udp (packet m) \<noteq> None then check_ndpi_udp_flow_func env mem sel m f
      else check_ndpi_other_flow_func env mem sel m f)"

section \<open>Reconciling the result\<close>

definition seconds16 :: "ndpi_flow \<Rightarrow> u16" where
  "seconds16 f = ucast ((last_packet_time_ms f div 1000) AND 0xFFFF)"

text \<open>A call over TCP is remembered as Teams for its address, and Skype over UDP from it becomes Teams.\<close>

definition remember_teams :: "engine_env \<Rightarrow> ndpi_flow \<Rightarrow> ndpi_module \<Rightarrow> ndpi_module option" where
  "remember_teams env f m =
     (case (case msteams_cache m of None \<Rightarrow> ndpi_lru_cache_init (libc env) 1024 | Some c \<Rightarrow> Some c) of
        None \<Rightarrow> Some m
      | Some c \<Rightarrow> do { c \<leftarrow> ndpi_lru_add_to_cache c (ntohl (saddr f)) (seconds16 f); Some (m\<lparr>msteams_cache := Some c\<rparr>) })"

definition recognise_teams ::
  "ndpi_flow \<Rightarrow> ndpi_protocol \<Rightarrow> ndpi_module \<Rightarrow> (ndpi_protocol \<times> ndpi_module) option" where
  "recognise_teams f ret m =
     (case msteams_cache m of
        None \<Rightarrow> Some (ret, m)
      | Some c \<Rightarrow> do {
          (hit, _) \<leftarrow> ndpi_lru_find_cache c (ntohl (saddr f)) False;
          case hit of
            None \<Rightarrow> Some (ret, m)
          | Some when \<Rightarrow>
              if seconds16 f - when < 60 then do {
                c \<leftarrow> ndpi_lru_add_to_cache c (ntohl (saddr f)) (seconds16 f);
                Some (ret\<lparr>app_protocol := NDPI_PROTOCOL_MSTEAMS\<rparr>, m\<lparr>msteams_cache := Some c\<rparr>)
              }
              else Some (ret, m)
        })"

text \<open>The switch on the application protocol.\<close>

definition reconcile_app ::
  "engine_env \<Rightarrow> ndpi_module \<Rightarrow> ndpi_flow \<Rightarrow> ndpi_protocol \<Rightarrow> (ndpi_protocol \<times> ndpi_module \<times> ndpi_flow) option" where
  "reconcile_app env m f ret =
     (if app_protocol ret = NDPI_PROTOCOL_MSTEAMS then
        (if \<not> is_ipv6 f \<and> l4_proto f = IPPROTO_TCP then map_option (\<lambda>m. (ret, m, f)) (remember_teams env f m)
         else Some (ret, m, f))
      else if app_protocol ret = NDPI_PROTOCOL_SKYPE_TEAMS \<or> app_protocol ret = NDPI_PROTOCOL_SKYPE_CALL then
        (if \<not> is_ipv6 f \<and> l4_proto f = IPPROTO_UDP then map_option (\<lambda>(ret, m). (ret, m, f)) (recognise_teams f ret m)
         else Some (ret, m, f))
      else if app_protocol ret = NDPI_PROTOCOL_RDP then
        map_option (\<lambda>f. (ret, m, f)) (ndpi_set_risk m NDPI_DESKTOP_OR_FILE_SHARING_SESSION f)
      else if app_protocol ret = NDPI_PROTOCOL_ANYDESK \<and> l4_proto f = IPPROTO_TCP then
        map_option (\<lambda>f. (ret, m, f)) (ndpi_set_risk m NDPI_DESKTOP_OR_FILE_SHARING_SESSION f)
      else Some (ret, m, f))"

definition ndpi_reconcile_protocols ::
  "engine_env \<Rightarrow> ndpi_module \<Rightarrow> ndpi_flow \<Rightarrow> ndpi_protocol \<Rightarrow> (ndpi_protocol \<times> ndpi_module \<times> ndpi_flow) option" where
  "ndpi_reconcile_protocols env m f ret = do {
     (ret, m, f) \<leftarrow> reconcile_app env m f ret;
     breed \<leftarrow> ndpi_get_proto_breed m (app_protocol ret);
     f \<leftarrow> (if breed = 3 \<or> breed = 4 \<or> breed = 5 then ndpi_set_risk m NDPI_UNSAFE_PROTOCOL f else Some f);
     Some (ret, m, f)
   }"

section \<open>Giving up\<close>

definition result_of_flow :: "nat \<Rightarrow> ndpi_flow \<Rightarrow> ndpi_protocol" where
  "result_of_flow cat f = \<lparr>master_protocol = master_of f, app_protocol = app_of f, proto_category = cat\<rparr>"

definition stun_export :: "ndpi_module \<Rightarrow> ndpi_flow \<Rightarrow> ndpi_flow option" where
  "stun_export m f = ndpi_set_detected_protocol m (guessed_host_protocol_id f) NDPI_PROTOCOL_STUN NDPI_CONFIDENCE_DPI f"

text \<open>A guess is dropped when the dissector excluded it and the protocol fits a single UDP packet.\<close>

definition discarded :: "u16 \<Rightarrow> ndpi_flow \<Rightarrow> bool option" where
  "discarded p f =
     (if p \<noteq> NDPI_PROTOCOL_UNKNOWN \<and> l4_proto f = IPPROTO_UDP then do {
        x \<leftarrow> NDPI_ISSET (excluded_protocol_bitmask f) (unat p);
        Some (x \<and> is_udp_guessable_protocol p)
      } else Some False)"

text \<open>The guess from the ports and the addresses, with the host name in favour of the address.\<close>

definition use_guesses :: "ndpi_module \<Rightarrow> ndpi_flow \<Rightarrow> (bool \<times> ndpi_flow) option" where
  "use_guesses m f = do {
     let f = (if guessed_protocol_id f = NDPI_PROTOCOL_UNKNOWN \<and> l4_proto f = IPPROTO_TCP \<and> hello_processed f
              then f\<lparr>guessed_protocol_id := NDPI_PROTOCOL_TLS\<rparr> else f);
     host_gone \<leftarrow> discarded (guessed_host_protocol_id f) f;
     port_gone \<leftarrow> discarded (guessed_protocol_id f) f;
     let f = (if host_gone then f\<lparr>guessed_host_protocol_id := NDPI_PROTOCOL_UNKNOWN\<rparr> else f);
     let f = (if port_gone then f\<lparr>guessed_protocol_id := NDPI_PROTOCOL_UNKNOWN\<rparr> else f);
     if guessed_protocol_id f \<noteq> NDPI_PROTOCOL_UNKNOWN \<or> guessed_host_protocol_id f \<noteq> NDPI_PROTOCOL_UNKNOWN then do {
       let conf = (if guessed_host_protocol_id f \<noteq> NDPI_PROTOCOL_UNKNOWN then NDPI_CONFIDENCE_MATCH_BY_IP
                   else NDPI_CONFIDENCE_MATCH_BY_PORT);
       let stun = (guessed_protocol_id f = 0 \<and> stun_num_binding_requests f > 0 \<and> stun_num_processed_pkts f > 0);
       let port_guess = (if stun then NDPI_PROTOCOL_STUN else guessed_protocol_id f);
       let conf = (if stun then NDPI_CONFIDENCE_DPI else conf);
       let host_guess = guessed_host_protocol_id f;
       c \<leftarrow> peek (host_server_name f) 0;
       (host_guess, f) \<leftarrow>
         (if c \<noteq> 0 then do {
            n \<leftarrow> c_strlen (host_server_name f);
            (_, ret, f) \<leftarrow> ndpi_match_host_subprotocol m (host_server_name f) n NDPI_PROTOCOL_DNS f;
            Some (if mr_protocol_id ret \<noteq> 0 then ucast (mr_protocol_id ret) else host_guess, f)
          } else Some (host_guess, f));
       f \<leftarrow> ndpi_set_detected_protocol m host_guess port_guess conf f;
       Some (True, f)
     }
     else Some (False, f)
   }"

text \<open>The block after the guess that writes the stack directly.\<close>

definition direct_guess :: "ndpi_flow \<Rightarrow> bool \<times> ndpi_flow" where
  "direct_guess f =
     (let g1 = guessed_protocol_id f \<noteq> NDPI_PROTOCOL_UNKNOWN;
          f = (if g1 then f\<lparr>detected_protocol_stack := (app_of f, guessed_protocol_id f),
                            confidence := NDPI_CONFIDENCE_MATCH_BY_PORT\<rparr> else f);
          g2 = guessed_host_protocol_id f \<noteq> NDPI_PROTOCOL_UNKNOWN;
          f = (if g2 then f\<lparr>detected_protocol_stack := (guessed_host_protocol_id f, master_of f),
                            confidence := NDPI_CONFIDENCE_MATCH_BY_IP\<rparr> else f);
          g3 = (master_of f = app_of f \<and> master_of f \<noteq> NDPI_PROTOCOL_UNKNOWN);
          f = (if g3 then f\<lparr>detected_protocol_stack := (app_of f, guessed_host_protocol_id f),
                            confidence := NDPI_CONFIDENCE_MATCH_BY_IP\<rparr> else f)
      in (g1 \<or> g2 \<or> g3, f))"

text \<open>The guesses in the order of the code; the flag is \<open>protocol_was_guessed\<close>.\<close>

definition make_guess :: "bool \<Rightarrow> ndpi_module \<Rightarrow> ndpi_flow \<Rightarrow> (bool \<times> ndpi_flow) option" where
  "make_guess enable_guess m f =
     (if guessed_protocol_id f = NDPI_PROTOCOL_STUN then map_option (\<lambda>f. (True, f)) (stun_export m f)
      else do {
        c \<leftarrow> peek (host_server_name f) 0;
        (guessed, f) \<leftarrow>
          (if guessed_protocol_id f = NDPI_PROTOCOL_HANGOUT_DUO \<or> guessed_protocol_id f = NDPI_PROTOCOL_FACEBOOK_VOIP
              \<or> guessed_protocol_id f = NDPI_PROTOCOL_SIGNAL_VOIP \<or> guessed_protocol_id f = NDPI_PROTOCOL_WHATSAPP_CALL
           then map_option (\<lambda>f. (True, f))
             (ndpi_set_detected_protocol m (guessed_protocol_id f) NDPI_PROTOCOL_UNKNOWN NDPI_CONFIDENCE_DPI f)
           else if hello_processed f \<and> c \<noteq> 0
           then map_option (\<lambda>f. (True, f))
             (ndpi_set_detected_protocol m NDPI_PROTOCOL_TLS NDPI_PROTOCOL_UNKNOWN NDPI_CONFIDENCE_DPI f)
           else if enable_guess then use_guesses m f
           else Some (False, f));
        let (guessed, f) = (if app_of f = NDPI_PROTOCOL_UNKNOWN \<and> enable_guess
                            then let (g, f) = direct_guess f in (guessed \<or> g, f) else (guessed, f));
        if app_of f = NDPI_PROTOCOL_UNKNOWN \<and> guessed_protocol_id f = NDPI_PROTOCOL_STUN
        then map_option (\<lambda>f. (True, f)) (stun_export m f)
        else Some (guessed, f)
      })"

text \<open>The last resort when there is no result: the caches of BitTorrent peers and of Zoom servers.\<close>

definition last_resort :: "ndpi_module \<Rightarrow> ndpi_flow \<Rightarrow> ndpi_protocol \<Rightarrow> (ndpi_protocol \<times> ndpi_flow) option" where
  "last_resort m f ret =
     (if master_protocol ret = NDPI_PROTOCOL_UNKNOWN \<and> app_protocol ret = NDPI_PROTOCOL_UNKNOWN then do {
        (bt, f) \<leftarrow> ndpi_search_into_bittorrent_cache m f (saddr f) (sport f) (daddr f) (dport f);
        if bt then Some (ret\<lparr>app_protocol := NDPI_PROTOCOL_BITTORRENT\<rparr>, f\<lparr>confidence := NDPI_CONFIDENCE_DPI_CACHE\<rparr>)
        else do {
          z1 \<leftarrow> (if l4_proto f = IPPROTO_UDP \<and> ntohs (sport f) = 8801 then ndpi_search_into_zoom_cache m (saddr f) else Some False);
          z2 \<leftarrow> (if \<not> z1 \<and> l4_proto f = IPPROTO_UDP \<and> ntohs (dport f) = 8801
                then ndpi_search_into_zoom_cache m (daddr f) else Some z1);
          Some (if z2 then (ret\<lparr>app_protocol := NDPI_PROTOCOL_ZOOM\<rparr>, f\<lparr>confidence := NDPI_CONFIDENCE_DPI_CACHE\<rparr>) else (ret, f))
        }
      }
      else Some (ret, f))"

definition stun_subprotocol :: "ndpi_protocol \<Rightarrow> ndpi_protocol" where
  "stun_subprotocol ret =
     (if master_protocol ret = NDPI_PROTOCOL_STUN then
        if app_protocol ret = NDPI_PROTOCOL_FACEBOOK then ret\<lparr>app_protocol := NDPI_PROTOCOL_FACEBOOK_VOIP\<rparr>
        else if app_protocol ret = NDPI_PROTOCOL_GOOGLE then ret\<lparr>app_protocol := NDPI_PROTOCOL_HANGOUT_DUO\<rparr>
        else ret
      else ret)"

definition ndpi_detection_giveup ::
  "engine_env \<Rightarrow> bool \<Rightarrow> ndpi_module \<Rightarrow> ndpi_flow \<Rightarrow> (ndpi_protocol \<times> bool \<times> ndpi_module \<times> ndpi_flow) option" where
  "ndpi_detection_giveup env enable_guess m f =
     (if app_of f \<noteq> NDPI_PROTOCOL_UNKNOWN then Some (result_of_flow (category f) f, False, m, f)
      else do {
        mined \<leftarrow> (case mining_cache m of
            Some c \<Rightarrow> if is_ipv6 f then Some None else map_option fst (ndpi_lru_find_cache c (saddr f + daddr f) False)
          | None \<Rightarrow> Some None);
        case mined of
          Some cached \<Rightarrow> do {
            let cat = category f;
            f \<leftarrow> ndpi_set_detected_protocol m cached NDPI_PROTOCOL_UNKNOWN NDPI_CONFIDENCE_DPI_CACHE f;
            Some (result_of_flow cat f, False, m, f)
          }
        | None \<Rightarrow> do {
            let cat = category f;
            (guessed, f) \<leftarrow> make_guess enable_guess m f;
            (ret, f) \<leftarrow> last_resort m f (stun_subprotocol (result_of_flow cat f));
            if app_protocol ret \<noteq> NDPI_PROTOCOL_UNKNOWN then do {
              (ret, f) \<leftarrow> ndpi_fill_protocol_category m ret f;
              (ret, m, f) \<leftarrow> ndpi_reconcile_protocols env m f ret;
              Some (ret, True, m, f)
            }
            else Some (ret, guessed, m, f)
          }
      })"

section \<open>Further packets, guessing, and a packet\<close>

definition selection_of :: "ndpi_packet \<Rightarrow> u32" where
  "selection_of p =
     NDPI_SELECTION_BITMASK_PROTOCOL_COMPLETE_TRAFFIC
     OR (if iph p \<noteq> None then NDPI_SELECTION_BITMASK_PROTOCOL_IP OR NDPI_SELECTION_BITMASK_PROTOCOL_IPV4_OR_IPV6 else 0)
     OR (if tcp p \<noteq> None then NDPI_SELECTION_BITMASK_PROTOCOL_INT_TCP OR NDPI_SELECTION_BITMASK_PROTOCOL_INT_TCP_OR_UDP else 0)
     OR (if udp p \<noteq> None then NDPI_SELECTION_BITMASK_PROTOCOL_INT_UDP OR NDPI_SELECTION_BITMASK_PROTOCOL_INT_TCP_OR_UDP else 0)
     OR (if payload_packet_len p \<noteq> 0 then NDPI_SELECTION_BITMASK_PROTOCOL_HAS_PAYLOAD else 0)
     OR (if tcp_retransmission p = 0 then NDPI_SELECTION_BITMASK_PROTOCOL_NO_TCP_RETRANSMISSION else 0)
     OR (if iphv6 p \<noteq> None then NDPI_SELECTION_BITMASK_PROTOCOL_IPV6 OR NDPI_SELECTION_BITMASK_PROTOCOL_IPV4_OR_IPV6 else 0)"

text \<open>The packet layer on the module's packet: the result of \<open>ndpi_init_packet\<close> and the tracking.\<close>

definition init_packet_of ::
  "bytes \<Rightarrow> nat \<Rightarrow> u64 \<Rightarrow> ndpi_module \<Rightarrow> ndpi_flow \<Rightarrow> (int \<times> ndpi_module \<times> ndpi_flow) option" where
  "init_packet_of mem len time m f = do {
     (rc, p, f) \<leftarrow> ndpi_init_packet (ip_version_limit m) (packet m) f time mem len;
     Some (rc, m\<lparr>packet := p\<rparr>, f)
   }"

definition track_packet :: "bytes \<Rightarrow> ndpi_module \<Rightarrow> ndpi_flow \<Rightarrow> (ndpi_module \<times> ndpi_flow) option" where
  "track_packet mem m f = do {
     (p, f) \<leftarrow> ndpi_connection_tracking (direction_detect_disable m) (tcp_max_retransmission_window_size m) mem (packet m) f;
     Some (m\<lparr>packet := p\<rparr>, f)
   }"

definition ndpi_process_extra_packet ::
  "engine_env \<Rightarrow> bytes \<Rightarrow> nat \<Rightarrow> u64 \<Rightarrow> ndpi_module \<Rightarrow> ndpi_flow \<Rightarrow> (ndpi_module \<times> ndpi_flow) option" where
  "ndpi_process_extra_packet env mem len time m f = do {
     (rc, m, f) \<leftarrow> init_packet_of mem len time m f;
     if rc \<noteq> 0 then Some (m, f)
     else do {
       (m, f) \<leftarrow> track_packet mem m f;
       case extra_packets_func f of
         None \<Rightarrow> Some (m, f)
       | Some func \<Rightarrow> do {
           (more, m, f) \<leftarrow> call_extra env func mem (m, f);
           let f = (if more = 0 then f\<lparr>check_extra_packets := False\<rparr> else f);
           let n = (num_extra_packets_checked f + 1) mod 256;
           let f = f\<lparr>num_extra_packets_checked := n\<rparr>;
           Some (m, if n = max_extra_packets_to_check f then f\<lparr>extra_packets_func := None\<rparr> else f)
         }
     }
   }"

text \<open>The ports of a UDP or TCP header in host order; without one, zero.\<close>

definition host_ports :: "bytes \<Rightarrow> ndpi_packet \<Rightarrow> (u16 \<times> u16) option" where
  "host_ports mem p =
     (case (if udp p \<noteq> None then udp p else tcp p) of
        None \<Rightarrow> Some (0, 0)
      | Some i \<Rightarrow> do { s \<leftarrow> get16 mem i; d \<leftarrow> get16 mem (i + 2); Some (s, d) })"

text \<open>
  What \<open>ndpi_do_guess\<close> does for a packet with an IP header: the guesses, and whether the function
  returns there.
\<close>

definition guess_ip ::
  "engine_env \<Rightarrow> bytes \<Rightarrow> ndpi_module \<Rightarrow> ndpi_flow \<Rightarrow> (bool \<times> ndpi_protocol \<times> ndpi_module \<times> ndpi_flow) option" where
  "guess_ip env mem m f = do {
     let ret = \<lparr>master_protocol = 0, app_protocol = 0, proto_category = 0\<rparr>;
     proto \<leftarrow> (case iphv6 (packet m) of Some i \<Rightarrow> peek mem (i + 6) | None \<Rightarrow> do { i \<leftarrow> iph (packet m); peek mem (i + 9) });
     (sp, dp) \<leftarrow> host_ports mem (packet m);
     (g, user_defined, f) \<leftarrow> ndpi_guess_protocol_id (ndpi_entropy env) mem m proto sp dp f;
     let f = f\<lparr>guessed_protocol_id := g\<rparr>;
     h \<leftarrow> ndpi_guess_host_protocol_id mem m f;
     let f = f\<lparr>guessed_host_protocol_id := h\<rparr>;
     (ret, f) \<leftarrow>
       (case iph (packet m) of
          Some i \<Rightarrow> if categories_loaded m then do {
              ret \<leftarrow> (if ndpi_num_custom_protocols m \<noteq> 0 then do {
                       s \<leftarrow> raw32 mem (i + 12);
                       d \<leftarrow> raw32 mem (i + 16);
                       map_option snd (ndpi_fill_ip_protocol_category m s d ret)
                     } else Some ret);
              Some (ret, f\<lparr>guessed_header_category := c_u16 (proto_category ret)\<rparr>)
            } else Some (ret, f\<lparr>guessed_header_category := 0\<rparr>)
        | None \<Rightarrow> Some (ret, f\<lparr>guessed_header_category := 0\<rparr>));
     if NDPI_MAX_SUPPORTED_PROTOCOLS \<le> unat (guessed_protocol_id f) then do {
       let ret = ret\<lparr>master_protocol := NDPI_PROTOCOL_UNKNOWN, app_protocol := guessed_protocol_id f\<rparr>;
       let f = f\<lparr>confidence := NDPI_CONFIDENCE_MATCH_BY_PORT\<rparr>;
       (ret, f) \<leftarrow> ndpi_fill_protocol_category m ret f;
       Some (True, ret, m, f)
     }
     else if user_defined \<noteq> 0 \<and> guessed_protocol_id f \<noteq> NDPI_PROTOCOL_UNKNOWN then
       (if iph (packet m) \<noteq> None then do {
          (ret, m, f) \<leftarrow> (if guessed_host_protocol_id f \<noteq> NDPI_PROTOCOL_UNKNOWN
                         then map_option (\<lambda>(ret, _, m, f). (ret, m, f)) (ndpi_detection_giveup env False m f)
                         else Some (ret, m, f));
          (ret, f) \<leftarrow> ndpi_fill_protocol_category m ret f;
          Some (True, ret, m, f)
        } else Some (False, ret, m, f))
     else if iph (packet m) \<noteq> None then do {
       h \<leftarrow> ndpi_guess_host_protocol_id mem m f;
       Some (False, ret, m, f\<lparr>guessed_host_protocol_id := h\<rparr>)
     }
     else Some (False, ret, m, f)
   }"

definition ndpi_do_guess ::
  "engine_env \<Rightarrow> bytes \<Rightarrow> ndpi_module \<Rightarrow> ndpi_flow \<Rightarrow> (bool \<times> ndpi_protocol \<times> ndpi_module \<times> ndpi_flow) option" where
  "ndpi_do_guess env mem m f = do {
     (stop, ret, m, f) \<leftarrow>
       (if iphv6 (packet m) \<noteq> None \<or> iph (packet m) \<noteq> None then guess_ip env mem m f
        else Some (False, \<lparr>master_protocol = 0, app_protocol = 0, proto_category = 0\<rparr>, m, f));
     if stop then Some (True, ret, m, f)
     else if NDPI_MAX_SUPPORTED_PROTOCOLS \<le> unat (guessed_host_protocol_id f) then do {
       let ret = ret\<lparr>master_protocol := guessed_protocol_id f, app_protocol := guessed_host_protocol_id f\<rparr>;
       (_, m, f) \<leftarrow> ndpi_check_flow_func env mem 0 m f;
       (ret, f) \<leftarrow> ndpi_fill_protocol_category m ret f;
       Some (True, ret, m, f)
     }
     else Some (False, ret, m, f)
   }"

text \<open>The test whether a detected protocol runs on an unexpected port.\<close>

definition ndpi_is_ntop_protocol :: "ndpi_protocol \<Rightarrow> bool" where
  "ndpi_is_ntop_protocol ret \<longleftrightarrow> master_protocol ret = NDPI_PROTOCOL_HTTP \<and> app_protocol ret = NDPI_PROTOCOL_NTOP"

definition ndpi_check_protocol_port_mismatch_exceptions :: "u16 \<Rightarrow> ndpi_protocol \<Rightarrow> bool" where
  "ndpi_check_protocol_port_mismatch_exceptions expected ret \<longleftrightarrow>
     ndpi_is_ntop_protocol ret
     \<or> master_protocol ret = NDPI_PROTOCOL_TLS
       \<and> (expected = NDPI_PROTOCOL_MAIL_IMAPS \<or> expected = NDPI_PROTOCOL_MAIL_POPS \<or> expected = NDPI_PROTOCOL_MAIL_SMTPS)"

definition ports_listed :: "u16 list \<Rightarrow> (u16 \<Rightarrow> bool) \<Rightarrow> bool" where
  "ports_listed ports P = list_ex P (takeWhile (\<lambda>p. p \<noteq> 0) (take 5 ports))"

definition default_ports_of :: "ndpi_module \<Rightarrow> bool \<Rightarrow> u16 \<Rightarrow> u16 list option" where
  "default_ports_of m is_udp p =
     map_option (if is_udp then udp_default_ports else tcp_default_ports) (defaults_of m p)"

text \<open>The second test: neither port is a default port of the result or, in the second round, of its subprotocol.\<close>

definition check_listed ::
  "ndpi_module \<Rightarrow> bool \<Rightarrow> ndpi_protocol \<Rightarrow> u16 list \<Rightarrow> u16 \<Rightarrow> u16 \<Rightarrow> ndpi_flow \<Rightarrow> ndpi_flow option" where
  "check_listed m is_udp ret ports sp dp f = do {
     first \<leftarrow> at ports 0;
     if \<not> ndpi_is_ntop_protocol ret \<and> first \<noteq> 0 then
       if ports_listed ports (\<lambda>q. q = sp \<or> q = dp) then Some f
       else do {
         ports \<leftarrow> default_ports_of m is_udp (app_protocol ret);
         if ports_listed ports (\<lambda>q. q = sp \<or> q = dp) then Some f
         else ndpi_set_risk m NDPI_KNOWN_PROTOCOL_ON_NON_STANDARD_PORT f
       }
     else Some f
   }"

definition check_ports :: "bytes \<Rightarrow> ndpi_module \<Rightarrow> ndpi_protocol \<Rightarrow> ndpi_flow \<Rightarrow> ndpi_flow option" where
  "check_ports mem m ret f =
     (let p = packet m; is_udp = (udp p \<noteq> None) in
      if udp p = None \<and> tcp p = None then Some f
      else do {
        (sp, dp) \<leftarrow> host_ports mem p;
        let found = ndpi_get_guessed_protocol_id (tcpRoot m) (udpRoot m) (if is_udp then IPPROTO_UDP else IPPROTO_TCP) sp dp;
        ports \<leftarrow> default_ports_of m is_udp (if master_protocol ret \<noteq> 0 then master_protocol ret else app_protocol ret);
        expected \<leftarrow> (case found of None \<Rightarrow> Some None | Some n \<Rightarrow> map_option (\<lambda>d. Some (protoId d)) (at (proto_defaults m) (node_proto n)));
        case expected of
          Some e \<Rightarrow>
            if e \<noteq> NDPI_PROTOCOL_UNKNOWN \<and> e \<noteq> master_protocol ret \<and> e \<noteq> app_protocol ret then
              (if \<not> ndpi_check_protocol_port_mismatch_exceptions e ret \<and> \<not> ports_listed ports (\<lambda>q. q = dp)
               then ndpi_set_risk m NDPI_KNOWN_PROTOCOL_ON_NON_STANDARD_PORT f else Some f)
            else check_listed m is_udp ret ports sp dp f
        | None \<Rightarrow> check_listed m is_udp ret ports sp dp f
      })"

text \<open>From the stack to the result, the risk of an unexpected port, the category, and giving up early.\<close>

definition take_result :: "ndpi_protocol \<Rightarrow> ndpi_flow \<Rightarrow> ndpi_protocol" where
  "take_result ret f =
     (if master_of f \<noteq> NDPI_PROTOCOL_UNKNOWN then
        ret\<lparr>app_protocol := app_of f, master_protocol := (if app_of f = master_of f then NDPI_PROTOCOL_UNKNOWN else master_of f)\<rparr>
      else ret\<lparr>app_protocol := app_of f\<rparr>)"

definition settle_category :: "ndpi_module \<Rightarrow> ndpi_protocol \<Rightarrow> ndpi_flow \<Rightarrow> (ndpi_protocol \<times> ndpi_flow) option" where
  "settle_category m ret f =
     (if category f = 0 \<and> app_protocol ret \<noteq> NDPI_PROTOCOL_UNKNOWN then ndpi_fill_protocol_category m ret f
      else Some (ret\<lparr>proto_category := category f\<rparr>, f))"

definition gives_up_early :: "bytes \<Rightarrow> ndpi_module \<Rightarrow> ndpi_protocol \<Rightarrow> ndpi_flow \<Rightarrow> bool option" where
  "gives_up_early mem m ret f =
     (if num_processed_pkts f = 1 \<and> master_protocol ret = NDPI_PROTOCOL_UNKNOWN \<and> app_protocol ret = NDPI_PROTOCOL_UNKNOWN
      then case tcp (packet m) of
          Some i \<Rightarrow> do { syn \<leftarrow> tcp_syn mem i; Some (\<not> syn \<and> guessed_protocol_id f = 0) }
        | None \<Rightarrow> Some False
      else Some False)"

definition settle_risk :: "bytes \<Rightarrow> ndpi_module \<Rightarrow> ndpi_protocol \<Rightarrow> ndpi_flow \<Rightarrow> ndpi_flow option" where
  "settle_risk mem m ret f =
     (if \<not> risk_checked f \<and> (master_protocol ret \<noteq> NDPI_PROTOCOL_UNKNOWN \<or> app_protocol ret \<noteq> NDPI_PROTOCOL_UNKNOWN)
      then map_option (\<lambda>f. f\<lparr>risk_checked := True\<rparr>) (check_ports mem m ret f) else Some f)"

definition remember_zoom :: "c_env \<Rightarrow> bytes \<Rightarrow> ndpi_protocol \<Rightarrow> ndpi_flow \<Rightarrow> ndpi_module \<Rightarrow> ndpi_module option" where
  "remember_zoom env mem ret f m =
     (if app_protocol ret = NDPI_PROTOCOL_ZOOM \<and> l4_proto f = IPPROTO_TCP then
        case iph (packet m) of
          Some i \<Rightarrow> do { d \<leftarrow> raw32 mem (i + 16); ndpi_add_connection_as_zoom env d m }
        | None \<Rightarrow> Some m
      else Some m)"

definition ret_protocols ::
  "engine_env \<Rightarrow> bytes \<Rightarrow> nat \<Rightarrow> ndpi_protocol \<Rightarrow> ndpi_module \<Rightarrow> ndpi_flow
    \<Rightarrow> (ndpi_protocol \<times> ndpi_module \<times> ndpi_flow) option" where
  "ret_protocols env mem num_calls ret m f = do {
     (ret, f) \<leftarrow> settle_category m (take_result ret f) f;
     early \<leftarrow> gives_up_early mem m ret f;
     (ret, m, f) \<leftarrow> (if early then map_option (\<lambda>(ret, _, m, f). (ret, m, f)) (ndpi_detection_giveup env False m f)
                    else Some (ret, m, f));
     f \<leftarrow> settle_risk mem m ret f;
     (ret, m, f) \<leftarrow> ndpi_reconcile_protocols env m f ret;
     m \<leftarrow> remember_zoom (libc env) mem ret f m;
     Some (ret, m, if num_calls = 0 then f\<lparr>fail_with_unknown := True\<rparr> else f)
   }"

definition NDPI_MAX_NUM_PKTS_PER_FLOW_TO_DISSECT :: nat where "NDPI_MAX_NUM_PKTS_PER_FLOW_TO_DISSECT = 32"

definition ndpi_detection_process_packet ::
  "engine_env \<Rightarrow> bytes \<Rightarrow> nat \<Rightarrow> u64 \<Rightarrow> ndpi_module \<Rightarrow> ndpi_flow
    \<Rightarrow> (ndpi_protocol \<times> ndpi_module \<times> ndpi_flow) option" where
  "ndpi_detection_process_packet env mem len time m f = do {
     let ret = result_of_flow (category f) f;
     if fail_with_unknown f then Some (ret, m, f)
     else do {
       let f = f\<lparr>num_processed_pkts := c_u16 (num_processed_pkts f + 1)\<rparr>;
       if NDPI_MAX_NUM_PKTS_PER_FLOW_TO_DISSECT < num_processed_pkts f then Some (ret, m, f)
       else if check_extra_packets f then do {
         (m, f) \<leftarrow> ndpi_process_extra_packet env mem len time m f;
         Some (result_of_flow (category f) f, m, f)
       }
       else do {
         let detected = (app_of f \<noteq> NDPI_PROTOCOL_UNKNOWN);
         (rc, m, f) \<leftarrow> init_packet_of mem len time m f;
         if rc \<noteq> 0 then Some (ret, m, f)
         else if detected then ret_protocols env mem 0 ret m f
         else do {
           (m, f) \<leftarrow> track_packet mem m f;
           let sel = selection_of (packet m);
           (stop, ret, m, f) \<leftarrow>
             (if \<not> protocol_id_already_guessed f then ndpi_do_guess env mem m (f\<lparr>protocol_id_already_guessed := True\<rparr>)
              else Some (False, ret, m, f));
           if stop then Some (ret, m, f)
           else do {
             (num_calls, m, f) \<leftarrow> ndpi_check_flow_func env mem sel m f;
             ret_protocols env mem num_calls ret m f
           }
         }
       }
     }
   }"

end
