(* ===== verification/Dissectors.thy ===== *)
theory Dissectors
  imports Registration
begin

text \<open>
  The registration functions of the dissectors under \<^verbatim>\<open>lib/protocols\<close>, one definition per function
  with the arguments of its calls, in the order in which \<open>ndpi_set_protocol_detection_bitmask2\<close> of
  \<^verbatim>\<open>ndpi_main.c\<close> calls them, and that function. The property is that the registration stays inside
  its arrays for every choice of protocols and leaves a buffer that holds entries of enabled
  protocols only.
\<close>

section \<open>The registration functions\<close>

definition init_http_dissector :: "bitmask \<Rightarrow> registering \<Rightarrow> registering option" where
  "init_http_dissector bm =
     register bm NDPI_PROTOCOL_HTTP ''ndpi_search_http_tcp''
       NDPI_SELECTION_BITMASK_PROTOCOL_V4_V6_TCP_WITH_PAYLOAD True True"

definition init_starcraft_dissector :: "bitmask \<Rightarrow> registering \<Rightarrow> registering option" where
  "init_starcraft_dissector bm =
     register bm NDPI_PROTOCOL_STARCRAFT ''ndpi_search_starcraft''
       NDPI_SELECTION_BITMASK_PROTOCOL_V4_V6_TCP_OR_UDP_WITH_PAYLOAD_WITHOUT_RETRANSMISSION True True"

definition init_tls_dissector :: "bitmask \<Rightarrow> registering \<Rightarrow> registering option" where
  "init_tls_dissector bm = run_all [
     register bm NDPI_PROTOCOL_TLS ''ndpi_search_tls_wrapper''
       NDPI_SELECTION_BITMASK_PROTOCOL_V4_V6_TCP_WITH_PAYLOAD_WITHOUT_RETRANSMISSION True True,
     register bm NDPI_PROTOCOL_DTLS ''ndpi_search_tls_wrapper''
       NDPI_SELECTION_BITMASK_PROTOCOL_V4_V6_UDP_WITH_PAYLOAD True True]"

definition init_rtp_dissector :: "bitmask \<Rightarrow> registering \<Rightarrow> registering option" where
  "init_rtp_dissector bm =
     register bm NDPI_PROTOCOL_RTP ''ndpi_search_rtp''
       NDPI_SELECTION_BITMASK_PROTOCOL_V4_V6_UDP_WITH_PAYLOAD True True"

definition init_rtsp_dissector :: "bitmask \<Rightarrow> registering \<Rightarrow> registering option" where
  "init_rtsp_dissector bm =
     register bm NDPI_PROTOCOL_RTSP ''ndpi_search_rtsp_tcp_udp''
       NDPI_SELECTION_BITMASK_PROTOCOL_V4_V6_TCP_OR_UDP_WITH_PAYLOAD True True"

definition init_rdp_dissector :: "bitmask \<Rightarrow> registering \<Rightarrow> registering option" where
  "init_rdp_dissector bm =
     register bm NDPI_PROTOCOL_RDP ''ndpi_search_rdp''
       NDPI_SELECTION_BITMASK_PROTOCOL_V4_V6_TCP_OR_UDP_WITH_PAYLOAD_WITHOUT_RETRANSMISSION True True"

definition init_stun_dissector :: "bitmask \<Rightarrow> registering \<Rightarrow> registering option" where
  "init_stun_dissector bm =
     register bm NDPI_PROTOCOL_STUN ''ndpi_search_stun''
       NDPI_SELECTION_BITMASK_PROTOCOL_V4_V6_UDP_WITH_PAYLOAD True True"

definition init_sip_dissector :: "bitmask \<Rightarrow> registering \<Rightarrow> registering option" where
  "init_sip_dissector bm =
     register bm NDPI_PROTOCOL_SIP ''ndpi_search_sip''
       NDPI_SELECTION_BITMASK_PROTOCOL_V4_V6_TCP_OR_UDP_WITH_PAYLOAD_WITHOUT_RETRANSMISSION True True"

definition init_imo_dissector :: "bitmask \<Rightarrow> registering \<Rightarrow> registering option" where
  "init_imo_dissector bm =
     register bm NDPI_PROTOCOL_IMO ''ndpi_search_imo''
       NDPI_SELECTION_BITMASK_PROTOCOL_V4_V6_UDP_WITH_PAYLOAD True True"

definition init_teredo_dissector :: "bitmask \<Rightarrow> registering \<Rightarrow> registering option" where
  "init_teredo_dissector bm =
     register bm NDPI_PROTOCOL_TEREDO ''ndpi_search_teredo''
       NDPI_SELECTION_BITMASK_PROTOCOL_UDP_WITH_PAYLOAD True True"

definition init_edonkey_dissector :: "bitmask \<Rightarrow> registering \<Rightarrow> registering option" where
  "init_edonkey_dissector bm =
     register bm NDPI_PROTOCOL_EDONKEY ''ndpi_search_edonkey''
       NDPI_SELECTION_BITMASK_PROTOCOL_V4_V6_TCP_OR_UDP_WITHOUT_RETRANSMISSION True True"

definition init_fasttrack_dissector :: "bitmask \<Rightarrow> registering \<Rightarrow> registering option" where
  "init_fasttrack_dissector bm =
     register bm NDPI_PROTOCOL_FASTTRACK ''ndpi_search_fasttrack_tcp''
       NDPI_SELECTION_BITMASK_PROTOCOL_V4_V6_TCP_WITH_PAYLOAD_WITHOUT_RETRANSMISSION True True"

definition init_gnutella_dissector :: "bitmask \<Rightarrow> registering \<Rightarrow> registering option" where
  "init_gnutella_dissector bm =
     register bm NDPI_PROTOCOL_GNUTELLA ''ndpi_search_gnutella''
       NDPI_SELECTION_BITMASK_PROTOCOL_V4_V6_TCP_OR_UDP_WITH_PAYLOAD_WITHOUT_RETRANSMISSION True True"

definition init_directconnect_dissector :: "bitmask \<Rightarrow> registering \<Rightarrow> registering option" where
  "init_directconnect_dissector bm =
     register bm NDPI_PROTOCOL_DIRECTCONNECT ''ndpi_search_directconnect''
       NDPI_SELECTION_BITMASK_PROTOCOL_V4_V6_TCP_WITH_PAYLOAD_WITHOUT_RETRANSMISSION True True"

definition init_nats_dissector :: "bitmask \<Rightarrow> registering \<Rightarrow> registering option" where
  "init_nats_dissector bm =
     register bm NDPI_PROTOCOL_NATS ''ndpi_search_nats_tcp''
       NDPI_SELECTION_BITMASK_PROTOCOL_V4_V6_TCP_WITH_PAYLOAD_WITHOUT_RETRANSMISSION True True"

definition init_applejuice_dissector :: "bitmask \<Rightarrow> registering \<Rightarrow> registering option" where
  "init_applejuice_dissector bm =
     register bm NDPI_PROTOCOL_APPLEJUICE ''ndpi_search_applejuice_tcp''
       NDPI_SELECTION_BITMASK_PROTOCOL_V4_V6_TCP_WITH_PAYLOAD_WITHOUT_RETRANSMISSION True True"

definition init_socks_dissector :: "bitmask \<Rightarrow> registering \<Rightarrow> registering option" where
  "init_socks_dissector bm =
     register bm NDPI_PROTOCOL_SOCKS ''ndpi_search_socks''
       NDPI_SELECTION_BITMASK_PROTOCOL_V4_V6_TCP_WITH_PAYLOAD_WITHOUT_RETRANSMISSION True True"

definition init_irc_dissector :: "bitmask \<Rightarrow> registering \<Rightarrow> registering option" where
  "init_irc_dissector bm =
     register bm NDPI_PROTOCOL_IRC ''ndpi_search_irc_tcp''
       NDPI_SELECTION_BITMASK_PROTOCOL_V4_V6_TCP_WITH_PAYLOAD_WITHOUT_RETRANSMISSION True True"

definition init_jabber_dissector :: "bitmask \<Rightarrow> registering \<Rightarrow> registering option" where
  "init_jabber_dissector bm =
     register bm NDPI_PROTOCOL_JABBER ''ndpi_search_jabber_tcp''
       NDPI_SELECTION_BITMASK_PROTOCOL_V4_V6_TCP_OR_UDP_WITHOUT_RETRANSMISSION True True"

definition init_mail_pop_dissector :: "bitmask \<Rightarrow> registering \<Rightarrow> registering option" where
  "init_mail_pop_dissector bm =
     register bm NDPI_PROTOCOL_MAIL_POP ''ndpi_search_mail_pop_tcp''
       NDPI_SELECTION_BITMASK_PROTOCOL_V4_V6_TCP_WITH_PAYLOAD_WITHOUT_RETRANSMISSION True True"

definition init_mail_imap_dissector :: "bitmask \<Rightarrow> registering \<Rightarrow> registering option" where
  "init_mail_imap_dissector bm =
     register bm NDPI_PROTOCOL_MAIL_IMAP ''ndpi_search_mail_imap_tcp''
       NDPI_SELECTION_BITMASK_PROTOCOL_V4_V6_TCP_WITH_PAYLOAD_WITHOUT_RETRANSMISSION True True"

definition init_mail_smtp_dissector :: "bitmask \<Rightarrow> registering \<Rightarrow> registering option" where
  "init_mail_smtp_dissector bm =
     register bm NDPI_PROTOCOL_MAIL_SMTP ''ndpi_search_mail_smtp_tcp''
       NDPI_SELECTION_BITMASK_PROTOCOL_V4_V6_TCP_WITH_PAYLOAD_WITHOUT_RETRANSMISSION True True"

definition init_usenet_dissector :: "bitmask \<Rightarrow> registering \<Rightarrow> registering option" where
  "init_usenet_dissector bm =
     register bm NDPI_PROTOCOL_USENET ''ndpi_search_usenet_tcp''
       NDPI_SELECTION_BITMASK_PROTOCOL_V4_V6_TCP_WITH_PAYLOAD_WITHOUT_RETRANSMISSION True True"

definition init_dns_dissector :: "bitmask \<Rightarrow> registering \<Rightarrow> registering option" where
  "init_dns_dissector bm =
     register bm NDPI_PROTOCOL_DNS ''ndpi_search_dns''
       NDPI_SELECTION_BITMASK_PROTOCOL_V4_V6_TCP_OR_UDP_WITH_PAYLOAD_WITHOUT_RETRANSMISSION True True"

definition init_vmware_dissector :: "bitmask \<Rightarrow> registering \<Rightarrow> registering option" where
  "init_vmware_dissector bm =
     register bm NDPI_PROTOCOL_VMWARE ''ndpi_search_vmware''
       NDPI_SELECTION_BITMASK_PROTOCOL_V4_V6_UDP_WITH_PAYLOAD True True"

definition init_non_tcp_udp_dissector :: "bitmask \<Rightarrow> registering \<Rightarrow> registering option" where
  "init_non_tcp_udp_dissector bm = run_all [
     save_unknown,
     register bm NDPI_PROTOCOL_IP_IPSEC ''ndpi_search_in_non_tcp_udp''
       NDPI_SELECTION_BITMASK_PROTOCOL_IPV4_OR_IPV6 False True,
     register bm NDPI_PROTOCOL_IP_GRE ''ndpi_search_in_non_tcp_udp''
       NDPI_SELECTION_BITMASK_PROTOCOL_IPV4_OR_IPV6 False True,
     register bm NDPI_PROTOCOL_IP_ICMP ''ndpi_search_in_non_tcp_udp''
       NDPI_SELECTION_BITMASK_PROTOCOL_IPV4_OR_IPV6 False True,
     register bm NDPI_PROTOCOL_IP_IGMP ''ndpi_search_in_non_tcp_udp''
       NDPI_SELECTION_BITMASK_PROTOCOL_IPV4_OR_IPV6 False True,
     register bm NDPI_PROTOCOL_IP_EGP ''ndpi_search_in_non_tcp_udp''
       NDPI_SELECTION_BITMASK_PROTOCOL_IPV4_OR_IPV6 False True,
     register bm NDPI_PROTOCOL_IP_SCTP ''ndpi_search_in_non_tcp_udp''
       NDPI_SELECTION_BITMASK_PROTOCOL_IPV4_OR_IPV6 False True,
     register bm NDPI_PROTOCOL_IP_OSPF ''ndpi_search_in_non_tcp_udp''
       NDPI_SELECTION_BITMASK_PROTOCOL_IPV4_OR_IPV6 False True,
     register bm NDPI_PROTOCOL_IP_IP_IN_IP ''ndpi_search_in_non_tcp_udp''
       NDPI_SELECTION_BITMASK_PROTOCOL_IPV4_OR_IPV6 False True,
     register bm NDPI_PROTOCOL_IP_ICMPV6 ''ndpi_search_in_non_tcp_udp''
       NDPI_SELECTION_BITMASK_PROTOCOL_IPV4_OR_IPV6 False True]"

definition init_sopcast_dissector :: "bitmask \<Rightarrow> registering \<Rightarrow> registering option" where
  "init_sopcast_dissector bm =
     register bm NDPI_PROTOCOL_SOPCAST ''ndpi_search_sopcast''
       NDPI_SELECTION_BITMASK_PROTOCOL_V4_V6_TCP_OR_UDP_WITH_PAYLOAD True True"

definition init_tvuplayer_dissector :: "bitmask \<Rightarrow> registering \<Rightarrow> registering option" where
  "init_tvuplayer_dissector bm =
     register bm NDPI_PROTOCOL_TVUPLAYER ''ndpi_search_tvuplayer''
       NDPI_SELECTION_BITMASK_PROTOCOL_V4_V6_TCP_OR_UDP_WITH_PAYLOAD True True"

definition init_ppstream_dissector :: "bitmask \<Rightarrow> registering \<Rightarrow> registering option" where
  "init_ppstream_dissector bm =
     register bm NDPI_PROTOCOL_PPSTREAM ''ndpi_search_ppstream''
       NDPI_SELECTION_BITMASK_PROTOCOL_V4_V6_TCP_OR_UDP_WITH_PAYLOAD True True"

definition init_iax_dissector :: "bitmask \<Rightarrow> registering \<Rightarrow> registering option" where
  "init_iax_dissector bm =
     register bm NDPI_PROTOCOL_IAX ''ndpi_search_iax''
       NDPI_SELECTION_BITMASK_PROTOCOL_V4_V6_UDP_WITH_PAYLOAD True True"

definition init_mgpc_dissector :: "bitmask \<Rightarrow> registering \<Rightarrow> registering option" where
  "init_mgpc_dissector bm =
     register bm NDPI_PROTOCOL_MGCP ''ndpi_search_mgcp''
       NDPI_SELECTION_BITMASK_PROTOCOL_V4_V6_UDP_WITH_PAYLOAD True True"

definition init_zattoo_dissector :: "bitmask \<Rightarrow> registering \<Rightarrow> registering option" where
  "init_zattoo_dissector bm =
     register bm NDPI_PROTOCOL_ZATTOO ''ndpi_search_zattoo''
       NDPI_SELECTION_BITMASK_PROTOCOL_V4_V6_TCP_OR_UDP_WITH_PAYLOAD True True"

definition init_qq_dissector :: "bitmask \<Rightarrow> registering \<Rightarrow> registering option" where
  "init_qq_dissector bm =
     register bm NDPI_PROTOCOL_QQ ''ndpi_search_qq''
       NDPI_SELECTION_BITMASK_PROTOCOL_V4_V6_UDP_WITH_PAYLOAD True True"

definition init_ssh_dissector :: "bitmask \<Rightarrow> registering \<Rightarrow> registering option" where
  "init_ssh_dissector bm =
     register bm NDPI_PROTOCOL_SSH ''ndpi_search_ssh_tcp''
       NDPI_SELECTION_BITMASK_PROTOCOL_V4_V6_TCP_WITH_PAYLOAD_WITHOUT_RETRANSMISSION True True"

definition init_ayiya_dissector :: "bitmask \<Rightarrow> registering \<Rightarrow> registering option" where
  "init_ayiya_dissector bm =
     register bm NDPI_PROTOCOL_AYIYA ''ndpi_search_ayiya''
       NDPI_SELECTION_BITMASK_PROTOCOL_V4_V6_UDP_WITH_PAYLOAD True True"

definition init_thunder_dissector :: "bitmask \<Rightarrow> registering \<Rightarrow> registering option" where
  "init_thunder_dissector bm =
     register bm NDPI_PROTOCOL_THUNDER ''ndpi_search_thunder''
       NDPI_SELECTION_BITMASK_PROTOCOL_V4_V6_TCP_OR_UDP_WITH_PAYLOAD_WITHOUT_RETRANSMISSION True True"

definition init_vnc_dissector :: "bitmask \<Rightarrow> registering \<Rightarrow> registering option" where
  "init_vnc_dissector bm =
     register bm NDPI_PROTOCOL_VNC ''ndpi_search_vnc_tcp''
       NDPI_SELECTION_BITMASK_PROTOCOL_V4_V6_TCP_WITH_PAYLOAD_WITHOUT_RETRANSMISSION True True"

definition init_teamviewer_dissector :: "bitmask \<Rightarrow> registering \<Rightarrow> registering option" where
  "init_teamviewer_dissector bm =
     register bm NDPI_PROTOCOL_TEAMVIEWER ''ndpi_search_teamview''
       NDPI_SELECTION_BITMASK_PROTOCOL_V4_V6_TCP_OR_UDP True True"

definition init_dhcp_dissector :: "bitmask \<Rightarrow> registering \<Rightarrow> registering option" where
  "init_dhcp_dissector bm =
     register bm NDPI_PROTOCOL_DHCP ''ndpi_search_dhcp_udp''
       NDPI_SELECTION_BITMASK_PROTOCOL_UDP_WITH_PAYLOAD True True"

definition init_steam_dissector :: "bitmask \<Rightarrow> registering \<Rightarrow> registering option" where
  "init_steam_dissector bm =
     register bm NDPI_PROTOCOL_STEAM ''ndpi_search_steam''
       NDPI_SELECTION_BITMASK_PROTOCOL_V4_V6_TCP_OR_UDP_WITHOUT_RETRANSMISSION True True"

definition init_halflife2_dissector :: "bitmask \<Rightarrow> registering \<Rightarrow> registering option" where
  "init_halflife2_dissector bm =
     register bm NDPI_PROTOCOL_HALFLIFE2 ''ndpi_search_halflife2''
       NDPI_SELECTION_BITMASK_PROTOCOL_V4_V6_UDP_WITH_PAYLOAD True True"

definition init_xbox_dissector :: "bitmask \<Rightarrow> registering \<Rightarrow> registering option" where
  "init_xbox_dissector bm =
     register bm NDPI_PROTOCOL_XBOX ''ndpi_search_xbox''
       NDPI_SELECTION_BITMASK_PROTOCOL_V4_V6_UDP_WITH_PAYLOAD True True"

definition init_smb_dissector :: "bitmask \<Rightarrow> registering \<Rightarrow> registering option" where
  "init_smb_dissector bm =
     register bm NDPI_PROTOCOL_SMBV23 ''ndpi_search_smb_tcp''
       NDPI_SELECTION_BITMASK_PROTOCOL_V4_V6_TCP_WITH_PAYLOAD_WITHOUT_RETRANSMISSION True True"

definition init_mining_dissector :: "bitmask \<Rightarrow> registering \<Rightarrow> registering option" where
  "init_mining_dissector bm = run_all [
     register bm NDPI_PROTOCOL_MINING ''ndpi_search_mining_tcp''
       NDPI_SELECTION_BITMASK_PROTOCOL_V4_V6_TCP_WITH_PAYLOAD_WITHOUT_RETRANSMISSION True True,
     register bm NDPI_PROTOCOL_MINING ''ndpi_search_mining_udp''
       NDPI_SELECTION_BITMASK_PROTOCOL_V4_V6_UDP_WITH_PAYLOAD True True]"

definition init_telnet_dissector :: "bitmask \<Rightarrow> registering \<Rightarrow> registering option" where
  "init_telnet_dissector bm =
     register bm NDPI_PROTOCOL_TELNET ''ndpi_search_telnet_tcp''
       NDPI_SELECTION_BITMASK_PROTOCOL_V4_V6_TCP_WITH_PAYLOAD_WITHOUT_RETRANSMISSION True True"

definition init_ntp_dissector :: "bitmask \<Rightarrow> registering \<Rightarrow> registering option" where
  "init_ntp_dissector bm =
     register bm NDPI_PROTOCOL_NTP ''ndpi_search_ntp_udp''
       NDPI_SELECTION_BITMASK_PROTOCOL_V4_V6_UDP_WITH_PAYLOAD True True"

definition init_nfs_dissector :: "bitmask \<Rightarrow> registering \<Rightarrow> registering option" where
  "init_nfs_dissector bm =
     register bm NDPI_PROTOCOL_NFS ''ndpi_search_nfs''
       NDPI_SELECTION_BITMASK_PROTOCOL_V4_V6_TCP_OR_UDP_WITH_PAYLOAD_WITHOUT_RETRANSMISSION True True"

definition init_ssdp_dissector :: "bitmask \<Rightarrow> registering \<Rightarrow> registering option" where
  "init_ssdp_dissector bm =
     register bm NDPI_PROTOCOL_SSDP ''ndpi_search_ssdp''
       NDPI_SELECTION_BITMASK_PROTOCOL_V4_V6_UDP_WITH_PAYLOAD True True"

definition init_world_of_warcraft_dissector :: "bitmask \<Rightarrow> registering \<Rightarrow> registering option" where
  "init_world_of_warcraft_dissector bm =
     register bm NDPI_PROTOCOL_WORLDOFWARCRAFT ''ndpi_search_worldofwarcraft''
       NDPI_SELECTION_BITMASK_PROTOCOL_V4_V6_TCP_WITH_PAYLOAD_WITHOUT_RETRANSMISSION True True"

definition init_postgres_dissector :: "bitmask \<Rightarrow> registering \<Rightarrow> registering option" where
  "init_postgres_dissector bm =
     register bm NDPI_PROTOCOL_POSTGRES ''ndpi_search_postgres_tcp''
       NDPI_SELECTION_BITMASK_PROTOCOL_V4_V6_TCP_WITH_PAYLOAD_WITHOUT_RETRANSMISSION True True"

definition init_mysql_dissector :: "bitmask \<Rightarrow> registering \<Rightarrow> registering option" where
  "init_mysql_dissector bm =
     register bm NDPI_PROTOCOL_MYSQL ''ndpi_search_mysql_tcp''
       NDPI_SELECTION_BITMASK_PROTOCOL_V4_V6_TCP_WITH_PAYLOAD_WITHOUT_RETRANSMISSION True True"

definition init_bgp_dissector :: "bitmask \<Rightarrow> registering \<Rightarrow> registering option" where
  "init_bgp_dissector bm =
     register bm NDPI_PROTOCOL_BGP ''ndpi_search_bgp''
       NDPI_SELECTION_BITMASK_PROTOCOL_V4_V6_TCP_WITH_PAYLOAD_WITHOUT_RETRANSMISSION True True"

definition init_snmp_dissector :: "bitmask \<Rightarrow> registering \<Rightarrow> registering option" where
  "init_snmp_dissector bm =
     register bm NDPI_PROTOCOL_SNMP ''ndpi_search_snmp''
       NDPI_SELECTION_BITMASK_PROTOCOL_V4_V6_UDP_WITH_PAYLOAD True True"

definition init_kontiki_dissector :: "bitmask \<Rightarrow> registering \<Rightarrow> registering option" where
  "init_kontiki_dissector bm =
     register bm NDPI_PROTOCOL_KONTIKI ''ndpi_search_kontiki''
       NDPI_SELECTION_BITMASK_PROTOCOL_V4_V6_UDP_WITH_PAYLOAD True True"

definition init_icecast_dissector :: "bitmask \<Rightarrow> registering \<Rightarrow> registering option" where
  "init_icecast_dissector bm =
     register bm NDPI_PROTOCOL_ICECAST ''ndpi_search_icecast_tcp''
       NDPI_SELECTION_BITMASK_PROTOCOL_V4_V6_TCP_WITH_PAYLOAD True True"

definition init_shoutcast_dissector :: "bitmask \<Rightarrow> registering \<Rightarrow> registering option" where
  "init_shoutcast_dissector bm =
     register bm NDPI_PROTOCOL_SHOUTCAST ''ndpi_search_shoutcast_tcp''
       NDPI_SELECTION_BITMASK_PROTOCOL_V4_V6_TCP_WITH_PAYLOAD_WITHOUT_RETRANSMISSION True True"

definition init_kerberos_dissector :: "bitmask \<Rightarrow> registering \<Rightarrow> registering option" where
  "init_kerberos_dissector bm =
     register bm NDPI_PROTOCOL_KERBEROS ''ndpi_search_kerberos''
       NDPI_SELECTION_BITMASK_PROTOCOL_V4_V6_TCP_OR_UDP_WITH_PAYLOAD_WITHOUT_RETRANSMISSION True True"

definition init_openft_dissector :: "bitmask \<Rightarrow> registering \<Rightarrow> registering option" where
  "init_openft_dissector bm =
     register bm NDPI_PROTOCOL_OPENFT ''ndpi_search_openft_tcp''
       NDPI_SELECTION_BITMASK_PROTOCOL_V4_V6_TCP_WITH_PAYLOAD_WITHOUT_RETRANSMISSION True True"

definition init_syslog_dissector :: "bitmask \<Rightarrow> registering \<Rightarrow> registering option" where
  "init_syslog_dissector bm =
     register bm NDPI_PROTOCOL_SYSLOG ''ndpi_search_syslog''
       NDPI_SELECTION_BITMASK_PROTOCOL_V4_V6_TCP_OR_UDP_WITH_PAYLOAD_WITHOUT_RETRANSMISSION True True"

definition init_directdownloadlink_dissector :: "bitmask \<Rightarrow> registering \<Rightarrow> registering option" where
  "init_directdownloadlink_dissector bm =
     register bm NDPI_PROTOCOL_DIRECT_DOWNLOAD_LINK ''ndpi_search_direct_download_link_tcp''
       NDPI_SELECTION_BITMASK_PROTOCOL_V4_V6_TCP_WITH_PAYLOAD True True"

definition init_netbios_dissector :: "bitmask \<Rightarrow> registering \<Rightarrow> registering option" where
  "init_netbios_dissector bm =
     register bm NDPI_PROTOCOL_NETBIOS ''ndpi_search_netbios''
       NDPI_SELECTION_BITMASK_PROTOCOL_V4_V6_TCP_OR_UDP_WITH_PAYLOAD_WITHOUT_RETRANSMISSION True True"

definition init_ipp_dissector :: "bitmask \<Rightarrow> registering \<Rightarrow> registering option" where
  "init_ipp_dissector bm =
     register bm NDPI_PROTOCOL_IPP ''ndpi_search_ipp''
       NDPI_SELECTION_BITMASK_PROTOCOL_V4_V6_TCP_OR_UDP_WITH_PAYLOAD_WITHOUT_RETRANSMISSION True True"

definition init_ldap_dissector :: "bitmask \<Rightarrow> registering \<Rightarrow> registering option" where
  "init_ldap_dissector bm =
     register bm NDPI_PROTOCOL_LDAP ''ndpi_search_ldap''
       NDPI_SELECTION_BITMASK_PROTOCOL_V4_V6_TCP_OR_UDP_WITH_PAYLOAD_WITHOUT_RETRANSMISSION True True"

definition init_warcraft3_dissector :: "bitmask \<Rightarrow> registering \<Rightarrow> registering option" where
  "init_warcraft3_dissector bm =
     register bm NDPI_PROTOCOL_WARCRAFT3 ''ndpi_search_warcraft3''
       NDPI_SELECTION_BITMASK_PROTOCOL_V4_V6_TCP_OR_UDP_WITH_PAYLOAD True True"

definition init_xdmcp_dissector :: "bitmask \<Rightarrow> registering \<Rightarrow> registering option" where
  "init_xdmcp_dissector bm =
     register bm NDPI_PROTOCOL_XDMCP ''ndpi_search_xdmcp''
       NDPI_SELECTION_BITMASK_PROTOCOL_V4_V6_TCP_OR_UDP_WITH_PAYLOAD True True"

definition init_tftp_dissector :: "bitmask \<Rightarrow> registering \<Rightarrow> registering option" where
  "init_tftp_dissector bm =
     register bm NDPI_PROTOCOL_TFTP ''ndpi_search_tftp''
       NDPI_SELECTION_BITMASK_PROTOCOL_V4_V6_UDP_WITH_PAYLOAD True True"

definition init_mssql_tds_dissector :: "bitmask \<Rightarrow> registering \<Rightarrow> registering option" where
  "init_mssql_tds_dissector bm =
     register bm NDPI_PROTOCOL_MSSQL_TDS ''ndpi_search_mssql_tds''
       NDPI_SELECTION_BITMASK_PROTOCOL_V4_V6_TCP_WITH_PAYLOAD_WITHOUT_RETRANSMISSION True True"

definition init_pptp_dissector :: "bitmask \<Rightarrow> registering \<Rightarrow> registering option" where
  "init_pptp_dissector bm =
     register bm NDPI_PROTOCOL_PPTP ''ndpi_search_pptp''
       NDPI_SELECTION_BITMASK_PROTOCOL_V4_V6_TCP_WITH_PAYLOAD_WITHOUT_RETRANSMISSION True True"

definition init_stealthnet_dissector :: "bitmask \<Rightarrow> registering \<Rightarrow> registering option" where
  "init_stealthnet_dissector bm =
     register bm NDPI_PROTOCOL_STEALTHNET ''ndpi_search_stealthnet''
       NDPI_SELECTION_BITMASK_PROTOCOL_V4_V6_TCP_WITH_PAYLOAD_WITHOUT_RETRANSMISSION True True"

definition init_dhcpv6_dissector :: "bitmask \<Rightarrow> registering \<Rightarrow> registering option" where
  "init_dhcpv6_dissector bm =
     register bm NDPI_PROTOCOL_DHCPV6 ''ndpi_search_dhcpv6_udp''
       NDPI_SELECTION_BITMASK_PROTOCOL_V6_UDP_WITH_PAYLOAD True True"

definition init_afp_dissector :: "bitmask \<Rightarrow> registering \<Rightarrow> registering option" where
  "init_afp_dissector bm =
     register bm NDPI_PROTOCOL_AFP ''ndpi_search_afp''
       NDPI_SELECTION_BITMASK_PROTOCOL_V4_V6_TCP_WITH_PAYLOAD_WITHOUT_RETRANSMISSION True True"

definition init_checkmk_dissector :: "bitmask \<Rightarrow> registering \<Rightarrow> registering option" where
  "init_checkmk_dissector bm =
     register bm NDPI_PROTOCOL_CHECKMK ''ndpi_search_checkmk''
       NDPI_SELECTION_BITMASK_PROTOCOL_V4_V6_TCP_WITH_PAYLOAD_WITHOUT_RETRANSMISSION True True"

definition init_cpha_dissector :: "bitmask \<Rightarrow> registering \<Rightarrow> registering option" where
  "init_cpha_dissector bm =
     register bm NDPI_PROTOCOL_CPHA ''ndpi_search_cpha''
       NDPI_SELECTION_BITMASK_PROTOCOL_UDP_WITH_PAYLOAD True True"

definition init_aimini_dissector :: "bitmask \<Rightarrow> registering \<Rightarrow> registering option" where
  "init_aimini_dissector bm =
     register bm NDPI_PROTOCOL_AIMINI ''ndpi_search_aimini''
       NDPI_SELECTION_BITMASK_PROTOCOL_V4_V6_TCP_OR_UDP_WITH_PAYLOAD True True"

definition init_florensia_dissector :: "bitmask \<Rightarrow> registering \<Rightarrow> registering option" where
  "init_florensia_dissector bm =
     register bm NDPI_PROTOCOL_FLORENSIA ''ndpi_search_florensia''
       NDPI_SELECTION_BITMASK_PROTOCOL_V4_V6_TCP_OR_UDP_WITH_PAYLOAD_WITHOUT_RETRANSMISSION True True"

definition init_maplestory_dissector :: "bitmask \<Rightarrow> registering \<Rightarrow> registering option" where
  "init_maplestory_dissector bm =
     register bm NDPI_PROTOCOL_MAPLESTORY ''ndpi_search_maplestory''
       NDPI_SELECTION_BITMASK_PROTOCOL_V4_V6_TCP_WITH_PAYLOAD_WITHOUT_RETRANSMISSION True True"

definition init_dofus_dissector :: "bitmask \<Rightarrow> registering \<Rightarrow> registering option" where
  "init_dofus_dissector bm =
     register bm NDPI_PROTOCOL_DOFUS ''ndpi_search_dofus''
       NDPI_SELECTION_BITMASK_PROTOCOL_V4_V6_TCP_WITH_PAYLOAD_WITHOUT_RETRANSMISSION True True"

definition init_world_of_kung_fu_dissector :: "bitmask \<Rightarrow> registering \<Rightarrow> registering option" where
  "init_world_of_kung_fu_dissector bm =
     register bm NDPI_PROTOCOL_WORLD_OF_KUNG_FU ''ndpi_search_world_of_kung_fu''
       NDPI_SELECTION_BITMASK_PROTOCOL_V4_V6_TCP_WITH_PAYLOAD_WITHOUT_RETRANSMISSION True True"

definition init_fiesta_dissector :: "bitmask \<Rightarrow> registering \<Rightarrow> registering option" where
  "init_fiesta_dissector bm =
     register bm NDPI_PROTOCOL_FIESTA ''ndpi_search_fiesta''
       NDPI_SELECTION_BITMASK_PROTOCOL_V4_V6_TCP_WITH_PAYLOAD_WITHOUT_RETRANSMISSION True True"

definition init_crossfire_dissector :: "bitmask \<Rightarrow> registering \<Rightarrow> registering option" where
  "init_crossfire_dissector bm =
     register bm NDPI_PROTOCOL_CROSSFIRE ''ndpi_search_crossfire_tcp_udp''
       NDPI_SELECTION_BITMASK_PROTOCOL_V4_V6_TCP_OR_UDP_WITH_PAYLOAD_WITHOUT_RETRANSMISSION True True"

definition init_guildwars_dissector :: "bitmask \<Rightarrow> registering \<Rightarrow> registering option" where
  "init_guildwars_dissector bm =
     register bm NDPI_PROTOCOL_GUILDWARS ''ndpi_search_guildwars_tcp''
       NDPI_SELECTION_BITMASK_PROTOCOL_V4_V6_TCP_WITH_PAYLOAD_WITHOUT_RETRANSMISSION True True"

definition init_armagetron_dissector :: "bitmask \<Rightarrow> registering \<Rightarrow> registering option" where
  "init_armagetron_dissector bm =
     register bm NDPI_PROTOCOL_ARMAGETRON ''ndpi_search_armagetron_udp''
       NDPI_SELECTION_BITMASK_PROTOCOL_V4_V6_UDP_WITH_PAYLOAD True True"

definition init_dropbox_dissector :: "bitmask \<Rightarrow> registering \<Rightarrow> registering option" where
  "init_dropbox_dissector bm =
     register bm NDPI_PROTOCOL_DROPBOX ''ndpi_search_dropbox''
       NDPI_SELECTION_BITMASK_PROTOCOL_V4_V6_UDP_WITH_PAYLOAD True True"

definition init_spotify_dissector :: "bitmask \<Rightarrow> registering \<Rightarrow> registering option" where
  "init_spotify_dissector bm =
     register bm NDPI_PROTOCOL_SPOTIFY ''ndpi_search_spotify''
       NDPI_SELECTION_BITMASK_PROTOCOL_V4_V6_TCP_OR_UDP_WITH_PAYLOAD_WITHOUT_RETRANSMISSION True True"

definition init_radius_dissector :: "bitmask \<Rightarrow> registering \<Rightarrow> registering option" where
  "init_radius_dissector bm =
     register bm NDPI_PROTOCOL_RADIUS ''ndpi_search_radius''
       NDPI_SELECTION_BITMASK_PROTOCOL_V4_V6_UDP_WITH_PAYLOAD True True"

definition init_citrix_dissector :: "bitmask \<Rightarrow> registering \<Rightarrow> registering option" where
  "init_citrix_dissector bm =
     register bm NDPI_PROTOCOL_CITRIX ''ndpi_search_citrix''
       NDPI_SELECTION_BITMASK_PROTOCOL_V4_V6_TCP_WITH_PAYLOAD_WITHOUT_RETRANSMISSION True True"

definition init_lotus_notes_dissector :: "bitmask \<Rightarrow> registering \<Rightarrow> registering option" where
  "init_lotus_notes_dissector bm =
     register bm NDPI_PROTOCOL_LOTUS_NOTES ''ndpi_search_lotus_notes''
       NDPI_SELECTION_BITMASK_PROTOCOL_V4_V6_TCP_WITH_PAYLOAD_WITHOUT_RETRANSMISSION True True"

definition init_gtp_dissector :: "bitmask \<Rightarrow> registering \<Rightarrow> registering option" where
  "init_gtp_dissector bm =
     register bm NDPI_PROTOCOL_GTP ''ndpi_search_gtp''
       NDPI_SELECTION_BITMASK_PROTOCOL_V4_V6_UDP_WITH_PAYLOAD True True"

definition init_dcerpc_dissector :: "bitmask \<Rightarrow> registering \<Rightarrow> registering option" where
  "init_dcerpc_dissector bm =
     register bm NDPI_PROTOCOL_DCERPC ''ndpi_search_dcerpc''
       NDPI_SELECTION_BITMASK_PROTOCOL_V4_V6_TCP_OR_UDP_WITH_PAYLOAD_WITHOUT_RETRANSMISSION True True"

definition init_netflow_dissector :: "bitmask \<Rightarrow> registering \<Rightarrow> registering option" where
  "init_netflow_dissector bm =
     register bm NDPI_PROTOCOL_NETFLOW ''ndpi_search_netflow''
       NDPI_SELECTION_BITMASK_PROTOCOL_V4_V6_UDP_WITH_PAYLOAD True True"

definition init_sflow_dissector :: "bitmask \<Rightarrow> registering \<Rightarrow> registering option" where
  "init_sflow_dissector bm =
     register bm NDPI_PROTOCOL_SFLOW ''ndpi_search_sflow''
       NDPI_SELECTION_BITMASK_PROTOCOL_V4_V6_UDP_WITH_PAYLOAD True True"

definition init_h323_dissector :: "bitmask \<Rightarrow> registering \<Rightarrow> registering option" where
  "init_h323_dissector bm =
     register bm NDPI_PROTOCOL_H323 ''ndpi_search_h323''
       NDPI_SELECTION_BITMASK_PROTOCOL_V4_V6_TCP_OR_UDP_WITH_PAYLOAD True True"

definition init_openvpn_dissector :: "bitmask \<Rightarrow> registering \<Rightarrow> registering option" where
  "init_openvpn_dissector bm =
     register bm NDPI_PROTOCOL_OPENVPN ''ndpi_search_openvpn''
       NDPI_SELECTION_BITMASK_PROTOCOL_V4_V6_TCP_OR_UDP_WITH_PAYLOAD True True"

definition init_noe_dissector :: "bitmask \<Rightarrow> registering \<Rightarrow> registering option" where
  "init_noe_dissector bm =
     register bm NDPI_PROTOCOL_NOE ''ndpi_search_noe''
       NDPI_SELECTION_BITMASK_PROTOCOL_V4_V6_UDP_WITH_PAYLOAD True True"

definition init_ciscovpn_dissector :: "bitmask \<Rightarrow> registering \<Rightarrow> registering option" where
  "init_ciscovpn_dissector bm =
     register bm NDPI_PROTOCOL_CISCOVPN ''ndpi_search_ciscovpn''
       NDPI_SELECTION_BITMASK_PROTOCOL_V4_V6_TCP_OR_UDP_WITH_PAYLOAD True True"

definition init_teamspeak_dissector :: "bitmask \<Rightarrow> registering \<Rightarrow> registering option" where
  "init_teamspeak_dissector bm =
     register bm NDPI_PROTOCOL_TEAMSPEAK ''ndpi_search_teamspeak''
       NDPI_SELECTION_BITMASK_PROTOCOL_V4_V6_TCP_OR_UDP_WITH_PAYLOAD True True"

definition init_skinny_dissector :: "bitmask \<Rightarrow> registering \<Rightarrow> registering option" where
  "init_skinny_dissector bm =
     register bm NDPI_PROTOCOL_SKINNY ''ndpi_search_skinny''
       NDPI_SELECTION_BITMASK_PROTOCOL_V4_V6_TCP_WITH_PAYLOAD_WITHOUT_RETRANSMISSION True True"

definition init_rtcp_dissector :: "bitmask \<Rightarrow> registering \<Rightarrow> registering option" where
  "init_rtcp_dissector bm =
     register bm NDPI_PROTOCOL_RTCP ''ndpi_search_rtcp''
       NDPI_SELECTION_BITMASK_PROTOCOL_V4_V6_TCP_OR_UDP_WITH_PAYLOAD True True"

definition init_rsync_dissector :: "bitmask \<Rightarrow> registering \<Rightarrow> registering option" where
  "init_rsync_dissector bm =
     register bm NDPI_PROTOCOL_RSYNC ''ndpi_search_rsync''
       NDPI_SELECTION_BITMASK_PROTOCOL_V4_V6_TCP_WITH_PAYLOAD_WITHOUT_RETRANSMISSION True True"

definition init_whois_das_dissector :: "bitmask \<Rightarrow> registering \<Rightarrow> registering option" where
  "init_whois_das_dissector bm =
     register bm NDPI_PROTOCOL_WHOIS_DAS ''ndpi_search_whois_das''
       NDPI_SELECTION_BITMASK_PROTOCOL_V4_V6_TCP_WITH_PAYLOAD_WITHOUT_RETRANSMISSION True True"

definition init_oracle_dissector :: "bitmask \<Rightarrow> registering \<Rightarrow> registering option" where
  "init_oracle_dissector bm =
     register bm NDPI_PROTOCOL_ORACLE ''ndpi_search_oracle''
       NDPI_SELECTION_BITMASK_PROTOCOL_V4_V6_TCP_WITH_PAYLOAD_WITHOUT_RETRANSMISSION True True"

definition init_corba_dissector :: "bitmask \<Rightarrow> registering \<Rightarrow> registering option" where
  "init_corba_dissector bm =
     register bm NDPI_PROTOCOL_CORBA ''ndpi_search_corba''
       NDPI_SELECTION_BITMASK_PROTOCOL_V4_V6_TCP_WITH_PAYLOAD_WITHOUT_RETRANSMISSION True True"

definition init_rtmp_dissector :: "bitmask \<Rightarrow> registering \<Rightarrow> registering option" where
  "init_rtmp_dissector bm =
     register bm NDPI_PROTOCOL_RTMP ''ndpi_search_rtmp''
       NDPI_SELECTION_BITMASK_PROTOCOL_V4_V6_TCP_WITH_PAYLOAD_WITHOUT_RETRANSMISSION True True"

definition init_ftp_control_dissector :: "bitmask \<Rightarrow> registering \<Rightarrow> registering option" where
  "init_ftp_control_dissector bm =
     register bm NDPI_PROTOCOL_FTP_CONTROL ''ndpi_search_ftp_control''
       NDPI_SELECTION_BITMASK_PROTOCOL_V4_V6_TCP_WITH_PAYLOAD_WITHOUT_RETRANSMISSION True True"

definition init_ftp_data_dissector :: "bitmask \<Rightarrow> registering \<Rightarrow> registering option" where
  "init_ftp_data_dissector bm =
     register bm NDPI_PROTOCOL_FTP_DATA ''ndpi_search_ftp_data''
       NDPI_SELECTION_BITMASK_PROTOCOL_V4_V6_TCP_WITH_PAYLOAD_WITHOUT_RETRANSMISSION True True"

definition init_megaco_dissector :: "bitmask \<Rightarrow> registering \<Rightarrow> registering option" where
  "init_megaco_dissector bm =
     register bm NDPI_PROTOCOL_MEGACO ''ndpi_search_megaco''
       NDPI_SELECTION_BITMASK_PROTOCOL_V4_V6_UDP_WITH_PAYLOAD True True"

definition init_redis_dissector :: "bitmask \<Rightarrow> registering \<Rightarrow> registering option" where
  "init_redis_dissector bm =
     register bm NDPI_PROTOCOL_REDIS ''ndpi_search_redis''
       NDPI_SELECTION_BITMASK_PROTOCOL_V4_V6_TCP_WITH_PAYLOAD_WITHOUT_RETRANSMISSION True True"

definition init_vhua_dissector :: "bitmask \<Rightarrow> registering \<Rightarrow> registering option" where
  "init_vhua_dissector bm =
     register bm NDPI_PROTOCOL_VHUA ''ndpi_search_vhua''
       NDPI_SELECTION_BITMASK_PROTOCOL_V4_V6_UDP_WITH_PAYLOAD True True"

definition init_zmq_dissector :: "bitmask \<Rightarrow> registering \<Rightarrow> registering option" where
  "init_zmq_dissector bm =
     register bm NDPI_PROTOCOL_ZMQ ''ndpi_search_zmq''
       NDPI_SELECTION_BITMASK_PROTOCOL_V4_V6_TCP_WITH_PAYLOAD_WITHOUT_RETRANSMISSION True True"

definition init_telegram_dissector :: "bitmask \<Rightarrow> registering \<Rightarrow> registering option" where
  "init_telegram_dissector bm =
     register bm NDPI_PROTOCOL_TELEGRAM ''ndpi_search_telegram''
       NDPI_SELECTION_BITMASK_PROTOCOL_V4_V6_TCP_OR_UDP True True"

definition init_quic_dissector :: "bitmask \<Rightarrow> registering \<Rightarrow> registering option" where
  "init_quic_dissector bm =
     register bm NDPI_PROTOCOL_QUIC ''ndpi_search_quic''
       NDPI_SELECTION_BITMASK_PROTOCOL_V4_V6_UDP_WITH_PAYLOAD True True"

definition init_diameter_dissector :: "bitmask \<Rightarrow> registering \<Rightarrow> registering option" where
  "init_diameter_dissector bm =
     register bm NDPI_PROTOCOL_DIAMETER ''ndpi_search_diameter''
       NDPI_SELECTION_BITMASK_PROTOCOL_V4_V6_TCP_WITH_PAYLOAD_WITHOUT_RETRANSMISSION True True"

definition init_apple_push_dissector :: "bitmask \<Rightarrow> registering \<Rightarrow> registering option" where
  "init_apple_push_dissector bm =
     register bm NDPI_PROTOCOL_APPLE_PUSH ''ndpi_search_apple_push''
       NDPI_SELECTION_BITMASK_PROTOCOL_V4_V6_TCP_WITH_PAYLOAD True True"

definition init_eaq_dissector :: "bitmask \<Rightarrow> registering \<Rightarrow> registering option" where
  "init_eaq_dissector bm =
     register bm NDPI_PROTOCOL_EAQ ''ndpi_search_eaq''
       NDPI_SELECTION_BITMASK_PROTOCOL_V4_V6_UDP_WITH_PAYLOAD True True"

definition init_kakaotalk_voice_dissector :: "bitmask \<Rightarrow> registering \<Rightarrow> registering option" where
  "init_kakaotalk_voice_dissector bm =
     register bm NDPI_PROTOCOL_KAKAOTALK_VOICE ''ndpi_search_kakaotalk_voice''
       NDPI_SELECTION_BITMASK_PROTOCOL_V4_V6_UDP_WITH_PAYLOAD True True"

definition init_mpegts_dissector :: "bitmask \<Rightarrow> registering \<Rightarrow> registering option" where
  "init_mpegts_dissector bm =
     register bm NDPI_PROTOCOL_MPEGTS ''ndpi_search_mpegts''
       NDPI_SELECTION_BITMASK_PROTOCOL_V4_V6_UDP_WITH_PAYLOAD True True"

definition init_ubntac2_dissector :: "bitmask \<Rightarrow> registering \<Rightarrow> registering option" where
  "init_ubntac2_dissector bm =
     register bm NDPI_PROTOCOL_UBNTAC2 ''ndpi_search_ubntac2''
       NDPI_SELECTION_BITMASK_PROTOCOL_V4_V6_UDP_WITH_PAYLOAD True True"

definition init_coap_dissector :: "bitmask \<Rightarrow> registering \<Rightarrow> registering option" where
  "init_coap_dissector bm =
     register bm NDPI_PROTOCOL_COAP ''ndpi_search_coap''
       NDPI_SELECTION_BITMASK_PROTOCOL_V4_V6_UDP_WITH_PAYLOAD True True"

definition init_mqtt_dissector :: "bitmask \<Rightarrow> registering \<Rightarrow> registering option" where
  "init_mqtt_dissector bm =
     register bm NDPI_PROTOCOL_MQTT ''ndpi_search_mqtt''
       NDPI_SELECTION_BITMASK_PROTOCOL_V4_V6_TCP_WITH_PAYLOAD True True"

definition init_someip_dissector :: "bitmask \<Rightarrow> registering \<Rightarrow> registering option" where
  "init_someip_dissector bm =
     register bm NDPI_PROTOCOL_SOMEIP ''ndpi_search_someip''
       NDPI_SELECTION_BITMASK_PROTOCOL_V4_V6_TCP_OR_UDP_WITH_PAYLOAD True True"

definition init_rx_dissector :: "bitmask \<Rightarrow> registering \<Rightarrow> registering option" where
  "init_rx_dissector bm =
     register bm NDPI_PROTOCOL_RX ''ndpi_search_rx''
       NDPI_SELECTION_BITMASK_PROTOCOL_V4_V6_UDP_WITH_PAYLOAD True True"

definition init_git_dissector :: "bitmask \<Rightarrow> registering \<Rightarrow> registering option" where
  "init_git_dissector bm =
     register bm NDPI_PROTOCOL_GIT ''ndpi_search_git''
       NDPI_SELECTION_BITMASK_PROTOCOL_V4_V6_TCP_WITH_PAYLOAD_WITHOUT_RETRANSMISSION True True"

definition init_hangout_dissector :: "bitmask \<Rightarrow> registering \<Rightarrow> registering option" where
  "init_hangout_dissector bm =
     register bm NDPI_PROTOCOL_HANGOUT_DUO ''ndpi_search_hangout''
       NDPI_SELECTION_BITMASK_PROTOCOL_TCP_OR_UDP True True"

definition init_drda_dissector :: "bitmask \<Rightarrow> registering \<Rightarrow> registering option" where
  "init_drda_dissector bm =
     register bm NDPI_PROTOCOL_DRDA ''ndpi_search_drda''
       NDPI_SELECTION_BITMASK_PROTOCOL_V4_V6_TCP_WITH_PAYLOAD_WITHOUT_RETRANSMISSION True True"

definition init_bjnp_dissector :: "bitmask \<Rightarrow> registering \<Rightarrow> registering option" where
  "init_bjnp_dissector bm =
     register bm NDPI_PROTOCOL_BJNP ''ndpi_search_bjnp''
       NDPI_SELECTION_BITMASK_PROTOCOL_V4_V6_UDP_WITH_PAYLOAD True True"

definition init_smpp_dissector :: "bitmask \<Rightarrow> registering \<Rightarrow> registering option" where
  "init_smpp_dissector bm =
     register bm NDPI_PROTOCOL_SMPP ''ndpi_search_smpp_tcp''
       NDPI_SELECTION_BITMASK_PROTOCOL_V4_V6_TCP_WITH_PAYLOAD_WITHOUT_RETRANSMISSION True True"

definition init_tinc_dissector :: "bitmask \<Rightarrow> registering \<Rightarrow> registering option" where
  "init_tinc_dissector bm =
     register bm NDPI_PROTOCOL_TINC ''ndpi_search_tinc''
       NDPI_SELECTION_BITMASK_PROTOCOL_TCP_OR_UDP_WITHOUT_RETRANSMISSION True True"

definition init_fix_dissector :: "bitmask \<Rightarrow> registering \<Rightarrow> registering option" where
  "init_fix_dissector bm =
     register bm NDPI_PROTOCOL_FIX ''ndpi_search_fix''
       NDPI_SELECTION_BITMASK_PROTOCOL_V4_V6_TCP_WITH_PAYLOAD True True"

definition init_nintendo_dissector :: "bitmask \<Rightarrow> registering \<Rightarrow> registering option" where
  "init_nintendo_dissector bm =
     register bm NDPI_PROTOCOL_NINTENDO ''ndpi_search_nintendo''
       NDPI_SELECTION_BITMASK_PROTOCOL_V4_V6_UDP_WITH_PAYLOAD True True"

definition init_modbus_dissector :: "bitmask \<Rightarrow> registering \<Rightarrow> registering option" where
  "init_modbus_dissector bm =
     register bm NDPI_PROTOCOL_MODBUS ''ndpi_search_modbus_tcp''
       NDPI_SELECTION_BITMASK_PROTOCOL_V4_V6_TCP_WITH_PAYLOAD_WITHOUT_RETRANSMISSION True True"

definition init_capwap_dissector :: "bitmask \<Rightarrow> registering \<Rightarrow> registering option" where
  "init_capwap_dissector bm =
     register bm NDPI_PROTOCOL_CAPWAP ''ndpi_search_capwap''
       NDPI_SELECTION_BITMASK_PROTOCOL_V4_V6_UDP_WITH_PAYLOAD True True"

definition init_zabbix_dissector :: "bitmask \<Rightarrow> registering \<Rightarrow> registering option" where
  "init_zabbix_dissector bm =
     register bm NDPI_PROTOCOL_ZABBIX ''ndpi_search_zabbix''
       NDPI_SELECTION_BITMASK_PROTOCOL_V4_V6_TCP_WITH_PAYLOAD_WITHOUT_RETRANSMISSION True True"

definition init_viber_dissector :: "bitmask \<Rightarrow> registering \<Rightarrow> registering option" where
  "init_viber_dissector bm =
     register bm NDPI_PROTOCOL_VIBER ''ndpi_search_viber''
       NDPI_SELECTION_BITMASK_PROTOCOL_V4_V6_UDP_WITH_PAYLOAD True True"

definition init_skype_dissector :: "bitmask \<Rightarrow> registering \<Rightarrow> registering option" where
  "init_skype_dissector bm =
     register bm NDPI_PROTOCOL_SKYPE_TEAMS ''ndpi_search_skype''
       NDPI_SELECTION_BITMASK_PROTOCOL_V4_V6_TCP_OR_UDP_WITH_PAYLOAD True True"

definition init_bittorrent_dissector :: "bitmask \<Rightarrow> registering \<Rightarrow> registering option" where
  "init_bittorrent_dissector bm =
     register bm NDPI_PROTOCOL_BITTORRENT ''ndpi_search_bittorrent''
       NDPI_SELECTION_BITMASK_PROTOCOL_V4_V6_TCP_OR_UDP_WITH_PAYLOAD_WITHOUT_RETRANSMISSION True True"

definition init_whatsapp_dissector :: "bitmask \<Rightarrow> registering \<Rightarrow> registering option" where
  "init_whatsapp_dissector bm =
     register bm NDPI_PROTOCOL_WHATSAPP ''ndpi_search_whatsapp''
       NDPI_SELECTION_BITMASK_PROTOCOL_V4_V6_TCP_WITH_PAYLOAD_WITHOUT_RETRANSMISSION True True"

definition init_ookla_dissector :: "bitmask \<Rightarrow> registering \<Rightarrow> registering option" where
  "init_ookla_dissector bm =
     register bm NDPI_PROTOCOL_OOKLA ''ndpi_search_ookla''
       NDPI_SELECTION_BITMASK_PROTOCOL_V4_V6_TCP_OR_UDP_WITH_PAYLOAD True True"

definition init_amqp_dissector :: "bitmask \<Rightarrow> registering \<Rightarrow> registering option" where
  "init_amqp_dissector bm =
     register bm NDPI_PROTOCOL_AMQP ''ndpi_search_amqp''
       NDPI_SELECTION_BITMASK_PROTOCOL_V4_V6_TCP_WITH_PAYLOAD True True"

definition init_csgo_dissector :: "bitmask \<Rightarrow> registering \<Rightarrow> registering option" where
  "init_csgo_dissector bm =
     register bm NDPI_PROTOCOL_CSGO ''ndpi_search_csgo''
       NDPI_SELECTION_BITMASK_PROTOCOL_V4_V6_UDP_WITH_PAYLOAD True True"

definition init_lisp_dissector :: "bitmask \<Rightarrow> registering \<Rightarrow> registering option" where
  "init_lisp_dissector bm =
     register bm NDPI_PROTOCOL_LISP ''ndpi_search_lisp''
       NDPI_SELECTION_BITMASK_PROTOCOL_V4_V6_UDP_WITH_PAYLOAD True True"

definition init_ajp_dissector :: "bitmask \<Rightarrow> registering \<Rightarrow> registering option" where
  "init_ajp_dissector bm =
     register bm NDPI_PROTOCOL_AJP ''ndpi_search_ajp''
       NDPI_SELECTION_BITMASK_PROTOCOL_V4_V6_TCP_WITH_PAYLOAD True True"

definition init_memcached_dissector :: "bitmask \<Rightarrow> registering \<Rightarrow> registering option" where
  "init_memcached_dissector bm =
     register bm NDPI_PROTOCOL_MEMCACHED ''ndpi_search_memcached''
       NDPI_SELECTION_BITMASK_PROTOCOL_V4_V6_TCP_OR_UDP_WITH_PAYLOAD True True"

definition init_nest_log_sink_dissector :: "bitmask \<Rightarrow> registering \<Rightarrow> registering option" where
  "init_nest_log_sink_dissector bm =
     register bm NDPI_PROTOCOL_NEST_LOG_SINK ''ndpi_search_nest_log_sink''
       NDPI_SELECTION_BITMASK_PROTOCOL_V4_V6_TCP_WITH_PAYLOAD True True"

definition init_wireguard_dissector :: "bitmask \<Rightarrow> registering \<Rightarrow> registering option" where
  "init_wireguard_dissector bm =
     register bm NDPI_PROTOCOL_WIREGUARD ''ndpi_search_wireguard''
       NDPI_SELECTION_BITMASK_PROTOCOL_V4_V6_UDP_WITH_PAYLOAD True True"

definition init_amazon_video_dissector :: "bitmask \<Rightarrow> registering \<Rightarrow> registering option" where
  "init_amazon_video_dissector bm =
     register bm NDPI_PROTOCOL_AMAZON_VIDEO ''ndpi_search_amazon_video''
       NDPI_SELECTION_BITMASK_PROTOCOL_V4_V6_TCP_OR_UDP_WITH_PAYLOAD True True"

definition init_targus_getdata_dissector :: "bitmask \<Rightarrow> registering \<Rightarrow> registering option" where
  "init_targus_getdata_dissector bm =
     register bm NDPI_PROTOCOL_TARGUS_GETDATA ''ndpi_search_targus_getdata''
       NDPI_SELECTION_BITMASK_PROTOCOL_V4_V6_TCP_OR_UDP True True"

definition init_s7comm_dissector :: "bitmask \<Rightarrow> registering \<Rightarrow> registering option" where
  "init_s7comm_dissector bm =
     register bm NDPI_PROTOCOL_S7COMM ''ndpi_search_s7comm_tcp''
       NDPI_SELECTION_BITMASK_PROTOCOL_V4_V6_TCP_WITH_PAYLOAD_WITHOUT_RETRANSMISSION True True"

definition init_104_dissector :: "bitmask \<Rightarrow> registering \<Rightarrow> registering option" where
  "init_104_dissector bm =
     register bm NDPI_PROTOCOL_IEC60870 ''ndpi_search_iec60870_tcp''
       NDPI_SELECTION_BITMASK_PROTOCOL_V4_V6_TCP_WITH_PAYLOAD_WITHOUT_RETRANSMISSION True True"

definition init_dnp3_dissector :: "bitmask \<Rightarrow> registering \<Rightarrow> registering option" where
  "init_dnp3_dissector bm =
     register bm NDPI_PROTOCOL_DNP3 ''ndpi_search_dnp3_tcp''
       NDPI_SELECTION_BITMASK_PROTOCOL_V4_V6_TCP_WITH_PAYLOAD_WITHOUT_RETRANSMISSION True True"

definition init_websocket_dissector :: "bitmask \<Rightarrow> registering \<Rightarrow> registering option" where
  "init_websocket_dissector bm =
     register bm NDPI_PROTOCOL_WEBSOCKET ''ndpi_search_websocket''
       NDPI_SELECTION_BITMASK_PROTOCOL_V4_V6_TCP_WITH_PAYLOAD True True"

definition init_soap_dissector :: "bitmask \<Rightarrow> registering \<Rightarrow> registering option" where
  "init_soap_dissector bm =
     register bm NDPI_PROTOCOL_SOAP ''ndpi_search_soap''
       NDPI_SELECTION_BITMASK_PROTOCOL_V4_V6_TCP_WITH_PAYLOAD True True"

definition init_dnscrypt_dissector :: "bitmask \<Rightarrow> registering \<Rightarrow> registering option" where
  "init_dnscrypt_dissector bm =
     register bm NDPI_PROTOCOL_DNSCRYPT ''ndpi_search_dnscrypt''
       NDPI_SELECTION_BITMASK_PROTOCOL_V4_V6_TCP_OR_UDP_WITH_PAYLOAD True True"

definition init_mongodb_dissector :: "bitmask \<Rightarrow> registering \<Rightarrow> registering option" where
  "init_mongodb_dissector bm =
     register bm NDPI_PROTOCOL_MONGODB ''ndpi_search_mongodb''
       NDPI_SELECTION_BITMASK_PROTOCOL_V4_V6_TCP_WITH_PAYLOAD True True"

definition init_among_us_dissector :: "bitmask \<Rightarrow> registering \<Rightarrow> registering option" where
  "init_among_us_dissector bm =
     register bm NDPI_PROTOCOL_AMONG_US ''ndpi_search_among_us''
       NDPI_SELECTION_BITMASK_PROTOCOL_V4_V6_UDP_WITH_PAYLOAD True True"

definition init_hpvirtgrp_dissector :: "bitmask \<Rightarrow> registering \<Rightarrow> registering option" where
  "init_hpvirtgrp_dissector bm =
     register bm NDPI_PROTOCOL_HPVIRTGRP ''ndpi_search_hpvirtgrp''
       NDPI_SELECTION_BITMASK_PROTOCOL_V4_V6_TCP_WITH_PAYLOAD_WITHOUT_RETRANSMISSION True True"

definition init_genshin_impact_dissector :: "bitmask \<Rightarrow> registering \<Rightarrow> registering option" where
  "init_genshin_impact_dissector bm =
     register bm NDPI_PROTOCOL_GENSHIN_IMPACT ''ndpi_search_genshin_impact''
       NDPI_SELECTION_BITMASK_PROTOCOL_V4_V6_UDP_WITH_PAYLOAD True True"

definition init_z3950_dissector :: "bitmask \<Rightarrow> registering \<Rightarrow> registering option" where
  "init_z3950_dissector bm =
     register bm NDPI_PROTOCOL_Z3950 ''ndpi_search_z3950''
       NDPI_SELECTION_BITMASK_PROTOCOL_V4_V6_TCP_WITH_PAYLOAD_WITHOUT_RETRANSMISSION True True"

definition init_avast_securedns_dissector :: "bitmask \<Rightarrow> registering \<Rightarrow> registering option" where
  "init_avast_securedns_dissector bm =
     register bm NDPI_PROTOCOL_AVAST_SECUREDNS ''ndpi_search_avast_securedns''
       NDPI_SELECTION_BITMASK_PROTOCOL_V4_V6_UDP_WITH_PAYLOAD True True"

definition init_cassandra_dissector :: "bitmask \<Rightarrow> registering \<Rightarrow> registering option" where
  "init_cassandra_dissector bm =
     register bm NDPI_PROTOCOL_CASSANDRA ''ndpi_search_cassandra''
       NDPI_SELECTION_BITMASK_PROTOCOL_V4_V6_TCP_WITH_PAYLOAD True True"

section \<open>The calls\<close>

text \<open>The registration functions in the order of the calls, in 4 parts.\<close>

definition dissectors_1 :: "(bitmask \<Rightarrow> registering \<Rightarrow> registering option) list" where
  "dissectors_1 = [
    init_http_dissector, init_starcraft_dissector, init_tls_dissector, init_rtp_dissector,
    init_rtsp_dissector, init_rdp_dissector, init_stun_dissector, init_sip_dissector,
    init_imo_dissector, init_teredo_dissector, init_edonkey_dissector, init_fasttrack_dissector,
    init_gnutella_dissector, init_directconnect_dissector, init_nats_dissector,
    init_applejuice_dissector, init_socks_dissector, init_irc_dissector, init_jabber_dissector,
    init_mail_pop_dissector, init_mail_imap_dissector, init_mail_smtp_dissector,
    init_usenet_dissector, init_dns_dissector, init_vmware_dissector, init_non_tcp_udp_dissector,
    init_sopcast_dissector, init_tvuplayer_dissector, init_ppstream_dissector, init_iax_dissector,
    init_mgpc_dissector, init_zattoo_dissector, init_qq_dissector, init_ssh_dissector,
    init_ayiya_dissector, init_thunder_dissector, init_vnc_dissector, init_teamviewer_dissector,
    init_dhcp_dissector, init_steam_dissector, init_halflife2_dissector, init_xbox_dissector,
    init_smb_dissector, init_mining_dissector, init_telnet_dissector, init_ntp_dissector,
    init_nfs_dissector]"

definition dissectors_2 :: "(bitmask \<Rightarrow> registering \<Rightarrow> registering option) list" where
  "dissectors_2 = [
    init_ssdp_dissector, init_world_of_warcraft_dissector, init_postgres_dissector,
    init_mysql_dissector, init_bgp_dissector, init_snmp_dissector, init_kontiki_dissector,
    init_icecast_dissector, init_shoutcast_dissector, init_kerberos_dissector,
    init_openft_dissector, init_syslog_dissector, init_directdownloadlink_dissector,
    init_netbios_dissector, init_ipp_dissector, init_ldap_dissector, init_warcraft3_dissector,
    init_xdmcp_dissector, init_tftp_dissector, init_mssql_tds_dissector, init_pptp_dissector,
    init_stealthnet_dissector, init_dhcpv6_dissector, init_afp_dissector, init_checkmk_dissector,
    init_cpha_dissector, init_aimini_dissector, init_florensia_dissector,
    init_maplestory_dissector, init_dofus_dissector, init_world_of_kung_fu_dissector,
    init_fiesta_dissector, init_crossfire_dissector, init_guildwars_dissector,
    init_armagetron_dissector, init_dropbox_dissector, init_spotify_dissector,
    init_radius_dissector, init_citrix_dissector, init_lotus_notes_dissector, init_gtp_dissector,
    init_dcerpc_dissector, init_netflow_dissector, init_sflow_dissector, init_h323_dissector,
    init_openvpn_dissector, init_noe_dissector]"

definition dissectors_3 :: "(bitmask \<Rightarrow> registering \<Rightarrow> registering option) list" where
  "dissectors_3 = [
    init_ciscovpn_dissector, init_teamspeak_dissector, init_skinny_dissector, init_rtcp_dissector,
    init_rsync_dissector, init_whois_das_dissector, init_oracle_dissector, init_corba_dissector,
    init_rtmp_dissector, init_ftp_control_dissector, init_ftp_data_dissector,
    init_megaco_dissector, init_redis_dissector, init_vhua_dissector, init_zmq_dissector,
    init_telegram_dissector, init_quic_dissector, init_diameter_dissector,
    init_apple_push_dissector, init_eaq_dissector, init_kakaotalk_voice_dissector,
    init_mpegts_dissector, init_ubntac2_dissector, init_coap_dissector, init_mqtt_dissector,
    init_someip_dissector, init_rx_dissector, init_git_dissector, init_hangout_dissector,
    init_drda_dissector, init_bjnp_dissector, init_smpp_dissector, init_tinc_dissector,
    init_fix_dissector, init_nintendo_dissector, init_modbus_dissector, init_capwap_dissector,
    init_zabbix_dissector, init_viber_dissector, init_skype_dissector, init_bittorrent_dissector,
    init_whatsapp_dissector, init_ookla_dissector, init_amqp_dissector, init_csgo_dissector,
    init_lisp_dissector, init_ajp_dissector]"

definition dissectors_4 :: "(bitmask \<Rightarrow> registering \<Rightarrow> registering option) list" where
  "dissectors_4 = [
    init_memcached_dissector, init_nest_log_sink_dissector, init_wireguard_dissector,
    init_amazon_video_dissector, init_targus_getdata_dissector, init_s7comm_dissector,
    init_104_dissector, init_dnp3_dissector, init_websocket_dissector, init_soap_dissector,
    init_dnscrypt_dissector, init_mongodb_dissector, init_among_us_dissector,
    init_hpvirtgrp_dissector, init_genshin_impact_dissector, init_z3950_dissector,
    init_avast_securedns_dissector, init_cassandra_dissector]"

definition all_dissectors :: "(bitmask \<Rightarrow> registering \<Rightarrow> registering option) list" where
  "all_dissectors = dissectors_1 @ dissectors_2 @ dissectors_3 @ dissectors_4"

definition ndpi_set_protocol_detection_bitmask2 :: "bitmask \<Rightarrow> ndpi_module \<Rightarrow> ndpi_module option" where
  "ndpi_set_protocol_detection_bitmask2 dbm m = do {
     (m, a) \<leftarrow> run_all (map (\<lambda>i. i dbm) all_dissectors) (m\<lparr>detection_bitmask := dbm, callback_buffer_size := 0\<rparr>, 0);
     fill_buffers (m\<lparr>callback_buffer_size := a\<rparr>)
   }"

section \<open>Every function keeps the invariant\<close>

lemmas init_defs =
  init_http_dissector_def init_starcraft_dissector_def init_tls_dissector_def
  init_rtp_dissector_def init_rtsp_dissector_def init_rdp_dissector_def init_stun_dissector_def
  init_sip_dissector_def init_imo_dissector_def init_teredo_dissector_def
  init_edonkey_dissector_def init_fasttrack_dissector_def init_gnutella_dissector_def
  init_directconnect_dissector_def init_nats_dissector_def init_applejuice_dissector_def
  init_socks_dissector_def init_irc_dissector_def init_jabber_dissector_def
  init_mail_pop_dissector_def init_mail_imap_dissector_def init_mail_smtp_dissector_def
  init_usenet_dissector_def init_dns_dissector_def init_vmware_dissector_def
  init_sopcast_dissector_def init_tvuplayer_dissector_def init_ppstream_dissector_def
  init_iax_dissector_def init_mgpc_dissector_def init_zattoo_dissector_def init_qq_dissector_def
  init_ssh_dissector_def init_ayiya_dissector_def init_thunder_dissector_def
  init_vnc_dissector_def init_teamviewer_dissector_def init_dhcp_dissector_def
  init_steam_dissector_def init_halflife2_dissector_def init_xbox_dissector_def
  init_smb_dissector_def init_mining_dissector_def init_telnet_dissector_def
  init_ntp_dissector_def init_nfs_dissector_def init_ssdp_dissector_def
  init_world_of_warcraft_dissector_def init_postgres_dissector_def init_mysql_dissector_def
  init_bgp_dissector_def init_snmp_dissector_def init_kontiki_dissector_def
  init_icecast_dissector_def init_shoutcast_dissector_def init_kerberos_dissector_def
  init_openft_dissector_def init_syslog_dissector_def init_directdownloadlink_dissector_def
  init_netbios_dissector_def init_ipp_dissector_def init_ldap_dissector_def
  init_warcraft3_dissector_def init_xdmcp_dissector_def init_tftp_dissector_def
  init_mssql_tds_dissector_def init_pptp_dissector_def init_stealthnet_dissector_def
  init_dhcpv6_dissector_def init_afp_dissector_def init_checkmk_dissector_def
  init_cpha_dissector_def init_aimini_dissector_def init_florensia_dissector_def
  init_maplestory_dissector_def init_dofus_dissector_def init_world_of_kung_fu_dissector_def
  init_fiesta_dissector_def init_crossfire_dissector_def init_guildwars_dissector_def
  init_armagetron_dissector_def init_dropbox_dissector_def init_spotify_dissector_def
  init_radius_dissector_def init_citrix_dissector_def init_lotus_notes_dissector_def
  init_gtp_dissector_def init_dcerpc_dissector_def init_netflow_dissector_def
  init_sflow_dissector_def init_h323_dissector_def init_openvpn_dissector_def
  init_noe_dissector_def init_ciscovpn_dissector_def init_teamspeak_dissector_def
  init_skinny_dissector_def init_rtcp_dissector_def init_rsync_dissector_def
  init_whois_das_dissector_def init_oracle_dissector_def init_corba_dissector_def
  init_rtmp_dissector_def init_ftp_control_dissector_def init_ftp_data_dissector_def
  init_megaco_dissector_def init_redis_dissector_def init_vhua_dissector_def
  init_zmq_dissector_def init_telegram_dissector_def init_quic_dissector_def
  init_diameter_dissector_def init_apple_push_dissector_def init_eaq_dissector_def
  init_kakaotalk_voice_dissector_def init_mpegts_dissector_def init_ubntac2_dissector_def
  init_coap_dissector_def init_mqtt_dissector_def init_someip_dissector_def init_rx_dissector_def
  init_git_dissector_def init_hangout_dissector_def init_drda_dissector_def
  init_bjnp_dissector_def init_smpp_dissector_def init_tinc_dissector_def init_fix_dissector_def
  init_nintendo_dissector_def init_modbus_dissector_def init_capwap_dissector_def
  init_zabbix_dissector_def init_viber_dissector_def init_skype_dissector_def
  init_bittorrent_dissector_def init_whatsapp_dissector_def init_ookla_dissector_def
  init_amqp_dissector_def init_csgo_dissector_def init_lisp_dissector_def init_ajp_dissector_def
  init_memcached_dissector_def init_nest_log_sink_dissector_def init_wireguard_dissector_def
  init_amazon_video_dissector_def init_targus_getdata_dissector_def init_s7comm_dissector_def
  init_104_dissector_def init_dnp3_dissector_def init_websocket_dissector_def
  init_soap_dissector_def init_dnscrypt_dissector_def init_mongodb_dissector_def
  init_among_us_dissector_def init_hpvirtgrp_dissector_def init_genshin_impact_dissector_def
  init_z3950_dissector_def init_avast_securedns_dissector_def init_cassandra_dissector_def

lemma keeps_eq: "keeps bm k i \<Longrightarrow> k = n \<Longrightarrow> keeps bm n i"
  by simp

lemma run_all_Cons: "run_all (i # is) = (\<lambda>s. Option.bind (i s) (run_all is))"
  by (simp add: fun_eq_iff)

lemma run_all_saved:
  "run_all (save_unknown # j # is) = run_all ((\<lambda>s. Option.bind (save_unknown s) j) # is)"
  by (simp only: run_all_Cons bind_assoc)

text \<open>
  The function for traffic other than TCP and UDP sets the detection mask of its first place before
  it registers IPsec there: the invariant needs IPsec to be enabled.
\<close>

lemma keeps_non_tcp_udp:
  assumes "unat NDPI_PROTOCOL_IP_IPSEC \<in> protocols bm"
  shows "keeps bm 9 (init_non_tcp_udp_dissector bm)"
proof -
  have "protocol_bit NDPI_PROTOCOL_IP_IPSEC = unat NDPI_PROTOCOL_IP_IPSEC"
    by (rule protocol_bit_id) (simp add: NDPI_NUM_BITS_def)
  then have "protocol_bit NDPI_PROTOCOL_IP_IPSEC \<in> protocols bm" using assms by simp
  then show ?thesis unfolding init_non_tcp_udp_dissector_def run_all_saved
    by (rule_tac keeps_eq) (rule keeps_Cons keeps_saved keeps_register keeps_Nil | simp add: NDPI_NUM_BITS_def)+
qed

lemma keeps_dissectors_1:
  assumes "unat NDPI_PROTOCOL_IP_IPSEC \<in> protocols bm"
  shows "keeps bm 57 (run_all (map (\<lambda>i. i bm) dissectors_1))"
  unfolding dissectors_1_def list.map init_defs
  by (rule keeps_eq)
    (rule keeps_Cons keeps_register keeps_Nil keeps_non_tcp_udp [OF assms] | simp add: NDPI_NUM_BITS_def)+

lemma keeps_dissectors_2: "keeps bm 47 (run_all (map (\<lambda>i. i bm) dissectors_2))"
  unfolding dissectors_2_def list.map init_defs
  by (rule keeps_eq) (rule keeps_Cons keeps_register keeps_Nil | simp add: NDPI_NUM_BITS_def)+

lemma keeps_dissectors_3: "keeps bm 47 (run_all (map (\<lambda>i. i bm) dissectors_3))"
  unfolding dissectors_3_def list.map init_defs
  by (rule keeps_eq) (rule keeps_Cons keeps_register keeps_Nil | simp add: NDPI_NUM_BITS_def)+

lemma keeps_dissectors_4: "keeps bm 18 (run_all (map (\<lambda>i. i bm) dissectors_4))"
  unfolding dissectors_4_def list.map init_defs
  by (rule keeps_eq) (rule keeps_Cons keeps_register keeps_Nil | simp add: NDPI_NUM_BITS_def)+

lemma keeps_append: "keeps bm k (run_all xs) \<Longrightarrow> keeps bm l (run_all ys) \<Longrightarrow> keeps bm (k + l) (run_all (xs @ ys))"
proof -
  assume "keeps bm k (run_all xs)" "keeps bm l (run_all ys)"
  moreover have "run_all (xs @ ys) = (\<lambda>s. Option.bind (run_all xs s) (run_all ys))"
  proof (induction xs)
    case (Cons x xs)
    show ?case by (simp only: append_Cons run_all_Cons Cons bind_assoc)
  qed simp
  ultimately show ?thesis using keeps_bind by metis
qed

lemma keeps_all:
  assumes "unat NDPI_PROTOCOL_IP_IPSEC \<in> protocols bm"
  shows "keeps bm 169 (run_all (map (\<lambda>i. i bm) all_dissectors))"
  unfolding all_dissectors_def map_append
  by (rule keeps_eq) (rule keeps_dissectors_1 [OF assms] keeps_dissectors_2 keeps_dissectors_3 keeps_dissectors_4 keeps_append | simp)+

section \<open>Property\<close>

text \<open>A module without registered dissectors.\<close>

lemma callback_ok_zero: "callback_ok NDPI_ZERO e \<Longrightarrow> callback_ok bm e"
  using zero_protocols by (cases "cf_func e") (simp_all add: callback_ok_def)

lemma unregistered_ok: "registered_ok NDPI_ZERO m \<Longrightarrow> mask_ok bm \<Longrightarrow> registered_ok bm m"
  by (auto simp: registered_ok_def intro: callback_ok_zero)

lemma registration_ok:
  assumes "mask_ok bm" "unat NDPI_PROTOCOL_IP_IPSEC \<in> protocols bm" "registered_ok NDPI_ZERO m"
  shows "\<exists>m'. ndpi_set_protocol_detection_bitmask2 bm m = Some m' \<and> registered_ok bm m'
    \<and> callback_buffer_size m' = 169 \<and> (\<forall>b. buffer_filled b m') \<and> labels_of m' = labels_of m"
proof -
  let ?m = "m\<lparr>detection_bitmask := bm, callback_buffer_size := 0\<rparr>"
  have "registered_ok bm ?m" using unregistered_ok [OF assms(3,1)] by (simp add: registered_ok_def)
  then obtain m1 where m1: "run_all (map (\<lambda>i. i bm) all_dissectors) (?m, 0) = Some (m1, 169)" "registered_ok bm m1" "labels_of m1 = labels_of ?m"
    using keepsD [OF keeps_all [OF assms(2)], of ?m 0] by (auto simp: size_defs)
  let ?m1 = "m1\<lparr>callback_buffer_size := 169\<rparr>"
  have "registered_ok bm ?m1" "callback_buffer_size ?m1 \<le> NDPI_MAX_SUPPORTED_PROTOCOLS + 1"
    using m1(2) by (simp_all add: registered_ok_def size_defs)
  from fill_buffers_fills [OF this] obtain m' where "fill_buffers ?m1 = Some m'" "registered_ok bm m'"
    "\<forall>b. buffer_filled b m'" "callback_buffer_size m' = 169" "labels_of m' = labels_of ?m1" by auto
  then show ?thesis using m1(1,3) by (simp add: ndpi_set_protocol_detection_bitmask2_def labels_of_def)
qed

text \<open>
  C10. Registering the dissectors. For every set of enabled protocols that contains IPsec,
  registration on a module without dissectors stays inside the callback buffer and the array of
  protocol defaults and takes 169 places. An entry with a function belongs to an enabled protocol
  and excludes exactly that protocol, an entry without a function is never selected, and each of
  the four buffers holds exactly the entries its condition selects, in their order.
\<close>

theorem dissectors_registered:
  assumes "mask_ok bm" "unat NDPI_PROTOCOL_IP_IPSEC \<in> protocols bm" "registered_ok NDPI_ZERO m"
  shows "\<exists>m'. ndpi_set_protocol_detection_bitmask2 bm m = Some m' \<and> registered_ok bm m'
    \<and> callback_buffer_size m' = 169 \<and> (\<forall>b. buffer_filled b m')"
  using registration_ok [OF assms] by blast

text \<open>The memory of a module that was just allocated and cleared.\<close>

definition zero_default :: proto_default where
  "zero_default = \<lparr>protoName = None, protoCategory = 0, isClearTextProto = False, subprotocols = [],
     subprotocol_count = 0, protoId = 0, protoIdx = 0, tcp_default_ports = replicate 5 0,
     udp_default_ports = replicate 5 0, protoBreed = 0, pd_func = None\<rparr>"

definition zero_packet :: ndpi_packet where
  "zero_packet = \<lparr>iph = None, iphv6 = None, tcp = None, udp = None, generic_l4_ptr = None, payload = None,
       current_time_ms = 0, line = replicate 64 (None, 0),
       named_lines = (\<lambda>_. (None, 0)), http_num_headers = 0, l3_packet_len = 0, payload_packet_len = 0,
       parsed_lines = 0, empty_line_position = 0, tcp_retransmission = 0,
       packet_lines_parsed_complete = False, pkt_direction = 0, empty_line_position_set = False,
       http_check_content = False\<rparr>"

definition zero_module :: ndpi_module where
  "zero_module = \<lparr>detection_bitmask = NDPI_ZERO, custom_category_labels = replicate 5 (replicate 32 0),
     callback_buffer = replicate (NDPI_MAX_SUPPORTED_PROTOCOLS + 1) zero_call, callback_buffer_size = 0,
     callback_buffers = (\<lambda>_. replicate (NDPI_MAX_SUPPORTED_PROTOCOLS + 1) zero_call),
     callback_buffer_sizes = (\<lambda>_. 0), tcpRoot = Leaf, udpRoot = Leaf,
     tcp_max_retransmission_window_size = 0, ndpi_num_supported_protocols = 0,
     ndpi_num_custom_protocols = 0, host_automa = None, risky_domain_automa = None,
     host_risk_mask_automa = None, hostnames_automa = None, ip_risk_mask_ptree = Map.empty,
     ipAddresses_ptree = Map.empty, protocols_ptree = Map.empty, categories_loaded = False,
     ip_version_limit = 0, bittorrent_cache = None, zoom_cache = None, mining_cache = None,
     msteams_cache = None,
     proto_defaults = replicate (NDPI_MAX_SUPPORTED_PROTOCOLS + NDPI_MAX_NUM_CUSTOM_PROTOCOLS) zero_default,
     direction_detect_disable = False,
     packet = zero_packet, ac_automa_finalized = False,
     dissector_memory = (\<lambda>_. 0)\<rparr>"

lemma zero_module_ok: "registered_ok NDPI_ZERO zero_module"
  by (simp add: registered_ok_def default_ok_def zero_module_def zero_callback_ok zero_protocols zero_default_def)

theorem dissectors_registered_witness:
  "\<exists>m'. ndpi_set_protocol_detection_bitmask2 NDPI_ONE zero_module = Some m' \<and> registered_ok NDPI_ONE m'
    \<and> callback_buffer_size m' = 169 \<and> (\<forall>b. buffer_filled b m')"
  using one_protocols zero_module_ok by (intro dissectors_registered) (simp_all add: NDPI_NUM_BITS_def)

end
