(* ===== verification/Engine_Results.thy ===== *)
theory Engine_Results
  imports Detection_Engine Dissectors
begin

text \<open>
  What the detection engine makes of a flow: the form of the stack of protocols, and that a flow
  keeps its protocols once they are detected.
\<close>

section \<open>The stack of protocols\<close>

definition stack_ok :: "ndpi_flow \<Rightarrow> bool" where
  "stack_ok f \<longleftrightarrow> (app_of f = 0 \<longrightarrow> master_of f = 0) \<and> (app_of f \<noteq> 0 \<longrightarrow> master_of f \<noteq> app_of f)"

section \<open>Operations that leave the stack alone\<close>

text \<open>A flow without what the risk functions write.\<close>

definition no_risk :: "ndpi_flow \<Rightarrow> ndpi_flow" where
  "no_risk f = f\<lparr>risk := 0, risk_mask := 0, host_risk_mask_evaluated := False, ip_risk_mask_evaluated := False\<rparr>"

lemma host_exception_rest: "host_risk_exception m f = Some f' \<Longrightarrow> no_risk f' = no_risk f"
  by (auto simp: host_risk_exception_def no_risk_def Let_def bind_eq_Some_conv split: if_splits)

lemma ip_exception_rest: "no_risk (ip_risk_exception m f) = no_risk f"
  by (auto simp: ip_risk_exception_def no_risk_def Let_def)

lemma no_risk_fields:
  assumes "no_risk f' = no_risk f"
  shows "detected_protocol_stack f' = detected_protocol_stack f" "guessed_protocol_id f' = guessed_protocol_id f"
    "guessed_host_protocol_id f' = guessed_host_protocol_id f" "excluded_protocol_bitmask f' = excluded_protocol_bitmask f"
    "host_server_name f' = host_server_name f" "l4_proto f' = l4_proto f" "category f' = category f"
  using arg_cong [OF assms, of detected_protocol_stack] arg_cong [OF assms, of guessed_protocol_id]
    arg_cong [OF assms, of guessed_host_protocol_id] arg_cong [OF assms, of excluded_protocol_bitmask]
    arg_cong [OF assms, of host_server_name] arg_cong [OF assms, of l4_proto] arg_cong [OF assms, of category]
  by (simp_all add: no_risk_def)

lemma no_risk_update [simp]:
  "no_risk (f\<lparr>risk := a\<rparr>) = no_risk f" "no_risk (f\<lparr>risk_mask := k\<rparr>) = no_risk f"
  by (simp_all add: no_risk_def)

lemma risk_rest:
  assumes "ndpi_set_risk m r f = Some f'"
  shows "no_risk f' = no_risk f"
proof -
  let ?f = "f\<lparr>risk := risk f OR push_bit r 1\<rparr>"
  define g where "g = (if \<not> host_risk_mask_evaluated ?f \<and> \<not> ip_risk_mask_evaluated ?f then ?f\<lparr>risk_mask := NOT 0\<rparr> else ?f)"
  have g: "no_risk g = no_risk f" by (simp add: g_def)
  consider "f' = ?f" | g1 where "host_risk_exception m g = Some g1"
      "f' = (ip_risk_exception m g1)\<lparr>risk := risk (ip_risk_exception m g1) AND risk_mask (ip_risk_exception m g1)\<rparr>"
    using assms unfolding ndpi_set_risk_def ndpi_handle_risk_exceptions_def Let_def g_def
    by (auto simp: bind_eq_Some_conv split: if_split_asm)
  then show ?thesis using g by cases (auto simp: ip_exception_rest dest: host_exception_rest)
qed

lemmas risk_keeps = risk_rest [THEN no_risk_fields(1)] risk_rest [THEN no_risk_fields(2)]

lemma category_result:
  assumes "ndpi_fill_protocol_category m ret f = Some (ret', f')"
  shows "(ret' = ret \<and> f' = f) \<or> (\<exists>c. ret' = ret\<lparr>proto_category := c\<rparr> \<and> f' = f\<lparr>category := c\<rparr>)"
proof (cases "master_protocol ret = 0 \<and> app_protocol ret = 0")
  case True
  then show ?thesis using assms by (simp add: ndpi_fill_protocol_category_def)
next
  case False
  show ?thesis
  proof (cases "categories_loaded m \<and> guessed_header_category f \<noteq> 0")
    case True
    then show ?thesis using False assms by (auto simp: ndpi_fill_protocol_category_def)
  next
    case F: False
    show ?thesis using assms unfolding ndpi_fill_protocol_category_def if_not_P [OF False] if_not_P [OF F]
      by (auto elim!: bind_eq_Some_conv [THEN iffD1, elim_format])
  qed
qed

lemma category_keeps_stack:
  assumes "ndpi_fill_protocol_category m ret f = Some (ret', f')"
  shows "detected_protocol_stack f' = detected_protocol_stack f" "master_protocol ret' = master_protocol ret"
    "app_protocol ret' = app_protocol ret"
  using category_result [OF assms] by auto

lemma teams_keep_packet:
  "remember_teams env f m = Some m' \<Longrightarrow> packet m' = packet m"
  "recognise_teams f ret m = Some (ret', m') \<Longrightarrow> packet m' = packet m"
  by (auto simp: remember_teams_def recognise_teams_def bind_eq_Some_conv split: if_splits option.splits)

lemma reconcile_app_keeps:
  "reconcile_app env m f ret = Some (ret', m', f') \<Longrightarrow> no_risk f' = no_risk f \<and> packet m' = packet m"
  unfolding reconcile_app_def by (auto dest: teams_keep_packet risk_rest split: if_split_asm)

lemma reconcile_keeps:
  assumes "ndpi_reconcile_protocols env m f ret = Some (ret', m', f')"
  shows "no_risk f' = no_risk f \<and> packet m' = packet m"
proof -
  obtain ret1 f1 b where r: "reconcile_app env m f ret = Some (ret1, m', f1)"
    "(if b then ndpi_set_risk m' NDPI_UNSAFE_PROTOCOL f1 else Some f1) = Some f'"
    using assms unfolding ndpi_reconcile_protocols_def bind_eq_Some_conv
    by (auto simp: bind_eq_Some_conv split: prod.splits)
  then show ?thesis using reconcile_app_keeps [OF r(1)] by (auto dest: risk_rest split: if_splits)
qed

lemma listed_keep_stack:
  "check_listed m is_udp ret ports sp dp f = Some f' \<Longrightarrow> detected_protocol_stack f' = detected_protocol_stack f"
  by (auto simp: check_listed_def bind_eq_Some_conv dest!: risk_keeps(1) split: if_splits)

lemma ports_keep_stack:
  assumes "check_ports mem m ret f = Some f'"
  shows "detected_protocol_stack f' = detected_protocol_stack f"
  using assms
  by (auto simp: check_ports_def Let_def bind_eq_Some_conv dest!: risk_keeps(1) listed_keep_stack split: if_splits option.splits)

lemma transport_keeps_flow:
  "set_transport mem i n proto p f = Some (rc, p', f') \<Longrightarrow> app_of f \<noteq> 0 \<Longrightarrow> f' = f"
  by (auto simp: set_transport_def Let_def bind_eq_Some_conv split: if_splits)

lemma init_keeps_stack:
  assumes "init_packet_of mem len time m f = Some (rc, m', f')" "app_of f \<noteq> 0"
  shows "detected_protocol_stack f' = detected_protocol_stack f"
  using assms
  by (auto simp: init_packet_of_def ndpi_init_packet_def Let_def bind_eq_Some_conv dest!: transport_keeps_flow
      split: if_splits option.splits)

lemma take_result_app: "app_protocol (take_result ret f) = app_of f"
  by (simp add: take_result_def)

lemma settle_category_keeps:
  "settle_category m ret f = Some (ret', f') \<Longrightarrow> detected_protocol_stack f' = detected_protocol_stack f
     \<and> app_protocol ret' = app_protocol ret \<and> master_protocol ret' = master_protocol ret"
  by (auto simp: settle_category_def dest: category_keeps_stack split: if_splits)

lemma settle_risk_keeps:
  "settle_risk mem m ret f = Some f' \<Longrightarrow> detected_protocol_stack f' = detected_protocol_stack f"
  by (auto simp: settle_risk_def dest: ports_keep_stack split: if_splits)

lemma ret_protocols_keeps:
  assumes "ret_protocols env mem n ret m f = Some (ret', m', f')" "app_of f \<noteq> 0"
  shows "detected_protocol_stack f' = detected_protocol_stack f"
proof -
  obtain r1 f1 where c: "settle_category m (take_result ret f) f = Some (r1, f1)"
    using assms(1) unfolding ret_protocols_def by (auto simp: bind_eq_Some_conv)
  then have k1: "detected_protocol_stack f1 = detected_protocol_stack f" "gives_up_early mem m r1 f1 = Some False"
    using settle_category_keeps [OF c] assms(2) by (auto simp: take_result_app gives_up_early_def)
  obtain f2 r3 m3 f3 where s: "settle_risk mem m r1 f1 = Some f2" "ndpi_reconcile_protocols env m f2 r1 = Some (r3, m3, f3)"
      "detected_protocol_stack f' = detected_protocol_stack f3"
    using assms(1) c k1(2) unfolding ret_protocols_def by (auto simp: bind_eq_Some_conv)
  then show ?thesis using k1(1) settle_risk_keeps [OF s(1)] reconcile_keeps [OF s(2)] no_risk_fields(1) [of f3 f2] by simp
qed

text \<open>Nothing of this calls a dissector.\<close>

lemma teams_no_call: "remember_teams (env\<lparr>call_func := c\<rparr>) f m = remember_teams env f m"
  by (simp add: remember_teams_def cong: option.case_cong)

lemma reconcile_no_call: "ndpi_reconcile_protocols (env\<lparr>call_func := c\<rparr>) m f ret = ndpi_reconcile_protocols env m f ret"
  by (simp add: ndpi_reconcile_protocols_def reconcile_app_def teams_no_call)

lemma giveup_no_call: "ndpi_detection_giveup (env\<lparr>call_func := c\<rparr>) g m f = ndpi_detection_giveup env g m f"
  by (simp only: ndpi_detection_giveup_def reconcile_no_call)

lemma ret_protocols_no_call: "ret_protocols (env\<lparr>call_func := c\<rparr>) mem n ret m f = ret_protocols env mem n ret m f"
  unfolding ret_protocols_def reconcile_no_call giveup_no_call by simp

text \<open>A packet of a detected flow.\<close>

lemma process_detected:
  assumes "app_of f \<noteq> 0" "\<not> check_extra_packets f"
  shows "ndpi_detection_process_packet env mem len time m f =
    (let f1 = f\<lparr>num_processed_pkts := c_u16 (num_processed_pkts f + 1)\<rparr>; ret = result_of_flow (category f) f in
     if fail_with_unknown f then Some (ret, m, f)
     else if NDPI_MAX_NUM_PKTS_PER_FLOW_TO_DISSECT < c_u16 (num_processed_pkts f + 1) then Some (ret, m, f1)
     else do {
       (rc, m, f) \<leftarrow> init_packet_of mem len time m f1;
       if rc \<noteq> 0 then Some (ret, m, f) else ret_protocols env mem 0 ret m f
     })"
  using assms by (simp add: ndpi_detection_process_packet_def Let_def cong: if_cong)

section \<open>Properties\<close>

lemma set_detected_total:
  assumes "unat upper < length (proto_defaults m)" "unat lower < length (proto_defaults m)"
  shows "\<exists>f'. ndpi_set_detected_protocol m upper lower c f = Some f' \<and> stack_ok f'
    \<and> (\<forall>p \<in> {upper, lower} - {NDPI_PROTOCOL_UNKNOWN}. flow_is_proto f' p)
    \<and> (app_of f' = NDPI_PROTOCOL_UNKNOWN \<longleftrightarrow> upper = NDPI_PROTOCOL_UNKNOWN \<and> lower = NDPI_PROTOCOL_UNKNOWN)
    \<and> f' = f\<lparr>detected_protocol_stack := detected_protocol_stack f', confidence := c\<rparr>"
  using assms
  by (auto simp: ndpi_set_detected_protocol_def ndpi_int_change_protocol_def ndpi_int_change_flow_protocol_def
      stack_ok_def flow_is_proto_def defaults_of_def at_def Let_def)

text \<open>
  C25. What a dissector reports is stored in a normal form. For identifiers inside the array of
  protocol defaults, setting the detected protocols succeeds; afterwards the stack holds every
  protocol that was reported, an application protocol whenever one of the two was known, and never
  the same protocol twice or a master protocol alone, and nothing but the stack and the confidence
  changed.
\<close>

theorem detected_protocols_normalised:
  assumes "unat upper < length (proto_defaults m)" "unat lower < length (proto_defaults m)"
  shows "\<exists>f'. ndpi_set_detected_protocol m upper lower c f = Some f' \<and> stack_ok f'
    \<and> (\<forall>p \<in> {upper, lower} - {NDPI_PROTOCOL_UNKNOWN}. flow_is_proto f' p)
    \<and> (app_of f' = NDPI_PROTOCOL_UNKNOWN \<longleftrightarrow> upper = NDPI_PROTOCOL_UNKNOWN \<and> lower = NDPI_PROTOCOL_UNKNOWN)
    \<and> f' = f\<lparr>detected_protocol_stack := detected_protocol_stack f', confidence := c\<rparr>"
  by (rule set_detected_total [OF assms])

theorem detected_protocols_normalised_witness:
  "\<exists>f'. ndpi_set_detected_protocol zero_module NDPI_PROTOCOL_HTTP NDPI_PROTOCOL_TLS 4 zero_flow = Some f' \<and> stack_ok f'
    \<and> (\<forall>p \<in> {NDPI_PROTOCOL_HTTP, NDPI_PROTOCOL_TLS} - {NDPI_PROTOCOL_UNKNOWN}. flow_is_proto f' p)
    \<and> (app_of f' = NDPI_PROTOCOL_UNKNOWN \<longleftrightarrow> NDPI_PROTOCOL_HTTP = NDPI_PROTOCOL_UNKNOWN \<and> NDPI_PROTOCOL_TLS = NDPI_PROTOCOL_UNKNOWN)
    \<and> f' = zero_flow\<lparr>detected_protocol_stack := detected_protocol_stack f', confidence := 4\<rparr>"
  by (rule detected_protocols_normalised) (simp_all add: zero_module_def size_defs)

text \<open>
  C11. A detected flow stays as it is. A packet of a flow with a detected protocol that asks for no
  further packets leaves the stack of protocols unchanged, and calls no dissector: with any other
  dissectors, the result, the module and the flow are the same.
\<close>

theorem detected_flow_stays:
  assumes "ndpi_detection_process_packet env mem len time m f = Some (ret, m', f')"
    "app_of f \<noteq> NDPI_PROTOCOL_UNKNOWN" "\<not> check_extra_packets f"
  shows "detected_protocol_stack f' = detected_protocol_stack f
    \<and> (\<forall>c. ndpi_detection_process_packet (env\<lparr>call_func := c\<rparr>) mem len time m f = Some (ret, m', f'))"
proof
  show "\<forall>c. ndpi_detection_process_packet (env\<lparr>call_func := c\<rparr>) mem len time m f = Some (ret, m', f')"
    using assms(1) unfolding process_detected [OF assms(2,3)] ret_protocols_no_call by simp
  let ?f = "f\<lparr>num_processed_pkts := c_u16 (num_processed_pkts f + 1)\<rparr>"
  consider "detected_protocol_stack f' = detected_protocol_stack f"
    | rc m1 f1 where "init_packet_of mem len time m ?f = Some (rc, m1, f1)"
      "f' = f1 \<or> ret_protocols env mem 0 (result_of_flow (category f) f) m1 f1 = Some (ret, m', f')"
    using assms(1) unfolding process_detected [OF assms(2,3)] Let_def
    by (auto simp: bind_eq_Some_conv split: if_split_asm)
  then show "detected_protocol_stack f' = detected_protocol_stack f"
  proof cases
    case 2
    then have "detected_protocol_stack f1 = detected_protocol_stack f" using init_keeps_stack [OF 2(1)] assms(2) by simp
    then show ?thesis using 2(2) ret_protocols_keeps assms(2) by auto
  qed
qed

text \<open>An IP packet with a UDP header and no payload, of a flow already known to be HTTP.\<close>

definition example_packet :: bytes where
  "example_packet = [0x45, 0, 0, 28, 0, 0, 0, 0, 64, 17, 0, 0, 10, 0, 0, 1, 10, 0, 0, 2, 0, 53, 0, 99, 0, 8, 0, 0]"

definition example_flow :: ndpi_flow where
  "example_flow = zero_flow\<lparr>detected_protocol_stack := (NDPI_PROTOCOL_HTTP, 0), category := 5, risk_checked := True\<rparr>"

definition example_env :: engine_env where
  "example_env = \<lparr>libc = \<lparr>char_signed = True, alloc_ok = (\<lambda>_. True), indet = (\<lambda>_. 0)\<rparr>,
     call_func = (\<lambda>_ _ s. Some s), call_extra = (\<lambda>_ _ (m, f). Some (0, m, f)), ndpi_entropy = (\<lambda>_. 0)\<rparr>"

lemma example_init:
  "map_option (\<lambda>(rc, p, f). (rc, app_of f, master_of f, category f, risk_checked f, l4_proto f, tcp p))
     (ndpi_init_packet 0 zero_packet (example_flow\<lparr>num_processed_pkts := 1\<rparr>) 0 example_packet 28)
   = Some (0, NDPI_PROTOCOL_HTTP, 0, 5, True, IPPROTO_UDP, None)"
  by code_simp

lemma example_processed:
  "ndpi_detection_process_packet example_env example_packet 28 0 zero_module example_flow \<noteq> None"
proof -
  have "app_of example_flow \<noteq> 0" "\<not> check_extra_packets example_flow"
    by (simp_all add: example_flow_def zero_flow_def)
  note process = process_detected [OF this]
  obtain p f where i: "ndpi_init_packet 0 zero_packet (example_flow\<lparr>num_processed_pkts := 1\<rparr>) 0 example_packet 28 = Some (0, p, f)"
    and f: "detected_protocol_stack f = (NDPI_PROTOCOL_HTTP, 0)" "category f = 5" "risk_checked f" "l4_proto f = IPPROTO_UDP" "tcp p = None"
    using example_init by (auto simp: prod_eq_iff)
  have "ndpi_get_proto_breed (zero_module\<lparr>packet := p\<rparr>) NDPI_PROTOCOL_HTTP = Some 0"
    by (simp add: ndpi_get_proto_breed_def known_or_unknown_def defaults_of_def at_def zero_module_def zero_default_def size_defs)
  then show ?thesis unfolding process using i f
    by (auto simp: init_packet_of_def zero_module_def example_flow_def zero_flow_def NDPI_MAX_NUM_PKTS_PER_FLOW_TO_DISSECT_def
      result_of_flow_def ret_protocols_def take_result_def settle_category_def gives_up_early_def settle_risk_def
      ndpi_reconcile_protocols_def reconcile_app_def remember_zoom_def)
qed

theorem detected_flow_stays_witness:
  "\<exists>ret m' f'. ndpi_detection_process_packet example_env example_packet 28 0 zero_module example_flow = Some (ret, m', f')
    \<and> detected_protocol_stack f' = (NDPI_PROTOCOL_HTTP, 0)
    \<and> (\<forall>c. ndpi_detection_process_packet (example_env\<lparr>call_func := c\<rparr>) example_packet 28 0 zero_module example_flow = Some (ret, m', f'))"
proof -
  obtain ret m' f' where p: "ndpi_detection_process_packet example_env example_packet 28 0 zero_module example_flow = Some (ret, m', f')"
    using example_processed by fastforce
  have "app_of example_flow \<noteq> NDPI_PROTOCOL_UNKNOWN" "\<not> check_extra_packets example_flow"
    by (simp_all add: example_flow_def zero_flow_def)
  from detected_flow_stays [OF p this] p show ?thesis by (simp add: example_flow_def)
qed

text \<open>
  A flow found in the cache of mining hosts is not reported as guessed. Giving up on such a
  flow stores and returns the cached protocol, but says that nothing was guessed.
\<close>

theorem cached_miner_not_guessed:
  assumes "app_of f = NDPI_PROTOCOL_UNKNOWN" "\<not> is_ipv6 f" "mining_cache m = Some c"
    and "lru_look c (saddr f + daddr f) = Some p" "p \<noteq> NDPI_PROTOCOL_UNKNOWN" "unat p < length (proto_defaults m)"
  shows "\<exists>ret f'. ndpi_detection_giveup env enable_guess m f = Some (ret, False, m, f')
    \<and> flow_is_proto f' p \<and> app_protocol ret = app_of f' \<and> app_protocol ret \<noteq> NDPI_PROTOCOL_UNKNOWN"
proof -
  obtain c' where c: "ndpi_lru_find_cache c (saddr f + daddr f) False = Some (Some p, c')"
    using assms(4) by (auto simp: lru_look_def bind_eq_Some_conv)
  have "unat NDPI_PROTOCOL_UNKNOWN < length (proto_defaults m)" using assms(6) by auto
  from set_detected_total [OF assms(6) this] assms(5) obtain f' where
    "ndpi_set_detected_protocol m p NDPI_PROTOCOL_UNKNOWN NDPI_CONFIDENCE_DPI_CACHE f = Some f'"
    "flow_is_proto f' p" "app_of f' \<noteq> 0" by blast
  then show ?thesis using c assms(1-3) by (simp add: ndpi_detection_giveup_def result_of_flow_def)
qed

definition mining_example :: lru_cache where
  "mining_example = \<lparr>num_entries = 1, entries = [\<lparr>lru_key = 0, is_full = True, lru_value = NDPI_PROTOCOL_MINING\<rparr>]\<rparr>"

definition mined_module :: ndpi_module where
  "mined_module = zero_module\<lparr>mining_cache := Some mining_example\<rparr>"

theorem cached_miner_not_guessed_witness:
  "\<exists>ret f'. ndpi_detection_giveup example_env True mined_module zero_flow = Some (ret, False, mined_module, f')
    \<and> flow_is_proto f' NDPI_PROTOCOL_MINING \<and> app_protocol ret = app_of f' \<and> app_protocol ret \<noteq> NDPI_PROTOCOL_UNKNOWN"
  by (rule cached_miner_not_guessed [where c = mining_example])
    (simp_all add: zero_flow_def mined_module_def mining_example_def zero_module_def lru_look_def ndpi_lru_find_cache_def lru_slot_def size_defs)

end
