(* ===== verification/Engine_Safety.thy ===== *)
theory Engine_Safety
  imports Detection_Engine Dissectors
begin

text \<open>
  The calls of the detection engine are safe: on a module whose dissectors were registered, no null
  function is called and no index leaves its array, whatever the dissectors do to the flow, as long
  as they keep the invariants themselves.
\<close>

section \<open>Invariants of the module and of the flow\<close>

definition module_ok :: "bitmask \<Rightarrow> ndpi_module \<Rightarrow> bool" where
  "module_ok bm m \<longleftrightarrow> registered_ok bm m
     \<and> (\<forall>b. callback_buffer_sizes m b \<le> NDPI_MAX_SUPPORTED_PROTOCOLS + 1)"

definition flow_fine :: "ndpi_flow \<Rightarrow> bool" where
  "flow_fine f \<longleftrightarrow> mask_ok (excluded_protocol_bitmask f)
     \<and> unat (app_of f) < NDPI_MAX_SUPPORTED_PROTOCOLS + NDPI_MAX_NUM_CUSTOM_PROTOCOLS
     \<and> unat (guessed_protocol_id f) \<le> NDPI_MAX_SUPPORTED_PROTOCOLS"

text \<open>An entry that is eligible has a function and is selected.\<close>

definition selects :: "u32 \<Rightarrow> call_function \<Rightarrow> bool" where
  "selects sel e \<longleftrightarrow> ndpi_selection_bitmask e AND sel = ndpi_selection_bitmask e"

lemma eligible_ok:
  assumes "callback_ok bm e" "flow_fine f" "mask_ok db"
  obtains ok where "eligible db sel e f = Some ok" "ok \<Longrightarrow> cf_func e \<noteq> None \<and> selects sel e"
proof -
  have "mask_ok (excluded_protocol_bitmask f)" "mask_ok (cf_excluded_bitmask e)" "mask_ok (cf_detection_bitmask e)"
    using assms by (auto simp: callback_ok_def flow_fine_def)
  moreover have "protocols (cf_detection_bitmask e) = {}" if "cf_func e = None" using that assms(1) by (simp add: callback_ok_def)
  ultimately show ?thesis using that assms(3) by (auto simp: eligible_def compare_masks selects_def)
qed

section \<open>The interface between the engine and the dissectors\<close>

text \<open>
  \<open>inv\<close> is an invariant of the module and the flow that every call made by the engine keeps. The
  engine calls the functions of selected entries, and that of a protocol's defaults when the entry
  at its place is selected.
\<close>

locale engine_calls =
  fixes env :: engine_env and mem :: bytes and sel :: u32 and bm :: bitmask and inv :: "ndpi_module \<times> ndpi_flow \<Rightarrow> bool"
  assumes inv_ok: "inv (m, f) \<Longrightarrow> module_ok bm m \<and> flow_fine f"
    and call_entry: "inv (m, f) \<Longrightarrow> e \<in> set (callback_buffer m) \<or> e \<in> set (callback_buffers m b) \<Longrightarrow> cf_func e = Some g
      \<Longrightarrow> selects sel e \<Longrightarrow> \<exists>m' f'. call_func env g mem (m, f) = Some (m', f') \<and> inv (m', f')"
    and call_default: "inv (m, f) \<Longrightarrow> d \<in> set (proto_defaults m) \<Longrightarrow> pd_func d = Some g
      \<Longrightarrow> at (callback_buffer m) (unat (protoIdx d)) = Some e \<Longrightarrow> selects sel e
      \<Longrightarrow> \<exists>m' f'. call_func env g mem (m, f) = Some (m', f') \<and> inv (m', f')"
begin

lemma defaults_in:
  assumes "inv (m, f)" "unat p < NDPI_MAX_SUPPORTED_PROTOCOLS + NDPI_MAX_NUM_CUSTOM_PROTOCOLS"
  obtains d where "defaults_of m p = Some d" "d \<in> set (proto_defaults m)" "default_ok d"
    "unat (protoIdx d) \<le> NDPI_MAX_SUPPORTED_PROTOCOLS"
proof -
  let ?d = "proto_defaults m ! unat p"
  have "length (proto_defaults m) = NDPI_MAX_SUPPORTED_PROTOCOLS + NDPI_MAX_NUM_CUSTOM_PROTOCOLS" "\<forall>d \<in> set (proto_defaults m). default_ok d"
    using inv_ok [OF assms(1)] by (auto simp: module_ok_def registered_ok_def)
  then have "defaults_of m p = Some ?d" "?d \<in> set (proto_defaults m)" "default_ok ?d"
    using assms(2) by (auto simp: defaults_of_def at_def)
  then show ?thesis using that by (simp add: default_ok_def)
qed

lemma entry_in:
  assumes "inv (m, f)" "i \<le> NDPI_MAX_SUPPORTED_PROTOCOLS"
  obtains e where "at (callback_buffer m) i = Some e" "e \<in> set (callback_buffer m)" "callback_ok bm e"
  using inv_ok [OF assms(1)] assms(2) that unfolding module_ok_def registered_ok_def at_def by auto

lemma buffer_entry_in:
  assumes "inv (m, f)" "i \<le> NDPI_MAX_SUPPORTED_PROTOCOLS"
  obtains e where "at (callback_buffers m b) i = Some e" "e \<in> set (callback_buffers m b)" "callback_ok bm e"
proof -
  have "length (callback_buffers m b) = NDPI_MAX_SUPPORTED_PROTOCOLS + 1" "\<forall>e \<in> set (callback_buffers m b). callback_ok bm e"
    using inv_ok [OF assms(1)] by (auto simp: module_ok_def registered_ok_def)
  then show ?thesis using assms(2) that by (auto simp: at_def)
qed

lemma call_guessed_ok:
  assumes "inv (m, f)" "mask_ok db"
  shows "\<exists>func n m' f'. call_guessed env mem db sel no_payload m f = Some (func, n, m', f') \<and> inv (m', f')"
proof -
  have f: "flow_fine f" "unat (guessed_protocol_id f) \<le> NDPI_MAX_SUPPORTED_PROTOCOLS" using inv_ok [OF assms(1)] by (auto simp: flow_fine_def)
  then have "unat (guessed_protocol_id f) < NDPI_MAX_SUPPORTED_PROTOCOLS + NDPI_MAX_NUM_CUSTOM_PROTOCOLS" by (simp add: size_defs)
  then obtain g where g: "defaults_of m (guessed_protocol_id f) = Some g" "g \<in> set (proto_defaults m)" "unat (protoIdx g) \<le> NDPI_MAX_SUPPORTED_PROTOCOLS"
    using defaults_in [OF assms(1)] by blast
  obtain e where e: "at (callback_buffer m) (unat (protoIdx g)) = Some e" "callback_ok bm e" using entry_in [OF assms(1) g(3)] by blast
  obtain ok where ok: "eligible db sel e f = Some ok" "ok \<Longrightarrow> cf_func e \<noteq> None \<and> selects sel e"
    using eligible_ok [OF e(2) f(1) assms(2)] by blast
  obtain e' where e': "at (callback_buffer m) (unat (guessed_protocol_id f)) = Some e'" using entry_in [OF assms(1) f(2)] by blast
  show ?thesis
  proof (cases "pd_func g = None \<or> \<not> ok")
    case True
    then show ?thesis using g(1) e(1) ok(1) assms(1) by (auto simp: call_guessed_def split: option.split)
  next
    case False
    then obtain h where h: "pd_func g = Some h" "ok" by auto
    obtain m1 f1 where s1: "call_func env h mem (m, f) = Some (m1, f1)" "inv (m1, f1)"
      using call_default [OF assms(1) g(2) h(1) e(1)] ok(2) h(2) by blast
    have "unat (guessed_protocol_id f1) < NDPI_MAX_SUPPORTED_PROTOCOLS + NDPI_MAX_NUM_CUSTOM_PROTOCOLS"
      using inv_ok [OF s1(2)] by (auto simp: flow_fine_def size_defs)
    then obtain g1 where "defaults_of m1 (guessed_protocol_id f1) = Some g1" using defaults_in [OF s1(2)] by blast
    then show ?thesis using g(1) e(1) ok(1) e' s1 h assms(1) by (auto simp: call_guessed_def)
  qed
qed

lemma dissector_loop_ok:
  assumes "inv (m, f)" "mask_ok db" "a + n \<le> NDPI_MAX_SUPPORTED_PROTOCOLS + 1"
  shows "\<exists>k m' f'. dissector_loop env mem db sel b func a n calls m f = Some (k, m', f') \<and> inv (m', f')"
  using assms(1,3)
proof (induction n arbitrary: a calls m f)
  case (Suc n)
  have "a \<le> NDPI_MAX_SUPPORTED_PROTOCOLS" using Suc.prems(2) by simp
  then obtain e where e: "at (callback_buffers m b) a = Some e" "e \<in> set (callback_buffers m b)" "callback_ok bm e"
    using buffer_entry_in [OF Suc.prems(1)] by blast
  have "flow_fine f" using inv_ok [OF Suc.prems(1)] by simp
  then obtain ok where ok: "eligible db sel e f = Some ok" "ok \<Longrightarrow> cf_func e \<noteq> None \<and> selects sel e"
    using eligible_ok [OF e(3) _ assms(2)] by blast
  have n: "Suc a + n \<le> NDPI_MAX_SUPPORTED_PROTOCOLS + 1" using Suc.prems(2) by simp
  show ?case
  proof (cases "func \<noteq> cf_func e \<and> ok")
    case False
    then show ?thesis using e(1) ok(1) Suc.IH [OF Suc.prems(1) n] by auto
  next
    case True
    then obtain g where g: "cf_func e = Some g" using ok(2) by blast
    obtain m1 f1 where s1: "call_func env g mem (m, f) = Some (m1, f1)" "inv (m1, f1)"
      using call_entry [OF Suc.prems(1) disjI2 [OF e(2)] g] ok(2) True by blast
    then show ?thesis using e(1) ok(1) True g Suc.IH [OF s1(2) n] by auto
  qed
qed simp

lemma call_subprotocol_ok:
  assumes "inv (m, f)" "mask_ok db" "unat p < NDPI_MAX_SUPPORTED_PROTOCOLS + NDPI_MAX_NUM_CUSTOM_PROTOCOLS"
  shows "\<exists>k m' f'. call_subprotocol env mem db sel func p calls m f = Some (k, m', f') \<and> inv (m', f')"
proof -
  obtain d where d: "defaults_of m p = Some d" "unat (protoIdx d) \<le> NDPI_MAX_SUPPORTED_PROTOCOLS" using defaults_in [OF assms(1,3)] by blast
  obtain e where e: "at (callback_buffer m) (unat (protoIdx d)) = Some e" "e \<in> set (callback_buffer m)" "callback_ok bm e"
    using entry_in [OF assms(1) d(2)] by blast
  have "flow_fine f" using inv_ok [OF assms(1)] by simp
  then obtain ok where ok: "eligible db sel e f = Some ok" "ok \<Longrightarrow> cf_func e \<noteq> None \<and> selects sel e"
    using eligible_ok [OF e(3) _ assms(2)] by blast
  show ?thesis
  proof (cases "func \<noteq> pd_func d \<and> ok")
    case False
    then show ?thesis using d(1) e(1) ok(1) assms(1) by (auto simp: call_subprotocol_def)
  next
    case True
    then obtain g where g: "cf_func e = Some g" using ok(2) by blast
    obtain m1 f1 where "call_func env g mem (m, f) = Some (m1, f1)" "inv (m1, f1)"
      using call_entry [OF assms(1) disjI1 [OF e(2)] g] ok(2) True by blast
    then show ?thesis using d(1) e(1) ok(1) True g by (simp add: call_subprotocol_def)
  qed
qed

lemma subprotocol_loop_ok:
  assumes "inv (m, f)" "mask_ok db"
  shows "\<exists>k m' f'. subprotocol_loop env mem db sel func a calls m f = Some (k, m', f') \<and> inv (m', f')"
  using assms(1)
proof (induction "4294967296 - unat a" arbitrary: a calls m f rule: less_induct)
  case less
  have "unat (app_of f) < NDPI_MAX_SUPPORTED_PROTOCOLS + NDPI_MAX_NUM_CUSTOM_PROTOCOLS" using inv_ok [OF less.prems] by (simp add: flow_fine_def)
  then obtain d where d: "defaults_of m (app_of f) = Some d" "default_ok d" using defaults_in [OF less.prems] by blast
  show ?case
  proof (cases "a < subprotocol_count d")
    case False
    then show ?thesis using d less.prems by (subst subprotocol_loop.simps) simp
  next
    case True
    then have a: "unat a < length (subprotocols d)" using d(2) by (simp add: default_ok_def word_less_nat_alt)
    let ?p = "subprotocols d ! unat a"
    have at: "at (subprotocols d) (unat a) = Some ?p" using a by (simp add: at_def)
    note IH = less.hyps [OF counter_measure [OF True]]
    show ?thesis
    proof (cases "?p = 65534")
      case p: True
      then show ?thesis using IH [OF less.prems] d(1) True at by (subst subprotocol_loop.simps) simp
    next
      case False
      then have "unat ?p < NDPI_MAX_SUPPORTED_PROTOCOLS + NDPI_MAX_NUM_CUSTOM_PROTOCOLS"
        using d(2) a by (auto simp: default_ok_def)
      then obtain k m1 f1 where c: "call_subprotocol env mem db sel func ?p calls m f = Some (k, m1, f1)" "inv (m1, f1)"
        using call_subprotocol_ok [OF less.prems assms(2)] by blast
      show ?thesis
      proof (cases "master_of f1 = NDPI_PROTOCOL_UNKNOWN")
        case z: True
        then show ?thesis using IH [OF c(2)] d(1) True at False c(1) by (subst subprotocol_loop.simps) simp
      next
        case False
        then show ?thesis using c d(1) True at \<open>?p \<noteq> 65534\<close> by (subst subprotocol_loop.simps) simp
      qed
    qed
  qed
qed

lemma detection_func_ok:
  assumes "inv (m, f)" "n \<le> NDPI_MAX_SUPPORTED_PROTOCOLS + 1"
  shows "\<exists>k m' f'. check_ndpi_detection_func env mem sel b n m f = Some (k, m', f') \<and> inv (m', f')"
proof -
  obtain db where db: "NDPI_SAVE_AS_BITMASK (app_of f) = Some db" "mask_ok db" using save_protocols by blast
  obtain func k1 m1 f1 where c: "call_guessed env mem db sel (b = callback_buffer_tcp_no_payload) m f = Some (func, k1, m1, f1)"
    "inv (m1, f1)" using call_guessed_ok [OF assms(1) db(2)] by metis
  let ?calls = "(if b = callback_buffer_tcp_no_payload then 1 else 0) + k1"
  obtain k2 m2 f2 where l: "(if app_of f1 = NDPI_PROTOCOL_UNKNOWN then dissector_loop env mem db sel b func 0 n ?calls m1 f1
      else Some (?calls, m1, f1)) = Some (k2, m2, f2)" "inv (m2, f2)"
    using dissector_loop_ok [OF c(2) db(2), of 0 n b func ?calls] assms(2) c(2)
    by (cases "app_of f1 = NDPI_PROTOCOL_UNKNOWN") auto
  show ?thesis using subprotocol_loop_ok [OF l(2) db(2), of func 0 k2] c(1) l(1) db(1)
    by (simp add: check_ndpi_detection_func_def Let_def)
qed

lemma check_flow_func_ok:
  assumes "inv (m, f)"
  shows "\<exists>n m' f'. ndpi_check_flow_func env mem sel m f = Some (n, m', f') \<and> inv (m', f')"
proof -
  let ?sizes = "callback_buffer_sizes m"
  have n: "?sizes b \<le> NDPI_MAX_SUPPORTED_PROTOCOLS + 1" for b using inv_ok [OF assms] by (simp add: module_ok_def)
  have "\<exists>b. ndpi_check_flow_func env mem sel m f = check_ndpi_detection_func env mem sel b (?sizes b) m f"
    by (auto simp: ndpi_check_flow_func_def check_ndpi_tcp_flow_func_def check_ndpi_udp_flow_func_def check_ndpi_other_flow_func_def)
  then obtain b where "ndpi_check_flow_func env mem sel m f = check_ndpi_detection_func env mem sel b (?sizes b) m f" by blast
  then show ?thesis using detection_func_ok [OF assms n, of b b] by simp
qed

end

section \<open>Any dissectors\<close>

definition state_ok :: "bitmask \<Rightarrow> (callback_buffer_id \<Rightarrow> nat) \<Rightarrow> ndpi_module \<times> ndpi_flow \<Rightarrow> bool" where
  "state_ok bm sizes s \<longleftrightarrow> module_ok bm (fst s) \<and> flow_fine (snd s) \<and> callback_buffer_sizes (fst s) = sizes"

text \<open>What is asked of dissectors about which nothing is known: they return, and keep the invariants.\<close>

definition calls_ok :: "bitmask \<Rightarrow> (string \<Rightarrow> bytes \<Rightarrow> ndpi_module \<times> ndpi_flow \<Rightarrow> (ndpi_module \<times> ndpi_flow) option) \<Rightarrow> bool" where
  "calls_ok bm call \<longleftrightarrow> (\<forall>g mem sizes s. state_ok bm sizes s \<longrightarrow> (\<exists>s'. call g mem s = Some s' \<and> state_ok bm sizes s'))"

lemma calls_okD:
  assumes "calls_ok bm call" "state_ok bm sizes (m, f)"
  shows "\<exists>m' f'. call g mem (m, f) = Some (m', f') \<and> state_ok bm sizes (m', f')"
proof -
  obtain s' where "call g mem (m, f) = Some s'" "state_ok bm sizes s'" using assms unfolding calls_ok_def by blast
  then show ?thesis by (cases s') auto
qed

interpretation any_calls: engine_calls env mem sel bm "\<lambda>s. calls_ok bm (call_func env) \<and> state_ok bm sizes s" for env mem sel bm sizes
  by unfold_locales (simp add: state_ok_def, metis calls_okD, metis calls_okD)

section \<open>Property\<close>

text \<open>
  C7. Calling dissectors is safe. On a module that satisfies the invariant and for every packet and
  flow, the engine calls no null function and reads no array outside its bounds, whatever
  dissectors it calls and whatever these do, provided they return and keep the invariant; the
  invariant holds again afterwards.
\<close>

theorem dispatch_safe:
  assumes "calls_ok bm (call_func env)" "module_ok bm m" "flow_fine f"
  shows "\<exists>n m' f'. ndpi_check_flow_func env mem sel m f = Some (n, m', f') \<and> module_ok bm m' \<and> flow_fine f'"
proof -
  have "calls_ok bm (call_func env) \<and> state_ok bm (callback_buffer_sizes m) (m, f)" using assms by (simp add: state_ok_def)
  from any_calls.check_flow_func_ok [OF this, of mem sel] show ?thesis by (auto simp: state_ok_def)
qed

text \<open>
  An instance: the module that registration makes of a cleared one, with every protocol enabled and
  with dissectors that recognise nothing.
\<close>

lemma registered_module_ok: "registered_ok bm m \<Longrightarrow> \<forall>b. buffer_filled b m \<Longrightarrow> module_ok bm m"
  by (auto simp: module_ok_def registered_ok_def buffer_filled_def)

lemma fresh_flow_fine: "flow_fine zero_flow"
  by (simp add: flow_fine_def zero_flow_def size_defs mask_ok_def NDPI_NUM_FDS_BITS_def NDPI_NUM_BITS_def)

definition idle_env :: engine_env where
  "idle_env = \<lparr>libc = \<lparr>char_signed = True, alloc_ok = (\<lambda>_. True), indet = (\<lambda>_. 0)\<rparr>,
     call_func = (\<lambda>_ _ s. Some s), call_extra = (\<lambda>_ _ (m, f). Some (0, m, f)), ndpi_entropy = (\<lambda>_. 0)\<rparr>"

theorem dispatch_safe_witness:
  "\<exists>m. ndpi_set_protocol_detection_bitmask2 NDPI_ONE zero_module = Some m
    \<and> (\<exists>n m' f'. ndpi_check_flow_func idle_env [] 0 m zero_flow = Some (n, m', f') \<and> module_ok NDPI_ONE m' \<and> flow_fine f')"
proof -
  have "mask_ok NDPI_ONE" "unat NDPI_PROTOCOL_IP_IPSEC \<in> protocols NDPI_ONE"
    using one_protocols by (auto simp: NDPI_NUM_BITS_def)
  from registration_ok [OF this zero_module_ok]
  obtain m where m: "ndpi_set_protocol_detection_bitmask2 NDPI_ONE zero_module = Some m" "module_ok NDPI_ONE m"
    using registered_module_ok by blast
  have "calls_ok NDPI_ONE (call_func idle_env)" by (simp add: calls_ok_def idle_env_def)
  from dispatch_safe [OF this m(2) fresh_flow_fine] m(1) show ?thesis by blast
qed

end
