(* ===== verification/Result_Names.thy ===== *)
theory Result_Names
  imports Engine_State Byte_Numbers
begin

text \<open>
  The names that a report of a result prints: of cipher suites, risks and TLS versions
  (\<^verbatim>\<open>ndpi_utils.c\<close>), of categories and breeds (\<^verbatim>\<open>ndpi_main.c\<close>). A string is given without its
  terminating zero; a number that has no name is printed into a buffer of a fixed size.
\<close>

section \<open>Printing\<close>

text \<open>The conversions \<open>%X\<close> and \<open>%x\<close> with a minimal width, filled with zeros.\<close>

definition hex_digit :: "bool \<Rightarrow> nat \<Rightarrow> u8" where
  "hex_digit up d = word_of_nat (if d < 10 then 48 + d else (if up then 55 else 87) + d)"

fun show_hex :: "bool \<Rightarrow> nat \<Rightarrow> bytes" where
  "show_hex up n = (if n < 16 then [hex_digit up n] else show_hex up (n div 16) @ [hex_digit up (n mod 16)])"

declare show_hex.simps [simp del]

definition hex_pad :: "bool \<Rightarrow> nat \<Rightarrow> nat \<Rightarrow> bytes" where
  "hex_pad up k n = (let t = show_hex up n in replicate (k - length t) 48 @ t)"

text \<open>What is read from a buffer of \<open>n\<close> bytes after \<open>snprintf\<close> printed a text into it.\<close>

definition printed :: "nat \<Rightarrow> bytes \<Rightarrow> bytes" where
  "printed n t = take (n - 1) t"

section \<open>Cipher suites\<close>

definition cipher_names_1 :: "(u32 \<times> string) list" where
  "cipher_names_1 = [
    (0x0000, ''TLS_NULL_WITH_NULL_NULL''),
    (0x0003, ''TLS_RSA_EXPORT_WITH_RC4_40_MD5''),
    (0x0006, ''TLS_RSA_EXPORT_WITH_RC2_CBC_40_MD5''),
    (0x0008, ''TLS_RSA_EXPORT_WITH_DES40_CBC_SHA''),
    (0x0001, ''TLS_RSA_WITH_NULL_MD5''),
    (0x0002, ''TLS_RSA_WITH_NULL_SHA''),
    (0x003B, ''TLS_RSA_WITH_NULL_SHA256''),
    (0x0004, ''TLS_RSA_WITH_RC4_128_MD5''),
    (0x0005, ''TLS_RSA_WITH_RC4_128_SHA''),
    (0x0007, ''TLS_RSA_WITH_IDEA_CBC_SHA''),
    (0x0009, ''TLS_RSA_WITH_DES_CBC_SHA''),
    (0x000A, ''TLS_RSA_WITH_3DES_EDE_CBC_SHA''),
    (0x002F, ''TLS_RSA_WITH_AES_128_CBC_SHA''),
    (0x0035, ''TLS_RSA_WITH_AES_256_CBC_SHA''),
    (0x003C, ''TLS_RSA_WITH_AES_128_CBC_SHA256''),
    (0x003D, ''TLS_RSA_WITH_AES_256_CBC_SHA256''),
    (0x009C, ''TLS_RSA_WITH_AES_128_GCM_SHA256''),
    (0x009D, ''TLS_RSA_WITH_AES_256_GCM_SHA384''),
    (0xC09C, ''TLS_RSA_WITH_AES_128_CCM''),
    (0xC09D, ''TLS_RSA_WITH_AES_256_CCM''),
    (0xC0A0, ''TLS_RSA_WITH_AES_128_CCM_8''),
    (0xC0A1, ''TLS_RSA_WITH_AES_256_CCM_8''),
    (0x0041, ''TLS_RSA_WITH_CAMELLIA_128_CBC_SHA''),
    (0x0084, ''TLS_RSA_WITH_CAMELLIA_256_CBC_SHA''),
    (0x00BA, ''TLS_RSA_WITH_CAMELLIA_128_CBC_SHA256''),
    (0x00C0, ''TLS_RSA_WITH_CAMELLIA_256_CBC_SHA256''),
    (0xC07A, ''TLS_RSA_WITH_CAMELLIA_128_GCM_SHA256''),
    (0xC07B, ''TLS_RSA_WITH_CAMELLIA_256_GCM_SHA384''),
    (0x0096, ''TLS_RSA_WITH_SEED_CBC_SHA''),
    (0xC03C, ''TLS_RSA_WITH_ARIA_128_CBC_SHA256''),
    (0xC03D, ''TLS_RSA_WITH_ARIA_256_CBC_SHA384''),
    (0xC050, ''TLS_RSA_WITH_ARIA_128_GCM_SHA256''),
    (0xC051, ''TLS_RSA_WITH_ARIA_256_GCM_SHA384''),
    (0x000E, ''TLS_DH_RSA_EXPORT_WITH_DES40_CBC_SHA''),
    (0x000F, ''TLS_DH_RSA_WITH_DES_CBC_SHA''),
    (0x0010, ''TLS_DH_RSA_WITH_3DES_EDE_CBC_SHA''),
    (0x0031, ''TLS_DH_RSA_WITH_AES_128_CBC_SHA''),
    (0x0037, ''TLS_DH_RSA_WITH_AES_256_CBC_SHA''),
    (0x003F, ''TLS_DH_RSA_WITH_AES_128_CBC_SHA256''),
    (0x0069, ''TLS_DH_RSA_WITH_AES_256_CBC_SHA256''),
    (0x00A0, ''TLS_DH_RSA_WITH_AES_128_GCM_SHA256''),
    (0x00A1, ''TLS_DH_RSA_WITH_AES_256_GCM_SHA384''),
    (0x0043, ''TLS_DH_RSA_WITH_CAMELLIA_128_CBC_SHA''),
    (0x0086, ''TLS_DH_RSA_WITH_CAMELLIA_256_CBC_SHA''),
    (0x00BC, ''TLS_DH_RSA_WITH_CAMELLIA_128_CBC_SHA256''),
    (0x00C2, ''TLS_DH_RSA_WITH_CAMELLIA_256_CBC_SHA256''),
    (0xC07E, ''TLS_DH_RSA_WITH_CAMELLIA_128_GCM_SHA256''),
    (0xC07F, ''TLS_DH_RSA_WITH_CAMELLIA_256_GCM_SHA384''),
    (0x0098, ''TLS_DH_RSA_WITH_SEED_CBC_SHA''),
    (0xC040, ''TLS_DH_RSA_WITH_ARIA_128_CBC_SHA256''),
    (0xC041, ''TLS_DH_RSA_WITH_ARIA_256_CBC_SHA384''),
    (0xC054, ''TLS_DH_RSA_WITH_ARIA_128_GCM_SHA256''),
    (0xC055, ''TLS_DH_RSA_WITH_ARIA_256_GCM_SHA384''),
    (0x0014, ''TLS_DHE_RSA_EXPORT_WITH_DES40_CBC_SHA''),
    (0x0015, ''TLS_DHE_RSA_WITH_DES_CBC_SHA''),
    (0x0016, ''TLS_DHE_RSA_WITH_3DES_EDE_CBC_SHA''),
    (0x0033, ''TLS_DHE_RSA_WITH_AES_128_CBC_SHA''),
    (0x0039, ''TLS_DHE_RSA_WITH_AES_256_CBC_SHA''),
    (0x0067, ''TLS_DHE_RSA_WITH_AES_128_CBC_SHA256''),
    (0x006B, ''TLS_DHE_RSA_WITH_AES_256_CBC_SHA256''),
    (0x009E, ''TLS_DHE_RSA_WITH_AES_128_GCM_SHA256''),
    (0x009F, ''TLS_DHE_RSA_WITH_AES_256_GCM_SHA384''),
    (0xC09E, ''TLS_DHE_RSA_WITH_AES_128_CCM''),
    (0xC09F, ''TLS_DHE_RSA_WITH_AES_256_CCM''),
    (0xC0A2, ''TLS_DHE_RSA_WITH_AES_128_CCM_8''),
    (0xC0A3, ''TLS_DHE_RSA_WITH_AES_256_CCM_8''),
    (0x0045, ''TLS_DHE_RSA_WITH_CAMELLIA_128_CBC_SHA''),
    (0x0088, ''TLS_DHE_RSA_WITH_CAMELLIA_256_CBC_SHA''),
    (0x00BE, ''TLS_DHE_RSA_WITH_CAMELLIA_128_CBC_SHA256''),
    (0x00C4, ''TLS_DHE_RSA_WITH_CAMELLIA_256_CBC_SHA256''),
    (0xC07C, ''TLS_DHE_RSA_WITH_CAMELLIA_128_GCM_SHA256''),
    (0xC07D, ''TLS_DHE_RSA_WITH_CAMELLIA_256_GCM_SHA384''),
    (0x009A, ''TLS_DHE_RSA_WITH_SEED_CBC_SHA''),
    (0xC044, ''TLS_DHE_RSA_WITH_ARIA_128_CBC_SHA256''),
    (0xC045, ''TLS_DHE_RSA_WITH_ARIA_256_CBC_SHA384''),
    (0xC052, ''TLS_DHE_RSA_WITH_ARIA_128_GCM_SHA256''),
    (0xC053, ''TLS_DHE_RSA_WITH_ARIA_256_GCM_SHA384''),
    (0xCCAA, ''TLS_DHE_RSA_WITH_CHACHA20_POLY1305_SHA256''),
    (0x000B, ''TLS_DH_DSS_EXPORT_WITH_DES40_CBC_SHA''),
    (0x000C, ''TLS_DH_DSS_WITH_DES_CBC_SHA''),
    (0x000D, ''TLS_DH_DSS_WITH_3DES_EDE_CBC_SHA''),
    (0x0030, ''TLS_DH_DSS_WITH_AES_128_CBC_SHA''),
    (0x0036, ''TLS_DH_DSS_WITH_AES_256_CBC_SHA''),
    (0x003E, ''TLS_DH_DSS_WITH_AES_128_CBC_SHA256''),
    (0x0068, ''TLS_DH_DSS_WITH_AES_256_CBC_SHA256''),
    (0x00A4, ''TLS_DH_DSS_WITH_AES_128_GCM_SHA256''),
    (0x00A5, ''TLS_DH_DSS_WITH_AES_256_GCM_SHA384''),
    (0x0042, ''TLS_DH_DSS_WITH_CAMELLIA_128_CBC_SHA''),
    (0x0085, ''TLS_DH_DSS_WITH_CAMELLIA_256_CBC_SHA''),
    (0x00BB, ''TLS_DH_DSS_WITH_CAMELLIA_128_CBC_SHA256''),
    (0x00C1, ''TLS_DH_DSS_WITH_CAMELLIA_256_CBC_SHA256''),
    (0xC082, ''TLS_DH_DSS_WITH_CAMELLIA_128_GCM_SHA256''),
    (0xC083, ''TLS_DH_DSS_WITH_CAMELLIA_256_GCM_SHA384''),
    (0x0097, ''TLS_DH_DSS_WITH_SEED_CBC_SHA''),
    (0xC03E, ''TLS_DH_DSS_WITH_ARIA_128_CBC_SHA256''),
    (0xC03F, ''TLS_DH_DSS_WITH_ARIA_256_CBC_SHA384''),
    (0xC058, ''TLS_DH_DSS_WITH_ARIA_128_GCM_SHA256''),
    (0xC059, ''TLS_DH_DSS_WITH_ARIA_256_GCM_SHA384''),
    (0x0011, ''TLS_DHE_DSS_EXPORT_WITH_DES40_CBC_SHA''),
    (0x0012, ''TLS_DHE_DSS_WITH_DES_CBC_SHA''),
    (0x0013, ''TLS_DHE_DSS_WITH_3DES_EDE_CBC_SHA''),
    (0x0032, ''TLS_DHE_DSS_WITH_AES_128_CBC_SHA''),
    (0x0038, ''TLS_DHE_DSS_WITH_AES_256_CBC_SHA''),
    (0x0040, ''TLS_DHE_DSS_WITH_AES_128_CBC_SHA256''),
    (0x006A, ''TLS_DHE_DSS_WITH_AES_256_CBC_SHA256''),
    (0x00A2, ''TLS_DHE_DSS_WITH_AES_128_GCM_SHA256''),
    (0x00A3, ''TLS_DHE_DSS_WITH_AES_256_GCM_SHA384''),
    (0x0044, ''TLS_DHE_DSS_WITH_CAMELLIA_128_CBC_SHA''),
    (0x0087, ''TLS_DHE_DSS_WITH_CAMELLIA_256_CBC_SHA''),
    (0x00BD, ''TLS_DHE_DSS_WITH_CAMELLIA_128_CBC_SHA256''),
    (0x00C3, ''TLS_DHE_DSS_WITH_CAMELLIA_256_CBC_SHA256''),
    (0xC080, ''TLS_DHE_DSS_WITH_CAMELLIA_128_GCM_SHA256''),
    (0xC081, ''TLS_DHE_DSS_WITH_CAMELLIA_256_GCM_SHA384''),
    (0x0099, ''TLS_DHE_DSS_WITH_SEED_CBC_SHA''),
    (0xC042, ''TLS_DHE_DSS_WITH_ARIA_128_CBC_SHA256''),
    (0xC043, ''TLS_DHE_DSS_WITH_ARIA_256_CBC_SHA384''),
    (0xC056, ''TLS_DHE_DSS_WITH_ARIA_128_GCM_SHA256''),
    (0xC057, ''TLS_DHE_DSS_WITH_ARIA_256_GCM_SHA384''),
    (0x0017, ''TLS_DH_ANON_EXPORT_WITH_RC4_40_MD5''),
    (0x0019, ''TLS_DH_ANON_EXPORT_WITH_DES40_CBC_SHA''),
    (0x0018, ''TLS_DH_ANON_WITH_RC4_128_MD5'')]"

definition cipher_names_2 :: "(u32 \<times> string) list" where
  "cipher_names_2 = [
    (0x001A, ''TLS_DH_ANON_WITH_DES_CBC_SHA''),
    (0x001B, ''TLS_DH_ANON_WITH_3DES_EDE_CBC_SHA''),
    (0x0034, ''TLS_DH_ANON_WITH_AES_128_CBC_SHA''),
    (0x003A, ''TLS_DH_ANON_WITH_AES_256_CBC_SHA''),
    (0x006C, ''TLS_DH_ANON_WITH_AES_128_CBC_SHA256''),
    (0x006D, ''TLS_DH_ANON_WITH_AES_256_CBC_SHA256''),
    (0x00A6, ''TLS_DH_ANON_WITH_AES_128_GCM_SHA256''),
    (0x00A7, ''TLS_DH_ANON_WITH_AES_256_GCM_SHA384''),
    (0x0046, ''TLS_DH_ANON_WITH_CAMELLIA_128_CBC_SHA''),
    (0x0089, ''TLS_DH_ANON_WITH_CAMELLIA_256_CBC_SHA''),
    (0x00BF, ''TLS_DH_ANON_WITH_CAMELLIA_128_CBC_SHA256''),
    (0x00C5, ''TLS_DH_ANON_WITH_CAMELLIA_256_CBC_SHA256''),
    (0xC084, ''TLS_DH_ANON_WITH_CAMELLIA_128_GCM_SHA256''),
    (0xC085, ''TLS_DH_ANON_WITH_CAMELLIA_256_GCM_SHA384''),
    (0x009B, ''TLS_DH_ANON_WITH_SEED_CBC_SHA''),
    (0xC046, ''TLS_DH_ANON_WITH_ARIA_128_CBC_SHA256''),
    (0xC047, ''TLS_DH_ANON_WITH_ARIA_256_CBC_SHA384''),
    (0xC05A, ''TLS_DH_ANON_WITH_ARIA_128_GCM_SHA256''),
    (0xC05B, ''TLS_DH_ANON_WITH_ARIA_256_GCM_SHA384''),
    (0xC00B, ''TLS_ECDH_RSA_WITH_NULL_SHA''),
    (0xC00C, ''TLS_ECDH_RSA_WITH_RC4_128_SHA''),
    (0xC00D, ''TLS_ECDH_RSA_WITH_3DES_EDE_CBC_SHA''),
    (0xC00E, ''TLS_ECDH_RSA_WITH_AES_128_CBC_SHA''),
    (0xC00F, ''TLS_ECDH_RSA_WITH_AES_256_CBC_SHA''),
    (0xC029, ''TLS_ECDH_RSA_WITH_AES_128_CBC_SHA256''),
    (0xC02A, ''TLS_ECDH_RSA_WITH_AES_256_CBC_SHA384''),
    (0xC031, ''TLS_ECDH_RSA_WITH_AES_128_GCM_SHA256''),
    (0xC032, ''TLS_ECDH_RSA_WITH_AES_256_GCM_SHA384''),
    (0xC078, ''TLS_ECDH_RSA_WITH_CAMELLIA_128_CBC_SHA256''),
    (0xC079, ''TLS_ECDH_RSA_WITH_CAMELLIA_256_CBC_SHA384''),
    (0xC08C, ''TLS_ECDH_RSA_WITH_CAMELLIA_128_GCM_SHA256''),
    (0xC08D, ''TLS_ECDH_RSA_WITH_CAMELLIA_256_GCM_SHA384''),
    (0xC04E, ''TLS_ECDH_RSA_WITH_ARIA_128_CBC_SHA256''),
    (0xC04F, ''TLS_ECDH_RSA_WITH_ARIA_256_CBC_SHA384''),
    (0xC062, ''TLS_ECDH_RSA_WITH_ARIA_128_GCM_SHA256''),
    (0xC063, ''TLS_ECDH_RSA_WITH_ARIA_256_GCM_SHA384''),
    (0xC010, ''TLS_ECDHE_RSA_WITH_NULL_SHA''),
    (0xC011, ''TLS_ECDHE_RSA_WITH_RC4_128_SHA''),
    (0xC012, ''TLS_ECDHE_RSA_WITH_3DES_EDE_CBC_SHA''),
    (0xC013, ''TLS_ECDHE_RSA_WITH_AES_128_CBC_SHA''),
    (0xC014, ''TLS_ECDHE_RSA_WITH_AES_256_CBC_SHA''),
    (0xC027, ''TLS_ECDHE_RSA_WITH_AES_128_CBC_SHA256''),
    (0xC028, ''TLS_ECDHE_RSA_WITH_AES_256_CBC_SHA384''),
    (0xC02F, ''TLS_ECDHE_RSA_WITH_AES_128_GCM_SHA256''),
    (0xC030, ''TLS_ECDHE_RSA_WITH_AES_256_GCM_SHA384''),
    (0xC076, ''TLS_ECDHE_RSA_WITH_CAMELLIA_128_CBC_SHA256''),
    (0xC077, ''TLS_ECDHE_RSA_WITH_CAMELLIA_256_CBC_SHA384''),
    (0xC08A, ''TLS_ECDHE_RSA_WITH_CAMELLIA_128_GCM_SHA256''),
    (0xC08B, ''TLS_ECDHE_RSA_WITH_CAMELLIA_256_GCM_SHA384''),
    (0xC04C, ''TLS_ECDHE_RSA_WITH_ARIA_128_CBC_SHA256''),
    (0xC04D, ''TLS_ECDHE_RSA_WITH_ARIA_256_CBC_SHA384''),
    (0xC060, ''TLS_ECDHE_RSA_WITH_ARIA_128_GCM_SHA256''),
    (0xC061, ''TLS_ECDHE_RSA_WITH_ARIA_256_GCM_SHA384''),
    (0xCCA8, ''TLS_ECDHE_RSA_WITH_CHACHA20_POLY1305_SHA256''),
    (0xC001, ''TLS_ECDH_ECDSA_WITH_NULL_SHA''),
    (0xC002, ''TLS_ECDH_ECDSA_WITH_RC4_128_SHA''),
    (0xC003, ''TLS_ECDH_ECDSA_WITH_3DES_EDE_CBC_SHA''),
    (0xC004, ''TLS_ECDH_ECDSA_WITH_AES_128_CBC_SHA''),
    (0xC005, ''TLS_ECDH_ECDSA_WITH_AES_256_CBC_SHA''),
    (0xC025, ''TLS_ECDH_ECDSA_WITH_AES_128_CBC_SHA256''),
    (0xC026, ''TLS_ECDH_ECDSA_WITH_AES_256_CBC_SHA384''),
    (0xC02D, ''TLS_ECDH_ECDSA_WITH_AES_128_GCM_SHA256''),
    (0xC02E, ''TLS_ECDH_ECDSA_WITH_AES_256_GCM_SHA384''),
    (0xC074, ''TLS_ECDH_ECDSA_WITH_CAMELLIA_128_CBC_SHA256''),
    (0xC075, ''TLS_ECDH_ECDSA_WITH_CAMELLIA_256_CBC_SHA384''),
    (0xC088, ''TLS_ECDH_ECDSA_WITH_CAMELLIA_128_GCM_SHA256''),
    (0xC089, ''TLS_ECDH_ECDSA_WITH_CAMELLIA_256_GCM_SHA384''),
    (0xC04A, ''TLS_ECDH_ECDSA_WITH_ARIA_128_CBC_SHA256''),
    (0xC04B, ''TLS_ECDH_ECDSA_WITH_ARIA_256_CBC_SHA384''),
    (0xC05E, ''TLS_ECDH_ECDSA_WITH_ARIA_128_GCM_SHA256''),
    (0xC05F, ''TLS_ECDH_ECDSA_WITH_ARIA_256_GCM_SHA384''),
    (0xC006, ''TLS_ECDHE_ECDSA_WITH_NULL_SHA''),
    (0xC007, ''TLS_ECDHE_ECDSA_WITH_RC4_128_SHA''),
    (0xC008, ''TLS_ECDHE_ECDSA_WITH_3DES_EDE_CBC_SHA''),
    (0xC009, ''TLS_ECDHE_ECDSA_WITH_AES_128_CBC_SHA''),
    (0xC00A, ''TLS_ECDHE_ECDSA_WITH_AES_256_CBC_SHA''),
    (0xC023, ''TLS_ECDHE_ECDSA_WITH_AES_128_CBC_SHA256''),
    (0xC024, ''TLS_ECDHE_ECDSA_WITH_AES_256_CBC_SHA384''),
    (0xC02B, ''TLS_ECDHE_ECDSA_WITH_AES_128_GCM_SHA256''),
    (0xC02C, ''TLS_ECDHE_ECDSA_WITH_AES_256_GCM_SHA384''),
    (0xC0AC, ''TLS_ECDHE_ECDSA_WITH_AES_128_CCM''),
    (0xC0AD, ''TLS_ECDHE_ECDSA_WITH_AES_256_CCM''),
    (0xC0AE, ''TLS_ECDHE_ECDSA_WITH_AES_128_CCM_8''),
    (0xC0AF, ''TLS_ECDHE_ECDSA_WITH_AES_256_CCM_8''),
    (0xC072, ''TLS_ECDHE_ECDSA_WITH_CAMELLIA_128_CBC_SHA256''),
    (0xC073, ''TLS_ECDHE_ECDSA_WITH_CAMELLIA_256_CBC_SHA384''),
    (0xC086, ''TLS_ECDHE_ECDSA_WITH_CAMELLIA_128_GCM_SHA256''),
    (0xC087, ''TLS_ECDHE_ECDSA_WITH_CAMELLIA_256_GCM_SHA384''),
    (0xC048, ''TLS_ECDHE_ECDSA_WITH_ARIA_128_CBC_SHA256''),
    (0xC049, ''TLS_ECDHE_ECDSA_WITH_ARIA_256_CBC_SHA384''),
    (0xC05C, ''TLS_ECDHE_ECDSA_WITH_ARIA_128_GCM_SHA256''),
    (0xC05D, ''TLS_ECDHE_ECDSA_WITH_ARIA_256_GCM_SHA384''),
    (0xCCA9, ''TLS_ECDHE_ECDSA_WITH_CHACHA20_POLY1305_SHA256''),
    (0xC015, ''TLS_ECDH_ANON_WITH_NULL_SHA''),
    (0xC016, ''TLS_ECDH_ANON_WITH_RC4_128_SHA''),
    (0xC017, ''TLS_ECDH_ANON_WITH_3DES_EDE_CBC_SHA''),
    (0xC018, ''TLS_ECDH_ANON_WITH_AES_128_CBC_SHA''),
    (0xC019, ''TLS_ECDH_ANON_WITH_AES_256_CBC_SHA''),
    (0x002C, ''TLS_PSK_WITH_NULL_SHA''),
    (0x00B0, ''TLS_PSK_WITH_NULL_SHA256''),
    (0x00B1, ''TLS_PSK_WITH_NULL_SHA384''),
    (0x008A, ''TLS_PSK_WITH_RC4_128_SHA''),
    (0x008B, ''TLS_PSK_WITH_3DES_EDE_CBC_SHA''),
    (0x008C, ''TLS_PSK_WITH_AES_128_CBC_SHA''),
    (0x008D, ''TLS_PSK_WITH_AES_256_CBC_SHA''),
    (0x00AE, ''TLS_PSK_WITH_AES_128_CBC_SHA256''),
    (0x00AF, ''TLS_PSK_WITH_AES_256_CBC_SHA384''),
    (0x00A8, ''TLS_PSK_WITH_AES_128_GCM_SHA256''),
    (0x00A9, ''TLS_PSK_WITH_AES_256_GCM_SHA384''),
    (0xC0A4, ''TLS_PSK_WITH_AES_128_CCM''),
    (0xC0A5, ''TLS_PSK_WITH_AES_256_CCM''),
    (0xC0A8, ''TLS_PSK_WITH_AES_128_CCM_8''),
    (0xC0A9, ''TLS_PSK_WITH_AES_256_CCM_8''),
    (0xC094, ''TLS_PSK_WITH_CAMELLIA_128_CBC_SHA256''),
    (0xC095, ''TLS_PSK_WITH_CAMELLIA_256_CBC_SHA384''),
    (0xC08E, ''TLS_PSK_WITH_CAMELLIA_128_GCM_SHA256''),
    (0xC08F, ''TLS_PSK_WITH_CAMELLIA_256_GCM_SHA384''),
    (0xC064, ''TLS_PSK_WITH_ARIA_128_CBC_SHA256''),
    (0xC065, ''TLS_PSK_WITH_ARIA_256_CBC_SHA384''),
    (0xC06A, ''TLS_PSK_WITH_ARIA_128_GCM_SHA256''),
    (0xC06B, ''TLS_PSK_WITH_ARIA_256_GCM_SHA384'')]"

definition cipher_names_3 :: "(u32 \<times> string) list" where
  "cipher_names_3 = [
    (0xCCAB, ''TLS_PSK_WITH_CHACHA20_POLY1305_SHA256''),
    (0x002E, ''TLS_RSA_PSK_WITH_NULL_SHA''),
    (0x00B8, ''TLS_RSA_PSK_WITH_NULL_SHA256''),
    (0x00B9, ''TLS_RSA_PSK_WITH_NULL_SHA384''),
    (0x0092, ''TLS_RSA_PSK_WITH_RC4_128_SHA''),
    (0x0093, ''TLS_RSA_PSK_WITH_3DES_EDE_CBC_SHA''),
    (0x0094, ''TLS_RSA_PSK_WITH_AES_128_CBC_SHA''),
    (0x0095, ''TLS_RSA_PSK_WITH_AES_256_CBC_SHA''),
    (0x00B6, ''TLS_RSA_PSK_WITH_AES_128_CBC_SHA256''),
    (0x00B7, ''TLS_RSA_PSK_WITH_AES_256_CBC_SHA384''),
    (0x00AC, ''TLS_RSA_PSK_WITH_AES_128_GCM_SHA256''),
    (0x00AD, ''TLS_RSA_PSK_WITH_AES_256_GCM_SHA384''),
    (0xC098, ''TLS_RSA_PSK_WITH_CAMELLIA_128_CBC_SHA256''),
    (0xC099, ''TLS_RSA_PSK_WITH_CAMELLIA_256_CBC_SHA384''),
    (0xC092, ''TLS_RSA_PSK_WITH_CAMELLIA_128_GCM_SHA256''),
    (0xC093, ''TLS_RSA_PSK_WITH_CAMELLIA_256_GCM_SHA384''),
    (0xC068, ''TLS_RSA_PSK_WITH_ARIA_128_CBC_SHA256''),
    (0xC069, ''TLS_RSA_PSK_WITH_ARIA_256_CBC_SHA384''),
    (0xC06E, ''TLS_RSA_PSK_WITH_ARIA_128_GCM_SHA256''),
    (0xC06F, ''TLS_RSA_PSK_WITH_ARIA_256_GCM_SHA384''),
    (0xCCAE, ''TLS_RSA_PSK_WITH_CHACHA20_POLY1305_SHA256''),
    (0x002D, ''TLS_DHE_PSK_WITH_NULL_SHA''),
    (0x00B4, ''TLS_DHE_PSK_WITH_NULL_SHA256''),
    (0x00B5, ''TLS_DHE_PSK_WITH_NULL_SHA384''),
    (0x008E, ''TLS_DHE_PSK_WITH_RC4_128_SHA''),
    (0x008F, ''TLS_DHE_PSK_WITH_3DES_EDE_CBC_SHA''),
    (0x0090, ''TLS_DHE_PSK_WITH_AES_128_CBC_SHA''),
    (0x0091, ''TLS_DHE_PSK_WITH_AES_256_CBC_SHA''),
    (0x00B2, ''TLS_DHE_PSK_WITH_AES_128_CBC_SHA256''),
    (0x00B3, ''TLS_DHE_PSK_WITH_AES_256_CBC_SHA384''),
    (0x00AA, ''TLS_DHE_PSK_WITH_AES_128_GCM_SHA256''),
    (0x00AB, ''TLS_DHE_PSK_WITH_AES_256_GCM_SHA384''),
    (0xC0A6, ''TLS_DHE_PSK_WITH_AES_128_CCM''),
    (0xC0A7, ''TLS_DHE_PSK_WITH_AES_256_CCM''),
    (0xC0AA, ''TLS_DHE_PSK_WITH_AES_128_CCM_8''),
    (0xC0AB, ''TLS_DHE_PSK_WITH_AES_256_CCM_8''),
    (0xC096, ''TLS_DHE_PSK_WITH_CAMELLIA_128_CBC_SHA256''),
    (0xC097, ''TLS_DHE_PSK_WITH_CAMELLIA_256_CBC_SHA384''),
    (0xC090, ''TLS_DHE_PSK_WITH_CAMELLIA_128_GCM_SHA256''),
    (0xC091, ''TLS_DHE_PSK_WITH_CAMELLIA_256_GCM_SHA384''),
    (0xC066, ''TLS_DHE_PSK_WITH_ARIA_128_CBC_SHA256''),
    (0xC067, ''TLS_DHE_PSK_WITH_ARIA_256_CBC_SHA384''),
    (0xC06C, ''TLS_DHE_PSK_WITH_ARIA_128_GCM_SHA256''),
    (0xC06D, ''TLS_DHE_PSK_WITH_ARIA_256_GCM_SHA384''),
    (0xCCAD, ''TLS_DHE_PSK_WITH_CHACHA20_POLY1305_SHA256''),
    (0xC039, ''TLS_ECDHE_PSK_WITH_NULL_SHA''),
    (0xC03A, ''TLS_ECDHE_PSK_WITH_NULL_SHA256''),
    (0xC03B, ''TLS_ECDHE_PSK_WITH_NULL_SHA384''),
    (0xC033, ''TLS_ECDHE_PSK_WITH_RC4_128_SHA''),
    (0xC034, ''TLS_ECDHE_PSK_WITH_3DES_EDE_CBC_SHA''),
    (0xC035, ''TLS_ECDHE_PSK_WITH_AES_128_CBC_SHA''),
    (0xC036, ''TLS_ECDHE_PSK_WITH_AES_256_CBC_SHA''),
    (0xC037, ''TLS_ECDHE_PSK_WITH_AES_128_CBC_SHA256''),
    (0xC038, ''TLS_ECDHE_PSK_WITH_AES_256_CBC_SHA384''),
    (0xD001, ''TLS_ECDHE_PSK_WITH_AES_128_GCM_SHA256''),
    (0xD002, ''TLS_ECDHE_PSK_WITH_AES_256_GCM_SHA384''),
    (0xD005, ''TLS_ECDHE_PSK_WITH_AES_128_CCM_SHA256''),
    (0xD003, ''TLS_ECDHE_PSK_WITH_AES_128_CCM_8_SHA256''),
    (0xC09A, ''TLS_ECDHE_PSK_WITH_CAMELLIA_128_CBC_SHA256''),
    (0xC09B, ''TLS_ECDHE_PSK_WITH_CAMELLIA_256_CBC_SHA384''),
    (0xC070, ''TLS_ECDHE_PSK_WITH_ARIA_128_CBC_SHA256''),
    (0xC071, ''TLS_ECDHE_PSK_WITH_ARIA_256_CBC_SHA384''),
    (0xCCAC, ''TLS_ECDHE_PSK_WITH_CHACHA20_POLY1305_SHA256''),
    (0x002B, ''TLS_KRB5_EXPORT_WITH_RC4_40_MD5''),
    (0x0028, ''TLS_KRB5_EXPORT_WITH_RC4_40_SHA''),
    (0x002A, ''TLS_KRB5_EXPORT_WITH_RC2_CBC_40_MD5''),
    (0x0027, ''TLS_KRB5_EXPORT_WITH_RC2_CBC_40_SHA''),
    (0x0029, ''TLS_KRB5_EXPORT_WITH_DES_CBC_40_MD5''),
    (0x0026, ''TLS_KRB5_EXPORT_WITH_DES_CBC_40_SHA''),
    (0x0024, ''TLS_KRB5_WITH_RC4_128_MD5''),
    (0x0020, ''TLS_KRB5_WITH_RC4_128_SHA''),
    (0x0025, ''TLS_KRB5_WITH_IDEA_CBC_MD5''),
    (0x0021, ''TLS_KRB5_WITH_IDEA_CBC_SHA''),
    (0x0022, ''TLS_KRB5_WITH_DES_CBC_MD5''),
    (0x001E, ''TLS_KRB5_WITH_DES_CBC_SHA''),
    (0x0023, ''TLS_KRB5_WITH_3DES_EDE_CBC_MD5''),
    (0x001F, ''TLS_KRB5_WITH_3DES_EDE_CBC_SHA''),
    (0xC01A, ''TLS_SRP_SHA_WITH_3DES_EDE_CBC_SHA''),
    (0xC01D, ''TLS_SRP_SHA_WITH_AES_128_CBC_SHA''),
    (0xC020, ''TLS_SRP_SHA_WITH_AES_256_CBC_SHA''),
    (0xC01B, ''TLS_SRP_SHA_RSA_WITH_3DES_EDE_CBC_SHA''),
    (0xC01E, ''TLS_SRP_SHA_RSA_WITH_AES_128_CBC_SHA''),
    (0xC021, ''TLS_SRP_SHA_RSA_WITH_AES_256_CBC_SHA''),
    (0xC01C, ''TLS_SRP_SHA_DSS_WITH_3DES_EDE_CBC_SHA''),
    (0xC01F, ''TLS_SRP_SHA_DSS_WITH_AES_128_CBC_SHA''),
    (0xC022, ''TLS_SRP_SHA_DSS_WITH_AES_256_CBC_SHA''),
    (0xC0B0, ''TLS_ECCPWD_WITH_AES_128_GCM_SHA256''),
    (0xC0B1, ''TLS_ECCPWD_WITH_AES_256_GCM_SHA384''),
    (0xC0B2, ''TLS_ECCPWD_WITH_AES_128_CCM_SHA256''),
    (0xC0B3, ''TLS_ECCPWD_WITH_AES_256_CCM_SHA384''),
    (0xC100, ''TLS_GOSTR341112_256_WITH_KUZNYECHIK_CTR_OMAC''),
    (0xC101, ''TLS_GOSTR341112_256_WITH_MAGMA_CTR_OMAC''),
    (0xC102, ''TLS_GOSTR341112_256_WITH_28147_CNT_IMIT''),
    (0x1301, ''TLS_AES_128_GCM_SHA256''),
    (0x1302, ''TLS_AES_256_GCM_SHA384''),
    (0x1304, ''TLS_AES_128_CCM_SHA256''),
    (0x1305, ''TLS_AES_128_CCM_8_SHA256''),
    (0x1303, ''TLS_CHACHA20_POLY1305_SHA256''),
    (0x00C6, ''TLS_SM4_GCM_SM3''),
    (0x00C7, ''TLS_SM4_CCM_SM3''),
    (0xC0B4, ''TLS_SHA256_SHA256''),
    (0xC0B5, ''TLS_SHA384_SHA384''),
    (0x00FF, ''TLS_EMPTY_RENEGOTIATION_INFO_SCSV''),
    (0x5600, ''TLS_FALLBACK_SCSV''),
    (0x0A0A, ''TLS_CIPHER_GREASE_RESERVED_0''),
    (0x1A1A, ''TLS_CIPHER_GREASE_RESERVED_1''),
    (0x2A2A, ''TLS_CIPHER_GREASE_RESERVED_2''),
    (0x3A3A, ''TLS_CIPHER_GREASE_RESERVED_3''),
    (0x4A4A, ''TLS_CIPHER_GREASE_RESERVED_4''),
    (0x5A5A, ''TLS_CIPHER_GREASE_RESERVED_5''),
    (0x6A6A, ''TLS_CIPHER_GREASE_RESERVED_6''),
    (0x7A7A, ''TLS_CIPHER_GREASE_RESERVED_7''),
    (0x8A8A, ''TLS_CIPHER_GREASE_RESERVED_8''),
    (0x9A9A, ''TLS_CIPHER_GREASE_RESERVED_9''),
    (0xAAAA, ''TLS_CIPHER_GREASE_RESERVED_A''),
    (0xBABA, ''TLS_CIPHER_GREASE_RESERVED_B''),
    (0xCACA, ''TLS_CIPHER_GREASE_RESERVED_C''),
    (0xDADA, ''TLS_CIPHER_GREASE_RESERVED_D''),
    (0xEAEA, ''TLS_CIPHER_GREASE_RESERVED_E''),
    (0xFAFA, ''TLS_CIPHER_GREASE_RESERVED_F'')]"

definition ndpi_cipher2str :: "u32 \<Rightarrow> bytes" where
  "ndpi_cipher2str cipher =
     (case map_of (cipher_names_1 @ cipher_names_2 @ cipher_names_3) cipher of
        Some t \<Rightarrow> str t
      | None \<Rightarrow> printed 8 (str ''0X'' @ hex_pad True 4 (unat cipher)))"

section \<open>Risks\<close>

abbreviation (input) NDPI_MAX_RISK :: nat where "NDPI_MAX_RISK \<equiv> 42"

definition NDPI_ISSET_BIT :: "u64 \<Rightarrow> nat \<Rightarrow> bool" where
  "NDPI_ISSET_BIT num n \<longleftrightarrow> num AND push_bit n 1 \<noteq> 0"

definition risk_names :: "(nat \<times> string) list" where
  "risk_names = [
    (1, ''XSS Attack''),
    (2, ''SQL Injection''),
    (3, ''RCE Injection''),
    (4, ''Binary Application Transfer''),
    (5, ''Known Protocol on Non Standard Port''),
    (6, ''Self-signed Certificate''),
    (7, ''Obsolete TLS Version (1.1 or older)''),
    (8, ''Weak TLS Cipher''),
    (9, ''TLS Expired Certificate''),
    (10, ''TLS Certificate Mismatch''),
    (11, ''HTTP Suspicious User-Agent''),
    (12, ''HTTP Numeric IP Address''),
    (13, ''HTTP Suspicious URL''),
    (14, ''HTTP Suspicious Header''),
    (15, ''TLS (probably) Not Carrying HTTPS''),
    (16, ''Suspicious DGA Domain name''),
    (17, ''Malformed Packet''),
    (18, ''SSH Obsolete Client Version/Cipher''),
    (19, ''SSH Obsolete Server Version/Cipher''),
    (20, ''SMB Insecure Version''),
    (21, ''TLS Suspicious ESNI Usage''),
    (22, ''Unsafe Protocol''),
    (23, ''Suspicious DNS Traffic''),
    (24, ''Missing SNI TLS Extension''),
    (25, ''HTTP Suspicious Content''),
    (26, ''Risky ASN''),
    (27, ''Risky Domain Name''),
    (28, ''Possibly Malicious JA3 Fingerprint''),
    (29, ''Possibly Malicious SSL Cert. SHA1 Fingerprint''),
    (30, ''Desktop/File Sharing Session''),
    (31, ''Uncommon TLS ALPN''),
    (32, ''TLS Certificate Validity Too Long''),
    (33, ''TLS Suspicious Extension''),
    (34, ''TLS Fatal Alert''),
    (35, ''Suspicious Entropy''),
    (36, ''Clear-Text Credentials''),
    (37, ''DNS Packet Larger Than 512 bytes''),
    (38, ''Fragmented DNS Message''),
    (39, ''Text Contains Non-Printable Characters''),
    (40, ''Possible Exploit Detected''),
    (41, ''TLS Certificate About To Expire'')]"

definition ndpi_risk2str :: "nat \<Rightarrow> bytes" where
  "ndpi_risk2str r = (case map_of risk_names r of Some t \<Rightarrow> str t | None \<Rightarrow> printed 16 (show_nat r))"

section \<open>TLS versions\<close>

definition ssl_versions :: "(u16 \<times> string) list" where
  "ssl_versions = [(0x0300, ''SSLv3''), (0x0301, ''TLSv1''), (0x0302, ''TLSv1.1''), (0x0303, ''TLSv1.2''),
     (0x0304, ''TLSv1.3''), (0xFB1A, ''TLSv1.3 (Fizz)''), (0xFEFF, ''DTLSv1.0''), (0xFEFD, ''DTLSv1.2''),
     (0x0A0A, ''GREASE''), (0x1A1A, ''GREASE''), (0x2A2A, ''GREASE''), (0x3A3A, ''GREASE''),
     (0x4A4A, ''GREASE''), (0x5A5A, ''GREASE''), (0x6A6A, ''GREASE''), (0x7A7A, ''GREASE''),
     (0x8A8A, ''GREASE''), (0x9A9A, ''GREASE''), (0xAAAA, ''GREASE''), (0xBABA, ''GREASE''),
     (0xCACA, ''GREASE''), (0xDADA, ''GREASE''), (0xEAEA, ''GREASE''), (0xFAFA, ''GREASE'')]"

text \<open>
  The name as it is read from the caller's buffer of \<open>n\<close> bytes, and whether the version is unknown.
  No name is written into a buffer of at most one byte.
\<close>

definition ndpi_ssl_version2str :: "nat \<Rightarrow> u16 \<Rightarrow> bytes option \<times> bool" where
  "ndpi_ssl_version2str n version =
     (if n \<le> 1 then (None, False)
      else case map_of ssl_versions version of
          Some t \<Rightarrow> (Some (printed n (str t)), False)
        | None \<Rightarrow>
            if 0x7f00 \<le> version \<and> version \<le> 0x7fff then (Some (printed n (str ''TLSv1.3 (draft)'')), False)
            else (Some (printed n (str ''TLS ('' @ hex_pad True 4 (unat version) @ str '')'')), True))"

section \<open>Categories and breeds\<close>

abbreviation (input) NDPI_PROTOCOL_NUM_CATEGORIES :: nat where "NDPI_PROTOCOL_NUM_CATEGORIES \<equiv> 106"

definition categories :: "string list" where
  "categories = [
    ''Unspecified'',
    ''Media'',
    ''VPN'',
    ''Email'',
    ''DataTransfer'',
    ''Web'',
    ''SocialNetwork'',
    ''Download'',
    ''Game'',
    ''Chat'',
    ''VoIP'',
    ''Database'',
    ''RemoteAccess'',
    ''Cloud'',
    ''Network'',
    ''Collaborative'',
    ''RPC'',
    ''Streaming'',
    ''System'',
    ''SoftwareUpdate'',
    '''',
    '''',
    '''',
    '''',
    '''',
    ''Music'',
    ''Video'',
    ''Shopping'',
    ''Productivity'',
    ''FileSharing'',
    ''ConnCheck'',
    ''IoT-Scada'',
    ''VirtAssistant'',
    '''',
    '''',
    '''',
    '''',
    '''',
    '''',
    '''',
    '''',
    '''',
    '''',
    '''',
    '''',
    '''',
    '''',
    '''',
    '''',
    '''',
    '''',
    '''',
    '''',
    '''',
    '''',
    '''',
    '''',
    '''',
    '''',
    '''',
    '''',
    '''',
    '''',
    '''',
    '''',
    '''',
    '''',
    '''',
    '''',
    '''',
    '''',
    '''',
    '''',
    '''',
    '''',
    '''',
    '''',
    '''',
    '''',
    '''',
    '''',
    '''',
    '''',
    '''',
    '''',
    '''',
    '''',
    '''',
    '''',
    '''',
    '''',
    '''',
    '''',
    '''',
    '''',
    '''',
    '''',
    '''',
    '''',
    ''Mining'',
    ''Malware'',
    ''Advertisement'',
    ''Banned_Site'',
    ''Site_Unavailable'',
    ''Allowed_Site'',
    ''Antimalware'']"

text \<open>
  The labels of the five user categories are arrays in the module and are read up to their zero;
  the others come from the table.
\<close>

definition label_text :: "bytes \<Rightarrow> bytes option" where
  "label_text buf = map_option (\<lambda>n. take n buf) (c_strlen buf)"

definition ndpi_category_get_name :: "ndpi_module \<Rightarrow> nat \<Rightarrow> bytes option" where
  "ndpi_category_get_name m c =
     (if NDPI_PROTOCOL_NUM_CATEGORIES \<le> c
      then Some (printed 24 (str ''Invalid category '' @ show_int (sint (word_of_nat c :: u32))))
      else if 20 \<le> c \<and> c \<le> 24 then Option.bind (at (custom_category_labels m) (c - 20)) label_text
      else map_option str (at categories c))"

definition ndpi_get_proto_breed_name :: "nat \<Rightarrow> bytes" where
  "ndpi_get_proto_breed_name breed =
     (if breed = 0 then str ''Safe''
      else if breed = 1 then str ''Acceptable''
      else if breed = 2 then str ''Fun''
      else if breed = 3 then str ''Unsafe''
      else if breed = 4 then str ''Potentially Dangerous''
      else if breed = 6 then str ''Tracker/Ads''
      else if breed = 5 then str ''Dangerous''
      else if breed = 7 then str ''Unrated''
      else str ''???'')"

section \<open>The names are strings\<close>

text \<open>No name contains a zero byte, and every name is short.\<close>

definition text_ok :: "nat \<Rightarrow> bytes \<Rightarrow> bool" where
  "text_ok k t \<longleftrightarrow> 0 \<notin> set t \<and> length t \<le> k"

definition plain_name :: "nat \<Rightarrow> string \<Rightarrow> bool" where
  "plain_name k t \<longleftrightarrow> length t \<le> k \<and> list_all (\<lambda>c. c \<noteq> CHR 0x00) t"

lemma char_byte_nonzero: "c \<noteq> CHR 0x00 \<Longrightarrow> (word_of_nat (of_char c) :: u8) \<noteq> 0"
proof -
  assume c: "c \<noteq> CHR 0x00"
  have z: "of_char c \<noteq> (0 :: nat)" using c of_char_eq_iff [of c "CHR 0x00", where 'a = nat] by simp
  have l: "of_char c < (256 :: nat)" by (rule nat_of_char_less_256)
  have "unat (word_of_nat (of_char c) :: u8) = of_char c" using l by (simp only: unat_of_nat take_bit_nat_eq_self_iff) simp
  then show ?thesis using z by (metis unat_0)
qed

lemma plain_name_ok: "plain_name k t \<Longrightarrow> text_ok k (str t)"
proof -
  assume t: "plain_name k t"
  have nz: "word_of_nat (of_char c) \<noteq> (0 :: u8)" if c: "c \<in> set t" for c
  proof (rule char_byte_nonzero)
    have "\<forall>c \<in> set t. c \<noteq> CHR 0x00" using t unfolding plain_name_def list_all_iff by (rule conjunct2)
    then show "c \<noteq> CHR 0x00" using c by (rule bspec)
  qed
  have "0 \<notin> set (str t)"
  proof
    assume "0 \<in> set (str t)"
    then obtain c where "c \<in> set t" "0 = (word_of_nat (of_char c) :: u8)" unfolding str_def set_map by (rule imageE)
    then show False using nz [of c] by simp
  qed
  then show ?thesis using t by (simp add: text_ok_def plain_name_def)
qed

lemma cipher_names_plain:
  "list_all (\<lambda>(c, t). plain_name 60 t) cipher_names_1"
  "list_all (\<lambda>(c, t). plain_name 60 t) cipher_names_2"
  "list_all (\<lambda>(c, t). plain_name 60 t) cipher_names_3"
  by code_simp+

lemma risk_names_plain: "list_all (\<lambda>(r, t). plain_name 60 t) risk_names"
  by code_simp

lemma categories_plain: "list_all (plain_name 60) categories" "length categories = NDPI_PROTOCOL_NUM_CATEGORIES"
  by code_simp+

lemma ssl_versions_plain: "list_all (\<lambda>(v, t). plain_name 15 t) ssl_versions"
  by code_simp

lemma map_of_plain: "list_all (\<lambda>(k, t). plain_name n t) xs \<Longrightarrow> map_of xs k = Some t \<Longrightarrow> text_ok n (str t)"
  by (auto simp: list_all_iff dest!: map_of_SomeD bspec intro: plain_name_ok)

lemma text_ok_mono: "text_ok k t \<Longrightarrow> k \<le> l \<Longrightarrow> text_ok l t"
  by (simp add: text_ok_def)

lemma text_ok_printed: "0 \<notin> set t \<Longrightarrow> text_ok (n - 1) (printed n t)"
  by (auto simp: text_ok_def printed_def dest: in_set_takeD)

lemma show_nat_plain: "0 \<notin> set (show_nat n)"
  using show_nat_digits [of n] by (auto simp: list_all_iff c_isdigit_def dest: bspec [where x = 0])

lemma show_int_plain: "0 \<notin> set (show_int i)"
  using show_nat_plain by (simp add: show_int_def)

lemma hex_digit_nonzero: "d < 16 \<Longrightarrow> hex_digit up d \<noteq> 0"
  by (cases up) (simp_all add: hex_digit_def word_of_nat_eq_0_iff nat_dvd_not_less)

lemma show_hex_plain: "0 \<notin> set (show_hex up n)"
proof (induction n rule: less_induct)
  case (less n)
  have "0 \<notin> set (show_hex up (n div 16))" if "16 \<le> n" using less.IH [of "n div 16"] that by simp
  then show ?case
    using hex_digit_nonzero [of n up] hex_digit_nonzero [of "n mod 16" up] by (subst show_hex.simps) auto
qed

lemma hex_pad_plain: "0 \<notin> set (hex_pad up k n)"
  using show_hex_plain by (simp add: hex_pad_def Let_def)

lemma cipher_name_ok: "text_ok 60 (ndpi_cipher2str c)"
proof -
  have "text_ok 7 (printed 8 (str ''0X'' @ hex_pad True 4 (unat c)))"
    using text_ok_printed [of "str ''0X'' @ hex_pad True 4 (unat c)" 8] hex_pad_plain by (simp add: str_def)
  then show ?thesis using cipher_names_plain [THEN map_of_plain, of c]
    by (auto simp: ndpi_cipher2str_def map_add_def intro: text_ok_mono split: option.splits)
qed

lemma risk_name_ok: "text_ok 60 (ndpi_risk2str r)"
  using map_of_plain [OF risk_names_plain, of r] text_ok_mono [OF text_ok_printed [OF show_nat_plain, of 16 r], of 60]
  by (auto simp: ndpi_risk2str_def split: option.splits)

lemma breed_name_ok: "text_ok 60 (ndpi_get_proto_breed_name b)"
  by (simp add: ndpi_get_proto_breed_name_def text_ok_def str_def)

text \<open>The labels that are arrays of the module are strings when they are terminated.\<close>

definition labels_ok :: "ndpi_module \<Rightarrow> bool" where
  "labels_ok m \<longleftrightarrow> length (custom_category_labels m) = 5
     \<and> (\<forall>l \<in> set (custom_category_labels m). length l = 32 \<and> 0 \<in> set l)"

lemma c_strlen_some: "0 \<in> set b \<Longrightarrow> \<exists>n. c_strlen b = Some n \<and> n < length b \<and> 0 \<notin> set (take n b)"
proof (induction b)
  case (Cons x b)
  then show ?case by (cases "x = 0") auto
qed simp

lemma label_text_ok: "0 \<in> set b \<Longrightarrow> \<exists>t. label_text b = Some t \<and> text_ok (length b) t"
  using c_strlen_some [of b] by (auto simp: label_text_def text_ok_def)

lemma category_name_ok:
  assumes "labels_ok m"
  shows "\<exists>t. ndpi_category_get_name m c = Some t \<and> text_ok 60 t"
proof -
  consider (inv) "NDPI_PROTOCOL_NUM_CATEGORIES \<le> c" | (custom) "20 \<le> c" "c \<le> 24" | (plain) "c < NDPI_PROTOCOL_NUM_CATEGORIES" "\<not> (20 \<le> c \<and> c \<le> 24)"
    by linarith
  then show ?thesis
  proof cases
    case inv
    have "text_ok 23 (printed 24 (str ''Invalid category '' @ show_int (sint (word_of_nat c :: u32))))"
      using text_ok_printed [of "str ''Invalid category '' @ show_int (sint (word_of_nat c :: u32))" 24] show_int_plain
      by (simp add: str_def)
    then show ?thesis using inv text_ok_mono by (fastforce simp: ndpi_category_get_name_def)
  next
    case custom
    have l: "c - 20 < length (custom_category_labels m)" using custom assms by (simp add: labels_ok_def)
    from assms nth_mem [OF l] obtain t where "label_text (custom_category_labels m ! (c - 20)) = Some t" "text_ok 32 t"
      using label_text_ok by (fastforce simp: labels_ok_def)
    then show ?thesis using custom l text_ok_mono [of 32 t 60] by (auto simp: ndpi_category_get_name_def at_def)
  next
    case plain
    then have "plain_name 60 (categories ! c)" using categories_plain by (simp add: list_all_length)
    then show ?thesis using plain categories_plain(2) plain_name_ok by (auto simp: ndpi_category_get_name_def at_def)
  qed
qed

end
