(* ===== verification/Json_Trees.thy ===== *)
theory Json_Trees
  imports Json_Append
begin

text \<open>
  Code that writes a whole report calls the serializer many times and ignores what the calls
  return. What such code adds to a document is a list of trees: entries, and blocks of trees. The
  predicate \<open>writes\<close> says that code adds certain trees when the buffer can grow as far as they
  need, and has a rule for each way in which calls are composed.
\<close>

section \<open>Trees\<close>

datatype json_tree = Entry tlv_key json_value | Block bytes "json_tree list"

primrec tree_text :: "(u32 \<Rightarrow> bytes) \<Rightarrow> bool \<Rightarrow> json_tree \<Rightarrow> bytes" where
  "tree_text ff sg (Entry k v) = key_text sg (norm_key k) @ value_text ff sg v"
| "tree_text ff sg (Block n ts) = quoted sg n @ [ch_colon, ch_space] @ json_object (map (tree_text ff sg) ts)"

primrec tree_ok :: "(u32 \<Rightarrow> bytes) \<Rightarrow> bool \<Rightarrow> json_tree \<Rightarrow> bool" where
  "tree_ok ff sg (Entry k v) \<longleftrightarrow> member_ok ff sg k v"
| "tree_ok ff sg (Block n ts) \<longleftrightarrow> name_ok n \<and> length (esc sg n) \<le> length n + 8 \<and> list_all (tree_ok ff sg) ts"

primrec tree_cost :: "json_tree \<Rightarrow> nat" where
  "tree_cost (Entry k v) = json_cost (Member k v)"
| "tree_cost (Block n ts) = json_cost (Open_block n) + sum_list (map tree_cost ts) + json_cost Close_block"

fun add_trees :: "(u32 \<Rightarrow> bytes) \<Rightarrow> bool \<Rightarrow> json_tree list \<Rightarrow> json_doc \<Rightarrow> json_doc" where
  "add_trees ff sg ts (done, blocks, cur) = (done, blocks, cur @ map (tree_text ff sg) ts)"

abbreviation total_cost :: "json_tree list \<Rightarrow> nat" where
  "total_cost ts \<equiv> sum_list (map tree_cost ts)"

lemma add_trees_Nil [simp]: "add_trees ff sg [] doc = doc"
  by (cases doc) simp

lemma add_trees_append [simp]: "add_trees ff sg (ts @ us) doc = add_trees ff sg us (add_trees ff sg ts doc)"
  by (cases doc) simp

lemma fst_add_trees [simp]: "fst (add_trees ff sg ts doc) = fst doc" "fst (snd (add_trees ff sg ts doc)) = fst (snd doc)"
  by (cases doc; simp)+

lemma add_trees_Entry: "add_trees ff sg [Entry k v] doc = act_step ff sg (Member k v) doc"
  by (cases doc) simp

lemma add_trees_Block:
  "add_trees ff sg [Block n ts] doc = close_block (add_trees ff sg ts (open_block (quoted sg n) doc))"
  by (cases doc) simp

section \<open>The calls\<close>

definition ignore_rc :: "(int \<times> serializer) option \<Rightarrow> serializer option" where
  "ignore_rc r = map_option snd r"

definition string_text :: "c_env \<Rightarrow> string \<Rightarrow> bytes option \<Rightarrow> serializer \<Rightarrow> serializer option" where
  "string_text env key v s = ignore_rc (ndpi_serialize_string_string env s (cstr (str key)) v)"

definition string_u32 :: "c_env \<Rightarrow> string \<Rightarrow> u32 \<Rightarrow> serializer \<Rightarrow> serializer option" where
  "string_u32 env key v s = ignore_rc (ndpi_serialize_string_uint32 env s (cstr (str key)) v)"

definition in_block ::
  "c_env \<Rightarrow> string \<Rightarrow> (serializer \<Rightarrow> serializer option) \<Rightarrow> serializer \<Rightarrow> serializer option" where
  "in_block env key body s = do {
     s \<leftarrow> ignore_rc (ndpi_serialize_start_of_block env s (Some (cstr (str key))));
     s \<leftarrow> body s;
     ignore_rc (ndpi_serialize_end_of_block env s)
   }"

section \<open>What code writes\<close>

definition writes ::
  "c_env \<Rightarrow> (u32 \<Rightarrow> bytes) \<Rightarrow> (serializer \<Rightarrow> serializer option) \<Rightarrow> json_tree list \<Rightarrow> bool" where
  "writes env ff f ts \<longleftrightarrow> (\<forall>s doc. json_rep s doc \<and> fst doc = [] \<and> can_grow env s (total_cost ts) \<longrightarrow>
     (\<exists>t. f s = Some t \<and> json_rep t (add_trees ff (char_signed env) ts doc) \<and> ssize t \<le> ssize s + total_cost ts))"

named_theorems writes_intros

lemma writesE:
  assumes "writes env ff f ts" "json_rep s doc" "fst doc = []" "can_grow env s (total_cost ts)"
  obtains t where "f s = Some t" "json_rep t (add_trees ff (char_signed env) ts doc)" "ssize t \<le> ssize s + total_cost ts"
  using assms unfolding writes_def by blast

lemma writes_Nil [writes_intros]: "writes env ff Some []"
  by (simp add: writes_def)

lemma writes_bind [writes_intros]:
  assumes "writes env ff f ts" "writes env ff g us"
  shows "writes env ff (\<lambda>s. Option.bind (f s) g) (ts @ us)"
  unfolding writes_def
proof (intro allI impI, elim conjE)
  fix s doc assume s: "json_rep s doc" "fst doc = []" "can_grow env s (total_cost (ts @ us))"
  have "can_grow env s (total_cost ts)" using can_grow_mono [OF s(3)] by simp
  from writesE [OF assms(1) s(1,2) this] obtain t where
    t: "f s = Some t" "json_rep t (add_trees ff (char_signed env) ts doc)" "ssize t \<le> ssize s + total_cost ts" .
  have "can_grow env t (total_cost us)" using can_grow_after [of env s] t(3) s(3) by simp
  from writesE [OF assms(2) t(2) _ this] s(2) obtain u where
    "g t = Some u" "json_rep u (add_trees ff (char_signed env) us (add_trees ff (char_signed env) ts doc))"
    "ssize u \<le> ssize t + total_cost us" by auto
  then show "\<exists>u. Option.bind (f s) g = Some u \<and> json_rep u (add_trees ff (char_signed env) (ts @ us) doc)
      \<and> ssize u \<le> ssize s + total_cost (ts @ us)"
    using t by simp
qed

lemma writes_if [writes_intros]:
  "(c \<Longrightarrow> writes env ff f ts) \<Longrightarrow> (\<not> c \<Longrightarrow> writes env ff g us) \<Longrightarrow>
   writes env ff (\<lambda>s. if c then f s else g s) (if c then ts else us)"
  by simp

lemma writes_step:
  assumes "\<And>s doc. json_rep s doc \<Longrightarrow> fst doc = [] \<Longrightarrow>
      json_step env s (total_cost ts) doc (add_trees ff (char_signed env) ts doc) (call s)"
  shows "writes env ff (\<lambda>s. ignore_rc (call s)) ts"
  using assms unfolding writes_def json_step_def ignore_rc_def by fastforce

lemma writes_block [writes_intros]:
  assumes env: "env_ok env" and body: "writes env ff body ts"
    and key: "name_ok (str key)" "length (esc (char_signed env) (str key)) \<le> length key + 8"
  shows "writes env ff (in_block env key body) [Block (str key) ts]"
  unfolding writes_def
proof (intro allI impI, elim conjE)
  fix s doc
  let ?sg = "char_signed env" and ?o = "json_cost (Open_block (str key))"
  assume s: "json_rep s doc" "fst doc = []" "can_grow env s (total_cost [Block (str key) ts])"
  have ok: "json_ok ff ?sg (Open_block (str key)) doc" using key s(2) by simp
  have g: "can_grow env s ?o" using can_grow_mono [OF s(3)] by simp
  from json.call_steps [OF env s(1) ok] g obtain t where
    t: "ndpi_serialize_start_of_block env s (Some (cstr (str key))) = Some (0, t)"
      "json_rep t (open_block (quoted ?sg (str key)) doc)" "ssize t \<le> ssize s + ?o"
    by (auto simp: json_step_def)
  have "can_grow env t (total_cost ts + json_cost Close_block)"
    by (rule can_grow_after [of env s ?o]) (use s(3) t(3) in \<open>simp_all add: ac_simps\<close>)
  then have gt: "can_grow env t (total_cost ts)" using can_grow_mono by fastforce
  have o: "fst (open_block (quoted ?sg (str key)) doc) = []" "fst (snd (open_block (quoted ?sg (str key)) doc)) \<noteq> []"
    using s(2) by (cases doc; simp)+
  from writesE [OF body t(2) o(1) gt] obtain u where
    u: "body t = Some u" "json_rep u (add_trees ff ?sg ts (open_block (quoted ?sg (str key)) doc))"
      "ssize u \<le> ssize t + total_cost ts" .
  have "json_ok ff ?sg Close_block (add_trees ff ?sg ts (open_block (quoted ?sg (str key)) doc))" using o(2) by simp
  moreover have "can_grow env u (json_cost Close_block)"
    using \<open>can_grow env t (total_cost ts + json_cost Close_block)\<close> can_grow_after [of env t] u(3) by simp
  ultimately obtain v where v: "ndpi_serialize_end_of_block env u = Some (0, v)"
      "json_rep v (add_trees ff ?sg [Block (str key) ts] doc)" "ssize v \<le> ssize u + json_cost Close_block"
    using json.call_steps [OF env u(2)] add_trees_Block [of ff ?sg "str key" ts doc]
    by (fastforce simp: json_step_def simp del: add_trees.simps json_cost.simps)
  then show "\<exists>v. in_block env key body s = Some v \<and> json_rep v (add_trees ff ?sg [Block (str key) ts] doc)
      \<and> ssize v \<le> ssize s + total_cost [Block (str key) ts]"
    using t u by (intro exI [of _ v]) (simp add: in_block_def ignore_rc_def)
qed

section \<open>Entries\<close>

text \<open>Names that are written as they are: letters, digits and underscores, not digits alone.\<close>

definition plain_key :: "bytes \<Rightarrow> bool" where
  "plain_key n \<longleftrightarrow> length n < 256 \<and> \<not> list_all c_isdigit n
     \<and> list_all (\<lambda>c. 48 \<le> c \<and> c \<le> 57 \<or> 65 \<le> c \<and> c \<le> 90 \<or> 95 \<le> c \<and> c \<le> 122) n"

lemma plain_key_esc: "plain_key n \<Longrightarrow> esc sg n = n"
proof -
  assume n: "plain_key n"
  have "json_escape_char sg c = [c]" if "c \<in> set n" for c
  proof -
    have r: "48 \<le> c \<and> c \<le> 57 \<or> 65 \<le> c \<and> c \<le> 90 \<or> 95 \<le> c \<and> c \<le> 122"
      using n that unfolding plain_key_def list_all_iff by blast
    then have "c < 128" "32 \<le> c" by (auto simp: word_le_nat_alt word_less_nat_alt)
    moreover have "c \<noteq> 92" "c \<noteq> 34" "c \<noteq> 47" using r by auto
    ultimately show ?thesis by (auto simp: json_escape_char_def below_space_def)
  qed
  then have "\<forall>c \<in> set n. json_escape_char sg c = [c]" by blast
  then show ?thesis unfolding esc_def by (induction n) auto
qed

lemma plain_key_ok: "plain_key n \<Longrightarrow> name_ok n" "plain_key n \<Longrightarrow> length (esc sg n) \<le> length n + 8"
  by (auto simp: name_ok_def plain_key_esc, auto simp: plain_key_def list_all_iff)

lemma key_ok_plain: "plain_key n \<Longrightarrow> key_ok (cstr n) (length n)"
  using key_ok_name plain_key_ok(1) by blast

text \<open>The text that a pointer to a string stands for: of a null pointer, the empty text.\<close>

definition pointed_text :: "bytes option \<Rightarrow> bytes option" where
  "pointed_text p = (case p of None \<Rightarrow> Some [] | Some b \<Rightarrow> map_option (\<lambda>n. take n b) (c_strlen b))"

lemma c_strlen_bounds: "c_strlen b = Some n \<Longrightarrow> n < length b \<and> 0 \<notin> set (take n b)"
proof (induction b arbitrary: n)
  case (Cons c b)
  then show ?case by (cases "c = 0") auto
qed simp

lemma writes_string_text [writes_intros]:
  assumes env: "env_ok env" and key: "plain_key (str key)" and v: "pointed_text v = Some t" "length t < 65536"
  shows "writes env ff (string_text env key v) [Entry (Name (str key)) (JString t)]"
  unfolding string_text_def
proof (rule writes_step)
  fix s doc assume s: "json_rep s doc" "fst doc = []"
  let ?b = "case v of None \<Rightarrow> [0] | Some b \<Rightarrow> b"
  obtain n where n: "c_strlen ?b = Some n" "take n ?b = t" "n \<le> length ?b" "n = length t"
    using v c_strlen_bounds by (cases v) (fastforce simp: pointed_text_def min_def)+
  have k: "c_strlen (cstr (str key)) = Some (length key)" "length key < 65536"
    using key plain_key_ok(1) [OF key] by (simp_all add: name_ok_def)
  have "ndpi_serialize_string_string env s (cstr (str key)) v
      = ndpi_serialize_binary_binary env s (cstr (str key)) (length key) (Some ?b) n"
    using json_rep_ok(2) [OF s(1)] n k v(2) by (simp add: ndpi_serialize_string_string_def Let_def)
  moreover have "json_step env s (2 * length key + 2 * n + 1059) doc
     (add_member (key_text (char_signed env) (norm_key (Name (str key))) @ quoted (char_signed env) t) doc)
     (ndpi_serialize_binary_binary env s (cstr (str key)) (length key) (Some ?b) n)"
    using binary_binary_json [OF env s(1), of "cstr (str key)" "length key" n ?b] key_ok_plain [OF key] n v(2) by simp
  ultimately show "json_step env s (total_cost [Entry (Name (str key)) (JString t)]) doc
     (add_trees ff (char_signed env) [Entry (Name (str key)) (JString t)] doc)
     (ndpi_serialize_string_string env s (cstr (str key)) v)"
    unfolding add_trees_Entry by (simp add: json_step_weaken n(4))
qed

lemma writes_string_u32 [writes_intros]:
  assumes env: "env_ok env" and key: "plain_key (str key)"
  shows "writes env ff (string_u32 env key v) [Entry (Name (str key)) (JU32 v)]"
  unfolding string_u32_def
proof (rule writes_step)
  fix s doc assume s: "json_rep s doc" "fst doc = []"
  have "json_ok ff (char_signed env) (Member (Name (str key)) (JU32 v)) doc"
    using plain_key_ok(1) [OF key] plain_key_esc [OF key] by simp
  from json.call_steps [OF env s(1) this] show "json_step env s (total_cost [Entry (Name (str key)) (JU32 v)]) doc
     (add_trees ff (char_signed env) [Entry (Name (str key)) (JU32 v)] doc)
     (ndpi_serialize_string_uint32 env s (cstr (str key)) v)"
    unfolding add_trees_Entry by simp
qed

end
