(* ===== verification/Dpi_Json.thy ===== *)
theory Dpi_Json
  imports Result_Names Json_Trees
begin

text \<open>
  A result as JSON: \<open>ndpi_dpi2json\<close> and what it calls in \<^verbatim>\<open>ndpi_utils.c\<close>. The report of a flow is
  the block with its risks and the names of its protocol, breed and category, followed by what
  the dissector of the protocol stored in the flow. The calls ignore what the serializer returns.
\<close>

section \<open>Environment\<close>

text \<open>
  \<open>print_float\<close> is what the format \<open>%.6f\<close> prints of a \<open>float\<close>, given by its bits; \<open>wide_time_t\<close>
  says that \<open>time_t\<close> has 64 bits, otherwise it has 32.
\<close>

record report_env =
  text_env :: c_env
  print_float :: "u32 \<Rightarrow> bytes"
  wide_time_t :: bool

text \<open>A float is greater than zero when it is not zero, not negative and not a NaN.\<close>

definition float_positive :: "u32 \<Rightarrow> bool" where
  "float_positive e \<longleftrightarrow> 0 < e \<and> e \<le> 0x7f800000"

section \<open>Calendar time\<close>

record tm =
  tm_year :: int
  tm_mon :: int
  tm_mday :: int
  tm_hour :: int
  tm_min :: int
  tm_sec :: int

text \<open>Year, month and day of a day counted from the first of January 1970; years start in March here.\<close>

definition civil :: "int \<Rightarrow> int \<times> int \<times> int" where
  "civil days =
     (let z = days + 719468;
          doe = z mod 146097;
          yoe = (doe - doe div 1460 + doe div 36524 - doe div 146096) div 365;
          doy = doe - (365 * yoe + yoe div 4 - yoe div 100);
          mp = (5 * doy + 2) div 153;
          month = (if mp < 10 then mp + 3 else mp - 9)
      in (yoe + z div 146097 * 400 + (if month \<le> 2 then 1 else 0), month, doy - (153 * mp + 2) div 5 + 1))"

text \<open>The conversion fails when the year does not fit an \<open>int\<close>.\<close>

definition gmtime_r :: "int \<Rightarrow> tm option" where
  "gmtime_r t =
     (let (y, m, d) = civil (t div 86400); s = t mod 86400 in
      if - (2 ^ 31) \<le> y - 1900 \<and> y - 1900 < 2 ^ 31
      then Some \<lparr>tm_year = y - 1900, tm_mon = m - 1, tm_mday = d, tm_hour = s div 3600,
                 tm_min = s div 60 mod 60, tm_sec = s mod 60\<rparr>
      else None)"

definition two_digits :: "int \<Rightarrow> bytes" where
  "two_digits i = (if 0 \<le> i \<and> i < 10 then 48 # show_int i else show_int i)"

text \<open>\<open>strftime\<close> with the format \<open>%Y-%m-%d %H:%M:%S\<close>; a buffer that is too small has no defined content.\<close>

definition strftime :: "nat \<Rightarrow> tm \<Rightarrow> bytes option" where
  "strftime n t =
     (let x = show_int (tm_year t + 1900) @ [45] @ two_digits (tm_mon t + 1) @ [45] @ two_digits (tm_mday t) @ [32]
            @ two_digits (tm_hour t) @ [58] @ two_digits (tm_min t) @ [58] @ two_digits (tm_sec t)
      in if length x < n then Some (cstr x) else None)"

text \<open>
  The \<open>time_t\<close> at the place of a 32-bit field: with 64 bits it takes the four bytes behind the field
  as well, which are its upper half on a little-endian host.
\<close>

definition read_time_t :: "bool \<Rightarrow> u32 \<Rightarrow> u32 \<Rightarrow> int" where
  "read_time_t wide field behind =
     (if wide then sint (push_bit 32 (ucast behind) + ucast field :: u64) else sint field)"

text \<open>A broken-down time, unless the field is zero or the conversion fails.\<close>

definition field_time :: "report_env \<Rightarrow> u32 \<Rightarrow> u32 \<Rightarrow> tm option" where
  "field_time env field behind =
     (if field \<noteq> 0 then gmtime_r (read_time_t (wide_time_t env) field behind) else None)"

section \<open>Risks, protocol, breed and category\<close>

fun risk_loop :: "c_env \<Rightarrow> u32 \<Rightarrow> nat \<Rightarrow> nat \<Rightarrow> serializer \<Rightarrow> serializer option" where
  "risk_loop env r 0 i s = Some s"
| "risk_loop env r (Suc n) i s = do {
     s \<leftarrow> (if NDPI_ISSET_BIT (ucast r) i
          then ignore_rc (ndpi_serialize_uint32_string env s (word_of_nat i) (Some (cstr (ndpi_risk2str i))))
          else Some s);
     risk_loop env r n (Suc i) s
   }"

text \<open>The parameter has the type of an enumeration, an unsigned \<open>int\<close>.\<close>

definition ndpi_serialize_risk :: "c_env \<Rightarrow> u32 \<Rightarrow> serializer \<Rightarrow> serializer option" where
  "ndpi_serialize_risk env r s =
     (if r = 0 then Some s else in_block env ''flow_risk'' (risk_loop env r NDPI_MAX_RISK 0) s)"

definition ndpi_serialize_proto ::
  "c_env \<Rightarrow> ndpi_module \<Rightarrow> u32 \<Rightarrow> ndpi_protocol \<Rightarrow> serializer \<Rightarrow> serializer option" where
  "ndpi_serialize_proto env m r l7 =
     in_block env ''ndpi'' (\<lambda>s. do {
       s \<leftarrow> ndpi_serialize_risk env r s;
       name \<leftarrow> ndpi_protocol2name m l7 (map (indet env) [0..<64]);
       s \<leftarrow> string_text env ''proto'' (Some name) s;
       breed \<leftarrow> ndpi_get_proto_breed m (if app_protocol l7 \<noteq> NDPI_PROTOCOL_UNKNOWN then app_protocol l7 else master_protocol l7);
       s \<leftarrow> string_text env ''breed'' (Some (cstr (ndpi_get_proto_breed_name breed))) s;
       if proto_category l7 \<noteq> 0 then do {
         c \<leftarrow> ndpi_category_get_name m (proto_category l7);
         string_text env ''category'' (Some (cstr c)) s
       } else Some s
     })"

section \<open>The cases of the protocols\<close>

definition icmp_json :: "report_env \<Rightarrow> ndpi_flow \<Rightarrow> serializer \<Rightarrow> serializer option" where
  "icmp_json env f s =
     (if float_positive (entropy f)
      then ignore_rc (ndpi_serialize_string_float (text_env env) s (cstr (str ''entropy'')) (entropy f) (print_float env))
      else Some s)"

definition dhcp_json :: "c_env \<Rightarrow> ndpi_flow \<Rightarrow> serializer \<Rightarrow> serializer option" where
  "dhcp_json env f = in_block env ''dhcp'' (\<lambda>s. do {
     d \<leftarrow> as_dhcp (protos f);
     s \<leftarrow> string_text env ''hostname'' (Some (host_server_name f)) s;
     s \<leftarrow> string_text env ''fingerprint'' (Some (dhcp_fingerprint d)) s;
     string_text env ''class_ident'' (Some (dhcp_class_ident d)) s
   })"

text \<open>The hash is printed in hexadecimal; a hash whose bytes add up to zero is printed as the empty text.\<close>

definition hash_text :: "bytes \<Rightarrow> bytes" where
  "hash_text h = (if sum_list (map unat h) = 0 then [] else concat (map (\<lambda>b. hex_pad False 2 (unat b)) h))"

definition bittorrent_json :: "c_env \<Rightarrow> ndpi_flow \<Rightarrow> serializer \<Rightarrow> serializer option" where
  "bittorrent_json env f s = do {
     a \<leftarrow> as_bittorrent (protos f);
     h \<leftarrow> peek_run a 0 20;
     in_block env ''bittorrent'' (string_text env ''hash'' (Some (cstr (hash_text h)))) s
   }"

definition inet_ntop4 :: "bytes \<Rightarrow> bytes option" where
  "inet_ntop4 a = do {
     q \<leftarrow> peek_run a 0 4;
     Some (dotted (q ! 0) (q ! 1) (q ! 2) (q ! 3))
   }"

definition dns_json :: "c_env \<Rightarrow> ndpi_flow \<Rightarrow> serializer \<Rightarrow> serializer option" where
  "dns_json env f = in_block env ''dns'' (\<lambda>s. do {
     d \<leftarrow> as_dns (protos f);
     c \<leftarrow> peek (host_server_name f) 0;
     s \<leftarrow> (if c \<noteq> 0 then string_text env ''query'' (Some (host_server_name f)) s else Some s);
     s \<leftarrow> string_u32 env ''num_queries'' (ucast (dns_num_queries d)) s;
     s \<leftarrow> string_u32 env ''num_answers'' (ucast (dns_num_answers d)) s;
     s \<leftarrow> string_u32 env ''reply_code'' (ucast (dns_reply_code d)) s;
     s \<leftarrow> string_u32 env ''query_type'' (ucast (dns_query_type d)) s;
     s \<leftarrow> string_u32 env ''rsp_type'' (ucast (dns_rsp_type d)) s;
     a \<leftarrow> inet_ntop4 (dns_rsp_addr d);
     string_text env ''rsp_addr'' (Some (cstr a)) s
   })"

text \<open>The entry \<open>version\<close> is given the request code, not the version.\<close>

definition ntp_json :: "c_env \<Rightarrow> ndpi_flow \<Rightarrow> serializer \<Rightarrow> serializer option" where
  "ntp_json env f = in_block env ''ntp'' (\<lambda>s. do {
     d \<leftarrow> as_ntp (protos f);
     s \<leftarrow> string_u32 env ''request_code'' (ucast (ntp_request_code d)) s;
     string_u32 env ''version'' (ucast (ntp_request_code d)) s
   })"

definition mdns_json :: "c_env \<Rightarrow> ndpi_flow \<Rightarrow> serializer \<Rightarrow> serializer option" where
  "mdns_json env f = in_block env ''mdns'' (string_text env ''answer'' (Some (host_server_name f)))"

definition ubntac2_json :: "c_env \<Rightarrow> ndpi_flow \<Rightarrow> serializer \<Rightarrow> serializer option" where
  "ubntac2_json env f = in_block env ''ubntac2'' (\<lambda>s. do {
     v \<leftarrow> as_ubntac2 (protos f);
     string_text env ''version'' (Some v) s
   })"

definition kerberos_json :: "c_env \<Rightarrow> ndpi_flow \<Rightarrow> serializer \<Rightarrow> serializer option" where
  "kerberos_json env f = in_block env ''kerberos'' (\<lambda>s. do {
     d \<leftarrow> as_kerberos (protos f);
     s \<leftarrow> string_text env ''hostname'' (Some (kerberos_hostname d)) s;
     s \<leftarrow> string_text env ''domain'' (Some (kerberos_domain d)) s;
     string_text env ''username'' (Some (kerberos_username d)) s
   })"

definition telnet_json :: "c_env \<Rightarrow> ndpi_flow \<Rightarrow> serializer \<Rightarrow> serializer option" where
  "telnet_json env f = in_block env ''telnet'' (\<lambda>s. do {
     d \<leftarrow> as_telnet (protos f);
     s \<leftarrow> string_text env ''username'' (Some (telnet_username d)) s;
     string_text env ''password'' (Some (telnet_password d)) s
   })"

definition http_json :: "c_env \<Rightarrow> ndpi_flow \<Rightarrow> serializer \<Rightarrow> serializer option" where
  "http_json env f = in_block env ''http'' (\<lambda>s. do {
     c \<leftarrow> peek (host_server_name f) 0;
     s \<leftarrow> (if c \<noteq> 0 then string_text env ''hostname'' (Some (host_server_name f)) s else Some s);
     if http_url f \<noteq> None then do {
       s \<leftarrow> string_text env ''url'' (http_url f) s;
       s \<leftarrow> string_u32 env ''code'' (word_of_nat (response_status_code f)) s;
       s \<leftarrow> string_text env ''content_type'' (http_content_type f) s;
       string_text env ''user_agent'' (http_user_agent f) s
     } else Some s
   })"

text \<open>An entry that is written only when the pointer to its string is not null.\<close>

definition if_set :: "c_env \<Rightarrow> string \<Rightarrow> bytes option \<Rightarrow> serializer \<Rightarrow> serializer option" where
  "if_set env key p s = (if p \<noteq> None then string_text env key p s else Some s)"

definition quic_json :: "c_env \<Rightarrow> ndpi_flow \<Rightarrow> serializer \<Rightarrow> serializer option" where
  "quic_json env f = in_block env ''quic'' (\<lambda>s. do {
     d \<leftarrow> as_tls_quic (protos f);
     c \<leftarrow> peek (host_server_name f) 0;
     s \<leftarrow> (if c \<noteq> 0 then string_text env ''client_requested_server_name'' (Some (host_server_name f)) s else Some s);
     s \<leftarrow> if_set env ''server_names'' (tls_server_names d) s;
     s \<leftarrow> if_set env ''user_agent'' (http_user_agent f) s;
     if tls_ssl_version d \<noteq> 0 then do {
       let (version, unknown) = ndpi_ssl_version2str 16 (tls_ssl_version d);
       s \<leftarrow> (if \<not> unknown then string_text env ''version'' (map_option cstr version) s else Some s);
       s \<leftarrow> if_set env ''alpn'' (tls_alpn d) s;
       s \<leftarrow> string_text env ''ja3'' (Some (tls_ja3_client d)) s;
       if_set env ''tls_supported_versions'' (tls_supported_versions d) s
     } else Some s
   })"

text \<open>The mail protocols differ in the name of the block.\<close>

definition mail_json :: "c_env \<Rightarrow> string \<Rightarrow> ndpi_flow \<Rightarrow> serializer \<Rightarrow> serializer option" where
  "mail_json env name f = in_block env name (\<lambda>s. do {
     s \<leftarrow> string_text env ''user'' (Some (mail_username (ftp_imap_pop_smtp f))) s;
     string_text env ''password'' (Some (mail_password (ftp_imap_pop_smtp f))) s
   })"

definition ftp_json :: "c_env \<Rightarrow> ndpi_flow \<Rightarrow> serializer \<Rightarrow> serializer option" where
  "ftp_json env f = in_block env ''ftp'' (\<lambda>s. do {
     s \<leftarrow> string_text env ''user'' (Some (mail_username (ftp_imap_pop_smtp f))) s;
     s \<leftarrow> string_text env ''password'' (Some (mail_password (ftp_imap_pop_smtp f))) s;
     string_u32 env ''auth_failed'' (if mail_auth_failed (ftp_imap_pop_smtp f) then 1 else 0) s
   })"

definition ssh_json :: "c_env \<Rightarrow> ndpi_flow \<Rightarrow> serializer \<Rightarrow> serializer option" where
  "ssh_json env f = in_block env ''ssh'' (\<lambda>s. do {
     d \<leftarrow> as_ssh (protos f);
     s \<leftarrow> string_text env ''client_signature'' (Some (ssh_client_signature d)) s;
     s \<leftarrow> string_text env ''server_signature'' (Some (ssh_server_signature d)) s;
     s \<leftarrow> string_text env ''hassh_client'' (Some (ssh_hassh_client d)) s;
     string_text env ''hassh_server'' (Some (ssh_hassh_server d)) s
   })"

section \<open>TLS\<close>

text \<open>The fingerprint of a certificate, twenty bytes separated by colons in a buffer of 64 bytes.\<close>

definition fingerprint_text :: "bytes \<Rightarrow> bytes" where
  "fingerprint_text h =
     printed 64 (concat (map (\<lambda>(i, b). (if i > 0 then [58] else []) @ hex_pad True 2 (unat b)) (zip [0..<20] h)))"

text \<open>The four bytes behind the end of the validity are the first ones of the client's JA3.\<close>

definition not_before :: "report_env \<Rightarrow> tls_quic_protos \<Rightarrow> tm option" where
  "not_before env d = field_time env (tls_notBefore d) (tls_notAfter d)"

definition not_after :: "report_env \<Rightarrow> tls_quic_protos \<Rightarrow> tm option" where
  "not_after env d = field_time env (tls_notAfter d) (of_le32 (take 4 (tls_ja3_client d)))"

definition date_entry :: "report_env \<Rightarrow> string \<Rightarrow> tm option \<Rightarrow> serializer \<Rightarrow> serializer option" where
  "date_entry env key t s = (case t of
       None \<Rightarrow> Some s
     | Some t \<Rightarrow> do { text \<leftarrow> strftime 32 t; string_text (text_env env) key (Some text) s })"

definition tls_certificate_json :: "c_env \<Rightarrow> tls_quic_protos \<Rightarrow> serializer \<Rightarrow> serializer option" where
  "tls_certificate_json env d s = do {
     s \<leftarrow> if_set env ''issuerDN'' (tls_issuerDN d) s;
     s \<leftarrow> if_set env ''subjectDN'' (tls_subjectDN d) s;
     s \<leftarrow> if_set env ''alpn'' (tls_alpn d) s;
     s \<leftarrow> if_set env ''tls_supported_versions'' (tls_supported_versions d) s;
     h \<leftarrow> peek_run (tls_sha1_certificate_fingerprint d) 0 20;
     if h ! 0 \<noteq> 0 then string_text env ''fingerprint'' (Some (cstr (fingerprint_text h))) s else Some s
   }"

definition tls_json :: "report_env \<Rightarrow> ndpi_flow \<Rightarrow> serializer \<Rightarrow> serializer option" where
  "tls_json env f s = do {
     d \<leftarrow> as_tls_quic (protos f);
     if tls_ssl_version d = 0 then Some s
     else do {
       let (version, unknown) = ndpi_ssl_version2str 16 (tls_ssl_version d);
       if unknown then Some s
       else in_block (text_env env) ''tls'' (\<lambda>s. do {
         s \<leftarrow> string_text (text_env env) ''version'' (map_option cstr version) s;
         s \<leftarrow> string_text (text_env env) ''client_requested_server_name'' (Some (host_server_name f)) s;
         s \<leftarrow> if_set (text_env env) ''server_names'' (tls_server_names d) s;
         s \<leftarrow> date_entry env ''notbefore'' (not_before env d) s;
         s \<leftarrow> date_entry env ''notafter'' (not_after env d) s;
         s \<leftarrow> string_text (text_env env) ''ja3'' (Some (tls_ja3_client d)) s;
         s \<leftarrow> string_text (text_env env) ''ja3s'' (Some (tls_ja3_server d)) s;
         s \<leftarrow> string_u32 (text_env env) ''unsafe_cipher'' (tls_server_unsafe_cipher d) s;
         s \<leftarrow> string_text (text_env env) ''cipher'' (Some (cstr (ndpi_cipher2str (ucast (tls_server_cipher d))))) s;
         tls_certificate_json (text_env env) d s
       }) s
     }
   }"

section \<open>The report\<close>

definition protocol_json :: "report_env \<Rightarrow> ndpi_flow \<Rightarrow> u16 \<Rightarrow> serializer \<Rightarrow> serializer option" where
  "protocol_json env f p s =
     (let c = text_env env in
      if p = NDPI_PROTOCOL_IP_ICMP then icmp_json env f s
      else if p = NDPI_PROTOCOL_DHCP then dhcp_json c f s
      else if p = NDPI_PROTOCOL_BITTORRENT then bittorrent_json c f s
      else if p = NDPI_PROTOCOL_DNS then dns_json c f s
      else if p = NDPI_PROTOCOL_NTP then ntp_json c f s
      else if p = NDPI_PROTOCOL_MDNS then mdns_json c f s
      else if p = NDPI_PROTOCOL_UBNTAC2 then ubntac2_json c f s
      else if p = NDPI_PROTOCOL_KERBEROS then kerberos_json c f s
      else if p = NDPI_PROTOCOL_TELNET then telnet_json c f s
      else if p = NDPI_PROTOCOL_HTTP then http_json c f s
      else if p = NDPI_PROTOCOL_QUIC then quic_json c f s
      else if p = NDPI_PROTOCOL_MAIL_IMAP then mail_json c ''imap'' f s
      else if p = NDPI_PROTOCOL_MAIL_POP then mail_json c ''pop'' f s
      else if p = NDPI_PROTOCOL_MAIL_SMTP then mail_json c ''smtp'' f s
      else if p = NDPI_PROTOCOL_FTP_CONTROL then ftp_json c f s
      else if p = NDPI_PROTOCOL_SSH then ssh_json c f s
      else if p = NDPI_PROTOCOL_TLS \<or> p = NDPI_PROTOCOL_DTLS then tls_json env f s
      else Some s)"

definition ndpi_dpi2json ::
  "report_env \<Rightarrow> ndpi_module \<Rightarrow> ndpi_flow option \<Rightarrow> ndpi_protocol \<Rightarrow> serializer \<Rightarrow> (int \<times> serializer) option" where
  "ndpi_dpi2json env m flow l7 s = (case flow of
       None \<Rightarrow> Some (-1, s)
     | Some f \<Rightarrow> do {
         s \<leftarrow> ndpi_serialize_proto (text_env env) m (ucast (risk f)) l7 s;
         s \<leftarrow> protocol_json env f (if master_protocol l7 \<noteq> 0 then master_protocol l7 else app_protocol l7) s;
         Some (0, s)
       })"

end
