(* ===== verification/Dpi_Report.thy ===== *)
theory Dpi_Report
  imports Dpi_Json
begin

text \<open>
  What a report contains, as trees, and the proof that \<open>ndpi_dpi2json\<close> writes exactly these: one
  lemma per protocol, by the rules of \<open>writes\<close>.
\<close>

section \<open>Entries of a report\<close>

definition the_text :: "bytes option \<Rightarrow> bytes" where
  "the_text p = (case pointed_text p of Some t \<Rightarrow> t | None \<Rightarrow> [])"

text \<open>A string that can be written: terminated, and shorter than 64 KiB.\<close>

definition string_ok :: "bytes option \<Rightarrow> bool" where
  "string_ok p \<longleftrightarrow> (case pointed_text p of Some t \<Rightarrow> length t < 65536 | None \<Rightarrow> False)"

definition text_entry :: "string \<Rightarrow> bytes option \<Rightarrow> json_tree" where
  "text_entry key p = Entry (Name (str key)) (JString (the_text p))"

definition u32_entry :: "string \<Rightarrow> u32 \<Rightarrow> json_tree" where
  "u32_entry key v = Entry (Name (str key)) (JU32 v)"

definition set_entry :: "string \<Rightarrow> bytes option \<Rightarrow> json_tree list" where
  "set_entry key p = (if p \<noteq> None then [text_entry key p] else [])"

definition named_block :: "string \<Rightarrow> json_tree list \<Rightarrow> json_tree" where
  "named_block key ts = Block (str key) ts"

lemma pointed_cstr [simp]: "0 \<notin> set t \<Longrightarrow> pointed_text (Some (cstr t)) = Some t"
  by (simp add: pointed_text_def)

lemma the_text_cstr [simp]: "0 \<notin> set t \<Longrightarrow> the_text (Some (cstr t)) = t"
  by (simp add: the_text_def)

lemma string_ok_cstr: "text_ok k t \<Longrightarrow> k < 65536 \<Longrightarrow> string_ok (Some (cstr t))"
  by (simp add: string_ok_def text_ok_def)

lemma writes_text_entry [writes_intros]:
  assumes "env_ok env" "plain_key (str key)" "string_ok v"
  shows "writes env ff (string_text env key v) [text_entry key v]"
  using assms(3) writes_string_text [OF assms(1,2), of v]
  by (auto simp: string_ok_def text_entry_def the_text_def split: option.splits)

lemma writes_u32_entry [writes_intros]:
  "env_ok env \<Longrightarrow> plain_key (str key) \<Longrightarrow> writes env ff (string_u32 env key v) [u32_entry key v]"
  unfolding u32_entry_def by (rule writes_string_u32)

lemma writes_set_entry [writes_intros]:
  assumes "env_ok env" "plain_key (str key)" "string_ok v"
  shows "writes env ff (if_set env key v) (set_entry key v)"
  using writes_text_entry [OF assms] writes_Nil by (cases v) (simp_all add: if_set_def [abs_def] set_entry_def)

lemma writes_named_block [writes_intros]:
  assumes "env_ok env" "plain_key (str key)" "writes env ff body ts"
  shows "writes env ff (in_block env key body) [named_block key ts]"
  unfolding named_block_def using writes_block [OF assms(1,3)] plain_key_ok [OF assms(2)] by simp

lemma writes_Cons [writes_intros]:
  "writes env ff f [x] \<Longrightarrow> writes env ff g us \<Longrightarrow> writes env ff (\<lambda>s. Option.bind (f s) g) (x # us)"
  using writes_bind [of env ff f "[x]" g us] by simp

lemma plain_keys [simp]:
  "plain_key (str ''flow_risk'')" "plain_key (str ''ndpi'')" "plain_key (str ''proto'')" "plain_key (str ''breed'')"
  "plain_key (str ''category'')" "plain_key (str ''entropy'')" "plain_key (str ''dhcp'')" "plain_key (str ''hostname'')"
  "plain_key (str ''fingerprint'')" "plain_key (str ''class_ident'')" "plain_key (str ''bittorrent'')"
  "plain_key (str ''hash'')" "plain_key (str ''dns'')" "plain_key (str ''query'')" "plain_key (str ''num_queries'')"
  "plain_key (str ''num_answers'')" "plain_key (str ''reply_code'')" "plain_key (str ''query_type'')"
  "plain_key (str ''rsp_type'')" "plain_key (str ''rsp_addr'')" "plain_key (str ''ntp'')"
  "plain_key (str ''request_code'')" "plain_key (str ''version'')" "plain_key (str ''mdns'')" "plain_key (str ''answer'')"
  "plain_key (str ''ubntac2'')" "plain_key (str ''kerberos'')" "plain_key (str ''domain'')" "plain_key (str ''username'')"
  "plain_key (str ''telnet'')" "plain_key (str ''password'')" "plain_key (str ''http'')" "plain_key (str ''url'')"
  "plain_key (str ''code'')" "plain_key (str ''content_type'')" "plain_key (str ''user_agent'')" "plain_key (str ''quic'')"
  "plain_key (str ''client_requested_server_name'')" "plain_key (str ''server_names'')" "plain_key (str ''alpn'')"
  "plain_key (str ''ja3'')" "plain_key (str ''ja3s'')" "plain_key (str ''tls_supported_versions'')"
  "plain_key (str ''imap'')" "plain_key (str ''pop'')" "plain_key (str ''smtp'')" "plain_key (str ''ftp'')"
  "plain_key (str ''user'')" "plain_key (str ''auth_failed'')" "plain_key (str ''ssh'')"
  "plain_key (str ''client_signature'')" "plain_key (str ''server_signature'')" "plain_key (str ''hassh_client'')"
  "plain_key (str ''hassh_server'')" "plain_key (str ''tls'')" "plain_key (str ''notbefore'')" "plain_key (str ''notafter'')"
  "plain_key (str ''unsafe_cipher'')" "plain_key (str ''cipher'')" "plain_key (str ''issuerDN'')" "plain_key (str ''subjectDN'')"
  by (simp_all add: plain_key_def str_def c_isdigit_def)

section \<open>Risks and names\<close>

definition risk_trees :: "u64 \<Rightarrow> json_tree list" where
  "risk_trees r =
     (let known = filter (bit r) [0..<32] in
      if known = [] then []
      else [named_block ''flow_risk'' (map (\<lambda>i. Entry (Num (word_of_nat i)) (JString (ndpi_risk2str i))) known)])"

lemma isset_bit: "NDPI_ISSET_BIT num n \<longleftrightarrow> bit num n"
proof -
  have "num AND push_bit n 1 = (if bit num n then push_bit n 1 else 0)"
    by (rule bit_word_eqI) (auto simp: bit_simps)
  moreover have "push_bit n (1 :: u64) \<noteq> 0" if "bit num n"
    using bit_imp_le_length [OF that] by (auto simp: push_bit_eq_mult)
  ultimately show ?thesis by (auto simp: NDPI_ISSET_BIT_def)
qed

lemma isset_low: "NDPI_ISSET_BIT (ucast (ucast r :: u32)) i \<longleftrightarrow> i < 32 \<and> bit r i"
  unfolding isset_bit by (auto simp: bit_simps dest: bit_imp_le_length)

lemma risk_entry:
  assumes "env_ok env"
  shows "writes env ff (\<lambda>s. ignore_rc (ndpi_serialize_uint32_string env s i (Some (cstr (ndpi_risk2str n)))))
     [Entry (Num i) (JString (ndpi_risk2str n))]"
proof (rule writes_step)
  fix s doc assume s: "json_rep s doc" "fst doc = []"
  have "json_ok ff (char_signed env) (Member (Num i) (JString (ndpi_risk2str n))) doc"
    using risk_name_ok [of n] by (simp add: text_ok_def)
  from json.call_steps [OF assms s(1) this]
  show "json_step env s (total_cost [Entry (Num i) (JString (ndpi_risk2str n))]) doc
     (add_trees ff (char_signed env) [Entry (Num i) (JString (ndpi_risk2str n))] doc)
     (ndpi_serialize_uint32_string env s i (Some (cstr (ndpi_risk2str n))))"
    unfolding add_trees_Entry by simp
qed

lemma risk_loop_writes:
  assumes "env_ok env"
  shows "writes env ff (risk_loop env (ucast r) n i)
     (map (\<lambda>i. Entry (Num (word_of_nat i)) (JString (ndpi_risk2str i))) (filter (\<lambda>i. i < 32 \<and> bit r i) [i..<i + n]))"
proof (induction n arbitrary: i)
  case 0
  then show ?case using writes_Nil by (simp add: writes_def)
next
  case (Suc n)
  let ?e = "\<lambda>i. Entry (Num (word_of_nat i)) (JString (ndpi_risk2str i))" and ?P = "\<lambda>i. i < 32 \<and> bit r i"
  let ?call = "\<lambda>s. ignore_rc (ndpi_serialize_uint32_string env s (word_of_nat i) (Some (cstr (ndpi_risk2str i))))"
  have u: "[i..<i + Suc n] = i # [Suc i..<Suc i + n]" by (simp add: upt_conv_Cons)
  show ?case
  proof (cases "?P i")
    case True
    then have l: "risk_loop env (ucast r) (Suc n) i = (\<lambda>s. Option.bind (?call s) (risk_loop env (ucast r) n (Suc i)))"
      by (simp add: isset_low fun_eq_iff)
    have t: "map ?e (filter ?P [i..<i + Suc n]) = ?e i # map ?e (filter ?P [Suc i..<Suc i + n])"
      unfolding u using True by simp
    show ?thesis unfolding l t by (rule writes_Cons [OF risk_entry [OF assms] Suc])
  next
    case False
    then have l: "risk_loop env (ucast r) (Suc n) i = risk_loop env (ucast r) n (Suc i)"
      by (auto simp: isset_low fun_eq_iff)
    have t: "map ?e (filter ?P [i..<i + Suc n]) = map ?e (filter ?P [Suc i..<Suc i + n])"
      unfolding u using False by simp
    show ?thesis unfolding l t by (rule Suc)
  qed
qed

lemma risks_write:
  assumes "env_ok env"
  shows "writes env ff (ndpi_serialize_risk env (ucast r)) (risk_trees r)"
proof -
  let ?known = "filter (bit r) [0..<32]"
  have f: "filter (\<lambda>i. i < 32 \<and> bit r i) [0..<0 + NDPI_MAX_RISK] = ?known"
  proof -
    have "[0..<0 + NDPI_MAX_RISK] = [0..<32] @ [32..<42]" by (simp add: upt_add_eq_append [of 0 32 10, simplified])
    moreover have "filter (\<lambda>i. i < 32 \<and> bit r i) [32..<42] = []" by (rule filter_False) simp
    moreover have "filter (\<lambda>i. i < 32 \<and> bit r i) [0..<32] = ?known" by (rule filter_cong) simp_all
    ultimately show ?thesis by (simp only: filter_append append_Nil2)
  qed
  have z: "ucast r = (0 :: u32) \<longleftrightarrow> ?known = []"
  proof -
    have "ucast r = (0 :: u32) \<longleftrightarrow> (\<forall>i < 32. \<not> bit r i)"
      by (auto simp: bit_eq_iff bit_simps dest: bit_imp_le_length)
    also have "\<dots> \<longleftrightarrow> ?known = []" by (auto simp: filter_empty_conv)
    finally show ?thesis .
  qed
  show ?thesis
  proof (cases "ucast r = (0 :: u32)")
    case True
    then show ?thesis using z writes_Nil by (simp add: ndpi_serialize_risk_def [abs_def] risk_trees_def)
  next
    case False
    have "writes env ff (in_block env ''flow_risk'' (risk_loop env (ucast r) NDPI_MAX_RISK 0)) (risk_trees r)"
      using risk_loop_writes [OF assms, of ff r NDPI_MAX_RISK 0] z False unfolding f
      by (auto simp: risk_trees_def intro!: writes_named_block assms)
    then show ?thesis using False by (simp add: ndpi_serialize_risk_def [abs_def])
  qed
qed

text \<open>The names a module gives to its protocols are strings, and the unknown protocol has one.\<close>

definition names_ok_of :: "ndpi_module \<Rightarrow> bool" where
  "names_ok_of m \<longleftrightarrow> proto_defaults m \<noteq> [] \<and> protoName (proto_defaults m ! 0) \<noteq> None
     \<and> NDPI_MAX_SUPPORTED_PROTOCOLS + NDPI_MAX_NUM_CUSTOM_PROTOCOLS \<le> length (proto_defaults m)
     \<and> (\<forall>d \<in> set (proto_defaults m). case protoName d of Some t \<Rightarrow> 0 \<notin> set t | None \<Rightarrow> True)"

definition name_of :: "ndpi_module \<Rightarrow> u16 \<Rightarrow> bytes" where
  "name_of m p = (case ndpi_get_proto_name m p of Some t \<Rightarrow> t | None \<Rightarrow> [])"

definition protocol_name_text :: "ndpi_module \<Rightarrow> ndpi_protocol \<Rightarrow> bytes" where
  "protocol_name_text m l7 = (case protocol_text (ndpi_get_proto_name m) l7 of Some t \<Rightarrow> take 63 t | None \<Rightarrow> [])"

definition breed_of :: "ndpi_module \<Rightarrow> ndpi_protocol \<Rightarrow> nat" where
  "breed_of m l7 = (case ndpi_get_proto_breed m (ndpi_get_upper_proto l7) of Some b \<Rightarrow> b | None \<Rightarrow> 0)"

definition proto_trees :: "ndpi_module \<Rightarrow> u64 \<Rightarrow> ndpi_protocol \<Rightarrow> json_tree list" where
  "proto_trees m r l7 = [named_block ''ndpi''
     (risk_trees r @ text_entry ''proto'' (Some (cstr (protocol_name_text m l7)))
      # text_entry ''breed'' (Some (cstr (ndpi_get_proto_breed_name (breed_of m l7))))
      # (if proto_category l7 \<noteq> 0
         then [text_entry ''category'' (Some (cstr (the (ndpi_category_get_name m (proto_category l7)))))] else []))]"

lemma known_ok:
  assumes "names_ok_of m"
  shows "\<exists>q d t. known_or_unknown m p = Some q \<and> defaults_of m q = Some d \<and> protoName d = Some t \<and> 0 \<notin> set t"
proof -
  have z: "defaults_of m NDPI_PROTOCOL_UNKNOWN = Some (proto_defaults m ! 0)" "proto_defaults m ! 0 \<in> set (proto_defaults m)"
    using assms by (auto simp: names_ok_of_def defaults_of_def at_def)
  have name: "0 \<notin> set t" if "d \<in> set (proto_defaults m)" "protoName d = Some t" for d t
    using assms that by (auto simp: names_ok_of_def dest!: bspec)
  obtain t0 where t0: "protoName (proto_defaults m ! 0) = Some t0" using assms by (auto simp: names_ok_of_def)
  note unknown = z(1) t0 name [OF z(2) t0]
  show ?thesis
  proof (cases "ndpi_num_supported_protocols m \<le> unat p \<or> \<not> ndpi_is_valid_protoId p")
    case True
    then show ?thesis using unknown by (auto simp: known_or_unknown_def)
  next
    case False
    then have l: "unat p < length (proto_defaults m)" using assms by (auto simp: names_ok_of_def ndpi_is_valid_protoId_def)
    then have d: "defaults_of m p = Some (proto_defaults m ! unat p)" "proto_defaults m ! unat p \<in> set (proto_defaults m)"
      by (simp_all add: defaults_of_def at_def)
    show ?thesis
    proof (cases "protoName (proto_defaults m ! unat p)")
      case None
      then show ?thesis using False unknown d by (auto simp: known_or_unknown_def)
    next
      case (Some t)
      then show ?thesis using False d name [OF d(2) Some] by (auto simp: known_or_unknown_def)
    qed
  qed
qed

lemma protocol_text_ok:
  assumes "names_ok_of m"
  shows "\<exists>t. protocol_text (ndpi_get_proto_name m) l7 = Some t \<and> 0 \<notin> set t"
proof -
  have n: "\<exists>t. ndpi_get_proto_name m p = Some t \<and> 0 \<notin> set t" for p
    using known_ok [OF assms, of p] by (auto simp: ndpi_get_proto_name_def)
  obtain t u where "ndpi_get_proto_name m (master_protocol l7) = Some t" "0 \<notin> set t"
      "ndpi_get_proto_name m (app_protocol l7) = Some u" "0 \<notin> set u"
    using n by metis
  then show ?thesis by (auto simp: protocol_text_def str_def)
qed

lemma protocol_name_read:
  assumes "names_ok_of m" "length buf = 64"
  shows "\<exists>b. ndpi_protocol2name m l7 buf = Some b \<and> pointed_text (Some b) = Some (protocol_name_text m l7)
     \<and> text_ok 63 (protocol_name_text m l7)"
proof -
  obtain t where t: "protocol_text (ndpi_get_proto_name m) l7 = Some t" "0 \<notin> set t"
    using protocol_text_ok [OF assms(1)] by blast
  have z: "0 \<notin> set (take 63 t)" using t(2) by (auto dest: in_set_takeD)
  then show ?thesis using t(1) assms(2)
    by (auto simp: ndpi_protocol2name_def snprintf_at_def poke_def pointed_text_def protocol_name_text_def text_ok_def
        c_strlen_append min_def)
qed

lemma proto_writes:
  assumes env: "env_ok env" and m: "names_ok_of m" "labels_ok m"
  shows "writes env ff (ndpi_serialize_proto env m (ucast r) l7) (proto_trees m r l7)"
proof -
  obtain b where b: "ndpi_protocol2name m l7 (map (indet env) [0..<64]) = Some b"
      "pointed_text (Some b) = Some (protocol_name_text m l7)" "text_ok 63 (protocol_name_text m l7)"
    using protocol_name_read [OF m(1), of "map (indet env) [0..<64]" l7] by auto
  obtain q d where "known_or_unknown m (ndpi_get_upper_proto l7) = Some q" "defaults_of m q = Some d"
    using known_ok [OF m(1)] by blast
  then have br: "ndpi_get_proto_breed m (ndpi_get_upper_proto l7) = Some (breed_of m l7)"
    by (simp add: ndpi_get_proto_breed_def breed_of_def)
  obtain c where c: "ndpi_category_get_name m (proto_category l7) = Some c" "text_ok 60 c"
    using category_name_ok [OF m(2)] by blast
  have e: "text_entry ''proto'' (Some (cstr (protocol_name_text m l7))) = text_entry ''proto'' (Some b)"
    using b by (simp add: text_entry_def text_ok_def the_text_def)
  have sb: "string_ok (Some b)" using b(2,3) by (simp add: string_ok_def text_ok_def)
  show ?thesis
    unfolding ndpi_serialize_proto_def [abs_def] proto_trees_def b(1) e bind.bind_lunit
      br [unfolded ndpi_get_upper_proto_def] c(1) option.sel
    by (intro writes_intros risks_write env plain_keys sb string_ok_cstr [OF breed_name_ok] string_ok_cstr [OF c(2)]) simp_all
qed

section \<open>The cases of the protocols\<close>

text \<open>
  For each protocol the strings its report needs, and the trees it adds. The \<open>protos\<close> union must
  hold the structure of the protocol, or be clear.
\<close>

abbreviation host_of :: "ndpi_flow \<Rightarrow> bytes option" where
  "host_of f \<equiv> Some (host_server_name f)"

definition named_host :: "ndpi_flow \<Rightarrow> bool" where
  "named_host f \<longleftrightarrow> host_server_name f ! 0 \<noteq> 0"

lemma first_of_string: "string_ok (Some b) \<Longrightarrow> peek b 0 = Some (b ! 0)"
  by (cases b) (auto simp: string_ok_def pointed_text_def peek_def)

definition icmp_trees :: "ndpi_flow \<Rightarrow> json_tree list" where
  "icmp_trees f = (if float_positive (entropy f) then [Entry (Name (str ''entropy'')) (JFloat (entropy f))] else [])"

lemma icmp_writes:
  assumes env: "env_ok (text_env env)" and fits: "length (print_float env (entropy f)) \<le> 25"
  shows "writes (text_env env) (print_float env) (icmp_json env f) (icmp_trees f)"
proof -
  have "writes (text_env env) (print_float env)
     (\<lambda>s. ignore_rc (ndpi_serialize_string_float (text_env env) s (cstr (str ''entropy'')) (entropy f) (print_float env)))
     [Entry (Name (str ''entropy'')) (JFloat (entropy f))]"
  proof (rule writes_step)
    fix s doc assume s: "json_rep s doc" "fst doc = []"
    have "json_ok (print_float env) (char_signed (text_env env)) (Member (Name (str ''entropy'')) (JFloat (entropy f))) doc"
      using plain_key_ok(1) [of "str ''entropy''"] fits by simp
    from json.call_steps [OF env s(1) this]
    show "json_step (text_env env) s (total_cost [Entry (Name (str ''entropy'')) (JFloat (entropy f))]) doc
       (add_trees (print_float env) (char_signed (text_env env)) [Entry (Name (str ''entropy'')) (JFloat (entropy f))] doc)
       (ndpi_serialize_string_float (text_env env) s (cstr (str ''entropy'')) (entropy f) (print_float env))"
      unfolding add_trees_Entry by simp
  qed
  then show ?thesis unfolding icmp_json_def [abs_def] icmp_trees_def by (intro writes_intros)
qed

definition dhcp_ok :: "ndpi_flow \<Rightarrow> bool" where
  "dhcp_ok f \<longleftrightarrow> (case as_dhcp (protos f) of None \<Rightarrow> False | Some d \<Rightarrow>
     string_ok (host_of f) \<and> string_ok (Some (dhcp_fingerprint d)) \<and> string_ok (Some (dhcp_class_ident d)))"

definition dhcp_trees :: "ndpi_flow \<Rightarrow> json_tree list" where
  "dhcp_trees f = (case as_dhcp (protos f) of None \<Rightarrow> [] | Some d \<Rightarrow>
     [named_block ''dhcp'' [text_entry ''hostname'' (host_of f), text_entry ''fingerprint'' (Some (dhcp_fingerprint d)),
        text_entry ''class_ident'' (Some (dhcp_class_ident d))]])"

lemma dhcp_writes:
  assumes "env_ok env" "dhcp_ok f"
  shows "writes env ff (dhcp_json env f) (dhcp_trees f)"
proof -
  obtain d where d: "as_dhcp (protos f) = Some d" using assms(2) by (auto simp: dhcp_ok_def split: option.splits)
  show ?thesis using assms unfolding dhcp_json_def dhcp_trees_def dhcp_ok_def d option.case bind.bind_lunit
    by (intro writes_intros) simp_all
qed

definition bittorrent_ok :: "ndpi_flow \<Rightarrow> bool" where
  "bittorrent_ok f \<longleftrightarrow> (case as_bittorrent (protos f) of None \<Rightarrow> False | Some h \<Rightarrow> length h = 20)"

definition bittorrent_trees :: "ndpi_flow \<Rightarrow> json_tree list" where
  "bittorrent_trees f = (case as_bittorrent (protos f) of None \<Rightarrow> [] | Some h \<Rightarrow>
     [named_block ''bittorrent'' [text_entry ''hash'' (Some (cstr (hash_text h)))]])"

lemma length_show_hex_byte: "length (show_hex up (unat (b :: u8))) \<le> 2"
proof -
  have "unat b < 256" by (rule order_less_le_trans [OF unsigned_less]) simp
  then have "unat b div 16 < 16" by simp
  then show ?thesis by (subst show_hex.simps, subst show_hex.simps) auto
qed

lemma length_hex_byte: "length (hex_pad up 2 (unat (b :: u8))) = 2"
  using length_show_hex_byte [of up b] by (simp add: hex_pad_def Let_def)

lemma hash_text_ok: "length h = 20 \<Longrightarrow> text_ok 40 (hash_text h)"
proof -
  assume h: "length h = 20"
  have "length (concat (map (\<lambda>b :: u8. hex_pad False 2 (unat b)) h)) = 2 * length h"
    by (induction h) (simp_all add: length_hex_byte)
  then show ?thesis using h hex_pad_plain by (auto simp: text_ok_def hash_text_def)
qed

lemma bittorrent_writes:
  assumes "env_ok env" "bittorrent_ok f"
  shows "writes env ff (bittorrent_json env f) (bittorrent_trees f)"
proof -
  obtain h where h: "as_bittorrent (protos f) = Some h" "length h = 20"
    using assms(2) by (auto simp: bittorrent_ok_def split: option.splits)
  have p: "peek_run h 0 20 = Some h" using h(2) by (simp add: peek_run_def)
  show ?thesis
    unfolding bittorrent_json_def [abs_def] bittorrent_trees_def h(1) option.case bind.bind_lunit p
    by (intro writes_intros assms(1) plain_keys string_ok_cstr [OF hash_text_ok [OF h(2)]]) simp
qed

definition dns_ok :: "ndpi_flow \<Rightarrow> bool" where
  "dns_ok f \<longleftrightarrow> (case as_dns (protos f) of None \<Rightarrow> False | Some d \<Rightarrow>
     string_ok (host_of f) \<and> 4 \<le> length (dns_rsp_addr d))"

definition address_text :: "bytes \<Rightarrow> bytes" where
  "address_text a = dotted (a ! 0) (a ! 1) (a ! 2) (a ! 3)"

definition dns_trees :: "ndpi_flow \<Rightarrow> json_tree list" where
  "dns_trees f = (case as_dns (protos f) of None \<Rightarrow> [] | Some d \<Rightarrow>
     [named_block ''dns'' ((if named_host f then [text_entry ''query'' (host_of f)] else [])
        @ [u32_entry ''num_queries'' (ucast (dns_num_queries d)), u32_entry ''num_answers'' (ucast (dns_num_answers d)),
           u32_entry ''reply_code'' (ucast (dns_reply_code d)), u32_entry ''query_type'' (ucast (dns_query_type d)),
           u32_entry ''rsp_type'' (ucast (dns_rsp_type d)),
           text_entry ''rsp_addr'' (Some (cstr (address_text (dns_rsp_addr d))))])])"

lemma dotted_ok: "text_ok 43 (dotted a b c d)"
proof -
  have l: "length (show_nat (unat (x :: u8))) \<le> 10" for x
    by (intro length_show_nat order_less_trans [OF unsigned_less]) simp_all
  show ?thesis using l [of a] l [of b] l [of c] l [of d] show_nat_plain
    by (auto simp: dotted_def text_ok_def)
qed

lemma inet_ntop4_some: "4 \<le> length a \<Longrightarrow> inet_ntop4 a = Some (address_text a)"
  by (simp add: inet_ntop4_def peek_run_def address_text_def)

lemma dns_writes:
  assumes "env_ok env" "dns_ok f"
  shows "writes env ff (dns_json env f) (dns_trees f)"
proof -
  obtain d where d: "as_dns (protos f) = Some d" "string_ok (host_of f)" "4 \<le> length (dns_rsp_addr d)"
    using assms(2) by (auto simp: dns_ok_def split: option.splits)
  show ?thesis
    unfolding dns_json_def dns_trees_def d(1) option.case bind.bind_lunit first_of_string [OF d(2)] inet_ntop4_some [OF d(3)]
      named_host_def address_text_def
    by (intro writes_intros assms(1) plain_keys d(2) string_ok_cstr [OF dotted_ok]) simp
qed

definition ntp_trees :: "ndpi_flow \<Rightarrow> json_tree list" where
  "ntp_trees f = (case as_ntp (protos f) of None \<Rightarrow> [] | Some d \<Rightarrow>
     [named_block ''ntp'' [u32_entry ''request_code'' (ucast (ntp_request_code d)),
        u32_entry ''version'' (ucast (ntp_request_code d))]])"

lemma ntp_writes:
  assumes "env_ok env" "as_ntp (protos f) \<noteq> None"
  shows "writes env ff (ntp_json env f) (ntp_trees f)"
proof -
  obtain d where d: "as_ntp (protos f) = Some d" using assms(2) by blast
  show ?thesis unfolding ntp_json_def ntp_trees_def d option.case bind.bind_lunit
    by (intro writes_intros assms(1)) simp_all
qed

definition mdns_trees :: "ndpi_flow \<Rightarrow> json_tree list" where
  "mdns_trees f = [named_block ''mdns'' [text_entry ''answer'' (host_of f)]]"

lemma mdns_writes: "env_ok env \<Longrightarrow> string_ok (host_of f) \<Longrightarrow> writes env ff (mdns_json env f) (mdns_trees f)"
  unfolding mdns_json_def mdns_trees_def by (intro writes_intros) simp_all

definition ubntac2_ok :: "ndpi_flow \<Rightarrow> bool" where
  "ubntac2_ok f \<longleftrightarrow> (case as_ubntac2 (protos f) of None \<Rightarrow> False | Some d \<Rightarrow>
     string_ok (Some d))"

definition ubntac2_trees :: "ndpi_flow \<Rightarrow> json_tree list" where
  "ubntac2_trees f = (case as_ubntac2 (protos f) of None \<Rightarrow> [] | Some d \<Rightarrow>
     [named_block ''ubntac2'' [text_entry ''version'' (Some d)]])"

lemma ubntac2_writes:
  assumes "env_ok env" "ubntac2_ok f"
  shows "writes env ff (ubntac2_json env f) (ubntac2_trees f)"
proof -
  obtain d where d: "as_ubntac2 (protos f) = Some d" using assms(2) by (auto simp: ubntac2_ok_def split: option.splits)
  show ?thesis using assms unfolding ubntac2_json_def ubntac2_trees_def ubntac2_ok_def d option.case bind.bind_lunit
    by (intro writes_intros) simp_all
qed

definition kerberos_ok :: "ndpi_flow \<Rightarrow> bool" where
  "kerberos_ok f \<longleftrightarrow> (case as_kerberos (protos f) of None \<Rightarrow> False | Some d \<Rightarrow>
     string_ok (Some (kerberos_hostname d)) \<and> string_ok (Some (kerberos_domain d)) \<and> string_ok (Some (kerberos_username d)))"

definition kerberos_trees :: "ndpi_flow \<Rightarrow> json_tree list" where
  "kerberos_trees f = (case as_kerberos (protos f) of None \<Rightarrow> [] | Some d \<Rightarrow>
     [named_block ''kerberos'' [text_entry ''hostname'' (Some (kerberos_hostname d)), text_entry ''domain'' (Some (kerberos_domain d)), text_entry ''username'' (Some (kerberos_username d))]])"

lemma kerberos_writes:
  assumes "env_ok env" "kerberos_ok f"
  shows "writes env ff (kerberos_json env f) (kerberos_trees f)"
proof -
  obtain d where d: "as_kerberos (protos f) = Some d" using assms(2) by (auto simp: kerberos_ok_def split: option.splits)
  show ?thesis using assms unfolding kerberos_json_def kerberos_trees_def kerberos_ok_def d option.case bind.bind_lunit
    by (intro writes_intros) simp_all
qed

definition telnet_ok :: "ndpi_flow \<Rightarrow> bool" where
  "telnet_ok f \<longleftrightarrow> (case as_telnet (protos f) of None \<Rightarrow> False | Some d \<Rightarrow>
     string_ok (Some (telnet_username d)) \<and> string_ok (Some (telnet_password d)))"

definition telnet_trees :: "ndpi_flow \<Rightarrow> json_tree list" where
  "telnet_trees f = (case as_telnet (protos f) of None \<Rightarrow> [] | Some d \<Rightarrow>
     [named_block ''telnet'' [text_entry ''username'' (Some (telnet_username d)), text_entry ''password'' (Some (telnet_password d))]])"

lemma telnet_writes:
  assumes "env_ok env" "telnet_ok f"
  shows "writes env ff (telnet_json env f) (telnet_trees f)"
proof -
  obtain d where d: "as_telnet (protos f) = Some d" using assms(2) by (auto simp: telnet_ok_def split: option.splits)
  show ?thesis using assms unfolding telnet_json_def telnet_trees_def telnet_ok_def d option.case bind.bind_lunit
    by (intro writes_intros) simp_all
qed

definition ssh_ok :: "ndpi_flow \<Rightarrow> bool" where
  "ssh_ok f \<longleftrightarrow> (case as_ssh (protos f) of None \<Rightarrow> False | Some d \<Rightarrow>
     string_ok (Some (ssh_client_signature d)) \<and> string_ok (Some (ssh_server_signature d)) \<and> string_ok (Some (ssh_hassh_client d)) \<and> string_ok (Some (ssh_hassh_server d)))"

definition ssh_trees :: "ndpi_flow \<Rightarrow> json_tree list" where
  "ssh_trees f = (case as_ssh (protos f) of None \<Rightarrow> [] | Some d \<Rightarrow>
     [named_block ''ssh'' [text_entry ''client_signature'' (Some (ssh_client_signature d)), text_entry ''server_signature'' (Some (ssh_server_signature d)), text_entry ''hassh_client'' (Some (ssh_hassh_client d)), text_entry ''hassh_server'' (Some (ssh_hassh_server d))]])"

lemma ssh_writes:
  assumes "env_ok env" "ssh_ok f"
  shows "writes env ff (ssh_json env f) (ssh_trees f)"
proof -
  obtain d where d: "as_ssh (protos f) = Some d" using assms(2) by (auto simp: ssh_ok_def split: option.splits)
  show ?thesis using assms unfolding ssh_json_def ssh_trees_def ssh_ok_def d option.case bind.bind_lunit
    by (intro writes_intros) simp_all
qed

text \<open>The login of a mail or FTP session.\<close>

definition login_ok :: "ndpi_flow \<Rightarrow> bool" where
  "login_ok f \<longleftrightarrow> string_ok (Some (mail_username (ftp_imap_pop_smtp f))) \<and> string_ok (Some (mail_password (ftp_imap_pop_smtp f)))"

definition login_trees :: "ndpi_flow \<Rightarrow> json_tree list" where
  "login_trees f = [text_entry ''user'' (Some (mail_username (ftp_imap_pop_smtp f))),
     text_entry ''password'' (Some (mail_password (ftp_imap_pop_smtp f)))]"

lemma mail_writes:
  assumes "env_ok env" "login_ok f" "plain_key (str name)"
  shows "writes env ff (mail_json env name f) [named_block name (login_trees f)]"
  using assms unfolding mail_json_def login_trees_def login_ok_def by (intro writes_intros) simp_all

definition ftp_trees :: "ndpi_flow \<Rightarrow> json_tree list" where
  "ftp_trees f = [named_block ''ftp'' (text_entry ''user'' (Some (mail_username (ftp_imap_pop_smtp f)))
     # text_entry ''password'' (Some (mail_password (ftp_imap_pop_smtp f)))
     # [u32_entry ''auth_failed'' (if mail_auth_failed (ftp_imap_pop_smtp f) then 1 else 0)])]"

lemma ftp_writes: "env_ok env \<Longrightarrow> login_ok f \<Longrightarrow> writes env ff (ftp_json env f) (ftp_trees f)"
  unfolding ftp_json_def ftp_trees_def login_ok_def by (intro writes_intros) simp_all

definition http_ok :: "ndpi_flow \<Rightarrow> bool" where
  "http_ok f \<longleftrightarrow> string_ok (host_of f) \<and> string_ok (http_url f) \<and> string_ok (http_content_type f) \<and> string_ok (http_user_agent f)"

definition http_trees :: "ndpi_flow \<Rightarrow> json_tree list" where
  "http_trees f = [named_block ''http''
     ((if named_host f then [text_entry ''hostname'' (host_of f)] else [])
      @ (if http_url f \<noteq> None
         then [text_entry ''url'' (http_url f), u32_entry ''code'' (word_of_nat (response_status_code f)),
           text_entry ''content_type'' (http_content_type f), text_entry ''user_agent'' (http_user_agent f)]
         else []))]"

lemma http_writes:
  assumes "env_ok env" "http_ok f"
  shows "writes env ff (http_json env f) (http_trees f)"
proof -
  have h: "string_ok (host_of f)" using assms(2) by (simp add: http_ok_def)
  show ?thesis using assms
    unfolding http_json_def http_trees_def http_ok_def first_of_string [OF h] bind.bind_lunit named_host_def
    by (intro writes_intros) simp_all
qed

section \<open>QUIC and TLS\<close>

definition version_text :: "u16 \<Rightarrow> bytes" where
  "version_text v = the (fst (ndpi_ssl_version2str 16 v))"

definition version_unknown :: "u16 \<Rightarrow> bool" where
  "version_unknown v \<longleftrightarrow> snd (ndpi_ssl_version2str 16 v)"

lemma version_pair: "ndpi_ssl_version2str 16 v = (Some (version_text v), version_unknown v)" "text_ok 15 (version_text v)"
proof -
  have u: "text_ok 15 (printed 16 (str ''TLS ('' @ hex_pad True 4 (unat v) @ str '')''))"
    "text_ok 15 (printed 16 (str ''TLSv1.3 (draft)''))"
    using text_ok_printed [of "str ''TLS ('' @ hex_pad True 4 (unat v) @ str '')''" 16]
      text_ok_printed [of "str ''TLSv1.3 (draft)''" 16] hex_pad_plain by (simp_all add: str_def)
  have "0 \<notin> set (str t)" if "map_of ssl_versions v = Some t" for t
    using map_of_plain [OF ssl_versions_plain that] by (simp add: text_ok_def)
  then have k: "text_ok 15 (printed 16 (str t))" if "map_of ssl_versions v = Some t" for t
    using text_ok_printed [of "str t" 16] that by simp
  have "\<exists>t b. ndpi_ssl_version2str 16 v = (Some t, b) \<and> text_ok 15 t"
  proof (cases "map_of ssl_versions v")
    case None
    then show ?thesis using u by (cases "0x7f00 \<le> v \<and> v \<le> 0x7fff") (auto simp: ndpi_ssl_version2str_def)
  next
    case (Some t)
    then show ?thesis using k [OF Some] by (auto simp: ndpi_ssl_version2str_def)
  qed
  then show "ndpi_ssl_version2str 16 v = (Some (version_text v), version_unknown v)" "text_ok 15 (version_text v)"
    by (auto simp: version_text_def version_unknown_def)
qed

definition quic_ok :: "ndpi_flow \<Rightarrow> bool" where
  "quic_ok f \<longleftrightarrow> (case as_tls_quic (protos f) of None \<Rightarrow> False | Some d \<Rightarrow>
     string_ok (host_of f) \<and> string_ok (tls_server_names d) \<and> string_ok (http_user_agent f) \<and> string_ok (tls_alpn d)
     \<and> string_ok (Some (tls_ja3_client d)) \<and> string_ok (tls_supported_versions d))"

definition quic_trees :: "ndpi_flow \<Rightarrow> json_tree list" where
  "quic_trees f = (case as_tls_quic (protos f) of None \<Rightarrow> [] | Some d \<Rightarrow>
     [named_block ''quic''
       ((if named_host f then [text_entry ''client_requested_server_name'' (host_of f)] else [])
        @ set_entry ''server_names'' (tls_server_names d) @ set_entry ''user_agent'' (http_user_agent f)
        @ (if tls_ssl_version d \<noteq> 0
           then (if \<not> version_unknown (tls_ssl_version d)
                 then [text_entry ''version'' (Some (cstr (version_text (tls_ssl_version d))))] else [])
             @ set_entry ''alpn'' (tls_alpn d) @ text_entry ''ja3'' (Some (tls_ja3_client d))
             # set_entry ''tls_supported_versions'' (tls_supported_versions d)
           else []))])"

lemma quic_writes:
  assumes env: "env_ok env" and ok: "quic_ok f"
  shows "writes env ff (quic_json env f) (quic_trees f)"
proof -
  obtain d where d: "as_tls_quic (protos f) = Some d" using ok by (auto simp: quic_ok_def split: option.splits)
  note o = ok [unfolded quic_ok_def d option.case]
  note v = version_pair [of "tls_ssl_version d"]
  have h: "string_ok (host_of f)" using o by simp
  show ?thesis
    unfolding quic_json_def quic_trees_def d option.case bind.bind_lunit first_of_string [OF h] named_host_def
      v(1) Let_def prod.case option.map
    by (intro writes_intros env plain_keys string_ok_cstr [OF v(2)]) (use o in simp_all)
qed

definition tls_ok :: "ndpi_flow \<Rightarrow> bool" where
  "tls_ok f \<longleftrightarrow> (case as_tls_quic (protos f) of None \<Rightarrow> False | Some d \<Rightarrow>
     string_ok (host_of f) \<and> string_ok (tls_server_names d) \<and> string_ok (Some (tls_ja3_client d))
     \<and> string_ok (Some (tls_ja3_server d)) \<and> string_ok (tls_issuerDN d) \<and> string_ok (tls_subjectDN d)
     \<and> string_ok (tls_alpn d) \<and> string_ok (tls_supported_versions d) \<and> length (tls_sha1_certificate_fingerprint d) = 20)"

text \<open>The date as it is printed.\<close>

definition date_text :: "tm \<Rightarrow> bytes" where
  "date_text t = show_int (tm_year t + 1900) @ [45] @ two_digits (tm_mon t + 1) @ [45] @ two_digits (tm_mday t) @ [32]
     @ two_digits (tm_hour t) @ [58] @ two_digits (tm_min t) @ [58] @ two_digits (tm_sec t)"

definition date_trees :: "string \<Rightarrow> tm option \<Rightarrow> json_tree list" where
  "date_trees key t = (case t of None \<Rightarrow> [] | Some t \<Rightarrow> [text_entry key (Some (cstr (date_text t)))])"

lemma length_show_int:
  assumes "- (10 ^ 10) < i" "i < 10 ^ 10"
  shows "length (show_int i) \<le> 11"
proof (cases "i < 0")
  case True
  then have "nat (- i) < 10 ^ 10" using assms by simp
  then show ?thesis using length_show_nat [of 10 "nat (- i)"] True by (simp add: show_int_def)
next
  case False
  then have "nat i < 10 ^ 10" using assms by simp
  then show ?thesis using length_show_nat [of 10 "nat i"] False by (simp add: show_int_def)
qed

lemma length_two_digits: "- 100 < i \<Longrightarrow> i < 100 \<Longrightarrow> length (two_digits i) \<le> 3"
proof -
  assume i: "- 100 < i" "i < 100"
  have n: "length (show_nat (nat j)) \<le> 2" if "j < 100" for j :: int
    using length_show_nat [of 2 "nat j"] that by simp
  have o: "length (show_nat (nat i)) \<le> 1" if "i < 10"
    using length_show_nat [of 1 "nat i"] that by simp
  show ?thesis using n [of i] n [of "- i"] o i by (auto simp: two_digits_def show_int_def)
qed

lemma div_bounds: "0 < k \<Longrightarrow> k * (n div k) \<le> n \<and> n < k * (n div k) + k" for n k :: int
  using pos_mod_bound [of k n] pos_mod_sign [of k n] mult_div_mod_eq [of k n] by linarith

text \<open>Bounds of the calendar that are enough for the buffer of the date.\<close>

lemma civil_small:
  assumes "civil days = (y, m, d)"
  shows "- 90 < m \<and> m < 90 \<and> - 90 < d \<and> d < 90"
proof -
  define doe where "doe = (days + 719468) mod 146097"
  define a where "a = doe div 1460"
  define b where "b = doe div 36524"
  define c where "c = doe div 146096"
  define yoe where "yoe = (doe - a + b - c) div 365"
  define e where "e = yoe div 4"
  define g where "g = yoe div 100"
  define doy where "doy = doe - (365 * yoe + e - g)"
  define mp where "mp = (5 * doy + 2) div 153"
  define q where "q = (153 * mp + 2) div 5"
  have doe: "0 \<le> doe \<and> doe < 146097" by (simp add: doe_def)
  have bounds: "1460 * a \<le> doe \<and> doe < 1460 * a + 1460" "36524 * b \<le> doe \<and> doe < 36524 * b + 36524"
    "146096 * c \<le> doe \<and> doe < 146096 * c + 146096"
    "365 * yoe \<le> doe - a + b - c \<and> doe - a + b - c < 365 * yoe + 365"
    "4 * e \<le> yoe \<and> yoe < 4 * e + 4" "100 * g \<le> yoe \<and> yoe < 100 * g + 100"
    "153 * mp \<le> 5 * doy + 2 \<and> 5 * doy + 2 < 153 * mp + 153" "5 * q \<le> 153 * mp + 2 \<and> 153 * mp + 2 < 5 * q + 5"
    unfolding a_def b_def c_def yoe_def e_def g_def mp_def q_def by (rule div_bounds, simp)+
  have "civil days = (yoe + (days + 719468) div 146097 * 400 + (if (if mp < 10 then mp + 3 else mp - 9) \<le> 2 then 1 else 0),
      if mp < 10 then mp + 3 else mp - 9, doy - q + 1)"
    unfolding civil_def Let_def q_def mp_def doy_def e_def g_def yoe_def a_def b_def c_def doe_def by (rule refl)
  then have m: "m = (if mp < 10 then mp + 3 else mp - 9)" and d: "d = doy - q + 1"
    using assms by (simp_all only: prod.inject)
  have "- 10 < doy \<and> doy < 400" using doe bounds(1-6) unfolding doy_def by linarith
  then show ?thesis using bounds(7,8) unfolding m d by auto
qed

lemma date_printed:
  assumes "gmtime_r t = Some x"
  shows "strftime 32 x = Some (cstr (date_text x))" "text_ok 31 (date_text x)"
proof -
  obtain y m d where c: "civil (t div 86400) = (y, m, d)" by (cases "civil (t div 86400)")
  then have x: "x = \<lparr>tm_year = y - 1900, tm_mon = m - 1, tm_mday = d, tm_hour = t mod 86400 div 3600,
      tm_min = t mod 86400 div 60 mod 60, tm_sec = t mod 86400 mod 60\<rparr>" and y: "- (2 ^ 31) \<le> y - 1900" "y - 1900 < 2 ^ 31"
    using assms by (auto simp: gmtime_r_def Let_def split: if_splits)
  have s: "0 \<le> t mod 86400" "t mod 86400 < 86400" by simp_all
  have h: "length (two_digits (t mod 86400 div 3600)) \<le> 3" using s by (intro length_two_digits) linarith+
  have mi: "length (two_digits (t mod 86400 div 60 mod 60)) \<le> 3"
    using pos_mod_bound [of 60 "t mod 86400 div 60"] pos_mod_sign [of 60 "t mod 86400 div 60"] by (intro length_two_digits) linarith+
  have se: "length (two_digits (t mod 86400 mod 60)) \<le> 3"
    using pos_mod_bound [of 60 "t mod 86400"] pos_mod_sign [of 60 "t mod 86400"] by (intro length_two_digits) linarith+
  have md: "length (two_digits m) \<le> 3" "length (two_digits d) \<le> 3"
    using civil_small [OF c] by (auto intro!: length_two_digits)
  have ye: "length (show_int y) \<le> 11" using y by (intro length_show_int) simp_all
  have len: "length (date_text x) \<le> 31" using h mi se md ye by (simp add: date_text_def x)
  then show "strftime 32 x = Some (cstr (date_text x))" by (simp add: strftime_def date_text_def Let_def)
  have "0 \<notin> set (two_digits i)" for i using show_int_plain by (simp add: two_digits_def)
  then show "text_ok 31 (date_text x)" using len show_int_plain by (simp add: text_ok_def date_text_def)
qed

lemma date_writes:
  assumes env: "env_ok (text_env env)" and key: "plain_key (str key)" and t: "\<And>x. t = Some x \<Longrightarrow> \<exists>i. gmtime_r i = Some x"
  shows "writes (text_env env) ff (date_entry env key t) (date_trees key t)"
proof (cases t)
  case None
  then show ?thesis using writes_Nil by (simp add: date_entry_def [abs_def] date_trees_def)
next
  case (Some x)
  then obtain i where "gmtime_r i = Some x" using t by blast
  note d = date_printed [OF this]
  show ?thesis unfolding date_entry_def [abs_def] date_trees_def Some option.case d(1) bind.bind_lunit
    by (intro writes_text_entry env key string_ok_cstr [OF d(2)]) simp
qed

lemma field_time_gmtime: "field_time env a b = Some x \<Longrightarrow> \<exists>i. gmtime_r i = Some x"
  by (auto simp: field_time_def split: if_splits)

definition certificate_trees :: "tls_quic_protos \<Rightarrow> json_tree list" where
  "certificate_trees d = set_entry ''issuerDN'' (tls_issuerDN d) @ set_entry ''subjectDN'' (tls_subjectDN d)
     @ set_entry ''alpn'' (tls_alpn d) @ set_entry ''tls_supported_versions'' (tls_supported_versions d)
     @ (if tls_sha1_certificate_fingerprint d ! 0 \<noteq> 0
        then [text_entry ''fingerprint'' (Some (cstr (fingerprint_text (tls_sha1_certificate_fingerprint d))))] else [])"

definition tls_trees :: "report_env \<Rightarrow> ndpi_flow \<Rightarrow> json_tree list" where
  "tls_trees env f = (case as_tls_quic (protos f) of None \<Rightarrow> [] | Some d \<Rightarrow>
     if tls_ssl_version d = 0 then [] else if version_unknown (tls_ssl_version d) then []
     else [named_block ''tls''
       (text_entry ''version'' (Some (cstr (version_text (tls_ssl_version d))))
        # text_entry ''client_requested_server_name'' (host_of f)
        # set_entry ''server_names'' (tls_server_names d)
        @ date_trees ''notbefore'' (not_before env d) @ date_trees ''notafter'' (not_after env d)
        @ text_entry ''ja3'' (Some (tls_ja3_client d)) # text_entry ''ja3s'' (Some (tls_ja3_server d))
        # u32_entry ''unsafe_cipher'' (tls_server_unsafe_cipher d)
        # text_entry ''cipher'' (Some (cstr (ndpi_cipher2str (ucast (tls_server_cipher d)))))
        # certificate_trees d)])"

lemma fingerprint_ok: "text_ok 63 (fingerprint_text h)"
  using text_ok_printed [of "concat (map (\<lambda>(i, b). (if i > 0 then [58] else []) @ hex_pad True 2 (unat b)) (zip [0..<20] h))" 64]
    hex_pad_plain by (auto simp: fingerprint_text_def split: prod.splits)

lemma tls_writes:
  assumes env: "env_ok (text_env env)" and ok: "tls_ok f"
  shows "writes (text_env env) ff (tls_json env f) (tls_trees env f)"
proof -
  let ?c = "text_env env"
  obtain d where d: "as_tls_quic (protos f) = Some d" using ok by (auto simp: tls_ok_def split: option.splits)
  note o = ok [unfolded tls_ok_def d option.case]
  note v = version_pair [of "tls_ssl_version d"]
  have p: "peek_run (tls_sha1_certificate_fingerprint d) 0 20 = Some (tls_sha1_certificate_fingerprint d)"
    using o by (simp add: peek_run_def)
  have certificate: "writes ?c ff (tls_certificate_json ?c d) (certificate_trees d)"
    unfolding tls_certificate_json_def [abs_def] certificate_trees_def p bind.bind_lunit
    by (intro writes_intros env plain_keys string_ok_cstr [OF fingerprint_ok]) (use o in simp_all)
  have dates: "\<And>x. not_before env d = Some x \<Longrightarrow> \<exists>i. gmtime_r i = Some x" "\<And>x. not_after env d = Some x \<Longrightarrow> \<exists>i. gmtime_r i = Some x"
    unfolding not_before_def not_after_def by (rule field_time_gmtime, assumption)+
  show ?thesis
    unfolding tls_json_def [abs_def] tls_trees_def d option.case bind.bind_lunit v(1) Let_def prod.case option.map
    by (intro writes_intros env plain_keys certificate date_writes dates string_ok_cstr [OF v(2)]
        string_ok_cstr [OF cipher_name_ok]) (use o in simp_all)
qed

section \<open>The report\<close>

definition protocol_ok :: "report_env \<Rightarrow> ndpi_flow \<Rightarrow> u16 \<Rightarrow> bool" where
  "protocol_ok env f p \<longleftrightarrow>
     (if p = NDPI_PROTOCOL_IP_ICMP then length (print_float env (entropy f)) \<le> 25
      else if p = NDPI_PROTOCOL_DHCP then dhcp_ok f
      else if p = NDPI_PROTOCOL_BITTORRENT then bittorrent_ok f
      else if p = NDPI_PROTOCOL_DNS then dns_ok f
      else if p = NDPI_PROTOCOL_NTP then as_ntp (protos f) \<noteq> None
      else if p = NDPI_PROTOCOL_MDNS then string_ok (host_of f)
      else if p = NDPI_PROTOCOL_UBNTAC2 then ubntac2_ok f
      else if p = NDPI_PROTOCOL_KERBEROS then kerberos_ok f
      else if p = NDPI_PROTOCOL_TELNET then telnet_ok f
      else if p = NDPI_PROTOCOL_HTTP then http_ok f
      else if p = NDPI_PROTOCOL_QUIC then quic_ok f
      else if p \<in> {NDPI_PROTOCOL_MAIL_IMAP, NDPI_PROTOCOL_MAIL_POP, NDPI_PROTOCOL_MAIL_SMTP, NDPI_PROTOCOL_FTP_CONTROL} then login_ok f
      else if p = NDPI_PROTOCOL_SSH then ssh_ok f
      else if p = NDPI_PROTOCOL_TLS \<or> p = NDPI_PROTOCOL_DTLS then tls_ok f
      else True)"

definition protocol_trees :: "report_env \<Rightarrow> ndpi_flow \<Rightarrow> u16 \<Rightarrow> json_tree list" where
  "protocol_trees env f p =
     (if p = NDPI_PROTOCOL_IP_ICMP then icmp_trees f
      else if p = NDPI_PROTOCOL_DHCP then dhcp_trees f
      else if p = NDPI_PROTOCOL_BITTORRENT then bittorrent_trees f
      else if p = NDPI_PROTOCOL_DNS then dns_trees f
      else if p = NDPI_PROTOCOL_NTP then ntp_trees f
      else if p = NDPI_PROTOCOL_MDNS then mdns_trees f
      else if p = NDPI_PROTOCOL_UBNTAC2 then ubntac2_trees f
      else if p = NDPI_PROTOCOL_KERBEROS then kerberos_trees f
      else if p = NDPI_PROTOCOL_TELNET then telnet_trees f
      else if p = NDPI_PROTOCOL_HTTP then http_trees f
      else if p = NDPI_PROTOCOL_QUIC then quic_trees f
      else if p = NDPI_PROTOCOL_MAIL_IMAP then [named_block ''imap'' (login_trees f)]
      else if p = NDPI_PROTOCOL_MAIL_POP then [named_block ''pop'' (login_trees f)]
      else if p = NDPI_PROTOCOL_MAIL_SMTP then [named_block ''smtp'' (login_trees f)]
      else if p = NDPI_PROTOCOL_FTP_CONTROL then ftp_trees f
      else if p = NDPI_PROTOCOL_SSH then ssh_trees f
      else if p = NDPI_PROTOCOL_TLS \<or> p = NDPI_PROTOCOL_DTLS then tls_trees env f
      else [])"

lemma protocol_writes:
  assumes "env_ok (text_env env)" "protocol_ok env f p"
  shows "writes (text_env env) (print_float env) (protocol_json env f p) (protocol_trees env f p)"
  using assms(2) unfolding protocol_json_def [abs_def] protocol_trees_def protocol_ok_def Let_def
  by (auto split: if_split_asm intro: assms(1) icmp_writes dhcp_writes bittorrent_writes dns_writes ntp_writes mdns_writes
      ubntac2_writes kerberos_writes telnet_writes http_writes quic_writes mail_writes ftp_writes ssh_writes tls_writes writes_Nil)

definition report_ok :: "report_env \<Rightarrow> ndpi_module \<Rightarrow> ndpi_flow \<Rightarrow> ndpi_protocol \<Rightarrow> bool" where
  "report_ok env m f l7 \<longleftrightarrow> names_ok_of m \<and> labels_ok m \<and> protocol_ok env f (ndpi_get_lower_proto l7)"

definition report_trees :: "report_env \<Rightarrow> ndpi_module \<Rightarrow> ndpi_flow \<Rightarrow> ndpi_protocol \<Rightarrow> json_tree list" where
  "report_trees env m f l7 = proto_trees m (risk f) l7 @ protocol_trees env f (ndpi_get_lower_proto l7)"

lemma report_writes:
  assumes "env_ok (text_env env)" "report_ok env m f l7" "json_rep s ([], [], [])"
    "can_grow (text_env env) s (total_cost (report_trees env m f l7))"
  shows "\<exists>t. ndpi_dpi2json env m (Some f) l7 s = Some (0, t)
     \<and> json_rep t ([], [], map (tree_text (print_float env) (char_signed (text_env env))) (report_trees env m f l7))
     \<and> ssize t \<le> ssize s + total_cost (report_trees env m f l7)"
proof -
  let ?c = "text_env env"
  have "writes ?c (print_float env) (\<lambda>s. Option.bind (ndpi_serialize_proto ?c m (ucast (risk f)) l7 s)
      (protocol_json env f (ndpi_get_lower_proto l7))) (report_trees env m f l7)"
    unfolding report_trees_def using assms(2)
    by (intro writes_bind proto_writes protocol_writes assms(1)) (simp_all add: report_ok_def)
  from writesE [OF this assms(3) _ assms(4)] obtain t where
    "Option.bind (ndpi_serialize_proto ?c m (ucast (risk f)) l7 s) (protocol_json env f (ndpi_get_lower_proto l7)) = Some t"
    "json_rep t (add_trees (print_float env) (char_signed ?c) (report_trees env m f l7) ([], [], []))"
    "ssize t \<le> ssize s + total_cost (report_trees env m f l7)" by auto
  then show ?thesis by (auto simp: ndpi_dpi2json_def ndpi_get_lower_proto_def bind_eq_Some_conv simp del: json_rep.simps)
qed

end
