(* ===== verification/Json_Reader.thy ===== *)
theory Json_Reader
  imports Json_Trees Byte_Numbers
begin

text \<open>
  A reader for the JSON texts of the serializer, and the proof that it reads the text of a tree back:
  the names and strings without the control characters that the escaping drops, numbers and
  truth values as their characters. So a report is well-formed JSON, whatever strings it contains.
\<close>

section \<open>The reader\<close>

datatype json = JSON_string bytes | JSON_token bytes | JSON_object "(bytes \<times> json) list"

text \<open>The inside of a string, up to and with the closing quote.\<close>

fun read_string :: "bytes \<Rightarrow> (bytes \<times> bytes) option" where
  "read_string [] = None"
| "read_string (b # r) =
     (if b = 34 then Some ([], r)
      else if b = 92 then
        (case r of [] \<Rightarrow> None
         | c # r' \<Rightarrow> if c \<in> {34, 92, 47, 98, 102, 110, 114, 116}
                   then map_option (apfst ((#) (unescape_char c))) (read_string r') else None)
      else if b < 32 then None
      else map_option (apfst ((#) b)) (read_string r))"

definition delimiter :: "u8 \<Rightarrow> bool" where
  "delimiter c \<longleftrightarrow> c \<le> 32 \<or> c \<in> {44, 125, 93}"

definition read_token :: "bytes \<Rightarrow> (json \<times> bytes) option" where
  "read_token bs =
     (let t = takeWhile (\<lambda>c. \<not> delimiter c) bs in
      if t = [] then None else Some (JSON_token t, dropWhile (\<lambda>c. \<not> delimiter c) bs))"

text \<open>The name of a member, its colon, and the blanks behind it.\<close>

definition read_name :: "bytes \<Rightarrow> (bytes \<times> bytes) option" where
  "read_name bs = (case bs of
       [] \<Rightarrow> None
     | b # r \<Rightarrow> if b \<noteq> 34 then None else do {
         (k, r) \<leftarrow> read_string r;
         case r of [] \<Rightarrow> None | c # r \<Rightarrow> if c = 58 then Some (k, dropWhile (\<lambda>c. c = 32) r) else None
       })"

text \<open>Values and members; the fuel bounds the number of values and members that are read.\<close>

fun read_value :: "nat \<Rightarrow> bytes \<Rightarrow> (json \<times> bytes) option"
  and read_members :: "nat \<Rightarrow> bytes \<Rightarrow> ((bytes \<times> json) list \<times> bytes) option" where
  "read_value 0 bs = None"
| "read_value (Suc n) bs = (case bs of
       [] \<Rightarrow> None
     | b # r \<Rightarrow>
         if b = 34 then map_option (apfst JSON_string) (read_string r)
         else if b = 123 then
           (if take 1 r = [125] then Some (JSON_object [], drop 1 r)
            else map_option (apfst JSON_object) (read_members n r))
         else read_token bs)"
| "read_members 0 bs = None"
| "read_members (Suc n) bs = do {
     (k, r) \<leftarrow> read_name bs;
     (v, r) \<leftarrow> read_value n r;
     case r of
       [] \<Rightarrow> None
     | c # r \<Rightarrow>
         if c = 44 then map_option (apfst ((#) (k, v))) (read_members n r)
         else if c = 125 then Some ([(k, v)], r)
         else None
   }"

definition read_json :: "bytes \<Rightarrow> json option" where
  "read_json bs = (case read_value (length bs) bs of Some (v, []) \<Rightarrow> Some v | _ \<Rightarrow> None)"

section \<open>What a tree means\<close>

definition kept :: "bool \<Rightarrow> bytes \<Rightarrow> bytes" where
  "kept sg t = filter (\<lambda>c. \<not> dropped sg c) t"

fun key_meaning :: "bool \<Rightarrow> tlv_key \<Rightarrow> bytes" where
  "key_meaning sg (Num k) = show_nat (unat k)"
| "key_meaning sg (Name n) = kept sg n"

fun value_meaning :: "(u32 \<Rightarrow> bytes) \<Rightarrow> bool \<Rightarrow> json_value \<Rightarrow> json" where
  "value_meaning ff sg (JText t) = JSON_string (kept sg t)"
| "value_meaning ff sg (JString t) = JSON_string (kept sg t)"
| "value_meaning ff sg v = JSON_token (value_text ff sg v)"

primrec meaning :: "(u32 \<Rightarrow> bytes) \<Rightarrow> bool \<Rightarrow> json_tree \<Rightarrow> bytes \<times> json" where
  "meaning ff sg (Entry k v) = (key_meaning sg (norm_key k), value_meaning ff sg v)"
| "meaning ff sg (Block n ts) = (kept sg n, JSON_object (map (meaning ff sg) ts))"

text \<open>A printed value that the reader takes for one: not empty, and no character that ends or begins another.\<close>

definition token_ok :: "bytes \<Rightarrow> bool" where
  "token_ok t \<longleftrightarrow> t \<noteq> [] \<and> (\<forall>c \<in> set t. \<not> delimiter c) \<and> hd t \<noteq> 34 \<and> hd t \<noteq> 123"

fun value_readable :: "(u32 \<Rightarrow> bytes) \<Rightarrow> json_value \<Rightarrow> bool" where
  "value_readable ff (JFloat v) \<longleftrightarrow> token_ok (ff v)"
| "value_readable ff (JRaw t) \<longleftrightarrow> token_ok t"
| "value_readable ff v \<longleftrightarrow> True"

primrec readable :: "(u32 \<Rightarrow> bytes) \<Rightarrow> json_tree \<Rightarrow> bool" where
  "readable ff (Entry k v) \<longleftrightarrow> value_readable ff v"
| "readable ff (Block n ts) \<longleftrightarrow> list_all (readable ff) ts"

section \<open>Strings and tokens\<close>

lemma read_escape_char:
  "read_string (json_escape_char sg c @ r) = (if dropped sg c then read_string r else map_option (apfst ((#) c)) (read_string r))"
  by (auto simp: json_escape_char_def dropped_def unescape_char_def below_space_def)

lemma read_esc: "read_string (esc sg t @ 34 # r) = Some (kept sg t, r)"
  by (induction t) (simp_all add: esc_def kept_def read_escape_char)

lemma read_quoted: "read_value (Suc n) (quoted sg t @ r) = Some (JSON_string (kept sg t), r)"
  by (simp add: quoted_def read_esc)

lemma read_name_quoted: "r = [] \<or> hd r \<noteq> 32 \<Longrightarrow> read_name (quoted sg k @ 58 # r) = Some (kept sg k, r)"
  by (cases r) (simp_all add: read_name_def quoted_def read_esc)

lemma read_token_ok:
  assumes "token_ok t" "r = [] \<or> delimiter (hd r)"
  shows "read_value (Suc n) (t @ r) = Some (JSON_token t, r)"
proof -
  obtain c cs where t: "t = c # cs" "c \<noteq> 34" "c \<noteq> 123" using assms(1) by (cases t) (auto simp: token_ok_def)
  have all: "\<And>x. x \<in> set t \<Longrightarrow> \<not> delimiter x" using assms(1) by (simp add: token_ok_def)
  have "takeWhile (\<lambda>c. \<not> delimiter c) (t @ r) = t" "dropWhile (\<lambda>c. \<not> delimiter c) (t @ r) = r"
    using all assms(2) by (cases r; auto simp: takeWhile_append dropWhile_append)+
  then have "read_token (t @ r) = Some (JSON_token t, r)" using t by (simp add: read_token_def)
  then show ?thesis using t by simp
qed

lemma digits_token: "t \<noteq> [] \<Longrightarrow> list_all c_isdigit t \<Longrightarrow> token_ok t"
  by (cases t) (auto simp: token_ok_def delimiter_def list_all_iff c_isdigit_def word_le_nat_alt)

lemma read_digits_string: "list_all c_isdigit t \<Longrightarrow> read_string (t @ 34 # r) = Some (t, r)"
  by (induction t) (auto simp: c_isdigit_def word_le_nat_alt word_less_nat_alt)

lemma read_key: "read_name (key_text sg (norm_key k) @ r) = Some (key_meaning sg (norm_key k), dropWhile (\<lambda>c. c = 32) r)"
proof (cases "norm_key k")
  case (Num i)
  then show ?thesis using read_digits_string [OF show_nat_digits] by (simp add: read_name_def json_key_text_def)
next
  case (Name n)
  then show ?thesis by (simp add: read_name_def quoted_def read_esc)
qed

section \<open>Values and documents\<close>

lemma show_int_token: "token_ok (show_int i)"
proof (cases "i < 0")
  case True
  have "\<not> delimiter c" if "c \<in> set (show_nat (nat (- i)))" for c
    using digits_token [OF show_nat_nonempty show_nat_digits] that by (auto simp: token_ok_def)
  then show ?thesis using True by (auto simp: show_int_def token_ok_def delimiter_def)
next
  case False
  then show ?thesis using digits_token [OF show_nat_nonempty show_nat_digits] by (simp add: show_int_def)
qed

lemma bool_token: "token_ok (bool_text b)"
  by (simp add: bool_text_def token_ok_def delimiter_def str_def)

lemma token_first: "token_ok t \<Longrightarrow> dropWhile (\<lambda>c. c = 32) (t @ r) = t @ r"
  by (cases t) (auto simp: token_ok_def delimiter_def)

text \<open>A printed value is a quoted string or a token.\<close>

lemma read_printed:
  assumes "value_readable ff v" "r = [] \<or> delimiter (hd r)"
  shows "read_value (Suc n) (value_text ff sg v @ r) = Some (value_meaning ff sg v, r)
     \<and> dropWhile (\<lambda>c. c = 32) (value_text ff sg v @ r) = value_text ff sg v @ r"
proof -
  have tok: "read_value (Suc n) (t @ r) = Some (JSON_token t, r) \<and> dropWhile (\<lambda>c. c = 32) (t @ r) = t @ r"
    if "token_ok t" for t
    using read_token_ok [OF that assms(2)] token_first [OF that] by (simp del: read_value.simps)
  have nat: "token_ok (show_nat k)" for k using digits_token [OF show_nat_nonempty show_nat_digits] .
  have q: "read_value (Suc n) (quoted sg t @ r) = Some (JSON_string (kept sg t), r)
      \<and> dropWhile (\<lambda>c. c = 32) (quoted sg t @ r) = quoted sg t @ r" for t
    using read_quoted by (simp add: quoted_def)
  show ?thesis using assms(1) tok nat show_int_token bool_token q
    by (cases v) (simp_all del: read_value.simps)
qed

lemma tree_text_first: "\<exists>r. tree_text ff sg t = 34 # r"
proof (cases t)
  case (Entry k v)
  then show ?thesis by (cases "norm_key k") (auto simp: json_key_text_def quoted_def)
qed (simp add: quoted_def)

definition reads :: "(u32 \<Rightarrow> bytes) \<Rightarrow> bool \<Rightarrow> json_tree \<Rightarrow> bool" where
  "reads ff sg t \<longleftrightarrow> (\<forall>n r. length (tree_text ff sg t) \<le> n \<longrightarrow> r = [] \<or> delimiter (hd r) \<longrightarrow>
     (\<exists>rest. read_name (tree_text ff sg t @ r) = Some (fst (meaning ff sg t), rest)
        \<and> read_value n rest = Some (snd (meaning ff sg t), r)))"

lemma readsE:
  assumes "reads ff sg t" "length (tree_text ff sg t) \<le> n" "r = [] \<or> delimiter (hd r)"
  obtains rest where "read_name (tree_text ff sg t @ r) = Some (fst (meaning ff sg t), rest)"
    "read_value n rest = Some (snd (meaning ff sg t), r)"
  using assms unfolding reads_def by blast

lemma members_read:
  assumes "ts \<noteq> []" "list_all (reads ff sg) ts" "length (commas (map (tree_text ff sg) ts)) < n"
  shows "read_members n (commas (map (tree_text ff sg) ts) @ 125 # r) = Some (map (meaning ff sg) ts, r)"
  using assms
proof (induction ts arbitrary: n)
  case (Cons t ts)
  obtain m where n: "n = Suc m" using Cons.prems(3) by (cases n) simp_all
  have rt: "reads ff sg t" using Cons.prems(2) by simp
  show ?case
  proof (cases ts)
    case Nil
    then have "length (tree_text ff sg t) \<le> m" using Cons.prems(3) n by simp
    from readsE [OF rt this, of "125 # r"] obtain rest where
      "read_name (tree_text ff sg t @ 125 # r) = Some (fst (meaning ff sg t), rest)"
      "read_value m rest = Some (snd (meaning ff sg t), 125 # r)" by (auto simp: delimiter_def)
    then show ?thesis using Nil n by simp
  next
    case (Cons u us)
    let ?rest = "commas (map (tree_text ff sg) ts) @ 125 # r"
    have c: "commas (map (tree_text ff sg) (t # ts)) = tree_text ff sg t @ 44 # commas (map (tree_text ff sg) ts)"
      using Cons by simp
    then have l: "length (tree_text ff sg t) \<le> m" "length (commas (map (tree_text ff sg) ts)) < m"
      using Cons.prems(3) n by simp_all
    from readsE [OF rt l(1), of "44 # ?rest"] obtain rest where
      t: "read_name (tree_text ff sg t @ 44 # ?rest) = Some (fst (meaning ff sg t), rest)"
      "read_value m rest = Some (snd (meaning ff sg t), 44 # ?rest)" by (auto simp: delimiter_def)
    have "read_members m ?rest = Some (map (meaning ff sg) ts, r)"
      using Cons.IH Cons.prems(2) l(2) Cons by simp
    then show ?thesis using t n unfolding c by simp
  qed
qed simp

lemma object_read:
  assumes "list_all (reads ff sg) ts" "length (commas (map (tree_text ff sg) ts)) < n"
  shows "read_value (Suc n) (json_object (map (tree_text ff sg) ts) @ r) = Some (JSON_object (map (meaning ff sg) ts), r)"
proof (cases ts)
  case Nil
  then show ?thesis by (simp add: json_object_def)
next
  case (Cons t us)
  obtain x where "tree_text ff sg t = 34 # x" using tree_text_first by blast
  then have "take 1 (commas (map (tree_text ff sg) ts) @ 125 # r) \<noteq> [125]" using Cons by (cases us) simp_all
  moreover have "read_members n (commas (map (tree_text ff sg) ts) @ 125 # r) = Some (map (meaning ff sg) ts, r)"
    using members_read [OF _ assms] Cons by simp
  ultimately show ?thesis by (simp add: json_object_def)
qed

lemma tree_reads: "readable ff t \<Longrightarrow> reads ff sg t"
proof (induction t)
  case (Entry k v)
  show ?case
    unfolding reads_def
  proof (intro allI impI)
    fix n r assume n: "length (tree_text ff sg (Entry k v)) \<le> n" and r: "r = [] \<or> delimiter (hd r)"
    then obtain m where m: "n = Suc m" using tree_text_first [of ff sg "Entry k v"] by (cases n) auto
    show "\<exists>rest. read_name (tree_text ff sg (Entry k v) @ r) = Some (fst (meaning ff sg (Entry k v)), rest)
        \<and> read_value n rest = Some (snd (meaning ff sg (Entry k v)), r)"
      using read_key read_printed [OF _ r, of ff v m sg] Entry unfolding m by (simp del: read_value.simps)
  qed
next
  case (Block k ts)
  then have ts: "list_all (reads ff sg) ts" by (simp add: list_all_iff)
  show ?case
    unfolding reads_def
  proof (intro allI impI)
    fix n r assume n: "length (tree_text ff sg (Block k ts)) \<le> n" and r: "r = [] \<or> delimiter (hd r)"
    then obtain m where m: "n = Suc m" "length (commas (map (tree_text ff sg) ts)) < m"
      by (cases n) (auto simp: json_object_def quoted_def)
    have "read_name (quoted sg k @ 58 # 32 # json_object (map (tree_text ff sg) ts) @ r)
        = Some (kept sg k, json_object (map (tree_text ff sg) ts) @ r)"
      by (simp add: read_name_def quoted_def read_esc json_object_def)
    then show "\<exists>rest. read_name (tree_text ff sg (Block k ts) @ r) = Some (fst (meaning ff sg (Block k ts)), rest)
        \<and> read_value n rest = Some (snd (meaning ff sg (Block k ts)), r)"
      using object_read [OF ts m(2)] unfolding m by (simp del: read_value.simps)
  qed
qed

lemma document_read:
  assumes "list_all (readable ff) ts"
  shows "read_json (json_object (map (tree_text ff sg) ts)) = Some (JSON_object (map (meaning ff sg) ts))"
proof -
  let ?c = "commas (map (tree_text ff sg) ts)"
  have l: "length (json_object (map (tree_text ff sg) ts)) = Suc (Suc (length ?c))" by (simp add: json_object_def)
  have "list_all (reads ff sg) ts" using assms tree_reads by (auto simp: list_all_iff)
  from object_read [OF this, of "Suc (length ?c)" "[]"] show ?thesis unfolding read_json_def l by (simp del: read_value.simps)
qed

text \<open>Such a text contains no zero byte, so that it can be handed over as a C string.\<close>

lemma esc_nonzero: "0 \<notin> set (esc sg t)"
  by (auto simp: esc_def json_escape_char_def below_space_def)

lemma digits_nonzero: "0 \<notin> set (show_nat n)"
  using show_nat_digits [of n] by (auto simp: list_all_iff c_isdigit_def dest: bspec [where x = 0])

lemma token_nonzero: "token_ok t \<Longrightarrow> 0 \<notin> set t"
  by (auto simp: token_ok_def delimiter_def)

lemma key_nonzero: "0 \<notin> set (key_text sg k)"
  using esc_nonzero digits_nonzero by (cases k) (auto simp: json_key_text_def quoted_def)

lemma value_nonzero: "value_readable ff v \<Longrightarrow> 0 \<notin> set (value_text ff sg v)"
  using esc_nonzero digits_nonzero token_nonzero show_int_token bool_token by (cases v) (auto simp: quoted_def)

lemma commas_nonzero: "\<forall>m \<in> set ms. 0 \<notin> set m \<Longrightarrow> 0 \<notin> set (commas ms)"
  by (induction ms rule: commas.induct) auto

lemma object_nonzero: "\<forall>m \<in> set ms. 0 \<notin> set m \<Longrightarrow> 0 \<notin> set (json_object ms)"
  using commas_nonzero [of ms] by (simp add: json_object_def)

lemma tree_nonzero: "readable ff t \<Longrightarrow> 0 \<notin> set (tree_text ff sg t)"
proof (induction t)
  case (Entry k v)
  then show ?case using key_nonzero value_nonzero by simp
next
  case (Block n ts)
  then have "0 \<notin> set (json_object (map (tree_text ff sg) ts))" by (intro object_nonzero) (auto simp: list_all_iff)
  then show ?case using esc_nonzero by (simp add: quoted_def)
qed

end
