(* ===== verification/Report_Document.thy ===== *)
theory Report_Document
  imports Dpi_Report Json_Reader Dissectors
begin

text \<open>
  The properties of a report: the buffer handed out after \<open>ndpi_dpi2json\<close> is well-formed JSON that
  reads back as the report of the flow, and what the code leaves out of it.
\<close>

section \<open>A report can be read\<close>

lemma entries_readable [simp]:
  "readable ff (text_entry k p)" "readable ff (u32_entry k v)" "list_all (readable ff) (set_entry k p)"
  "readable ff (named_block k ts) \<longleftrightarrow> list_all (readable ff) ts" "list_all (readable ff) (date_trees k t)"
  by (simp_all add: text_entry_def u32_entry_def set_entry_def named_block_def date_trees_def split: option.split)

lemma risks_readable [simp]: "list_all (readable ff) (risk_trees r)"
  by (simp add: risk_trees_def Let_def list_all_iff)

lemma proto_readable: "list_all (readable ff) (proto_trees m r l7)"
  by (simp add: proto_trees_def)

lemma icmp_readable: "(float_positive (entropy f) \<Longrightarrow> token_ok (ff (entropy f))) \<Longrightarrow> list_all (readable ff) (icmp_trees f)"
  by (simp add: icmp_trees_def)

lemma other_readable:
  "list_all (readable ff) (dhcp_trees f)" "list_all (readable ff) (bittorrent_trees f)" "list_all (readable ff) (dns_trees f)"
  "list_all (readable ff) (ntp_trees f)" "list_all (readable ff) (mdns_trees f)" "list_all (readable ff) (ubntac2_trees f)"
  "list_all (readable ff) (kerberos_trees f)" "list_all (readable ff) (telnet_trees f)" "list_all (readable ff) (http_trees f)"
  "list_all (readable ff) (quic_trees f)" "list_all (readable ff) (login_trees f)" "list_all (readable ff) (ftp_trees f)"
  "list_all (readable ff) (ssh_trees f)" "list_all (readable ff) (tls_trees env f)"
  by (simp_all add: dhcp_trees_def bittorrent_trees_def dns_trees_def ntp_trees_def mdns_trees_def ubntac2_trees_def
      kerberos_trees_def telnet_trees_def http_trees_def quic_trees_def login_trees_def ftp_trees_def ssh_trees_def
      tls_trees_def certificate_trees_def split: option.split)

lemma report_readable:
  assumes "float_positive (entropy f) \<Longrightarrow> token_ok (ff (entropy f))"
  shows "list_all (readable ff) (report_trees env m f l7)"
  using proto_readable icmp_readable [of f ff] other_readable assms
  by (simp add: report_trees_def protocol_trees_def)

section \<open>The document handed out\<close>

abbreviation report_json :: "report_env \<Rightarrow> ndpi_module \<Rightarrow> ndpi_flow \<Rightarrow> ndpi_protocol \<Rightarrow> json" where
  "report_json env m f l7 \<equiv> JSON_object (map (meaning (print_float env) (char_signed (text_env env))) (report_trees env m f l7))"

definition json_writable :: "serializer \<Rightarrow> bool" where
  "json_writable s \<longleftrightarrow> fmt s = ndpi_serialization_format_json \<and> length (sdata s) = ssize s \<and> 4 \<le> ssize s \<and> ssize s < 2 ^ 31"

lemma report_buffer:
  assumes "env_ok (text_env env)" "report_ok env m f l7" "json_rep s ([], [], [])"
    "can_grow (text_env env) s (total_cost (report_trees env m f l7))"
    "float_positive (entropy f) \<Longrightarrow> token_ok (print_float env (entropy f))"
  shows "\<exists>t text r u. ndpi_dpi2json env m (Some f) l7 s = Some (0, t)
     \<and> ndpi_serializer_get_buffer t = Some (text @ 0 # r, length text, u)
     \<and> read_json text = Some (report_json env m f l7) \<and> 0 \<notin> set text \<and> json_writable u"
proof -
  let ?ts = "report_trees env m f l7" and ?sg = "char_signed (text_env env)"
  let ?text = "json_object (map (tree_text (print_float env) ?sg) ?ts)"
  have readable: "list_all (readable (print_float env)) ?ts"
    using report_readable [of f "print_float env"] assms(5) by simp
  from report_writes [OF assms(1-4)] obtain t where
    t: "ndpi_dpi2json env m (Some f) l7 s = Some (0, t)" "json_rep t ([], [], map (tree_text (print_float env) ?sg) ?ts)" by blast
  obtain r u where u: "ndpi_serializer_get_buffer t = Some (?text @ 0 # r, length ?text, u)"
      "ssize u = ssize t" "length (sdata u) = ssize t" "fmt u = fmt t"
    using get_buffer_json [OF t(2)] by (auto simp: document_def)
  have "ser_ok t" "fmt t = ndpi_serialization_format_json" using json_rep_ok [OF t(2)] .
  moreover have "4 \<le> ssize t"
    using t(2) length_content [OF \<open>ser_ok t\<close>] by (simp add: json_object_def)
  ultimately have "json_writable u" using u by (simp add: json_writable_def ser_ok_def)
  moreover have "0 \<notin> set ?text" using readable tree_nonzero by (intro object_nonzero) (auto simp: list_all_iff)
  ultimately show ?thesis using t(1) u(1) document_read [OF readable] by blast
qed

text \<open>A reset serializer holds the empty document again.\<close>

lemma reset_json:
  assumes "json_writable s"
  shows "\<exists>t. ndpi_reset_serializer s = Some t \<and> json_rep t ([], [], []) \<and> ssize t = ssize s"
proof -
  let ?s = "set_used 0 (set_sflags 0 s)"
  let ?t = "[ch_space, ch_lbrace, ch_rbrace]"
  have ok: "ser_ok ?s" "content ?s = []" "room ?s 4" "buff_diff ?s = ssize s"
    using assms by (simp_all add: json_writable_def ser_ok_def content_def room_def buff_diff_def)
  have "ser_snprintf ?s (buff_diff ?s) ?t = Some (app ?s ?t [0])"
    using ok assms by (intro ser_snprintf_app) (simp_all add: json_writable_def room_def)
  moreover have "json_rep (app ?s ?t [0]) ([], [], [])"
    using ok assms by (simp add: json_writable_def room_def json_object_def)
  ultimately show ?thesis using assms
    by (intro exI [of _ "app ?s ?t [0]"]) (simp add: ndpi_reset_serializer_def json_writable_def Let_def del: json_rep.simps)
qed

text \<open>
  C3. The report of a flow. When the strings that the report takes from the flow and the module are
  terminated and the buffer can grow, writing the report on a reset JSON serializer returns 0 and
  makes no access outside an object; the buffer handed out holds a terminated text that a JSON
  reader accepts, and what it reads is the report of the flow: the known risks, the names of
  protocol, breed and category, and the block of the protocol, whatever bytes the strings contain.
\<close>

theorem result_document:
  assumes "env_ok (text_env env)" "json_writable s" "report_ok env m f l7"
    and "can_grow (text_env env) s (total_cost (report_trees env m f l7))"
    and "float_positive (entropy f) \<Longrightarrow> token_ok (print_float env (entropy f))"
  shows "\<exists>s0 t text r u. ndpi_reset_serializer s = Some s0 \<and> ndpi_dpi2json env m (Some f) l7 s0 = Some (0, t)
     \<and> ndpi_serializer_get_buffer t = Some (text @ 0 # r, length text, u)
     \<and> read_json text = Some (report_json env m f l7)"
proof -
  obtain s0 where s0: "ndpi_reset_serializer s = Some s0" "json_rep s0 ([], [], [])" "ssize s0 = ssize s"
    using reset_json [OF assms(2)] by blast
  have "can_grow (text_env env) s0 (total_cost (report_trees env m f l7))" using assms(4) s0(3) by (simp add: can_grow_def)
  from report_buffer [OF assms(1,3) s0(2) this assms(5)] s0(1) show ?thesis by blast
qed

text \<open>An instance: a DNS flow on a module that knows the names of its protocols.\<close>

definition named_module :: ndpi_module where
  "named_module = zero_module\<lparr>proto_defaults :=
     replicate (NDPI_MAX_SUPPORTED_PROTOCOLS + NDPI_MAX_NUM_CUSTOM_PROTOCOLS) (zero_default\<lparr>protoName := Some (str ''Unknown'')\<rparr>)\<rparr>"

lemma named_module_ok: "names_ok_of named_module" "labels_ok named_module"
  by (simp_all add: named_module_def zero_module_def names_ok_of_def labels_ok_def str_def size_defs)

definition dns_flow :: ndpi_flow where
  "dns_flow = zero_flow\<lparr>risk := 2, host_server_name := str ''a.b'' @ 0 # replicate 76 0,
     protos := Dns \<lparr>dns_num_queries = 1, dns_num_answers = 1, dns_reply_code = 0, dns_query_type = 1, dns_rsp_type = 1,
       dns_rsp_addr = [10, 0, 0, 1] @ replicate 12 0\<rparr>\<rparr>"

definition plain_report :: report_env where
  "plain_report = \<lparr>text_env = roomy_env, print_float = (\<lambda>_. str ''0.5''), wide_time_t = True\<rparr>"

definition dns_result :: ndpi_protocol where
  "dns_result = \<lparr>master_protocol = 0, app_protocol = NDPI_PROTOCOL_DNS, proto_category = 14\<rparr>"

lemma dns_host_ok: "string_ok (host_of dns_flow)"
proof -
  have "c_strlen (str ''a.b'' @ 0 # replicate 76 0) = Some 3"
    using c_strlen_append [of "str ''a.b''" "replicate 76 0"] by (simp add: str_def)
  then show ?thesis by (simp add: dns_flow_def string_ok_def pointed_text_def)
qed

lemma dns_flow_ok: "report_ok plain_report named_module dns_flow dns_result"
proof -
  have "dns_ok dns_flow" using dns_host_ok by (simp add: dns_ok_def dns_flow_def)
  then show ?thesis by (simp add: report_ok_def named_module_ok protocol_ok_def dns_result_def ndpi_get_lower_proto_def)
qed

lemma dns_risks: "filter (bit (2 :: u64)) [0..<32] = [1]"
  by code_simp

lemma dns_names:
  "protocol_name_text named_module dns_result = str ''Unknown''" "breed_of named_module dns_result = 0"
  "ndpi_category_get_name named_module 14 = Some (str ''Network'')"
  by (simp_all add: protocol_name_text_def protocol_text_def ndpi_get_proto_name_def known_or_unknown_def breed_of_def
      ndpi_get_upper_proto_def ndpi_get_proto_breed_def dns_result_def named_module_def zero_module_def zero_default_def
      defaults_of_def at_def size_defs str_def ndpi_category_get_name_def categories_def)

lemma dns_query: "the_text (host_of dns_flow) = str ''a.b''"
proof -
  have "c_strlen (str ''a.b'' @ 0 # replicate 76 0) = Some 3"
    using c_strlen_append [of "str ''a.b''" "replicate 76 0"] by (simp add: str_def)
  then show ?thesis by (simp add: dns_flow_def the_text_def pointed_text_def str_def)
qed

lemma dns_report_trees:
  "report_trees plain_report named_module dns_flow dns_result =
     [Block (str ''ndpi'')
       [Block (str ''flow_risk'') [Entry (Num 1) (JString (str ''XSS Attack''))],
        Entry (Name (str ''proto'')) (JString (str ''Unknown'')), Entry (Name (str ''breed'')) (JString (str ''Safe'')),
        Entry (Name (str ''category'')) (JString (str ''Network''))],
      Block (str ''dns'')
       [Entry (Name (str ''query'')) (JString (str ''a.b'')), Entry (Name (str ''num_queries'')) (JU32 1),
        Entry (Name (str ''num_answers'')) (JU32 1), Entry (Name (str ''reply_code'')) (JU32 0),
        Entry (Name (str ''query_type'')) (JU32 1), Entry (Name (str ''rsp_type'')) (JU32 1),
        Entry (Name (str ''rsp_addr'')) (JString (str ''10.0.0.1''))]]"
proof -
  have n: "0 \<notin> set (str ''Unknown'')" "0 \<notin> set (str ''Safe'')" "0 \<notin> set (str ''Network'')" "0 \<notin> set (str ''10.0.0.1'')"
    by (simp_all add: str_def)
  have a: "address_text ([10, 0, 0, 1] @ replicate 12 0) = str ''10.0.0.1''"
    by (simp add: address_text_def dotted_def show_nat.simps str_def)
  have r: "ndpi_risk2str (Suc 0) = str ''XSS Attack''" by (simp add: ndpi_risk2str_def risk_names_def)
  have l7: "master_protocol dns_result = 0" "app_protocol dns_result = NDPI_PROTOCOL_DNS" "proto_category dns_result = 14"
    by (simp_all add: dns_result_def)
  have f: "risk dns_flow = 2" "named_host dns_flow"
    "protos dns_flow = Dns \<lparr>dns_num_queries = 1, dns_num_answers = 1, dns_reply_code = 0, dns_query_type = 1, dns_rsp_type = 1,
       dns_rsp_addr = [10, 0, 0, 1] @ replicate 12 0\<rparr>"
    by (simp_all add: dns_flow_def named_host_def str_def)
  have p: "proto_trees named_module 2 dns_result = [Block (str ''ndpi'')
       [Block (str ''flow_risk'') [Entry (Num 1) (JString (str ''XSS Attack''))],
        Entry (Name (str ''proto'')) (JString (str ''Unknown'')), Entry (Name (str ''breed'')) (JString (str ''Safe'')),
        Entry (Name (str ''category'')) (JString (str ''Network''))]]"
    using n r by (simp add: proto_trees_def risk_trees_def dns_risks dns_names l7 named_block_def text_entry_def
        ndpi_get_proto_breed_name_def)
  have q: "dns_trees dns_flow = [Block (str ''dns'')
       [Entry (Name (str ''query'')) (JString (str ''a.b'')), Entry (Name (str ''num_queries'')) (JU32 1),
        Entry (Name (str ''num_answers'')) (JU32 1), Entry (Name (str ''reply_code'')) (JU32 0),
        Entry (Name (str ''query_type'')) (JU32 1), Entry (Name (str ''rsp_type'')) (JU32 1),
        Entry (Name (str ''rsp_addr'')) (JString (str ''10.0.0.1''))]]"
    using n a by (simp add: dns_trees_def f dns_query named_block_def text_entry_def u32_entry_def)
  show ?thesis
    using p q by (simp add: report_trees_def protocol_trees_def ndpi_get_lower_proto_def l7 f)
qed

lemma dns_report_json:
  "report_json plain_report named_module dns_flow dns_result = JSON_object
     [(str ''ndpi'', JSON_object
        [(str ''flow_risk'', JSON_object [(str ''1'', JSON_string (str ''XSS Attack''))]),
         (str ''proto'', JSON_string (str ''Unknown'')), (str ''breed'', JSON_string (str ''Safe'')),
         (str ''category'', JSON_string (str ''Network''))]),
      (str ''dns'', JSON_object
        [(str ''query'', JSON_string (str ''a.b'')), (str ''num_queries'', JSON_token (str ''1'')),
         (str ''num_answers'', JSON_token (str ''1'')), (str ''reply_code'', JSON_token (str ''0'')),
         (str ''query_type'', JSON_token (str ''1'')), (str ''rsp_type'', JSON_token (str ''1'')),
         (str ''rsp_addr'', JSON_string (str ''10.0.0.1''))])]"
proof -
  have k: "kept sg t = t" if "list_all (\<lambda>c. 32 \<le> c \<and> c < 128) t" for sg t
    using that by (induction t) (auto simp: kept_def dropped_def below_space_def word_le_nat_alt word_less_nat_alt)
  have n: "\<not> list_all c_isdigit n" if "plain_key n" for n using that by (simp add: plain_key_def)
  show ?thesis unfolding dns_report_trees
    by (simp add: n show_nat.simps) (simp add: k str_def)
qed

definition json_buffer :: serializer where
  "json_buffer = zero_serializer\<lparr>fmt := ndpi_serialization_format_json,
     buffer := \<lparr>initial_size = 16, bsize = 16, bdata = replicate 16 0\<rparr>\<rparr>"

lemma json_buffer_writable: "json_writable json_buffer"
  by (simp add: json_writable_def json_buffer_def zero_serializer_def)

lemma dns_report_grows: "can_grow roomy_env json_buffer (total_cost (report_trees plain_report named_module dns_flow dns_result))"
  by (simp add: can_grow_def dns_report_trees roomy_env_def json_buffer_def zero_serializer_def)

theorem result_document_witness:
  "\<exists>s0 t text r u. ndpi_reset_serializer json_buffer = Some s0
     \<and> ndpi_dpi2json plain_report named_module (Some dns_flow) dns_result s0 = Some (0, t)
     \<and> ndpi_serializer_get_buffer t = Some (text @ 0 # r, length text, u)
     \<and> read_json text = Some (report_json plain_report named_module dns_flow dns_result)"
proof (rule result_document)
  show "env_ok (text_env plain_report)" by (simp add: plain_report_def roomy_env_ok)
  show "json_writable json_buffer" by (rule json_buffer_writable)
  show "report_ok plain_report named_module dns_flow dns_result" by (rule dns_flow_ok)
  show "can_grow (text_env plain_report) json_buffer (total_cost (report_trees plain_report named_module dns_flow dns_result))"
    using dns_report_grows by (simp add: plain_report_def)
qed (simp add: dns_flow_def zero_flow_def float_positive_def)

section \<open>What a report leaves out\<close>

lemma risk_unread:
  "icmp_json env (f\<lparr>risk := r\<rparr>) = icmp_json env f" "dhcp_json c (f\<lparr>risk := r\<rparr>) = dhcp_json c f"
  "bittorrent_json c (f\<lparr>risk := r\<rparr>) = bittorrent_json c f" "dns_json c (f\<lparr>risk := r\<rparr>) = dns_json c f"
  "ntp_json c (f\<lparr>risk := r\<rparr>) = ntp_json c f" "mdns_json c (f\<lparr>risk := r\<rparr>) = mdns_json c f"
  "ubntac2_json c (f\<lparr>risk := r\<rparr>) = ubntac2_json c f" "kerberos_json c (f\<lparr>risk := r\<rparr>) = kerberos_json c f"
  "telnet_json c (f\<lparr>risk := r\<rparr>) = telnet_json c f" "http_json c (f\<lparr>risk := r\<rparr>) = http_json c f"
  "quic_json c (f\<lparr>risk := r\<rparr>) = quic_json c f" "mail_json c n (f\<lparr>risk := r\<rparr>) = mail_json c n f"
  "ftp_json c (f\<lparr>risk := r\<rparr>) = ftp_json c f" "ssh_json c (f\<lparr>risk := r\<rparr>) = ssh_json c f"
  "tls_json env (f\<lparr>risk := r\<rparr>) = tls_json env f"
  by (simp_all add: icmp_json_def [abs_def] dhcp_json_def bittorrent_json_def [abs_def] dns_json_def ntp_json_def
      mdns_json_def ubntac2_json_def kerberos_json_def telnet_json_def http_json_def quic_json_def mail_json_def
      ftp_json_def ssh_json_def tls_json_def [abs_def] cong: if_cong)

text \<open>
  C33. Risks with a number of 32 or more are never reported: the risks are passed through a parameter of
  32 bits, so that two flows which differ only in these risks have the same report.
\<close>

theorem high_risks_lost:
  assumes "take_bit 32 r = take_bit 32 r'"
  shows "ndpi_dpi2json env m (Some (f\<lparr>risk := r\<rparr>)) l7 s = ndpi_dpi2json env m (Some (f\<lparr>risk := r'\<rparr>)) l7 s"
proof -
  have "(ucast r :: u32) = ucast r'"
  proof (rule bit_word_eqI)
    fix n assume "n < LENGTH(32)"
    moreover have "bit (take_bit 32 r) n = bit (take_bit 32 r') n" using assms by simp
    ultimately show "bit (ucast r :: u32) n = bit (ucast r' :: u32) n" by (simp add: bit_simps)
  qed
  moreover have "protocol_json env (f\<lparr>risk := x\<rparr>) p = protocol_json env f p" for x p
    unfolding protocol_json_def [abs_def] risk_unread ..
  ultimately show ?thesis by (simp add: ndpi_dpi2json_def)
qed

theorem high_risks_lost_witness:
  "ndpi_dpi2json plain_report named_module (Some (dns_flow\<lparr>risk := push_bit 35 1\<rparr>)) dns_result json_buffer
   = ndpi_dpi2json plain_report named_module (Some (dns_flow\<lparr>risk := 0\<rparr>)) dns_result json_buffer"
  by (rule high_risks_lost) simp

lemma civil_year:
  assumes "civil days = (y, m, d)"
  shows "400 * ((days + 719468) div 146097) \<le> y" "y \<le> 400 * ((days + 719468) div 146097) + 401"
proof -
  define doe where "doe = (days + 719468) mod 146097"
  define a where "a = doe div 1460"
  define b where "b = doe div 36524"
  define c where "c = doe div 146096"
  define yoe where "yoe = (doe - a + b - c) div 365"
  have doe: "0 \<le> doe \<and> doe < 146097" by (simp add: doe_def)
  have "1460 * a \<le> doe \<and> doe < 1460 * a + 1460" "36524 * b \<le> doe \<and> doe < 36524 * b + 36524"
    "146096 * c \<le> doe \<and> doe < 146096 * c + 146096" "365 * yoe \<le> doe - a + b - c \<and> doe - a + b - c < 365 * yoe + 365"
    unfolding a_def b_def c_def yoe_def by (rule div_bounds, simp)+
  then have "0 \<le> yoe \<and> yoe \<le> 400" using doe by linarith
  moreover have "\<exists>mp. y = yoe + (days + 719468) div 146097 * 400 + (if mp \<le> (2 :: int) then 1 else 0)"
    using assms unfolding civil_def Let_def a_def b_def c_def doe_def yoe_def prod.inject by blast
  ultimately show "400 * ((days + 719468) div 146097) \<le> y" "y \<le> 400 * ((days + 719468) div 146097) + 401" by auto
qed

lemma gmtime_huge: "2 ^ 56 \<le> t \<Longrightarrow> gmtime_r t = None"
proof -
  assume t: "2 ^ 56 \<le> t"
  obtain y m d where c: "civil (t div 86400) = (y, m, d)" by (cases "civil (t div 86400)")
  have "5700000 \<le> (t div 86400 + 719468) div 146097" using t by simp
  then have "2 ^ 31 \<le> y - 1900" using civil_year(1) [OF c] by simp
  then show ?thesis using c by (simp add: gmtime_r_def Let_def)
qed

lemma gmtime_near: "0 \<le> t \<Longrightarrow> t < 2 ^ 40 \<Longrightarrow> gmtime_r t \<noteq> None"
proof -
  assume t: "0 \<le> t" "t < 2 ^ 40"
  obtain y m d where c: "civil (t div 86400) = (y, m, d)" by (cases "civil (t div 86400)")
  have "(t div 86400 + 719468) div 146097 \<le> 1000" "0 \<le> (t div 86400 + 719468) div 146097" using t by simp_all
  then have "0 \<le> y" "y \<le> 401000" using civil_year [OF c] by simp_all
  then show ?thesis using c by (simp add: gmtime_r_def Let_def)
qed

lemma sint_of_small_nat: "n < 2 ^ (LENGTH('a :: len) - Suc 0) \<Longrightarrow> sint (word_of_nat n :: 'a word) = int n"
proof -
  let ?k = "LENGTH('a) - Suc 0"
  assume n: "n < 2 ^ ?k"
  have "int n < 2 ^ ?k" using n by (simp only: of_nat_less_iff [where 'a = int, symmetric] of_nat_power of_nat_numeral)
  moreover have "- (2 ^ ?k) \<le> int n" by (rule order_trans [of _ 0]) simp_all
  ultimately have "signed_take_bit ?k (int n) = int n" by (intro signed_take_bit_int_eq_self)
  then show ?thesis unfolding signed_of_nat by (simp only: of_int_eq_id id_apply)
qed

lemma wide_time:
  assumes "unat behind < 2 ^ 31"
  shows "read_time_t True field behind = 2 ^ 32 * int (unat behind) + int (unat field)"
proof -
  have l: "unat field < 2 ^ 32" by (rule order_less_le_trans [OF unsigned_less]) simp
  let ?n = "2 ^ 32 * unat behind + unat field"
  have n: "?n < 2 ^ 63" using assms l by simp
  have c: "(ucast w :: u64) = word_of_nat (unat w)" for w :: u32 by (simp add: unsigned_word_eqI)
  have "(push_bit 32 (ucast behind) + ucast field :: u64) = word_of_nat ?n"
    unfolding c by (simp add: push_bit_eq_mult)
  moreover have "sint (word_of_nat ?n :: u64) = int ?n"
    by (rule sint_of_small_nat) (use n in simp)
  ultimately show ?thesis by (simp add: read_time_t_def)
qed

text \<open>
  C34. The dates of a certificate. The code reads a 32-bit field through a pointer to \<open>time_t\<close>. Where
  \<open>time_t\<close> has 64 bits, the start of the validity is lost from the report of every certificate whose
  validity ends between July 1970 and January 2038; where it has 32 bits, it is converted.
\<close>

theorem certificate_start_lost:
  assumes "2 ^ 24 \<le> unat (tls_notAfter d)" "unat (tls_notAfter d) < 2 ^ 31"
    and "tls_notBefore d \<noteq> 0" "unat (tls_notBefore d) < 2 ^ 31"
  shows "not_before env d = None \<longleftrightarrow> wide_time_t env"
proof (cases "wide_time_t env")
  case True
  have "2 ^ 32 * int (2 ^ 24) \<le> 2 ^ 32 * int (unat (tls_notAfter d))"
    using assms(1) by (intro mult_left_mono) (simp_all only: of_nat_le_iff, simp)
  moreover have "2 ^ 32 * int (2 ^ 24) = (2 :: int) ^ 56" by simp
  ultimately have "(2 :: int) ^ 56 \<le> 2 ^ 32 * int (unat (tls_notAfter d))" by (simp only:)
  then have "2 ^ 56 \<le> read_time_t True (tls_notBefore d) (tls_notAfter d)"
    unfolding wide_time [OF assms(2)] by (rule add_increasing2 [OF of_nat_0_le_iff])
  then show ?thesis using True gmtime_huge by (simp add: not_before_def field_time_def)
next
  case False
  have "sint (tls_notBefore d) = int (unat (tls_notBefore d))"
    using sint_of_small_nat [of "unat (tls_notBefore d)", where 'a = 32] assms(4) by simp
  then have r: "read_time_t False (tls_notBefore d) (tls_notAfter d) = int (unat (tls_notBefore d))"
    by (simp only: read_time_t_def if_False)
  have "int (unat (tls_notBefore d)) < int (2 ^ 31)" using assms(4) by (simp only: of_nat_less_iff)
  moreover have "int (2 ^ 31) < 2 ^ 40" by simp
  ultimately have "gmtime_r (read_time_t False (tls_notBefore d) (tls_notAfter d)) \<noteq> None"
    unfolding r by (intro gmtime_near of_nat_0_le_iff) (rule order_less_trans)
  then show ?thesis using False assms(3) by (simp add: not_before_def field_time_def)
qed

definition certificate :: tls_quic_protos where
  "certificate = the (as_tls_quic Zeroed)\<lparr>tls_notBefore := 0x60000000, tls_notAfter := 0x66000000\<rparr>"

theorem certificate_start_lost_witness: "not_before plain_report certificate = None"
  using certificate_start_lost [of certificate plain_report] by (simp add: certificate_def plain_report_def)

end
