(* ===== verification/Protocol_Tables.thy ===== *)
theory Protocol_Tables
  imports Protocol_Ids
begin

text \<open>
  The tables a detection module is initialised from: the calls that \<open>ndpi_init_protocol_defaults\<close>
  makes (\<^verbatim>\<open>ndpi_main.c\<close>), in their order, and the host names of \<open>host_match\<close>
  (\<^verbatim>\<open>ndpi_content_match.c.inc\<close>).
\<close>

section \<open>Breeds and categories\<close>

abbreviation (input) NDPI_PROTOCOL_SAFE :: nat where "NDPI_PROTOCOL_SAFE \<equiv> 0"
abbreviation (input) NDPI_PROTOCOL_ACCEPTABLE :: nat where "NDPI_PROTOCOL_ACCEPTABLE \<equiv> 1"
abbreviation (input) NDPI_PROTOCOL_FUN :: nat where "NDPI_PROTOCOL_FUN \<equiv> 2"
abbreviation (input) NDPI_PROTOCOL_UNSAFE :: nat where "NDPI_PROTOCOL_UNSAFE \<equiv> 3"
abbreviation (input) NDPI_PROTOCOL_POTENTIALLY_DANGEROUS :: nat where "NDPI_PROTOCOL_POTENTIALLY_DANGEROUS \<equiv> 4"
abbreviation (input) NDPI_PROTOCOL_DANGEROUS :: nat where "NDPI_PROTOCOL_DANGEROUS \<equiv> 5"
abbreviation (input) NDPI_PROTOCOL_TRACKER_ADS :: nat where "NDPI_PROTOCOL_TRACKER_ADS \<equiv> 6"
abbreviation (input) NDPI_PROTOCOL_UNRATED :: nat where "NDPI_PROTOCOL_UNRATED \<equiv> 7"

abbreviation (input) NDPI_PROTOCOL_CATEGORY_UNSPECIFIED :: nat where "NDPI_PROTOCOL_CATEGORY_UNSPECIFIED \<equiv> 0"
abbreviation (input) NDPI_PROTOCOL_CATEGORY_MEDIA :: nat where "NDPI_PROTOCOL_CATEGORY_MEDIA \<equiv> 1"
abbreviation (input) NDPI_PROTOCOL_CATEGORY_VPN :: nat where "NDPI_PROTOCOL_CATEGORY_VPN \<equiv> 2"
abbreviation (input) NDPI_PROTOCOL_CATEGORY_MAIL :: nat where "NDPI_PROTOCOL_CATEGORY_MAIL \<equiv> 3"
abbreviation (input) NDPI_PROTOCOL_CATEGORY_DATA_TRANSFER :: nat where "NDPI_PROTOCOL_CATEGORY_DATA_TRANSFER \<equiv> 4"
abbreviation (input) NDPI_PROTOCOL_CATEGORY_WEB :: nat where "NDPI_PROTOCOL_CATEGORY_WEB \<equiv> 5"
abbreviation (input) NDPI_PROTOCOL_CATEGORY_SOCIAL_NETWORK :: nat where "NDPI_PROTOCOL_CATEGORY_SOCIAL_NETWORK \<equiv> 6"
abbreviation (input) NDPI_PROTOCOL_CATEGORY_DOWNLOAD_FT :: nat where "NDPI_PROTOCOL_CATEGORY_DOWNLOAD_FT \<equiv> 7"
abbreviation (input) NDPI_PROTOCOL_CATEGORY_GAME :: nat where "NDPI_PROTOCOL_CATEGORY_GAME \<equiv> 8"
abbreviation (input) NDPI_PROTOCOL_CATEGORY_CHAT :: nat where "NDPI_PROTOCOL_CATEGORY_CHAT \<equiv> 9"
abbreviation (input) NDPI_PROTOCOL_CATEGORY_VOIP :: nat where "NDPI_PROTOCOL_CATEGORY_VOIP \<equiv> 10"
abbreviation (input) NDPI_PROTOCOL_CATEGORY_DATABASE :: nat where "NDPI_PROTOCOL_CATEGORY_DATABASE \<equiv> 11"
abbreviation (input) NDPI_PROTOCOL_CATEGORY_REMOTE_ACCESS :: nat where "NDPI_PROTOCOL_CATEGORY_REMOTE_ACCESS \<equiv> 12"
abbreviation (input) NDPI_PROTOCOL_CATEGORY_CLOUD :: nat where "NDPI_PROTOCOL_CATEGORY_CLOUD \<equiv> 13"
abbreviation (input) NDPI_PROTOCOL_CATEGORY_NETWORK :: nat where "NDPI_PROTOCOL_CATEGORY_NETWORK \<equiv> 14"
abbreviation (input) NDPI_PROTOCOL_CATEGORY_COLLABORATIVE :: nat where "NDPI_PROTOCOL_CATEGORY_COLLABORATIVE \<equiv> 15"
abbreviation (input) NDPI_PROTOCOL_CATEGORY_RPC :: nat where "NDPI_PROTOCOL_CATEGORY_RPC \<equiv> 16"
abbreviation (input) NDPI_PROTOCOL_CATEGORY_STREAMING :: nat where "NDPI_PROTOCOL_CATEGORY_STREAMING \<equiv> 17"
abbreviation (input) NDPI_PROTOCOL_CATEGORY_SYSTEM_OS :: nat where "NDPI_PROTOCOL_CATEGORY_SYSTEM_OS \<equiv> 18"
abbreviation (input) NDPI_PROTOCOL_CATEGORY_SW_UPDATE :: nat where "NDPI_PROTOCOL_CATEGORY_SW_UPDATE \<equiv> 19"
abbreviation (input) NDPI_PROTOCOL_CATEGORY_MUSIC :: nat where "NDPI_PROTOCOL_CATEGORY_MUSIC \<equiv> 25"
abbreviation (input) NDPI_PROTOCOL_CATEGORY_VIDEO :: nat where "NDPI_PROTOCOL_CATEGORY_VIDEO \<equiv> 26"
abbreviation (input) NDPI_PROTOCOL_CATEGORY_SHOPPING :: nat where "NDPI_PROTOCOL_CATEGORY_SHOPPING \<equiv> 27"
abbreviation (input) NDPI_PROTOCOL_CATEGORY_CONNECTIVITY_CHECK :: nat where "NDPI_PROTOCOL_CATEGORY_CONNECTIVITY_CHECK \<equiv> 31"
abbreviation (input) NDPI_PROTOCOL_CATEGORY_IOT_SCADA :: nat where "NDPI_PROTOCOL_CATEGORY_IOT_SCADA \<equiv> 32"
abbreviation (input) NDPI_PROTOCOL_CATEGORY_VIRTUAL_ASSISTANT :: nat where "NDPI_PROTOCOL_CATEGORY_VIRTUAL_ASSISTANT \<equiv> 34"
abbreviation (input) CUSTOM_CATEGORY_MINING :: nat where "CUSTOM_CATEGORY_MINING \<equiv> 99"
abbreviation (input) CUSTOM_CATEGORY_ADVERTISEMENT :: nat where "CUSTOM_CATEGORY_ADVERTISEMENT \<equiv> 101"

section \<open>Protocols with their default ports\<close>

text \<open>
  The two calls that make up the initialisation. \<open>Set_defaults\<close> has the arguments of
  \<open>ndpi_set_proto_defaults\<close> in their order; the ports are those that \<open>ndpi_build_default_ports\<close> is
  called with, for TCP and UDP. \<open>Set_subprotocols\<close> has the arguments before
  \<open>NDPI_PROTOCOL_NO_MORE_SUBPROTOCOLS\<close>.
\<close>

abbreviation (input) NDPI_PROTOCOL_MATCHED_BY_CONTENT :: u16 where "NDPI_PROTOCOL_MATCHED_BY_CONTENT \<equiv> 65534"

datatype table_call =
    Set_defaults bool nat u16 string nat "u16 list" "u16 list"
  | Set_subprotocols u16 "u16 list"

definition default_calls_1 :: "table_call list" where
  "default_calls_1 = [
    Set_defaults True NDPI_PROTOCOL_UNRATED NDPI_PROTOCOL_UNKNOWN ''Unknown'' NDPI_PROTOCOL_CATEGORY_UNSPECIFIED
      [0, 0, 0, 0, 0] [0, 0, 0, 0, 0],
    Set_defaults True NDPI_PROTOCOL_UNSAFE NDPI_PROTOCOL_FTP_CONTROL ''FTP_CONTROL'' NDPI_PROTOCOL_CATEGORY_DOWNLOAD_FT
      [21, 0, 0, 0, 0] [0, 0, 0, 0, 0],
    Set_defaults True NDPI_PROTOCOL_ACCEPTABLE NDPI_PROTOCOL_FTP_DATA ''FTP_DATA'' NDPI_PROTOCOL_CATEGORY_DOWNLOAD_FT
      [20, 0, 0, 0, 0] [0, 0, 0, 0, 0],
    Set_defaults True NDPI_PROTOCOL_UNSAFE NDPI_PROTOCOL_MAIL_POP ''POP3'' NDPI_PROTOCOL_CATEGORY_MAIL
      [110, 0, 0, 0, 0] [0, 0, 0, 0, 0],
    Set_defaults False NDPI_PROTOCOL_SAFE NDPI_PROTOCOL_MAIL_POPS ''POPS'' NDPI_PROTOCOL_CATEGORY_MAIL
      [995, 0, 0, 0, 0] [0, 0, 0, 0, 0],
    Set_defaults True NDPI_PROTOCOL_ACCEPTABLE NDPI_PROTOCOL_MAIL_SMTP ''SMTP'' NDPI_PROTOCOL_CATEGORY_MAIL
      [25, 0, 0, 0, 0] [0, 0, 0, 0, 0],
    Set_defaults False NDPI_PROTOCOL_SAFE NDPI_PROTOCOL_MAIL_SMTPS ''SMTPS'' NDPI_PROTOCOL_CATEGORY_MAIL
      [465, 587, 0, 0, 0] [0, 0, 0, 0, 0],
    Set_defaults True NDPI_PROTOCOL_UNSAFE NDPI_PROTOCOL_MAIL_IMAP ''IMAP'' NDPI_PROTOCOL_CATEGORY_MAIL
      [143, 0, 0, 0, 0] [0, 0, 0, 0, 0],
    Set_defaults False NDPI_PROTOCOL_SAFE NDPI_PROTOCOL_MAIL_IMAPS ''IMAPS'' NDPI_PROTOCOL_CATEGORY_MAIL
      [993, 0, 0, 0, 0] [0, 0, 0, 0, 0],
    Set_defaults True NDPI_PROTOCOL_ACCEPTABLE NDPI_PROTOCOL_DNS ''DNS'' NDPI_PROTOCOL_CATEGORY_NETWORK
      [53, 0, 0, 0, 0] [53, 0, 0, 0, 0],
    Set_subprotocols NDPI_PROTOCOL_DNS
      [NDPI_PROTOCOL_MATCHED_BY_CONTENT],
    Set_defaults True NDPI_PROTOCOL_ACCEPTABLE NDPI_PROTOCOL_IPP ''IPP'' NDPI_PROTOCOL_CATEGORY_SYSTEM_OS
      [0, 0, 0, 0, 0] [0, 0, 0, 0, 0],
    Set_defaults True NDPI_PROTOCOL_ACCEPTABLE NDPI_PROTOCOL_IMO ''IMO'' NDPI_PROTOCOL_CATEGORY_VOIP
      [0, 0, 0, 0, 0] [0, 0, 0, 0, 0],
    Set_defaults True NDPI_PROTOCOL_ACCEPTABLE NDPI_PROTOCOL_HTTP ''HTTP'' NDPI_PROTOCOL_CATEGORY_WEB
      [80, 0, 0, 0, 0] [0, 0, 0, 0, 0],
    Set_subprotocols NDPI_PROTOCOL_HTTP
      [NDPI_PROTOCOL_AIMINI, NDPI_PROTOCOL_CROSSFIRE, NDPI_PROTOCOL_BITTORRENT, NDPI_PROTOCOL_DIRECT_DOWNLOAD_LINK, NDPI_PROTOCOL_GNUTELLA, NDPI_PROTOCOL_MAPLESTORY, NDPI_PROTOCOL_ZATTOO, NDPI_PROTOCOL_WORLDOFWARCRAFT, NDPI_PROTOCOL_THUNDER, NDPI_PROTOCOL_IRC, NDPI_PROTOCOL_MATCHED_BY_CONTENT],
    Set_defaults True NDPI_PROTOCOL_ACCEPTABLE NDPI_PROTOCOL_MDNS ''MDNS'' NDPI_PROTOCOL_CATEGORY_NETWORK
      [0, 0, 0, 0, 0] [5353, 5354, 0, 0, 0],
    Set_subprotocols NDPI_PROTOCOL_MDNS
      [NDPI_PROTOCOL_MATCHED_BY_CONTENT],
    Set_defaults True NDPI_PROTOCOL_ACCEPTABLE NDPI_PROTOCOL_NTP ''NTP'' NDPI_PROTOCOL_CATEGORY_SYSTEM_OS
      [0, 0, 0, 0, 0] [123, 0, 0, 0, 0],
    Set_defaults True NDPI_PROTOCOL_ACCEPTABLE NDPI_PROTOCOL_NETBIOS ''NetBIOS'' NDPI_PROTOCOL_CATEGORY_SYSTEM_OS
      [139, 0, 0, 0, 0] [137, 138, 139, 0, 0],
    Set_defaults True NDPI_PROTOCOL_ACCEPTABLE NDPI_PROTOCOL_NFS ''NFS'' NDPI_PROTOCOL_CATEGORY_DATA_TRANSFER
      [2049, 0, 0, 0, 0] [2049, 0, 0, 0, 0],
    Set_defaults True NDPI_PROTOCOL_ACCEPTABLE NDPI_PROTOCOL_SSDP ''SSDP'' NDPI_PROTOCOL_CATEGORY_SYSTEM_OS
      [0, 0, 0, 0, 0] [0, 0, 0, 0, 0],
    Set_defaults True NDPI_PROTOCOL_ACCEPTABLE NDPI_PROTOCOL_BGP ''BGP'' NDPI_PROTOCOL_CATEGORY_NETWORK
      [179, 2605, 0, 0, 0] [0, 0, 0, 0, 0],
    Set_defaults True NDPI_PROTOCOL_ACCEPTABLE NDPI_PROTOCOL_SNMP ''SNMP'' NDPI_PROTOCOL_CATEGORY_NETWORK
      [0, 0, 0, 0, 0] [161, 162, 0, 0, 0],
    Set_defaults True NDPI_PROTOCOL_ACCEPTABLE NDPI_PROTOCOL_XDMCP ''XDMCP'' NDPI_PROTOCOL_CATEGORY_REMOTE_ACCESS
      [177, 0, 0, 0, 0] [177, 0, 0, 0, 0],
    Set_defaults True NDPI_PROTOCOL_DANGEROUS NDPI_PROTOCOL_SMBV1 ''SMBv1'' NDPI_PROTOCOL_CATEGORY_SYSTEM_OS
      [445, 0, 0, 0, 0] [0, 0, 0, 0, 0],
    Set_defaults True NDPI_PROTOCOL_ACCEPTABLE NDPI_PROTOCOL_SYSLOG ''Syslog'' NDPI_PROTOCOL_CATEGORY_SYSTEM_OS
      [514, 0, 0, 0, 0] [514, 0, 0, 0, 0],
    Set_defaults True NDPI_PROTOCOL_ACCEPTABLE NDPI_PROTOCOL_DHCP ''DHCP'' NDPI_PROTOCOL_CATEGORY_NETWORK
      [0, 0, 0, 0, 0] [67, 68, 0, 0, 0],
    Set_defaults True NDPI_PROTOCOL_ACCEPTABLE NDPI_PROTOCOL_POSTGRES ''PostgreSQL'' NDPI_PROTOCOL_CATEGORY_DATABASE
      [5432, 0, 0, 0, 0] [0, 0, 0, 0, 0],
    Set_defaults True NDPI_PROTOCOL_ACCEPTABLE NDPI_PROTOCOL_MYSQL ''MySQL'' NDPI_PROTOCOL_CATEGORY_DATABASE
      [3306, 0, 0, 0, 0] [0, 0, 0, 0, 0],
    Set_defaults True NDPI_PROTOCOL_POTENTIALLY_DANGEROUS NDPI_PROTOCOL_DIRECT_DOWNLOAD_LINK ''Direct_Download_Link'' NDPI_PROTOCOL_CATEGORY_DOWNLOAD_FT
      [0, 0, 0, 0, 0] [0, 0, 0, 0, 0],
    Set_defaults True NDPI_PROTOCOL_POTENTIALLY_DANGEROUS NDPI_PROTOCOL_APPLEJUICE ''AppleJuice'' NDPI_PROTOCOL_CATEGORY_DOWNLOAD_FT
      [0, 0, 0, 0, 0] [0, 0, 0, 0, 0],
    Set_defaults True NDPI_PROTOCOL_POTENTIALLY_DANGEROUS NDPI_PROTOCOL_DIRECTCONNECT ''DirectConnect'' NDPI_PROTOCOL_CATEGORY_DOWNLOAD_FT
      [0, 0, 0, 0, 0] [0, 0, 0, 0, 0],
    Set_defaults False NDPI_PROTOCOL_ACCEPTABLE NDPI_PROTOCOL_NATS ''Nats'' NDPI_PROTOCOL_CATEGORY_RPC
      [0, 0, 0, 0, 0] [0, 0, 0, 0, 0],
    Set_defaults True NDPI_PROTOCOL_FUN NDPI_PROTOCOL_AMONG_US ''AmongUs'' NDPI_PROTOCOL_CATEGORY_GAME
      [0, 0, 0, 0, 0] [22023, 0, 0, 0, 0],
    Set_defaults True NDPI_PROTOCOL_SAFE NDPI_PROTOCOL_NTOP ''ntop'' NDPI_PROTOCOL_CATEGORY_NETWORK
      [0, 0, 0, 0, 0] [0, 0, 0, 0, 0],
    Set_defaults True NDPI_PROTOCOL_ACCEPTABLE NDPI_PROTOCOL_VMWARE ''VMware'' NDPI_PROTOCOL_CATEGORY_REMOTE_ACCESS
      [903, 0, 0, 0, 0] [902, 903, 0, 0, 0],
    Set_defaults True NDPI_PROTOCOL_POTENTIALLY_DANGEROUS NDPI_PROTOCOL_KONTIKI ''Kontiki'' NDPI_PROTOCOL_CATEGORY_MEDIA
      [0, 0, 0, 0, 0] [0, 0, 0, 0, 0]]"

definition default_calls_2 :: "table_call list" where
  "default_calls_2 = [
    Set_defaults True NDPI_PROTOCOL_POTENTIALLY_DANGEROUS NDPI_PROTOCOL_OPENFT ''OpenFT'' NDPI_PROTOCOL_CATEGORY_DOWNLOAD_FT
      [0, 0, 0, 0, 0] [0, 0, 0, 0, 0],
    Set_defaults True NDPI_PROTOCOL_POTENTIALLY_DANGEROUS NDPI_PROTOCOL_FASTTRACK ''FastTrack'' NDPI_PROTOCOL_CATEGORY_DOWNLOAD_FT
      [0, 0, 0, 0, 0] [0, 0, 0, 0, 0],
    Set_defaults True NDPI_PROTOCOL_POTENTIALLY_DANGEROUS NDPI_PROTOCOL_GNUTELLA ''Gnutella'' NDPI_PROTOCOL_CATEGORY_DOWNLOAD_FT
      [0, 0, 0, 0, 0] [0, 0, 0, 0, 0],
    Set_defaults True NDPI_PROTOCOL_UNSAFE NDPI_PROTOCOL_EDONKEY ''eDonkey'' NDPI_PROTOCOL_CATEGORY_DOWNLOAD_FT
      [0, 0, 0, 0, 0] [0, 0, 0, 0, 0],
    Set_defaults True NDPI_PROTOCOL_ACCEPTABLE NDPI_PROTOCOL_BITTORRENT ''BitTorrent'' NDPI_PROTOCOL_CATEGORY_DOWNLOAD_FT
      [51413, 53646, 0, 0, 0] [6771, 51413, 0, 0, 0],
    Set_defaults False NDPI_PROTOCOL_ACCEPTABLE NDPI_PROTOCOL_SKYPE_TEAMS ''Skype_Teams'' NDPI_PROTOCOL_CATEGORY_VOIP
      [0, 0, 0, 0, 0] [0, 0, 0, 0, 0],
    Set_defaults False NDPI_PROTOCOL_ACCEPTABLE NDPI_PROTOCOL_GOOGLE ''Google'' NDPI_PROTOCOL_CATEGORY_WEB
      [0, 0, 0, 0, 0] [0, 0, 0, 0, 0],
    Set_defaults False NDPI_PROTOCOL_ACCEPTABLE NDPI_PROTOCOL_SKYPE_CALL ''SkypeCall'' NDPI_PROTOCOL_CATEGORY_VOIP
      [0, 0, 0, 0, 0] [0, 0, 0, 0, 0],
    Set_defaults False NDPI_PROTOCOL_FUN NDPI_PROTOCOL_TIKTOK ''TikTok'' NDPI_PROTOCOL_CATEGORY_SOCIAL_NETWORK
      [0, 0, 0, 0, 0] [0, 0, 0, 0, 0],
    Set_defaults True NDPI_PROTOCOL_ACCEPTABLE NDPI_PROTOCOL_TEREDO ''Teredo'' NDPI_PROTOCOL_CATEGORY_NETWORK
      [0, 0, 0, 0, 0] [0, 0, 0, 0, 0],
    Set_defaults False NDPI_PROTOCOL_FUN NDPI_PROTOCOL_WECHAT ''WeChat'' NDPI_PROTOCOL_CATEGORY_CHAT
      [0, 0, 0, 0, 0] [0, 0, 0, 0, 0],
    Set_defaults True NDPI_PROTOCOL_ACCEPTABLE NDPI_PROTOCOL_MEMCACHED ''Memcached'' NDPI_PROTOCOL_CATEGORY_NETWORK
      [11211, 0, 0, 0, 0] [11211, 0, 0, 0, 0],
    Set_defaults True NDPI_PROTOCOL_ACCEPTABLE NDPI_PROTOCOL_SMBV23 ''SMBv23'' NDPI_PROTOCOL_CATEGORY_SYSTEM_OS
      [445, 0, 0, 0, 0] [0, 0, 0, 0, 0],
    Set_defaults True NDPI_PROTOCOL_UNSAFE NDPI_PROTOCOL_MINING ''Mining'' CUSTOM_CATEGORY_MINING
      [8333, 30303, 0, 0, 0] [0, 0, 0, 0, 0],
    Set_defaults True NDPI_PROTOCOL_ACCEPTABLE NDPI_PROTOCOL_NEST_LOG_SINK ''NestLogSink'' NDPI_PROTOCOL_CATEGORY_CLOUD
      [11095, 0, 0, 0, 0] [0, 0, 0, 0, 0],
    Set_defaults True NDPI_PROTOCOL_ACCEPTABLE NDPI_PROTOCOL_MODBUS ''Modbus'' NDPI_PROTOCOL_CATEGORY_IOT_SCADA
      [502, 0, 0, 0, 0] [0, 0, 0, 0, 0],
    Set_defaults False NDPI_PROTOCOL_ACCEPTABLE NDPI_PROTOCOL_WHATSAPP_CALL ''WhatsAppCall'' NDPI_PROTOCOL_CATEGORY_VOIP
      [0, 0, 0, 0, 0] [0, 0, 0, 0, 0],
    Set_defaults False NDPI_PROTOCOL_FUN NDPI_PROTOCOL_DATASAVER ''DataSaver'' NDPI_PROTOCOL_CATEGORY_WEB
      [0, 0, 0, 0, 0] [0, 0, 0, 0, 0],
    Set_defaults False NDPI_PROTOCOL_FUN NDPI_PROTOCOL_SIGNAL ''Signal'' NDPI_PROTOCOL_CATEGORY_CHAT
      [0, 0, 0, 0, 0] [0, 0, 0, 0, 0],
    Set_defaults False NDPI_PROTOCOL_FUN NDPI_PROTOCOL_DOH_DOT ''DoH_DoT'' NDPI_PROTOCOL_CATEGORY_NETWORK
      [853, 0, 0, 0, 0] [784, 0, 0, 0, 0],
    Set_defaults False NDPI_PROTOCOL_FUN NDPI_PROTOCOL_REDDIT ''Reddit'' NDPI_PROTOCOL_CATEGORY_SOCIAL_NETWORK
      [0, 0, 0, 0, 0] [0, 0, 0, 0, 0],
    Set_defaults False NDPI_PROTOCOL_ACCEPTABLE NDPI_PROTOCOL_WIREGUARD ''WireGuard'' NDPI_PROTOCOL_CATEGORY_VPN
      [0, 0, 0, 0, 0] [51820, 0, 0, 0, 0],
    Set_defaults True NDPI_PROTOCOL_FUN NDPI_PROTOCOL_PPSTREAM ''PPStream'' NDPI_PROTOCOL_CATEGORY_STREAMING
      [0, 0, 0, 0, 0] [0, 0, 0, 0, 0],
    Set_defaults True NDPI_PROTOCOL_FUN NDPI_PROTOCOL_XBOX ''Xbox'' NDPI_PROTOCOL_CATEGORY_GAME
      [0, 0, 0, 0, 0] [0, 0, 0, 0, 0],
    Set_defaults True NDPI_PROTOCOL_FUN NDPI_PROTOCOL_PLAYSTATION ''Playstation'' NDPI_PROTOCOL_CATEGORY_GAME
      [0, 0, 0, 0, 0] [0, 0, 0, 0, 0],
    Set_defaults False NDPI_PROTOCOL_FUN NDPI_PROTOCOL_QQ ''QQ'' NDPI_PROTOCOL_CATEGORY_CHAT
      [0, 0, 0, 0, 0] [0, 0, 0, 0, 0],
    Set_defaults True NDPI_PROTOCOL_FUN NDPI_PROTOCOL_RTSP ''RTSP'' NDPI_PROTOCOL_CATEGORY_MEDIA
      [554, 0, 0, 0, 0] [554, 0, 0, 0, 0],
    Set_defaults True NDPI_PROTOCOL_FUN NDPI_PROTOCOL_ICECAST ''IceCast'' NDPI_PROTOCOL_CATEGORY_MEDIA
      [0, 0, 0, 0, 0] [0, 0, 0, 0, 0],
    Set_defaults True NDPI_PROTOCOL_FUN NDPI_PROTOCOL_CPHA ''CPHA'' NDPI_PROTOCOL_CATEGORY_NETWORK
      [0, 0, 0, 0, 0] [8116, 0, 0, 0, 0],
    Set_defaults True NDPI_PROTOCOL_FUN NDPI_PROTOCOL_ZATTOO ''Zattoo'' NDPI_PROTOCOL_CATEGORY_VIDEO
      [0, 0, 0, 0, 0] [0, 0, 0, 0, 0],
    Set_defaults True NDPI_PROTOCOL_FUN NDPI_PROTOCOL_SHOUTCAST ''ShoutCast'' NDPI_PROTOCOL_CATEGORY_MUSIC
      [0, 0, 0, 0, 0] [0, 0, 0, 0, 0],
    Set_defaults True NDPI_PROTOCOL_FUN NDPI_PROTOCOL_SOPCAST ''Sopcast'' NDPI_PROTOCOL_CATEGORY_VIDEO
      [0, 0, 0, 0, 0] [0, 0, 0, 0, 0],
    Set_defaults False NDPI_PROTOCOL_FUN NDPI_PROTOCOL_DISCORD ''Discord'' NDPI_PROTOCOL_CATEGORY_COLLABORATIVE
      [0, 0, 0, 0, 0] [0, 0, 0, 0, 0],
    Set_defaults False NDPI_PROTOCOL_FUN NDPI_PROTOCOL_TVUPLAYER ''TVUplayer'' NDPI_PROTOCOL_CATEGORY_VIDEO
      [0, 0, 0, 0, 0] [0, 0, 0, 0, 0],
    Set_defaults True NDPI_PROTOCOL_FUN NDPI_PROTOCOL_QQLIVE ''QQLive'' NDPI_PROTOCOL_CATEGORY_VIDEO
      [0, 0, 0, 0, 0] [0, 0, 0, 0, 0],
    Set_defaults True NDPI_PROTOCOL_FUN NDPI_PROTOCOL_THUNDER ''Thunder'' NDPI_PROTOCOL_CATEGORY_DOWNLOAD_FT
      [0, 0, 0, 0, 0] [0, 0, 0, 0, 0],
    Set_defaults True NDPI_PROTOCOL_SAFE NDPI_PROTOCOL_OCSP ''OCSP'' NDPI_PROTOCOL_CATEGORY_NETWORK
      [0, 0, 0, 0, 0] [0, 0, 0, 0, 0]]"

definition default_calls_3 :: "table_call list" where
  "default_calls_3 = [
    Set_defaults True NDPI_PROTOCOL_ACCEPTABLE NDPI_PROTOCOL_FREE_64 ''FREE_64'' NDPI_PROTOCOL_CATEGORY_VIDEO
      [0, 0, 0, 0, 0] [0, 0, 0, 0, 0],
    Set_defaults True NDPI_PROTOCOL_UNSAFE NDPI_PROTOCOL_IRC ''IRC'' NDPI_PROTOCOL_CATEGORY_CHAT
      [194, 0, 0, 0, 0] [194, 0, 0, 0, 0],
    Set_defaults True NDPI_PROTOCOL_ACCEPTABLE NDPI_PROTOCOL_AYIYA ''Ayiya'' NDPI_PROTOCOL_CATEGORY_NETWORK
      [0, 0, 0, 0, 0] [5072, 0, 0, 0, 0],
    Set_defaults True NDPI_PROTOCOL_ACCEPTABLE NDPI_PROTOCOL_JABBER ''Jabber'' NDPI_PROTOCOL_CATEGORY_WEB
      [0, 0, 0, 0, 0] [0, 0, 0, 0, 0],
    Set_defaults False NDPI_PROTOCOL_FUN NDPI_PROTOCOL_DISNEYPLUS ''DisneyPlus'' NDPI_PROTOCOL_CATEGORY_STREAMING
      [0, 0, 0, 0, 0] [0, 0, 0, 0, 0],
    Set_defaults True NDPI_PROTOCOL_ACCEPTABLE NDPI_PROTOCOL_IP_VRRP ''VRRP'' NDPI_PROTOCOL_CATEGORY_NETWORK
      [0, 0, 0, 0, 0] [0, 0, 0, 0, 0],
    Set_defaults False NDPI_PROTOCOL_FUN NDPI_PROTOCOL_STEAM ''Steam'' NDPI_PROTOCOL_CATEGORY_GAME
      [0, 0, 0, 0, 0] [0, 0, 0, 0, 0],
    Set_defaults True NDPI_PROTOCOL_FUN NDPI_PROTOCOL_HALFLIFE2 ''HalfLife2'' NDPI_PROTOCOL_CATEGORY_GAME
      [0, 0, 0, 0, 0] [0, 0, 0, 0, 0],
    Set_defaults True NDPI_PROTOCOL_FUN NDPI_PROTOCOL_WORLDOFWARCRAFT ''WorldOfWarcraft'' NDPI_PROTOCOL_CATEGORY_GAME
      [0, 0, 0, 0, 0] [0, 0, 0, 0, 0],
    Set_defaults False NDPI_PROTOCOL_POTENTIALLY_DANGEROUS NDPI_PROTOCOL_HOTSPOT_SHIELD ''HotspotShield'' NDPI_PROTOCOL_CATEGORY_VPN
      [0, 0, 0, 0, 0] [0, 0, 0, 0, 0],
    Set_defaults True NDPI_PROTOCOL_UNSAFE NDPI_PROTOCOL_TELNET ''Telnet'' NDPI_PROTOCOL_CATEGORY_REMOTE_ACCESS
      [23, 0, 0, 0, 0] [0, 0, 0, 0, 0],
    Set_defaults True NDPI_PROTOCOL_ACCEPTABLE NDPI_PROTOCOL_STUN ''STUN'' NDPI_PROTOCOL_CATEGORY_NETWORK
      [0, 0, 0, 0, 0] [3478, 0, 0, 0, 0],
    Set_defaults False NDPI_PROTOCOL_SAFE NDPI_PROTOCOL_IP_IPSEC ''IPsec'' NDPI_PROTOCOL_CATEGORY_VPN
      [500, 0, 0, 0, 0] [500, 4500, 0, 0, 0],
    Set_defaults True NDPI_PROTOCOL_ACCEPTABLE NDPI_PROTOCOL_IP_GRE ''GRE'' NDPI_PROTOCOL_CATEGORY_NETWORK
      [0, 0, 0, 0, 0] [0, 0, 0, 0, 0],
    Set_defaults True NDPI_PROTOCOL_ACCEPTABLE NDPI_PROTOCOL_IP_ICMP ''ICMP'' NDPI_PROTOCOL_CATEGORY_NETWORK
      [0, 0, 0, 0, 0] [0, 0, 0, 0, 0],
    Set_defaults True NDPI_PROTOCOL_ACCEPTABLE NDPI_PROTOCOL_IP_IGMP ''IGMP'' NDPI_PROTOCOL_CATEGORY_NETWORK
      [0, 0, 0, 0, 0] [0, 0, 0, 0, 0],
    Set_defaults True NDPI_PROTOCOL_ACCEPTABLE NDPI_PROTOCOL_IP_EGP ''EGP'' NDPI_PROTOCOL_CATEGORY_NETWORK
      [0, 0, 0, 0, 0] [0, 0, 0, 0, 0],
    Set_defaults True NDPI_PROTOCOL_ACCEPTABLE NDPI_PROTOCOL_IP_SCTP ''SCTP'' NDPI_PROTOCOL_CATEGORY_NETWORK
      [0, 0, 0, 0, 0] [0, 0, 0, 0, 0],
    Set_defaults True NDPI_PROTOCOL_ACCEPTABLE NDPI_PROTOCOL_IP_OSPF ''OSPF'' NDPI_PROTOCOL_CATEGORY_NETWORK
      [2604, 0, 0, 0, 0] [0, 0, 0, 0, 0],
    Set_defaults True NDPI_PROTOCOL_ACCEPTABLE NDPI_PROTOCOL_IP_IP_IN_IP ''IP_in_IP'' NDPI_PROTOCOL_CATEGORY_NETWORK
      [0, 0, 0, 0, 0] [0, 0, 0, 0, 0],
    Set_defaults True NDPI_PROTOCOL_ACCEPTABLE NDPI_PROTOCOL_RTP ''RTP'' NDPI_PROTOCOL_CATEGORY_MEDIA
      [0, 0, 0, 0, 0] [0, 0, 0, 0, 0],
    Set_defaults True NDPI_PROTOCOL_ACCEPTABLE NDPI_PROTOCOL_RDP ''RDP'' NDPI_PROTOCOL_CATEGORY_REMOTE_ACCESS
      [3389, 0, 0, 0, 0] [3389, 0, 0, 0, 0],
    Set_defaults True NDPI_PROTOCOL_ACCEPTABLE NDPI_PROTOCOL_VNC ''VNC'' NDPI_PROTOCOL_CATEGORY_REMOTE_ACCESS
      [5900, 5901, 5800, 0, 0] [0, 0, 0, 0, 0],
    Set_defaults True NDPI_PROTOCOL_FUN NDPI_PROTOCOL_TUMBLR ''Tumblr'' NDPI_PROTOCOL_CATEGORY_SOCIAL_NETWORK
      [0, 0, 0, 0, 0] [0, 0, 0, 0, 0],
    Set_defaults False NDPI_PROTOCOL_ACCEPTABLE NDPI_PROTOCOL_ZOOM ''Zoom'' NDPI_PROTOCOL_CATEGORY_VIDEO
      [0, 0, 0, 0, 0] [0, 0, 0, 0, 0],
    Set_defaults False NDPI_PROTOCOL_ACCEPTABLE NDPI_PROTOCOL_WHATSAPP_FILES ''WhatsAppFiles'' NDPI_PROTOCOL_CATEGORY_DOWNLOAD_FT
      [0, 0, 0, 0, 0] [0, 0, 0, 0, 0],
    Set_defaults False NDPI_PROTOCOL_ACCEPTABLE NDPI_PROTOCOL_WHATSAPP ''WhatsApp'' NDPI_PROTOCOL_CATEGORY_CHAT
      [0, 0, 0, 0, 0] [0, 0, 0, 0, 0],
    Set_defaults False NDPI_PROTOCOL_SAFE NDPI_PROTOCOL_TLS ''TLS'' NDPI_PROTOCOL_CATEGORY_WEB
      [443, 0, 0, 0, 0] [0, 0, 0, 0, 0],
    Set_subprotocols NDPI_PROTOCOL_TLS
      [NDPI_PROTOCOL_MATCHED_BY_CONTENT],
    Set_defaults False NDPI_PROTOCOL_SAFE NDPI_PROTOCOL_DTLS ''DTLS'' NDPI_PROTOCOL_CATEGORY_WEB
      [0, 0, 0, 0, 0] [0, 0, 0, 0, 0],
    Set_subprotocols NDPI_PROTOCOL_DTLS
      [NDPI_PROTOCOL_MATCHED_BY_CONTENT],
    Set_defaults False NDPI_PROTOCOL_ACCEPTABLE NDPI_PROTOCOL_SSH ''SSH'' NDPI_PROTOCOL_CATEGORY_REMOTE_ACCESS
      [22, 0, 0, 0, 0] [0, 0, 0, 0, 0],
    Set_defaults True NDPI_PROTOCOL_ACCEPTABLE NDPI_PROTOCOL_USENET ''Usenet'' NDPI_PROTOCOL_CATEGORY_WEB
      [0, 0, 0, 0, 0] [0, 0, 0, 0, 0],
    Set_defaults True NDPI_PROTOCOL_ACCEPTABLE NDPI_PROTOCOL_MGCP ''MGCP'' NDPI_PROTOCOL_CATEGORY_VOIP
      [0, 0, 0, 0, 0] [0, 0, 0, 0, 0],
    Set_defaults True NDPI_PROTOCOL_ACCEPTABLE NDPI_PROTOCOL_IAX ''IAX'' NDPI_PROTOCOL_CATEGORY_VOIP
      [4569, 0, 0, 0, 0] [4569, 0, 0, 0, 0],
    Set_defaults True NDPI_PROTOCOL_ACCEPTABLE NDPI_PROTOCOL_AFP ''AFP'' NDPI_PROTOCOL_CATEGORY_DATA_TRANSFER
      [548, 0, 0, 0, 0] [548, 0, 0, 0, 0],
    Set_defaults False NDPI_PROTOCOL_FUN NDPI_PROTOCOL_HULU ''Hulu'' NDPI_PROTOCOL_CATEGORY_STREAMING
      [0, 0, 0, 0, 0] [0, 0, 0, 0, 0]]"

definition default_calls_4 :: "table_call list" where
  "default_calls_4 = [
    Set_defaults True NDPI_PROTOCOL_ACCEPTABLE NDPI_PROTOCOL_CHECKMK ''CHECKMK'' NDPI_PROTOCOL_CATEGORY_DATA_TRANSFER
      [6556, 0, 0, 0, 0] [0, 0, 0, 0, 0],
    Set_defaults True NDPI_PROTOCOL_POTENTIALLY_DANGEROUS NDPI_PROTOCOL_STEALTHNET ''Stealthnet'' NDPI_PROTOCOL_CATEGORY_DOWNLOAD_FT
      [0, 0, 0, 0, 0] [0, 0, 0, 0, 0],
    Set_defaults True NDPI_PROTOCOL_FUN NDPI_PROTOCOL_AIMINI ''Aimini'' NDPI_PROTOCOL_CATEGORY_DOWNLOAD_FT
      [0, 0, 0, 0, 0] [0, 0, 0, 0, 0],
    Set_defaults True NDPI_PROTOCOL_ACCEPTABLE NDPI_PROTOCOL_SIP ''SIP'' NDPI_PROTOCOL_CATEGORY_VOIP
      [5060, 5061, 0, 0, 0] [5060, 5061, 0, 0, 0],
    Set_defaults True NDPI_PROTOCOL_ACCEPTABLE NDPI_PROTOCOL_TRUPHONE ''TruPhone'' NDPI_PROTOCOL_CATEGORY_VOIP
      [0, 0, 0, 0, 0] [0, 0, 0, 0, 0],
    Set_defaults True NDPI_PROTOCOL_ACCEPTABLE NDPI_PROTOCOL_IP_ICMPV6 ''ICMPV6'' NDPI_PROTOCOL_CATEGORY_NETWORK
      [0, 0, 0, 0, 0] [0, 0, 0, 0, 0],
    Set_defaults True NDPI_PROTOCOL_ACCEPTABLE NDPI_PROTOCOL_DHCPV6 ''DHCPV6'' NDPI_PROTOCOL_CATEGORY_NETWORK
      [0, 0, 0, 0, 0] [0, 0, 0, 0, 0],
    Set_defaults True NDPI_PROTOCOL_FUN NDPI_PROTOCOL_ARMAGETRON ''Armagetron'' NDPI_PROTOCOL_CATEGORY_GAME
      [0, 0, 0, 0, 0] [0, 0, 0, 0, 0],
    Set_defaults True NDPI_PROTOCOL_FUN NDPI_PROTOCOL_CROSSFIRE ''Crossfire'' NDPI_PROTOCOL_CATEGORY_RPC
      [0, 0, 0, 0, 0] [0, 0, 0, 0, 0],
    Set_defaults True NDPI_PROTOCOL_FUN NDPI_PROTOCOL_DOFUS ''Dofus'' NDPI_PROTOCOL_CATEGORY_GAME
      [0, 0, 0, 0, 0] [0, 0, 0, 0, 0],
    Set_defaults True NDPI_PROTOCOL_FUN NDPI_PROTOCOL_FIESTA ''Fiesta'' NDPI_PROTOCOL_CATEGORY_GAME
      [0, 0, 0, 0, 0] [0, 0, 0, 0, 0],
    Set_defaults True NDPI_PROTOCOL_FUN NDPI_PROTOCOL_FLORENSIA ''Florensia'' NDPI_PROTOCOL_CATEGORY_GAME
      [0, 0, 0, 0, 0] [0, 0, 0, 0, 0],
    Set_defaults True NDPI_PROTOCOL_FUN NDPI_PROTOCOL_GUILDWARS ''Guildwars'' NDPI_PROTOCOL_CATEGORY_GAME
      [0, 0, 0, 0, 0] [0, 0, 0, 0, 0],
    Set_defaults False NDPI_PROTOCOL_ACCEPTABLE NDPI_PROTOCOL_AMAZON_ALEXA ''AmazonAlexa'' NDPI_PROTOCOL_CATEGORY_VIRTUAL_ASSISTANT
      [0, 0, 0, 0, 0] [0, 0, 0, 0, 0],
    Set_defaults True NDPI_PROTOCOL_ACCEPTABLE NDPI_PROTOCOL_KERBEROS ''Kerberos'' NDPI_PROTOCOL_CATEGORY_NETWORK
      [88, 0, 0, 0, 0] [88, 0, 0, 0, 0],
    Set_defaults True NDPI_PROTOCOL_ACCEPTABLE NDPI_PROTOCOL_LDAP ''LDAP'' NDPI_PROTOCOL_CATEGORY_SYSTEM_OS
      [389, 0, 0, 0, 0] [389, 0, 0, 0, 0],
    Set_defaults True NDPI_PROTOCOL_FUN NDPI_PROTOCOL_MAPLESTORY ''MapleStory'' NDPI_PROTOCOL_CATEGORY_GAME
      [0, 0, 0, 0, 0] [0, 0, 0, 0, 0],
    Set_defaults True NDPI_PROTOCOL_ACCEPTABLE NDPI_PROTOCOL_MSSQL_TDS ''MsSQL-TDS'' NDPI_PROTOCOL_CATEGORY_DATABASE
      [1433, 1434, 0, 0, 0] [0, 0, 0, 0, 0],
    Set_defaults True NDPI_PROTOCOL_ACCEPTABLE NDPI_PROTOCOL_PPTP ''PPTP'' NDPI_PROTOCOL_CATEGORY_VPN
      [0, 0, 0, 0, 0] [0, 0, 0, 0, 0],
    Set_defaults True NDPI_PROTOCOL_FUN NDPI_PROTOCOL_WARCRAFT3 ''Warcraft3'' NDPI_PROTOCOL_CATEGORY_GAME
      [0, 0, 0, 0, 0] [0, 0, 0, 0, 0],
    Set_defaults True NDPI_PROTOCOL_FUN NDPI_PROTOCOL_WORLD_OF_KUNG_FU ''WorldOfKungFu'' NDPI_PROTOCOL_CATEGORY_GAME
      [0, 0, 0, 0, 0] [0, 0, 0, 0, 0],
    Set_defaults True NDPI_PROTOCOL_ACCEPTABLE NDPI_PROTOCOL_DCERPC ''DCE_RPC'' NDPI_PROTOCOL_CATEGORY_RPC
      [135, 0, 0, 0, 0] [0, 0, 0, 0, 0],
    Set_defaults True NDPI_PROTOCOL_ACCEPTABLE NDPI_PROTOCOL_NETFLOW ''NetFlow'' NDPI_PROTOCOL_CATEGORY_NETWORK
      [0, 0, 0, 0, 0] [2055, 0, 0, 0, 0],
    Set_defaults True NDPI_PROTOCOL_ACCEPTABLE NDPI_PROTOCOL_SFLOW ''sFlow'' NDPI_PROTOCOL_CATEGORY_NETWORK
      [0, 0, 0, 0, 0] [6343, 0, 0, 0, 0],
    Set_defaults True NDPI_PROTOCOL_ACCEPTABLE NDPI_PROTOCOL_HTTP_CONNECT ''HTTP_Connect'' NDPI_PROTOCOL_CATEGORY_WEB
      [8080, 0, 0, 0, 0] [0, 0, 0, 0, 0],
    Set_subprotocols NDPI_PROTOCOL_HTTP_CONNECT
      [NDPI_PROTOCOL_MATCHED_BY_CONTENT],
    Set_defaults True NDPI_PROTOCOL_ACCEPTABLE NDPI_PROTOCOL_HTTP_PROXY ''HTTP_Proxy'' NDPI_PROTOCOL_CATEGORY_WEB
      [8080, 3128, 0, 0, 0] [0, 0, 0, 0, 0],
    Set_subprotocols NDPI_PROTOCOL_HTTP_PROXY
      [NDPI_PROTOCOL_MATCHED_BY_CONTENT],
    Set_defaults False NDPI_PROTOCOL_ACCEPTABLE NDPI_PROTOCOL_CITRIX ''Citrix'' NDPI_PROTOCOL_CATEGORY_NETWORK
      [1494, 2598, 0, 0, 0] [0, 0, 0, 0, 0],
    Set_defaults False NDPI_PROTOCOL_ACCEPTABLE NDPI_PROTOCOL_WEBEX ''Webex'' NDPI_PROTOCOL_CATEGORY_VOIP
      [0, 0, 0, 0, 0] [0, 0, 0, 0, 0],
    Set_defaults True NDPI_PROTOCOL_ACCEPTABLE NDPI_PROTOCOL_RADIUS ''Radius'' NDPI_PROTOCOL_CATEGORY_NETWORK
      [1812, 1813, 0, 0, 0] [1812, 1813, 0, 0, 0],
    Set_defaults False NDPI_PROTOCOL_ACCEPTABLE NDPI_PROTOCOL_TEAMVIEWER ''TeamViewer'' NDPI_PROTOCOL_CATEGORY_REMOTE_ACCESS
      [5938, 0, 0, 0, 0] [5938, 0, 0, 0, 0],
    Set_defaults True NDPI_PROTOCOL_ACCEPTABLE NDPI_PROTOCOL_LOTUS_NOTES ''LotusNotes'' NDPI_PROTOCOL_CATEGORY_COLLABORATIVE
      [1352, 0, 0, 0, 0] [0, 0, 0, 0, 0],
    Set_defaults True NDPI_PROTOCOL_ACCEPTABLE NDPI_PROTOCOL_SAP ''SAP'' NDPI_PROTOCOL_CATEGORY_NETWORK
      [3201, 0, 0, 0, 0] [0, 0, 0, 0, 0],
    Set_defaults True NDPI_PROTOCOL_ACCEPTABLE NDPI_PROTOCOL_GTP ''GTP'' NDPI_PROTOCOL_CATEGORY_NETWORK
      [0, 0, 0, 0, 0] [2152, 2123, 0, 0, 0],
    Set_defaults True NDPI_PROTOCOL_ACCEPTABLE NDPI_PROTOCOL_GTP_C ''GTP_C'' NDPI_PROTOCOL_CATEGORY_NETWORK
      [0, 0, 0, 0, 0] [0, 0, 0, 0, 0],
    Set_defaults True NDPI_PROTOCOL_ACCEPTABLE NDPI_PROTOCOL_GTP_U ''GTP_U'' NDPI_PROTOCOL_CATEGORY_NETWORK
      [0, 0, 0, 0, 0] [0, 0, 0, 0, 0]]"

definition default_calls_5 :: "table_call list" where
  "default_calls_5 = [
    Set_defaults True NDPI_PROTOCOL_ACCEPTABLE NDPI_PROTOCOL_GTP_PRIME ''GTP_PRIME'' NDPI_PROTOCOL_CATEGORY_NETWORK
      [0, 0, 0, 0, 0] [0, 0, 0, 0, 0],
    Set_defaults True NDPI_PROTOCOL_ACCEPTABLE NDPI_PROTOCOL_WSD ''WSD'' NDPI_PROTOCOL_CATEGORY_NETWORK
      [0, 0, 0, 0, 0] [3702, 0, 0, 0, 0],
    Set_defaults True NDPI_PROTOCOL_ACCEPTABLE NDPI_PROTOCOL_ETHERNET_IP ''EthernetIP'' NDPI_PROTOCOL_CATEGORY_NETWORK
      [44818, 0, 0, 0, 0] [0, 0, 0, 0, 0],
    Set_defaults False NDPI_PROTOCOL_ACCEPTABLE NDPI_PROTOCOL_TELEGRAM ''Telegram'' NDPI_PROTOCOL_CATEGORY_CHAT
      [0, 0, 0, 0, 0] [0, 0, 0, 0, 0],
    Set_defaults False NDPI_PROTOCOL_ACCEPTABLE NDPI_PROTOCOL_QUIC ''QUIC'' NDPI_PROTOCOL_CATEGORY_WEB
      [0, 0, 0, 0, 0] [443, 0, 0, 0, 0],
    Set_subprotocols NDPI_PROTOCOL_QUIC
      [NDPI_PROTOCOL_MATCHED_BY_CONTENT],
    Set_defaults True NDPI_PROTOCOL_ACCEPTABLE NDPI_PROTOCOL_DIAMETER ''Diameter'' NDPI_PROTOCOL_CATEGORY_NETWORK
      [3868, 0, 0, 0, 0] [0, 0, 0, 0, 0],
    Set_defaults False NDPI_PROTOCOL_ACCEPTABLE NDPI_PROTOCOL_APPLE_PUSH ''ApplePush'' NDPI_PROTOCOL_CATEGORY_CLOUD
      [0, 0, 0, 0, 0] [0, 0, 0, 0, 0],
    Set_defaults True NDPI_PROTOCOL_ACCEPTABLE NDPI_PROTOCOL_DROPBOX ''Dropbox'' NDPI_PROTOCOL_CATEGORY_CLOUD
      [0, 0, 0, 0, 0] [17500, 0, 0, 0, 0],
    Set_defaults False NDPI_PROTOCOL_ACCEPTABLE NDPI_PROTOCOL_SPOTIFY ''Spotify'' NDPI_PROTOCOL_CATEGORY_MUSIC
      [0, 0, 0, 0, 0] [0, 0, 0, 0, 0],
    Set_defaults False NDPI_PROTOCOL_ACCEPTABLE NDPI_PROTOCOL_MESSENGER ''Messenger'' NDPI_PROTOCOL_CATEGORY_CHAT
      [0, 0, 0, 0, 0] [0, 0, 0, 0, 0],
    Set_defaults True NDPI_PROTOCOL_ACCEPTABLE NDPI_PROTOCOL_LISP ''LISP'' NDPI_PROTOCOL_CATEGORY_CLOUD
      [0, 0, 0, 0, 0] [4342, 4341, 0, 0, 0],
    Set_defaults True NDPI_PROTOCOL_ACCEPTABLE NDPI_PROTOCOL_EAQ ''EAQ'' NDPI_PROTOCOL_CATEGORY_NETWORK
      [0, 0, 0, 0, 0] [6000, 0, 0, 0, 0],
    Set_defaults True NDPI_PROTOCOL_ACCEPTABLE NDPI_PROTOCOL_KAKAOTALK_VOICE ''KakaoTalk_Voice'' NDPI_PROTOCOL_CATEGORY_VOIP
      [0, 0, 0, 0, 0] [0, 0, 0, 0, 0],
    Set_defaults True NDPI_PROTOCOL_FUN NDPI_PROTOCOL_MPEGTS ''MPEG_TS'' NDPI_PROTOCOL_CATEGORY_MEDIA
      [0, 0, 0, 0, 0] [0, 0, 0, 0, 0],
    Set_defaults True NDPI_PROTOCOL_ACCEPTABLE NDPI_PROTOCOL_LLMNR ''LLMNR'' NDPI_PROTOCOL_CATEGORY_NETWORK
      [5355, 0, 0, 0, 0] [5355, 0, 0, 0, 0],
    Set_defaults True NDPI_PROTOCOL_POTENTIALLY_DANGEROUS NDPI_PROTOCOL_REMOTE_SCAN ''RemoteScan'' NDPI_PROTOCOL_CATEGORY_NETWORK
      [6077, 0, 0, 0, 0] [6078, 0, 0, 0, 0],
    Set_defaults True NDPI_PROTOCOL_ACCEPTABLE NDPI_PROTOCOL_H323 ''H323'' NDPI_PROTOCOL_CATEGORY_VOIP
      [1719, 1720, 0, 0, 0] [1719, 1720, 0, 0, 0],
    Set_defaults False NDPI_PROTOCOL_ACCEPTABLE NDPI_PROTOCOL_OPENVPN ''OpenVPN'' NDPI_PROTOCOL_CATEGORY_VPN
      [1194, 0, 0, 0, 0] [1194, 0, 0, 0, 0],
    Set_defaults True NDPI_PROTOCOL_ACCEPTABLE NDPI_PROTOCOL_NOE ''NOE'' NDPI_PROTOCOL_CATEGORY_VOIP
      [0, 0, 0, 0, 0] [0, 0, 0, 0, 0],
    Set_defaults False NDPI_PROTOCOL_ACCEPTABLE NDPI_PROTOCOL_CISCOVPN ''CiscoVPN'' NDPI_PROTOCOL_CATEGORY_VPN
      [10000, 8008, 8009, 0, 0] [10000, 0, 0, 0, 0],
    Set_defaults True NDPI_PROTOCOL_ACCEPTABLE NDPI_PROTOCOL_TEAMSPEAK ''TeamSpeak'' NDPI_PROTOCOL_CATEGORY_VOIP
      [0, 0, 0, 0, 0] [0, 0, 0, 0, 0],
    Set_defaults False NDPI_PROTOCOL_POTENTIALLY_DANGEROUS NDPI_PROTOCOL_TOR ''Tor'' NDPI_PROTOCOL_CATEGORY_VPN
      [0, 0, 0, 0, 0] [0, 0, 0, 0, 0],
    Set_defaults True NDPI_PROTOCOL_ACCEPTABLE NDPI_PROTOCOL_SKINNY ''CiscoSkinny'' NDPI_PROTOCOL_CATEGORY_VOIP
      [2000, 0, 0, 0, 0] [0, 0, 0, 0, 0],
    Set_defaults True NDPI_PROTOCOL_ACCEPTABLE NDPI_PROTOCOL_RTCP ''RTCP'' NDPI_PROTOCOL_CATEGORY_VOIP
      [0, 0, 0, 0, 0] [0, 0, 0, 0, 0],
    Set_defaults True NDPI_PROTOCOL_ACCEPTABLE NDPI_PROTOCOL_RSYNC ''RSYNC'' NDPI_PROTOCOL_CATEGORY_DATA_TRANSFER
      [873, 0, 0, 0, 0] [0, 0, 0, 0, 0],
    Set_defaults True NDPI_PROTOCOL_ACCEPTABLE NDPI_PROTOCOL_ORACLE ''Oracle'' NDPI_PROTOCOL_CATEGORY_DATABASE
      [1521, 0, 0, 0, 0] [0, 0, 0, 0, 0],
    Set_defaults True NDPI_PROTOCOL_ACCEPTABLE NDPI_PROTOCOL_CORBA ''Corba'' NDPI_PROTOCOL_CATEGORY_RPC
      [0, 0, 0, 0, 0] [0, 0, 0, 0, 0],
    Set_defaults True NDPI_PROTOCOL_ACCEPTABLE NDPI_PROTOCOL_UBUNTUONE ''UbuntuONE'' NDPI_PROTOCOL_CATEGORY_CLOUD
      [0, 0, 0, 0, 0] [0, 0, 0, 0, 0],
    Set_defaults True NDPI_PROTOCOL_ACCEPTABLE NDPI_PROTOCOL_WHOIS_DAS ''Whois-DAS'' NDPI_PROTOCOL_CATEGORY_NETWORK
      [43, 4343, 0, 0, 0] [0, 0, 0, 0, 0],
    Set_defaults True NDPI_PROTOCOL_ACCEPTABLE NDPI_PROTOCOL_COLLECTD ''Collectd'' NDPI_PROTOCOL_CATEGORY_SYSTEM_OS
      [0, 0, 0, 0, 0] [25826, 0, 0, 0, 0],
    Set_defaults True NDPI_PROTOCOL_ACCEPTABLE NDPI_PROTOCOL_SOCKS ''SOCKS'' NDPI_PROTOCOL_CATEGORY_WEB
      [1080, 0, 0, 0, 0] [1080, 0, 0, 0, 0],
    Set_defaults True NDPI_PROTOCOL_ACCEPTABLE NDPI_PROTOCOL_TFTP ''TFTP'' NDPI_PROTOCOL_CATEGORY_DATA_TRANSFER
      [0, 0, 0, 0, 0] [69, 0, 0, 0, 0],
    Set_defaults True NDPI_PROTOCOL_ACCEPTABLE NDPI_PROTOCOL_RTMP ''RTMP'' NDPI_PROTOCOL_CATEGORY_MEDIA
      [1935, 0, 0, 0, 0] [0, 0, 0, 0, 0],
    Set_defaults False NDPI_PROTOCOL_FUN NDPI_PROTOCOL_PINTEREST ''Pinterest'' NDPI_PROTOCOL_CATEGORY_SOCIAL_NETWORK
      [0, 0, 0, 0, 0] [0, 0, 0, 0, 0],
    Set_defaults True NDPI_PROTOCOL_ACCEPTABLE NDPI_PROTOCOL_MEGACO ''Megaco'' NDPI_PROTOCOL_CATEGORY_VOIP
      [0, 0, 0, 0, 0] [2944, 0, 0, 0, 0],
    Set_defaults True NDPI_PROTOCOL_ACCEPTABLE NDPI_PROTOCOL_REDIS ''Redis'' NDPI_PROTOCOL_CATEGORY_DATABASE
      [6379, 0, 0, 0, 0] [0, 0, 0, 0, 0]]"

definition default_calls_6 :: "table_call list" where
  "default_calls_6 = [
    Set_defaults True NDPI_PROTOCOL_ACCEPTABLE NDPI_PROTOCOL_ZMQ ''ZeroMQ'' NDPI_PROTOCOL_CATEGORY_RPC
      [0, 0, 0, 0, 0] [0, 0, 0, 0, 0],
    Set_defaults True NDPI_PROTOCOL_FUN NDPI_PROTOCOL_VHUA ''VHUA'' NDPI_PROTOCOL_CATEGORY_VOIP
      [0, 0, 0, 0, 0] [58267, 0, 0, 0, 0],
    Set_defaults True NDPI_PROTOCOL_FUN NDPI_PROTOCOL_STARCRAFT ''Starcraft'' NDPI_PROTOCOL_CATEGORY_GAME
      [1119, 0, 0, 0, 0] [1119, 0, 0, 0, 0],
    Set_defaults True NDPI_PROTOCOL_SAFE NDPI_PROTOCOL_UBNTAC2 ''UBNTAC2'' NDPI_PROTOCOL_CATEGORY_NETWORK
      [0, 0, 0, 0, 0] [10001, 0, 0, 0, 0],
    Set_defaults False NDPI_PROTOCOL_ACCEPTABLE NDPI_PROTOCOL_VIBER ''Viber'' NDPI_PROTOCOL_CATEGORY_VOIP
      [7985, 5242, 5243, 4244, 0] [7985, 7987, 5242, 5243, 4244],
    Set_defaults True NDPI_PROTOCOL_SAFE NDPI_PROTOCOL_COAP ''COAP'' NDPI_PROTOCOL_CATEGORY_RPC
      [0, 0, 0, 0, 0] [5683, 5684, 0, 0, 0],
    Set_defaults True NDPI_PROTOCOL_ACCEPTABLE NDPI_PROTOCOL_MQTT ''MQTT'' NDPI_PROTOCOL_CATEGORY_RPC
      [1883, 8883, 0, 0, 0] [0, 0, 0, 0, 0],
    Set_defaults True NDPI_PROTOCOL_ACCEPTABLE NDPI_PROTOCOL_SOMEIP ''SOMEIP'' NDPI_PROTOCOL_CATEGORY_RPC
      [30491, 30501, 0, 0, 0] [30491, 30501, 30490, 0, 0],
    Set_defaults True NDPI_PROTOCOL_ACCEPTABLE NDPI_PROTOCOL_RX ''RX'' NDPI_PROTOCOL_CATEGORY_RPC
      [0, 0, 0, 0, 0] [0, 0, 0, 0, 0],
    Set_defaults True NDPI_PROTOCOL_SAFE NDPI_PROTOCOL_GIT ''Git'' NDPI_PROTOCOL_CATEGORY_COLLABORATIVE
      [9418, 0, 0, 0, 0] [0, 0, 0, 0, 0],
    Set_defaults True NDPI_PROTOCOL_ACCEPTABLE NDPI_PROTOCOL_DRDA ''DRDA'' NDPI_PROTOCOL_CATEGORY_DATABASE
      [0, 0, 0, 0, 0] [0, 0, 0, 0, 0],
    Set_defaults False NDPI_PROTOCOL_ACCEPTABLE NDPI_PROTOCOL_HANGOUT_DUO ''GoogleHangoutDuo'' NDPI_PROTOCOL_CATEGORY_VOIP
      [0, 0, 0, 0, 0] [0, 0, 0, 0, 0],
    Set_defaults True NDPI_PROTOCOL_ACCEPTABLE NDPI_PROTOCOL_BJNP ''BJNP'' NDPI_PROTOCOL_CATEGORY_SYSTEM_OS
      [0, 0, 0, 0, 0] [8612, 0, 0, 0, 0],
    Set_defaults True NDPI_PROTOCOL_ACCEPTABLE NDPI_PROTOCOL_SMPP ''SMPP'' NDPI_PROTOCOL_CATEGORY_DOWNLOAD_FT
      [0, 0, 0, 0, 0] [0, 0, 0, 0, 0],
    Set_defaults True NDPI_PROTOCOL_SAFE NDPI_PROTOCOL_OOKLA ''Ookla'' NDPI_PROTOCOL_CATEGORY_NETWORK
      [0, 0, 0, 0, 0] [0, 0, 0, 0, 0],
    Set_defaults True NDPI_PROTOCOL_ACCEPTABLE NDPI_PROTOCOL_AMQP ''AMQP'' NDPI_PROTOCOL_CATEGORY_RPC
      [0, 0, 0, 0, 0] [0, 0, 0, 0, 0],
    Set_defaults False NDPI_PROTOCOL_SAFE NDPI_PROTOCOL_DNSCRYPT ''DNScrypt'' NDPI_PROTOCOL_CATEGORY_NETWORK
      [0, 0, 0, 0, 0] [0, 0, 0, 0, 0],
    Set_defaults True NDPI_PROTOCOL_ACCEPTABLE NDPI_PROTOCOL_TINC ''TINC'' NDPI_PROTOCOL_CATEGORY_VPN
      [655, 0, 0, 0, 0] [655, 0, 0, 0, 0],
    Set_defaults True NDPI_PROTOCOL_SAFE NDPI_PROTOCOL_FIX ''FIX'' NDPI_PROTOCOL_CATEGORY_RPC
      [0, 0, 0, 0, 0] [0, 0, 0, 0, 0],
    Set_defaults True NDPI_PROTOCOL_FUN NDPI_PROTOCOL_NINTENDO ''Nintendo'' NDPI_PROTOCOL_CATEGORY_GAME
      [0, 0, 0, 0, 0] [0, 0, 0, 0, 0],
    Set_defaults True NDPI_PROTOCOL_FUN NDPI_PROTOCOL_CSGO ''CSGO'' NDPI_PROTOCOL_CATEGORY_GAME
      [0, 0, 0, 0, 0] [0, 0, 0, 0, 0],
    Set_defaults True NDPI_PROTOCOL_ACCEPTABLE NDPI_PROTOCOL_AJP ''AJP'' NDPI_PROTOCOL_CATEGORY_WEB
      [8009, 8010, 0, 0, 0] [0, 0, 0, 0, 0],
    Set_defaults True NDPI_PROTOCOL_ACCEPTABLE NDPI_PROTOCOL_TARGUS_GETDATA ''TargusDataspeed'' NDPI_PROTOCOL_CATEGORY_NETWORK
      [5001, 5201, 0, 0, 0] [5001, 5201, 0, 0, 0],
    Set_defaults False NDPI_PROTOCOL_ACCEPTABLE NDPI_PROTOCOL_AMAZON_VIDEO ''AmazonVideo'' NDPI_PROTOCOL_CATEGORY_CLOUD
      [0, 0, 0, 0, 0] [0, 0, 0, 0, 0],
    Set_defaults True NDPI_PROTOCOL_ACCEPTABLE NDPI_PROTOCOL_DNP3 ''DNP3'' NDPI_PROTOCOL_CATEGORY_IOT_SCADA
      [20000, 0, 0, 0, 0] [0, 0, 0, 0, 0],
    Set_defaults True NDPI_PROTOCOL_ACCEPTABLE NDPI_PROTOCOL_IEC60870 ''IEC60870'' NDPI_PROTOCOL_CATEGORY_IOT_SCADA
      [2404, 0, 0, 0, 0] [0, 0, 0, 0, 0],
    Set_defaults True NDPI_PROTOCOL_ACCEPTABLE NDPI_PROTOCOL_BLOOMBERG ''Bloomberg'' NDPI_PROTOCOL_CATEGORY_NETWORK
      [0, 0, 0, 0, 0] [0, 0, 0, 0, 0],
    Set_defaults True NDPI_PROTOCOL_ACCEPTABLE NDPI_PROTOCOL_CAPWAP ''CAPWAP'' NDPI_PROTOCOL_CATEGORY_NETWORK
      [0, 0, 0, 0, 0] [5246, 5247, 0, 0, 0],
    Set_defaults True NDPI_PROTOCOL_ACCEPTABLE NDPI_PROTOCOL_ZABBIX ''Zabbix'' NDPI_PROTOCOL_CATEGORY_NETWORK
      [10050, 0, 0, 0, 0] [0, 0, 0, 0, 0],
    Set_defaults True NDPI_PROTOCOL_ACCEPTABLE NDPI_PROTOCOL_S7COMM ''s7comm'' NDPI_PROTOCOL_CATEGORY_NETWORK
      [102, 0, 0, 0, 0] [0, 0, 0, 0, 0],
    Set_defaults False NDPI_PROTOCOL_SAFE NDPI_PROTOCOL_MSTEAMS ''Teams'' NDPI_PROTOCOL_CATEGORY_COLLABORATIVE
      [0, 0, 0, 0, 0] [0, 0, 0, 0, 0],
    Set_defaults True NDPI_PROTOCOL_ACCEPTABLE NDPI_PROTOCOL_WEBSOCKET ''WebSocket'' NDPI_PROTOCOL_CATEGORY_WEB
      [0, 0, 0, 0, 0] [0, 0, 0, 0, 0],
    Set_defaults True NDPI_PROTOCOL_ACCEPTABLE NDPI_PROTOCOL_ANYDESK ''AnyDesk'' NDPI_PROTOCOL_CATEGORY_REMOTE_ACCESS
      [0, 0, 0, 0, 0] [0, 0, 0, 0, 0],
    Set_defaults True NDPI_PROTOCOL_ACCEPTABLE NDPI_PROTOCOL_SOAP ''SOAP'' NDPI_PROTOCOL_CATEGORY_RPC
      [0, 0, 0, 0, 0] [0, 0, 0, 0, 0],
    Set_defaults True NDPI_PROTOCOL_ACCEPTABLE NDPI_PROTOCOL_MONGODB ''MongoDB'' NDPI_PROTOCOL_CATEGORY_DATABASE
      [27017, 0, 0, 0, 0] [0, 0, 0, 0, 0],
    Set_defaults False NDPI_PROTOCOL_ACCEPTABLE NDPI_PROTOCOL_APPLE_SIRI ''AppleSiri'' NDPI_PROTOCOL_CATEGORY_VIRTUAL_ASSISTANT
      [0, 0, 0, 0, 0] [0, 0, 0, 0, 0],
    Set_defaults True NDPI_PROTOCOL_ACCEPTABLE NDPI_PROTOCOL_SNAPCHAT_CALL ''SnapchatCall'' NDPI_PROTOCOL_CATEGORY_VOIP
      [0, 0, 0, 0, 0] [0, 0, 0, 0, 0]]"

definition default_calls_7 :: "table_call list" where
  "default_calls_7 = [
    Set_defaults True NDPI_PROTOCOL_ACCEPTABLE NDPI_PROTOCOL_HPVIRTGRP ''HP_VIRTGRP'' NDPI_PROTOCOL_CATEGORY_NETWORK
      [0, 0, 0, 0, 0] [0, 0, 0, 0, 0],
    Set_defaults True NDPI_PROTOCOL_FUN NDPI_PROTOCOL_GENSHIN_IMPACT ''GenshinImpact'' NDPI_PROTOCOL_CATEGORY_GAME
      [0, 0, 0, 0, 0] [22102, 0, 0, 0, 0],
    Set_defaults True NDPI_PROTOCOL_FUN NDPI_PROTOCOL_ACTIVISION ''Activision'' NDPI_PROTOCOL_CATEGORY_GAME
      [0, 0, 0, 0, 0] [0, 0, 0, 0, 0],
    Set_defaults False NDPI_PROTOCOL_SAFE NDPI_PROTOCOL_FORTICLIENT ''FortiClient'' NDPI_PROTOCOL_CATEGORY_VPN
      [0, 0, 0, 0, 0] [0, 0, 0, 0, 0],
    Set_defaults True NDPI_PROTOCOL_ACCEPTABLE NDPI_PROTOCOL_Z3950 ''Z39.50'' NDPI_PROTOCOL_CATEGORY_NETWORK
      [210, 0, 0, 0, 0] [0, 0, 0, 0, 0],
    Set_defaults True NDPI_PROTOCOL_FUN NDPI_PROTOCOL_LIKEE ''Likee'' NDPI_PROTOCOL_CATEGORY_SOCIAL_NETWORK
      [0, 0, 0, 0, 0] [0, 0, 0, 0, 0],
    Set_defaults True NDPI_PROTOCOL_FUN NDPI_PROTOCOL_GITLAB ''GitLab'' NDPI_PROTOCOL_CATEGORY_COLLABORATIVE
      [0, 0, 0, 0, 0] [0, 0, 0, 0, 0],
    Set_defaults False NDPI_PROTOCOL_SAFE NDPI_PROTOCOL_AVAST_SECUREDNS ''AVASTSecureDNS'' NDPI_PROTOCOL_CATEGORY_NETWORK
      [0, 0, 0, 0, 0] [0, 0, 0, 0, 0],
    Set_defaults True NDPI_PROTOCOL_ACCEPTABLE NDPI_PROTOCOL_CASSANDRA ''Cassandra'' NDPI_PROTOCOL_CATEGORY_DATABASE
      [9042, 0, 0, 0, 0] [0, 0, 0, 0, 0],
    Set_defaults False NDPI_PROTOCOL_ACCEPTABLE NDPI_PROTOCOL_FACEBOOK_VOIP ''FacebookVoip'' NDPI_PROTOCOL_CATEGORY_VOIP
      [0, 0, 0, 0, 0] [0, 0, 0, 0, 0],
    Set_defaults False NDPI_PROTOCOL_ACCEPTABLE NDPI_PROTOCOL_SIGNAL_VOIP ''SignalVoip'' NDPI_PROTOCOL_CATEGORY_VOIP
      [0, 0, 0, 0, 0] [0, 0, 0, 0, 0],
    Set_defaults False NDPI_PROTOCOL_ACCEPTABLE NDPI_PROTOCOL_MICROSOFT_AZURE ''Azure'' NDPI_PROTOCOL_CATEGORY_CLOUD
      [0, 0, 0, 0, 0] [0, 0, 0, 0, 0]]"

definition default_calls :: "table_call list" where
  "default_calls = default_calls_1 @ default_calls_2 @ default_calls_3 @ default_calls_4 @ default_calls_5 @ default_calls_6 @ default_calls_7"

section \<open>Host names\<close>

record protocol_match =
  string_to_match :: string
  proto_name :: string
  match_protocol_id :: u16
  match_protocol_category :: nat
  match_protocol_breed :: nat
  match_level :: nat

abbreviation (input) host_entry :: "string \<Rightarrow> string \<Rightarrow> u16 \<Rightarrow> nat \<Rightarrow> nat \<Rightarrow> nat \<Rightarrow> protocol_match" where
  "host_entry s n p c b l \<equiv> \<lparr>string_to_match = s, proto_name = n, match_protocol_id = p,
     match_protocol_category = c, match_protocol_breed = b, match_level = l\<rparr>"

abbreviation (input) NDPI_PROTOCOL_DEFAULT_LEVEL :: nat where "NDPI_PROTOCOL_DEFAULT_LEVEL \<equiv> 0"

definition host_match_1 :: "protocol_match list" where
  "host_match_1 = [
    host_entry ''dmqdd6hw24ucf.cloudfront.net'' ''AmazonVideo'' NDPI_PROTOCOL_AMAZON_VIDEO NDPI_PROTOCOL_CATEGORY_VIDEO NDPI_PROTOCOL_FUN NDPI_PROTOCOL_DEFAULT_LEVEL,
    host_entry ''d25xi40x97liuc.cloudfront.net'' ''AmazonVideo'' NDPI_PROTOCOL_AMAZON_VIDEO NDPI_PROTOCOL_CATEGORY_VIDEO NDPI_PROTOCOL_FUN NDPI_PROTOCOL_DEFAULT_LEVEL,
    host_entry ''.aiv-delivery.net'' ''AmazonVideo'' NDPI_PROTOCOL_AMAZON_VIDEO NDPI_PROTOCOL_CATEGORY_VIDEO NDPI_PROTOCOL_FUN NDPI_PROTOCOL_DEFAULT_LEVEL,
    host_entry ''.aiv-cdn.net'' ''AmazonVideo'' NDPI_PROTOCOL_AMAZON_VIDEO NDPI_PROTOCOL_CATEGORY_VIDEO NDPI_PROTOCOL_FUN NDPI_PROTOCOL_DEFAULT_LEVEL,
    host_entry ''1s3.lvlt.dash.us.aiv-cdn.net.c.footprint.net'' ''AmazonVideo'' NDPI_PROTOCOL_AMAZON_VIDEO NDPI_PROTOCOL_CATEGORY_STREAMING NDPI_PROTOCOL_FUN NDPI_PROTOCOL_DEFAULT_LEVEL,
    host_entry ''.s.loris.llnwd.net'' ''AmazonVideo'' NDPI_PROTOCOL_AMAZON_VIDEO NDPI_PROTOCOL_CATEGORY_VIDEO NDPI_PROTOCOL_FUN NDPI_PROTOCOL_DEFAULT_LEVEL,
    host_entry ''atv-ext.amazon.com'' ''AmazonVideo'' NDPI_PROTOCOL_AMAZON_VIDEO NDPI_PROTOCOL_CATEGORY_VIDEO NDPI_PROTOCOL_FUN NDPI_PROTOCOL_DEFAULT_LEVEL,
    host_entry ''atv-ps.amazon.com'' ''AmazonVideo'' NDPI_PROTOCOL_AMAZON_VIDEO NDPI_PROTOCOL_CATEGORY_VIDEO NDPI_PROTOCOL_FUN NDPI_PROTOCOL_DEFAULT_LEVEL,
    host_entry ''.media-amazon.com'' ''AmazonVideo'' NDPI_PROTOCOL_AMAZON_VIDEO NDPI_PROTOCOL_CATEGORY_VIDEO NDPI_PROTOCOL_FUN NDPI_PROTOCOL_DEFAULT_LEVEL,
    host_entry ''.amazonvideo.com'' ''AmazonVideo'' NDPI_PROTOCOL_AMAZON_VIDEO NDPI_PROTOCOL_CATEGORY_VIDEO NDPI_PROTOCOL_FUN NDPI_PROTOCOL_DEFAULT_LEVEL,
    host_entry ''.primevideo.com'' ''AmazonVideo'' NDPI_PROTOCOL_AMAZON_VIDEO NDPI_PROTOCOL_CATEGORY_VIDEO NDPI_PROTOCOL_FUN NDPI_PROTOCOL_DEFAULT_LEVEL,
    host_entry ''amazon.'' ''Amazon'' NDPI_PROTOCOL_AMAZON NDPI_PROTOCOL_CATEGORY_WEB NDPI_PROTOCOL_ACCEPTABLE NDPI_PROTOCOL_DEFAULT_LEVEL,
    host_entry ''amazon.com'' ''Amazon'' NDPI_PROTOCOL_AMAZON NDPI_PROTOCOL_CATEGORY_WEB NDPI_PROTOCOL_ACCEPTABLE NDPI_PROTOCOL_DEFAULT_LEVEL,
    host_entry ''images-amazon.com'' ''Amazon'' NDPI_PROTOCOL_AMAZON NDPI_PROTOCOL_CATEGORY_WEB NDPI_PROTOCOL_ACCEPTABLE NDPI_PROTOCOL_DEFAULT_LEVEL,
    host_entry ''ssl-images-amazon.com'' ''Amazon'' NDPI_PROTOCOL_AMAZON NDPI_PROTOCOL_CATEGORY_WEB NDPI_PROTOCOL_ACCEPTABLE NDPI_PROTOCOL_DEFAULT_LEVEL,
    host_entry ''amazonaws.com'' ''AmazonAWS'' NDPI_PROTOCOL_AMAZON_AWS NDPI_PROTOCOL_CATEGORY_CLOUD NDPI_PROTOCOL_ACCEPTABLE NDPI_PROTOCOL_DEFAULT_LEVEL,
    host_entry ''amazon-adsystem.com'' ''Amazon'' NDPI_PROTOCOL_AMAZON NDPI_PROTOCOL_CATEGORY_WEB NDPI_PROTOCOL_ACCEPTABLE NDPI_PROTOCOL_DEFAULT_LEVEL,
    host_entry ''.aws.'' ''AmazonAWS'' NDPI_PROTOCOL_AMAZON_AWS NDPI_PROTOCOL_CATEGORY_CLOUD NDPI_PROTOCOL_ACCEPTABLE NDPI_PROTOCOL_DEFAULT_LEVEL,
    host_entry ''.cloudfront.net'' ''AmazonAWS'' NDPI_PROTOCOL_AMAZON_AWS NDPI_PROTOCOL_CATEGORY_CLOUD NDPI_PROTOCOL_ACCEPTABLE NDPI_PROTOCOL_DEFAULT_LEVEL,
    host_entry ''.us-west-2.compute.amazonaws.com'' ''AmazonAWS'' NDPI_PROTOCOL_AMAZON_AWS NDPI_PROTOCOL_CATEGORY_CLOUD NDPI_PROTOCOL_ACCEPTABLE NDPI_PROTOCOL_DEFAULT_LEVEL,
    host_entry ''.teamviewer.com'' ''Teamviewer'' NDPI_PROTOCOL_TEAMVIEWER NDPI_PROTOCOL_CATEGORY_REMOTE_ACCESS NDPI_PROTOCOL_ACCEPTABLE NDPI_PROTOCOL_DEFAULT_LEVEL,
    host_entry ''.bloombergvault.com'' ''Bloomberg'' NDPI_PROTOCOL_BLOOMBERG NDPI_PROTOCOL_CATEGORY_CLOUD NDPI_PROTOCOL_SAFE NDPI_PROTOCOL_DEFAULT_LEVEL,
    host_entry ''.bloomberg.com'' ''Bloomberg'' NDPI_PROTOCOL_BLOOMBERG NDPI_PROTOCOL_CATEGORY_CLOUD NDPI_PROTOCOL_SAFE NDPI_PROTOCOL_DEFAULT_LEVEL,
    host_entry ''.salesforce.com'' ''Salesforce'' NDPI_PROTOCOL_SALESFORCE NDPI_PROTOCOL_CATEGORY_CLOUD NDPI_PROTOCOL_SAFE NDPI_PROTOCOL_DEFAULT_LEVEL,
    host_entry ''.apple-dns.net'' ''Apple'' NDPI_PROTOCOL_APPLE NDPI_PROTOCOL_CATEGORY_WEB NDPI_PROTOCOL_SAFE NDPI_PROTOCOL_DEFAULT_LEVEL,
    host_entry ''origin-apple.com.akadns.net'' ''Apple'' NDPI_PROTOCOL_APPLE NDPI_PROTOCOL_CATEGORY_WEB NDPI_PROTOCOL_SAFE NDPI_PROTOCOL_DEFAULT_LEVEL,
    host_entry ''e6858.dsce9.akamaiedge.net'' ''Apple'' NDPI_PROTOCOL_APPLE NDPI_PROTOCOL_CATEGORY_WEB NDPI_PROTOCOL_SAFE NDPI_PROTOCOL_DEFAULT_LEVEL,
    host_entry ''.mzstatic.com'' ''Apple'' NDPI_PROTOCOL_APPLE NDPI_PROTOCOL_CATEGORY_WEB NDPI_PROTOCOL_SAFE NDPI_PROTOCOL_DEFAULT_LEVEL,
    host_entry ''aaplimg.com'' ''Apple'' NDPI_PROTOCOL_APPLE NDPI_PROTOCOL_CATEGORY_SW_UPDATE NDPI_PROTOCOL_SAFE NDPI_PROTOCOL_DEFAULT_LEVEL,
    host_entry ''.apple.com'' ''Apple'' NDPI_PROTOCOL_APPLE NDPI_PROTOCOL_CATEGORY_WEB NDPI_PROTOCOL_SAFE NDPI_PROTOCOL_DEFAULT_LEVEL,
    host_entry ''.apple.news'' ''Apple'' NDPI_PROTOCOL_APPLE NDPI_PROTOCOL_CATEGORY_WEB NDPI_PROTOCOL_SAFE NDPI_PROTOCOL_DEFAULT_LEVEL,
    host_entry ''.cdn-apple.com'' ''Apple'' NDPI_PROTOCOL_APPLE NDPI_PROTOCOL_CATEGORY_WEB NDPI_PROTOCOL_SAFE NDPI_PROTOCOL_DEFAULT_LEVEL,
    host_entry ''.ls4-apple.com'' ''Apple'' NDPI_PROTOCOL_APPLE NDPI_PROTOCOL_CATEGORY_WEB NDPI_PROTOCOL_SAFE NDPI_PROTOCOL_DEFAULT_LEVEL,
    host_entry ''.gc-apple.com'' ''Apple'' NDPI_PROTOCOL_APPLE NDPI_PROTOCOL_CATEGORY_WEB NDPI_PROTOCOL_SAFE NDPI_PROTOCOL_DEFAULT_LEVEL,
    host_entry ''.ls-apple.com'' ''Apple'' NDPI_PROTOCOL_APPLE NDPI_PROTOCOL_CATEGORY_WEB NDPI_PROTOCOL_SAFE NDPI_PROTOCOL_DEFAULT_LEVEL,
    host_entry ''.apple-cloudkit.com'' ''Apple'' NDPI_PROTOCOL_APPLE NDPI_PROTOCOL_CATEGORY_WEB NDPI_PROTOCOL_SAFE NDPI_PROTOCOL_DEFAULT_LEVEL,
    host_entry ''.push.apple.com'' ''ApplePush'' NDPI_PROTOCOL_APPLE_PUSH NDPI_PROTOCOL_CATEGORY_CLOUD NDPI_PROTOCOL_SAFE NDPI_PROTOCOL_DEFAULT_LEVEL,
    host_entry ''push-apple.com'' ''ApplePush'' NDPI_PROTOCOL_APPLE_PUSH NDPI_PROTOCOL_CATEGORY_CLOUD NDPI_PROTOCOL_SAFE NDPI_PROTOCOL_DEFAULT_LEVEL,
    host_entry ''.icloud.com'' ''AppleiCloud'' NDPI_PROTOCOL_APPLE_ICLOUD NDPI_PROTOCOL_CATEGORY_WEB NDPI_PROTOCOL_ACCEPTABLE NDPI_PROTOCOL_DEFAULT_LEVEL,
    host_entry ''.icloud.com.'' ''AppleiCloud'' NDPI_PROTOCOL_APPLE_ICLOUD NDPI_PROTOCOL_CATEGORY_WEB NDPI_PROTOCOL_ACCEPTABLE NDPI_PROTOCOL_DEFAULT_LEVEL,
    host_entry ''.me.com'' ''AppleiCloud'' NDPI_PROTOCOL_APPLE_ICLOUD NDPI_PROTOCOL_CATEGORY_WEB NDPI_PROTOCOL_ACCEPTABLE NDPI_PROTOCOL_DEFAULT_LEVEL,
    host_entry ''.icloud-content.com'' ''AppleiCloud'' NDPI_PROTOCOL_APPLE_ICLOUD NDPI_PROTOCOL_CATEGORY_WEB NDPI_PROTOCOL_ACCEPTABLE NDPI_PROTOCOL_DEFAULT_LEVEL,
    host_entry ''iosapps.itunes.apple.com'' ''AppleStore'' NDPI_PROTOCOL_APPLESTORE NDPI_PROTOCOL_CATEGORY_SW_UPDATE NDPI_PROTOCOL_SAFE NDPI_PROTOCOL_DEFAULT_LEVEL,
    host_entry ''osxapps.itunes.apple.com'' ''AppleStore'' NDPI_PROTOCOL_APPLESTORE NDPI_PROTOCOL_CATEGORY_SW_UPDATE NDPI_PROTOCOL_SAFE NDPI_PROTOCOL_DEFAULT_LEVEL,
    host_entry ''buy.itunes.apple.com'' ''AppleStore'' NDPI_PROTOCOL_APPLESTORE NDPI_PROTOCOL_CATEGORY_SW_UPDATE NDPI_PROTOCOL_SAFE NDPI_PROTOCOL_DEFAULT_LEVEL,
    host_entry ''su.itunes.apple.com'' ''AppleStore'' NDPI_PROTOCOL_APPLESTORE NDPI_PROTOCOL_CATEGORY_SW_UPDATE NDPI_PROTOCOL_SAFE NDPI_PROTOCOL_DEFAULT_LEVEL,
    host_entry ''se.itunes.apple.com'' ''AppleStore'' NDPI_PROTOCOL_APPLESTORE NDPI_PROTOCOL_CATEGORY_SW_UPDATE NDPI_PROTOCOL_SAFE NDPI_PROTOCOL_DEFAULT_LEVEL,
    host_entry ''myapp.itunes.apple.com'' ''AppleStore'' NDPI_PROTOCOL_APPLESTORE NDPI_PROTOCOL_CATEGORY_SW_UPDATE NDPI_PROTOCOL_SAFE NDPI_PROTOCOL_DEFAULT_LEVEL,
    host_entry ''swscan.apple.com'' ''AppleStore'' NDPI_PROTOCOL_APPLESTORE NDPI_PROTOCOL_CATEGORY_SW_UPDATE NDPI_PROTOCOL_SAFE NDPI_PROTOCOL_DEFAULT_LEVEL,
    host_entry ''itunes-apple.com'' ''AppleStore'' NDPI_PROTOCOL_APPLESTORE NDPI_PROTOCOL_CATEGORY_SW_UPDATE NDPI_PROTOCOL_SAFE NDPI_PROTOCOL_DEFAULT_LEVEL,
    host_entry ''itunes.apple.com'' ''AppleiTunes'' NDPI_PROTOCOL_APPLE_ITUNES NDPI_PROTOCOL_CATEGORY_STREAMING NDPI_PROTOCOL_FUN NDPI_PROTOCOL_DEFAULT_LEVEL,
    host_entry ''tlnk.io'' ''AppleiTunes'' NDPI_PROTOCOL_APPLE_ITUNES NDPI_PROTOCOL_CATEGORY_STREAMING NDPI_PROTOCOL_FUN NDPI_PROTOCOL_DEFAULT_LEVEL,
    host_entry ''guzzoni.apple.'' ''AppleSiri'' NDPI_PROTOCOL_APPLE_SIRI NDPI_PROTOCOL_CATEGORY_VIRTUAL_ASSISTANT NDPI_PROTOCOL_ACCEPTABLE NDPI_PROTOCOL_DEFAULT_LEVEL,
    host_entry ''.wbagora.com'' ''Playstation'' NDPI_PROTOCOL_PLAYSTATION NDPI_PROTOCOL_CATEGORY_GAME NDPI_PROTOCOL_UNRATED NDPI_PROTOCOL_DEFAULT_LEVEL,
    host_entry ''.wbplay.com'' ''Playstation'' NDPI_PROTOCOL_PLAYSTATION NDPI_PROTOCOL_CATEGORY_GAME NDPI_PROTOCOL_UNRATED NDPI_PROTOCOL_DEFAULT_LEVEL,
    host_entry ''.xbox.com'' ''Xbox'' NDPI_PROTOCOL_XBOX NDPI_PROTOCOL_CATEGORY_GAME NDPI_PROTOCOL_FUN NDPI_PROTOCOL_DEFAULT_LEVEL,
    host_entry ''.xboxlive.com'' ''Xbox'' NDPI_PROTOCOL_XBOX NDPI_PROTOCOL_CATEGORY_GAME NDPI_PROTOCOL_FUN NDPI_PROTOCOL_DEFAULT_LEVEL,
    host_entry ''.xboxlive.com.akadns.net'' ''Xbox'' NDPI_PROTOCOL_XBOX NDPI_PROTOCOL_CATEGORY_GAME NDPI_PROTOCOL_FUN NDPI_PROTOCOL_DEFAULT_LEVEL,
    host_entry ''.xboxlive.com.c.footprint.net'' ''Xbox'' NDPI_PROTOCOL_XBOX NDPI_PROTOCOL_CATEGORY_GAME NDPI_PROTOCOL_FUN NDPI_PROTOCOL_DEFAULT_LEVEL,
    host_entry ''e13555.b.akamaiedge.net'' ''Playstation'' NDPI_PROTOCOL_PLAYSTATION NDPI_PROTOCOL_CATEGORY_GAME NDPI_PROTOCOL_FUN NDPI_PROTOCOL_DEFAULT_LEVEL,
    host_entry ''e1800.d.akamaiedge.net'' ''Playstation'' NDPI_PROTOCOL_PLAYSTATION NDPI_PROTOCOL_CATEGORY_GAME NDPI_PROTOCOL_FUN NDPI_PROTOCOL_DEFAULT_LEVEL,
    host_entry ''e1879.e7.akamaiedge.net'' ''Playstation'' NDPI_PROTOCOL_PLAYSTATION NDPI_PROTOCOL_CATEGORY_GAME NDPI_PROTOCOL_FUN NDPI_PROTOCOL_DEFAULT_LEVEL,
    host_entry ''.cnn.com'' ''CNN'' NDPI_PROTOCOL_CNN NDPI_PROTOCOL_CATEGORY_WEB NDPI_PROTOCOL_SAFE NDPI_PROTOCOL_DEFAULT_LEVEL,
    host_entry ''.cnn.net'' ''CNN'' NDPI_PROTOCOL_CNN NDPI_PROTOCOL_CATEGORY_WEB NDPI_PROTOCOL_SAFE NDPI_PROTOCOL_DEFAULT_LEVEL,
    host_entry ''.dropbox.com'' ''DropBox'' NDPI_PROTOCOL_DROPBOX NDPI_PROTOCOL_CATEGORY_CLOUD NDPI_PROTOCOL_ACCEPTABLE NDPI_PROTOCOL_DEFAULT_LEVEL,
    host_entry ''.dropboxstatic.com'' ''DropBox'' NDPI_PROTOCOL_DROPBOX NDPI_PROTOCOL_CATEGORY_CLOUD NDPI_PROTOCOL_ACCEPTABLE NDPI_PROTOCOL_DEFAULT_LEVEL,
    host_entry ''.dropbox-dns.com'' ''DropBox'' NDPI_PROTOCOL_DROPBOX NDPI_PROTOCOL_CATEGORY_CLOUD NDPI_PROTOCOL_ACCEPTABLE NDPI_PROTOCOL_DEFAULT_LEVEL,
    host_entry ''log.getdropbox.com'' ''DropBox'' NDPI_PROTOCOL_DROPBOX NDPI_PROTOCOL_CATEGORY_CLOUD NDPI_PROTOCOL_ACCEPTABLE NDPI_PROTOCOL_DEFAULT_LEVEL,
    host_entry ''.ebay.'' ''eBay'' NDPI_PROTOCOL_EBAY NDPI_PROTOCOL_CATEGORY_SHOPPING NDPI_PROTOCOL_SAFE NDPI_PROTOCOL_DEFAULT_LEVEL,
    host_entry ''.ebay.com'' ''eBay'' NDPI_PROTOCOL_EBAY NDPI_PROTOCOL_CATEGORY_SHOPPING NDPI_PROTOCOL_SAFE NDPI_PROTOCOL_DEFAULT_LEVEL,
    host_entry ''.ebaystatic.com'' ''eBay'' NDPI_PROTOCOL_EBAY NDPI_PROTOCOL_CATEGORY_SHOPPING NDPI_PROTOCOL_SAFE NDPI_PROTOCOL_DEFAULT_LEVEL,
    host_entry ''.ebaydesc.com'' ''eBay'' NDPI_PROTOCOL_EBAY NDPI_PROTOCOL_CATEGORY_SHOPPING NDPI_PROTOCOL_SAFE NDPI_PROTOCOL_DEFAULT_LEVEL,
    host_entry ''.ebayrtm.com'' ''eBay'' NDPI_PROTOCOL_EBAY NDPI_PROTOCOL_CATEGORY_SHOPPING NDPI_PROTOCOL_SAFE NDPI_PROTOCOL_DEFAULT_LEVEL,
    host_entry ''.ebaystratus.com'' ''eBay'' NDPI_PROTOCOL_EBAY NDPI_PROTOCOL_CATEGORY_SHOPPING NDPI_PROTOCOL_SAFE NDPI_PROTOCOL_DEFAULT_LEVEL,
    host_entry ''.ebayimg.com'' ''eBay'' NDPI_PROTOCOL_EBAY NDPI_PROTOCOL_CATEGORY_SHOPPING NDPI_PROTOCOL_SAFE NDPI_PROTOCOL_DEFAULT_LEVEL,
    host_entry ''.instagram.'' ''Instagram'' NDPI_PROTOCOL_INSTAGRAM NDPI_PROTOCOL_CATEGORY_SOCIAL_NETWORK NDPI_PROTOCOL_FUN NDPI_PROTOCOL_DEFAULT_LEVEL,
    host_entry ''instagram.'' ''Instagram'' NDPI_PROTOCOL_INSTAGRAM NDPI_PROTOCOL_CATEGORY_SOCIAL_NETWORK NDPI_PROTOCOL_FUN 15,
    host_entry ''.cdninstagram.com'' ''Instagram'' NDPI_PROTOCOL_INSTAGRAM NDPI_PROTOCOL_CATEGORY_SOCIAL_NETWORK NDPI_PROTOCOL_FUN NDPI_PROTOCOL_DEFAULT_LEVEL,
    host_entry ''igcdn-photos-'' ''Instagram'' NDPI_PROTOCOL_INSTAGRAM NDPI_PROTOCOL_CATEGORY_SOCIAL_NETWORK NDPI_PROTOCOL_FUN NDPI_PROTOCOL_DEFAULT_LEVEL,
    host_entry ''instagramimages-'' ''Instagram'' NDPI_PROTOCOL_INSTAGRAM NDPI_PROTOCOL_CATEGORY_SOCIAL_NETWORK NDPI_PROTOCOL_FUN NDPI_PROTOCOL_DEFAULT_LEVEL,
    host_entry ''instagramstatic-'' ''Instagram'' NDPI_PROTOCOL_INSTAGRAM NDPI_PROTOCOL_CATEGORY_SOCIAL_NETWORK NDPI_PROTOCOL_FUN NDPI_PROTOCOL_DEFAULT_LEVEL,
    host_entry ''facebook.com'' ''Facebook'' NDPI_PROTOCOL_FACEBOOK NDPI_PROTOCOL_CATEGORY_SOCIAL_NETWORK NDPI_PROTOCOL_FUN NDPI_PROTOCOL_DEFAULT_LEVEL,
    host_entry ''.facebook.net'' ''Facebook'' NDPI_PROTOCOL_FACEBOOK NDPI_PROTOCOL_CATEGORY_SOCIAL_NETWORK NDPI_PROTOCOL_FUN NDPI_PROTOCOL_DEFAULT_LEVEL,
    host_entry ''fbstatic-a.akamaihd.net'' ''Facebook'' NDPI_PROTOCOL_FACEBOOK NDPI_PROTOCOL_CATEGORY_SOCIAL_NETWORK NDPI_PROTOCOL_FUN NDPI_PROTOCOL_DEFAULT_LEVEL,
    host_entry ''.fbcdn.net'' ''Facebook'' NDPI_PROTOCOL_FACEBOOK NDPI_PROTOCOL_CATEGORY_SOCIAL_NETWORK NDPI_PROTOCOL_FUN NDPI_PROTOCOL_DEFAULT_LEVEL,
    host_entry ''fbcdn-'' ''Facebook'' NDPI_PROTOCOL_FACEBOOK NDPI_PROTOCOL_CATEGORY_SOCIAL_NETWORK NDPI_PROTOCOL_FUN NDPI_PROTOCOL_DEFAULT_LEVEL,
    host_entry ''.fbsbx.com'' ''Facebook'' NDPI_PROTOCOL_FACEBOOK NDPI_PROTOCOL_CATEGORY_SOCIAL_NETWORK NDPI_PROTOCOL_FUN NDPI_PROTOCOL_DEFAULT_LEVEL,
    host_entry ''.fbwat.ch'' ''Facebook'' NDPI_PROTOCOL_FACEBOOK NDPI_PROTOCOL_CATEGORY_SOCIAL_NETWORK NDPI_PROTOCOL_FUN NDPI_PROTOCOL_DEFAULT_LEVEL,
    host_entry ''.fb.com'' ''Facebook'' NDPI_PROTOCOL_FACEBOOK NDPI_PROTOCOL_CATEGORY_SOCIAL_NETWORK NDPI_PROTOCOL_FUN NDPI_PROTOCOL_DEFAULT_LEVEL,
    host_entry ''.fb.gg'' ''Facebook'' NDPI_PROTOCOL_FACEBOOK NDPI_PROTOCOL_CATEGORY_SOCIAL_NETWORK NDPI_PROTOCOL_FUN NDPI_PROTOCOL_DEFAULT_LEVEL,
    host_entry ''speedtest.'' ''Ookla'' NDPI_PROTOCOL_OOKLA NDPI_PROTOCOL_CATEGORY_NETWORK NDPI_PROTOCOL_SAFE NDPI_PROTOCOL_DEFAULT_LEVEL,
    host_entry ''.ooklaserver.net'' ''Ookla'' NDPI_PROTOCOL_OOKLA NDPI_PROTOCOL_CATEGORY_NETWORK NDPI_PROTOCOL_SAFE NDPI_PROTOCOL_DEFAULT_LEVEL,
    host_entry ''ntop.org'' ''ntop'' NDPI_PROTOCOL_NTOP NDPI_PROTOCOL_CATEGORY_NETWORK NDPI_PROTOCOL_SAFE NDPI_PROTOCOL_DEFAULT_LEVEL,
    host_entry ''docs.googleusercontent.com'' ''GoogleDocs'' NDPI_PROTOCOL_GOOGLE_DOCS NDPI_PROTOCOL_CATEGORY_COLLABORATIVE NDPI_PROTOCOL_ACCEPTABLE NDPI_PROTOCOL_DEFAULT_LEVEL,
    host_entry ''docs.google.com'' ''GoogleDocs'' NDPI_PROTOCOL_GOOGLE_DOCS NDPI_PROTOCOL_CATEGORY_COLLABORATIVE NDPI_PROTOCOL_ACCEPTABLE NDPI_PROTOCOL_DEFAULT_LEVEL,
    host_entry ''drive-thirdparty.googleusercontent.com'' ''GoogleDrive'' NDPI_PROTOCOL_GOOGLE_DRIVE NDPI_PROTOCOL_CATEGORY_CLOUD NDPI_PROTOCOL_ACCEPTABLE NDPI_PROTOCOL_DEFAULT_LEVEL,
    host_entry ''drive.google.com'' ''GoogleDrive'' NDPI_PROTOCOL_GOOGLE_DRIVE NDPI_PROTOCOL_CATEGORY_CLOUD NDPI_PROTOCOL_ACCEPTABLE NDPI_PROTOCOL_DEFAULT_LEVEL,
    host_entry ''android.clients.google.com'' ''PlayStore'' NDPI_PROTOCOL_PLAYSTORE NDPI_PROTOCOL_CATEGORY_SW_UPDATE NDPI_PROTOCOL_SAFE NDPI_PROTOCOL_DEFAULT_LEVEL,
    host_entry ''.googlezip.net'' ''DataSaver'' NDPI_PROTOCOL_DATASAVER NDPI_PROTOCOL_CATEGORY_WEB NDPI_PROTOCOL_ACCEPTABLE NDPI_PROTOCOL_DEFAULT_LEVEL,
    host_entry ''datasaver.googleapis.com'' ''DataSaver'' NDPI_PROTOCOL_DATASAVER NDPI_PROTOCOL_CATEGORY_WEB NDPI_PROTOCOL_ACCEPTABLE NDPI_PROTOCOL_DEFAULT_LEVEL,
    host_entry ''dns.google'' ''DoH_DoT'' NDPI_PROTOCOL_DOH_DOT NDPI_PROTOCOL_CATEGORY_NETWORK NDPI_PROTOCOL_ACCEPTABLE NDPI_PROTOCOL_DEFAULT_LEVEL,
    host_entry ''dns.google.com'' ''DoH_DoT'' NDPI_PROTOCOL_DOH_DOT NDPI_PROTOCOL_CATEGORY_NETWORK NDPI_PROTOCOL_ACCEPTABLE NDPI_PROTOCOL_DEFAULT_LEVEL,
    host_entry ''mozilla.cloudflare-dns.com'' ''DoH_DoT'' NDPI_PROTOCOL_DOH_DOT NDPI_PROTOCOL_CATEGORY_NETWORK NDPI_PROTOCOL_ACCEPTABLE NDPI_PROTOCOL_DEFAULT_LEVEL,
    host_entry ''cloudflare-dns.com'' ''DoH_DoT'' NDPI_PROTOCOL_DOH_DOT NDPI_PROTOCOL_CATEGORY_NETWORK NDPI_PROTOCOL_ACCEPTABLE NDPI_PROTOCOL_DEFAULT_LEVEL,
    host_entry ''commons.host'' ''DoH_DoT'' NDPI_PROTOCOL_DOH_DOT NDPI_PROTOCOL_CATEGORY_NETWORK NDPI_PROTOCOL_ACCEPTABLE NDPI_PROTOCOL_DEFAULT_LEVEL,
    host_entry ''doh.libredns.gr'' ''DoH_DoT'' NDPI_PROTOCOL_DOH_DOT NDPI_PROTOCOL_CATEGORY_NETWORK NDPI_PROTOCOL_ACCEPTABLE NDPI_PROTOCOL_DEFAULT_LEVEL,
    host_entry ''dns9.quad9.net'' ''DoH_DoT'' NDPI_PROTOCOL_DOH_DOT NDPI_PROTOCOL_CATEGORY_NETWORK NDPI_PROTOCOL_ACCEPTABLE NDPI_PROTOCOL_DEFAULT_LEVEL,
    host_entry ''doh.opendns.com'' ''DoH_DoT'' NDPI_PROTOCOL_DOH_DOT NDPI_PROTOCOL_CATEGORY_NETWORK NDPI_PROTOCOL_ACCEPTABLE NDPI_PROTOCOL_DEFAULT_LEVEL,
    host_entry ''doh.dns.sb'' ''DoH_DoT'' NDPI_PROTOCOL_DOH_DOT NDPI_PROTOCOL_CATEGORY_NETWORK NDPI_PROTOCOL_ACCEPTABLE NDPI_PROTOCOL_DEFAULT_LEVEL,
    host_entry ''doh.netweaver.uk'' ''DoH_DoT'' NDPI_PROTOCOL_DOH_DOT NDPI_PROTOCOL_CATEGORY_NETWORK NDPI_PROTOCOL_ACCEPTABLE NDPI_PROTOCOL_DEFAULT_LEVEL,
    host_entry ''dns.dns-over-https.com'' ''DoH_DoT'' NDPI_PROTOCOL_DOH_DOT NDPI_PROTOCOL_CATEGORY_NETWORK NDPI_PROTOCOL_ACCEPTABLE NDPI_PROTOCOL_DEFAULT_LEVEL,
    host_entry ''jp.tiarap.org'' ''DoH_DoT'' NDPI_PROTOCOL_DOH_DOT NDPI_PROTOCOL_CATEGORY_NETWORK NDPI_PROTOCOL_ACCEPTABLE NDPI_PROTOCOL_DEFAULT_LEVEL,
    host_entry ''dns.dnsoverhttps.net'' ''DoH_DoT'' NDPI_PROTOCOL_DOH_DOT NDPI_PROTOCOL_CATEGORY_NETWORK NDPI_PROTOCOL_ACCEPTABLE NDPI_PROTOCOL_DEFAULT_LEVEL,
    host_entry ''doh.powerdns.org'' ''DoH_DoT'' NDPI_PROTOCOL_DOH_DOT NDPI_PROTOCOL_CATEGORY_NETWORK NDPI_PROTOCOL_ACCEPTABLE NDPI_PROTOCOL_DEFAULT_LEVEL,
    host_entry ''adblock.mydns.network'' ''DoH_DoT'' NDPI_PROTOCOL_DOH_DOT NDPI_PROTOCOL_CATEGORY_NETWORK NDPI_PROTOCOL_ACCEPTABLE NDPI_PROTOCOL_DEFAULT_LEVEL,
    host_entry ''jp.tiar.app'' ''DoH_DoT'' NDPI_PROTOCOL_DOH_DOT NDPI_PROTOCOL_CATEGORY_NETWORK NDPI_PROTOCOL_ACCEPTABLE NDPI_PROTOCOL_DEFAULT_LEVEL,
    host_entry ''doh.crypto.sx'' ''DoH_DoT'' NDPI_PROTOCOL_DOH_DOT NDPI_PROTOCOL_CATEGORY_NETWORK NDPI_PROTOCOL_ACCEPTABLE NDPI_PROTOCOL_DEFAULT_LEVEL,
    host_entry ''dns.quad9.net'' ''DoH_DoT'' NDPI_PROTOCOL_DOH_DOT NDPI_PROTOCOL_CATEGORY_NETWORK NDPI_PROTOCOL_ACCEPTABLE NDPI_PROTOCOL_DEFAULT_LEVEL]"

definition host_match_2 :: "protocol_match list" where
  "host_match_2 = [
    host_entry ''dns.containerpi.com'' ''DoH_DoT'' NDPI_PROTOCOL_DOH_DOT NDPI_PROTOCOL_CATEGORY_NETWORK NDPI_PROTOCOL_ACCEPTABLE NDPI_PROTOCOL_DEFAULT_LEVEL,
    host_entry ''ibksturm.synology.me'' ''DoH_DoT'' NDPI_PROTOCOL_DOH_DOT NDPI_PROTOCOL_CATEGORY_NETWORK NDPI_PROTOCOL_ACCEPTABLE NDPI_PROTOCOL_DEFAULT_LEVEL,
    host_entry ''doh.captnemo.in'' ''DoH_DoT'' NDPI_PROTOCOL_DOH_DOT NDPI_PROTOCOL_CATEGORY_NETWORK NDPI_PROTOCOL_ACCEPTABLE NDPI_PROTOCOL_DEFAULT_LEVEL,
    host_entry ''dns.rubyfish.cn'' ''DoH_DoT'' NDPI_PROTOCOL_DOH_DOT NDPI_PROTOCOL_CATEGORY_NETWORK NDPI_PROTOCOL_ACCEPTABLE NDPI_PROTOCOL_DEFAULT_LEVEL,
    host_entry ''doh.42l.fr'' ''DoH_DoT'' NDPI_PROTOCOL_DOH_DOT NDPI_PROTOCOL_CATEGORY_NETWORK NDPI_PROTOCOL_ACCEPTABLE NDPI_PROTOCOL_DEFAULT_LEVEL,
    host_entry ''dns-family.adguard.com'' ''DoH_DoT'' NDPI_PROTOCOL_DOH_DOT NDPI_PROTOCOL_CATEGORY_NETWORK NDPI_PROTOCOL_ACCEPTABLE NDPI_PROTOCOL_DEFAULT_LEVEL,
    host_entry ''appliedprivacy.net'' ''DoH_DoT'' NDPI_PROTOCOL_DOH_DOT NDPI_PROTOCOL_CATEGORY_NETWORK NDPI_PROTOCOL_ACCEPTABLE NDPI_PROTOCOL_DEFAULT_LEVEL,
    host_entry ''doh.cleanbrowsing.org'' ''DoH_DoT'' NDPI_PROTOCOL_DOH_DOT NDPI_PROTOCOL_CATEGORY_NETWORK NDPI_PROTOCOL_ACCEPTABLE NDPI_PROTOCOL_DEFAULT_LEVEL,
    host_entry ''dns10.quad9.net'' ''DoH_DoT'' NDPI_PROTOCOL_DOH_DOT NDPI_PROTOCOL_CATEGORY_NETWORK NDPI_PROTOCOL_ACCEPTABLE NDPI_PROTOCOL_DEFAULT_LEVEL,
    host_entry ''doh-ch.blahdns.com'' ''DoH_DoT'' NDPI_PROTOCOL_DOH_DOT NDPI_PROTOCOL_CATEGORY_NETWORK NDPI_PROTOCOL_ACCEPTABLE NDPI_PROTOCOL_DEFAULT_LEVEL,
    host_entry ''doh.seby.io'' ''DoH_DoT'' NDPI_PROTOCOL_DOH_DOT NDPI_PROTOCOL_CATEGORY_NETWORK NDPI_PROTOCOL_ACCEPTABLE NDPI_PROTOCOL_DEFAULT_LEVEL,
    host_entry ''dns.adguard.com'' ''DoH_DoT'' NDPI_PROTOCOL_DOH_DOT NDPI_PROTOCOL_CATEGORY_NETWORK NDPI_PROTOCOL_ACCEPTABLE NDPI_PROTOCOL_DEFAULT_LEVEL,
    host_entry ''ibuki.cgnat.net'' ''DoH_DoT'' NDPI_PROTOCOL_DOH_DOT NDPI_PROTOCOL_CATEGORY_NETWORK NDPI_PROTOCOL_ACCEPTABLE NDPI_PROTOCOL_DEFAULT_LEVEL,
    host_entry ''jcdns.fun'' ''DoH_DoT'' NDPI_PROTOCOL_DOH_DOT NDPI_PROTOCOL_CATEGORY_NETWORK NDPI_PROTOCOL_ACCEPTABLE NDPI_PROTOCOL_DEFAULT_LEVEL,
    host_entry ''doh-2.seby.io'' ''DoH_DoT'' NDPI_PROTOCOL_DOH_DOT NDPI_PROTOCOL_CATEGORY_NETWORK NDPI_PROTOCOL_ACCEPTABLE NDPI_PROTOCOL_DEFAULT_LEVEL,
    host_entry ''doh.tiar.app'' ''DoH_DoT'' NDPI_PROTOCOL_DOH_DOT NDPI_PROTOCOL_CATEGORY_NETWORK NDPI_PROTOCOL_ACCEPTABLE NDPI_PROTOCOL_DEFAULT_LEVEL,
    host_entry ''doh.dnswarden.com'' ''DoH_DoT'' NDPI_PROTOCOL_DOH_DOT NDPI_PROTOCOL_CATEGORY_NETWORK NDPI_PROTOCOL_ACCEPTABLE NDPI_PROTOCOL_DEFAULT_LEVEL,
    host_entry ''doh-de.blahdns.com'' ''DoH_DoT'' NDPI_PROTOCOL_DOH_DOT NDPI_PROTOCOL_CATEGORY_NETWORK NDPI_PROTOCOL_ACCEPTABLE NDPI_PROTOCOL_DEFAULT_LEVEL,
    host_entry ''doh-jp.blahdns.com'' ''DoH_DoT'' NDPI_PROTOCOL_DOH_DOT NDPI_PROTOCOL_CATEGORY_NETWORK NDPI_PROTOCOL_ACCEPTABLE NDPI_PROTOCOL_DEFAULT_LEVEL,
    host_entry ''doh.appliedprivacy.net'' ''DoH_DoT'' NDPI_PROTOCOL_DOH_DOT NDPI_PROTOCOL_CATEGORY_NETWORK NDPI_PROTOCOL_ACCEPTABLE NDPI_PROTOCOL_DEFAULT_LEVEL,
    host_entry ''doh.tiarap.org'' ''DoH_DoT'' NDPI_PROTOCOL_DOH_DOT NDPI_PROTOCOL_CATEGORY_NETWORK NDPI_PROTOCOL_ACCEPTABLE NDPI_PROTOCOL_DEFAULT_LEVEL,
    host_entry ''doh.armadillodns.net'' ''DoH_DoT'' NDPI_PROTOCOL_DOH_DOT NDPI_PROTOCOL_CATEGORY_NETWORK NDPI_PROTOCOL_ACCEPTABLE NDPI_PROTOCOL_DEFAULT_LEVEL,
    host_entry ''dns-nyc.aaflalo.me'' ''DoH_DoT'' NDPI_PROTOCOL_DOH_DOT NDPI_PROTOCOL_CATEGORY_NETWORK NDPI_PROTOCOL_ACCEPTABLE NDPI_PROTOCOL_DEFAULT_LEVEL,
    host_entry ''dns.aa.net.uk'' ''DoH_DoT'' NDPI_PROTOCOL_DOH_DOT NDPI_PROTOCOL_CATEGORY_NETWORK NDPI_PROTOCOL_ACCEPTABLE NDPI_PROTOCOL_DEFAULT_LEVEL,
    host_entry ''dns.aaflalo.me'' ''DoH_DoT'' NDPI_PROTOCOL_DOH_DOT NDPI_PROTOCOL_CATEGORY_NETWORK NDPI_PROTOCOL_ACCEPTABLE NDPI_PROTOCOL_DEFAULT_LEVEL,
    host_entry ''dns11.quad9.net'' ''DoH_DoT'' NDPI_PROTOCOL_DOH_DOT NDPI_PROTOCOL_CATEGORY_NETWORK NDPI_PROTOCOL_ACCEPTABLE NDPI_PROTOCOL_DEFAULT_LEVEL,
    host_entry ''dns.nextdns.io'' ''DoH_DoT'' NDPI_PROTOCOL_DOH_DOT NDPI_PROTOCOL_CATEGORY_NETWORK NDPI_PROTOCOL_ACCEPTABLE NDPI_PROTOCOL_DEFAULT_LEVEL,
    host_entry ''doh.securedns.eu'' ''DoH_DoT'' NDPI_PROTOCOL_DOH_DOT NDPI_PROTOCOL_CATEGORY_NETWORK NDPI_PROTOCOL_ACCEPTABLE NDPI_PROTOCOL_DEFAULT_LEVEL,
    host_entry ''rdns.faelix.net'' ''DoH_DoT'' NDPI_PROTOCOL_DOH_DOT NDPI_PROTOCOL_CATEGORY_NETWORK NDPI_PROTOCOL_ACCEPTABLE NDPI_PROTOCOL_DEFAULT_LEVEL,
    host_entry ''captnemo.in'' ''DoH_DoT'' NDPI_PROTOCOL_DOH_DOT NDPI_PROTOCOL_CATEGORY_NETWORK NDPI_PROTOCOL_ACCEPTABLE NDPI_PROTOCOL_DEFAULT_LEVEL,
    host_entry ''dns.dnshome.de'' ''DoH_DoT'' NDPI_PROTOCOL_DOH_DOT NDPI_PROTOCOL_CATEGORY_NETWORK NDPI_PROTOCOL_ACCEPTABLE NDPI_PROTOCOL_DEFAULT_LEVEL,
    host_entry ''doh.dnslify.com'' ''DoH_DoT'' NDPI_PROTOCOL_DOH_DOT NDPI_PROTOCOL_CATEGORY_NETWORK NDPI_PROTOCOL_ACCEPTABLE NDPI_PROTOCOL_DEFAULT_LEVEL,
    host_entry ''resolver-eu.lelux.fi'' ''DoH_DoT'' NDPI_PROTOCOL_DOH_DOT NDPI_PROTOCOL_CATEGORY_NETWORK NDPI_PROTOCOL_ACCEPTABLE NDPI_PROTOCOL_DEFAULT_LEVEL,
    host_entry ''doh.bortzmeyer.fr'' ''DoH_DoT'' NDPI_PROTOCOL_DOH_DOT NDPI_PROTOCOL_CATEGORY_NETWORK NDPI_PROTOCOL_ACCEPTABLE NDPI_PROTOCOL_DEFAULT_LEVEL,
    host_entry ''.doh.dns.snopyta.org'' ''DoH_DoT'' NDPI_PROTOCOL_DOH_DOT NDPI_PROTOCOL_CATEGORY_NETWORK NDPI_PROTOCOL_ACCEPTABLE NDPI_PROTOCOL_DEFAULT_LEVEL,
    host_entry ''jarjar.meganerd.nl'' ''DoH_DoT'' NDPI_PROTOCOL_DOH_DOT NDPI_PROTOCOL_CATEGORY_NETWORK NDPI_PROTOCOL_ACCEPTABLE NDPI_PROTOCOL_DEFAULT_LEVEL,
    host_entry ''rumpelsepp.org'' ''DoH_DoT'' NDPI_PROTOCOL_DOH_DOT NDPI_PROTOCOL_CATEGORY_NETWORK NDPI_PROTOCOL_ACCEPTABLE NDPI_PROTOCOL_DEFAULT_LEVEL,
    host_entry ''dnsnl.alekberg.net'' ''DoH_DoT'' NDPI_PROTOCOL_DOH_DOT NDPI_PROTOCOL_CATEGORY_NETWORK NDPI_PROTOCOL_ACCEPTABLE NDPI_PROTOCOL_DEFAULT_LEVEL,
    host_entry ''dnses.alekberg.net'' ''DoH_DoT'' NDPI_PROTOCOL_DOH_DOT NDPI_PROTOCOL_CATEGORY_NETWORK NDPI_PROTOCOL_ACCEPTABLE NDPI_PROTOCOL_DEFAULT_LEVEL,
    host_entry ''dnsse.alekberg.net'' ''DoH_DoT'' NDPI_PROTOCOL_DOH_DOT NDPI_PROTOCOL_CATEGORY_NETWORK NDPI_PROTOCOL_ACCEPTABLE NDPI_PROTOCOL_DEFAULT_LEVEL,
    host_entry ''odvr.nic.cz'' ''DoH_DoT'' NDPI_PROTOCOL_DOH_DOT NDPI_PROTOCOL_CATEGORY_NETWORK NDPI_PROTOCOL_ACCEPTABLE NDPI_PROTOCOL_DEFAULT_LEVEL,
    host_entry ''dns.dnscrypt.ca'' ''DoH_DoT'' NDPI_PROTOCOL_DOH_DOT NDPI_PROTOCOL_CATEGORY_NETWORK NDPI_PROTOCOL_ACCEPTABLE NDPI_PROTOCOL_DEFAULT_LEVEL,
    host_entry ''dns1.dnscrypt.ca'' ''DoH_DoT'' NDPI_PROTOCOL_DOH_DOT NDPI_PROTOCOL_CATEGORY_NETWORK NDPI_PROTOCOL_ACCEPTABLE NDPI_PROTOCOL_DEFAULT_LEVEL,
    host_entry ''dns2.dnscrypt.ca'' ''DoH_DoT'' NDPI_PROTOCOL_DOH_DOT NDPI_PROTOCOL_CATEGORY_NETWORK NDPI_PROTOCOL_ACCEPTABLE NDPI_PROTOCOL_DEFAULT_LEVEL,
    host_entry ''dns.digitale-gesellschaft.ch'' ''DoH_DoT'' NDPI_PROTOCOL_DOH_DOT NDPI_PROTOCOL_CATEGORY_NETWORK NDPI_PROTOCOL_ACCEPTABLE NDPI_PROTOCOL_DEFAULT_LEVEL,
    host_entry ''dns1.digitale-gesellschaft.ch'' ''DoH_DoT'' NDPI_PROTOCOL_DOH_DOT NDPI_PROTOCOL_CATEGORY_NETWORK NDPI_PROTOCOL_ACCEPTABLE NDPI_PROTOCOL_DEFAULT_LEVEL,
    host_entry ''dns.cloudflare.com'' ''DoH_DoT'' NDPI_PROTOCOL_DOH_DOT NDPI_PROTOCOL_CATEGORY_NETWORK NDPI_PROTOCOL_ACCEPTABLE NDPI_PROTOCOL_DEFAULT_LEVEL,
    host_entry ''doh.ffmuc.net'' ''DoH_DoT'' NDPI_PROTOCOL_DOH_DOT NDPI_PROTOCOL_CATEGORY_NETWORK NDPI_PROTOCOL_ACCEPTABLE NDPI_PROTOCOL_DEFAULT_LEVEL,
    host_entry ''.googlesyndication.com'' ''Google'' NDPI_PROTOCOL_GOOGLE CUSTOM_CATEGORY_ADVERTISEMENT NDPI_PROTOCOL_TRACKER_ADS NDPI_PROTOCOL_DEFAULT_LEVEL,
    host_entry ''googleads.'' ''Google'' NDPI_PROTOCOL_GOOGLE CUSTOM_CATEGORY_ADVERTISEMENT NDPI_PROTOCOL_TRACKER_ADS NDPI_PROTOCOL_DEFAULT_LEVEL,
    host_entry ''.doubleclick.net'' ''Google'' NDPI_PROTOCOL_GOOGLE CUSTOM_CATEGORY_ADVERTISEMENT NDPI_PROTOCOL_TRACKER_ADS NDPI_PROTOCOL_DEFAULT_LEVEL,
    host_entry ''googleadservices.'' ''Google'' NDPI_PROTOCOL_GOOGLE CUSTOM_CATEGORY_ADVERTISEMENT NDPI_PROTOCOL_TRACKER_ADS NDPI_PROTOCOL_DEFAULT_LEVEL,
    host_entry ''.2mdn.net'' ''Google'' NDPI_PROTOCOL_GOOGLE CUSTOM_CATEGORY_ADVERTISEMENT NDPI_PROTOCOL_TRACKER_ADS NDPI_PROTOCOL_DEFAULT_LEVEL,
    host_entry ''.dmtry.com'' ''Google'' NDPI_PROTOCOL_GOOGLE CUSTOM_CATEGORY_ADVERTISEMENT NDPI_PROTOCOL_TRACKER_ADS NDPI_PROTOCOL_DEFAULT_LEVEL,
    host_entry ''google-analytics.'' ''Google'' NDPI_PROTOCOL_GOOGLE CUSTOM_CATEGORY_ADVERTISEMENT NDPI_PROTOCOL_TRACKER_ADS NDPI_PROTOCOL_DEFAULT_LEVEL,
    host_entry ''.gvt1.com'' ''Google'' NDPI_PROTOCOL_GOOGLE NDPI_PROTOCOL_CATEGORY_WEB NDPI_PROTOCOL_ACCEPTABLE NDPI_PROTOCOL_DEFAULT_LEVEL,
    host_entry ''.gvt2.com'' ''Google'' NDPI_PROTOCOL_GOOGLE NDPI_PROTOCOL_CATEGORY_WEB NDPI_PROTOCOL_ACCEPTABLE NDPI_PROTOCOL_DEFAULT_LEVEL,
    host_entry ''telephony.goog'' ''Google'' NDPI_PROTOCOL_GOOGLE NDPI_PROTOCOL_CATEGORY_WEB NDPI_PROTOCOL_ACCEPTABLE NDPI_PROTOCOL_DEFAULT_LEVEL,
    host_entry ''images2-hangout-opensocial.googleusercontent.com'' ''GoogleHangout'' NDPI_PROTOCOL_HANGOUT_DUO NDPI_PROTOCOL_CATEGORY_CHAT NDPI_PROTOCOL_ACCEPTABLE NDPI_PROTOCOL_DEFAULT_LEVEL,
    host_entry ''googleapis.com'' ''GoogleServices'' NDPI_PROTOCOL_GOOGLE_SERVICES NDPI_PROTOCOL_CATEGORY_WEB NDPI_PROTOCOL_ACCEPTABLE NDPI_PROTOCOL_DEFAULT_LEVEL,
    host_entry ''.googletagmanager.com'' ''GoogleServices'' NDPI_PROTOCOL_GOOGLE_SERVICES NDPI_PROTOCOL_CATEGORY_WEB NDPI_PROTOCOL_ACCEPTABLE NDPI_PROTOCOL_DEFAULT_LEVEL,
    host_entry ''.googletagservices.com'' ''GoogleServices'' NDPI_PROTOCOL_GOOGLE_SERVICES NDPI_PROTOCOL_CATEGORY_WEB NDPI_PROTOCOL_ACCEPTABLE NDPI_PROTOCOL_DEFAULT_LEVEL,
    host_entry ''mtalk.google.com'' ''GoogleServices'' NDPI_PROTOCOL_GOOGLE_SERVICES NDPI_PROTOCOL_CATEGORY_WEB NDPI_PROTOCOL_ACCEPTABLE NDPI_PROTOCOL_DEFAULT_LEVEL,
    host_entry ''plus.google.com'' ''GooglePlus'' NDPI_PROTOCOL_GOOGLE_PLUS NDPI_PROTOCOL_CATEGORY_SOCIAL_NETWORK NDPI_PROTOCOL_FUN NDPI_PROTOCOL_DEFAULT_LEVEL,
    host_entry ''plus.url.google.com'' ''GooglePlus'' NDPI_PROTOCOL_GOOGLE_PLUS NDPI_PROTOCOL_CATEGORY_SOCIAL_NETWORK NDPI_PROTOCOL_FUN NDPI_PROTOCOL_DEFAULT_LEVEL,
    host_entry ''googleusercontent.com'' ''Google'' NDPI_PROTOCOL_GOOGLE NDPI_PROTOCOL_CATEGORY_WEB NDPI_PROTOCOL_ACCEPTABLE NDPI_PROTOCOL_DEFAULT_LEVEL,
    host_entry ''1e100.net'' ''Google'' NDPI_PROTOCOL_GOOGLE NDPI_PROTOCOL_CATEGORY_WEB NDPI_PROTOCOL_ACCEPTABLE NDPI_PROTOCOL_DEFAULT_LEVEL,
    host_entry ''maps.google.'' ''GoogleMaps'' NDPI_PROTOCOL_GOOGLE_MAPS NDPI_PROTOCOL_CATEGORY_WEB NDPI_PROTOCOL_SAFE NDPI_PROTOCOL_DEFAULT_LEVEL,
    host_entry ''maps.gstatic.com'' ''GoogleMaps'' NDPI_PROTOCOL_GOOGLE_MAPS NDPI_PROTOCOL_CATEGORY_WEB NDPI_PROTOCOL_SAFE NDPI_PROTOCOL_DEFAULT_LEVEL,
    host_entry ''.gmail.'' ''GMail'' NDPI_PROTOCOL_GMAIL NDPI_PROTOCOL_CATEGORY_MAIL NDPI_PROTOCOL_ACCEPTABLE NDPI_PROTOCOL_DEFAULT_LEVEL,
    host_entry ''inbox.google.com'' ''GMail'' NDPI_PROTOCOL_GMAIL NDPI_PROTOCOL_CATEGORY_MAIL NDPI_PROTOCOL_ACCEPTABLE NDPI_PROTOCOL_DEFAULT_LEVEL,
    host_entry ''mail.google.'' ''GMail'' NDPI_PROTOCOL_GMAIL NDPI_PROTOCOL_CATEGORY_MAIL NDPI_PROTOCOL_ACCEPTABLE NDPI_PROTOCOL_DEFAULT_LEVEL,
    host_entry ''google.com'' ''Google'' NDPI_PROTOCOL_GOOGLE NDPI_PROTOCOL_CATEGORY_WEB NDPI_PROTOCOL_SAFE NDPI_PROTOCOL_DEFAULT_LEVEL,
    host_entry ''google.'' ''Google'' NDPI_PROTOCOL_GOOGLE NDPI_PROTOCOL_CATEGORY_WEB NDPI_PROTOCOL_SAFE NDPI_PROTOCOL_DEFAULT_LEVEL,
    host_entry ''.google.'' ''Google'' NDPI_PROTOCOL_GOOGLE NDPI_PROTOCOL_CATEGORY_WEB NDPI_PROTOCOL_SAFE NDPI_PROTOCOL_DEFAULT_LEVEL,
    host_entry ''.gstatic.com'' ''Google'' NDPI_PROTOCOL_GOOGLE NDPI_PROTOCOL_CATEGORY_WEB NDPI_PROTOCOL_SAFE NDPI_PROTOCOL_DEFAULT_LEVEL,
    host_entry ''ggpht.com'' ''Google'' NDPI_PROTOCOL_GOOGLE NDPI_PROTOCOL_CATEGORY_WEB NDPI_PROTOCOL_SAFE NDPI_PROTOCOL_DEFAULT_LEVEL,
    host_entry ''.goog'' ''Google'' NDPI_PROTOCOL_GOOGLE NDPI_PROTOCOL_CATEGORY_CLOUD NDPI_PROTOCOL_SAFE NDPI_PROTOCOL_DEFAULT_LEVEL,
    host_entry ''mail.outlook.com'' ''Hotmail'' NDPI_PROTOCOL_HOTMAIL NDPI_PROTOCOL_CATEGORY_MAIL NDPI_PROTOCOL_ACCEPTABLE NDPI_PROTOCOL_DEFAULT_LEVEL,
    host_entry ''.last.fm'' ''LastFM'' NDPI_PROTOCOL_LASTFM NDPI_PROTOCOL_CATEGORY_MUSIC NDPI_PROTOCOL_FUN NDPI_PROTOCOL_DEFAULT_LEVEL,
    host_entry ''netflix.com'' ''NetFlix'' NDPI_PROTOCOL_NETFLIX NDPI_PROTOCOL_CATEGORY_VIDEO NDPI_PROTOCOL_FUN NDPI_PROTOCOL_DEFAULT_LEVEL,
    host_entry ''nflxext.com'' ''NetFlix'' NDPI_PROTOCOL_NETFLIX NDPI_PROTOCOL_CATEGORY_VIDEO NDPI_PROTOCOL_FUN NDPI_PROTOCOL_DEFAULT_LEVEL,
    host_entry ''nflximg.com'' ''NetFlix'' NDPI_PROTOCOL_NETFLIX NDPI_PROTOCOL_CATEGORY_VIDEO NDPI_PROTOCOL_FUN NDPI_PROTOCOL_DEFAULT_LEVEL,
    host_entry ''nflximg.net'' ''NetFlix'' NDPI_PROTOCOL_NETFLIX NDPI_PROTOCOL_CATEGORY_VIDEO NDPI_PROTOCOL_FUN NDPI_PROTOCOL_DEFAULT_LEVEL,
    host_entry ''nflxvideo.net'' ''NetFlix'' NDPI_PROTOCOL_NETFLIX NDPI_PROTOCOL_CATEGORY_VIDEO NDPI_PROTOCOL_FUN NDPI_PROTOCOL_DEFAULT_LEVEL,
    host_entry ''nflxso.net'' ''NetFlix'' NDPI_PROTOCOL_NETFLIX NDPI_PROTOCOL_CATEGORY_VIDEO NDPI_PROTOCOL_FUN NDPI_PROTOCOL_DEFAULT_LEVEL,
    host_entry ''fast.com'' ''NetFlix'' NDPI_PROTOCOL_NETFLIX NDPI_PROTOCOL_CATEGORY_NETWORK NDPI_PROTOCOL_SAFE NDPI_PROTOCOL_DEFAULT_LEVEL,
    host_entry ''.skype.'' ''Skype_Teams'' NDPI_PROTOCOL_SKYPE_TEAMS NDPI_PROTOCOL_CATEGORY_VOIP NDPI_PROTOCOL_ACCEPTABLE NDPI_PROTOCOL_DEFAULT_LEVEL,
    host_entry ''.skypeassets.'' ''Skype_Teams'' NDPI_PROTOCOL_SKYPE_TEAMS NDPI_PROTOCOL_CATEGORY_VOIP NDPI_PROTOCOL_ACCEPTABLE NDPI_PROTOCOL_DEFAULT_LEVEL,
    host_entry ''.skypedata.'' ''Skype_Teams'' NDPI_PROTOCOL_SKYPE_TEAMS NDPI_PROTOCOL_CATEGORY_VOIP NDPI_PROTOCOL_ACCEPTABLE NDPI_PROTOCOL_DEFAULT_LEVEL,
    host_entry ''.skypeecs-'' ''Skype_Teams'' NDPI_PROTOCOL_SKYPE_TEAMS NDPI_PROTOCOL_CATEGORY_VOIP NDPI_PROTOCOL_ACCEPTABLE NDPI_PROTOCOL_DEFAULT_LEVEL,
    host_entry ''.skypeforbusiness.'' ''Skype_Teams'' NDPI_PROTOCOL_SKYPE_TEAMS NDPI_PROTOCOL_CATEGORY_VOIP NDPI_PROTOCOL_ACCEPTABLE NDPI_PROTOCOL_DEFAULT_LEVEL,
    host_entry ''.lync.com'' ''Skype_Teams'' NDPI_PROTOCOL_SKYPE_TEAMS NDPI_PROTOCOL_CATEGORY_VOIP NDPI_PROTOCOL_ACCEPTABLE NDPI_PROTOCOL_DEFAULT_LEVEL,
    host_entry ''e7768.b.akamaiedge.net'' ''Skype_Teams'' NDPI_PROTOCOL_SKYPE_TEAMS NDPI_PROTOCOL_CATEGORY_VOIP NDPI_PROTOCOL_ACCEPTABLE NDPI_PROTOCOL_DEFAULT_LEVEL,
    host_entry ''e4593.dspg.akamaiedge.net'' ''Skype_Teams'' NDPI_PROTOCOL_SKYPE_TEAMS NDPI_PROTOCOL_CATEGORY_VOIP NDPI_PROTOCOL_ACCEPTABLE NDPI_PROTOCOL_DEFAULT_LEVEL,
    host_entry ''e4593.g.akamaiedge.net'' ''Skype_Teams'' NDPI_PROTOCOL_SKYPE_TEAMS NDPI_PROTOCOL_CATEGORY_VOIP NDPI_PROTOCOL_ACCEPTABLE NDPI_PROTOCOL_DEFAULT_LEVEL,
    host_entry ''*.gateway.messenger.live.com'' ''Skype_Teams'' NDPI_PROTOCOL_SKYPE_TEAMS NDPI_PROTOCOL_CATEGORY_VOIP NDPI_PROTOCOL_ACCEPTABLE NDPI_PROTOCOL_DEFAULT_LEVEL,
    host_entry ''skype-calling-missedcallsregistrar-'' ''Skype_Teams'' NDPI_PROTOCOL_SKYPE_TEAMS NDPI_PROTOCOL_CATEGORY_VOIP NDPI_PROTOCOL_ACCEPTABLE NDPI_PROTOCOL_DEFAULT_LEVEL,
    host_entry ''teams.cloudapp.net'' ''Skype_Teams'' NDPI_PROTOCOL_SKYPE_TEAMS NDPI_PROTOCOL_CATEGORY_VOIP NDPI_PROTOCOL_ACCEPTABLE NDPI_PROTOCOL_DEFAULT_LEVEL,
    host_entry ''.tuenti.com'' ''Tuenti'' NDPI_PROTOCOL_TUENTI NDPI_PROTOCOL_CATEGORY_VOIP NDPI_PROTOCOL_ACCEPTABLE NDPI_PROTOCOL_DEFAULT_LEVEL,
    host_entry ''.twttr.com'' ''Twitter'' NDPI_PROTOCOL_TWITTER NDPI_PROTOCOL_CATEGORY_SOCIAL_NETWORK NDPI_PROTOCOL_FUN NDPI_PROTOCOL_DEFAULT_LEVEL,
    host_entry ''twitter.'' ''Twitter'' NDPI_PROTOCOL_TWITTER NDPI_PROTOCOL_CATEGORY_SOCIAL_NETWORK NDPI_PROTOCOL_FUN NDPI_PROTOCOL_DEFAULT_LEVEL,
    host_entry ''twimg.com'' ''Twitter'' NDPI_PROTOCOL_TWITTER NDPI_PROTOCOL_CATEGORY_SOCIAL_NETWORK NDPI_PROTOCOL_FUN NDPI_PROTOCOL_DEFAULT_LEVEL,
    host_entry ''.viber.com'' ''Viber'' NDPI_PROTOCOL_VIBER NDPI_PROTOCOL_CATEGORY_CHAT NDPI_PROTOCOL_ACCEPTABLE NDPI_PROTOCOL_DEFAULT_LEVEL,
    host_entry ''.cdn.viber.com'' ''Viber'' NDPI_PROTOCOL_VIBER NDPI_PROTOCOL_CATEGORY_CHAT NDPI_PROTOCOL_ACCEPTABLE NDPI_PROTOCOL_DEFAULT_LEVEL,
    host_entry ''.viber.it'' ''Viber'' NDPI_PROTOCOL_VIBER NDPI_PROTOCOL_CATEGORY_CHAT NDPI_PROTOCOL_ACCEPTABLE NDPI_PROTOCOL_DEFAULT_LEVEL,
    host_entry ''wikipedia.'' ''Wikipedia'' NDPI_PROTOCOL_WIKIPEDIA NDPI_PROTOCOL_CATEGORY_WEB NDPI_PROTOCOL_SAFE NDPI_PROTOCOL_DEFAULT_LEVEL,
    host_entry ''wikimedia.'' ''Wikipedia'' NDPI_PROTOCOL_WIKIPEDIA NDPI_PROTOCOL_CATEGORY_WEB NDPI_PROTOCOL_SAFE NDPI_PROTOCOL_DEFAULT_LEVEL,
    host_entry ''mediawiki.'' ''Wikipedia'' NDPI_PROTOCOL_WIKIPEDIA NDPI_PROTOCOL_CATEGORY_WEB NDPI_PROTOCOL_SAFE NDPI_PROTOCOL_DEFAULT_LEVEL]"

definition host_match_3 :: "protocol_match list" where
  "host_match_3 = [
    host_entry ''wikimediafoundation.'' ''Wikipedia'' NDPI_PROTOCOL_WIKIPEDIA NDPI_PROTOCOL_CATEGORY_WEB NDPI_PROTOCOL_SAFE NDPI_PROTOCOL_DEFAULT_LEVEL,
    host_entry ''mmg-fna.whatsapp.net'' ''WhatsAppFiles'' NDPI_PROTOCOL_WHATSAPP_FILES NDPI_PROTOCOL_CATEGORY_DOWNLOAD_FT NDPI_PROTOCOL_ACCEPTABLE NDPI_PROTOCOL_DEFAULT_LEVEL,
    host_entry ''.fna.whatsapp.net'' ''WhatsAppFiles'' NDPI_PROTOCOL_WHATSAPP_FILES NDPI_PROTOCOL_CATEGORY_DOWNLOAD_FT NDPI_PROTOCOL_ACCEPTABLE NDPI_PROTOCOL_DEFAULT_LEVEL,
    host_entry ''.cdn.whatsapp.net'' ''WhatsAppFiles'' NDPI_PROTOCOL_WHATSAPP_FILES NDPI_PROTOCOL_CATEGORY_DOWNLOAD_FT NDPI_PROTOCOL_ACCEPTABLE NDPI_PROTOCOL_DEFAULT_LEVEL,
    host_entry ''mms.whatsapp.net'' ''WhatsAppFiles'' NDPI_PROTOCOL_WHATSAPP_FILES NDPI_PROTOCOL_CATEGORY_DOWNLOAD_FT NDPI_PROTOCOL_ACCEPTABLE NDPI_PROTOCOL_DEFAULT_LEVEL,
    host_entry ''.whatsapp.'' ''WhatsApp'' NDPI_PROTOCOL_WHATSAPP NDPI_PROTOCOL_CATEGORY_CHAT NDPI_PROTOCOL_ACCEPTABLE NDPI_PROTOCOL_DEFAULT_LEVEL,
    host_entry ''g.whatsapp.net'' ''WhatsApp'' NDPI_PROTOCOL_WHATSAPP NDPI_PROTOCOL_CATEGORY_CHAT NDPI_PROTOCOL_ACCEPTABLE NDPI_PROTOCOL_DEFAULT_LEVEL,
    host_entry ''v.whatsapp.net'' ''WhatsApp'' NDPI_PROTOCOL_WHATSAPP NDPI_PROTOCOL_CATEGORY_CHAT NDPI_PROTOCOL_ACCEPTABLE NDPI_PROTOCOL_DEFAULT_LEVEL,
    host_entry ''mmg.whatsapp.net'' ''WhatsApp'' NDPI_PROTOCOL_WHATSAPP NDPI_PROTOCOL_CATEGORY_CHAT NDPI_PROTOCOL_ACCEPTABLE NDPI_PROTOCOL_DEFAULT_LEVEL,
    host_entry ''.yahoo.'' ''Yahoo'' NDPI_PROTOCOL_YAHOO NDPI_PROTOCOL_CATEGORY_WEB NDPI_PROTOCOL_SAFE NDPI_PROTOCOL_DEFAULT_LEVEL,
    host_entry ''.yimg.com'' ''Yahoo'' NDPI_PROTOCOL_YAHOO NDPI_PROTOCOL_CATEGORY_WEB NDPI_PROTOCOL_SAFE NDPI_PROTOCOL_DEFAULT_LEVEL,
    host_entry ''yahooapis.'' ''Yahoo'' NDPI_PROTOCOL_YAHOO NDPI_PROTOCOL_CATEGORY_WEB NDPI_PROTOCOL_ACCEPTABLE NDPI_PROTOCOL_DEFAULT_LEVEL,
    host_entry ''upload.youtube.com'' ''YouTubeUpload'' NDPI_PROTOCOL_YOUTUBE_UPLOAD NDPI_PROTOCOL_CATEGORY_MEDIA NDPI_PROTOCOL_FUN NDPI_PROTOCOL_DEFAULT_LEVEL,
    host_entry ''upload.video.google.com'' ''YouTubeUpload'' NDPI_PROTOCOL_YOUTUBE_UPLOAD NDPI_PROTOCOL_CATEGORY_MEDIA NDPI_PROTOCOL_FUN NDPI_PROTOCOL_DEFAULT_LEVEL,
    host_entry ''youtubei.googleapis.com'' ''YouTube'' NDPI_PROTOCOL_YOUTUBE NDPI_PROTOCOL_CATEGORY_MEDIA NDPI_PROTOCOL_FUN NDPI_PROTOCOL_DEFAULT_LEVEL,
    host_entry ''youtube.'' ''YouTube'' NDPI_PROTOCOL_YOUTUBE NDPI_PROTOCOL_CATEGORY_MEDIA NDPI_PROTOCOL_FUN NDPI_PROTOCOL_DEFAULT_LEVEL,
    host_entry ''youtu.be'' ''YouTube'' NDPI_PROTOCOL_YOUTUBE NDPI_PROTOCOL_CATEGORY_MEDIA NDPI_PROTOCOL_FUN NDPI_PROTOCOL_DEFAULT_LEVEL,
    host_entry ''yt3.ggpht.com'' ''YouTube'' NDPI_PROTOCOL_YOUTUBE NDPI_PROTOCOL_CATEGORY_MEDIA NDPI_PROTOCOL_FUN NDPI_PROTOCOL_DEFAULT_LEVEL,
    host_entry ''.googlevideo.com'' ''YouTube'' NDPI_PROTOCOL_YOUTUBE NDPI_PROTOCOL_CATEGORY_MEDIA NDPI_PROTOCOL_FUN NDPI_PROTOCOL_DEFAULT_LEVEL,
    host_entry ''.ytimg.com'' ''YouTube'' NDPI_PROTOCOL_YOUTUBE NDPI_PROTOCOL_CATEGORY_MEDIA NDPI_PROTOCOL_FUN NDPI_PROTOCOL_DEFAULT_LEVEL,
    host_entry ''youtube-nocookie.'' ''YouTube'' NDPI_PROTOCOL_YOUTUBE NDPI_PROTOCOL_CATEGORY_MEDIA NDPI_PROTOCOL_FUN NDPI_PROTOCOL_DEFAULT_LEVEL,
    host_entry ''.youtube-ui.l.google.com'' ''YouTube'' NDPI_PROTOCOL_YOUTUBE NDPI_PROTOCOL_CATEGORY_MEDIA NDPI_PROTOCOL_FUN NDPI_PROTOCOL_DEFAULT_LEVEL,
    host_entry ''.youtubeeducation.com'' ''YouTube'' NDPI_PROTOCOL_YOUTUBE NDPI_PROTOCOL_CATEGORY_MEDIA NDPI_PROTOCOL_FUN NDPI_PROTOCOL_DEFAULT_LEVEL,
    host_entry ''.vevo.com'' ''Vevo'' NDPI_PROTOCOL_VEVO NDPI_PROTOCOL_CATEGORY_MUSIC NDPI_PROTOCOL_FUN NDPI_PROTOCOL_DEFAULT_LEVEL,
    host_entry ''.spotify.com'' ''Spotify'' NDPI_PROTOCOL_SPOTIFY NDPI_PROTOCOL_CATEGORY_MUSIC NDPI_PROTOCOL_FUN NDPI_PROTOCOL_DEFAULT_LEVEL,
    host_entry ''.scdn.co'' ''Spotify'' NDPI_PROTOCOL_SPOTIFY NDPI_PROTOCOL_CATEGORY_MUSIC NDPI_PROTOCOL_FUN NDPI_PROTOCOL_DEFAULT_LEVEL,
    host_entry ''.pscdn.co'' ''Spotify'' NDPI_PROTOCOL_SPOTIFY NDPI_PROTOCOL_CATEGORY_MUSIC NDPI_PROTOCOL_FUN NDPI_PROTOCOL_DEFAULT_LEVEL,
    host_entry ''spotifycdn.net'' ''Spotify'' NDPI_PROTOCOL_SPOTIFY NDPI_PROTOCOL_CATEGORY_MUSIC NDPI_PROTOCOL_FUN NDPI_PROTOCOL_DEFAULT_LEVEL,
    host_entry ''spotifycdn.com'' ''Spotify'' NDPI_PROTOCOL_SPOTIFY NDPI_PROTOCOL_CATEGORY_MUSIC NDPI_PROTOCOL_FUN NDPI_PROTOCOL_DEFAULT_LEVEL,
    host_entry ''audio4-ak-spotify-com.akamaized.net'' ''Spotify'' NDPI_PROTOCOL_SPOTIFY NDPI_PROTOCOL_CATEGORY_MUSIC NDPI_PROTOCOL_FUN NDPI_PROTOCOL_DEFAULT_LEVEL,
    host_entry ''audio-ak-spotify-com.akamaized.net'' ''Spotify'' NDPI_PROTOCOL_SPOTIFY NDPI_PROTOCOL_CATEGORY_MUSIC NDPI_PROTOCOL_FUN NDPI_PROTOCOL_DEFAULT_LEVEL,
    host_entry ''heads-ak-spotify-com.akamaized.net'' ''Spotify'' NDPI_PROTOCOL_SPOTIFY NDPI_PROTOCOL_CATEGORY_MUSIC NDPI_PROTOCOL_FUN NDPI_PROTOCOL_DEFAULT_LEVEL,
    host_entry ''spotify-com.akamaized.net'' ''Spotify'' NDPI_PROTOCOL_SPOTIFY NDPI_PROTOCOL_CATEGORY_MUSIC NDPI_PROTOCOL_FUN NDPI_PROTOCOL_DEFAULT_LEVEL,
    host_entry ''spotify.com.edgesuite.net'' ''Spotify'' NDPI_PROTOCOL_SPOTIFY NDPI_PROTOCOL_CATEGORY_MUSIC NDPI_PROTOCOL_FUN NDPI_PROTOCOL_DEFAULT_LEVEL,
    host_entry ''spotify.map.fastly.net'' ''Spotify'' NDPI_PROTOCOL_SPOTIFY NDPI_PROTOCOL_CATEGORY_MUSIC NDPI_PROTOCOL_FUN NDPI_PROTOCOL_DEFAULT_LEVEL,
    host_entry ''spotify.edgekey.net'' ''Spotify'' NDPI_PROTOCOL_SPOTIFY NDPI_PROTOCOL_CATEGORY_MUSIC NDPI_PROTOCOL_FUN NDPI_PROTOCOL_DEFAULT_LEVEL,
    host_entry ''spotify.demdex.net'' ''Spotify'' NDPI_PROTOCOL_SPOTIFY NDPI_PROTOCOL_CATEGORY_MUSIC NDPI_PROTOCOL_FUN NDPI_PROTOCOL_DEFAULT_LEVEL,
    host_entry ''.spotilocal.com'' ''Spotify'' NDPI_PROTOCOL_SPOTIFY NDPI_PROTOCOL_CATEGORY_MUSIC NDPI_PROTOCOL_FUN NDPI_PROTOCOL_DEFAULT_LEVEL,
    host_entry ''edge-mqtt.facebook.com'' ''Messenger'' NDPI_PROTOCOL_MESSENGER NDPI_PROTOCOL_CATEGORY_CHAT NDPI_PROTOCOL_ACCEPTABLE NDPI_PROTOCOL_DEFAULT_LEVEL,
    host_entry ''mqtt-mini.facebook.com'' ''Messenger'' NDPI_PROTOCOL_MESSENGER NDPI_PROTOCOL_CATEGORY_CHAT NDPI_PROTOCOL_ACCEPTABLE NDPI_PROTOCOL_DEFAULT_LEVEL,
    host_entry ''messenger.com'' ''Messenger'' NDPI_PROTOCOL_MESSENGER NDPI_PROTOCOL_CATEGORY_CHAT NDPI_PROTOCOL_ACCEPTABLE NDPI_PROTOCOL_DEFAULT_LEVEL,
    host_entry ''.m.me'' ''Messenger'' NDPI_PROTOCOL_MESSENGER NDPI_PROTOCOL_CATEGORY_CHAT NDPI_PROTOCOL_ACCEPTABLE NDPI_PROTOCOL_DEFAULT_LEVEL,
    host_entry ''.pandora.com'' ''Pandora'' NDPI_PROTOCOL_PANDORA NDPI_PROTOCOL_CATEGORY_STREAMING NDPI_PROTOCOL_FUN NDPI_PROTOCOL_DEFAULT_LEVEL,
    host_entry ''.torproject.org'' ''Tor'' NDPI_PROTOCOL_TOR NDPI_PROTOCOL_CATEGORY_VPN NDPI_PROTOCOL_POTENTIALLY_DANGEROUS NDPI_PROTOCOL_DEFAULT_LEVEL,
    host_entry ''.kakao.com'' ''KakaoTalk'' NDPI_PROTOCOL_KAKAOTALK NDPI_PROTOCOL_CATEGORY_CHAT NDPI_PROTOCOL_ACCEPTABLE NDPI_PROTOCOL_DEFAULT_LEVEL,
    host_entry ''ttvnw.net'' ''Twitch'' NDPI_PROTOCOL_TWITCH NDPI_PROTOCOL_CATEGORY_VIDEO NDPI_PROTOCOL_FUN NDPI_PROTOCOL_DEFAULT_LEVEL,
    host_entry ''jtvnw.net'' ''Twitch'' NDPI_PROTOCOL_TWITCH NDPI_PROTOCOL_CATEGORY_VIDEO NDPI_PROTOCOL_FUN NDPI_PROTOCOL_DEFAULT_LEVEL,
    host_entry ''twitch.tv'' ''Twitch'' NDPI_PROTOCOL_TWITCH NDPI_PROTOCOL_CATEGORY_VIDEO NDPI_PROTOCOL_FUN NDPI_PROTOCOL_DEFAULT_LEVEL,
    host_entry ''twitchcdn.net'' ''Twitch'' NDPI_PROTOCOL_TWITCH NDPI_PROTOCOL_CATEGORY_VIDEO NDPI_PROTOCOL_FUN NDPI_PROTOCOL_DEFAULT_LEVEL,
    host_entry ''twitchsvc.net'' ''Twitch'' NDPI_PROTOCOL_TWITCH NDPI_PROTOCOL_CATEGORY_VIDEO NDPI_PROTOCOL_FUN NDPI_PROTOCOL_DEFAULT_LEVEL,
    host_entry ''.qq.com'' ''QQ'' NDPI_PROTOCOL_QQ NDPI_PROTOCOL_CATEGORY_CHAT NDPI_PROTOCOL_FUN NDPI_PROTOCOL_DEFAULT_LEVEL,
    host_entry ''.gtimg.com'' ''QQ'' NDPI_PROTOCOL_QQ NDPI_PROTOCOL_CATEGORY_CHAT NDPI_PROTOCOL_FUN NDPI_PROTOCOL_DEFAULT_LEVEL,
    host_entry ''.weibo.com'' ''Sina(Weibo)'' NDPI_PROTOCOL_SINA NDPI_PROTOCOL_CATEGORY_SOCIAL_NETWORK NDPI_PROTOCOL_FUN NDPI_PROTOCOL_DEFAULT_LEVEL,
    host_entry ''.weibo.cn'' ''Sina(Weibo)'' NDPI_PROTOCOL_SINA NDPI_PROTOCOL_CATEGORY_SOCIAL_NETWORK NDPI_PROTOCOL_FUN NDPI_PROTOCOL_DEFAULT_LEVEL,
    host_entry ''.sinaimg.cn'' ''Sina'' NDPI_PROTOCOL_SINA NDPI_PROTOCOL_CATEGORY_SOCIAL_NETWORK NDPI_PROTOCOL_FUN NDPI_PROTOCOL_DEFAULT_LEVEL,
    host_entry ''.sinajs.cn'' ''Sina'' NDPI_PROTOCOL_SINA NDPI_PROTOCOL_CATEGORY_SOCIAL_NETWORK NDPI_PROTOCOL_FUN NDPI_PROTOCOL_DEFAULT_LEVEL,
    host_entry ''.sina.cn'' ''Sina'' NDPI_PROTOCOL_SINA NDPI_PROTOCOL_CATEGORY_SOCIAL_NETWORK NDPI_PROTOCOL_FUN NDPI_PROTOCOL_DEFAULT_LEVEL,
    host_entry ''.sina.com.cn'' ''Sina'' NDPI_PROTOCOL_SINA NDPI_PROTOCOL_CATEGORY_SOCIAL_NETWORK NDPI_PROTOCOL_FUN NDPI_PROTOCOL_DEFAULT_LEVEL,
    host_entry ''feelinsonice.appspot.com'' ''Snapchat'' NDPI_PROTOCOL_SNAPCHAT NDPI_PROTOCOL_CATEGORY_SOCIAL_NETWORK NDPI_PROTOCOL_FUN NDPI_PROTOCOL_DEFAULT_LEVEL,
    host_entry ''feelinsonice-hrd.appspot.com'' ''Snapchat'' NDPI_PROTOCOL_SNAPCHAT NDPI_PROTOCOL_CATEGORY_SOCIAL_NETWORK NDPI_PROTOCOL_FUN NDPI_PROTOCOL_DEFAULT_LEVEL,
    host_entry ''feelinsonice.com'' ''Snapchat'' NDPI_PROTOCOL_SNAPCHAT NDPI_PROTOCOL_CATEGORY_SOCIAL_NETWORK NDPI_PROTOCOL_FUN NDPI_PROTOCOL_DEFAULT_LEVEL,
    host_entry ''.snapchat.'' ''Snapchat'' NDPI_PROTOCOL_SNAPCHAT NDPI_PROTOCOL_CATEGORY_SOCIAL_NETWORK NDPI_PROTOCOL_FUN NDPI_PROTOCOL_DEFAULT_LEVEL,
    host_entry ''.snapads.'' ''Snapchat'' NDPI_PROTOCOL_SNAPCHAT NDPI_PROTOCOL_CATEGORY_SOCIAL_NETWORK NDPI_PROTOCOL_FUN NDPI_PROTOCOL_DEFAULT_LEVEL,
    host_entry ''.sc-cdn.net'' ''Snapchat'' NDPI_PROTOCOL_SNAPCHAT NDPI_PROTOCOL_CATEGORY_SOCIAL_NETWORK NDPI_PROTOCOL_FUN NDPI_PROTOCOL_DEFAULT_LEVEL,
    host_entry ''.sc-prod.net'' ''Snapchat'' NDPI_PROTOCOL_SNAPCHAT NDPI_PROTOCOL_CATEGORY_SOCIAL_NETWORK NDPI_PROTOCOL_FUN NDPI_PROTOCOL_DEFAULT_LEVEL,
    host_entry ''.sc-jpl.com'' ''Snapchat'' NDPI_PROTOCOL_SNAPCHAT NDPI_PROTOCOL_CATEGORY_SOCIAL_NETWORK NDPI_PROTOCOL_FUN NDPI_PROTOCOL_DEFAULT_LEVEL,
    host_entry ''sc-analytics.appspot.com'' ''Snapchat'' NDPI_PROTOCOL_SNAPCHAT NDPI_PROTOCOL_CATEGORY_SOCIAL_NETWORK NDPI_PROTOCOL_FUN NDPI_PROTOCOL_DEFAULT_LEVEL,
    host_entry ''snap.api.mapbox.com'' ''Snapchat'' NDPI_PROTOCOL_SNAPCHAT NDPI_PROTOCOL_CATEGORY_SOCIAL_NETWORK NDPI_PROTOCOL_FUN NDPI_PROTOCOL_DEFAULT_LEVEL,
    host_entry ''.waze.com'' ''Waze'' NDPI_PROTOCOL_WAZE NDPI_PROTOCOL_CATEGORY_WEB NDPI_PROTOCOL_ACCEPTABLE NDPI_PROTOCOL_DEFAULT_LEVEL,
    host_entry ''wazespeechactiviation-pa.googleapis.com'' ''Waze'' NDPI_PROTOCOL_WAZE NDPI_PROTOCOL_CATEGORY_WEB NDPI_PROTOCOL_ACCEPTABLE NDPI_PROTOCOL_DEFAULT_LEVEL,
    host_entry ''.deezer.com'' ''Deezer'' NDPI_PROTOCOL_DEEZER NDPI_PROTOCOL_CATEGORY_MUSIC NDPI_PROTOCOL_FUN NDPI_PROTOCOL_DEFAULT_LEVEL,
    host_entry ''.wpc.v0cdn.net'' ''Microsoft'' NDPI_PROTOCOL_MICROSOFT NDPI_PROTOCOL_CATEGORY_CLOUD NDPI_PROTOCOL_SAFE NDPI_PROTOCOL_DEFAULT_LEVEL,
    host_entry ''.gfx.ms'' ''Microsoft'' NDPI_PROTOCOL_MICROSOFT NDPI_PROTOCOL_CATEGORY_CLOUD NDPI_PROTOCOL_SAFE NDPI_PROTOCOL_DEFAULT_LEVEL,
    host_entry ''.aka.ms'' ''Microsoft'' NDPI_PROTOCOL_MICROSOFT NDPI_PROTOCOL_CATEGORY_CLOUD NDPI_PROTOCOL_SAFE NDPI_PROTOCOL_DEFAULT_LEVEL,
    host_entry ''.sfx.ms'' ''Microsoft'' NDPI_PROTOCOL_MICROSOFT NDPI_PROTOCOL_CATEGORY_CLOUD NDPI_PROTOCOL_SAFE NDPI_PROTOCOL_DEFAULT_LEVEL,
    host_entry ''.appcenter.ms'' ''Microsoft'' NDPI_PROTOCOL_MICROSOFT NDPI_PROTOCOL_CATEGORY_CLOUD NDPI_PROTOCOL_SAFE NDPI_PROTOCOL_DEFAULT_LEVEL,
    host_entry ''-msedge.net'' ''Microsoft'' NDPI_PROTOCOL_MICROSOFT NDPI_PROTOCOL_CATEGORY_CLOUD NDPI_PROTOCOL_SAFE NDPI_PROTOCOL_DEFAULT_LEVEL,
    host_entry ''.microsoft.us'' ''Microsoft'' NDPI_PROTOCOL_MICROSOFT NDPI_PROTOCOL_CATEGORY_CLOUD NDPI_PROTOCOL_SAFE NDPI_PROTOCOL_DEFAULT_LEVEL,
    host_entry ''.dynamics.com'' ''Microsoft'' NDPI_PROTOCOL_MICROSOFT NDPI_PROTOCOL_CATEGORY_CLOUD NDPI_PROTOCOL_SAFE NDPI_PROTOCOL_DEFAULT_LEVEL,
    host_entry ''msftncsi.com'' ''Microsoft'' NDPI_PROTOCOL_MICROSOFT NDPI_PROTOCOL_CATEGORY_CONNECTIVITY_CHECK NDPI_PROTOCOL_SAFE NDPI_PROTOCOL_DEFAULT_LEVEL,
    host_entry ''.windows.net'' ''Microsoft'' NDPI_PROTOCOL_MICROSOFT NDPI_PROTOCOL_CATEGORY_CLOUD NDPI_PROTOCOL_SAFE NDPI_PROTOCOL_DEFAULT_LEVEL,
    host_entry ''.windows.com'' ''Microsoft'' NDPI_PROTOCOL_MICROSOFT NDPI_PROTOCOL_CATEGORY_CLOUD NDPI_PROTOCOL_SAFE NDPI_PROTOCOL_DEFAULT_LEVEL,
    host_entry ''.microsoft.com'' ''Microsoft'' NDPI_PROTOCOL_MICROSOFT NDPI_PROTOCOL_CATEGORY_CLOUD NDPI_PROTOCOL_SAFE NDPI_PROTOCOL_DEFAULT_LEVEL,
    host_entry ''msn.com'' ''Microsoft'' NDPI_PROTOCOL_MICROSOFT NDPI_PROTOCOL_CATEGORY_WEB NDPI_PROTOCOL_ACCEPTABLE NDPI_PROTOCOL_DEFAULT_LEVEL,
    host_entry ''.s-msft.com'' ''Microsoft'' NDPI_PROTOCOL_MICROSOFT NDPI_PROTOCOL_CATEGORY_SYSTEM_OS NDPI_PROTOCOL_ACCEPTABLE NDPI_PROTOCOL_DEFAULT_LEVEL,
    host_entry ''.webtrends.com'' ''Microsoft'' NDPI_PROTOCOL_MICROSOFT NDPI_PROTOCOL_CATEGORY_WEB NDPI_PROTOCOL_ACCEPTABLE NDPI_PROTOCOL_DEFAULT_LEVEL,
    host_entry ''.msecnd.net'' ''Microsoft'' NDPI_PROTOCOL_MICROSOFT NDPI_PROTOCOL_CATEGORY_WEB NDPI_PROTOCOL_ACCEPTABLE NDPI_PROTOCOL_DEFAULT_LEVEL,
    host_entry ''bing.com'' ''Microsoft'' NDPI_PROTOCOL_MICROSOFT NDPI_PROTOCOL_CATEGORY_WEB NDPI_PROTOCOL_SAFE NDPI_PROTOCOL_DEFAULT_LEVEL,
    host_entry ''.visualstudio.com'' ''Microsoft'' NDPI_PROTOCOL_MICROSOFT NDPI_PROTOCOL_CATEGORY_COLLABORATIVE NDPI_PROTOCOL_SAFE NDPI_PROTOCOL_DEFAULT_LEVEL,
    host_entry ''login.live.com'' ''Microsoft'' NDPI_PROTOCOL_MICROSOFT NDPI_PROTOCOL_CATEGORY_SYSTEM_OS NDPI_PROTOCOL_SAFE NDPI_PROTOCOL_DEFAULT_LEVEL,
    host_entry ''statics-marketingsites-wcus-ms-com.akamaized.net'' ''Microsoft'' NDPI_PROTOCOL_MICROSOFT NDPI_PROTOCOL_CATEGORY_WEB NDPI_PROTOCOL_SAFE NDPI_PROTOCOL_DEFAULT_LEVEL,
    host_entry ''statics-marketingsites-eus-ms-com.akamaized.net'' ''Microsoft'' NDPI_PROTOCOL_MICROSOFT NDPI_PROTOCOL_CATEGORY_WEB NDPI_PROTOCOL_SAFE NDPI_PROTOCOL_DEFAULT_LEVEL,
    host_entry ''img-prod-cms-rt-microsoft-com.akamaized.net'' ''Microsoft'' NDPI_PROTOCOL_MICROSOFT NDPI_PROTOCOL_CATEGORY_WEB NDPI_PROTOCOL_SAFE NDPI_PROTOCOL_DEFAULT_LEVEL,
    host_entry ''onecollector.cloudapp.aria.akadns.net'' ''Microsoft'' NDPI_PROTOCOL_MICROSOFT NDPI_PROTOCOL_CATEGORY_CLOUD NDPI_PROTOCOL_SAFE NDPI_PROTOCOL_DEFAULT_LEVEL,
    host_entry ''onecollector.akadns.net'' ''Microsoft'' NDPI_PROTOCOL_MICROSOFT NDPI_PROTOCOL_CATEGORY_CLOUD NDPI_PROTOCOL_SAFE NDPI_PROTOCOL_DEFAULT_LEVEL,
    host_entry ''microsoft.akadns.net'' ''Microsoft'' NDPI_PROTOCOL_MICROSOFT NDPI_PROTOCOL_CATEGORY_CLOUD NDPI_PROTOCOL_SAFE NDPI_PROTOCOL_DEFAULT_LEVEL,
    host_entry ''e1723.dscd.akamaiedge.net'' ''Microsoft'' NDPI_PROTOCOL_MICROSOFT NDPI_PROTOCOL_CATEGORY_CLOUD NDPI_PROTOCOL_SAFE NDPI_PROTOCOL_DEFAULT_LEVEL,
    host_entry ''.microsofttranslator.com'' ''Microsoft'' NDPI_PROTOCOL_MICROSOFT NDPI_PROTOCOL_CATEGORY_WEB NDPI_PROTOCOL_SAFE NDPI_PROTOCOL_DEFAULT_LEVEL,
    host_entry ''sharepointonline.com'' ''Microsoft'' NDPI_PROTOCOL_MICROSOFT NDPI_PROTOCOL_CATEGORY_CLOUD NDPI_PROTOCOL_SAFE NDPI_PROTOCOL_DEFAULT_LEVEL,
    host_entry ''.msftconnecttest.com'' ''Microsoft'' NDPI_PROTOCOL_MICROSOFT NDPI_PROTOCOL_CATEGORY_CONNECTIVITY_CHECK NDPI_PROTOCOL_SAFE NDPI_PROTOCOL_DEFAULT_LEVEL,
    host_entry ''.windowsmedia.com'' ''Microsoft'' NDPI_PROTOCOL_MICROSOFT NDPI_PROTOCOL_CATEGORY_SYSTEM_OS NDPI_PROTOCOL_SAFE NDPI_PROTOCOL_DEFAULT_LEVEL,
    host_entry ''.windowsphone.com'' ''Microsoft'' NDPI_PROTOCOL_MICROSOFT NDPI_PROTOCOL_CATEGORY_SYSTEM_OS NDPI_PROTOCOL_SAFE NDPI_PROTOCOL_DEFAULT_LEVEL,
    host_entry ''.msa.akadns6.net'' ''Microsoft'' NDPI_PROTOCOL_MICROSOFT NDPI_PROTOCOL_CATEGORY_CLOUD NDPI_PROTOCOL_SAFE NDPI_PROTOCOL_DEFAULT_LEVEL,
    host_entry ''.s-microsoft.com'' ''Microsoft'' NDPI_PROTOCOL_MICROSOFT NDPI_PROTOCOL_CATEGORY_CLOUD NDPI_PROTOCOL_SAFE NDPI_PROTOCOL_DEFAULT_LEVEL,
    host_entry ''.msidentity.com'' ''Microsoft'' NDPI_PROTOCOL_MICROSOFT NDPI_PROTOCOL_CATEGORY_CLOUD NDPI_PROTOCOL_SAFE NDPI_PROTOCOL_DEFAULT_LEVEL,
    host_entry ''.wac.phicdn.net'' ''Microsoft'' NDPI_PROTOCOL_MICROSOFT NDPI_PROTOCOL_CATEGORY_CLOUD NDPI_PROTOCOL_SAFE NDPI_PROTOCOL_DEFAULT_LEVEL,
    host_entry ''.onestore.ms'' ''Microsoft'' NDPI_PROTOCOL_MICROSOFT NDPI_PROTOCOL_CATEGORY_CLOUD NDPI_PROTOCOL_SAFE NDPI_PROTOCOL_DEFAULT_LEVEL,
    host_entry ''.msedge.net'' ''Microsoft'' NDPI_PROTOCOL_MICROSOFT NDPI_PROTOCOL_CATEGORY_CLOUD NDPI_PROTOCOL_SAFE NDPI_PROTOCOL_DEFAULT_LEVEL,
    host_entry ''.mshome.net'' ''Microsoft'' NDPI_PROTOCOL_MICROSOFT NDPI_PROTOCOL_CATEGORY_CLOUD NDPI_PROTOCOL_SAFE NDPI_PROTOCOL_DEFAULT_LEVEL,
    host_entry ''..msn-com.'' ''Microsoft'' NDPI_PROTOCOL_MICROSOFT NDPI_PROTOCOL_CATEGORY_WEB NDPI_PROTOCOL_SAFE NDPI_PROTOCOL_DEFAULT_LEVEL,
    host_entry ''.-s-msn-com.'' ''Microsoft'' NDPI_PROTOCOL_MICROSOFT NDPI_PROTOCOL_CATEGORY_WEB NDPI_PROTOCOL_SAFE NDPI_PROTOCOL_DEFAULT_LEVEL,
    host_entry ''.s-msn.com'' ''Microsoft'' NDPI_PROTOCOL_MICROSOFT NDPI_PROTOCOL_CATEGORY_WEB NDPI_PROTOCOL_SAFE NDPI_PROTOCOL_DEFAULT_LEVEL,
    host_entry ''.img-s-msn-com.'' ''Microsoft'' NDPI_PROTOCOL_MICROSOFT NDPI_PROTOCOL_CATEGORY_WEB NDPI_PROTOCOL_SAFE NDPI_PROTOCOL_DEFAULT_LEVEL,
    host_entry ''img-s-msn-com.'' ''Microsoft'' NDPI_PROTOCOL_MICROSOFT NDPI_PROTOCOL_CATEGORY_WEB NDPI_PROTOCOL_SAFE NDPI_PROTOCOL_DEFAULT_LEVEL,
    host_entry ''.location.live.net'' ''Microsoft'' NDPI_PROTOCOL_MICROSOFT NDPI_PROTOCOL_CATEGORY_WEB NDPI_PROTOCOL_SAFE NDPI_PROTOCOL_DEFAULT_LEVEL,
    host_entry ''.virtualearth.net'' ''Microsoft'' NDPI_PROTOCOL_MICROSOFT NDPI_PROTOCOL_CATEGORY_WEB NDPI_PROTOCOL_SAFE NDPI_PROTOCOL_DEFAULT_LEVEL,
    host_entry ''.azure.com'' ''Azure'' NDPI_PROTOCOL_MICROSOFT_AZURE NDPI_PROTOCOL_CATEGORY_CLOUD NDPI_PROTOCOL_SAFE NDPI_PROTOCOL_DEFAULT_LEVEL,
    host_entry ''.azureedge.us'' ''Azure'' NDPI_PROTOCOL_MICROSOFT_AZURE NDPI_PROTOCOL_CATEGORY_CLOUD NDPI_PROTOCOL_SAFE NDPI_PROTOCOL_DEFAULT_LEVEL,
    host_entry ''.azurefd.us'' ''Azure'' NDPI_PROTOCOL_MICROSOFT_AZURE NDPI_PROTOCOL_CATEGORY_CLOUD NDPI_PROTOCOL_SAFE NDPI_PROTOCOL_DEFAULT_LEVEL,
    host_entry ''.azure-automation.net'' ''Azure'' NDPI_PROTOCOL_MICROSOFT_AZURE NDPI_PROTOCOL_CATEGORY_NETWORK NDPI_PROTOCOL_ACCEPTABLE NDPI_PROTOCOL_DEFAULT_LEVEL,
    host_entry ''.azureedge.net'' ''Azure'' NDPI_PROTOCOL_MICROSOFT_AZURE NDPI_PROTOCOL_CATEGORY_NETWORK NDPI_PROTOCOL_ACCEPTABLE NDPI_PROTOCOL_DEFAULT_LEVEL,
    host_entry ''teams.microsoft.com'' ''Teams'' NDPI_PROTOCOL_MSTEAMS NDPI_PROTOCOL_CATEGORY_COLLABORATIVE NDPI_PROTOCOL_SAFE NDPI_PROTOCOL_DEFAULT_LEVEL,
    host_entry ''teams.microsoft.us'' ''Teams'' NDPI_PROTOCOL_MSTEAMS NDPI_PROTOCOL_CATEGORY_COLLABORATIVE NDPI_PROTOCOL_SAFE NDPI_PROTOCOL_DEFAULT_LEVEL,
    host_entry ''teams.skype.com'' ''Teams'' NDPI_PROTOCOL_MSTEAMS NDPI_PROTOCOL_CATEGORY_COLLABORATIVE NDPI_PROTOCOL_SAFE NDPI_PROTOCOL_DEFAULT_LEVEL,
    host_entry ''-teams.cloudapp.net'' ''Teams'' NDPI_PROTOCOL_MSTEAMS NDPI_PROTOCOL_CATEGORY_COLLABORATIVE NDPI_PROTOCOL_SAFE NDPI_PROTOCOL_DEFAULT_LEVEL,
    host_entry ''teams.trafficmanager.net'' ''Teams'' NDPI_PROTOCOL_MSTEAMS NDPI_PROTOCOL_CATEGORY_COLLABORATIVE NDPI_PROTOCOL_SAFE NDPI_PROTOCOL_DEFAULT_LEVEL,
    host_entry ''teams-msgapi.trafficmanager.net'' ''Teams'' NDPI_PROTOCOL_MSTEAMS NDPI_PROTOCOL_CATEGORY_COLLABORATIVE NDPI_PROTOCOL_SAFE NDPI_PROTOCOL_DEFAULT_LEVEL]"

definition host_match_4 :: "protocol_match list" where
  "host_match_4 = [
    host_entry ''teams.office.net'' ''Teams'' NDPI_PROTOCOL_MSTEAMS NDPI_PROTOCOL_CATEGORY_COLLABORATIVE NDPI_PROTOCOL_SAFE NDPI_PROTOCOL_DEFAULT_LEVEL,
    host_entry ''teams.office.com'' ''Teams'' NDPI_PROTOCOL_MSTEAMS NDPI_PROTOCOL_CATEGORY_COLLABORATIVE NDPI_PROTOCOL_SAFE NDPI_PROTOCOL_DEFAULT_LEVEL,
    host_entry ''.storage.live.com'' ''MS_OneDrive'' NDPI_PROTOCOL_MS_ONE_DRIVE NDPI_PROTOCOL_CATEGORY_CLOUD NDPI_PROTOCOL_ACCEPTABLE NDPI_PROTOCOL_DEFAULT_LEVEL,
    host_entry ''skyapi.live.net'' ''MS_OneDrive'' NDPI_PROTOCOL_MS_ONE_DRIVE NDPI_PROTOCOL_CATEGORY_CLOUD NDPI_PROTOCOL_ACCEPTABLE NDPI_PROTOCOL_DEFAULT_LEVEL,
    host_entry ''d.docs.live.net'' ''MS_OneDrive'' NDPI_PROTOCOL_MS_ONE_DRIVE NDPI_PROTOCOL_CATEGORY_CLOUD NDPI_PROTOCOL_ACCEPTABLE NDPI_PROTOCOL_DEFAULT_LEVEL,
    host_entry ''onedrive.live.com'' ''MS_OneDrive'' NDPI_PROTOCOL_MS_ONE_DRIVE NDPI_PROTOCOL_CATEGORY_CLOUD NDPI_PROTOCOL_ACCEPTABLE NDPI_PROTOCOL_DEFAULT_LEVEL,
    host_entry ''cs9.wac.phicdn.net'' ''WindowsUpdate'' NDPI_PROTOCOL_WINDOWS_UPDATE NDPI_PROTOCOL_CATEGORY_SW_UPDATE NDPI_PROTOCOL_SAFE NDPI_PROTOCOL_DEFAULT_LEVEL,
    host_entry ''.dl.delivery.mp.microsoft.com.'' ''WindowsUpdate'' NDPI_PROTOCOL_WINDOWS_UPDATE NDPI_PROTOCOL_CATEGORY_SW_UPDATE NDPI_PROTOCOL_SAFE NDPI_PROTOCOL_DEFAULT_LEVEL,
    host_entry ''.delivery.dsp.mp.microsoft.com.nsatc.net'' ''WindowsUpdate'' NDPI_PROTOCOL_WINDOWS_UPDATE NDPI_PROTOCOL_CATEGORY_SW_UPDATE NDPI_PROTOCOL_SAFE NDPI_PROTOCOL_DEFAULT_LEVEL,
    host_entry ''sls.update.microsoft.com'' ''WindowsUpdate'' NDPI_PROTOCOL_WINDOWS_UPDATE NDPI_PROTOCOL_CATEGORY_SW_UPDATE NDPI_PROTOCOL_SAFE NDPI_PROTOCOL_DEFAULT_LEVEL,
    host_entry ''slscr.update.microsoft.com'' ''WindowsUpdate'' NDPI_PROTOCOL_WINDOWS_UPDATE NDPI_PROTOCOL_CATEGORY_SW_UPDATE NDPI_PROTOCOL_SAFE NDPI_PROTOCOL_DEFAULT_LEVEL,
    host_entry ''fe3.update.microsoft.com'' ''WindowsUpdate'' NDPI_PROTOCOL_WINDOWS_UPDATE NDPI_PROTOCOL_CATEGORY_SW_UPDATE NDPI_PROTOCOL_SAFE NDPI_PROTOCOL_DEFAULT_LEVEL,
    host_entry ''.mp.microsoft.com.'' ''WindowsUpdate'' NDPI_PROTOCOL_WINDOWS_UPDATE NDPI_PROTOCOL_CATEGORY_SW_UPDATE NDPI_PROTOCOL_SAFE NDPI_PROTOCOL_DEFAULT_LEVEL,
    host_entry ''fe2.update.microsoft.com.'' ''WindowsUpdate'' NDPI_PROTOCOL_WINDOWS_UPDATE NDPI_PROTOCOL_CATEGORY_SW_UPDATE NDPI_PROTOCOL_SAFE NDPI_PROTOCOL_DEFAULT_LEVEL,
    host_entry ''.wac.phicdn.net.'' ''WindowsUpdate'' NDPI_PROTOCOL_WINDOWS_UPDATE NDPI_PROTOCOL_CATEGORY_SW_UPDATE NDPI_PROTOCOL_SAFE NDPI_PROTOCOL_DEFAULT_LEVEL,
    host_entry ''.geo-prod.do.dsp.mp.microsoft.com.'' ''WindowsUpdate'' NDPI_PROTOCOL_WINDOWS_UPDATE NDPI_PROTOCOL_CATEGORY_SW_UPDATE NDPI_PROTOCOL_SAFE NDPI_PROTOCOL_DEFAULT_LEVEL,
    host_entry ''geo-prod.do.dsp.mp.microsoft.com.'' ''WindowsUpdate'' NDPI_PROTOCOL_WINDOWS_UPDATE NDPI_PROTOCOL_CATEGORY_SW_UPDATE NDPI_PROTOCOL_SAFE NDPI_PROTOCOL_DEFAULT_LEVEL,
    host_entry ''.delivery.mp.microsoft.com'' ''WindowsUpdate'' NDPI_PROTOCOL_WINDOWS_UPDATE NDPI_PROTOCOL_CATEGORY_SW_UPDATE NDPI_PROTOCOL_SAFE NDPI_PROTOCOL_DEFAULT_LEVEL,
    host_entry ''.emdl.ws.microsoft.com'' ''WindowsUpdate'' NDPI_PROTOCOL_WINDOWS_UPDATE NDPI_PROTOCOL_CATEGORY_SW_UPDATE NDPI_PROTOCOL_SAFE NDPI_PROTOCOL_DEFAULT_LEVEL,
    host_entry ''.prod.do.dsp.mp.microsoft.com'' ''WindowsUpdate'' NDPI_PROTOCOL_WINDOWS_UPDATE NDPI_PROTOCOL_CATEGORY_SW_UPDATE NDPI_PROTOCOL_SAFE NDPI_PROTOCOL_DEFAULT_LEVEL,
    host_entry ''update.microsoft.com'' ''WindowsUpdate'' NDPI_PROTOCOL_WINDOWS_UPDATE NDPI_PROTOCOL_CATEGORY_SW_UPDATE NDPI_PROTOCOL_SAFE NDPI_PROTOCOL_DEFAULT_LEVEL,
    host_entry ''update.microsoft.com.akadns.net'' ''WindowsUpdate'' NDPI_PROTOCOL_WINDOWS_UPDATE NDPI_PROTOCOL_CATEGORY_SW_UPDATE NDPI_PROTOCOL_SAFE NDPI_PROTOCOL_DEFAULT_LEVEL,
    host_entry ''.windowsupdate.com'' ''WindowsUpdate'' NDPI_PROTOCOL_WINDOWS_UPDATE NDPI_PROTOCOL_CATEGORY_SW_UPDATE NDPI_PROTOCOL_SAFE NDPI_PROTOCOL_DEFAULT_LEVEL,
    host_entry ''.ntservicepack.microsoft.com'' ''WindowsUpdate'' NDPI_PROTOCOL_WINDOWS_UPDATE NDPI_PROTOCOL_CATEGORY_SW_UPDATE NDPI_PROTOCOL_SAFE NDPI_PROTOCOL_DEFAULT_LEVEL,
    host_entry ''.wustat.windows.com'' ''WindowsUpdate'' NDPI_PROTOCOL_WINDOWS_UPDATE NDPI_PROTOCOL_CATEGORY_SW_UPDATE NDPI_PROTOCOL_SAFE NDPI_PROTOCOL_DEFAULT_LEVEL,
    host_entry ''worldofwarcraft.com'' ''WorldOfWarcraft'' NDPI_PROTOCOL_WORLDOFWARCRAFT NDPI_PROTOCOL_CATEGORY_GAME NDPI_PROTOCOL_FUN NDPI_PROTOCOL_DEFAULT_LEVEL,
    host_entry ''.anchorfree.'' ''HotspotShield'' NDPI_PROTOCOL_HOTSPOT_SHIELD NDPI_PROTOCOL_CATEGORY_VPN NDPI_PROTOCOL_POTENTIALLY_DANGEROUS NDPI_PROTOCOL_DEFAULT_LEVEL,
    host_entry ''hotspotshield.com'' ''HotspotShield'' NDPI_PROTOCOL_HOTSPOT_SHIELD NDPI_PROTOCOL_CATEGORY_VPN NDPI_PROTOCOL_POTENTIALLY_DANGEROUS NDPI_PROTOCOL_DEFAULT_LEVEL,
    host_entry ''.northghost.com'' ''HotspotShield'' NDPI_PROTOCOL_HOTSPOT_SHIELD NDPI_PROTOCOL_CATEGORY_VPN NDPI_PROTOCOL_POTENTIALLY_DANGEROUS NDPI_PROTOCOL_DEFAULT_LEVEL,
    host_entry ''.webex.com'' ''Webex'' NDPI_PROTOCOL_WEBEX NDPI_PROTOCOL_CATEGORY_VOIP NDPI_PROTOCOL_ACCEPTABLE NDPI_PROTOCOL_DEFAULT_LEVEL,
    host_entry ''.zoom.us'' ''Zoom'' NDPI_PROTOCOL_ZOOM NDPI_PROTOCOL_CATEGORY_VIDEO NDPI_PROTOCOL_ACCEPTABLE NDPI_PROTOCOL_DEFAULT_LEVEL,
    host_entry ''.ocsdomain.com'' ''OCS'' NDPI_PROTOCOL_OCS NDPI_PROTOCOL_CATEGORY_MEDIA NDPI_PROTOCOL_FUN NDPI_PROTOCOL_DEFAULT_LEVEL,
    host_entry ''ocs.fr'' ''OCS'' NDPI_PROTOCOL_OCS NDPI_PROTOCOL_CATEGORY_MEDIA NDPI_PROTOCOL_FUN NDPI_PROTOCOL_DEFAULT_LEVEL,
    host_entry ''.ocs.fr'' ''OCS'' NDPI_PROTOCOL_OCS NDPI_PROTOCOL_CATEGORY_MEDIA NDPI_PROTOCOL_FUN NDPI_PROTOCOL_DEFAULT_LEVEL,
    host_entry ''.labgency.ws'' ''OCS'' NDPI_PROTOCOL_OCS NDPI_PROTOCOL_CATEGORY_MEDIA NDPI_PROTOCOL_FUN NDPI_PROTOCOL_DEFAULT_LEVEL,
    host_entry ''.iflix.com'' ''IFLIX'' NDPI_PROTOCOL_IFLIX NDPI_PROTOCOL_CATEGORY_VIDEO NDPI_PROTOCOL_FUN NDPI_PROTOCOL_DEFAULT_LEVEL,
    host_entry ''.app.iflixcorp.com'' ''IFLIX'' NDPI_PROTOCOL_IFLIX NDPI_PROTOCOL_CATEGORY_VIDEO NDPI_PROTOCOL_FUN NDPI_PROTOCOL_DEFAULT_LEVEL,
    host_entry ''.images.iflixassets.com'' ''IFLIX'' NDPI_PROTOCOL_IFLIX NDPI_PROTOCOL_CATEGORY_VIDEO NDPI_PROTOCOL_FUN NDPI_PROTOCOL_DEFAULT_LEVEL,
    host_entry ''crl.microsoft.com'' ''Microsoft365'' NDPI_PROTOCOL_MICROSOFT_365 NDPI_PROTOCOL_CATEGORY_COLLABORATIVE NDPI_PROTOCOL_ACCEPTABLE NDPI_PROTOCOL_DEFAULT_LEVEL,
    host_entry ''evsecure-ocsp.verisign.com'' ''Microsoft365'' NDPI_PROTOCOL_MICROSOFT_365 NDPI_PROTOCOL_CATEGORY_COLLABORATIVE NDPI_PROTOCOL_ACCEPTABLE NDPI_PROTOCOL_DEFAULT_LEVEL,
    host_entry ''evsecure-aia.verisign.com'' ''Microsoft365'' NDPI_PROTOCOL_MICROSOFT_365 NDPI_PROTOCOL_CATEGORY_COLLABORATIVE NDPI_PROTOCOL_ACCEPTABLE NDPI_PROTOCOL_DEFAULT_LEVEL,
    host_entry ''evsecure-crl.verisign.com'' ''Microsoft365'' NDPI_PROTOCOL_MICROSOFT_365 NDPI_PROTOCOL_CATEGORY_COLLABORATIVE NDPI_PROTOCOL_ACCEPTABLE NDPI_PROTOCOL_DEFAULT_LEVEL,
    host_entry ''.omniroot.com'' ''Microsoft365'' NDPI_PROTOCOL_MICROSOFT_365 NDPI_PROTOCOL_CATEGORY_COLLABORATIVE NDPI_PROTOCOL_ACCEPTABLE NDPI_PROTOCOL_DEFAULT_LEVEL,
    host_entry ''.microsoftonline.com'' ''Microsoft365'' NDPI_PROTOCOL_MICROSOFT_365 NDPI_PROTOCOL_CATEGORY_COLLABORATIVE NDPI_PROTOCOL_ACCEPTABLE NDPI_PROTOCOL_DEFAULT_LEVEL,
    host_entry ''.microsoftonline.us'' ''Microsoft365'' NDPI_PROTOCOL_MICROSOFT_365 NDPI_PROTOCOL_CATEGORY_COLLABORATIVE NDPI_PROTOCOL_ACCEPTABLE NDPI_PROTOCOL_DEFAULT_LEVEL,
    host_entry ''.office365.com'' ''Microsoft365'' NDPI_PROTOCOL_MICROSOFT_365 NDPI_PROTOCOL_CATEGORY_COLLABORATIVE NDPI_PROTOCOL_ACCEPTABLE NDPI_PROTOCOL_DEFAULT_LEVEL,
    host_entry ''.office.com'' ''Microsoft365'' NDPI_PROTOCOL_MICROSOFT_365 NDPI_PROTOCOL_CATEGORY_COLLABORATIVE NDPI_PROTOCOL_ACCEPTABLE NDPI_PROTOCOL_DEFAULT_LEVEL,
    host_entry ''office.net'' ''Microsoft365'' NDPI_PROTOCOL_MICROSOFT_365 NDPI_PROTOCOL_CATEGORY_COLLABORATIVE NDPI_PROTOCOL_ACCEPTABLE NDPI_PROTOCOL_DEFAULT_LEVEL,
    host_entry ''.msocsp.com'' ''Microsoft365'' NDPI_PROTOCOL_MICROSOFT_365 NDPI_PROTOCOL_CATEGORY_COLLABORATIVE NDPI_PROTOCOL_ACCEPTABLE NDPI_PROTOCOL_DEFAULT_LEVEL,
    host_entry ''.msocdn.com'' ''Microsoft365'' NDPI_PROTOCOL_MICROSOFT_365 NDPI_PROTOCOL_CATEGORY_COLLABORATIVE NDPI_PROTOCOL_ACCEPTABLE NDPI_PROTOCOL_DEFAULT_LEVEL,
    host_entry ''officeapps.live.com'' ''Microsoft365'' NDPI_PROTOCOL_MICROSOFT_365 NDPI_PROTOCOL_CATEGORY_COLLABORATIVE NDPI_PROTOCOL_ACCEPTABLE NDPI_PROTOCOL_DEFAULT_LEVEL,
    host_entry ''outlook.live.com'' ''Microsoft365'' NDPI_PROTOCOL_MICROSOFT_365 NDPI_PROTOCOL_CATEGORY_COLLABORATIVE NDPI_PROTOCOL_ACCEPTABLE NDPI_PROTOCOL_DEFAULT_LEVEL,
    host_entry ''mail.live.com'' ''Microsoft365'' NDPI_PROTOCOL_MICROSOFT_365 NDPI_PROTOCOL_CATEGORY_COLLABORATIVE NDPI_PROTOCOL_ACCEPTABLE NDPI_PROTOCOL_DEFAULT_LEVEL,
    host_entry ''office.live.com'' ''Microsoft365'' NDPI_PROTOCOL_MICROSOFT_365 NDPI_PROTOCOL_CATEGORY_COLLABORATIVE NDPI_PROTOCOL_ACCEPTABLE NDPI_PROTOCOL_DEFAULT_LEVEL,
    host_entry ''.onenote.'' ''Microsoft365'' NDPI_PROTOCOL_MICROSOFT_365 NDPI_PROTOCOL_CATEGORY_COLLABORATIVE NDPI_PROTOCOL_ACCEPTABLE NDPI_PROTOCOL_DEFAULT_LEVEL,
    host_entry ''lifedom.top'' ''Cloudflare'' NDPI_PROTOCOL_CLOUDFLARE NDPI_PROTOCOL_CATEGORY_WEB NDPI_PROTOCOL_ACCEPTABLE NDPI_PROTOCOL_DEFAULT_LEVEL,
    host_entry ''coby.ns.cloudflare.com'' ''Cloudflare'' NDPI_PROTOCOL_CLOUDFLARE NDPI_PROTOCOL_CATEGORY_WEB NDPI_PROTOCOL_ACCEPTABLE NDPI_PROTOCOL_DEFAULT_LEVEL,
    host_entry ''amanda.ns.cloudflare.com'' ''Cloudflare'' NDPI_PROTOCOL_CLOUDFLARE NDPI_PROTOCOL_CATEGORY_WEB NDPI_PROTOCOL_ACCEPTABLE NDPI_PROTOCOL_DEFAULT_LEVEL,
    host_entry ''d295hzzivaok4k.cloudfront.net'' ''OpenDNS'' NDPI_PROTOCOL_OPENDNS NDPI_PROTOCOL_CATEGORY_WEB NDPI_PROTOCOL_ACCEPTABLE NDPI_PROTOCOL_DEFAULT_LEVEL,
    host_entry ''.opendns.com'' ''OpenDNS'' NDPI_PROTOCOL_OPENDNS NDPI_PROTOCOL_CATEGORY_NETWORK NDPI_PROTOCOL_ACCEPTABLE NDPI_PROTOCOL_DEFAULT_LEVEL,
    host_entry ''slack.com'' ''Slack'' NDPI_PROTOCOL_SLACK NDPI_PROTOCOL_CATEGORY_COLLABORATIVE NDPI_PROTOCOL_ACCEPTABLE NDPI_PROTOCOL_DEFAULT_LEVEL,
    host_entry ''.slack-msgs.com'' ''Slack'' NDPI_PROTOCOL_SLACK NDPI_PROTOCOL_CATEGORY_COLLABORATIVE NDPI_PROTOCOL_ACCEPTABLE NDPI_PROTOCOL_DEFAULT_LEVEL,
    host_entry ''slack-files.com'' ''Slack'' NDPI_PROTOCOL_SLACK NDPI_PROTOCOL_CATEGORY_COLLABORATIVE NDPI_PROTOCOL_ACCEPTABLE NDPI_PROTOCOL_DEFAULT_LEVEL,
    host_entry ''slack-imgs.com'' ''Slack'' NDPI_PROTOCOL_SLACK NDPI_PROTOCOL_CATEGORY_COLLABORATIVE NDPI_PROTOCOL_ACCEPTABLE NDPI_PROTOCOL_DEFAULT_LEVEL,
    host_entry ''.slack-edge.com'' ''Slack'' NDPI_PROTOCOL_SLACK NDPI_PROTOCOL_CATEGORY_COLLABORATIVE NDPI_PROTOCOL_ACCEPTABLE NDPI_PROTOCOL_DEFAULT_LEVEL,
    host_entry ''.slack-core.com'' ''Slack'' NDPI_PROTOCOL_SLACK NDPI_PROTOCOL_CATEGORY_COLLABORATIVE NDPI_PROTOCOL_ACCEPTABLE NDPI_PROTOCOL_DEFAULT_LEVEL,
    host_entry ''slack-redir.net'' ''Slack'' NDPI_PROTOCOL_SLACK NDPI_PROTOCOL_CATEGORY_COLLABORATIVE NDPI_PROTOCOL_ACCEPTABLE NDPI_PROTOCOL_DEFAULT_LEVEL,
    host_entry ''slack-assets2.s3-'' ''Slack'' NDPI_PROTOCOL_SLACK NDPI_PROTOCOL_CATEGORY_COLLABORATIVE NDPI_PROTOCOL_ACCEPTABLE NDPI_PROTOCOL_DEFAULT_LEVEL,
    host_entry ''github.com'' ''Github'' NDPI_PROTOCOL_GITHUB NDPI_PROTOCOL_CATEGORY_COLLABORATIVE NDPI_PROTOCOL_ACCEPTABLE NDPI_PROTOCOL_DEFAULT_LEVEL,
    host_entry ''.github.com'' ''Github'' NDPI_PROTOCOL_GITHUB NDPI_PROTOCOL_CATEGORY_COLLABORATIVE NDPI_PROTOCOL_ACCEPTABLE NDPI_PROTOCOL_DEFAULT_LEVEL,
    host_entry ''github.io'' ''Github'' NDPI_PROTOCOL_GITHUB NDPI_PROTOCOL_CATEGORY_COLLABORATIVE NDPI_PROTOCOL_ACCEPTABLE NDPI_PROTOCOL_DEFAULT_LEVEL,
    host_entry ''.github.io'' ''Github'' NDPI_PROTOCOL_GITHUB NDPI_PROTOCOL_CATEGORY_COLLABORATIVE NDPI_PROTOCOL_ACCEPTABLE NDPI_PROTOCOL_DEFAULT_LEVEL,
    host_entry ''githubusercontent.com'' ''Github'' NDPI_PROTOCOL_GITHUB NDPI_PROTOCOL_CATEGORY_COLLABORATIVE NDPI_PROTOCOL_ACCEPTABLE NDPI_PROTOCOL_DEFAULT_LEVEL,
    host_entry ''.githubusercontent.com'' ''Github'' NDPI_PROTOCOL_GITHUB NDPI_PROTOCOL_CATEGORY_COLLABORATIVE NDPI_PROTOCOL_ACCEPTABLE NDPI_PROTOCOL_DEFAULT_LEVEL,
    host_entry ''gitlab.com'' ''GitLab'' NDPI_PROTOCOL_GITLAB NDPI_PROTOCOL_CATEGORY_COLLABORATIVE NDPI_PROTOCOL_ACCEPTABLE NDPI_PROTOCOL_DEFAULT_LEVEL,
    host_entry ''.gitlab.com'' ''GitLab'' NDPI_PROTOCOL_GITLAB NDPI_PROTOCOL_CATEGORY_COLLABORATIVE NDPI_PROTOCOL_ACCEPTABLE NDPI_PROTOCOL_DEFAULT_LEVEL,
    host_entry ''.gitlab-static.net'' ''GitLab'' NDPI_PROTOCOL_GITLAB NDPI_PROTOCOL_CATEGORY_COLLABORATIVE NDPI_PROTOCOL_ACCEPTABLE NDPI_PROTOCOL_DEFAULT_LEVEL,
    host_entry ''.gitlab.io'' ''GitLab'' NDPI_PROTOCOL_GITLAB NDPI_PROTOCOL_CATEGORY_COLLABORATIVE NDPI_PROTOCOL_ACCEPTABLE NDPI_PROTOCOL_DEFAULT_LEVEL,
    host_entry ''.gitlab.net'' ''GitLab'' NDPI_PROTOCOL_GITLAB NDPI_PROTOCOL_CATEGORY_COLLABORATIVE NDPI_PROTOCOL_ACCEPTABLE NDPI_PROTOCOL_DEFAULT_LEVEL,
    host_entry ''.steampowered.com'' ''Steam'' NDPI_PROTOCOL_STEAM NDPI_PROTOCOL_CATEGORY_GAME NDPI_PROTOCOL_FUN NDPI_PROTOCOL_DEFAULT_LEVEL,
    host_entry ''steamcommunity.com'' ''Steam'' NDPI_PROTOCOL_STEAM NDPI_PROTOCOL_CATEGORY_GAME NDPI_PROTOCOL_FUN NDPI_PROTOCOL_DEFAULT_LEVEL,
    host_entry ''.steamcontent.com'' ''Steam'' NDPI_PROTOCOL_STEAM NDPI_PROTOCOL_CATEGORY_GAME NDPI_PROTOCOL_FUN NDPI_PROTOCOL_DEFAULT_LEVEL,
    host_entry ''.steamstatic.com'' ''Steam'' NDPI_PROTOCOL_STEAM NDPI_PROTOCOL_CATEGORY_GAME NDPI_PROTOCOL_FUN NDPI_PROTOCOL_DEFAULT_LEVEL,
    host_entry ''steamcommunity-a.akamaihd.net'' ''Steam'' NDPI_PROTOCOL_STEAM NDPI_PROTOCOL_CATEGORY_GAME NDPI_PROTOCOL_FUN NDPI_PROTOCOL_DEFAULT_LEVEL,
    host_entry ''.wechat.com'' ''WeChat'' NDPI_PROTOCOL_WECHAT NDPI_PROTOCOL_CATEGORY_CHAT NDPI_PROTOCOL_FUN NDPI_PROTOCOL_DEFAULT_LEVEL,
    host_entry ''.wechat.org'' ''WeChat'' NDPI_PROTOCOL_WECHAT NDPI_PROTOCOL_CATEGORY_CHAT NDPI_PROTOCOL_FUN NDPI_PROTOCOL_DEFAULT_LEVEL,
    host_entry ''.wechatapp.com'' ''WeChat'' NDPI_PROTOCOL_WECHAT NDPI_PROTOCOL_CATEGORY_CHAT NDPI_PROTOCOL_FUN NDPI_PROTOCOL_DEFAULT_LEVEL,
    host_entry ''.we.chat'' ''WeChat'' NDPI_PROTOCOL_WECHAT NDPI_PROTOCOL_CATEGORY_CHAT NDPI_PROTOCOL_FUN NDPI_PROTOCOL_DEFAULT_LEVEL,
    host_entry ''.wx.'' ''WeChat'' NDPI_PROTOCOL_WECHAT NDPI_PROTOCOL_CATEGORY_CHAT NDPI_PROTOCOL_FUN NDPI_PROTOCOL_DEFAULT_LEVEL,
    host_entry ''.weixin.'' ''WeChat'' NDPI_PROTOCOL_WECHAT NDPI_PROTOCOL_CATEGORY_CHAT NDPI_PROTOCOL_FUN NDPI_PROTOCOL_DEFAULT_LEVEL,
    host_entry ''.mmsns.qpic.cn'' ''WeChat'' NDPI_PROTOCOL_WECHAT NDPI_PROTOCOL_CATEGORY_CHAT NDPI_PROTOCOL_FUN NDPI_PROTOCOL_DEFAULT_LEVEL,
    host_entry ''dnscrypt.org'' ''DNScrypt'' NDPI_PROTOCOL_DNSCRYPT NDPI_PROTOCOL_CATEGORY_NETWORK NDPI_PROTOCOL_ACCEPTABLE NDPI_PROTOCOL_DEFAULT_LEVEL,
    host_entry ''torrent.'' ''BitTorrent'' NDPI_PROTOCOL_BITTORRENT NDPI_PROTOCOL_CATEGORY_DOWNLOAD_FT NDPI_PROTOCOL_UNSAFE NDPI_PROTOCOL_DEFAULT_LEVEL,
    host_entry ''torrents.'' ''BitTorrent'' NDPI_PROTOCOL_BITTORRENT NDPI_PROTOCOL_CATEGORY_DOWNLOAD_FT NDPI_PROTOCOL_UNSAFE NDPI_PROTOCOL_DEFAULT_LEVEL,
    host_entry ''torrentz.'' ''BitTorrent'' NDPI_PROTOCOL_BITTORRENT NDPI_PROTOCOL_CATEGORY_DOWNLOAD_FT NDPI_PROTOCOL_UNSAFE NDPI_PROTOCOL_DEFAULT_LEVEL,
    host_entry ''.nintendo.net'' ''Nintendo'' NDPI_PROTOCOL_NINTENDO NDPI_PROTOCOL_CATEGORY_GAME NDPI_PROTOCOL_FUN NDPI_PROTOCOL_DEFAULT_LEVEL,
    host_entry ''.nintendo.com'' ''Nintendo'' NDPI_PROTOCOL_NINTENDO NDPI_PROTOCOL_CATEGORY_GAME NDPI_PROTOCOL_FUN NDPI_PROTOCOL_DEFAULT_LEVEL,
    host_entry ''.playstation.net'' ''Playstation'' NDPI_PROTOCOL_PLAYSTATION NDPI_PROTOCOL_CATEGORY_GAME NDPI_PROTOCOL_FUN NDPI_PROTOCOL_DEFAULT_LEVEL,
    host_entry ''.playstation.com'' ''Playstation'' NDPI_PROTOCOL_PLAYSTATION NDPI_PROTOCOL_CATEGORY_GAME NDPI_PROTOCOL_FUN NDPI_PROTOCOL_DEFAULT_LEVEL,
    host_entry ''.sonyentertainmentnetwork.com'' ''Playstation'' NDPI_PROTOCOL_PLAYSTATION NDPI_PROTOCOL_CATEGORY_GAME NDPI_PROTOCOL_FUN NDPI_PROTOCOL_DEFAULT_LEVEL,
    host_entry ''.linkedin.com'' ''LinkedIn'' NDPI_PROTOCOL_LINKEDIN NDPI_PROTOCOL_CATEGORY_SOCIAL_NETWORK NDPI_PROTOCOL_FUN NDPI_PROTOCOL_DEFAULT_LEVEL,
    host_entry ''.licdn.com'' ''LinkedIn'' NDPI_PROTOCOL_LINKEDIN NDPI_PROTOCOL_CATEGORY_SOCIAL_NETWORK NDPI_PROTOCOL_FUN NDPI_PROTOCOL_DEFAULT_LEVEL,
    host_entry ''.sndcdn.com'' ''SoundCloud'' NDPI_PROTOCOL_SOUNDCLOUD NDPI_PROTOCOL_CATEGORY_MUSIC NDPI_PROTOCOL_FUN NDPI_PROTOCOL_DEFAULT_LEVEL,
    host_entry ''.soundcloud.com'' ''SoundCloud'' NDPI_PROTOCOL_SOUNDCLOUD NDPI_PROTOCOL_CATEGORY_MUSIC NDPI_PROTOCOL_FUN NDPI_PROTOCOL_DEFAULT_LEVEL,
    host_entry ''getrockerbox.com'' ''SoundCloud'' NDPI_PROTOCOL_SOUNDCLOUD NDPI_PROTOCOL_CATEGORY_MUSIC NDPI_PROTOCOL_FUN NDPI_PROTOCOL_DEFAULT_LEVEL,
    host_entry ''web.telegram.org'' ''Telegram'' NDPI_PROTOCOL_TELEGRAM NDPI_PROTOCOL_CATEGORY_CHAT NDPI_PROTOCOL_ACCEPTABLE NDPI_PROTOCOL_DEFAULT_LEVEL,
    host_entry ''tdesktop.com'' ''Telegram'' NDPI_PROTOCOL_TELEGRAM NDPI_PROTOCOL_CATEGORY_CHAT NDPI_PROTOCOL_ACCEPTABLE NDPI_PROTOCOL_DEFAULT_LEVEL,
    host_entry ''tupdate.com'' ''Telegram'' NDPI_PROTOCOL_TELEGRAM NDPI_PROTOCOL_CATEGORY_CHAT NDPI_PROTOCOL_ACCEPTABLE NDPI_PROTOCOL_DEFAULT_LEVEL,
    host_entry ''.pastebin.com'' ''Pastebin'' NDPI_PROTOCOL_PASTEBIN NDPI_PROTOCOL_CATEGORY_DOWNLOAD_FT NDPI_PROTOCOL_POTENTIALLY_DANGEROUS NDPI_PROTOCOL_DEFAULT_LEVEL,
    host_entry ''pastebin.com'' ''Pastebin'' NDPI_PROTOCOL_PASTEBIN NDPI_PROTOCOL_CATEGORY_DOWNLOAD_FT NDPI_PROTOCOL_POTENTIALLY_DANGEROUS NDPI_PROTOCOL_DEFAULT_LEVEL,
    host_entry ''.ppstream.com'' ''PPStream'' NDPI_PROTOCOL_PPSTREAM NDPI_PROTOCOL_CATEGORY_STREAMING NDPI_PROTOCOL_FUN NDPI_PROTOCOL_DEFAULT_LEVEL,
    host_entry ''.pps.tv'' ''PPStream'' NDPI_PROTOCOL_PPSTREAM NDPI_PROTOCOL_CATEGORY_STREAMING NDPI_PROTOCOL_FUN NDPI_PROTOCOL_DEFAULT_LEVEL,
    host_entry ''.hulustream.com'' ''Hulu'' NDPI_PROTOCOL_HULU NDPI_PROTOCOL_CATEGORY_STREAMING NDPI_PROTOCOL_FUN NDPI_PROTOCOL_DEFAULT_LEVEL,
    host_entry ''hulu.com'' ''Hulu'' NDPI_PROTOCOL_HULU NDPI_PROTOCOL_CATEGORY_STREAMING NDPI_PROTOCOL_FUN NDPI_PROTOCOL_DEFAULT_LEVEL,
    host_entry ''assetshuluimcom-a.akamaihd.net'' ''Hulu'' NDPI_PROTOCOL_HULU NDPI_PROTOCOL_CATEGORY_STREAMING NDPI_PROTOCOL_FUN NDPI_PROTOCOL_DEFAULT_LEVEL,
    host_entry ''ibhuluimcom-a.akamaihd.net'' ''Hulu'' NDPI_PROTOCOL_HULU NDPI_PROTOCOL_CATEGORY_STREAMING NDPI_PROTOCOL_FUN NDPI_PROTOCOL_DEFAULT_LEVEL,
    host_entry ''.huluad.com'' ''Hulu'' NDPI_PROTOCOL_HULU NDPI_PROTOCOL_CATEGORY_STREAMING NDPI_PROTOCOL_FUN NDPI_PROTOCOL_DEFAULT_LEVEL,
    host_entry ''.huluim.com'' ''Hulu'' NDPI_PROTOCOL_HULU NDPI_PROTOCOL_CATEGORY_STREAMING NDPI_PROTOCOL_FUN NDPI_PROTOCOL_DEFAULT_LEVEL]"

definition host_match_5 :: "protocol_match list" where
  "host_match_5 = [
    host_entry ''.vidto.me'' ''VidTO'' NDPI_PROTOCOL_PPSTREAM NDPI_PROTOCOL_CATEGORY_STREAMING NDPI_PROTOCOL_FUN NDPI_PROTOCOL_DEFAULT_LEVEL,
    host_entry ''.vidto.se'' ''VidTO'' NDPI_PROTOCOL_PPSTREAM NDPI_PROTOCOL_CATEGORY_STREAMING NDPI_PROTOCOL_FUN NDPI_PROTOCOL_DEFAULT_LEVEL,
    host_entry ''snapcraft.io'' ''UbuntuONE'' NDPI_PROTOCOL_UBUNTUONE NDPI_PROTOCOL_CATEGORY_CLOUD NDPI_PROTOCOL_ACCEPTABLE NDPI_PROTOCOL_DEFAULT_LEVEL,
    host_entry ''ubuntu.com'' ''UbuntuONE'' NDPI_PROTOCOL_UBUNTUONE NDPI_PROTOCOL_CATEGORY_CLOUD NDPI_PROTOCOL_ACCEPTABLE NDPI_PROTOCOL_DEFAULT_LEVEL,
    host_entry ''signal.org'' ''Signal'' NDPI_PROTOCOL_SIGNAL NDPI_PROTOCOL_CATEGORY_CHAT NDPI_PROTOCOL_ACCEPTABLE NDPI_PROTOCOL_DEFAULT_LEVEL,
    host_entry ''whispersystems.org'' ''Signal'' NDPI_PROTOCOL_SIGNAL NDPI_PROTOCOL_CATEGORY_CHAT NDPI_PROTOCOL_ACCEPTABLE NDPI_PROTOCOL_DEFAULT_LEVEL,
    host_entry ''musical.ly'' ''TikTok'' NDPI_PROTOCOL_TIKTOK NDPI_PROTOCOL_CATEGORY_SOCIAL_NETWORK NDPI_PROTOCOL_FUN NDPI_PROTOCOL_DEFAULT_LEVEL,
    host_entry ''byteoversea.com'' ''TikTok'' NDPI_PROTOCOL_TIKTOK NDPI_PROTOCOL_CATEGORY_SOCIAL_NETWORK NDPI_PROTOCOL_FUN NDPI_PROTOCOL_DEFAULT_LEVEL,
    host_entry ''p16-tiktok-sign-va-h2.ibyteimg.com'' ''TikTok'' NDPI_PROTOCOL_TIKTOK NDPI_PROTOCOL_CATEGORY_SOCIAL_NETWORK NDPI_PROTOCOL_FUN NDPI_PROTOCOL_DEFAULT_LEVEL,
    host_entry ''p16-tiktok-sg.ibyteimg.com'' ''TikTok'' NDPI_PROTOCOL_TIKTOK NDPI_PROTOCOL_CATEGORY_SOCIAL_NETWORK NDPI_PROTOCOL_FUN NDPI_PROTOCOL_DEFAULT_LEVEL,
    host_entry ''p16-tiktok-va.ibyteimg.com'' ''TikTok'' NDPI_PROTOCOL_TIKTOK NDPI_PROTOCOL_CATEGORY_SOCIAL_NETWORK NDPI_PROTOCOL_FUN NDPI_PROTOCOL_DEFAULT_LEVEL,
    host_entry ''p16-musical-va.ibyteimg.com'' ''TikTok'' NDPI_PROTOCOL_TIKTOK NDPI_PROTOCOL_CATEGORY_SOCIAL_NETWORK NDPI_PROTOCOL_FUN NDPI_PROTOCOL_DEFAULT_LEVEL,
    host_entry ''p16-musical-sg.ibyteimg.com'' ''TikTok'' NDPI_PROTOCOL_TIKTOK NDPI_PROTOCOL_CATEGORY_SOCIAL_NETWORK NDPI_PROTOCOL_FUN NDPI_PROTOCOL_DEFAULT_LEVEL,
    host_entry ''p16-va-tiktok.ibyteimg.com'' ''TikTok'' NDPI_PROTOCOL_TIKTOK NDPI_PROTOCOL_CATEGORY_SOCIAL_NETWORK NDPI_PROTOCOL_FUN NDPI_PROTOCOL_DEFAULT_LEVEL,
    host_entry ''p16-ad-sg.ibyteimg.com'' ''TikTok'' NDPI_PROTOCOL_TIKTOK NDPI_PROTOCOL_CATEGORY_SOCIAL_NETWORK NDPI_PROTOCOL_FUN NDPI_PROTOCOL_DEFAULT_LEVEL,
    host_entry ''p21-ad-sg.ibyteimg.com'' ''TikTok'' NDPI_PROTOCOL_TIKTOK NDPI_PROTOCOL_CATEGORY_SOCIAL_NETWORK NDPI_PROTOCOL_FUN NDPI_PROTOCOL_DEFAULT_LEVEL,
    host_entry ''tiktokcdn.com'' ''TikTok'' NDPI_PROTOCOL_TIKTOK NDPI_PROTOCOL_CATEGORY_SOCIAL_NETWORK NDPI_PROTOCOL_FUN NDPI_PROTOCOL_DEFAULT_LEVEL,
    host_entry ''p16-tiktok-va-h2.ibyteimg.com'' ''TikTok'' NDPI_PROTOCOL_TIKTOK NDPI_PROTOCOL_CATEGORY_SOCIAL_NETWORK NDPI_PROTOCOL_FUN NDPI_PROTOCOL_DEFAULT_LEVEL,
    host_entry ''p16-tiktokcdn-com.akamaized.net'' ''TikTok'' NDPI_PROTOCOL_TIKTOK NDPI_PROTOCOL_CATEGORY_SOCIAL_NETWORK NDPI_PROTOCOL_FUN NDPI_PROTOCOL_DEFAULT_LEVEL,
    host_entry ''p16-va-default.akamaized.net'' ''TikTok'' NDPI_PROTOCOL_TIKTOK NDPI_PROTOCOL_CATEGORY_SOCIAL_NETWORK NDPI_PROTOCOL_FUN NDPI_PROTOCOL_DEFAULT_LEVEL,
    host_entry ''tiktokcdn.liveplay.myqcloud.com'' ''TikTok'' NDPI_PROTOCOL_TIKTOK NDPI_PROTOCOL_CATEGORY_SOCIAL_NETWORK NDPI_PROTOCOL_FUN NDPI_PROTOCOL_DEFAULT_LEVEL,
    host_entry ''musemuse.cn'' ''TikTok'' NDPI_PROTOCOL_TIKTOK NDPI_PROTOCOL_CATEGORY_SOCIAL_NETWORK NDPI_PROTOCOL_FUN NDPI_PROTOCOL_DEFAULT_LEVEL,
    host_entry ''tiktokv.com'' ''TikTok'' NDPI_PROTOCOL_TIKTOK NDPI_PROTOCOL_CATEGORY_SOCIAL_NETWORK NDPI_PROTOCOL_FUN NDPI_PROTOCOL_DEFAULT_LEVEL,
    host_entry ''bytecdn.cn'' ''TikTok'' NDPI_PROTOCOL_TIKTOK NDPI_PROTOCOL_CATEGORY_SOCIAL_NETWORK NDPI_PROTOCOL_FUN NDPI_PROTOCOL_DEFAULT_LEVEL,
    host_entry ''muscdn.com'' ''TikTok'' NDPI_PROTOCOL_TIKTOK NDPI_PROTOCOL_CATEGORY_SOCIAL_NETWORK NDPI_PROTOCOL_FUN NDPI_PROTOCOL_DEFAULT_LEVEL,
    host_entry ''tiktok.com'' ''TikTok'' NDPI_PROTOCOL_TIKTOK NDPI_PROTOCOL_CATEGORY_SOCIAL_NETWORK NDPI_PROTOCOL_FUN NDPI_PROTOCOL_DEFAULT_LEVEL,
    host_entry ''byted.org'' ''TikTok'' NDPI_PROTOCOL_TIKTOK NDPI_PROTOCOL_CATEGORY_SOCIAL_NETWORK NDPI_PROTOCOL_FUN NDPI_PROTOCOL_DEFAULT_LEVEL,
    host_entry ''.tik-tokcdn.com'' ''TikTok'' NDPI_PROTOCOL_TIKTOK NDPI_PROTOCOL_CATEGORY_SOCIAL_NETWORK NDPI_PROTOCOL_FUN NDPI_PROTOCOL_DEFAULT_LEVEL,
    host_entry ''v19.byteicdn.com'' ''TikTok'' NDPI_PROTOCOL_TIKTOK NDPI_PROTOCOL_CATEGORY_SOCIAL_NETWORK NDPI_PROTOCOL_FUN NDPI_PROTOCOL_DEFAULT_LEVEL,
    host_entry ''v16m.byteicdn.com'' ''TikTok'' NDPI_PROTOCOL_TIKTOK NDPI_PROTOCOL_CATEGORY_SOCIAL_NETWORK NDPI_PROTOCOL_FUN NDPI_PROTOCOL_DEFAULT_LEVEL,
    host_entry ''brasilbandalarga.com.br'' ''EAQ'' NDPI_PROTOCOL_EAQ NDPI_PROTOCOL_CATEGORY_NETWORK NDPI_PROTOCOL_ACCEPTABLE NDPI_PROTOCOL_DEFAULT_LEVEL,
    host_entry ''.eaqbr.com.br'' ''EAQ'' NDPI_PROTOCOL_EAQ NDPI_PROTOCOL_CATEGORY_NETWORK NDPI_PROTOCOL_ACCEPTABLE NDPI_PROTOCOL_DEFAULT_LEVEL,
    host_entry ''.net.anydesk.com'' ''AnyDesk'' NDPI_PROTOCOL_ANYDESK NDPI_PROTOCOL_CATEGORY_REMOTE_ACCESS NDPI_PROTOCOL_ACCEPTABLE NDPI_PROTOCOL_DEFAULT_LEVEL,
    host_entry ''discordapp.com'' ''Discord'' NDPI_PROTOCOL_DISCORD NDPI_PROTOCOL_CATEGORY_COLLABORATIVE NDPI_PROTOCOL_ACCEPTABLE NDPI_PROTOCOL_DEFAULT_LEVEL,
    host_entry ''discordapp.net'' ''Discord'' NDPI_PROTOCOL_DISCORD NDPI_PROTOCOL_CATEGORY_COLLABORATIVE NDPI_PROTOCOL_ACCEPTABLE NDPI_PROTOCOL_DEFAULT_LEVEL,
    host_entry ''discord.com'' ''Discord'' NDPI_PROTOCOL_DISCORD NDPI_PROTOCOL_CATEGORY_COLLABORATIVE NDPI_PROTOCOL_ACCEPTABLE NDPI_PROTOCOL_DEFAULT_LEVEL,
    host_entry ''discord.gg'' ''Discord'' NDPI_PROTOCOL_DISCORD NDPI_PROTOCOL_CATEGORY_COLLABORATIVE NDPI_PROTOCOL_ACCEPTABLE NDPI_PROTOCOL_DEFAULT_LEVEL,
    host_entry ''discord.media'' ''Discord'' NDPI_PROTOCOL_DISCORD NDPI_PROTOCOL_CATEGORY_COLLABORATIVE NDPI_PROTOCOL_ACCEPTABLE NDPI_PROTOCOL_DEFAULT_LEVEL,
    host_entry ''alexa.amazon.com'' ''AmazonAlexa'' NDPI_PROTOCOL_AMAZON_ALEXA NDPI_PROTOCOL_CATEGORY_VIRTUAL_ASSISTANT NDPI_PROTOCOL_ACCEPTABLE NDPI_PROTOCOL_DEFAULT_LEVEL,
    host_entry ''amazonalexa.com'' ''AmazonAlexa'' NDPI_PROTOCOL_AMAZON_ALEXA NDPI_PROTOCOL_CATEGORY_VIRTUAL_ASSISTANT NDPI_PROTOCOL_ACCEPTABLE NDPI_PROTOCOL_DEFAULT_LEVEL,
    host_entry ''avs-alexa-1-na.amazon.com'' ''AmazonAlexa'' NDPI_PROTOCOL_AMAZON_ALEXA NDPI_PROTOCOL_CATEGORY_VIRTUAL_ASSISTANT NDPI_PROTOCOL_ACCEPTABLE NDPI_PROTOCOL_DEFAULT_LEVEL,
    host_entry ''avs-alexa-2-na.amazon.com'' ''AmazonAlexa'' NDPI_PROTOCOL_AMAZON_ALEXA NDPI_PROTOCOL_CATEGORY_VIRTUAL_ASSISTANT NDPI_PROTOCOL_ACCEPTABLE NDPI_PROTOCOL_DEFAULT_LEVEL,
    host_entry ''avs-alexa-3-na.amazon.com'' ''AmazonAlexa'' NDPI_PROTOCOL_AMAZON_ALEXA NDPI_PROTOCOL_CATEGORY_VIRTUAL_ASSISTANT NDPI_PROTOCOL_ACCEPTABLE NDPI_PROTOCOL_DEFAULT_LEVEL,
    host_entry ''avs-alexa-4-na.amazon.com'' ''AmazonAlexa'' NDPI_PROTOCOL_AMAZON_ALEXA NDPI_PROTOCOL_CATEGORY_VIRTUAL_ASSISTANT NDPI_PROTOCOL_ACCEPTABLE NDPI_PROTOCOL_DEFAULT_LEVEL,
    host_entry ''avs-alexa-5-na.amazon.com'' ''AmazonAlexa'' NDPI_PROTOCOL_AMAZON_ALEXA NDPI_PROTOCOL_CATEGORY_VIRTUAL_ASSISTANT NDPI_PROTOCOL_ACCEPTABLE NDPI_PROTOCOL_DEFAULT_LEVEL,
    host_entry ''avs-alexa-6-na.amazon.com'' ''AmazonAlexa'' NDPI_PROTOCOL_AMAZON_ALEXA NDPI_PROTOCOL_CATEGORY_VIRTUAL_ASSISTANT NDPI_PROTOCOL_ACCEPTABLE NDPI_PROTOCOL_DEFAULT_LEVEL,
    host_entry ''avs-alexa-7-na.amazon.com'' ''AmazonAlexa'' NDPI_PROTOCOL_AMAZON_ALEXA NDPI_PROTOCOL_CATEGORY_VIRTUAL_ASSISTANT NDPI_PROTOCOL_ACCEPTABLE NDPI_PROTOCOL_DEFAULT_LEVEL,
    host_entry ''avs-alexa-8-na.amazon.com'' ''AmazonAlexa'' NDPI_PROTOCOL_AMAZON_ALEXA NDPI_PROTOCOL_CATEGORY_VIRTUAL_ASSISTANT NDPI_PROTOCOL_ACCEPTABLE NDPI_PROTOCOL_DEFAULT_LEVEL,
    host_entry ''avs-alexa-9-na.amazon.com'' ''AmazonAlexa'' NDPI_PROTOCOL_AMAZON_ALEXA NDPI_PROTOCOL_CATEGORY_VIRTUAL_ASSISTANT NDPI_PROTOCOL_ACCEPTABLE NDPI_PROTOCOL_DEFAULT_LEVEL,
    host_entry ''avs-alexa-10-na.amazon.com'' ''AmazonAlexa'' NDPI_PROTOCOL_AMAZON_ALEXA NDPI_PROTOCOL_CATEGORY_VIRTUAL_ASSISTANT NDPI_PROTOCOL_ACCEPTABLE NDPI_PROTOCOL_DEFAULT_LEVEL,
    host_entry ''avs-alexa-11-na.amazon.com'' ''AmazonAlexa'' NDPI_PROTOCOL_AMAZON_ALEXA NDPI_PROTOCOL_CATEGORY_VIRTUAL_ASSISTANT NDPI_PROTOCOL_ACCEPTABLE NDPI_PROTOCOL_DEFAULT_LEVEL,
    host_entry ''avs-alexa-12-na.amazon.com'' ''AmazonAlexa'' NDPI_PROTOCOL_AMAZON_ALEXA NDPI_PROTOCOL_CATEGORY_VIRTUAL_ASSISTANT NDPI_PROTOCOL_ACCEPTABLE NDPI_PROTOCOL_DEFAULT_LEVEL,
    host_entry ''avs-alexa-13-na.amazon.com'' ''AmazonAlexa'' NDPI_PROTOCOL_AMAZON_ALEXA NDPI_PROTOCOL_CATEGORY_VIRTUAL_ASSISTANT NDPI_PROTOCOL_ACCEPTABLE NDPI_PROTOCOL_DEFAULT_LEVEL,
    host_entry ''avs-alexa-14-na.amazon.com'' ''AmazonAlexa'' NDPI_PROTOCOL_AMAZON_ALEXA NDPI_PROTOCOL_CATEGORY_VIRTUAL_ASSISTANT NDPI_PROTOCOL_ACCEPTABLE NDPI_PROTOCOL_DEFAULT_LEVEL,
    host_entry ''avs-alexa-15-na.amazon.com'' ''AmazonAlexa'' NDPI_PROTOCOL_AMAZON_ALEXA NDPI_PROTOCOL_CATEGORY_VIRTUAL_ASSISTANT NDPI_PROTOCOL_ACCEPTABLE NDPI_PROTOCOL_DEFAULT_LEVEL,
    host_entry ''avs-alexa-16-na.amazon.com'' ''AmazonAlexa'' NDPI_PROTOCOL_AMAZON_ALEXA NDPI_PROTOCOL_CATEGORY_VIRTUAL_ASSISTANT NDPI_PROTOCOL_ACCEPTABLE NDPI_PROTOCOL_DEFAULT_LEVEL,
    host_entry ''avs-alexa-17-na.amazon.com'' ''AmazonAlexa'' NDPI_PROTOCOL_AMAZON_ALEXA NDPI_PROTOCOL_CATEGORY_VIRTUAL_ASSISTANT NDPI_PROTOCOL_ACCEPTABLE NDPI_PROTOCOL_DEFAULT_LEVEL,
    host_entry ''avs-alexa-18-na.amazon.com'' ''AmazonAlexa'' NDPI_PROTOCOL_AMAZON_ALEXA NDPI_PROTOCOL_CATEGORY_VIRTUAL_ASSISTANT NDPI_PROTOCOL_ACCEPTABLE NDPI_PROTOCOL_DEFAULT_LEVEL,
    host_entry ''avs-alexa-19-na.amazon.com'' ''AmazonAlexa'' NDPI_PROTOCOL_AMAZON_ALEXA NDPI_PROTOCOL_CATEGORY_VIRTUAL_ASSISTANT NDPI_PROTOCOL_ACCEPTABLE NDPI_PROTOCOL_DEFAULT_LEVEL,
    host_entry ''tumblr.com'' ''Tumblr'' NDPI_PROTOCOL_TUMBLR NDPI_PROTOCOL_CATEGORY_SOCIAL_NETWORK NDPI_PROTOCOL_FUN NDPI_PROTOCOL_DEFAULT_LEVEL,
    host_entry ''.redd.it'' ''Reddit'' NDPI_PROTOCOL_REDDIT NDPI_PROTOCOL_CATEGORY_SOCIAL_NETWORK NDPI_PROTOCOL_FUN NDPI_PROTOCOL_DEFAULT_LEVEL,
    host_entry ''.reddit.com'' ''Reddit'' NDPI_PROTOCOL_REDDIT NDPI_PROTOCOL_CATEGORY_SOCIAL_NETWORK NDPI_PROTOCOL_FUN NDPI_PROTOCOL_DEFAULT_LEVEL,
    host_entry ''.redditmedia.com'' ''Reddit'' NDPI_PROTOCOL_REDDIT NDPI_PROTOCOL_CATEGORY_SOCIAL_NETWORK NDPI_PROTOCOL_FUN NDPI_PROTOCOL_DEFAULT_LEVEL,
    host_entry ''.redditstatic.com'' ''Reddit'' NDPI_PROTOCOL_REDDIT NDPI_PROTOCOL_CATEGORY_SOCIAL_NETWORK NDPI_PROTOCOL_FUN NDPI_PROTOCOL_DEFAULT_LEVEL,
    host_entry ''.reddit.map.fastly.net'' ''Reddit'' NDPI_PROTOCOL_REDDIT NDPI_PROTOCOL_CATEGORY_SOCIAL_NETWORK NDPI_PROTOCOL_FUN NDPI_PROTOCOL_DEFAULT_LEVEL,
    host_entry ''.pinimg.com'' ''Pinterest'' NDPI_PROTOCOL_PINTEREST NDPI_PROTOCOL_CATEGORY_SOCIAL_NETWORK NDPI_PROTOCOL_FUN NDPI_PROTOCOL_DEFAULT_LEVEL,
    host_entry ''pinterest.global.map.fastly.net'' ''Pinterest'' NDPI_PROTOCOL_PINTEREST NDPI_PROTOCOL_CATEGORY_SOCIAL_NETWORK NDPI_PROTOCOL_FUN NDPI_PROTOCOL_DEFAULT_LEVEL,
    host_entry ''pinterest.map.fastly.net'' ''Pinterest'' NDPI_PROTOCOL_PINTEREST NDPI_PROTOCOL_CATEGORY_SOCIAL_NETWORK NDPI_PROTOCOL_FUN NDPI_PROTOCOL_DEFAULT_LEVEL,
    host_entry ''pinterest.'' ''Pinterest'' NDPI_PROTOCOL_PINTEREST NDPI_PROTOCOL_CATEGORY_SOCIAL_NETWORK NDPI_PROTOCOL_FUN NDPI_PROTOCOL_DEFAULT_LEVEL,
    host_entry ''pinterest.co.'' ''Pinterest'' NDPI_PROTOCOL_PINTEREST NDPI_PROTOCOL_CATEGORY_SOCIAL_NETWORK NDPI_PROTOCOL_FUN NDPI_PROTOCOL_DEFAULT_LEVEL,
    host_entry ''dssott.com.akamaized.net'' ''DisneyPlus'' NDPI_PROTOCOL_DISNEYPLUS NDPI_PROTOCOL_CATEGORY_STREAMING NDPI_PROTOCOL_FUN NDPI_PROTOCOL_DEFAULT_LEVEL,
    host_entry ''disney-plus.com'' ''DisneyPlus'' NDPI_PROTOCOL_DISNEYPLUS NDPI_PROTOCOL_CATEGORY_STREAMING NDPI_PROTOCOL_FUN NDPI_PROTOCOL_DEFAULT_LEVEL,
    host_entry ''disney-plus.net'' ''DisneyPlus'' NDPI_PROTOCOL_DISNEYPLUS NDPI_PROTOCOL_CATEGORY_STREAMING NDPI_PROTOCOL_FUN NDPI_PROTOCOL_DEFAULT_LEVEL,
    host_entry ''disneyplus.com'' ''DisneyPlus'' NDPI_PROTOCOL_DISNEYPLUS NDPI_PROTOCOL_CATEGORY_STREAMING NDPI_PROTOCOL_FUN NDPI_PROTOCOL_DEFAULT_LEVEL,
    host_entry ''disneyplus.net'' ''DisneyPlus'' NDPI_PROTOCOL_DISNEYPLUS NDPI_PROTOCOL_CATEGORY_STREAMING NDPI_PROTOCOL_FUN NDPI_PROTOCOL_DEFAULT_LEVEL,
    host_entry ''dssott.com'' ''DisneyPlus'' NDPI_PROTOCOL_DISNEYPLUS NDPI_PROTOCOL_CATEGORY_STREAMING NDPI_PROTOCOL_FUN NDPI_PROTOCOL_DEFAULT_LEVEL,
    host_entry ''disneyplus.com.ssl.sc.omtrdc.net'' ''DisneyPlus'' NDPI_PROTOCOL_DISNEYPLUS NDPI_PROTOCOL_CATEGORY_STREAMING NDPI_PROTOCOL_FUN NDPI_PROTOCOL_DEFAULT_LEVEL,
    host_entry ''.bamgrid.com'' ''DisneyPlus'' NDPI_PROTOCOL_DISNEYPLUS NDPI_PROTOCOL_CATEGORY_STREAMING NDPI_PROTOCOL_FUN NDPI_PROTOCOL_DEFAULT_LEVEL,
    host_entry ''.registerdisney.go.com'' ''DisneyPlus'' NDPI_PROTOCOL_DISNEYPLUS NDPI_PROTOCOL_CATEGORY_STREAMING NDPI_PROTOCOL_FUN NDPI_PROTOCOL_DEFAULT_LEVEL,
    host_entry ''.like.video'' ''Likee'' NDPI_PROTOCOL_LIKEE NDPI_PROTOCOL_CATEGORY_SOCIAL_NETWORK NDPI_PROTOCOL_FUN NDPI_PROTOCOL_DEFAULT_LEVEL,
    host_entry ''.likee.video'' ''Likee'' NDPI_PROTOCOL_LIKEE NDPI_PROTOCOL_CATEGORY_SOCIAL_NETWORK NDPI_PROTOCOL_FUN NDPI_PROTOCOL_DEFAULT_LEVEL,
    host_entry ''.likee.com'' ''Likee'' NDPI_PROTOCOL_LIKEE NDPI_PROTOCOL_CATEGORY_SOCIAL_NETWORK NDPI_PROTOCOL_FUN NDPI_PROTOCOL_DEFAULT_LEVEL,
    host_entry ''.likeevideo.com'' ''Likee'' NDPI_PROTOCOL_LIKEE NDPI_PROTOCOL_CATEGORY_SOCIAL_NETWORK NDPI_PROTOCOL_FUN NDPI_PROTOCOL_DEFAULT_LEVEL,
    host_entry ''.like-video.com'' ''Likee'' NDPI_PROTOCOL_LIKEE NDPI_PROTOCOL_CATEGORY_SOCIAL_NETWORK NDPI_PROTOCOL_FUN NDPI_PROTOCOL_DEFAULT_LEVEL,
    host_entry ''.likeimo.tech'' ''Likee'' NDPI_PROTOCOL_LIKEE NDPI_PROTOCOL_CATEGORY_SOCIAL_NETWORK NDPI_PROTOCOL_FUN NDPI_PROTOCOL_DEFAULT_LEVEL,
    host_entry ''.liketech.tech'' ''Likee'' NDPI_PROTOCOL_LIKEE NDPI_PROTOCOL_CATEGORY_SOCIAL_NETWORK NDPI_PROTOCOL_FUN NDPI_PROTOCOL_DEFAULT_LEVEL,
    host_entry ''bstream.hzmklvdieo.com'' ''Likee'' NDPI_PROTOCOL_LIKEE NDPI_PROTOCOL_CATEGORY_SOCIAL_NETWORK NDPI_PROTOCOL_FUN NDPI_PROTOCOL_DEFAULT_LEVEL,
    host_entry ''bstream.kzhi.tech'' ''Likee'' NDPI_PROTOCOL_LIKEE NDPI_PROTOCOL_CATEGORY_SOCIAL_NETWORK NDPI_PROTOCOL_FUN NDPI_PROTOCOL_DEFAULT_LEVEL,
    host_entry ''activision.'' ''Activision'' NDPI_PROTOCOL_ACTIVISION NDPI_PROTOCOL_CATEGORY_GAME NDPI_PROTOCOL_FUN NDPI_PROTOCOL_DEFAULT_LEVEL,
    host_entry ''.activision.com'' ''Activision'' NDPI_PROTOCOL_ACTIVISION NDPI_PROTOCOL_CATEGORY_GAME NDPI_PROTOCOL_FUN NDPI_PROTOCOL_DEFAULT_LEVEL,
    host_entry ''vimeo.com'' ''Vimeo'' NDPI_PROTOCOL_VIMEO NDPI_PROTOCOL_CATEGORY_STREAMING NDPI_PROTOCOL_FUN NDPI_PROTOCOL_DEFAULT_LEVEL,
    host_entry ''.vimeo.com'' ''Vimeo'' NDPI_PROTOCOL_VIMEO NDPI_PROTOCOL_CATEGORY_STREAMING NDPI_PROTOCOL_FUN NDPI_PROTOCOL_DEFAULT_LEVEL,
    host_entry ''.vimeocdn.com'' ''Vimeo'' NDPI_PROTOCOL_VIMEO NDPI_PROTOCOL_CATEGORY_STREAMING NDPI_PROTOCOL_FUN NDPI_PROTOCOL_DEFAULT_LEVEL,
    host_entry ''.crashlytics.com'' ''Crashlytics'' NDPI_PROTOCOL_CRASHLYSTICS NDPI_PROTOCOL_CATEGORY_DATA_TRANSFER NDPI_PROTOCOL_ACCEPTABLE NDPI_PROTOCOL_DEFAULT_LEVEL,
    host_entry ''.fuze.com'' ''Fuze'' NDPI_PROTOCOL_FUZE NDPI_PROTOCOL_CATEGORY_VOIP NDPI_PROTOCOL_ACCEPTABLE NDPI_PROTOCOL_DEFAULT_LEVEL,
    host_entry ''.fuzemeeting.com'' ''Fuze'' NDPI_PROTOCOL_FUZE NDPI_PROTOCOL_CATEGORY_VOIP NDPI_PROTOCOL_ACCEPTABLE NDPI_PROTOCOL_DEFAULT_LEVEL,
    host_entry ''.thinkingphones.com'' ''Fuze'' NDPI_PROTOCOL_FUZE NDPI_PROTOCOL_CATEGORY_VOIP NDPI_PROTOCOL_ACCEPTABLE NDPI_PROTOCOL_DEFAULT_LEVEL,
    host_entry ''alibaba.com'' ''Alibaba'' NDPI_PROTOCOL_ALIBABA NDPI_PROTOCOL_CATEGORY_WEB NDPI_PROTOCOL_ACCEPTABLE NDPI_PROTOCOL_DEFAULT_LEVEL,
    host_entry ''.alibaba.com'' ''Alibaba'' NDPI_PROTOCOL_ALIBABA NDPI_PROTOCOL_CATEGORY_WEB NDPI_PROTOCOL_ACCEPTABLE NDPI_PROTOCOL_DEFAULT_LEVEL,
    host_entry ''.aliapp.org'' ''Alibaba'' NDPI_PROTOCOL_ALIBABA NDPI_PROTOCOL_CATEGORY_WEB NDPI_PROTOCOL_ACCEPTABLE NDPI_PROTOCOL_DEFAULT_LEVEL,
    host_entry ''.alicdn.com'' ''Alibaba'' NDPI_PROTOCOL_ALIBABA NDPI_PROTOCOL_CATEGORY_WEB NDPI_PROTOCOL_ACCEPTABLE NDPI_PROTOCOL_DEFAULT_LEVEL,
    host_entry ''.aliyuncs.com'' ''Alibaba'' NDPI_PROTOCOL_ALIBABA NDPI_PROTOCOL_CATEGORY_WEB NDPI_PROTOCOL_ACCEPTABLE NDPI_PROTOCOL_DEFAULT_LEVEL,
    host_entry ''.mmstat.com'' ''Alibaba'' NDPI_PROTOCOL_ALIBABA NDPI_PROTOCOL_CATEGORY_WEB NDPI_PROTOCOL_ACCEPTABLE NDPI_PROTOCOL_DEFAULT_LEVEL,
    host_entry ''mask.icloud.com'' ''iCloudPrivateRelay'' NDPI_PROTOCOL_ICLOUD_PRIVATE_RELAY NDPI_PROTOCOL_CATEGORY_VPN NDPI_PROTOCOL_ACCEPTABLE NDPI_PROTOCOL_DEFAULT_LEVEL,
    host_entry ''mask-h2.icloud.com'' ''iCloudPrivateRelay'' NDPI_PROTOCOL_ICLOUD_PRIVATE_RELAY NDPI_PROTOCOL_CATEGORY_VPN NDPI_PROTOCOL_ACCEPTABLE NDPI_PROTOCOL_DEFAULT_LEVEL,
    host_entry ''mask-api.icloud.com'' ''iCloudPrivateRelay'' NDPI_PROTOCOL_ICLOUD_PRIVATE_RELAY NDPI_PROTOCOL_CATEGORY_VPN NDPI_PROTOCOL_ACCEPTABLE NDPI_PROTOCOL_DEFAULT_LEVEL,
    host_entry ''badoo.com'' ''Badoo'' NDPI_PROTOCOL_BADOO NDPI_PROTOCOL_CATEGORY_SOCIAL_NETWORK NDPI_PROTOCOL_FUN NDPI_PROTOCOL_DEFAULT_LEVEL,
    host_entry ''badoocdn.com'' ''Badoo'' NDPI_PROTOCOL_BADOO NDPI_PROTOCOL_CATEGORY_SOCIAL_NETWORK NDPI_PROTOCOL_FUN NDPI_PROTOCOL_DEFAULT_LEVEL]"

definition host_match_6 :: "protocol_match list" where
  "host_match_6 = [
    host_entry ''.badoo.app'' ''Badoo'' NDPI_PROTOCOL_BADOO NDPI_PROTOCOL_CATEGORY_SOCIAL_NETWORK NDPI_PROTOCOL_FUN NDPI_PROTOCOL_DEFAULT_LEVEL,
    host_entry ''accuweather.com'' ''AccuWeather'' NDPI_PROTOCOL_ACCUWEATHER NDPI_PROTOCOL_CATEGORY_WEB NDPI_PROTOCOL_FUN NDPI_PROTOCOL_DEFAULT_LEVEL,
    host_entry ''.accuweather.com'' ''AccuWeather'' NDPI_PROTOCOL_ACCUWEATHER NDPI_PROTOCOL_CATEGORY_WEB NDPI_PROTOCOL_FUN NDPI_PROTOCOL_DEFAULT_LEVEL,
    host_entry ''zattoo.com'' ''Zattoo'' NDPI_PROTOCOL_ZATTOO NDPI_PROTOCOL_CATEGORY_VIDEO NDPI_PROTOCOL_FUN NDPI_PROTOCOL_DEFAULT_LEVEL,
    host_entry ''.zattoo.com'' ''Zattoo'' NDPI_PROTOCOL_ZATTOO NDPI_PROTOCOL_CATEGORY_VIDEO NDPI_PROTOCOL_FUN NDPI_PROTOCOL_DEFAULT_LEVEL,
    host_entry ''zattosecurehd2-f.akamaihd.net'' ''Zattoo'' NDPI_PROTOCOL_ZATTOO NDPI_PROTOCOL_CATEGORY_VIDEO NDPI_PROTOCOL_FUN NDPI_PROTOCOL_DEFAULT_LEVEL,
    host_entry ''classroom.google.com'' ''GoogleClassroom'' NDPI_PROTOCOL_GOOGLE_CLASSROOM NDPI_PROTOCOL_CATEGORY_COLLABORATIVE NDPI_PROTOCOL_SAFE NDPI_PROTOCOL_DEFAULT_LEVEL]"

definition host_match :: "protocol_match list" where
  "host_match = host_match_1 @ host_match_2 @ host_match_3 @ host_match_4 @ host_match_5 @ host_match_6"

end
