(* ===== verification/Risk_Score.thy ===== *)
theory Risk_Score
  imports Result_Names
begin

text \<open>
  The known risks with their severity and the share of the client (\<^verbatim>\<open>ndpi_main.c\<close>), and the score of
  a set of risks (\<^verbatim>\<open>ndpi_utils.c\<close>).
\<close>

section \<open>Known risks\<close>

datatype ndpi_risk_severity = NDPI_RISK_LOW | NDPI_RISK_MEDIUM | NDPI_RISK_HIGH | NDPI_RISK_SEVERE

text \<open>A risk, its severity, and the share of the client in percent.\<close>

record ndpi_risk_info =
  info_risk :: nat
  severity :: ndpi_risk_severity
  default_client_risk_pctg :: nat

abbreviation (input) risk_info :: "nat \<Rightarrow> ndpi_risk_severity \<Rightarrow> nat \<Rightarrow> ndpi_risk_info" where
  "risk_info r s p \<equiv> \<lparr>info_risk = r, severity = s, default_client_risk_pctg = p\<rparr>"

abbreviation (input) CLIENT_LOW_RISK_PERCENTAGE :: nat where "CLIENT_LOW_RISK_PERCENTAGE \<equiv> 10"
abbreviation (input) CLIENT_FAIR_RISK_PERCENTAGE :: nat where "CLIENT_FAIR_RISK_PERCENTAGE \<equiv> 50"
abbreviation (input) CLIENT_HIGH_RISK_PERCENTAGE :: nat where "CLIENT_HIGH_RISK_PERCENTAGE \<equiv> 90"

definition ndpi_known_risks :: "ndpi_risk_info list" where
  "ndpi_known_risks = [
    risk_info 0 NDPI_RISK_LOW CLIENT_FAIR_RISK_PERCENTAGE,
    risk_info 1 NDPI_RISK_SEVERE CLIENT_HIGH_RISK_PERCENTAGE,
    risk_info 2 NDPI_RISK_SEVERE CLIENT_HIGH_RISK_PERCENTAGE,
    risk_info 3 NDPI_RISK_SEVERE CLIENT_HIGH_RISK_PERCENTAGE,
    risk_info 4 NDPI_RISK_SEVERE CLIENT_FAIR_RISK_PERCENTAGE,
    risk_info 5 NDPI_RISK_MEDIUM CLIENT_FAIR_RISK_PERCENTAGE,
    risk_info 6 NDPI_RISK_HIGH CLIENT_HIGH_RISK_PERCENTAGE,
    risk_info 7 NDPI_RISK_HIGH CLIENT_HIGH_RISK_PERCENTAGE,
    risk_info 8 NDPI_RISK_HIGH CLIENT_HIGH_RISK_PERCENTAGE,
    risk_info 9 NDPI_RISK_HIGH CLIENT_FAIR_RISK_PERCENTAGE,
    risk_info 10 NDPI_RISK_HIGH CLIENT_FAIR_RISK_PERCENTAGE,
    risk_info 11 NDPI_RISK_HIGH CLIENT_HIGH_RISK_PERCENTAGE,
    risk_info 12 NDPI_RISK_LOW CLIENT_FAIR_RISK_PERCENTAGE,
    risk_info 13 NDPI_RISK_HIGH CLIENT_HIGH_RISK_PERCENTAGE,
    risk_info 14 NDPI_RISK_HIGH CLIENT_HIGH_RISK_PERCENTAGE,
    risk_info 15 NDPI_RISK_LOW CLIENT_FAIR_RISK_PERCENTAGE,
    risk_info 16 NDPI_RISK_HIGH CLIENT_HIGH_RISK_PERCENTAGE,
    risk_info 17 NDPI_RISK_LOW CLIENT_FAIR_RISK_PERCENTAGE,
    risk_info 18 NDPI_RISK_HIGH CLIENT_HIGH_RISK_PERCENTAGE,
    risk_info 19 NDPI_RISK_MEDIUM CLIENT_LOW_RISK_PERCENTAGE,
    risk_info 20 NDPI_RISK_HIGH CLIENT_HIGH_RISK_PERCENTAGE,
    risk_info 21 NDPI_RISK_MEDIUM CLIENT_FAIR_RISK_PERCENTAGE,
    risk_info 22 NDPI_RISK_LOW CLIENT_FAIR_RISK_PERCENTAGE,
    risk_info 23 NDPI_RISK_HIGH CLIENT_HIGH_RISK_PERCENTAGE,
    risk_info 24 NDPI_RISK_MEDIUM CLIENT_FAIR_RISK_PERCENTAGE,
    risk_info 25 NDPI_RISK_HIGH CLIENT_HIGH_RISK_PERCENTAGE,
    risk_info 26 NDPI_RISK_MEDIUM CLIENT_FAIR_RISK_PERCENTAGE,
    risk_info 27 NDPI_RISK_MEDIUM CLIENT_FAIR_RISK_PERCENTAGE,
    risk_info 28 NDPI_RISK_MEDIUM CLIENT_FAIR_RISK_PERCENTAGE,
    risk_info 29 NDPI_RISK_MEDIUM CLIENT_FAIR_RISK_PERCENTAGE,
    risk_info 30 NDPI_RISK_LOW CLIENT_FAIR_RISK_PERCENTAGE,
    risk_info 31 NDPI_RISK_MEDIUM CLIENT_FAIR_RISK_PERCENTAGE,
    risk_info 32 NDPI_RISK_MEDIUM CLIENT_FAIR_RISK_PERCENTAGE,
    risk_info 33 NDPI_RISK_HIGH CLIENT_HIGH_RISK_PERCENTAGE,
    risk_info 34 NDPI_RISK_LOW CLIENT_FAIR_RISK_PERCENTAGE,
    risk_info 35 NDPI_RISK_MEDIUM CLIENT_FAIR_RISK_PERCENTAGE,
    risk_info 36 NDPI_RISK_HIGH CLIENT_HIGH_RISK_PERCENTAGE,
    risk_info 37 NDPI_RISK_MEDIUM CLIENT_FAIR_RISK_PERCENTAGE,
    risk_info 38 NDPI_RISK_MEDIUM CLIENT_FAIR_RISK_PERCENTAGE,
    risk_info 39 NDPI_RISK_HIGH CLIENT_HIGH_RISK_PERCENTAGE,
    risk_info 40 NDPI_RISK_SEVERE CLIENT_HIGH_RISK_PERCENTAGE,
    risk_info 41 NDPI_RISK_MEDIUM CLIENT_LOW_RISK_PERCENTAGE,
    risk_info 42 NDPI_RISK_LOW CLIENT_FAIR_RISK_PERCENTAGE]"

definition ndpi_risk2severity :: "nat \<Rightarrow> ndpi_risk_info option" where
  "ndpi_risk2severity r = at ndpi_known_risks r"

section \<open>The score\<close>

fun risk_score :: "ndpi_risk_severity \<Rightarrow> u16" where
  "risk_score NDPI_RISK_LOW = 10"
| "risk_score NDPI_RISK_MEDIUM = 50"
| "risk_score NDPI_RISK_HIGH = 100"
| "risk_score NDPI_RISK_SEVERE = 250"

text \<open>The product with the percentage is computed in \<open>int\<close> and cut to 16 bits.\<close>

definition client_part :: "ndpi_risk_info \<Rightarrow> u16" where
  "client_part info = word_of_nat (unat (risk_score (severity info)) * default_client_risk_pctg info div 100)"

fun risk_score_loop :: "u64 \<Rightarrow> nat \<Rightarrow> nat \<Rightarrow> u16 \<times> u16 \<times> u16 \<Rightarrow> (u16 \<times> u16 \<times> u16) option" where
  "risk_score_loop risks 0 i s = Some s"
| "risk_score_loop risks (Suc n) i (score, client, server) =
     (if NDPI_ISSET_BIT risks i then do {
        info \<leftarrow> ndpi_risk2severity i;
        let val = risk_score (severity info); c = client_part info in
        risk_score_loop risks n (Suc i) (score + val, client + c, server + (val - c))
      } else risk_score_loop risks n (Suc i) (score, client, server))"

text \<open>The score, and the scores of client and server.\<close>

definition ndpi_risk2score :: "u64 \<Rightarrow> (u16 \<times> u16 \<times> u16) option" where
  "ndpi_risk2score risks =
     (if risks = 0 then Some (0, 0, 0) else risk_score_loop risks NDPI_MAX_RISK 0 (0, 0, 0))"

section \<open>What the score is\<close>

text \<open>The risks of a mask that are known, in ascending order, and the sums over them.\<close>

definition risks_of :: "u64 \<Rightarrow> nat list" where
  "risks_of risks = filter (NDPI_ISSET_BIT risks) [0..<NDPI_MAX_RISK]"

definition weight :: "nat \<Rightarrow> nat" where
  "weight r = unat (risk_score (severity (ndpi_known_risks ! r)))"

definition client_weight :: "nat \<Rightarrow> nat" where
  "client_weight r = weight r * default_client_risk_pctg (ndpi_known_risks ! r) div 100"

lemma known_risks_count: "length ndpi_known_risks = NDPI_MAX_RISK + 1"
  by (simp add: ndpi_known_risks_def)

lemma known_risks_shares: "info \<in> set ndpi_known_risks \<Longrightarrow> default_client_risk_pctg info \<le> 90"
proof -
  have "list_all (\<lambda>info. default_client_risk_pctg info \<le> 90) ndpi_known_risks" by (simp add: ndpi_known_risks_def)
  then show "info \<in> set ndpi_known_risks \<Longrightarrow> default_client_risk_pctg info \<le> 90" by (simp add: list_all_iff)
qed

lemma score_at_most: "unat (risk_score s) \<le> 250"
  by (cases s) simp_all

lemma client_share:
  assumes "info \<in> set ndpi_known_risks"
  shows "unat (client_part info) = unat (risk_score (severity info)) * default_client_risk_pctg info div 100"
    "client_part info \<le> risk_score (severity info)"
proof -
  let ?v = "unat (risk_score (severity info))"
  have "?v * default_client_risk_pctg info \<le> ?v * 100" using known_risks_shares [OF assms] by (intro mult_le_mono2) simp
  then have le: "?v * default_client_risk_pctg info div 100 \<le> ?v" using div_le_mono [of _ "?v * 100" 100] by fastforce
  then have "?v * default_client_risk_pctg info div 100 < 2 ^ 16" using score_at_most [of "severity info"] by simp
  then show e: "unat (client_part info) = ?v * default_client_risk_pctg info div 100" by (simp add: client_part_def unat_of_nat)
  show "client_part info \<le> risk_score (severity info)" using le e by (simp add: word_le_nat_alt)
qed

lemma score_loop_sums:
  assumes "i + n \<le> NDPI_MAX_RISK" "unat score + 250 * n < 65536" "unat client + unat server = unat score"
  shows "\<exists>s c v. risk_score_loop risks n i (score, client, server) = Some (s, c, v)
    \<and> unat s = unat score + sum_list (map weight (filter (NDPI_ISSET_BIT risks) [i..<i + n]))
    \<and> unat c = unat client + sum_list (map client_weight (filter (NDPI_ISSET_BIT risks) [i..<i + n]))
    \<and> unat c + unat v = unat s"
  using assms
proof (induction n arbitrary: i score client server)
  case (Suc n)
  have u: "[i..<i + Suc n] = i # [Suc i..<Suc i + n]" by (simp add: upt_rec)
  show ?case
  proof (cases "NDPI_ISSET_BIT risks i")
    case False
    then show ?thesis using Suc.IH [of "Suc i" score client server] Suc.prems unfolding u by simp
  next
    case True
    let ?info = "ndpi_known_risks ! i"
    let ?val = "risk_score (severity ?info)" and ?c = "client_part ?info"
    have i: "i < length ndpi_known_risks" using Suc.prems known_risks_count by simp
    note c = client_share [OF nth_mem [OF i]]
    have le: "unat ?c \<le> unat ?val" using c(2) by (simp add: word_le_nat_alt)
    have v: "unat ?val \<le> 250" by (rule score_at_most)
    have s1: "unat (score + ?val) = unat score + unat ?val" using Suc.prems(2) v by (simp add: unat_word_ariths)
    have c1: "unat (client + ?c) = unat client + unat ?c" using Suc.prems(2,3) v le by (simp add: unat_word_ariths)
    have "unat (?val - ?c) = unat ?val - unat ?c" using c(2) by (rule unat_sub)
    then have v1: "unat (server + (?val - ?c)) = unat server + (unat ?val - unat ?c)"
      using Suc.prems(2,3) v by (simp add: unat_word_ariths)
    have "\<exists>s c v. risk_score_loop risks n (Suc i) (score + ?val, client + ?c, server + (?val - ?c)) = Some (s, c, v)
      \<and> unat s = unat (score + ?val) + sum_list (map weight (filter (NDPI_ISSET_BIT risks) [Suc i..<Suc i + n]))
      \<and> unat c = unat (client + ?c) + sum_list (map client_weight (filter (NDPI_ISSET_BIT risks) [Suc i..<Suc i + n]))
      \<and> unat c + unat v = unat s"
      using Suc.prems v s1 c1 v1 le by (intro Suc.IH) simp_all
    moreover have "unat ?val = weight i" "unat ?c = client_weight i" using c(1) by (simp_all add: weight_def client_weight_def)
    moreover have "ndpi_risk2severity i = Some ?info" using i by (simp add: ndpi_risk2severity_def at_def)
    ultimately show ?thesis using True unfolding u s1 c1 by (auto simp: Let_def)
  qed
qed simp

text \<open>
  The score of a set of risks. The 16-bit sums never wrap: the score is the sum of the weights of
  the risks in the mask, the score of the client is the sum of their shares, and the server gets
  exactly the rest.
\<close>

theorem risk_score_sums:
  "\<exists>s c v. ndpi_risk2score risks = Some (s, c, v)
    \<and> unat s = sum_list (map weight (risks_of risks))
    \<and> unat c = sum_list (map client_weight (risks_of risks))
    \<and> unat c + unat v = unat s"
proof (cases "risks = 0")
  case True
  then show ?thesis by (simp add: ndpi_risk2score_def risks_of_def NDPI_ISSET_BIT_def)
next
  case False
  then show ?thesis using score_loop_sums [of 0 NDPI_MAX_RISK 0 0 0 risks] by (simp add: ndpi_risk2score_def risks_of_def)
qed

end
