(* ===== verification/Module_Init.thy ===== *)
theory Module_Init
  imports Protocol_Tables Risk_Score Dissectors Engine_Match
begin

text \<open>
  Creation and finalisation of a detection module (\<^verbatim>\<open>ndpi_main.c\<close>): the defaults of the protocols,
  the trees of default ports, and the patterns that are handed to the automata. The automata and
  the Patricia trees are those of the vendored libraries; their operations, and the trees loaded
  with the address tables, are parameters.
\<close>

section \<open>Parameters\<close>

text \<open>What is added to an automaton: the pattern and what a match of it reports.\<close>

record ac_pattern =
  astring :: bytes
  rep_number :: u32
  rep_number64 :: u64
  rep_category :: nat
  rep_breed :: nat
  rep_level :: nat
  rep_at_end :: bool
  rep_dot :: bool

text \<open>
  \<open>module_memory\<close> tells whether there is memory for the module and its trees, \<open>loaded_ptree\<close> is the Patricia tree with the address tables, \<open>category_hosts\<close> and \<open>category_addresses\<close>
  what loading the table of categories leaves; an addition that fails returns a code other than 0.
\<close>

record tables_env =
  tables_libc :: c_env
  module_memory :: bool
  ac_automata_init :: "automa option"
  ac_automata_add :: "ac_pattern \<Rightarrow> automa \<Rightarrow> int \<times> automa"
  ac_automata_finalize :: "automa \<Rightarrow> automa"
  loaded_ptree :: "u32 \<Rightarrow> (u32 \<times> u32) option"
  category_hosts :: "automa option"
  category_addresses :: "u32 \<Rightarrow> (u32 \<times> u32) option"

section \<open>Protocol defaults\<close>

definition ndpi_strdup :: "c_env \<Rightarrow> bytes option \<Rightarrow> bytes option" where
  "ndpi_strdup env s = (case s of None \<Rightarrow> None | Some t \<Rightarrow> if alloc_ok env (length t + 1) then Some t else None)"

definition ndpi_build_default_ports :: "u16 \<Rightarrow> u16 \<Rightarrow> u16 \<Rightarrow> u16 \<Rightarrow> u16 \<Rightarrow> (u16 \<times> u16) list" where
  "ndpi_build_default_ports a b c d e = [(a, a), (b, b), (c, c), (d, d), (e, e)]"

definition ndpi_set_proto_breed :: "u16 \<Rightarrow> nat \<Rightarrow> ndpi_module \<Rightarrow> ndpi_module option" where
  "ndpi_set_proto_breed p breed m =
     (if \<not> ndpi_is_valid_protoId p then Some m
      else do {
        d \<leftarrow> defaults_of m p;
        Some (m\<lparr>proto_defaults := (proto_defaults m)[unat p := d\<lparr>protoBreed := breed\<rparr>]\<rparr>)
      })"

definition ndpi_set_proto_category :: "u16 \<Rightarrow> nat \<Rightarrow> ndpi_module \<Rightarrow> ndpi_module option" where
  "ndpi_set_proto_category p c m =
     (if \<not> ndpi_is_valid_protoId p then Some m
      else do {
        d \<leftarrow> defaults_of m p;
        Some (m\<lparr>proto_defaults := (proto_defaults m)[unat p := d\<lparr>protoCategory := c\<rparr>]\<rparr>)
      })"

definition ndpi_is_subprotocol_informative :: "u16 \<Rightarrow> bool" where
  "ndpi_is_subprotocol_informative p \<longleftrightarrow> ndpi_is_valid_protoId p \<and> p = NDPI_PROTOCOL_DNS"

text \<open>Registering a range of ports: \<open>None\<close> when the loop does not end or makes an invalid access.\<close>

definition add_range :: "c_env \<Rightarrow> u16 \<times> u16 \<Rightarrow> u16 \<Rightarrow> port_node tree \<Rightarrow> port_node tree option" where
  "add_range env rng p root = Option.bind (addDefaultPort env rng (unat p) 0 root) (\<lambda>r. r)"

text \<open>The loop over the five places of the port arrays; \<open>j\<close> counts up.\<close>

fun set_ports_loop ::
  "c_env \<Rightarrow> u16 \<Rightarrow> nat \<Rightarrow> (u16 \<times> u16) list \<Rightarrow> (u16 \<times> u16) list \<Rightarrow> ndpi_module \<Rightarrow> ndpi_module option" where
  "set_ports_loop env p j (t # ts) (u # us) m = do {
     ut \<leftarrow> (if fst u \<noteq> 0 then add_range env u p (udpRoot m) else Some (udpRoot m));
     tt \<leftarrow> (if fst t \<noteq> 0 then add_range env t p (tcpRoot m) else Some (tcpRoot m));
     d \<leftarrow> defaults_of m p;
     let d = d\<lparr>tcp_default_ports := (tcp_default_ports d)[j := fst t], udp_default_ports := (udp_default_ports d)[j := fst u]\<rparr>;
     set_ports_loop env p (Suc j) ts us
       (m\<lparr>udpRoot := ut, tcpRoot := tt, proto_defaults := (proto_defaults m)[unat p := d]\<rparr>)
   }"
| "set_ports_loop env p j _ _ m = Some m"

definition ndpi_set_proto_defaults ::
  "c_env \<Rightarrow> bool \<Rightarrow> nat \<Rightarrow> u16 \<Rightarrow> bytes option \<Rightarrow> nat \<Rightarrow> (u16 \<times> u16) list \<Rightarrow> (u16 \<times> u16) list
    \<Rightarrow> ndpi_module \<Rightarrow> ndpi_module option" where
  "ndpi_set_proto_defaults env cleartext breed p name cat ts us m =
     (if \<not> ndpi_is_valid_protoId p then Some m
      else do {
        d \<leftarrow> defaults_of m p;
        if protoName d \<noteq> None then Some m
        else
          let d = d\<lparr>isClearTextProto := cleartext, protoName := ndpi_strdup env name, protoCategory := cat,
                protoId := p, protoBreed := breed, subprotocols := [], subprotocol_count := 0\<rparr> in
          set_ports_loop env p 0 ts us (m\<lparr>proto_defaults := (proto_defaults m)[unat p := d]\<rparr>)
      })"

text \<open>
  The arguments are counted with the protocol itself, which is taken off again. Only the written
  part of the array is kept.
\<close>

definition ndpi_set_proto_subprotocols :: "c_env \<Rightarrow> u16 \<Rightarrow> u16 list \<Rightarrow> ndpi_module \<Rightarrow> ndpi_module option" where
  "ndpi_set_proto_subprotocols env p subs m = do {
     d \<leftarrow> defaults_of m p;
     let count = subprotocol_count d + word_of_nat (length subs);
     if count = 0 then Some (m\<lparr>proto_defaults := (proto_defaults m)[unat p := d\<lparr>subprotocols := [], subprotocol_count := 0\<rparr>]\<rparr>)
     else if alloc_ok env (4 * unat count)
     then Some (m\<lparr>proto_defaults := (proto_defaults m)[unat p := d\<lparr>subprotocols := subs, subprotocol_count := count\<rparr>]\<rparr>)
     else if subs = []
     then Some (m\<lparr>proto_defaults := (proto_defaults m)[unat p := d\<lparr>subprotocols := [], subprotocol_count := count\<rparr>]\<rparr>)
     else None
   }"

definition five :: "u16 list \<Rightarrow> (u16 \<times> u16) list" where
  "five ps = (case ps of [a, b, c, d, e] \<Rightarrow> ndpi_build_default_ports a b c d e | _ \<Rightarrow> [])"

fun default_call :: "c_env \<Rightarrow> table_call \<Rightarrow> ndpi_module \<Rightarrow> ndpi_module option" where
  "default_call env (Set_defaults cleartext breed p name cat ts us) m =
     ndpi_set_proto_defaults env cleartext breed p (Some (str name)) cat (five ts) (five us) m"
| "default_call env (Set_subprotocols p subs) m = ndpi_set_proto_subprotocols env p subs m"

fun run_defaults :: "c_env \<Rightarrow> table_call list \<Rightarrow> ndpi_module \<Rightarrow> ndpi_module option" where
  "run_defaults env [] m = Some m"
| "run_defaults env (c # cs) m = do { m \<leftarrow> default_call env c m; run_defaults env cs m }"

section \<open>Patterns\<close>

definition ndpi_is_middle_string_char :: "u8 \<Rightarrow> bool" where
  "ndpi_is_middle_string_char c \<longleftrightarrow> c = 46 \<or> c = 45"

text \<open>The automaton that counts the levels of a domain name: the next state by the class of the character, and the increment.\<close>

definition ndpi_domain_level_automat :: "nat list list" where
  "ndpi_domain_level_automat = [[2, 1, 2, 0], [2, 0, 0, 0], [2, 3, 2, 0], [2, 0, 0, 1]]"

fun domain_level_loop :: "bytes \<Rightarrow> u8 \<Rightarrow> nat \<Rightarrow> (u8 \<times> nat) option" where
  "domain_level_loop [] level state = None"
| "domain_level_loop (c # cs) level state =
     (if c = 0 then Some (level, state)
      else
        let k = (if c = 45 then 2 else if c = 46 then 1 else 0);
            level = level + word_of_nat (ndpi_domain_level_automat ! state ! 3);
            state = ndpi_domain_level_automat ! state ! k in
        if state = 0 then Some (level, state) else domain_level_loop cs level state)"

definition ndpi_domain_level :: "bytes \<Rightarrow> u8 option" where
  "ndpi_domain_level name = do {
     (level, state) \<leftarrow> domain_level_loop name 1 0;
     Some (if 2 \<le> state then level else 0)
   }"

abbreviation (input) ACERR_SUCCESS :: int where "ACERR_SUCCESS \<equiv> 0"
abbreviation (input) ACERR_DUPLICATE_PATTERN :: int where "ACERR_DUPLICATE_PATTERN \<equiv> 1"

text \<open>The name is given without its terminating zero, which is added for the functions that look for it.\<close>

definition ndpi_string_to_automa ::
  "tables_env \<Rightarrow> automa option \<Rightarrow> bytes option \<Rightarrow> u16 \<Rightarrow> nat \<Rightarrow> nat \<Rightarrow> nat \<Rightarrow> bool \<Rightarrow> (int \<times> automa option) option" where
  "ndpi_string_to_automa env a name p cat breed level add_ends_with =
     (if \<not> ndpi_is_valid_protoId p then Some (-1, a)
      else case (a, name) of
        (Some am, Some s) \<Rightarrow>
          if s = [] then Some (-2, a)
          else case ndpi_strdup (tables_libc env) (Some s) of
            None \<Rightarrow> Some (-1, a)
          | Some t \<Rightarrow> do {
              l \<leftarrow> (if level \<noteq> 0 then Some level else map_option unat (ndpi_domain_level (cstr s)));
              let (rc, am) = ac_automata_add env
                \<lparr>astring = t, rep_number = ucast p, rep_number64 = 0, rep_category = cat mod 65536, rep_breed = breed mod 65536,
                 rep_level = l, rep_at_end = (add_ends_with \<and> \<not> ndpi_is_middle_string_char (last s)),
                 rep_dot = (46 \<in> set s)\<rparr> am;
              Some (if rc \<noteq> ACERR_SUCCESS \<and> rc \<noteq> ACERR_DUPLICATE_PATTERN then -2 else 0, Some am)
            }
      | _ \<Rightarrow> Some (-2, a))"

definition ndpi_add_host_url_subprotocol ::
  "tables_env \<Rightarrow> ndpi_module \<Rightarrow> bytes \<Rightarrow> u16 \<Rightarrow> nat \<Rightarrow> nat \<Rightarrow> nat \<Rightarrow> (int \<times> ndpi_module) option" where
  "ndpi_add_host_url_subprotocol env m s p cat breed level = do {
     (rc, a) \<leftarrow> ndpi_string_to_automa env (host_automa m) (Some s) p cat breed level True;
     Some (rc, m\<lparr>host_automa := a\<rparr>)
   }"

text \<open>
  The name is set before the defaults are, which therefore find the protocol initialised and change
  nothing, unless there was no memory for the name.
\<close>

definition ndpi_init_protocol_match :: "tables_env \<Rightarrow> protocol_match \<Rightarrow> ndpi_module \<Rightarrow> ndpi_module option" where
  "ndpi_init_protocol_match env h m = do {
     d \<leftarrow> defaults_of m (match_protocol_id h);
     m \<leftarrow> (if protoName d = None then
            let d = d\<lparr>protoName := ndpi_strdup (tables_libc env) (Some (str (proto_name h))), protoId := match_protocol_id h,
                  protoCategory := match_protocol_category h, protoBreed := match_protocol_breed h\<rparr> in
            ndpi_set_proto_defaults (tables_libc env) (isClearTextProto d) (protoBreed d) (protoId d) (protoName d) (protoCategory d)
              (ndpi_build_default_ports 0 0 0 0 0) (ndpi_build_default_ports 0 0 0 0 0)
              (m\<lparr>proto_defaults := (proto_defaults m)[unat (match_protocol_id h) := d]\<rparr>)
          else Some m);
     (_, m) \<leftarrow> ndpi_add_host_url_subprotocol env m (str (string_to_match h)) (match_protocol_id h)
       (match_protocol_category h) (match_protocol_breed h) (match_level h mod 256);
     Some m
   }"

definition ndpi_enable_loaded_categories :: "tables_env \<Rightarrow> ndpi_module \<Rightarrow> ndpi_module" where
  "ndpi_enable_loaded_categories env m =
     m\<lparr>hostnames_automa := map_option (ac_automata_finalize env) (category_hosts env),
       ipAddresses_ptree := category_addresses env, categories_loaded := True\<rparr>"

fun init_hosts :: "tables_env \<Rightarrow> protocol_match list \<Rightarrow> ndpi_module \<Rightarrow> ndpi_module option" where
  "init_hosts env [] m = Some m"
| "init_hosts env (h # hs) m = do { m \<leftarrow> ndpi_init_protocol_match env h m; init_hosts env hs m }"

definition init_string_based_protocols :: "tables_env \<Rightarrow> ndpi_module \<Rightarrow> ndpi_module option" where
  "init_string_based_protocols env m = map_option (ndpi_enable_loaded_categories env) (init_hosts env host_match m)"

section \<open>The module\<close>

text \<open>
  The protocols that the check of the initialisation complains about. The process exits when the
  table of risks has the wrong length.
\<close>

definition ndpi_validate_protocol_initialization :: "ndpi_module \<Rightarrow> nat list option" where
  "ndpi_validate_protocol_initialization m =
     (if ndpi_num_supported_protocols m \<le> length (proto_defaults m) \<and> length ndpi_known_risks - 1 = NDPI_MAX_RISK
      then Some (filter (\<lambda>i. protoName (proto_defaults m ! i) = None
                    \<or> i \<noteq> 0 \<and> protoCategory (proto_defaults m ! i) = NDPI_PROTOCOL_CATEGORY_UNSPECIFIED)
             [0..<ndpi_num_supported_protocols m])
      else None)"

definition ndpi_init_protocol_defaults :: "tables_env \<Rightarrow> ndpi_module \<Rightarrow> ndpi_module option" where
  "ndpi_init_protocol_defaults env m = do {
     m \<leftarrow> run_defaults (tables_libc env) default_calls
            (m\<lparr>proto_defaults := replicate (NDPI_MAX_SUPPORTED_PROTOCOLS + NDPI_MAX_NUM_CUSTOM_PROTOCOLS) zero_default\<rparr>);
     m \<leftarrow> init_string_based_protocols env m;
     _ \<leftarrow> ndpi_validate_protocol_initialization m;
     Some m
   }"

text \<open>The label of a custom category, in its array of 32 bytes.\<close>

definition custom_label :: "nat \<Rightarrow> bytes" where
  "custom_label i = (let t = str ''User custom category '' @ show_nat (i + 1) in take 31 t @ replicate (32 - length (take 31 t)) 0)"

text \<open>
  The inner \<open>None\<close> is the null pointer. The fields of the module that only dissectors use are not
  modelled.
\<close>

definition ndpi_init_detection_module :: "tables_env \<Rightarrow> ndpi_module option option" where
  "ndpi_init_detection_module env =
     (if \<not> module_memory env \<or> length categories \<noteq> NDPI_PROTOCOL_NUM_CATEGORIES then Some None
      else do {
        m \<leftarrow> ndpi_init_protocol_defaults env
               (zero_module\<lparr>protocols_ptree := loaded_ptree env, tcp_max_retransmission_window_size := 0x10000,
                  ndpi_num_supported_protocols := NDPI_MAX_SUPPORTED_PROTOCOLS, ndpi_num_custom_protocols := 0,
                  host_automa := ac_automata_init env, host_risk_mask_automa := ac_automata_init env,
                  hostnames_automa := ac_automata_init env\<rparr>);
        Some (Some (m\<lparr>custom_category_labels := map custom_label [0..<5]\<rparr>))
      })"

section \<open>Finalisation\<close>

text \<open>A host with the mask of the risks that are reported for it; a quote in front and the last character after it are cut off.\<close>

definition ndpi_add_host_risk_mask :: "tables_env \<Rightarrow> bytes \<Rightarrow> u64 \<Rightarrow> ndpi_module \<Rightarrow> (int \<times> ndpi_module) option" where
  "ndpi_add_host_risk_mask env host hidden m =
     (case host_risk_mask_automa m of
        None \<Rightarrow> Some (-2, m)
      | Some am \<Rightarrow>
          let s = (case host of c # t \<Rightarrow> if c = 34 \<or> c = 39 then butlast t else host | [] \<Rightarrow> host) in
          case ndpi_strdup (tables_libc env) (Some s) of
            None \<Rightarrow> Some (-1, m)
          | Some t \<Rightarrow> do {
              l \<leftarrow> ndpi_domain_level (cstr s);
              let (rc, am) = ac_automata_add env
                \<lparr>astring = t, rep_number = 0, rep_number64 = hidden, rep_category = 0, rep_breed = 0,
                 rep_level = unat l, rep_at_end = False, rep_dot = (46 \<in> set s)\<rparr> am;
              Some (if rc \<noteq> ACERR_SUCCESS \<and> rc \<noteq> ACERR_DUPLICATE_PATTERN then -2 else 0, m\<lparr>host_risk_mask_automa := Some am\<rparr>)
            })"

definition risk_exception_domains :: "string list" where
  "risk_exception_domains = [''.local'', ''.msftconnecttest.com'', ''amupdatedl.microsoft.com'',
     ''update.microsoft.com.akadns.net'', ''.windowsupdate.com'', ''.ras.microsoft.com'', ''e5.sk'', ''sophosxl.net'']"

text \<open>The risks that are masked: suspicious domain, binary transfer, numeric host, malicious JA3.\<close>

definition risks_to_mask :: "nat list" where
  "risks_to_mask = [16, 4, 12, 28]"

definition exception_mask :: u64 where
  "exception_mask = fold (\<lambda>r hidden. hidden AND NOT (push_bit r 1)) risks_to_mask (- 1)"

fun add_exceptions :: "tables_env \<Rightarrow> string list \<Rightarrow> ndpi_module \<Rightarrow> ndpi_module option" where
  "add_exceptions env [] m = Some m"
| "add_exceptions env (d # ds) m = do {
     (_, m) \<leftarrow> ndpi_add_host_risk_mask env (str d) exception_mask m;
     add_exceptions env ds m
   }"

definition ndpi_add_domain_risk_exceptions :: "tables_env \<Rightarrow> ndpi_module \<Rightarrow> ndpi_module option" where
  "ndpi_add_domain_risk_exceptions env m = add_exceptions env risk_exception_domains m"

definition ndpi_finalize_initialization :: "tables_env \<Rightarrow> ndpi_module \<Rightarrow> ndpi_module option" where
  "ndpi_finalize_initialization env m = do {
     m \<leftarrow> ndpi_add_domain_risk_exceptions env m;
     Some (if ac_automa_finalized m then m
       else m\<lparr>host_automa := map_option (ac_automata_finalize env) (host_automa m),
              host_risk_mask_automa := map_option (ac_automata_finalize env) (host_risk_mask_automa m),
              ac_automa_finalized := True\<rparr>)
   }"

section \<open>The defaults that the calls leave\<close>

text \<open>A module in which only the tables differ from another one.\<close>

definition only_tables :: "ndpi_module \<Rightarrow> ndpi_module \<Rightarrow> bool" where
  "only_tables m m' \<longleftrightarrow>
     m' = m\<lparr>tcpRoot := tcpRoot m', udpRoot := udpRoot m', proto_defaults := proto_defaults m'\<rparr>"

definition tables_fine :: "ndpi_module \<Rightarrow> bool" where
  "tables_fine m \<longleftrightarrow> length (proto_defaults m) = NDPI_MAX_SUPPORTED_PROTOCOLS + NDPI_MAX_NUM_CUSTOM_PROTOCOLS
     \<and> ports_sorted (tcpRoot m) \<and> ports_sorted (udpRoot m)"

text \<open>The protocol that a port leads to.\<close>

definition owner :: "port_node tree \<Rightarrow> u16 \<Rightarrow> nat option" where
  "owner t q = map_option node_proto (port_map t q)"

definition memory_ok :: "c_env \<Rightarrow> bool" where
  "memory_ok env \<longleftrightarrow> (\<forall>n. alloc_ok env n)"

definition take_ports :: "u16 \<Rightarrow> u16 set \<Rightarrow> (u16 \<Rightarrow> nat option) \<Rightarrow> u16 \<Rightarrow> nat option" where
  "take_ports p S f q = (if q \<in> S then Some (unat p) else f q)"

lemma add_range_owner:
  assumes "memory_ok env" "fst rng = snd rng" "snd rng < 65535" "ports_sorted t"
  obtains t' where "add_range env rng p t = Some t'" "ports_sorted t'" "owner t' = take_ports p {fst rng} (owner t)"
proof -
  have a: "alloc_ok env sizeof_ndpi_node" "alloc_ok env sizeof_port_node" using assms(1) by (simp_all add: memory_ok_def)
  obtain t' where t': "addDefaultPort env rng (unat p) 0 t = Some (Some t')" "ports_sorted t'"
    "\<forall>q. port_map t' q = (if fst rng \<le> q \<and> q \<le> snd rng then Some (registered (unat p) 0 q (port_map t q)) else port_map t q)"
    using add_ports_loop_registers [OF assms(3) a assms(4), of "unat p" 0 "fst rng"] by (auto simp: addDefaultPort_def)
  have "owner t' q = take_ports p {fst rng} (owner t) q" for q
    using t'(3) assms(2) by (auto simp: owner_def take_ports_def registered_def split: option.splits)
  then show ?thesis using t' that by (auto simp: add_range_def)
qed

definition single_ports :: "(u16 \<times> u16) list \<Rightarrow> bool" where
  "single_ports ps \<longleftrightarrow> (\<forall>r \<in> set ps. fst r = snd r \<and> snd r < 65535)"

lemma take_ports_twice: "take_ports p A (take_ports p B f) = take_ports p (A \<union> B) f"
  by (auto simp: take_ports_def fun_eq_iff)

lemma take_no_ports: "take_ports p {} f = f"
  by (simp add: take_ports_def fun_eq_iff)

lemma add_if_owner:
  assumes "memory_ok env" "fst rng = snd rng" "snd rng < 65535" "ports_sorted t"
  obtains t' where "(if fst rng \<noteq> 0 then add_range env rng p t else Some t) = Some t'" "ports_sorted t'"
    "owner t' = take_ports p ({fst rng} - {0}) (owner t)"
proof (cases "fst rng = 0")
  case True
  then show ?thesis using assms(4) that [of t] by (simp add: take_no_ports)
next
  case False
  then have "{fst rng} - {0} = {fst rng}" by auto
  then show ?thesis using add_range_owner [OF assms, of p] that False by metis
qed

lemma set_ports_loop_ok:
  assumes "memory_ok env" "tables_fine m" "ndpi_is_valid_protoId p" "length us = length ts"
    "single_ports ts" "single_ports us"
    "length (tcp_default_ports (proto_defaults m ! unat p)) = j + length ts"
    "length (udp_default_ports (proto_defaults m ! unat p)) = j + length us"
  shows "\<exists>m'. set_ports_loop env p j ts us m = Some m' \<and> only_tables m m' \<and> tables_fine m'
    \<and> owner (tcpRoot m') = take_ports p (fst ` set ts - {0}) (owner (tcpRoot m))
    \<and> owner (udpRoot m') = take_ports p (fst ` set us - {0}) (owner (udpRoot m))
    \<and> proto_defaults m' = (proto_defaults m)[unat p := (proto_defaults m ! unat p)
        \<lparr>tcp_default_ports := take j (tcp_default_ports (proto_defaults m ! unat p)) @ map fst ts,
         udp_default_ports := take j (udp_default_ports (proto_defaults m ! unat p)) @ map fst us\<rparr>]"
  using assms(2,4-)
proof (induction ts arbitrary: us j m)
  case Nil
  then show ?case by (simp add: only_tables_def take_no_ports)
next
  case (Cons t ts)
  then obtain u us' where us: "us = u # us'" by (cases us) auto
  let ?d = "proto_defaults m ! unat p"
  have p: "unat p < length (proto_defaults m)"
    using assms(3) Cons.prems(1) by (simp add: ndpi_is_valid_protoId_def tables_fine_def)
  then have d: "defaults_of m p = Some ?d" by (simp add: defaults_of_def at_def)
  obtain ut where ut: "(if fst u \<noteq> 0 then add_range env u p (udpRoot m) else Some (udpRoot m)) = Some ut" "ports_sorted ut"
      "owner ut = take_ports p ({fst u} - {0}) (owner (udpRoot m))"
    using add_if_owner [OF assms(1), of u "udpRoot m" p] Cons.prems us by (auto simp: tables_fine_def single_ports_def)
  obtain tt where tt: "(if fst t \<noteq> 0 then add_range env t p (tcpRoot m) else Some (tcpRoot m)) = Some tt" "ports_sorted tt"
      "owner tt = take_ports p ({fst t} - {0}) (owner (tcpRoot m))"
    using add_if_owner [OF assms(1), of t "tcpRoot m" p] Cons.prems us by (auto simp: tables_fine_def single_ports_def)
  let ?d1 = "?d\<lparr>tcp_default_ports := (tcp_default_ports ?d)[j := fst t], udp_default_ports := (udp_default_ports ?d)[j := fst u]\<rparr>"
  let ?m1 = "m\<lparr>udpRoot := ut, tcpRoot := tt, proto_defaults := (proto_defaults m)[unat p := ?d1]\<rparr>"
  have "\<exists>m'. set_ports_loop env p (Suc j) ts us' ?m1 = Some m' \<and> only_tables ?m1 m' \<and> tables_fine m'
    \<and> owner (tcpRoot m') = take_ports p (fst ` set ts - {0}) (owner (tcpRoot ?m1))
    \<and> owner (udpRoot m') = take_ports p (fst ` set us' - {0}) (owner (udpRoot ?m1))
    \<and> proto_defaults m' = (proto_defaults ?m1)[unat p := (proto_defaults ?m1 ! unat p)
        \<lparr>tcp_default_ports := take (Suc j) (tcp_default_ports (proto_defaults ?m1 ! unat p)) @ map fst ts,
         udp_default_ports := take (Suc j) (udp_default_ports (proto_defaults ?m1 ! unat p)) @ map fst us'\<rparr>]"
    using Cons.prems us p ut(2) tt(2) by (intro Cons.IH) (auto simp: tables_fine_def single_ports_def)
  then obtain m' where m': "set_ports_loop env p (Suc j) ts us' ?m1 = Some m'" "only_tables ?m1 m'" "tables_fine m'"
    "owner (tcpRoot m') = take_ports p (fst ` set ts - {0}) (owner tt)"
    "owner (udpRoot m') = take_ports p (fst ` set us' - {0}) (owner ut)"
    "proto_defaults m' = (proto_defaults m)[unat p := ?d1
        \<lparr>tcp_default_ports := take (Suc j) (tcp_default_ports ?d1) @ map fst ts,
         udp_default_ports := take (Suc j) (udp_default_ports ?d1) @ map fst us'\<rparr>]"
    using p by auto
  have j: "take (Suc j) ((tcp_default_ports ?d)[j := fst t]) = take j (tcp_default_ports ?d) @ [fst t]"
    "take (Suc j) ((udp_default_ports ?d)[j := fst u]) = take j (udp_default_ports ?d) @ [fst u]"
    using Cons.prems us by (simp_all add: take_Suc_conv_app_nth)
  have "only_tables m m'" using m'(2) unfolding only_tables_def by (cases m, cases m') simp
  moreover have "owner (tcpRoot m') = take_ports p (fst ` set (t # ts) - {0}) (owner (tcpRoot m))"
    unfolding m'(4) tt(3) take_ports_twice by (rule arg_cong [where f = "\<lambda>S. take_ports p S _"]) auto
  moreover have "owner (udpRoot m') = take_ports p (fst ` set us - {0}) (owner (udpRoot m))"
    unfolding m'(5) ut(3) take_ports_twice us by (rule arg_cong [where f = "\<lambda>S. take_ports p S _"]) auto
  moreover have "set_ports_loop env p j (t # ts) us m = Some m'"
    unfolding us set_ports_loop.simps ut(1) tt(1) d using m'(1) by (simp add: Let_def)
  ultimately show ?case using m'(3,6) us by (auto simp: j)
qed

section \<open>The tables as maps\<close>

text \<open>What the initialisation is about: a default per protocol, and the protocol a port leads to.\<close>

record module_tables =
  tbl_defaults :: "u16 \<Rightarrow> proto_default"
  tbl_tcp :: "u16 \<Rightarrow> nat option"
  tbl_udp :: "u16 \<Rightarrow> nat option"

definition tables_of :: "ndpi_module \<Rightarrow> module_tables" where
  "tables_of m = \<lparr>tbl_defaults = (\<lambda>p. if ndpi_is_valid_protoId p then proto_defaults m ! unat p else zero_default),
     tbl_tcp = owner (tcpRoot m), tbl_udp = owner (udpRoot m)\<rparr>"

text \<open>The first call for a protocol counts; a port belongs to the last protocol that takes it.\<close>

fun table_step :: "table_call \<Rightarrow> module_tables \<Rightarrow> module_tables" where
  "table_step (Set_defaults cleartext breed p name cat ts us) t =
     (if protoName (tbl_defaults t p) \<noteq> None then t
      else t\<lparr>tbl_defaults := (tbl_defaults t)(p := (tbl_defaults t p)
               \<lparr>isClearTextProto := cleartext, protoName := Some (str name), protoCategory := cat, protoId := p,
                protoBreed := breed, subprotocols := [], subprotocol_count := 0,
                tcp_default_ports := ts, udp_default_ports := us\<rparr>),
             tbl_tcp := take_ports p (set ts - {0}) (tbl_tcp t),
             tbl_udp := take_ports p (set us - {0}) (tbl_udp t)\<rparr>)"
| "table_step (Set_subprotocols p subs) t =
     t\<lparr>tbl_defaults := (tbl_defaults t)(p := (tbl_defaults t p)
         \<lparr>subprotocols := subs, subprotocol_count := word_of_nat (length subs)\<rparr>)\<rparr>"

definition host_step :: "protocol_match \<Rightarrow> module_tables \<Rightarrow> module_tables" where
  "host_step h t =
     (let p = match_protocol_id h in
      if protoName (tbl_defaults t p) \<noteq> None then t
      else t\<lparr>tbl_defaults := (tbl_defaults t)(p := (tbl_defaults t p)
               \<lparr>protoName := Some (str (proto_name h)), protoId := p, protoCategory := match_protocol_category h,
                protoBreed := match_protocol_breed h\<rparr>)\<rparr>)"

definition ports_fine :: "u16 list \<Rightarrow> bool" where
  "ports_fine ps \<longleftrightarrow> length ps = 5 \<and> (\<forall>p \<in> set ps. p < 65535)"

text \<open>What the table has to satisfy; a list of subprotocols is set once, for a protocol that has none.\<close>

fun call_fine :: "table_call \<Rightarrow> bool" where
  "call_fine (Set_defaults cleartext breed p name cat ts us) \<longleftrightarrow>
     unat p < NDPI_MAX_SUPPORTED_PROTOCOLS \<and> (p \<noteq> 0 \<longrightarrow> cat \<noteq> 0) \<and> plain_name 40 name \<and> ports_fine ts \<and> ports_fine us"
| "call_fine (Set_subprotocols p subs) \<longleftrightarrow> unat p < NDPI_MAX_SUPPORTED_PROTOCOLS \<and> 0 < length subs \<and> length subs < 100
     \<and> (\<forall>q \<in> set subs. q = 65534 \<or> unat q < NDPI_MAX_SUPPORTED_PROTOCOLS)"

definition host_fine :: "protocol_match \<Rightarrow> bool" where
  "host_fine h \<longleftrightarrow> unat (match_protocol_id h) < NDPI_MAX_SUPPORTED_PROTOCOLS \<and> match_protocol_category h \<noteq> 0
     \<and> plain_name 40 (proto_name h)"

text \<open>What the steps keep.\<close>

definition table_fine :: "module_tables \<Rightarrow> bool" where
  "table_fine t \<longleftrightarrow> (\<forall>p. let d = tbl_defaults t p in
     default_ok d \<and> protoIdx d = 0 \<and> length (tcp_default_ports d) = 5 \<and> length (udp_default_ports d) = 5
     \<and> (\<forall>n. protoName d = Some n \<longrightarrow> text_ok 40 n \<and> protoId d = p \<and> (p \<noteq> 0 \<longrightarrow> protoCategory d \<noteq> 0)))"

lemma five_ports:
  assumes "ports_fine ps"
  shows "length (five ps) = 5" "map fst (five ps) = ps" "single_ports (five ps)" "fst ` set (five ps) = set ps"
proof -
  obtain a b c d e where ps: "ps = [a, b, c, d, e]"
    using assms by (auto simp: ports_fine_def length_Suc_conv numeral_eq_Suc)
  show "length (five ps) = 5" "map fst (five ps) = ps" "single_ports (five ps)" "fst ` set (five ps) = set ps"
    using assms by (simp_all add: ps five_def ndpi_build_default_ports_def single_ports_def ports_fine_def)
qed

lemma below_valid: "unat p < NDPI_MAX_SUPPORTED_PROTOCOLS \<Longrightarrow> ndpi_is_valid_protoId p"
  by (simp add: ndpi_is_valid_protoId_def size_defs)

lemma valid_default:
  assumes "tables_fine m" "ndpi_is_valid_protoId p"
  shows "defaults_of m p = Some (tbl_defaults (tables_of m) p)" "unat p < length (proto_defaults m)"
  using assms by (auto simp: defaults_of_def at_def tables_fine_def ndpi_is_valid_protoId_def tables_of_def)

text \<open>A write to the array of defaults is an update of the map.\<close>

lemma update_default:
  assumes "tables_fine m" "ndpi_is_valid_protoId p" "proto_defaults m' = (proto_defaults m)[unat p := d]"
    "owner (tcpRoot m') = ot" "owner (udpRoot m') = ou"
  shows "tables_of m' = tables_of m\<lparr>tbl_defaults := (tbl_defaults (tables_of m))(p := d), tbl_tcp := ot, tbl_udp := ou\<rparr>"
proof -
  have "tbl_defaults (tables_of m') q = ((tbl_defaults (tables_of m))(p := d)) q" for q
    using valid_default(2) [OF assms(1,2)] assms(2,3) by (auto simp: tables_of_def nth_list_update word_unat_eq_iff ndpi_is_valid_protoId_def)
  then show ?thesis using assms(4,5) by (simp add: tables_of_def fun_eq_iff)
qed

lemma update_frame:
  assumes "tables_fine m"
  shows "only_tables m (m\<lparr>proto_defaults := ds\<rparr>)" "length ds = length (proto_defaults m) \<Longrightarrow> tables_fine (m\<lparr>proto_defaults := ds\<rparr>)"
  using assms by (simp_all add: only_tables_def tables_fine_def)

lemma only_tables_trans: "only_tables a b \<Longrightarrow> only_tables b c \<Longrightarrow> only_tables a c"
  unfolding only_tables_def by (cases a, cases b, cases c) simp

lemma only_tables_refl: "only_tables a a"
  by (simp add: only_tables_def)

lemma set_defaults_step:
  assumes "memory_ok env" "tables_fine m" "table_fine (tables_of m)"
    "call_fine (Set_defaults cleartext breed p name cat ts us)"
  shows "\<exists>m'. ndpi_set_proto_defaults env cleartext breed p (Some (str name)) cat (five ts) (five us) m = Some m'
    \<and> only_tables m m' \<and> tables_fine m' \<and> tables_of m' = table_step (Set_defaults cleartext breed p name cat ts us) (tables_of m)"
proof -
  let ?d = "tbl_defaults (tables_of m) p"
  have v: "ndpi_is_valid_protoId p" using assms(4) by (simp add: below_valid)
  note d = valid_default [OF assms(2) v]
  note pt = five_ports [of ts] and pu = five_ports [of us]
  have f: "ports_fine ts" "ports_fine us" using assms(4) by simp_all
  show ?thesis
  proof (cases "protoName ?d")
    case (Some n)
    then show ?thesis using v d(1) assms(2) by (simp add: ndpi_set_proto_defaults_def only_tables_refl)
  next
    case None
    let ?d1 = "?d\<lparr>isClearTextProto := cleartext, protoName := Some (str name), protoCategory := cat,
                protoId := p, protoBreed := breed, subprotocols := [], subprotocol_count := 0\<rparr>"
    let ?m1 = "m\<lparr>proto_defaults := (proto_defaults m)[unat p := ?d1]\<rparr>"
    have m1: "only_tables m ?m1" "tables_fine ?m1" "proto_defaults ?m1 ! unat p = ?d1"
      using update_frame [OF assms(2)] d(2) by auto
    have l: "length (tcp_default_ports ?d1) = 5" "length (udp_default_ports ?d1) = 5"
      using assms(3) by (simp_all add: table_fine_def Let_def)
    have "\<exists>m'. set_ports_loop env p 0 (five ts) (five us) ?m1 = Some m' \<and> only_tables ?m1 m' \<and> tables_fine m'
      \<and> owner (tcpRoot m') = take_ports p (fst ` set (five ts) - {0}) (owner (tcpRoot ?m1))
      \<and> owner (udpRoot m') = take_ports p (fst ` set (five us) - {0}) (owner (udpRoot ?m1))
      \<and> proto_defaults m' = (proto_defaults ?m1)[unat p := (proto_defaults ?m1 ! unat p)
          \<lparr>tcp_default_ports := take 0 (tcp_default_ports (proto_defaults ?m1 ! unat p)) @ map fst (five ts),
           udp_default_ports := take 0 (udp_default_ports (proto_defaults ?m1 ! unat p)) @ map fst (five us)\<rparr>]"
      using pt [OF f(1)] pu [OF f(2)] l unfolding m1(3)
      by (intro set_ports_loop_ok [OF assms(1) m1(2) v, unfolded m1(3)]) simp_all
    then obtain m' where m': "set_ports_loop env p 0 (five ts) (five us) ?m1 = Some m'" "only_tables ?m1 m'" "tables_fine m'"
      "owner (tcpRoot m') = take_ports p (set ts - {0}) (owner (tcpRoot m))"
      "owner (udpRoot m') = take_ports p (set us - {0}) (owner (udpRoot m))"
      "proto_defaults m' = (proto_defaults m)[unat p := ?d1\<lparr>tcp_default_ports := ts, udp_default_ports := us\<rparr>]"
      unfolding m1(3) pt(4) [OF f(1)] pu(4) [OF f(2)] by (auto simp: pt(2) [OF f(1)] pu(2) [OF f(2)])
    have "tables_of m' = table_step (Set_defaults cleartext breed p name cat ts us) (tables_of m)"
      using update_default [OF assms(2) v m'(6,4,5)] None by (simp add: tables_of_def)
    then show ?thesis using m' v d(1) None only_tables_trans [OF m1(1) m'(2)] assms(1)
      by (simp add: ndpi_set_proto_defaults_def ndpi_strdup_def memory_ok_def Let_def)
  qed
qed

lemma set_subprotocols_step:
  assumes "memory_ok env" "tables_fine m" "call_fine (Set_subprotocols p subs)"
    "subprotocol_count (tbl_defaults (tables_of m) p) = 0"
  shows "\<exists>m'. ndpi_set_proto_subprotocols env p subs m = Some m' \<and> only_tables m m' \<and> tables_fine m'
    \<and> tables_of m' = table_step (Set_subprotocols p subs) (tables_of m)"
proof -
  have v: "ndpi_is_valid_protoId p" using assms(3) by (simp add: below_valid)
  note d = valid_default [OF assms(2) v]
  have n: "word_of_nat (length subs) \<noteq> (0 :: u32)" using assms(3) by (simp add: word_unat_eq_iff unat_of_nat)
  let ?d = "(tbl_defaults (tables_of m) p)\<lparr>subprotocols := subs, subprotocol_count := word_of_nat (length subs)\<rparr>"
  let ?m = "m\<lparr>proto_defaults := (proto_defaults m)[unat p := ?d]\<rparr>"
  have "ndpi_set_proto_subprotocols env p subs m = Some ?m"
    using d(1) n assms(1,4) by (simp add: ndpi_set_proto_subprotocols_def memory_ok_def)
  moreover have "tables_of ?m = table_step (Set_subprotocols p subs) (tables_of m)"
    using update_default [OF assms(2) v, of ?m ?d] by (simp add: tables_of_def)
  ultimately show ?thesis using update_frame [OF assms(2)] by auto
qed

lemma table_step_fine: "call_fine c \<Longrightarrow> table_fine t \<Longrightarrow> table_fine (table_step c t)"
  by (cases c) (auto simp: table_fine_def Let_def default_ok_def ports_fine_def unat_of_nat size_defs plain_name_ok)

lemma host_step_fine: "host_fine h \<Longrightarrow> table_fine t \<Longrightarrow> table_fine (host_step h t)"
  by (auto simp: table_fine_def Let_def host_step_def default_ok_def host_fine_def plain_name_ok)

fun with_subprotocols :: "table_call list \<Rightarrow> u16 list" where
  "with_subprotocols [] = []"
| "with_subprotocols (Set_subprotocols p subs # cs) = p # with_subprotocols cs"
| "with_subprotocols (Set_defaults cleartext breed p name cat ts us # cs) = with_subprotocols cs"

fun default_ids :: "table_call list \<Rightarrow> u16 list" where
  "default_ids [] = []"
| "default_ids (Set_subprotocols p subs # cs) = default_ids cs"
| "default_ids (Set_defaults cleartext breed p name cat ts us # cs) = p # default_ids cs"

lemma run_defaults_steps:
  assumes "memory_ok env" "tables_fine m" "table_fine (tables_of m)" "list_all call_fine cs"
    "distinct (with_subprotocols cs)" "\<forall>p \<in> set (with_subprotocols cs). subprotocol_count (tbl_defaults (tables_of m) p) = 0"
  shows "\<exists>m'. run_defaults env cs m = Some m' \<and> only_tables m m' \<and> tables_fine m'
    \<and> tables_of m' = fold table_step cs (tables_of m) \<and> table_fine (tables_of m')"
  using assms(2-)
proof (induction cs arbitrary: m)
  case Nil
  then show ?case by (simp add: only_tables_refl)
next
  case (Cons c cs)
  have c: "call_fine c" using Cons.prems(3) by simp
  have "\<exists>m1. default_call env c m = Some m1 \<and> only_tables m m1 \<and> tables_fine m1 \<and> tables_of m1 = table_step c (tables_of m)"
  proof (cases c)
    case (Set_defaults cleartext breed p name cat ts us)
    then show ?thesis using set_defaults_step [OF assms(1) Cons.prems(1,2)] c by simp
  next
    case (Set_subprotocols p subs)
    then show ?thesis using set_subprotocols_step [OF assms(1) Cons.prems(1)] c Cons.prems(5) by simp
  qed
  then obtain m1 where m1: "default_call env c m = Some m1" "only_tables m m1" "tables_fine m1" "tables_of m1 = table_step c (tables_of m)"
    by blast
  have "\<exists>m'. run_defaults env cs m1 = Some m' \<and> only_tables m1 m' \<and> tables_fine m'
    \<and> tables_of m' = fold table_step cs (tables_of m1) \<and> table_fine (tables_of m')"
  proof (rule Cons.IH)
    show "table_fine (tables_of m1)" unfolding m1(4) by (rule table_step_fine [OF c Cons.prems(2)])
    show "distinct (with_subprotocols cs)" using Cons.prems(4) by (cases c) simp_all
    show "\<forall>p \<in> set (with_subprotocols cs). subprotocol_count (tbl_defaults (tables_of m1) p) = 0"
      using Cons.prems(4,5) by (cases c) (auto simp: m1(4))
  qed (use Cons.prems m1 in simp_all)
  then show ?case using m1 only_tables_trans [OF m1(2)] by auto
qed

lemma domain_level_returns: "0 \<in> set s \<Longrightarrow> domain_level_loop s l st \<noteq> None"
  by (induction s arbitrary: l st) (auto simp: Let_def)

lemma add_host_returns:
  "\<exists>rc a. ndpi_add_host_url_subprotocol env m s p cat breed level = Some (rc, m\<lparr>host_automa := a\<rparr>)"
proof -
  have "ndpi_domain_level (cstr s) \<noteq> None"
    using domain_level_returns [of "cstr s" 1 0] by (auto simp: ndpi_domain_level_def cstr_def split: option.splits)
  then obtain l where "ndpi_domain_level (cstr s) = Some l" by blast
  then have "\<exists>rc a. ndpi_string_to_automa env x (Some s) p cat breed level True = Some (rc, a)" for x
    by (cases x) (auto simp: ndpi_string_to_automa_def Let_def split: option.split prod.split)
  then obtain rc a where "ndpi_string_to_automa env (host_automa m) (Some s) p cat breed level True = Some (rc, a)" by blast
  then show ?thesis by (auto simp: ndpi_add_host_url_subprotocol_def)
qed

text \<open>Modules that differ in their tables and their automata at most.\<close>

definition only_set_up :: "ndpi_module \<Rightarrow> ndpi_module \<Rightarrow> bool" where
  "only_set_up m m' \<longleftrightarrow>
     m' = m\<lparr>tcpRoot := tcpRoot m', udpRoot := udpRoot m', proto_defaults := proto_defaults m', host_automa := host_automa m',
            hostnames_automa := hostnames_automa m', ipAddresses_ptree := ipAddresses_ptree m',
            categories_loaded := categories_loaded m'\<rparr>"

lemma only_set_up_trans: "only_set_up a b \<Longrightarrow> only_set_up b c \<Longrightarrow> only_set_up a c"
  unfolding only_set_up_def by (cases a, cases b, cases c) simp

lemma only_tables_set_up: "only_tables a b \<Longrightarrow> only_set_up a b"
  unfolding only_set_up_def only_tables_def by (cases a, cases b) simp

lemma automa_frame: "tables_fine (m\<lparr>host_automa := a\<rparr>) = tables_fine m" "tables_of (m\<lparr>host_automa := a\<rparr>) = tables_of m"
  by (simp_all add: tables_fine_def tables_of_def cong: if_cong)

lemma host_step_ok:
  assumes "memory_ok (tables_libc env)" "tables_fine m" "host_fine h"
  shows "\<exists>m'. ndpi_init_protocol_match env h m = Some m' \<and> only_set_up m m' \<and> tables_fine m'
    \<and> tables_of m' = host_step h (tables_of m)"
proof -
  let ?p = "match_protocol_id h"
  let ?d = "tbl_defaults (tables_of m) ?p"
  have v: "ndpi_is_valid_protoId ?p" using assms(3) by (simp add: host_fine_def below_valid)
  note d = valid_default [OF assms(2) v]
  let ?d1 = "?d\<lparr>protoName := Some (str (proto_name h)), protoId := ?p, protoCategory := match_protocol_category h,
                protoBreed := match_protocol_breed h\<rparr>"
  let ?m1 = "if protoName ?d = None then m\<lparr>proto_defaults := (proto_defaults m)[unat ?p := ?d1]\<rparr> else m"
  have f: "only_tables m ?m1" "tables_fine ?m1" using update_frame [OF assms(2)] assms(2) by (auto simp: only_tables_refl)
  have t: "tables_of ?m1 = host_step h (tables_of m)"
    using update_default [OF assms(2) v, of ?m1 ?d1] by (auto simp: host_step_def Let_def tables_of_def)
  have d1: "defaults_of (m\<lparr>proto_defaults := (proto_defaults m)[unat ?p := ?d1]\<rparr>) ?p = Some ?d1"
    using d(2) by (simp add: defaults_of_def at_def)
  obtain rc a where a: "ndpi_add_host_url_subprotocol env ?m1 (str (string_to_match h)) ?p (match_protocol_category h)
      (match_protocol_breed h) (match_level h mod 256) = Some (rc, ?m1\<lparr>host_automa := a\<rparr>)"
    using add_host_returns by blast
  have "ndpi_init_protocol_match env h m = Some (?m1\<lparr>host_automa := a\<rparr>)"
    using a d(1) d1 v assms(1)
    by (auto simp: ndpi_init_protocol_match_def ndpi_set_proto_defaults_def ndpi_strdup_def memory_ok_def Let_def split: if_split_asm)
  moreover have "only_set_up m (?m1\<lparr>host_automa := a\<rparr>)" using only_tables_set_up [OF f(1)] unfolding only_set_up_def by (cases m) simp
  moreover have "tables_fine (?m1\<lparr>host_automa := a\<rparr>)" "tables_of (?m1\<lparr>host_automa := a\<rparr>) = tables_of ?m1"
    using f(2) by (simp_all only: automa_frame)
  ultimately show ?thesis using t by metis
qed

lemma init_hosts_steps:
  assumes "memory_ok (tables_libc env)" "tables_fine m" "table_fine (tables_of m)" "list_all host_fine hs"
  shows "\<exists>m'. init_hosts env hs m = Some m' \<and> only_set_up m m' \<and> tables_fine m'
    \<and> tables_of m' = fold host_step hs (tables_of m) \<and> table_fine (tables_of m')"
  using assms(2-)
proof (induction hs arbitrary: m)
  case Nil
  then show ?case by (simp add: only_set_up_def)
next
  case (Cons h hs)
  have h: "host_fine h" using Cons.prems(3) by simp
  obtain m1 where m1: "ndpi_init_protocol_match env h m = Some m1" "only_set_up m m1" "tables_fine m1" "tables_of m1 = host_step h (tables_of m)"
    using host_step_ok [OF assms(1) Cons.prems(1) h] by blast
  have "\<exists>m'. init_hosts env hs m1 = Some m' \<and> only_set_up m1 m' \<and> tables_fine m'
    \<and> tables_of m' = fold host_step hs (tables_of m1) \<and> table_fine (tables_of m')"
  proof (rule Cons.IH)
    show "table_fine (tables_of m1)" unfolding m1(4) by (rule host_step_fine [OF h Cons.prems(2)])
  qed (use Cons.prems m1 in simp_all)
  then show ?case using m1 only_set_up_trans [OF m1(2)] by auto
qed

section \<open>The contents of the tables\<close>

definition zero_tables :: module_tables where
  "zero_tables = \<lparr>tbl_defaults = (\<lambda>_. zero_default), tbl_tcp = (\<lambda>_. None), tbl_udp = (\<lambda>_. None)\<rparr>"

definition initial_tables :: module_tables where
  "initial_tables = fold host_step host_match (fold table_step default_calls zero_tables)"

lemma default_calls_fine: "list_all call_fine default_calls"
  by (simp add: default_calls_def default_calls_1_def default_calls_2_def default_calls_3_def default_calls_4_def
      default_calls_5_def default_calls_6_def default_calls_7_def ports_fine_def size_defs plain_name_def)

lemma subprotocols_once: "distinct (with_subprotocols default_calls)"
  by (simp add: default_calls_def default_calls_1_def default_calls_2_def default_calls_3_def default_calls_4_def
      default_calls_5_def default_calls_6_def default_calls_7_def)

lemma host_match_fine: "list_all host_fine host_match"
  by (simp add: host_match_def host_match_1_def host_match_2_def host_match_3_def host_match_4_def host_match_5_def
      host_match_6_def host_fine_def size_defs plain_name_def)

lemma default_ids_listed: "map uint (default_ids default_calls) =
    [0, 1, 175, 2, 23, 3, 29, 4, 51, 5, 6, 216, 7, 8, 9, 10, 11, 12, 13, 14, 15, 16, 17, 18, 19, 20, 22, 24, 25, 68, 69, 26, 28, 32, 33, 34, 35, 36, 37,
     125, 126, 38, 49, 214, 197, 40, 41, 42, 43, 44, 45, 46, 39, 196, 205, 206, 54, 47, 231, 48, 50, 52, 53, 55, 56, 57, 58, 59, 61, 62, 63, 64, 65, 66,
     67, 71, 73, 74, 75, 76, 215, 77, 78, 79, 80, 81, 82, 83, 84, 85, 86, 87, 88, 89, 90, 189, 242, 142, 91, 30, 92, 93, 94, 95, 97, 137, 138, 98, 99, 100,
     101, 102, 103, 104, 105, 106, 107, 108, 109, 110, 111, 112, 113, 114, 115, 116, 117, 127, 128, 129, 130, 131, 132, 141, 146, 148, 150, 151, 152, 272,
     271, 273, 153, 278, 185, 188, 237, 238, 121, 156, 157, 236, 190, 194, 198, 154, 155, 158, 159, 160, 161, 162, 163, 164, 165, 166, 167, 168, 169, 170,
     171, 172, 96, 174, 183, 181, 182, 177, 184, 213, 31, 144, 27, 222, 229, 223, 226, 227, 201, 204, 207, 191, 192, 208, 209, 230, 173, 235, 139, 243,
     240, 244, 245, 246, 247, 248, 249, 250, 251, 252, 253, 60, 254, 255, 256, 257, 258, 259, 260, 261, 262, 263, 264, 268, 269, 276]"
  by (simp add: default_calls_def default_calls_1_def default_calls_2_def default_calls_3_def default_calls_4_def
      default_calls_5_def default_calls_6_def default_calls_7_def)

lemma host_ids_listed: "map (uint \<circ> match_protocol_id) host_match =
    [240, 240, 240, 240, 240, 240, 240, 240, 240, 240, 240, 178, 178, 178, 178, 265, 178, 265, 265, 265, 148, 246, 246, 266, 140, 140, 140, 140, 140, 140,
     140, 140, 140, 140, 140, 140, 238, 238, 143, 143, 143, 143, 224, 224, 224, 224, 224, 224, 224, 224, 145, 145, 254, 231, 231, 47, 47, 47, 47, 231, 231,
     231, 180, 180, 121, 121, 121, 121, 179, 179, 179, 179, 179, 179, 179, 211, 211, 211, 211, 211, 211, 119, 119, 119, 119, 119, 119, 119, 119, 119, 191,
     191, 26, 241, 241, 217, 217, 228, 46, 46, 196, 196, 196, 196, 196, 196, 196, 196, 196, 196, 196, 196, 196, 196, 196, 196, 196, 196, 196, 196, 196,
     196, 196, 196, 196, 196, 196, 196, 196, 196, 196, 196, 196, 196, 196, 196, 196, 196, 196, 196, 196, 196, 196, 196, 196, 196, 196, 196, 196, 196, 196,
     196, 196, 196, 196, 196, 196, 196, 196, 196, 196, 196, 196, 196, 196, 196, 126, 126, 126, 126, 126, 126, 126, 126, 126, 126, 201, 239, 239, 239, 239,
     72, 72, 126, 126, 123, 123, 122, 122, 122, 126, 126, 126, 126, 126, 126, 21, 134, 133, 133, 133, 133, 133, 133, 133, 125, 125, 125, 125, 125, 125,
     125, 125, 125, 125, 125, 125, 149, 120, 120, 120, 144, 144, 144, 176, 176, 176, 176, 242, 242, 242, 242, 142, 142, 142, 142, 70, 70, 70, 136, 136,
     124, 124, 124, 124, 124, 124, 124, 124, 124, 186, 156, 156, 156, 156, 156, 156, 156, 156, 156, 156, 156, 156, 156, 156, 157, 157, 157, 157, 187, 163,
     193, 195, 195, 195, 195, 195, 48, 48, 200, 200, 200, 200, 200, 200, 199, 199, 199, 199, 199, 199, 199, 199, 199, 199, 135, 135, 210, 212, 212, 212,
     212, 212, 212, 212, 212, 212, 212, 212, 212, 212, 212, 212, 212, 212, 212, 212, 212, 212, 212, 212, 212, 212, 212, 212, 212, 212, 212, 212, 212, 212,
     212, 212, 212, 212, 212, 212, 212, 212, 212, 212, 212, 212, 276, 276, 276, 276, 276, 250, 250, 250, 250, 250, 250, 250, 250, 221, 221, 221, 221, 147,
     147, 147, 147, 147, 147, 147, 147, 147, 147, 147, 147, 147, 147, 147, 147, 147, 147, 147, 76, 215, 215, 215, 141, 189, 218, 218, 218, 218, 202, 202,
     202, 219, 219, 219, 219, 219, 219, 219, 219, 219, 219, 219, 219, 219, 219, 219, 219, 219, 220, 220, 220, 225, 225, 118, 118, 118, 118, 118, 118, 118,
     118, 203, 203, 203, 203, 203, 203, 262, 262, 262, 262, 262, 74, 74, 74, 74, 74, 197, 197, 197, 197, 197, 197, 197, 208, 37, 37, 37, 173, 173, 231,
     231, 231, 233, 233, 234, 234, 234, 185, 185, 185, 232, 232, 54, 54, 137, 137, 137, 137, 137, 137, 54, 54, 169, 169, 39, 39, 49, 49, 49, 49, 49, 49,
     49, 49, 49, 49, 49, 49, 49, 49, 49, 49, 49, 49, 49, 49, 49, 49, 49, 49, 190, 190, 252, 58, 58, 58, 58, 58, 110, 110, 110, 110, 110, 110, 110, 110,
     110, 110, 110, 110, 110, 110, 110, 110, 110, 110, 110, 110, 110, 90, 205, 205, 205, 205, 205, 183, 183, 183, 183, 183, 71, 71, 71, 71, 71, 71, 71, 71,
     71, 261, 261, 261, 261, 261, 261, 261, 261, 261, 258, 258, 267, 267, 267, 275, 270, 270, 270, 274, 274, 274, 274, 274, 274, 277, 277, 277, 279, 279,
     279, 280, 280, 55, 55, 55, 281]"
  by (simp add: host_match_def host_match_1_def host_match_2_def host_match_3_def host_match_4_def host_match_5_def
      host_match_6_def)

text \<open>The protocols that only the table of hosts names.\<close>

definition host_only :: "int list" where
  "host_only = [178, 265, 266, 140, 143, 224, 145, 180, 179, 211, 119, 241, 217, 228, 239, 72, 123, 122, 21, 134, 133, 149, 120, 176, 70, 136, 124, 186, 187, 193,
     195, 200, 199, 135, 210, 212, 221, 147, 218, 202, 219, 220, 225, 118, 203, 233, 234, 232, 267, 275, 270, 274, 277, 279, 280, 281]"

lemma host_only_listed: "set host_only \<subseteq> set (map (uint \<circ> match_protocol_id) host_match)"
  unfolding host_ids_listed host_only_def by simp

lemma all_listed: "sort (map uint (default_ids default_calls) @ host_only) = [0..281]"
  unfolding default_ids_listed host_only_def by code_simp

lemma named_by_calls:
  "protoName (tbl_defaults (fold table_step cs t) p) \<noteq> None \<longleftrightarrow> protoName (tbl_defaults t p) \<noteq> None \<or> p \<in> set (default_ids cs)"
proof (induction cs arbitrary: t)
  case (Cons c cs)
  show ?case unfolding fold_Cons o_apply Cons.IH by (cases c) auto
qed simp

lemma named_by_hosts:
  "protoName (tbl_defaults (fold host_step hs t) p) \<noteq> None
    \<longleftrightarrow> protoName (tbl_defaults t p) \<noteq> None \<or> p \<in> match_protocol_id ` set hs"
proof (induction hs arbitrary: t)
  case (Cons h hs)
  show ?case unfolding fold_Cons o_apply Cons.IH by (auto simp: host_step_def Let_def)
qed simp

lemma supported_named: "unat p < 282 \<Longrightarrow> protoName (tbl_defaults initial_tables p) \<noteq> None"
proof -
  assume p: "unat p < 282"
  have "0 \<le> int (unat p)" "int (unat p) \<le> 281" using p by linarith+
  then have "uint p \<in> {0..281}" unfolding uint_nat atLeastAtMost_iff by (rule conjI)
  moreover have "set (map uint (default_ids default_calls) @ host_only) = {0..281}"
    using arg_cong [OF all_listed, where f = set] unfolding set_sort set_upto .
  ultimately have "uint p \<in> set (map uint (default_ids default_calls) @ host_only)" by (simp only:)
  then have "uint p \<in> uint ` (set (default_ids default_calls) \<union> match_protocol_id ` set host_match)"
    using host_only_listed by auto
  then obtain x where x: "uint p = uint x" "x \<in> set (default_ids default_calls) \<union> match_protocol_id ` set host_match"
    by (rule imageE)
  from x(1) have "p = x" by (rule unsigned_word_eqI)
  then have "p \<in> set (default_ids default_calls) \<union> match_protocol_id ` set host_match" using x(2) by (simp only:)
  then show ?thesis unfolding initial_tables_def named_by_hosts named_by_calls by blast
qed

lemma zero_tables_fine: "table_fine zero_tables"
  by (simp add: zero_tables_def table_fine_def zero_default_def default_ok_def Let_def)

lemma zeroed_tables: "tables_of (zero_module\<lparr>protocols_ptree := t, tcp_max_retransmission_window_size := w,
    ndpi_num_supported_protocols := n, ndpi_num_custom_protocols := c, host_automa := a, host_risk_mask_automa := b,
    hostnames_automa := h, proto_defaults := replicate k zero_default\<rparr>) = zero_tables"
  if "k = NDPI_MAX_SUPPORTED_PROTOCOLS + NDPI_MAX_NUM_CUSTOM_PROTOCOLS"
  using that by (auto simp: tables_of_def zero_tables_def owner_def port_map_def look_by_def zero_module_def ndpi_is_valid_protoId_def fun_eq_iff)

lemma custom_label_ok: "i < 5 \<Longrightarrow> length (custom_label i) = 32 \<and> 0 \<in> set (custom_label i)"
  by (auto simp: custom_label_def Let_def)

section \<open>The initialised module\<close>

lemma init_defaults_ok:
  assumes "memory_ok (tables_libc env)" "tables_fine (m\<lparr>proto_defaults := zs\<rparr>)" "tables_of (m\<lparr>proto_defaults := zs\<rparr>) = zero_tables"
    "ndpi_num_supported_protocols m = NDPI_MAX_SUPPORTED_PROTOCOLS"
    "zs = replicate (NDPI_MAX_SUPPORTED_PROTOCOLS + NDPI_MAX_NUM_CUSTOM_PROTOCOLS) zero_default"
  shows "\<exists>m'. ndpi_init_protocol_defaults env m = Some m' \<and> only_set_up (m\<lparr>proto_defaults := zs\<rparr>) m' \<and> tables_fine m'
    \<and> tables_of m' = initial_tables \<and> table_fine (tables_of m')"
proof -
  let ?m = "m\<lparr>proto_defaults := zs\<rparr>"
  have z: "table_fine (tables_of ?m)" using zero_tables_fine assms(3) by simp
  have c: "\<forall>p \<in> set (with_subprotocols default_calls). subprotocol_count (tbl_defaults (tables_of ?m) p) = 0"
    unfolding assms(3) by (simp add: zero_tables_def zero_default_def)
  obtain m1 where m1: "run_defaults (tables_libc env) default_calls ?m = Some m1" "only_tables ?m m1" "tables_fine m1"
      "tables_of m1 = fold table_step default_calls zero_tables" "table_fine (tables_of m1)"
    using run_defaults_steps [OF assms(1,2) z default_calls_fine subprotocols_once c] unfolding assms(3) by blast
  obtain m2 where m2: "init_hosts env host_match m1 = Some m2" "only_set_up m1 m2" "tables_fine m2"
      "tables_of m2 = initial_tables" "table_fine (tables_of m2)"
    using init_hosts_steps [OF assms(1) m1(3,5) host_match_fine] unfolding m1(4) initial_tables_def by blast
  let ?m3 = "ndpi_enable_loaded_categories env m2"
  have t: "tables_of ?m3 = tables_of m2" "tables_fine ?m3 = tables_fine m2" "ndpi_num_supported_protocols ?m3 = ndpi_num_supported_protocols m2"
    by (simp_all add: ndpi_enable_loaded_categories_def tables_of_def tables_fine_def cong: if_cong)
  have s: "only_set_up ?m m2" using only_set_up_trans [OF only_tables_set_up [OF m1(2)] m2(2)] .
  have s3: "only_set_up ?m ?m3" using s unfolding only_set_up_def ndpi_enable_loaded_categories_def by (cases m, cases m2) simp
  have "ndpi_num_supported_protocols m2 = NDPI_MAX_SUPPORTED_PROTOCOLS"
    using s assms(4) unfolding only_set_up_def by (cases m, cases m2) simp
  then have "ndpi_validate_protocol_initialization ?m3 \<noteq> None"
    using m2(3) t known_risks_count by (simp add: ndpi_validate_protocol_initialization_def tables_fine_def)
  then show ?thesis using m1(1) m2 t s3
    by (auto simp: ndpi_init_protocol_defaults_def init_string_based_protocols_def assms(5) [symmetric])
qed

lemma initialised:
  assumes "memory_ok (tables_libc env)" "module_memory env"
  obtains m where "ndpi_init_detection_module env = Some (Some m)" "tables_fine m" "tables_of m = initial_tables"
    "table_fine (tables_of m)" "labels_ok m" "ndpi_num_supported_protocols m = NDPI_MAX_SUPPORTED_PROTOCOLS"
    "callback_buffer m = callback_buffer zero_module" "callback_buffers m = callback_buffers zero_module"
    "ac_automa_finalized m = False"
proof -
  let ?zs = "replicate (NDPI_MAX_SUPPORTED_PROTOCOLS + NDPI_MAX_NUM_CUSTOM_PROTOCOLS) zero_default"
  let ?m = "zero_module\<lparr>protocols_ptree := loaded_ptree env, tcp_max_retransmission_window_size := 0x10000,
    ndpi_num_supported_protocols := NDPI_MAX_SUPPORTED_PROTOCOLS, ndpi_num_custom_protocols := 0,
    host_automa := ac_automata_init env, host_risk_mask_automa := ac_automata_init env, hostnames_automa := ac_automata_init env\<rparr>"
  have f: "tables_fine (?m\<lparr>proto_defaults := ?zs\<rparr>)" by (simp add: tables_fine_def zero_module_def sorted_by_def)
  obtain m where m: "ndpi_init_protocol_defaults env ?m = Some m" "only_set_up (?m\<lparr>proto_defaults := ?zs\<rparr>) m" "tables_fine m"
    "tables_of m = initial_tables" "table_fine (tables_of m)"
    using init_defaults_ok [OF assms(1) f] zeroed_tables by auto
  let ?r = "m\<lparr>custom_category_labels := map custom_label [0..<5]\<rparr>"
  have "tables_of ?r = tables_of m" "tables_fine ?r = tables_fine m" by (simp_all add: tables_of_def tables_fine_def cong: if_cong)
  moreover have "labels_ok ?r" using custom_label_ok by (simp add: labels_ok_def)
  moreover have "ndpi_num_supported_protocols m = NDPI_MAX_SUPPORTED_PROTOCOLS" "callback_buffer m = callback_buffer zero_module"
      "callback_buffers m = callback_buffers zero_module" "ac_automa_finalized m = False"
    by (subst m(2) [unfolded only_set_up_def], simp add: zero_module_def)+
  moreover have "ndpi_init_detection_module env = Some (Some ?r)"
    using m(1) assms(2) categories_plain(2) by (simp add: ndpi_init_detection_module_def)
  ultimately show ?thesis using m that [of ?r] by simp
qed

section \<open>Properties\<close>

lemma tables_registered:
  assumes "tables_fine m" "table_fine (tables_of m)" "callback_buffer m = callback_buffer zero_module"
    "callback_buffers m = callback_buffers zero_module"
  shows "registered_ok NDPI_ZERO m" "\<forall>d \<in> set (proto_defaults m). \<forall>n. protoName d = Some n \<longrightarrow> text_ok 40 n"
proof -
  have d: "default_ok d \<and> (\<forall>n. protoName d = Some n \<longrightarrow> text_ok 40 n)" if element: "d \<in> set (proto_defaults m)" for d
  proof -
    obtain i where i: "d = proto_defaults m ! i" "i < length (proto_defaults m)" using element unfolding in_set_conv_nth by blast
    let ?p = "word_of_nat i :: u16"
    have p: "unat ?p = i" "ndpi_is_valid_protoId ?p"
      using i(2) assms(1) by (simp_all add: tables_fine_def size_defs unat_of_nat ndpi_is_valid_protoId_def)
    then have "d = tbl_defaults (tables_of m) ?p" using i(1) by (simp add: tables_of_def)
    then show ?thesis using assms(2) by (simp add: table_fine_def Let_def)
  qed
  then show "registered_ok NDPI_ZERO m" using zero_module_ok assms(1,3,4) by (simp add: registered_ok_def tables_fine_def)
  show "\<forall>d \<in> set (proto_defaults m). \<forall>n. protoName d = Some n \<longrightarrow> text_ok 40 n" using d by blast
qed

lemma supported_default:
  assumes "tables_fine m" "tables_of m = initial_tables" "table_fine (tables_of m)" "unat p < NDPI_MAX_SUPPORTED_PROTOCOLS"
  shows "\<exists>d n. defaults_of m p = Some d \<and> protoId d = p \<and> protoName d = Some n \<and> (p \<noteq> 0 \<longrightarrow> protoCategory d \<noteq> 0)"
proof -
  have "protoName (tbl_defaults (tables_of m) p) \<noteq> None" using supported_named [of p] assms(2,4) by (simp add: size_defs)
  then show ?thesis using valid_default(1) [OF assms(1) below_valid [OF assms(4)]] assms(3) by (auto simp: table_fine_def Let_def)
qed

text \<open>
  C12. Creation of a module. When there is memory, the tables are filled without an access outside an
  array and without an endless loop over a range of ports. The module satisfies the invariant of
  the engine, its trees of ports are sorted, its tables are those that the calls and the host names
  describe, every supported protocol has its own identifier, a name, which is a string, and (except the unknown
  one) a category, so that the check at the end finds nothing to complain about.
\<close>

theorem module_initialised:
  assumes "memory_ok (tables_libc env)" "module_memory env"
  shows "\<exists>m. ndpi_init_detection_module env = Some (Some m) \<and> registered_ok NDPI_ZERO m
    \<and> ports_sorted (tcpRoot m) \<and> ports_sorted (udpRoot m) \<and> tables_of m = initial_tables \<and> labels_ok m
    \<and> (\<forall>d \<in> set (proto_defaults m). \<forall>n. protoName d = Some n \<longrightarrow> text_ok 40 n)
    \<and> (\<forall>p. unat p < NDPI_MAX_SUPPORTED_PROTOCOLS \<longrightarrow>
         (\<exists>d n. defaults_of m p = Some d \<and> protoId d = p \<and> protoName d = Some n \<and> (p \<noteq> 0 \<longrightarrow> protoCategory d \<noteq> 0)))
    \<and> ndpi_validate_protocol_initialization m = Some []"
proof -
  obtain m where m: "ndpi_init_detection_module env = Some (Some m)" "tables_fine m" "tables_of m = initial_tables"
    "table_fine (tables_of m)" "labels_ok m" "ndpi_num_supported_protocols m = NDPI_MAX_SUPPORTED_PROTOCOLS"
    "callback_buffer m = callback_buffer zero_module" "callback_buffers m = callback_buffers zero_module"
    using initialised [OF assms] by metis
  note d = supported_default [OF m(2,3,4)]
  have "\<not> (protoName (proto_defaults m ! i) = None \<or> i \<noteq> 0 \<and> protoCategory (proto_defaults m ! i) = 0)"
    if "i < NDPI_MAX_SUPPORTED_PROTOCOLS" for i
  proof -
    have u: "unat (word_of_nat i :: u16) = i" using that by (simp add: size_defs unat_of_nat)
    have "i = 0 \<or> (word_of_nat i :: u16) \<noteq> 0" using u by auto
    then show ?thesis using d [of "word_of_nat i"] that by (auto simp: u defaults_of_def at_def split: if_splits)
  qed
  then have "filter (\<lambda>i. protoName (proto_defaults m ! i) = None \<or> i \<noteq> 0 \<and> protoCategory (proto_defaults m ! i) = 0)
      [0..<NDPI_MAX_SUPPORTED_PROTOCOLS] = []" by (simp add: filter_empty_conv)
  then have "ndpi_validate_protocol_initialization m = Some []"
    using m(2,6) known_risks_count by (simp add: ndpi_validate_protocol_initialization_def tables_fine_def)
  then show ?thesis using m d tables_registered [OF m(2,4,7,8)] by (auto simp: tables_fine_def)
qed

definition idle_tables :: tables_env where
  "idle_tables = \<lparr>tables_libc = \<lparr>char_signed = True, alloc_ok = (\<lambda>_. True), indet = (\<lambda>_. 0)\<rparr>, module_memory = True,
     ac_automata_init = None, ac_automata_add = (\<lambda>p a. (0, a)), ac_automata_finalize = (\<lambda>a. a),
     loaded_ptree = Map.empty, category_hosts = None, category_addresses = Map.empty\<rparr>"

theorem module_initialised_witness:
  "\<exists>m. ndpi_init_detection_module idle_tables = Some (Some m) \<and> registered_ok NDPI_ZERO m
    \<and> ports_sorted (tcpRoot m) \<and> ports_sorted (udpRoot m) \<and> tables_of m = initial_tables \<and> labels_ok m
    \<and> (\<forall>d \<in> set (proto_defaults m). \<forall>n. protoName d = Some n \<longrightarrow> text_ok 40 n)
    \<and> (\<forall>p. unat p < NDPI_MAX_SUPPORTED_PROTOCOLS \<longrightarrow>
         (\<exists>d n. defaults_of m p = Some d \<and> protoId d = p \<and> protoName d = Some n \<and> (p \<noteq> 0 \<longrightarrow> protoCategory d \<noteq> 0)))
    \<and> ndpi_validate_protocol_initialization m = Some []"
  by (rule module_initialised) (simp_all add: idle_tables_def memory_ok_def)

text \<open>The ports that the calls claim for their protocols, in order.\<close>

fun claims :: "bool \<Rightarrow> table_call list \<Rightarrow> (u16 \<times> u16) list" where
  "claims over_tcp [] = []"
| "claims over_tcp (Set_subprotocols p subs # cs) = claims over_tcp cs"
| "claims over_tcp (Set_defaults cleartext breed p name cat ts us # cs) =
     map (\<lambda>q. (q, p)) (filter (\<lambda>q. q \<noteq> 0) (if over_tcp then ts else us)) @ claims over_tcp cs"

definition last_claim :: "bool \<Rightarrow> table_call list \<Rightarrow> u16 \<Rightarrow> u16 option" where
  "last_claim over_tcp cs = map_of (rev (claims over_tcp cs))"

lemma map_of_same: "map_of (rev (map (\<lambda>q. (q, p)) qs)) q = (if q \<in> set qs then Some p else None)"
  by (induction qs) (auto simp: map_add_def split: option.splits)

lemma owners_are_claims:
  assumes "distinct (default_ids cs)" "\<forall>p \<in> set (default_ids cs). protoName (tbl_defaults t p) = None"
  shows "tbl_tcp (fold table_step cs t) q = (case last_claim True cs q of Some p \<Rightarrow> Some (unat p) | None \<Rightarrow> tbl_tcp t q)"
    "tbl_udp (fold table_step cs t) q = (case last_claim False cs q of Some p \<Rightarrow> Some (unat p) | None \<Rightarrow> tbl_udp t q)"
proof -
  have "tbl_tcp (fold table_step cs t) q = (case last_claim True cs q of Some p \<Rightarrow> Some (unat p) | None \<Rightarrow> tbl_tcp t q)
    \<and> tbl_udp (fold table_step cs t) q = (case last_claim False cs q of Some p \<Rightarrow> Some (unat p) | None \<Rightarrow> tbl_udp t q)"
    using assms
  proof (induction cs arbitrary: t)
    case (Cons c cs)
    show ?case
    proof (cases c)
      case (Set_subprotocols p subs)
      then show ?thesis using Cons by (auto simp: last_claim_def split: option.split)
    next
      case (Set_defaults cleartext breed p name cat ts us)
      have n: "protoName (tbl_defaults t p) = None" using Cons.prems(2) Set_defaults by simp
      have "\<forall>x \<in> set (default_ids cs). protoName (tbl_defaults (table_step c t) x) = None"
        using Cons.prems Set_defaults n by auto
      with Cons.IH [of "table_step c t"] Cons.prems Set_defaults n show ?thesis
        by (auto simp: last_claim_def map_of_append map_add_def map_of_same take_ports_def split: option.splits)
    qed
  qed (simp add: last_claim_def)
  then show "tbl_tcp (fold table_step cs t) q = (case last_claim True cs q of Some p \<Rightarrow> Some (unat p) | None \<Rightarrow> tbl_tcp t q)"
    "tbl_udp (fold table_step cs t) q = (case last_claim False cs q of Some p \<Rightarrow> Some (unat p) | None \<Rightarrow> tbl_udp t q)" by blast+
qed

lemma default_ids_distinct: "distinct (default_ids default_calls)"
proof -
  have "distinct (sort (map uint (default_ids default_calls) @ host_only))" unfolding all_listed by simp
  then have "distinct (map uint (default_ids default_calls) @ host_only)" unfolding distinct_sort .
  then show ?thesis unfolding distinct_append distinct_map by (rule conjunct1 [THEN conjunct1])
qed

lemma hosts_keep_ports: "tbl_tcp (fold host_step hs t) = tbl_tcp t" "tbl_udp (fold host_step hs t) = tbl_udp t"
  by (induction hs arbitrary: t) (auto simp: host_step_def Let_def)

lemma initial_owners:
  "tbl_tcp initial_tables q = map_option unat (last_claim True default_calls q)"
  "tbl_udp initial_tables q = map_option unat (last_claim False default_calls q)"
  using owners_are_claims [OF default_ids_distinct, of zero_tables q]
  by (auto simp: initial_tables_def hosts_keep_ports zero_tables_def zero_default_def split: option.splits)

text \<open>
  C19. What the ports of a flow say. On a module that was just created, the protocol guessed from two
  ports is the one that claimed the lower port last in the table, and, when nobody did, the one that
  claimed the higher port last; the ports of TCP and those of all other protocols are looked up
  separately.
\<close>

theorem default_port_guess:
  assumes "memory_ok (tables_libc env)" "module_memory env" "s \<noteq> 0" "d \<noteq> 0"
  shows "\<exists>m. ndpi_init_detection_module env = Some (Some m)
    \<and> map_option node_proto (ndpi_get_guessed_protocol_id (tcpRoot m) (udpRoot m) proto s d)
      = map_option unat (case last_claim (proto = 6) default_calls (min s d) of
          Some p \<Rightarrow> Some p
        | None \<Rightarrow> last_claim (proto = 6) default_calls (max s d))"
proof -
  obtain m where m: "ndpi_init_detection_module env = Some (Some m)" "tables_fine m" "tables_of m = initial_tables"
    using initialised [OF assms(1,2)] by metis
  have o: "owner (tcpRoot m) = tbl_tcp initial_tables" "owner (udpRoot m) = tbl_udp initial_tables"
    by (simp_all add: m(3) [symmetric] tables_of_def)
  have f: "map_option node_proto (ndpi_tfind port_cmp (port_key q) (if proto = 6 then tcpRoot m else udpRoot m))
      = map_option unat (last_claim (proto = 6) default_calls q)" for q
    using m(2) find_port [of _ q] initial_owners [of q] o by (auto simp: tables_fine_def owner_def fun_eq_iff)
  have "(if s < d then s else d) = min s d" "(if s > d then s else d) = max s d" by (auto simp: min_def max_def)
  then have "map_option node_proto (ndpi_get_guessed_protocol_id (tcpRoot m) (udpRoot m) proto s d)
      = map_option unat (case last_claim (proto = 6) default_calls (min s d) of
          Some p \<Rightarrow> Some p | None \<Rightarrow> last_claim (proto = 6) default_calls (max s d))"
    using f [of "min s d"] f [of "max s d"] assms(3,4)
    by (auto simp: ndpi_get_guessed_protocol_id_def Let_def split: option.splits)
  then show ?thesis using m(1) by blast
qed

text \<open>Port 8009 is claimed by CiscoVPN and later by AJP.\<close>

theorem default_port_guess_witness:
  "\<exists>m. ndpi_init_detection_module idle_tables = Some (Some m)
    \<and> map_option node_proto (ndpi_get_guessed_protocol_id (tcpRoot m) (udpRoot m) 6 50000 8009) = Some (unat NDPI_PROTOCOL_AJP)"
proof -
  have "last_claim True default_calls 8009 = Some NDPI_PROTOCOL_AJP"
    by (simp add: last_claim_def default_calls_def default_calls_1_def default_calls_2_def default_calls_3_def
        default_calls_4_def default_calls_5_def default_calls_6_def default_calls_7_def)
  then show ?thesis using default_port_guess [of idle_tables 50000 8009 6] by (simp add: idle_tables_def memory_ok_def min_def)
qed

section \<open>Finalisation keeps the module\<close>

definition only_automata :: "ndpi_module \<Rightarrow> ndpi_module \<Rightarrow> bool" where
  "only_automata m m' \<longleftrightarrow> m' = m\<lparr>host_automa := host_automa m', host_risk_mask_automa := host_risk_mask_automa m',
     ac_automa_finalized := ac_automa_finalized m'\<rparr>"

lemma add_risk_mask_returns: "\<exists>rc a. ndpi_add_host_risk_mask env host hidden m = Some (rc, m\<lparr>host_risk_mask_automa := a\<rparr>)"
proof -
  have l: "\<exists>l. ndpi_domain_level (cstr s) = Some l" for s
    using domain_level_returns [of "cstr s" 1 0] by (auto simp: ndpi_domain_level_def cstr_def split: option.splits)
  show ?thesis
  proof (cases "host_risk_mask_automa m")
    case None
    then have e: "m\<lparr>host_risk_mask_automa := None\<rparr> = m" by (cases m) simp
    have "ndpi_add_host_risk_mask env host hidden m = Some (-2, m\<lparr>host_risk_mask_automa := None\<rparr>)"
      unfolding e using None by (simp add: ndpi_add_host_risk_mask_def)
    then show ?thesis by blast
  next
    case (Some am)
    then have e: "m\<lparr>host_risk_mask_automa := Some am\<rparr> = m" by (cases m) simp
    obtain l where k: "ndpi_domain_level (cstr (case host of c # t \<Rightarrow> if c = 34 \<or> c = 39 then butlast t else host | [] \<Rightarrow> host)) = Some l"
      using l by blast
    let ?s = "case host of c # t \<Rightarrow> if c = 34 \<or> c = 39 then butlast t else host | [] \<Rightarrow> host"
    show ?thesis
    proof (cases "ndpi_strdup (tables_libc env) (Some ?s)")
      case None
      then have "ndpi_add_host_risk_mask env host hidden m = Some (-1, m\<lparr>host_risk_mask_automa := Some am\<rparr>)"
        unfolding e using Some by (simp add: ndpi_add_host_risk_mask_def Let_def)
      then show ?thesis by blast
    next
      case (Some t)
      then show ?thesis using \<open>host_risk_mask_automa m = Some am\<close> k
        by (cases "ac_automata_add env \<lparr>astring = t, rep_number = 0, rep_number64 = hidden, rep_category = 0, rep_breed = 0,
                 rep_level = unat l, rep_at_end = False, rep_dot = (46 \<in> set ?s)\<rparr> am")
          (auto simp: ndpi_add_host_risk_mask_def Let_def)
    qed
  qed
qed

lemma only_automata_trans: "only_automata a b \<Longrightarrow> only_automata b c \<Longrightarrow> only_automata a c"
  unfolding only_automata_def by (cases a, cases b, cases c) simp

lemma add_exceptions_returns: "\<exists>m'. add_exceptions env ds m = Some m' \<and> only_automata m m'"
proof (induction ds arbitrary: m)
  case (Cons d ds)
  obtain rc a where a: "ndpi_add_host_risk_mask env (str d) exception_mask m = Some (rc, m\<lparr>host_risk_mask_automa := a\<rparr>)"
    using add_risk_mask_returns by blast
  obtain m' where m': "add_exceptions env ds (m\<lparr>host_risk_mask_automa := a\<rparr>) = Some m'"
      "only_automata (m\<lparr>host_risk_mask_automa := a\<rparr>) m'" using Cons by blast
  have "only_automata m (m\<lparr>host_risk_mask_automa := a\<rparr>)" unfolding only_automata_def by (cases m) simp
  then show ?case using a m' only_automata_trans by auto
qed (simp add: only_automata_def)

lemma finalised:
  obtains m' where "ndpi_finalize_initialization env m = Some m'" "ac_automa_finalized m'"
    "registered_ok bm m' = registered_ok bm m" "callback_buffer_sizes m' = callback_buffer_sizes m" "labels_of m' = labels_of m"
proof -
  obtain m1 where m1: "add_exceptions env risk_exception_domains m = Some m1" "only_automata m m1"
    using add_exceptions_returns by blast
  let ?m = "if ac_automa_finalized m1 then m1
       else m1\<lparr>host_automa := map_option (ac_automata_finalize env) (host_automa m1),
              host_risk_mask_automa := map_option (ac_automata_finalize env) (host_risk_mask_automa m1), ac_automa_finalized := True\<rparr>"
  have "only_automata m ?m" using m1(2) unfolding only_automata_def by (cases m, cases m1) simp
  moreover have "registered_ok bm b = registered_ok bm a \<and> callback_buffer_sizes b = callback_buffer_sizes a \<and> labels_of b = labels_of a"
    if "only_automata a b" for a b
    using that unfolding only_automata_def by (cases a, cases b) (simp add: registered_ok_def labels_of_def)
  moreover have "ndpi_finalize_initialization env m = Some ?m"
    using m1(1) by (simp add: ndpi_finalize_initialization_def ndpi_add_domain_risk_exceptions_def)
  ultimately show ?thesis using that [of ?m] by auto
qed

end
