(* ===== verification/Lanshield_Bridge.thy ===== *)
theory Lanshield_Bridge
  imports Engine_Safety Report_Document Module_Init
begin

text \<open>
  The native side of the application, \<^verbatim>\<open>lanshield-dpi.c\<close>: the set of protocols it enables, the life
  cycle of the one detection module it keeps in a global variable, and the call that classifies a
  packet and hands the name of its protocol and a JSON text back to Java. The calls into the Java
  virtual machine are taken to succeed; the strings handed over are C strings.
\<close>

section \<open>The protocols that are enabled\<close>

text \<open>The identifiers of the calls of \<open>NDPI_SET\<close>, in their order.\<close>

definition enabled_protocols :: "u16 list" where
  "enabled_protocols = [
    NDPI_PROTOCOL_FTP_CONTROL, NDPI_PROTOCOL_MAIL_POP, NDPI_PROTOCOL_MAIL_SMTP,
    NDPI_PROTOCOL_MAIL_IMAP, NDPI_PROTOCOL_DNS, NDPI_PROTOCOL_IPP, NDPI_PROTOCOL_HTTP,
    NDPI_PROTOCOL_MDNS, NDPI_PROTOCOL_NTP, NDPI_PROTOCOL_NETBIOS, NDPI_PROTOCOL_NFS,
    NDPI_PROTOCOL_SSDP, NDPI_PROTOCOL_SNMP, NDPI_PROTOCOL_SMBV1, NDPI_PROTOCOL_SYSLOG,
    NDPI_PROTOCOL_DHCP, NDPI_PROTOCOL_POSTGRES, NDPI_PROTOCOL_MYSQL, NDPI_PROTOCOL_MAIL_POPS,
    NDPI_PROTOCOL_MAIL_SMTPS, NDPI_PROTOCOL_DTLS, NDPI_PROTOCOL_BITTORRENT, NDPI_PROTOCOL_SMBV23,
    NDPI_PROTOCOL_RTSP, NDPI_PROTOCOL_MAIL_IMAPS, NDPI_PROTOCOL_IRC, NDPI_PROTOCOL_NATS,
    NDPI_PROTOCOL_TELNET, NDPI_PROTOCOL_STUN, NDPI_PROTOCOL_IP_IPSEC, NDPI_PROTOCOL_IP_GRE,
    NDPI_PROTOCOL_RTP, NDPI_PROTOCOL_RDP, NDPI_PROTOCOL_VNC, NDPI_PROTOCOL_TLS, NDPI_PROTOCOL_SSH,
    NDPI_PROTOCOL_TFTP, NDPI_PROTOCOL_STEALTHNET, NDPI_PROTOCOL_SIP, NDPI_PROTOCOL_DHCPV6,
    NDPI_PROTOCOL_KERBEROS, NDPI_PROTOCOL_PPTP, NDPI_PROTOCOL_NETFLOW, NDPI_PROTOCOL_SFLOW,
    NDPI_PROTOCOL_HTTP_CONNECT, NDPI_PROTOCOL_HTTP_PROXY, NDPI_PROTOCOL_RADIUS,
    NDPI_PROTOCOL_TEAMVIEWER, NDPI_PROTOCOL_OPENVPN, NDPI_PROTOCOL_CISCOVPN, NDPI_PROTOCOL_TOR,
    NDPI_PROTOCOL_RTCP, NDPI_PROTOCOL_SOCKS, NDPI_PROTOCOL_RTMP, NDPI_PROTOCOL_FTP_DATA,
    NDPI_PROTOCOL_ZMQ, NDPI_PROTOCOL_REDIS, NDPI_PROTOCOL_QUIC, NDPI_PROTOCOL_WIREGUARD,
    NDPI_PROTOCOL_DNSCRYPT, NDPI_PROTOCOL_TINC, NDPI_PROTOCOL_DNSCRYPT, NDPI_PROTOCOL_MQTT,
    NDPI_PROTOCOL_RX, NDPI_PROTOCOL_GIT, NDPI_PROTOCOL_WEBSOCKET, NDPI_PROTOCOL_Z3950,
    NDPI_PROTOCOL_IP_IPSEC, NDPI_PROTOCOL_IP_GRE, NDPI_PROTOCOL_IP_ICMP, NDPI_PROTOCOL_IP_IGMP,
    NDPI_PROTOCOL_IP_EGP, NDPI_PROTOCOL_IP_SCTP, NDPI_PROTOCOL_IP_OSPF, NDPI_PROTOCOL_IP_IP_IN_IP]"

definition init_ndpi_protocols_bitmask :: "bitmask option" where
  "init_ndpi_protocols_bitmask = add_all NDPI_SET (map unat enabled_protocols) NDPI_ZERO"

section \<open>State\<close>

text \<open>
  The parameters: those of the engine and of the creation of a module; and of the platform, the
  printing of a \<open>float\<close> and the width of \<open>time_t\<close>.
\<close>

record bridge_env =
  engine :: engine_env
  tables :: tables_env
  float_text :: "u32 \<Rightarrow> bytes"
  time_t_wide :: bool

definition report_of :: "bridge_env \<Rightarrow> report_env" where
  "report_of env = \<lparr>text_env = libc (engine env), print_float = float_text env, wide_time_t = time_t_wide env\<rparr>"

record bridge =
  the_module :: "ndpi_module option"
  ndpi_protocols_bitmask :: bitmask
  the_flow :: ndpi_flow
  json_serializer :: serializer
  protocol_name :: bytes

record dpi_result =
  jsonBuffer :: bytes
  protocolName :: bytes

text \<open>The global variables when the library is loaded.\<close>

definition loaded :: bridge where
  "loaded = \<lparr>the_module = None, ndpi_protocols_bitmask = NDPI_ZERO, the_flow = zero_flow,
     json_serializer = zero_serializer, protocol_name = replicate 64 0\<rparr>"

section \<open>Operations\<close>

definition init_dpi :: "bridge_env \<Rightarrow> bridge \<Rightarrow> (int \<times> bridge) option" where
  "init_dpi env b =
     (if the_module b \<noteq> None then Some (-1, b)
      else do {
        (rc, s) \<leftarrow> ndpi_init_serializer (libc (engine env)) ndpi_serialization_format_json;
        let b = b\<lparr>json_serializer := s\<rparr>;
        if rc \<noteq> 0 then Some (-1, b)
        else do {
          created \<leftarrow> ndpi_init_detection_module (tables env);
          case created of
            None \<Rightarrow> Some (-1, b)
          | Some m \<Rightarrow> do {
              mask \<leftarrow> init_ndpi_protocols_bitmask;
              m \<leftarrow> ndpi_set_protocol_detection_bitmask2 mask m;
              m \<leftarrow> ndpi_finalize_initialization (tables env) m;
              Some (0, b\<lparr>the_module := Some m, ndpi_protocols_bitmask := mask\<rparr>)
            }
        }
      })"

definition free_dpi :: "bridge \<Rightarrow> bridge" where
  "free_dpi b = b\<lparr>the_module := None\<rparr>"

text \<open>
  The C string at a pointer that is passed to \<open>NewStringUTF\<close>: the bytes up to the first zero byte.
  How the virtual machine decodes them, from modified UTF-8, is not modelled; a result holds the bytes.
\<close>

definition passed_string :: "bytes \<Rightarrow> bytes option" where
  "passed_string buf = map_option (\<lambda>n. take n buf) (c_strlen buf)"

text \<open>
  The part of the call that runs on an initialised module. The packet starts at the offset, and its
  length is cut to the 16 bits of the parameter it is passed to.
\<close>

definition classify ::
  "bridge_env \<Rightarrow> bytes \<Rightarrow> int \<Rightarrow> int \<Rightarrow> ndpi_module \<Rightarrow> bridge \<Rightarrow> (dpi_result \<times> bridge) option" where
  "classify env bytes packet_size packet_offset m b = do {
     mem \<leftarrow> (if 0 \<le> packet_offset \<and> nat packet_offset \<le> length bytes then Some (drop (nat packet_offset) bytes) else None);
     s \<leftarrow> ndpi_reset_serializer (json_serializer b);
     (detected, m, f) \<leftarrow> ndpi_detection_process_packet (engine env) mem (nat (packet_size mod 65536)) 0 m zero_flow;
     (guessed, was_guessed, m, f) \<leftarrow> ndpi_detection_giveup (engine env) True m f;
     let selected = (if was_guessed then guessed else detected);
     (_, s) \<leftarrow> ndpi_dpi2json (report_of env) m (Some f) selected s;
     name \<leftarrow> ndpi_protocol2name m selected (replicate 64 0);
     name \<leftarrow> poke name 63 [0];
     (json_buffer, _, s) \<leftarrow> ndpi_serializer_get_buffer s;
     json \<leftarrow> passed_string json_buffer;
     protocol \<leftarrow> passed_string name;
     Some (\<lparr>jsonBuffer = json, protocolName = protocol\<rparr>,
       b\<lparr>the_module := Some m, the_flow := f, json_serializer := s, protocol_name := name\<rparr>)
   }"

definition doDPI ::
  "bridge_env \<Rightarrow> bytes \<Rightarrow> int \<Rightarrow> int \<Rightarrow> bridge \<Rightarrow> (int \<times> dpi_result option \<times> bridge) option" where
  "doDPI env bytes packet_size packet_offset b = do {
     (err, b) \<leftarrow> (if the_module b = None then init_dpi env b else Some (0, b));
     if err \<noteq> 0 then Some (err, None, b)
     else do {
       m \<leftarrow> the_module b;
       (r, b) \<leftarrow> classify env bytes packet_size packet_offset m b;
       Some (0, Some r, b)
     }
   }"

definition terminateNDPI :: "bridge \<Rightarrow> bridge" where
  "terminateNDPI b = free_dpi b"

section \<open>Properties\<close>

lemma enabled_bits: "n \<in> set (map unat enabled_protocols) \<Longrightarrow> n < NDPI_NUM_BITS"
  by (auto simp: enabled_protocols_def NDPI_NUM_BITS_def)

lemma enabled_mask:
  obtains b where "init_ndpi_protocols_bitmask = Some b" "mask_ok b" "protocols b = unat ` set enabled_protocols"
proof -
  have "\<exists>b. init_ndpi_protocols_bitmask = Some b \<and> mask_ok b \<and> protocols b = set (map unat enabled_protocols)
      \<and> (\<forall>n < NDPI_NUM_BITS. NDPI_ISSET b n = Some (n \<in> set (map unat enabled_protocols)))"
    unfolding init_ndpi_protocols_bitmask_def by (rule mask.from_empty [OF enabled_bits])
  then show ?thesis using that by auto
qed

lemma ipsec_enabled: "unat NDPI_PROTOCOL_IP_IPSEC \<in> unat ` set enabled_protocols"
  by (rule imageI) (simp add: enabled_protocols_def)

text \<open>
  The protocols the application looks for. The mask that is built has exactly the bits of the
  identifiers listed, which are 72 different ones, and stays inside its words.
\<close>

theorem enabled_exactly:
  "\<exists>b. init_ndpi_protocols_bitmask = Some b \<and> mask_ok b \<and> protocols b = unat ` set enabled_protocols
     \<and> card (protocols b) = 72"
proof -
  have "card (unat ` set enabled_protocols) = card (set enabled_protocols)"
    by (intro card_image inj_onI) (rule unsigned_word_eqI)
  also have "\<dots> = 72" by code_simp
  finally show ?thesis using enabled_mask by metis
qed

lemma names_by_labels:
  "names_ok_of m \<longleftrightarrow> (let ns = fst (labels_of m) in ns \<noteq> [] \<and> ns ! 0 \<noteq> None
     \<and> NDPI_MAX_SUPPORTED_PROTOCOLS + NDPI_MAX_NUM_CUSTOM_PROTOCOLS \<le> length ns
     \<and> (\<forall>n \<in> set ns. case n of Some t \<Rightarrow> 0 \<notin> set t | None \<Rightarrow> True))"
  by (cases "proto_defaults m") (auto simp: names_ok_of_def labels_of_def Let_def)

lemma created_module:
  assumes "memory_ok (tables_libc env)" "module_memory env"
  obtains m where "ndpi_init_detection_module env = Some (Some m)" "registered_ok NDPI_ZERO m" "names_ok_of m" "labels_ok m"
proof -
  obtain m where m: "ndpi_init_detection_module env = Some (Some m)" "tables_fine m" "tables_of m = initial_tables"
    "table_fine (tables_of m)" "labels_ok m" "ndpi_num_supported_protocols m = NDPI_MAX_SUPPORTED_PROTOCOLS"
    "callback_buffer m = callback_buffer zero_module" "callback_buffers m = callback_buffers zero_module"
    by (rule initialised [OF assms]) blast
  obtain d n where "defaults_of m 0 = Some d" "protoName d = Some n"
    using supported_default [OF m(2,3,4), of 0] by (auto simp: size_defs)
  then have "names_ok_of m" using m(2) tables_registered(2) [OF m(2,4,7,8)]
    by (auto simp: names_ok_of_def tables_fine_def defaults_of_def at_def text_ok_def split: option.split if_split_asm)
  then show ?thesis using that m(1,5) tables_registered(1) [OF m(2,4,7,8)] by blast
qed

lemma initialised_bridge:
  assumes "the_module b = None" "env_ok (libc (engine env))" "alloc_ok (libc (engine env)) 8192"
    and "memory_ok (tables_libc (tables env))" "module_memory (tables env)"
  shows "\<exists>b' m'. init_dpi env b = Some (0, b') \<and> the_module b' = Some m' \<and> module_ok (ndpi_protocols_bitmask b') m'
    \<and> protocols (ndpi_protocols_bitmask b') = unat ` set enabled_protocols \<and> names_ok_of m' \<and> labels_ok m'
    \<and> json_rep (json_serializer b') ([], [], [])"
proof -
  obtain bm where bm: "init_ndpi_protocols_bitmask = Some bm" "mask_ok bm" "protocols bm = unat ` set enabled_protocols"
    by (rule enabled_mask)
  obtain m where m: "ndpi_init_detection_module (tables env) = Some (Some m)" "registered_ok NDPI_ZERO m" "names_ok_of m" "labels_ok m"
    by (rule created_module [OF assms(4,5)])
  have "unat NDPI_PROTOCOL_IP_IPSEC \<in> protocols bm" unfolding bm(3) by (rule ipsec_enabled)
  from registration_ok [OF bm(2) this m(2)] obtain m1 where
    m1: "ndpi_set_protocol_detection_bitmask2 bm m = Some m1" "module_ok bm m1" "labels_of m1 = labels_of m"
    using registered_module_ok by blast
  obtain m2 where m2: "ndpi_finalize_initialization (tables env) m1 = Some m2" "registered_ok bm m2 = registered_ok bm m1"
      "callback_buffer_sizes m2 = callback_buffer_sizes m1" "labels_of m2 = labels_of m1"
    by (rule finalised)
  obtain s where s: "ndpi_init_serializer (libc (engine env)) ndpi_serialization_format_json = Some (0, s)" "json_rep s ([], [], [])"
    using init_json [OF assms(2,3)] by (auto simp: ndpi_init_serializer_def)
  let ?b = "b\<lparr>json_serializer := s, the_module := Some m2, ndpi_protocols_bitmask := bm\<rparr>"
  have "init_dpi env b = Some (0, ?b)" using assms(1) s(1) by (simp add: init_dpi_def bm(1) m(1) m1(1) m2(1))
  moreover have "module_ok bm m2" using m1(2) m2(2,3) by (simp add: module_ok_def)
  moreover have "names_ok_of m2" "labels_ok m2"
    using m(3,4) m1(3) m2(4) by (simp_all add: names_by_labels) (simp add: labels_of_def labels_ok_def)
  ultimately show ?thesis using bm(3) s(2) by (intro exI [of _ ?b]) (simp del: json_rep.simps)
qed

text \<open>
  C17. Initialisation. When no module is kept and allocations succeed, initialisation returns 0 and
  leaves a module that satisfies the invariant of the detection engine for the enabled protocols,
  whose protocols and categories have proper names, and a serializer with an empty JSON document.
\<close>

theorem bridge_initialised:
  assumes "the_module b = None" "env_ok (libc (engine env))" "alloc_ok (libc (engine env)) 8192"
    and "memory_ok (tables_libc (tables env))" "module_memory (tables env)"
  shows "\<exists>b' m'. init_dpi env b = Some (0, b') \<and> the_module b' = Some m' \<and> module_ok (ndpi_protocols_bitmask b') m'
    \<and> protocols (ndpi_protocols_bitmask b') = unat ` set enabled_protocols \<and> names_ok_of m' \<and> labels_ok m'
    \<and> json_rep (json_serializer b') ([], [], [])"
  by (rule initialised_bridge [OF assms])

definition idle_bridge :: bridge_env where
  "idle_bridge = \<lparr>engine = idle_env\<lparr>libc := roomy_env\<rparr>, tables = idle_tables, float_text = (\<lambda>_. str ''0''), time_t_wide = True\<rparr>"

theorem bridge_initialised_witness:
  "\<exists>b' m'. init_dpi idle_bridge loaded = Some (0, b') \<and> the_module b' = Some m' \<and> module_ok (ndpi_protocols_bitmask b') m'
    \<and> protocols (ndpi_protocols_bitmask b') = unat ` set enabled_protocols \<and> names_ok_of m' \<and> labels_ok m'
    \<and> json_rep (json_serializer b') ([], [], [])"
  by (rule bridge_initialised)
    (simp_all add: idle_bridge_def loaded_def roomy_env_ok roomy_alloc idle_tables_def memory_ok_def)

section \<open>Sequences of calls\<close>

text \<open>What the virtual machine calls: a packet to be classified, or the end of the session.\<close>

datatype native_call = DoDPI bytes int int | Terminate

definition native_step :: "bridge_env \<Rightarrow> native_call \<Rightarrow> bridge \<Rightarrow> ((int \<times> dpi_result option) \<times> bridge) option" where
  "native_step env c b =
     (case c of
        DoDPI bytes n off \<Rightarrow> do { (err, r, b) \<leftarrow> doDPI env bytes n off b; Some ((err, r), b) }
      | Terminate \<Rightarrow> Some ((0, None), terminateNDPI b))"

fun native_run :: "bridge_env \<Rightarrow> native_call list \<Rightarrow> bridge \<Rightarrow> ((int \<times> dpi_result option) list \<times> bridge) option" where
  "native_run env [] b = Some ([], b)"
| "native_run env (c # cs) b = do {
     (a, b) \<leftarrow> native_step env c b;
     (as, b) \<leftarrow> native_run env cs b;
     Some (a # as, b)
   }"

text \<open>
  Two libraries that the virtual machine cannot tell apart: both have no module, or the same module
  and the same serializer.
\<close>

definition alike :: "bridge \<Rightarrow> bridge \<Rightarrow> bool" where
  "alike b b' \<longleftrightarrow> the_module b = the_module b' \<and> (the_module b \<noteq> None \<longrightarrow> json_serializer b = json_serializer b')"

definition both :: "(bridge \<Rightarrow> bridge \<Rightarrow> bool) \<Rightarrow> ('a \<times> bridge) option \<Rightarrow> ('a \<times> bridge) option \<Rightarrow> bool" where
  "both R x y \<longleftrightarrow> (x = None \<and> y = None) \<or> (\<exists>a b b'. x = Some (a, b) \<and> y = Some (a, b') \<and> R b b')"

lemma both_bind: "(\<And>x. both R (f x) (g x)) \<Longrightarrow> both R (Option.bind v f) (Option.bind v g)"
  by (cases v) (auto simp: both_def)

lemma both_if: "both R x y \<Longrightarrow> both R x' y' \<Longrightarrow> both R (if c then x else x') (if c then y else y')"
  by simp

lemma both_option:
  "both R x y \<Longrightarrow> (\<And>v. both R (f v) (g v)) \<Longrightarrow> both R (case o' of None \<Rightarrow> x | Some v \<Rightarrow> f v) (case o' of None \<Rightarrow> y | Some v \<Rightarrow> g v)"
  by (cases o') auto

lemma both_pair: "(\<And>x y. both R (f x y) (g x y)) \<Longrightarrow> both R (case q of (x, y) \<Rightarrow> f x y) (case q of (x, y) \<Rightarrow> g x y)"
  by (cases q) simp

lemma both_Some: "R b b' \<Longrightarrow> both R (Some (a, b)) (Some (a, b'))"
  by (simp add: both_def)

lemma init_alike:
  assumes "the_module b = None" "the_module b' = None"
  shows "both alike (init_dpi env b) (init_dpi env b')"
  unfolding init_dpi_def Let_def assms
  by (intro both_bind both_if both_option both_pair both_Some; simp add: alike_def assms)

lemma classify_alike:
  assumes "json_serializer b = json_serializer b'"
  shows "both alike (classify env bytes n off m b) (classify env bytes n off m b')"
  unfolding classify_def Let_def assms
  by (intro both_bind both_if both_option both_pair both_Some; simp add: alike_def)

lemma step_alike:
  assumes "alike b b'"
  shows "both alike (native_step env c b) (native_step env c b')"
proof (cases c)
  case Terminate
  then show ?thesis by (simp add: native_step_def both_def alike_def terminateNDPI_def free_dpi_def)
next
  case (DoDPI bytes n off)
  have go: "both alike (native_step env c d) (native_step env c d')"
    if "the_module d = Some m" "the_module d' = Some m" "json_serializer d = json_serializer d'" for m d d'
    using classify_alike [OF that(3), of env bytes n off m] that(1,2)
    by (auto simp: native_step_def doDPI_def DoDPI both_def)
  show ?thesis
  proof (cases "the_module b")
    case (Some m)
    then show ?thesis using go assms unfolding alike_def by force
  next
    case None
    then have none: "the_module b = None" "the_module b' = None" using assms by (simp_all add: alike_def)
    from init_alike [OF none, of env] show ?thesis unfolding both_def [of _ "init_dpi env b"]
    proof (elim disjE exE conjE)
      fix err d d' assume i: "init_dpi env b = Some (err, d)" "init_dpi env b' = Some (err, d')" "alike d d'"
      show ?thesis
      proof (cases "err = 0 \<and> the_module d \<noteq> None")
        case True
        then obtain m where m: "the_module d = Some m" "the_module d' = Some m" using i(3) by (auto simp: alike_def)
        have "native_step env c b = native_step env c d" "native_step env c b' = native_step env c d'"
          using i none m True by (simp_all add: native_step_def doDPI_def DoDPI)
        then show ?thesis using go [OF m] i(3) m by (simp add: alike_def)
      next
        case False
        then show ?thesis using i none by (auto simp: native_step_def doDPI_def DoDPI both_def alike_def)
      qed
    qed (use none in \<open>simp add: native_step_def doDPI_def DoDPI both_def\<close>)
  qed
qed

lemma run_alike: "alike b b' \<Longrightarrow> both alike (native_run env cs b) (native_run env cs b')"
proof (induction cs arbitrary: b b')
  case (Cons c cs)
  from step_alike [OF Cons.prems, of env c] show ?case unfolding both_def [of _ "native_step env c b"]
  proof (elim disjE exE conjE)
    fix a d d' assume s: "native_step env c b = Some (a, d)" "native_step env c b' = Some (a, d')" "alike d d'"
    from Cons.IH [OF s(3)] show ?thesis using s by (auto simp: both_def)
  qed (simp add: both_def)
qed (simp add: both_def)

text \<open>
  C32. A session leaves no trace. After the end of a session, every later sequence of calls, with
  packets and further ends of sessions, gives exactly the answers that it gives on a library that was
  just loaded: no module, flow, name, serializer or mask of an earlier session shows in them.
\<close>

theorem sessions_independent:
  "map_option fst (native_run env (Terminate # cs) b) = map_option fst (native_run env (Terminate # cs) loaded)"
proof -
  have "alike (terminateNDPI b) (terminateNDPI loaded)" by (simp add: alike_def terminateNDPI_def free_dpi_def)
  from run_alike [OF this, of env cs] show ?thesis by (auto simp: native_step_def both_def)
qed

text \<open>
  Packets are classified on their own. On an initialised library, what the global flow and the
  global name buffer hold from an earlier packet has no influence on the answer or on any global
  variable afterwards.
\<close>

theorem packets_independent:
  assumes "the_module b \<noteq> None"
  shows "doDPI env bytes n off (b\<lparr>the_flow := f, protocol_name := name\<rparr>) = doDPI env bytes n off b"
proof -
  obtain m where m: "the_module b = Some m" using assms by blast
  have "classify env bytes n off m (b\<lparr>the_flow := f, protocol_name := name\<rparr>) = classify env bytes n off m b"
    by (simp add: classify_def Let_def cong: if_cong)
  then show ?thesis using m by (simp add: doDPI_def)
qed

theorem packets_independent_witness:
  "doDPI idle_bridge [] 0 0 (loaded\<lparr>the_module := Some zero_module, the_flow := zero_flow\<lparr>category := 5\<rparr>, protocol_name := replicate 64 65\<rparr>)
   = doDPI idle_bridge [] 0 0 (loaded\<lparr>the_module := Some zero_module\<rparr>)"
  using packets_independent [of "loaded\<lparr>the_module := Some zero_module\<rparr>" idle_bridge "[]" 0 0 "replicate 64 65" "zero_flow\<lparr>category := 5\<rparr>"] by simp

lemma name_length: "ndpi_protocol2name m proto buf = Some buf' \<Longrightarrow> length buf' = length buf"
  by (auto simp: ndpi_protocol2name_def snprintf_at_def bind_eq_Some_conv split: if_splits dest: poke_length)

text \<open>An instance: the empty packet on a module that knows the names of its protocols is answered.\<close>

definition ready :: bridge where
  "ready = loaded\<lparr>the_module := Some named_module,
     json_serializer := json_buffer\<rparr>"

lemma empty_packet_unknown:
  "ndpi_detection_process_packet env [] 0 0 m zero_flow
   = Some (result_of_flow 0 zero_flow, m, zero_flow\<lparr>num_processed_pkts := 1\<rparr>)"
  by (simp add: ndpi_detection_process_packet_def init_packet_of_def ndpi_init_packet_def zero_flow_def
      result_of_flow_def NDPI_MAX_NUM_PKTS_PER_FLOW_TO_DISSECT_def)

lemma empty_flow_not_guessed:
  "ndpi_detection_giveup env True named_module (zero_flow\<lparr>num_processed_pkts := 1\<rparr>)
   = Some (result_of_flow 0 zero_flow, False, named_module, zero_flow\<lparr>num_processed_pkts := 1\<rparr>)"
  by (simp add: ndpi_detection_giveup_def make_guess_def use_guesses_def direct_guess_def last_resort_def discarded_def
      stun_subprotocol_def result_of_flow_def zero_flow_def named_module_def zero_module_def
      ndpi_search_into_bittorrent_cache_def peek_def)

lemma bound_name:
  assumes "names_ok_of m"
  shows "\<exists>b b'. ndpi_protocol2name m l7 (replicate 64 0) = Some b \<and> poke b 63 [0] = Some b'
     \<and> passed_string b' = Some (protocol_name_text m l7)"
proof -
  let ?t = "protocol_name_text m l7"
  obtain b where b: "ndpi_protocol2name m l7 (replicate 64 0) = Some b" "pointed_text (Some b) = Some ?t" "text_ok 63 ?t"
    using protocol_name_read [OF assms, of "replicate 64 0" l7] by auto
  have l: "length b = 64" using name_length [OF b(1)] by simp
  obtain n where n: "c_strlen b = Some n" "take n b = ?t" using b(2) by (auto simp: pointed_text_def)
  have "n < length b" using c_strlen_bounds [OF n(1)] by simp
  then have t: "length ?t = n" unfolding n(2) [symmetric] by simp
  have k: "n \<le> 63" using b(3) t by (simp add: text_ok_def)
  have z: "b ! n = 0" using n(1)
  proof (induction b arbitrary: n)
    case (Cons x b)
    then show ?case by (cases "x = 0") auto
  qed simp
  have p: "poke b 63 [0] = Some (take 63 b @ [0])" using l by (simp add: poke_def)
  have "\<exists>r. take 63 b @ [0] = ?t @ 0 # r"
  proof (cases "n = 63")
    case True
    then show ?thesis using n(2) by auto
  next
    case False
    then have "n < length (take 63 b)" using k l by simp
    from id_take_nth_drop [OF this] have "take 63 b = ?t @ 0 # drop (Suc n) (take 63 b)"
      using n(2) z k False by (simp add: min_def)
    then show ?thesis by (metis append.assoc append_Cons)
  qed
  then obtain r where "take 63 b @ [0] = ?t @ 0 # r" by blast
  moreover have "0 \<notin> set ?t" using b(3) by (simp add: text_ok_def)
  ultimately have "passed_string (take 63 b @ [0]) = Some ?t" by (simp add: passed_string_def c_strlen_append)
  then show ?thesis using b(1) p by blast
qed

lemma packet_answered:
  assumes "the_module b = Some m" "json_writable (json_serializer b)" "env_ok (libc (engine env))"
    and packet: "0 \<le> off" "nat off \<le> length data" "data' = drop (nat off) data"
    and engine: "ndpi_detection_process_packet (engine env) data' (nat (n mod 65536)) 0 m zero_flow = Some (detected, m1, f1)"
      "ndpi_detection_giveup (engine env) True m1 f1 = Some (guessed, was_guessed, m2, f2)"
      "l7 = (if was_guessed then guessed else detected)"
    and report: "report_ok (report_of env) m2 f2 l7"
      "can_grow (libc (engine env)) (json_serializer b) (total_cost (report_trees (report_of env) m2 f2 l7))"
      "float_positive (entropy f2) \<Longrightarrow> token_ok (float_text env (entropy f2))"
  shows "\<exists>r b'. doDPI env data n off b = Some (0, Some r, b')
     \<and> read_json (jsonBuffer r) = Some (report_json (report_of env) m2 f2 l7)
     \<and> protocolName r = protocol_name_text m2 l7
     \<and> the_module b' = Some m2 \<and> json_writable (json_serializer b')"
proof -
  have e: "text_env (report_of env) = libc (engine env)" "print_float (report_of env) = float_text env"
    by (simp_all add: report_of_def)
  obtain s0 where s0: "ndpi_reset_serializer (json_serializer b) = Some s0" "json_rep s0 ([], [], [])"
      "ssize s0 = ssize (json_serializer b)" using reset_json [OF assms(2)] by blast
  have "can_grow (text_env (report_of env)) s0 (total_cost (report_trees (report_of env) m2 f2 l7))"
    using report(2) s0(3) by (simp add: can_grow_def e)
  from report_buffer [OF assms(3) [folded e(1)] report(1) s0(2) this] report(3) obtain t x r u where
    t: "ndpi_dpi2json (report_of env) m2 (Some f2) l7 s0 = Some (0, t)"
      "ndpi_serializer_get_buffer t = Some (x @ 0 # r, length x, u)"
      "read_json x = Some (report_json (report_of env) m2 f2 l7)" "0 \<notin> set x" "json_writable u"
    unfolding e(2) by blast
  obtain c c' where c: "ndpi_protocol2name m2 l7 (replicate 64 0) = Some c" "poke c 63 [0] = Some c'"
      "passed_string c' = Some (protocol_name_text m2 l7)"
    using bound_name report(1) unfolding report_ok_def by blast
  have "passed_string (x @ 0 # r) = Some x" using t(4) by (simp add: passed_string_def c_strlen_append)
  then have "classify env data n off m b = Some (\<lparr>jsonBuffer = x, protocolName = protocol_name_text m2 l7\<rparr>,
      b\<lparr>the_module := Some m2, the_flow := f2, json_serializer := u, protocol_name := c'\<rparr>)"
    unfolding classify_def
    using packet s0(1) engine(1,2) t(1,2) c by (simp add: engine(3) [symmetric])
  then show ?thesis using assms(1) t(3,5) by (auto simp: doDPI_def)
qed

lemma ready_report: "report_ok (report_of idle_bridge) named_module (zero_flow\<lparr>num_processed_pkts := 1\<rparr>) (result_of_flow 0 zero_flow)"
  by (simp add: report_ok_def named_module_ok protocol_ok_def ndpi_get_lower_proto_def result_of_flow_def zero_flow_def)

lemma ready_grows:
  "can_grow (libc (engine idle_bridge)) (json_serializer ready)
     (total_cost (report_trees (report_of idle_bridge) named_module (zero_flow\<lparr>num_processed_pkts := 1\<rparr>) (result_of_flow 0 zero_flow)))"
proof -
  have t: "text_ok 63 (protocol_name_text named_module (result_of_flow 0 zero_flow))"
    using protocol_name_read [OF named_module_ok(1), of "replicate 64 0"] by auto
  have b: "text_ok 60 (ndpi_get_proto_breed_name n)" for n by (rule breed_name_ok)
  have r: "risk_trees 0 = []" by (simp add: risk_trees_def)
  have "total_cost (report_trees (report_of idle_bridge) named_module (zero_flow\<lparr>num_processed_pkts := 1\<rparr>) (result_of_flow 0 zero_flow))
      \<le> 10000"
    using t b [of "breed_of named_module (result_of_flow 0 zero_flow)"]
    by (simp add: report_trees_def proto_trees_def protocol_trees_def r ndpi_get_lower_proto_def result_of_flow_def zero_flow_def
        named_block_def text_entry_def text_ok_def)
  then show ?thesis
    by (simp add: can_grow_def ready_def loaded_def json_buffer_def idle_bridge_def idle_env_def roomy_env_def zero_serializer_def)
qed

lemma ready_facts:
  "the_module ready = Some named_module" "json_writable (json_serializer ready)" "env_ok (libc (engine idle_bridge))"
  "(0 :: int) \<le> 0" "nat 0 \<le> length ([] :: bytes)" "([] :: bytes) = drop (nat 0) []"
  "ndpi_detection_process_packet (engine idle_bridge) [] (nat (0 mod 65536)) 0 named_module zero_flow
     = Some (result_of_flow 0 zero_flow, named_module, zero_flow\<lparr>num_processed_pkts := 1\<rparr>)"
  "result_of_flow 0 zero_flow = (if False then result_of_flow 0 zero_flow else result_of_flow 0 zero_flow)"
  using json_buffer_writable empty_packet_unknown by (simp_all add: ready_def idle_bridge_def roomy_env_ok)

lemma ready_no_entropy: "\<not> float_positive (entropy (zero_flow\<lparr>num_processed_pkts := 1\<rparr>))"
  by (simp add: zero_flow_def float_positive_def)

text \<open>
  C4. The report that is returned. On an initialised library whose serializer holds a JSON buffer, a
  packet for which the engine returns a result is answered: the JSON string reads back as the
  report of that result, the other string is the name of its protocol, and the library stays
  initialised with a serializer for the next packet.
\<close>

theorem answer_is_report:
  assumes "the_module b = Some m" "json_writable (json_serializer b)" "env_ok (libc (engine env))"
    and packet: "0 \<le> off" "nat off \<le> length data" "data' = drop (nat off) data"
    and engine: "ndpi_detection_process_packet (engine env) data' (nat (n mod 65536)) 0 m zero_flow = Some (detected, m1, f1)"
      "ndpi_detection_giveup (engine env) True m1 f1 = Some (guessed, was_guessed, m2, f2)"
      "l7 = (if was_guessed then guessed else detected)"
    and report: "report_ok (report_of env) m2 f2 l7"
      "can_grow (libc (engine env)) (json_serializer b) (total_cost (report_trees (report_of env) m2 f2 l7))"
      "float_positive (entropy f2) \<Longrightarrow> token_ok (float_text env (entropy f2))"
  shows "\<exists>r b'. doDPI env data n off b = Some (0, Some r, b')
     \<and> read_json (jsonBuffer r) = Some (report_json (report_of env) m2 f2 l7)
     \<and> protocolName r = protocol_name_text m2 l7
     \<and> the_module b' = Some m2 \<and> json_writable (json_serializer b')"
  by (rule packet_answered [OF assms(1-3) packet engine report(1,2)]) (rule report(3))

theorem answer_is_report_witness:
  "\<exists>r b'. doDPI idle_bridge [] 0 0 ready = Some (0, Some r, b')
     \<and> read_json (jsonBuffer r) = Some (report_json (report_of idle_bridge) named_module
          (zero_flow\<lparr>num_processed_pkts := 1\<rparr>) (result_of_flow 0 zero_flow))
     \<and> protocolName r = protocol_name_text named_module (result_of_flow 0 zero_flow)
     \<and> the_module b' = Some named_module \<and> json_writable (json_serializer b')"
  using ready_no_entropy
  by (intro answer_is_report [OF ready_facts(1-7) empty_flow_not_guessed ready_facts(8) ready_report ready_grows]) blast

end
