(* ===== verification/Dissector_Base.thy ===== *)
theory Dissector_Base
  imports Packet_Safety Engine_Results C_Strings
begin

text \<open>
  What the dissectors under \<^verbatim>\<open>lib/protocols\<close> have in common: how they read the packet they are called
  for, how they combine conditions, and what they may do to the flow. A dissector is a function from
  the bytes of the IP packet, the module and the flow to the flow; \<open>None\<close> is undefined behaviour, such
  as a read outside the packet or through a null pointer. The locale \<open>dissector\<close> is the contract with
  the engine that calls it.
\<close>

type_synonym dissecting = "bytes \<Rightarrow> ndpi_module \<Rightarrow> ndpi_flow \<Rightarrow> ndpi_flow option"

section \<open>Reading the packet\<close>

text \<open>
  \<open>packet->payload[i]\<close> and \<open>n\<close> bytes from there on; \<open>ntohs\<close> of \<open>get_u_int16_t\<close> and \<open>ntohl\<close> of
  \<open>get_u_int32_t\<close>, and the two without the conversion on a little-endian machine.
\<close>

definition byte_at :: "bytes \<Rightarrow> ndpi_packet \<Rightarrow> nat \<Rightarrow> u8 option" where
  "byte_at mem p i = do { a \<leftarrow> payload p; peek mem (a + i) }"

definition run_at :: "bytes \<Rightarrow> ndpi_packet \<Rightarrow> nat \<Rightarrow> nat \<Rightarrow> bytes option" where
  "run_at mem p i n = do { a \<leftarrow> payload p; peek_run mem (a + i) n }"

definition half_at :: "bytes \<Rightarrow> ndpi_packet \<Rightarrow> nat \<Rightarrow> u16 option" where
  "half_at mem p i = map_option of_be16 (run_at mem p i 2)"

definition word_at :: "bytes \<Rightarrow> ndpi_packet \<Rightarrow> nat \<Rightarrow> u32 option" where
  "word_at mem p i = map_option of_be32 (run_at mem p i 4)"

definition raw_half_at :: "bytes \<Rightarrow> ndpi_packet \<Rightarrow> nat \<Rightarrow> u16 option" where
  "raw_half_at mem p i = map_option (\<lambda>b. of_be16 (rev b)) (run_at mem p i 2)"

definition raw_word_at :: "bytes \<Rightarrow> ndpi_packet \<Rightarrow> nat \<Rightarrow> u32 option" where
  "raw_word_at mem p i = map_option of_le32 (run_at mem p i 4)"

text \<open>Ports of the header at \<open>h\<close> and addresses of the IP header, in host order.\<close>

definition source_of :: "bytes \<Rightarrow> nat option \<Rightarrow> u16 option" where
  "source_of mem h = do { a \<leftarrow> h; get16 mem a }"

definition dest_of :: "bytes \<Rightarrow> nat option \<Rightarrow> u16 option" where
  "dest_of mem h = do { a \<leftarrow> h; get16 mem (a + 2) }"

definition ip_source :: "bytes \<Rightarrow> ndpi_packet \<Rightarrow> u32 option" where
  "ip_source mem p = do { a \<leftarrow> iph p; get32 mem (a + 12) }"

definition raw_ip6_dest :: "bytes \<Rightarrow> ndpi_packet \<Rightarrow> nat \<Rightarrow> u32 option" where
  "raw_ip6_dest mem p k = do { a \<leftarrow> iphv6 p; raw32 mem (a + 24 + 4 * k) }"

definition ip_dest :: "bytes \<Rightarrow> ndpi_packet \<Rightarrow> u32 option" where
  "ip_dest mem p = do { a \<leftarrow> iph p; get32 mem (a + 16) }"

text \<open>The \<open>k\<close>-th 32 bits of an IPv6 address, in host order.\<close>

definition ip6_source :: "bytes \<Rightarrow> ndpi_packet \<Rightarrow> nat \<Rightarrow> u32 option" where
  "ip6_source mem p k = do { a \<leftarrow> iphv6 p; get32 mem (a + 8 + 4 * k) }"

definition ip6_dest :: "bytes \<Rightarrow> ndpi_packet \<Rightarrow> nat \<Rightarrow> u32 option" where
  "ip6_dest mem p k = do { a \<leftarrow> iphv6 p; get32 mem (a + 24 + 4 * k) }"

section \<open>Conditions\<close>

text \<open>
  A condition may be undefined. \<open>all_of\<close> is a chain of \<open>&&\<close>, \<open>any_of\<close> a chain of \<open>||\<close>: what stands
  behind the condition that decides is not evaluated.
\<close>

fun all_of :: "bool option list \<Rightarrow> bool option" where
  "all_of [] = Some True"
| "all_of (c # cs) = (case c of None \<Rightarrow> None | Some b \<Rightarrow> if b then all_of cs else Some False)"

fun any_of :: "bool option list \<Rightarrow> bool option" where
  "any_of [] = Some False"
| "any_of (c # cs) = (case c of None \<Rightarrow> None | Some b \<Rightarrow> if b then Some True else any_of cs)"

declare all_of.simps [simp del] any_of.simps [simp del]

text \<open>A pointer that is not null.\<close>

definition present :: "'a option \<Rightarrow> bool" where
  "present h \<longleftrightarrow> h \<noteq> None"

definition negated :: "bool option \<Rightarrow> bool option" where
  "negated c = map_option Not c"

definition test :: "('a \<Rightarrow> bool) \<Rightarrow> 'a option \<Rightarrow> bool option" where
  "test P x = map_option P x"

text \<open>\<open>if(c) a else b\<close>.\<close>

definition branch :: "bool option \<Rightarrow> 'a option \<Rightarrow> 'a option \<Rightarrow> 'a option" where
  "branch c a b = (case c of None \<Rightarrow> None | Some v \<Rightarrow> if v then a else b)"

abbreviation byte_is :: "bytes \<Rightarrow> ndpi_packet \<Rightarrow> nat \<Rightarrow> u8 \<Rightarrow> bool option" where
  "byte_is mem p i v \<equiv> test (\<lambda>b. b = v) (byte_at mem p i)"

abbreviation half_is :: "bytes \<Rightarrow> ndpi_packet \<Rightarrow> nat \<Rightarrow> u16 \<Rightarrow> bool option" where
  "half_is mem p i v \<equiv> test (\<lambda>b. b = v) (half_at mem p i)"

abbreviation word_is :: "bytes \<Rightarrow> ndpi_packet \<Rightarrow> nat \<Rightarrow> u32 \<Rightarrow> bool option" where
  "word_is mem p i v \<equiv> test (\<lambda>b. b = v) (word_at mem p i)"

text \<open>\<open>memcmp\<close> with a text, which reads all of it, and \<open>strncmp\<close>, which stops early.\<close>

abbreviation text_is :: "bytes \<Rightarrow> ndpi_packet \<Rightarrow> nat \<Rightarrow> bytes \<Rightarrow> bool option" where
  "text_is mem p i s \<equiv> test (\<lambda>b. b = s) (run_at mem p i (length s))"

definition payload_from :: "bytes \<Rightarrow> ndpi_packet \<Rightarrow> nat \<Rightarrow> bytes option" where
  "payload_from mem p i = map_option (\<lambda>a. drop (a + i) mem) (payload p)"

definition strncmp_at :: "(u8 \<Rightarrow> u8) \<Rightarrow> bytes \<Rightarrow> ndpi_packet \<Rightarrow> nat \<Rightarrow> nat \<Rightarrow> bytes \<Rightarrow> bool option" where
  "strncmp_at g mem p i n t = do { s \<leftarrow> payload_from mem p i; strncmp_eq g n s (cstr t) }"

text \<open>Whether \<open>ndpi_strnstr\<close> finds \<open>t\<close> in the \<open>n\<close> bytes from \<open>i\<close> on.\<close>

definition finds_at :: "bytes \<Rightarrow> ndpi_packet \<Rightarrow> nat \<Rightarrow> nat \<Rightarrow> bytes \<Rightarrow> bool option" where
  "finds_at mem p i n t = do { s \<leftarrow> payload_from mem p i; r \<leftarrow> ndpi_strnstr s (cstr t) n; Some (r \<noteq> None) }"

abbreviation source_is :: "bytes \<Rightarrow> nat option \<Rightarrow> u16 \<Rightarrow> bool option" where
  "source_is mem h v \<equiv> test (\<lambda>b. b = v) (source_of mem h)"

abbreviation dest_is :: "bytes \<Rightarrow> nat option \<Rightarrow> u16 \<Rightarrow> bool option" where
  "dest_is mem h v \<equiv> test (\<lambda>b. b = v) (dest_of mem h)"

abbreviation port_is :: "bytes \<Rightarrow> nat option \<Rightarrow> u16 \<Rightarrow> bool option" where
  "port_is mem h v \<equiv> any_of [source_is mem h v, dest_is mem h v]"

section \<open>The effects of a dissector\<close>

text \<open>The risks that the modelled dissectors report.\<close>

abbreviation NDPI_SMB_INSECURE_VERSION :: nat where "NDPI_SMB_INSECURE_VERSION \<equiv> 20"
abbreviation NDPI_DESKTOP_OR_FILE_SHARING_SESSION :: nat where "NDPI_DESKTOP_OR_FILE_SHARING_SESSION \<equiv> 30"

text \<open>A field keeps as many bits as it has; \<open>memcpy\<close> fills the front of an array.\<close>

definition set_field :: "flow_field \<Rightarrow> nat \<Rightarrow> ndpi_flow \<Rightarrow> ndpi_flow" where
  "set_field k v f = f\<lparr>stages := (stages f)(k := v mod 2 ^ field_width k)\<rparr>"

definition store :: "flow_field \<Rightarrow> nat \<Rightarrow> ndpi_flow \<Rightarrow> ndpi_flow option" where
  "store k v f = Some (set_field k v f)"

definition copy_to :: "flow_buffer \<Rightarrow> bytes \<Rightarrow> ndpi_flow \<Rightarrow> ndpi_flow option" where
  "copy_to b bs f = map_option (\<lambda>c. f\<lparr>saved_bytes := (saved_bytes f)(b := c)\<rparr>) (poke (saved_bytes f b) 0 bs)"

definition detect :: "u16 \<Rightarrow> ndpi_module \<Rightarrow> ndpi_flow \<Rightarrow> ndpi_flow option" where
  "detect p m f = ndpi_set_detected_protocol m p NDPI_PROTOCOL_UNKNOWN NDPI_CONFIDENCE_DPI f"

text \<open>
  The protocols a dissector reports are its own; the fields it writes are those of dissectors. The
  stage of PostgreSQL stays below the two for which its dissector reads without looking at the length.
\<close>

inductive flow_step :: "u16 set \<Rightarrow> ndpi_module \<Rightarrow> ndpi_flow \<Rightarrow> ndpi_flow \<Rightarrow> bool" for ids m where
  detected: "p \<in> ids \<Longrightarrow> q \<in> insert NDPI_PROTOCOL_UNKNOWN ids
    \<Longrightarrow> ndpi_set_detected_protocol m p q NDPI_CONFIDENCE_DPI f = Some f' \<Longrightarrow> flow_step ids m f f'"
| excluded: "p \<in> ids \<Longrightarrow> ndpi_exclude_protocol p f = Some f' \<Longrightarrow> flow_step ids m f f'"
| risky: "ndpi_set_risk m r f = Some f' \<Longrightarrow> flow_step ids m f f'"
| stored: "(k = postgres_stage \<Longrightarrow> v \<le> 4) \<Longrightarrow> flow_step ids m f (set_field k v f)"
| copied: "copy_to b bs f = Some f' \<Longrightarrow> flow_step ids m f f'"

abbreviation flow_steps :: "u16 set \<Rightarrow> ndpi_module \<Rightarrow> ndpi_flow \<Rightarrow> ndpi_flow \<Rightarrow> bool" where
  "flow_steps ids m \<equiv> (flow_step ids m)\<^sup>*\<^sup>*"

text \<open>What a dissector needs of the flow: its arrays have their sizes and the name is terminated.\<close>

definition flow_ready :: "ndpi_module \<Rightarrow> ndpi_flow \<Rightarrow> bool" where
  "flow_ready m f \<longleftrightarrow> mask_ok (excluded_protocol_bitmask f) \<and> 0 \<in> set (host_server_name f)
     \<and> (\<forall>b. length (saved_bytes f b) = buffer_size b) \<and> (\<forall>k. stages f k < 2 ^ field_width k)
     \<and> length (proto_defaults m) = NDPI_MAX_SUPPORTED_PROTOCOLS + NDPI_MAX_NUM_CUSTOM_PROTOCOLS"

definition verdict :: "u16 set \<Rightarrow> ndpi_module \<Rightarrow> ndpi_flow \<Rightarrow> ndpi_flow option \<Rightarrow> bool" where
  "verdict ids m f r \<longleftrightarrow>
     (flow_ready m f \<longrightarrow> (\<exists>f'. r = Some f' \<and> flow_steps ids m f f' \<and> flow_ready m f'))"


section \<open>Defined conditions\<close>

named_theorems defined_simps \<open>when a read or a condition is defined\<close>

definition defined :: "'a option \<Rightarrow> bool" where
  "defined x \<longleftrightarrow> x \<noteq> None"

definition holds :: "bool option \<Rightarrow> bool" where
  "holds c \<longleftrightarrow> c = Some True"

definition fails :: "bool option \<Rightarrow> bool" where
  "fails c \<longleftrightarrow> c = Some False"

lemma defined_Some [defined_simps]: "defined (Some x)"
  by (simp add: defined_def)

lemma defined_test [defined_simps]: "defined (test P x) \<longleftrightarrow> defined x"
  by (simp add: defined_def test_def)

lemma defined_negated [defined_simps]: "defined (negated c) \<longleftrightarrow> defined c"
  by (simp add: defined_def negated_def)

lemma defined_all [defined_simps]:
  "defined (all_of [])" "defined (all_of (c # cs)) \<longleftrightarrow> defined c \<and> (holds c \<longrightarrow> defined (all_of cs))"
  by (auto simp: defined_def holds_def all_of.simps split: option.split)

lemma defined_any [defined_simps]:
  "defined (any_of [])" "defined (any_of (c # cs)) \<longleftrightarrow> defined c \<and> (fails c \<longrightarrow> defined (any_of cs))"
  by (auto simp: defined_def fails_def any_of.simps split: option.split)

lemma holds_simps [defined_simps]:
  "holds (Some b) \<longleftrightarrow> b" "holds (negated c) \<longleftrightarrow> fails c"
  "holds (all_of [])" "holds (all_of (c # cs)) \<longleftrightarrow> holds c \<and> holds (all_of cs)"
  by (auto simp: holds_def fails_def negated_def all_of.simps any_of.simps split: option.splits)

lemma fails_simps [defined_simps]:
  "fails (Some b) \<longleftrightarrow> \<not> b" "fails (negated c) \<longleftrightarrow> holds c"
  "fails (any_of [])" "fails (any_of (c # cs)) \<longleftrightarrow> fails c \<and> fails (any_of cs)"
  by (auto simp: holds_def fails_def negated_def all_of.simps any_of.simps split: option.splits)

lemma holds_any:
  "\<not> holds (any_of [])" "holds (any_of (c # cs)) \<longleftrightarrow> holds c \<or> fails c \<and> holds (any_of cs)"
  by (auto simp: holds_def fails_def any_of.simps split: option.splits)

lemma defined_branch [defined_simps]:
  "defined (branch c a b) \<longleftrightarrow> defined c \<and> (holds c \<longrightarrow> defined a) \<and> (fails c \<longrightarrow> defined b)"
  by (auto simp: defined_def branch_def holds_def fails_def split: option.splits)

lemma defined_bind:
  "defined r \<Longrightarrow> (\<And>x. defined (g x)) \<Longrightarrow> defined (Option.bind r g)"
  by (cases r) (auto simp: defined_def)

text \<open>Reads inside the payload and through pointers that are set.\<close>

lemma payload_in:
  assumes "view_ok n p" "i < payload_packet_len p"
  obtains a where "payload p = Some a" "a + payload_packet_len p \<le> n"
  using assms by (auto simp: view_ok_def split: option.splits)

lemma defined_reads [defined_simps]:
  assumes "view_ok (length mem) p"
  shows "i < payload_packet_len p \<Longrightarrow> defined (byte_at mem p i)"
    "0 < n \<Longrightarrow> i + n \<le> payload_packet_len p \<Longrightarrow> defined (run_at mem p i n)"
    "i + 2 \<le> payload_packet_len p \<Longrightarrow> defined (half_at mem p i)"
    "i + 4 \<le> payload_packet_len p \<Longrightarrow> defined (word_at mem p i)"
    "i + 2 \<le> payload_packet_len p \<Longrightarrow> defined (raw_half_at mem p i)"
    "i + 4 \<le> payload_packet_len p \<Longrightarrow> defined (raw_word_at mem p i)"
proof -
  have run: "defined (run_at mem p i n)" if "0 < n" "i + n \<le> payload_packet_len p" for i n
  proof -
    have "0 < payload_packet_len p" using that by simp
    then obtain a where "payload p = Some a" "a + payload_packet_len p \<le> length mem" by (rule payload_in [OF assms])
    then show ?thesis using that by (simp add: defined_def run_at_def peek_run_def)
  qed
  show "i < payload_packet_len p \<Longrightarrow> defined (byte_at mem p i)"
    by (rule payload_in [OF assms], assumption) (simp add: defined_def byte_at_def peek_def)
  show "0 < n \<Longrightarrow> i + n \<le> payload_packet_len p \<Longrightarrow> defined (run_at mem p i n)" by (rule run)
  show "i + 2 \<le> payload_packet_len p \<Longrightarrow> defined (half_at mem p i)"
    "i + 4 \<le> payload_packet_len p \<Longrightarrow> defined (word_at mem p i)"
    "i + 2 \<le> payload_packet_len p \<Longrightarrow> defined (raw_half_at mem p i)"
    "i + 4 \<le> payload_packet_len p \<Longrightarrow> defined (raw_word_at mem p i)"
    using run [of 2 i] run [of 4 i]
    by (auto simp: defined_def half_at_def word_at_def raw_half_at_def raw_word_at_def)
qed

lemma defined_headers [defined_simps]:
  assumes "view_ok (length mem) p"
  shows "present (udp p) \<Longrightarrow> defined (source_of mem (udp p))" "present (udp p) \<Longrightarrow> defined (dest_of mem (udp p))"
    "present (tcp p) \<Longrightarrow> defined (source_of mem (tcp p))" "present (tcp p) \<Longrightarrow> defined (dest_of mem (tcp p))"
    "present (iph p) \<Longrightarrow> defined (ip_source mem p)" "present (iph p) \<Longrightarrow> defined (ip_dest mem p)"
    "present (iphv6 p) \<Longrightarrow> k < 4 \<Longrightarrow> defined (ip6_source mem p k)"
    "present (iphv6 p) \<Longrightarrow> k < 4 \<Longrightarrow> defined (ip6_dest mem p k)"
    "present (iphv6 p) \<Longrightarrow> k < 4 \<Longrightarrow> defined (raw_ip6_dest mem p k)"
  using assms
  by (auto simp: present_def defined_def source_of_def dest_of_def ip_source_def ip_dest_def ip6_source_def ip6_dest_def
      raw_ip6_dest_def raw32_def view_ok_def get16_def get32_def peek_run_def split: option.splits)

text \<open>The functions of the C library stay inside what they are given.\<close>

lemma strncmp_defined: "n \<le> length s \<Longrightarrow> n \<le> length t \<Longrightarrow> strncmp_eq g n s t \<noteq> None"
  by (induction g n s t rule: strncmp_eq.induct) auto

lemma strnlen_defined: "0 \<in> set s \<Longrightarrow> \<exists>k. c_strnlen s n = Some k \<and> k < length s"
  by (induction s n rule: c_strnlen.induct) auto

lemma strnstr_loop_defined: "n \<le> length s \<Longrightarrow> len \<le> length rest \<Longrightarrow> strnstr_loop c rest len s pos n \<noteq> None"
proof (induction c rest len s pos n rule: strnstr_loop.induct)
  case (3 c rest len sc s pos slen)
  have "c_strncmp len s rest \<noteq> None" if "\<not> slen < len" using 3(3,4) that by (intro strncmp_defined) auto
  then show ?case using 3 by auto
qed auto

lemma strnstr_defined:
  assumes "n \<le> length s"
  shows "ndpi_strnstr s (cstr t) n \<noteq> None"
proof (cases t)
  case (Cons c t')
  have "0 \<in> set (cstr t')" by (simp add: cstr_def)
  then obtain k where "c_strnlen (cstr t') n = Some k" "k < length (cstr t')" using strnlen_defined by blast
  then show ?thesis using strnstr_loop_defined [OF assms, of k "cstr t'" c 0] Cons
    by (simp add: ndpi_strnstr_def cstr_def peek_def)
qed (simp add: ndpi_strnstr_def cstr_def peek_def)

lemma defined_searches [defined_simps]:
  assumes "view_ok (length mem) p"
  shows "0 < n \<Longrightarrow> i + n \<le> payload_packet_len p \<Longrightarrow> n \<le> length t + 1 \<Longrightarrow> defined (strncmp_at g mem p i n t)"
    "0 < n \<Longrightarrow> i + n \<le> payload_packet_len p \<Longrightarrow> defined (finds_at mem p i n t)"
proof -
  have from_in: "\<exists>s. payload_from mem p i = Some s \<and> n \<le> length s" if "0 < n" "i + n \<le> payload_packet_len p"
  proof -
    have "i < payload_packet_len p" using that by simp
    then obtain a where "payload p = Some a" "a + payload_packet_len p \<le> length mem" by (rule payload_in [OF assms])
    then show ?thesis using that by (simp add: payload_from_def)
  qed
  show "0 < n \<Longrightarrow> i + n \<le> payload_packet_len p \<Longrightarrow> n \<le> length t + 1 \<Longrightarrow> defined (strncmp_at g mem p i n t)"
    using from_in strncmp_defined [of n _ "cstr t" g] by (auto simp: defined_def strncmp_at_def)
  show "0 < n \<Longrightarrow> i + n \<le> payload_packet_len p \<Longrightarrow> defined (finds_at mem p i n t)"
  proof -
    assume "0 < n" "i + n \<le> payload_packet_len p"
    from from_in [OF this] obtain s where s: "payload_from mem p i = Some s" "n \<le> length s" by blast
    then show ?thesis using strnstr_defined [OF s(2), of t] by (auto simp: defined_def finds_at_def)
  qed
qed

section \<open>Verdicts\<close>

named_theorems verdict_intros \<open>rules for what a dissector decides\<close>

lemma verdict_Some [verdict_intros]: "verdict ids m f (Some f)"
  by (simp add: verdict_def)

lemma verdict_branch [verdict_intros]:
  assumes "defined c" "holds c \<Longrightarrow> verdict ids m f a" "fails c \<Longrightarrow> verdict ids m f b"
  shows "verdict ids m f (branch c a b)"
  using assms by (auto simp: branch_def defined_def holds_def fails_def)

lemma verdict_if [verdict_intros]:
  "(b \<Longrightarrow> verdict ids m f r) \<Longrightarrow> (\<not> b \<Longrightarrow> verdict ids m f s) \<Longrightarrow> verdict ids m f (if b then r else s)"
  by simp

lemma verdict_bind [verdict_intros]:
  assumes "verdict ids m f r" "\<And>f'. verdict ids m f' (g f')"
  shows "verdict ids m f (Option.bind r g)"
  unfolding verdict_def
proof
  assume "flow_ready m f"
  then obtain f1 where f1: "r = Some f1" "flow_steps ids m f f1" "flow_ready m f1" using assms(1) by (auto simp: verdict_def)
  obtain f2 where "g f1 = Some f2" "flow_steps ids m f1 f2" "flow_ready m f2" using assms(2) [of f1] f1 by (auto simp: verdict_def)
  then show "\<exists>f'. Option.bind r g = Some f' \<and> flow_steps ids m f f' \<and> flow_ready m f'" using f1 by auto
qed

text \<open>Reading a value.\<close>

lemma verdict_read:
  "defined r \<Longrightarrow> (\<And>x. verdict ids m f (g x)) \<Longrightarrow> verdict ids m f (Option.bind r g)"
  by (cases r) (auto simp: defined_def)

lemmas verdict_reads [verdict_intros] =
  verdict_read [where r = "byte_at mem p i" for mem p i] verdict_read [where r = "half_at mem p i" for mem p i]
  verdict_read [where r = "word_at mem p i" for mem p i] verdict_read [where r = "raw_half_at mem p i" for mem p i]
  verdict_read [where r = "raw_word_at mem p i" for mem p i]
  verdict_read [where r = "source_of mem h" for mem h] verdict_read [where r = "dest_of mem h" for mem h]
  verdict_read [where r = "ip_source mem p" for mem p] verdict_read [where r = "ip_dest mem p" for mem p]

lemma verdict_run [verdict_intros]:
  assumes "defined (run_at mem p i n)" "\<And>x. length x = n \<Longrightarrow> verdict ids m f (g x)"
  shows "verdict ids m f (Option.bind (run_at mem p i n) g)"
proof -
  obtain x where x: "run_at mem p i n = Some x" using assms(1) by (auto simp: defined_def)
  then have "length x = n" by (auto simp: run_at_def peek_run_def bind_eq_Some_conv split: if_splits)
  then show ?thesis using assms(2) x by simp
qed

lemma verdict_step:
  assumes "\<And>f'. r = Some f' \<Longrightarrow> flow_step ids m f f'" "flow_ready m f \<Longrightarrow> \<exists>f'. r = Some f' \<and> flow_ready m f'"
  shows "verdict ids m f r"
  using assms by (auto simp: verdict_def)

lemma set_detected_ready:
  assumes "flow_ready m f" "unat p < NDPI_MAX_SUPPORTED_PROTOCOLS" "unat q < NDPI_MAX_SUPPORTED_PROTOCOLS"
  shows "\<exists>f'. ndpi_set_detected_protocol m p q c f = Some f' \<and> flow_ready m f'"
proof -
  have "unat p < length (proto_defaults m)" "unat q < length (proto_defaults m)" using assms by (auto simp: flow_ready_def)
  from set_detected_total [OF this, of c f] obtain f' where d: "ndpi_set_detected_protocol m p q c f = Some f'"
    "f' = f\<lparr>detected_protocol_stack := detected_protocol_stack f', confidence := c\<rparr>" by blast
  have "flow_ready m (f\<lparr>detected_protocol_stack := detected_protocol_stack f', confidence := c\<rparr>)"
    using assms(1) by (simp add: flow_ready_def)
  then show ?thesis using d by simp
qed

lemma verdict_set_detected [verdict_intros]:
  assumes "p \<in> ids" "q \<in> insert NDPI_PROTOCOL_UNKNOWN ids" "unat p < NDPI_MAX_SUPPORTED_PROTOCOLS"
    "unat q < NDPI_MAX_SUPPORTED_PROTOCOLS"
  shows "verdict ids m f (ndpi_set_detected_protocol m p q NDPI_CONFIDENCE_DPI f)"
proof (rule verdict_step)
  show "flow_step ids m f f'" if "ndpi_set_detected_protocol m p q NDPI_CONFIDENCE_DPI f = Some f'" for f'
    using assms(1,2) that by (rule flow_step.detected)
qed (rule set_detected_ready [OF _ assms(3,4)])

lemma verdict_detect [verdict_intros]:
  "p \<in> ids \<Longrightarrow> unat p < NDPI_MAX_SUPPORTED_PROTOCOLS \<Longrightarrow> verdict ids m f (detect p m f)"
  unfolding detect_def by (rule verdict_set_detected) (auto simp: size_defs)

lemma exclude_result:
  assumes "mask_ok (excluded_protocol_bitmask f)"
  shows "\<exists>b. ndpi_exclude_protocol p f = Some (f\<lparr>excluded_protocol_bitmask := b\<rparr>) \<and> mask_ok b
    \<and> protocols b = (if ndpi_is_valid_protoId p then insert (protocol_bit p) else id) (protocols (excluded_protocol_bitmask f))"
proof (cases "ndpi_is_valid_protoId p")
  case True
  then show ?thesis using set_protocol [OF assms protocol_bit_less [of p]]
    by (auto simp: ndpi_exclude_protocol_def NDPI_ADD_PROTOCOL_TO_BITMASK_def)
next
  case False
  then show ?thesis using assms
    by (intro exI [of _ "excluded_protocol_bitmask f"]) (simp add: ndpi_exclude_protocol_def)
qed

lemma verdict_exclude [verdict_intros]:
  assumes "p \<in> ids"
  shows "verdict ids m f (ndpi_exclude_protocol p f)"
proof (rule verdict_step)
  show "flow_step ids m f f'" if "ndpi_exclude_protocol p f = Some f'" for f' using assms that by (rule flow_step.excluded)
  assume r: "flow_ready m f"
  then have "mask_ok (excluded_protocol_bitmask f)" by (simp add: flow_ready_def)
  from exclude_result [OF this, of p] r
  show "\<exists>f'. ndpi_exclude_protocol p f = Some f' \<and> flow_ready m f'" by (auto simp: flow_ready_def)
qed

text \<open>Asking for an excluded protocol.\<close>

lemma verdict_compare [verdict_intros]:
  assumes "\<And>x. verdict ids m f (g x)"
  shows "verdict ids m f (Option.bind (NDPI_COMPARE_PROTOCOL_TO_BITMASK (excluded_protocol_bitmask f) q) g)"
  using assms test_enabled [of "excluded_protocol_bitmask f" q] by (auto simp: verdict_def flow_ready_def)

lemma c_strlen_defined: "0 \<in> set s \<Longrightarrow> \<exists>n. c_strlen s = Some n"
  by (induction s) auto

lemma name_defined:
  assumes "0 \<in> set (host_server_name f)"
  shows "\<exists>h n. ndpi_get_flow_name f = Some h \<and> c_strlen h = Some n \<and> h \<noteq> []"
proof -
  have ne: "host_server_name f \<noteq> []" using assms by auto
  show ?thesis
  proof (cases "host_server_name f ! 0 = 0")
    case True
    then show ?thesis using ne by (auto simp: ndpi_get_flow_name_def peek_def)
  next
    case False
    then show ?thesis using ne c_strlen_defined [OF assms] by (auto simp: ndpi_get_flow_name_def peek_def)
  qed
qed

lemma host_exception_defined:
  assumes "0 \<in> set (host_server_name f)"
  shows "\<exists>f'. host_risk_exception m f = Some f'"
proof -
  obtain h n where "ndpi_get_flow_name f = Some h" "c_strlen h = Some n" "h \<noteq> []" using name_defined [OF assms] by blast
  then show ?thesis by (simp add: host_risk_exception_def peek_def Let_def cong: if_cong)
qed

lemma exceptions_defined:
  assumes "0 \<in> set (host_server_name f)"
  shows "\<exists>f'. ndpi_handle_risk_exceptions m f = Some f'"
proof -
  define g where "g = (if \<not> host_risk_mask_evaluated f \<and> \<not> ip_risk_mask_evaluated f then f\<lparr>risk_mask := NOT 0\<rparr> else f)"
  have "0 \<in> set (host_server_name g)" using assms by (simp add: g_def)
  then obtain h g2 where "ndpi_get_flow_name f = Some h" "host_risk_exception m g = Some g2"
    using name_defined [OF assms] host_exception_defined by metis
  then show ?thesis unfolding ndpi_handle_risk_exceptions_def Let_def g_def [symmetric] by simp
qed

lemma set_risk_defined:
  "0 \<in> set (host_server_name f) \<Longrightarrow> \<exists>f'. ndpi_set_risk m r f = Some f'"
  unfolding ndpi_set_risk_def by (rule exceptions_defined) simp

lemma no_risk_more:
  assumes "no_risk f' = no_risk f"
  shows "saved_bytes f' = saved_bytes f" "stages f' = stages f"
  using arg_cong [OF assms, of saved_bytes] arg_cong [OF assms, of stages] by (simp_all add: no_risk_def)

lemma verdict_risk [verdict_intros]: "verdict ids m f (ndpi_set_risk m r f)"
proof (rule verdict_step)
  show "flow_step ids m f f'" if "ndpi_set_risk m r f = Some f'" for f' using that by (rule flow_step.risky)
  assume r: "flow_ready m f"
  then obtain f' where f': "ndpi_set_risk m r f = Some f'" using set_risk_defined [of f m r] by (auto simp: flow_ready_def)
  have k: "no_risk f' = no_risk f" by (rule risk_rest [OF f'])
  have "flow_ready m f'" using r
    unfolding flow_ready_def no_risk_fields(4,5) [OF k] no_risk_more [OF k] .
  then show "\<exists>f'. ndpi_set_risk m r f = Some f' \<and> flow_ready m f'" using f' by blast
qed

lemma set_field_ready: "flow_ready m f \<Longrightarrow> flow_ready m (set_field k v f)"
  by (simp add: flow_ready_def set_field_def)

lemma verdict_store [verdict_intros]: "(k = postgres_stage \<Longrightarrow> v \<le> 4) \<Longrightarrow> verdict ids m f (store k v f)"
  by (rule verdict_step) (auto simp: store_def intro: flow_step.stored set_field_ready)

lemma copy_to_ready:
  assumes "flow_ready m f" "length bs \<le> buffer_size b"
  shows "\<exists>f'. copy_to b bs f = Some f' \<and> flow_ready m f'"
  using assms by (auto simp: copy_to_def poke_def flow_ready_def)

lemma verdict_copy [verdict_intros]: "length bs \<le> buffer_size b \<Longrightarrow> verdict ids m f (copy_to b bs f)"
  by (rule verdict_step) (auto intro: flow_step.copied dest: copy_to_ready)


section \<open>What a dissector leaves alone\<close>

text \<open>A flow without what dissectors write.\<close>

definition undissected :: "ndpi_flow \<Rightarrow> ndpi_flow" where
  "undissected f = f\<lparr>detected_protocol_stack := (0, 0), confidence := 0, excluded_protocol_bitmask := [], risk := 0,
     risk_mask := 0, host_risk_mask_evaluated := False, ip_risk_mask_evaluated := False, stages := (\<lambda>_. 0),
     saved_bytes := (\<lambda>_. [])\<rparr>"

lemma undissected_risk: "undissected (no_risk f) = undissected f"
  by (simp add: undissected_def no_risk_def)

lemma set_detected_shape:
  assumes "ndpi_set_detected_protocol m p q c f = Some f'"
  shows "f' = f\<lparr>detected_protocol_stack := detected_protocol_stack f', confidence := c\<rparr>
    \<and> {app_of f', master_of f'} \<subseteq> {p, q, NDPI_PROTOCOL_UNKNOWN, guessed_host_protocol_id f}"
  using assms
  by (auto simp: ndpi_set_detected_protocol_def ndpi_int_change_protocol_def ndpi_int_change_flow_protocol_def Let_def
      bind_eq_Some_conv split: if_splits)

lemma exclude_shape:
  assumes "ndpi_exclude_protocol p f = Some f'"
  shows "\<exists>b. f' = f\<lparr>excluded_protocol_bitmask := b\<rparr>"
  using assms by (auto simp: ndpi_exclude_protocol_def bind_eq_Some_conv split: if_splits intro: exI [of _ "excluded_protocol_bitmask f"])

lemma step_undissected: "flow_step ids m f f' \<Longrightarrow> undissected f' = undissected f"
proof (induction rule: flow_step.induct)
  case (detected p q f f')
  from set_detected_shape [OF detected(3)] obtain t where "f' = f\<lparr>detected_protocol_stack := t, confidence := NDPI_CONFIDENCE_DPI\<rparr>" by blast
  then show ?case by (simp add: undissected_def)
next
  case (excluded p f f')
  then show ?case using exclude_shape [OF excluded(2)] by (auto simp: undissected_def)
next
  case (risky r f f')
  then show ?case using risk_rest [OF risky] undissected_risk by metis
qed (auto simp: undissected_def set_field_def copy_to_def)

lemma steps_undissected: "flow_steps ids m f f' \<Longrightarrow> undissected f' = undissected f"
  by (induction rule: rtranclp_induct) (auto dest: step_undissected)

lemma undissected_fields:
  assumes "undissected f' = undissected f"
  shows "guessed_host_protocol_id f' = guessed_host_protocol_id f" "guessed_protocol_id f' = guessed_protocol_id f"
    "packet_counter f' = packet_counter f" "l4_proto f' = l4_proto f"
  using arg_cong [OF assms, of guessed_host_protocol_id] arg_cong [OF assms, of guessed_protocol_id]
    arg_cong [OF assms, of packet_counter] arg_cong [OF assms, of l4_proto]
  by (simp_all add: undissected_def)

text \<open>Which protocols can come out of it, and which can be excluded.\<close>

text \<open>The application is that of the flow, one of the dissector, or the one that the address belongs to.\<close>

lemma set_detected_app:
  assumes "ndpi_set_detected_protocol m p q c f = Some f'" "p \<noteq> NDPI_PROTOCOL_UNKNOWN"
  shows "app_of f' \<in> {p, guessed_host_protocol_id f}"
  using assms
  by (auto simp: ndpi_set_detected_protocol_def ndpi_int_change_protocol_def ndpi_int_change_flow_protocol_def Let_def
      bind_eq_Some_conv split: if_splits)

lemma step_app:
  assumes "flow_step ids m f f'" "NDPI_PROTOCOL_UNKNOWN \<notin> ids"
  shows "app_of f' \<in> {app_of f, guessed_host_protocol_id f} \<union> ids"
  using assms
proof (induction rule: flow_step.induct)
  case (detected p q f f')
  then show ?case using set_detected_app [OF detected(3)] by (metis UnI1 UnI2 insertE insertI1 insertI2 singletonD)
next
  case (excluded p f f')
  then show ?case using exclude_shape [OF excluded(2)] by auto
next
  case (risky r f f')
  have "detected_protocol_stack f' = detected_protocol_stack f" by (rule no_risk_fields(1) [OF risk_rest [OF risky(1)]])
  then show ?case by simp
qed (auto simp: set_field_def copy_to_def)

lemma steps_app:
  assumes "flow_steps ids m f f'" "NDPI_PROTOCOL_UNKNOWN \<notin> ids"
  shows "app_of f' \<in> {app_of f, guessed_host_protocol_id f} \<union> ids"
  using assms(1)
proof (induction rule: rtranclp_induct)
  case (step g h)
  have "guessed_host_protocol_id g = guessed_host_protocol_id f"
    by (rule undissected_fields(1) [OF steps_undissected [OF step(1)]])
  then show ?case using step_app [OF step(2) assms(2)] step(3) by auto
qed auto

lemma step_excluded:
  assumes "flow_step ids m f f'" "mask_ok (excluded_protocol_bitmask f)"
  shows "mask_ok (excluded_protocol_bitmask f')
    \<and> protocols (excluded_protocol_bitmask f) \<subseteq> protocols (excluded_protocol_bitmask f')
    \<and> protocols (excluded_protocol_bitmask f') \<subseteq> protocols (excluded_protocol_bitmask f) \<union> protocol_bit ` ids"
  using assms
proof (induction rule: flow_step.induct)
  case (detected p q f f')
  from set_detected_shape [OF detected(3)] obtain t where "f' = f\<lparr>detected_protocol_stack := t, confidence := NDPI_CONFIDENCE_DPI\<rparr>" by blast
  then show ?case using detected(4) by simp
next
  case (excluded p f f')
  then show ?case using exclude_result [OF excluded(3), of p] by (auto split: if_splits)
next
  case (risky r f f')
  have "excluded_protocol_bitmask f' = excluded_protocol_bitmask f" by (rule no_risk_fields(4) [OF risk_rest [OF risky(1)]])
  then show ?case using risky(2) by simp
qed (auto simp: set_field_def copy_to_def)

lemma steps_excluded:
  assumes "flow_steps ids m f f'" "mask_ok (excluded_protocol_bitmask f)"
  shows "mask_ok (excluded_protocol_bitmask f')
    \<and> protocols (excluded_protocol_bitmask f) \<subseteq> protocols (excluded_protocol_bitmask f')
    \<and> protocols (excluded_protocol_bitmask f') \<subseteq> protocols (excluded_protocol_bitmask f) \<union> protocol_bit ` ids"
  using assms
proof (induction rule: rtranclp_induct)
  case (step g h)
  then show ?case using step_excluded [OF step(2)] by blast
qed auto

text \<open>
  What is reported: the stack is as it was, or the application is a protocol of the dissector, or
  it is the one that the address belongs to, on top of a protocol of the dissector.
\<close>

definition reported :: "u16 set \<Rightarrow> ndpi_flow \<Rightarrow> ndpi_flow \<Rightarrow> bool" where
  "reported ids f f' \<longleftrightarrow> detected_protocol_stack f' = detected_protocol_stack f
     \<or> app_of f' \<in> ids \<and> master_of f' \<in> insert NDPI_PROTOCOL_UNKNOWN ids
     \<or> app_of f' = guessed_host_protocol_id f \<and> guessed_host_protocol_id f \<noteq> NDPI_PROTOCOL_UNKNOWN \<and> master_of f' \<in> ids"

lemma set_detected_reports:
  assumes "ndpi_set_detected_protocol m p q c f = Some f'" "p \<in> ids" "q \<in> insert NDPI_PROTOCOL_UNKNOWN ids"
    "NDPI_PROTOCOL_UNKNOWN \<notin> ids"
  shows "reported ids f f'"
proof -
  have "p \<noteq> NDPI_PROTOCOL_UNKNOWN" using assms(2,4) by blast
  then show ?thesis using assms(1-3)
    by (auto simp: reported_def ndpi_set_detected_protocol_def ndpi_int_change_protocol_def ndpi_int_change_flow_protocol_def
        Let_def bind_eq_Some_conv split: if_splits)
qed

lemma step_reports:
  assumes "flow_step ids m f f'" "NDPI_PROTOCOL_UNKNOWN \<notin> ids"
  shows "reported ids f f'"
  using assms
proof (induction rule: flow_step.induct)
  case (detected p q f f')
  then show ?case by (blast intro: set_detected_reports)
next
  case (excluded p f f')
  then show ?case using exclude_shape [OF excluded(2)] by (auto simp: reported_def)
next
  case (risky r f f')
  have "detected_protocol_stack f' = detected_protocol_stack f" by (rule no_risk_fields(1) [OF risk_rest [OF risky(1)]])
  then show ?case by (simp add: reported_def)
qed (auto simp: reported_def set_field_def copy_to_def)

lemma steps_report:
  assumes "flow_steps ids m f f'" "NDPI_PROTOCOL_UNKNOWN \<notin> ids"
  shows "reported ids f f'"
  using assms(1)
proof (induction rule: rtranclp_induct)
  case (step g h)
  have "guessed_host_protocol_id g = guessed_host_protocol_id f"
    by (rule undissected_fields(1) [OF steps_undissected [OF step(1)]])
  then show ?case using step_reports [OF step(2) assms(2)] step(3) unfolding reported_def by metis
qed (simp add: reported_def)

text \<open>The stage of PostgreSQL.\<close>

lemma step_postgres:
  assumes "flow_step ids m f f'" "stages f postgres_stage \<le> 4"
  shows "stages f' postgres_stage \<le> 4"
  using assms
proof (induction rule: flow_step.induct)
  case (detected p q f f')
  from set_detected_shape [OF detected(3)] obtain t where "f' = f\<lparr>detected_protocol_stack := t, confidence := NDPI_CONFIDENCE_DPI\<rparr>" by blast
  then show ?case using detected(4) by simp
next
  case (excluded p f f')
  then show ?case using exclude_shape [OF excluded(2)] by auto
next
  case (risky r f f')
  then show ?case using no_risk_more(2) [OF risk_rest [OF risky(1)]] by simp
next
  case (stored k v f)
  then show ?case by (cases "k = postgres_stage") (simp_all add: set_field_def)
qed (auto simp: copy_to_def)

lemma steps_postgres: "flow_steps ids m f f' \<Longrightarrow> stages f postgres_stage \<le> 4 \<Longrightarrow> stages f' postgres_stage \<le> 4"
  by (induction rule: rtranclp_induct) (auto dest: step_postgres)

lemma fresh_flow_ready: "flow_ready zero_module zero_flow"
  by (auto simp: flow_ready_def zero_flow_def zero_module_def mask_ok_def NDPI_NUM_FDS_BITS_def NDPI_NUM_BITS_def size_defs)

section \<open>The contract with the engine\<close>

text \<open>A dissector is called for packets that match its selection bitmask.\<close>

definition selected :: "u32 \<Rightarrow> ndpi_packet \<Rightarrow> bool" where
  "selected sel p \<longleftrightarrow> selection_of p AND sel = sel"

lemma selected_bits:
  assumes "selected sel p"
  shows "bit sel 0 \<Longrightarrow> present (iph p)" "bit sel 1 \<Longrightarrow> present (tcp p)" "bit sel 2 \<Longrightarrow> present (udp p)"
    "bit sel 4 \<Longrightarrow> payload_packet_len p \<noteq> 0"
proof -
  have b: "bit (selection_of p) k" if "bit sel k" for k
    using assms that unfolding selected_def by (metis bit_and_iff)
  show "bit sel 0 \<Longrightarrow> present (iph p)" "bit sel 1 \<Longrightarrow> present (tcp p)" "bit sel 2 \<Longrightarrow> present (udp p)"
    "bit sel 4 \<Longrightarrow> payload_packet_len p \<noteq> 0"
    using b [of 0] b [of 1] b [of 2] b [of 4]
    by (auto simp: present_def selection_of_def bit_or_iff bit_numeral_rec split: if_splits)
qed

text \<open>
  What the engine keeps beside \<open>flow_ready\<close>: the mask of enabled protocols has its words, the direction
  of the packet is 0 or 1, and PostgreSQL is in one of its first stages.
\<close>

definition session_ok :: "ndpi_module \<Rightarrow> ndpi_flow \<Rightarrow> bool" where
  "session_ok m f \<longleftrightarrow> mask_ok (detection_bitmask m) \<and> pkt_direction (packet m) \<le> 1 \<and> stages f postgres_stage \<le> 4"

locale dissector =
  fixes search :: "bytes \<Rightarrow> ndpi_module \<Rightarrow> ndpi_flow \<Rightarrow> ndpi_flow option" and ids :: "u16 set" and sel :: u32
  assumes decides: "view_ok (length mem) (packet m) \<Longrightarrow> selected sel (packet m) \<Longrightarrow> session_ok m f
    \<Longrightarrow> verdict ids m f (search mem m f)"
begin

text \<open>It returns, stays inside the packet, and changes only what belongs to dissectors.\<close>

lemma returns:
  assumes "view_ok (length mem) (packet m)" "selected sel (packet m)" "session_ok m f" "flow_ready m f"
  shows "\<exists>f'. search mem m f = Some f' \<and> flow_ready m f' \<and> session_ok m f' \<and> undissected f' = undissected f"
  using decides [OF assms(1-3)] assms(3,4) by (auto simp: verdict_def session_ok_def dest: steps_undissected steps_postgres)

text \<open>It reports and excludes no protocol but its own.\<close>

lemma own_protocols:
  assumes "view_ok (length mem) (packet m)" "selected sel (packet m)" "session_ok m f" "flow_ready m f" "search mem m f = Some f'"
  shows "NDPI_PROTOCOL_UNKNOWN \<notin> ids \<Longrightarrow> reported ids f f'"
    "protocols (excluded_protocol_bitmask f) \<subseteq> protocols (excluded_protocol_bitmask f')"
    "protocols (excluded_protocol_bitmask f') \<subseteq> protocols (excluded_protocol_bitmask f) \<union> protocol_bit ` ids"
proof -
  have s: "flow_steps ids m f f'" using decides [OF assms(1-3)] assms(4,5) by (simp add: verdict_def)
  show "NDPI_PROTOCOL_UNKNOWN \<notin> ids \<Longrightarrow> reported ids f f'" by (rule steps_report [OF s])
  show "protocols (excluded_protocol_bitmask f) \<subseteq> protocols (excluded_protocol_bitmask f')"
    "protocols (excluded_protocol_bitmask f') \<subseteq> protocols (excluded_protocol_bitmask f) \<union> protocol_bit ` ids"
    using steps_excluded [OF s] assms(4) by (auto simp: flow_ready_def)
qed

end


text \<open>What the selection bitmask gives a dissector, bit by bit.\<close>

lemma dissectorI:
  assumes "\<And>mem m f. view_ok (length mem) (packet m) \<Longrightarrow> (bit sel 0 \<longrightarrow> present (iph (packet m)))
      \<Longrightarrow> (bit sel 1 \<longrightarrow> present (tcp (packet m))) \<Longrightarrow> (bit sel 2 \<longrightarrow> present (udp (packet m)))
      \<Longrightarrow> (bit sel 4 \<longrightarrow> 0 < payload_packet_len (packet m)) \<Longrightarrow> verdict ids m f (search mem m f)"
  shows "dissector search ids sel"
  by unfold_locales (rule assms; auto dest: selected_bits)

lemmas dissector_simps = defined_simps Let_def size_defs bit_numeral_rec

end
