(* ===== verification/Udp_Dissectors.thy ===== *)
theory Udp_Dissectors
  imports Dissector_Base
begin

text \<open>
  Dissectors under \<^verbatim>\<open>lib/protocols\<close> that are registered for UDP only, one definition for each search
  function together with the helpers of its file, and for each an interpretation of the contract
  \<open>dissector\<close>: it decides without leaving the packet, for every packet it is selected for.
\<close>

section \<open>Signatures\<close>

definition ndpi_search_vmware :: dissecting where
  "ndpi_search_vmware mem m f =
     (let p = packet m in
      branch (all_of [Some (present (udp p)), Some (payload_packet_len p = 66), dest_is mem (udp p) 902,
                byte_is mem p 0 0xA4])
        (detect NDPI_PROTOCOL_VMWARE m f)
        (ndpi_exclude_protocol NDPI_PROTOCOL_VMWARE f))"

interpretation vmware: dissector ndpi_search_vmware "{NDPI_PROTOCOL_VMWARE}"
    NDPI_SELECTION_BITMASK_PROTOCOL_V4_V6_UDP_WITH_PAYLOAD
  by (rule dissectorI) (auto simp: ndpi_search_vmware_def dissector_simps intro!: verdict_intros)

definition ndpi_search_bjnp :: dissecting where
  "ndpi_search_bjnp mem m f =
     (let p = packet m in
      if app_of f = NDPI_PROTOCOL_BJNP then Some f
      else branch (all_of [Some (present (udp p)), Some (4 < payload_packet_len p),
                     any_of [text_is mem p 0 (str ''BJNP''), text_is mem p 0 (str ''BNJB''),
                       text_is mem p 0 (str ''BJNB''), text_is mem p 0 (str ''MFNP'')]])
             (detect NDPI_PROTOCOL_BJNP m f)
             (ndpi_exclude_protocol NDPI_PROTOCOL_BJNP f))"

interpretation bjnp: dissector ndpi_search_bjnp "{NDPI_PROTOCOL_BJNP}"
    NDPI_SELECTION_BITMASK_PROTOCOL_V4_V6_UDP_WITH_PAYLOAD
  by (rule dissectorI) (auto simp: ndpi_search_bjnp_def dissector_simps intro!: verdict_intros)

definition ndpi_search_among_us :: dissecting where
  "ndpi_search_among_us mem m f =
     (let p = packet m in
      branch (all_of [Some (9 < payload_packet_len p), word_is mem p 0 0x08000100, word_is mem p 4 0x80d90203])
        (detect NDPI_PROTOCOL_AMONG_US m f)
        (ndpi_exclude_protocol NDPI_PROTOCOL_AMONG_US f))"

interpretation among_us: dissector ndpi_search_among_us "{NDPI_PROTOCOL_AMONG_US}"
    NDPI_SELECTION_BITMASK_PROTOCOL_V4_V6_UDP_WITH_PAYLOAD
  by (rule dissectorI) (auto simp: ndpi_search_among_us_def dissector_simps intro!: verdict_intros)

definition ndpi_search_teredo :: dissecting where
  "ndpi_search_teredo mem m f =
     (let p = packet m in
      branch (all_of [Some (present (udp p)), Some (present (iph p)),
                test (\<lambda>a. a AND 0xF0000000 \<noteq> 0xE0000000) (ip_dest mem p),
                port_is mem (udp p) 3544, Some (40 \<le> payload_packet_len p)])
        (detect NDPI_PROTOCOL_TEREDO m f)
        (ndpi_exclude_protocol NDPI_PROTOCOL_TEREDO f))"

interpretation teredo: dissector ndpi_search_teredo "{NDPI_PROTOCOL_TEREDO}"
    NDPI_SELECTION_BITMASK_PROTOCOL_UDP_WITH_PAYLOAD
  by (rule dissectorI) (auto simp: ndpi_search_teredo_def dissector_simps intro!: verdict_intros)

definition ndpi_search_sflow :: dissecting where
  "ndpi_search_sflow mem m f =
     (let p = packet m in
      branch (all_of [Some (present (udp p)), Some (24 \<le> payload_packet_len p),
                byte_is mem p 0 0, byte_is mem p 1 0, byte_is mem p 2 0,
                any_of [byte_is mem p 3 2, byte_is mem p 3 5]])
        (detect NDPI_PROTOCOL_SFLOW m f)
        (ndpi_exclude_protocol NDPI_PROTOCOL_SFLOW f))"

interpretation sflow: dissector ndpi_search_sflow "{NDPI_PROTOCOL_SFLOW}"
    NDPI_SELECTION_BITMASK_PROTOCOL_V4_V6_UDP_WITH_PAYLOAD
  by (rule dissectorI) (auto simp: ndpi_search_sflow_def dissector_simps intro!: verdict_intros)

definition ndpi_search_megaco :: dissecting where
  "ndpi_search_megaco mem m f =
     (let p = packet m in
      branch (all_of [Some (present (udp p)),
                any_of [
                  all_of [Some (4 < payload_packet_len p), byte_is mem p 0 0x21, byte_is mem p 1 0x2f,
                    byte_is mem p 2 0x31, byte_is mem p 3 0x20, byte_is mem p 4 0x5b],
                  all_of [Some (9 < payload_packet_len p), byte_is mem p 0 0x4d, byte_is mem p 1 0x45,
                    byte_is mem p 2 0x47, byte_is mem p 3 0x41, byte_is mem p 4 0x43, byte_is mem p 5 0x4f,
                    byte_is mem p 6 0x2f, byte_is mem p 7 0x31, byte_is mem p 8 0x20, byte_is mem p 9 0x5b]]])
        (detect NDPI_PROTOCOL_MEGACO m f)
        (ndpi_exclude_protocol NDPI_PROTOCOL_MEGACO f))"

interpretation megaco: dissector ndpi_search_megaco "{NDPI_PROTOCOL_MEGACO}"
    NDPI_SELECTION_BITMASK_PROTOCOL_V4_V6_UDP_WITH_PAYLOAD
  by (rule dissectorI) (auto simp: ndpi_search_megaco_def dissector_simps intro!: verdict_intros)

definition ndpi_search_cpha :: dissecting where
  "ndpi_search_cpha mem m f =
     (let p = packet m in
      branch (all_of [Some (20 < payload_packet_len p), byte_is mem p 0 0x1a, byte_is mem p 1 0x90,
                Some (present (udp p)), Some (present (iph p)),
                source_is mem (udp p) 8116, dest_is mem (udp p) 8116,
                test (\<lambda>a. a = 0) (ip_source mem p)])
        (detect NDPI_PROTOCOL_CPHA m f)
        (ndpi_exclude_protocol NDPI_PROTOCOL_CPHA f))"

interpretation cpha: dissector ndpi_search_cpha "{NDPI_PROTOCOL_CPHA}"
    NDPI_SELECTION_BITMASK_PROTOCOL_UDP_WITH_PAYLOAD
  by (rule dissectorI) (auto simp: ndpi_search_cpha_def dissector_simps intro!: verdict_intros)

definition ndpi_search_viber :: dissecting where
  "ndpi_search_viber mem m f =
     (let p = packet m in
      branch (all_of [Some (present (udp p)), Some (5 < payload_packet_len p),
                any_of [
                  all_of [byte_is mem p 2 0x03, byte_is mem p 3 0x00],
                  all_of [Some (payload_packet_len p = 20), byte_is mem p 2 0x09, byte_is mem p 3 0x00],
                  all_of [byte_is mem p 2 0x01, byte_is mem p 3 0x00, byte_is mem p 4 0x05, byte_is mem p 5 0x00],
                  all_of [Some (payload_packet_len p = 34), byte_is mem p 2 0x19, byte_is mem p 3 0x00],
                  all_of [Some (payload_packet_len p = 34), byte_is mem p 2 0x1b, byte_is mem p 3 0x00]]])
        (detect NDPI_PROTOCOL_VIBER m f)
        (ndpi_exclude_protocol NDPI_PROTOCOL_VIBER f))"

interpretation viber: dissector ndpi_search_viber "{NDPI_PROTOCOL_VIBER}"
    NDPI_SELECTION_BITMASK_PROTOCOL_V4_V6_UDP_WITH_PAYLOAD
  by (rule dissectorI) (auto simp: ndpi_search_viber_def dissector_simps intro!: verdict_intros)

definition ndpi_search_wsd :: dissecting where
  "ndpi_search_wsd mem m f =
     (let p = packet m in
      branch (all_of [Some (present (udp p)),
                any_of [
                  all_of [Some (present (iph p)), test (\<lambda>a. a AND 0xF0000000 = 0xE0000000) (ip_dest mem p)],
                  all_of [Some (present (iphv6 p)), test (\<lambda>a. a = 0xFF020000) (ip6_dest mem p 0)]],
                dest_is mem (udp p) 3702, Some (40 \<le> payload_packet_len p),
                strncmp_at id mem p 0 5 (str ''<?xml'')])
        (detect NDPI_PROTOCOL_WSD m f)
        (ndpi_exclude_protocol NDPI_PROTOCOL_WSD f))"

text \<open>No call of \<open>ndpi_init_detection_module\<close> registers it; this is the selection its own file asks for.\<close>

interpretation wsd: dissector ndpi_search_wsd "{NDPI_PROTOCOL_WSD}" NDPI_SELECTION_BITMASK_PROTOCOL_V4_V6_UDP_WITH_PAYLOAD
  by (rule dissectorI) (auto simp: ndpi_search_wsd_def dissector_simps intro!: verdict_intros)

definition ndpi_search_nintendo :: dissecting where
  "ndpi_search_nintendo mem m f =
     (let p = packet m in
      branch (all_of [Some (present (udp p)), Some (48 < payload_packet_len p),
                text_is mem p 0 [0x32, 0xab, 0x98, 0x64, 0x02]])
        (detect NDPI_PROTOCOL_NINTENDO m f)
        (ndpi_exclude_protocol NDPI_PROTOCOL_NINTENDO f))"

interpretation nintendo: dissector ndpi_search_nintendo "{NDPI_PROTOCOL_NINTENDO}"
    NDPI_SELECTION_BITMASK_PROTOCOL_V4_V6_UDP_WITH_PAYLOAD
  by (rule dissectorI) (auto simp: ndpi_search_nintendo_def dissector_simps intro!: verdict_intros)

definition ndpi_search_snmp :: dissecting where
  "ndpi_search_snmp mem m f =
     (let p = packet m in
      branch (any_of [Some (payload_packet_len p \<le> 32), negated (byte_is mem p 0 0x30),
                all_of [negated (byte_is mem p 4 0), negated (byte_is mem p 4 1), negated (byte_is mem p 4 3)],
                all_of [negated (source_is mem (udp p) 161), negated (dest_is mem (udp p) 161),
                  negated (dest_is mem (udp p) 162)],
                test (\<lambda>b. unat b + 2 \<noteq> payload_packet_len p) (byte_at mem p 1)])
        (ndpi_exclude_protocol NDPI_PROTOCOL_SNMP f)
        (detect NDPI_PROTOCOL_SNMP m f))"

interpretation snmp: dissector ndpi_search_snmp "{NDPI_PROTOCOL_SNMP}"
    NDPI_SELECTION_BITMASK_PROTOCOL_V4_V6_UDP_WITH_PAYLOAD
  by (rule dissectorI) (auto simp: ndpi_search_snmp_def dissector_simps intro!: verdict_intros)

definition ndpi_search_avast_securedns :: dissecting where
  "ndpi_search_avast_securedns mem m f =
     (let p = packet m in
      branch (any_of [Some (payload_packet_len p < 34), negated (word_is mem p 11 0x00013209), Some (1 < packet_counter f)])
        (ndpi_exclude_protocol NDPI_PROTOCOL_AVAST_SECUREDNS f)
        (branch (strncmp_at c_tolower mem p 15 9 (str ''securedns''))
          (detect NDPI_PROTOCOL_AVAST_SECUREDNS m f)
          (ndpi_exclude_protocol NDPI_PROTOCOL_AVAST_SECUREDNS f)))"

interpretation avast_securedns: dissector ndpi_search_avast_securedns "{NDPI_PROTOCOL_AVAST_SECUREDNS}"
    NDPI_SELECTION_BITMASK_PROTOCOL_V4_V6_UDP_WITH_PAYLOAD
  by (rule dissectorI) (auto simp: ndpi_search_avast_securedns_def dissector_simps intro!: verdict_intros)

definition ndpi_search_dhcpv6_udp :: dissecting where
  "ndpi_search_dhcpv6_udp mem m f =
     (let p = packet m in
      branch (all_of [Some (4 \<le> payload_packet_len p),
                any_of [source_is mem (udp p) 546, source_is mem (udp p) 547],
                any_of [dest_is mem (udp p) 546, dest_is mem (udp p) 547],
                test (\<lambda>b. 1 \<le> b) (byte_at mem p 0), test (\<lambda>b. b \<le> 13) (byte_at mem p 0)])
        (detect NDPI_PROTOCOL_DHCPV6 m f)
        (ndpi_exclude_protocol NDPI_PROTOCOL_DHCPV6 f))"

interpretation dhcpv6: dissector ndpi_search_dhcpv6_udp "{NDPI_PROTOCOL_DHCPV6}"
    NDPI_SELECTION_BITMASK_PROTOCOL_V6_UDP_WITH_PAYLOAD
  by (rule dissectorI) (auto simp: ndpi_search_dhcpv6_udp_def dissector_simps intro!: verdict_intros)

definition ndpi_search_qq :: dissecting where
  "ndpi_search_qq mem m f =
     (let p = packet m in
      branch (any_of [
                all_of [Some (payload_packet_len p = 72), word_is mem p 0 0x02004800],
                all_of [Some (payload_packet_len p = 64), word_is mem p 0 0x02004000],
                all_of [Some (payload_packet_len p = 60), word_is mem p 0 0x02004200],
                all_of [Some (payload_packet_len p = 84), word_is mem p 0 0x02005a00],
                all_of [Some (payload_packet_len p = 56), word_is mem p 0 0x02003800],
                all_of [Some (39 \<le> payload_packet_len p), word_is mem p 0 0x28000000]])
        (detect NDPI_PROTOCOL_QQ m f)
        (if 4 < num_processed_pkts f then ndpi_exclude_protocol NDPI_PROTOCOL_QQ f else Some f))"

interpretation qq: dissector ndpi_search_qq "{NDPI_PROTOCOL_QQ}"
    NDPI_SELECTION_BITMASK_PROTOCOL_V4_V6_UDP_WITH_PAYLOAD
  by (rule dissectorI) (auto simp: ndpi_search_qq_def dissector_simps intro!: verdict_intros)

definition ndpi_search_genshin_impact :: dissecting where
  "ndpi_search_genshin_impact mem m f =
     (let p = packet m in
      branch (all_of [Some (present (udp p)), Some (packet_counter f = 1), Some (20 \<le> payload_packet_len p),
                word_is mem p 0 0x000000FF, word_is mem p 4 0x00000000,
                word_is mem p 12 0x499602D2, word_is mem p 16 0xFFFFFFFF])
        (detect NDPI_PROTOCOL_GENSHIN_IMPACT m f)
        (ndpi_exclude_protocol NDPI_PROTOCOL_GENSHIN_IMPACT f))"

interpretation genshin_impact: dissector ndpi_search_genshin_impact "{NDPI_PROTOCOL_GENSHIN_IMPACT}"
    NDPI_SELECTION_BITMASK_PROTOCOL_V4_V6_UDP_WITH_PAYLOAD
  by (rule dissectorI) (auto simp: ndpi_search_genshin_impact_def dissector_simps intro!: verdict_intros)

definition ndpi_search_vhua :: dissecting where
  "ndpi_search_vhua mem m f =
     (let p = packet m; p0 = [0x05, 0x14, 0x3a, 0x05, 0x08, 0xf8, 0xa1, 0xb1, 0x03] in
      if app_of f = NDPI_PROTOCOL_VHUA then Some f
      else if payload_packet_len p = 0 then Some f
      else if 3 < packet_counter f \<or> \<not> present (udp p) \<or> payload_packet_len p < 9
      then ndpi_exclude_protocol NDPI_PROTOCOL_VHUA f
      else branch (text_is mem p 0 p0) (detect NDPI_PROTOCOL_VHUA m f) (Some f))"

interpretation vhua: dissector ndpi_search_vhua "{NDPI_PROTOCOL_VHUA}"
    NDPI_SELECTION_BITMASK_PROTOCOL_V4_V6_UDP_WITH_PAYLOAD
  by (rule dissectorI) (auto simp: ndpi_search_vhua_def dissector_simps intro!: verdict_intros)

definition ndpi_search_kakaotalk_voice :: dissecting where
  "ndpi_search_kakaotalk_voice mem m f =
     (let p = packet m in
      branch (all_of [Some (present (iph p)), Some (present (udp p)), Some (4 \<le> payload_packet_len p),
                any_of [byte_is mem p 0 0x81, byte_is mem p 1 0xC8, byte_is mem p 2 0x00, byte_is mem p 3 0x0C],
                any_of [test (\<lambda>a. a AND 0xFFFF0000 = 0x01C90000) (ip_source mem p),
                  test (\<lambda>a. a AND 0xFFFF0000 = 0x01C90000) (ip_dest mem p)]])
        (detect NDPI_PROTOCOL_KAKAOTALK_VOICE m f)
        (ndpi_exclude_protocol NDPI_PROTOCOL_KAKAOTALK_VOICE f))"

interpretation kakaotalk_voice: dissector ndpi_search_kakaotalk_voice "{NDPI_PROTOCOL_KAKAOTALK_VOICE}"
    NDPI_SELECTION_BITMASK_PROTOCOL_V4_V6_UDP_WITH_PAYLOAD
  by (rule dissectorI) (auto simp: ndpi_search_kakaotalk_voice_def dissector_simps intro!: verdict_intros)

definition ndpi_search_ssdp :: dissecting where
  "ndpi_search_ssdp mem m f =
     (let p = packet m in
      if present (udp p) \<and> 19 \<le> payload_packet_len p then
        branch (any_of [text_is mem p 0 (str ''M-SEARCH * HTTP/1.1''), text_is mem p 0 (str ''NOTIFY * HTTP/1.1'')])
          (detect NDPI_PROTOCOL_SSDP m f)
          (branch (text_is mem p 0 (str ''HTTP/1.1 200 OK'' @ [13, 10]))
            (detect NDPI_PROTOCOL_SSDP m f)
            (ndpi_exclude_protocol NDPI_PROTOCOL_SSDP f))
      else ndpi_exclude_protocol NDPI_PROTOCOL_SSDP f)"

interpretation ssdp: dissector ndpi_search_ssdp "{NDPI_PROTOCOL_SSDP}"
    NDPI_SELECTION_BITMASK_PROTOCOL_V4_V6_UDP_WITH_PAYLOAD
  by (rule dissectorI) (auto simp: ndpi_search_ssdp_def dissector_simps intro!: verdict_intros)

definition ndpi_search_noe :: dissecting where
  "ndpi_search_noe mem m f =
     (let p = packet m in
      branch (all_of [Some (present (udp p)),
                any_of [
                  all_of [Some (payload_packet_len p = 1), any_of [byte_is mem p 0 0x05, byte_is mem p 0 0x04]],
                  all_of [Some (payload_packet_len p = 5 \<or> payload_packet_len p = 12), byte_is mem p 0 0x07,
                    byte_is mem p 1 0x00, negated (byte_is mem p 2 0x00), byte_is mem p 3 0x00],
                  all_of [Some (25 \<le> payload_packet_len p), byte_is mem p 0 0x00, byte_is mem p 1 0x06,
                    byte_is mem p 2 0x62, byte_is mem p 3 0x6c]]])
        (detect NDPI_PROTOCOL_NOE m f)
        (ndpi_exclude_protocol NDPI_PROTOCOL_NOE f))"

interpretation noe: dissector ndpi_search_noe "{NDPI_PROTOCOL_NOE}"
    NDPI_SELECTION_BITMASK_PROTOCOL_V4_V6_UDP_WITH_PAYLOAD
  by (rule dissectorI) (auto simp: ndpi_search_noe_def dissector_simps intro!: verdict_intros)

definition ndpi_search_lisp :: dissecting where
  "ndpi_search_lisp mem m f =
     (let p = packet m in
      if app_of f = NDPI_PROTOCOL_LISP then Some f
      else branch (all_of [Some (present (udp p)),
                     any_of [
                       all_of [source_is mem (udp p) 4341, dest_is mem (udp p) 4341],
                       all_of [source_is mem (udp p) 4342, dest_is mem (udp p) 4342]]])
             (detect NDPI_PROTOCOL_LISP m f)
             (ndpi_exclude_protocol NDPI_PROTOCOL_LISP f))"

interpretation lisp: dissector ndpi_search_lisp "{NDPI_PROTOCOL_LISP}"
    NDPI_SELECTION_BITMASK_PROTOCOL_V4_V6_UDP_WITH_PAYLOAD
  by (rule dissectorI) (auto simp: ndpi_search_lisp_def dissector_simps intro!: verdict_intros)

definition ndpi_search_radius :: dissecting where
  "ndpi_search_radius mem m f =
     (let p = packet m; h = udp p in
      if app_of f = NDPI_PROTOCOL_RADIUS then Some f
      else branch (all_of [Some (present h),
                     any_of [dest_is mem h 1812, source_is mem h 1812, dest_is mem h 1813, source_is mem h 1813,
                       dest_is mem h 18013, source_is mem h 18013]])
             (if payload_packet_len p < 20 \<or> 4096 < payload_packet_len p
              then ndpi_exclude_protocol NDPI_PROTOCOL_RADIUS f
              else branch (all_of [test (\<lambda>b. 0 < b) (byte_at mem p 0), test (\<lambda>b. b \<le> 13) (byte_at mem p 0),
                             test (\<lambda>n. unat n = payload_packet_len p) (half_at mem p 2)])
                     (detect NDPI_PROTOCOL_RADIUS m f)
                     (ndpi_exclude_protocol NDPI_PROTOCOL_RADIUS f))
             (Some f))"

interpretation radius: dissector ndpi_search_radius "{NDPI_PROTOCOL_RADIUS}"
    NDPI_SELECTION_BITMASK_PROTOCOL_V4_V6_UDP_WITH_PAYLOAD
  by (rule dissectorI) (auto simp: ndpi_search_radius_def dissector_simps intro!: verdict_intros)

definition ndpi_search_dropbox :: dissecting where
  "ndpi_search_dropbox mem m f =
     (let p = packet m in
      if app_of f = NDPI_PROTOCOL_DROPBOX then Some f
      else branch (all_of [Some (present (udp p)), dest_is mem (udp p) 17500])
             (branch (source_is mem (udp p) 17500)
               (branch (all_of [Some (10 < payload_packet_len p),
                          finds_at mem p 0 (payload_packet_len p) (str ''\"host_int\"'')])
                 (detect NDPI_PROTOCOL_DROPBOX m f)
                 (ndpi_exclude_protocol NDPI_PROTOCOL_DROPBOX f))
               (branch (all_of [Some (10 < payload_packet_len p),
                          finds_at mem p 0 (payload_packet_len p) (str ''Bus17Cmd'')])
                 (detect NDPI_PROTOCOL_DROPBOX m f)
                 (ndpi_exclude_protocol NDPI_PROTOCOL_DROPBOX f)))
             (ndpi_exclude_protocol NDPI_PROTOCOL_DROPBOX f))"

interpretation dropbox: dissector ndpi_search_dropbox "{NDPI_PROTOCOL_DROPBOX}"
    NDPI_SELECTION_BITMASK_PROTOCOL_V4_V6_UDP_WITH_PAYLOAD
  by (rule dissectorI) (auto simp: ndpi_search_dropbox_def dissector_simps intro!: verdict_intros)

definition ndpi_search_kontiki :: dissecting where
  "ndpi_search_kontiki mem m f =
     (let p = packet m in
      branch (any_of [
                all_of [Some (payload_packet_len p = 4), word_is mem p 0 0x02010100],
                all_of [Some (0 < payload_packet_len p), byte_is mem p 0 0x02,
                  any_of [
                    all_of [Some (payload_packet_len p = 20), word_is mem p 16 0x02040100],
                    all_of [Some (payload_packet_len p = 16), word_is mem p 12 0x000004e4]]]])
        (detect NDPI_PROTOCOL_KONTIKI m f)
        (ndpi_exclude_protocol NDPI_PROTOCOL_KONTIKI f))"

interpretation kontiki: dissector ndpi_search_kontiki "{NDPI_PROTOCOL_KONTIKI}"
    NDPI_SELECTION_BITMASK_PROTOCOL_V4_V6_UDP_WITH_PAYLOAD
  by (rule dissectorI) (auto simp: ndpi_search_kontiki_def dissector_simps intro!: verdict_intros)

end
