(* ===== verification/Udp_Sessions.thy ===== *)
theory Udp_Sessions
  imports Dissector_Base
begin

text \<open>
  Dissectors for UDP that walk through the payload or remember something of the flow between
  packets, with the interpretation of the contract \<open>dissector\<close> for each.
\<close>

section \<open>Loops over the payload\<close>

text \<open>\<open>n\<close> is the number of chunks left.\<close>

fun mpegts_chunks :: "bytes \<Rightarrow> ndpi_packet \<Rightarrow> nat \<Rightarrow> nat \<Rightarrow> bool option" where
  "mpegts_chunks mem p i 0 = Some True"
| "mpegts_chunks mem p i (Suc n) = branch (byte_is mem p (188 * i) 0x47) (mpegts_chunks mem p (i + 1) n) (Some False)"

definition ndpi_search_mpegts :: dissecting where
  "ndpi_search_mpegts mem m f =
     (let p = packet m in
      branch (all_of [Some (present (udp p)), Some (payload_packet_len p mod 188 = 0),
                mpegts_chunks mem p 0 (payload_packet_len p div 188)])
        (detect NDPI_PROTOCOL_MPEGTS m f)
        (ndpi_exclude_protocol NDPI_PROTOCOL_MPEGTS f))"

lemma mpegts_defined:
  assumes "view_ok (length mem) p" "(i + n) * 188 \<le> payload_packet_len p"
  shows "defined (mpegts_chunks mem p i n)"
  using assms(2)
proof (induction n arbitrary: i)
  case (Suc n)
  have "defined (byte_at mem p (188 * i))" using Suc.prems by (intro defined_reads(1) [OF assms(1)]) simp
  then show ?case using Suc by (simp add: defined_simps)
qed (simp add: defined_simps)

lemma mpegts_chunks_defined:
  assumes "view_ok (length mem) p" "payload_packet_len p mod 188 = 0"
  shows "defined (mpegts_chunks mem p 0 (payload_packet_len p div 188))"
  using assms by (intro mpegts_defined) auto

interpretation mpegts: dissector ndpi_search_mpegts "{NDPI_PROTOCOL_MPEGTS}"
    NDPI_SELECTION_BITMASK_PROTOCOL_V4_V6_UDP_WITH_PAYLOAD
  by (rule dissectorI) (auto simp: ndpi_search_mpegts_def mpegts_chunks_defined dissector_simps intro!: verdict_intros)

text \<open>The rest of a message is searched for the protocol's name.\<close>

function mgcp_name :: "bytes \<Rightarrow> ndpi_packet \<Rightarrow> nat \<Rightarrow> bool option" where
  "mgcp_name mem p pos =
     (if pos + 4 < payload_packet_len p
      then branch (text_is mem p pos (str ''MGCP '')) (Some True) (mgcp_name mem p (pos + 1))
      else Some False)"
  by pat_completeness auto
termination by (relation "measure (\<lambda>(mem, p, pos). payload_packet_len p - pos)") auto

declare mgcp_name.simps [simp del]

definition ndpi_search_mgcp :: dissecting where
  "ndpi_search_mgcp mem m f =
     (let p = packet m in
      branch (all_of [Some (8 \<le> payload_packet_len p), byte_is mem p (payload_packet_len p - 1) 0x0a,
                any_of (map (\<lambda>c. byte_is mem p 0 c) (str ''ACDEMNR'')),
                any_of (map (\<lambda>t. text_is mem p 0 (str t))
                  [''AUEP '', ''AUCX '', ''CRCX '', ''DLCX '', ''EPCF '', ''MDCX '', ''NTFY '', ''RQNT '', ''RSIP '']),
                mgcp_name mem p 5])
        (detect NDPI_PROTOCOL_MGCP m f)
        (ndpi_exclude_protocol NDPI_PROTOCOL_MGCP f))"

lemma mgcp_name_defined: "view_ok (length mem) p \<Longrightarrow> defined (mgcp_name mem p pos)"
proof (induction mem p pos rule: mgcp_name.induct)
  case (1 mem p pos)
  then show ?case by (subst mgcp_name.simps) (simp add: defined_simps)
qed

interpretation mgcp: dissector ndpi_search_mgcp "{NDPI_PROTOCOL_MGCP}"
    NDPI_SELECTION_BITMASK_PROTOCOL_V4_V6_UDP_WITH_PAYLOAD
  by (rule dissectorI) (auto simp: ndpi_search_mgcp_def mgcp_name_defined str_def dissector_simps intro!: verdict_intros)

text \<open>At most \<open>n\<close> information elements, from offset \<open>len\<close> on, that end with the payload.\<close>

fun iax_elements :: "bytes \<Rightarrow> ndpi_packet \<Rightarrow> nat \<Rightarrow> nat \<Rightarrow> bool option" where
  "iax_elements mem p len 0 = Some False"
| "iax_elements mem p len (Suc n) =
     (if payload_packet_len p \<le> len + 1 then Some False
      else do {
        b \<leftarrow> byte_at mem p (len + 1);
        let len = c_u16 (len + 2 + unat b);
        if len = payload_packet_len p then Some True else iax_elements mem p len n
      })"

definition ndpi_search_iax :: dissecting where
  "ndpi_search_iax mem m f =
     (let p = packet m in
      if present (udp p) \<and> app_of f = NDPI_PROTOCOL_UNKNOWN then
        branch (all_of [port_is mem (udp p) 4569, Some (12 \<le> payload_packet_len p),
                  test (\<lambda>b. b AND 0x80 \<noteq> 0) (byte_at mem p 0), byte_is mem p 8 0,
                  any_of [byte_is mem p 9 0, byte_is mem p 9 0x01], byte_is mem p 10 0x06,
                  test (\<lambda>b. b \<le> 15) (byte_at mem p 11),
                  any_of [Some (payload_packet_len p = 12), iax_elements mem p 12 15]])
          (detect NDPI_PROTOCOL_IAX m f)
          (ndpi_exclude_protocol NDPI_PROTOCOL_IAX f)
      else Some f)"

lemma iax_elements_defined: "view_ok (length mem) p \<Longrightarrow> defined (iax_elements mem p len n)"
proof (induction n arbitrary: len)
  case (Suc n)
  show ?case
  proof (cases "payload_packet_len p \<le> len + 1")
    case False
    then have "defined (byte_at mem p (len + 1))" by (intro defined_reads(1) [OF Suc.prems]) simp
    then show ?thesis using False Suc by (auto simp: Let_def defined_simps intro!: defined_bind)
  qed (simp add: defined_simps)
qed (simp add: defined_simps)

interpretation iax: dissector ndpi_search_iax "{NDPI_PROTOCOL_IAX}"
    NDPI_SELECTION_BITMASK_PROTOCOL_V4_V6_UDP_WITH_PAYLOAD
  by (rule dissectorI) (auto simp: ndpi_search_iax_def iax_elements_defined dissector_simps intro!: verdict_intros)

text \<open>The name of the transfer mode at the end of a request.\<close>

fun tftp_mode :: "bytes \<Rightarrow> ndpi_packet \<Rightarrow> string list \<Rightarrow> bool option" where
  "tftp_mode mem p [] = Some False"
| "tftp_mode mem p (t # ts) =
     (if payload_packet_len p < length t + 1 then tftp_mode mem p ts
      else branch (strncmp_at c_tolower mem p (payload_packet_len p - 1 - length t) (length t) (str t))
             (Some True) (tftp_mode mem p ts))"

definition tftp_stage_up :: dissecting where
  "tftp_stage_up mem m f =
     (if stages f tftp_stage < 3 then store tftp_stage (stages f tftp_stage + 1) f
      else detect NDPI_PROTOCOL_TFTP m f)"

definition ndpi_search_tftp :: dissecting where
  "ndpi_search_tftp mem m f =
     (let p = packet m; n = payload_packet_len p; no = ndpi_exclude_protocol NDPI_PROTOCOL_TFTP f in
      branch (any_of [Some (n < 4), negated (byte_is mem p 0 0x00)]) no
        (do {
          opcode \<leftarrow> byte_at mem p 1;
          if opcode = 0x01 \<or> opcode = 0x02 then
            branch (negated (byte_is mem p (n - 1) 0x00)) no
              (branch (tftp_mode mem p [''netascii'', ''octet'', ''mail'']) (detect NDPI_PROTOCOL_TFTP m f) no)
          else if opcode = 0x03 then (if 4 + 512 < n then no else tftp_stage_up mem m f)
          else if opcode = 0x04 then (if n \<noteq> 4 then no else tftp_stage_up mem m f)
          else if opcode = 0x05 then
            branch (any_of [Some (n < 5), negated (byte_is mem p (n - 1) 0x00), negated (byte_is mem p 2 0x00),
                      test (\<lambda>b. 0x07 < b) (byte_at mem p 3)]) no (tftp_stage_up mem m f)
          else no
        }))"

lemma tftp_mode_defined:
  "view_ok (length mem) p \<Longrightarrow> [] \<notin> set ts \<Longrightarrow> defined (tftp_mode mem p ts)"
proof (induction ts)
  case (Cons t ts)
  have "defined (strncmp_at c_tolower mem p (payload_packet_len p - 1 - length t) (length t) (str t))"
    if "\<not> payload_packet_len p < length t + 1"
  proof -
    have "0 < length t" using Cons.prems by auto
    then show ?thesis using that Cons.prems by (intro defined_searches(1)) auto
  qed
  then show ?case using Cons by (simp add: defined_simps)
qed (simp add: defined_simps)

declare tftp_mode.simps [simp del]

interpretation tftp: dissector ndpi_search_tftp "{NDPI_PROTOCOL_TFTP}"
    NDPI_SELECTION_BITMASK_PROTOCOL_V4_V6_UDP_WITH_PAYLOAD
  by (rule dissectorI) (auto simp: ndpi_search_tftp_def tftp_mode_defined tftp_stage_up_def dissector_simps intro!: verdict_intros)

section \<open>Payloads with lengths\<close>

definition armagetron_net :: dissecting where
  "armagetron_net mem m f =
     (let p = packet m; n = payload_packet_len p; no = ndpi_exclude_protocol NDPI_PROTOCOL_ARMAGETRON f in
      branch (all_of [Some (50 < n), half_is mem p 0 0x0018, negated (half_is mem p 2 0)])
        (do {
          data_length \<leftarrow> half_at mem p 4;
          if data_length = 0 \<or> n < unat data_length * 2 + 8 then no
          else do {
            val \<leftarrow> raw_half_at mem p 8;
            same \<leftarrow> raw_half_at mem p 12;
            if val = same then do {
              val \<leftarrow> half_at mem p 14;
              branch (all_of [Some (6 + 10 + unat val + 4 < n),
                        any_of [word_is mem p (6 + 10 + unat val) 0x00010000, word_is mem p (6 + 10 + unat val) 0x00000001],
                        half_is mem p (n - 2) 0])
                (detect NDPI_PROTOCOL_ARMAGETRON m f) no
            }
            else no
          }
        })
        no)"

definition armagetron_sync :: dissecting where
  "armagetron_sync mem m f =
     (let p = packet m; n = payload_packet_len p; no = ndpi_exclude_protocol NDPI_PROTOCOL_ARMAGETRON f in
      branch (all_of [Some (n = 16), half_is mem p 0 0x001c, negated (half_is mem p 2 0)])
        (do {
          data_length \<leftarrow> half_at mem p 4;
          if data_length \<noteq> 4 then no
          else branch (all_of [word_is mem p 6 0x00000500, word_is mem p (6 + 4) 0x00010000, half_is mem p (n - 2) 0])
                 (detect NDPI_PROTOCOL_ARMAGETRON m f) (armagetron_net mem m f)
        })
        (armagetron_net mem m f))"

definition ndpi_search_armagetron_udp :: dissecting where
  "ndpi_search_armagetron_udp mem m f =
     (let p = packet m; n = payload_packet_len p; no = ndpi_exclude_protocol NDPI_PROTOCOL_ARMAGETRON f in
      if 10 < n then
        branch (word_is mem p 0 0x000b0000)
          (do {
            data_length \<leftarrow> half_at mem p 4;
            if data_length = 0 \<or> unat data_length * 2 + 8 \<noteq> n then no
            else branch (all_of [half_is mem p 6 0x0008, half_is mem p (n - 2) 0])
                   (detect NDPI_PROTOCOL_ARMAGETRON m f) (armagetron_sync mem m f)
          })
          (armagetron_sync mem m f)
      else no)"

interpretation armagetron: dissector ndpi_search_armagetron_udp "{NDPI_PROTOCOL_ARMAGETRON}"
    NDPI_SELECTION_BITMASK_PROTOCOL_V4_V6_UDP_WITH_PAYLOAD
  by (rule dissectorI) (auto simp: ndpi_search_armagetron_udp_def armagetron_net_def armagetron_sync_def dissector_simps intro!: verdict_intros)

definition ndpi_search_gtp :: dissecting where
  "ndpi_search_gtp mem m f =
     (let p = packet m; n = payload_packet_len p; h = udp p in
      if app_of f = NDPI_PROTOCOL_GTP then Some f
      else if present h \<and> 4 < n then do {
        flags \<leftarrow> byte_at mem p 0;
        message_type \<leftarrow> byte_at mem p 1;
        message_len \<leftarrow> half_at mem p 2;
        let version = drop_bit 5 (flags AND 0xE0);
        let pt = drop_bit 4 (flags AND 0x10);
        branch (all_of [port_is mem h 2152, Some (version = 1 \<and> pt = 1 \<and> 8 \<le> n \<and> unat message_len \<le> n - 8)])
          (ndpi_set_detected_protocol m NDPI_PROTOCOL_GTP_U NDPI_PROTOCOL_GTP NDPI_CONFIDENCE_DPI f)
          (branch (all_of [port_is mem h 2123,
                     Some (version = 1 \<and> 8 \<le> n \<and> unat message_len = n - 8
                             \<and> 4 * (if flags AND 0x07 \<noteq> 0 then 1 else 0) \<le> unat message_len
                             \<and> 0 < message_type \<and> message_type \<le> 129
                           \<or> version = 2 \<and> unat message_len = n - 4)])
            (ndpi_set_detected_protocol m NDPI_PROTOCOL_GTP_C NDPI_PROTOCOL_GTP NDPI_CONFIDENCE_DPI f)
            (branch (all_of [port_is mem h 3386,
                       Some (pt = 0 \<and> drop_bit 1 (flags AND 0x0E) = 0x7 \<and> 6 \<le> n \<and> unat message_len \<le> n - 6
                             \<and> (0 < message_type \<and> message_type \<le> 7 \<or> message_type = 240 \<or> message_type = 241))])
              (ndpi_set_detected_protocol m NDPI_PROTOCOL_GTP_PRIME NDPI_PROTOCOL_GTP NDPI_CONFIDENCE_DPI f)
              (ndpi_exclude_protocol NDPI_PROTOCOL_GTP f)))
      }
      else ndpi_exclude_protocol NDPI_PROTOCOL_GTP f)"

interpretation gtp: dissector ndpi_search_gtp "{NDPI_PROTOCOL_GTP, NDPI_PROTOCOL_GTP_U, NDPI_PROTOCOL_GTP_C, NDPI_PROTOCOL_GTP_PRIME}"
    NDPI_SELECTION_BITMASK_PROTOCOL_V4_V6_UDP_WITH_PAYLOAD
  by (rule dissectorI) (auto simp: ndpi_search_gtp_def dissector_simps intro!: verdict_intros)

definition is_capwap_multicast :: "bytes \<Rightarrow> ndpi_packet \<Rightarrow> bool option" where
  "is_capwap_multicast mem p =
     (if present (iph p) then
        any_of [test (\<lambda>a. a = 0xFFFFFFFF) (ip_dest mem p), test (\<lambda>a. a = 0xE000018C) (ip_dest mem p)]
      else if present (iphv6 p) then
        all_of [test (\<lambda>a. ntohl (a AND 0xFFF0FFFF) = 0xFF000000) (raw_ip6_dest mem p 0),
          test (\<lambda>a. a = 0) (raw_ip6_dest mem p 1), test (\<lambda>a. a = 0) (raw_ip6_dest mem p 2),
          test (\<lambda>a. ntohl (if a = 0x0000018C then 1 else 0) \<noteq> 0) (raw_ip6_dest mem p 3)]
      else Some False)"

definition ndpi_search_capwap :: dissecting where
  "ndpi_search_capwap mem m f =
     (let p = packet m; n = payload_packet_len p in
      if present (udp p) \<and> app_of f = NDPI_PROTOCOL_UNKNOWN then do {
        sport \<leftarrow> source_of mem (udp p);
        dport \<leftarrow> dest_of mem (udp p);
        branch (any_of [
            all_of [Some (dport = 5246), is_capwap_multicast mem p, Some (16 \<le> n), byte_is mem p 0 0x0, byte_is mem p 8 6],
            all_of [Some (sport = 5246 \<or> dport = 5246),
              any_of [
                all_of [byte_is mem p 0 0x0, Some (13 + 2 \<le> n), test (\<lambda>l. unat l + 13 = n) (half_at mem p 13)],
                all_of [byte_is mem p 0 0x1, Some (15 + 2 \<le> n), test (\<lambda>l. unat l + 17 = n) (half_at mem p 15)]]],
            all_of [any_of [all_of [Some (dport = 5247), negated (is_capwap_multicast mem p)], Some (sport = 5247)],
              Some (16 \<le> n), byte_is mem p 0 0x0,
              any_of [
                all_of [Some (sport = 5247), test (\<lambda>b. drop_bit 2 (b AND 0x0C) = 2) (byte_at mem p 9)],
                all_of [Some (dport = 5247),
                  any_of [byte_is mem p 8 1, byte_is mem p 8 6, byte_is mem p 8 4,
                    test (\<lambda>l. unat l + 15 = n) (half_at mem p 13)]]]]])
          (detect NDPI_PROTOCOL_CAPWAP m f)
          (ndpi_exclude_protocol NDPI_PROTOCOL_CAPWAP f)
      }
      else Some f)"

interpretation capwap: dissector ndpi_search_capwap "{NDPI_PROTOCOL_CAPWAP}"
    NDPI_SELECTION_BITMASK_PROTOCOL_V4_V6_UDP_WITH_PAYLOAD
  by (rule dissectorI) (auto simp: ndpi_search_capwap_def is_capwap_multicast_def dissector_simps intro!: verdict_intros)

text \<open>
  The age of the packet by its time stamp: 32-bit arithmetic on the seconds of the header and on the
  low half of the capture time, which is in milliseconds.
\<close>

definition ndpi_search_ayiya :: dissecting where
  "ndpi_search_ayiya mem m f =
     (let p = packet m in
      if present (udp p) \<and> app_of f = NDPI_PROTOCOL_UNKNOWN then
        branch (all_of [port_is mem (udp p) 5072, Some (44 < payload_packet_len p)])
          (do {
            epoch \<leftarrow> word_at mem p 4;
            let fiveyears = 86400 * 365 * 5;
            let now = ucast (current_time_ms p);
            if now - fiveyears \<le> epoch \<and> epoch \<le> now + 86400
            then detect NDPI_PROTOCOL_AYIYA m f else Some f
          })
          (ndpi_exclude_protocol NDPI_PROTOCOL_AYIYA f)
      else Some f)"

interpretation ayiya: dissector ndpi_search_ayiya "{NDPI_PROTOCOL_AYIYA}"
    NDPI_SELECTION_BITMASK_PROTOCOL_V4_V6_UDP_WITH_PAYLOAD
  by (rule dissectorI) (auto simp: ndpi_search_ayiya_def dissector_simps intro!: verdict_intros)

section \<open>State between packets\<close>

definition ndpi_search_halflife2 :: dissecting where
  "ndpi_search_halflife2 mem m f =
     (let p = packet m; n = payload_packet_len p; no = ndpi_exclude_protocol NDPI_PROTOCOL_HALFLIFE2 f;
          seen = all_of [Some (20 \<le> n), word_is mem p 0 0xFFFFFFFF, word_is mem p (n - 4) 0x30303000] in
      if stages f halflife2_stage = 0 then
        branch seen (store halflife2_stage (1 + pkt_direction p) f) no
      else if stages f halflife2_stage = 2 - pkt_direction p then
        branch seen (detect NDPI_PROTOCOL_HALFLIFE2 m f) no
      else no)"

interpretation halflife2: dissector ndpi_search_halflife2 "{NDPI_PROTOCOL_HALFLIFE2}"
    NDPI_SELECTION_BITMASK_PROTOCOL_V4_V6_UDP_WITH_PAYLOAD
  by (rule dissectorI) (auto simp: ndpi_search_halflife2_def dissector_simps intro!: verdict_intros)

definition ndpi_search_imo :: dissecting where
  "ndpi_search_imo mem m f =
     (let p = packet m; n = payload_packet_len p in
      if n = 1 then do {
        b \<leftarrow> byte_at mem p 0;
        if stages f imo_last_one_byte_pkt = 1 \<and> stages f imo_last_byte = unat b then detect NDPI_PROTOCOL_IMO m f
        else do { f \<leftarrow> store imo_last_one_byte_pkt 1 f; store imo_last_byte (unat b) f }
      }
      else branch (any_of [
          all_of [Some (n = 10), byte_is mem p 0 0x09, byte_is mem p 1 0x02],
          all_of [Some (n = 11), byte_is mem p 0 0x00, byte_is mem p 1 0x09, byte_is mem p 2 0x03],
          all_of [Some (n = 1099), byte_is mem p 0 0x88, byte_is mem p 1 0x49, byte_is mem p 2 0x1a, byte_is mem p 3 0x00]])
        (detect NDPI_PROTOCOL_IMO m f)
        (if 5 < num_processed_pkts f then ndpi_exclude_protocol NDPI_PROTOCOL_IMO f
         else store imo_last_one_byte_pkt 0 f))"

interpretation imo: dissector ndpi_search_imo "{NDPI_PROTOCOL_IMO}"
    NDPI_SELECTION_BITMASK_PROTOCOL_V4_V6_UDP_WITH_PAYLOAD
  by (rule dissectorI) (auto simp: ndpi_search_imo_def dissector_simps intro!: verdict_intros)

text \<open>A packet counter and a sequence number that stays or goes up by one.\<close>

definition eaq_next :: dissecting where
  "eaq_next mem m f = do {
     f \<leftarrow> store eaq_pkt_id (stages f eaq_pkt_id + 1) f;
     if stages f eaq_pkt_id = 4 then detect NDPI_PROTOCOL_EAQ m f else Some f
   }"

definition ndpi_search_eaq :: dissecting where
  "ndpi_search_eaq mem m f = do {
     let p = packet m;
     sport \<leftarrow> source_of mem (udp p);
     dport \<leftarrow> dest_of mem (udp p);
     if payload_packet_len p \<noteq> 16 \<or> sport \<noteq> 6000 \<and> dport \<noteq> 6000 then ndpi_exclude_protocol NDPI_PROTOCOL_EAQ f
     else if present (udp p) then do {
       b0 \<leftarrow> byte_at mem p 0;
       b1 \<leftarrow> byte_at mem p 1;
       b2 \<leftarrow> byte_at mem p 2;
       b3 \<leftarrow> byte_at mem p 3;
       let seq = unat b0 * 1000 + unat b1 * 100 + unat b2 * 10 + unat b3;
       if stages f eaq_pkt_id = 0 then do { f \<leftarrow> store eaq_sequence seq f; eaq_next mem m f }
       else if stages f eaq_sequence \<noteq> seq \<and> c_u32 (stages f eaq_sequence + 1) \<noteq> seq
       then ndpi_exclude_protocol NDPI_PROTOCOL_EAQ f
       else do { f \<leftarrow> store eaq_sequence seq f; eaq_next mem m f }
     }
     else ndpi_exclude_protocol NDPI_PROTOCOL_EAQ f
   }"

interpretation eaq: dissector ndpi_search_eaq "{NDPI_PROTOCOL_EAQ}"
    NDPI_SELECTION_BITMASK_PROTOCOL_V4_V6_UDP_WITH_PAYLOAD
  by (rule dissectorI) (auto simp: ndpi_search_eaq_def eaq_next_def dissector_simps intro!: verdict_intros)

definition ndpi_search_xbox :: dissecting where
  "ndpi_search_xbox mem m f =
     (let p = packet m; n = payload_packet_len p in
      if present (udp p) then do {
        dport \<leftarrow> dest_of mem (udp p);
        sport \<leftarrow> source_of mem (udp p);
        branch (all_of [Some (12 < n), word_is mem p 0 0, byte_is mem p 5 0x58, text_is mem p 7 [0, 0, 0],
            any_of [
              all_of [byte_is mem p 4 0x0c, byte_is mem p 6 0x76], all_of [byte_is mem p 4 0x02, byte_is mem p 6 0x18],
              all_of [byte_is mem p 4 0x0b, byte_is mem p 6 0x80], all_of [byte_is mem p 4 0x03, byte_is mem p 6 0x40],
              all_of [byte_is mem p 4 0x06, byte_is mem p 6 0x4e]]])
          (detect NDPI_PROTOCOL_XBOX m f)
          (branch (all_of [Some (dport = 3074 \<or> sport = 3074),
              any_of [
                all_of [Some (n = 24), byte_is mem p 0 0x00],
                all_of [Some (n = 42), byte_is mem p 0 0x4f, byte_is mem p 2 0x0a],
                all_of [Some (n = 80), half_is mem p 0 0x50bc, byte_is mem p 2 0x45],
                all_of [Some (n = 40), word_is mem p 0 0xcf5f3202],
                all_of [Some (n = 38), word_is mem p 0 0xc1457f03],
                all_of [Some (n = 28), word_is mem p 0 0x015f2c00]]])
            (if stages f xbox_stage = 1 then detect NDPI_PROTOCOL_XBOX m f
             else store xbox_stage (stages f xbox_stage + 1) f)
            (do {
              no_http \<leftarrow> NDPI_COMPARE_PROTOCOL_TO_BITMASK (excluded_protocol_bitmask f) NDPI_PROTOCOL_HTTP;
              if no_http then ndpi_exclude_protocol NDPI_PROTOCOL_XBOX f else Some f
            }))
      }
      else Some f)"

interpretation xbox: dissector ndpi_search_xbox "{NDPI_PROTOCOL_XBOX}"
    NDPI_SELECTION_BITMASK_PROTOCOL_V4_V6_UDP_WITH_PAYLOAD
  by (rule dissectorI) (auto simp: ndpi_search_xbox_def dissector_simps intro!: verdict_intros)

text \<open>The checks of \<open>ndpi_search_csgo\<close> in their order; \<open>w\<close> is the first word of the payload.\<close>

definition csgo_end :: dissecting where
  "csgo_end mem m f = (if 5 < packet_counter f then ndpi_exclude_protocol NDPI_PROTOCOL_CSGO f else Some f)"

definition csgo_lists :: "u32 \<Rightarrow> dissecting" where
  "csgo_lists w mem m f =
     (let p = packet m; n = payload_packet_len p in
      branch (all_of [Some (140 \<le> n \<and> (w = 0x02124c6c \<or> w = 0x02125c6c)),
          text_is mem p 3 (str ''lta'' @ [0] @ str ''mob'' @ [0] @ str ''tpc'' @ [0] @ str ''bhj'' @ [0]
            @ str ''bxd'' @ [0] @ str ''tae'' @ [0] @ str ''urg'' @ [0] @ str ''gkh'' @ [0])])
        (detect NDPI_PROTOCOL_CSGO m f)
        (branch (all_of [Some (33 \<le> n), Some (present (iph p)), test (\<lambda>a. a = 0xffffffff) (ip_dest mem p),
             text_is mem p 17 (str ''LanSearch'')])
          (detect NDPI_PROTOCOL_CSGO m f)
          (if w = 0 then ndpi_exclude_protocol NDPI_PROTOCOL_CSGO f else csgo_end mem m f)))"

definition csgo_pairs :: "u32 \<Rightarrow> dissecting" where
  "csgo_pairs w mem m f =
     (let p = packet m; n = payload_packet_len p in
      if 6 < n \<and> stages f csgo_s2 < 3 \<and> w AND 0xffff0000 = 0x0d1d0000 then do {
        w2 \<leftarrow> raw_word_at mem p 2;
        if n = 13 then
          if stages f csgo_s2 = 0 then do { f \<leftarrow> store csgo_id2 (unat w2) f; store csgo_s2 1 f }
          else if stages f csgo_s2 = 1 \<and> stages f csgo_id2 = unat w2 then Some f
          else store csgo_s2 3 f
        else if n = 15 \<and> stages f csgo_s2 = 1 \<and> stages f csgo_id2 = unat w2 then detect NDPI_PROTOCOL_CSGO m f
        else do { f \<leftarrow> store csgo_s2 3 f; csgo_lists w mem m f }
      }
      else csgo_lists w mem m f)"

lemma csgo_end_verdict: "verdict {NDPI_PROTOCOL_CSGO} m f (csgo_end mem m f)"
  unfolding csgo_end_def by (intro verdict_intros) simp_all

lemma csgo_lists_verdict:
  "view_ok (length mem) (packet m) \<Longrightarrow> verdict {NDPI_PROTOCOL_CSGO} m f (csgo_lists w mem m f)"
  by (auto simp: csgo_lists_def dissector_simps intro!: verdict_intros csgo_end_verdict)

lemma csgo_pairs_verdict:
  "view_ok (length mem) (packet m) \<Longrightarrow> verdict {NDPI_PROTOCOL_CSGO} m f (csgo_pairs w mem m f)"
  by (auto simp: csgo_pairs_def dissector_simps intro!: verdict_intros csgo_lists_verdict)

definition ndpi_search_csgo :: dissecting where
  "ndpi_search_csgo mem m f =
     (let p = packet m; n = payload_packet_len p in
      if present (udp p) then
        if n < 4 then Some f
        else do {
          w \<leftarrow> word_at mem p 0;
          branch (all_of [Some (stages f csgo_state = 0 \<and> n = 23 \<and> w = 0xffffffff), text_is mem p 5 (str ''connect0x'')])
            (do {
              f \<leftarrow> store csgo_state (stages f csgo_state + 1) f;
              strid \<leftarrow> run_at mem p 5 18;
              copy_to csgo_strid strid f
            })
            (branch (all_of [Some (stages f csgo_state = 1 \<and> 42 \<le> n \<and> w = 0xffffffff),
                       test (\<lambda>b. b = saved_bytes f csgo_strid) (run_at mem p 24 18)])
              (do { f \<leftarrow> store csgo_state (stages f csgo_state + 1) f; detect NDPI_PROTOCOL_CSGO m f })
              (if n = 8 \<and> (w = 0x3a180000 \<or> w = 0x39180000) then detect NDPI_PROTOCOL_CSGO m f
               else if 36 \<le> n \<and> w = 0x56533031 then detect NDPI_PROTOCOL_CSGO m f
               else branch (all_of [Some (36 \<le> n \<and> w = 0x01007364), word_is mem p 4 0x70696e67])
                      (detect NDPI_PROTOCOL_CSGO m f)
                      (csgo_pairs w mem m f)))
        }
      else csgo_end mem m f)"

interpretation csgo: dissector ndpi_search_csgo "{NDPI_PROTOCOL_CSGO}"
    NDPI_SELECTION_BITMASK_PROTOCOL_V4_V6_UDP_WITH_PAYLOAD
  by (rule dissectorI) (auto simp: ndpi_search_csgo_def dissector_simps intro!: verdict_intros csgo_pairs_verdict csgo_end_verdict)

end
