(* ===== verification/Tcp_Dissectors.thy ===== *)
theory Tcp_Dissectors
  imports Dissector_Base
begin

text \<open>
  Dissectors under \<^verbatim>\<open>lib/protocols\<close> that are registered for TCP only and look at one packet: one
  definition for each search function together with the helpers of its file, and for each an
  interpretation of the contract \<open>dissector\<close>.
\<close>

section \<open>Signatures\<close>

definition ndpi_search_s7comm_tcp :: dissecting where
  "ndpi_search_s7comm_tcp mem m f =
     (let p = packet m in
      branch (all_of [Some (present (tcp p)), Some (2 \<le> payload_packet_len p), byte_is mem p 0 0x03, byte_is mem p 1 0x00,
                any_of [dest_is mem (tcp p) 102, source_is mem (tcp p) 102]])
        (detect NDPI_PROTOCOL_S7COMM m f)
        (ndpi_exclude_protocol NDPI_PROTOCOL_S7COMM f))"

interpretation s7comm: dissector ndpi_search_s7comm_tcp "{NDPI_PROTOCOL_S7COMM}"
    NDPI_SELECTION_BITMASK_PROTOCOL_V4_V6_TCP_WITH_PAYLOAD_WITHOUT_RETRANSMISSION
  by (rule dissectorI) (auto simp: ndpi_search_s7comm_tcp_def dissector_simps intro!: verdict_intros)

definition ndpi_search_corba :: dissecting where
  "ndpi_search_corba mem m f =
     (let p = packet m in
      if present (tcp p) then
        branch (all_of [Some (24 \<le> payload_packet_len p \<and> payload_packet_len p \<le> 144), text_is mem p 0 (str ''GIOP'')])
          (detect NDPI_PROTOCOL_CORBA m f) (Some f)
      else ndpi_exclude_protocol NDPI_PROTOCOL_CORBA f)"

interpretation corba: dissector ndpi_search_corba "{NDPI_PROTOCOL_CORBA}"
    NDPI_SELECTION_BITMASK_PROTOCOL_V4_V6_TCP_WITH_PAYLOAD_WITHOUT_RETRANSMISSION
  by (rule dissectorI) (auto simp: ndpi_search_corba_def dissector_simps intro!: verdict_intros)

definition ndpi_search_zabbix :: dissecting where
  "ndpi_search_zabbix mem m f =
     (let p = packet m in
      branch (all_of [Some (4 < payload_packet_len p), text_is mem p 0 (str ''ZBXD'' @ [0x1])])
        (detect NDPI_PROTOCOL_ZABBIX m f)
        (ndpi_exclude_protocol NDPI_PROTOCOL_ZABBIX f))"

interpretation zabbix: dissector ndpi_search_zabbix "{NDPI_PROTOCOL_ZABBIX}"
    NDPI_SELECTION_BITMASK_PROTOCOL_V4_V6_TCP_WITH_PAYLOAD_WITHOUT_RETRANSMISSION
  by (rule dissectorI) (auto simp: ndpi_search_zabbix_def dissector_simps intro!: verdict_intros)

definition ndpi_search_world_of_kung_fu :: dissecting where
  "ndpi_search_world_of_kung_fu mem m f =
     (let p = packet m in
      branch (all_of [Some (payload_packet_len p = 16), word_is mem p 0 0x0c000000, word_is mem p 4 0xd2000c00,
                byte_is mem p 9 0x16, half_is mem p 10 0x0000, half_is mem p 14 0x0000])
        (detect NDPI_PROTOCOL_WORLD_OF_KUNG_FU m f)
        (ndpi_exclude_protocol NDPI_PROTOCOL_WORLD_OF_KUNG_FU f))"

interpretation world_of_kung_fu: dissector ndpi_search_world_of_kung_fu "{NDPI_PROTOCOL_WORLD_OF_KUNG_FU}"
    NDPI_SELECTION_BITMASK_PROTOCOL_V4_V6_TCP_WITH_PAYLOAD_WITHOUT_RETRANSMISSION
  by (rule dissectorI) (auto simp: ndpi_search_world_of_kung_fu_def dissector_simps intro!: verdict_intros)

definition ndpi_search_applejuice_tcp :: dissecting where
  "ndpi_search_applejuice_tcp mem m f =
     (let p = packet m in
      branch (all_of [Some (7 < payload_packet_len p), byte_is mem p 6 0x0d, byte_is mem p 7 0x0a,
                text_is mem p 0 (str ''ajprot'')])
        (detect NDPI_PROTOCOL_APPLEJUICE m f)
        (ndpi_exclude_protocol NDPI_PROTOCOL_APPLEJUICE f))"

interpretation applejuice: dissector ndpi_search_applejuice_tcp "{NDPI_PROTOCOL_APPLEJUICE}"
    NDPI_SELECTION_BITMASK_PROTOCOL_V4_V6_TCP_WITH_PAYLOAD_WITHOUT_RETRANSMISSION
  by (rule dissectorI) (auto simp: ndpi_search_applejuice_tcp_def dissector_simps intro!: verdict_intros)

definition ndpi_search_bgp :: dissecting where
  "ndpi_search_bgp mem m f =
     (let p = packet m in
      branch (all_of [Some (present (tcp p)), Some (18 < payload_packet_len p), test (\<lambda>b. b < 5) (byte_at mem p 18),
                any_of [dest_is mem (tcp p) 179, source_is mem (tcp p) 179],
                text_is mem p 0 (replicate 8 0xff), text_is mem p 8 (replicate 8 0xff),
                test (\<lambda>l. unat l \<le> payload_packet_len p) (half_at mem p 16)])
        (detect NDPI_PROTOCOL_BGP m f)
        (ndpi_exclude_protocol NDPI_PROTOCOL_BGP f))"

interpretation bgp: dissector ndpi_search_bgp "{NDPI_PROTOCOL_BGP}"
    NDPI_SELECTION_BITMASK_PROTOCOL_V4_V6_TCP_WITH_PAYLOAD_WITHOUT_RETRANSMISSION
  by (rule dissectorI) (auto simp: ndpi_search_bgp_def dissector_simps intro!: verdict_intros)

definition ndpi_search_dnp3_tcp :: dissecting where
  "ndpi_search_dnp3_tcp mem m f =
     (let p = packet m in
      branch (all_of [Some (present (tcp p)), Some (10 \<le> payload_packet_len p), byte_is mem p 0 0x05, byte_is mem p 1 0x64])
        (detect NDPI_PROTOCOL_DNP3 m f)
        (ndpi_exclude_protocol NDPI_PROTOCOL_DNP3 f))"

interpretation dnp3: dissector ndpi_search_dnp3_tcp "{NDPI_PROTOCOL_DNP3}"
    NDPI_SELECTION_BITMASK_PROTOCOL_V4_V6_TCP_WITH_PAYLOAD_WITHOUT_RETRANSMISSION
  by (rule dissectorI) (auto simp: ndpi_search_dnp3_tcp_def dissector_simps intro!: verdict_intros)

definition ndpi_search_pptp :: dissecting where
  "ndpi_search_pptp mem m f =
     (let p = packet m in
      branch (all_of [Some (10 \<le> payload_packet_len p), half_is mem p 0 (of_nat (payload_packet_len p)),
                half_is mem p 2 0x0001, word_is mem p 4 0x1a2b3c4d, half_is mem p 8 0x0001])
        (detect NDPI_PROTOCOL_PPTP m f)
        (ndpi_exclude_protocol NDPI_PROTOCOL_PPTP f))"

interpretation pptp: dissector ndpi_search_pptp "{NDPI_PROTOCOL_PPTP}"
    NDPI_SELECTION_BITMASK_PROTOCOL_V4_V6_TCP_WITH_PAYLOAD_WITHOUT_RETRANSMISSION
  by (rule dissectorI) (auto simp: ndpi_search_pptp_def dissector_simps intro!: verdict_intros)

definition ndpi_search_rsync :: dissecting where
  "ndpi_search_rsync mem m f =
     (let p = packet m in
      if present (tcp p) then
        branch (all_of [Some (payload_packet_len p = 12), byte_is mem p 0 0x40, byte_is mem p 1 0x52, byte_is mem p 2 0x53,
                  byte_is mem p 3 0x59, byte_is mem p 4 0x4e, byte_is mem p 5 0x43, byte_is mem p 6 0x44,
                  byte_is mem p 7 0x3a])
          (detect NDPI_PROTOCOL_RSYNC m f) (Some f)
      else ndpi_exclude_protocol NDPI_PROTOCOL_RSYNC f)"

interpretation rsync: dissector ndpi_search_rsync "{NDPI_PROTOCOL_RSYNC}"
    NDPI_SELECTION_BITMASK_PROTOCOL_V4_V6_TCP_WITH_PAYLOAD_WITHOUT_RETRANSMISSION
  by (rule dissectorI) (auto simp: ndpi_search_rsync_def dissector_simps intro!: verdict_intros)

definition ndpi_search_stealthnet :: dissecting where
  "ndpi_search_stealthnet mem m f =
     (let p = packet m in
      branch (all_of [Some (40 < payload_packet_len p),
                text_is mem p 0 (str ''LARS REGENSBURGER'' @ [39] @ str ''S FILE SHARING PROTOCOL'')])
        (detect NDPI_PROTOCOL_STEALTHNET m f)
        (ndpi_exclude_protocol NDPI_PROTOCOL_STEALTHNET f))"

interpretation stealthnet: dissector ndpi_search_stealthnet "{NDPI_PROTOCOL_STEALTHNET}"
    NDPI_SELECTION_BITMASK_PROTOCOL_V4_V6_TCP_WITH_PAYLOAD_WITHOUT_RETRANSMISSION
  by (rule dissectorI) (auto simp: ndpi_search_stealthnet_def dissector_simps intro!: verdict_intros)

definition ndpi_search_ethernet_ip :: dissecting where
  "ndpi_search_ethernet_ip mem m f =
     (let p = packet m in
      branch (all_of [Some (present (tcp p)), Some (24 \<le> payload_packet_len p), port_is mem (tcp p) 44818,
                test (\<lambda>l. unat l + 24 = payload_packet_len p) (raw_half_at mem p 2)])
        (detect NDPI_PROTOCOL_ETHERNET_IP m f)
        (ndpi_exclude_protocol NDPI_PROTOCOL_ETHERNET_IP f))"

text \<open>No call of \<open>ndpi_init_detection_module\<close> registers it; this is the selection its own file asks for.\<close>

interpretation ethernet_ip: dissector ndpi_search_ethernet_ip "{NDPI_PROTOCOL_ETHERNET_IP}"
    NDPI_SELECTION_BITMASK_PROTOCOL_V4_V6_TCP_WITH_PAYLOAD_WITHOUT_RETRANSMISSION
  by (rule dissectorI) (auto simp: ndpi_search_ethernet_ip_def dissector_simps intro!: verdict_intros)

definition ndpi_search_hpvirtgrp :: dissecting where
  "ndpi_search_hpvirtgrp mem m f =
     (let p = packet m in
      branch (all_of [Some (present (tcp p)), Some (packet_counter f = 1), Some (4 \<le> payload_packet_len p),
                test (\<lambda>l. payload_packet_len p = unat l) (half_at mem p 1), byte_is mem p 0 0x16, byte_is mem p 3 0x00])
        (detect NDPI_PROTOCOL_HPVIRTGRP m f)
        (ndpi_exclude_protocol NDPI_PROTOCOL_HPVIRTGRP f))"

interpretation hpvirtgrp: dissector ndpi_search_hpvirtgrp "{NDPI_PROTOCOL_HPVIRTGRP}"
    NDPI_SELECTION_BITMASK_PROTOCOL_V4_V6_TCP_WITH_PAYLOAD_WITHOUT_RETRANSMISSION
  by (rule dissectorI) (auto simp: ndpi_search_hpvirtgrp_def dissector_simps intro!: verdict_intros)

definition ndpi_search_modbus_tcp :: dissecting where
  "ndpi_search_modbus_tcp mem m f =
     (let p = packet m in
      branch (all_of [Some (present (tcp p)), Some (8 \<le> payload_packet_len p),
                any_of [dest_is mem (tcp p) 502, source_is mem (tcp p) 502],
                test (\<lambda>l. uint l - 1 = int (payload_packet_len p) - 7) (half_at mem p 4)])
        (detect NDPI_PROTOCOL_MODBUS m f)
        (ndpi_exclude_protocol NDPI_PROTOCOL_MODBUS f))"

interpretation modbus: dissector ndpi_search_modbus_tcp "{NDPI_PROTOCOL_MODBUS}"
    NDPI_SELECTION_BITMASK_PROTOCOL_V4_V6_TCP_WITH_PAYLOAD_WITHOUT_RETRANSMISSION
  by (rule dissectorI) (auto simp: ndpi_search_modbus_tcp_def dissector_simps intro!: verdict_intros)

text \<open>Version 1 is reported together with a risk, unless it is the request to negotiate.\<close>

definition ndpi_search_smb_tcp :: dissecting where
  "ndpi_search_smb_tcp mem m f =
     (let p = packet m in
      branch (all_of [Some (present (tcp p)), any_of [dest_is mem (tcp p) 445, source_is mem (tcp p) 445],
                Some (32 + 4 + 4 < payload_packet_len p), word_is mem p 0 (of_nat (payload_packet_len p - 4))])
        (branch (text_is mem p 4 [0xff, 0x53, 0x4d, 0x42])
          (branch (negated (byte_is mem p 8 0x72))
            (do {
              f \<leftarrow> ndpi_set_detected_protocol m NDPI_PROTOCOL_SMBV1 NDPI_PROTOCOL_NETBIOS NDPI_CONFIDENCE_DPI f;
              ndpi_set_risk m NDPI_SMB_INSECURE_VERSION f
            })
            (Some f))
          (ndpi_set_detected_protocol m NDPI_PROTOCOL_SMBV23 NDPI_PROTOCOL_NETBIOS NDPI_CONFIDENCE_DPI f))
        (do { f \<leftarrow> ndpi_exclude_protocol NDPI_PROTOCOL_SMBV1 f; ndpi_exclude_protocol NDPI_PROTOCOL_SMBV23 f }))"

interpretation smb: dissector ndpi_search_smb_tcp "{NDPI_PROTOCOL_SMBV1, NDPI_PROTOCOL_SMBV23, NDPI_PROTOCOL_NETBIOS}"
    NDPI_SELECTION_BITMASK_PROTOCOL_V4_V6_TCP_WITH_PAYLOAD_WITHOUT_RETRANSMISSION
  by (rule dissectorI) (auto simp: ndpi_search_smb_tcp_def dissector_simps intro!: verdict_intros)

definition ndpi_search_fix :: dissecting where
  "ndpi_search_fix mem m f =
     (let p = packet m in
      branch (all_of [Some (present (tcp p) \<and> 5 < payload_packet_len p), byte_is mem p 0 0x38, byte_is mem p 1 0x3d,
                any_of [
                  all_of [byte_is mem p 2 0x46, byte_is mem p 3 0x49, byte_is mem p 4 0x58, byte_is mem p 5 0x2e],
                  all_of [byte_is mem p 2 0x4f, byte_is mem p 3 0x01, byte_is mem p 4 0x39, byte_is mem p 5 0x3d]]])
        (detect NDPI_PROTOCOL_FIX m f)
        (ndpi_exclude_protocol NDPI_PROTOCOL_FIX f))"

interpretation fix_protocol: dissector ndpi_search_fix "{NDPI_PROTOCOL_FIX}"
    NDPI_SELECTION_BITMASK_PROTOCOL_V4_V6_TCP_WITH_PAYLOAD
  by (rule dissectorI) (auto simp: ndpi_search_fix_def dissector_simps intro!: verdict_intros)

definition ndpi_search_oracle :: dissecting where
  "ndpi_search_oracle mem m f =
     (let p = packet m; n = payload_packet_len p in
      if present (tcp p) then do {
        sport \<leftarrow> source_of mem (tcp p);
        dport \<leftarrow> dest_of mem (tcp p);
        branch (all_of [Some (dport = 1521 \<or> sport = 1521),
            any_of [
              all_of [Some (3 \<le> n), byte_is mem p 0 0x07, byte_is mem p 1 0xff, byte_is mem p 2 0x00],
              all_of [Some (232 \<le> n), any_of [byte_is mem p 0 0x00, byte_is mem p 0 0x01],
                negated (byte_is mem p 1 0x00), byte_is mem p 2 0x00, byte_is mem p 3 0x00]]])
          (detect NDPI_PROTOCOL_ORACLE m f)
          (branch (all_of [Some (n = 213), byte_is mem p 0 0x00, byte_is mem p 1 0xd5, byte_is mem p 2 0x00,
                     byte_is mem p 3 0x00])
            (detect NDPI_PROTOCOL_ORACLE m f)
            (Some f))
      }
      else ndpi_exclude_protocol NDPI_PROTOCOL_ORACLE f)"

interpretation oracle_db: dissector ndpi_search_oracle "{NDPI_PROTOCOL_ORACLE}"
    NDPI_SELECTION_BITMASK_PROTOCOL_V4_V6_TCP_WITH_PAYLOAD_WITHOUT_RETRANSMISSION
  by (rule dissectorI) (auto simp: ndpi_search_oracle_def dissector_simps intro!: verdict_intros)

definition ndpi_search_skinny :: dissecting where
  "ndpi_search_skinny mem m f =
     (let p = packet m; n = payload_packet_len p in
      if present (tcp p) then do {
        sport \<leftarrow> source_of mem (tcp p);
        dport \<leftarrow> dest_of mem (tcp p);
        branch (all_of [Some (dport = 2000),
            any_of [
              all_of [Some (n = 24), text_is mem p 0 (0x10 # replicate 7 0)],
              all_of [Some (n = 64), text_is mem p 0 (0x38 # replicate 7 0)]]])
          (detect NDPI_PROTOCOL_SKINNY m f)
          (branch (all_of [Some (sport = 2000),
              any_of [
                all_of [Some (n = 28), text_is mem p 0 (0x14 # replicate 7 0)],
                all_of [Some (n = 44), text_is mem p 0 (0x24 # replicate 8 0)]]])
            (detect NDPI_PROTOCOL_SKINNY m f)
            (Some f))
      }
      else ndpi_exclude_protocol NDPI_PROTOCOL_SKINNY f)"

interpretation skinny: dissector ndpi_search_skinny "{NDPI_PROTOCOL_SKINNY}"
    NDPI_SELECTION_BITMASK_PROTOCOL_V4_V6_TCP_WITH_PAYLOAD_WITHOUT_RETRANSMISSION
  by (rule dissectorI) (auto simp: ndpi_search_skinny_def dissector_simps intro!: verdict_intros)

text \<open>The last line of \<open>ndpi_search_checkmk\<close> writes the bitmask without \<open>ndpi_exclude_protocol\<close>.\<close>

definition checkmk_exclude :: "ndpi_flow \<Rightarrow> ndpi_flow option" where
  "checkmk_exclude f = do {
     b \<leftarrow> NDPI_ADD_PROTOCOL_TO_BITMASK (excluded_protocol_bitmask f) NDPI_PROTOCOL_CHECKMK;
     Some (f\<lparr>excluded_protocol_bitmask := b\<rparr>)
   }"

lemma checkmk_exclude_same: "checkmk_exclude f = ndpi_exclude_protocol NDPI_PROTOCOL_CHECKMK f"
  by (simp add: checkmk_exclude_def ndpi_exclude_protocol_def ndpi_is_valid_protoId_def size_defs)

definition ndpi_search_checkmk :: dissecting where
  "ndpi_search_checkmk mem m f =
     (let p = packet m; n = payload_packet_len p in
      if 15 \<le> n \<and> 128 < n then Some f
      else branch (all_of [Some (15 \<le> n), Some (15 \<le> n \<and> n < 100), text_is mem p 0 (str ''<<<check_mk>>>'')])
             (detect NDPI_PROTOCOL_CHECKMK m f)
             (checkmk_exclude f))"

interpretation checkmk: dissector ndpi_search_checkmk "{NDPI_PROTOCOL_CHECKMK}"
    NDPI_SELECTION_BITMASK_PROTOCOL_V4_V6_TCP_WITH_PAYLOAD_WITHOUT_RETRANSMISSION
  by (rule dissectorI) (auto simp: ndpi_search_checkmk_def checkmk_exclude_same dissector_simps intro!: verdict_intros)

end
