(* ===== verification/Tcp_Records.thy ===== *)
theory Tcp_Records
  imports Dissector_Base
begin

text \<open>
  Dissectors for TCP that read a message header with its length, or a sequence of records or
  commands, with the interpretation of the contract \<open>dissector\<close> for each.
\<close>

section \<open>One header\<close>

text \<open>\<open>struct amqp_header\<close> has the length at offset 3, the class at 7 and the method at 9, 11 bytes in all.\<close>

definition ndpi_search_amqp :: dissecting where
  "ndpi_search_amqp mem m f =
     (let p = packet m; n = payload_packet_len p in
      if present (tcp p) then
        branch (all_of [Some (11 < n), test (\<lambda>b. b \<le> 3) (byte_at mem p 0),
            test (\<lambda>l. of_nat n \<le> l + 8 \<and> l < 32768) (word_at mem p 3),
            test (\<lambda>c. 10 \<le> c \<and> c \<le> 110) (half_at mem p 7), test (\<lambda>c. c \<le> 120) (half_at mem p 9)])
          (detect NDPI_PROTOCOL_AMQP m f)
          (Some f)
      else ndpi_exclude_protocol NDPI_PROTOCOL_AMQP f)"

interpretation amqp: dissector ndpi_search_amqp "{NDPI_PROTOCOL_AMQP}"
    NDPI_SELECTION_BITMASK_PROTOCOL_V4_V6_TCP_WITH_PAYLOAD
  by (rule dissectorI) (auto simp: ndpi_search_amqp_def dissector_simps intro!: verdict_intros)

text \<open>\<open>struct tds_packet_header\<close> has eight bytes.\<close>

definition ndpi_search_mssql_tds :: dissecting where
  "ndpi_search_mssql_tds mem m f =
     (let p = packet m; n = payload_packet_len p in
      branch (any_of [Some (n < 8), dest_is mem (tcp p) 102])
        (ndpi_exclude_protocol NDPI_PROTOCOL_MSSQL_TDS f)
        (branch (all_of [test (\<lambda>t. 1 \<le> t \<and> t \<le> 8 \<or> 14 \<le> t \<and> t \<le> 18) (byte_at mem p 0),
             test (\<lambda>s. s \<in> {0x00, 0x01, 0x02, 0x04, 0x08, 0x09, 0x10}) (byte_at mem p 1),
             test (\<lambda>l. unat l = n) (half_at mem p 2), byte_is mem p 7 0x00])
          (detect NDPI_PROTOCOL_MSSQL_TDS m f)
          (ndpi_exclude_protocol NDPI_PROTOCOL_MSSQL_TDS f)))"

interpretation mssql_tds: dissector ndpi_search_mssql_tds "{NDPI_PROTOCOL_MSSQL_TDS}"
    NDPI_SELECTION_BITMASK_PROTOCOL_V4_V6_TCP_WITH_PAYLOAD_WITHOUT_RETRANSMISSION
  by (rule dissectorI) (auto simp: ndpi_search_mssql_tds_def dissector_simps intro!: verdict_intros)

definition ndpi_search_mysql_tcp :: dissecting where
  "ndpi_search_mysql_tcp mem m f =
     (let p = packet m; n = payload_packet_len p; no = ndpi_exclude_protocol NDPI_PROTOCOL_MYSQL f in
      if present (tcp p) \<and> 38 < n then do {
        b2 \<leftarrow> byte_at mem p 2;
        b1 \<leftarrow> byte_at mem p 1;
        b0 \<leftarrow> byte_at mem p 0;
        branch (all_of [Some (unat b2 * 2 ^ 16 + unat b1 * 2 ^ 8 + unat b0 = n - 4),
            byte_is mem p 2 0x00, byte_is mem p 3 0x00,
            test (\<lambda>b. 0x30 < b) (byte_at mem p 5), test (\<lambda>b. b < 0x39) (byte_at mem p 5), byte_is mem p 6 0x2e,
            strncmp_at id mem p (n - 22) 6 (str ''mysql_'')])
          (detect NDPI_PROTOCOL_MYSQL m f) no
      }
      else no)"

interpretation mysql: dissector ndpi_search_mysql_tcp "{NDPI_PROTOCOL_MYSQL}"
    NDPI_SELECTION_BITMASK_PROTOCOL_V4_V6_TCP_WITH_PAYLOAD_WITHOUT_RETRANSMISSION
  by (rule dissectorI) (auto simp: ndpi_search_mysql_tcp_def dissector_simps intro!: verdict_intros)

text \<open>\<open>struct afpHeader\<close> has sixteen bytes, the length at offset 8; the sum is one of \<open>size_t\<close>.\<close>

definition ndpi_search_afp :: dissecting where
  "ndpi_search_afp mem m f =
     (let p = packet m; n = payload_packet_len p in
      if 16 \<le> n then
        if 128 < n then Some f
        else branch (all_of [Some (22 \<le> n), half_is mem p 0 0x0004, half_is mem p 2 0x0001, test (\<lambda>w. w = 0) (raw_word_at mem p 4),
               word_is mem p 8 (of_nat (n - 16)), test (\<lambda>w. w = 0) (raw_word_at mem p 12), half_is mem p 16 0x0104])
          (detect NDPI_PROTOCOL_AFP m f)
          (branch (all_of [test (\<lambda>b. b \<le> 1) (byte_at mem p 0), test (\<lambda>c. 1 \<le> c \<and> c \<le> 8) (byte_at mem p 1),
               test (\<lambda>w. w = 0) (raw_word_at mem p 12), test (\<lambda>l. 16 + unat l \<le> n) (word_at mem p 8)])
            (detect NDPI_PROTOCOL_AFP m f)
            (ndpi_exclude_protocol NDPI_PROTOCOL_AFP f))
      else ndpi_exclude_protocol NDPI_PROTOCOL_AFP f)"

interpretation afp: dissector ndpi_search_afp "{NDPI_PROTOCOL_AFP}"
    NDPI_SELECTION_BITMASK_PROTOCOL_V4_V6_TCP_WITH_PAYLOAD_WITHOUT_RETRANSMISSION
  by (rule dissectorI) (auto simp: ndpi_search_afp_def dissector_simps intro!: verdict_intros)

text \<open>
  The 24-bit command code of the header is put together in 16 bits, its first two bytes both
  shifted by 8.
\<close>

definition diameter_code :: "u8 \<Rightarrow> u8 \<Rightarrow> u8 \<Rightarrow> nat" where
  "diameter_code b0 b1 b2 = c_u16 (unat b2 + unat b1 * 2 ^ 8 + unat b0 * 2 ^ 8)"

definition is_diameter :: "bytes \<Rightarrow> ndpi_packet \<Rightarrow> bool option" where
  "is_diameter mem p =
     branch (all_of [Some (20 \<le> payload_packet_len p), byte_is mem p 0 0x01,
         test (\<lambda>b. b \<in> {0x80, 0x40, 0x20, 0x10}) (byte_at mem p 4)])
       (do {
         b2 \<leftarrow> byte_at mem p 7;
         b1 \<leftarrow> byte_at mem p 6;
         b0 \<leftarrow> byte_at mem p 5;
         Some (diameter_code b0 b1 b2 \<in> {271, 274, 272, 257, 280, 282, 258, 275})
       })
       (Some False)"

definition ndpi_search_diameter :: dissecting where
  "ndpi_search_diameter mem m f =
     (let p = packet m in
      branch (all_of [Some (present (tcp p)), is_diameter mem p])
        (detect NDPI_PROTOCOL_DIAMETER m f)
        (ndpi_exclude_protocol NDPI_PROTOCOL_DIAMETER f))"

lemma is_diameter_defined: "view_ok (length mem) p \<Longrightarrow> defined (is_diameter mem p)"
  by (auto simp: is_diameter_def defined_simps intro!: defined_bind)

interpretation diameter: dissector ndpi_search_diameter "{NDPI_PROTOCOL_DIAMETER}"
    NDPI_SELECTION_BITMASK_PROTOCOL_V4_V6_TCP_WITH_PAYLOAD_WITHOUT_RETRANSMISSION
  by (rule dissectorI) (auto simp: ndpi_search_diameter_def is_diameter_defined dissector_simps intro!: verdict_intros)

definition ndpi_search_guildwars_tcp :: dissecting where
  "ndpi_search_guildwars_tcp mem m f =
     (let p = packet m; n = payload_packet_len p in
      branch (any_of [
          all_of [Some (n = 64), half_is mem p 1 0x050c, text_is mem p 50 (str ''@2&P'')],
          all_of [Some (n = 16), half_is mem p 1 0x040c, half_is mem p 4 0xa672, byte_is mem p 8 0x01, byte_is mem p 12 0x04],
          all_of [Some (n = 21), half_is mem p 0 0x0100, word_is mem p 5 0xf1001000, byte_is mem p 9 0x01]])
        (detect NDPI_PROTOCOL_GUILDWARS m f)
        (ndpi_exclude_protocol NDPI_PROTOCOL_GUILDWARS f))"

interpretation guildwars: dissector ndpi_search_guildwars_tcp "{NDPI_PROTOCOL_GUILDWARS}"
    NDPI_SELECTION_BITMASK_PROTOCOL_V4_V6_TCP_WITH_PAYLOAD_WITHOUT_RETRANSMISSION
  by (rule dissectorI) (auto simp: ndpi_search_guildwars_tcp_def dissector_simps intro!: verdict_intros)

definition ndpi_check_valid_cassandra_version :: "u8 \<Rightarrow> bool" where
  "ndpi_check_valid_cassandra_version v \<longleftrightarrow> v \<in> {0x01, 0x81, 0x02, 0x82, 0x03, 0x83, 0x04, 0x84}"

definition ndpi_check_valid_cassandra_opcode :: "u8 \<Rightarrow> bool" where
  "ndpi_check_valid_cassandra_opcode c \<longleftrightarrow>
     c \<in> {0x00, 0x01, 0x02, 0x03, 0x05, 0x06, 0x07, 0x08, 0x09, 0x0A, 0x0B, 0x0C, 0x0D, 0x0E, 0x0F, 0x10}"

definition ndpi_check_valid_cassandra_flags :: "u8 \<Rightarrow> bool" where
  "ndpi_check_valid_cassandra_flags b \<longleftrightarrow> b AND 0xF0 = 0"

definition ndpi_search_cassandra :: dissecting where
  "ndpi_search_cassandra mem m f =
     (let p = packet m; n = payload_packet_len p in
      branch (all_of [Some (present (tcp p)), Some (9 \<le> n),
          test ndpi_check_valid_cassandra_version (byte_at mem p 0),
          test ndpi_check_valid_cassandra_flags (byte_at mem p 1),
          test ndpi_check_valid_cassandra_opcode (byte_at mem p 4),
          test (\<lambda>l. l \<le> 268435456) (raw_word_at mem p 5), test (\<lambda>l. of_nat (n - 9) \<le> l) (raw_word_at mem p 5)])
        (detect NDPI_PROTOCOL_CASSANDRA m f)
        (ndpi_exclude_protocol NDPI_PROTOCOL_CASSANDRA f))"

interpretation cassandra: dissector ndpi_search_cassandra "{NDPI_PROTOCOL_CASSANDRA}"
    NDPI_SELECTION_BITMASK_PROTOCOL_V4_V6_TCP_WITH_PAYLOAD
  by (rule dissectorI) (auto simp: ndpi_search_cassandra_def dissector_simps intro!: verdict_intros)

text \<open>The addresses of the push servers; an IPv6 prefix is compared in its first 48 bits.\<close>

definition apple_push_ip6 :: "bytes \<Rightarrow> ndpi_packet \<Rightarrow> u32 \<Rightarrow> u32 \<Rightarrow> bool option" where
  "apple_push_ip6 mem p a b =
     any_of [
       all_of [test (\<lambda>w. w = a) (ip6_source mem p 0), test (\<lambda>w. w AND 0xffff0000 = b) (ip6_source mem p 1)],
       all_of [test (\<lambda>w. w = a) (ip6_dest mem p 0), test (\<lambda>w. w AND 0xffff0000 = b) (ip6_dest mem p 1)]]"

definition is_apple_push_addr :: "bytes \<Rightarrow> ndpi_packet \<Rightarrow> bool option" where
  "is_apple_push_addr mem p =
     (if present (iph p) then
        any_of [test (\<lambda>a. a AND 0xFF000000 = 0x11000000) (ip_source mem p),
          test (\<lambda>a. a AND 0xFF000000 = 0x11000000) (ip_dest mem p)]
      else if present (iphv6 p) then
        any_of [apple_push_ip6 mem p 0x26200149 0x0a440000, apple_push_ip6 mem p 0x24030300 0x0a420000,
          apple_push_ip6 mem p 0x24030300 0x0a510000, apple_push_ip6 mem p 0x2a0ab740 0x0a420000]
      else Some False)"

definition ndpi_check_apple_push :: dissecting where
  "ndpi_check_apple_push mem m f =
     (let p = packet m in
      branch (all_of [is_apple_push_addr mem p,
          any_of [source_is mem (tcp p) 5223, dest_is mem (tcp p) 5223, source_is mem (tcp p) 2197, dest_is mem (tcp p) 2197]])
        (detect NDPI_PROTOCOL_APPLE_PUSH m f)
        (ndpi_exclude_protocol NDPI_PROTOCOL_APPLE_PUSH f))"

definition ndpi_search_apple_push :: dissecting where
  "ndpi_search_apple_push mem m f =
     (if app_of f \<noteq> NDPI_PROTOCOL_APPLE_PUSH then ndpi_check_apple_push mem m f else Some f)"

interpretation apple_push: dissector ndpi_search_apple_push "{NDPI_PROTOCOL_APPLE_PUSH}"
    NDPI_SELECTION_BITMASK_PROTOCOL_V4_V6_TCP_WITH_PAYLOAD
  by (rule dissectorI) (auto simp: ndpi_search_apple_push_def ndpi_check_apple_push_def is_apple_push_addr_def apple_push_ip6_def dissector_simps intro!: verdict_intros)

section \<open>Sequences\<close>

text \<open>
  The headers behind the first one, at \<open>pos\<close>: the result is whether the last record ends with the
  payload. \<open>struct ndpi_drda_hdr\<close> has ten bytes; a length is at least 6, so the loop ends.
\<close>

definition drda_header :: "bytes \<Rightarrow> ndpi_packet \<Rightarrow> nat \<Rightarrow> nat option option" where
  "drda_header mem p i = do {
     len \<leftarrow> half_at mem p i;
     len2 \<leftarrow> half_at mem p (i + 6);
     magic \<leftarrow> byte_at mem p (i + 2);
     Some (if unat len \<noteq> unat len2 + 6 \<or> magic \<noteq> 0xd0 then None else Some (unat len))
   }"

lemma drda_length: "drda_header mem p i = Some (Some n) \<Longrightarrow> 6 \<le> n"
  by (auto simp: drda_header_def bind_eq_Some_conv split: if_splits)

function drda_headers :: "bytes \<Rightarrow> ndpi_packet \<Rightarrow> nat \<Rightarrow> bool option" where
  "drda_headers mem p pos =
     (if pos + 10 < payload_packet_len p then
        (case drda_header mem p pos of
           None \<Rightarrow> None
         | Some None \<Rightarrow> Some False
         | Some (Some len) \<Rightarrow> drda_headers mem p (pos + len))
      else Some (pos = payload_packet_len p))"
  by pat_completeness auto
termination by (relation "measure (\<lambda>(mem, p, pos). payload_packet_len p - pos)") (auto dest: drda_length)

declare drda_headers.simps [simp del]

definition ndpi_search_drda :: dissecting where
  "ndpi_search_drda mem m f =
     (let p = packet m; n = payload_packet_len p; no = ndpi_exclude_protocol NDPI_PROTOCOL_DRDA f in
      if present (tcp p) \<and> 10 \<le> n then do {
        first \<leftarrow> drda_header mem p 0;
        case first of
          None \<Rightarrow> no
        | Some len \<Rightarrow> branch (if len < n then drda_headers mem p len else Some True) (detect NDPI_PROTOCOL_DRDA m f) no
      }
      else no)"

lemma drda_header_defined:
  "view_ok (length mem) p \<Longrightarrow> i + 10 \<le> payload_packet_len p \<Longrightarrow> defined (drda_header mem p i)"
  by (auto simp: drda_header_def defined_simps intro!: defined_bind)

lemma drda_headers_defined: "view_ok (length mem) p \<Longrightarrow> defined (drda_headers mem p pos)"
proof (induction mem p pos rule: drda_headers.induct)
  case (1 mem p pos)
  show ?case
  proof (cases "pos + 10 < payload_packet_len p")
    case True
    then have "defined (drda_header mem p pos)" by (intro drda_header_defined [OF 1(2)]) simp
    then show ?thesis using True 1 by (subst drda_headers.simps) (auto simp: defined_def split: option.split)
  qed (subst drda_headers.simps, simp add: defined_simps)
qed

interpretation drda: dissector ndpi_search_drda "{NDPI_PROTOCOL_DRDA}"
    NDPI_SELECTION_BITMASK_PROTOCOL_V4_V6_TCP_WITH_PAYLOAD_WITHOUT_RETRANSMISSION
  by (rule dissectorI)
    (auto simp: ndpi_search_drda_def dissector_simps drda_header_defined drda_headers_defined
      split: option.split intro!: verdict_intros verdict_read [where r = "drda_header mem p 0" for mem p])

text \<open>
  The first command that starts the payload decides; two of them are commands of POP3 as well and
  leave the flow open.
\<close>

fun nats_commands :: "string list \<Rightarrow> dissecting" where
  "nats_commands [] mem m f = ndpi_exclude_protocol NDPI_PROTOCOL_NATS f"
| "nats_commands (c # cs) mem m f =
     (let p = packet m; n = payload_packet_len p in do {
        s \<leftarrow> payload_from mem p 0;
        found \<leftarrow> ndpi_strnstr s (cstr (str c)) (min (length c) n);
        case found of
          None \<Rightarrow> nats_commands cs mem m f
        | Some i \<Rightarrow>
            if c = ''+OK'' \<or> c = ''-ERR'' then Some f
            else do {
              eol \<leftarrow> ndpi_strnstr (drop i s) (cstr [13, 10]) (n - i);
              if eol \<noteq> None then detect NDPI_PROTOCOL_NATS m f else nats_commands cs mem m f
            }
      })"

definition ndpi_search_nats_tcp :: dissecting where
  "ndpi_search_nats_tcp mem m f =
     (let p = packet m in
      if present (tcp p) \<and> 4 < payload_packet_len p then
        nats_commands [''INFO {'', ''CONNECT {'', ''PUB '', ''SUB'', ''UNSUB '', ''MSG '', ''PING'', ''PONG'', ''+OK'', ''-ERR''] mem m f
      else Some f)"

lemma nats_commands_verdict:
  assumes "view_ok (length mem) (packet m)" "0 < payload_packet_len (packet m)"
  shows "verdict {NDPI_PROTOCOL_NATS} m f (nats_commands cs mem m f)"
proof (induction cs)
  case (Cons c cs)
  obtain a where a: "payload (packet m) = Some a" "a + payload_packet_len (packet m) \<le> length mem"
    using assms(2) by (rule payload_in [OF assms(1)])
  define s where "s = drop a mem"
  have s: "payload_from mem (packet m) 0 = Some s" "payload_packet_len (packet m) \<le> length s"
    using a by (simp_all add: payload_from_def s_def)
  have "defined (ndpi_strnstr s (cstr (str c)) (min (length c) (payload_packet_len (packet m))))"
    "\<And>i. defined (ndpi_strnstr (drop i s) (cstr [13, 10]) (payload_packet_len (packet m) - i))"
    unfolding defined_def by (rule strnstr_defined, use s(2) in simp)+
  then show ?case using Cons s
    by (auto simp: Let_def size_defs split: option.split intro!: verdict_intros verdict_read)
qed (auto intro: verdict_intros)

declare nats_commands.simps [simp del]

interpretation nats: dissector ndpi_search_nats_tcp "{NDPI_PROTOCOL_NATS}"
    NDPI_SELECTION_BITMASK_PROTOCOL_V4_V6_TCP_WITH_PAYLOAD_WITHOUT_RETRANSMISSION
  by (rule dissectorI) (auto simp: ndpi_search_nats_tcp_def Let_def intro!: verdict_intros nats_commands_verdict)

end
