(* ===== verification/Tcp_Sessions.thy ===== *)
theory Tcp_Sessions
  imports Dissector_Base
begin

text \<open>
  Dissectors for TCP that remember something of the flow between packets: a stage, the direction of
  the request, the first bytes of a packet. Each has an interpretation of the contract \<open>dissector\<close>.
\<close>

section \<open>Stages\<close>

text \<open>The first part has no early return: the second part runs on the flow it leaves.\<close>

definition ndpi_search_soap :: dissecting where
  "ndpi_search_soap mem m f =
     (let p = packet m in do {
        f \<leftarrow> (if 3 < packet_counter f then
                if stages f soap_stage = 1 then detect NDPI_PROTOCOL_SOAP m f
                else ndpi_exclude_protocol NDPI_PROTOCOL_SOAP f
              else Some f);
        branch (all_of [Some (stages f soap_stage = 0 \<and> 19 \<le> payload_packet_len p),
            strncmp_at id mem p 0 19 (str ''<?xml version='' @ [34] @ str ''1.0'' @ [34])])
          (store soap_stage 1 f)
          (Some f)
      })"

interpretation soap: dissector ndpi_search_soap "{NDPI_PROTOCOL_SOAP}"
    NDPI_SELECTION_BITMASK_PROTOCOL_V4_V6_TCP_WITH_PAYLOAD
  by (rule dissectorI) (auto simp: ndpi_search_soap_def dissector_simps intro!: verdict_intros)

text \<open>The greeting of both sides; the stage is the direction of the first one.\<close>

definition vnc_greeting :: "bytes \<Rightarrow> ndpi_packet \<Rightarrow> bool option" where
  "vnc_greeting mem p =
     all_of [Some (payload_packet_len p = 12),
       any_of [
         all_of [text_is mem p 0 (str ''RFB 003''), byte_is mem p 11 0x0a],
         all_of [text_is mem p 0 (str ''RFB 004''), byte_is mem p 11 0x0a]]]"

definition ndpi_search_vnc_tcp :: dissecting where
  "ndpi_search_vnc_tcp mem m f =
     (let p = packet m; no = ndpi_exclude_protocol NDPI_PROTOCOL_VNC f in
      if present (tcp p) then
        if stages f vnc_stage = 0 then
          branch (vnc_greeting mem p) (store vnc_stage (1 + pkt_direction p) f) no
        else if stages f vnc_stage + pkt_direction p = 2 then
          branch (vnc_greeting mem p)
            (do { f \<leftarrow> detect NDPI_PROTOCOL_VNC m f; ndpi_set_risk m NDPI_DESKTOP_OR_FILE_SHARING_SESSION f })
            no
        else no
      else no)"

interpretation vnc: dissector ndpi_search_vnc_tcp "{NDPI_PROTOCOL_VNC}"
    NDPI_SELECTION_BITMASK_PROTOCOL_V4_V6_TCP_WITH_PAYLOAD_WITHOUT_RETRANSMISSION
  by (rule dissectorI) (auto simp: ndpi_search_vnc_tcp_def vnc_greeting_def dissector_simps intro!: verdict_intros)

text \<open>A sequence of bytes that may be cut over several packets.\<close>

definition whatsapp_sequence :: bytes where
  "whatsapp_sequence = [0x45, 0x44, 0x0, 0x01, 0x0, 0x0, 0x02, 0x08, 0x0, 0x57, 0x41, 0x02, 0x0, 0x0, 0x0]"

definition ndpi_search_whatsapp :: dissecting where
  "ndpi_search_whatsapp mem m f =
     (let p = packet m; n = payload_packet_len p; wa = stages f wa_matched_so_far in
      branch (all_of [Some (wa = 0 \<and> 4 < n), text_is mem p 0 [0x57, 0x41, 0x01, 0x05]])
        (detect NDPI_PROTOCOL_WHATSAPP m f)
        (if wa < length whatsapp_sequence then
           let match_len = min (length whatsapp_sequence - wa) n in
           branch (test (\<lambda>b. b = take match_len (drop wa whatsapp_sequence)) (run_at mem p 0 match_len))
             (do {
               f \<leftarrow> store wa_matched_so_far (wa + match_len) f;
               if stages f wa_matched_so_far = length whatsapp_sequence then detect NDPI_PROTOCOL_WHATSAPP m f else Some f
             })
             (ndpi_exclude_protocol NDPI_PROTOCOL_WHATSAPP f)
         else ndpi_exclude_protocol NDPI_PROTOCOL_WHATSAPP f))"

interpretation whatsapp: dissector ndpi_search_whatsapp "{NDPI_PROTOCOL_WHATSAPP}"
    NDPI_SELECTION_BITMASK_PROTOCOL_V4_V6_TCP_WITH_PAYLOAD_WITHOUT_RETRANSMISSION
  by (rule dissectorI) (auto simp: ndpi_search_whatsapp_def dissector_simps intro!: verdict_intros)

definition ndpi_search_nest_log_sink :: dissecting where
  "ndpi_search_nest_log_sink mem m f =
     (let p = packet m; no = ndpi_exclude_protocol NDPI_PROTOCOL_NEST_LOG_SINK f in
      if payload_packet_len p < 8 then no
      else branch (all_of [negated (source_is mem (tcp p) 11095), negated (dest_is mem (tcp p) 11095)]) no
        (do {
          f \<leftarrow> branch (all_of [test (\<lambda>b. b \<le> 0x02) (byte_at mem p 1),
                   any_of [byte_is mem p 2 0x00, byte_is mem p 2 0x10], byte_is mem p 3 0x13])
                 (store nest_log_sink_matches (stages f nest_log_sink_matches + 1) f)
                 (Some f);
          if stages f nest_log_sink_matches = 3 then detect NDPI_PROTOCOL_NEST_LOG_SINK m f else Some f
        }))"

interpretation nest_log_sink: dissector ndpi_search_nest_log_sink "{NDPI_PROTOCOL_NEST_LOG_SINK}"
    NDPI_SELECTION_BITMASK_PROTOCOL_V4_V6_TCP_WITH_PAYLOAD
  by (rule dissectorI) (auto simp: ndpi_search_nest_log_sink_def dissector_simps intro!: verdict_intros)

definition ndpi_check_lotus_notes :: dissecting where
  "ndpi_check_lotus_notes mem m f =
     (let p = packet m; n = payload_packet_len p in
      if \<not> present (tcp p) then Some f
      else do {
        f \<leftarrow> store lotus_notes_packet_id (stages f lotus_notes_packet_id + 1) f;
        if stages f lotus_notes_packet_id = 1 \<and> seen_syn f \<and> seen_syn_ack f \<and> seen_ack f then
          if 16 < n then
            branch (text_is mem p 6 [0x00, 0x00, 0x02, 0x00, 0x00, 0x40, 0x02, 0x0F])
              (detect NDPI_PROTOCOL_LOTUS_NOTES m f) (Some f)
          else ndpi_exclude_protocol NDPI_PROTOCOL_LOTUS_NOTES f
        else if stages f lotus_notes_packet_id \<le> 3 then Some f
        else ndpi_exclude_protocol NDPI_PROTOCOL_LOTUS_NOTES f
      })"

definition ndpi_search_lotus_notes :: dissecting where
  "ndpi_search_lotus_notes mem m f =
     (if app_of f \<noteq> NDPI_PROTOCOL_LOTUS_NOTES then ndpi_check_lotus_notes mem m f else Some f)"

interpretation lotus_notes: dissector ndpi_search_lotus_notes "{NDPI_PROTOCOL_LOTUS_NOTES}"
    NDPI_SELECTION_BITMASK_PROTOCOL_V4_V6_TCP_WITH_PAYLOAD_WITHOUT_RETRANSMISSION
  by (rule dissectorI) (auto simp: ndpi_search_lotus_notes_def ndpi_check_lotus_notes_def dissector_simps intro!: verdict_intros)

definition ndpi_check_citrix :: dissecting where
  "ndpi_check_citrix mem m f =
     (let p = packet m; n = payload_packet_len p in
      if present (tcp p) then do {
        f \<leftarrow> store citrix_packet_id (stages f citrix_packet_id + 1) f;
        if stages f citrix_packet_id = 3 \<and> seen_syn f \<and> seen_syn_ack f \<and> seen_ack f then
          if n = 6 then
            branch (text_is mem p 0 [0x07, 0x07, 0x49, 0x43, 0x41, 0x00]) (detect NDPI_PROTOCOL_CITRIX m f) (Some f)
          else if 22 < n then
            branch (any_of [text_is mem p 0 [0x1a, 0x43, 0x47, 0x50, 0x2f, 0x30, 0x31],
                finds_at mem p 0 n (str ''Citrix.TcpProxyService'')])
              (detect NDPI_PROTOCOL_CITRIX m f) (Some f)
          else ndpi_exclude_protocol NDPI_PROTOCOL_CITRIX f
        else if 3 < stages f citrix_packet_id then ndpi_exclude_protocol NDPI_PROTOCOL_CITRIX f
        else Some f
      }
      else Some f)"

definition ndpi_search_citrix :: dissecting where
  "ndpi_search_citrix mem m f =
     (if app_of f \<noteq> NDPI_PROTOCOL_CITRIX then ndpi_check_citrix mem m f else Some f)"

interpretation citrix: dissector ndpi_search_citrix "{NDPI_PROTOCOL_CITRIX}"
    NDPI_SELECTION_BITMASK_PROTOCOL_V4_V6_TCP_WITH_PAYLOAD_WITHOUT_RETRANSMISSION
  by (rule dissectorI) (auto simp: ndpi_search_citrix_def ndpi_check_citrix_def dissector_simps intro!: verdict_intros)

section \<open>Request and answer\<close>

definition ndpi_check_redis :: dissecting where
  "ndpi_check_redis mem m f =
     (let p = packet m in
      if payload_packet_len p = 0 then Some f
      else if 20 < packet_counter f then ndpi_exclude_protocol NDPI_PROTOCOL_REDIS f
      else do {
        b \<leftarrow> byte_at mem p 0;
        f \<leftarrow> (if pkt_direction p = 0 then store redis_s2d_first_char (unat b) f
              else store redis_d2s_first_char (unat b) f);
        let s2d = stages f redis_s2d_first_char;
        let d2s = stages f redis_d2s_first_char;
        if s2d \<noteq> 0 \<and> d2s \<noteq> 0 then
          if s2d = 42 \<and> (d2s = 43 \<or> d2s = 58) \<or> d2s = 42 \<and> (s2d = 43 \<or> s2d = 58)
          then detect NDPI_PROTOCOL_REDIS m f
          else ndpi_exclude_protocol NDPI_PROTOCOL_REDIS f
        else Some f
      })"

definition ndpi_search_redis :: dissecting where
  "ndpi_search_redis mem m f =
     (if app_of f \<noteq> NDPI_PROTOCOL_REDIS then ndpi_check_redis mem m f else Some f)"

interpretation redis: dissector ndpi_search_redis "{NDPI_PROTOCOL_REDIS}"
    NDPI_SELECTION_BITMASK_PROTOCOL_V4_V6_TCP_WITH_PAYLOAD_WITHOUT_RETRANSMISSION
  by (rule dissectorI) (auto simp: ndpi_search_redis_def ndpi_check_redis_def dissector_simps intro!: verdict_intros)

definition ndpi_check_rtmp :: dissecting where
  "ndpi_check_rtmp mem m f =
     (let p = packet m; n = payload_packet_len p in
      if 20 < packet_counter f then ndpi_exclude_protocol NDPI_PROTOCOL_RTMP f
      else if stages f rtmp_stage = 0 then
        branch (all_of [Some (4 \<le> n), any_of [byte_is mem p 0 0x03, byte_is mem p 0 0x06]])
          (store rtmp_stage (pkt_direction p + 1) f)
          (ndpi_exclude_protocol NDPI_PROTOCOL_RTMP f)
      else if stages f rtmp_stage = pkt_direction p + 1 then Some f
      else branch (all_of [Some (4 \<le> n),
               any_of [byte_is mem p 0 0x03, byte_is mem p 0 0x06, byte_is mem p 0 0x08, byte_is mem p 0 0x09,
                 byte_is mem p 0 0x0a]])
             (detect NDPI_PROTOCOL_RTMP m f)
             (store rtmp_stage 0 f))"

definition ndpi_search_rtmp :: dissecting where
  "ndpi_search_rtmp mem m f =
     (if app_of f \<noteq> NDPI_PROTOCOL_RTMP then ndpi_check_rtmp mem m f else Some f)"

interpretation rtmp: dissector ndpi_search_rtmp "{NDPI_PROTOCOL_RTMP}"
    NDPI_SELECTION_BITMASK_PROTOCOL_V4_V6_TCP_WITH_PAYLOAD_WITHOUT_RETRANSMISSION
  by (rule dissectorI) (auto simp: ndpi_search_rtmp_def ndpi_check_rtmp_def dissector_simps intro!: verdict_intros)

definition ndpi_search_usenet_tcp :: dissecting where
  "ndpi_search_usenet_tcp mem m f =
     (let p = packet m; n = payload_packet_len p; no = ndpi_exclude_protocol NDPI_PROTOCOL_USENET f in
      branch (all_of [Some (stages f usenet_stage = 0 \<and> 10 < n),
          any_of [text_is mem p 0 (str ''200 ''), text_is mem p 0 (str ''201 '')]])
        (store usenet_stage (1 + pkt_direction p) f)
        (if stages f usenet_stage + pkt_direction p = 2 then
           branch (all_of [Some (20 < n), text_is mem p 0 (str ''AUTHINFO USER '')])
             (do { f \<leftarrow> store usenet_stage (3 + pkt_direction p) f; detect NDPI_PROTOCOL_USENET m f })
             (branch (all_of [Some (n = 13), text_is mem p 0 (str ''MODE READER'' @ [13, 10])])
               (detect NDPI_PROTOCOL_USENET m f) no)
         else no))"

interpretation usenet: dissector ndpi_search_usenet_tcp "{NDPI_PROTOCOL_USENET}"
    NDPI_SELECTION_BITMASK_PROTOCOL_V4_V6_TCP_WITH_PAYLOAD_WITHOUT_RETRANSMISSION
  by (rule dissectorI) (auto simp: ndpi_search_usenet_tcp_def dissector_simps intro!: verdict_intros)

definition ndpi_search_fiesta :: dissecting where
  "ndpi_search_fiesta mem m f =
     (let p = packet m; n = payload_packet_len p in
      branch (all_of [Some (stages f fiesta_stage = 0 \<and> n = 5), half_is mem p 0 0x0407, byte_is mem p 2 0x08,
          any_of [byte_is mem p 4 0x00, byte_is mem p 4 0x01]])
        (store fiesta_stage (1 + pkt_direction p) f)
        (branch (all_of [Some (stages f fiesta_stage + pkt_direction p = 2),
             any_of [
               all_of [Some (1 < n), test (\<lambda>b. n - 1 = unat b) (byte_at mem p 0)],
               all_of [Some (3 < n), byte_is mem p 0 0, test (\<lambda>l. unat l = n - 3) (raw_half_at mem p 1)]]])
          (Some f)
          (branch (all_of [Some (stages f fiesta_stage = 1 + pkt_direction p),
               any_of [
                 all_of [Some (n = 4), word_is mem p 0 0x03050c01],
                 all_of [Some (n = 5), word_is mem p 0 0x04030c01, byte_is mem p 4 0],
                 all_of [Some (n = 6), word_is mem p 0 0x050e080b],
                 all_of [Some (n = 100), byte_is mem p 0 0x63, byte_is mem p 61 0x52, byte_is mem p 81 0x5a,
                   half_is mem p 1 0x3810, half_is mem p 62 0x6f75],
                 all_of [Some (3 < n), test (\<lambda>b. n - 1 = unat b) (byte_at mem p 0), half_is mem p 1 0x140c]]])
            (detect NDPI_PROTOCOL_FIESTA m f)
            (ndpi_exclude_protocol NDPI_PROTOCOL_FIESTA f))))"

interpretation fiesta: dissector ndpi_search_fiesta "{NDPI_PROTOCOL_FIESTA}"
    NDPI_SELECTION_BITMASK_PROTOCOL_V4_V6_TCP_WITH_PAYLOAD_WITHOUT_RETRANSMISSION
  by (rule dissectorI) (auto simp: ndpi_search_fiesta_def dissector_simps intro!: verdict_intros)

text \<open>The request of version 4, or of version 5, and its answer from the other side.\<close>

definition ndpi_check_socks4 :: dissecting where
  "ndpi_check_socks4 mem m f =
     (let p = packet m; n = payload_packet_len p in
      if 20 < packet_counter f then ndpi_exclude_protocol NDPI_PROTOCOL_SOCKS f
      else if stages f socks4_stage = 0 then
        branch (all_of [Some (9 \<le> n), byte_is mem p 0 0x04, any_of [byte_is mem p 1 0x01, byte_is mem p 1 0x02],
            byte_is mem p (n - 1) 0x00])
          (store socks4_stage (pkt_direction p + 1) f)
          (Some f)
      else if stages f socks4_stage = pkt_direction p + 1 then Some f
      else branch (all_of [Some (n = 8), byte_is mem p 0 0x00, test (\<lambda>b. 0x5a \<le> b) (byte_at mem p 1),
               test (\<lambda>b. b \<le> 0x5d) (byte_at mem p 1)])
             (detect NDPI_PROTOCOL_SOCKS m f)
             (store socks4_stage 0 f))"

definition ndpi_check_socks5 :: dissecting where
  "ndpi_check_socks5 mem m f =
     (let p = packet m; n = payload_packet_len p in
      if 20 < packet_counter f then ndpi_exclude_protocol NDPI_PROTOCOL_SOCKS f
      else if stages f socks5_stage = 0 then
        branch (all_of [Some (n = 3), byte_is mem p 0 0x05, byte_is mem p 1 0x01, byte_is mem p 2 0x00])
          (store socks5_stage (pkt_direction p + 1) f)
          (Some f)
      else if stages f socks5_stage = pkt_direction p + 1 then Some f
      else branch (any_of [Some (n = 0), all_of [Some (n = 2), byte_is mem p 0 0x05, byte_is mem p 1 0x00]])
             (detect NDPI_PROTOCOL_SOCKS m f)
             (store socks5_stage 0 f))"

definition ndpi_search_socks :: dissecting where
  "ndpi_search_socks mem m f =
     (if app_of f \<noteq> NDPI_PROTOCOL_SOCKS then do {
        f \<leftarrow> ndpi_check_socks4 mem m f;
        if app_of f \<noteq> NDPI_PROTOCOL_SOCKS then ndpi_check_socks5 mem m f else Some f
      }
      else Some f)"

interpretation socks: dissector ndpi_search_socks "{NDPI_PROTOCOL_SOCKS}"
    NDPI_SELECTION_BITMASK_PROTOCOL_V4_V6_TCP_WITH_PAYLOAD_WITHOUT_RETRANSMISSION
  by (rule dissectorI) (auto simp: ndpi_search_socks_def ndpi_check_socks4_def ndpi_check_socks5_def dissector_simps intro!: verdict_intros)

section \<open>What the flow remembers\<close>

definition zmq_greeting :: bytes where
  "zmq_greeting = [0xff, 0x00, 0x00, 0x00, 0x00, 0x00, 0x00, 0x00, 0x01, 0x7f]"

definition ndpi_check_zmq :: dissecting where
  "ndpi_check_zmq mem m f =
     (let p = packet m; n = payload_packet_len p;
          prev = saved_bytes f prev_zmq_pkt;
          prev_len = stages f prev_zmq_pkt_len;
          p0 = [0x00, 0x00, 0x00, 0x05, 0x01, 0x66, 0x6c, 0x6f, 0x77];
          p2 = [0x28, 0x66, 0x6c, 0x6f, 0x77, 0x00] in
      if n = 0 then Some f
      else if 17 < packet_counter f then ndpi_exclude_protocol NDPI_PROTOCOL_ZMQ f
      else if prev_len = 0 then do {
        f \<leftarrow> store prev_zmq_pkt_len (min n 10) f;
        bs \<leftarrow> run_at mem p 0 (min n 10);
        copy_to prev_zmq_pkt bs f
      }
      else if n = 2 then
        if prev_len = 2 then
          branch (all_of [text_is mem p 0 [1, 1], Some (take 2 prev = [1, 2])]) (detect NDPI_PROTOCOL_ZMQ m f) (Some f)
        else if prev_len = 9 then
          branch (all_of [text_is mem p 0 [0, 0], Some (take 9 prev = p0)]) (detect NDPI_PROTOCOL_ZMQ m f) (Some f)
        else if prev_len = 10 then
          branch (all_of [text_is mem p 0 [1, 2], Some (take 10 prev = zmq_greeting)]) (detect NDPI_PROTOCOL_ZMQ m f) (Some f)
        else Some f
      else if 10 \<le> n \<and> prev_len = 10 then
        branch (any_of [
            all_of [text_is mem p 0 zmq_greeting, Some (take 10 prev = zmq_greeting)],
            all_of [text_is mem p 1 p2, Some (take 6 (drop 1 prev) = p2)]])
          (detect NDPI_PROTOCOL_ZMQ m f) (Some f)
      else Some f)"

definition ndpi_search_zmq :: dissecting where
  "ndpi_search_zmq mem m f =
     (if app_of f \<noteq> NDPI_PROTOCOL_ZMQ then ndpi_check_zmq mem m f else Some f)"

interpretation zeromq: dissector ndpi_search_zmq "{NDPI_PROTOCOL_ZMQ}"
    NDPI_SELECTION_BITMASK_PROTOCOL_V4_V6_TCP_WITH_PAYLOAD_WITHOUT_RETRANSMISSION
  by (rule dissectorI) (auto simp: ndpi_search_zmq_def ndpi_check_zmq_def zmq_greeting_def dissector_simps intro!: verdict_intros)

text \<open>The checks of \<open>ndpi_search_shoutcast_tcp\<close> behind those of the first packet.\<close>

definition shoutcast_rest :: dissecting where
  "shoutcast_rest mem m f =
     (let p = packet m; n = payload_packet_len p; no = ndpi_exclude_protocol NDPI_PROTOCOL_SHOUTCAST f;
          ok2 = all_of [Some (3 < n), text_is mem p 0 (str ''OK2'')] in
      branch (all_of [Some (11 < n), text_is mem p 0 (str ''ICY 200 OK'' @ [0x0d, 0x0a])])
        (detect NDPI_PROTOCOL_SHOUTCAST m f)
        (if stages f shoutcast_stage = 1 + pkt_direction p
            \<and> dir_sel (pkt_direction p) (packet_direction_counter f) < 5 then Some f
         else if packet_counter f = 2 then
           branch (any_of [all_of [Some (n = 2), text_is mem p 0 [0x0d, 0x0a]], ok2]) (Some f) no
         else if packet_counter f = 3 \<or> packet_counter f = 4 then
           branch ok2 (Some f)
             (branch (all_of [Some (4 < n), text_is mem p 0 (str ''icy-'')]) (detect NDPI_PROTOCOL_SHOUTCAST m f) no)
         else no))"

definition ndpi_search_shoutcast_tcp :: dissecting where
  "ndpi_search_shoutcast_tcp mem m f =
     (let p = packet m; n = payload_packet_len p in
      if packet_counter f = 1 then
        branch (all_of [Some (6 \<le> n \<and> n < 80), text_is mem p 0 (str ''123456'')])
          (Some f)
          (if packet_counter f < 3 \<and> app_of f = NDPI_PROTOCOL_HTTP then
             branch (all_of [Some (4 < n), negated (word_is mem p (n - 4) 0x0d0a0d0a)])
               (store shoutcast_stage (1 + pkt_direction p) f)
               (Some f)
           else shoutcast_rest mem m f)
      else shoutcast_rest mem m f)"

interpretation shoutcast: dissector ndpi_search_shoutcast_tcp "{NDPI_PROTOCOL_SHOUTCAST}"
    NDPI_SELECTION_BITMASK_PROTOCOL_V4_V6_TCP_WITH_PAYLOAD_WITHOUT_RETRANSMISSION
  by (rule dissectorI) (auto simp: ndpi_search_shoutcast_tcp_def shoutcast_rest_def dissector_simps intro!: verdict_intros)

text \<open>Version 2 of the protocol, behind the checks for version 1.\<close>

definition dofus_strings :: dissecting where
  "dofus_strings mem m f =
     (let p = packet m; n = payload_packet_len p; no = ndpi_exclude_protocol NDPI_PROTOCOL_DOFUS f in
      branch (all_of [Some (n = 56), text_is mem p 0 [0x00, 0x11, 0x35, 0x02, 0x03, 0x00, 0x93, 0x96, 0x01, 0x00]])
        (do {
          len \<leftarrow> half_at mem p 10;
          if n < unat len + 12 + 2 then no
          else do {
            len2 \<leftarrow> half_at mem p (12 + unat len);
            branch (all_of [Some (12 + unat len + 2 + unat len2 + 1 = n), byte_is mem p (12 + unat len + 2 + unat len2) 0x01])
              (detect NDPI_PROTOCOL_DOFUS m f) no
          }
        })
        no)"

definition dofus_2 :: dissecting where
  "dofus_2 mem m f =
     (let p = packet m; n = payload_packet_len p; no = ndpi_exclude_protocol NDPI_PROTOCOL_DOFUS f in
      branch (all_of [Some (n = 11 \<or> n = 13 \<or> n = 49), word_is mem p 0 0x00050800, half_is mem p 4 0x0005,
          half_is mem p 8 0x0005, byte_is mem p 10 0x18])
        (branch (any_of [
             all_of [Some (n = 13), negated (half_is mem p (n - 2) 0x0194)],
             all_of [Some (n = 49), test (\<lambda>l. unat l + 17 \<noteq> n) (half_at mem p 15)]])
          no (detect NDPI_PROTOCOL_DOFUS m f))
        (branch (all_of [Some (41 \<le> n), half_is mem p 0 0x01b9, byte_is mem p 2 0x26])
          (do {
            len \<leftarrow> half_at mem p 3;
            if n < unat len + 5 + 2 then no
            else do {
              len2 \<leftarrow> half_at mem p (5 + unat len);
              if 5 + unat len + 2 + unat len2 = n then detect NDPI_PROTOCOL_DOFUS m f else dofus_strings mem m f
            }
          })
          (dofus_strings mem m f)))"

definition ndpi_search_dofus :: dissecting where
  "ndpi_search_dofus mem m f =
     (let p = packet m; n = payload_packet_len p; no = ndpi_exclude_protocol NDPI_PROTOCOL_DOFUS f in
      branch (all_of [Some (n = 13), half_is mem p 1 0x0508, half_is mem p 5 0x04a0, half_is mem p (n - 2) 0x0194])
        (detect NDPI_PROTOCOL_DOFUS m f)
        (branch (all_of [Some (stages f dofus_stage = 0),
             any_of [
               all_of [Some (n = 3), text_is mem p 0 (str ''HG''), byte_is mem p (n - 1) 0],
               all_of [Some (n = 12), text_is mem p 0 (str ''Af''), byte_is mem p (n - 1) 0],
               all_of [Some (n = 35), text_is mem p 0 (str ''HC''), byte_is mem p (n - 1) 0],
               all_of [Some (2 < n), byte_is mem p 0 65, any_of [byte_is mem p 1 120, byte_is mem p 1 88],
                 byte_is mem p (n - 1) 0],
               all_of [Some (2 < n), negated (text_is mem p 0 (str ''Ad'')), byte_is mem p (n - 1) 0]]])
          (store dofus_stage 1 f)
          (branch (all_of [Some (stages f dofus_stage = 1),
               any_of [
                 all_of [Some (n = 11), text_is mem p 0 (str ''AT''), byte_is mem p 10 0x00],
                 all_of [Some (n = 5), byte_is mem p 0 65, byte_is mem p 4 0x00,
                   any_of [byte_is mem p 1 84, byte_is mem p 1 107]]]])
            (detect NDPI_PROTOCOL_DOFUS m f)
            (dofus_2 mem m f))))"

interpretation dofus: dissector ndpi_search_dofus "{NDPI_PROTOCOL_DOFUS}"
    NDPI_SELECTION_BITMASK_PROTOCOL_V4_V6_TCP_WITH_PAYLOAD_WITHOUT_RETRANSMISSION
  by (rule dissectorI) (auto simp: ndpi_search_dofus_def dofus_2_def dofus_strings_def dissector_simps intro!: verdict_intros)

text \<open>
  The fields of a \<open>Z39.50\<close> message: \<open>cur\<close> of them are behind the offset and at most \<open>k\<close> more are
  read. A field with a long tag ends the search early.
\<close>

fun z3950_sequences :: "bytes \<Rightarrow> ndpi_packet \<Rightarrow> nat \<Rightarrow> nat \<Rightarrow> nat \<Rightarrow> int option" where
  "z3950_sequences mem p cur 0 off = Some (int cur)"
| "z3950_sequences mem p cur (Suc k) off =
     (if payload_packet_len p \<le> off + 2 then Some (- 1)
      else do {
        b \<leftarrow> byte_at mem p off;
        let seq_type = b AND 0x1F;
        if seq_type = 0x1F then Some (int cur + 1)
        else do {
          seq_length \<leftarrow> byte_at mem p (off + 1);
          if 51 < seq_type \<and> (seq_type < 100 \<or> 105 < seq_type) \<and> (seq_type < 110 \<or> 112 < seq_type)
             \<and> (seq_type < 120 \<or> 121 < seq_type) \<and> (seq_type < 201 \<or> 221 < seq_type) then Some (- 1)
          else if payload_packet_len p - off + 1 \<le> unat seq_length then Some (- 1)
          else if off + unat seq_length + 2 = payload_packet_len p then Some (int cur + 1)
          else z3950_sequences mem p (cur + 1) k (off + unat seq_length + 2)
        }
      })"

definition z3950_parse_sequences :: "bytes \<Rightarrow> ndpi_packet \<Rightarrow> nat \<Rightarrow> int option" where
  "z3950_parse_sequences mem p max_sequences =
     (if payload_packet_len p < 2 then Some (- 1)
      else do {
        b \<leftarrow> byte_at mem p 0;
        let pdu_type = b AND 0x1F;
        if (pdu_type < 20 \<or> 36 < pdu_type) \<and> (pdu_type < 43 \<or> 48 < pdu_type) then Some (- 1)
        else z3950_sequences mem p 0 max_sequences 2
      })"

definition ndpi_search_z3950 :: dissecting where
  "ndpi_search_z3950 mem m f =
     (let p = packet m; no = ndpi_exclude_protocol NDPI_PROTOCOL_Z3950 f in
      if present (tcp p) \<and> 6 \<le> payload_packet_len p \<and> 1 \<le> packet_counter f \<and> packet_counter f \<le> 8 then do {
        ret \<leftarrow> z3950_parse_sequences mem p 6;
        if ret < 0 then no
        else if ret < 6 then Some f
        else if stages f z3950_stage = 3 then
          if fst (packet_direction_counter f) \<noteq> 0 \<and> snd (packet_direction_counter f) \<noteq> 0
          then detect NDPI_PROTOCOL_Z3950 m f else no
        else store z3950_stage (stages f z3950_stage + 1) f
      }
      else no)"

lemma z3950_sequences_defined: "view_ok (length mem) p \<Longrightarrow> defined (z3950_sequences mem p cur k off)"
proof (induction k arbitrary: cur off)
  case (Suc k)
  show ?case
  proof (cases "payload_packet_len p \<le> off + 2")
    case False
    then have "defined (byte_at mem p off)" "defined (byte_at mem p (off + 1))"
      by (auto intro!: defined_reads(1) [OF Suc.prems])
    then show ?thesis using False Suc by (auto simp: Let_def defined_simps intro!: defined_bind)
  qed (simp add: defined_simps)
qed (simp add: defined_simps)

declare z3950_sequences.simps [simp del]

lemma z3950_parse_defined: "view_ok (length mem) p \<Longrightarrow> defined (z3950_parse_sequences mem p k)"
  by (auto simp: z3950_parse_sequences_def Let_def defined_simps z3950_sequences_defined intro!: defined_bind)

interpretation z3950: dissector ndpi_search_z3950 "{NDPI_PROTOCOL_Z3950}"
    NDPI_SELECTION_BITMASK_PROTOCOL_V4_V6_TCP_WITH_PAYLOAD_WITHOUT_RETRANSMISSION
  by (rule dissectorI)
    (auto simp: ndpi_search_z3950_def dissector_simps z3950_parse_defined intro!: verdict_intros
      verdict_read [where r = "z3950_parse_sequences mem p k" for mem p k])

section \<open>Property\<close>

text \<open>One packet after the other, and a packet whose payload is \<open>bs\<close>.\<close>

fun feed :: "dissecting \<Rightarrow> (bytes \<times> ndpi_packet) list \<Rightarrow> ndpi_module \<Rightarrow> ndpi_flow \<Rightarrow> ndpi_flow option" where
  "feed d [] m f = Some f"
| "feed d ((mem, p) # ps) m f = do { f \<leftarrow> d mem (m\<lparr>packet := p\<rparr>) f; feed d ps m f }"

definition carries :: "bytes \<times> ndpi_packet \<Rightarrow> bytes \<Rightarrow> bool" where
  "carries mp bs \<longleftrightarrow> bs \<noteq> [] \<and> payload_packet_len (snd mp) = length bs \<and> run_at (fst mp) (snd mp) 0 (length bs) = Some bs"

lemma run_shorter:
  assumes "run_at mem p 0 n = Some bs" "k \<le> n"
  shows "run_at mem p 0 k = Some (take k bs)"
  using assms by (auto simp: run_at_def peek_run_def bind_eq_Some_conv split: if_splits)

text \<open>A packet that carries the next bytes of the sequence moves the counter on.\<close>

lemma whatsapp_chunk:
  assumes "carries (mem, p) c" "c = take (length c) (drop (stages f wa_matched_so_far) whatsapp_sequence)"
    "stages f wa_matched_so_far < length whatsapp_sequence"
  shows "ndpi_search_whatsapp mem (m\<lparr>packet := p\<rparr>) f =
     (let f = set_field wa_matched_so_far (stages f wa_matched_so_far + length c) f in
      if stages f wa_matched_so_far = length whatsapp_sequence
      then detect NDPI_PROTOCOL_WHATSAPP (m\<lparr>packet := p\<rparr>) f else Some f)"
proof -
  let ?wa = "stages f wa_matched_so_far"
  have c: "payload_packet_len p = length c" "run_at mem p 0 (length c) = Some c" using assms(1) by (auto simp: carries_def)
  have len: "length c \<le> length whatsapp_sequence - ?wa" by (subst assms(2)) simp
  have new: "all_of [Some (?wa = 0 \<and> 4 < length c), text_is mem p 0 [0x57, 0x41, 0x01, 0x05]] = Some False"
  proof (cases "?wa = 0 \<and> 4 < length c")
    case True
    have "hd c = hd (take (length c) (drop ?wa whatsapp_sequence))" using assms(2) by simp
    also have "\<dots> = 0x45" using True by (cases "length c") (simp_all add: whatsapp_sequence_def)
    finally have "hd c = 0x45" .
    then have "take 4 c \<noteq> [0x57, 0x41, 0x01, 0x05]" using True by (cases c) auto
    moreover have "run_at mem p 0 (length [0x57, 0x41, 0x01, 0x05 :: u8]) = Some (take 4 c)"
      using run_shorter [OF c(2), of 4] True by (simp add: eval_nat_numeral)
    ultimately show ?thesis using True by (simp add: all_of.simps test_def del: list.size)
  qed (auto simp: all_of.simps)
  have "min (length whatsapp_sequence - ?wa) (length c) = length c" using len by simp
  then show ?thesis using new c assms(2,3)
    by (simp add: ndpi_search_whatsapp_def Let_def branch_def test_def store_def)
qed

lemma whatsapp_feed:
  assumes "list_all2 carries ps cs" "drop (stages f wa_matched_so_far) whatsapp_sequence = concat cs"
    "stages f wa_matched_so_far < length whatsapp_sequence" "flow_ready m f" "guessed_host_protocol_id f = NDPI_PROTOCOL_UNKNOWN"
  shows "\<exists>f'. feed ndpi_search_whatsapp ps m f = Some f' \<and> app_of f' = NDPI_PROTOCOL_WHATSAPP"
  using assms
proof (induction arbitrary: f rule: list_all2_induct)
  case Nil
  then show ?case by simp
next
  case (Cons mp ps c cs)
  obtain mem p where mp: "mp = (mem, p)" by (cases mp)
  let ?wa = "stages f wa_matched_so_far"
  let ?f = "set_field wa_matched_so_far (?wa + length c) f"
  have c: "c = take (length c) (drop ?wa whatsapp_sequence)" "drop (length c) (drop ?wa whatsapp_sequence) = concat cs"
    using Cons.prems(1) by simp_all
  have len: "length c \<le> length whatsapp_sequence - ?wa" by (subst c(1)) simp
  have "?wa + length c < 256" using len Cons.prems(2) by (simp add: whatsapp_sequence_def)
  then have wa: "stages ?f wa_matched_so_far = ?wa + length c" by (simp add: set_field_def)
  have ready: "flow_ready m ?f" "flow_ready (m\<lparr>packet := p\<rparr>) ?f"
    using set_field_ready [OF Cons.prems(3)] by (simp_all add: flow_ready_def)
  have step: "ndpi_search_whatsapp mem (m\<lparr>packet := p\<rparr>) f = (if ?wa + length c = length whatsapp_sequence
      then detect NDPI_PROTOCOL_WHATSAPP (m\<lparr>packet := p\<rparr>) ?f else Some ?f)"
    using whatsapp_chunk [OF _ c(1) Cons.prems(2), of mem p m] Cons.hyps(1) mp wa by (simp add: Let_def)
  show ?case
  proof (cases "?wa + length c = length whatsapp_sequence")
    case True
    then have "drop (length c) (drop ?wa whatsapp_sequence) = []" by simp
    then have "concat cs = []" using c(2) by simp
    moreover have "cs = [] \<or> concat cs \<noteq> []"
      using Cons.hyps(2) by (cases cs) (auto simp: list_all2_Cons2 carries_def)
    ultimately have "cs = []" by simp
    then have ps: "ps = []" using Cons.hyps(2) by simp
    obtain f' where f': "detect NDPI_PROTOCOL_WHATSAPP (m\<lparr>packet := p\<rparr>) ?f = Some f'"
      using set_detected_ready [OF ready(2), of NDPI_PROTOCOL_WHATSAPP NDPI_PROTOCOL_UNKNOWN NDPI_CONFIDENCE_DPI]
      by (auto simp: detect_def size_defs)
    have "app_of f' = NDPI_PROTOCOL_WHATSAPP" using f' Cons.prems(4)
      by (auto simp: detect_def ndpi_set_detected_protocol_def ndpi_int_change_protocol_def ndpi_int_change_flow_protocol_def
          Let_def set_field_def)
    then show ?thesis using step True f' ps mp by simp
  next
    case False
    then have "stages ?f wa_matched_so_far < length whatsapp_sequence" using wa len Cons.prems(2) by simp
    moreover have "drop (stages ?f wa_matched_so_far) whatsapp_sequence = concat cs" using wa c(2) by (simp add: add.commute)
    ultimately show ?thesis using Cons.IH [of ?f] ready(1) step False mp Cons.prems(4) by (simp add: set_field_def)
  qed
qed

text \<open>
  C35. The sequence may be cut anywhere. However its fifteen bytes are distributed over the payloads
  of successive packets, the last of them detects WhatsApp.
\<close>

theorem whatsapp_reassembled:
  assumes "list_all2 carries ps cs" "concat cs = whatsapp_sequence" "stages f wa_matched_so_far = 0" "flow_ready m f"
    "guessed_host_protocol_id f = NDPI_PROTOCOL_UNKNOWN"
  shows "\<exists>f'. feed ndpi_search_whatsapp ps m f = Some f' \<and> app_of f' = NDPI_PROTOCOL_WHATSAPP"
  by (rule whatsapp_feed [OF assms(1)]) (use assms in \<open>simp_all add: whatsapp_sequence_def\<close>)

definition payload_only :: "bytes \<Rightarrow> bytes \<times> ndpi_packet" where
  "payload_only bs = (bs, zero_packet\<lparr>payload := Some 0, payload_packet_len := length bs\<rparr>)"

theorem whatsapp_reassembled_witness:
  "\<exists>f'. feed ndpi_search_whatsapp (map payload_only [[0x45, 0x44, 0x0], [0x01, 0x0, 0x0, 0x02, 0x08], [0x0, 0x57, 0x41, 0x02, 0x0, 0x0, 0x0]])
      zero_module zero_flow = Some f' \<and> app_of f' = NDPI_PROTOCOL_WHATSAPP"
proof (rule whatsapp_reassembled)
  show "list_all2 carries (map payload_only [[0x45, 0x44, 0x0], [0x01, 0x0, 0x0, 0x02, 0x08], [0x0, 0x57, 0x41, 0x02, 0x0, 0x0, 0x0]])
      [[0x45, 0x44, 0x0], [0x01, 0x0, 0x0, 0x02, 0x08], [0x0, 0x57, 0x41, 0x02, 0x0, 0x0, 0x0]]"
    by (simp add: payload_only_def carries_def run_at_def peek_run_def)
  show "flow_ready zero_module zero_flow" by (rule fresh_flow_ready)
qed (simp_all add: whatsapp_sequence_def zero_flow_def)

end
