(* ===== verification/Mixed_Dissectors.thy ===== *)
theory Mixed_Dissectors
  imports Dissector_Base
begin

text \<open>
  Dissectors that are registered for TCP and UDP together and decide by themselves which transport
  they look at. Each has an interpretation of the contract \<open>dissector\<close>.
\<close>

section \<open>Signatures\<close>

definition ndpi_search_xdmcp :: dissecting where
  "ndpi_search_xdmcp mem m f =
     (let p = packet m; n = payload_packet_len p in
      branch (any_of [
          all_of [Some (present (tcp p)), test (\<lambda>d. 6000 \<le> d \<and> d \<le> 6005) (dest_of mem (tcp p)), Some (n = 48),
            byte_is mem p 0 0x6c, byte_is mem p 1 0x00, half_is mem p 6 0x1200, half_is mem p 8 0x1000],
          all_of [Some (present (udp p)), dest_is mem (udp p) 177, Some (6 \<le> n), test (\<lambda>l. n = 6 + unat l) (half_at mem p 4),
            half_is mem p 0 0x0001, half_is mem p 2 0x0002]])
        (detect NDPI_PROTOCOL_XDMCP m f)
        (ndpi_exclude_protocol NDPI_PROTOCOL_XDMCP f))"

interpretation xdmcp: dissector ndpi_search_xdmcp "{NDPI_PROTOCOL_XDMCP}"
    NDPI_SELECTION_BITMASK_PROTOCOL_V4_V6_TCP_OR_UDP_WITH_PAYLOAD
  by (rule dissectorI) (auto simp: ndpi_search_xdmcp_def dissector_simps intro!: verdict_intros)

definition ndpi_check_amazon_video :: dissecting where
  "ndpi_check_amazon_video mem m f =
     (let p = packet m in
      branch (all_of [Some (4 < payload_packet_len p),
          any_of [
            all_of [Some (present (tcp p)), byte_is mem p 0 0xFE, byte_is mem p 1 0xED, byte_is mem p 2 0xFA, byte_is mem p 3 0xCE],
            all_of [Some (present (udp p)), byte_is mem p 0 0xDE, byte_is mem p 1 0xAD, byte_is mem p 2 0xBE, byte_is mem p 3 0xEF]]])
        (detect NDPI_PROTOCOL_AMAZON_VIDEO m f)
        (ndpi_exclude_protocol NDPI_PROTOCOL_AMAZON_VIDEO f))"

definition ndpi_search_amazon_video :: dissecting where
  "ndpi_search_amazon_video mem m f =
     (if app_of f \<noteq> NDPI_PROTOCOL_AMAZON_VIDEO then ndpi_check_amazon_video mem m f else Some f)"

interpretation amazon_video: dissector ndpi_search_amazon_video "{NDPI_PROTOCOL_AMAZON_VIDEO}"
    NDPI_SELECTION_BITMASK_PROTOCOL_V4_V6_TCP_OR_UDP_WITH_PAYLOAD
  by (rule dissectorI) (auto simp: ndpi_search_amazon_video_def ndpi_check_amazon_video_def dissector_simps intro!: verdict_intros)

definition ndpi_search_dnscrypt :: dissecting where
  "ndpi_search_dnscrypt mem m f =
     (let p = packet m; n = payload_packet_len p; d = pkt_direction p in
      branch (all_of [Some (64 \<le> n), strncmp_at id mem p 0 8 (str ''r6fnvWj8'')])
        (detect NDPI_PROTOCOL_DNSCRYPT m f)
        (branch (all_of [Some (13 + 10 < n), strncmp_at c_tolower mem p 13 10 (str ''2'' @ [13] @ str ''dnscrypt'')])
          (detect NDPI_PROTOCOL_DNSCRYPT m f)
          (if 1 \<le> dir_sel d (packet_direction_counter f) \<and> 1 \<le> dir_sel (1 - d) (packet_direction_counter f)
              \<or> 10 \<le> packet_counter f
           then ndpi_exclude_protocol NDPI_PROTOCOL_DNSCRYPT f
           else Some f)))"

interpretation dnscrypt: dissector ndpi_search_dnscrypt "{NDPI_PROTOCOL_DNSCRYPT}"
    NDPI_SELECTION_BITMASK_PROTOCOL_V4_V6_TCP_OR_UDP_WITH_PAYLOAD
  by (rule dissectorI) (auto simp: ndpi_search_dnscrypt_def dissector_simps intro!: verdict_intros)

text \<open>The protocol is excluded even when it has just been detected.\<close>

definition ndpi_search_teamspeak :: dissecting where
  "ndpi_search_teamspeak mem m f =
     (let p = packet m in do {
        f \<leftarrow> branch (all_of [Some (20 \<le> payload_packet_len p),
                 if present (udp p) then text_is mem p 0 (str ''TS3INIT1'')
                 else all_of [Some (present (tcp p)),
                   any_of [text_is mem p 0 [0xf4, 0xbe, 0x03, 0x00], text_is mem p 0 [0xf4, 0xbe, 0x02, 0x00],
                     text_is mem p 0 [0xf4, 0xbe, 0x01, 0x00]]]])
               (detect NDPI_PROTOCOL_TEAMSPEAK m f)
               (Some f);
        ndpi_exclude_protocol NDPI_PROTOCOL_TEAMSPEAK f
      })"

interpretation teamspeak: dissector ndpi_search_teamspeak "{NDPI_PROTOCOL_TEAMSPEAK}"
    NDPI_SELECTION_BITMASK_PROTOCOL_V4_V6_TCP_OR_UDP_WITH_PAYLOAD
  by (rule dissectorI) (auto simp: ndpi_search_teamspeak_def dissector_simps intro!: verdict_intros)

definition ndpi_check_targus_getdata :: dissecting where
  "ndpi_check_targus_getdata mem m f =
     (let p = packet m; ports = (\<lambda>h. any_of [dest_is mem h 5201, source_is mem h 5201, dest_is mem h 5001, source_is mem h 5001]) in
      branch (all_of [Some (present (iph p)),
          any_of [all_of [Some (present (tcp p)), ports (tcp p)], all_of [Some (present (udp p)), ports (udp p)]]])
        (detect NDPI_PROTOCOL_TARGUS_GETDATA m f)
        (ndpi_exclude_protocol NDPI_PROTOCOL_TARGUS_GETDATA f))"

definition ndpi_search_targus_getdata :: dissecting where
  "ndpi_search_targus_getdata mem m f =
     (if app_of f \<noteq> NDPI_PROTOCOL_TARGUS_GETDATA then ndpi_check_targus_getdata mem m f else Some f)"

interpretation targus_getdata: dissector ndpi_search_targus_getdata "{NDPI_PROTOCOL_TARGUS_GETDATA}"
    NDPI_SELECTION_BITMASK_PROTOCOL_V4_V6_TCP_OR_UDP
  by (rule dissectorI) (auto simp: ndpi_search_targus_getdata_def ndpi_check_targus_getdata_def dissector_simps intro!: verdict_intros)

definition ndpi_search_nfs :: dissecting where
  "ndpi_search_nfs mem m f =
     (let p = packet m; n = payload_packet_len p; offset = (if present (tcp p) then 4 else 0) in
      branch (any_of [Some (n < 40 + offset),
          all_of [Some (offset \<noteq> 0), test (\<lambda>w. w \<noteq> 0x80000000 + of_nat n - 4) (word_at mem p 0)],
          test (\<lambda>w. w \<noteq> 0) (raw_word_at mem p (4 + offset)),
          test (\<lambda>w. w \<noteq> 0x02) (word_at mem p (8 + offset)),
          test (\<lambda>w. w \<notin> {0x000186a5, 0x000186a3, 0x000186a0}) (word_at mem p (12 + offset)),
          test (\<lambda>w. 4 < w) (word_at mem p (16 + offset))])
        (ndpi_exclude_protocol NDPI_PROTOCOL_NFS f)
        (detect NDPI_PROTOCOL_NFS m f))"

interpretation nfs: dissector ndpi_search_nfs "{NDPI_PROTOCOL_NFS}"
    NDPI_SELECTION_BITMASK_PROTOCOL_V4_V6_TCP_OR_UDP_WITH_PAYLOAD_WITHOUT_RETRANSMISSION
  by (rule dissectorI) (auto simp: ndpi_search_nfs_def dissector_simps intro!: verdict_intros)

definition is_connection_oriented_dcerpc :: "bytes \<Rightarrow> ndpi_packet \<Rightarrow> bool option" where
  "is_connection_oriented_dcerpc mem p =
     all_of [Some (present (tcp p)), Some (64 \<le> payload_packet_len p), byte_is mem p 0 0x05,
       test (\<lambda>b. b < 16) (byte_at mem p 2), test (\<lambda>l. unat l = payload_packet_len p) (raw_half_at mem p 8)]"

definition is_connectionless_dcerpc :: "bytes \<Rightarrow> ndpi_packet \<Rightarrow> bool option" where
  "is_connectionless_dcerpc mem p =
     all_of [Some (present (udp p)), Some (80 \<le> payload_packet_len p), byte_is mem p 0 0x04,
       test (\<lambda>b. b \<le> 10) (byte_at mem p 1), test (\<lambda>b. b AND 0xFC = 0) (byte_at mem p 3),
       test (\<lambda>b. b AND 0xEE = 0) (byte_at mem p 4), test (\<lambda>b. b \<le> 3) (byte_at mem p 5),
       branch (byte_is mem p 4 0x10)
         (test (\<lambda>l. payload_packet_len p = unat l + 76 + 4) (raw_half_at mem p 74))
         (test (\<lambda>l. payload_packet_len p = unat l + 76 + 4) (half_at mem p 74))]"

definition ndpi_search_dcerpc :: dissecting where
  "ndpi_search_dcerpc mem m f =
     (let p = packet m in
      branch (any_of [is_connection_oriented_dcerpc mem p, is_connectionless_dcerpc mem p])
        (detect NDPI_PROTOCOL_DCERPC m f)
        (if 1 < payload_packet_len p then ndpi_exclude_protocol NDPI_PROTOCOL_DCERPC f else Some f))"

interpretation dcerpc: dissector ndpi_search_dcerpc "{NDPI_PROTOCOL_DCERPC}"
    NDPI_SELECTION_BITMASK_PROTOCOL_V4_V6_TCP_OR_UDP_WITH_PAYLOAD_WITHOUT_RETRANSMISSION
  by (rule dissectorI) (auto simp: ndpi_search_dcerpc_def is_connection_oriented_dcerpc_def is_connectionless_dcerpc_def dissector_simps intro!: verdict_intros)

definition ndpi_search_ldap :: dissecting where
  "ndpi_search_ldap mem m f =
     (let p = packet m; n = payload_packet_len p in
      branch (all_of [Some (14 \<le> n), byte_is mem p 0 0x30,
          any_of [
            all_of [byte_is mem p 1 0x0c, Some (n = 14), byte_is mem p (n - 1) 0x00, byte_is mem p 2 0x02,
              any_of [
                all_of [byte_is mem p 3 0x01, any_of [byte_is mem p 5 0x60, byte_is mem p 5 0x61], byte_is mem p 6 0x07],
                all_of [byte_is mem p 3 0x02, any_of [byte_is mem p 6 0x60, byte_is mem p 6 0x61], byte_is mem p 7 0x07]]],
            all_of [byte_is mem p 1 0x84, byte_is mem p 2 0x00, byte_is mem p 3 0x00, byte_is mem p 6 0x02,
              any_of [
                all_of [byte_is mem p 7 0x01, test (\<lambda>b. b \<in> {0x60, 0x61, 0x63, 0x64}) (byte_at mem p 9), byte_is mem p 10 0x84],
                all_of [byte_is mem p 7 0x02, test (\<lambda>b. b \<in> {0x60, 0x61, 0x63, 0x64}) (byte_at mem p 10), byte_is mem p 11 0x84],
                all_of [byte_is mem p 7 0x03, test (\<lambda>b. b \<in> {0x60, 0x61, 0x63, 0x64, 0x65}) (byte_at mem p 11),
                  byte_is mem p 12 0x84]]]]])
        (detect NDPI_PROTOCOL_LDAP m f)
        (ndpi_exclude_protocol NDPI_PROTOCOL_LDAP f))"

interpretation ldap: dissector ndpi_search_ldap "{NDPI_PROTOCOL_LDAP}"
    NDPI_SELECTION_BITMASK_PROTOCOL_V4_V6_TCP_OR_UDP_WITH_PAYLOAD_WITHOUT_RETRANSMISSION
  by (rule dissectorI) (auto simp: ndpi_search_ldap_def dissector_simps intro!: verdict_intros)

text \<open>Ports are 0 for the transport the packet does not have.\<close>

definition ports_or_zero :: "bytes \<Rightarrow> nat option \<Rightarrow> (u16 \<times> u16) option" where
  "ports_or_zero mem h =
     (if present h then do { s \<leftarrow> source_of mem h; d \<leftarrow> dest_of mem h; Some (s, d) } else Some (0, 0))"

definition ciscovpn_end :: dissecting where
  "ciscovpn_end mem m f =
     (if 5 < num_processed_pkts f then ndpi_exclude_protocol NDPI_PROTOCOL_CISCOVPN f else Some f)"

definition ndpi_search_ciscovpn :: dissecting where
  "ndpi_search_ciscovpn mem m f =
     (let p = packet m; n = payload_packet_len p in do {
        tports \<leftarrow> ports_or_zero mem (tcp p);
        uports \<leftarrow> ports_or_zero mem (udp p);
        let either = (\<lambda>(s, d) v. s = v \<or> d = v);
        branch (any_of [Some (tports = (10000, 10000)),
            all_of [Some (either tports 443), Some (4 \<le> n), text_is mem p 0 [0x17, 0x01, 0x00, 0x00]]])
          (detect NDPI_PROTOCOL_CISCOVPN m f)
          (branch (all_of [Some (either tports 8009 \<or> either tports 8008), Some (5 \<le> n),
               text_is mem p 0 [0x17, 0x03, 0x03, 0x00, 0x69]])
            (detect NDPI_PROTOCOL_CISCOVPN m f)
            (branch (all_of [Some (uports = (10000, 10000)), Some (4 \<le> n), text_is mem p 0 [0xfe, 0x57, 0x7e, 0x2b]])
              (do { f \<leftarrow> detect NDPI_PROTOCOL_CISCOVPN m f; ciscovpn_end mem m f })
              (branch (all_of [Some (either uports 443), Some (5 \<le> n), text_is mem p 0 [0x17, 0x01, 0x00, 0x00, 0x01]])
                (detect NDPI_PROTOCOL_CISCOVPN m f)
                (ciscovpn_end mem m f))))
      })"

lemma verdict_ports:
  assumes "view_ok (length mem) p" "h = tcp p \<or> h = udp p" "\<And>x. verdict ids m f (g x)"
  shows "verdict ids m f (Option.bind (ports_or_zero mem h) g)"
  using assms by (intro verdict_read) (auto simp: ports_or_zero_def defined_simps intro!: defined_bind)

interpretation ciscovpn: dissector ndpi_search_ciscovpn "{NDPI_PROTOCOL_CISCOVPN}"
    NDPI_SELECTION_BITMASK_PROTOCOL_V4_V6_TCP_OR_UDP_WITH_PAYLOAD
  by (rule dissectorI) (auto simp: ndpi_search_ciscovpn_def ciscovpn_end_def dissector_simps
    intro!: verdict_intros verdict_ports)

section \<open>Other transports\<close>

text \<open>
  \<^verbatim>\<open>non_tcp_udp.c\<close> reports the protocol of the IP header itself, when it is enabled. It is registered
  for nine of its ten protocols.
\<close>

definition set_protocol_and_bmask :: "u16 \<Rightarrow> ndpi_module \<Rightarrow> ndpi_flow \<Rightarrow> ndpi_flow option" where
  "set_protocol_and_bmask p m f = do {
     enabled \<leftarrow> NDPI_COMPARE_PROTOCOL_TO_BITMASK (detection_bitmask m) p;
     if enabled then detect p m f else Some f
   }"

definition ndpi_search_in_non_tcp_udp :: dissecting where
  "ndpi_search_in_non_tcp_udp mem m f =
     (let proto = l4_proto f in
      if \<not> present (iph (packet m)) \<and> \<not> present (iphv6 (packet m)) then Some f
      else if proto = 50 \<or> proto = 51 then set_protocol_and_bmask NDPI_PROTOCOL_IP_IPSEC m f
      else if proto = 0x2F then set_protocol_and_bmask NDPI_PROTOCOL_IP_GRE m f
      else if proto = 0x01 then set_protocol_and_bmask NDPI_PROTOCOL_IP_ICMP m f
      else if proto = 0x02 then set_protocol_and_bmask NDPI_PROTOCOL_IP_IGMP m f
      else if proto = 0x08 then set_protocol_and_bmask NDPI_PROTOCOL_IP_EGP m f
      else if proto = 132 then set_protocol_and_bmask NDPI_PROTOCOL_IP_SCTP m f
      else if proto = 0x59 then set_protocol_and_bmask NDPI_PROTOCOL_IP_OSPF m f
      else if proto = 0x04 then set_protocol_and_bmask NDPI_PROTOCOL_IP_IP_IN_IP m f
      else if proto = 0x3a then set_protocol_and_bmask NDPI_PROTOCOL_IP_ICMPV6 m f
      else if proto = 112 then set_protocol_and_bmask NDPI_PROTOCOL_IP_VRRP m f
      else Some f)"

lemma verdict_bmask:
  assumes "session_ok m f" "p \<in> ids" "unat p < NDPI_MAX_SUPPORTED_PROTOCOLS"
  shows "verdict ids m f (set_protocol_and_bmask p m f)"
  using assms test_enabled [of "detection_bitmask m" p]
  by (auto simp: set_protocol_and_bmask_def session_ok_def intro!: verdict_intros)

interpretation non_tcp_udp: dissector ndpi_search_in_non_tcp_udp
    "{NDPI_PROTOCOL_IP_IPSEC, NDPI_PROTOCOL_IP_GRE, NDPI_PROTOCOL_IP_ICMP, NDPI_PROTOCOL_IP_IGMP, NDPI_PROTOCOL_IP_EGP,
      NDPI_PROTOCOL_IP_SCTP, NDPI_PROTOCOL_IP_OSPF, NDPI_PROTOCOL_IP_IP_IN_IP, NDPI_PROTOCOL_IP_ICMPV6, NDPI_PROTOCOL_IP_VRRP}"
    NDPI_SELECTION_BITMASK_PROTOCOL_IPV4_OR_IPV6
  by unfold_locales
    (simp only: ndpi_search_in_non_tcp_udp_def Let_def; intro verdict_if verdict_Some verdict_bmask; simp add: size_defs)

end
