(* ===== verification/Mixed_Sessions.thy ===== *)
theory Mixed_Sessions
  imports Dissector_Base
begin

text \<open>
  Dissectors for TCP and UDP that walk through the payload or remember something of the flow, with
  the interpretation of the contract \<open>dissector\<close> for each.
\<close>

section \<open>Loops over the payload\<close>

text \<open>
  The sections of a control packet: \<open>False\<close> when one has no length or ends behind the payload. Lengths
  and offset have 16 bits; a section that is accepted is inside the payload, so the offset cannot wrap.
\<close>

function rtcp_sections :: "bytes \<Rightarrow> ndpi_packet \<Rightarrow> nat \<Rightarrow> bool option" where
  "rtcp_sections mem p off =
     (if off + 3 < payload_packet_len p then
        (case half_at mem p (2 + off) of
           None \<Rightarrow> None
         | Some len \<Rightarrow>
             (let section_len = c_u16 ((unat len + 1) * 4) in
              if payload_packet_len p < off + section_len \<or> section_len = 0 \<or> len = 0 then Some False
              else rtcp_sections mem p (off + section_len)))
      else Some True)"
  by pat_completeness auto
termination by (relation "measure (\<lambda>(mem, p, off). payload_packet_len p - off)") auto

declare rtcp_sections.simps [simp del]

definition ndpi_search_rtcp :: dissecting where
  "ndpi_search_rtcp mem m f =
     (let p = packet m; n = payload_packet_len p; no = ndpi_exclude_protocol NDPI_PROTOCOL_RTCP f in
      if present (tcp p) then do {
        sport \<leftarrow> source_of mem (tcp p);
        dport \<leftarrow> dest_of mem (tcp p);
        branch (all_of [Some (13 < n), Some (sport = 554 \<or> dport = 554),
            text_is mem p 0 [0x00, 0x00, 0x01, 0x01, 0x08, 0x0a, 0x00, 0x01]])
          (detect NDPI_PROTOCOL_RTCP m f)
          (Some f)
      }
      else if present (udp p) then
        branch (rtcp_sections mem p 0)
          (do {
            f \<leftarrow> branch (any_of [
                all_of [Some (28 \<le> n \<and> n \<le> 1200), byte_is mem p 0 0x80,
                  any_of [byte_is mem p 1 0xc8, byte_is mem p 1 0xc9], byte_is mem p 2 0x00],
                all_of [Some (3 \<le> n), byte_is mem p 0 0x81,
                  any_of [byte_is mem p 1 0xc8, byte_is mem p 1 0xc9], byte_is mem p 2 0x00]])
              (detect NDPI_PROTOCOL_RTCP m f)
              (Some f);
            if 3 < packet_counter f then ndpi_exclude_protocol NDPI_PROTOCOL_RTCP f else Some f
          })
          no
      else no)"

lemma rtcp_sections_defined: "view_ok (length mem) p \<Longrightarrow> defined (rtcp_sections mem p off)"
proof (induction mem p off rule: rtcp_sections.induct)
  case (1 mem p off)
  show ?case
  proof (cases "off + 3 < payload_packet_len p")
    case True
    then have "defined (half_at mem p (2 + off))" by (intro defined_reads(3) [OF 1(2)]) simp
    then obtain len where "half_at mem p (2 + off) = Some len" by (auto simp: defined_def)
    then show ?thesis using True 1 by (subst rtcp_sections.simps) (auto simp: Let_def defined_simps)
  qed (subst rtcp_sections.simps, simp add: defined_simps)
qed

interpretation rtcp: dissector ndpi_search_rtcp "{NDPI_PROTOCOL_RTCP}"
    NDPI_SELECTION_BITMASK_PROTOCOL_V4_V6_TCP_OR_UDP_WITH_PAYLOAD
  by (rule dissectorI) (auto simp: ndpi_search_rtcp_def rtcp_sections_defined dissector_simps intro!: verdict_intros)

text \<open>The position behind at most \<open>k\<close> digits.\<close>

fun syslog_digits :: "bytes \<Rightarrow> ndpi_packet \<Rightarrow> nat \<Rightarrow> nat \<Rightarrow> nat option" where
  "syslog_digits mem p i 0 = Some i"
| "syslog_digits mem p i (Suc k) =
     branch (test (\<lambda>b. b < 48 \<or> 57 < b) (byte_at mem p i)) (Some i) (syslog_digits mem p (i + 1) k)"

definition ndpi_isprint :: "u8 \<Rightarrow> bool" where
  "ndpi_isprint c \<longleftrightarrow> 0x20 \<le> c \<and> c \<le> 0x7e"

definition ndpi_isspace :: "u8 \<Rightarrow> bool" where
  "ndpi_isspace c \<longleftrightarrow> 9 \<le> c \<and> c \<le> 13 \<or> c = 32"

fun syslog_text :: "bytes \<Rightarrow> ndpi_packet \<Rightarrow> nat \<Rightarrow> nat \<Rightarrow> bool option" where
  "syslog_text mem p i 0 = Some True"
| "syslog_text mem p i (Suc k) =
     branch (test (\<lambda>b. ndpi_isprint b \<or> ndpi_isspace b) (byte_at mem p i)) (syslog_text mem p (i + 1) k) (Some False)"

definition ndpi_search_syslog :: dissecting where
  "ndpi_search_syslog mem m f =
     (let p = packet m; n = payload_packet_len p; no = ndpi_exclude_protocol NDPI_PROTOCOL_SYSLOG f in
      branch (all_of [Some (20 < n), byte_is mem p 0 60])
        (do {
          i \<leftarrow> syslog_digits mem p 1 3;
          branch (negated (byte_is mem p i 62)) no
            (do {
              i \<leftarrow> branch (byte_is mem p (i + 1) 0x20) (Some (i + 2)) (Some (i + 1));
              branch (syslog_text mem p i (n - i)) (detect NDPI_PROTOCOL_SYSLOG m f) no
            })
        })
        no)"

lemma syslog_digits_inside:
  assumes "view_ok (length mem) p" "i + k < payload_packet_len p"
  shows "\<exists>j. syslog_digits mem p i k = Some j \<and> j \<le> i + k"
  using assms(2)
proof (induction k arbitrary: i)
  case (Suc k)
  have "defined (byte_at mem p i)" using Suc.prems by (intro defined_reads(1) [OF assms(1)]) simp
  then show ?case using Suc.prems Suc.IH [of "i + 1"] by (auto simp: defined_def branch_def test_def)
qed simp

lemma syslog_text_defined:
  assumes "view_ok (length mem) p" "i + k \<le> payload_packet_len p"
  shows "defined (syslog_text mem p i k)"
  using assms(2)
proof (induction k arbitrary: i)
  case (Suc k)
  have "defined (byte_at mem p i)" using Suc.prems by (intro defined_reads(1) [OF assms(1)]) simp
  then show ?case using Suc by (simp add: defined_simps)
qed (simp add: defined_simps)

lemma verdict_syslog:
  assumes "view_ok (length mem) p" "20 < payload_packet_len p" "\<And>i. i \<le> 4 \<Longrightarrow> verdict ids m f (g i)"
  shows "verdict ids m f (Option.bind (syslog_digits mem p (Suc 0) 3) g)"
  using syslog_digits_inside [OF assms(1), of 1 3] assms(2,3) by auto

lemma verdict_blank:
  assumes "defined c" "verdict ids m f (g a)" "verdict ids m f (g b)"
  shows "verdict ids m f (Option.bind (branch c (Some a) (Some b)) g)"
  using assms by (auto simp: branch_def defined_def)

interpretation syslog: dissector ndpi_search_syslog "{NDPI_PROTOCOL_SYSLOG}"
    NDPI_SELECTION_BITMASK_PROTOCOL_V4_V6_TCP_OR_UDP_WITH_PAYLOAD_WITHOUT_RETRANSMISSION
  by (rule dissectorI) (auto simp: ndpi_search_syslog_def dissector_simps syslog_text_defined
    intro!: verdict_intros verdict_syslog verdict_blank)

text \<open>The first byte \<open>0xFF\<close> from \<open>i\<close> on, or the end, and how many stand in a row.\<close>

fun ff_first :: "bytes \<Rightarrow> ndpi_packet \<Rightarrow> nat \<Rightarrow> nat \<Rightarrow> nat option" where
  "ff_first mem p i 0 = Some i"
| "ff_first mem p i (Suc k) = branch (byte_is mem p i 0xFF) (Some i) (ff_first mem p (i + 1) k)"

fun ff_row :: "bytes \<Rightarrow> ndpi_packet \<Rightarrow> nat \<Rightarrow> nat \<Rightarrow> nat option" where
  "ff_row mem p i 0 = Some 0"
| "ff_row mem p i (Suc k) = branch (byte_is mem p i 0xFF) (map_option Suc (ff_row mem p (i + 1) k)) (Some 0)"

definition is_telegram_port_range :: "u16 \<Rightarrow> bool" where
  "is_telegram_port_range port \<longleftrightarrow> 500 \<le> port \<and> port \<le> 600"

definition telegram_udp :: "bytes \<Rightarrow> ndpi_packet \<Rightarrow> nat option option" where
  "telegram_udp mem p =
     (let n = payload_packet_len p in do {
        i \<leftarrow> ff_first mem p 0 n;
        if i = n then Some None
        else do { more \<leftarrow> ff_row mem p (i + 1) (n - (i + 1)); Some (Some (1 + more)) }
      })"

definition ndpi_search_telegram :: dissecting where
  "ndpi_search_telegram mem m f =
     (let p = packet m; n = payload_packet_len p; no = ndpi_exclude_protocol NDPI_PROTOCOL_TELEGRAM f in
      if n = 0 then Some f
      else if present (tcp p) then
        if 56 < n then do {
          dport \<leftarrow> dest_of mem (tcp p);
          branch (all_of [byte_is mem p 0 0xef, Some (dport = 443 \<or> dport = 80 \<or> dport = 25)])
            (branch (any_of [byte_is mem p 1 0x7f, test (\<lambda>b. unat b * 4 \<le> n - 1) (byte_at mem p 1)])
              (detect NDPI_PROTOCOL_TELEGRAM m f) (Some f))
            no
        }
        else no
      else if present (udp p) \<and> 40 \<le> n then do {
        sport \<leftarrow> source_of mem (udp p);
        dport \<leftarrow> dest_of mem (udp p);
        if is_telegram_port_range sport \<or> is_telegram_port_range dport then do {
          found \<leftarrow> telegram_udp mem p;
          if found = None then Some f
          else if found = Some 12 then detect NDPI_PROTOCOL_TELEGRAM m f
          else no
        }
        else no
      }
      else no)"

lemma ff_first_inside:
  assumes "view_ok (length mem) p" "i + k \<le> payload_packet_len p"
  shows "\<exists>j. ff_first mem p i k = Some j \<and> j \<le> i + k"
  using assms(2)
proof (induction k arbitrary: i)
  case (Suc k)
  have "defined (byte_at mem p i)" using Suc.prems by (intro defined_reads(1) [OF assms(1)]) simp
  then show ?case using Suc.prems Suc.IH [of "i + 1"] by (auto simp: defined_def branch_def test_def)
qed simp

lemma ff_row_defined:
  assumes "view_ok (length mem) p" "i + k \<le> payload_packet_len p"
  shows "\<exists>j. ff_row mem p i k = Some j"
  using assms(2)
proof (induction k arbitrary: i)
  case (Suc k)
  have "defined (byte_at mem p i)" using Suc.prems by (intro defined_reads(1) [OF assms(1)]) simp
  then show ?case using Suc.prems Suc.IH [of "i + 1"] by (auto simp: defined_def branch_def test_def)
qed simp

lemma telegram_udp_defined:
  assumes "view_ok (length mem) p"
  shows "defined (telegram_udp mem p)"
proof -
  obtain i where i: "ff_first mem p 0 (payload_packet_len p) = Some i" "i \<le> payload_packet_len p"
    using ff_first_inside [OF assms, of 0] by auto
  show ?thesis
  proof (cases "i = payload_packet_len p")
    case False
    then have "i + 1 + (payload_packet_len p - (i + 1)) \<le> payload_packet_len p" using i(2) by simp
    from ff_row_defined [OF assms this] show ?thesis using i False by (auto simp: telegram_udp_def defined_def)
  qed (use i in \<open>simp add: telegram_udp_def defined_def\<close>)
qed

interpretation telegram: dissector ndpi_search_telegram "{NDPI_PROTOCOL_TELEGRAM}"
    NDPI_SELECTION_BITMASK_PROTOCOL_V4_V6_TCP_OR_UDP
  by (rule dissectorI) (auto simp: ndpi_search_telegram_def dissector_simps telegram_udp_defined
    intro!: verdict_intros verdict_read [where r = "telegram_udp mem p" for mem p])

section \<open>Texts\<close>

text \<open>Streams of a known server are a protocol of their own.\<close>

fun jabber_change :: "(bytes \<times> u16) list \<Rightarrow> nat \<Rightarrow> dissecting" where
  "jabber_change [] x mem m f = Some f"
| "jabber_change ((s, q) # ss) x mem m f =
     branch (finds_at mem (packet m) x (payload_packet_len (packet m) - x) s) (detect q m f) (jabber_change ss x mem m f)"

definition check_content_type_and_change_protocol :: "nat \<Rightarrow> dissecting" where
  "check_content_type_and_change_protocol x mem m f =
     (if payload_packet_len (packet m) \<le> x then Some f
      else jabber_change [(str ''='' @ [39] @ str ''im.truphone.com'' @ [39], NDPI_PROTOCOL_TRUPHONE),
             (str ''='' @ [34] @ str ''im.truphone.com'' @ [34], NDPI_PROTOCOL_TRUPHONE)] x mem m f)"

definition ndpi_search_jabber_tcp :: dissecting where
  "ndpi_search_jabber_tcp mem m f =
     (let p = packet m; n = payload_packet_len p in
      if 5 < packet_counter f then ndpi_exclude_protocol NDPI_PROTOCOL_JABBER f
      else if present (tcp p) \<and> n = 0 then Some f
      else branch (all_of [
          any_of [
            all_of [Some (13 < n), text_is mem p 0 (str ''<?xml version='')],
            all_of [Some (15 \<le> n), text_is mem p 0 (str ''<stream:stream '')]],
          any_of [
            finds_at mem p 13 (n - 13) (str ''xmlns:stream='' @ [39] @ str ''http://etherx.jabber.org/streams'' @ [39]),
            finds_at mem p 13 (n - 13) (str ''xmlns:stream='' @ [34] @ str ''http://etherx.jabber.org/streams'' @ [34])]])
        (do { f \<leftarrow> detect NDPI_PROTOCOL_JABBER m f; check_content_type_and_change_protocol 13 mem m f })
        (if packet_counter f < 3 then Some f
         else do { f \<leftarrow> ndpi_exclude_protocol NDPI_PROTOCOL_JABBER f; ndpi_exclude_protocol NDPI_PROTOCOL_TRUPHONE f }))"

interpretation jabber: dissector ndpi_search_jabber_tcp "{NDPI_PROTOCOL_JABBER, NDPI_PROTOCOL_TRUPHONE}"
    NDPI_SELECTION_BITMASK_PROTOCOL_V4_V6_TCP_OR_UDP_WITHOUT_RETRANSMISSION
  by (rule dissectorI) (auto simp: ndpi_search_jabber_tcp_def holds_any check_content_type_and_change_protocol_def dissector_simps intro!: verdict_intros)

section \<open>What the flow remembers\<close>

definition rdp_found :: dissecting where
  "rdp_found mem m f = do { f \<leftarrow> detect NDPI_PROTOCOL_RDP m f; ndpi_set_risk m NDPI_DESKTOP_OR_FILE_SHARING_SESSION f }"

text \<open>
  One direction: the first packet gives three bytes that every later one must start with, and the
  second one closes this direction.
\<close>

definition rdp_side :: "flow_buffer \<Rightarrow> flow_field \<Rightarrow> flow_field \<Rightarrow> dissecting" where
  "rdp_side saved pkts other mem m f = do {
     b \<leftarrow> run_at mem (packet m) 0 3;
     if stages f pkts = 0 then do { f \<leftarrow> copy_to saved b f; store pkts 1 f }
     else if saved_bytes f saved \<noteq> b then ndpi_exclude_protocol NDPI_PROTOCOL_RDP f
     else do { f \<leftarrow> store pkts 2 f; if stages f other = 2 then rdp_found mem m f else Some f }
   }"

definition ndpi_search_rdp :: dissecting where
  "ndpi_search_rdp mem m f =
     (let p = packet m; n = payload_packet_len p in
      if present (tcp p) then
        branch (all_of [Some (10 < n), test (\<lambda>b. 0 < b) (byte_at mem p 0), test (\<lambda>b. b < 4) (byte_at mem p 0),
            half_is mem p 2 (of_nat n), test (\<lambda>b. unat b = n - 5) (byte_at mem p 4), byte_is mem p 5 0xe0,
            test (\<lambda>w. w = 0) (raw_half_at mem p 6), test (\<lambda>w. w = 0) (raw_half_at mem p 8), byte_is mem p 10 0])
          (rdp_found mem m f)
          (ndpi_exclude_protocol NDPI_PROTOCOL_RDP f)
      else if present (udp p) then do {
        s_port \<leftarrow> source_of mem (udp p);
        d_port \<leftarrow> dest_of mem (udp p);
        if 10 \<le> n \<and> (s_port = 3389 \<or> d_port = 3389) then
          if s_port = 3389 then rdp_side rdp_from_srv rdp_from_srv_pkts rdp_to_srv_pkts mem m f
          else rdp_side rdp_to_srv rdp_to_srv_pkts rdp_from_srv_pkts mem m f
        else ndpi_exclude_protocol NDPI_PROTOCOL_RDP f
      }
      else Some f)"

interpretation rdp: dissector ndpi_search_rdp "{NDPI_PROTOCOL_RDP}"
    NDPI_SELECTION_BITMASK_PROTOCOL_V4_V6_TCP_OR_UDP_WITH_PAYLOAD_WITHOUT_RETRANSMISSION
  by (rule dissectorI) (auto simp: ndpi_search_rdp_def rdp_found_def rdp_side_def dissector_simps intro!: verdict_intros)

text \<open>\<open>struct tpkt\<close> has four bytes, the length at offset 2.\<close>

definition h323_end :: dissecting where
  "h323_end mem m f = (if 5 < packet_counter f then ndpi_exclude_protocol NDPI_PROTOCOL_H323 f else Some f)"

definition h323_tpkt :: dissecting where
  "h323_tpkt mem m f =
     (let p = packet m; n = payload_packet_len p in
      branch (test (\<lambda>l. n = unat l) (half_at mem p 2))
        (branch (all_of [test (\<lambda>b. unat b = n - 4 - 1) (byte_at mem p 4), any_of [byte_is mem p 5 0xE0, byte_is mem p 5 0xD0]])
          (detect NDPI_PROTOCOL_RDP m f)
          (do {
            f \<leftarrow> store h323_valid_packets (stages f h323_valid_packets + 1) f;
            f \<leftarrow> (if 2 \<le> stages f h323_valid_packets then detect NDPI_PROTOCOL_H323 m f else Some f);
            h323_end mem m f
          }))
        (ndpi_exclude_protocol NDPI_PROTOCOL_H323 f))"

definition ndpi_search_h323 :: dissecting where
  "ndpi_search_h323 mem m f =
     (let p = packet m; n = payload_packet_len p in
      branch (all_of [Some (present (tcp p)), negated (dest_is mem (tcp p) 102)])
        (branch (all_of [Some (5 < n), byte_is mem p 0 0x03, byte_is mem p 1 0x00]) (h323_tpkt mem m f) (h323_end mem m f))
        (if present (udp p) then do {
           sport \<leftarrow> source_of mem (udp p);
           dport \<leftarrow> dest_of mem (udp p);
           branch (all_of [Some (6 \<le> n), byte_is mem p 0 0x80, byte_is mem p 1 0x08,
               any_of [byte_is mem p 2 0xe7, byte_is mem p 2 0x26], byte_is mem p 4 0x00, byte_is mem p 5 0x00])
             (detect NDPI_PROTOCOL_H323 m f)
             (if sport = 1719 \<or> dport = 1719 then
                branch (any_of [
                    all_of [Some (5 < n), byte_is mem p 0 0x16, byte_is mem p 1 0x80, byte_is mem p 4 0x06, byte_is mem p 5 0x00],
                    Some (20 \<le> n \<and> n \<le> 117)])
                  (detect NDPI_PROTOCOL_H323 m f)
                  (ndpi_exclude_protocol NDPI_PROTOCOL_H323 f)
              else h323_end mem m f)
         }
         else h323_end mem m f))"

interpretation h323: dissector ndpi_search_h323 "{NDPI_PROTOCOL_H323, NDPI_PROTOCOL_RDP}"
    NDPI_SELECTION_BITMASK_PROTOCOL_V4_V6_TCP_OR_UDP_WITH_PAYLOAD
  by (rule dissectorI) (auto simp: ndpi_search_h323_def h323_end_def h323_tpkt_def dissector_simps intro!: verdict_intros)

end
