(* ===== verification/Dissector_Faults.thy ===== *)
theory Dissector_Faults
  imports Dissector_Base
begin

text \<open>
  Dissectors that do not satisfy the contract \<open>dissector\<close> for every packet, with what they do instead
  and the packets for which they are safe: \<^verbatim>\<open>florensia.c\<close> reads behind the payload, and the loops of
  \<^verbatim>\<open>iec60870-5-104.c\<close> and \<^verbatim>\<open>warcraft3.c\<close> run forever when their 16-bit offset wraps. \<^verbatim>\<open>postgres.c\<close>
  satisfies it because of the stages it never reaches. \<^verbatim>\<open>collectd.c\<close> would read behind the payload too,
  but it has no registration function and nothing in the repository calls it.
\<close>

section \<open>Reads behind the payload\<close>

text \<open>The length of an element is read at its offset plus 2, without a test that it is there.\<close>

function collectd_length :: "bytes \<Rightarrow> ndpi_packet \<Rightarrow> nat \<Rightarrow> nat option" where
  "collectd_length mem p len =
     (if len < payload_packet_len p then
        (case half_at mem p (len + 2) of
           None \<Rightarrow> None
         | Some e \<Rightarrow> if e = 0 then Some len else collectd_length mem p (len + unat e))
      else Some len)"
  by pat_completeness auto
termination
  by (relation "measure (\<lambda>(mem, p, len). payload_packet_len p - len)") (auto simp: unat_gt_0 intro!: diff_less_mono2)

declare collectd_length.simps [simp del]

definition ndpi_search_collectd :: dissecting where
  "ndpi_search_collectd mem m f =
     (let p = packet m in
      if \<not> present (udp p) then Some f
      else do {
        len \<leftarrow> collectd_length mem p 0;
        if len = payload_packet_len p then detect NDPI_PROTOCOL_COLLECTD m f
        else ndpi_exclude_protocol NDPI_PROTOCOL_COLLECTD f
      })"

text \<open>Three more bytes behind the payload are enough.\<close>

lemma collectd_length_defined:
  assumes "payload p = Some a" "a + payload_packet_len p + 3 \<le> length mem"
  shows "defined (collectd_length mem p len)"
  using assms
proof (induction mem p len rule: collectd_length.induct)
  case (1 mem p len)
  show ?case
  proof (cases "len < payload_packet_len p")
    case True
    then obtain e where "half_at mem p (len + 2) = Some e" using 1(2,3) by (auto simp: half_at_def run_at_def peek_run_def)
    then show ?thesis using 1 True by (subst collectd_length.simps) (auto simp: defined_simps)
  qed (subst collectd_length.simps, simp add: defined_simps)
qed

lemma collectd_with_slack:
  assumes "payload (packet m) = Some a" "a + payload_packet_len (packet m) + 3 \<le> length mem"
  shows "verdict {NDPI_PROTOCOL_COLLECTD} m f (ndpi_search_collectd mem m f)"
  using collectd_length_defined [OF assms, of 0]
  by (auto simp: ndpi_search_collectd_def Let_def size_defs intro!: verdict_intros
      verdict_read [where r = "collectd_length mem p len" for mem p len])

lemma short_read:
  assumes "payload p = Some a" "length mem < a + i + 2"
  shows "half_at mem p i = None" "raw_half_at mem p i = None"
  using assms by (auto simp: half_at_def raw_half_at_def run_at_def peek_run_def)

definition florensia_udp :: dissecting where
  "florensia_udp mem m f =
     (let p = packet m; n = payload_packet_len p; no = ndpi_exclude_protocol NDPI_PROTOCOL_FLORENSIA f in
      if present (udp p) then
        branch (all_of [Some (stages f florensia_stage = 0 \<and> n = 6), half_is mem p 0 0x0503, word_is mem p 2 0xFFFF0000])
          (store florensia_stage 1 f)
          (branch (all_of [Some (stages f florensia_stage = 1 \<and> n = 8), half_is mem p 0 0x0500, half_is mem p 4 0x4191])
            (detect NDPI_PROTOCOL_FLORENSIA m f) no)
      else no)"

definition florensia_started :: dissecting where
  "florensia_started mem m f =
     (let p = packet m; n = payload_packet_len p; whole = test (\<lambda>l. unat l = n) (raw_half_at mem p 0) in
      branch (any_of [
          all_of [Some (n = 8), whole, half_is mem p 2 0x0302, word_is mem p 4 0xFFFFFFFF],
          all_of [Some (n = 24), whole, half_is mem p 2 0x0202, word_is mem p (n - 4) 0xFFFFFFFF]])
        (detect NDPI_PROTOCOL_FLORENSIA m f)
        (branch (all_of [Some (packet_counter f < 10), whole]) (Some f) (florensia_udp mem m f)))"

definition ndpi_search_florensia :: dissecting where
  "ndpi_search_florensia mem m f =
     (let p = packet m; n = payload_packet_len p; whole = test (\<lambda>l. unat l = n) (raw_half_at mem p 0);
          second = (if stages f florensia_stage = 1 then detect NDPI_PROTOCOL_FLORENSIA m f else store florensia_stage 1 f) in
      if present (tcp p) then
        branch (all_of [Some (n = 5), whole, byte_is mem p 2 0x65, byte_is mem p 4 0xff])
          second
          (branch (any_of [
              all_of [Some (8 < n), whole, half_is mem p 2 0x0201, word_is mem p 4 0xFFFFFFFF],
              all_of [Some (n = 406), whole, byte_is mem p 2 0x63]])
            (store florensia_stage 1 f)
            (branch (all_of [Some (n = 12), whole, half_is mem p 2 0x0301])
              second
              (if stages f florensia_stage = 1 then florensia_started mem m f else florensia_udp mem m f)))
      else florensia_udp mem m f)"

lemma florensia_two_bytes:
  assumes "view_ok (length mem) (packet m)" "payload_packet_len (packet m) \<noteq> 1"
    "0 < payload_packet_len (packet m)"
  shows "verdict {NDPI_PROTOCOL_FLORENSIA} m f (ndpi_search_florensia mem m f)"
  using assms
  by (auto simp: ndpi_search_florensia_def florensia_started_def florensia_udp_def dissector_simps intro!: verdict_intros)

section \<open>Stages that are not reached\<close>

text \<open>
  \<open>size\<close> has 16 bits. Stages 5 and 6 read without looking at the length of the payload; the stages
  that are stored are 1 to 4.
\<close>

definition postgres_size :: "u32 \<Rightarrow> nat" where
  "postgres_size w = c_u16 (c_u16 (unat w) + 1)"

definition postgres_size_next :: "nat \<Rightarrow> u32 \<Rightarrow> nat" where
  "postgres_size_next s w = c_u16 (s + unat (w + 1))"

definition postgres_marker :: "bytes \<Rightarrow> ndpi_packet \<Rightarrow> nat \<Rightarrow> bool option" where
  "postgres_marker mem p s = all_of [Some (0 < s \<and> s - 1 < payload_packet_len p), byte_is mem p (s - 1) 83]"

definition postgres_late :: dissecting where
  "postgres_late mem m f =
     (let p = packet m; n = payload_packet_len p; no = ndpi_exclude_protocol NDPI_PROTOCOL_POSTGRES f;
          yes = detect NDPI_PROTOCOL_POSTGRES m f in
      branch (all_of [Some (stages f postgres_stage = 6), word_is mem p 1 (of_nat n - 1), byte_is mem p 0 112])
        yes
        (branch (all_of [Some (stages f postgres_stage = 5), byte_is mem p 0 82])
          (do {
            w \<leftarrow> word_at mem p 1;
            if w = of_nat n - 1 then yes
            else do {
              let s = postgres_size w;
              branch (all_of [postgres_marker mem p s, test (\<lambda>w'. of_nat s + w' = of_nat n) (raw_word_at mem p (s + 1))])
                yes
                (do {
                  w' \<leftarrow> raw_word_at mem p (s + 1);
                  branch (postgres_marker mem p (postgres_size_next s w')) yes no
                })
            }
          })
          no))"

definition ndpi_search_postgres_tcp :: dissecting where
  "ndpi_search_postgres_tcp mem m f =
     (let p = packet m; n = payload_packet_len p; d = pkt_direction p; st = stages f postgres_stage;
          yes = detect NDPI_PROTOCOL_POSTGRES m f in
      if st = 0 then
        branch (all_of [Some (7 < n), byte_is mem p 4 0x04, byte_is mem p 5 0xd2, byte_is mem p 6 0x16, byte_is mem p 7 0x2f,
            word_is mem p 0 (of_nat n)])
          (store postgres_stage (1 + d) f)
          (branch (all_of [Some (7 < n), test (\<lambda>w. w < 0x00040000) (word_at mem p 4), word_is mem p 0 (of_nat n)])
            (store postgres_stage (3 + d) f)
            (ndpi_exclude_protocol NDPI_PROTOCOL_POSTGRES f))
      else
        branch (all_of [Some (st + d = 2), Some (n = 1), any_of [byte_is mem p 0 83, byte_is mem p 0 78]])
          yes
          (branch (all_of [Some (st + d = 4), Some (8 < n), test (\<lambda>w. w < 10) (word_at mem p 5), word_is mem p 1 (of_nat n - 1),
               byte_is mem p 0 0x52])
            yes
            (postgres_late mem m f)))"

lemma postgres_verdict:
  assumes "view_ok (length mem) (packet m)" "0 < payload_packet_len (packet m)" "pkt_direction (packet m) \<le> 1"
    "stages f postgres_stage \<le> 4"
  shows "verdict {NDPI_PROTOCOL_POSTGRES} m f (ndpi_search_postgres_tcp mem m f)"
  using assms
  by (auto simp: ndpi_search_postgres_tcp_def postgres_late_def dissector_simps intro!: verdict_intros)

interpretation postgres: dissector ndpi_search_postgres_tcp "{NDPI_PROTOCOL_POSTGRES}"
    NDPI_SELECTION_BITMASK_PROTOCOL_V4_V6_TCP_WITH_PAYLOAD_WITHOUT_RETRANSMISSION
  by unfold_locales (auto simp: session_ok_def bit_numeral_rec intro!: postgres_verdict dest: selected_bits(4))

section \<open>Loops that do not end\<close>

text \<open>The offset has 16 bits. All reads are inside the payload, so \<open>None\<close> is a loop that does not end.\<close>

partial_function (option) iec60870_scan :: "bytes \<Rightarrow> ndpi_packet \<Rightarrow> u16 \<Rightarrow> bool option" where
  "iec60870_scan mem p offset =
     (if unat offset + 1 < payload_packet_len p then do {
        b \<leftarrow> byte_at mem p (unat offset);
        if b = 0x68 then do {
          len \<leftarrow> byte_at mem p (unat offset + 1);
          if len = 0 then Some False
          else if unat len + unat offset + 2 = payload_packet_len p then Some True
          else iec60870_scan mem p (offset + (ucast len + 2))
        }
        else Some False
      }
      else Some False)"

definition ndpi_search_iec60870_tcp :: dissecting where
  "ndpi_search_iec60870_tcp mem m f =
     (let p = packet m in
      branch (all_of [Some (present (tcp p)), iec60870_scan mem p 0])
        (detect NDPI_PROTOCOL_IEC60870 m f)
        (ndpi_exclude_protocol NDPI_PROTOCOL_IEC60870 f))"

partial_function (option) warcraft3_scan :: "bytes \<Rightarrow> ndpi_packet \<Rightarrow> u16 \<Rightarrow> u16 option" where
  "warcraft3_scan mem p l =
     (if unat l \<le> payload_packet_len p - 4 then do {
        b \<leftarrow> byte_at mem p (unat l);
        if b = 0xf7 then do {
          temp \<leftarrow> raw_half_at mem p (unat l + 2);
          if temp \<le> 2 \<or> 1500 < temp then Some l
          else warcraft3_scan mem p (l + temp)
        }
        else Some l
      }
      else Some l)"

definition ndpi_search_warcraft3 :: dissecting where
  "ndpi_search_warcraft3 mem m f =
     (let p = packet m; n = payload_packet_len p; no = ndpi_exclude_protocol NDPI_PROTOCOL_WARCRAFT3 f in
      branch (all_of [Some (packet_counter f = 1 \<and> n = 1), byte_is mem p 0 0x01]) (Some f)
        (branch (all_of [Some (4 \<le> n), any_of [byte_is mem p 0 0xf7, byte_is mem p 0 0xff]])
          (do {
            l \<leftarrow> raw_half_at mem p 2;
            l \<leftarrow> warcraft3_scan mem p l;
            if unat l = n then
              if 2 < packet_counter f then detect NDPI_PROTOCOL_WARCRAFT3 m f else Some f
            else no
          })
          no))"

section \<open>When the loops end\<close>

lemma iec60870_returns:
  assumes "view_ok (length mem) p" "payload_packet_len p \<le> 65280"
  shows "defined (iec60870_scan mem p offset)"
proof (induction "payload_packet_len p - unat offset" arbitrary: offset rule: less_induct)
  case less
  show ?case
  proof (cases "unat offset + 1 < payload_packet_len p")
    case True
    then obtain b len where r: "byte_at mem p (unat offset) = Some b" "byte_at mem p (unat offset + 1) = Some len"
      using defined_reads(1) [OF assms(1), of "unat offset"] defined_reads(1) [OF assms(1), of "unat offset + 1"]
      by (auto simp: defined_def)
    have len: "unat len < 256" using unsigned_less [of len, where 'a = nat] by simp
    have step: "unat (offset + (ucast len + 2)) = unat offset + unat len + 2"
      using True assms(2) len by (simp add: unat_word_ariths unsigned_ucast_eq take_bit_eq_mod)
    have "defined (iec60870_scan mem p (offset + (ucast len + 2)))"
      by (rule less) (use True step in simp)
    then show ?thesis using r True by (subst iec60870_scan.simps) (simp add: defined_simps)
  qed (subst iec60870_scan.simps, simp add: defined_simps)
qed

lemma iec60870_verdict:
  assumes "view_ok (length mem) (packet m)" "payload_packet_len (packet m) \<le> 65280"
  shows "verdict {NDPI_PROTOCOL_IEC60870} m f (ndpi_search_iec60870_tcp mem m f)"
  using iec60870_returns [OF assms]
  by (auto simp: ndpi_search_iec60870_tcp_def dissector_simps intro!: verdict_intros)

lemma warcraft3_returns:
  assumes "view_ok (length mem) p" "4 \<le> payload_packet_len p" "payload_packet_len p \<le> 64039"
  shows "defined (warcraft3_scan mem p l)"
proof (induction "payload_packet_len p - unat l" arbitrary: l rule: less_induct)
  case less
  show ?case
  proof (cases "unat l \<le> payload_packet_len p - 4")
    case True
    then have "unat l < payload_packet_len p" "unat l + 2 + 2 \<le> payload_packet_len p" using assms(2) by linarith+
    then obtain b temp where r: "byte_at mem p (unat l) = Some b" "raw_half_at mem p (unat l + 2) = Some temp"
      using defined_reads(1) [OF assms(1)] defined_reads(5) [OF assms(1)] unfolding defined_def by blast
    have "defined (warcraft3_scan mem p (l + temp))" if t: "\<not> (temp \<le> 2 \<or> 1500 < temp)"
    proof (rule less)
      have "2 < unat temp" "unat temp \<le> 1500" using t by (simp_all add: word_less_nat_alt word_le_nat_alt not_le not_less)
      then show "payload_packet_len p - unat (l + temp) < payload_packet_len p - unat l"
        using True assms(2,3) by (simp add: unat_word_ariths)
    qed
    then show ?thesis using r True by (subst warcraft3_scan.simps) (simp add: defined_simps)
  qed (subst warcraft3_scan.simps, simp add: defined_simps)
qed

lemma warcraft3_verdict:
  assumes "view_ok (length mem) (packet m)" "0 < payload_packet_len (packet m)" "payload_packet_len (packet m) \<le> 64039"
  shows "verdict {NDPI_PROTOCOL_WARCRAFT3} m f (ndpi_search_warcraft3 mem m f)"
  using assms warcraft3_returns [OF assms(1) _ assms(3)]
  by (auto simp: ndpi_search_warcraft3_def dissector_simps intro!: verdict_intros
      verdict_read [where r = "warcraft3_scan mem p l" for mem p l])

section \<open>When they do not\<close>

text \<open>Records of 256 bytes: every multiple of 256 is the start of one, and after the last one the offset is 0 again.\<close>

lemma multiple_next:
  assumes "unat (i :: u16) mod k = 0" "unat d = k" "65536 mod k = 0"
  shows "unat (i + d) mod k = 0"
proof -
  have "(unat i + k) mod k = 0" using assms(1) by simp
  moreover have "unat (i + d) = (unat i + k) mod 65536" using assms(2) by (simp add: unat_word_ariths)
  moreover have "k dvd 65536" by (rule mod_0_imp_dvd [OF assms(3)])
  ultimately show ?thesis by (metis mod_mod_cancel)
qed

lemma iec60870_loops:
  assumes "iec60870_scan mem p offset = Some r"
    "\<forall>k<256. byte_at mem p (256 * k) = Some 0x68 \<and> byte_at mem p (256 * k + 1) = Some 254"
    "65281 < payload_packet_len p" "payload_packet_len p mod 256 \<noteq> 0"
  shows "unat offset mod 256 \<noteq> 0"
  using assms
proof (induction mem p offset r rule: iec60870_scan.raw_induct [rotated, consumes 1])
  case (1 scan mem p offset r)
  show ?case
  proof
    assume m: "unat offset mod 256 = 0"
    define k where "k = unat offset div 256"
    have k: "unat offset = 256 * k" unfolding k_def by (metis m mult_div_mod_eq add_0_right)
    have lt: "k < 256" using k unsigned_less [of offset, where 'a = nat] by simp
    have bytes: "byte_at mem p (unat offset) = Some 0x68" "byte_at mem p (unat offset + 1) = Some 254"
      using 1(3) lt by (auto simp: k)
    have inside: "unat offset + 1 < payload_packet_len p" using k lt 1(4) by simp
    have "(254 + unat offset + 2) mod 256 = 0" using m by simp
    then have ends: "254 + unat offset + 2 \<noteq> payload_packet_len p" using 1(5) by metis
    have "scan mem p (offset + 256) = Some r" using 1(2) bytes inside ends by simp
    moreover have "unat (offset + 256) mod 256 = 0" by (rule multiple_next [OF m]) simp_all
    ultimately show False using 1(1) [of mem p "offset + 256" r, OF _ 1(3,4,5)] by argo
  qed
qed

lemma warcraft3_loops:
  assumes "warcraft3_scan mem p l = Some r"
    "\<forall>k<64. byte_at mem p (1024 * k) = Some 0xf7 \<and> raw_half_at mem p (1024 * k + 2) = Some 1024"
    "64516 \<le> payload_packet_len p"
  shows "unat l mod 1024 \<noteq> 0"
  using assms
proof (induction mem p l r rule: warcraft3_scan.raw_induct [rotated, consumes 1])
  case (1 scan mem p l r)
  show ?case
  proof
    assume m: "unat l mod 1024 = 0"
    define k where "k = unat l div 1024"
    have k: "unat l = 1024 * k" unfolding k_def by (metis m mult_div_mod_eq add_0_right)
    have lt: "k < 64" using k unsigned_less [of l, where 'a = nat] by simp
    have bytes: "byte_at mem p (unat l) = Some 0xf7" "raw_half_at mem p (unat l + 2) = Some 1024"
      using 1(3) lt by (auto simp: k)
    have inside: "unat l \<le> payload_packet_len p - 4" using k lt 1(4) by simp
    have "scan mem p (l + 1024) = Some r" using 1(2) bytes inside by (simp add: word_le_nat_alt word_less_nat_alt)
    moreover have "unat (l + 1024) mod 1024 = 0" by (rule multiple_next [OF m]) simp_all
    ultimately show False using 1(1) [of mem p "l + 1024" r, OF _ 1(3,4)] by argo
  qed
qed

section \<open>Properties\<close>

text \<open>Payloads made of equal blocks.\<close>

lemma nth_blocks: "i < n * length b \<Longrightarrow> concat (replicate n b) ! i = b ! (i mod length b)"
proof (induction n arbitrary: i)
  case (Suc n)
  then show ?case by (cases "i < length b") (auto simp: nth_append le_mod_geq)
qed simp

lemma length_blocks: "length (concat (replicate n b)) = n * length b"
  by (induction n) auto

lemma run_parts:
  assumes "run_at mem p 0 n = Some bs"
  shows "i < n \<Longrightarrow> byte_at mem p i = Some (bs ! i)" "1 < n \<Longrightarrow> raw_half_at mem p 0 = Some (of_be16 [bs ! 1, bs ! 0])"
proof -
  obtain a where a: "payload p = Some a" "a + n \<le> length mem" "bs = take n (drop a mem)"
    using assms by (auto simp: run_at_def peek_run_def bind_eq_Some_conv split: if_splits)
  show "i < n \<Longrightarrow> byte_at mem p i = Some (bs ! i)" using a by (simp add: byte_at_def peek_def)
  have "take 2 (drop a mem) = [mem ! a, mem ! (a + 1)]" if "1 < n"
    using a(2) that by (simp add: numeral_2_eq_2 take_Suc_conv_app_nth)
  then show "1 < n \<Longrightarrow> raw_half_at mem p 0 = Some (of_be16 [bs ! 1, bs ! 0])"
    using a by (simp add: raw_half_at_def run_at_def peek_run_def)
qed

text \<open>
  C36. One byte is read as two. After a TCP packet of five bytes \<open>05 00 65 .. ff\<close> the dissector for
  Florensia is in stage 1; among the first ten packets counted, a TCP payload of one byte at the end
  of the packet then makes it read the byte behind the packet.
\<close>

theorem florensia_reads_behind:
  assumes "present (tcp (packet m1))" "payload_packet_len (packet m1) = 5"
    "run_at mem1 (packet m1) 0 5 = Some [5, 0, 0x65, b, 0xff]" "stages f florensia_stage = 0"
    and "present (tcp (packet m2))" "payload (packet m2) = Some a" "payload_packet_len (packet m2) = 1"
    "length mem2 = a + 1" "c < 10"
  shows "\<exists>f1. ndpi_search_florensia mem1 m1 f = Some f1 \<and> stages f1 florensia_stage = 1
    \<and> ndpi_search_florensia mem2 m2 (f1\<lparr>packet_counter := c\<rparr>) = None"
proof -
  have r: "raw_half_at mem1 (packet m1) 0 = Some 5" "byte_at mem1 (packet m1) 2 = Some 0x65" "byte_at mem1 (packet m1) 4 = Some 0xff"
    using run_parts(2) [OF assms(3)] run_parts(1) [OF assms(3), of 2] run_parts(1) [OF assms(3), of 4] by simp_all
  let ?f1 = "set_field florensia_stage 1 f"
  have "ndpi_search_florensia mem1 m1 f = Some ?f1"
    using assms(1,2,4) r by (simp add: ndpi_search_florensia_def Let_def all_of.simps branch_def test_def store_def)
  moreover have s: "stages ?f1 florensia_stage = 1" by (simp add: set_field_def)
  moreover have "raw_half_at mem2 (packet m2) 0 = None" by (rule short_read(2) [OF assms(6)]) (simp add: assms(8))
  then have "ndpi_search_florensia mem2 m2 (?f1\<lparr>packet_counter := c\<rparr>) = None"
    using assms(5,7,9) s
    by (simp add: ndpi_search_florensia_def florensia_started_def Let_def all_of.simps any_of.simps branch_def test_def)
  ultimately show ?thesis by blast
qed

text \<open>Packets of equal blocks.\<close>

definition block_packet :: "bool \<Rightarrow> nat \<Rightarrow> nat \<Rightarrow> bytes \<Rightarrow> bytes" where
  "block_packet is_tcp n k b = replicate (if is_tcp then 40 else 28) 0 @ take n (concat (replicate k b))"

definition block_module :: "bool \<Rightarrow> nat \<Rightarrow> ndpi_module" where
  "block_module is_tcp n = zero_module\<lparr>packet := zero_packet\<lparr>iph := Some 0, tcp := (if is_tcp then Some 20 else None),
     udp := (if is_tcp then None else Some 20), payload := Some (if is_tcp then 40 else 28), payload_packet_len := n\<rparr>\<rparr>"

lemma block_bytes:
  assumes "n \<le> k * length b"
  shows "view_ok (length (block_packet is_tcp n k b)) (packet (block_module is_tcp n))"
    "i < n \<Longrightarrow> byte_at (block_packet is_tcp n k b) (packet (block_module is_tcp n)) i = Some (b ! (i mod length b))"
    "i + 1 < n \<Longrightarrow> raw_half_at (block_packet is_tcp n k b) (packet (block_module is_tcp n)) i
       = Some (of_be16 [b ! ((i + 1) mod length b), b ! (i mod length b)])"
proof -
  let ?c = "concat (replicate k b)"
  have len: "length (take n ?c) = n" using assms by (simp add: length_blocks)
  have nth: "take n ?c ! i = b ! (i mod length b)" if "i < n" for i
    using that assms by (simp add: nth_blocks)
  show "view_ok (length (block_packet is_tcp n k b)) (packet (block_module is_tcp n))"
    using len by (simp add: view_ok_def block_packet_def block_module_def zero_packet_def)
  show byte: "byte_at (block_packet is_tcp n k b) (packet (block_module is_tcp n)) i = Some (b ! (i mod length b))" if "i < n"
    using that len nth [OF that] by (simp add: byte_at_def block_packet_def block_module_def zero_packet_def peek_def nth_append)
  show "raw_half_at (block_packet is_tcp n k b) (packet (block_module is_tcp n)) i
       = Some (of_be16 [b ! ((i + 1) mod length b), b ! (i mod length b)])" if i: "i + 1 < n"
  proof -
    have "take 2 (drop i (take n ?c)) = [take n ?c ! i, take n ?c ! (i + 1)]"
      using i len by (simp add: numeral_2_eq_2 take_Suc_conv_app_nth)
    then have "take 2 (drop i (take n ?c)) = [b ! (i mod length b), b ! ((i + 1) mod length b)]"
      using nth [of i] nth [of "i + 1"] i by simp
    then show ?thesis using i len
      by (simp add: raw_half_at_def run_at_def peek_run_def block_packet_def block_module_def zero_packet_def)
  qed
qed


theorem florensia_reads_behind_witness:
  "\<exists>f1. ndpi_search_florensia (block_packet True 5 1 [5, 0, 0x65, 7, 0xff]) (block_module True 5) zero_flow = Some f1
    \<and> stages f1 florensia_stage = 1
    \<and> ndpi_search_florensia (block_packet True 1 1 [0]) (block_module True 1) (f1\<lparr>packet_counter := 2\<rparr>) = None"
  by (rule florensia_reads_behind)
    (simp_all add: block_packet_def block_module_def present_def run_at_def peek_run_def zero_packet_def zero_flow_def)

text \<open>
  C38. A loop that does not end. In a TCP payload of more than 65281 bytes that consists of records of 256
  bytes and ends in the middle of one, every read of the loop is inside the payload and the loop
  runs forever: its 16-bit offset wraps to 0 behind the last record.
\<close>

theorem iec60870_hangs:
  assumes "view_ok (length mem) (packet m)" "present (tcp (packet m))"
    "\<forall>k<256. byte_at mem (packet m) (256 * k) = Some 0x68 \<and> byte_at mem (packet m) (256 * k + 1) = Some 254"
    "65281 < payload_packet_len (packet m)" "payload_packet_len (packet m) mod 256 \<noteq> 0"
  shows "None \<notin> byte_at mem (packet m) ` {..<payload_packet_len (packet m)} \<and> ndpi_search_iec60870_tcp mem m f = None"
proof
  show "None \<notin> byte_at mem (packet m) ` {..<payload_packet_len (packet m)}"
    using defined_reads(1) [OF assms(1)] unfolding defined_def by (metis imageE lessThan_iff)
  have "iec60870_scan mem (packet m) 0 = None"
    using iec60870_loops [OF _ assms(3,4,5), of 0] by (cases "iec60870_scan mem (packet m) 0") auto
  then show "ndpi_search_iec60870_tcp mem m f = None"
    using assms(2) by (simp add: ndpi_search_iec60870_tcp_def all_of.simps branch_def)
qed

theorem iec60870_hangs_witness:
  "None \<notin> byte_at (block_packet True 65495 256 (0x68 # 254 # replicate 254 0)) (packet (block_module True 65495)) ` {..<65495}
    \<and> ndpi_search_iec60870_tcp (block_packet True 65495 256 (0x68 # 254 # replicate 254 0)) (block_module True 65495) zero_flow = None"
proof -
  let ?b = "0x68 # 254 # replicate 254 0 :: bytes"
  have n: "payload_packet_len (packet (block_module True 65495)) = 65495" by (simp add: block_module_def)
  have l: "length ?b = 256" by simp
  note facts = block_bytes [where b = ?b and n = 65495 and k = 256 and is_tcp = True, unfolded l]
  have "\<forall>k<256. byte_at (block_packet True 65495 256 ?b) (packet (block_module True 65495)) (256 * k) = Some 0x68
      \<and> byte_at (block_packet True 65495 256 ?b) (packet (block_module True 65495)) (256 * k + 1) = Some 254"
  proof (intro allI impI)
    fix k :: nat assume "k < 256"
    then have "256 * k + 1 < 65495" "256 * k < 65495" by linarith+
    moreover have "256 * k mod 256 = 0" "(256 * k + 1) mod 256 = 1" using mod_mult_self4 [of 256 k 1] by simp_all
    ultimately show "byte_at (block_packet True 65495 256 ?b) (packet (block_module True 65495)) (256 * k) = Some 0x68
      \<and> byte_at (block_packet True 65495 256 ?b) (packet (block_module True 65495)) (256 * k + 1) = Some 254"
      using facts(2) [of "256 * k"] facts(2) [of "256 * k + 1"] by simp
  qed
  from iec60870_hangs [OF _ _ this, of zero_flow] facts(1) show ?thesis
    unfolding n by (simp add: block_module_def present_def)
qed

text \<open>
  C39. Another one. In a payload of at least 64516 bytes that has \<open>F7\<close> at every multiple of 1024
  below 65536 and the length 1024 two bytes behind it, every read is inside the payload, the 16-bit
  position wraps to 0 and the loop of \<^verbatim>\<open>warcraft3.c\<close> runs forever.
\<close>

theorem warcraft3_hangs:
  assumes "view_ok (length mem) (packet m)"
    "\<forall>k<64. byte_at mem (packet m) (1024 * k) = Some 0xf7 \<and> raw_half_at mem (packet m) (1024 * k + 2) = Some 1024"
    "64516 \<le> payload_packet_len (packet m)"
  shows "None \<notin> byte_at mem (packet m) ` {..<payload_packet_len (packet m)} \<and> ndpi_search_warcraft3 mem m f = None"
proof
  show "None \<notin> byte_at mem (packet m) ` {..<payload_packet_len (packet m)}"
    using defined_reads(1) [OF assms(1)] unfolding defined_def by (metis imageE lessThan_iff)
  have start: "byte_at mem (packet m) 0 = Some 0xf7" "raw_half_at mem (packet m) 2 = Some 1024"
    using assms(2) [rule_format, of 0] by (simp_all add: numeral_2_eq_2)
  have "warcraft3_scan mem (packet m) 1024 = None"
    using warcraft3_loops [OF _ assms(2,3), of 1024] by (cases "warcraft3_scan mem (packet m) 1024") auto
  then show "ndpi_search_warcraft3 mem m f = None"
    using assms(3) start by (simp add: ndpi_search_warcraft3_def all_of.simps any_of.simps branch_def test_def)
qed

theorem warcraft3_hangs_witness:
  "None \<notin> byte_at (block_packet False 65507 64 (0xf7 # 0 # 0 # 4 # replicate 1020 0)) (packet (block_module False 65507)) ` {..<65507}
    \<and> ndpi_search_warcraft3 (block_packet False 65507 64 (0xf7 # 0 # 0 # 4 # replicate 1020 0)) (block_module False 65507) zero_flow = None"
proof -
  let ?b = "0xf7 # 0 # 0 # 4 # replicate 1020 0 :: bytes"
  have n: "payload_packet_len (packet (block_module False 65507)) = 65507" by (simp add: block_module_def)
  have l: "length ?b = 1024" by simp
  note facts = block_bytes [where b = ?b and n = 65507 and k = 64 and is_tcp = False, unfolded l]
  have le: "65507 \<le> 64 * (1024 :: nat)" by simp
  have b: "?b ! 0 = 0xf7" "?b ! 2 = 0" "?b ! 3 = 4" "of_be16 [4, 0] = 1024" by simp_all
  have "\<forall>k<64. byte_at (block_packet False 65507 64 ?b) (packet (block_module False 65507)) (1024 * k) = Some 0xf7
      \<and> raw_half_at (block_packet False 65507 64 ?b) (packet (block_module False 65507)) (1024 * k + 2) = Some 1024"
  proof (intro allI impI)
    fix k :: nat assume "k < 64"
    then have lt: "1024 * k + 2 + 1 < 65507" "1024 * k < 65507" by linarith+
    have mods: "1024 * k mod 1024 = 0" "(1024 * k + 2) mod 1024 = 2" "(1024 * k + 2 + 1) mod 1024 = 3"
      using mod_mult_self4 [of 1024 k 2] mod_mult_self4 [of 1024 k 3] by (simp_all add: add.assoc)
    show "byte_at (block_packet False 65507 64 ?b) (packet (block_module False 65507)) (1024 * k) = Some 0xf7
      \<and> raw_half_at (block_packet False 65507 64 ?b) (packet (block_module False 65507)) (1024 * k + 2) = Some 1024"
      unfolding facts(2) [OF le lt(2)] facts(3) [OF le lt(1)] mods b by (rule conjI refl)+
  qed
  from warcraft3_hangs [OF _ this, of zero_flow] facts(1) show ?thesis unfolding n by simp
qed

text \<open>
  C37. The loops end for shorter payloads. With at most 64039 bytes, neither offset can wrap: both dissectors
  return, within the packet and with the flow in order.
\<close>

theorem scans_end:
  assumes "view_ok (length mem) (packet m)" "0 < payload_packet_len (packet m)" "payload_packet_len (packet m) \<le> 64039"
    "flow_ready m f"
  shows "(\<exists>f'. ndpi_search_iec60870_tcp mem m f = Some f' \<and> flow_ready m f')
    \<and> (\<exists>f'. ndpi_search_warcraft3 mem m f = Some f' \<and> flow_ready m f')"
  using iec60870_verdict [OF assms(1), of f] warcraft3_verdict [OF assms(1,2,3), of f] assms(3,4) by (auto simp: verdict_def)

theorem scans_end_witness:
  "(\<exists>f'. ndpi_search_iec60870_tcp (block_packet True 512 2 (0x68 # 254 # replicate 254 0)) (block_module True 512) zero_flow = Some f'
      \<and> flow_ready (block_module True 512) f')
    \<and> (\<exists>f'. ndpi_search_warcraft3 (block_packet True 512 2 (0x68 # 254 # replicate 254 0)) (block_module True 512) zero_flow = Some f'
      \<and> flow_ready (block_module True 512) f')"
  by (rule scans_end)
    (use fresh_flow_ready block_bytes(1) [of 512 2 "0x68 # 254 # replicate 254 0" True] in \<open>simp_all add: flow_ready_def block_module_def\<close>)

lemma branch_result: "branch c a b = Some r \<Longrightarrow> a = Some r \<or> b = Some r"
  by (auto simp: branch_def split: option.splits if_splits)

lemma detect_stages: "detect p m f = Some f' \<Longrightarrow> stages f' = stages f"
  using set_detected_shape [of m p NDPI_PROTOCOL_UNKNOWN NDPI_CONFIDENCE_DPI f f'] unfolding detect_def
  by (metis (no_types, lifting) ndpi_flow.select_convs(51) ndpi_flow.surjective ndpi_flow.update_convs(1) ndpi_flow.update_convs(9))

lemma exclude_stages: "ndpi_exclude_protocol p f = Some f' \<Longrightarrow> stages f' = stages f"
  using exclude_shape [of p f f'] by auto

text \<open>
  C40. Two stages are never reached. From a stage up to 4, where every flow starts, the dissector for PostgreSQL returns,
  stays inside the packet and stores no other stage; so the code for stages 5 and 6, which reads
  without looking at the length of the payload, does not run.
\<close>

theorem postgres_stages:
  assumes "view_ok (length mem) (packet m)" "0 < payload_packet_len (packet m)" "pkt_direction (packet m) \<le> 1"
    "flow_ready m f" "stages f postgres_stage \<le> 4"
  shows "\<exists>f'. ndpi_search_postgres_tcp mem m f = Some f' \<and> flow_ready m f' \<and> stages f' postgres_stage \<le> 4"
proof -
  obtain f' where f': "ndpi_search_postgres_tcp mem m f = Some f'" "flow_ready m f'"
    using postgres_verdict [OF assms(1,2,3,5)] assms(4) by (auto simp: verdict_def)
  have keep: "stages g postgres_stage \<le> 4" if "detect NDPI_PROTOCOL_POSTGRES m f = Some g \<or> ndpi_exclude_protocol NDPI_PROTOCOL_POSTGRES f = Some g" for g
    using that detect_stages exclude_stages assms(5) by metis
  have late: "stages g postgres_stage \<le> 4" if "postgres_late mem m f = Some g" for g
    using that assms(5) unfolding postgres_late_def Let_def
    by (auto simp: all_of.simps branch_def split: if_splits option.splits intro: keep)
  have "stages f' postgres_stage \<le> 4"
    using f'(1) assms(3) unfolding ndpi_search_postgres_tcp_def Let_def
    by (auto simp: store_def set_field_def dest!: branch_result split: if_splits intro: keep late)
  then show ?thesis using f' by blast
qed

theorem postgres_stages_witness:
  "\<exists>f'. ndpi_search_postgres_tcp (block_packet True 8 8 [0]) (block_module True 8) zero_flow = Some f'
    \<and> flow_ready (block_module True 8) f' \<and> stages f' postgres_stage \<le> 4"
  by (rule postgres_stages)
    (use fresh_flow_ready block_bytes(1) [of 8 8 "[0]" True] in \<open>simp_all add: flow_ready_def block_module_def zero_packet_def zero_flow_def\<close>)

end
