(* ===== verification/Dissector_Table.thy ===== *)
theory Dissector_Table
  imports Udp_Dissectors Udp_Sessions Tcp_Dissectors Tcp_Records Tcp_Sessions Mixed_Dissectors Mixed_Sessions
    Dissector_Faults
begin

text \<open>
  The 94 dissectors that are registered and satisfy the contract \<open>dissector\<close>, under the name and with
  the selection bitmask with which they are registered. Of the modelled dissectors these are all but
  \<^verbatim>\<open>florensia.c\<close>, \<^verbatim>\<open>iec60870-5-104.c\<close> and \<^verbatim>\<open>warcraft3.c\<close>, which do not satisfy it, and \<^verbatim>\<open>wsd.c\<close>,
  \<^verbatim>\<open>ethernet_ip.c\<close> and \<^verbatim>\<open>collectd.c\<close>, which nothing registers.
\<close>

section \<open>The table\<close>

definition modelled_dissectors :: "(string \<times> u32 \<times> u16 set \<times> dissecting) list" where
  "modelled_dissectors = [
    (''ndpi_search_vmware'', NDPI_SELECTION_BITMASK_PROTOCOL_V4_V6_UDP_WITH_PAYLOAD,
      {NDPI_PROTOCOL_VMWARE}, ndpi_search_vmware),
    (''ndpi_search_bjnp'', NDPI_SELECTION_BITMASK_PROTOCOL_V4_V6_UDP_WITH_PAYLOAD,
      {NDPI_PROTOCOL_BJNP}, ndpi_search_bjnp),
    (''ndpi_search_among_us'', NDPI_SELECTION_BITMASK_PROTOCOL_V4_V6_UDP_WITH_PAYLOAD,
      {NDPI_PROTOCOL_AMONG_US}, ndpi_search_among_us),
    (''ndpi_search_teredo'', NDPI_SELECTION_BITMASK_PROTOCOL_UDP_WITH_PAYLOAD,
      {NDPI_PROTOCOL_TEREDO}, ndpi_search_teredo),
    (''ndpi_search_sflow'', NDPI_SELECTION_BITMASK_PROTOCOL_V4_V6_UDP_WITH_PAYLOAD,
      {NDPI_PROTOCOL_SFLOW}, ndpi_search_sflow),
    (''ndpi_search_megaco'', NDPI_SELECTION_BITMASK_PROTOCOL_V4_V6_UDP_WITH_PAYLOAD,
      {NDPI_PROTOCOL_MEGACO}, ndpi_search_megaco),
    (''ndpi_search_cpha'', NDPI_SELECTION_BITMASK_PROTOCOL_UDP_WITH_PAYLOAD,
      {NDPI_PROTOCOL_CPHA}, ndpi_search_cpha),
    (''ndpi_search_viber'', NDPI_SELECTION_BITMASK_PROTOCOL_V4_V6_UDP_WITH_PAYLOAD,
      {NDPI_PROTOCOL_VIBER}, ndpi_search_viber),
    (''ndpi_search_nintendo'', NDPI_SELECTION_BITMASK_PROTOCOL_V4_V6_UDP_WITH_PAYLOAD,
      {NDPI_PROTOCOL_NINTENDO}, ndpi_search_nintendo),
    (''ndpi_search_snmp'', NDPI_SELECTION_BITMASK_PROTOCOL_V4_V6_UDP_WITH_PAYLOAD,
      {NDPI_PROTOCOL_SNMP}, ndpi_search_snmp),
    (''ndpi_search_avast_securedns'', NDPI_SELECTION_BITMASK_PROTOCOL_V4_V6_UDP_WITH_PAYLOAD,
      {NDPI_PROTOCOL_AVAST_SECUREDNS}, ndpi_search_avast_securedns),
    (''ndpi_search_dhcpv6_udp'', NDPI_SELECTION_BITMASK_PROTOCOL_V6_UDP_WITH_PAYLOAD,
      {NDPI_PROTOCOL_DHCPV6}, ndpi_search_dhcpv6_udp),
    (''ndpi_search_qq'', NDPI_SELECTION_BITMASK_PROTOCOL_V4_V6_UDP_WITH_PAYLOAD,
      {NDPI_PROTOCOL_QQ}, ndpi_search_qq),
    (''ndpi_search_genshin_impact'', NDPI_SELECTION_BITMASK_PROTOCOL_V4_V6_UDP_WITH_PAYLOAD,
      {NDPI_PROTOCOL_GENSHIN_IMPACT}, ndpi_search_genshin_impact),
    (''ndpi_search_vhua'', NDPI_SELECTION_BITMASK_PROTOCOL_V4_V6_UDP_WITH_PAYLOAD,
      {NDPI_PROTOCOL_VHUA}, ndpi_search_vhua),
    (''ndpi_search_kakaotalk_voice'', NDPI_SELECTION_BITMASK_PROTOCOL_V4_V6_UDP_WITH_PAYLOAD,
      {NDPI_PROTOCOL_KAKAOTALK_VOICE}, ndpi_search_kakaotalk_voice),
    (''ndpi_search_ssdp'', NDPI_SELECTION_BITMASK_PROTOCOL_V4_V6_UDP_WITH_PAYLOAD,
      {NDPI_PROTOCOL_SSDP}, ndpi_search_ssdp),
    (''ndpi_search_noe'', NDPI_SELECTION_BITMASK_PROTOCOL_V4_V6_UDP_WITH_PAYLOAD,
      {NDPI_PROTOCOL_NOE}, ndpi_search_noe),
    (''ndpi_search_lisp'', NDPI_SELECTION_BITMASK_PROTOCOL_V4_V6_UDP_WITH_PAYLOAD,
      {NDPI_PROTOCOL_LISP}, ndpi_search_lisp),
    (''ndpi_search_radius'', NDPI_SELECTION_BITMASK_PROTOCOL_V4_V6_UDP_WITH_PAYLOAD,
      {NDPI_PROTOCOL_RADIUS}, ndpi_search_radius),
    (''ndpi_search_dropbox'', NDPI_SELECTION_BITMASK_PROTOCOL_V4_V6_UDP_WITH_PAYLOAD,
      {NDPI_PROTOCOL_DROPBOX}, ndpi_search_dropbox),
    (''ndpi_search_kontiki'', NDPI_SELECTION_BITMASK_PROTOCOL_V4_V6_UDP_WITH_PAYLOAD,
      {NDPI_PROTOCOL_KONTIKI}, ndpi_search_kontiki),
    (''ndpi_search_mpegts'', NDPI_SELECTION_BITMASK_PROTOCOL_V4_V6_UDP_WITH_PAYLOAD,
      {NDPI_PROTOCOL_MPEGTS}, ndpi_search_mpegts),
    (''ndpi_search_mgcp'', NDPI_SELECTION_BITMASK_PROTOCOL_V4_V6_UDP_WITH_PAYLOAD,
      {NDPI_PROTOCOL_MGCP}, ndpi_search_mgcp),
    (''ndpi_search_iax'', NDPI_SELECTION_BITMASK_PROTOCOL_V4_V6_UDP_WITH_PAYLOAD,
      {NDPI_PROTOCOL_IAX}, ndpi_search_iax),
    (''ndpi_search_tftp'', NDPI_SELECTION_BITMASK_PROTOCOL_V4_V6_UDP_WITH_PAYLOAD,
      {NDPI_PROTOCOL_TFTP}, ndpi_search_tftp),
    (''ndpi_search_armagetron_udp'', NDPI_SELECTION_BITMASK_PROTOCOL_V4_V6_UDP_WITH_PAYLOAD,
      {NDPI_PROTOCOL_ARMAGETRON}, ndpi_search_armagetron_udp),
    (''ndpi_search_gtp'', NDPI_SELECTION_BITMASK_PROTOCOL_V4_V6_UDP_WITH_PAYLOAD,
      {NDPI_PROTOCOL_GTP, NDPI_PROTOCOL_GTP_U, NDPI_PROTOCOL_GTP_C, NDPI_PROTOCOL_GTP_PRIME}, ndpi_search_gtp),
    (''ndpi_search_capwap'', NDPI_SELECTION_BITMASK_PROTOCOL_V4_V6_UDP_WITH_PAYLOAD,
      {NDPI_PROTOCOL_CAPWAP}, ndpi_search_capwap),
    (''ndpi_search_ayiya'', NDPI_SELECTION_BITMASK_PROTOCOL_V4_V6_UDP_WITH_PAYLOAD,
      {NDPI_PROTOCOL_AYIYA}, ndpi_search_ayiya),
    (''ndpi_search_halflife2'', NDPI_SELECTION_BITMASK_PROTOCOL_V4_V6_UDP_WITH_PAYLOAD,
      {NDPI_PROTOCOL_HALFLIFE2}, ndpi_search_halflife2),
    (''ndpi_search_imo'', NDPI_SELECTION_BITMASK_PROTOCOL_V4_V6_UDP_WITH_PAYLOAD,
      {NDPI_PROTOCOL_IMO}, ndpi_search_imo),
    (''ndpi_search_eaq'', NDPI_SELECTION_BITMASK_PROTOCOL_V4_V6_UDP_WITH_PAYLOAD,
      {NDPI_PROTOCOL_EAQ}, ndpi_search_eaq),
    (''ndpi_search_xbox'', NDPI_SELECTION_BITMASK_PROTOCOL_V4_V6_UDP_WITH_PAYLOAD,
      {NDPI_PROTOCOL_XBOX}, ndpi_search_xbox),
    (''ndpi_search_csgo'', NDPI_SELECTION_BITMASK_PROTOCOL_V4_V6_UDP_WITH_PAYLOAD,
      {NDPI_PROTOCOL_CSGO}, ndpi_search_csgo),
    (''ndpi_search_s7comm_tcp'', NDPI_SELECTION_BITMASK_PROTOCOL_V4_V6_TCP_WITH_PAYLOAD_WITHOUT_RETRANSMISSION,
      {NDPI_PROTOCOL_S7COMM}, ndpi_search_s7comm_tcp),
    (''ndpi_search_corba'', NDPI_SELECTION_BITMASK_PROTOCOL_V4_V6_TCP_WITH_PAYLOAD_WITHOUT_RETRANSMISSION,
      {NDPI_PROTOCOL_CORBA}, ndpi_search_corba),
    (''ndpi_search_zabbix'', NDPI_SELECTION_BITMASK_PROTOCOL_V4_V6_TCP_WITH_PAYLOAD_WITHOUT_RETRANSMISSION,
      {NDPI_PROTOCOL_ZABBIX}, ndpi_search_zabbix),
    (''ndpi_search_world_of_kung_fu'', NDPI_SELECTION_BITMASK_PROTOCOL_V4_V6_TCP_WITH_PAYLOAD_WITHOUT_RETRANSMISSION,
      {NDPI_PROTOCOL_WORLD_OF_KUNG_FU}, ndpi_search_world_of_kung_fu),
    (''ndpi_search_applejuice_tcp'', NDPI_SELECTION_BITMASK_PROTOCOL_V4_V6_TCP_WITH_PAYLOAD_WITHOUT_RETRANSMISSION,
      {NDPI_PROTOCOL_APPLEJUICE}, ndpi_search_applejuice_tcp),
    (''ndpi_search_bgp'', NDPI_SELECTION_BITMASK_PROTOCOL_V4_V6_TCP_WITH_PAYLOAD_WITHOUT_RETRANSMISSION,
      {NDPI_PROTOCOL_BGP}, ndpi_search_bgp),
    (''ndpi_search_dnp3_tcp'', NDPI_SELECTION_BITMASK_PROTOCOL_V4_V6_TCP_WITH_PAYLOAD_WITHOUT_RETRANSMISSION,
      {NDPI_PROTOCOL_DNP3}, ndpi_search_dnp3_tcp),
    (''ndpi_search_pptp'', NDPI_SELECTION_BITMASK_PROTOCOL_V4_V6_TCP_WITH_PAYLOAD_WITHOUT_RETRANSMISSION,
      {NDPI_PROTOCOL_PPTP}, ndpi_search_pptp),
    (''ndpi_search_rsync'', NDPI_SELECTION_BITMASK_PROTOCOL_V4_V6_TCP_WITH_PAYLOAD_WITHOUT_RETRANSMISSION,
      {NDPI_PROTOCOL_RSYNC}, ndpi_search_rsync),
    (''ndpi_search_stealthnet'', NDPI_SELECTION_BITMASK_PROTOCOL_V4_V6_TCP_WITH_PAYLOAD_WITHOUT_RETRANSMISSION,
      {NDPI_PROTOCOL_STEALTHNET}, ndpi_search_stealthnet),
    (''ndpi_search_hpvirtgrp'', NDPI_SELECTION_BITMASK_PROTOCOL_V4_V6_TCP_WITH_PAYLOAD_WITHOUT_RETRANSMISSION,
      {NDPI_PROTOCOL_HPVIRTGRP}, ndpi_search_hpvirtgrp),
    (''ndpi_search_modbus_tcp'', NDPI_SELECTION_BITMASK_PROTOCOL_V4_V6_TCP_WITH_PAYLOAD_WITHOUT_RETRANSMISSION,
      {NDPI_PROTOCOL_MODBUS}, ndpi_search_modbus_tcp),
    (''ndpi_search_smb_tcp'', NDPI_SELECTION_BITMASK_PROTOCOL_V4_V6_TCP_WITH_PAYLOAD_WITHOUT_RETRANSMISSION,
      {NDPI_PROTOCOL_SMBV1, NDPI_PROTOCOL_SMBV23, NDPI_PROTOCOL_NETBIOS}, ndpi_search_smb_tcp),
    (''ndpi_search_fix'', NDPI_SELECTION_BITMASK_PROTOCOL_V4_V6_TCP_WITH_PAYLOAD,
      {NDPI_PROTOCOL_FIX}, ndpi_search_fix),
    (''ndpi_search_oracle'', NDPI_SELECTION_BITMASK_PROTOCOL_V4_V6_TCP_WITH_PAYLOAD_WITHOUT_RETRANSMISSION,
      {NDPI_PROTOCOL_ORACLE}, ndpi_search_oracle),
    (''ndpi_search_skinny'', NDPI_SELECTION_BITMASK_PROTOCOL_V4_V6_TCP_WITH_PAYLOAD_WITHOUT_RETRANSMISSION,
      {NDPI_PROTOCOL_SKINNY}, ndpi_search_skinny),
    (''ndpi_search_checkmk'', NDPI_SELECTION_BITMASK_PROTOCOL_V4_V6_TCP_WITH_PAYLOAD_WITHOUT_RETRANSMISSION,
      {NDPI_PROTOCOL_CHECKMK}, ndpi_search_checkmk),
    (''ndpi_search_amqp'', NDPI_SELECTION_BITMASK_PROTOCOL_V4_V6_TCP_WITH_PAYLOAD,
      {NDPI_PROTOCOL_AMQP}, ndpi_search_amqp),
    (''ndpi_search_mssql_tds'', NDPI_SELECTION_BITMASK_PROTOCOL_V4_V6_TCP_WITH_PAYLOAD_WITHOUT_RETRANSMISSION,
      {NDPI_PROTOCOL_MSSQL_TDS}, ndpi_search_mssql_tds),
    (''ndpi_search_mysql_tcp'', NDPI_SELECTION_BITMASK_PROTOCOL_V4_V6_TCP_WITH_PAYLOAD_WITHOUT_RETRANSMISSION,
      {NDPI_PROTOCOL_MYSQL}, ndpi_search_mysql_tcp),
    (''ndpi_search_afp'', NDPI_SELECTION_BITMASK_PROTOCOL_V4_V6_TCP_WITH_PAYLOAD_WITHOUT_RETRANSMISSION,
      {NDPI_PROTOCOL_AFP}, ndpi_search_afp),
    (''ndpi_search_diameter'', NDPI_SELECTION_BITMASK_PROTOCOL_V4_V6_TCP_WITH_PAYLOAD_WITHOUT_RETRANSMISSION,
      {NDPI_PROTOCOL_DIAMETER}, ndpi_search_diameter),
    (''ndpi_search_guildwars_tcp'', NDPI_SELECTION_BITMASK_PROTOCOL_V4_V6_TCP_WITH_PAYLOAD_WITHOUT_RETRANSMISSION,
      {NDPI_PROTOCOL_GUILDWARS}, ndpi_search_guildwars_tcp),
    (''ndpi_search_cassandra'', NDPI_SELECTION_BITMASK_PROTOCOL_V4_V6_TCP_WITH_PAYLOAD,
      {NDPI_PROTOCOL_CASSANDRA}, ndpi_search_cassandra),
    (''ndpi_search_apple_push'', NDPI_SELECTION_BITMASK_PROTOCOL_V4_V6_TCP_WITH_PAYLOAD,
      {NDPI_PROTOCOL_APPLE_PUSH}, ndpi_search_apple_push),
    (''ndpi_search_drda'', NDPI_SELECTION_BITMASK_PROTOCOL_V4_V6_TCP_WITH_PAYLOAD_WITHOUT_RETRANSMISSION,
      {NDPI_PROTOCOL_DRDA}, ndpi_search_drda),
    (''ndpi_search_nats_tcp'', NDPI_SELECTION_BITMASK_PROTOCOL_V4_V6_TCP_WITH_PAYLOAD_WITHOUT_RETRANSMISSION,
      {NDPI_PROTOCOL_NATS}, ndpi_search_nats_tcp),
    (''ndpi_search_soap'', NDPI_SELECTION_BITMASK_PROTOCOL_V4_V6_TCP_WITH_PAYLOAD,
      {NDPI_PROTOCOL_SOAP}, ndpi_search_soap),
    (''ndpi_search_vnc_tcp'', NDPI_SELECTION_BITMASK_PROTOCOL_V4_V6_TCP_WITH_PAYLOAD_WITHOUT_RETRANSMISSION,
      {NDPI_PROTOCOL_VNC}, ndpi_search_vnc_tcp),
    (''ndpi_search_whatsapp'', NDPI_SELECTION_BITMASK_PROTOCOL_V4_V6_TCP_WITH_PAYLOAD_WITHOUT_RETRANSMISSION,
      {NDPI_PROTOCOL_WHATSAPP}, ndpi_search_whatsapp),
    (''ndpi_search_nest_log_sink'', NDPI_SELECTION_BITMASK_PROTOCOL_V4_V6_TCP_WITH_PAYLOAD,
      {NDPI_PROTOCOL_NEST_LOG_SINK}, ndpi_search_nest_log_sink),
    (''ndpi_search_lotus_notes'', NDPI_SELECTION_BITMASK_PROTOCOL_V4_V6_TCP_WITH_PAYLOAD_WITHOUT_RETRANSMISSION,
      {NDPI_PROTOCOL_LOTUS_NOTES}, ndpi_search_lotus_notes),
    (''ndpi_search_citrix'', NDPI_SELECTION_BITMASK_PROTOCOL_V4_V6_TCP_WITH_PAYLOAD_WITHOUT_RETRANSMISSION,
      {NDPI_PROTOCOL_CITRIX}, ndpi_search_citrix),
    (''ndpi_search_redis'', NDPI_SELECTION_BITMASK_PROTOCOL_V4_V6_TCP_WITH_PAYLOAD_WITHOUT_RETRANSMISSION,
      {NDPI_PROTOCOL_REDIS}, ndpi_search_redis),
    (''ndpi_search_rtmp'', NDPI_SELECTION_BITMASK_PROTOCOL_V4_V6_TCP_WITH_PAYLOAD_WITHOUT_RETRANSMISSION,
      {NDPI_PROTOCOL_RTMP}, ndpi_search_rtmp),
    (''ndpi_search_usenet_tcp'', NDPI_SELECTION_BITMASK_PROTOCOL_V4_V6_TCP_WITH_PAYLOAD_WITHOUT_RETRANSMISSION,
      {NDPI_PROTOCOL_USENET}, ndpi_search_usenet_tcp),
    (''ndpi_search_fiesta'', NDPI_SELECTION_BITMASK_PROTOCOL_V4_V6_TCP_WITH_PAYLOAD_WITHOUT_RETRANSMISSION,
      {NDPI_PROTOCOL_FIESTA}, ndpi_search_fiesta),
    (''ndpi_search_socks'', NDPI_SELECTION_BITMASK_PROTOCOL_V4_V6_TCP_WITH_PAYLOAD_WITHOUT_RETRANSMISSION,
      {NDPI_PROTOCOL_SOCKS}, ndpi_search_socks),
    (''ndpi_search_zmq'', NDPI_SELECTION_BITMASK_PROTOCOL_V4_V6_TCP_WITH_PAYLOAD_WITHOUT_RETRANSMISSION,
      {NDPI_PROTOCOL_ZMQ}, ndpi_search_zmq),
    (''ndpi_search_shoutcast_tcp'', NDPI_SELECTION_BITMASK_PROTOCOL_V4_V6_TCP_WITH_PAYLOAD_WITHOUT_RETRANSMISSION,
      {NDPI_PROTOCOL_SHOUTCAST}, ndpi_search_shoutcast_tcp),
    (''ndpi_search_dofus'', NDPI_SELECTION_BITMASK_PROTOCOL_V4_V6_TCP_WITH_PAYLOAD_WITHOUT_RETRANSMISSION,
      {NDPI_PROTOCOL_DOFUS}, ndpi_search_dofus),
    (''ndpi_search_z3950'', NDPI_SELECTION_BITMASK_PROTOCOL_V4_V6_TCP_WITH_PAYLOAD_WITHOUT_RETRANSMISSION,
      {NDPI_PROTOCOL_Z3950}, ndpi_search_z3950),
    (''ndpi_search_xdmcp'', NDPI_SELECTION_BITMASK_PROTOCOL_V4_V6_TCP_OR_UDP_WITH_PAYLOAD,
      {NDPI_PROTOCOL_XDMCP}, ndpi_search_xdmcp),
    (''ndpi_search_amazon_video'', NDPI_SELECTION_BITMASK_PROTOCOL_V4_V6_TCP_OR_UDP_WITH_PAYLOAD,
      {NDPI_PROTOCOL_AMAZON_VIDEO}, ndpi_search_amazon_video),
    (''ndpi_search_dnscrypt'', NDPI_SELECTION_BITMASK_PROTOCOL_V4_V6_TCP_OR_UDP_WITH_PAYLOAD,
      {NDPI_PROTOCOL_DNSCRYPT}, ndpi_search_dnscrypt),
    (''ndpi_search_teamspeak'', NDPI_SELECTION_BITMASK_PROTOCOL_V4_V6_TCP_OR_UDP_WITH_PAYLOAD,
      {NDPI_PROTOCOL_TEAMSPEAK}, ndpi_search_teamspeak),
    (''ndpi_search_targus_getdata'', NDPI_SELECTION_BITMASK_PROTOCOL_V4_V6_TCP_OR_UDP,
      {NDPI_PROTOCOL_TARGUS_GETDATA}, ndpi_search_targus_getdata),
    (''ndpi_search_nfs'', NDPI_SELECTION_BITMASK_PROTOCOL_V4_V6_TCP_OR_UDP_WITH_PAYLOAD_WITHOUT_RETRANSMISSION,
      {NDPI_PROTOCOL_NFS}, ndpi_search_nfs),
    (''ndpi_search_dcerpc'', NDPI_SELECTION_BITMASK_PROTOCOL_V4_V6_TCP_OR_UDP_WITH_PAYLOAD_WITHOUT_RETRANSMISSION,
      {NDPI_PROTOCOL_DCERPC}, ndpi_search_dcerpc),
    (''ndpi_search_ldap'', NDPI_SELECTION_BITMASK_PROTOCOL_V4_V6_TCP_OR_UDP_WITH_PAYLOAD_WITHOUT_RETRANSMISSION,
      {NDPI_PROTOCOL_LDAP}, ndpi_search_ldap),
    (''ndpi_search_ciscovpn'', NDPI_SELECTION_BITMASK_PROTOCOL_V4_V6_TCP_OR_UDP_WITH_PAYLOAD,
      {NDPI_PROTOCOL_CISCOVPN}, ndpi_search_ciscovpn),
    (''ndpi_search_rtcp'', NDPI_SELECTION_BITMASK_PROTOCOL_V4_V6_TCP_OR_UDP_WITH_PAYLOAD,
      {NDPI_PROTOCOL_RTCP}, ndpi_search_rtcp),
    (''ndpi_search_syslog'', NDPI_SELECTION_BITMASK_PROTOCOL_V4_V6_TCP_OR_UDP_WITH_PAYLOAD_WITHOUT_RETRANSMISSION,
      {NDPI_PROTOCOL_SYSLOG}, ndpi_search_syslog),
    (''ndpi_search_telegram'', NDPI_SELECTION_BITMASK_PROTOCOL_V4_V6_TCP_OR_UDP,
      {NDPI_PROTOCOL_TELEGRAM}, ndpi_search_telegram),
    (''ndpi_search_jabber_tcp'', NDPI_SELECTION_BITMASK_PROTOCOL_V4_V6_TCP_OR_UDP_WITHOUT_RETRANSMISSION,
      {NDPI_PROTOCOL_JABBER, NDPI_PROTOCOL_TRUPHONE}, ndpi_search_jabber_tcp),
    (''ndpi_search_rdp'', NDPI_SELECTION_BITMASK_PROTOCOL_V4_V6_TCP_OR_UDP_WITH_PAYLOAD_WITHOUT_RETRANSMISSION,
      {NDPI_PROTOCOL_RDP}, ndpi_search_rdp),
    (''ndpi_search_h323'', NDPI_SELECTION_BITMASK_PROTOCOL_V4_V6_TCP_OR_UDP_WITH_PAYLOAD,
      {NDPI_PROTOCOL_H323, NDPI_PROTOCOL_RDP}, ndpi_search_h323),
    (''ndpi_search_postgres_tcp'', NDPI_SELECTION_BITMASK_PROTOCOL_V4_V6_TCP_WITH_PAYLOAD_WITHOUT_RETRANSMISSION,
      {NDPI_PROTOCOL_POSTGRES}, ndpi_search_postgres_tcp),
    (''ndpi_search_in_non_tcp_udp'', NDPI_SELECTION_BITMASK_PROTOCOL_IPV4_OR_IPV6,
      {NDPI_PROTOCOL_IP_IPSEC, NDPI_PROTOCOL_IP_GRE, NDPI_PROTOCOL_IP_ICMP, NDPI_PROTOCOL_IP_IGMP, NDPI_PROTOCOL_IP_EGP,
       NDPI_PROTOCOL_IP_SCTP, NDPI_PROTOCOL_IP_OSPF, NDPI_PROTOCOL_IP_IP_IN_IP, NDPI_PROTOCOL_IP_ICMPV6, NDPI_PROTOCOL_IP_VRRP},
      ndpi_search_in_non_tcp_udp)]"

lemma entries_satisfy_contract: "list_all (\<lambda>(g, sel, ids, d). dissector d ids sel) modelled_dissectors"
  unfolding modelled_dissectors_def list.pred_inject prod.case
  by (intro conjI list.pred_inject(1)
    vmware.dissector_axioms bjnp.dissector_axioms among_us.dissector_axioms teredo.dissector_axioms sflow.dissector_axioms
    megaco.dissector_axioms cpha.dissector_axioms viber.dissector_axioms nintendo.dissector_axioms snmp.dissector_axioms
    avast_securedns.dissector_axioms dhcpv6.dissector_axioms qq.dissector_axioms genshin_impact.dissector_axioms vhua.dissector_axioms
    kakaotalk_voice.dissector_axioms ssdp.dissector_axioms noe.dissector_axioms lisp.dissector_axioms radius.dissector_axioms
    dropbox.dissector_axioms kontiki.dissector_axioms mpegts.dissector_axioms mgcp.dissector_axioms iax.dissector_axioms
    tftp.dissector_axioms armagetron.dissector_axioms gtp.dissector_axioms capwap.dissector_axioms ayiya.dissector_axioms
    halflife2.dissector_axioms imo.dissector_axioms eaq.dissector_axioms xbox.dissector_axioms csgo.dissector_axioms
    s7comm.dissector_axioms corba.dissector_axioms zabbix.dissector_axioms world_of_kung_fu.dissector_axioms applejuice.dissector_axioms
    bgp.dissector_axioms dnp3.dissector_axioms pptp.dissector_axioms rsync.dissector_axioms stealthnet.dissector_axioms
    hpvirtgrp.dissector_axioms modbus.dissector_axioms smb.dissector_axioms fix_protocol.dissector_axioms oracle_db.dissector_axioms
    skinny.dissector_axioms checkmk.dissector_axioms amqp.dissector_axioms mssql_tds.dissector_axioms mysql.dissector_axioms
    afp.dissector_axioms diameter.dissector_axioms guildwars.dissector_axioms cassandra.dissector_axioms apple_push.dissector_axioms
    drda.dissector_axioms nats.dissector_axioms soap.dissector_axioms vnc.dissector_axioms whatsapp.dissector_axioms
    nest_log_sink.dissector_axioms lotus_notes.dissector_axioms citrix.dissector_axioms redis.dissector_axioms rtmp.dissector_axioms
    usenet.dissector_axioms fiesta.dissector_axioms socks.dissector_axioms zeromq.dissector_axioms shoutcast.dissector_axioms
    dofus.dissector_axioms z3950.dissector_axioms xdmcp.dissector_axioms amazon_video.dissector_axioms dnscrypt.dissector_axioms
    teamspeak.dissector_axioms targus_getdata.dissector_axioms nfs.dissector_axioms dcerpc.dissector_axioms ldap.dissector_axioms
    ciscovpn.dissector_axioms rtcp.dissector_axioms syslog.dissector_axioms telegram.dissector_axioms jabber.dissector_axioms
    rdp.dissector_axioms h323.dissector_axioms postgres.dissector_axioms non_tcp_udp.dissector_axioms)

lemma modelled_contract:
  assumes "(g, sel, ids, d) \<in> set modelled_dissectors"
  shows "dissector d ids sel"
  using entries_satisfy_contract assms by (auto simp: list_all_iff)

text \<open>The protocols of the table are protocols of the library.\<close>

lemma entries_have_protocols:
  "list_all (\<lambda>(g, sel, ids, d). \<forall>p \<in> ids. p \<noteq> NDPI_PROTOCOL_UNKNOWN \<and> unat p < NDPI_MAX_SUPPORTED_PROTOCOLS) modelled_dissectors"
  unfolding modelled_dissectors_def list.pred_inject prod.case by (simp add: size_defs)

lemma modelled_protocols:
  assumes "(g, sel, ids, d) \<in> set modelled_dissectors" "p \<in> ids"
  shows "p \<noteq> NDPI_PROTOCOL_UNKNOWN" "unat p < NDPI_MAX_SUPPORTED_PROTOCOLS"
  using entries_have_protocols assms by (auto simp: list_all_iff)

end
