(* ===== verification/Registration_Table.thy ===== *)
theory Registration_Table
  imports Dissectors
begin

text \<open>
  What registration enters, as a table: the calls of \<open>ndpi_set_bitmask_protocol_detection\<close> that the
  registration functions make, in their order, and the theorem that the callback buffer holds them
  place by place, each exactly when its protocol is enabled.
\<close>

section \<open>The calls\<close>

text \<open>The function that is registered, its selection bitmask and its protocol.\<close>

type_synonym call = "string \<times> u32 \<times> u16"

definition registrations_1 :: "call list" where
  "registrations_1 = [
    (''ndpi_search_http_tcp'', NDPI_SELECTION_BITMASK_PROTOCOL_V4_V6_TCP_WITH_PAYLOAD, NDPI_PROTOCOL_HTTP),
    (''ndpi_search_starcraft'', NDPI_SELECTION_BITMASK_PROTOCOL_V4_V6_TCP_OR_UDP_WITH_PAYLOAD_WITHOUT_RETRANSMISSION, NDPI_PROTOCOL_STARCRAFT),
    (''ndpi_search_tls_wrapper'', NDPI_SELECTION_BITMASK_PROTOCOL_V4_V6_TCP_WITH_PAYLOAD_WITHOUT_RETRANSMISSION, NDPI_PROTOCOL_TLS),
    (''ndpi_search_tls_wrapper'', NDPI_SELECTION_BITMASK_PROTOCOL_V4_V6_UDP_WITH_PAYLOAD, NDPI_PROTOCOL_DTLS),
    (''ndpi_search_rtp'', NDPI_SELECTION_BITMASK_PROTOCOL_V4_V6_UDP_WITH_PAYLOAD, NDPI_PROTOCOL_RTP),
    (''ndpi_search_rtsp_tcp_udp'', NDPI_SELECTION_BITMASK_PROTOCOL_V4_V6_TCP_OR_UDP_WITH_PAYLOAD, NDPI_PROTOCOL_RTSP),
    (''ndpi_search_rdp'', NDPI_SELECTION_BITMASK_PROTOCOL_V4_V6_TCP_OR_UDP_WITH_PAYLOAD_WITHOUT_RETRANSMISSION, NDPI_PROTOCOL_RDP),
    (''ndpi_search_stun'', NDPI_SELECTION_BITMASK_PROTOCOL_V4_V6_UDP_WITH_PAYLOAD, NDPI_PROTOCOL_STUN),
    (''ndpi_search_sip'', NDPI_SELECTION_BITMASK_PROTOCOL_V4_V6_TCP_OR_UDP_WITH_PAYLOAD_WITHOUT_RETRANSMISSION, NDPI_PROTOCOL_SIP),
    (''ndpi_search_imo'', NDPI_SELECTION_BITMASK_PROTOCOL_V4_V6_UDP_WITH_PAYLOAD, NDPI_PROTOCOL_IMO),
    (''ndpi_search_teredo'', NDPI_SELECTION_BITMASK_PROTOCOL_UDP_WITH_PAYLOAD, NDPI_PROTOCOL_TEREDO),
    (''ndpi_search_edonkey'', NDPI_SELECTION_BITMASK_PROTOCOL_V4_V6_TCP_OR_UDP_WITHOUT_RETRANSMISSION, NDPI_PROTOCOL_EDONKEY),
    (''ndpi_search_fasttrack_tcp'', NDPI_SELECTION_BITMASK_PROTOCOL_V4_V6_TCP_WITH_PAYLOAD_WITHOUT_RETRANSMISSION, NDPI_PROTOCOL_FASTTRACK),
    (''ndpi_search_gnutella'', NDPI_SELECTION_BITMASK_PROTOCOL_V4_V6_TCP_OR_UDP_WITH_PAYLOAD_WITHOUT_RETRANSMISSION, NDPI_PROTOCOL_GNUTELLA),
    (''ndpi_search_directconnect'', NDPI_SELECTION_BITMASK_PROTOCOL_V4_V6_TCP_WITH_PAYLOAD_WITHOUT_RETRANSMISSION, NDPI_PROTOCOL_DIRECTCONNECT),
    (''ndpi_search_nats_tcp'', NDPI_SELECTION_BITMASK_PROTOCOL_V4_V6_TCP_WITH_PAYLOAD_WITHOUT_RETRANSMISSION, NDPI_PROTOCOL_NATS),
    (''ndpi_search_applejuice_tcp'', NDPI_SELECTION_BITMASK_PROTOCOL_V4_V6_TCP_WITH_PAYLOAD_WITHOUT_RETRANSMISSION, NDPI_PROTOCOL_APPLEJUICE),
    (''ndpi_search_socks'', NDPI_SELECTION_BITMASK_PROTOCOL_V4_V6_TCP_WITH_PAYLOAD_WITHOUT_RETRANSMISSION, NDPI_PROTOCOL_SOCKS),
    (''ndpi_search_irc_tcp'', NDPI_SELECTION_BITMASK_PROTOCOL_V4_V6_TCP_WITH_PAYLOAD_WITHOUT_RETRANSMISSION, NDPI_PROTOCOL_IRC),
    (''ndpi_search_jabber_tcp'', NDPI_SELECTION_BITMASK_PROTOCOL_V4_V6_TCP_OR_UDP_WITHOUT_RETRANSMISSION, NDPI_PROTOCOL_JABBER),
    (''ndpi_search_mail_pop_tcp'', NDPI_SELECTION_BITMASK_PROTOCOL_V4_V6_TCP_WITH_PAYLOAD_WITHOUT_RETRANSMISSION, NDPI_PROTOCOL_MAIL_POP),
    (''ndpi_search_mail_imap_tcp'', NDPI_SELECTION_BITMASK_PROTOCOL_V4_V6_TCP_WITH_PAYLOAD_WITHOUT_RETRANSMISSION, NDPI_PROTOCOL_MAIL_IMAP),
    (''ndpi_search_mail_smtp_tcp'', NDPI_SELECTION_BITMASK_PROTOCOL_V4_V6_TCP_WITH_PAYLOAD_WITHOUT_RETRANSMISSION, NDPI_PROTOCOL_MAIL_SMTP),
    (''ndpi_search_usenet_tcp'', NDPI_SELECTION_BITMASK_PROTOCOL_V4_V6_TCP_WITH_PAYLOAD_WITHOUT_RETRANSMISSION, NDPI_PROTOCOL_USENET),
    (''ndpi_search_dns'', NDPI_SELECTION_BITMASK_PROTOCOL_V4_V6_TCP_OR_UDP_WITH_PAYLOAD_WITHOUT_RETRANSMISSION, NDPI_PROTOCOL_DNS),
    (''ndpi_search_vmware'', NDPI_SELECTION_BITMASK_PROTOCOL_V4_V6_UDP_WITH_PAYLOAD, NDPI_PROTOCOL_VMWARE),
    (''ndpi_search_in_non_tcp_udp'', NDPI_SELECTION_BITMASK_PROTOCOL_IPV4_OR_IPV6, NDPI_PROTOCOL_IP_IPSEC),
    (''ndpi_search_in_non_tcp_udp'', NDPI_SELECTION_BITMASK_PROTOCOL_IPV4_OR_IPV6, NDPI_PROTOCOL_IP_GRE),
    (''ndpi_search_in_non_tcp_udp'', NDPI_SELECTION_BITMASK_PROTOCOL_IPV4_OR_IPV6, NDPI_PROTOCOL_IP_ICMP),
    (''ndpi_search_in_non_tcp_udp'', NDPI_SELECTION_BITMASK_PROTOCOL_IPV4_OR_IPV6, NDPI_PROTOCOL_IP_IGMP),
    (''ndpi_search_in_non_tcp_udp'', NDPI_SELECTION_BITMASK_PROTOCOL_IPV4_OR_IPV6, NDPI_PROTOCOL_IP_EGP),
    (''ndpi_search_in_non_tcp_udp'', NDPI_SELECTION_BITMASK_PROTOCOL_IPV4_OR_IPV6, NDPI_PROTOCOL_IP_SCTP),
    (''ndpi_search_in_non_tcp_udp'', NDPI_SELECTION_BITMASK_PROTOCOL_IPV4_OR_IPV6, NDPI_PROTOCOL_IP_OSPF),
    (''ndpi_search_in_non_tcp_udp'', NDPI_SELECTION_BITMASK_PROTOCOL_IPV4_OR_IPV6, NDPI_PROTOCOL_IP_IP_IN_IP),
    (''ndpi_search_in_non_tcp_udp'', NDPI_SELECTION_BITMASK_PROTOCOL_IPV4_OR_IPV6, NDPI_PROTOCOL_IP_ICMPV6),
    (''ndpi_search_sopcast'', NDPI_SELECTION_BITMASK_PROTOCOL_V4_V6_TCP_OR_UDP_WITH_PAYLOAD, NDPI_PROTOCOL_SOPCAST),
    (''ndpi_search_tvuplayer'', NDPI_SELECTION_BITMASK_PROTOCOL_V4_V6_TCP_OR_UDP_WITH_PAYLOAD, NDPI_PROTOCOL_TVUPLAYER),
    (''ndpi_search_ppstream'', NDPI_SELECTION_BITMASK_PROTOCOL_V4_V6_TCP_OR_UDP_WITH_PAYLOAD, NDPI_PROTOCOL_PPSTREAM),
    (''ndpi_search_iax'', NDPI_SELECTION_BITMASK_PROTOCOL_V4_V6_UDP_WITH_PAYLOAD, NDPI_PROTOCOL_IAX),
    (''ndpi_search_mgcp'', NDPI_SELECTION_BITMASK_PROTOCOL_V4_V6_UDP_WITH_PAYLOAD, NDPI_PROTOCOL_MGCP),
    (''ndpi_search_zattoo'', NDPI_SELECTION_BITMASK_PROTOCOL_V4_V6_TCP_OR_UDP_WITH_PAYLOAD, NDPI_PROTOCOL_ZATTOO),
    (''ndpi_search_qq'', NDPI_SELECTION_BITMASK_PROTOCOL_V4_V6_UDP_WITH_PAYLOAD, NDPI_PROTOCOL_QQ),
    (''ndpi_search_ssh_tcp'', NDPI_SELECTION_BITMASK_PROTOCOL_V4_V6_TCP_WITH_PAYLOAD_WITHOUT_RETRANSMISSION, NDPI_PROTOCOL_SSH),
    (''ndpi_search_ayiya'', NDPI_SELECTION_BITMASK_PROTOCOL_V4_V6_UDP_WITH_PAYLOAD, NDPI_PROTOCOL_AYIYA),
    (''ndpi_search_thunder'', NDPI_SELECTION_BITMASK_PROTOCOL_V4_V6_TCP_OR_UDP_WITH_PAYLOAD_WITHOUT_RETRANSMISSION, NDPI_PROTOCOL_THUNDER),
    (''ndpi_search_vnc_tcp'', NDPI_SELECTION_BITMASK_PROTOCOL_V4_V6_TCP_WITH_PAYLOAD_WITHOUT_RETRANSMISSION, NDPI_PROTOCOL_VNC),
    (''ndpi_search_teamview'', NDPI_SELECTION_BITMASK_PROTOCOL_V4_V6_TCP_OR_UDP, NDPI_PROTOCOL_TEAMVIEWER),
    (''ndpi_search_dhcp_udp'', NDPI_SELECTION_BITMASK_PROTOCOL_UDP_WITH_PAYLOAD, NDPI_PROTOCOL_DHCP),
    (''ndpi_search_steam'', NDPI_SELECTION_BITMASK_PROTOCOL_V4_V6_TCP_OR_UDP_WITHOUT_RETRANSMISSION, NDPI_PROTOCOL_STEAM),
    (''ndpi_search_halflife2'', NDPI_SELECTION_BITMASK_PROTOCOL_V4_V6_UDP_WITH_PAYLOAD, NDPI_PROTOCOL_HALFLIFE2),
    (''ndpi_search_xbox'', NDPI_SELECTION_BITMASK_PROTOCOL_V4_V6_UDP_WITH_PAYLOAD, NDPI_PROTOCOL_XBOX),
    (''ndpi_search_smb_tcp'', NDPI_SELECTION_BITMASK_PROTOCOL_V4_V6_TCP_WITH_PAYLOAD_WITHOUT_RETRANSMISSION, NDPI_PROTOCOL_SMBV23),
    (''ndpi_search_mining_tcp'', NDPI_SELECTION_BITMASK_PROTOCOL_V4_V6_TCP_WITH_PAYLOAD_WITHOUT_RETRANSMISSION, NDPI_PROTOCOL_MINING),
    (''ndpi_search_mining_udp'', NDPI_SELECTION_BITMASK_PROTOCOL_V4_V6_UDP_WITH_PAYLOAD, NDPI_PROTOCOL_MINING),
    (''ndpi_search_telnet_tcp'', NDPI_SELECTION_BITMASK_PROTOCOL_V4_V6_TCP_WITH_PAYLOAD_WITHOUT_RETRANSMISSION, NDPI_PROTOCOL_TELNET),
    (''ndpi_search_ntp_udp'', NDPI_SELECTION_BITMASK_PROTOCOL_V4_V6_UDP_WITH_PAYLOAD, NDPI_PROTOCOL_NTP),
    (''ndpi_search_nfs'', NDPI_SELECTION_BITMASK_PROTOCOL_V4_V6_TCP_OR_UDP_WITH_PAYLOAD_WITHOUT_RETRANSMISSION, NDPI_PROTOCOL_NFS)]"

definition registrations_2 :: "call list" where
  "registrations_2 = [
    (''ndpi_search_ssdp'', NDPI_SELECTION_BITMASK_PROTOCOL_V4_V6_UDP_WITH_PAYLOAD, NDPI_PROTOCOL_SSDP),
    (''ndpi_search_worldofwarcraft'', NDPI_SELECTION_BITMASK_PROTOCOL_V4_V6_TCP_WITH_PAYLOAD_WITHOUT_RETRANSMISSION, NDPI_PROTOCOL_WORLDOFWARCRAFT),
    (''ndpi_search_postgres_tcp'', NDPI_SELECTION_BITMASK_PROTOCOL_V4_V6_TCP_WITH_PAYLOAD_WITHOUT_RETRANSMISSION, NDPI_PROTOCOL_POSTGRES),
    (''ndpi_search_mysql_tcp'', NDPI_SELECTION_BITMASK_PROTOCOL_V4_V6_TCP_WITH_PAYLOAD_WITHOUT_RETRANSMISSION, NDPI_PROTOCOL_MYSQL),
    (''ndpi_search_bgp'', NDPI_SELECTION_BITMASK_PROTOCOL_V4_V6_TCP_WITH_PAYLOAD_WITHOUT_RETRANSMISSION, NDPI_PROTOCOL_BGP),
    (''ndpi_search_snmp'', NDPI_SELECTION_BITMASK_PROTOCOL_V4_V6_UDP_WITH_PAYLOAD, NDPI_PROTOCOL_SNMP),
    (''ndpi_search_kontiki'', NDPI_SELECTION_BITMASK_PROTOCOL_V4_V6_UDP_WITH_PAYLOAD, NDPI_PROTOCOL_KONTIKI),
    (''ndpi_search_icecast_tcp'', NDPI_SELECTION_BITMASK_PROTOCOL_V4_V6_TCP_WITH_PAYLOAD, NDPI_PROTOCOL_ICECAST),
    (''ndpi_search_shoutcast_tcp'', NDPI_SELECTION_BITMASK_PROTOCOL_V4_V6_TCP_WITH_PAYLOAD_WITHOUT_RETRANSMISSION, NDPI_PROTOCOL_SHOUTCAST),
    (''ndpi_search_kerberos'', NDPI_SELECTION_BITMASK_PROTOCOL_V4_V6_TCP_OR_UDP_WITH_PAYLOAD_WITHOUT_RETRANSMISSION, NDPI_PROTOCOL_KERBEROS),
    (''ndpi_search_openft_tcp'', NDPI_SELECTION_BITMASK_PROTOCOL_V4_V6_TCP_WITH_PAYLOAD_WITHOUT_RETRANSMISSION, NDPI_PROTOCOL_OPENFT),
    (''ndpi_search_syslog'', NDPI_SELECTION_BITMASK_PROTOCOL_V4_V6_TCP_OR_UDP_WITH_PAYLOAD_WITHOUT_RETRANSMISSION, NDPI_PROTOCOL_SYSLOG),
    (''ndpi_search_direct_download_link_tcp'', NDPI_SELECTION_BITMASK_PROTOCOL_V4_V6_TCP_WITH_PAYLOAD, NDPI_PROTOCOL_DIRECT_DOWNLOAD_LINK),
    (''ndpi_search_netbios'', NDPI_SELECTION_BITMASK_PROTOCOL_V4_V6_TCP_OR_UDP_WITH_PAYLOAD_WITHOUT_RETRANSMISSION, NDPI_PROTOCOL_NETBIOS),
    (''ndpi_search_ipp'', NDPI_SELECTION_BITMASK_PROTOCOL_V4_V6_TCP_OR_UDP_WITH_PAYLOAD_WITHOUT_RETRANSMISSION, NDPI_PROTOCOL_IPP),
    (''ndpi_search_ldap'', NDPI_SELECTION_BITMASK_PROTOCOL_V4_V6_TCP_OR_UDP_WITH_PAYLOAD_WITHOUT_RETRANSMISSION, NDPI_PROTOCOL_LDAP),
    (''ndpi_search_warcraft3'', NDPI_SELECTION_BITMASK_PROTOCOL_V4_V6_TCP_OR_UDP_WITH_PAYLOAD, NDPI_PROTOCOL_WARCRAFT3),
    (''ndpi_search_xdmcp'', NDPI_SELECTION_BITMASK_PROTOCOL_V4_V6_TCP_OR_UDP_WITH_PAYLOAD, NDPI_PROTOCOL_XDMCP),
    (''ndpi_search_tftp'', NDPI_SELECTION_BITMASK_PROTOCOL_V4_V6_UDP_WITH_PAYLOAD, NDPI_PROTOCOL_TFTP),
    (''ndpi_search_mssql_tds'', NDPI_SELECTION_BITMASK_PROTOCOL_V4_V6_TCP_WITH_PAYLOAD_WITHOUT_RETRANSMISSION, NDPI_PROTOCOL_MSSQL_TDS),
    (''ndpi_search_pptp'', NDPI_SELECTION_BITMASK_PROTOCOL_V4_V6_TCP_WITH_PAYLOAD_WITHOUT_RETRANSMISSION, NDPI_PROTOCOL_PPTP),
    (''ndpi_search_stealthnet'', NDPI_SELECTION_BITMASK_PROTOCOL_V4_V6_TCP_WITH_PAYLOAD_WITHOUT_RETRANSMISSION, NDPI_PROTOCOL_STEALTHNET),
    (''ndpi_search_dhcpv6_udp'', NDPI_SELECTION_BITMASK_PROTOCOL_V6_UDP_WITH_PAYLOAD, NDPI_PROTOCOL_DHCPV6),
    (''ndpi_search_afp'', NDPI_SELECTION_BITMASK_PROTOCOL_V4_V6_TCP_WITH_PAYLOAD_WITHOUT_RETRANSMISSION, NDPI_PROTOCOL_AFP),
    (''ndpi_search_checkmk'', NDPI_SELECTION_BITMASK_PROTOCOL_V4_V6_TCP_WITH_PAYLOAD_WITHOUT_RETRANSMISSION, NDPI_PROTOCOL_CHECKMK),
    (''ndpi_search_cpha'', NDPI_SELECTION_BITMASK_PROTOCOL_UDP_WITH_PAYLOAD, NDPI_PROTOCOL_CPHA),
    (''ndpi_search_aimini'', NDPI_SELECTION_BITMASK_PROTOCOL_V4_V6_TCP_OR_UDP_WITH_PAYLOAD, NDPI_PROTOCOL_AIMINI),
    (''ndpi_search_florensia'', NDPI_SELECTION_BITMASK_PROTOCOL_V4_V6_TCP_OR_UDP_WITH_PAYLOAD_WITHOUT_RETRANSMISSION, NDPI_PROTOCOL_FLORENSIA),
    (''ndpi_search_maplestory'', NDPI_SELECTION_BITMASK_PROTOCOL_V4_V6_TCP_WITH_PAYLOAD_WITHOUT_RETRANSMISSION, NDPI_PROTOCOL_MAPLESTORY),
    (''ndpi_search_dofus'', NDPI_SELECTION_BITMASK_PROTOCOL_V4_V6_TCP_WITH_PAYLOAD_WITHOUT_RETRANSMISSION, NDPI_PROTOCOL_DOFUS),
    (''ndpi_search_world_of_kung_fu'', NDPI_SELECTION_BITMASK_PROTOCOL_V4_V6_TCP_WITH_PAYLOAD_WITHOUT_RETRANSMISSION, NDPI_PROTOCOL_WORLD_OF_KUNG_FU),
    (''ndpi_search_fiesta'', NDPI_SELECTION_BITMASK_PROTOCOL_V4_V6_TCP_WITH_PAYLOAD_WITHOUT_RETRANSMISSION, NDPI_PROTOCOL_FIESTA),
    (''ndpi_search_crossfire_tcp_udp'', NDPI_SELECTION_BITMASK_PROTOCOL_V4_V6_TCP_OR_UDP_WITH_PAYLOAD_WITHOUT_RETRANSMISSION, NDPI_PROTOCOL_CROSSFIRE),
    (''ndpi_search_guildwars_tcp'', NDPI_SELECTION_BITMASK_PROTOCOL_V4_V6_TCP_WITH_PAYLOAD_WITHOUT_RETRANSMISSION, NDPI_PROTOCOL_GUILDWARS),
    (''ndpi_search_armagetron_udp'', NDPI_SELECTION_BITMASK_PROTOCOL_V4_V6_UDP_WITH_PAYLOAD, NDPI_PROTOCOL_ARMAGETRON),
    (''ndpi_search_dropbox'', NDPI_SELECTION_BITMASK_PROTOCOL_V4_V6_UDP_WITH_PAYLOAD, NDPI_PROTOCOL_DROPBOX),
    (''ndpi_search_spotify'', NDPI_SELECTION_BITMASK_PROTOCOL_V4_V6_TCP_OR_UDP_WITH_PAYLOAD_WITHOUT_RETRANSMISSION, NDPI_PROTOCOL_SPOTIFY),
    (''ndpi_search_radius'', NDPI_SELECTION_BITMASK_PROTOCOL_V4_V6_UDP_WITH_PAYLOAD, NDPI_PROTOCOL_RADIUS),
    (''ndpi_search_citrix'', NDPI_SELECTION_BITMASK_PROTOCOL_V4_V6_TCP_WITH_PAYLOAD_WITHOUT_RETRANSMISSION, NDPI_PROTOCOL_CITRIX),
    (''ndpi_search_lotus_notes'', NDPI_SELECTION_BITMASK_PROTOCOL_V4_V6_TCP_WITH_PAYLOAD_WITHOUT_RETRANSMISSION, NDPI_PROTOCOL_LOTUS_NOTES),
    (''ndpi_search_gtp'', NDPI_SELECTION_BITMASK_PROTOCOL_V4_V6_UDP_WITH_PAYLOAD, NDPI_PROTOCOL_GTP),
    (''ndpi_search_dcerpc'', NDPI_SELECTION_BITMASK_PROTOCOL_V4_V6_TCP_OR_UDP_WITH_PAYLOAD_WITHOUT_RETRANSMISSION, NDPI_PROTOCOL_DCERPC),
    (''ndpi_search_netflow'', NDPI_SELECTION_BITMASK_PROTOCOL_V4_V6_UDP_WITH_PAYLOAD, NDPI_PROTOCOL_NETFLOW),
    (''ndpi_search_sflow'', NDPI_SELECTION_BITMASK_PROTOCOL_V4_V6_UDP_WITH_PAYLOAD, NDPI_PROTOCOL_SFLOW),
    (''ndpi_search_h323'', NDPI_SELECTION_BITMASK_PROTOCOL_V4_V6_TCP_OR_UDP_WITH_PAYLOAD, NDPI_PROTOCOL_H323),
    (''ndpi_search_openvpn'', NDPI_SELECTION_BITMASK_PROTOCOL_V4_V6_TCP_OR_UDP_WITH_PAYLOAD, NDPI_PROTOCOL_OPENVPN),
    (''ndpi_search_noe'', NDPI_SELECTION_BITMASK_PROTOCOL_V4_V6_UDP_WITH_PAYLOAD, NDPI_PROTOCOL_NOE)]"

definition registrations_3 :: "call list" where
  "registrations_3 = [
    (''ndpi_search_ciscovpn'', NDPI_SELECTION_BITMASK_PROTOCOL_V4_V6_TCP_OR_UDP_WITH_PAYLOAD, NDPI_PROTOCOL_CISCOVPN),
    (''ndpi_search_teamspeak'', NDPI_SELECTION_BITMASK_PROTOCOL_V4_V6_TCP_OR_UDP_WITH_PAYLOAD, NDPI_PROTOCOL_TEAMSPEAK),
    (''ndpi_search_skinny'', NDPI_SELECTION_BITMASK_PROTOCOL_V4_V6_TCP_WITH_PAYLOAD_WITHOUT_RETRANSMISSION, NDPI_PROTOCOL_SKINNY),
    (''ndpi_search_rtcp'', NDPI_SELECTION_BITMASK_PROTOCOL_V4_V6_TCP_OR_UDP_WITH_PAYLOAD, NDPI_PROTOCOL_RTCP),
    (''ndpi_search_rsync'', NDPI_SELECTION_BITMASK_PROTOCOL_V4_V6_TCP_WITH_PAYLOAD_WITHOUT_RETRANSMISSION, NDPI_PROTOCOL_RSYNC),
    (''ndpi_search_whois_das'', NDPI_SELECTION_BITMASK_PROTOCOL_V4_V6_TCP_WITH_PAYLOAD_WITHOUT_RETRANSMISSION, NDPI_PROTOCOL_WHOIS_DAS),
    (''ndpi_search_oracle'', NDPI_SELECTION_BITMASK_PROTOCOL_V4_V6_TCP_WITH_PAYLOAD_WITHOUT_RETRANSMISSION, NDPI_PROTOCOL_ORACLE),
    (''ndpi_search_corba'', NDPI_SELECTION_BITMASK_PROTOCOL_V4_V6_TCP_WITH_PAYLOAD_WITHOUT_RETRANSMISSION, NDPI_PROTOCOL_CORBA),
    (''ndpi_search_rtmp'', NDPI_SELECTION_BITMASK_PROTOCOL_V4_V6_TCP_WITH_PAYLOAD_WITHOUT_RETRANSMISSION, NDPI_PROTOCOL_RTMP),
    (''ndpi_search_ftp_control'', NDPI_SELECTION_BITMASK_PROTOCOL_V4_V6_TCP_WITH_PAYLOAD_WITHOUT_RETRANSMISSION, NDPI_PROTOCOL_FTP_CONTROL),
    (''ndpi_search_ftp_data'', NDPI_SELECTION_BITMASK_PROTOCOL_V4_V6_TCP_WITH_PAYLOAD_WITHOUT_RETRANSMISSION, NDPI_PROTOCOL_FTP_DATA),
    (''ndpi_search_megaco'', NDPI_SELECTION_BITMASK_PROTOCOL_V4_V6_UDP_WITH_PAYLOAD, NDPI_PROTOCOL_MEGACO),
    (''ndpi_search_redis'', NDPI_SELECTION_BITMASK_PROTOCOL_V4_V6_TCP_WITH_PAYLOAD_WITHOUT_RETRANSMISSION, NDPI_PROTOCOL_REDIS),
    (''ndpi_search_vhua'', NDPI_SELECTION_BITMASK_PROTOCOL_V4_V6_UDP_WITH_PAYLOAD, NDPI_PROTOCOL_VHUA),
    (''ndpi_search_zmq'', NDPI_SELECTION_BITMASK_PROTOCOL_V4_V6_TCP_WITH_PAYLOAD_WITHOUT_RETRANSMISSION, NDPI_PROTOCOL_ZMQ),
    (''ndpi_search_telegram'', NDPI_SELECTION_BITMASK_PROTOCOL_V4_V6_TCP_OR_UDP, NDPI_PROTOCOL_TELEGRAM),
    (''ndpi_search_quic'', NDPI_SELECTION_BITMASK_PROTOCOL_V4_V6_UDP_WITH_PAYLOAD, NDPI_PROTOCOL_QUIC),
    (''ndpi_search_diameter'', NDPI_SELECTION_BITMASK_PROTOCOL_V4_V6_TCP_WITH_PAYLOAD_WITHOUT_RETRANSMISSION, NDPI_PROTOCOL_DIAMETER),
    (''ndpi_search_apple_push'', NDPI_SELECTION_BITMASK_PROTOCOL_V4_V6_TCP_WITH_PAYLOAD, NDPI_PROTOCOL_APPLE_PUSH),
    (''ndpi_search_eaq'', NDPI_SELECTION_BITMASK_PROTOCOL_V4_V6_UDP_WITH_PAYLOAD, NDPI_PROTOCOL_EAQ),
    (''ndpi_search_kakaotalk_voice'', NDPI_SELECTION_BITMASK_PROTOCOL_V4_V6_UDP_WITH_PAYLOAD, NDPI_PROTOCOL_KAKAOTALK_VOICE),
    (''ndpi_search_mpegts'', NDPI_SELECTION_BITMASK_PROTOCOL_V4_V6_UDP_WITH_PAYLOAD, NDPI_PROTOCOL_MPEGTS),
    (''ndpi_search_ubntac2'', NDPI_SELECTION_BITMASK_PROTOCOL_V4_V6_UDP_WITH_PAYLOAD, NDPI_PROTOCOL_UBNTAC2),
    (''ndpi_search_coap'', NDPI_SELECTION_BITMASK_PROTOCOL_V4_V6_UDP_WITH_PAYLOAD, NDPI_PROTOCOL_COAP),
    (''ndpi_search_mqtt'', NDPI_SELECTION_BITMASK_PROTOCOL_V4_V6_TCP_WITH_PAYLOAD, NDPI_PROTOCOL_MQTT),
    (''ndpi_search_someip'', NDPI_SELECTION_BITMASK_PROTOCOL_V4_V6_TCP_OR_UDP_WITH_PAYLOAD, NDPI_PROTOCOL_SOMEIP),
    (''ndpi_search_rx'', NDPI_SELECTION_BITMASK_PROTOCOL_V4_V6_UDP_WITH_PAYLOAD, NDPI_PROTOCOL_RX),
    (''ndpi_search_git'', NDPI_SELECTION_BITMASK_PROTOCOL_V4_V6_TCP_WITH_PAYLOAD_WITHOUT_RETRANSMISSION, NDPI_PROTOCOL_GIT),
    (''ndpi_search_hangout'', NDPI_SELECTION_BITMASK_PROTOCOL_TCP_OR_UDP, NDPI_PROTOCOL_HANGOUT_DUO),
    (''ndpi_search_drda'', NDPI_SELECTION_BITMASK_PROTOCOL_V4_V6_TCP_WITH_PAYLOAD_WITHOUT_RETRANSMISSION, NDPI_PROTOCOL_DRDA),
    (''ndpi_search_bjnp'', NDPI_SELECTION_BITMASK_PROTOCOL_V4_V6_UDP_WITH_PAYLOAD, NDPI_PROTOCOL_BJNP),
    (''ndpi_search_smpp_tcp'', NDPI_SELECTION_BITMASK_PROTOCOL_V4_V6_TCP_WITH_PAYLOAD_WITHOUT_RETRANSMISSION, NDPI_PROTOCOL_SMPP),
    (''ndpi_search_tinc'', NDPI_SELECTION_BITMASK_PROTOCOL_TCP_OR_UDP_WITHOUT_RETRANSMISSION, NDPI_PROTOCOL_TINC),
    (''ndpi_search_fix'', NDPI_SELECTION_BITMASK_PROTOCOL_V4_V6_TCP_WITH_PAYLOAD, NDPI_PROTOCOL_FIX),
    (''ndpi_search_nintendo'', NDPI_SELECTION_BITMASK_PROTOCOL_V4_V6_UDP_WITH_PAYLOAD, NDPI_PROTOCOL_NINTENDO),
    (''ndpi_search_modbus_tcp'', NDPI_SELECTION_BITMASK_PROTOCOL_V4_V6_TCP_WITH_PAYLOAD_WITHOUT_RETRANSMISSION, NDPI_PROTOCOL_MODBUS),
    (''ndpi_search_capwap'', NDPI_SELECTION_BITMASK_PROTOCOL_V4_V6_UDP_WITH_PAYLOAD, NDPI_PROTOCOL_CAPWAP),
    (''ndpi_search_zabbix'', NDPI_SELECTION_BITMASK_PROTOCOL_V4_V6_TCP_WITH_PAYLOAD_WITHOUT_RETRANSMISSION, NDPI_PROTOCOL_ZABBIX),
    (''ndpi_search_viber'', NDPI_SELECTION_BITMASK_PROTOCOL_V4_V6_UDP_WITH_PAYLOAD, NDPI_PROTOCOL_VIBER),
    (''ndpi_search_skype'', NDPI_SELECTION_BITMASK_PROTOCOL_V4_V6_TCP_OR_UDP_WITH_PAYLOAD, NDPI_PROTOCOL_SKYPE_TEAMS),
    (''ndpi_search_bittorrent'', NDPI_SELECTION_BITMASK_PROTOCOL_V4_V6_TCP_OR_UDP_WITH_PAYLOAD_WITHOUT_RETRANSMISSION, NDPI_PROTOCOL_BITTORRENT),
    (''ndpi_search_whatsapp'', NDPI_SELECTION_BITMASK_PROTOCOL_V4_V6_TCP_WITH_PAYLOAD_WITHOUT_RETRANSMISSION, NDPI_PROTOCOL_WHATSAPP),
    (''ndpi_search_ookla'', NDPI_SELECTION_BITMASK_PROTOCOL_V4_V6_TCP_OR_UDP_WITH_PAYLOAD, NDPI_PROTOCOL_OOKLA),
    (''ndpi_search_amqp'', NDPI_SELECTION_BITMASK_PROTOCOL_V4_V6_TCP_WITH_PAYLOAD, NDPI_PROTOCOL_AMQP),
    (''ndpi_search_csgo'', NDPI_SELECTION_BITMASK_PROTOCOL_V4_V6_UDP_WITH_PAYLOAD, NDPI_PROTOCOL_CSGO),
    (''ndpi_search_lisp'', NDPI_SELECTION_BITMASK_PROTOCOL_V4_V6_UDP_WITH_PAYLOAD, NDPI_PROTOCOL_LISP),
    (''ndpi_search_ajp'', NDPI_SELECTION_BITMASK_PROTOCOL_V4_V6_TCP_WITH_PAYLOAD, NDPI_PROTOCOL_AJP)]"

definition registrations_4 :: "call list" where
  "registrations_4 = [
    (''ndpi_search_memcached'', NDPI_SELECTION_BITMASK_PROTOCOL_V4_V6_TCP_OR_UDP_WITH_PAYLOAD, NDPI_PROTOCOL_MEMCACHED),
    (''ndpi_search_nest_log_sink'', NDPI_SELECTION_BITMASK_PROTOCOL_V4_V6_TCP_WITH_PAYLOAD, NDPI_PROTOCOL_NEST_LOG_SINK),
    (''ndpi_search_wireguard'', NDPI_SELECTION_BITMASK_PROTOCOL_V4_V6_UDP_WITH_PAYLOAD, NDPI_PROTOCOL_WIREGUARD),
    (''ndpi_search_amazon_video'', NDPI_SELECTION_BITMASK_PROTOCOL_V4_V6_TCP_OR_UDP_WITH_PAYLOAD, NDPI_PROTOCOL_AMAZON_VIDEO),
    (''ndpi_search_targus_getdata'', NDPI_SELECTION_BITMASK_PROTOCOL_V4_V6_TCP_OR_UDP, NDPI_PROTOCOL_TARGUS_GETDATA),
    (''ndpi_search_s7comm_tcp'', NDPI_SELECTION_BITMASK_PROTOCOL_V4_V6_TCP_WITH_PAYLOAD_WITHOUT_RETRANSMISSION, NDPI_PROTOCOL_S7COMM),
    (''ndpi_search_iec60870_tcp'', NDPI_SELECTION_BITMASK_PROTOCOL_V4_V6_TCP_WITH_PAYLOAD_WITHOUT_RETRANSMISSION, NDPI_PROTOCOL_IEC60870),
    (''ndpi_search_dnp3_tcp'', NDPI_SELECTION_BITMASK_PROTOCOL_V4_V6_TCP_WITH_PAYLOAD_WITHOUT_RETRANSMISSION, NDPI_PROTOCOL_DNP3),
    (''ndpi_search_websocket'', NDPI_SELECTION_BITMASK_PROTOCOL_V4_V6_TCP_WITH_PAYLOAD, NDPI_PROTOCOL_WEBSOCKET),
    (''ndpi_search_soap'', NDPI_SELECTION_BITMASK_PROTOCOL_V4_V6_TCP_WITH_PAYLOAD, NDPI_PROTOCOL_SOAP),
    (''ndpi_search_dnscrypt'', NDPI_SELECTION_BITMASK_PROTOCOL_V4_V6_TCP_OR_UDP_WITH_PAYLOAD, NDPI_PROTOCOL_DNSCRYPT),
    (''ndpi_search_mongodb'', NDPI_SELECTION_BITMASK_PROTOCOL_V4_V6_TCP_WITH_PAYLOAD, NDPI_PROTOCOL_MONGODB),
    (''ndpi_search_among_us'', NDPI_SELECTION_BITMASK_PROTOCOL_V4_V6_UDP_WITH_PAYLOAD, NDPI_PROTOCOL_AMONG_US),
    (''ndpi_search_hpvirtgrp'', NDPI_SELECTION_BITMASK_PROTOCOL_V4_V6_TCP_WITH_PAYLOAD_WITHOUT_RETRANSMISSION, NDPI_PROTOCOL_HPVIRTGRP),
    (''ndpi_search_genshin_impact'', NDPI_SELECTION_BITMASK_PROTOCOL_V4_V6_UDP_WITH_PAYLOAD, NDPI_PROTOCOL_GENSHIN_IMPACT),
    (''ndpi_search_z3950'', NDPI_SELECTION_BITMASK_PROTOCOL_V4_V6_TCP_WITH_PAYLOAD_WITHOUT_RETRANSMISSION, NDPI_PROTOCOL_Z3950),
    (''ndpi_search_avast_securedns'', NDPI_SELECTION_BITMASK_PROTOCOL_V4_V6_UDP_WITH_PAYLOAD, NDPI_PROTOCOL_AVAST_SECUREDNS),
    (''ndpi_search_cassandra'', NDPI_SELECTION_BITMASK_PROTOCOL_V4_V6_TCP_WITH_PAYLOAD, NDPI_PROTOCOL_CASSANDRA)]"

definition registrations :: "call list" where
  "registrations = registrations_1 @ registrations_2 @ registrations_3 @ registrations_4"

section \<open>What is entered\<close>

text \<open>The call that an entry of the buffer stands for.\<close>

definition call_of :: "call_function \<Rightarrow> call option" where
  "call_of e = map_option (\<lambda>g. (g, ndpi_selection_bitmask e, cf_protocol_id e)) (cf_func e)"

definition enabled_call :: "bitmask \<Rightarrow> call \<Rightarrow> bool" where
  "enabled_call bm r \<longleftrightarrow> protocol_bit (snd (snd r)) \<in> protocols bm"

text \<open>Entering calls at the places from \<open>n\<close> on: one that is not enabled keeps its place.\<close>

fun enter :: "bitmask \<Rightarrow> call list \<Rightarrow> nat \<Rightarrow> call option list \<Rightarrow> call option list" where
  "enter bm [] n c = c"
| "enter bm (r # rs) n c = enter bm rs (n + 1) (if enabled_call bm r then c[n := Some r] else c)"

definition enters :: "bitmask \<Rightarrow> call list \<Rightarrow> (registering \<Rightarrow> registering option) \<Rightarrow> bool" where
  "enters bm rs i \<longleftrightarrow> (\<forall>m n m' n'. i (m, n) = Some (m', n') \<longrightarrow> n' = n + length rs
     \<and> detection_bitmask m' = detection_bitmask m \<and> callback_buffers m' = callback_buffers m
     \<and> map call_of (callback_buffer m') = enter bm rs n (map call_of (callback_buffer m)))"

lemma enter_append: "enter bm (rs @ ss) n c = enter bm ss (n + length rs) (enter bm rs n c)"
  by (induction bm rs n c rule: enter.induct) simp_all

lemma enter_free:
  "length rs \<le> k \<Longrightarrow> enter bm rs (length xs) (xs @ replicate k None)
     = xs @ map (\<lambda>r. if enabled_call bm r then Some r else None) rs @ replicate (k - length rs) None"
proof (induction rs arbitrary: xs k)
  case (Cons r rs)
  then obtain l where k: "k = Suc l" "length rs \<le> l" by (cases k) auto
  have "(if enabled_call bm r then (xs @ replicate k None)[length xs := Some r] else xs @ replicate k None)
      = (xs @ [if enabled_call bm r then Some r else None]) @ replicate l None"
    by (simp add: k)
  then show ?case using Cons.IH [OF k(2), of "xs @ [if enabled_call bm r then Some r else None]"]
    by (cases "enabled_call bm r") (simp_all add: k)
qed simp

lemma enters_Nil: "enters bm [] (run_all [])"
  by (simp add: enters_def)

lemma enters_Cons:
  assumes "enters bm rs i" "enters bm ss (run_all js)"
  shows "enters bm (rs @ ss) (run_all (i # js))"
proof -
  have "n' = n + length (rs @ ss) \<and> detection_bitmask m' = detection_bitmask m \<and> callback_buffers m' = callback_buffers m
      \<and> map call_of (callback_buffer m') = enter bm (rs @ ss) n (map call_of (callback_buffer m))"
    if r: "run_all (i # js) (m, n) = Some (m', n')" for m n m' n'
  proof -
    obtain m1 n1 where s: "i (m, n) = Some (m1, n1)" "run_all js (m1, n1) = Some (m', n')" using r by (cases "i (m, n)") auto
    note i = assms(1) [unfolded enters_def, rule_format, OF s(1)] and js = assms(2) [unfolded enters_def, rule_format, OF s(2)]
    show ?thesis unfolding enter_append using i js by simp
  qed
  then show ?thesis unfolding enters_def by blast
qed

lemma enters_append:
  assumes "enters bm rs (run_all is)" "enters bm ss (run_all js)"
  shows "enters bm (rs @ ss) (run_all (is @ js))"
proof -
  have "run_all (is @ js) = (\<lambda>s. Option.bind (run_all is s) (run_all js))"
  proof (induction "is")
    case (Cons x xs)
    show ?case by (simp only: append_Cons run_all_Cons Cons bind_assoc)
  qed simp
  moreover have "run_all [run_all js] = run_all js"
    by (rule ext, rename_tac s, case_tac "run_all js s") simp_all
  ultimately have "run_all (is @ js) = run_all (run_all is # [run_all js])" by (simp only: run_all_Cons)
  moreover have "enters bm (ss @ []) (run_all [run_all js])" by (rule enters_Cons [OF assms(2) enters_Nil])
  ultimately show ?thesis using enters_Cons [OF assms(1)] by simp
qed

lemma enters_register:
  assumes "mask_ok bm"
  shows "enters bm [(func, sel, pid)] (register bm pid func sel save add)"
  unfolding enters_def
proof (intro allI impI)
  fix m n m' n' assume r: "register bm pid func sel save add (m, n) = Some (m', n')"
  show "n' = n + length [(func, sel, pid)] \<and> detection_bitmask m' = detection_bitmask m \<and> callback_buffers m' = callback_buffers m
      \<and> map call_of (callback_buffer m') = enter bm [(func, sel, pid)] n (map call_of (callback_buffer m))"
    using r test_enabled [OF assms, of pid]
    by (auto simp: register_def ndpi_set_bitmask_protocol_detection_def enabled_call_def bind_eq_Some_conv map_update
        call_of_def split: if_splits)
qed

lemma enters_save_unknown: "enters bm [] save_unknown"
  unfolding enters_def
proof (intro allI impI)
  fix m n m' n' assume "save_unknown (m, n) = Some (m', n')"
  then obtain e b where s: "at (callback_buffer m) n = Some e"
    "m' = m\<lparr>callback_buffer := (callback_buffer m)[n := e\<lparr>cf_detection_bitmask := b\<rparr>]\<rparr>" "n' = n"
    by (auto simp: save_unknown_def bind_eq_Some_conv)
  have "call_of (e\<lparr>cf_detection_bitmask := b\<rparr>) = map call_of (callback_buffer m) ! n" "n < length (callback_buffer m)"
    using s(1) by (auto simp: at_def call_of_def split: if_splits)
  then show "n' = n + length ([] :: call list) \<and> detection_bitmask m' = detection_bitmask m \<and> callback_buffers m' = callback_buffers m
      \<and> map call_of (callback_buffer m') = enter bm [] n (map call_of (callback_buffer m))"
    by (simp add: s map_update) (metis length_map list_update_id nth_map)
qed

lemma enters_eq: "enters bm rs i \<Longrightarrow> rs = ss \<Longrightarrow> enters bm ss i"
  by simp

lemmas entering = enters_Cons enters_register enters_save_unknown enters_Nil

lemma enters_dissectors_1: "mask_ok bm \<Longrightarrow> enters bm registrations_1 (run_all (map (\<lambda>i. i bm) dissectors_1))"
  unfolding dissectors_1_def list.map init_defs init_non_tcp_udp_dissector_def
  by (rule enters_eq, (rule entering | assumption)+) (simp only: append.simps registrations_1_def)

lemma enters_dissectors_2: "mask_ok bm \<Longrightarrow> enters bm registrations_2 (run_all (map (\<lambda>i. i bm) dissectors_2))"
  unfolding dissectors_2_def list.map init_defs
  by (rule enters_eq, (rule entering | assumption)+) (simp only: append.simps registrations_2_def)

lemma enters_dissectors_3: "mask_ok bm \<Longrightarrow> enters bm registrations_3 (run_all (map (\<lambda>i. i bm) dissectors_3))"
  unfolding dissectors_3_def list.map init_defs
  by (rule enters_eq, (rule entering | assumption)+) (simp only: append.simps registrations_3_def)

lemma enters_dissectors_4: "mask_ok bm \<Longrightarrow> enters bm registrations_4 (run_all (map (\<lambda>i. i bm) dissectors_4))"
  unfolding dissectors_4_def list.map init_defs
  by (rule enters_eq, (rule entering | assumption)+) (simp only: append.simps registrations_4_def)

lemma enters_all:
  assumes "mask_ok bm"
  shows "enters bm registrations (run_all (map (\<lambda>i. i bm) all_dissectors))"
  unfolding all_dissectors_def registrations_def map_append
  by (intro enters_append enters_dissectors_1 enters_dissectors_2 enters_dissectors_3 enters_dissectors_4 assms)

section \<open>What the buffers hold\<close>

lemma fill_one_rest:
  "fill_one b m = Some m' \<Longrightarrow> callback_buffer m' = callback_buffer m \<and> detection_bitmask m' = detection_bitmask m"
  by (auto simp: fill_one_def bind_eq_Some_conv split: if_splits)

lemma fill_buffers_rest:
  assumes "fill_buffers m = Some m'"
  shows "callback_buffer m' = callback_buffer m \<and> detection_bitmask m' = detection_bitmask m"
  using assms unfolding fill_buffers_def bind_eq_Some_conv by (auto dest!: fill_one_rest)

text \<open>Sorting the entries into the buffers adds no other entry.\<close>

lemma fill_buffer_entries:
  "fill_buffer P es buf n = Some (buf', n') \<Longrightarrow> set buf' \<subseteq> set buf \<union> set es"
proof (induction P es buf n rule: fill_buffer.induct)
  case (2 P e es buf n)
  then show ?case using set_update_subset_insert [of buf n e] by (fastforce split: if_splits)
qed simp

lemma fill_one_entries:
  assumes "fill_one b m = Some m'"
  shows "set (callback_buffers m' c) \<subseteq> set (callback_buffers m c) \<union> set (callback_buffer m)"
proof -
  obtain buf k where buf: "fill_buffer (selected_for b) (take (callback_buffer_size m) (callback_buffer m)) (callback_buffers m b) 0 = Some (buf, k)"
    "callback_buffers m' = (callback_buffers m)(b := buf)"
    using assms by (auto simp: fill_one_def bind_eq_Some_conv split: if_splits)
  show ?thesis using fill_buffer_entries [OF buf(1)] set_take_subset [of "callback_buffer_size m" "callback_buffer m"]
    unfolding buf(2) by auto
qed

lemma fill_buffers_entries:
  assumes "fill_buffers m = Some m'"
  shows "set (callback_buffers m' c) \<subseteq> set (callback_buffers m c) \<union> set (callback_buffer m)"
proof -
  obtain m1 m2 m3 where m: "fill_one callback_buffer_tcp_payload m = Some m1" "fill_one callback_buffer_tcp_no_payload m1 = Some m2"
    "fill_one callback_buffer_udp m2 = Some m3" "fill_one callback_buffer_non_tcp_udp m3 = Some m'"
    using assms by (auto simp: fill_buffers_def bind_eq_Some_conv)
  show ?thesis
    using fill_one_entries [OF m(1), of c] fill_one_entries [OF m(2), of c] fill_one_entries [OF m(3), of c] fill_one_entries [OF m(4), of c]
      fill_one_rest [OF m(1)] fill_one_rest [OF m(2)] fill_one_rest [OF m(3)] by auto
qed

lemma unregistered_calls:
  assumes "registered_ok NDPI_ZERO m"
  shows "map call_of (callback_buffer m) = replicate (NDPI_MAX_SUPPORTED_PROTOCOLS + 1) None"
    "e \<in> set (callback_buffers m b) \<Longrightarrow> call_of e = None"
proof -
  have none: "call_of e = None" if "callback_ok NDPI_ZERO e" for e
    using that zero_protocols by (cases "cf_func e") (simp_all add: callback_ok_def call_of_def)
  have "length (callback_buffer m) = NDPI_MAX_SUPPORTED_PROTOCOLS + 1" "\<forall>e \<in> set (callback_buffer m). call_of e = None"
    using assms none by (auto simp: registered_ok_def)
  then show "map call_of (callback_buffer m) = replicate (NDPI_MAX_SUPPORTED_PROTOCOLS + 1) None"
    by (intro replicate_eqI) auto
  show "e \<in> set (callback_buffers m b) \<Longrightarrow> call_of e = None" using assms none by (auto simp: registered_ok_def)
qed

lemma registrations_length: "length registrations = 169"
  by (simp add: registrations_def registrations_1_def registrations_2_def registrations_3_def registrations_4_def)

lemma registered_calls:
  assumes "mask_ok bm" "registered_ok NDPI_ZERO m" "ndpi_set_protocol_detection_bitmask2 bm m = Some m'"
  shows "map call_of (callback_buffer m') = map (\<lambda>r. if enabled_call bm r then Some r else None) registrations
      @ replicate (NDPI_MAX_SUPPORTED_PROTOCOLS - 168) None"
    "detection_bitmask m' = bm"
    "e \<in> set (callback_buffer m') \<or> e \<in> set (callback_buffers m' b) \<Longrightarrow> call_of e = Some r \<Longrightarrow> r \<in> set registrations \<and> enabled_call bm r"
proof -
  let ?m = "m\<lparr>detection_bitmask := bm, callback_buffer_size := 0\<rparr>"
  obtain m1 a where r: "run_all (map (\<lambda>i. i bm) all_dissectors) (?m, 0) = Some (m1, a)"
    "fill_buffers (m1\<lparr>callback_buffer_size := a\<rparr>) = Some m'"
    using assms(3) by (auto simp: ndpi_set_protocol_detection_bitmask2_def bind_eq_Some_conv)
  have k: "length registrations \<le> NDPI_MAX_SUPPORTED_PROTOCOLS + 1" by (simp add: registrations_length size_defs)
  have "detection_bitmask m1 = bm \<and> callback_buffers m1 = callback_buffers m
      \<and> map call_of (callback_buffer m1) = enter bm registrations 0 (replicate (NDPI_MAX_SUPPORTED_PROTOCOLS + 1) None)"
    using enters_all [OF assms(1)] r(1) unregistered_calls(1) [OF assms(2)] unfolding enters_def by fastforce
  then have m1: "detection_bitmask m1 = bm" "callback_buffers m1 = callback_buffers m"
    "map call_of (callback_buffer m1) = map (\<lambda>r. if enabled_call bm r then Some r else None) registrations
      @ replicate (NDPI_MAX_SUPPORTED_PROTOCOLS - 168) None"
    using enter_free [OF k, of bm "[]"] by (simp_all add: registrations_length)
  note rest = fill_buffers_rest [OF r(2)]
  show b: "map call_of (callback_buffer m') = map (\<lambda>r. if enabled_call bm r then Some r else None) registrations
      @ replicate (NDPI_MAX_SUPPORTED_PROTOCOLS - 168) None"
    "detection_bitmask m' = bm"
    using rest m1 by simp_all
  assume e: "e \<in> set (callback_buffer m') \<or> e \<in> set (callback_buffers m' b)" "call_of e = Some r"
  have "e \<in> set (callback_buffer m')"
    using e fill_buffers_entries [OF r(2), of b] m1(2) unregistered_calls(2) [OF assms(2), of e b] rest by auto
  then have "Some r \<in> set (map call_of (callback_buffer m'))" using e(2) by (metis image_eqI set_map)
  then show "r \<in> set registrations \<and> enabled_call bm r" unfolding b(1) by (auto split: if_splits)
qed

section \<open>Property\<close>

text \<open>
  C13. The callback buffer is the table of registrations. For every set of enabled protocols that
  contains IPsec, registration on a module without dissectors makes each of the 169 calls of the table
  at its own place: the place holds the function, the selection bitmask and the protocol of its
  call when that protocol is enabled, and no function when it is not; no other place holds one.
\<close>

theorem registration_table:
  assumes "mask_ok bm" "unat NDPI_PROTOCOL_IP_IPSEC \<in> protocols bm" "registered_ok NDPI_ZERO m"
  shows "\<exists>m'. ndpi_set_protocol_detection_bitmask2 bm m = Some m' \<and> length registrations = 169
    \<and> map call_of (callback_buffer m') = map (\<lambda>r. if enabled_call bm r then Some r else None) registrations
        @ replicate (NDPI_MAX_SUPPORTED_PROTOCOLS - 168) None"
  using registration_ok [OF assms] registered_calls(1) [OF assms(1,3)] registrations_length by blast

theorem registration_table_witness:
  "\<exists>m'. ndpi_set_protocol_detection_bitmask2 NDPI_ONE zero_module = Some m' \<and> length registrations = 169
    \<and> map call_of (callback_buffer m') = map (\<lambda>r. if enabled_call NDPI_ONE r then Some r else None) registrations
        @ replicate (NDPI_MAX_SUPPORTED_PROTOCOLS - 168) None"
  using one_protocols zero_module_ok by (intro registration_table) (simp_all add: NDPI_NUM_BITS_def)

end
