(* ===== verification/Dissector_Calls.thy ===== *)
theory Dissector_Calls
  imports Dissector_Table Registration_Table Engine_Safety Packet_Tracking
begin

text \<open>
  The modelled dissectors behind the interface of the engine. Registration enters every one of them
  under its name with the selection bitmask of the table, so the engine calls it only for packets it
  is selected for, and the contract \<open>dissector\<close> gives what the interface \<open>engine_calls\<close> asks for. Of a
  function that is not in the table something is asked only when it is registered for a protocol that is enabled.
\<close>

section \<open>Where the defaults of protocols point\<close>

text \<open>The function of a protocol's defaults is that of the entry at its place, below \<open>n\<close>.\<close>

definition defaults_point :: "nat \<Rightarrow> ndpi_module \<Rightarrow> bool" where
  "defaults_point n m \<longleftrightarrow> length (callback_buffer m) \<le> 65536
     \<and> (\<forall>d \<in> set (proto_defaults m). \<forall>g. pd_func d = Some g \<longrightarrow>
          unat (protoIdx d) < n \<and> (\<exists>e. at (callback_buffer m) (unat (protoIdx d)) = Some e \<and> cf_func e = Some g))"

definition points :: "(registering \<Rightarrow> registering option) \<Rightarrow> bool" where
  "points i \<longleftrightarrow> (\<forall>m n m' n'. i (m, n) = Some (m', n') \<and> defaults_point n m \<longrightarrow> defaults_point n' m')"

lemma defaults_point_mono: "defaults_point n m \<Longrightarrow> n \<le> n' \<Longrightarrow> defaults_point n' m"
  by (fastforce simp: defaults_point_def)

text \<open>An entry is stored at the first free place, with a default that points to it or none.\<close>

lemma defaults_point_store:
  assumes l: "defaults_point n m" and n: "n < length (callback_buffer m)"
    and d: "set ds \<subseteq> insert d (set (proto_defaults m))" "\<And>g. pd_func d = Some g \<Longrightarrow> protoIdx d = of_nat n \<and> cf_func e = Some g"
  shows "defaults_point (n + 1) (m\<lparr>proto_defaults := ds, callback_buffer := (callback_buffer m)[n := e]\<rparr>)"
proof -
  have idx: "unat (of_nat n :: u16) = n" using l n by (simp add: defaults_point_def unat_of_nat)
  have "unat (protoIdx c) < n + 1 \<and> (\<exists>e'. at ((callback_buffer m)[n := e]) (unat (protoIdx c)) = Some e' \<and> cf_func e' = Some g)"
    if c: "c \<in> set ds" "pd_func c = Some g" for c g
  proof (cases "c = d")
    case True
    then show ?thesis using d(2) [of g] c(2) idx n by (simp add: at_def)
  next
    case False
    then have "c \<in> set (proto_defaults m)" using d(1) c(1) by auto
    then have "unat (protoIdx c) < n" "\<exists>e'. at (callback_buffer m) (unat (protoIdx c)) = Some e' \<and> cf_func e' = Some g"
      using l c(2) unfolding defaults_point_def by blast+
    then show ?thesis by (auto simp: at_def split: if_splits)
  qed
  then show ?thesis using l unfolding defaults_point_def by simp
qed

lemma points_register: "points (register bm pid func sel save add)"
  unfolding points_def
proof (intro allI impI)
  fix m n m' n' assume a: "register bm pid func sel save add (m, n) = Some (m', n') \<and> defaults_point n m"
  then obtain m1 where m1: "ndpi_set_bitmask_protocol_detection bm n pid func sel save add m = Some m1" "m' = m1" "n' = n + 1"
    by (auto simp: register_def bind_eq_Some_conv)
  obtain enabled where en: "NDPI_COMPARE_PROTOCOL_TO_BITMASK bm pid = Some enabled"
    using m1(1) by (auto simp: ndpi_set_bitmask_protocol_detection_def bind_eq_Some_conv)
  show "defaults_point n' m'"
  proof (cases enabled)
    case False
    then have "m' = m" using m1 en by (simp add: ndpi_set_bitmask_protocol_detection_def)
    then show ?thesis using a defaults_point_mono [of n m "n + 1"] m1(3) by simp
  next
    case True
    then obtain d e det exc where s: "at (callback_buffer m) n = Some e"
      "m' = m\<lparr>proto_defaults := (proto_defaults m)[unat pid := d\<lparr>protoIdx := of_nat n, pd_func := Some func\<rparr>],
              callback_buffer := (callback_buffer m)[n :=
                e\<lparr>cf_func := Some func, cf_protocol_id := pid, ndpi_selection_bitmask := sel,
                  cf_detection_bitmask := det, cf_excluded_bitmask := exc\<rparr>]\<rparr>"
      using m1(1,2) en by (auto simp: ndpi_set_bitmask_protocol_detection_def bind_eq_Some_conv)
    have "n < length (callback_buffer m)" using s(1) by (auto simp: at_def split: if_splits)
    then show ?thesis unfolding s(2) m1(3) using a
      by (intro defaults_point_store [where d = "d\<lparr>protoIdx := of_nat n, pd_func := Some func\<rparr>"]) (auto simp: set_update_subset_insert)
  qed
qed

lemma points_save_unknown: "points save_unknown"
  unfolding points_def
proof (intro allI impI)
  fix m n m' n' assume a: "save_unknown (m, n) = Some (m', n') \<and> defaults_point n m"
  then obtain e b where s: "at (callback_buffer m) n = Some e"
    "m' = m\<lparr>callback_buffer := (callback_buffer m)[n := e\<lparr>cf_detection_bitmask := b\<rparr>]\<rparr>" "n' = n"
    by (auto simp: save_unknown_def bind_eq_Some_conv)
  let ?e = "e\<lparr>cf_detection_bitmask := b\<rparr>"
  have l: "defaults_point n m" using a by simp
  have "unat (protoIdx d) < n \<and> (\<exists>e'. at ((callback_buffer m)[n := ?e]) (unat (protoIdx d)) = Some e' \<and> cf_func e' = Some g)"
    if "d \<in> set (proto_defaults m)" "pd_func d = Some g" for d g
  proof -
    have "unat (protoIdx d) < n" "\<exists>e'. at (callback_buffer m) (unat (protoIdx d)) = Some e' \<and> cf_func e' = Some g"
      using l that unfolding defaults_point_def by blast+
    then show ?thesis by (auto simp: at_def split: if_splits)
  qed
  then show "defaults_point n' m'" using l unfolding s defaults_point_def by simp
qed

lemma points_Nil: "points (run_all [])"
  by (simp add: points_def)

lemma points_Cons:
  assumes "points i" "points (run_all js)"
  shows "points (run_all (i # js))"
proof -
  have "defaults_point n' m'" if r: "run_all (i # js) (m, n) = Some (m', n')" and l: "defaults_point n m" for m n m' n'
  proof -
    obtain s where s: "i (m, n) = Some s" "run_all js s = Some (m', n')" using r by (cases "i (m, n)") auto
    moreover obtain m1 n1 where "s = (m1, n1)" by (cases s)
    ultimately show ?thesis using assms l unfolding points_def by metis
  qed
  then show ?thesis unfolding points_def by blast
qed

lemma points_run_all: "list_all points is \<Longrightarrow> points (run_all is)"
  by (induction "is") (auto intro: points_Nil points_Cons simp del: run_all.simps)

lemma all_point: "points (run_all (map (\<lambda>i. i bm) all_dissectors))"
  by (rule points_run_all)
    (simp only: all_dissectors_def dissectors_1_def dissectors_2_def dissectors_3_def dissectors_4_def append.simps list.map
      list.pred_inject init_defs init_non_tcp_udp_dissector_def points_register points_save_unknown points_Nil points_Cons simp_thms)

text \<open>A module without functions points nowhere.\<close>

definition unlisted :: "ndpi_module \<Rightarrow> bool" where
  "unlisted m \<longleftrightarrow> registered_ok NDPI_ZERO m \<and> (\<forall>d \<in> set (proto_defaults m). pd_func d = None)"

lemma fill_one_defaults: "fill_one b m = Some m' \<Longrightarrow> proto_defaults m' = proto_defaults m"
  by (auto simp: fill_one_def bind_eq_Some_conv split: if_splits)

lemma fill_buffers_defaults: "fill_buffers m = Some m' \<Longrightarrow> proto_defaults m' = proto_defaults m"
  unfolding fill_buffers_def bind_eq_Some_conv by (auto dest!: fill_one_defaults)

lemma registration_points:
  assumes "unlisted m" "ndpi_set_protocol_detection_bitmask2 bm m = Some m'"
  shows "defaults_point 65536 m'"
proof -
  obtain m1 a where r: "run_all (map (\<lambda>i. i bm) all_dissectors) (m\<lparr>detection_bitmask := bm, callback_buffer_size := 0\<rparr>, 0) = Some (m1, a)"
    "fill_buffers (m1\<lparr>callback_buffer_size := a\<rparr>) = Some m'"
    using assms(2) by (auto simp: ndpi_set_protocol_detection_bitmask2_def bind_eq_Some_conv)
  have "defaults_point 0 (m\<lparr>detection_bitmask := bm, callback_buffer_size := 0\<rparr>)"
    using assms(1) by (simp add: unlisted_def defaults_point_def registered_ok_def size_defs)
  then have "defaults_point a m1" using all_point r(1) unfolding points_def by blast
  then have l: "defaults_point a m'"
    using fill_buffers_rest [OF r(2)] fill_buffers_defaults [OF r(2)] by (simp add: defaults_point_def)
  have "unat (protoIdx d) < 65536" for d using unsigned_less [of "protoIdx d", where 'a = nat] by simp
  then show ?thesis using l unfolding defaults_point_def by blast
qed

section \<open>The table and the registrations\<close>

definition table_selection :: "string \<Rightarrow> u32 option" where
  "table_selection g = map_of (map (\<lambda>(g, sel, ids, d). (g, sel)) modelled_dissectors) g"

lemma table_selection_lookup: "table_selection g = map_option fst (map_of modelled_dissectors g)"
proof -
  have "map_of (map (\<lambda>(g, sel, ids, d). (g, sel)) t) g = map_option fst (map_of t g)" for t :: "(string \<times> u32 \<times> u16 set \<times> dissecting) list"
    by (induction t) auto
  then show ?thesis by (simp add: table_selection_def)
qed

lemmas table_selection_if = table_selection_def [unfolded modelled_dissectors_def list.map prod.case map_of_Cons_code]

text \<open>Every registration of a function of the table asks for the selection of the table.\<close>

definition agrees :: "call \<Rightarrow> bool" where
  "agrees r \<longleftrightarrow> table_selection (fst r) = None \<or> table_selection (fst r) = Some (fst (snd r))"

lemma agreesI: "table_selection g = x \<Longrightarrow> x = None \<or> x = Some s \<Longrightarrow> agrees (g, s, p)"
  by (simp add: agrees_def)

lemmas looking_up = table_selection_if list.inject list.distinct char.inject simp_thms if_False if_True

lemma agree_1: "list_all agrees registrations_1"
  unfolding registrations_1_def list.pred_inject
  by (intro conjI list.pred_inject(1); rule agreesI, simp only: looking_up, simp)

lemma agree_2: "list_all agrees registrations_2"
  unfolding registrations_2_def list.pred_inject
  by (intro conjI list.pred_inject(1); rule agreesI, simp only: looking_up, simp)

lemma agree_3: "list_all agrees registrations_3"
  unfolding registrations_3_def list.pred_inject
  by (intro conjI list.pred_inject(1); rule agreesI, simp only: looking_up, simp)

lemma agree_4: "list_all agrees registrations_4"
  unfolding registrations_4_def list.pred_inject
  by (intro conjI list.pred_inject(1); rule agreesI, simp only: looking_up, simp)

lemma registrations_agree: "r \<in> set registrations \<Longrightarrow> agrees r"
  using agree_1 agree_2 agree_3 agree_4 by (auto simp: registrations_def list_all_iff)

text \<open>The functions that a mask lets the engine call.\<close>

definition callable :: "bitmask \<Rightarrow> string set" where
  "callable bm = fst ` set (filter (enabled_call bm) registrations)"

lemma registered_bits: "list_all (\<lambda>r. unat (snd (snd r)) < NDPI_NUM_BITS) registrations"
  unfolding registrations_def registrations_1_def registrations_2_def registrations_3_def registrations_4_def
  by (simp add: NDPI_NUM_BITS_def)

lemma callable_of:
  assumes "protocols bm = unat ` set ps"
  shows "callable bm = fst ` set (filter (\<lambda>r. snd (snd r) \<in> set ps) registrations)"
proof -
  have "enabled_call bm r \<longleftrightarrow> snd (snd r) \<in> set ps" if "r \<in> set registrations" for r
  proof -
    have "protocol_bit (snd (snd r)) = unat (snd (snd r))"
      using registered_bits that by (intro protocol_bit_id) (auto simp: list_all_iff)
    moreover have "unat q \<in> unat ` set ps \<longleftrightarrow> q \<in> set ps" for q
      by (rule inj_image_mem_iff) (rule injI, rule unsigned_word_eqI)
    ultimately show ?thesis by (simp add: enabled_call_def assms)
  qed
  then show ?thesis by (auto simp: callable_def cong: rev_conj_cong intro!: image_cong)
qed

section \<open>The engine that calls them\<close>

text \<open>A call by name: a dissector of the table changes the flow only, the others are those of the environment.\<close>

definition run_dissector :: "engine_env \<Rightarrow> string \<Rightarrow> bytes \<Rightarrow> ndpi_module \<times> ndpi_flow \<Rightarrow> (ndpi_module \<times> ndpi_flow) option" where
  "run_dissector env g mem s =
     (case map_of modelled_dissectors g of
        None \<Rightarrow> call_func env g mem s
      | Some (sel, ids, d) \<Rightarrow> map_option (Pair (fst s)) (d mem (fst s) (snd s)))"

definition with_dissectors :: "engine_env \<Rightarrow> engine_env" where
  "with_dissectors env = env\<lparr>call_func := run_dissector env\<rparr>"

text \<open>What every packet finds and leaves, and every call on the packet \<open>mem\<close>.\<close>

definition calls_registered :: "bitmask \<Rightarrow> ndpi_module \<Rightarrow> bool" where
  "calls_registered bm m \<longleftrightarrow> (\<forall>e r b. (e \<in> set (callback_buffer m) \<or> e \<in> set (callback_buffers m b)) \<and> call_of e = Some r
     \<longrightarrow> r \<in> set registrations \<and> enabled_call bm r)"

definition engine_ready :: "bitmask \<Rightarrow> ndpi_module \<times> ndpi_flow \<Rightarrow> bool" where
  "engine_ready bm s \<longleftrightarrow> module_ok bm (fst s) \<and> calls_registered bm (fst s) \<and> defaults_point 65536 (fst s)
     \<and> mask_ok (detection_bitmask (fst s)) \<and> stages (snd s) postgres_stage \<le> 4
     \<and> flow_fine (snd s) \<and> flow_ready (fst s) (snd s) \<and> flow_ok (snd s)
     \<and> unat (guessed_host_protocol_id (snd s)) < NDPI_MAX_SUPPORTED_PROTOCOLS + NDPI_MAX_NUM_CUSTOM_PROTOCOLS"

definition dissecting_ok :: "bitmask \<Rightarrow> u32 \<Rightarrow> bytes \<Rightarrow> ndpi_module \<times> ndpi_flow \<Rightarrow> bool" where
  "dissecting_ok bm sel mem s \<longleftrightarrow> engine_ready bm s \<and> pkt_direction (packet (fst s)) \<le> 1
     \<and> view_ok (length mem) (packet (fst s)) \<and> selection_of (packet (fst s)) = sel"

text \<open>The functions that the mask lets the engine call and that are not in the table return and keep it.\<close>

definition others_ok :: "engine_env \<Rightarrow> bitmask \<Rightarrow> bytes \<Rightarrow> (ndpi_module \<times> ndpi_flow \<Rightarrow> bool) \<Rightarrow> bool" where
  "others_ok env bm mem P \<longleftrightarrow> (\<forall>g \<in> callable bm. map_of modelled_dissectors g = None \<longrightarrow>
     (\<forall>s. P s \<longrightarrow> (\<exists>s'. call_func env g mem s = Some s' \<and> P s')))"

lemma entry_protocols:
  assumes "map_of modelled_dissectors g = Some (s, ids, d)"
  shows "dissector d ids s" "NDPI_PROTOCOL_UNKNOWN \<notin> ids" "p \<in> ids \<Longrightarrow> unat p < NDPI_MAX_SUPPORTED_PROTOCOLS"
proof -
  have e: "(g, s, ids, d) \<in> set modelled_dissectors" using assms by (rule map_of_SomeD)
  show "dissector d ids s" by (rule modelled_contract [OF e])
  show "NDPI_PROTOCOL_UNKNOWN \<notin> ids" "p \<in> ids \<Longrightarrow> unat p < NDPI_MAX_SUPPORTED_PROTOCOLS"
    using modelled_protocols [OF e] by blast+
qed

text \<open>A dissector leaves the fields alone that tracking writes.\<close>

lemma undissected_flow_ok: "undissected f' = undissected f \<Longrightarrow> flow_ok f' = flow_ok f"
proof -
  have "flow_ok (undissected f) = flow_ok f" for f by (simp add: flow_ok_def undissected_def)
  then show "undissected f' = undissected f \<Longrightarrow> flow_ok f' = flow_ok f" by metis
qed

lemma dissector_keeps:
  assumes inv: "dissecting_ok bm sel mem (m, f)" and g: "map_of modelled_dissectors g = Some (s, ids, d)" and s: "s AND sel = s"
  shows "\<exists>f'. d mem m f = Some f' \<and> dissecting_ok bm sel mem (m, f')"
proof -
  have "selected s (packet m)" using inv s by (auto simp: selected_def dissecting_ok_def ac_simps)
  moreover have "session_ok m f" using inv by (simp add: session_ok_def dissecting_ok_def engine_ready_def)
  ultimately have "verdict ids m f (d mem m f)"
    using dissector.decides [OF entry_protocols(1) [OF g]] inv by (simp add: dissecting_ok_def)
  then obtain f' where f': "d mem m f = Some f'" "flow_steps ids m f f'" "flow_ready m f'"
    using inv by (auto simp: verdict_def dissecting_ok_def engine_ready_def)
  note same = undissected_fields [OF steps_undissected [OF f'(2)]] undissected_flow_ok [OF steps_undissected [OF f'(2)]]
  have "app_of f' \<in> {app_of f, guessed_host_protocol_id f} \<union> ids" by (rule steps_app [OF f'(2) entry_protocols(2) [OF g]])
  then have "unat (app_of f') < NDPI_MAX_SUPPORTED_PROTOCOLS + NDPI_MAX_NUM_CUSTOM_PROTOCOLS"
    using inv entry_protocols(3) [OF g] by (auto simp: dissecting_ok_def engine_ready_def flow_fine_def intro: trans_less_add1)
  moreover have "stages f' postgres_stage \<le> 4" using steps_postgres [OF f'(2)] inv by (simp add: dissecting_ok_def engine_ready_def)
  ultimately show ?thesis using f' inv same by (auto simp: dissecting_ok_def engine_ready_def flow_fine_def flow_ready_def)
qed

lemma run_dissector_keeps:
  assumes "others_ok env bm mem (dissecting_ok bm sel mem)" "dissecting_ok bm sel mem (m, f)"
    "(g, s, p) \<in> set registrations" "enabled_call bm (g, s, p)" "s AND sel = s"
  shows "\<exists>m' f'. run_dissector env g mem (m, f) = Some (m', f') \<and> dissecting_ok bm sel mem (m', f')"
proof (cases "map_of modelled_dissectors g")
  case None
  have "g \<in> callable bm" using assms(3,4) by (force simp: callable_def)
  then obtain s' where "call_func env g mem (m, f) = Some s'" "dissecting_ok bm sel mem s'"
    using assms(1,2) None unfolding others_ok_def by blast
  then show ?thesis using None by (cases s') (simp add: run_dissector_def)
next
  case (Some e)
  obtain t ids d where e: "e = (t, ids, d)" by (cases e)
  have "t = s" using registrations_agree [OF assms(3)] Some by (simp add: agrees_def table_selection_lookup e)
  then show ?thesis using dissector_keeps [OF assms(2) Some [unfolded e]] assms(5) Some e by (auto simp: run_dissector_def)
qed

lemma default_entry:
  assumes "dissecting_ok bm sel mem (m, f)" "d \<in> set (proto_defaults m)" "pd_func d = Some g"
    "at (callback_buffer m) (unat (protoIdx d)) = Some e"
  shows "e \<in> set (callback_buffer m)" "cf_func e = Some g"
  using assms unfolding dissecting_ok_def engine_ready_def defaults_point_def by (auto simp: at_def split: if_splits)

lemma modelled_call_keeps:
  assumes "others_ok env bm mem (dissecting_ok bm sel mem) \<and> dissecting_ok bm sel mem (m, f)"
    "e \<in> set (callback_buffer m) \<or> e \<in> set (callback_buffers m b)" "cf_func e = Some g" "selects sel e"
  shows "\<exists>m' f'. call_func (with_dissectors env) g mem (m, f) = Some (m', f')
    \<and> others_ok env bm mem (dissecting_ok bm sel mem) \<and> dissecting_ok bm sel mem (m', f')"
proof -
  let ?r = "(g, ndpi_selection_bitmask e, cf_protocol_id e)"
  have "call_of e = Some ?r" by (simp add: call_of_def assms(3))
  then have "?r \<in> set registrations" "enabled_call bm ?r"
    using assms(1,2) unfolding dissecting_ok_def engine_ready_def calls_registered_def by (auto simp del: split_paired_All)
  from run_dissector_keeps [OF _ _ this] assms(1,4) show ?thesis by (simp add: with_dissectors_def selects_def)
qed

interpretation modelled_calls: engine_calls "with_dissectors env" mem sel bm
    "\<lambda>s. others_ok env bm mem (dissecting_ok bm sel mem) \<and> dissecting_ok bm sel mem s" for env mem sel bm
proof
  fix m f assume "others_ok env bm mem (dissecting_ok bm sel mem) \<and> dissecting_ok bm sel mem (m, f)"
  then show "module_ok bm m \<and> flow_fine f" by (simp add: dissecting_ok_def engine_ready_def)
next
  fix m f d g e
  assume a: "others_ok env bm mem (dissecting_ok bm sel mem) \<and> dissecting_ok bm sel mem (m, f)" "d \<in> set (proto_defaults m)"
    "pd_func d = Some g" "at (callback_buffer m) (unat (protoIdx d)) = Some e" "selects sel e"
  have "e \<in> set (callback_buffer m)" "cf_func e = Some g" using default_entry [OF _ a(2,3,4)] a(1) by blast+
  then show "\<exists>m' f'. call_func (with_dissectors env) g mem (m, f) = Some (m', f')
      \<and> others_ok env bm mem (dissecting_ok bm sel mem) \<and> dissecting_ok bm sel mem (m', f')"
    using modelled_call_keeps [OF a(1) disjI1 _ a(5)] by blast
qed (rule modelled_call_keeps)

end
