(* ===== verification/Dissection.thy ===== *)
theory Dissection
  imports Dissector_Calls
begin

text \<open>
  The way of a packet through the engine with the modelled dissectors: it is set up, tracked and
  given to the dissectors that fit it. The invariants of packet layer, engine and dissectors hold
  together for every sequence of packets.
\<close>

section \<open>Packets in front of the dissectors\<close>

text \<open>What dissectors read of a flow, which setting up and tracking a packet leaves as it is.\<close>

definition dissector_part ::
  "ndpi_flow \<Rightarrow> (u16 \<times> u16) \<times> u16 \<times> u16 \<times> u32 list \<times> bytes \<times> (flow_field \<Rightarrow> nat) \<times> (flow_buffer \<Rightarrow> bytes)" where
  "dissector_part f = (detected_protocol_stack f, guessed_protocol_id f, guessed_host_protocol_id f,
     excluded_protocol_bitmask f, host_server_name f, stages f, saved_bytes f)"

lemma part_tracking:
  "dissector_part (tcp_handshake syn ack f) = dissector_part f"
  "dissector_part (fst (tcp_sequence w syn ack s a len d f)) = dissector_part f"
  "dissector_part (count_packet e len f) = dissector_part f"
  by (simp_all add: dissector_part_def tcp_handshake_def tcp_sequence_def count_packet_def Let_def)

lemma part_addresses: "track_addresses m p f = Some f' \<Longrightarrow> dissector_part f' = dissector_part f"
  by (cases "iphv6 p") (auto simp: dissector_part_def track_addresses_def Let_def bind_eq_Some_conv)

lemma part_ports: "track_ports fx m i p f = Some (p', f') \<Longrightarrow> dissector_part f' = dissector_part f"
  by (auto simp: dissector_part_def track_ports_def bind_eq_Some_conv)

lemma part_tcp:
  assumes "track_tcp w m i p f = Some (p', f')"
  shows "dissector_part f' = dissector_part f"
proof -
  from assms obtain syn ack s a rst where
    f': "f' = (let g = fst (tcp_sequence w syn ack s a (payload_packet_len p) (pkt_direction p) (tcp_handshake syn ack f))
          in if rst then g\<lparr>next_tcp_seq_nr := (0, 0)\<rparr> else g)"
    unfolding track_tcp_def Let_def case_prod_beta bind_eq_Some_conv prod.inject option.inject by blast
  have "dissector_part (g\<lparr>next_tcp_seq_nr := q\<rparr>) = dissector_part g" for g q by (simp add: dissector_part_def)
  then show ?thesis by (simp add: f' Let_def part_tracking)
qed

lemma part_connection:
  assumes "ndpi_connection_tracking dis w m p f = Some (p', f')"
  shows "dissector_part f' = dissector_part f"
proof -
  from assms obtain q f1 f2 r where f1: "track_addresses m q f = Some f1"
    and f2: "track_transport dis w m r f1 = Some (p', f2)" and f': "f' = count_packet (pkt_direction p') (payload_packet_len p') f2"
    unfolding ndpi_connection_tracking_def Let_def bind_eq_Some_conv by auto
  have "dissector_part f2 = dissector_part f1"
    using f2 by (auto simp: track_transport_def bind_eq_Some_conv split: option.splits dest!: part_ports part_tcp)
  then show ?thesis using part_addresses [OF f1] by (simp add: f' part_tracking)
qed

text \<open>Setting up a packet leaves these fields as they are, or resets the flow.\<close>

lemma part_set_transport:
  assumes "set_transport m i l h q f = Some (rc, p', f')"
  shows "dissector_part f' = dissector_part f \<or> f' = reset_on_syn f"
  using assms by (auto simp: set_transport_def bind_eq_Some_conv Let_def split: if_splits)

lemma part_init:
  assumes "ndpi_init_packet lim p f t m n = Some (rc, p', f')"
  shows "dissector_part f' = dissector_part f \<or> f' = reset_on_syn f"
proof -
  have proto: "dissector_part (f\<lparr>l4_proto := h\<rparr>) = dissector_part f" "reset_on_syn (f\<lparr>l4_proto := h\<rparr>) = reset_on_syn f" for h
    by (simp_all add: dissector_part_def reset_on_syn_def)
  from assms show ?thesis
    by (auto simp: ndpi_init_packet_def bind_eq_Some_conv Let_def proto split: if_splits option.splits dest!: part_set_transport)
qed

lemma part_ready:
  assumes "dissector_part f' = dissector_part f"
  shows "flow_fine f' = flow_fine f" "flow_ready m f' = flow_ready m f" "guessed_host_protocol_id f' = guessed_host_protocol_id f"
    "stages f' = stages f"
  using assms by (simp_all add: dissector_part_def flow_fine_def flow_ready_def)

lemma reset_ready:
  assumes "flow_fine f" "flow_ready m f"
  shows "flow_fine (reset_on_syn f)" "flow_ready m (reset_on_syn f)" "stages (reset_on_syn f) = (\<lambda>_. 0)"
  using assms fresh_flow_fine fresh_flow_ready
  by (auto simp: flow_fine_def flow_ready_def reset_on_syn_def zero_flow_def size_defs)

lemma ready_of_packet: "engine_ready bm (m\<lparr>packet := p\<rparr>, f) = engine_ready bm (m, f)"
  by (simp add: engine_ready_def module_ok_def registered_ok_def calls_registered_def defaults_point_def flow_ready_def)

lemma init_ready:
  assumes "engine_ready bm (m, f)"
  shows "\<exists>rc m1 f1. init_packet_of mem (length mem) time m f = Some (rc, m1, f1) \<and> engine_ready bm (m1, f1)
    \<and> (rc = 0 \<longrightarrow> view_ok (length mem) (packet m1))"
proof -
  obtain rc p f1 where i: "ndpi_init_packet (ip_version_limit m) (packet m) f time mem (length mem) = Some (rc, p, f1)"
    "rc = 0 \<longrightarrow> view_ok (length mem) p"
    using init_packet_safe [of "length mem" mem "ip_version_limit m" "packet m" f time] by auto
  have "engine_ready bm (m, f1)"
    using part_init [OF i(1)]
  proof
    assume "dissector_part f1 = dissector_part f"
    from part_ready [OF this] show ?thesis using assms flow_ok_init [OF _ i(1)] by (simp add: engine_ready_def)
  next
    assume "f1 = reset_on_syn f"
    then show ?thesis using assms reset_ready [of f m] flow_ok_init [OF _ i(1)] by (simp add: engine_ready_def reset_on_syn_def)
  qed
  then show ?thesis using i by (simp add: init_packet_of_def ready_of_packet)
qed

lemma track_ready:
  assumes "engine_ready bm (m, f)" "view_ok (length mem) (packet m)"
  shows "\<exists>m1 f1. track_packet mem m f = Some (m1, f1) \<and> engine_ready bm (m1, f1) \<and> view_ok (length mem) (packet m1)
    \<and> pkt_direction (packet m1) \<le> 1"
proof -
  have f: "flow_ok f" using assms(1) by (simp add: engine_ready_def)
  then have "flow_direction f \<le> 1" by (simp add: flow_ok_def)
  from connection_tracking_safe [OF assms(2) order_refl this, of "direction_detect_disable m" "tcp_max_retransmission_window_size m"]
  obtain p f1 where t: "ndpi_connection_tracking (direction_detect_disable m) (tcp_max_retransmission_window_size m) mem (packet m) f = Some (p, f1)"
    "view_ok (length mem) p" "pkt_direction p \<le> 1" by blast
  have "engine_ready bm (m, f1)"
    using assms(1) part_ready [OF part_connection [OF t(1)]] flow_ok_tracking [OF f assms(2) order_refl t(1)] by (simp add: engine_ready_def)
  then show ?thesis using t by (simp add: track_packet_def ready_of_packet)
qed

section \<open>Packet after packet\<close>

text \<open>
  A packet of arbitrary bytes: it is set up, tracked, and given to the dissectors that fit it. The
  flow starts cleared, on the module that registration made.
\<close>

definition dissect_packet ::
  "engine_env \<Rightarrow> u64 \<Rightarrow> bytes \<Rightarrow> ndpi_module \<times> ndpi_flow \<Rightarrow> (ndpi_module \<times> ndpi_flow) option" where
  "dissect_packet env time mem s = do {
     (rc, m, f) \<leftarrow> init_packet_of mem (length mem) time (fst s) (snd s);
     if rc \<noteq> 0 then Some (m, f)
     else do {
       (m, f) \<leftarrow> track_packet mem m f;
       (n, m, f) \<leftarrow> ndpi_check_flow_func (with_dissectors env) mem (selection_of (packet m)) m f;
       Some (m, f)
     }
   }"

text \<open>
  The packets of a flow have one transport, TCP (\<open>t\<close>) or not: the fields that dissectors keep for TCP and for UDP share their
  memory in the code, a union of two structures, and are separate here.
\<close>

definition transport_is :: "bool \<Rightarrow> u64 \<Rightarrow> bytes \<Rightarrow> ndpi_module \<times> ndpi_flow \<Rightarrow> bool" where
  "transport_is t time mem s \<longleftrightarrow>
     (case init_packet_of mem (length mem) time (fst s) (snd s) of
        None \<Rightarrow> True
      | Some (rc, m, f) \<Rightarrow> (present (tcp (packet m)) \<longrightarrow> t) \<and> (present (udp (packet m)) \<longrightarrow> \<not> t))"

inductive dissected :: "engine_env \<Rightarrow> bitmask \<Rightarrow> bool \<Rightarrow> ndpi_module \<times> ndpi_flow \<Rightarrow> bool" for env bm t where
  start: "mask_ok bm \<Longrightarrow> unat NDPI_PROTOCOL_IP_IPSEC \<in> protocols bm \<Longrightarrow> unlisted m0
    \<Longrightarrow> ndpi_set_protocol_detection_bitmask2 bm m0 = Some m \<Longrightarrow> dissected env bm t (m, zero_flow)"
| packet: "dissected env bm t s \<Longrightarrow> transport_is t time mem s \<Longrightarrow> dissect_packet env time mem s = Some s'
    \<Longrightarrow> dissected env bm t s'"

lemma dissect_ready:
  assumes "\<forall>mem sel. others_ok env bm mem (dissecting_ok bm sel mem)" "engine_ready bm s"
  shows "\<exists>s'. dissect_packet env time mem s = Some s' \<and> engine_ready bm s'"
proof -
  obtain rc m1 f1 where i: "init_packet_of mem (length mem) time (fst s) (snd s) = Some (rc, m1, f1)" "engine_ready bm (m1, f1)"
    "rc = 0 \<longrightarrow> view_ok (length mem) (packet m1)"
    using init_ready [of bm "fst s" "snd s" mem time] assms(2) by auto
  show ?thesis
  proof (cases "rc = 0")
    case True
    then obtain m2 f2 where t: "track_packet mem m1 f1 = Some (m2, f2)" "engine_ready bm (m2, f2)" "view_ok (length mem) (packet m2)"
      "pkt_direction (packet m2) \<le> 1"
      using track_ready [OF i(2)] i(3) by blast
    have "others_ok env bm mem (dissecting_ok bm (selection_of (packet m2)) mem) \<and> dissecting_ok bm (selection_of (packet m2)) mem (m2, f2)"
      using assms(1) t by (simp add: dissecting_ok_def)
    from modelled_calls.check_flow_func_ok [OF this] show ?thesis
      using i(1) t(1) True by (auto simp: dissect_packet_def dissecting_ok_def)
  next
    case False
    then show ?thesis using i by (simp add: dissect_packet_def)
  qed
qed

lemma start_ready:
  assumes "mask_ok bm" "unat NDPI_PROTOCOL_IP_IPSEC \<in> protocols bm" "unlisted m0" "ndpi_set_protocol_detection_bitmask2 bm m0 = Some m"
  shows "engine_ready bm (m, zero_flow)"
proof -
  have zero: "registered_ok NDPI_ZERO m0" using assms(3) by (simp add: unlisted_def)
  from registration_ok [OF assms(1,2) this] assms(4) have m: "module_ok bm m" by (auto intro: registered_module_ok)
  then have "flow_ready m zero_flow" using fresh_flow_ready by (simp add: flow_ready_def module_ok_def registered_ok_def)
  moreover have "calls_registered bm m"
    unfolding calls_registered_def using registered_calls(3) [OF assms(1) zero assms(4)] by blast
  moreover have "stages zero_flow postgres_stage \<le> 4" by (simp add: zero_flow_def)
  ultimately show ?thesis using m registration_points [OF assms(3,4)] registered_calls(2) [OF assms(1) zero assms(4)] assms(1)
      fresh_flow_fine zero_flow_ok
    by (simp add: engine_ready_def zero_flow_def size_defs)
qed

lemma dissected_ready:
  assumes "dissected env bm t s" "\<forall>mem sel. others_ok env bm mem (dissecting_ok bm sel mem)"
  shows "engine_ready bm s"
  using assms(1)
proof (induction rule: dissected.induct)
  case (start m0 m)
  then show ?case by (rule start_ready)
next
  case (packet s time mem s')
  then show ?case using dissect_ready [OF assms(2) packet.IH, of time mem] by simp
qed

section \<open>Properties\<close>

lemma unlisted_zero: "unlisted zero_module"
  using zero_module_ok by (simp add: unlisted_def zero_module_def zero_default_def)

text \<open>
  A mask all of whose functions are in the table, and an environment whose functions never return:
  the engine does not need them.
\<close>

definition small_mask :: "bitmask option" where
  "small_mask = add_all NDPI_SET [unat NDPI_PROTOCOL_IP_IPSEC, unat NDPI_PROTOCOL_SNMP, unat NDPI_PROTOCOL_TFTP] NDPI_ZERO"

definition stuck_env :: engine_env where
  "stuck_env = idle_env\<lparr>call_func := (\<lambda>_ _ _. None)\<rparr>"

lemma small_mask_set:
  obtains bm where "small_mask = Some bm" "mask_ok bm" "protocols bm = {79, 14, 96}"
    "callable bm = {''ndpi_search_in_non_tcp_udp'', ''ndpi_search_snmp'', ''ndpi_search_tftp''}"
proof -
  let ?ps = "[NDPI_PROTOCOL_IP_IPSEC, NDPI_PROTOCOL_SNMP, NDPI_PROTOCOL_TFTP]"
  have "\<exists>b. small_mask = Some b \<and> mask_ok b \<and> protocols b = set (map unat ?ps)
      \<and> (\<forall>n < NDPI_NUM_BITS. NDPI_ISSET b n = Some (n \<in> set (map unat ?ps)))"
    unfolding small_mask_def list.map by (rule mask.from_empty) (auto simp: NDPI_NUM_BITS_def)
  then obtain bm where bm: "small_mask = Some bm" "mask_ok bm" "protocols bm = unat ` set ?ps" by auto
  have "callable bm = {''ndpi_search_in_non_tcp_udp'', ''ndpi_search_snmp'', ''ndpi_search_tftp''}"
    unfolding callable_of [OF bm(3)] registrations_def registrations_1_def registrations_2_def registrations_3_def registrations_4_def
    by auto
  then show ?thesis using that bm by simp
qed

lemma in_table: "table_selection g = x \<Longrightarrow> x \<noteq> None \<Longrightarrow> map_of modelled_dissectors g \<noteq> None"
  by (auto simp: table_selection_lookup)

lemma small_modelled:
  "map_of modelled_dissectors ''ndpi_search_in_non_tcp_udp'' \<noteq> None"
  "map_of modelled_dissectors ''ndpi_search_snmp'' \<noteq> None"
  "map_of modelled_dissectors ''ndpi_search_tftp'' \<noteq> None"
  by (rule in_table, simp only: looking_up, simp)+

lemma dissected_example:
  obtains bm m where "small_mask = Some bm" "ndpi_set_protocol_detection_bitmask2 bm zero_module = Some m"
    "dissected stuck_env bm t (m, zero_flow)" "\<forall>g \<in> callable bm. map_of modelled_dissectors g \<noteq> None"
proof -
  obtain bm where bm: "small_mask = Some bm" "mask_ok bm" "protocols bm = {79, 14, 96}"
    "callable bm = {''ndpi_search_in_non_tcp_udp'', ''ndpi_search_snmp'', ''ndpi_search_tftp''}" by (rule small_mask_set)
  have ipsec: "unat NDPI_PROTOCOL_IP_IPSEC \<in> protocols bm" by (simp add: bm(3))
  from registration_ok [OF bm(2) this zero_module_ok]
  obtain m where m: "ndpi_set_protocol_detection_bitmask2 bm zero_module = Some m" by blast
  have "\<forall>g \<in> callable bm. map_of modelled_dissectors g \<noteq> None" 
    unfolding bm(4) ball_simps by (intro conjI TrueI small_modelled)
  then show ?thesis by (rule that [OF bm(1) m dissected.start [OF bm(2) ipsec unlisted_zero m]])
qed

text \<open>
  C8. Every packet gets its verdict. On the module that registration makes for any set of enabled
  protocols with IPsec, after any sequence of packets of arbitrary bytes of one transport on a flow that started
  cleared, the next packet is again set up, tracked and given to every dissector that fits it, and all of it
  returns: each dissector of the table reads only inside the bytes of the packet and stores only inside
  its fields, no null function is called and no array is left. Of a function that is not in the
  table, and that is registered for one of the enabled protocols, it is assumed that it returns and keeps the
  invariant \<open>dissecting_ok\<close>; nothing is assumed of the functions of protocols that are not enabled.
\<close>

theorem engine_dissects:
  assumes "dissected env bm t s" "transport_is t time mem s"
    "\<forall>g \<in> callable bm. map_of modelled_dissectors g = None \<longrightarrow> (\<forall>mem sel s. dissecting_ok bm sel mem s
       \<longrightarrow> (\<exists>s'. call_func env g mem s = Some s' \<and> dissecting_ok bm sel mem s'))"
  shows "\<exists>s'. dissect_packet env time mem s = Some s' \<and> dissected env bm t s'"
proof -
  have others: "\<forall>mem sel. others_ok env bm mem (dissecting_ok bm sel mem)" using assms(3) unfolding others_ok_def by blast
  show ?thesis
    using dissect_ready [OF others dissected_ready [OF assms(1) others], of time mem] dissected.packet [OF assms(1,2)] by blast
qed

text \<open>
  An instance: a UDP packet on a module for IPsec, SNMP and TFTP, whose functions are all in the
  table, in an environment in which no other function returns.
\<close>

theorem engine_dissects_witness:
  "\<exists>bm m s'. small_mask = Some bm \<and> ndpi_set_protocol_detection_bitmask2 bm zero_module = Some m
    \<and> dissect_packet stuck_env 5 (udp4_packet 0 1 64 0 0x0a000001 0x0a000002 161 161 0 [0x30, 0x03, 0x02, 0x01, 0x01]) (m, zero_flow) = Some s'
    \<and> dissected stuck_env bm False s'"
proof -
  let ?m = "udp4_packet 0 1 64 0 0x0a000001 0x0a000002 161 161 0 [0x30, 0x03, 0x02, 0x01, 0x01]"
  obtain bm m where m: "small_mask = Some bm" "ndpi_set_protocol_detection_bitmask2 bm zero_module = Some m"
    "dissected stuck_env bm False (m, zero_flow)" "\<forall>g \<in> callable bm. map_of modelled_dissectors g \<noteq> None" by (rule dissected_example)
  obtain p f where i: "ndpi_init_packet (ip_version_limit m) (packet m) zero_flow 5 ?m (length ?m) = Some (0, p, f)" "tcp p = None"
    using udp4_init [OF _ refl, of "[0x30, 0x03, 0x02, 0x01, 0x01]"] by fastforce
  have "transport_is False 5 ?m (m, zero_flow)"
    using i unfolding transport_is_def init_packet_of_def fst_conv snd_conv by (simp add: present_def)
  from engine_dissects [OF m(3) this] m(1,2,4) show ?thesis by blast
qed

lemma transport_direction: "set_transport m i l h q f = Some (rc, p', f') \<Longrightarrow> pkt_direction p' = pkt_direction q"
  by (auto simp: set_transport_def bind_eq_Some_conv Let_def split: if_splits)

lemma init_direction: "ndpi_init_packet lim p f t m n = Some (rc, p', f') \<Longrightarrow> pkt_direction p' = pkt_direction p"
  by (auto simp: ndpi_init_packet_def fresh_packet_def ndpi_reset_packet_line_info_def bind_eq_Some_conv Let_def
      split: if_splits option.splits dest!: transport_direction)

lemma fresh_init_ready:
  assumes "ndpi_init_packet lim p zero_flow t mem n = Some (rc, p', f)"
  shows "flow_ready zero_module f" "stages f postgres_stage \<le> 4"
proof -
  have zero: "stages zero_flow = (\<lambda>_. 0)" by (simp add: zero_flow_def)
  show "flow_ready zero_module f"
    using part_init [OF assms] part_ready(2) [of f zero_flow zero_module] reset_ready(2) [OF fresh_flow_fine fresh_flow_ready]
      fresh_flow_ready by auto
  show "stages f postgres_stage \<le> 4"
    using part_init [OF assms] part_ready(4) [of f zero_flow] reset_ready(3) [OF fresh_flow_fine fresh_flow_ready] zero by auto
qed

text \<open>
  C9. A dissector reports its own protocols. Take any of the 94 dissectors of the table, all bytes that
  the packet layer accepts, and a packet with a direction bit that fits the selection bitmask the
  dissector is registered with; the flow is in order and the stage of PostgreSQL is one that is stored.
  Then the dissector returns without a read outside the packet. Either the protocols of the flow are
  as they were, or the application is one of the dissector's own, with nothing or another one of its own as master,
  or the application is the known protocol that the address was guessed to belong to, with one of the
  dissector's own as master. The protocols excluded are those excluded before and some of its own. Of
  the rest of the flow only the confidence, the risks and the memory of dissectors can have changed.
\<close>

theorem own_protocols_only:
  assumes "(g, sel, ids, d) \<in> set modelled_dissectors"
    "ndpi_init_packet lim p0 f0 time mem (length mem) = Some (0, p, f)" "selected sel p" "pkt_direction p \<le> 1"
    "flow_ready m f" "mask_ok (detection_bitmask m)" "stages f postgres_stage \<le> 4"
  shows "\<exists>f'. d mem (m\<lparr>packet := p\<rparr>) f = Some f'
    \<and> (detected_protocol_stack f' = detected_protocol_stack f
       \<or> app_of f' \<in> ids \<and> master_of f' \<in> insert NDPI_PROTOCOL_UNKNOWN ids
       \<or> app_of f' = guessed_host_protocol_id f \<and> guessed_host_protocol_id f \<noteq> NDPI_PROTOCOL_UNKNOWN \<and> master_of f' \<in> ids)
    \<and> protocols (excluded_protocol_bitmask f) \<subseteq> protocols (excluded_protocol_bitmask f')
    \<and> protocols (excluded_protocol_bitmask f') \<subseteq> protocols (excluded_protocol_bitmask f) \<union> protocol_bit ` ids
    \<and> undissected f' = undissected f"
proof -
  let ?m = "m\<lparr>packet := p\<rparr>"
  have view: "view_ok (length mem) (packet ?m)" "selected sel (packet ?m)"
    using init_packet_safe [of "length mem" mem lim p0 f0 time] assms(2,3) by auto
  have ready: "flow_ready ?m f" "session_ok ?m f" using assms(4-7) by (simp_all add: flow_ready_def session_ok_def)
  note d = modelled_contract [OF assms(1)]
  obtain f' where f': "d mem ?m f = Some f'" "undissected f' = undissected f"
    using dissector.returns [OF d view ready(2,1)] by blast
  have "NDPI_PROTOCOL_UNKNOWN \<notin> ids" using modelled_protocols(1) [OF assms(1)] by blast
  from dissector.own_protocols [OF d view ready(2,1) f'(1)] this f' show ?thesis unfolding reported_def by blast
qed

theorem own_protocols_only_witness:
  "\<exists>p f f'. ndpi_init_packet 0 no_packet zero_flow 5 (udp4_packet 0 1 64 0 0x0a000001 0x0a000002 902 902 0 (0xA4 # replicate 65 7)) 94 = Some (0, p, f)
    \<and> ndpi_search_vmware (udp4_packet 0 1 64 0 0x0a000001 0x0a000002 902 902 0 (0xA4 # replicate 65 7)) (zero_module\<lparr>packet := p\<rparr>) f = Some f'
    \<and> undissected f' = undissected f"
proof -
  let ?m = "udp4_packet 0 1 64 0 0x0a000001 0x0a000002 902 902 0 (0xA4 # replicate 65 7)"
  have len: "length ?m = 94" by (simp add: udp4_packet_def)
  obtain p f where i: "ndpi_init_packet 0 no_packet zero_flow 5 ?m (length ?m) = Some (0, p, f)"
    "udp p = Some 20" "tcp p = None" "iph p = Some 0" "payload p = Some 28" "peek_run ?m 28 (payload_packet_len p) = Some (0xA4 # replicate 65 7)"
    using udp4_init [where data = "0xA4 # replicate 65 7" and m = ?m and lim = 0 and p = no_packet and f = zero_flow and t = 5, OF _ refl]
    by auto
  have "length (0xA4 # replicate 65 7 :: bytes) = payload_packet_len p"
    using i(6) unfolding peek_run_def by (auto split: if_splits dest!: arg_cong [where f = length])
  then have n: "payload_packet_len p = 66" by simp
  have "selected NDPI_SELECTION_BITMASK_PROTOCOL_V4_V6_UDP_WITH_PAYLOAD p" using i n by (simp add: selected_def selection_of_def)
  moreover have "pkt_direction p \<le> 1" using init_direction [OF i(1)] by (simp add: no_packet_def)
  moreover have "mask_ok (detection_bitmask zero_module)" using zero_protocols by (simp add: zero_module_def)
  moreover have "(''ndpi_search_vmware'', NDPI_SELECTION_BITMASK_PROTOCOL_V4_V6_UDP_WITH_PAYLOAD, {NDPI_PROTOCOL_VMWARE}, ndpi_search_vmware)
    \<in> set modelled_dissectors" unfolding modelled_dissectors_def by (rule list.set_intros(1))
  ultimately show ?thesis using own_protocols_only [OF _ i(1)] fresh_init_ready [OF i(1)] i(1) unfolding len by blast
qed

end
