(* ===== verification/App_Dissection.thy ===== *)
theory App_Dissection
  imports Lanshield_Bridge Dissection
begin

text \<open>
  Which dissectors the application runs: the mask of \<^verbatim>\<open>lanshield-dpi.c\<close> taken through registration gives the
  functions that stand in the buffers of its module, and so the only ones the engine can call.
\<close>

section \<open>The functions of the application\<close>

text \<open>Those of the table, and those that are not modelled.\<close>

definition app_modelled :: "string list" where
  "app_modelled = [
    ''ndpi_search_rdp'', ''ndpi_search_nats_tcp'', ''ndpi_search_socks'', ''ndpi_search_in_non_tcp_udp'',
    ''ndpi_search_vnc_tcp'', ''ndpi_search_smb_tcp'', ''ndpi_search_nfs'', ''ndpi_search_ssdp'',
    ''ndpi_search_postgres_tcp'', ''ndpi_search_mysql_tcp'', ''ndpi_search_snmp'', ''ndpi_search_syslog'',
    ''ndpi_search_tftp'', ''ndpi_search_pptp'', ''ndpi_search_stealthnet'', ''ndpi_search_dhcpv6_udp'',
    ''ndpi_search_radius'', ''ndpi_search_sflow'', ''ndpi_search_ciscovpn'', ''ndpi_search_rtcp'',
    ''ndpi_search_rtmp'', ''ndpi_search_redis'', ''ndpi_search_zmq'', ''ndpi_search_dnscrypt'', ''ndpi_search_z3950'']"

definition app_others :: "string list" where
  "app_others = [
    ''ndpi_search_http_tcp'', ''ndpi_search_tls_wrapper'', ''ndpi_search_rtp'', ''ndpi_search_rtsp_tcp_udp'',
    ''ndpi_search_stun'', ''ndpi_search_sip'', ''ndpi_search_irc_tcp'', ''ndpi_search_mail_pop_tcp'',
    ''ndpi_search_mail_imap_tcp'', ''ndpi_search_mail_smtp_tcp'', ''ndpi_search_dns'', ''ndpi_search_ssh_tcp'',
    ''ndpi_search_teamview'', ''ndpi_search_dhcp_udp'', ''ndpi_search_telnet_tcp'', ''ndpi_search_ntp_udp'',
    ''ndpi_search_kerberos'', ''ndpi_search_netbios'', ''ndpi_search_ipp'', ''ndpi_search_netflow'',
    ''ndpi_search_openvpn'', ''ndpi_search_ftp_control'', ''ndpi_search_ftp_data'', ''ndpi_search_quic'',
    ''ndpi_search_mqtt'', ''ndpi_search_rx'', ''ndpi_search_git'', ''ndpi_search_tinc'', ''ndpi_search_bittorrent'',
    ''ndpi_search_wireguard'', ''ndpi_search_websocket'']"

lemma app_calls_1:
  "map fst (filter (\<lambda>r. snd (snd r) \<in> set enabled_protocols) registrations_1) = [
    ''ndpi_search_http_tcp'', ''ndpi_search_tls_wrapper'', ''ndpi_search_tls_wrapper'', ''ndpi_search_rtp'',
    ''ndpi_search_rtsp_tcp_udp'', ''ndpi_search_rdp'', ''ndpi_search_stun'', ''ndpi_search_sip'',
    ''ndpi_search_nats_tcp'', ''ndpi_search_socks'', ''ndpi_search_irc_tcp'', ''ndpi_search_mail_pop_tcp'',
    ''ndpi_search_mail_imap_tcp'', ''ndpi_search_mail_smtp_tcp'', ''ndpi_search_dns'',
    ''ndpi_search_in_non_tcp_udp'', ''ndpi_search_in_non_tcp_udp'', ''ndpi_search_in_non_tcp_udp'',
    ''ndpi_search_in_non_tcp_udp'', ''ndpi_search_in_non_tcp_udp'', ''ndpi_search_in_non_tcp_udp'',
    ''ndpi_search_in_non_tcp_udp'', ''ndpi_search_in_non_tcp_udp'', ''ndpi_search_ssh_tcp'', ''ndpi_search_vnc_tcp'',
    ''ndpi_search_teamview'', ''ndpi_search_dhcp_udp'', ''ndpi_search_smb_tcp'', ''ndpi_search_telnet_tcp'',
    ''ndpi_search_ntp_udp'', ''ndpi_search_nfs'']"
  by (simp add: registrations_1_def enabled_protocols_def)

lemma app_calls_2:
  "map fst (filter (\<lambda>r. snd (snd r) \<in> set enabled_protocols) registrations_2) = [
    ''ndpi_search_ssdp'', ''ndpi_search_postgres_tcp'', ''ndpi_search_mysql_tcp'', ''ndpi_search_snmp'',
    ''ndpi_search_kerberos'', ''ndpi_search_syslog'', ''ndpi_search_netbios'', ''ndpi_search_ipp'',
    ''ndpi_search_tftp'', ''ndpi_search_pptp'', ''ndpi_search_stealthnet'', ''ndpi_search_dhcpv6_udp'',
    ''ndpi_search_radius'', ''ndpi_search_netflow'', ''ndpi_search_sflow'', ''ndpi_search_openvpn'']"
  by (simp add: registrations_2_def enabled_protocols_def)

lemma app_calls_3:
  "map fst (filter (\<lambda>r. snd (snd r) \<in> set enabled_protocols) registrations_3) = [
    ''ndpi_search_ciscovpn'', ''ndpi_search_rtcp'', ''ndpi_search_rtmp'', ''ndpi_search_ftp_control'',
    ''ndpi_search_ftp_data'', ''ndpi_search_redis'', ''ndpi_search_zmq'', ''ndpi_search_quic'', ''ndpi_search_mqtt'',
    ''ndpi_search_rx'', ''ndpi_search_git'', ''ndpi_search_tinc'', ''ndpi_search_bittorrent'']"
  by (simp add: registrations_3_def enabled_protocols_def)

lemma app_calls_4:
  "map fst (filter (\<lambda>r. snd (snd r) \<in> set enabled_protocols) registrations_4) = [
    ''ndpi_search_wireguard'', ''ndpi_search_websocket'', ''ndpi_search_dnscrypt'', ''ndpi_search_z3950'']"
  by (simp add: registrations_4_def enabled_protocols_def)

lemma app_callable:
  assumes "protocols bm = unat ` set enabled_protocols"
  shows "callable bm = set app_modelled \<union> set app_others"
proof -
  have "callable bm = set (map fst (filter (\<lambda>r. snd (snd r) \<in> set enabled_protocols) registrations))"
    unfolding callable_of [OF assms] by simp
  also have "\<dots> = set app_modelled \<union> set app_others"
    unfolding registrations_def filter_append map_append set_append app_calls_1 app_calls_2 app_calls_3 app_calls_4
      app_modelled_def app_others_def by auto
  finally show ?thesis .
qed

lemma modelled_in_table: "list_all (\<lambda>g. map_of modelled_dissectors g \<noteq> None) app_modelled"
  unfolding app_modelled_def list.pred_inject by (intro conjI list.pred_inject(1); rule in_table, simp only: looking_up, simp)

lemma table_miss: "table_selection g = None \<Longrightarrow> map_of modelled_dissectors g = None"
  by (simp add: table_selection_lookup)

lemma others_not_in_table: "list_all (\<lambda>g. map_of modelled_dissectors g = None) app_others"
  unfolding app_others_def list.pred_inject by (intro conjI list.pred_inject(1); rule table_miss, simp only: looking_up)

lemma faulty_not_run:
  "set (app_modelled @ app_others) \<inter> {''ndpi_search_florensia'', ''ndpi_search_iec60870_tcp'', ''ndpi_search_warcraft3''} = {}"
  by (simp add: app_modelled_def app_others_def)

section \<open>Through the initialisation\<close>

lemma finalised_calls:
  assumes "ndpi_finalize_initialization env m = Some m'"
  shows "callback_buffer m' = callback_buffer m" "callback_buffers m' = callback_buffers m"
proof -
  obtain m1 where m1: "add_exceptions env risk_exception_domains m = Some m1" "only_automata m m1"
    using add_exceptions_returns by blast
  then have "callback_buffer m1 = callback_buffer m" "callback_buffers m1 = callback_buffers m"
    unfolding only_automata_def by (cases m, cases m1, simp)+
  then show "callback_buffer m' = callback_buffer m" "callback_buffers m' = callback_buffers m"
    using assms m1(1) by (auto simp: ndpi_finalize_initialization_def ndpi_add_domain_risk_exceptions_def split: if_splits)
qed

lemma func_of_call: "cf_func e = map_option fst (call_of e)"
  by (cases "cf_func e") (simp_all add: call_of_def)

lemma called_functions:
  assumes "map call_of es = map (\<lambda>r. if enabled_call bm r then Some r else None) registrations @ replicate k None" "0 < k"
  shows "cf_func ` set es = insert None (Some ` callable bm)"
proof -
  have "cf_func ` set es = map_option fst ` set (map call_of es)"
    unfolding set_map image_image func_of_call [abs_def] ..
  also have "\<dots> = insert None (Some ` callable bm)"
    unfolding assms(1) callable_def using assms(2) by (force simp: image_iff)
  finally show ?thesis .
qed

section \<open>Property\<close>

text \<open>
  C18. What the application runs. When no module is kept and allocations succeed, the functions in the
  callback buffer of the module that initialisation creates are exactly 25 that are modelled, each
  in the table of dissectors that satisfy their contract, and 31 that are not; the four buffers
  the engine calls from hold no others. The dissectors for Florensia, IEC 60870 and Warcraft 3 are not among them.
\<close>

theorem app_functions:
  assumes "the_module b = None" "env_ok (libc (engine env))" "alloc_ok (libc (engine env)) 8192"
    and "memory_ok (tables_libc (tables env))" "module_memory (tables env)"
  shows "\<exists>b' m'. init_dpi env b = Some (0, b') \<and> the_module b' = Some m'
    \<and> cf_func ` set (callback_buffer m') = insert None (Some ` (set app_modelled \<union> set app_others))
    \<and> (\<Union>k. cf_func ` set (callback_buffers m' k)) \<subseteq> insert None (Some ` (set app_modelled \<union> set app_others))
    \<and> list_all (\<lambda>g. map_of modelled_dissectors g \<noteq> None) app_modelled
    \<and> list_all (\<lambda>g. map_of modelled_dissectors g = None) app_others
    \<and> set (app_modelled @ app_others) \<inter> {''ndpi_search_florensia'', ''ndpi_search_iec60870_tcp'', ''ndpi_search_warcraft3''} = {}"
proof -
  obtain bm where bm: "init_ndpi_protocols_bitmask = Some bm" "mask_ok bm" "protocols bm = unat ` set enabled_protocols"
    by (rule enabled_mask)
  obtain m where m: "ndpi_init_detection_module (tables env) = Some (Some m)" "registered_ok NDPI_ZERO m"
    by (rule created_module [OF assms(4,5)])
  obtain b' m' where b': "init_dpi env b = Some (0, b')" "the_module b' = Some m'"
    using initialised_bridge [OF assms] by blast
  then obtain m1 where m1: "ndpi_set_protocol_detection_bitmask2 bm m = Some m1" "ndpi_finalize_initialization (tables env) m1 = Some m'"
    by (auto simp: init_dpi_def assms(1) bm(1) m(1) Let_def bind_eq_Some_conv split: if_splits)
  note calls = registered_calls [OF bm(2) m(2) m1(1)] and same = finalised_calls [OF m1(2)]
  have "cf_func ` set (callback_buffer m') = insert None (Some ` callable bm)"
    unfolding same by (rule called_functions [OF calls(1)]) (simp add: size_defs)
  moreover have "cf_func e \<in> insert None (Some ` callable bm)" if "e \<in> set (callback_buffers m' k)" for e k
  proof (cases "call_of e")
    case (Some r)
    then have "r \<in> set registrations \<and> enabled_call bm r" using calls(3) that unfolding same by blast
    then show ?thesis using Some by (auto simp: func_of_call callable_def)
  qed (simp add: func_of_call)
  then have "(\<Union>k. cf_func ` set (callback_buffers m' k)) \<subseteq> insert None (Some ` callable bm)" by (intro UN_least image_subsetI)
  ultimately show ?thesis unfolding app_callable [OF bm(3)]
    by (intro exI [of _ b'] exI [of _ m'] conjI b' modelled_in_table others_not_in_table faulty_not_run)
qed

theorem app_functions_witness:
  "\<exists>b' m'. init_dpi idle_bridge loaded = Some (0, b') \<and> the_module b' = Some m'
    \<and> cf_func ` set (callback_buffer m') = insert None (Some ` (set app_modelled \<union> set app_others))
    \<and> (\<Union>k. cf_func ` set (callback_buffers m' k)) \<subseteq> insert None (Some ` (set app_modelled \<union> set app_others))
    \<and> list_all (\<lambda>g. map_of modelled_dissectors g \<noteq> None) app_modelled
    \<and> list_all (\<lambda>g. map_of modelled_dissectors g = None) app_others
    \<and> set (app_modelled @ app_others) \<inter> {''ndpi_search_florensia'', ''ndpi_search_iec60870_tcp'', ''ndpi_search_warcraft3''} = {}"
  by (rule app_functions)
    (simp_all add: idle_bridge_def loaded_def roomy_env_ok roomy_alloc idle_tables_def memory_ok_def)

end
